(* ===== verification/Indexer_Prelude.thy ===== *)
theory Indexer_Prelude
  imports Main "HOL-Library.Word" "HOL-Library.List_Lexorder"
begin

text \<open>
  Shared ground of the development: the machine types of the Go sources, Go's error values
  (\<open>errors.New\<close>, \<open>fmt.Errorf\<close> with \<open>%w\<close>, \<open>errors.Join\<close>, \<open>errors.Is\<close>), panics, the few
  standard-library functions several components call, and the generic lemmas on lists, words
  and the byte order that the component theories use.
\<close>

section \<open>Machine types\<close>

text \<open>
  Go's \<open>uint64\<close> and \<open>int64\<close> (and \<open>int\<close>, which is 64 bits wide on the supported targets) are
  the same 64 bits: a conversion between them keeps the bits. A signed comparison reads the
  word through \<^const>\<open>sint\<close>, an unsigned one compares the words themselves.
\<close>

type_synonym byte = "8 word"
type_synonym bytes = "8 word list"
type_synonym u32 = "32 word"
type_synonym u64 = "64 word"
type_synonym i64 = "64 word"

abbreviation maxInt64 :: u64 where
  "maxInt64 \<equiv> 0x7FFFFFFFFFFFFFFF"

abbreviation maxUint32 :: u32 where
  "maxUint32 \<equiv> 0xFFFFFFFF"

named_theorems go_defs \<open>definitions of the Go-level helpers\<close>
named_theorems byte_order \<open>facts on the lexicographic order of byte strings\<close>

lemma unat_bounds:
  "unat (x :: byte) < 256" "unat (y :: u32) < 4294967296" "unat (z :: u64) < 18446744073709551616"
proof -
  have "unat w < 2 ^ LENGTH('a)" for w :: "'a::len word" by (rule unsigned_less)
  from this [of x] this [of y] this [of z]
  show "unat x < 256" "unat y < 4294967296" "unat z < 18446744073709551616" by simp_all
qed

text \<open>Positional digits: a number below the base is what a multiple of the base leaves over.\<close>

lemma digit_cmp:
  fixes a b k x y :: nat
  assumes "x < k" "y < k"
  shows "a * k + x = b * k + y \<longleftrightarrow> a = b \<and> x = y"
    and "a * k + x < b * k + y \<longleftrightarrow> a < b \<or> a = b \<and> x < y"
proof -
  have q: "(a * k + x) div k = a" "(b * k + y) div k = b" using assms by simp_all
  then show "a * k + x = b * k + y \<longleftrightarrow> a = b \<and> x = y" by (metis add_left_cancel)
  have "a < b \<Longrightarrow> a * k + x < b * k + y"
    using assms q by (metis div_le_mono leD not_le_imp_less)
  moreover have "b < a \<Longrightarrow> \<not> a * k + x < b * k + y"
    using assms q by (metis div_le_mono leD less_imp_le)
  ultimately show "a * k + x < b * k + y \<longleftrightarrow> a < b \<or> a = b \<and> x < y"
    by (cases a b rule: linorder_cases) auto
qed

section \<open>Errors and panics\<close>

text \<open>
  An error value. \<open>ErrNotFound\<close> is \<open>storage/errors.ErrNotFound\<close>, \<open>PebbleErrNotFound\<close> is
  \<open>pebble.ErrNotFound\<close>, \<open>ErrMsg\<close> a plain error text, \<open>ErrWrap\<close> the result of \<open>fmt.Errorf\<close>
  with one or more \<open>%w\<close> verbs (the format string and the wrapped errors) and \<open>ErrJoin\<close> the
  result of \<open>errors.Join\<close>.
\<close>

datatype go_error =
    ErrNotFound
  | PebbleErrNotFound
  | ErrMsg string
  | ErrWrap string "go_error list"
  | ErrJoin "go_error list"

text \<open>\<open>errors.Is\<close>: the error itself, or anything it wraps, is the target.\<close>

fun errIs :: "go_error \<Rightarrow> go_error \<Rightarrow> bool" where
  "errIs (ErrWrap m es) t = (ErrWrap m es = t \<or> list_ex (\<lambda>e. errIs e t) es)"
| "errIs (ErrJoin es) t = (ErrJoin es = t \<or> list_ex (\<lambda>e. errIs e t) es)"
| "errIs e t = (e = t)"

text \<open>\<open>errors.Join\<close>: nil errors are dropped; with none left the result is nil.\<close>

definition errorsJoin :: "go_error option list \<Rightarrow> go_error option" where
  "errorsJoin es = (case List.map_filter (\<lambda>e. e) es of [] \<Rightarrow> None | xs \<Rightarrow> Some (ErrJoin xs))"

lemma errorsJoin_None_iff: "errorsJoin es = None \<longleftrightarrow> (\<forall>e \<in> set es. e = None)"
  by (induction es) (auto simp: errorsJoin_def List.map_filter_def split: list.splits)

text \<open>A call that may panic (nil dereference, index out of range, closing a closed channel).\<close>

datatype 'a outcome = Panic string | Ret 'a

fun bindO :: "'a outcome \<Rightarrow> ('a \<Rightarrow> 'b outcome) \<Rightarrow> 'b outcome" where
  "bindO (Panic m) f = Panic m"
| "bindO (Ret x) f = f x"

lemma bindO_cong [fundef_cong]:
  "m = m' \<Longrightarrow> (\<And>x. m' = Ret x \<Longrightarrow> f x = g x) \<Longrightarrow> bindO m f = bindO m' g"
  by (cases m') auto

lemma bindO_Ret_iff: "bindO m f = Ret y \<longleftrightarrow> (\<exists>x. m = Ret x \<and> f x = Ret y)"
  by (cases m) auto

lemma not_islD: "\<not> isl r \<Longrightarrow> \<exists>x. r = Inr x"
  by (cases r) auto

text \<open>\<open>deref\<close> of the sources: the zero value for a nil pointer.\<close>

definition deref :: "'a \<Rightarrow> 'a option \<Rightarrow> 'a" where
  "deref zero v = (case v of None \<Rightarrow> zero | Some x \<Rightarrow> x)"

lemma deref_simps [simp]: "deref z None = z" "deref z (Some x) = x"
  by (simp_all add: deref_def)

section \<open>Strings and bytes\<close>

text \<open>A Go string is its bytes; both conversions keep them.\<close>

definition str_bytes :: "string \<Rightarrow> bytes" where
  "str_bytes s = map of_char s"

definition bytes_str :: "bytes \<Rightarrow> string" where
  "bytes_str b = map (\<lambda>x. char_of (unat x)) b"

lemma unat_of_char_byte [simp]: "unat (of_char c :: byte) = of_char c"
  by (cases c) (simp add: of_char_def take_bit_eq_mod)

lemma bytes_str_str_bytes [simp]: "bytes_str (str_bytes s) = s"
  by (simp add: bytes_str_def str_bytes_def comp_def)

lemma str_bytes_bytes_str [simp]: "str_bytes (bytes_str b) = b"
proof -
  have "of_char (char_of (unat x)) = x" for x :: byte
    using unat_bounds(1) [of x] by (simp add: word_unat_eq_iff)
  then show ?thesis by (simp add: bytes_str_def str_bytes_def comp_def)
qed

lemma str_bytes_inject [simp]: "str_bytes s = str_bytes t \<longleftrightarrow> s = t"
  by (metis bytes_str_str_bytes)

section \<open>The order of byte strings\<close>

lemma append_less_same_prefix [byte_order, simp]: "(p @ x < p @ y) = ((x :: 'a::linorder list) < y)"
  by (induction p) auto

lemma append_le_same_prefix [byte_order, simp]: "(p @ x \<le> p @ y) = ((x :: 'a::linorder list) \<le> y)"
  by (induction p) auto

text \<open>Strings of one length are compared by their first differing position, whatever follows.\<close>

lemma less_append_same_length [byte_order]:
  fixes x y :: "'a::linorder list"
  assumes "length x = length y"
  shows "x @ u < y @ v \<longleftrightarrow> x < y \<or> x = y \<and> u < v"
  using assms by (induction x y rule: list_induct2) auto

end
