(* ===== verification/Chain_Types.thy ===== *)
theory Chain_Types
  imports Indexer_Prelude
begin

text \<open>
  The chain data the indexer handles, with the fields its sources read, and the operations of
  third-party packages on that data (Amino encoding, the hashes of \<open>tm2\<close>) as a record of
  functions, which the definitions that use them take as an argument. A time is the number of
  nanoseconds since Go's zero time, so \<open>time.IsZero\<close> is the comparison with 0. Base64 is Go's
  \<open>encoding/base64.StdEncoding\<close>.
\<close>

section \<open>Blocks, transactions and their results\<close>

type_synonym gotime = int

record header =
  hVersion :: string
  hChainID :: string
  hHeight :: i64
  hTime :: gotime
  hNumTxs :: i64
  hTotalTxs :: i64
  hAppVersion :: string
  hLastBlockID :: bytes
  hLastCommitHash :: bytes
  hValidatorsHash :: bytes
  hNextValidatorsHash :: bytes
  hConsensusHash :: bytes
  hAppHash :: bytes
  hLastResultsHash :: bytes
  hProposerAddress :: string

record block =
  bHeader :: header
  bTxs :: "bytes list"

abbreviation bHeight :: "block \<Rightarrow> i64" where "bHeight b \<equiv> hHeight (bHeader b)"
abbreviation bNumTxs :: "block \<Rightarrow> i64" where "bNumTxs b \<equiv> hNumTxs (bHeader b)"

text \<open>
  An ABCI event carries a Go type and data the indexer never reads directly: it marshals it to
  JSON. The constructor is the dynamic type the sources switch on.
\<close>

datatype abci_event =
    ChainEvent string
  | ChainStorageDepositEvent string
  | ChainStorageUnlockEvent string
  | OtherEvent string

record deliver_tx =
  rError :: "string option"
  rData :: bytes
  rEvents :: "abci_event list"
  rLog :: string
  rInfo :: string
  rGasWanted :: i64
  rGasUsed :: i64

record tx_result =
  trHeight :: i64
  trIndex :: u32
  trTx :: bytes
  trResponse :: deliver_tx

record coin =
  cDenom :: string
  cAmount :: i64

record fee =
  fGasWanted :: i64
  fGasFee :: coin

text \<open>A message of a transaction: its route, its type and the JSON it marshals to.\<close>

record std_msg =
  mRoute :: string
  mType :: string
  mPayload :: string

record std_tx =
  sMsgs :: "std_msg list"
  sFee :: fee
  sMemo :: string

text \<open>The event of a new block (\<open>types/events.go\<close>): the block and the pointers to its results.\<close>

record newBlock =
  nbBlock :: block
  nbResults :: "tx_result option list"

text \<open>Zero values, and small blocks and results for the examples.\<close>

definition zero_header :: header where
  "zero_header = \<lparr>hVersion = '''', hChainID = '''', hHeight = 0, hTime = 0, hNumTxs = 0, hTotalTxs = 0,
     hAppVersion = '''', hLastBlockID = [], hLastCommitHash = [], hValidatorsHash = [],
     hNextValidatorsHash = [], hConsensusHash = [], hAppHash = [], hLastResultsHash = [],
     hProposerAddress = ''''\<rparr>"

definition zero_response :: deliver_tx where
  "zero_response = \<lparr>rError = None, rData = [], rEvents = [], rLog = '''', rInfo = '''',
     rGasWanted = 0, rGasUsed = 0\<rparr>"

definition mk_block :: "u64 \<Rightarrow> gotime \<Rightarrow> bytes list \<Rightarrow> block" where
  "mk_block h tm txs = \<lparr>bHeader = zero_header\<lparr>hHeight := h, hTime := tm, hNumTxs := of_nat (length txs)\<rparr>,
     bTxs = txs\<rparr>"

definition mk_result :: "u64 \<Rightarrow> u32 \<Rightarrow> bytes \<Rightarrow> tx_result" where
  "mk_result h i tx = \<lparr>trHeight = h, trIndex = i, trTx = tx, trResponse = zero_response\<rparr>"

section \<open>Third-party codecs\<close>

text \<open>
  \<open>amino.Marshal\<close> and \<open>amino.Unmarshal\<close> at the types the indexer uses, \<open>Tx.Hash\<close> and
  \<open>Block.Hash\<close>. \<open>marshalTxResult\<close> takes the pointer the source passes, which may be nil.
\<close>

record codec =
  marshalBlock :: "block \<Rightarrow> go_error + bytes"
  unmarshalBlock :: "bytes \<Rightarrow> go_error + block"
  marshalTxResult :: "tx_result option \<Rightarrow> go_error + bytes"
  unmarshalTxResult :: "bytes \<Rightarrow> go_error + tx_result"
  marshalHeader :: "header \<Rightarrow> go_error + bytes"
  marshalStdTx :: "std_tx \<Rightarrow> go_error + bytes"
  unmarshalStdTx :: "bytes \<Rightarrow> go_error + std_tx"
  txHash :: "bytes \<Rightarrow> bytes"
  blockHash :: "block \<Rightarrow> bytes"

text \<open>What the store relies on: Amino decodes what it encoded.\<close>

locale amino_codec =
  fixes C :: codec
  assumes unmarshal_marshalBlock: "marshalBlock C b = Inr e \<Longrightarrow> unmarshalBlock C e = Inr b"
    and unmarshal_marshalTxResult:
      "marshalTxResult C (Some t) = Inr e \<Longrightarrow> unmarshalTxResult C e = Inr t"

section \<open>Base64\<close>

definition b64_alphabet :: string where
  "b64_alphabet = ''ABCDEFGHIJKLMNOPQRSTUVWXYZabcdefghijklmnopqrstuvwxyz0123456789+/''"

definition b64_digit :: "nat \<Rightarrow> char" where
  "b64_digit n = b64_alphabet ! n"

fun base64 :: "bytes \<Rightarrow> string" where
  "base64 [] = ''''"
| "base64 [a] =
     [b64_digit (unat a div 4), b64_digit (unat a mod 4 * 16), CHR ''='', CHR ''='']"
| "base64 [a, b] =
     [b64_digit (unat a div 4), b64_digit (unat a mod 4 * 16 + unat b div 16),
      b64_digit (unat b mod 16 * 4), CHR ''='']"
| "base64 (a # b # c # r) =
     b64_digit (unat a div 4) # b64_digit (unat a mod 4 * 16 + unat b div 16) #
     b64_digit (unat b mod 16 * 4 + unat c div 64) # b64_digit (unat c mod 64) # base64 r"

lemma b64_alphabet_facts:
  "length b64_alphabet = 64" "distinct b64_alphabet" "CHR ''='' \<notin> set b64_alphabet"
  by (simp_all add: b64_alphabet_def)

lemma b64_digit_inject: "m < 64 \<Longrightarrow> n < 64 \<Longrightarrow> b64_digit m = b64_digit n \<longleftrightarrow> m = n"
  by (simp add: b64_digit_def nth_eq_iff_index_eq b64_alphabet_facts)

lemma b64_digit_not_pad [simp]:
  assumes "n < 64"
  shows "b64_digit n \<noteq> CHR ''=''" "CHR ''='' \<noteq> b64_digit n"
  using assms b64_alphabet_facts nth_mem [of n b64_alphabet] unfolding b64_digit_def by metis+

lemma b64_bounds [simp]:
  "unat (a :: byte) div 4 < 64" "unat a mod 4 * 16 < 64" "unat a mod 16 * 4 < 64"
  "unat a mod 4 * 16 + unat (b :: byte) div 16 < 64"
  "unat a mod 16 * 4 + unat b div 64 < 64"
  using unat_bounds(1) [of a] unat_bounds(1) [of b] by linarith+

text \<open>A digit made of two parts determines both.\<close>

lemma b64_split:
  "unat a mod 4 * 16 + unat (b :: byte) div 16 = unat x mod 4 * 16 + unat (y :: byte) div 16
   \<longleftrightarrow> unat (a :: byte) mod 4 = unat (x :: byte) mod 4 \<and> unat b div 16 = unat y div 16"
  "unat b mod 16 * 4 + unat (c :: byte) div 64 = unat y mod 16 * 4 + unat (z :: byte) div 64
   \<longleftrightarrow> unat b mod 16 = unat y mod 16 \<and> unat c div 64 = unat z div 64"
  by (rule digit_cmp(1); simp add: less_mult_imp_div_less unat_bounds)+

lemma unat_div_mod_eq:
  "unat (x :: byte) div n = unat y div n \<Longrightarrow> unat x mod n = unat y mod n \<Longrightarrow> x = y"
  by (metis div_mult_mod_eq word_unat_eq_iff)

text \<open>The encoding loses nothing, so distinct hashes have distinct index keys.\<close>

lemma base64_inject: "base64 xs = base64 ys \<longleftrightarrow> xs = ys"
proof (induction xs arbitrary: ys rule: base64.induct)
  case 1
  show ?case by (cases ys rule: base64.cases) simp_all
next
  case (2 a)
  show ?case
    by (cases ys rule: base64.cases) (auto simp: b64_digit_inject dest: unat_div_mod_eq)
next
  case (3 a b)
  show ?case
    by (cases ys rule: base64.cases)
       (auto simp: b64_digit_inject b64_split dest: unat_div_mod_eq)
next
  case (4 a b c r)
  show ?case
    by (cases ys rule: base64.cases)
       (auto simp: "4" b64_digit_inject b64_split dest: unat_div_mod_eq)
qed

end
