(* ===== verification/Fetch_Slots.thy ===== *)
theory Fetch_Slots
  imports Chain_Types "HOL-Library.Multiset"
begin

text \<open>
  The slots of \<open>fetch/slots.go\<close>: the queue of block ranges the fetcher has handed out to workers,
  ordered by their first block, and the search for the ranges that are still missing. The queue's
  own operations come from the package \<open>insertion-queue\<close> and are an argument; the locale
  \<open>insertion_queue\<close> states what the slots rely on.
\<close>

section \<open>Data\<close>

text \<open>
  \<open>ckResults\<close> holds the results of each block; an entry is a pointer and may be nil. Blocks are
  pointers too, which a successful answer of the node never leaves nil.
\<close>

record chunk =
  ckBlocks :: "block list"
  ckResults :: "tx_result option list list"

record chunkRange =
  crFrom :: u64
  crTo :: u64

record slot =
  slChunk :: "chunk option"
  slRange :: chunkRange

definition chunkRange_less :: "chunkRange \<Rightarrow> chunkRange \<Rightarrow> bool" where
  "chunkRange_less c other \<longleftrightarrow> crFrom c < crFrom other"

definition slot_Less :: "slot \<Rightarrow> slot \<Rightarrow> bool" where
  "slot_Less s other \<longleftrightarrow> chunkRange_less (slRange s) (slRange other)"

text \<open>\<open>queue.Queue\<close> is a slice of items, which the code ranges over and assigns to.\<close>

record slot_queue =
  qPush :: "slot list \<Rightarrow> slot \<Rightarrow> slot list"
  qPopFront :: "slot list \<Rightarrow> slot list"
  qLen :: "slot list \<Rightarrow> int"
  qIndex :: "slot list \<Rightarrow> int \<Rightarrow> slot"

record slots =
  sQueue :: "slot list"
  sMaxSlots :: int

section \<open>Operations\<close>

definition slots_getSlot :: "slot_queue \<Rightarrow> slots \<Rightarrow> int \<Rightarrow> slot option" where
  "slots_getSlot Q s index =
     (if qLen Q (sQueue s) - 1 < index then None else Some (qIndex Q (sQueue s) index))"

text \<open>
  With no slot at the index, \<open>item\<close> is nil and the assignment to \<open>item.chunk\<close> panics.
\<close>

definition slots_setChunk :: "slot_queue \<Rightarrow> slots \<Rightarrow> int \<Rightarrow> chunk option \<Rightarrow> slots outcome" where
  "slots_setChunk Q s index chunk =
     (case slots_getSlot Q s index of
        None \<Rightarrow> Panic ''nil pointer dereference''
      | Some item \<Rightarrow>
          Ret (s\<lparr>sQueue := (sQueue s)[nat index := item\<lparr>slChunk := chunk\<rparr>]\<rparr>))"

text \<open>
  The gaps between the slots of a queue, from the block after \<open>prevTo\<close> on; the loop also returns
  the last \<open>prevTo\<close>.
\<close>

fun findGaps_scan :: "u64 \<Rightarrow> slot list \<Rightarrow> chunkRange list \<times> u64" where
  "findGaps_scan prevTo [] = ([], prevTo)"
| "findGaps_scan prevTo (part # parts) =
     (let (gaps, last) = findGaps_scan (crTo (slRange part)) parts in
      if crFrom (slRange part) > prevTo + 1
      then (\<lparr>crFrom = prevTo + 1, crTo = crFrom (slRange part) - 1\<rparr> # gaps, last)
      else (gaps, last))"

text \<open>
  The loop that cuts a gap into pieces. The counter is a \<open>uint64\<close>: with a piece size of 0, or when
  the addition wraps, the loop may never end, which is the value \<open>None\<close>.
\<close>

partial_function (option) findGaps_divide :: "u64 \<Rightarrow> u64 \<Rightarrow> u64 \<Rightarrow> chunkRange list option" where
  "findGaps_divide maxSize to i =
     (if i \<le> to then
        let newTo = i + maxSize - 1;
            newGap = \<lparr>crFrom = i, crTo = (if newTo > to then to else newTo)\<rparr>
        in Option.bind (findGaps_divide maxSize to (i + maxSize)) (\<lambda>r. Some (newGap # r))
      else Some [])"

fun findGaps_divideAll :: "u64 \<Rightarrow> chunkRange list \<Rightarrow> chunkRange list option" where
  "findGaps_divideAll maxSize [] = Some []"
| "findGaps_divideAll maxSize (gap # gaps) =
     Option.bind
       (if crTo gap - crFrom gap + 1 \<le> maxSize then Some [gap]
        else findGaps_divide maxSize (crTo gap) (crFrom gap))
       (\<lambda>d. Option.bind (findGaps_divideAll maxSize gaps) (\<lambda>ds. Some (d @ ds)))"

definition slots_findGaps :: "slot_queue \<Rightarrow> slots \<Rightarrow> u64 \<Rightarrow> u64 \<Rightarrow> i64 \<Rightarrow> chunkRange list option" where
  "slots_findGaps Q s start end maxSize =
     (let chunkRanges =
        (if qLen Q (sQueue s) = 0 then [\<lparr>crFrom = start, crTo = end\<rparr>]
         else let (gaps, prevTo) = findGaps_scan (start - 1) (sQueue s)
              in gaps @ (if prevTo < end then [\<lparr>crFrom = prevTo + 1, crTo = end\<rparr>] else []))
      in findGaps_divideAll maxSize chunkRanges)"

text \<open>
  \<open>None\<close> stands for a call that never returns; making a slice of negative length panics.
\<close>

definition slots_reserveChunkRanges ::
    "slot_queue \<Rightarrow> slots \<Rightarrow> u64 \<Rightarrow> u64 \<Rightarrow> i64 \<Rightarrow> (chunkRange list \<times> slots) outcome option" where
  "slots_reserveChunkRanges Q s start end maxChunkSize =
     (let freeSlots = sMaxSlots s - qLen Q (sQueue s) in
      Option.bind (slots_findGaps Q s start end maxChunkSize) (\<lambda>gaps.
        let maxRanges = min (int (length gaps)) freeSlots in
        if maxRanges < 0 then Some (Panic ''makeslice: len out of range'')
        else let chunkRanges = take (nat maxRanges) gaps
             in Some (Ret (chunkRanges,
                  s\<lparr>sQueue := foldl (\<lambda>q gap. qPush Q q \<lparr>slChunk = None, slRange = gap\<rparr>) (sQueue s) chunkRanges\<rparr>))))"

section \<open>Ranges as sets of blocks\<close>

text \<open>Ranges in ascending order without overlap, none of them empty, none below \<open>lo\<close>.\<close>

fun spaced :: "nat \<Rightarrow> chunkRange list \<Rightarrow> bool" where
  "spaced lo [] = True"
| "spaced lo (r # rs) =
     (lo \<le> unat (crFrom r) \<and> unat (crFrom r) \<le> unat (crTo r) \<and> spaced (Suc (unat (crTo r))) rs)"

text \<open>The first block behind the ranges.\<close>

fun behind :: "nat \<Rightarrow> chunkRange list \<Rightarrow> nat" where
  "behind lo [] = lo"
| "behind lo (r # rs) = behind (Suc (unat (crTo r))) rs"

definition blocks_of :: "chunkRange list \<Rightarrow> nat set" where
  "blocks_of rs = (\<Union>r \<in> set rs. {unat (crFrom r)..unat (crTo r)})"

definition range_size :: "chunkRange \<Rightarrow> nat" where
  "range_size r = Suc (unat (crTo r)) - unat (crFrom r)"

lemma blocks_of_simps [simp]:
  "blocks_of [] = {}" "blocks_of (r # rs) = {unat (crFrom r)..unat (crTo r)} \<union> blocks_of rs"
  "blocks_of (rs @ ss) = blocks_of rs \<union> blocks_of ss"
  by (auto simp: blocks_of_def)

lemma spaced_append [simp]: "spaced lo (rs @ ss) \<longleftrightarrow> spaced lo rs \<and> spaced (behind lo rs) ss"
  by (induction rs arbitrary: lo) auto

lemma behind_append [simp]: "behind lo (rs @ ss) = behind (behind lo rs) ss"
  by (induction rs arbitrary: lo) auto

lemma spaced_mono: "spaced lo rs \<Longrightarrow> lo' \<le> lo \<Longrightarrow> spaced lo' rs"
  by (cases rs) auto

lemma behind_nonempty: "rs \<noteq> [] \<Longrightarrow> behind lo rs = behind lo' rs"
  by (cases rs) auto

lemma spaced_behind: "spaced lo rs \<Longrightarrow> lo \<le> behind lo rs"
  by (induction rs arbitrary: lo) fastforce+

lemma spaced_bounds: "spaced lo rs \<Longrightarrow> blocks_of rs \<subseteq> {lo..<behind lo rs}"
proof (induction rs arbitrary: lo)
  case (Cons r rs)
  from Cons.prems Cons.IH [of "Suc (unat (crTo r))"] spaced_behind [of "Suc (unat (crTo r))" rs]
  show ?case by fastforce
qed simp

text \<open>Ranges that come in order share no block.\<close>

lemma spaced_disjoint: "spaced lo (rs @ ss) \<Longrightarrow> blocks_of rs \<inter> blocks_of ss = {}"
  using spaced_bounds [of lo rs] spaced_bounds [of "behind lo rs" ss] by fastforce

section \<open>Finding gaps\<close>

lemma unat_plus1: "unat (x :: u64) < 18446744073709551615 \<Longrightarrow> unat (x + 1) = Suc (unat x)"
  by (subst unat_plus_if') simp

lemma unat_minus1: "0 < unat (x :: u64) \<Longrightarrow> unat (x - 1) = unat x - 1"
  by (rule unat_minus_one) auto

lemma divide_ok:
  assumes "0 < unat sz" "unat hi + unat sz < 18446744073709551616" "unat i \<le> unat hi"
  shows "\<exists>rs. findGaps_divide sz hi i = Some rs \<and> spaced (unat i) rs \<and> rs \<noteq> [] \<and>
    behind (unat i) rs = Suc (unat hi) \<and> blocks_of rs = {unat i..unat hi} \<and>
    (\<forall>r \<in> set rs. range_size r \<le> unat sz)"
  using assms(3)
proof (induction "unat hi - unat i" arbitrary: i rule: less_induct)
  case less
  have i_sz: "unat (i + sz) = unat i + unat sz" and i_to: "unat (i + sz - 1) = unat i + unat sz - 1"
    using assms less.prems by (simp_all add: unat_plus_if' unat_minus1)
  let ?to = "if i + sz - 1 > hi then hi else i + sz - 1"
  have to: "unat ?to = min (unat hi) (unat i + unat sz - 1)"
    by (simp add: word_less_nat_alt i_to)
  let ?g = "\<lparr>crFrom = i, crTo = ?to\<rparr>"
  have step: "findGaps_divide sz hi i = Option.bind (findGaps_divide sz hi (i + sz)) (\<lambda>r. Some (?g # r))"
    using less.prems by (subst findGaps_divide.simps) (simp add: word_le_nat_alt Let_def)
  show ?case
  proof (cases "unat i + unat sz \<le> unat hi")
    case True
    with assms(1) have "unat hi - unat (i + sz) < unat hi - unat i" by (simp add: i_sz)
    from less.hyps [OF this] True obtain rs where
      rs: "findGaps_divide sz hi (i + sz) = Some rs" "spaced (unat (i + sz)) rs" "rs \<noteq> []"
        "behind (unat (i + sz)) rs = Suc (unat hi)" "blocks_of rs = {unat (i + sz)..unat hi}"
        "\<forall>r \<in> set rs. range_size r \<le> unat sz" by (auto simp: i_sz)
    from True to have to': "unat ?to = unat i + unat sz - 1" by simp
    then have "Suc (unat ?to) = unat (i + sz)" using assms(1) by (simp add: i_sz)
    with rs step to' assms(1) True show ?thesis
      by (auto simp: range_size_def i_sz simp del: if_split)
  next
    case False
    then have "\<not> i + sz \<le> hi" by (simp add: word_le_nat_alt i_sz)
    then have "findGaps_divide sz hi (i + sz) = Some []" by (subst findGaps_divide.simps) simp
    moreover from False to have "unat ?to = unat hi" by simp
    ultimately show ?thesis using step less.prems False
      by (simp add: range_size_def del: if_split)
  qed
qed

lemma divideAll_ok:
  assumes "spaced lo gs" "0 < unat sz" "\<forall>g \<in> set gs. unat (crTo g) + unat sz < 18446744073709551616"
  shows "\<exists>rs. findGaps_divideAll sz gs = Some rs \<and> spaced lo rs \<and> blocks_of rs = blocks_of gs \<and>
    (\<forall>r \<in> set rs. range_size r \<le> unat sz)"
  using assms(1,3)
proof (induction gs arbitrary: lo)
  case (Cons g gs)
  from Cons.prems have g: "lo \<le> unat (crFrom g)" "unat (crFrom g) \<le> unat (crTo g)"
    "unat (crTo g) + unat sz < 18446744073709551616" by simp_all
  from Cons.IH [of "Suc (unat (crTo g))"] Cons.prems obtain rs where
    rs: "findGaps_divideAll sz gs = Some rs" "spaced (Suc (unat (crTo g))) rs"
      "blocks_of rs = blocks_of gs" "\<forall>r \<in> set rs. range_size r \<le> unat sz" by auto
  show ?case
  proof (cases "crTo g - crFrom g + 1 \<le> sz")
    case True
    have "unat (crTo g - crFrom g) = unat (crTo g) - unat (crFrom g)"
      using g by (simp add: unat_sub word_le_nat_alt)
    then have "unat (crTo g - crFrom g + 1) = range_size g"
      using g assms(2) by (subst unat_plus1) (auto simp: range_size_def)
    with True rs g show ?thesis by (simp add: word_le_nat_alt)
  next
    case False
    from divide_ok [OF assms(2) g(3,2)] obtain ds where
      ds: "findGaps_divide sz (crTo g) (crFrom g) = Some ds" "spaced (unat (crFrom g)) ds" "ds \<noteq> []"
        "behind (unat (crFrom g)) ds = Suc (unat (crTo g))"
        "blocks_of ds = {unat (crFrom g)..unat (crTo g)}" "\<forall>r \<in> set ds. range_size r \<le> unat sz" by blast
    from ds(2,3,4) g(1) have "spaced lo ds" "behind lo ds = Suc (unat (crTo g))"
      using spaced_mono behind_nonempty by metis+
    with False rs ds show ?thesis by auto
  qed
qed simp

lemma scan_ok:
  assumes "spaced (unat (p + 1)) (map slRange q)" "\<forall>s \<in> set q. unat (crTo (slRange s)) < 18446744073709551615"
  shows "\<exists>gs last. findGaps_scan p q = (gs, last) \<and> spaced (unat (p + 1)) gs \<and>
    unat (last + 1) = behind (unat (p + 1)) (map slRange q) \<and>
    behind (unat (p + 1)) gs \<le> unat (last + 1) \<and> (q \<noteq> [] \<longrightarrow> unat last < 18446744073709551615) \<and>
    blocks_of gs \<inter> blocks_of (map slRange q) = {} \<and>
    blocks_of gs \<union> blocks_of (map slRange q) = {unat (p + 1)..<unat (last + 1)}"
  using assms
proof (induction q arbitrary: p)
  case (Cons s q)
  let ?f = "crFrom (slRange s)" and ?t = "crTo (slRange s)"
  from Cons.prems have b: "unat (p + 1) \<le> unat ?f" "unat ?f \<le> unat ?t" "unat ?t < 18446744073709551615"
    by simp_all
  have t1: "unat (?t + 1) = Suc (unat ?t)" using b(3) by (rule unat_plus1)
  from Cons.IH [of ?t] Cons.prems obtain gs last where
    IH: "findGaps_scan ?t q = (gs, last)" "spaced (Suc (unat ?t)) gs"
      "unat (last + 1) = behind (Suc (unat ?t)) (map slRange q)"
      "behind (Suc (unat ?t)) gs \<le> unat (last + 1)" "q \<noteq> [] \<longrightarrow> unat last < 18446744073709551615"
      "blocks_of gs \<inter> blocks_of (map slRange q) = {}"
      "blocks_of gs \<union> blocks_of (map slRange q) = {Suc (unat ?t)..<unat (last + 1)}"
    by (auto simp: t1)
  have gs_low: "blocks_of gs \<subseteq> {Suc (unat ?t)..}" using IH(7) by auto
  have last: "Suc (unat ?t) \<le> unat (last + 1)" "q = [] \<Longrightarrow> last = ?t"
    using IH(1,2,4) spaced_behind by fastforce+
  have lastb: "unat last < 18446744073709551615" using IH(5) last(2) b(3) by auto
  have all: "{Suc (unat ?t)..<unat (last + 1)} \<union> {unat (p + 1)..unat ?t} = {unat (p + 1)..<unat (last + 1)}"
    using last(1) b by auto
  have q_low: "blocks_of (map slRange q) \<subseteq> {Suc (unat ?t)..}" using IH(7) by auto
  show ?case
  proof (cases "?f > p + 1")
    case True
    then have pf: "unat (p + 1) < unat ?f" by (simp add: word_less_nat_alt)
    then have f1: "Suc (unat (?f - 1)) = unat ?f" by (subst unat_minus1) auto
    let ?g = "\<lparr>crFrom = p + 1, crTo = ?f - 1\<rparr>"
    have scan: "findGaps_scan p (s # q) = (?g # gs, last)" using True IH(1) by (simp add: Let_def)
    have sp: "spaced (unat ?f) gs" using IH(2) b(2) by (auto intro: spaced_mono)
    have bh: "behind (unat ?f) gs \<le> unat (last + 1)"
      using IH(4) last(1) b(2) by (cases gs) auto
    have un: "{unat (p + 1)..unat (?f - 1)} \<union> {unat ?f..unat ?t} = {unat (p + 1)..unat ?t}"
      using pf f1 b(2) by auto
    have "blocks_of (?g # gs) \<inter> blocks_of (map slRange (s # q)) = {}"
      using gs_low q_low IH(6) f1 b(2) by (auto simp: disjoint_iff)
    moreover have "blocks_of (?g # gs) \<union> blocks_of (map slRange (s # q)) = {unat (p + 1)..<unat (last + 1)}"
      unfolding all [symmetric] un [symmetric] IH(7) [symmetric] by auto
    ultimately show ?thesis using scan sp bh f1 pf lastb IH(3) by simp
  next
    case False
    then have pf: "unat (p + 1) = unat ?f" using b(1) by (simp add: word_less_nat_alt)
    have scan: "findGaps_scan p (s # q) = (gs, last)" using False IH(1) by (simp add: Let_def)
    have "blocks_of gs \<inter> blocks_of (map slRange (s # q)) = {}"
      using gs_low IH(6) b(2) by (auto simp: disjoint_iff)
    moreover have "blocks_of gs \<union> blocks_of (map slRange (s # q)) = {unat (p + 1)..<unat (last + 1)}"
      unfolding all [symmetric] IH(7) [symmetric] by (auto simp: pf)
    moreover have "spaced (unat (p + 1)) gs" "behind (unat (p + 1)) gs \<le> unat (last + 1)"
      using IH(2,4) last(1) pf b(2) by (cases gs; simp)+
    ultimately show ?thesis using scan lastb IH(3) by simp
  qed
qed simp

lemma behind_cases: "behind lo rs = lo \<or> (\<exists>r \<in> set rs. behind lo rs = Suc (unat (crTo r)))"
  by (induction rs arbitrary: lo) fastforce+

lemma spaced_to_mem: "spaced lo rs \<Longrightarrow> r \<in> set rs \<Longrightarrow> unat (crTo r) \<in> blocks_of rs"
  by (induction rs arbitrary: lo) fastforce+

section \<open>The queue\<close>

text \<open>
  The package keeps its queue ordered by \<open>Less\<close>: an item pushed goes to its place, the front is
  popped first.
\<close>

locale insertion_queue =
  fixes Q :: slot_queue
  assumes len: "qLen Q q = int (length q)"
    and index: "0 \<le> i \<Longrightarrow> i < int (length q) \<Longrightarrow> qIndex Q q i = q ! nat i"
    and push: "sorted_wrt (\<lambda>a b. \<not> slot_Less b a) q \<Longrightarrow>
        sorted_wrt (\<lambda>a b. \<not> slot_Less b a) (qPush Q q x) \<and> mset (qPush Q q x) = add_mset x (mset q)"
    and pop: "qPopFront Q (x # q) = q"

lemma sorted_Less_iff: "sorted_wrt (\<lambda>a b. \<not> slot_Less b a) q \<longleftrightarrow> sorted (map (crFrom \<circ> slRange) q)"
  by (simp add: slot_Less_def chunkRange_less_def not_less sorted_wrt_map)

definition ref_queue :: slot_queue where
  "ref_queue = \<lparr>qPush = (\<lambda>q x. insort_key (crFrom \<circ> slRange) x q), qPopFront = tl,
     qLen = (\<lambda>q. int (length q)), qIndex = (\<lambda>q i. q ! nat i)\<rparr>"

interpretation ref_queue: insertion_queue ref_queue
  by unfold_locales (simp_all add: ref_queue_def sorted_Less_iff sorted_insort_key)

lemma spaced_froms: "spaced lo rs \<Longrightarrow> sorted_wrt (\<lambda>a b. crFrom a < crFrom b) rs"
proof (induction rs arbitrary: lo)
  case (Cons r rs)
  have "crFrom r < crFrom r'" if "r' \<in> set rs" for r'
  proof -
    from that have "unat (crFrom r') \<in> blocks_of rs"
      using Cons.prems spaced_to_mem by (fastforce simp: blocks_of_def dest: split_list)
    with spaced_bounds [of "Suc (unat (crTo r))" rs] Cons.prems show ?thesis
      by (auto simp: word_less_nat_alt)
  qed
  with Cons show ?case by auto
qed simp

context insertion_queue
begin

text \<open>A slot behind all others goes to the end.\<close>

lemma push_last:
  assumes "spaced lo (map slRange q)" "\<forall>s \<in> set q. slot_Less s x"
  shows "qPush Q q x = q @ [x]"
proof -
  let ?k = "crFrom \<circ> slRange"
  have q: "sorted_wrt (<) (map ?k q)"
    using spaced_froms [OF assms(1)] by (simp add: sorted_wrt_map)
  then have "sorted (map ?k q)" by (simp add: strict_sorted_iff)
  with push [of q x] have p: "sorted (map ?k (qPush Q q x))" "mset (qPush Q q x) = mset (q @ [x])"
    by (simp_all add: sorted_Less_iff)
  have d: "sorted_wrt (<) (map ?k (q @ [x]))"
    using q assms(2) by (simp add: sorted_wrt_append slot_Less_def chunkRange_less_def)
  then have "inj_on ?k (set (qPush Q q x))"
    using p(2) by (metis distinct_map mset_eq_setD strict_sorted_iff)
  moreover have "sort (map ?k (q @ [x])) = map ?k (qPush Q q x)"
    using p by (intro properties_for_sort) simp_all
  moreover have "sort (map ?k (q @ [x])) = map ?k (q @ [x])"
    using d by (intro sort_key_id_if_sorted) (simp add: strict_sorted_iff)
  moreover have "set (qPush Q q x) = set (q @ [x])" using p(2) by (rule mset_eq_setD)
  ultimately show ?thesis by (metis inj_on_map_eq_map sup.idem)
qed

lemma findGaps_ok:
  assumes sp: "spaced (unat start) (map slRange (sQueue s))"
    and se: "unat start \<le> unat end" and sz: "0 < unat sz"
    and no_wrap: "unat end + unat sz < 18446744073709551616"
      "\<forall>x \<in> set (sQueue s). unat (crTo (slRange x)) + unat sz < 18446744073709551616"
  shows "\<exists>rs. slots_findGaps Q s start end sz = Some rs \<and> spaced (unat start) rs \<and>
    (\<forall>r \<in> set rs. range_size r \<le> unat sz) \<and>
    blocks_of rs = {unat start..<max (Suc (unat end)) (behind (unat start) (map slRange (sQueue s)))}
      - blocks_of (map slRange (sQueue s))"
proof -
  let ?q = "map slRange (sQueue s)"
  let ?up = "max (Suc (unat end)) (behind (unat start) ?q)"
  have up: "?up + unat sz \<le> 18446744073709551616"
    using no_wrap se behind_cases [of "unat start" ?q] by auto
  define gs where "gs = (if qLen Q (sQueue s) = 0 then [\<lparr>crFrom = start, crTo = end\<rparr>]
         else let (gaps, prevTo) = findGaps_scan (start - 1) (sQueue s)
              in gaps @ (if prevTo < end then [\<lparr>crFrom = prevTo + 1, crTo = end\<rparr>] else []))"
  have gs: "spaced (unat start) gs \<and> blocks_of gs = {unat start..<?up} - blocks_of ?q"
  proof (cases "sQueue s = []")
    case True
    then show ?thesis using se by (auto simp: gs_def len)
  next
    case False
    have "\<forall>x \<in> set (sQueue s). unat (crTo (slRange x)) < 18446744073709551615"
      using no_wrap(2) sz by auto
    with scan_ok [of "start - 1" "sQueue s"] sp False obtain gaps last where
      sc: "findGaps_scan (start - 1) (sQueue s) = (gaps, last)" "spaced (unat start) gaps"
        "unat (last + 1) = behind (unat start) ?q" "behind (unat start) gaps \<le> unat (last + 1)"
        "unat last < 18446744073709551615" "blocks_of gaps \<inter> blocks_of ?q = {}"
        "blocks_of gaps \<union> blocks_of ?q = {unat start..<unat (last + 1)}" by auto
    have last1: "unat (last + 1) = Suc (unat last)" using sc(5) by (rule unat_plus1)
    have q_up: "blocks_of ?q \<subseteq> {..<unat (last + 1)}" using sc(7) by auto
    show ?thesis
    proof (cases "last < end")
      case True
      then have le: "unat last < unat end" by (simp add: word_less_nat_alt)
      let ?g = "\<lparr>crFrom = last + 1, crTo = end\<rparr>"
      have g: "gs = gaps @ [?g]" using True False sc(1) by (simp add: gs_def len)
      have "blocks_of gs = ({unat start..<unat (last + 1)} - blocks_of ?q) \<union> {unat (last + 1)..unat end}"
        unfolding g using sc(6,7) by auto
      also have "\<dots> = {unat start..<?up} - blocks_of ?q"
        using q_up le last1 sc(3) spaced_behind [OF sp] by auto
      finally show ?thesis using sc(2,4) le last1 by (simp add: g)
    next
      case False
      then have "gs = gaps" using \<open>sQueue s \<noteq> []\<close> sc(1) by (simp add: gs_def len)
      moreover have "?up = unat (last + 1)" using False last1 sc(3) by (simp add: word_less_nat_alt)
      ultimately show ?thesis using sc(2,6,7) by auto
    qed
  qed
  have "\<forall>g \<in> set gs. unat (crTo g) + unat sz < 18446744073709551616"
    using gs spaced_to_mem [of "unat start" gs] up by fastforce
  moreover have "slots_findGaps Q s start end sz = findGaps_divideAll sz gs"
    by (simp add: slots_findGaps_def gs_def Let_def)
  ultimately show ?thesis using divideAll_ok [of "unat start" gs sz] gs sz by metis
qed

end

section \<open>Reserving ranges\<close>

lemma spaced_iff:
  "spaced lo rs \<longleftrightarrow> sorted_wrt (\<lambda>a b. unat (crTo a) < unat (crFrom b)) rs \<and>
     (\<forall>r \<in> set rs. lo \<le> unat (crFrom r) \<and> unat (crFrom r) \<le> unat (crTo r))"
proof (induction rs arbitrary: lo)
  case (Cons r rs)
  then show ?case by (fastforce simp: Suc_le_eq)
qed simp

lemma blocks_of_cong: "set rs = set ss \<Longrightarrow> blocks_of rs = blocks_of ss"
  by (simp add: blocks_of_def)

text \<open>A sorted list without repetition is ordered by any relation that its order implies.\<close>

lemma sorted_wrt_pairwise:
  fixes f :: "'a \<Rightarrow> 'b::linorder"
  assumes "distinct xs" "sorted (map f xs)"
    and "\<And>a b. a \<in> set xs \<Longrightarrow> b \<in> set xs \<Longrightarrow> a \<noteq> b \<Longrightarrow> f a \<le> f b \<Longrightarrow> R a b"
  shows "sorted_wrt R xs"
  using assms
proof (induction xs)
  case (Cons x xs)
  have "R x y" if "y \<in> set xs" for y
    using that Cons.prems(1,2) by (intro Cons.prems(3)) auto
  with Cons show ?case by simp
qed simp

context insertion_queue
begin

lemma push_spaced:
  assumes q: "spaced lo (map slRange q)"
    and x: "lo \<le> unat (crFrom (slRange x))" "unat (crFrom (slRange x)) \<le> unat (crTo (slRange x))"
    and disj: "{unat (crFrom (slRange x))..unat (crTo (slRange x))} \<inter> blocks_of (map slRange q) = {}"
  shows "spaced lo (map slRange (qPush Q q x)) \<and> mset (qPush Q q x) = add_mset x (mset q)"
proof -
  let ?p = "qPush Q q x"
  have "sorted_wrt (<) (map (crFrom \<circ> slRange) q)"
    using spaced_froms [OF q] by (simp add: sorted_wrt_map)
  then have sq: "sorted (map (crFrom \<circ> slRange) q)" and "distinct (map (crFrom \<circ> slRange) q)"
    by (simp_all add: strict_sorted_iff)
  then have dq: "distinct (map slRange q)" by (metis distinct_map map_map)
  from sq push [of q x] have p: "sorted (map (crFrom \<circ> slRange) ?p)" "mset ?p = mset (x # q)"
    by (simp_all add: sorted_Less_iff)
  have inq: "unat (crFrom r) \<in> blocks_of (map slRange q) \<and> unat (crTo r) \<in> blocks_of (map slRange q) \<and>
      unat (crFrom r) \<le> unat (crTo r) \<and> lo \<le> unat (crFrom r)" if "r \<in> set (map slRange q)" for r
    using q that unfolding spaced_iff blocks_of_def by fastforce
  with disj x(2) have "slRange x \<notin> set (map slRange q)" by fastforce
  with dq have "distinct (map slRange (x # q))" by simp
  moreover have mp: "mset (map slRange ?p) = mset (map slRange (x # q))" using p(2) by simp
  ultimately have dp: "distinct (map slRange ?p)" using mset_eq_imp_distinct_iff by blast
  have sp: "set (map slRange ?p) = insert (slRange x) (set (map slRange q))"
    using mset_eq_setD [OF mp] by simp
  have apart: "unat (crTo a) < unat (crFrom b) \<or> unat (crTo b) < unat (crFrom a)"
    if "a \<in> set (map slRange q)" "b \<in> set (map slRange q)" "a \<noteq> b" for a b
    using q that unfolding spaced_iff by (auto simp: sorted_wrt_iff_nth_less in_set_conv_nth)
      (metis linorder_neqE_nat)
  have new: "unat (crTo a) < unat (crFrom (slRange x)) \<or> unat (crTo (slRange x)) < unat (crFrom a)"
    if "a \<in> set (map slRange q)" for a
  proof (rule ccontr)
    assume "\<not> ?thesis"
    with inq [OF that] x(2) have "max (unat (crFrom a)) (unat (crFrom (slRange x)))
        \<in> {unat (crFrom a)..unat (crTo a)} \<inter> {unat (crFrom (slRange x))..unat (crTo (slRange x))}" by auto
    moreover have "{unat (crFrom a)..unat (crTo a)} \<subseteq> blocks_of (map slRange q)"
      using that by (auto simp: blocks_of_def)
    ultimately show False using disj by blast
  qed
  have "sorted_wrt (\<lambda>a b. unat (crTo a) < unat (crFrom b)) (map slRange ?p)"
  proof (rule sorted_wrt_pairwise [where f = crFrom])
    show "distinct (map slRange ?p)" by (rule dp)
    show "sorted (map crFrom (map slRange ?p))" using p(1) by simp
    fix a b assume ab: "a \<in> set (map slRange ?p)" "b \<in> set (map slRange ?p)" "a \<noteq> b" "crFrom a \<le> crFrom b"
    then have le: "unat (crFrom a) \<le> unat (crFrom b)" by (simp add: word_le_nat_alt)
    have valid: "unat (crFrom r) \<le> unat (crTo r)" if "r \<in> set (map slRange ?p)" for r
      using that x(2) inq unfolding sp by blast
    show "unat (crTo a) < unat (crFrom b)"
      using ab(1-3) apart [of a b] new [of a] new [of b] le valid [of b] valid [of a] unfolding sp by fastforce
  qed
  with sp inq x show ?thesis using p(2) by (auto simp: spaced_iff)
qed

lemma push_all_spaced:
  assumes "spaced lo (map slRange q)" "spaced lo rs" "blocks_of rs \<inter> blocks_of (map slRange q) = {}"
  shows "spaced lo (map slRange (foldl (\<lambda>q r. qPush Q q \<lparr>slChunk = None, slRange = r\<rparr>) q rs)) \<and>
    mset (foldl (\<lambda>q r. qPush Q q \<lparr>slChunk = None, slRange = r\<rparr>) q rs) =
      mset q + mset (map (\<lambda>r. \<lparr>slChunk = None, slRange = r\<rparr>) rs)"
  using assms
proof (induction rs arbitrary: q)
  case (Cons r rs)
  let ?q = "qPush Q q \<lparr>slChunk = None, slRange = r\<rparr>"
  from Cons.prems push_spaced [of lo q "\<lparr>slChunk = None, slRange = r\<rparr>"]
  have q: "spaced lo (map slRange ?q)" "mset ?q = add_mset \<lparr>slChunk = None, slRange = r\<rparr> (mset q)"
    by auto
  from q(2) have "set ?q = insert \<lparr>slChunk = None, slRange = r\<rparr> (set q)"
    by (metis set_mset_add_mset_insert set_mset_mset)
  then have "blocks_of (map slRange ?q) = {unat (crFrom r)..unat (crTo r)} \<union> blocks_of (map slRange q)"
    by (auto simp: blocks_of_def)
  moreover have "blocks_of [r] \<inter> blocks_of rs = {}"
    using spaced_disjoint [of lo "[r]" rs] Cons.prems(2) by simp
  moreover have "spaced lo rs" using Cons.prems(2) by (auto intro: spaced_mono)
  ultimately show ?case using Cons.IH [of ?q] Cons.prems q by auto
qed simp

end

lemma spaced_take: "spaced lo rs \<Longrightarrow> spaced lo (take n rs)"
  by (metis append_take_drop_id spaced_append)

lemma blocks_of_take: "blocks_of (take n rs) \<subseteq> blocks_of rs"
  by (auto simp: blocks_of_def dest: in_set_takeD)

context insertion_queue
begin

lemma reserve_ok:
  assumes sp: "spaced (unat start) (map slRange (sQueue s))"
    and se: "unat start \<le> unat end" and sz: "0 < unat sz"
    and no_wrap: "unat end + unat sz < 18446744073709551616"
      "\<forall>x \<in> set (sQueue s). unat (crTo (slRange x)) + unat sz < 18446744073709551616"
    and room: "int (length (sQueue s)) \<le> sMaxSlots s"
  shows "\<exists>gaps rs q. slots_findGaps Q s start end sz = Some gaps \<and>
    rs = take (nat (sMaxSlots s) - length (sQueue s)) gaps \<and>
    slots_reserveChunkRanges Q s start end sz = Some (Ret (rs, s\<lparr>sQueue := q\<rparr>)) \<and>
    q = foldl (\<lambda>q r. qPush Q q \<lparr>slChunk = None, slRange = r\<rparr>) (sQueue s) rs \<and>
    spaced (unat start) (map slRange q) \<and>
    mset q = mset (sQueue s) + mset (map (\<lambda>r. \<lparr>slChunk = None, slRange = r\<rparr>) rs) \<and>
    int (length q) \<le> sMaxSlots s"
proof -
  from findGaps_ok [OF sp se sz no_wrap] obtain gaps where
    g: "slots_findGaps Q s start end sz = Some gaps" "spaced (unat start) gaps"
      "blocks_of gaps \<inter> blocks_of (map slRange (sQueue s)) = {}" by auto
  define rs where "rs = take (nat (sMaxSlots s) - length (sQueue s)) gaps"
  define q where "q = foldl (\<lambda>q r. qPush Q q \<lparr>slChunk = None, slRange = r\<rparr>) (sQueue s) rs"
  have "take (nat (min (int (length gaps)) (sMaxSlots s - int (length (sQueue s))))) gaps = rs"
    using room unfolding rs_def by (simp add: min_def nat_diff_distrib)
  then have "slots_reserveChunkRanges Q s start end sz = Some (Ret (rs, s\<lparr>sQueue := q\<rparr>))"
    using room by (simp add: slots_reserveChunkRanges_def g(1) len Let_def q_def)
  moreover have q: "spaced (unat start) (map slRange q) \<and>
      mset q = mset (sQueue s) + mset (map (\<lambda>r. \<lparr>slChunk = None, slRange = r\<rparr>) rs)"
    unfolding q_def
  proof (rule push_all_spaced [OF sp])
    show "spaced (unat start) rs" unfolding rs_def by (rule spaced_take [OF g(2)])
    show "blocks_of rs \<inter> blocks_of (map slRange (sQueue s)) = {}"
      using blocks_of_take g(3) unfolding rs_def by blast
  qed
  moreover have "int (length q) \<le> sMaxSlots s"
  proof -
    from q have "length q = length (sQueue s) + length rs" by (metis length_map size_mset size_union)
    then show ?thesis using room unfolding rs_def by simp
  qed
  ultimately show ?thesis using g(1) rs_def q_def by blast
qed

end

section \<open>A queue without holes\<close>

fun contig :: "nat \<Rightarrow> chunkRange list \<Rightarrow> bool" where
  "contig lo [] = True"
| "contig lo (r # rs) =
     (unat (crFrom r) = lo \<and> unat (crFrom r) \<le> unat (crTo r) \<and> contig (Suc (unat (crTo r))) rs)"

lemma contig_spaced: "contig lo rs \<Longrightarrow> spaced lo rs"
  by (induction rs arbitrary: lo) auto

lemma contig_append [simp]: "contig lo (rs @ ss) \<longleftrightarrow> contig lo rs \<and> contig (behind lo rs) ss"
  by (induction rs arbitrary: lo) auto

lemma contig_blocks: "contig lo rs \<Longrightarrow> blocks_of rs = {lo..<behind lo rs}"
proof (induction rs arbitrary: lo)
  case (Cons r rs)
  then have "Suc (unat (crTo r)) \<le> behind (Suc (unat (crTo r))) rs"
    by (intro spaced_behind contig_spaced) simp
  with Cons show ?case by auto
qed simp

lemma interval_contig: "spaced lo rs \<Longrightarrow> blocks_of rs = {lo..<hi} \<Longrightarrow> contig lo rs"
proof (induction rs arbitrary: lo)
  case (Cons r rs)
  have low: "blocks_of rs \<subseteq> {Suc (unat (crTo r))..}"
    using spaced_bounds [of "Suc (unat (crTo r))" rs] Cons.prems(1) by auto
  have "unat (crFrom r) \<in> {lo..<hi}" "unat (crTo r) \<in> {lo..<hi}" using Cons.prems by auto
  then have "lo \<in> blocks_of (r # rs)" using Cons.prems(2) by auto
  with low Cons.prems(1) have "unat (crFrom r) = lo" by fastforce
  moreover have "blocks_of rs = {Suc (unat (crTo r))..<hi}"
  proof -
    have "blocks_of rs = blocks_of (r # rs) - {..unat (crTo r)}" using low by fastforce
    also have "\<dots> = {Suc (unat (crTo r))..<hi}" unfolding Cons.prems(2) using Cons.prems(1) by auto
    finally show ?thesis .
  qed
  ultimately show ?case using Cons by simp
qed simp

context insertion_queue
begin

lemma push_all_last:
  assumes "spaced lo (map slRange q)" "spaced (behind lo (map slRange q)) rs"
  shows "foldl (\<lambda>q r. qPush Q q \<lparr>slChunk = None, slRange = r\<rparr>) q rs =
    q @ map (\<lambda>r. \<lparr>slChunk = None, slRange = r\<rparr>) rs"
  using assms
proof (induction rs arbitrary: q)
  case (Cons r rs)
  let ?x = "\<lparr>slChunk = None, slRange = r\<rparr>"
  have "slot_Less s ?x" if "s \<in> set q" for s
  proof -
    from that Cons.prems(1) have "unat (crFrom (slRange s)) \<in> blocks_of (map slRange q)"
      by (fastforce simp: spaced_iff blocks_of_def)
    with spaced_bounds [OF Cons.prems(1)] Cons.prems(2) show ?thesis
      by (auto simp: slot_Less_def chunkRange_less_def word_less_nat_alt)
  qed
  then have "qPush Q q ?x = q @ [?x]" using push_last [OF Cons.prems(1)] by blast
  with Cons.IH [of "q @ [?x]"] Cons.prems show ?case by simp
qed simp

text \<open>The fetcher's queue has no holes, so it only ever grows at its end.\<close>

lemma reserve_contig:
  assumes sp: "contig (unat start) (map slRange (sQueue s))"
    and se: "unat start \<le> unat end" and sz: "0 < unat sz"
    and no_wrap: "unat end + unat sz < 18446744073709551616"
      "\<forall>x \<in> set (sQueue s). unat (crTo (slRange x)) + unat sz < 18446744073709551616"
    and room: "int (length (sQueue s)) \<le> sMaxSlots s"
  shows "\<exists>rs. slots_reserveChunkRanges Q s start end sz =
      Some (Ret (rs, s\<lparr>sQueue := sQueue s @ map (\<lambda>r. \<lparr>slChunk = None, slRange = r\<rparr>) rs\<rparr>)) \<and>
    contig (unat start) (map slRange (sQueue s) @ rs) \<and> (\<forall>r \<in> set rs. range_size r \<le> unat sz) \<and>
    int (length (sQueue s) + length rs) \<le> sMaxSlots s \<and>
    (\<forall>r \<in> set rs. unat (crTo r) \<le> unat end) \<and>
    (behind (unat start) (map slRange (sQueue s)) \<le> unat end \<longrightarrow>
       int (length (sQueue s)) < sMaxSlots s \<longrightarrow> rs \<noteq> [])"
proof -
  let ?q = "map slRange (sQueue s)"
  let ?b = "behind (unat start) ?q"
  note spq = contig_spaced [OF sp]
  from reserve_ok [OF spq se sz no_wrap room] obtain gaps rs q where
    r: "slots_findGaps Q s start end sz = Some gaps"
      "rs = take (nat (sMaxSlots s) - length (sQueue s)) gaps"
      "slots_reserveChunkRanges Q s start end sz = Some (Ret (rs, s\<lparr>sQueue := q\<rparr>))"
      "q = foldl (\<lambda>q r. qPush Q q \<lparr>slChunk = None, slRange = r\<rparr>) (sQueue s) rs" by auto
  from findGaps_ok [OF spq se sz no_wrap] r(1) have
    g: "spaced (unat start) gaps" "\<forall>r \<in> set gaps. range_size r \<le> unat sz"
      "blocks_of gaps = {unat start..<max (Suc (unat end)) ?b} - blocks_of ?q" by auto
  have bl: "blocks_of gaps = {?b..<max (Suc (unat end)) ?b}"
    unfolding g(3) contig_blocks [OF sp] using spaced_behind [OF spq] by auto
  have "spaced ?b gaps" using g(1) bl unfolding spaced_iff
    by (auto simp: blocks_of_def) (metis (mono_tags) UN_I atLeastAtMost_iff atLeastLessThan_iff order_refl)
  then have c: "contig ?b gaps" using interval_contig bl by blast
  then have cr: "contig ?b rs" unfolding r(2) by (metis append_take_drop_id contig_append)
  have "q = sQueue s @ map (\<lambda>r. \<lparr>slChunk = None, slRange = r\<rparr>) rs"
    unfolding r(4) by (rule push_all_last [OF spq contig_spaced [OF cr]])
  moreover have "int (length (sQueue s) + length rs) \<le> sMaxSlots s"
    using room r(2) by simp
  moreover have "unat (crTo x) \<le> unat end" if "x \<in> set rs" for x
  proof -
    from that have "x \<in> set gaps" unfolding r(2) by (rule in_set_takeD)
    then have "unat (crTo x) \<in> blocks_of gaps" by (rule spaced_to_mem [OF g(1)])
    then show ?thesis unfolding bl by auto
  qed
  moreover have "?b \<le> unat end \<longrightarrow> int (length (sQueue s)) < sMaxSlots s \<longrightarrow> rs \<noteq> []"
    using bl unfolding r(2) by (cases gaps) auto
  moreover have "\<forall>r \<in> set rs. range_size r \<le> unat sz" using g(2) r(2) in_set_takeD by metis
  ultimately show ?thesis using r(3) sp cr by (intro exI [of _ rs]) simp
qed

end

section \<open>The properties of the slots\<close>

text \<open>
  C15. The gap search is exact: over a queue of ordered, disjoint ranges, \<open>findGaps\<close> ends and
  returns ranges in ascending order, without overlap and of at most \<open>maxSize\<close> blocks each, which
  together hold exactly the blocks from \<open>start\<close> to \<open>end\<close> (or to the last slot, if that is further)
  that no slot of the queue holds. The bounds say that block numbers stay \<open>maxSize\<close> away from
  the end of the 64-bit range.
\<close>

theorem slots_findGaps_exact:
  assumes "insertion_queue Q" and "spaced (unat start) (map slRange (sQueue s))"
    and "unat start \<le> unat end" and "0 < unat maxSize"
    and "unat end + unat maxSize < 2 ^ 64"
    and "\<forall>x \<in> set (sQueue s). unat (crTo (slRange x)) + unat maxSize < 2 ^ 64"
  shows "\<exists>rs. slots_findGaps Q s start end maxSize = Some rs \<and> spaced (unat start) rs \<and>
    (\<forall>r \<in> set rs. range_size r \<le> unat maxSize) \<and>
    blocks_of rs = {unat start..<max (Suc (unat end)) (behind (unat start) (map slRange (sQueue s)))}
      - blocks_of (map slRange (sQueue s))"
  using assms(5,6) insertion_queue.findGaps_ok [OF assms(1-4)] by simp

definition ex_slots :: slots where
  "ex_slots = \<lparr>sQueue = [\<lparr>slChunk = None, slRange = \<lparr>crFrom = 3, crTo = 4\<rparr>\<rparr>], sMaxSlots = 2\<rparr>"

theorem slots_findGaps_exact_witness:
  "\<exists>rs. slots_findGaps ref_queue ex_slots 1 10 3 = Some rs \<and> blocks_of rs = {1..<11} - {3..4} \<and>
     (\<forall>r \<in> set rs. range_size r \<le> 3)"
  using slots_findGaps_exact [OF ref_queue.insertion_queue_axioms, of 1 ex_slots 10 3]
  by (auto simp: ex_slots_def)

text \<open>
  C16. Reserving ranges never panics and never overfills the queue: it returns the first gaps that
  fit into the free slots, and the new queue holds the old slots and an empty slot for each of
  them, again in order and without overlap, so no block is ever handed out twice.
\<close>

theorem slots_reserveChunkRanges_sound:
  assumes "insertion_queue Q" and "spaced (unat start) (map slRange (sQueue s))"
    and "unat start \<le> unat end" and "0 < unat maxSize"
    and "unat end + unat maxSize < 2 ^ 64"
    and "\<forall>x \<in> set (sQueue s). unat (crTo (slRange x)) + unat maxSize < 2 ^ 64"
    and "int (length (sQueue s)) \<le> sMaxSlots s"
  shows "\<exists>gaps rs q. slots_findGaps Q s start end maxSize = Some gaps \<and>
    rs = take (nat (sMaxSlots s) - length (sQueue s)) gaps \<and>
    slots_reserveChunkRanges Q s start end maxSize = Some (Ret (rs, s\<lparr>sQueue := q\<rparr>)) \<and>
    spaced (unat start) (map slRange q) \<and>
    mset q = mset (sQueue s) + mset (map (\<lambda>r. \<lparr>slChunk = None, slRange = r\<rparr>) rs) \<and>
    int (length q) \<le> sMaxSlots s"
  using assms(5,6,7) insertion_queue.reserve_ok [OF assms(1-4)] by auto

theorem slots_reserveChunkRanges_sound_witness:
  "\<exists>rs q. slots_reserveChunkRanges ref_queue ex_slots 1 10 3 = Some (Ret (rs, ex_slots\<lparr>sQueue := q\<rparr>)) \<and>
     spaced 1 (map slRange q) \<and> length q \<le> 2"
  using slots_reserveChunkRanges_sound [OF ref_queue.insertion_queue_axioms, of 1 ex_slots 10 3]
  by (auto simp: ex_slots_def)

lemma divide_zero_Some: "findGaps_divide sz to i = Some rs \<Longrightarrow> sz = 0 \<longrightarrow> \<not> i \<le> to"
  by (rule findGaps_divide.raw_induct [of "\<lambda>sz to i rs. sz = 0 \<longrightarrow> \<not> i \<le> to"])
     (auto simp: Let_def Option.bind_eq_Some_conv split: if_splits)

text \<open>
  A chunk size of 0 hangs the search: on an empty queue, with any block to fetch, the loop that
  divides the gap never ends (so the option \<open>WithMaxChunkSize(0)\<close> stops the fetcher for good).
\<close>

theorem slots_findGaps_zero_hangs:
  assumes "insertion_queue Q" and "sQueue s = []" and "start \<le> end" and "end - start \<noteq> - 1"
  shows "slots_findGaps Q s start end 0 = None"
proof -
  have "\<not> end - start + 1 \<le> 0"
    using assms(4) by (simp add: eq_neg_iff_add_eq_0)
  moreover have "findGaps_divide 0 end start = None"
    using divide_zero_Some [of 0 "end" start] assms(3) by (cases "findGaps_divide 0 end start") auto
  ultimately show ?thesis
    using assms(2) insertion_queue.len [OF assms(1)] by (simp add: slots_findGaps_def)
qed

theorem slots_findGaps_zero_hangs_witness:
  "slots_findGaps ref_queue \<lparr>sQueue = [], sMaxSlots = 100\<rparr> 1 5 0 = None"
  by (rule slots_findGaps_zero_hangs [OF ref_queue.insertion_queue_axioms]) simp_all

end
