(* ===== verification/Node_Client.thy ===== *)
theory Node_Client
  imports Chain_Types
begin

text \<open>
  The client of the node: the interface of \<open>fetch/types.go\<close> and \<open>client/types\<close> as a record of
  operations over a client state (the state stands for everything the answers depend on, so two
  calls may differ), and the HTTP client of \<open>client/http.go\<close> and \<open>client/batch.go\<close>, which wraps
  the RPC client of \<open>tm2\<close>. The latter is outside the repository and an argument.
\<close>

section \<open>What the node answers\<close>

record result_block =
  rbBlock :: block

text \<open>\<open>rrResults\<close> is the pointer to the ABCI responses, of which only \<open>DeliverTxs\<close> is read.\<close>

record result_block_results =
  rrHeight :: i64
  rrResults :: "deliver_tx list option"

text \<open>The dynamic type of the genesis state; the second constructor carries the type's name.\<close>

datatype app_state = GnoGenesisState "std_tx list" | OtherState string

record genesis_doc =
  gdTime :: gotime
  gdChainID :: string
  gdAppState :: app_state

record result_genesis =
  rgGenesis :: "genesis_doc option"

text \<open>A value of type \<open>any\<close> in the answer to a batch.\<close>

datatype rpc_any = AnyBlock result_block | AnyResults result_block_results | AnyOther string

section \<open>Contexts\<close>

text \<open>
  A context, as a call sees it: whether it is done before the call made in a state of the client returns. A call whose context is
  done may fail. \<open>context.Background()\<close> is never done.
\<close>

type_synonym 'c ctx = "'c \<Rightarrow> bool"

definition Background :: "'c ctx" where "Background c = False"

section \<open>The client interface\<close>

record ('c, 'b) client =
  c_GetLatestBlockNumber :: "'c ctx \<Rightarrow> 'c \<Rightarrow> (go_error + u64) \<times> 'c"
  c_GetBlock :: "'c ctx \<Rightarrow> 'c \<Rightarrow> u64 \<Rightarrow> (go_error + result_block) \<times> 'c"
  c_GetGenesis :: "'c ctx \<Rightarrow> 'c \<Rightarrow> (go_error + result_genesis) \<times> 'c"
  c_GetBlockResults :: "'c ctx \<Rightarrow> 'c \<Rightarrow> u64 \<Rightarrow> (go_error + result_block_results) \<times> 'c"
  c_CreateBatch :: "'c \<Rightarrow> 'b"
  b_AddBlockRequest :: "'b \<Rightarrow> u64 \<Rightarrow> go_error option \<times> 'b"
  b_AddBlockResultsRequest :: "'b \<Rightarrow> u64 \<Rightarrow> go_error option \<times> 'b"
  b_Execute :: "'b \<Rightarrow> 'c ctx \<Rightarrow> 'c \<Rightarrow> (go_error + rpc_any list) \<times> 'c"
  b_Count :: "'b \<Rightarrow> int"

section \<open>The HTTP client\<close>

record ('r, 'rb) rpc_client =
  r_Status :: "'r ctx \<Rightarrow> 'r \<Rightarrow> (go_error + i64) \<times> 'r"
  r_Block :: "'r ctx \<Rightarrow> 'r \<Rightarrow> i64 \<Rightarrow> (go_error + result_block) \<times> 'r"
  r_Genesis :: "'r ctx \<Rightarrow> 'r \<Rightarrow> (go_error + result_genesis) \<times> 'r"
  r_BlockResults :: "'r ctx \<Rightarrow> 'r \<Rightarrow> i64 \<Rightarrow> (go_error + result_block_results) \<times> 'r"
  r_NewBatch :: "'r \<Rightarrow> 'rb"
  rb_Block :: "'rb \<Rightarrow> i64 \<Rightarrow> go_error option \<times> 'rb"
  rb_BlockResults :: "'rb \<Rightarrow> i64 \<Rightarrow> go_error option \<times> 'rb"
  rb_Send :: "'rb \<Rightarrow> 'r ctx \<Rightarrow> 'r \<Rightarrow> (go_error + rpc_any list) \<times> 'r"
  rb_Count :: "'rb \<Rightarrow> int"

text \<open>The error of a call wrapped with the text the client adds.\<close>

definition wrap_result :: "string \<Rightarrow> (go_error + 'a) \<times> 'r \<Rightarrow> (go_error + 'a) \<times> 'r" where
  "wrap_result msg = map_prod (map_sum (\<lambda>err. ErrWrap msg [err]) id) id"

definition Client_GetLatestBlockNumber :: "('r, 'rb) rpc_client \<Rightarrow> 'r ctx \<Rightarrow> 'r \<Rightarrow> (go_error + u64) \<times> 'r" where
  "Client_GetLatestBlockNumber R ctx c = wrap_result ''unable to get chain status, %w'' (r_Status R ctx c)"

definition Client_GetBlock :: "('r, 'rb) rpc_client \<Rightarrow> 'r ctx \<Rightarrow> 'r \<Rightarrow> u64 \<Rightarrow> (go_error + result_block) \<times> 'r" where
  "Client_GetBlock R ctx c blockNum = wrap_result ''unable to get block, %w'' (r_Block R ctx c blockNum)"

definition Client_GetGenesis :: "('r, 'rb) rpc_client \<Rightarrow> 'r ctx \<Rightarrow> 'r \<Rightarrow> (go_error + result_genesis) \<times> 'r" where
  "Client_GetGenesis R ctx c = wrap_result ''unable to get genesis block, %w'' (r_Genesis R ctx c)"

definition Client_GetBlockResults :: "('r, 'rb) rpc_client \<Rightarrow> 'r ctx \<Rightarrow> 'r \<Rightarrow> u64 \<Rightarrow> (go_error + result_block_results) \<times> 'r" where
  "Client_GetBlockResults R ctx c blockNum =
     wrap_result ''unable to get block results, %w'' (r_BlockResults R ctx c blockNum)"

definition Client_CreateBatch :: "('r, 'rb) rpc_client \<Rightarrow> 'r \<Rightarrow> 'rb" where
  "Client_CreateBatch R c = r_NewBatch R c"

definition Batch_AddBlockRequest :: "('r, 'rb) rpc_client \<Rightarrow> 'rb \<Rightarrow> u64 \<Rightarrow> go_error option \<times> 'rb" where
  "Batch_AddBlockRequest R b blockNum =
     map_prod (map_option (\<lambda>err. ErrWrap ''unable to add block request, %w'' [err])) id
       (rb_Block R b blockNum)"

definition Batch_AddBlockResultsRequest :: "('r, 'rb) rpc_client \<Rightarrow> 'rb \<Rightarrow> u64 \<Rightarrow> go_error option \<times> 'rb" where
  "Batch_AddBlockResultsRequest R b blockNum =
     map_prod (map_option (\<lambda>err. ErrWrap ''unable to add block results request, %w'' [err])) id
       (rb_BlockResults R b blockNum)"

definition Batch_Execute :: "('r, 'rb) rpc_client \<Rightarrow> 'rb \<Rightarrow> 'r ctx \<Rightarrow> 'r \<Rightarrow> (go_error + rpc_any list) \<times> 'r" where
  "Batch_Execute R b ctx c = rb_Send R b ctx c"

definition Batch_Count :: "('r, 'rb) rpc_client \<Rightarrow> 'rb \<Rightarrow> int" where
  "Batch_Count R b = rb_Count R b"

definition http_client :: "('r, 'rb) rpc_client \<Rightarrow> ('r, 'rb) client" where
  "http_client R = \<lparr>
     c_GetLatestBlockNumber = Client_GetLatestBlockNumber R,
     c_GetBlock = Client_GetBlock R,
     c_GetGenesis = Client_GetGenesis R,
     c_GetBlockResults = Client_GetBlockResults R,
     c_CreateBatch = Client_CreateBatch R,
     b_AddBlockRequest = Batch_AddBlockRequest R,
     b_AddBlockResultsRequest = Batch_AddBlockResultsRequest R,
     b_Execute = Batch_Execute R,
     b_Count = Batch_Count R\<rparr>"

end
