(* ===== verification/Fetch_Worker.thy ===== *)
theory Fetch_Worker
  imports Fetch_Slots Node_Client
begin

text \<open>
  The workers of \<open>fetch/worker.go\<close>: a worker asks the node for the blocks of one range and for the
  results of their transactions, in one batch each, and falls back to single requests when the
  batch fails. The functions return both a value and an error, as the Go functions do; a loop
  that would not end is \<open>None\<close>, a nil dereference or an index out of range is a panic.
\<close>

record workerResponse =
  wrError :: "go_error option"
  wrChunk :: "chunk option"
  wrRange :: chunkRange

section \<open>Blocks\<close>

text \<open>
  The loop \<open>for blockNum := from; blockNum <= to; blockNum++\<close> of the batch requests. At the largest
  64-bit number the condition never fails.
\<close>

partial_function (option) addBlockRequests ::
    "('c, 'b) client \<Rightarrow> 'b \<Rightarrow> u64 \<Rightarrow> u64 \<Rightarrow> (go_error + 'b) option" where
  "addBlockRequests Cl batch blockNum to =
     (if blockNum \<le> to then
        (case b_AddBlockRequest Cl batch blockNum of
           (Some err, _) \<Rightarrow> Some (Inl (ErrWrap ''unable to add block request for block %d, %w'' [err]))
         | (None, batch) \<Rightarrow> addBlockRequests Cl batch (blockNum + 1) to)
      else Some (Inr batch))"

partial_function (option) getBlocksSequentially_loop ::
    "('c, 'b) client \<Rightarrow> 'c ctx \<Rightarrow> 'c \<Rightarrow> u64 \<Rightarrow> u64 \<Rightarrow> go_error option list \<Rightarrow> block list \<Rightarrow>
     ((go_error option list \<times> block list) \<times> 'c) option" where
  "getBlocksSequentially_loop Cl ctx c blockNum to errs blocks =
     (if blockNum \<le> to then
        (case c_GetBlock Cl ctx c blockNum of
           (Inl err, c) \<Rightarrow> getBlocksSequentially_loop Cl ctx c (blockNum + 1) to
             (errs @ [Some (ErrWrap ''unable to get block %d, %w'' [err])]) blocks
         | (Inr rb, c) \<Rightarrow> getBlocksSequentially_loop Cl ctx c (blockNum + 1) to errs (blocks @ [rbBlock rb]))
      else Some ((errs, blocks), c))"

definition getBlocksSequentially ::
    "('c, 'b) client \<Rightarrow> 'c ctx \<Rightarrow> 'c \<Rightarrow> chunkRange \<Rightarrow> ((block list \<times> go_error option) \<times> 'c) option" where
  "getBlocksSequentially Cl ctx c cr =
     map_option (\<lambda>((errs, blocks), c). ((blocks, errorsJoin errs), c))
       (getBlocksSequentially_loop Cl ctx c (crFrom cr) (crTo cr) [] [])"

text \<open>The loop that extracts the blocks: a value of another type ends it.\<close>

fun castBlocks :: "rpc_any list \<Rightarrow> block list option" where
  "castBlocks [] = Some []"
| "castBlocks (AnyBlock rb # raws) = map_option ((#) (rbBlock rb)) (castBlocks raws)"
| "castBlocks (_ # raws) = None"

definition getBlocksFromBatch ::
    "('c, 'b) client \<Rightarrow> 'c ctx \<Rightarrow> 'c \<Rightarrow> chunkRange \<Rightarrow> ((block list \<times> go_error option) \<times> 'c) option" where
  "getBlocksFromBatch Cl ctx c cr =
     Option.bind (addBlockRequests Cl (c_CreateBatch Cl c) (crFrom cr) (crTo cr)) (\<lambda>added.
       case added of
         Inl err \<Rightarrow> Some (([], Some err), c)
       | Inr batch \<Rightarrow>
           (case b_Execute Cl batch Background c of
              (Inl err, c) \<Rightarrow> getBlocksSequentially Cl ctx c cr
            | (Inr blocksRaw, c) \<Rightarrow>
                (case castBlocks blocksRaw of
                   None \<Rightarrow> Some (([], Some (ErrMsg ''unable to cast batch result into ResultBlock'')), c)
                 | Some blocks \<Rightarrow> Some ((blocks, None), c))))"

section \<open>Results\<close>

text \<open>
  \<open>make([]*types.TxResult, numTxs)\<close> and the loop that fills it from the transactions of the block
  and the responses of the node.
\<close>

fun fillResults ::
    "i64 \<Rightarrow> nat \<Rightarrow> bytes list \<Rightarrow> deliver_tx list \<Rightarrow> tx_result option list \<Rightarrow> tx_result option list outcome" where
  "fillResults height txIndex [] deliverTxs txResults = Ret txResults"
| "fillResults height txIndex (tx # txs) deliverTxs txResults =
     (if length deliverTxs \<le> txIndex \<or> length txResults \<le> txIndex then Panic ''index out of range''
      else fillResults height (Suc txIndex) txs deliverTxs
             (txResults[txIndex := Some \<lparr>trHeight = height, trIndex = of_nat txIndex, trTx = tx,
                                         trResponse = deliverTxs ! txIndex\<rparr>]))"

definition makeResults :: "i64 \<Rightarrow> i64 \<Rightarrow> bytes list \<Rightarrow> deliver_tx list \<Rightarrow> tx_result option list outcome" where
  "makeResults height numTxs txs deliverTxs =
     (if sint numTxs < 0 then Panic ''makeslice: len out of range''
      else fillResults height 0 txs deliverTxs (replicate (nat (sint numTxs)) None))"

fun getTxResultsSequentially_loop ::
    "('c, 'b) client \<Rightarrow> 'c ctx \<Rightarrow> 'c \<Rightarrow> block list \<Rightarrow>
     ((go_error option list \<times> tx_result option list list) \<times> 'c) outcome" where
  "getTxResultsSequentially_loop Cl ctx c [] = Ret (([], []), c)"
| "getTxResultsSequentially_loop Cl ctx c (block # blocks) =
     (if bNumTxs block = 0 then
        bindO (getTxResultsSequentially_loop Cl ctx c blocks) (\<lambda>((errs, rs), c). Ret ((errs, [] # rs), c))
      else
        (case c_GetBlockResults Cl ctx c (bHeight block) of
           (Inl err, c) \<Rightarrow>
             bindO (getTxResultsSequentially_loop Cl ctx c blocks) (\<lambda>((errs, rs), c).
               Ret ((Some (ErrWrap ''unable to get block results for block %d, %w'' [err]) # errs, [] # rs), c))
         | (Inr blockResults, c) \<Rightarrow>
             (if 0 \<le> sint (bNumTxs block) \<and> bTxs block \<noteq> [] \<and> rrResults blockResults = None
              then Panic ''nil pointer dereference''
              else
                bindO (makeResults (bHeight block) (bNumTxs block) (bTxs block)
                         (deref [] (rrResults blockResults))) (\<lambda>txResults.
                bindO (getTxResultsSequentially_loop Cl ctx c blocks) (\<lambda>((errs, rs), c).
                  Ret ((errs, txResults # rs), c))))))"

definition getTxResultsSequentially ::
    "('c, 'b) client \<Rightarrow> 'c ctx \<Rightarrow> 'c \<Rightarrow> block list \<Rightarrow>
     ((tx_result option list list \<times> go_error option) \<times> 'c) outcome" where
  "getTxResultsSequentially Cl ctx c blocks =
     bindO (getTxResultsSequentially_loop Cl ctx c blocks) (\<lambda>((errs, rs), c). Ret ((rs, errorsJoin errs), c))"

text \<open>The requests for the blocks that have transactions.\<close>

fun addResultsRequests :: "('c, 'b) client \<Rightarrow> 'b \<Rightarrow> block list \<Rightarrow> go_error + 'b" where
  "addResultsRequests Cl batch [] = Inr batch"
| "addResultsRequests Cl batch (block # blocks) =
     (if bNumTxs block = 0 then addResultsRequests Cl batch blocks
      else (case b_AddBlockResultsRequest Cl batch (bHeight block) of
              (Some err, _) \<Rightarrow>
                Inl (ErrWrap ''unable to add block results request for block %d, %w'' [err])
            | (None, batch) \<Rightarrow> addResultsRequests Cl batch blocks))"

text \<open>The map from heights to indexes; a lookup that misses gives 0.\<close>

definition indexOfBlockHeight :: "block list \<Rightarrow> i64 \<Rightarrow> nat" where
  "indexOfBlockHeight blocks h =
     (case map_of (rev (zip (map (\<lambda>b. bHeight b) blocks) [0..<length blocks])) h of
        None \<Rightarrow> 0 | Some i \<Rightarrow> i)"

fun extractResults ::
    "block list \<Rightarrow> nat \<Rightarrow> rpc_any list \<Rightarrow> tx_result option list list \<Rightarrow>
     (tx_result option list list \<times> go_error option) outcome" where
  "extractResults blocks resultsIndex [] fetched = Ret (fetched, None)"
| "extractResults blocks resultsIndex (AnyResults results # raws) fetched =
     (case rrResults results of
        None \<Rightarrow> Panic ''nil pointer dereference''
      | Some deliverTxs \<Rightarrow>
          let height = rrHeight results;
              blockIndex = indexOfBlockHeight blocks height
          in if length blocks \<le> blockIndex then Panic ''index out of range''
             else bindO (makeResults height (bNumTxs (blocks ! blockIndex)) (bTxs (blocks ! blockIndex))
                           deliverTxs) (\<lambda>txResults.
                    if length fetched \<le> resultsIndex then Panic ''index out of range''
                    else extractResults blocks (Suc resultsIndex) raws (fetched[resultsIndex := txResults])))"
| "extractResults blocks resultsIndex (_ # raws) fetched =
     Ret ([], Some (ErrMsg ''unable to cast batch result into ResultBlockResults''))"

definition getTxResultFromBatch ::
    "('c, 'b) client \<Rightarrow> 'c ctx \<Rightarrow> 'c \<Rightarrow> block list \<Rightarrow>
     ((tx_result option list list \<times> go_error option) \<times> 'c) outcome" where
  "getTxResultFromBatch Cl ctx c blocks =
     (let fetchedResults = replicate (length blocks) [] in
      case addResultsRequests Cl (c_CreateBatch Cl c) blocks of
        Inl err \<Rightarrow> Ret (([], Some err), c)
      | Inr batch \<Rightarrow>
          if b_Count Cl batch = 0 then Ret ((fetchedResults, None), c)
          else
            (case b_Execute Cl batch Background c of
               (Inl err, c) \<Rightarrow> getTxResultsSequentially Cl ctx c blocks
             | (Inr blockResultsRaw, c) \<Rightarrow>
                 bindO (extractResults blocks 0 blockResultsRaw fetchedResults) (\<lambda>r. Ret (r, c))))"

section \<open>A worker\<close>

text \<open>
  The response a worker sends (or drops when the context is done): always with a chunk, also when
  there was an error.
\<close>

definition handleChunk ::
    "('c, 'b) client \<Rightarrow> 'c ctx \<Rightarrow> 'c \<Rightarrow> chunkRange \<Rightarrow> (workerResponse \<times> 'c) outcome option" where
  "handleChunk Cl ctx c cr =
     Option.bind (getBlocksFromBatch Cl ctx c cr) (\<lambda>((blocks, err1), c).
       Some (bindO (getTxResultFromBatch Cl ctx c blocks) (\<lambda>((results, err2), c).
         Ret (\<lparr>wrError = errorsJoin [err1, err2],
               wrChunk = Some \<lparr>ckBlocks = blocks, ckResults = results\<rparr>, wrRange = cr\<rparr>, c))))"

section \<open>What the worker collects\<close>

text \<open>The results of a block in the order of its transactions.\<close>

definition blockResults :: "i64 \<Rightarrow> bytes list \<Rightarrow> deliver_tx list \<Rightarrow> tx_result option list" where
  "blockResults height txs d =
     map (\<lambda>k. Some \<lparr>trHeight = height, trIndex = of_nat k, trTx = txs ! k, trResponse = d ! k\<rparr>)
       [0..<length txs]"

text \<open>A block whose header counts its transactions.\<close>

definition block_wf :: "block \<Rightarrow> bool" where
  "block_wf b \<longleftrightarrow> sint (bNumTxs b) = int (length (bTxs b))"

lemma fillResults_ok:
  assumes "length txs \<le> length d" "length acc = length txs" "i \<le> length txs"
  shows "fillResults h i (drop i txs) d acc = Ret (take i acc @
    map (\<lambda>k. Some \<lparr>trHeight = h, trIndex = of_nat k, trTx = txs ! k, trResponse = d ! k\<rparr>) [i..<length txs])"
  using assms
proof (induction "length txs - i" arbitrary: i acc)
  case (Suc n)
  then have i: "i < length txs" by simp
  let ?r = "Some \<lparr>trHeight = h, trIndex = of_nat i, trTx = txs ! i, trResponse = d ! i\<rparr>"
  have "fillResults h i (drop i txs) d acc = fillResults h (Suc i) (drop (Suc i) txs) d (acc[i := ?r])"
    using i Suc.prems by (simp flip: Cons_nth_drop_Suc)
  also have "\<dots> = Ret (take (Suc i) (acc[i := ?r]) @
      map (\<lambda>k. Some \<lparr>trHeight = h, trIndex = of_nat k, trTx = txs ! k, trResponse = d ! k\<rparr>) [Suc i..<length txs])"
    using Suc i by (intro Suc.hyps(1)) auto
  finally show ?case using i Suc.prems by (simp add: take_Suc_conv_app_nth upt_conv_Cons)
qed simp

lemma makeResults_ok:
  assumes "sint numTxs = int (length txs)" "length txs \<le> length d"
  shows "makeResults h numTxs txs d = Ret (blockResults h txs d)"
  using fillResults_ok [OF assms(2), of "replicate (length txs) None" 0 h] assms(1)
  by (simp add: makeResults_def blockResults_def)

lemma fillResults_short:
  "i \<le> length d \<Longrightarrow> length d < i + length txs \<Longrightarrow> \<exists>m. fillResults h i txs d acc = Panic m"
  by (induction txs arbitrary: i acc) (auto simp: Suc_le_eq)

lemma makeResults_Ret:
  assumes "makeResults h (bNumTxs b) (bTxs b) d = Ret r" "block_wf b"
  shows "length (bTxs b) \<le> length d \<and> r = blockResults h (bTxs b) d"
proof (cases "length (bTxs b) \<le> length d")
  case True
  with assms makeResults_ok show ?thesis by (simp add: block_wf_def)
next
  case False
  with fillResults_short [of 0 d "bTxs b"] assms show ?thesis
    by (auto simp: makeResults_def split: if_splits) (metis outcome.distinct(1))+
qed

lemma sequential_aligned:
  assumes "getTxResultsSequentially_loop Cl ctx c blocks = Ret ((errs, rs), c')" "\<forall>b \<in> set blocks. block_wf b"
  shows "list_all2 (\<lambda>b r. r = [] \<or> (\<exists>d. length (bTxs b) \<le> length d \<and> r = blockResults (bHeight b) (bTxs b) d))
    blocks rs"
  using assms
proof (induction blocks arbitrary: c errs rs)
  case (Cons b blocks)
  show ?case
  proof (cases "bNumTxs b = 0 \<or> isl (fst (c_GetBlockResults Cl ctx c (bHeight b)))")
    case True
    with Cons show ?thesis by (auto simp: bindO_Ret_iff split: sum.splits prod.splits if_splits)
  next
    case False
    then obtain res c1 where res: "c_GetBlockResults Cl ctx c (bHeight b) = (Inr res, c1)"
      by (metis not_islD prod.collapse)
    from Cons.prems(1) False res obtain r errs' rs' where
      r: "makeResults (bHeight b) (bNumTxs b) (bTxs b) (deref [] (rrResults res)) = Ret r"
        "getTxResultsSequentially_loop Cl ctx c1 blocks = Ret ((errs', rs'), c')" "rs = r # rs'"
      by (auto simp: bindO_Ret_iff split: if_splits)
    from makeResults_Ret [OF r(1)] Cons.prems(2) have
      "length (bTxs b) \<le> length (deref [] (rrResults res)) \<and>
       r = blockResults (bHeight b) (bTxs b) (deref [] (rrResults res))" by simp
    with Cons.IH [OF r(2)] Cons.prems(2) r(3) show ?thesis by auto
  qed
qed simp

lemma indexOfBlockHeight_nth:
  assumes "distinct (map (\<lambda>b. bHeight b) blocks)" "k < length blocks"
  shows "indexOfBlockHeight blocks (bHeight (blocks ! k)) = k"
proof -
  let ?z = "zip (map (\<lambda>b. bHeight b) blocks) [0..<length blocks]"
  have "distinct (map fst (rev ?z))" using assms(1) by (simp flip: rev_map)
  moreover have "(bHeight (blocks ! k), k) \<in> set (rev ?z)"
    using assms(2) by (force simp: in_set_zip)
  ultimately have "map_of (rev ?z) (bHeight (blocks ! k)) = Some k" by (rule map_of_is_SomeI)
  then show ?thesis by (simp add: indexOfBlockHeight_def)
qed

text \<open>The answer of a node to the request for the results of a block.\<close>

definition answer :: "(block \<Rightarrow> deliver_tx list) \<Rightarrow> block \<Rightarrow> rpc_any" where
  "answer D b = AnyResults \<lparr>rrHeight = bHeight b, rrResults = Some (D b)\<rparr>"

lemma extractResults_ok:
  assumes "distinct (map (\<lambda>b. bHeight b) blocks)" "set bs \<subseteq> set blocks"
    and "\<forall>b \<in> set bs. block_wf b \<and> length (bTxs b) \<le> length (D b)" "j + length bs \<le> length fetched"
  shows "extractResults blocks j (map (answer D) bs) fetched =
    Ret (take j fetched @ map (\<lambda>b. blockResults (bHeight b) (bTxs b) (D b)) bs @
      drop (j + length bs) fetched, None)"
  using assms(2-4)
proof (induction bs arbitrary: j fetched)
  case (Cons b bs)
  from Cons.prems(1) obtain k where k: "k < length blocks" "blocks ! k = b" by (auto simp: in_set_conv_nth)
  with indexOfBlockHeight_nth [OF assms(1) k(1)] have idx: "indexOfBlockHeight blocks (bHeight b) = k" by simp
  have mk: "makeResults (bHeight b) (bNumTxs b) (bTxs b) (D b) = Ret (blockResults (bHeight b) (bTxs b) (D b))"
    using Cons.prems(2) by (intro makeResults_ok) (auto simp: block_wf_def)
  have "extractResults blocks j (map (answer D) (b # bs)) fetched =
      extractResults blocks (Suc j) (map (answer D) bs) (fetched[j := blockResults (bHeight b) (bTxs b) (D b)])"
    using k idx mk Cons.prems(3) by (simp add: answer_def)
  with Cons show ?case by (simp add: take_Suc_conv_app_nth)
qed simp

section \<open>The properties of the worker\<close>

text \<open>
  Single requests keep results and blocks aligned: whatever the node answers, the entry for
  each block is empty (an empty block, or one whose request failed) or lists the results of that
  very block, one per transaction and in order. \<open>block_wf\<close> says that the header counts the
  transactions of its block.
\<close>

theorem getTxResultsSequentially_aligned:
  assumes "getTxResultsSequentially Cl ctx c blocks = Ret ((results, err), c')"
    and "\<forall>b \<in> set blocks. block_wf b"
  shows "list_all2 (\<lambda>b r. r = [] \<or>
    (\<exists>d. length (bTxs b) \<le> length d \<and> r = blockResults (bHeight b) (bTxs b) d)) blocks results"
  using assms sequential_aligned
  by (fastforce simp: getTxResultsSequentially_def bindO_Ret_iff)

text \<open>
  Batch requests do not keep them aligned: when the node answers the batch in order, the
  results of the blocks that have transactions come first, one entry after the other, and the
  entries left over are empty. The k-th entry so belongs to the k-th block only as long as no empty
  block comes before it; after an empty block the results move to the entry of an earlier block.
\<close>

theorem getTxResultFromBatch_compacts:
  fixes blocks :: "block list"
  defines "full \<equiv> filter (\<lambda>b. bNumTxs b \<noteq> 0) blocks"
  assumes "addResultsRequests Cl (c_CreateBatch Cl c) blocks = Inr batch" and "b_Count Cl batch \<noteq> 0"
    and "b_Execute Cl batch Background c = (Inr (map (answer D) full), c')"
    and "distinct (map (\<lambda>b. bHeight b) blocks)"
    and "\<forall>b \<in> set full. block_wf b \<and> length (bTxs b) \<le> length (D b)"
  shows "getTxResultFromBatch Cl ctx c blocks =
    Ret ((map (\<lambda>b. blockResults (bHeight b) (bTxs b) (D b)) full @
          replicate (length blocks - length full) [], None), c')"
proof -
  have "length full \<le> length blocks" "set full \<subseteq> set blocks" unfolding full_def by auto
  with extractResults_ok [OF assms(5), of full D 0 "replicate (length blocks) []"] assms(2-6)
  show ?thesis by (simp add: getTxResultFromBatch_def)
qed

text \<open>A node that answers every request for the blocks it is given.\<close>

definition ex_node :: "block list \<Rightarrow> (unit, rpc_any list) client" where
  "ex_node blocks = \<lparr>
     c_GetLatestBlockNumber = (\<lambda>ctx c. (Inr (of_nat (length blocks)), c)),
     c_GetBlock = (\<lambda>ctx c n. (case find (\<lambda>b. bHeight b = n) blocks of
        None \<Rightarrow> Inl (ErrMsg ''no block'') | Some b \<Rightarrow> Inr \<lparr>rbBlock = b\<rparr>, c)),
     c_GetGenesis = (\<lambda>ctx c. (Inr \<lparr>rgGenesis = None\<rparr>, c)),
     c_GetBlockResults = (\<lambda>ctx c n. (case find (\<lambda>b. bHeight b = n) blocks of
        None \<Rightarrow> Inl (ErrMsg ''no block'')
      | Some b \<Rightarrow> Inr \<lparr>rrHeight = n, rrResults = Some (map (\<lambda>t. zero_response) (bTxs b))\<rparr>, c)),
     c_CreateBatch = (\<lambda>c. []),
     b_AddBlockRequest = (\<lambda>b n. (None, b @ (case find (\<lambda>x. bHeight x = n) blocks of
        None \<Rightarrow> [] | Some x \<Rightarrow> [AnyBlock \<lparr>rbBlock = x\<rparr>]))),
     b_AddBlockResultsRequest = (\<lambda>b n. (None, b @ (case find (\<lambda>x. bHeight x = n) blocks of
        None \<Rightarrow> [] | Some x \<Rightarrow> [answer (\<lambda>b. map (\<lambda>t. zero_response) (bTxs b)) x]))),
     b_Execute = (\<lambda>b ctx c. (Inr b, c)),
     b_Count = (\<lambda>b. int (length b))\<rparr>"

text \<open>A node that has every block of a chain; a batch holds the block and the results requests.\<close>

definition chain_node :: "(u64 \<Rightarrow> block) \<Rightarrow> u64 \<Rightarrow> (unit, u64 list \<times> u64 list) client" where
  "chain_node chain tip = \<lparr>
     c_GetLatestBlockNumber = (\<lambda>ctx c. (Inr tip, c)),
     c_GetBlock = (\<lambda>ctx c n. (Inr \<lparr>rbBlock = chain n\<rparr>, c)),
     c_GetGenesis = (\<lambda>ctx c. (Inr \<lparr>rgGenesis = None\<rparr>, c)),
     c_GetBlockResults = (\<lambda>ctx c n.
       (Inr \<lparr>rrHeight = n, rrResults = Some (map (\<lambda>t. zero_response) (bTxs (chain n)))\<rparr>, c)),
     c_CreateBatch = (\<lambda>c. ([], [])),
     b_AddBlockRequest = (\<lambda>(bs, rs) n. (None, (bs @ [n], rs))),
     b_AddBlockResultsRequest = (\<lambda>(bs, rs) n. (None, (bs, rs @ [n]))),
     b_Execute = (\<lambda>(bs, rs) ctx c.
       (Inr (if bs \<noteq> [] then map (\<lambda>n. AnyBlock \<lparr>rbBlock = chain n\<rparr>) bs
             else map (\<lambda>n. answer (\<lambda>b. map (\<lambda>t. zero_response) (bTxs b)) (chain n)) rs), c)),
     b_Count = (\<lambda>(bs, rs). int (length bs + length rs))\<rparr>"

theorem getTxResultsSequentially_aligned_witness:
  "\<exists>results err. getTxResultsSequentially (ex_node [mk_block 1 0 [], mk_block 2 0 [[7]]]) Background ()
       [mk_block 1 0 [], mk_block 2 0 [[7]]] = Ret ((results, err), ()) \<and>
     list_all2 (\<lambda>b r. r = [] \<or> (\<exists>d. length (bTxs b) \<le> length d \<and> r = blockResults (bHeight b) (bTxs b) d))
       [mk_block 1 0 [], mk_block 2 0 [[7]]] results"
proof -
  let ?bs = "[mk_block 1 0 [], mk_block 2 0 [[7]]]"
  have r: "getTxResultsSequentially (ex_node ?bs) Background () ?bs = Ret (([[], [Some (mk_result 2 0 [7])]], None), ())"
    by code_simp
  have "\<forall>b \<in> set ?bs. block_wf b" by (simp add: block_wf_def mk_block_def)
  from getTxResultsSequentially_aligned [OF r this] r show ?thesis by (intro exI conjI)
qed

theorem getTxResultFromBatch_compacts_witness:
  "getTxResultFromBatch (ex_node [mk_block 1 0 [], mk_block 2 0 [[7]]]) Background ()
     [mk_block 1 0 [], mk_block 2 0 [[7]]] = Ret (([[Some (mk_result 2 0 [7])], []], None), ())"
proof -
  let ?bs = "[mk_block 1 0 [], mk_block 2 0 [[7]]]" and ?D = "\<lambda>b. map (\<lambda>t. zero_response) (bTxs b)"
  let ?N = "ex_node ?bs"
  have full: "filter (\<lambda>b. bNumTxs b \<noteq> 0) ?bs = [mk_block 2 0 [[7]]]" by (simp add: mk_block_def)
  have "addResultsRequests ?N (c_CreateBatch ?N ()) ?bs = Inr [answer ?D (mk_block 2 0 [[7]])]"
    by (simp add: ex_node_def mk_block_def)
  from getTxResultFromBatch_compacts [OF this, of ?D "()", unfolded full] show ?thesis
    by (simp add: ex_node_def mk_block_def block_wf_def blockResults_def mk_result_def)
qed

lemma blockNums_induct:
  fixes n to :: u64
  assumes "to \<noteq> - 1" and step: "\<And>n. (n \<le> to \<Longrightarrow> Q (n + 1)) \<Longrightarrow> Q n"
  shows "Q n"
proof (induction "Suc (unat to) - unat n" arbitrary: n rule: less_induct)
  case less
  have "unat to < 18446744073709551615"
    using assms(1) unat_bounds(3) [of to]
    by (simp add: word_unat_eq_iff unsigned_minus_1_eq_mask mask_eq_exp_minus_1)
  show ?case
  proof (rule step)
    assume "n \<le> to"
    then have "unat (n + 1) = Suc (unat n)" "unat n \<le> unat to"
      using \<open>unat to < 18446744073709551615\<close> by (auto simp: word_le_nat_alt intro: unat_plus1)
    then show "Q (n + 1)" by (intro less) simp
  qed
qed

lemma addBlockRequests_ends:
  assumes "to \<noteq> - 1"
  shows "\<exists>r. addBlockRequests Cl b n to = Some r"
  by (induction n arbitrary: b rule: blockNums_induct [OF assms])
     (subst addBlockRequests.simps, auto split: prod.splits option.splits)

lemma sequential_loop_ends:
  assumes "to \<noteq> - 1"
  shows "\<exists>r. getBlocksSequentially_loop Cl ctx c n to errs bs = Some r"
  by (induction n arbitrary: c errs bs rule: blockNums_induct [OF assms])
     (subst getBlocksSequentially_loop.simps, auto split: prod.splits sum.splits)

lemma getBlocksFromBatch_ends:
  assumes "crTo cr \<noteq> - 1"
  shows "\<exists>r. getBlocksFromBatch Cl ctx c cr = Some r"
proof -
  obtain r where "addBlockRequests Cl (c_CreateBatch Cl c) (crFrom cr) (crTo cr) = Some r"
    using addBlockRequests_ends [OF assms, of Cl "c_CreateBatch Cl c" "crFrom cr"] by blast
  moreover have "\<exists>r. getBlocksSequentially Cl ctx c' cr = Some r" for c'
    using sequential_loop_ends [OF assms, of Cl ctx c' "crFrom cr" "[]" "[]"]
    by (auto simp: getBlocksSequentially_def)
  ultimately show ?thesis
    by (auto simp: getBlocksFromBatch_def split: sum.splits prod.splits option.splits)
qed

text \<open>The block numbers of a range.\<close>

definition blockNums :: "u64 \<Rightarrow> u64 \<Rightarrow> u64 list" where
  "blockNums n to = map of_nat [unat n..<Suc (unat to)]"

lemma blockNums_rec:
  assumes "to \<noteq> - 1"
  shows "blockNums n to = (if n \<le> to then n # blockNums (n + 1) to else [])"
proof (cases "n \<le> to")
  case True
  have "unat to < 18446744073709551615"
    using assms unat_bounds(3) [of to]
    by (simp add: word_unat_eq_iff unsigned_minus_1_eq_mask mask_eq_exp_minus_1)
  with True have "unat (n + 1) = Suc (unat n)" by (intro unat_plus1) (auto simp: word_le_nat_alt)
  with True show ?thesis by (simp add: blockNums_def word_le_nat_alt upt_conv_Cons del: upt_Suc)
qed (simp add: blockNums_def word_le_nat_alt)

definition served :: "(u64 \<Rightarrow> go_error + result_block) \<Rightarrow> u64 list \<Rightarrow> block list" where
  "served ans ns = concat (map (\<lambda>n. case ans n of Inl _ \<Rightarrow> [] | Inr rb \<Rightarrow> [rbBlock rb]) ns)"

definition refused :: "(u64 \<Rightarrow> go_error + result_block) \<Rightarrow> u64 list \<Rightarrow> go_error option list" where
  "refused ans ns = concat (map (\<lambda>n. case ans n of
     Inl err \<Rightarrow> [Some (ErrWrap ''unable to get block %d, %w'' [err])] | Inr _ \<Rightarrow> []) ns)"

lemma sequential_loop_exact:
  assumes "to \<noteq> - 1" "\<And>n. c_GetBlock Cl ctx c n = (ans n, c)"
  shows "getBlocksSequentially_loop Cl ctx c n to errs bs =
    Some ((errs @ refused ans (blockNums n to), bs @ served ans (blockNums n to)), c)"
proof (induction n arbitrary: errs bs rule: blockNums_induct [OF assms(1)])
  case (1 n)
  note rec = blockNums_rec [OF assms(1), of n]
  show ?case
  proof (cases "n \<le> to")
    case True
    with 1 show ?thesis unfolding rec
      by (subst getBlocksSequentially_loop.simps)
         (simp add: assms(2) refused_def served_def split: sum.splits)
  next
    case False
    then show ?thesis unfolding rec
      by (subst getBlocksSequentially_loop.simps) (simp add: refused_def served_def)
  qed
qed

lemma refused_None_iff: "errorsJoin (refused ans ns) = None \<longleftrightarrow> (\<forall>n \<in> set ns. \<not> isl (ans n))"
proof -
  have "(\<forall>e \<in> set (refused ans ns). e = None) \<longleftrightarrow> (\<forall>n \<in> set ns. \<not> isl (ans n))"
  proof (induction ns)
    case (Cons n ns)
    then show ?case by (cases "ans n") (simp_all add: refused_def)
  qed (simp add: refused_def)
  then show ?thesis by (simp add: errorsJoin_None_iff)
qed

text \<open>
  Fetching block by block is exact: from a node whose answers do not change meanwhile, the
  fallback returns the blocks of the range that the node has, in ascending order, and an error
  exactly when one of them is missing.
\<close>

theorem getBlocksSequentially_exact:
  assumes "crTo cr \<noteq> - 1" and "\<And>n. c_GetBlock Cl ctx c n = (ans n, c)"
  shows "\<exists>err. getBlocksSequentially Cl ctx c cr =
      Some ((served ans (blockNums (crFrom cr) (crTo cr)), err), c) \<and>
    (err = None \<longleftrightarrow> (\<forall>n \<in> set (blockNums (crFrom cr) (crTo cr)). \<not> isl (ans n)))"
  using sequential_loop_exact [OF assms] refused_None_iff by (simp add: getBlocksSequentially_def)

theorem getBlocksSequentially_exact_witness:
  "\<exists>err. getBlocksSequentially (ex_node [mk_block 2 0 []]) Background () \<lparr>crFrom = 1, crTo = 2\<rparr> =
     Some (([mk_block 2 0 []], err), ()) \<and> err \<noteq> None"
proof -
  let ?ans = "\<lambda>n. fst (c_GetBlock (ex_node [mk_block 2 0 []]) Background () n)"
  have ans: "c_GetBlock (ex_node [mk_block 2 0 []]) Background () n = (?ans n, ())" for n by (simp add: ex_node_def)
  have ns: "blockNums 1 2 = [1, 2]" by (simp add: blockNums_def upt_conv_Cons)
  from getBlocksSequentially_exact [of "\<lparr>crFrom = 1, crTo = 2\<rparr>", OF _ ans] show ?thesis
    by (simp add: ns served_def) (simp add: ex_node_def mk_block_def)
qed

lemma handleChunk_Ret:
  "handleChunk Cl ctx c cr = Some (Ret (resp, c')) \<Longrightarrow> wrRange resp = cr \<and> wrChunk resp \<noteq> None"
  by (auto simp: handleChunk_def Option.bind_eq_Some_conv bindO_Ret_iff split: prod.splits)

text \<open>
  A worker always ends (unless its range reaches the largest 64-bit number), and what it sends
  carries its range and a chunk: a failed request is reported in the error next to the chunk, never
  by a missing chunk.
\<close>

theorem handleChunk_responds:
  assumes "crTo cr \<noteq> - 1"
  shows "\<exists>r. handleChunk Cl ctx c cr = Some r \<and>
    (\<forall>resp c'. r = Ret (resp, c') \<longrightarrow> wrRange resp = cr \<and> wrChunk resp \<noteq> None)"
  using getBlocksFromBatch_ends [OF assms, of Cl ctx c] handleChunk_Ret [of Cl ctx c cr]
  by (auto simp: handleChunk_def split: prod.splits)

theorem handleChunk_responds_witness:
  "\<exists>resp. handleChunk (ex_node [mk_block 1 0 [[7]]]) Background () \<lparr>crFrom = 1, crTo = 1\<rparr> = Some (Ret (resp, ())) \<and>
     wrRange resp = \<lparr>crFrom = 1, crTo = 1\<rparr> \<and> wrChunk resp \<noteq> None"
proof -
  let ?N = "ex_node [mk_block 1 0 [[7]]]" and ?cr = "\<lparr>crFrom = 1, crTo = 1\<rparr>"
  have "addBlockRequests ?N [] 1 1 = Some (Inr [AnyBlock \<lparr>rbBlock = mk_block 1 0 [[7]]\<rparr>])"
  proof -
    have "addBlockRequests ?N b 2 1 = Some (Inr b)" for b by (subst addBlockRequests.simps) (simp add: word_le_nat_alt)
    moreover have "b_AddBlockRequest ?N [] 1 = (None, [AnyBlock \<lparr>rbBlock = mk_block 1 0 [[7]]\<rparr>])"
      by (simp add: ex_node_def mk_block_def)
    ultimately show ?thesis by (subst addBlockRequests.simps) simp
  qed
  then have "getBlocksFromBatch ?N Background () ?cr = Some (([mk_block 1 0 [[7]]], None), ())"
    by (simp add: getBlocksFromBatch_def ex_node_def)
  moreover have "getTxResultFromBatch ?N Background () [mk_block 1 0 [[7]]] =
      Ret (([[Some (mk_result 1 0 [7])]], None), ())" by code_simp
  ultimately obtain resp where h: "handleChunk ?N Background () ?cr = Some (Ret (resp, ()))"
    by (simp add: handleChunk_def)
  with handleChunk_responds [of ?cr ?N Background "()"] show ?thesis by auto
qed

end
