(* ===== verification/Storage_Api.thy ===== *)
theory Storage_Api
  imports Chain_Types
begin

text \<open>
  The storage interface of \<open>storage/types.go\<close>: the operations as a record of functions over a
  store type, a batch type and two iterator types (a Go interface value carries its methods, so
  the clients of the interface take this record as an argument), an abstract store that says what
  the operations mean, and the locale \<open>storage_api\<close> with the laws a provider promises. The
  clients' lemmas are proved in the locale; \<open>Storage_Pebble\<close> shows that the Pebble store keeps
  its laws.
\<close>

section \<open>The operations\<close>

record ('st, 'wb, 'bi, 'ti) storage =
  s_GetLatestHeight :: "'st \<Rightarrow> go_error + u64"
  s_GetBlock :: "'st \<Rightarrow> u64 \<Rightarrow> go_error + block"
  s_GetTx :: "'st \<Rightarrow> u64 \<Rightarrow> u32 \<Rightarrow> go_error + tx_result"
  s_GetTxByHash :: "'st \<Rightarrow> string \<Rightarrow> go_error + tx_result"
  s_BlockIterator :: "'st \<Rightarrow> u64 \<Rightarrow> u64 \<Rightarrow> go_error + 'bi"
  s_BlockReverseIterator :: "'st \<Rightarrow> u64 \<Rightarrow> u64 \<Rightarrow> go_error + 'bi"
  s_TxIterator :: "'st \<Rightarrow> u64 \<Rightarrow> u64 \<Rightarrow> u32 \<Rightarrow> u32 \<Rightarrow> go_error + 'ti"
  s_TxReverseIterator :: "'st \<Rightarrow> u64 \<Rightarrow> u64 \<Rightarrow> u32 \<Rightarrow> u32 \<Rightarrow> go_error + 'ti"
  bi_Next :: "'bi \<Rightarrow> bool \<times> 'bi"
  bi_Error :: "'bi \<Rightarrow> go_error option"
  bi_Value :: "'bi \<Rightarrow> go_error + block"
  ti_Next :: "'ti \<Rightarrow> (bool \<times> 'ti) option"
  ti_Error :: "'ti \<Rightarrow> go_error option"
  ti_Value :: "'ti \<Rightarrow> go_error + tx_result"
  s_WriteBatch :: "'st \<Rightarrow> 'wb"
  wb_SetLatestHeight :: "'wb \<Rightarrow> u64 \<Rightarrow> go_error option \<times> 'wb"
  wb_SetBlock :: "'wb \<Rightarrow> block \<Rightarrow> go_error option \<times> 'wb"
  wb_SetTx :: "'wb \<Rightarrow> tx_result option \<Rightarrow> (go_error option \<times> 'wb) outcome"
  wb_Commit :: "'wb \<Rightarrow> 'st \<Rightarrow> go_error option \<times> 'st"
  wb_Rollback :: "'wb \<Rightarrow> go_error option"

section \<open>The abstract store\<close>

text \<open>The place of a transaction: block number, then index in the block.\<close>

datatype txpos = TxPos (tpHeight: u64) (tpIndex: u32)

instantiation txpos :: linorder
begin

definition less_txpos :: "txpos \<Rightarrow> txpos \<Rightarrow> bool" where
  "less_txpos p q \<longleftrightarrow> tpHeight p < tpHeight q \<or> tpHeight p = tpHeight q \<and> tpIndex p < tpIndex q"

definition less_eq_txpos :: "txpos \<Rightarrow> txpos \<Rightarrow> bool" where
  "less_eq_txpos p q \<longleftrightarrow> p < q \<or> p = q"

instance
proof
  fix p q :: txpos
  show "p \<le> q \<or> q \<le> p"
    by (cases p; cases q) (auto simp: less_txpos_def less_eq_txpos_def)
qed (auto simp: less_txpos_def less_eq_txpos_def)

end

instance txpos :: finite
proof
  have "UNIV \<subseteq> (\<lambda>(h, i). TxPos h i) ` (UNIV \<times> UNIV)"
    by (auto simp: image_iff) (metis txpos.exhaust)
  then show "finite (UNIV :: txpos set)" by (rule finite_subset) simp
qed

lemma less_TxPos [simp]: "TxPos h i < TxPos h' i' \<longleftrightarrow> h < h' \<or> h = h' \<and> i < i'"
  by (simp add: less_txpos_def)

lemma le_TxPos [simp]: "TxPos h i \<le> TxPos h' i' \<longleftrightarrow> h < h' \<or> h = h' \<and> i \<le> i'"
  by (auto simp: less_eq_txpos_def)

record store =
  stLatest :: "u64 option"
  stBlock :: "u64 \<rightharpoonup> block"
  stTx :: "txpos \<rightharpoonup> tx_result"
  stHash :: "string \<rightharpoonup> txpos"

definition empty_store :: store where
  "empty_store = \<lparr>stLatest = None, stBlock = Map.empty, stTx = Map.empty, stHash = Map.empty\<rparr>"

datatype store_write = WLatest u64 | WBlock block | WTx tx_result

definition tx_pos :: "tx_result \<Rightarrow> txpos" where
  "tx_pos t = TxPos (trHeight t) (trIndex t)"

definition tx_key :: "codec \<Rightarrow> tx_result \<Rightarrow> string" where
  "tx_key C t = base64 (txHash C (trTx t))"

fun apply_write :: "codec \<Rightarrow> store \<Rightarrow> store_write \<Rightarrow> store" where
  "apply_write C s (WLatest h) = s\<lparr>stLatest := Some h\<rparr>"
| "apply_write C s (WBlock b) = s\<lparr>stBlock := (stBlock s)(bHeight b \<mapsto> b)\<rparr>"
| "apply_write C s (WTx t) =
     s\<lparr>stTx := (stTx s)(tx_pos t \<mapsto> t), stHash := (stHash s)(tx_key C t \<mapsto> tx_pos t)\<rparr>"

definition apply_writes :: "codec \<Rightarrow> store \<Rightarrow> store_write list \<Rightarrow> store" where
  "apply_writes C s ws = foldl (apply_write C) s ws"

lemma apply_writes_simps [simp]:
  "apply_writes C s [] = s"
  "apply_writes C s (w # ws) = apply_writes C (apply_write C s w) ws"
  "apply_writes C s (ws @ vs) = apply_writes C (apply_writes C s ws) vs"
  by (simp_all add: apply_writes_def)

section \<open>Ranges\<close>

text \<open>
  The exclusive upper bounds the iterators compute: 0 stands for "no bound", any other number is
  incremented because the bound of the underlying iterator is exclusive.
\<close>

definition upTo64 :: "u64 \<Rightarrow> u64" where
  "upTo64 n = (if n = 0 then maxInt64 else n + 1)"

definition upTo32 :: "u32 \<Rightarrow> u32" where
  "upTo32 n = (if n = 0 then maxUint32 else n + 1)"

text \<open>The blocks an iterator over a store visits, in ascending order.\<close>

definition block_range :: "store \<Rightarrow> u64 \<Rightarrow> u64 \<Rightarrow> block list" where
  "block_range s from to =
     map (the \<circ> stBlock s) (sorted_list_of_set {n. from \<le> n \<and> n < upTo64 to \<and> stBlock s n \<noteq> None})"

text \<open>
  The transactions an iterator visits, in ascending order of their place: the places from
  \<open>(from, fromIdx)\<close> up to but without \<open>(to + 1, toIdx + 1)\<close>, of which those with an index in
  range are kept.
\<close>

definition tx_range :: "store \<Rightarrow> u64 \<Rightarrow> u64 \<Rightarrow> u32 \<Rightarrow> u32 \<Rightarrow> tx_result list" where
  "tx_range s from to fromIdx toIdx =
     map (the \<circ> stTx s) (sorted_list_of_set
       {p. TxPos from fromIdx \<le> p \<and> p < TxPos (upTo64 to) (upTo32 toIdx) \<and>
           fromIdx \<le> tpIndex p \<and> tpIndex p < upTo32 toIdx \<and> stTx s p \<noteq> None})"

section \<open>The contract\<close>

locale storage_api =
  fixes S :: "('st, 'wb, 'bi, 'ti) storage"
    and C :: codec
    and sabs :: "'st \<Rightarrow> store"
    and sinv :: "'st \<Rightarrow> bool"
    and wabs :: "'wb \<Rightarrow> store_write list"
    and winv :: "'wb \<Rightarrow> bool"
    and brest :: "'bi \<Rightarrow> block list"
    and binv :: "'bi \<Rightarrow> bool"
    and trest :: "'ti \<Rightarrow> tx_result list"
    and tinv :: "'ti \<Rightarrow> bool"
  assumes latest: "sinv s \<Longrightarrow> s_GetLatestHeight S s =
        (case stLatest (sabs s) of None \<Rightarrow> Inl ErrNotFound | Some h \<Rightarrow> Inr h)"
    and get_block: "sinv s \<Longrightarrow> s_GetBlock S s n =
        (case stBlock (sabs s) n of None \<Rightarrow> Inl ErrNotFound | Some b \<Rightarrow> Inr b)"
    and get_tx: "sinv s \<Longrightarrow> s_GetTx S s n i =
        (case stTx (sabs s) (TxPos n i) of None \<Rightarrow> Inl ErrNotFound | Some t \<Rightarrow> Inr t)"
    and get_tx_by_hash: "sinv s \<Longrightarrow> s_GetTxByHash S s k =
        (case Option.bind (stHash (sabs s) k) (stTx (sabs s)) of
           None \<Rightarrow> Inl ErrNotFound | Some t \<Rightarrow> Inr t)"
    and block_heights: "sinv s \<Longrightarrow> stBlock (sabs s) n = Some b \<Longrightarrow> bHeight b = n"
    and tx_places: "sinv s \<Longrightarrow> stTx (sabs s) p = Some t \<Longrightarrow> tx_pos t = p"
    and batch: "wabs (s_WriteBatch S s) = [] \<and> winv (s_WriteBatch S s)"
    and set_latest: "winv w \<Longrightarrow>
        \<exists>w'. wb_SetLatestHeight S w h = (None, w') \<and> winv w' \<and> wabs w' = wabs w @ [WLatest h]"
    and set_block_ok: "winv w \<Longrightarrow> marshalBlock C b = Inr e \<Longrightarrow>
        \<exists>w'. wb_SetBlock S w b = (None, w') \<and> winv w' \<and> wabs w' = wabs w @ [WBlock b]"
    and set_block_err: "marshalBlock C b = Inl err \<Longrightarrow> wb_SetBlock S w b = (Some err, w)"
    and set_tx_ok: "winv w \<Longrightarrow> marshalTxResult C (Some t) = Inr e \<Longrightarrow>
        \<exists>w'. wb_SetTx S w (Some t) = Ret (None, w') \<and> winv w' \<and> wabs w' = wabs w @ [WTx t]"
    and set_tx_err: "marshalTxResult C t' = Inl err \<Longrightarrow> wb_SetTx S w t' = Ret (Some err, w)"
    and set_tx_nil: "winv w \<Longrightarrow> wb_SetTx S w None = Ret (err', w') \<Longrightarrow> winv w' \<and> wabs w' = wabs w"
    and commit: "sinv s \<Longrightarrow> winv w \<Longrightarrow> \<exists>s'. wb_Commit S w s = (None, s') \<and> sinv s' \<and>
        sabs s' = apply_writes C (sabs s) (wabs w)"
    and block_iter: "sinv s \<Longrightarrow> \<exists>it. s_BlockIterator S s lo hi = Inr it \<and> binv it \<and>
        brest it = block_range (sabs s) lo hi"
    and block_riter: "sinv s \<Longrightarrow> \<exists>it. s_BlockReverseIterator S s lo hi = Inr it \<and> binv it \<and>
        brest it = rev (block_range (sabs s) lo hi)"
    and block_next: "binv it \<Longrightarrow> \<exists>it'. bi_Next S it = (brest it \<noteq> [], it') \<and> binv it' \<and>
        brest it' = tl (brest it) \<and> bi_Error S it' = None \<and>
        (brest it \<noteq> [] \<longrightarrow> bi_Value S it' = Inr (hd (brest it)))"
    and tx_iter: "sinv s \<Longrightarrow> \<exists>ti. s_TxIterator S s lo hi i j = Inr ti \<and> tinv ti \<and>
        trest ti = tx_range (sabs s) lo hi i j"
    and tx_riter: "sinv s \<Longrightarrow> \<exists>ti. s_TxReverseIterator S s lo hi i j = Inr ti \<and> tinv ti \<and>
        trest ti = rev (tx_range (sabs s) lo hi i j)"
    and tx_next: "tinv ti \<Longrightarrow> \<exists>tj. ti_Next S ti = Some (trest ti \<noteq> [], tj) \<and> tinv tj \<and>
        trest tj = tl (trest ti) \<and> ti_Error S tj = None \<and>
        (trest ti \<noteq> [] \<longrightarrow> ti_Value S tj = Inr (hd (trest ti)))"

section \<open>Walking an iterator\<close>

text \<open>
  The loop every client of an iterator runs: \<open>for it.Next() { v, err := it.Value(); ... }\<close>, which
  stops at the first value that cannot be read and looks at \<open>it.Error()\<close> at the end. \<open>None\<close>
  would be a loop that never ends.
\<close>

partial_function (option) drain_blocks ::
    "('st, 'wb, 'bi, 'ti) storage \<Rightarrow> 'bi \<Rightarrow> (go_error + block list) option" where
  "drain_blocks S it =
     (case bi_Next S it of (ok, it) \<Rightarrow>
        if \<not> ok then Some (case bi_Error S it of None \<Rightarrow> Inr [] | Some err \<Rightarrow> Inl err)
        else (case bi_Value S it of
                Inl err \<Rightarrow> Some (Inl err)
              | Inr b \<Rightarrow> Option.bind (drain_blocks S it) (\<lambda>r. Some (map_sum id ((#) b) r))))"

partial_function (option) drain_txs ::
    "('st, 'wb, 'bi, 'ti) storage \<Rightarrow> 'ti \<Rightarrow> (go_error + tx_result list) option" where
  "drain_txs S it =
     Option.bind (ti_Next S it) (\<lambda>(ok, it).
        if \<not> ok then Some (case ti_Error S it of None \<Rightarrow> Inr [] | Some err \<Rightarrow> Inl err)
        else (case ti_Value S it of
                Inl err \<Rightarrow> Some (Inl err)
              | Inr t \<Rightarrow> Option.bind (drain_txs S it) (\<lambda>r. Some (map_sum id ((#) t) r))))"

context storage_api
begin

lemma drain_blocks_rest: "binv it \<Longrightarrow> drain_blocks S it = Some (Inr (brest it))"
proof (induction "brest it" arbitrary: it)
  case Nil
  from block_next [OF Nil(2)] Nil(1) show ?case by (subst drain_blocks.simps) auto
next
  case (Cons b bs)
  from block_next [OF Cons.prems] Cons.hyps(2) obtain it' where
    n: "bi_Next S it = (True, it')" "binv it'" "brest it' = bs" "bi_Value S it' = Inr b"
    by (metis list.discI list.sel(1,3))
  with Cons.hyps(1) [of it'] Cons.hyps(2) show ?case by (subst drain_blocks.simps) simp
qed

lemma drain_txs_rest: "tinv it \<Longrightarrow> drain_txs S it = Some (Inr (trest it))"
proof (induction "trest it" arbitrary: it)
  case Nil
  from tx_next [OF Nil(2)] Nil(1) show ?case by (subst drain_txs.simps) auto
next
  case (Cons t ts)
  from tx_next [OF Cons.prems] Cons.hyps(2) obtain it' where
    n: "ti_Next S it = Some (True, it')" "tinv it'" "trest it' = ts" "ti_Value S it' = Inr t"
    by (metis list.discI list.sel(1,3))
  with Cons.hyps(1) [of it'] Cons.hyps(2) show ?case by (subst drain_txs.simps) simp
qed

lemma drain_iterators:
  assumes "sinv s"
  shows "\<exists>it. s_BlockIterator S s lo hi = Inr it \<and>
      drain_blocks S it = Some (Inr (block_range (sabs s) lo hi))"
    and "\<exists>it. s_BlockReverseIterator S s lo hi = Inr it \<and>
      drain_blocks S it = Some (Inr (rev (block_range (sabs s) lo hi)))"
    and "\<exists>it. s_TxIterator S s lo hi i j = Inr it \<and>
      drain_txs S it = Some (Inr (tx_range (sabs s) lo hi i j))"
    and "\<exists>it. s_TxReverseIterator S s lo hi i j = Inr it \<and>
      drain_txs S it = Some (Inr (rev (tx_range (sabs s) lo hi i j)))"
  using block_iter [OF assms] block_riter [OF assms] tx_iter [OF assms] tx_riter [OF assms]
    drain_blocks_rest drain_txs_rest by metis+

end

section \<open>What the ranges hold\<close>

lemma partial_image:
  assumes "\<And>p t. m p = Some t \<Longrightarrow> f t = p"
  shows "t \<in> (the \<circ> m) ` {p. Q p \<and> m p \<noteq> None} \<longleftrightarrow> m (f t) = Some t \<and> Q (f t)"
proof
  assume "t \<in> (the \<circ> m) ` {p. Q p \<and> m p \<noteq> None}"
  then obtain p where "Q p" "m p = Some t" by auto
  with assms [of p t] show "m (f t) = Some t \<and> Q (f t)" by simp
qed (auto simp: image_iff intro: exI [of _ "f t"])

lemma block_range_set:
  assumes "\<And>n b. stBlock s n = Some b \<Longrightarrow> bHeight b = n"
  shows "b \<in> set (block_range s lo hi) \<longleftrightarrow>
    stBlock s (bHeight b) = Some b \<and> lo \<le> bHeight b \<and> bHeight b < upTo64 hi"
  using partial_image [of "stBlock s" "\<lambda>b. bHeight b" b "\<lambda>n. lo \<le> n \<and> n < upTo64 hi", OF assms]
  by (simp add: block_range_def conj_assoc)

lemma block_range_sorted:
  assumes "\<And>n b. stBlock s n = Some b \<Longrightarrow> bHeight b = n"
  shows "sorted_wrt (\<lambda>a b. bHeight a < bHeight b) (block_range s lo hi)"
proof -
  let ?A = "{n. lo \<le> n \<and> n < upTo64 hi \<and> stBlock s n \<noteq> None}"
  have "map bHeight (block_range s lo hi) = sorted_list_of_set ?A"
    unfolding block_range_def map_map by (rule map_idI) (use assms in force)
  then have "sorted_wrt (<) (map bHeight (block_range s lo hi))" by simp
  then show ?thesis by (simp add: sorted_wrt_map)
qed

lemma tx_range_set:
  assumes "\<And>p t. stTx s p = Some t \<Longrightarrow> tx_pos t = p"
  shows "t \<in> set (tx_range s lo hi i j) \<longleftrightarrow>
    stTx s (tx_pos t) = Some t \<and> TxPos lo i \<le> tx_pos t \<and> tx_pos t < TxPos (upTo64 hi) (upTo32 j) \<and>
    i \<le> trIndex t \<and> trIndex t < upTo32 j"
proof -
  have idx: "trIndex t = tpIndex (tx_pos t)" for t by (simp add: tx_pos_def)
  show ?thesis
    using partial_image [of "stTx s" tx_pos t
        "\<lambda>p. TxPos lo i \<le> p \<and> p < TxPos (upTo64 hi) (upTo32 j) \<and> i \<le> tpIndex p \<and> tpIndex p < upTo32 j",
        OF assms]
    by (simp add: tx_range_def idx conj_assoc del: less_TxPos le_TxPos)
qed

lemma tx_range_sorted:
  assumes "\<And>p t. stTx s p = Some t \<Longrightarrow> tx_pos t = p"
  shows "sorted_wrt (\<lambda>a b. tx_pos a < tx_pos b) (tx_range s lo hi i j)"
proof -
  let ?A = "{p. TxPos lo i \<le> p \<and> p < TxPos (upTo64 hi) (upTo32 j) \<and>
           i \<le> tpIndex p \<and> tpIndex p < upTo32 j \<and> stTx s p \<noteq> None}"
  have "map tx_pos (tx_range s lo hi i j) = sorted_list_of_set ?A"
    unfolding tx_range_def map_map by (rule map_idI) (use assms in force)
  then have "sorted_wrt (<) (map tx_pos (tx_range s lo hi i j))" by simp
  then show ?thesis by (simp add: sorted_wrt_map)
qed

section \<open>Histories of a store\<close>

text \<open>
  A batch as its client fills it: each call that returns no error adds its write, a call that
  returns an error adds nothing.
\<close>

inductive batch_built :: "('st, 'wb, 'bi, 'ti) storage \<Rightarrow> 'st \<Rightarrow> 'wb \<Rightarrow> store_write list \<Rightarrow> bool" for S s where
  bb_new: "batch_built S s (s_WriteBatch S s) []"
| bb_latest: "batch_built S s w ws \<Longrightarrow> wb_SetLatestHeight S w h = (err, w') \<Longrightarrow>
    batch_built S s w' (ws @ (if err = None then [WLatest h] else []))"
| bb_block: "batch_built S s w ws \<Longrightarrow> wb_SetBlock S w b = (err, w') \<Longrightarrow>
    batch_built S s w' (ws @ (if err = None then [WBlock b] else []))"
| bb_tx: "batch_built S s w ws \<Longrightarrow> wb_SetTx S w (Some t) = Ret (err, w') \<Longrightarrow>
    batch_built S s w' (ws @ (if err = None then [WTx t] else []))"
| bb_nil: "batch_built S s w ws \<Longrightarrow> wb_SetTx S w None = Ret (err, w') \<Longrightarrow> batch_built S s w' ws"

text \<open>The states a store goes through, with the writes of the batches committed so far.\<close>

inductive store_history :: "('st, 'wb, 'bi, 'ti) storage \<Rightarrow> 'st \<Rightarrow> 'st \<Rightarrow> store_write list \<Rightarrow> bool" for S s0 where
  sh_start: "store_history S s0 s0 []"
| sh_commit: "store_history S s0 s ws \<Longrightarrow> batch_built S s w vs \<Longrightarrow> wb_Commit S w s = (err, s') \<Longrightarrow>
    store_history S s0 s' (ws @ vs)"

context storage_api
begin

lemma batch_built_inv: "batch_built S s w ws \<Longrightarrow> winv w \<and> wabs w = ws"
proof (induction rule: batch_built.induct)
  case bb_new
  then show ?case using batch by blast
next
  case (bb_latest w ws h err w')
  with set_latest [of w h] show ?case by auto
next
  case (bb_block w ws b err w')
  then show ?case
    using set_block_ok [of w b] set_block_err [of b _ w] by (cases "marshalBlock C b") fastforce+
next
  case (bb_tx w ws t err w')
  then show ?case
    using set_tx_ok [of w t] set_tx_err [of "Some t" _ w] by (cases "marshalTxResult C (Some t)") fastforce+
next
  case (bb_nil w ws err w')
  then show ?case using set_tx_nil by blast
qed

lemma store_history_inv:
  "store_history S s0 s ws \<Longrightarrow> sinv s0 \<Longrightarrow> sinv s \<and> sabs s = apply_writes C (sabs s0) ws"
proof (induction rule: store_history.induct)
  case (sh_commit s ws w vs err s')
  with batch_built_inv [of s w vs] commit [of s w] show ?case by auto
qed simp

end

end
