(* ===== verification/Fetch_Fetcher.thy ===== *)
theory Fetch_Fetcher
  imports Fetch_Worker Storage_Api
begin

text \<open>
  The fetcher of \<open>fetch/fetch.go\<close> and \<open>fetch/options.go\<close>: it writes the genesis block, hands out
  block ranges to workers, takes their chunks back in any order and writes them to the storage in
  the order of the chain. The operations take the storage, client and queue operations as
  arguments (\<open>S\<close>, \<open>Cl\<close>, \<open>Q\<close>). The loop of \<open>FetchChainData\<close> with its workers is the step relation
  \<open>fetch_step\<close>.
\<close>

section \<open>State\<close>

text \<open>\<open>fEvents\<close> lists the events signalled so far; logging has no effect on the model.\<close>

record ('st, 'c) fetcher =
  fStorage :: 'st
  fClient :: 'c
  fEvents :: "newBlock list"
  fBuffer :: slots
  fMaxSlots :: int
  fMaxChunkSize :: i64
  fLatestChunkSize :: int

definition DefaultMaxSlots :: int where "DefaultMaxSlots = 100"
definition DefaultMaxChunkSize :: i64 where "DefaultMaxChunkSize = 100"

datatype fetch_option = WithLogger | WithMaxSlots int | WithMaxChunkSize i64

fun applyOption :: "('st, 'c) fetcher \<Rightarrow> fetch_option \<Rightarrow> ('st, 'c) fetcher" where
  "applyOption f WithLogger = f"
| "applyOption f (WithMaxSlots maxSlots) = f\<lparr>fMaxSlots := maxSlots\<rparr>"
| "applyOption f (WithMaxChunkSize maxChunkSize) =
     f\<lparr>fMaxChunkSize := maxChunkSize, fLatestChunkSize := sint maxChunkSize\<rparr>"

definition Fetcher_New :: "'st \<Rightarrow> 'c \<Rightarrow> fetch_option list \<Rightarrow> ('st, 'c) fetcher" where
  "Fetcher_New st c opts =
     (let f = \<lparr>fStorage = st, fClient = c, fEvents = [],
               fBuffer = \<lparr>sQueue = [], sMaxSlots = 0\<rparr>,
               fMaxSlots = DefaultMaxSlots, fMaxChunkSize = DefaultMaxChunkSize, fLatestChunkSize = 0\<rparr>;
          f = foldl applyOption f opts
      in f\<lparr>fBuffer := \<lparr>sQueue = [], sMaxSlots = fMaxSlots f\<rparr>\<rparr>)"

section \<open>Writing a slot\<close>

text \<open>
  A result that cannot be saved is logged and skipped; after a nil result was saved, logging its hash
  would dereference it.
\<close>

fun writeTxs :: "('st, 'wb, 'bi, 'ti) storage \<Rightarrow> 'wb \<Rightarrow> tx_result option list \<Rightarrow> 'wb outcome" where
  "writeTxs S wb [] = Ret wb"
| "writeTxs S wb (txResult # txResults) =
     bindO (wb_SetTx S wb txResult) (\<lambda>(err, wb).
       if err = None \<and> txResult = None then Panic ''nil pointer dereference''
       else writeTxs S wb txResults)"

text \<open>
  The loop over the blocks of a chunk: a block that cannot be saved is logged and skipped with its
  results, any other is saved with the results at its index and signalled.
\<close>

fun writeBlocks ::
    "('st, 'wb, 'bi, 'ti) storage \<Rightarrow> 'wb \<Rightarrow> newBlock list \<Rightarrow> nat \<Rightarrow> block list \<Rightarrow>
     tx_result option list list \<Rightarrow> ('wb \<times> newBlock list) outcome" where
  "writeBlocks S wb events blockIndex [] results = Ret (wb, events)"
| "writeBlocks S wb events blockIndex (block # blocks) results =
     (case wb_SetBlock S wb block of
        (Some saveErr, wb) \<Rightarrow> writeBlocks S wb events (Suc blockIndex) blocks results
      | (None, wb) \<Rightarrow>
          if length results \<le> blockIndex then Panic ''index out of range''
          else let txResults = results ! blockIndex in
            bindO (writeTxs S wb txResults) (\<lambda>wb.
              writeBlocks S wb (events @ [\<lparr>nbBlock = block, nbResults = txResults\<rparr>])
                (Suc blockIndex) blocks results))"

definition Fetcher_writeSlot ::
    "('st, 'wb, 'bi, 'ti) storage \<Rightarrow> ('st, 'c) fetcher \<Rightarrow> slot \<Rightarrow>
     (go_error option \<times> ('st, 'c) fetcher) outcome" where
  "Fetcher_writeSlot S f s =
     (case slChunk s of
        None \<Rightarrow> Panic ''nil pointer dereference''
      | Some chunk \<Rightarrow>
          bindO (writeBlocks S (s_WriteBatch S (fStorage f)) (fEvents f) 0 (ckBlocks chunk) (ckResults chunk))
            (\<lambda>(wb, events).
               let f = f\<lparr>fEvents := events\<rparr> in
               case wb_SetLatestHeight S wb (crTo (slRange s)) of
                 (Some err, wb) \<Rightarrow>
                   (case wb_Rollback S wb of
                      Some rErr \<Rightarrow> Ret (Some (ErrWrap ''unable to save latest height info, %w, %w'' [err, rErr]), f)
                    | None \<Rightarrow> Ret (Some (ErrWrap ''unable to save latest height info, %w'' [err]), f))
               | (None, wb) \<Rightarrow>
                   (case wb_Commit S wb (fStorage f) of
                      (Some err, st) \<Rightarrow>
                        Ret (Some (ErrWrap ''error persisting block information into storage, %w'' [err]),
                             f\<lparr>fStorage := st\<rparr>)
                    | (None, st) \<Rightarrow>
                        Ret (None, f\<lparr>fStorage := st, fLatestChunkSize := int (length (ckBlocks chunk))\<rparr>))))"

section \<open>Genesis\<close>

definition errInvalidGenesisState :: go_error where
  "errInvalidGenesisState = ErrMsg ''invalid genesis state''"

fun marshalAll :: "codec \<Rightarrow> std_tx list \<Rightarrow> go_error + bytes list" where
  "marshalAll C [] = Inr []"
| "marshalAll C (tx # txs) =
     (case marshalStdTx C tx of
        Inl err \<Rightarrow> Inl (ErrWrap ''unable to marshal genesis tx: %w'' [err])
      | Inr b \<Rightarrow> map_sum id ((#) b) (marshalAll C txs))"

definition getGenesisBlock :: "codec \<Rightarrow> ('c, 'b) client \<Rightarrow> 'c ctx \<Rightarrow> 'c \<Rightarrow> (go_error + block) \<times> 'c" where
  "getGenesisBlock C Cl ctx c =
     (case c_GetGenesis Cl ctx c of
        (Inl err, c) \<Rightarrow> (Inl (ErrWrap ''unable to get genesis block: %w'' [err]), c)
      | (Inr gblock, c) \<Rightarrow>
          (case rgGenesis gblock of
             None \<Rightarrow> (Inl errInvalidGenesisState, c)
           | Some gen \<Rightarrow>
               (case gdAppState gen of
                  OtherState kind \<Rightarrow> (Inl (ErrMsg ''unknown genesis state kind'' ), c)
                | GnoGenesisState stxs \<Rightarrow>
                    (case marshalAll C stxs of
                       Inl err \<Rightarrow> (Inl err, c)
                     | Inr txs \<Rightarrow>
                         (Inr \<lparr>bHeader = zero_header\<lparr>hNumTxs := of_nat (length txs),
                                 hTotalTxs := of_nat (length txs), hTime := gdTime gen,
                                 hChainID := gdChainID gen\<rparr>,
                               bTxs = txs\<rparr>, c)))))"

definition Fetcher_fetchGenesisData ::
    "('st, 'wb, 'bi, 'ti) storage \<Rightarrow> codec \<Rightarrow> ('c, 'b) client \<Rightarrow> 'c ctx \<Rightarrow> ('st, 'c) fetcher \<Rightarrow>
     (go_error option \<times> ('st, 'c) fetcher) outcome" where
  "Fetcher_fetchGenesisData S C Cl ctx f =
     (case s_GetLatestHeight S (fStorage f) of
        Inr _ \<Rightarrow> Ret (None, f)
      | Inl err \<Rightarrow>
          if \<not> errIs err ErrNotFound then Ret (Some err, f)
          else
            (case getGenesisBlock C Cl ctx (fClient f) of
               (Inl err, c) \<Rightarrow>
                 Ret (Some (ErrWrap ''failed to fetch genesis block: %w'' [err]), f\<lparr>fClient := c\<rparr>)
             | (Inr block, c) \<Rightarrow>
                 (case c_GetBlockResults Cl ctx c 0 of
                    (Inl err, c) \<Rightarrow>
                      Ret (Some (ErrWrap ''failed to fetch genesis results: %w'' [err]), f\<lparr>fClient := c\<rparr>)
                  | (Inr results, c) \<Rightarrow>
                      (case rrResults results of
                         None \<Rightarrow> Ret (Some (ErrMsg ''nil results''), f\<lparr>fClient := c\<rparr>)
                       | Some deliverTxs \<Rightarrow>
                           bindO (fillResults 0 0 (bTxs block) deliverTxs
                                    (replicate (length (bTxs block)) None)) (\<lambda>txResults.
                             Fetcher_writeSlot S (f\<lparr>fClient := c\<rparr>)
                               \<lparr>slChunk = Some \<lparr>ckBlocks = [block], ckResults = [txResults]\<rparr>,
                                slRange = \<lparr>crFrom = 0, crTo = 0\<rparr>\<rparr>)))))"

section \<open>Handing out ranges\<close>

text \<open>The result also lists the ranges for which workers are started.\<close>

definition attemptRangeFetch ::
    "('st, 'wb, 'bi, 'ti) storage \<Rightarrow> ('c, 'b) client \<Rightarrow> 'c ctx \<Rightarrow> slot_queue \<Rightarrow> ('st, 'c) fetcher \<Rightarrow>
     (go_error option \<times> chunkRange list \<times> ('st, 'c) fetcher) outcome option" where
  "attemptRangeFetch S Cl ctx Q f =
     (if qLen Q (sQueue (fBuffer f)) = fMaxSlots f then Some (Ret (None, [], f))
      else
        (case (case s_GetLatestHeight S (fStorage f) of
                 Inl err \<Rightarrow> if errIs err ErrNotFound then Inr 0 else Inl err
               | Inr h \<Rightarrow> Inr h) of
           Inl err \<Rightarrow> Some (Ret (Some (ErrWrap ''unable to fetch latest block height, %w'' [err]), [], f))
         | Inr latestLocal \<Rightarrow>
             (case c_GetLatestBlockNumber Cl ctx (fClient f) of
                (Inl latestErr, c) \<Rightarrow> Some (Ret (None, [], f\<lparr>fClient := c\<rparr>))
              | (Inr latestRemote, c) \<Rightarrow>
                  if latestRemote \<le> latestLocal then Some (Ret (None, [], f\<lparr>fClient := c\<rparr>))
                  else
                    map_option (\<lambda>r. bindO r (\<lambda>(gaps, buffer).
                        Ret (None, gaps, f\<lparr>fClient := c, fBuffer := buffer\<rparr>)))
                      (slots_reserveChunkRanges Q (fBuffer f) (latestLocal + 1) latestRemote (fMaxChunkSize f)))))"

section \<open>Taking a response\<close>

text \<open>\<open>sort.Search\<close> of the standard library: the smallest index in \<open>[i, j)\<close> at which \<open>p\<close> holds, by bisection.\<close>

function sortSearch :: "(nat \<Rightarrow> bool) \<Rightarrow> nat \<Rightarrow> nat \<Rightarrow> nat" where
  "sortSearch p i j =
     (if i < j then let h = (i + j) div 2 in if \<not> p h then sortSearch p (h + 1) j else sortSearch p i h
      else i)"
  by auto
termination by (relation "measure (\<lambda>(p, i, j). j - i)") auto

text \<open>
  The loop that writes the leading slots that have their chunk. It pops before it writes; the value
  \<open>None\<close> would be a loop that never ends.
\<close>

partial_function (option) flushSlots ::
    "('st, 'wb, 'bi, 'ti) storage \<Rightarrow> slot_queue \<Rightarrow> ('st, 'c) fetcher \<Rightarrow>
     (go_error option \<times> ('st, 'c) fetcher) outcome option" where
  "flushSlots S Q f =
     (if qLen Q (sQueue (fBuffer f)) > 0 then
        (case slots_getSlot Q (fBuffer f) 0 of
           None \<Rightarrow> Some (Panic ''nil pointer dereference'')
         | Some item \<Rightarrow>
             if slChunk item = None then Some (Ret (None, f))
             else
               let f = f\<lparr>fBuffer := (fBuffer f)\<lparr>sQueue := qPopFront Q (sQueue (fBuffer f))\<rparr>\<rparr> in
               (case Fetcher_writeSlot S f item of
                  Panic m \<Rightarrow> Some (Panic m)
                | Ret (err, f) \<Rightarrow>
                    (case err of
                       Some e \<Rightarrow> Some (Ret (Some e, f))
                     | None \<Rightarrow> flushSlots S Q f)))
      else Some (Ret (None, f)))"

definition handleResponse ::
    "('st, 'wb, 'bi, 'ti) storage \<Rightarrow> slot_queue \<Rightarrow> ('st, 'c) fetcher \<Rightarrow> workerResponse \<Rightarrow>
     (go_error option \<times> ('st, 'c) fetcher) outcome option" where
  "handleResponse S Q f response =
     (let index = sortSearch (\<lambda>i. case slots_getSlot Q (fBuffer f) (int i) of
                      None \<Rightarrow> False
                    | Some s \<Rightarrow> crFrom (slRange s) \<ge> crFrom (wrRange response))
                    0 (nat (qLen Q (sQueue (fBuffer f))))
      in case slots_setChunk Q (fBuffer f) (int index) (wrChunk response) of
           Panic m \<Rightarrow> Some (Panic m)
         | Ret buffer \<Rightarrow> flushSlots S Q (f\<lparr>fBuffer := buffer\<rparr>))"

section \<open>Readiness\<close>

definition Fetcher_IsReady :: "('c, 'b) client \<Rightarrow> 'c ctx \<Rightarrow> ('st, 'c) fetcher \<Rightarrow> (bool \<times> go_error option) \<times> ('st, 'c) fetcher" where
  "Fetcher_IsReady Cl ctx f =
     (if fLatestChunkSize f = sint (fMaxChunkSize f)
      then ((False, Some (ErrMsg ''the data synchronization process is still in progress'')), f)
      else (case c_GetLatestBlockNumber Cl ctx (fClient f) of
              (Inl err, c) \<Rightarrow> ((False, Some (ErrWrap ''node RPC method is not reachable: %w'' [err])), f\<lparr>fClient := c\<rparr>)
            | (Inr _, c) \<Rightarrow> ((True, None), f\<lparr>fClient := c\<rparr>)))"

section \<open>The loop\<close>

text \<open>
  The running fetcher: the fetcher itself, the ranges whose workers are under way, the responses in
  the channel \<open>collectorCh\<close>, whether the context is done, and how the call of \<open>FetchChainData\<close> stands.
\<close>

datatype fetch_phase = Running | Returned "go_error option" | Crashed string

record ('st, 'c) fetch_run =
  frFetcher :: "('st, 'c) fetcher"
  frWorkers :: "chunkRange multiset"
  frChannel :: "workerResponse list"
  frDone :: bool
  frPhase :: fetch_phase

text \<open>The context as the calls see it that return in a state of the run: done only when it is.\<close>

definition ctx_of :: "('st, 'c) fetch_run \<Rightarrow> 'c ctx \<Rightarrow> bool" where
  "ctx_of r ctx \<longleftrightarrow> (\<forall>c. ctx c \<longrightarrow> frDone r)"

text \<open>
  The steps of \<open>FetchChainData\<close> and of its workers. The context may be done at any time, from outside. A worker runs against any
  state of the node; when it has its response it sends it if the channel has room, or drops it if the context is done. When the
  context is done the loop may still handle a tick or a response, or it closes the channel and returns; a worker that finishes later
  drops its response or sends it on the closed channel, which panics. (After a return with an error the channel stays open, and what
  workers still send there is never read; these sends are left out.)
\<close>

inductive fetch_step ::
    "('st, 'wb, 'bi, 'ti) storage \<Rightarrow> ('c, 'b) client \<Rightarrow> slot_queue \<Rightarrow>
     ('st, 'c) fetch_run \<Rightarrow> ('st, 'c) fetch_run \<Rightarrow> bool" for S Cl Q where
  fs_cancel: "fetch_step S Cl Q r (r\<lparr>frDone := True\<rparr>)"
| fs_tick: "frPhase r = Running \<Longrightarrow> ctx_of r ctx \<Longrightarrow>
    attemptRangeFetch S Cl ctx Q (frFetcher r) = Some (Ret (None, gaps, f)) \<Longrightarrow>
    fetch_step S Cl Q r (r\<lparr>frFetcher := f, frWorkers := frWorkers r + mset gaps\<rparr>)"
| fs_tick_err: "frPhase r = Running \<Longrightarrow> ctx_of r ctx \<Longrightarrow>
    attemptRangeFetch S Cl ctx Q (frFetcher r) = Some (Ret (Some err, gaps, f)) \<Longrightarrow>
    fetch_step S Cl Q r (r\<lparr>frFetcher := f, frPhase := Returned (Some err)\<rparr>)"
| fs_tick_panic: "frPhase r = Running \<Longrightarrow> ctx_of r ctx \<Longrightarrow>
    attemptRangeFetch S Cl ctx Q (frFetcher r) = Some (Panic m) \<Longrightarrow>
    fetch_step S Cl Q r (r\<lparr>frPhase := Crashed m\<rparr>)"
| fs_work: "frPhase r = Running \<Longrightarrow> ctx_of r ctx \<Longrightarrow> cr \<in># frWorkers r \<Longrightarrow>
    handleChunk Cl ctx c cr = Some (Ret (resp, c')) \<Longrightarrow> int (length (frChannel r)) < DefaultMaxSlots \<Longrightarrow>
    fetch_step S Cl Q r (r\<lparr>frWorkers := frWorkers r - {#cr#}, frChannel := frChannel r @ [resp]\<rparr>)"
| fs_work_panic: "ctx_of r ctx \<Longrightarrow> cr \<in># frWorkers r \<Longrightarrow> handleChunk Cl ctx c cr = Some (Panic m) \<Longrightarrow>
    fetch_step S Cl Q r (r\<lparr>frPhase := Crashed m\<rparr>)"
| fs_drop: "frDone r \<Longrightarrow> cr \<in># frWorkers r \<Longrightarrow>
    fetch_step S Cl Q r (r\<lparr>frWorkers := frWorkers r - {#cr#}\<rparr>)"
| fs_recv: "frPhase r = Running \<Longrightarrow> frChannel r = resp # rest \<Longrightarrow>
    handleResponse S Q (frFetcher r) resp = Some (Ret (None, f)) \<Longrightarrow>
    fetch_step S Cl Q r (r\<lparr>frFetcher := f, frChannel := rest\<rparr>)"
| fs_recv_err: "frPhase r = Running \<Longrightarrow> frChannel r = resp # rest \<Longrightarrow>
    handleResponse S Q (frFetcher r) resp = Some (Ret (Some err, f)) \<Longrightarrow>
    fetch_step S Cl Q r (r\<lparr>frFetcher := f, frChannel := rest, frPhase := Returned (Some err)\<rparr>)"
| fs_recv_panic: "frPhase r = Running \<Longrightarrow> frChannel r = resp # rest \<Longrightarrow>
    handleResponse S Q (frFetcher r) resp = Some (Panic m) \<Longrightarrow>
    fetch_step S Cl Q r (r\<lparr>frPhase := Crashed m\<rparr>)"
| fs_done: "frPhase r = Running \<Longrightarrow> frDone r \<Longrightarrow>
    fetch_step S Cl Q r (r\<lparr>frPhase := Returned None\<rparr>)"
| fs_closed: "frPhase r = Returned None \<Longrightarrow> ctx_of r ctx \<Longrightarrow> cr \<in># frWorkers r \<Longrightarrow>
    handleChunk Cl ctx c cr = Some (Ret (resp, c')) \<Longrightarrow>
    fetch_step S Cl Q r (r\<lparr>frPhase := Crashed ''send on closed channel''\<rparr>)"

text \<open>
  The start of \<open>FetchChainData\<close>: genesis is attempted (its error is only logged), with any context; then the loop runs;
  the first \<open>attemptRangeFetch\<close> is the first \<open>fs_tick\<close>.
\<close>

definition FetchChainData_start ::
    "('st, 'wb, 'bi, 'ti) storage \<Rightarrow> codec \<Rightarrow> ('c, 'b) client \<Rightarrow> 'c ctx \<Rightarrow> ('st, 'c) fetcher \<Rightarrow> ('st, 'c) fetch_run" where
  "FetchChainData_start S C Cl ctx f =
     (case Fetcher_fetchGenesisData S C Cl ctx f of
        Panic m \<Rightarrow> \<lparr>frFetcher = f, frWorkers = {#}, frChannel = [], frDone = False, frPhase = Crashed m\<rparr>
      | Ret (_, f) \<Rightarrow> \<lparr>frFetcher = f, frWorkers = {#}, frChannel = [], frDone = False, frPhase = Running\<rparr>)"

section \<open>The search for a slot\<close>

declare sortSearch.simps [simp del]

lemma sortSearch_spec:
  assumes "\<And>a b. a \<le> b \<Longrightarrow> b < n \<Longrightarrow> p a \<Longrightarrow> p b" "i \<le> j" "\<forall>k < i. \<not> p k" "j \<le> n"
  shows "i \<le> sortSearch p i j \<and> sortSearch p i j \<le> j \<and> (\<forall>k < sortSearch p i j. \<not> p k) \<and>
    (sortSearch p i j < j \<longrightarrow> p (sortSearch p i j))"
  using assms(2-4)
proof (induction "j - i" arbitrary: i j rule: less_induct)
  case less
  show ?case
  proof (cases "i < j")
    case True
    let ?h = "(i + j) div 2"
    have h: "i \<le> ?h" "?h < j" using True by auto
    have step: "sortSearch p i j = (if \<not> p ?h then sortSearch p (?h + 1) j else sortSearch p i ?h)"
      by (subst sortSearch.simps) (simp only: True Let_def if_True)
    show ?thesis
    proof (cases "p ?h")
      case False
      then have "\<forall>k < ?h + 1. \<not> p k"
        using assms(1) h less.prems(3) by (metis Suc_eq_plus1 less_Suc_eq_le less_le_trans)
      with less.hyps [of j "?h + 1"] h False True less.prems(3) show ?thesis unfolding step by fastforce
    next
      case pt: True
      from less.hyps [of ?h i] h less.prems True have
        IH: "i \<le> sortSearch p i ?h \<and> sortSearch p i ?h \<le> ?h \<and> (\<forall>k < sortSearch p i ?h. \<not> p k) \<and>
          (sortSearch p i ?h < ?h \<longrightarrow> p (sortSearch p i ?h))" by auto
      then have "p (sortSearch p i ?h)" using pt by (cases "sortSearch p i ?h = ?h") auto
      with IH h pt show ?thesis unfolding step by auto
    qed
  next
    case False
    then have "sortSearch p i j = i" by (subst sortSearch.simps) simp
    with less.prems False show ?thesis by simp
  qed
qed

section \<open>What a slot writes\<close>

definition txWrites :: "codec \<Rightarrow> tx_result option list \<Rightarrow> store_write list" where
  "txWrites C rs = concat (map (\<lambda>r. case r of None \<Rightarrow> []
     | Some t \<Rightarrow> if isl (marshalTxResult C (Some t)) then [] else [WTx t]) rs)"

fun chunkWrites :: "codec \<Rightarrow> nat \<Rightarrow> block list \<Rightarrow> tx_result option list list \<Rightarrow> store_write list" where
  "chunkWrites C i [] rs = []"
| "chunkWrites C i (b # bs) rs =
     (if isl (marshalBlock C b) then [] else WBlock b # txWrites C (rs ! i)) @ chunkWrites C (Suc i) bs rs"

fun chunkEvents :: "codec \<Rightarrow> nat \<Rightarrow> block list \<Rightarrow> tx_result option list list \<Rightarrow> newBlock list" where
  "chunkEvents C i [] rs = []"
| "chunkEvents C i (b # bs) rs =
     (if isl (marshalBlock C b) then [] else [\<lparr>nbBlock = b, nbResults = rs ! i\<rparr>]) @ chunkEvents C (Suc i) bs rs"

lemma txWrites_simps [simp]:
  "txWrites C [] = []"
  "txWrites C (None # rs) = txWrites C rs"
  "txWrites C (Some t # rs) = (if isl (marshalTxResult C (Some t)) then [] else [WTx t]) @ txWrites C rs"
  by (simp_all add: txWrites_def)

locale fetching =
  storage_api S C sabs sinv wabs winv brest binv trest tinv + insertion_queue Q
  for S :: "('st, 'wb, 'bi, 'ti) storage" and C sabs sinv wabs winv brest binv trest tinv Q
begin

lemma writeTxs_inv:
  "writeTxs S w rs = Ret w' \<Longrightarrow> winv w \<Longrightarrow> winv w' \<and> wabs w' = wabs w @ txWrites C rs"
proof (induction rs arbitrary: w)
  case (Cons r rs)
  from Cons.prems(1) obtain err w1 where
    s: "wb_SetTx S w r = Ret (err, w1)" "writeTxs S w1 rs = Ret w'"
    by (auto simp: bindO_Ret_iff split: if_splits)
  show ?case
  proof (cases r)
    case None
    with set_tx_nil [OF Cons.prems(2)] s Cons.IH [OF s(2)] show ?thesis by simp
  next
    case (Some t)
    then show ?thesis
      using s Cons.IH [OF s(2)] set_tx_ok [OF Cons.prems(2), of t] set_tx_err [of "Some t" _ w] Cons.prems(2)
      by (cases "marshalTxResult C (Some t)") fastforce+
  qed
qed simp

lemma writeTxs_ok:
  "None \<notin> set rs \<Longrightarrow> winv w \<Longrightarrow> \<exists>w'. writeTxs S w rs = Ret w'"
proof (induction rs arbitrary: w)
  case (Cons r rs)
  then obtain t where t: "r = Some t" by (cases r) auto
  show ?case
  proof (cases "marshalTxResult C (Some t)")
    case (Inl err)
    with Cons t set_tx_err show ?thesis by fastforce
  next
    case (Inr e)
    with Cons t set_tx_ok [OF Cons.prems(2) Inr] show ?thesis by fastforce
  qed
qed simp

lemma writeBlocks_inv:
  "writeBlocks S w ev i bs rs = Ret (w', ev') \<Longrightarrow> winv w \<Longrightarrow>
   winv w' \<and> wabs w' = wabs w @ chunkWrites C i bs rs \<and> ev' = ev @ chunkEvents C i bs rs"
proof (induction bs arbitrary: w ev i)
  case (Cons b bs)
  show ?case
  proof (cases "marshalBlock C b")
    case (Inl err)
    with Cons set_block_err [OF Inl, of w] show ?thesis by simp
  next
    case (Inr e)
    with set_block_ok [OF Cons.prems(2) Inr] obtain w1 where
      w1: "wb_SetBlock S w b = (None, w1)" "winv w1" "wabs w1 = wabs w @ [WBlock b]" by blast
    with Cons.prems(1) obtain w2 where
      w2: "writeTxs S w1 (rs ! i) = Ret w2"
        "writeBlocks S w2 (ev @ [\<lparr>nbBlock = b, nbResults = rs ! i\<rparr>]) (Suc i) bs rs = Ret (w', ev')"
      by (auto simp: bindO_Ret_iff Let_def split: if_splits)
    from writeTxs_inv [OF w2(1) w1(2)] Cons.IH [OF w2(2)] w1(3) Inr show ?thesis by simp
  qed
qed simp

text \<open>No panic when there is an entry of results for every block and no entry is nil.\<close>

lemma writeBlocks_ok:
  "i + length bs \<le> length rs \<Longrightarrow> \<forall>r \<in> set rs. None \<notin> set r \<Longrightarrow> winv w \<Longrightarrow>
   \<exists>x. writeBlocks S w ev i bs rs = Ret x"
proof (induction bs arbitrary: w ev i)
  case (Cons b bs)
  show ?case
  proof (cases "marshalBlock C b")
    case (Inl err)
    with Cons set_block_err [OF Inl, of w] show ?thesis by simp
  next
    case (Inr e)
    with set_block_ok [OF Cons.prems(3) Inr] obtain w1 where
      w1: "wb_SetBlock S w b = (None, w1)" "winv w1" by blast
    from Cons.prems have i: "i < length rs" "None \<notin> set (rs ! i)" by auto
    with writeTxs_ok [OF _ w1(2)] obtain w2 where w2: "writeTxs S w1 (rs ! i) = Ret w2" by blast
    with writeTxs_inv [OF w2 w1(2)] Cons i w1 show ?thesis by simp
  qed
qed simp

lemma writeSlot_inv:
  assumes "Fetcher_writeSlot S f s = Ret (err, f')" "sinv (fStorage f)"
  shows "\<exists>ck. slChunk s = Some ck \<and> err = None \<and> sinv (fStorage f') \<and>
    sabs (fStorage f') = apply_writes C (sabs (fStorage f))
      (chunkWrites C 0 (ckBlocks ck) (ckResults ck) @ [WLatest (crTo (slRange s))]) \<and>
    fEvents f' = fEvents f @ chunkEvents C 0 (ckBlocks ck) (ckResults ck) \<and>
    fLatestChunkSize f' = int (length (ckBlocks ck)) \<and> fClient f' = fClient f \<and>
    fBuffer f' = fBuffer f \<and> fMaxSlots f' = fMaxSlots f \<and> fMaxChunkSize f' = fMaxChunkSize f"
proof -
  from assms(1) obtain ck w ev where
    ck: "slChunk s = Some ck"
    and wb: "writeBlocks S (s_WriteBatch S (fStorage f)) (fEvents f) 0 (ckBlocks ck) (ckResults ck) = Ret (w, ev)"
    by (auto simp: Fetcher_writeSlot_def bindO_Ret_iff split: option.splits)
  from writeBlocks_inv [OF wb] batch have
    w: "winv w" "wabs w = chunkWrites C 0 (ckBlocks ck) (ckResults ck)"
      "ev = fEvents f @ chunkEvents C 0 (ckBlocks ck) (ckResults ck)" by auto
  from set_latest [OF w(1)] obtain w1 where
    w1: "wb_SetLatestHeight S w (crTo (slRange s)) = (None, w1)" "winv w1"
      "wabs w1 = wabs w @ [WLatest (crTo (slRange s))]" by blast
  from commit [OF assms(2) w1(2)] obtain st where
    st: "wb_Commit S w1 (fStorage f) = (None, st)" "sinv st"
      "sabs st = apply_writes C (sabs (fStorage f)) (wabs w1)" by blast
  from assms(1) ck wb w1 st w show ?thesis
    by (auto simp: Fetcher_writeSlot_def Let_def)
qed

lemma writeSlot_ok:
  assumes "slChunk s = Some ck" "length (ckBlocks ck) \<le> length (ckResults ck)"
    "\<forall>r \<in> set (ckResults ck). None \<notin> set r" "sinv (fStorage f)"
  shows "\<exists>f'. Fetcher_writeSlot S f s = Ret (None, f')"
proof -
  from writeBlocks_ok [of 0 "ckBlocks ck" "ckResults ck"] assms batch obtain w ev where
    wb: "writeBlocks S (s_WriteBatch S (fStorage f)) (fEvents f) 0 (ckBlocks ck) (ckResults ck) = Ret (w, ev)"
    by fastforce
  from writeBlocks_inv [OF wb] batch have "winv w" by blast
  from set_latest [OF this] obtain w1 where
    w1: "wb_SetLatestHeight S w (crTo (slRange s)) = (None, w1)" "winv w1" by blast
  from commit [OF assms(4) w1(2)] wb w1 assms(1) show ?thesis
    by (auto simp: Fetcher_writeSlot_def Let_def)
qed

end

section \<open>Writing the leading slots\<close>

definition latest_of :: "store \<Rightarrow> u64" where
  "latest_of st = (case stLatest st of None \<Rightarrow> 0 | Some h \<Rightarrow> h)"

definition slotWrites :: "codec \<Rightarrow> slot \<Rightarrow> store_write list" where
  "slotWrites C s = (case slChunk s of None \<Rightarrow> []
     | Some ck \<Rightarrow> chunkWrites C 0 (ckBlocks ck) (ckResults ck) @ [WLatest (crTo (slRange s))])"

definition slotEvents :: "codec \<Rightarrow> slot \<Rightarrow> newBlock list" where
  "slotEvents C s = (case slChunk s of None \<Rightarrow> [] | Some ck \<Rightarrow> chunkEvents C 0 (ckBlocks ck) (ckResults ck))"

text \<open>
  What the fetcher keeps between steps: the store is sound and the slots follow the latest height
  without a hole.
\<close>

definition lined_up :: "('st \<Rightarrow> store) \<Rightarrow> ('st \<Rightarrow> bool) \<Rightarrow> ('st, 'c) fetcher \<Rightarrow> bool" where
  "lined_up sabs sinv f \<longleftrightarrow> sinv (fStorage f) \<and>
     contig (Suc (unat (latest_of (sabs (fStorage f))))) (map slRange (sQueue (fBuffer f)))"

text \<open>How a fetcher looks after the leading slots \<open>done\<close> of its queue were written.\<close>

definition wrote ::
    "('st \<Rightarrow> store) \<Rightarrow> codec \<Rightarrow> ('st, 'c) fetcher \<Rightarrow> slot list \<Rightarrow> ('st, 'c) fetcher \<Rightarrow> bool" where
  "wrote sabs C f done f' \<longleftrightarrow>
     sQueue (fBuffer f) = done @ sQueue (fBuffer f') \<and> (\<forall>s \<in> set done. slChunk s \<noteq> None) \<and>
     sabs (fStorage f') = apply_writes C (sabs (fStorage f)) (concat (map (slotWrites C) done)) \<and>
     fEvents f' = fEvents f @ concat (map (slotEvents C) done) \<and>
     latest_of (sabs (fStorage f)) \<le> latest_of (sabs (fStorage f')) \<and>
     sMaxSlots (fBuffer f') = sMaxSlots (fBuffer f) \<and> fMaxSlots f' = fMaxSlots f \<and>
     fMaxChunkSize f' = fMaxChunkSize f"

lemma wrote_step:
  assumes "sQueue (fBuffer f) = s # q" "slChunk s \<noteq> None"
    and "sabs (fStorage f1) = apply_writes C (sabs (fStorage f)) (slotWrites C s)" "fEvents f1 = fEvents f @ slotEvents C s"
    and "latest_of (sabs (fStorage f)) \<le> latest_of (sabs (fStorage f1))"
    and "fBuffer f1 = (fBuffer f)\<lparr>sQueue := q\<rparr>" "fMaxSlots f1 = fMaxSlots f" "fMaxChunkSize f1 = fMaxChunkSize f"
    and "wrote sabs C f1 done f'"
  shows "wrote sabs C f (s # done) f'"
  using assms unfolding wrote_def by auto

context fetching
begin

lemma lined_up_write:
  assumes "lined_up sabs sinv f" "sQueue (fBuffer f) = s # q"
    and "Fetcher_writeSlot S (f\<lparr>fBuffer := (fBuffer f)\<lparr>sQueue := q\<rparr>\<rparr>) s = Ret (err, f1)"
  shows "err = None \<and> lined_up sabs sinv f1 \<and> slChunk s \<noteq> None \<and>
    sabs (fStorage f1) = apply_writes C (sabs (fStorage f)) (slotWrites C s) \<and> fEvents f1 = fEvents f @ slotEvents C s \<and>
    latest_of (sabs (fStorage f)) \<le> latest_of (sabs (fStorage f1)) \<and>
    fBuffer f1 = (fBuffer f)\<lparr>sQueue := q\<rparr> \<and> fMaxSlots f1 = fMaxSlots f \<and> fMaxChunkSize f1 = fMaxChunkSize f"
proof -
  let ?f = "f\<lparr>fBuffer := (fBuffer f)\<lparr>sQueue := q\<rparr>\<rparr>"
  have "sinv (fStorage ?f)" using assms(1) by (simp add: lined_up_def)
  from writeSlot_inv [OF assms(3) this] obtain ck where
    w: "slChunk s = Some ck" "err = None" "sinv (fStorage f1)"
      "sabs (fStorage f1) = apply_writes C (sabs (fStorage f))
        (chunkWrites C 0 (ckBlocks ck) (ckResults ck) @ [WLatest (crTo (slRange s))])"
      "fEvents f1 = fEvents f @ chunkEvents C 0 (ckBlocks ck) (ckResults ck)"
    and eqs: "fBuffer f1 = (fBuffer f)\<lparr>sQueue := q\<rparr>" "fMaxSlots f1 = fMaxSlots f"
      "fMaxChunkSize f1 = fMaxChunkSize f" by auto
  have l: "latest_of (sabs (fStorage f1)) = crTo (slRange s)" unfolding w(4) by (simp add: latest_of_def)
  have c: "unat (crFrom (slRange s)) = Suc (unat (latest_of (sabs (fStorage f))))"
    "unat (crFrom (slRange s)) \<le> unat (crTo (slRange s))" "contig (Suc (unat (crTo (slRange s)))) (map slRange q)"
    using assms(1,2) by (auto simp: lined_up_def)
  then have "latest_of (sabs (fStorage f)) \<le> latest_of (sabs (fStorage f1))"
    unfolding l by (simp add: word_le_nat_alt)
  with w l c eqs show ?thesis by (simp add: lined_up_def slotWrites_def slotEvents_def)
qed

text \<open>The loop always ends, and without an error; what it may still do is panic in a chunk without results.\<close>

lemma flush_inv:
  "lined_up sabs sinv f \<Longrightarrow>
   \<exists>r. flushSlots S Q f = Some r \<and>
     (\<forall>err f'. r = Ret (err, f') \<longrightarrow> err = None \<and> lined_up sabs sinv f' \<and>
        (\<exists>done. wrote sabs C f done f') \<and>
        (sQueue (fBuffer f') \<noteq> [] \<longrightarrow> slChunk (hd (sQueue (fBuffer f'))) = None))"
proof (induction "sQueue (fBuffer f)" arbitrary: f)
  case Nil
  then have "flushSlots S Q f = Some (Ret (None, f))" by (subst flushSlots.simps) (simp add: len)
  moreover have "wrote sabs C f [] f" by (simp add: wrote_def)
  ultimately show ?case using Nil by auto
next
  case (Cons s q)
  note q = Cons.hyps(2) [symmetric]
  let ?f = "f\<lparr>fBuffer := (fBuffer f)\<lparr>sQueue := q\<rparr>\<rparr>"
  have get: "slots_getSlot Q (fBuffer f) 0 = Some s" by (simp add: slots_getSlot_def len index q)
  have step: "flushSlots S Q f = (if slChunk s = None then Some (Ret (None, f))
      else case Fetcher_writeSlot S ?f s of
             Panic m \<Rightarrow> Some (Panic m)
           | Ret (err, f) \<Rightarrow> (case err of Some e \<Rightarrow> Some (Ret (Some e, f)) | None \<Rightarrow> flushSlots S Q f))"
    by (subst flushSlots.simps) (simp add: len q get pop Let_def)
  show ?case
  proof (cases "slChunk s = None")
    case True
    have "wrote sabs C f [] f" by (simp add: wrote_def)
    with True step q Cons.prems show ?thesis by auto
  next
    case False
    show ?thesis
    proof (cases "Fetcher_writeSlot S ?f s")
      case (Panic m)
      with step False show ?thesis by simp
    next
      case (Ret x)
      then obtain err f1 where w: "Fetcher_writeSlot S ?f s = Ret (err, f1)" by (cases x) auto
      note l = lined_up_write [OF Cons.prems q w]
      then have q1: "sQueue (fBuffer f1) = q" by simp
      from Cons.hyps(1) [OF q1 [symmetric]] l obtain r where
        r: "flushSlots S Q f1 = Some r"
          "\<forall>err f'. r = Ret (err, f') \<longrightarrow> err = None \<and> lined_up sabs sinv f' \<and>
            (\<exists>done. wrote sabs C f1 done f') \<and>
            (sQueue (fBuffer f') \<noteq> [] \<longrightarrow> slChunk (hd (sQueue (fBuffer f'))) = None)" by blast
      have "flushSlots S Q f = Some r" using step False w l r(1) by simp
      moreover have "\<exists>done. wrote sabs C f done f'" if "wrote sabs C f1 done' f'" for done' f'
        using wrote_step [OF q False, of sabs f1 C done' f'] l that by blast
      ultimately show ?thesis using r(2) by blast
    qed
  qed
qed

end

end
