(* ===== verification/Storage_Encode.thy ===== *)
theory Storage_Encode
  imports Indexer_Prelude
begin

text \<open>
  The key encoding of \<open>storage/encode.go\<close>: big-endian integers, and byte strings with an
  escape-based encoding that ends in a terminator. The lemmas show that decoding inverts
  encoding (also with a suffix behind it), that only encodings decode, and that the encodings
  keep the order of what they encode, which the iterators of the store rely on.
\<close>

unbundle bit_operations_syntax

section \<open>Constants\<close>

definition bytesMarker :: byte where "bytesMarker = 0x12"
definition escape :: byte where "escape = 0x00"
definition escapedTerm :: byte where "escapedTerm = 0x01"
definition escaped00 :: byte where "escaped00 = 0xff"
definition escapedFF :: byte where "escapedFF = 0x00"

lemmas marker_defs = bytesMarker_def escape_def escapedTerm_def escaped00_def escapedFF_def

record escapes =
  e_escape :: byte
  e_escapedTerm :: byte
  e_escaped00 :: byte
  e_escapedFF :: byte
  e_marker :: byte

definition ascendingBytesEscapes :: escapes where
  "ascendingBytesEscapes = \<lparr>e_escape = escape, e_escapedTerm = escapedTerm,
     e_escaped00 = escaped00, e_escapedFF = escapedFF, e_marker = bytesMarker\<rparr>"

section \<open>Integers\<close>

definition encodeUint32Ascending :: "bytes \<Rightarrow> u32 \<Rightarrow> bytes" where
  "encodeUint32Ascending b v =
     b @ [ucast (drop_bit 24 v), ucast (drop_bit 16 v), ucast (drop_bit 8 v), ucast v]"

definition decodeUint32Ascending :: "bytes \<Rightarrow> go_error + bytes \<times> u32" where
  "decodeUint32Ascending b =
     (if length b < 4 then Inl (ErrMsg ''insufficient bytes to decode uint32 int value'')
      else let v = ucast (b ! 3) OR push_bit 8 (ucast (b ! 2)) OR push_bit 16 (ucast (b ! 1))
                   OR push_bit 24 (ucast (b ! 0))
           in Inr (drop 4 b, v))"

definition encodeUint64Ascending :: "bytes \<Rightarrow> u64 \<Rightarrow> bytes" where
  "encodeUint64Ascending b v =
     b @ [ucast (drop_bit 56 v), ucast (drop_bit 48 v), ucast (drop_bit 40 v), ucast (drop_bit 32 v),
          ucast (drop_bit 24 v), ucast (drop_bit 16 v), ucast (drop_bit 8 v), ucast v]"

text \<open>\<open>binary.BigEndian.Uint64\<close> of the standard library, on a slice of at least eight bytes.\<close>

definition bigEndianUint64 :: "bytes \<Rightarrow> u64" where
  "bigEndianUint64 b =
     ucast (b ! 7) OR push_bit 8 (ucast (b ! 6)) OR push_bit 16 (ucast (b ! 5)) OR
     push_bit 24 (ucast (b ! 4)) OR push_bit 32 (ucast (b ! 3)) OR push_bit 40 (ucast (b ! 2)) OR
     push_bit 48 (ucast (b ! 1)) OR push_bit 56 (ucast (b ! 0))"

definition decodeUint64Ascending :: "bytes \<Rightarrow> go_error + bytes \<times> u64" where
  "decodeUint64Ascending b =
     (if length b < 8 then Inl (ErrMsg ''insufficient bytes to decode uint64 int value'')
      else Inr (drop 8 b, bigEndianUint64 b))"

section \<open>Byte strings\<close>

text \<open>\<open>bytes.IndexByte\<close>: the first position of the byte, \<open>None\<close> for -1.\<close>

fun indexByte :: "bytes \<Rightarrow> byte \<Rightarrow> nat option" where
  "indexByte [] c = None"
| "indexByte (x # xs) c = (if x = c then Some 0 else map_option Suc (indexByte xs c))"

lemma indexByte_less: "indexByte xs c = Some i \<Longrightarrow> i < length xs"
  by (induction xs arbitrary: i) (auto split: if_splits)

lemma indexByte_append_notin: "c \<notin> set xs \<Longrightarrow> indexByte (xs @ c # ys) c = Some (length xs)"
  by (induction xs) auto

lemma indexByte_None_iff: "indexByte xs c = None \<longleftrightarrow> c \<notin> set xs"
  by (induction xs) auto

lemma indexByte_Some_split:
  "indexByte xs c = Some i \<Longrightarrow> xs = take i xs @ c # drop (Suc i) xs \<and> c \<notin> set (take i xs)"
proof (induction xs arbitrary: i)
  case Nil
  then show ?case by simp
next
  case (Cons x xs)
  then show ?case by (cases i) (auto split: if_splits)
qed

function encodeBytesAscendingWithoutTerminatorOrPrefix :: "bytes \<Rightarrow> bytes \<Rightarrow> bytes" where
  "encodeBytesAscendingWithoutTerminatorOrPrefix b data =
     (case indexByte data escape of
        None \<Rightarrow> b @ data
      | Some i \<Rightarrow> encodeBytesAscendingWithoutTerminatorOrPrefix
                    (b @ take i data @ [escape, escaped00]) (drop (i + 1) data))"
  by pat_completeness auto
termination
  by (relation "measure (\<lambda>(b, data). length data)") (auto dest: indexByte_less)

declare encodeBytesAscendingWithoutTerminatorOrPrefix.simps [simp del]

definition encodeBytesAscendingWithTerminator :: "bytes \<Rightarrow> bytes \<Rightarrow> byte \<Rightarrow> bytes" where
  "encodeBytesAscendingWithTerminator b data terminator =
     encodeBytesAscendingWithoutTerminatorOrPrefix b data @ [escape, terminator]"

definition encodeBytesAscendingWithTerminatorAndPrefix ::
    "bytes \<Rightarrow> bytes \<Rightarrow> byte \<Rightarrow> byte \<Rightarrow> bytes" where
  "encodeBytesAscendingWithTerminatorAndPrefix b data terminator prefix =
     encodeBytesAscendingWithTerminator (b @ [prefix]) data terminator"

definition unsafeConvertStringToBytes :: "string \<Rightarrow> bytes" where
  "unsafeConvertStringToBytes s = (if s = '''' then [] else str_bytes s)"

definition unsafeConvertBytesToString :: "bytes \<Rightarrow> string" where
  "unsafeConvertBytesToString b = bytes_str b"

definition encodeStringAscendingWithTerminatorAndPrefix ::
    "bytes \<Rightarrow> string \<Rightarrow> byte \<Rightarrow> byte \<Rightarrow> bytes" where
  "encodeStringAscendingWithTerminatorAndPrefix b s terminator prefix =
     encodeBytesAscendingWithTerminatorAndPrefix b (unsafeConvertStringToBytes s) terminator prefix"

definition encodeStringAscending :: "bytes \<Rightarrow> string \<Rightarrow> bytes" where
  "encodeStringAscending b s =
     encodeStringAscendingWithTerminatorAndPrefix b s
       (e_escapedTerm ascendingBytesEscapes) bytesMarker"

text \<open>
  The decoding loop. A nil and an empty \<open>r\<close> are both the empty list: the two branches at the
  terminator then give the same bytes and differ in the source only in what memory they share.
\<close>

function decodeBytesLoop :: "bytes \<Rightarrow> bytes \<Rightarrow> escapes \<Rightarrow> bool \<Rightarrow> go_error + bytes \<times> bytes" where
  "decodeBytesLoop b r e deepCopy =
     (case indexByte b (e_escape e) of
        None \<Rightarrow> Inl (ErrMsg ''did not find terminator in buffer'')
      | Some i \<Rightarrow>
          if i + 1 \<ge> length b then Inl (ErrMsg ''malformed escape in buffer'')
          else let v = b ! (i + 1) in
            if v = e_escapedTerm e then
              Inr (drop (i + 2) b,
                   if r = [] \<and> \<not> deepCopy then take i b else r @ take i b)
            else if v \<noteq> e_escaped00 e then Inl (ErrMsg ''unknown escape sequence'')
            else decodeBytesLoop (drop (i + 2) b) (r @ take i b @ [e_escapedFF e]) e deepCopy)"
  by pat_completeness auto
termination
  by (relation "measure (\<lambda>(b, r, e, d). length b)") (auto dest: indexByte_less)

declare decodeBytesLoop.simps [simp del]

definition decodeBytesInternal ::
    "bytes \<Rightarrow> bytes \<Rightarrow> escapes \<Rightarrow> bool \<Rightarrow> bool \<Rightarrow> go_error + bytes \<times> bytes" where
  "decodeBytesInternal b r e expectMarker deepCopy =
     (if expectMarker \<and> (length b = 0 \<or> b ! 0 \<noteq> e_marker e)
      then Inl (ErrMsg ''did not find marker in buffer'')
      else decodeBytesLoop (if expectMarker then drop 1 b else b) r e deepCopy)"

definition decodeBytesAscending :: "bytes \<Rightarrow> bytes \<Rightarrow> go_error + bytes \<times> bytes" where
  "decodeBytesAscending b r = decodeBytesInternal b r ascendingBytesEscapes True False"

definition decodeUnsafeStringAscending :: "bytes \<Rightarrow> bytes \<Rightarrow> go_error + bytes \<times> string" where
  "decodeUnsafeStringAscending b r =
     map_sum id (\<lambda>(rest, d). (rest, unsafeConvertBytesToString d)) (decodeBytesAscending b r)"

section \<open>Integers: round trip and order\<close>

lemma encodeUint32_acc: "encodeUint32Ascending b v = b @ encodeUint32Ascending [] v"
  by (simp add: encodeUint32Ascending_def)

lemma encodeUint64_acc: "encodeUint64Ascending b v = b @ encodeUint64Ascending [] v"
  by (simp add: encodeUint64Ascending_def)

lemma length_encodeUint [simp]:
  "length (encodeUint32Ascending b v) = length b + 4"
  "length (encodeUint64Ascending b w) = length b + 8"
  by (simp_all add: encodeUint32Ascending_def encodeUint64Ascending_def)

text \<open>Bytes glued back together: the low byte at \<open>k\<close> and everything above it.\<close>

lemma glue_byte:
  "push_bit k (ucast (ucast (drop_bit k v) :: byte)) OR push_bit (k + 8) (drop_bit (k + 8) v)
   = push_bit k (drop_bit k (v :: 'a::len word))"
proof (rule bit_word_eqI)
  fix n
  show "bit (push_bit k (ucast (ucast (drop_bit k v) :: byte)) OR push_bit (k + 8) (drop_bit (k + 8) v)) n
        = bit (push_bit k (drop_bit k v)) n"
    by (cases "n < k + 8") (auto simp add: bit_simps not_less le_diff_conv2 algebra_simps)
qed

lemma glue_u32: "(ucast (ucast v :: byte) :: u32) OR push_bit 8 (ucast (ucast (drop_bit 8 v) :: byte))
   OR push_bit 16 (ucast (ucast (drop_bit 16 v) :: byte)) OR push_bit 24 (ucast (ucast (drop_bit 24 v) :: byte)) = v"
proof -
  have top: "ucast (ucast (drop_bit 24 v) :: byte) = drop_bit 24 v"
    by (rule bit_word_eqI) (auto simp add: bit_simps dest: bit_imp_le_length)
  show ?thesis
    using glue_byte [of 16 v] glue_byte [of 8 v] glue_byte [of 0 v] by (simp add: top)
qed

lemma glue_u64: "(ucast (ucast v :: byte) :: u64) OR push_bit 8 (ucast (ucast (drop_bit 8 v) :: byte))
   OR push_bit 16 (ucast (ucast (drop_bit 16 v) :: byte)) OR push_bit 24 (ucast (ucast (drop_bit 24 v) :: byte))
   OR push_bit 32 (ucast (ucast (drop_bit 32 v) :: byte)) OR push_bit 40 (ucast (ucast (drop_bit 40 v) :: byte))
   OR push_bit 48 (ucast (ucast (drop_bit 48 v) :: byte)) OR push_bit 56 (ucast (ucast (drop_bit 56 v) :: byte))
  = v"
proof -
  have top: "ucast (ucast (drop_bit 56 v) :: byte) = drop_bit 56 v"
    by (rule bit_word_eqI) (auto simp add: bit_simps dest: bit_imp_le_length)
  show ?thesis
    using glue_byte [of 48 v] glue_byte [of 40 v] glue_byte [of 32 v] glue_byte [of 24 v]
      glue_byte [of 16 v] glue_byte [of 8 v] glue_byte [of 0 v] by (simp add: top)
qed

definition be_val :: "bytes \<Rightarrow> nat" where
  "be_val xs = foldl (\<lambda>a x. a * 256 + unat x) 0 xs"

lemma be_val_snoc [simp]: "be_val (xs @ [x]) = be_val xs * 256 + unat x"
  by (simp add: be_val_def)

lemma be_val_Nil[simp]: "be_val [] = 0" by (simp add: be_val_def)

lemma be_val_compare:
  assumes "length xs = length ys"
  shows "(be_val xs = be_val ys \<longleftrightarrow> xs = ys) \<and> (be_val xs < be_val ys \<longleftrightarrow> xs < ys)"
  using assms
proof (induction xs arbitrary: ys rule: rev_induct)
  case (snoc x xs)
  then obtain z zs where ys: "ys = zs @ [z]" "length xs = length zs"
    by (cases ys rule: rev_cases) auto
  with snoc.IH [of zs] word_unat_eq_iff [of x z] show ?case
    by (simp add: digit_cmp unat_bounds less_append_same_length word_less_nat_alt)
qed simp

lemma be_val_digits: "be_val (map (\<lambda>i. word_of_nat (n div 256 ^ i)) (rev [0..<k])) = n mod 256 ^ k"
proof (induction k arbitrary: n)
  case (Suc k)
  have *: "rev [0..<Suc k] = map Suc (rev [0..<k]) @ [0]"
    by (metis map_Suc_upt rev_map upt_conv_Cons zero_less_Suc rev.simps(2))
  have "be_val (map (\<lambda>i. word_of_nat (n div 256 ^ i)) (rev [0..<Suc k])) = 
     be_val (map (\<lambda>i. word_of_nat ((n div 256) div 256 ^ i)) (rev [0..<k])) * 256 + n mod 256"
    unfolding * by (simp add: comp_def div_mult2_eq unat_of_nat)
  also have "\<dots> = n mod 256 ^ Suc k"
    by (simp add: Suc mod_mult2_eq)
  finally show ?case .
qed simp

lemma byte_of_digit: "(ucast (drop_bit (8*i) (v :: 'a::len word)) :: byte) = word_of_nat (unat v div 256 ^ i)"
proof -
  have "unat (drop_bit (8*i) v) = unat v div 256 ^ i"
    using unat_drop_bit_eq [of "8 * i" v] by (simp only: drop_bit_eq_div power_mult) simp
  moreover have "ucast w = (word_of_nat (unat w) :: byte)" for w :: "'a word"
    by simp
  ultimately show ?thesis by metis
qed

lemma rev_upt4: "rev [0..<4] = [3, 2, 1, 0]"
  by (simp add: numeral_eq_Suc)

lemma rev_upt8: "rev [0..<8] = [7, 6, 5, 4, 3, 2, 1, 0]"
  by (simp add: numeral_eq_Suc)

lemma be_val_encodeUint32: "be_val (encodeUint32Ascending [] v) = unat v"
proof -
  have "encodeUint32Ascending [] v = map (\<lambda>i. ucast (drop_bit (8 * i) v)) (rev [0..<4])"
    by (simp add: encodeUint32Ascending_def rev_upt4)
  then have "be_val (encodeUint32Ascending [] v) = unat v mod 256 ^ 4"
    by (simp only: byte_of_digit be_val_digits)
  also have "\<dots> = unat v" by (simp add: unat_bounds)
  finally show ?thesis .
qed

lemma be_val_encodeUint64: "be_val (encodeUint64Ascending [] v) = unat v"
proof -
  have "encodeUint64Ascending [] v = map (\<lambda>i. ucast (drop_bit (8 * i) v)) (rev [0..<8])"
    by (simp add: encodeUint64Ascending_def rev_upt8)
  then have "be_val (encodeUint64Ascending [] v) = unat v mod 256 ^ 8"
    by (simp only: byte_of_digit be_val_digits)
  also have "\<dots> = unat v" by (simp add: unat_bounds)
  finally show ?thesis .
qed

lemma encodeUint32_less [byte_order]:
  "encodeUint32Ascending [] a < encodeUint32Ascending [] b \<longleftrightarrow> a < b"
  using be_val_compare [of "encodeUint32Ascending [] a" "encodeUint32Ascending [] b"]
  by (simp add: be_val_encodeUint32 word_less_nat_alt)

lemma encodeUint64_less [byte_order]:
  "encodeUint64Ascending [] a < encodeUint64Ascending [] b \<longleftrightarrow> a < b"
  using be_val_compare [of "encodeUint64Ascending [] a" "encodeUint64Ascending [] b"]
  by (simp add: be_val_encodeUint64 word_less_nat_alt)

lemma decode_encodeUint32:
  "decodeUint32Ascending (encodeUint32Ascending [] v @ rest) = Inr (rest, v)"
  using glue_u32 [of v]
  by (simp add: decodeUint32Ascending_def encodeUint32Ascending_def numeral_2_eq_2 numeral_3_eq_3)

lemma decode_encodeUint64:
  "decodeUint64Ascending (encodeUint64Ascending [] v @ rest) = Inr (rest, v)"
  using glue_u64 [of v]
  by (simp add: decodeUint64Ascending_def bigEndianUint64_def encodeUint64Ascending_def eval_nat_numeral)

lemma encodeUint_inject [simp]:
  "encodeUint32Ascending [] a = encodeUint32Ascending [] b \<longleftrightarrow> a = b"
  "encodeUint64Ascending [] c = encodeUint64Ascending [] d \<longleftrightarrow> c = d"
  by (metis decode_encodeUint32 Pair_inject sum.inject(2))
     (metis decode_encodeUint64 Pair_inject sum.inject(2))

section \<open>Byte strings: round trip and order\<close>

text \<open>What the encoding loop computes: every zero byte becomes the pair \<open>00 ff\<close>.\<close>

definition esc :: "bytes \<Rightarrow> bytes" where
  "esc d = concat (map (\<lambda>x. if x = escape then [escape, escaped00] else [x]) d)"

lemma esc_simps [simp]:
  "esc [] = []"
  "esc (x # d) = (if x = escape then [escape, escaped00] else [x]) @ esc d"
  "esc (c @ d) = esc c @ esc d"
  by (simp_all add: esc_def)

lemma esc_no_zero: "escape \<notin> set d \<Longrightarrow> esc d = d"
  by (induction d) auto

lemma encodeBytesAscendingWithoutTerminatorOrPrefix_esc:
  "encodeBytesAscendingWithoutTerminatorOrPrefix b d = b @ esc d"
proof (induction b d rule: encodeBytesAscendingWithoutTerminatorOrPrefix.induct)
  case (1 b d)
  show ?case
  proof (cases "indexByte d escape")
    case None
    then have "escape \<notin> set d" by (simp add: indexByte_None_iff)
    with None show ?thesis
      by (subst encodeBytesAscendingWithoutTerminatorOrPrefix.simps) (simp add: esc_no_zero)
  next
    case (Some i)
    from indexByte_Some_split [OF Some]
    have d: "d = take i d @ escape # drop (i + 1) d" and nz: "escape \<notin> set (take i d)" by simp_all
    have "esc d = take i d @ [escape, escaped00] @ esc (drop (i + 1) d)"
      by (subst d) (simp add: esc_no_zero [OF nz])
    with 1 [OF Some] Some show ?thesis
      by (subst encodeBytesAscendingWithoutTerminatorOrPrefix.simps) simp
  qed
qed

lemma encodeStringAscending_esc:
  "encodeStringAscending b s = b @ bytesMarker # esc (str_bytes s) @ [escape, escapedTerm]"
  by (cases "s = ''''")
     (simp_all add: encodeStringAscending_def encodeStringAscendingWithTerminatorAndPrefix_def
       encodeBytesAscendingWithTerminatorAndPrefix_def encodeBytesAscendingWithTerminator_def
       encodeBytesAscendingWithoutTerminatorOrPrefix_esc unsafeConvertStringToBytes_def
       ascendingBytesEscapes_def str_bytes_def)

lemma encodeStringAscending_acc:
  "encodeStringAscending b s = b @ encodeStringAscending [] s"
  by (simp add: encodeStringAscending_esc)

text \<open>
  The terminator \<open>00 01\<close> is below every escaped zero \<open>00 ff\<close> and below every other byte, so
  the order of the encodings is the order of the strings, and a suffix only decides between
  equal strings.
\<close>

lemma esc_term_less [byte_order]:
  "esc a @ escape # escapedTerm # s < esc b @ escape # escapedTerm # t \<longleftrightarrow> a < b \<or> a = b \<and> s < t"
proof (induction a arbitrary: b)
  case Nil
  show ?case
    by (cases b) (auto simp: marker_defs word_less_nat_alt unat_gt_0)
next
  case (Cons x a)
  show ?case
  proof (cases b)
    case Nil
    then show ?thesis by (auto simp: marker_defs word_less_nat_alt unat_gt_0)
  next
    case (Cons y b')
    with Cons.IH [of b'] show ?thesis
      by (auto simp: marker_defs word_less_nat_alt unat_gt_0)
  qed
qed

lemma encodeStringAscending_less [byte_order]:
  "encodeStringAscending [] a @ s < encodeStringAscending [] b @ t
   \<longleftrightarrow> str_bytes a < str_bytes b \<or> a = b \<and> s < t"
  by (simp add: encodeStringAscending_esc esc_term_less)

lemma decodeBytesLoop_esc:
  "decodeBytesLoop (esc d @ escape # escapedTerm # rest) r ascendingBytesEscapes dc = Inr (rest, r @ d)"
proof (induction d arbitrary: r rule: length_induct)
  case (1 d)
  let ?e = ascendingBytesEscapes
  show ?case
  proof (cases "indexByte d escape")
    case None
    then have nz: "escape \<notin> set d" by (simp add: indexByte_None_iff)
    then have "indexByte (d @ escape # escapedTerm # rest) escape = Some (length d)"
      by (rule indexByte_append_notin)
    with esc_no_zero [OF nz] show ?thesis
      by (subst decodeBytesLoop.simps) (simp add: ascendingBytesEscapes_def nth_append)
  next
    case (Some i)
    from indexByte_Some_split [OF Some]
    have d: "d = take i d @ escape # drop (Suc i) d" and nz: "escape \<notin> set (take i d)" by simp_all
    let ?tl = "esc (drop (Suc i) d) @ escape # escapedTerm # rest"
    have enc: "esc d @ escape # escapedTerm # rest = take i d @ escape # escaped00 # ?tl"
      by (subst d) (simp add: esc_no_zero [OF nz])
    have len: "length (take i d) = i" using indexByte_less [OF Some] by simp
    have "decodeBytesLoop (esc d @ escape # escapedTerm # rest) r ?e dc
          = decodeBytesLoop ?tl (r @ take i d @ [escape]) ?e dc"
      unfolding enc
      using indexByte_append_notin [OF nz, of "escaped00 # ?tl"] len
      by (subst decodeBytesLoop.simps)
         (simp add: ascendingBytesEscapes_def nth_append marker_defs)
    also have "\<dots> = Inr (rest, (r @ take i d @ [escape]) @ drop (Suc i) d)"
      using 1 indexByte_less [OF Some] by simp
    finally show ?thesis using d by simp
  qed
qed

lemma decodeBytesLoop_Inr_esc:
  assumes "decodeBytesLoop b r e dc = Inr (rest, out)" and "e = ascendingBytesEscapes"
  shows "\<exists>d. b = esc d @ escape # escapedTerm # rest \<and> out = r @ d"
  using assms
proof (induction b r e dc rule: decodeBytesLoop.induct)
  case (1 b r e dc)
  have e: "e_escape e = escape" "e_escapedTerm e = escapedTerm" "e_escaped00 e = escaped00"
    "e_escapedFF e = escape"
    using 1(3) by (simp_all add: ascendingBytesEscapes_def escape_def escapedFF_def)
  note run = 1(2) [unfolded decodeBytesLoop.simps [of b r e dc] e]
  from run obtain i where i: "indexByte b escape = Some i"
    by (auto split: option.splits)
  from indexByte_Some_split [OF i]
  have b: "b = take i b @ escape # drop (Suc i) b" and nz: "escape \<notin> set (take i b)" by simp_all
  from run i have lt: "Suc i < length b" by (auto split: if_splits)
  then have b2: "drop (Suc i) b = b ! Suc i # drop (i + 2) b"
    by (simp add: Cons_nth_drop_Suc [symmetric])
  show ?case
  proof (cases "b ! Suc i = escapedTerm")
    case True
    with run i lt have "rest = drop (i + 2) b" "out = r @ take i b" by (auto split: if_splits)
    with b b2 True esc_no_zero [OF nz] show ?thesis by (metis append_Cons)
  next
    case False
    with run i lt have v: "b ! Suc i = escaped00"
      and rec: "decodeBytesLoop (drop (i + 2) b) (r @ take i b @ [escape]) e dc = Inr (rest, out)"
      by (auto split: if_splits)
    from 1(1) [of i "b ! Suc i", unfolded e, OF i _ _ _ _ _ 1(3)] lt v rec False obtain d where
      d: "drop (i + 2) b = esc d @ escape # escapedTerm # rest" "out = (r @ take i b @ [escape]) @ d"
      by auto
    have "b = esc (take i b @ escape # d) @ escape # escapedTerm # rest"
      using b b2 v d(1) esc_no_zero [OF nz] by simp
    with d(2) show ?thesis by (intro exI [of _ "take i b @ escape # d"]) simp
  qed
qed

lemma decode_string_iff:
  "decodeUnsafeStringAscending b [] = Inr (rest, s) \<longleftrightarrow> b = encodeStringAscending [] s @ rest"
proof
  assume "decodeUnsafeStringAscending b [] = Inr (rest, s)"
  then obtain d where dec: "decodeBytesAscending b [] = Inr (rest, d)" and s: "s = bytes_str d"
    by (cases "decodeBytesAscending b []")
       (auto simp: decodeUnsafeStringAscending_def unsafeConvertBytesToString_def)
  from dec have m: "b \<noteq> []" "hd b = bytesMarker"
    and loop: "decodeBytesLoop (tl b) [] ascendingBytesEscapes False = Inr (rest, d)"
    by (auto simp: decodeBytesAscending_def decodeBytesInternal_def ascendingBytesEscapes_def
        hd_conv_nth drop_Suc split: if_splits)
  from decodeBytesLoop_Inr_esc [OF loop refl] have "tl b = esc d @ escape # escapedTerm # rest"
    by simp
  with m show "b = encodeStringAscending [] s @ rest"
    unfolding s by (cases b) (simp_all add: encodeStringAscending_esc)
next
  assume "b = encodeStringAscending [] s @ rest"
  then show "decodeUnsafeStringAscending b [] = Inr (rest, s)"
    using decodeBytesLoop_esc [of "str_bytes s" rest "[]" False]
    by (simp add: decodeUnsafeStringAscending_def decodeBytesAscending_def decodeBytesInternal_def
        encodeStringAscending_esc ascendingBytesEscapes_def unsafeConvertBytesToString_def)
qed

section \<open>The properties of the encoding\<close>

text \<open>
  C23. Decoding a string key accepts exactly the encodings: for every buffer, the decoder returns
  the string \<open>s\<close> with the unread rest if and only if the buffer is the encoding of \<open>s\<close> followed
  by that rest. So encoding and decoding are inverse, the encoding is prefix-free, and every
  malformed buffer is an error. Encoded strings compare as the strings do.
\<close>

theorem decodeUnsafeStringAscending_iff:
  "(decodeUnsafeStringAscending b [] = Inr (rest, s) \<longleftrightarrow> b = encodeStringAscending [] s @ rest) \<and>
   (encodeStringAscending [] s < encodeStringAscending [] t \<longleftrightarrow> str_bytes s < str_bytes t)"
  using encodeStringAscending_less [of s "[]" t "[]"] by (simp add: decode_string_iff)

text \<open>
  C22. The integer encodings are order embeddings with an exact inverse: the encoded heights and
  indexes compare (as byte strings) as the numbers do, decoding returns the number and the bytes
  behind it, and a buffer that is too short is an error rather than a number.
\<close>

theorem encodeUintAscending_correct:
  "(encodeUint64Ascending [] h < encodeUint64Ascending [] h' \<longleftrightarrow> h < h') \<and>
   (encodeUint32Ascending [] i < encodeUint32Ascending [] i' \<longleftrightarrow> i < i') \<and>
   decodeUint64Ascending (encodeUint64Ascending [] h @ rest) = Inr (rest, h) \<and>
   decodeUint32Ascending (encodeUint32Ascending [] i @ rest) = Inr (rest, i) \<and>
   ((\<exists>e. decodeUint64Ascending b = Inl e) \<longleftrightarrow> length b < 8) \<and>
   ((\<exists>e. decodeUint32Ascending b = Inl e) \<longleftrightarrow> length b < 4)"
  unfolding encodeUint64_less encodeUint32_less decode_encodeUint64 decode_encodeUint32
  by (simp add: decodeUint64Ascending_def decodeUint32Ascending_def Let_def)

end
