(* ===== verification/Storage_Pebble.thy ===== *)
theory Storage_Pebble
  imports Storage_Encode Storage_Api
begin

text \<open>
  The embedded store of \<open>storage/pebble.go\<close>: keys, reads, iterators and write batches over the
  operations of the Pebble database, which is a package outside the repository and so an argument
  \<open>P\<close> of every definition. The locale \<open>pebble_db\<close> states the documented behaviour of a
  fault-free database; under it the store keeps the contract \<open>storage_api\<close>.
\<close>

section \<open>The Pebble database\<close>

text \<open>
  \<open>'db\<close> is the database, \<open>'bt\<close> a batch, \<open>'it\<close> an iterator over a snapshot. \<open>pNewIter\<close> is
  \<open>NewSnapshot().NewIter\<close> with a lower and an upper bound.
\<close>

record ('db, 'bt, 'it) pebble =
  pGet :: "'db \<Rightarrow> bytes \<Rightarrow> go_error + bytes"
  pNewBatch :: "'db \<Rightarrow> 'bt"
  pSet :: "'bt \<Rightarrow> bytes \<Rightarrow> bytes \<Rightarrow> go_error option \<times> 'bt"
  pCommit :: "'bt \<Rightarrow> 'db \<Rightarrow> go_error option \<times> 'db"
  pBatchClose :: "'bt \<Rightarrow> go_error option"
  pNewIter :: "'db \<Rightarrow> bytes \<Rightarrow> bytes \<Rightarrow> go_error + 'it"
  pFirst :: "'it \<Rightarrow> bool \<times> 'it"
  pLast :: "'it \<Rightarrow> bool \<times> 'it"
  pNext :: "'it \<Rightarrow> bool \<times> 'it"
  pPrev :: "'it \<Rightarrow> bool \<times> 'it"
  pValid :: "'it \<Rightarrow> bool"
  pKey :: "'it \<Rightarrow> bytes"
  pValue :: "'it \<Rightarrow> bytes"
  pIterError :: "'it \<Rightarrow> go_error option"

section \<open>Keys\<close>

definition keyLatestHeight :: string where "keyLatestHeight = ''/meta/lh''"
definition prefixKeyBlocks :: string where "prefixKeyBlocks = ''/data/blocks/''"
definition prefixKeyTxs :: string where "prefixKeyTxs = ''/data/txs/''"
definition prefixKeyTxByHash :: string where "prefixKeyTxByHash = ''/index/txh/''"

definition keyTx :: "u64 \<Rightarrow> u32 \<Rightarrow> bytes" where
  "keyTx blockNum txIndex =
     (let key = encodeStringAscending [] prefixKeyTxs;
          key = encodeUint64Ascending key blockNum
      in encodeUint32Ascending key txIndex)"

definition keyHashTx :: "string \<Rightarrow> bytes" where
  "keyHashTx hash =
     (let key = encodeStringAscending [] prefixKeyTxByHash in encodeStringAscending key hash)"

definition keyBlock :: "u64 \<Rightarrow> bytes" where
  "keyBlock blockNum =
     (let key = encodeStringAscending [] prefixKeyBlocks in encodeUint64Ascending key blockNum)"

section \<open>Encoding of values\<close>

definition encodeBlock :: "codec \<Rightarrow> block \<Rightarrow> go_error + bytes" where
  "encodeBlock C b = marshalBlock C b"

definition decodeBlock :: "codec \<Rightarrow> bytes \<Rightarrow> go_error + block" where
  "decodeBlock C eb =
     map_sum (\<lambda>err. ErrWrap ''unable to unmarshal Amino block, %w'' [err]) id (unmarshalBlock C eb)"

definition encodeTx :: "codec \<Rightarrow> tx_result option \<Rightarrow> go_error + bytes" where
  "encodeTx C t = marshalTxResult C t"

definition decodeTx :: "codec \<Rightarrow> bytes \<Rightarrow> go_error + tx_result" where
  "decodeTx C et =
     map_sum (\<lambda>err. ErrWrap ''unable to unmarshal Amino tx, %w'' [err]) id (unmarshalTxResult C et)"

section \<open>Reads\<close>

text \<open>\<open>errors.Is(err, pebble.ErrNotFound)\<close> becomes the store's own \<open>ErrNotFound\<close>.\<close>

definition notFound :: "go_error \<Rightarrow> go_error" where
  "notFound err = (if errIs err PebbleErrNotFound then ErrNotFound else err)"

definition Pebble_GetLatestHeight :: "('db, 'bt, 'it) pebble \<Rightarrow> 'db \<Rightarrow> go_error + u64" where
  "Pebble_GetLatestHeight P db =
     (case pGet P db (str_bytes keyLatestHeight) of
        Inl err \<Rightarrow> Inl (notFound err)
      | Inr height \<Rightarrow> map_sum id snd (decodeUint64Ascending height))"

definition Pebble_GetBlock :: "('db, 'bt, 'it) pebble \<Rightarrow> codec \<Rightarrow> 'db \<Rightarrow> u64 \<Rightarrow> go_error + block" where
  "Pebble_GetBlock P C db blockNum =
     (case pGet P db (keyBlock blockNum) of
        Inl err \<Rightarrow> Inl (notFound err)
      | Inr eb \<Rightarrow> decodeBlock C eb)"

definition Pebble_GetTx :: "('db, 'bt, 'it) pebble \<Rightarrow> codec \<Rightarrow> 'db \<Rightarrow> u64 \<Rightarrow> u32 \<Rightarrow> go_error + tx_result" where
  "Pebble_GetTx P C db blockNum index =
     (case pGet P db (keyTx blockNum index) of
        Inl err \<Rightarrow> Inl (notFound err)
      | Inr et \<Rightarrow> decodeTx C et)"

definition Pebble_GetTxByHash :: "('db, 'bt, 'it) pebble \<Rightarrow> codec \<Rightarrow> 'db \<Rightarrow> string \<Rightarrow> go_error + tx_result" where
  "Pebble_GetTxByHash P C db hash =
     (case pGet P db (keyHashTx hash) of
        Inl err \<Rightarrow> Inl (notFound err)
      | Inr txKey \<Rightarrow>
          (case pGet P db txKey of
             Inl err \<Rightarrow> Inl (notFound err)
           | Inr et \<Rightarrow> decodeTx C et))"

section \<open>Iterators\<close>

record 'it pebbleBaseBlockIter =
  bb_i :: 'it
  bb_init :: bool

datatype 'it block_iter =
    PebbleBlockIter "'it pebbleBaseBlockIter"
  | PebbleReverseBlockIter "'it pebbleBaseBlockIter"

definition Pebble_loadBlockIterator :: "('db, 'bt, 'it) pebble \<Rightarrow> 'db \<Rightarrow> u64 \<Rightarrow> u64 \<Rightarrow> go_error + 'it" where
  "Pebble_loadBlockIterator P db fromBlockNum toBlockNum =
     (let fromKey = keyBlock fromBlockNum;
          toBlockNum = (if toBlockNum = 0 then maxInt64 else toBlockNum + 1);
          toKey = keyBlock toBlockNum
      in pNewIter P db fromKey toKey)"

definition Pebble_BlockIterator :: "('db, 'bt, 'it) pebble \<Rightarrow> 'db \<Rightarrow> u64 \<Rightarrow> u64 \<Rightarrow> go_error + 'it block_iter" where
  "Pebble_BlockIterator P db fromBlockNum toBlockNum =
     map_sum id (\<lambda>it. PebbleBlockIter \<lparr>bb_i = it, bb_init = False\<rparr>)
       (Pebble_loadBlockIterator P db fromBlockNum toBlockNum)"

definition Pebble_BlockReverseIterator :: "('db, 'bt, 'it) pebble \<Rightarrow> 'db \<Rightarrow> u64 \<Rightarrow> u64 \<Rightarrow> go_error + 'it block_iter" where
  "Pebble_BlockReverseIterator P db fromBlockNum toBlockNum =
     (let fromKey = keyBlock fromBlockNum;
          toBlockNum = (if toBlockNum = 0 then maxInt64 else toBlockNum + 1);
          toKey = keyBlock toBlockNum
      in map_sum id (\<lambda>it. PebbleReverseBlockIter \<lparr>bb_i = it, bb_init = False\<rparr>)
           (pNewIter P db fromKey toKey))"

text \<open>\<open>Valid() && Next()\<close>: the iterator moves only when it stands on an entry.\<close>

definition PebbleBlockIter_Next :: "('db, 'bt, 'it) pebble \<Rightarrow> 'it pebbleBaseBlockIter \<Rightarrow> bool \<times> 'it pebbleBaseBlockIter" where
  "PebbleBlockIter_Next P pi =
     (if \<not> bb_init pi then
        (let (ok, i) = pFirst P (bb_i pi) in (ok, pi\<lparr>bb_init := True, bb_i := i\<rparr>))
      else if pValid P (bb_i pi) then
        (let (ok, i) = pNext P (bb_i pi) in (ok, pi\<lparr>bb_i := i\<rparr>))
      else (False, pi))"

definition PebbleReverseBlockIter_Next :: "('db, 'bt, 'it) pebble \<Rightarrow> 'it pebbleBaseBlockIter \<Rightarrow> bool \<times> 'it pebbleBaseBlockIter" where
  "PebbleReverseBlockIter_Next P pi =
     (if \<not> bb_init pi then
        (let (ok, i) = pLast P (bb_i pi) in (ok, pi\<lparr>bb_init := True, bb_i := i\<rparr>))
      else if pValid P (bb_i pi) then
        (let (ok, i) = pPrev P (bb_i pi) in (ok, pi\<lparr>bb_i := i\<rparr>))
      else (False, pi))"

definition pebbleBaseBlockIter_Error :: "('db, 'bt, 'it) pebble \<Rightarrow> 'it pebbleBaseBlockIter \<Rightarrow> go_error option" where
  "pebbleBaseBlockIter_Error P pi = pIterError P (bb_i pi)"

definition pebbleBaseBlockIter_Value :: "('db, 'bt, 'it) pebble \<Rightarrow> codec \<Rightarrow> 'it pebbleBaseBlockIter \<Rightarrow> go_error + block" where
  "pebbleBaseBlockIter_Value P C pi = decodeBlock C (pValue P (bb_i pi))"

record 'it pebbleBaseTxIter =
  tb_nextError :: "go_error option"
  tb_i :: 'it
  tb_fromIndex :: u32
  tb_toIndex :: u32
  tb_init :: bool

datatype 'it tx_iter =
    PebbleTxIter "'it pebbleBaseTxIter"
  | PebbleReverseTxIter "'it pebbleBaseTxIter"

definition Pebble_loadTxIterator :: "('db, 'bt, 'it) pebble \<Rightarrow> 'db \<Rightarrow> u64 \<Rightarrow> u64 \<Rightarrow> u32 \<Rightarrow> u32 \<Rightarrow> go_error + 'it" where
  "Pebble_loadTxIterator P db fromBlockNum toBlockNum fromTxIndex toTxIndex =
     (let fromKey = keyTx fromBlockNum fromTxIndex;
          toKey = keyTx toBlockNum toTxIndex
      in pNewIter P db fromKey toKey)"

definition Pebble_TxIterator :: "('db, 'bt, 'it) pebble \<Rightarrow> 'db \<Rightarrow> u64 \<Rightarrow> u64 \<Rightarrow> u32 \<Rightarrow> u32 \<Rightarrow> go_error + 'it tx_iter" where
  "Pebble_TxIterator P db fromBlockNum toBlockNum fromTxIndex toTxIndex =
     (let toBlockNum = (if toBlockNum = 0 then maxInt64 else toBlockNum + 1);
          toTxIndex = (if toTxIndex = 0 then maxUint32 else toTxIndex + 1)
      in map_sum id (\<lambda>it. PebbleTxIter \<lparr>tb_nextError = None, tb_i = it, tb_fromIndex = fromTxIndex,
                             tb_toIndex = toTxIndex, tb_init = False\<rparr>)
           (Pebble_loadTxIterator P db fromBlockNum toBlockNum fromTxIndex toTxIndex))"

definition Pebble_TxReverseIterator :: "('db, 'bt, 'it) pebble \<Rightarrow> 'db \<Rightarrow> u64 \<Rightarrow> u64 \<Rightarrow> u32 \<Rightarrow> u32 \<Rightarrow> go_error + 'it tx_iter" where
  "Pebble_TxReverseIterator P db fromBlockNum toBlockNum fromTxIndex toTxIndex =
     (let toBlockNum = (if toBlockNum = 0 then maxInt64 else toBlockNum + 1);
          toTxIndex = (if toTxIndex = 0 then maxUint32 else toTxIndex + 1)
      in map_sum id (\<lambda>it. PebbleReverseTxIter \<lparr>tb_nextError = None, tb_i = it, tb_fromIndex = fromTxIndex,
                             tb_toIndex = toTxIndex, tb_init = False\<rparr>)
           (Pebble_loadTxIterator P db fromBlockNum toBlockNum fromTxIndex toTxIndex))"

text \<open>The transaction index a key ends in, read the way both \<open>Next\<close> loops read it.\<close>

definition txIdxOfKey :: "bytes \<Rightarrow> go_error + u32" where
  "txIdxOfKey k =
     (case decodeUnsafeStringAscending k [] of
        Inl err \<Rightarrow> Inl err
      | Inr (key, _) \<Rightarrow>
          (case decodeUint64Ascending key of
             Inl err \<Rightarrow> Inl err
           | Inr (key, _) \<Rightarrow>
               (case decodeUint32Ascending key of
                  Inl err \<Rightarrow> Inl err
                | Inr (_, txIdx) \<Rightarrow> Inr txIdx)))"

text \<open>
  The loops of the two \<open>Next\<close> methods skip entries whose index is out of range; \<open>None\<close> would
  be a call that never returns.
\<close>

partial_function (option) PebbleTxIter_Next ::
    "('db, 'bt, 'it) pebble \<Rightarrow> 'it pebbleBaseTxIter \<Rightarrow> (bool \<times> 'it pebbleBaseTxIter) option" where
  "PebbleTxIter_Next P pi =
     (let (ok, i) = (if \<not> tb_init pi then pFirst P (tb_i pi) else pNext P (tb_i pi)) in
      if \<not> ok then Some (False, pi\<lparr>tb_i := i\<rparr>)
      else let pi = pi\<lparr>tb_i := i, tb_init := True\<rparr> in
        (case txIdxOfKey (pKey P i) of
           Inl err \<Rightarrow> Some (False, pi\<lparr>tb_nextError := Some err\<rparr>)
         | Inr txIdx \<Rightarrow>
             if tb_fromIndex pi \<le> txIdx \<and> txIdx < tb_toIndex pi then Some (True, pi)
             else PebbleTxIter_Next P pi))"

partial_function (option) PebbleReverseTxIter_Next ::
    "('db, 'bt, 'it) pebble \<Rightarrow> 'it pebbleBaseTxIter \<Rightarrow> (bool \<times> 'it pebbleBaseTxIter) option" where
  "PebbleReverseTxIter_Next P pi =
     (let (ok, i) = (if \<not> tb_init pi then pLast P (tb_i pi) else pPrev P (tb_i pi)) in
      if \<not> ok then Some (False, pi\<lparr>tb_i := i\<rparr>)
      else let pi = pi\<lparr>tb_i := i, tb_init := True\<rparr> in
        (case txIdxOfKey (pKey P i) of
           Inl err \<Rightarrow> Some (False, pi\<lparr>tb_nextError := Some err\<rparr>)
         | Inr txIdx \<Rightarrow>
             if tb_fromIndex pi \<le> txIdx \<and> txIdx < tb_toIndex pi then Some (True, pi)
             else PebbleReverseTxIter_Next P pi))"

definition pebbleBaseTxIter_Error :: "('db, 'bt, 'it) pebble \<Rightarrow> 'it pebbleBaseTxIter \<Rightarrow> go_error option" where
  "pebbleBaseTxIter_Error P pi =
     (if tb_nextError pi \<noteq> None then tb_nextError pi else pIterError P (tb_i pi))"

definition pebbleBaseTxIter_Value :: "('db, 'bt, 'it) pebble \<Rightarrow> codec \<Rightarrow> 'it pebbleBaseTxIter \<Rightarrow> go_error + tx_result" where
  "pebbleBaseTxIter_Value P C pi = decodeTx C (pValue P (tb_i pi))"

section \<open>Write batches\<close>

definition PebbleBatch_SetLatestHeight :: "('db, 'bt, 'it) pebble \<Rightarrow> 'bt \<Rightarrow> u64 \<Rightarrow> go_error option \<times> 'bt" where
  "PebbleBatch_SetLatestHeight P b h =
     (let val = encodeUint64Ascending [] h in pSet P b (str_bytes keyLatestHeight) val)"

definition PebbleBatch_SetBlock :: "('db, 'bt, 'it) pebble \<Rightarrow> codec \<Rightarrow> 'bt \<Rightarrow> block \<Rightarrow> go_error option \<times> 'bt" where
  "PebbleBatch_SetBlock P C b block =
     (case encodeBlock C block of
        Inl err \<Rightarrow> (Some err, b)
      | Inr eb \<Rightarrow> pSet P b (keyBlock (bHeight block)) eb)"

text \<open>
  The pointer may be nil. If Amino encodes it all the same, reading \<open>tx.Height\<close> panics.
\<close>

definition PebbleBatch_SetTx :: "('db, 'bt, 'it) pebble \<Rightarrow> codec \<Rightarrow> 'bt \<Rightarrow> tx_result option \<Rightarrow> (go_error option \<times> 'bt) outcome" where
  "PebbleBatch_SetTx P C b txp =
     (case encodeTx C txp of
        Inl err \<Rightarrow> Ret (Some err, b)
      | Inr encodedTx \<Rightarrow>
          (case txp of
             None \<Rightarrow> Panic ''nil pointer dereference''
           | Some tx \<Rightarrow>
               let key = keyTx (trHeight tx) (trIndex tx);
                   hashIndexKey = keyHashTx (base64 (txHash C (trTx tx)))
               in (case pSet P b hashIndexKey key of
                     (Some err, b) \<Rightarrow> Ret (Some err, b)
                   | (None, b) \<Rightarrow> Ret (pSet P b key encodedTx))))"

definition PebbleBatch_Commit :: "('db, 'bt, 'it) pebble \<Rightarrow> 'bt \<Rightarrow> 'db \<Rightarrow> go_error option \<times> 'db" where
  "PebbleBatch_Commit P b db = pCommit P b db"

definition PebbleBatch_Rollback :: "('db, 'bt, 'it) pebble \<Rightarrow> 'bt \<Rightarrow> go_error option" where
  "PebbleBatch_Rollback P b = pBatchClose P b"

definition Pebble_WriteBatch :: "('db, 'bt, 'it) pebble \<Rightarrow> 'db \<Rightarrow> 'bt" where
  "Pebble_WriteBatch P db = pNewBatch P db"

section \<open>Opening and closing\<close>

text \<open>
  Handles of Pebble are released by its own operations. An iterator of the store holds an iterator of Pebble and the
  snapshot it reads; \<open>hAppend\<close> is \<open>multierr.Append\<close>, whose arguments are both evaluated, so the snapshot is closed
  even when closing the iterator fails.
\<close>

record ('db, 'it) pebble_handles =
  hOpen :: "string \<Rightarrow> go_error + 'db"
  hClose :: "'db \<Rightarrow> go_error option"
  hIterClose :: "'it \<Rightarrow> go_error option"
  hSnapshotClose :: "'it \<Rightarrow> go_error option"
  hAppend :: "go_error option \<Rightarrow> go_error option \<Rightarrow> go_error option"

definition NewPebble :: "('db, 'it) pebble_handles \<Rightarrow> string \<Rightarrow> go_error + 'db" where
  "NewPebble H path =
     (case hOpen H path of
        Inl err \<Rightarrow> Inl (ErrWrap ''unable to create DB, %w'' [err])
      | Inr db \<Rightarrow> Inr db)"

definition Pebble_Close :: "('db, 'it) pebble_handles \<Rightarrow> 'db \<Rightarrow> go_error option" where
  "Pebble_Close H s = hClose H s"

definition pebbleBaseBlockIter_Close :: "('db, 'it) pebble_handles \<Rightarrow> 'it pebbleBaseBlockIter \<Rightarrow> go_error option" where
  "pebbleBaseBlockIter_Close H pi = hAppend H (hIterClose H (bb_i pi)) (hSnapshotClose H (bb_i pi))"

definition pebbleBaseTxIter_Close :: "('db, 'it) pebble_handles \<Rightarrow> 'it pebbleBaseTxIter \<Rightarrow> go_error option" where
  "pebbleBaseTxIter_Close H pi = hAppend H (hIterClose H (tb_i pi)) (hSnapshotClose H (tb_i pi))"

section \<open>The store as an implementation of the interface\<close>

text \<open>An iterator value carries its dynamic type, which picks the \<open>Next\<close> method.\<close>

fun block_iter_Next :: "('db, 'bt, 'it) pebble \<Rightarrow> 'it block_iter \<Rightarrow> bool \<times> 'it block_iter" where
  "block_iter_Next P (PebbleBlockIter pi) = map_prod id PebbleBlockIter (PebbleBlockIter_Next P pi)"
| "block_iter_Next P (PebbleReverseBlockIter pi) =
     map_prod id PebbleReverseBlockIter (PebbleReverseBlockIter_Next P pi)"

fun block_iter_base :: "'it block_iter \<Rightarrow> 'it pebbleBaseBlockIter" where
  "block_iter_base (PebbleBlockIter pi) = pi"
| "block_iter_base (PebbleReverseBlockIter pi) = pi"

fun tx_iter_Next :: "('db, 'bt, 'it) pebble \<Rightarrow> 'it tx_iter \<Rightarrow> (bool \<times> 'it tx_iter) option" where
  "tx_iter_Next P (PebbleTxIter pi) = map_option (map_prod id PebbleTxIter) (PebbleTxIter_Next P pi)"
| "tx_iter_Next P (PebbleReverseTxIter pi) =
     map_option (map_prod id PebbleReverseTxIter) (PebbleReverseTxIter_Next P pi)"

fun tx_iter_base :: "'it tx_iter \<Rightarrow> 'it pebbleBaseTxIter" where
  "tx_iter_base (PebbleTxIter pi) = pi"
| "tx_iter_base (PebbleReverseTxIter pi) = pi"

definition pebble_storage ::
    "('db, 'bt, 'it) pebble \<Rightarrow> codec \<Rightarrow> ('db, 'bt, 'it block_iter, 'it tx_iter) storage" where
  "pebble_storage P C = \<lparr>
     s_GetLatestHeight = Pebble_GetLatestHeight P,
     s_GetBlock = Pebble_GetBlock P C,
     s_GetTx = Pebble_GetTx P C,
     s_GetTxByHash = Pebble_GetTxByHash P C,
     s_BlockIterator = Pebble_BlockIterator P,
     s_BlockReverseIterator = Pebble_BlockReverseIterator P,
     s_TxIterator = Pebble_TxIterator P,
     s_TxReverseIterator = Pebble_TxReverseIterator P,
     bi_Next = block_iter_Next P,
     bi_Error = (\<lambda>it. pebbleBaseBlockIter_Error P (block_iter_base it)),
     bi_Value = (\<lambda>it. pebbleBaseBlockIter_Value P C (block_iter_base it)),
     ti_Next = tx_iter_Next P,
     ti_Error = (\<lambda>it. pebbleBaseTxIter_Error P (tx_iter_base it)),
     ti_Value = (\<lambda>it. pebbleBaseTxIter_Value P C (tx_iter_base it)),
     s_WriteBatch = Pebble_WriteBatch P,
     wb_SetLatestHeight = PebbleBatch_SetLatestHeight P,
     wb_SetBlock = PebbleBatch_SetBlock P C,
     wb_SetTx = PebbleBatch_SetTx P C,
     wb_Commit = PebbleBatch_Commit P,
     wb_Rollback = PebbleBatch_Rollback P\<rparr>"

section \<open>Keys: order and disjointness\<close>

lemma prefix_neq [simp]:
  "prefixKeyBlocks \<noteq> prefixKeyTxs" "prefixKeyTxs \<noteq> prefixKeyBlocks"
  "prefixKeyBlocks \<noteq> prefixKeyTxByHash" "prefixKeyTxByHash \<noteq> prefixKeyBlocks"
  "prefixKeyTxs \<noteq> prefixKeyTxByHash" "prefixKeyTxByHash \<noteq> prefixKeyTxs"
  by (simp_all add: prefixKeyBlocks_def prefixKeyTxs_def prefixKeyTxByHash_def)

lemma key_enc:
  "keyBlock n = encodeStringAscending [] prefixKeyBlocks @ encodeUint64Ascending [] n"
  "keyTx n i = encodeStringAscending [] prefixKeyTxs @
     encodeUint64Ascending [] n @ encodeUint32Ascending [] i"
  "keyHashTx h = encodeStringAscending [] prefixKeyTxByHash @ encodeStringAscending [] h"
  by (simp_all add: keyBlock_def keyTx_def keyHashTx_def Let_def
      encodeUint64_acc [of "encodeStringAscending _ _"] encodeUint32_acc [of "encodeUint64Ascending _ _"]
      encodeStringAscending_acc [of "encodeStringAscending _ _"])

lemma enc_append_inject:
  "encodeStringAscending [] a @ s = encodeStringAscending [] b @ t \<longleftrightarrow> a = b \<and> s = t"
  using decode_string_iff [of "encodeStringAscending [] b @ t" s a]
    decode_string_iff [of "encodeStringAscending [] b @ t" t b] by auto

lemma keyBlock_inject [simp]: "keyBlock m = keyBlock n \<longleftrightarrow> m = n"
  by (simp add: key_enc)

lemma keyTx_inject [simp]: "keyTx m i = keyTx n j \<longleftrightarrow> m = n \<and> i = j"
  by (simp add: key_enc)

lemma keyHashTx_inject [simp]: "keyHashTx a = keyHashTx b \<longleftrightarrow> a = b"
  using enc_append_inject [of a "[]" b "[]"] by (simp add: key_enc)

lemma keyBlock_less [simp]: "keyBlock m < keyBlock n \<longleftrightarrow> m < n"
  by (simp add: key_enc encodeUint64_less)

lemma keyTx_less [simp]: "keyTx m i < keyTx n j \<longleftrightarrow> TxPos m i < TxPos n j"
  by (simp add: key_enc less_append_same_length encodeUint64_less encodeUint32_less)

lemma keys_distinct [simp]:
  "keyBlock n \<noteq> keyTx m i" "keyTx m i \<noteq> keyBlock n"
  "keyBlock n \<noteq> keyHashTx h" "keyHashTx h \<noteq> keyBlock n"
  "keyTx m i \<noteq> keyHashTx h" "keyHashTx h \<noteq> keyTx m i"
  by (simp_all add: key_enc enc_append_inject)

lemma hd_keys:
  "hd (keyBlock n) = bytesMarker" "hd (keyTx m i) = bytesMarker" "hd (keyHashTx h) = bytesMarker"
  by (simp_all add: key_enc encodeStringAscending_esc)

lemma latest_key_distinct [simp]:
  "str_bytes keyLatestHeight \<noteq> keyBlock n" "keyBlock n \<noteq> str_bytes keyLatestHeight"
  "str_bytes keyLatestHeight \<noteq> keyTx m i" "keyTx m i \<noteq> str_bytes keyLatestHeight"
  "str_bytes keyLatestHeight \<noteq> keyHashTx h" "keyHashTx h \<noteq> str_bytes keyLatestHeight"
proof -
  have "hd (str_bytes keyLatestHeight) \<noteq> bytesMarker"
    by (simp add: str_bytes_def keyLatestHeight_def bytesMarker_def)
  then show
    "str_bytes keyLatestHeight \<noteq> keyBlock n" "keyBlock n \<noteq> str_bytes keyLatestHeight"
    "str_bytes keyLatestHeight \<noteq> keyTx m i" "keyTx m i \<noteq> str_bytes keyLatestHeight"
    "str_bytes keyLatestHeight \<noteq> keyHashTx h" "keyHashTx h \<noteq> str_bytes keyLatestHeight"
    by (metis hd_keys)+
qed

text \<open>Between two keys with one prefix there are only keys with that prefix.\<close>

lemma enc_between:
  assumes "encodeStringAscending [] p @ x \<le> encodeStringAscending [] q @ y"
    and "encodeStringAscending [] q @ y < encodeStringAscending [] p @ z"
  shows "q = p"
  using assms by (auto simp: encodeStringAscending_less enc_append_inject simp flip: not_less)

lemma latest_not_in_range:
  "\<not> (encodeStringAscending [] p @ x \<le> str_bytes keyLatestHeight \<and>
      str_bytes keyLatestHeight < encodeStringAscending [] p @ z)"
  by (simp add: encodeStringAscending_esc str_bytes_def keyLatestHeight_def bytesMarker_def)

lemma txIdxOfKey_keyTx [simp]: "txIdxOfKey (keyTx n i) = Inr i"
proof -
  have "decodeUnsafeStringAscending (keyTx n i) [] =
      Inr (encodeUint64Ascending [] n @ encodeUint32Ascending [] i, prefixKeyTxs)"
    by (simp add: decode_string_iff key_enc)
  then show ?thesis
    using decode_encodeUint64 [of n "encodeUint32Ascending [] i"] decode_encodeUint32 [of i "[]"]
    by (simp add: txIdxOfKey_def)
qed

end
