(* ===== verification/Storage_Contract.thy ===== *)
theory Storage_Contract
  imports Storage_Pebble
begin

text \<open>
  Why the Pebble store keeps the storage contract: the documented behaviour of Pebble as the
  locale \<open>pebble_db\<close>, the reading of a database as an abstract store, and the proof that the
  operations of \<open>Storage_Pebble\<close> over any such database implement \<open>storage_api\<close>. A database
  kept as a sorted list of entries shows that the assumptions can be met.
\<close>

section \<open>What the store relies on of Pebble\<close>

text \<open>
  An iterator's position: not positioned yet, on an entry, past the last entry (after a
  \<open>Next\<close> that returned false) or before the first (after a \<open>Prev\<close> that returned false).
\<close>

datatype cursor = Fresh | At nat | AtEnd | AtStart

text \<open>
  The documented behaviour of a database without I/O faults: a map from keys to values, batches
  that apply their writes in order on commit, and iterators that walk the entries between their
  bounds in the byte order of the keys.
\<close>

locale pebble_db =
  fixes P :: "('db, 'bt, 'it) pebble"
    and dbv :: "'db \<Rightarrow> bytes \<rightharpoonup> bytes"
    and btv :: "'bt \<Rightarrow> (bytes \<times> bytes) list"
    and ient :: "'it \<Rightarrow> (bytes \<times> bytes) list"
    and ipos :: "'it \<Rightarrow> cursor"
  assumes get: "pGet P d k = (case dbv d k of None \<Rightarrow> Inl PebbleErrNotFound | Some v \<Rightarrow> Inr v)"
    and new_batch: "btv (pNewBatch P d) = []"
    and bset: "\<exists>b'. pSet P b k v = (None, b') \<and> btv b' = btv b @ [(k, v)]"
    and bcommit: "\<exists>d'. pCommit P b d = (None, d') \<and> dbv d' = foldl (\<lambda>m (k, v). m(k \<mapsto> v)) (dbv d) (btv b)"
    and new_iter: "\<exists>i. pNewIter P d lo hi = Inr i \<and> ipos i = Fresh \<and>
        sorted_wrt (<) (map fst (ient i)) \<and>
        set (ient i) = {(k, v). dbv d k = Some v \<and> lo \<le> k \<and> k < hi}"
    and first: "\<exists>i'. pFirst P i = (ient i \<noteq> [], i') \<and> ient i' = ient i \<and>
        ipos i' = (if ient i = [] then AtEnd else At 0)"
    and last: "\<exists>i'. pLast P i = (ient i \<noteq> [], i') \<and> ient i' = ient i \<and>
        ipos i' = (if ient i = [] then AtStart else At (length (ient i) - 1))"
    and next_at: "ipos i = At n \<Longrightarrow> n < length (ient i) \<Longrightarrow>
        \<exists>i'. pNext P i = (Suc n < length (ient i), i') \<and> ient i' = ient i \<and>
          ipos i' = (if Suc n < length (ient i) then At (Suc n) else AtEnd)"
    and next_end: "ipos i = AtEnd \<Longrightarrow> \<exists>i'. pNext P i = (False, i') \<and> ient i' = ient i \<and> ipos i' = AtEnd"
    and prev_at: "ipos i = At n \<Longrightarrow> n < length (ient i) \<Longrightarrow>
        \<exists>i'. pPrev P i = (0 < n, i') \<and> ient i' = ient i \<and>
          ipos i' = (if 0 < n then At (n - 1) else AtStart)"
    and prev_start: "ipos i = AtStart \<Longrightarrow> \<exists>i'. pPrev P i = (False, i') \<and> ient i' = ient i \<and> ipos i' = AtStart"
    and valid: "pValid P i = (\<exists>n. ipos i = At n)"
    and key: "ipos i = At n \<Longrightarrow> n < length (ient i) \<Longrightarrow> pKey P i = fst (ient i ! n)"
    and val: "ipos i = At n \<Longrightarrow> n < length (ient i) \<Longrightarrow> pValue P i = snd (ient i ! n)"
    and no_error: "pIterError P i = None"

section \<open>The database read as an abstract store\<close>

definition posOfKey :: "bytes \<Rightarrow> txpos option" where
  "posOfKey k =
     (case decodeUnsafeStringAscending k [] of
        Inr (key, _) \<Rightarrow>
          (case decodeUint64Ascending key of
             Inr (key, h) \<Rightarrow> (case decodeUint32Ascending key of Inr (_, i) \<Rightarrow> Some (TxPos h i) | _ \<Rightarrow> None)
           | _ \<Rightarrow> None)
      | _ \<Rightarrow> None)"

definition okay :: "'e + 'a \<Rightarrow> 'a option" where
  "okay r = (case r of Inl _ \<Rightarrow> None | Inr x \<Rightarrow> Some x)"

lemma okay_simps [simp]: "okay (Inl e) = None" "okay (Inr x) = Some x"
  by (simp_all add: okay_def)

definition db_store :: "codec \<Rightarrow> (bytes \<rightharpoonup> bytes) \<Rightarrow> store" where
  "db_store C m = \<lparr>
     stLatest = map_option bigEndianUint64 (m (str_bytes keyLatestHeight)),
     stBlock = (\<lambda>n. Option.bind (m (keyBlock n)) (okay \<circ> unmarshalBlock C)),
     stTx = (\<lambda>p. Option.bind (m (keyTx (tpHeight p) (tpIndex p))) (okay \<circ> unmarshalTxResult C)),
     stHash = (\<lambda>h. Option.bind (m (keyHashTx h)) posOfKey)\<rparr>"

text \<open>What every entry of a database written by the store looks like.\<close>

definition entry_ok :: "codec \<Rightarrow> bytes \<Rightarrow> bytes \<Rightarrow> bool" where
  "entry_ok C k v \<longleftrightarrow>
     k = str_bytes keyLatestHeight \<and> length v = 8 \<or>
     (\<exists>b. k = keyBlock (bHeight b) \<and> unmarshalBlock C v = Inr b) \<or>
     (\<exists>t. k = keyTx (trHeight t) (trIndex t) \<and> unmarshalTxResult C v = Inr t) \<or>
     (\<exists>h n i. k = keyHashTx h \<and> v = keyTx n i)"

definition db_ok :: "codec \<Rightarrow> (bytes \<rightharpoonup> bytes) \<Rightarrow> bool" where
  "db_ok C m \<longleftrightarrow> (\<forall>k v. m k = Some v \<longrightarrow> entry_ok C k v)"

lemma posOfKey_keyTx [simp]: "posOfKey (keyTx n i) = Some (TxPos n i)"
proof -
  have "decodeUnsafeStringAscending (keyTx n i) [] =
      Inr (encodeUint64Ascending [] n @ encodeUint32Ascending [] i, prefixKeyTxs)"
    by (simp add: decode_string_iff key_enc)
  then show ?thesis
    using decode_encodeUint64 [of n "encodeUint32Ascending [] i"] decode_encodeUint32 [of i "[]"]
    by (simp add: posOfKey_def)
qed

lemma bigEndian_encode [simp]: "bigEndianUint64 (encodeUint64Ascending [] h) = h"
  using decode_encodeUint64 [of h "[]"] by (simp add: decodeUint64Ascending_def)

lemma db_okD:
  assumes "db_ok C m"
  shows "m (keyBlock n) = Some v \<Longrightarrow> \<exists>b. unmarshalBlock C v = Inr b \<and> bHeight b = n"
    and "m (keyTx n i) = Some v \<Longrightarrow> \<exists>t. unmarshalTxResult C v = Inr t \<and> tx_pos t = TxPos n i"
    and "m (keyHashTx h) = Some v \<Longrightarrow> \<exists>n i. v = keyTx n i"
    and "m (str_bytes keyLatestHeight) = Some v \<Longrightarrow> length v = 8"
  using assms by (fastforce simp: db_ok_def entry_ok_def tx_pos_def)+

text \<open>The entries a batch collects for each kind of write, and the writes read back from them.\<close>

fun write_kvs :: "codec \<Rightarrow> store_write \<Rightarrow> (bytes \<times> bytes) list" where
  "write_kvs C (WLatest h) = [(str_bytes keyLatestHeight, encodeUint64Ascending [] h)]"
| "write_kvs C (WBlock b) = [(keyBlock (bHeight b), projr (marshalBlock C b))]"
| "write_kvs C (WTx t) =
     [(keyHashTx (tx_key C t), keyTx (trHeight t) (trIndex t)),
      (keyTx (trHeight t) (trIndex t), projr (marshalTxResult C (Some t)))]"

fun write_ok :: "codec \<Rightarrow> store_write \<Rightarrow> bool" where
  "write_ok C (WLatest h) = True"
| "write_ok C (WBlock b) = (\<not> isl (marshalBlock C b))"
| "write_ok C (WTx t) = (\<not> isl (marshalTxResult C (Some t)))"

definition keyPrefix :: "bytes \<Rightarrow> string option" where
  "keyPrefix k = map_option snd (okay (decodeUnsafeStringAscending k []))"

lemma keyPrefix_simps [simp]:
  "keyPrefix (keyBlock n) = Some prefixKeyBlocks"
  "keyPrefix (keyTx n i) = Some prefixKeyTxs"
  "keyPrefix (keyHashTx h) = Some prefixKeyTxByHash"
proof -
  have "keyPrefix (encodeStringAscending [] p @ r) = Some p" for p r
  proof -
    have "decodeUnsafeStringAscending (encodeStringAscending [] p @ r) [] = Inr (r, p)"
      by (simp add: decode_string_iff)
    then show ?thesis by (simp add: keyPrefix_def)
  qed
  then show "keyPrefix (keyBlock n) = Some prefixKeyBlocks"
    "keyPrefix (keyTx n i) = Some prefixKeyTxs" "keyPrefix (keyHashTx h) = Some prefixKeyTxByHash"
    by (simp_all add: key_enc)
qed

definition kv_write :: "codec \<Rightarrow> bytes \<times> bytes \<Rightarrow> store_write list" where
  "kv_write C = (\<lambda>(k, v).
     if k = str_bytes keyLatestHeight then [WLatest (bigEndianUint64 v)]
     else if keyPrefix k = Some prefixKeyBlocks then [WBlock (projr (unmarshalBlock C v))]
     else if keyPrefix k = Some prefixKeyTxs then [WTx (projr (unmarshalTxResult C v))]
     else [])"

definition kv_writes :: "codec \<Rightarrow> (bytes \<times> bytes) list \<Rightarrow> store_write list" where
  "kv_writes C kvs = concat (map (kv_write C) kvs)"

definition kvs_ok :: "codec \<Rightarrow> (bytes \<times> bytes) list \<Rightarrow> bool" where
  "kvs_ok C kvs \<longleftrightarrow> (\<exists>ws. kvs = concat (map (write_kvs C) ws) \<and> (\<forall>w \<in> set ws. write_ok C w))"

definition put_all :: "(bytes \<rightharpoonup> bytes) \<Rightarrow> (bytes \<times> bytes) list \<Rightarrow> (bytes \<rightharpoonup> bytes)" where
  "put_all m kvs = foldl (\<lambda>m (k, v). m(k \<mapsto> v)) m kvs"

lemma put_all_simps [simp]:
  "put_all m [] = m" "put_all m ((k, v) # kvs) = put_all (m(k \<mapsto> v)) kvs"
  "put_all m (xs @ ys) = put_all (put_all m xs) ys"
  by (simp_all add: put_all_def)

lemma db_ok_upd: "db_ok C m \<Longrightarrow> entry_ok C k v \<Longrightarrow> db_ok C (m(k \<mapsto> v))"
  by (simp add: db_ok_def)

context amino_codec
begin

lemma kv_writes_write_kvs:
  assumes "write_ok C w"
  shows "concat (map (kv_write C) (write_kvs C w)) = [w]"
proof (cases w)
  case (WBlock b)
  with assms obtain e where "marshalBlock C b = Inr e" by (auto dest: not_islD)
  with WBlock show ?thesis by (simp add: kv_write_def unmarshal_marshalBlock)
next
  case (WTx t)
  with assms obtain e where "marshalTxResult C (Some t) = Inr e" by (auto dest: not_islD)
  with WTx show ?thesis by (simp add: kv_write_def unmarshal_marshalTxResult)
qed (simp add: kv_write_def)

lemma kv_writes_concat:
  "\<forall>w \<in> set ws. write_ok C w \<Longrightarrow> kv_writes C (concat (map (write_kvs C) ws)) = ws"
  by (induction ws) (simp_all add: kv_writes_def kv_writes_write_kvs)

lemma db_store_write:
  assumes "write_ok C w"
  shows "db_store C (put_all m (write_kvs C w)) = apply_write C (db_store C m) w"
proof (cases w)
  case (WLatest h)
  then show ?thesis by (simp add: db_store_def)
next
  case (WBlock b)
  with assms obtain e where "marshalBlock C b = Inr e" by (auto dest: not_islD)
  with WBlock show ?thesis by (auto simp: db_store_def fun_eq_iff unmarshal_marshalBlock)
next
  case (WTx t)
  with assms obtain e where "marshalTxResult C (Some t) = Inr e" by (auto dest: not_islD)
  with WTx show ?thesis
    by (auto simp: db_store_def fun_eq_iff unmarshal_marshalTxResult tx_pos_def txpos.expand)
qed

lemma db_ok_write:
  assumes "write_ok C w" "db_ok C m"
  shows "db_ok C (put_all m (write_kvs C w))"
proof (cases w)
  case (WLatest h)
  with assms(2) show ?thesis by (simp add: db_ok_upd entry_ok_def)
next
  case (WBlock b)
  with assms(1) obtain e where e: "marshalBlock C b = Inr e" by (auto dest: not_islD)
  have "entry_ok C (keyBlock (bHeight b)) e"
    unfolding entry_ok_def using unmarshal_marshalBlock [OF e] by blast
  with WBlock e assms(2) show ?thesis by (simp add: db_ok_upd)
next
  case (WTx t)
  with assms(1) obtain e where e: "marshalTxResult C (Some t) = Inr e" by (auto dest: not_islD)
  have "entry_ok C (keyTx (trHeight t) (trIndex t)) e"
    unfolding entry_ok_def using unmarshal_marshalTxResult [OF e] by blast
  moreover have "entry_ok C (keyHashTx (tx_key C t)) (keyTx (trHeight t) (trIndex t))"
    unfolding entry_ok_def by blast
  ultimately show ?thesis using WTx e assms(2) by (simp add: db_ok_upd)
qed

lemma db_store_writes:
  assumes "kvs_ok C kvs" "db_ok C m"
  shows "db_store C (put_all m kvs) = apply_writes C (db_store C m) (kv_writes C kvs) \<and>
         db_ok C (put_all m kvs)"
proof -
  from assms(1) obtain ws where kvs: "kvs = concat (map (write_kvs C) ws)"
    and ok: "\<forall>w \<in> set ws. write_ok C w" by (auto simp: kvs_ok_def)
  have "db_store C (put_all m (concat (map (write_kvs C) ws))) = apply_writes C (db_store C m) ws \<and>
        db_ok C (put_all m (concat (map (write_kvs C) ws)))"
    using ok assms(2) by (induction ws arbitrary: m) (simp_all add: db_store_write db_ok_write)
  then show ?thesis by (simp add: kvs kv_writes_concat [OF ok])
qed

lemma kvs_ok_snoc:
  "kvs_ok C kvs \<Longrightarrow> write_ok C w \<Longrightarrow>
   kvs_ok C (kvs @ write_kvs C w) \<and> kv_writes C (kvs @ write_kvs C w) = kv_writes C kvs @ [w]"
proof -
  assume "kvs_ok C kvs" and w: "write_ok C w"
  then obtain ws where "kvs = concat (map (write_kvs C) ws)" "\<forall>w \<in> set ws. write_ok C w"
    by (auto simp: kvs_ok_def)
  with w have "kvs @ write_kvs C w = concat (map (write_kvs C) (ws @ [w]))"
    "\<forall>w \<in> set (ws @ [w]). write_ok C w" by auto
  then have "kvs_ok C (kvs @ write_kvs C w)" unfolding kvs_ok_def by blast
  then show ?thesis by (simp add: kv_writes_def kv_writes_write_kvs [OF w])
qed

end

section \<open>Iterators as lists\<close>

text \<open>What is still to come, forwards and backwards, at a position in a list of entries.\<close>

definition fwd_rest :: "bool \<Rightarrow> cursor \<Rightarrow> 'a list \<Rightarrow> 'a list" where
  "fwd_rest init c es = (if \<not> init then es else case c of At n \<Rightarrow> drop (Suc n) es | _ \<Rightarrow> [])"

definition rev_rest :: "bool \<Rightarrow> cursor \<Rightarrow> 'a list \<Rightarrow> 'a list" where
  "rev_rest init c es = (if \<not> init then rev es else case c of At n \<Rightarrow> rev (take n es) | _ \<Rightarrow> [])"

definition fwd_ok :: "bool \<Rightarrow> cursor \<Rightarrow> 'a list \<Rightarrow> bool" where
  "fwd_ok init c es \<longleftrightarrow> (init \<longrightarrow> (case c of At n \<Rightarrow> n < length es | AtEnd \<Rightarrow> True | _ \<Rightarrow> False))"

definition rev_ok :: "bool \<Rightarrow> cursor \<Rightarrow> 'a list \<Rightarrow> bool" where
  "rev_ok init c es \<longleftrightarrow> (init \<longrightarrow> (case c of At n \<Rightarrow> n < length es | AtStart \<Rightarrow> True | _ \<Rightarrow> False))"

lemma tl_rev: "tl (rev xs) = rev (butlast xs)"
  by (metis butlast_rev rev_rev_ident)

lemma entries_by_position:
  fixes f :: "'p::linorder \<Rightarrow> 'k::linorder"
  assumes sorted: "sorted_wrt (<) (map fst es)"
    and es: "set es = {(k, v). m k = Some v \<and> Q k}"
    and mono: "\<And>a b. f a < f b \<longleftrightarrow> a < b"
    and fin: "finite A"
    and img: "f ` A = {k. m k \<noteq> None \<and> Q k}"
  shows "es = map (\<lambda>a. (f a, the (m (f a)))) (sorted_list_of_set A)"
proof -
  have "sorted_wrt (<) (map f (sorted_list_of_set A))"
    by (simp add: sorted_wrt_map mono)
  moreover have "set (map fst es) = set (map f (sorted_list_of_set A))"
    using fin img es by (force simp: image_iff)
  ultimately have keys: "map fst es = map f (sorted_list_of_set A)"
    using sorted by (simp add: strict_sorted_equal)
  have "es = map (\<lambda>k. (k, the (m k))) (map fst es)"
    using es by (auto intro!: map_idI [symmetric])
  with keys show ?thesis by simp
qed

lemma map_entries:
  "map g (map (\<lambda>a. (f a, the (m (f a)))) as) = map (\<lambda>a. g (f a, the (m (f a)))) as"
  by simp

context pebble_db
begin

lemma fwd_step:
  assumes "fwd_ok init (ipos i) (ient i)"
  shows "\<exists>i'. (if \<not> init then pFirst P i else pNext P i) = (fwd_rest init (ipos i) (ient i) \<noteq> [], i') \<and>
    ient i' = ient i \<and> fwd_ok True (ipos i') (ient i') \<and>
    fwd_rest True (ipos i') (ient i') = tl (fwd_rest init (ipos i) (ient i)) \<and>
    (fwd_rest init (ipos i) (ient i) \<noteq> [] \<longrightarrow>
       pKey P i' = fst (hd (fwd_rest init (ipos i) (ient i))) \<and>
       pValue P i' = snd (hd (fwd_rest init (ipos i) (ient i))))"
proof (cases init)
  case False
  from first [of i] obtain i' where i': "pFirst P i = (ient i \<noteq> [], i')" "ient i' = ient i"
    "ipos i' = (if ient i = [] then AtEnd else At 0)" by blast
  with False show ?thesis
    by (intro exI [of _ i'])
       (auto simp: fwd_rest_def fwd_ok_def key val hd_conv_nth drop_Suc)
next
  case True
  with assms consider n where "ipos i = At n" "n < length (ient i)" | "ipos i = AtEnd"
    by (auto simp: fwd_ok_def split: cursor.splits)
  then show ?thesis
  proof cases
    case 1
    from next_at [OF 1] obtain i' where i': "pNext P i = (Suc n < length (ient i), i')"
      "ient i' = ient i" "ipos i' = (if Suc n < length (ient i) then At (Suc n) else AtEnd)" by blast
    with True 1 show ?thesis
      by (intro exI [of _ i'])
         (auto simp: fwd_rest_def fwd_ok_def key val hd_drop_conv_nth tl_drop drop_Suc [symmetric])
  next
    case 2
    from next_end [OF 2] True 2 show ?thesis by (auto simp: fwd_rest_def fwd_ok_def)
  qed
qed

lemma rev_step:
  assumes "rev_ok init (ipos i) (ient i)"
  shows "\<exists>i'. (if \<not> init then pLast P i else pPrev P i) = (rev_rest init (ipos i) (ient i) \<noteq> [], i') \<and>
    ient i' = ient i \<and> rev_ok True (ipos i') (ient i') \<and>
    rev_rest True (ipos i') (ient i') = tl (rev_rest init (ipos i) (ient i)) \<and>
    (rev_rest init (ipos i) (ient i) \<noteq> [] \<longrightarrow>
       pKey P i' = fst (hd (rev_rest init (ipos i) (ient i))) \<and>
       pValue P i' = snd (hd (rev_rest init (ipos i) (ient i))))"
proof (cases init)
  case False
  from last [of i] obtain i' where i': "pLast P i = (ient i \<noteq> [], i')" "ient i' = ient i"
    "ipos i' = (if ient i = [] then AtStart else At (length (ient i) - 1))" by blast
  with False show ?thesis
    by (intro exI [of _ i'])
       (auto simp: rev_rest_def rev_ok_def key val hd_rev last_conv_nth butlast_conv_take tl_rev)
next
  case True
  with assms consider n where "ipos i = At n" "n < length (ient i)" | "ipos i = AtStart"
    by (auto simp: rev_ok_def split: cursor.splits)
  then show ?thesis
  proof cases
    case 1
    from prev_at [OF 1] obtain i' where i': "pPrev P i = (0 < n, i')"
      "ient i' = ient i" "ipos i' = (if 0 < n then At (n - 1) else AtStart)" by blast
    with True 1 show ?thesis
      by (intro exI [of _ i'])
         (auto simp: rev_rest_def rev_ok_def key val hd_rev last_conv_nth butlast_take tl_rev)
  next
    case 2
    from prev_start [OF 2] True 2 show ?thesis by (auto simp: rev_rest_def rev_ok_def)
  qed
qed

end

text \<open>The blocks a block iterator still has to deliver, and when it is well placed.\<close>

fun bi_rest :: "codec \<Rightarrow> ('it \<Rightarrow> (bytes \<times> bytes) list) \<Rightarrow> ('it \<Rightarrow> cursor) \<Rightarrow> 'it block_iter \<Rightarrow> block list" where
  "bi_rest C ent pos (PebbleBlockIter pi) =
     map (projr \<circ> unmarshalBlock C \<circ> snd) (fwd_rest (bb_init pi) (pos (bb_i pi)) (ent (bb_i pi)))"
| "bi_rest C ent pos (PebbleReverseBlockIter pi) =
     map (projr \<circ> unmarshalBlock C \<circ> snd) (rev_rest (bb_init pi) (pos (bb_i pi)) (ent (bb_i pi)))"

definition block_entries :: "codec \<Rightarrow> (bytes \<times> bytes) list \<Rightarrow> bool" where
  "block_entries C es \<longleftrightarrow> (\<forall>(k, v) \<in> set es. \<exists>b. unmarshalBlock C v = Inr b)"

fun bi_ok :: "codec \<Rightarrow> ('it \<Rightarrow> (bytes \<times> bytes) list) \<Rightarrow> ('it \<Rightarrow> cursor) \<Rightarrow> 'it block_iter \<Rightarrow> bool" where
  "bi_ok C ent pos (PebbleBlockIter pi) =
     (block_entries C (ent (bb_i pi)) \<and> fwd_ok (bb_init pi) (pos (bb_i pi)) (ent (bb_i pi)))"
| "bi_ok C ent pos (PebbleReverseBlockIter pi) =
     (block_entries C (ent (bb_i pi)) \<and> rev_ok (bb_init pi) (pos (bb_i pi)) (ent (bb_i pi)))"

text \<open>The same for the transactions, whose iterators also skip entries by index.\<close>

definition idx_between :: "u32 \<Rightarrow> u32 \<Rightarrow> bytes \<times> bytes \<Rightarrow> bool" where
  "idx_between a b kv \<longleftrightarrow> a \<le> projr (txIdxOfKey (fst kv)) \<and> projr (txIdxOfKey (fst kv)) < b"

fun ti_rest :: "codec \<Rightarrow> ('it \<Rightarrow> (bytes \<times> bytes) list) \<Rightarrow> ('it \<Rightarrow> cursor) \<Rightarrow> 'it tx_iter \<Rightarrow> tx_result list" where
  "ti_rest C ent pos (PebbleTxIter pi) =
     map (projr \<circ> unmarshalTxResult C \<circ> snd)
       (filter (idx_between (tb_fromIndex pi) (tb_toIndex pi))
         (fwd_rest (tb_init pi) (pos (tb_i pi)) (ent (tb_i pi))))"
| "ti_rest C ent pos (PebbleReverseTxIter pi) =
     map (projr \<circ> unmarshalTxResult C \<circ> snd)
       (filter (idx_between (tb_fromIndex pi) (tb_toIndex pi))
         (rev_rest (tb_init pi) (pos (tb_i pi)) (ent (tb_i pi))))"

definition tx_entries :: "codec \<Rightarrow> (bytes \<times> bytes) list \<Rightarrow> bool" where
  "tx_entries C es \<longleftrightarrow>
     (\<forall>(k, v) \<in> set es. (\<exists>n i. k = keyTx n i) \<and> (\<exists>t. unmarshalTxResult C v = Inr t))"

fun ti_ok :: "codec \<Rightarrow> ('it \<Rightarrow> (bytes \<times> bytes) list) \<Rightarrow> ('it \<Rightarrow> cursor) \<Rightarrow> 'it tx_iter \<Rightarrow> bool" where
  "ti_ok C ent pos (PebbleTxIter pi) =
     (tx_entries C (ent (tb_i pi)) \<and> tb_nextError pi = None \<and>
      fwd_ok (tb_init pi) (pos (tb_i pi)) (ent (tb_i pi)))"
| "ti_ok C ent pos (PebbleReverseTxIter pi) =
     (tx_entries C (ent (tb_i pi)) \<and> tb_nextError pi = None \<and>
      rev_ok (tb_init pi) (pos (tb_i pi)) (ent (tb_i pi)))"

lemma fwd_rest_subset: "set (fwd_rest init c es) \<subseteq> set es"
  by (auto simp: fwd_rest_def split: cursor.splits dest: in_set_dropD)

lemma rev_rest_subset: "set (rev_rest init c es) \<subseteq> set es"
  by (auto simp: rev_rest_def split: cursor.splits dest: in_set_takeD)

locale pebble_store = pebble_db P dbv btv ient ipos + amino_codec C
  for P :: "('db, 'bt, 'it) pebble" and dbv and btv and ient and ipos and C
begin

lemma block_value:
  assumes "block_entries C es" "kv \<in> set es"
  shows "decodeBlock C (snd kv) = Inr (projr (unmarshalBlock C (snd kv)))"
  using assms by (fastforce simp: block_entries_def decodeBlock_def)

lemma block_iter_next:
  assumes "bi_ok C ient ipos it"
  shows "\<exists>it'. block_iter_Next P it = (bi_rest C ient ipos it \<noteq> [], it') \<and> bi_ok C ient ipos it' \<and>
    bi_rest C ient ipos it' = tl (bi_rest C ient ipos it) \<and>
    (bi_rest C ient ipos it \<noteq> [] \<longrightarrow>
      pebbleBaseBlockIter_Value P C (block_iter_base it') = Inr (hd (bi_rest C ient ipos it)))"
proof (cases it)
  case (PebbleBlockIter pi)
  let ?r = "fwd_rest (bb_init pi) (ipos (bb_i pi)) (ient (bb_i pi))"
  from assms PebbleBlockIter have ok: "block_entries C (ient (bb_i pi))"
    "fwd_ok (bb_init pi) (ipos (bb_i pi)) (ient (bb_i pi))" by simp_all
  show ?thesis
  proof (cases "bb_init pi \<and> \<not> pValid P (bb_i pi)")
    case True
    with ok(2) have "?r = []" by (auto simp: fwd_rest_def fwd_ok_def valid split: cursor.splits)
    with True PebbleBlockIter assms show ?thesis
      by (intro exI [of _ it]) (simp add: PebbleBlockIter_Next_def)
  next
    case False
    from fwd_step [OF ok(2)] obtain i' where
      st: "(if \<not> bb_init pi then pFirst P (bb_i pi) else pNext P (bb_i pi)) = (?r \<noteq> [], i')"
      and i': "ient i' = ient (bb_i pi)" "fwd_ok True (ipos i') (ient i')"
        "fwd_rest True (ipos i') (ient i') = tl ?r" "?r \<noteq> [] \<longrightarrow> pValue P i' = snd (hd ?r)"
      by blast
    have "PebbleBlockIter_Next P pi = (?r \<noteq> [], pi\<lparr>bb_init := True, bb_i := i'\<rparr>)"
      using st False by (cases pi) (auto simp: PebbleBlockIter_Next_def split: if_splits)
    moreover have "?r \<noteq> [] \<Longrightarrow> hd ?r \<in> set (ient (bb_i pi))"
      by (rule subsetD [OF fwd_rest_subset hd_in_set])
    ultimately show ?thesis using PebbleBlockIter ok(1) i' block_value [OF ok(1), of "hd ?r"]
      by (intro exI [of _ "PebbleBlockIter (pi\<lparr>bb_init := True, bb_i := i'\<rparr>)"])
         (simp add: map_tl hd_map pebbleBaseBlockIter_Value_def)
  qed
next
  case (PebbleReverseBlockIter pi)
  let ?r = "rev_rest (bb_init pi) (ipos (bb_i pi)) (ient (bb_i pi))"
  from assms PebbleReverseBlockIter have ok: "block_entries C (ient (bb_i pi))"
    "rev_ok (bb_init pi) (ipos (bb_i pi)) (ient (bb_i pi))" by simp_all
  show ?thesis
  proof (cases "bb_init pi \<and> \<not> pValid P (bb_i pi)")
    case True
    with ok(2) have "?r = []" by (auto simp: rev_rest_def rev_ok_def valid split: cursor.splits)
    with True PebbleReverseBlockIter assms show ?thesis
      by (intro exI [of _ it]) (simp add: PebbleReverseBlockIter_Next_def)
  next
    case False
    from rev_step [OF ok(2)] obtain i' where
      st: "(if \<not> bb_init pi then pLast P (bb_i pi) else pPrev P (bb_i pi)) = (?r \<noteq> [], i')"
      and i': "ient i' = ient (bb_i pi)" "rev_ok True (ipos i') (ient i')"
        "rev_rest True (ipos i') (ient i') = tl ?r" "?r \<noteq> [] \<longrightarrow> pValue P i' = snd (hd ?r)"
      by blast
    have "PebbleReverseBlockIter_Next P pi = (?r \<noteq> [], pi\<lparr>bb_init := True, bb_i := i'\<rparr>)"
      using st False by (cases pi) (auto simp: PebbleReverseBlockIter_Next_def split: if_splits)
    moreover have "?r \<noteq> [] \<Longrightarrow> hd ?r \<in> set (ient (bb_i pi))"
      by (rule subsetD [OF rev_rest_subset hd_in_set])
    ultimately show ?thesis using PebbleReverseBlockIter ok(1) i' block_value [OF ok(1), of "hd ?r"]
      by (intro exI [of _ "PebbleReverseBlockIter (pi\<lparr>bb_init := True, bb_i := i'\<rparr>)"])
         (simp add: map_tl hd_map pebbleBaseBlockIter_Value_def)
  qed
qed

lemma tx_value:
  assumes "tx_entries C es" "kv \<in> set es"
  shows "decodeTx C (snd kv) = Inr (projr (unmarshalTxResult C (snd kv)))"
    and "\<exists>j. txIdxOfKey (fst kv) = Inr j"
  using assms by (fastforce simp: tx_entries_def decodeTx_def)+

lemma tx_iter_next_fwd:
  assumes "ti_ok C ient ipos (PebbleTxIter pi)"
  shows "\<exists>pi'. PebbleTxIter_Next P pi = Some (ti_rest C ient ipos (PebbleTxIter pi) \<noteq> [], pi') \<and>
    ti_ok C ient ipos (PebbleTxIter pi') \<and>
    ti_rest C ient ipos (PebbleTxIter pi') = tl (ti_rest C ient ipos (PebbleTxIter pi)) \<and>
    (ti_rest C ient ipos (PebbleTxIter pi) \<noteq> [] \<longrightarrow>
      pebbleBaseTxIter_Value P C pi' = Inr (hd (ti_rest C ient ipos (PebbleTxIter pi))))"
  using assms
proof (induction "length (fwd_rest (tb_init pi) (ipos (tb_i pi)) (ient (tb_i pi)))" arbitrary: pi
    rule: less_induct)
  case less
  let ?r = "fwd_rest (tb_init pi) (ipos (tb_i pi)) (ient (tb_i pi))"
  from less.prems have ok: "tx_entries C (ient (tb_i pi))" "tb_nextError pi = None"
    "fwd_ok (tb_init pi) (ipos (tb_i pi)) (ient (tb_i pi))" by simp_all
  from fwd_step [OF ok(3)] obtain i' where
    st: "(if \<not> tb_init pi then pFirst P (tb_i pi) else pNext P (tb_i pi)) = (?r \<noteq> [], i')"
    and i': "ient i' = ient (tb_i pi)" "fwd_ok True (ipos i') (ient i')"
      "fwd_rest True (ipos i') (ient i') = tl ?r"
      "?r \<noteq> [] \<longrightarrow> pKey P i' = fst (hd ?r) \<and> pValue P i' = snd (hd ?r)"
    by blast
  note step = PebbleTxIter_Next.simps [of P pi, unfolded st]
  show ?case
  proof (cases ?r)
    case Nil
    then have "fwd_rest (tb_init pi) (ipos i') (ient i') = []"
      using i' by (cases "tb_init pi") (simp_all add: fwd_rest_def)
    with Nil step ok i' show ?thesis
      by (intro exI [of _ "pi\<lparr>tb_i := i'\<rparr>"]) (simp add: fwd_ok_def)
  next
    case (Cons kv r)
    let ?pi = "pi\<lparr>tb_i := i', tb_init := True\<rparr>"
    from Cons have "kv \<in> set (ient (tb_i pi))"
      using fwd_rest_subset [of "tb_init pi" "ipos (tb_i pi)" "ient (tb_i pi)"] by auto
    from tx_value [OF ok(1) this] obtain j where
      kv: "decodeTx C (snd kv) = Inr (projr (unmarshalTxResult C (snd kv)))" "txIdxOfKey (fst kv) = Inr j"
      by blast
    have next_eq: "PebbleTxIter_Next P pi =
        (if idx_between (tb_fromIndex pi) (tb_toIndex pi) kv then Some (True, ?pi)
         else PebbleTxIter_Next P ?pi)"
      using step Cons i'(4) kv(2) by (simp add: Let_def idx_between_def)
    have ok': "ti_ok C ient ipos (PebbleTxIter ?pi)" using ok i' by simp
    have rest: "fwd_rest True (ipos i') (ient i') = r" using Cons i'(3) by simp
    show ?thesis
    proof (cases "idx_between (tb_fromIndex pi) (tb_toIndex pi) kv")
      case True
      with next_eq ok' rest Cons kv(1) i'(4) show ?thesis
        by (intro exI [of _ ?pi]) (simp add: pebbleBaseTxIter_Value_def)
    next
      case False
      with less.hyps [of ?pi] ok' rest Cons next_eq show ?thesis by simp
    qed
  qed
qed

lemma tx_iter_next_rev:
  assumes "ti_ok C ient ipos (PebbleReverseTxIter pi)"
  shows "\<exists>pi'. PebbleReverseTxIter_Next P pi = Some (ti_rest C ient ipos (PebbleReverseTxIter pi) \<noteq> [], pi') \<and>
    ti_ok C ient ipos (PebbleReverseTxIter pi') \<and>
    ti_rest C ient ipos (PebbleReverseTxIter pi') = tl (ti_rest C ient ipos (PebbleReverseTxIter pi)) \<and>
    (ti_rest C ient ipos (PebbleReverseTxIter pi) \<noteq> [] \<longrightarrow>
      pebbleBaseTxIter_Value P C pi' = Inr (hd (ti_rest C ient ipos (PebbleReverseTxIter pi))))"
  using assms
proof (induction "length (rev_rest (tb_init pi) (ipos (tb_i pi)) (ient (tb_i pi)))" arbitrary: pi
    rule: less_induct)
  case less
  let ?r = "rev_rest (tb_init pi) (ipos (tb_i pi)) (ient (tb_i pi))"
  from less.prems have ok: "tx_entries C (ient (tb_i pi))" "tb_nextError pi = None"
    "rev_ok (tb_init pi) (ipos (tb_i pi)) (ient (tb_i pi))" by simp_all
  from rev_step [OF ok(3)] obtain i' where
    st: "(if \<not> tb_init pi then pLast P (tb_i pi) else pPrev P (tb_i pi)) = (?r \<noteq> [], i')"
    and i': "ient i' = ient (tb_i pi)" "rev_ok True (ipos i') (ient i')"
      "rev_rest True (ipos i') (ient i') = tl ?r"
      "?r \<noteq> [] \<longrightarrow> pKey P i' = fst (hd ?r) \<and> pValue P i' = snd (hd ?r)"
    by blast
  note step = PebbleReverseTxIter_Next.simps [of P pi, unfolded st]
  show ?case
  proof (cases ?r)
    case Nil
    then have "rev_rest (tb_init pi) (ipos i') (ient i') = []"
      using i' by (cases "tb_init pi") (simp_all add: rev_rest_def)
    with Nil step ok i' show ?thesis
      by (intro exI [of _ "pi\<lparr>tb_i := i'\<rparr>"]) (simp add: rev_ok_def)
  next
    case (Cons kv r)
    let ?pi = "pi\<lparr>tb_i := i', tb_init := True\<rparr>"
    from Cons have "kv \<in> set (ient (tb_i pi))"
      using rev_rest_subset [of "tb_init pi" "ipos (tb_i pi)" "ient (tb_i pi)"] by auto
    from tx_value [OF ok(1) this] obtain j where
      kv: "decodeTx C (snd kv) = Inr (projr (unmarshalTxResult C (snd kv)))" "txIdxOfKey (fst kv) = Inr j"
      by blast
    have next_eq: "PebbleReverseTxIter_Next P pi =
        (if idx_between (tb_fromIndex pi) (tb_toIndex pi) kv then Some (True, ?pi)
         else PebbleReverseTxIter_Next P ?pi)"
      using step Cons i'(4) kv(2) by (simp add: Let_def idx_between_def)
    have ok': "ti_ok C ient ipos (PebbleReverseTxIter ?pi)" using ok i' by simp
    have rest: "rev_rest True (ipos i') (ient i') = r" using Cons i'(3) by simp
    show ?thesis
    proof (cases "idx_between (tb_fromIndex pi) (tb_toIndex pi) kv")
      case True
      with next_eq ok' rest Cons kv(1) i'(4) show ?thesis
        by (intro exI [of _ ?pi]) (simp add: pebbleBaseTxIter_Value_def)
    next
      case False
      with less.hyps [of ?pi] ok' rest Cons next_eq show ?thesis by simp
    qed
  qed
qed

lemma tx_iter_next:
  assumes "ti_ok C ient ipos it"
  shows "\<exists>it'. tx_iter_Next P it = Some (ti_rest C ient ipos it \<noteq> [], it') \<and> ti_ok C ient ipos it' \<and>
    ti_rest C ient ipos it' = tl (ti_rest C ient ipos it) \<and>
    (ti_rest C ient ipos it \<noteq> [] \<longrightarrow>
      pebbleBaseTxIter_Value P C (tx_iter_base it') = Inr (hd (ti_rest C ient ipos it)))"
proof (cases it)
  case (PebbleTxIter pi)
  with tx_iter_next_fwd [of pi] assms obtain pi' where
    "PebbleTxIter_Next P pi = Some (ti_rest C ient ipos (PebbleTxIter pi) \<noteq> [], pi')"
    "ti_ok C ient ipos (PebbleTxIter pi')"
    "ti_rest C ient ipos (PebbleTxIter pi') = tl (ti_rest C ient ipos (PebbleTxIter pi))"
    "ti_rest C ient ipos (PebbleTxIter pi) \<noteq> [] \<longrightarrow>
      pebbleBaseTxIter_Value P C pi' = Inr (hd (ti_rest C ient ipos (PebbleTxIter pi)))" by auto
  with PebbleTxIter show ?thesis by (intro exI [of _ "PebbleTxIter pi'"]) simp
next
  case (PebbleReverseTxIter pi)
  with tx_iter_next_rev [of pi] assms obtain pi' where
    "PebbleReverseTxIter_Next P pi = Some (ti_rest C ient ipos (PebbleReverseTxIter pi) \<noteq> [], pi')"
    "ti_ok C ient ipos (PebbleReverseTxIter pi')"
    "ti_rest C ient ipos (PebbleReverseTxIter pi') = tl (ti_rest C ient ipos (PebbleReverseTxIter pi))"
    "ti_rest C ient ipos (PebbleReverseTxIter pi) \<noteq> [] \<longrightarrow>
      pebbleBaseTxIter_Value P C pi' = Inr (hd (ti_rest C ient ipos (PebbleReverseTxIter pi)))" by auto
  with PebbleReverseTxIter show ?thesis by (intro exI [of _ "PebbleReverseTxIter pi'"]) simp
qed

end

section \<open>The entries between two keys\<close>

lemma block_key_range:
  assumes "db_ok C m" "m k \<noteq> None" "keyBlock lo \<le> k" "k < keyBlock hi"
  shows "\<exists>n. k = keyBlock n \<and> lo \<le> n \<and> n < hi"
proof -
  from assms obtain v where "m k = Some v" by blast
  with assms(1) have "entry_ok C k v" by (simp add: db_ok_def)
  moreover have "k \<noteq> str_bytes keyLatestHeight"
    using latest_not_in_range assms(3,4) by (metis key_enc(1))
  moreover have "k \<noteq> keyTx n i" for n i
    using enc_between [of prefixKeyBlocks _ prefixKeyTxs] assms(3,4) by (auto simp: key_enc)
  moreover have "k \<noteq> keyHashTx h" for h
    using enc_between [of prefixKeyBlocks _ prefixKeyTxByHash] assms(3,4) by (auto simp: key_enc)
  ultimately obtain n where "k = keyBlock n" unfolding entry_ok_def by blast
  with assms(3,4) show ?thesis by (auto simp flip: not_less)
qed

lemma tx_key_range:
  assumes "db_ok C m" "m k \<noteq> None" "keyTx lo i \<le> k" "k < keyTx hi j"
  shows "\<exists>p. k = keyTx (tpHeight p) (tpIndex p) \<and> TxPos lo i \<le> p \<and> p < TxPos hi j"
proof -
  from assms obtain v where "m k = Some v" by blast
  with assms(1) have "entry_ok C k v" by (simp add: db_ok_def)
  moreover have "k \<noteq> str_bytes keyLatestHeight"
    using latest_not_in_range assms(3,4) by (metis key_enc(2))
  moreover have "k \<noteq> keyBlock n" for n
    using enc_between [of prefixKeyTxs _ prefixKeyBlocks] assms(3,4) by (auto simp: key_enc)
  moreover have "k \<noteq> keyHashTx h" for h
    using enc_between [of prefixKeyTxs _ prefixKeyTxByHash] assms(3,4) by (auto simp: key_enc)
  ultimately obtain n l where k: "k = keyTx n l" unfolding entry_ok_def by blast
  with assms(3,4) have "TxPos lo i \<le> TxPos n l \<and> TxPos n l < TxPos hi j"
    by (metis keyTx_less linorder_not_less)
  with k show ?thesis by (metis txpos.sel)
qed

lemma block_list_of_entries:
  assumes ok: "db_ok C m" and srt: "sorted_wrt (<) (map fst es)"
    and es: "set es = {(k, v). m k = Some v \<and> keyBlock lo \<le> k \<and> k < keyBlock (upTo64 hi)}"
  shows "map (projr \<circ> unmarshalBlock C \<circ> snd) es = block_range (db_store C m) lo hi"
    and "block_entries C es"
proof -
  let ?A = "{n. lo \<le> n \<and> n < upTo64 hi \<and> stBlock (db_store C m) n \<noteq> None}"
  have dom: "stBlock (db_store C m) n \<noteq> None \<longleftrightarrow> m (keyBlock n) \<noteq> None" for n
    using db_okD(1) [OF ok, of n] by (cases "m (keyBlock n)") (auto simp: db_store_def)
  have val: "m (keyBlock n) \<noteq> None \<Longrightarrow>
      projr (unmarshalBlock C (the (m (keyBlock n)))) = the (stBlock (db_store C m) n)" for n
    using db_okD(1) [OF ok, of n] by (fastforce simp: db_store_def)
  have "keyBlock ` ?A = {k. m k \<noteq> None \<and> keyBlock lo \<le> k \<and> k < keyBlock (upTo64 hi)}"
    unfolding dom using block_key_range [OF ok] by (fastforce simp flip: not_less)
  from entries_by_position [OF srt es keyBlock_less _ this]
  have es': "es = map (\<lambda>n. (keyBlock n, the (m (keyBlock n)))) (sorted_list_of_set ?A)" by simp
  show "map (projr \<circ> unmarshalBlock C \<circ> snd) es = block_range (db_store C m) lo hi"
    unfolding es' block_range_def using val dom by simp
  have "\<exists>b. unmarshalBlock C v = Inr b" if "(k, v) \<in> set es" for k v
  proof -
    from that es have kv: "m k = Some v" "keyBlock lo \<le> k" "k < keyBlock (upTo64 hi)" by auto
    with block_key_range [OF ok] obtain n where "k = keyBlock n" by blast
    with kv(1) db_okD(1) [OF ok, of n v] show ?thesis by blast
  qed
  then show "block_entries C es" by (auto simp: block_entries_def)
qed

lemma tx_list_of_entries:
  assumes ok: "db_ok C m" and srt: "sorted_wrt (<) (map fst es)"
    and es: "set es = {(k, v). m k = Some v \<and> keyTx lo i \<le> k \<and> k < keyTx (upTo64 hi) (upTo32 j)}"
  shows "map (projr \<circ> unmarshalTxResult C \<circ> snd) (filter (idx_between i (upTo32 j)) es) =
      tx_range (db_store C m) lo hi i j"
    and "tx_entries C es"
proof -
  let ?A = "{p. TxPos lo i \<le> p \<and> p < TxPos (upTo64 hi) (upTo32 j) \<and> stTx (db_store C m) p \<noteq> None}"
  let ?k = "\<lambda>p. keyTx (tpHeight p) (tpIndex p)"
  have dom: "stTx (db_store C m) p \<noteq> None \<longleftrightarrow> m (?k p) \<noteq> None" for p
    using db_okD(2) [OF ok, of "tpHeight p" "tpIndex p"] by (cases "m (?k p)") (auto simp: db_store_def)
  have val: "stTx (db_store C m) p = Some t \<Longrightarrow> projr (unmarshalTxResult C (the (m (?k p)))) = t" for p t
    using db_okD(2) [OF ok, of "tpHeight p" "tpIndex p"] by (cases "m (?k p)") (auto simp: db_store_def)
  have mono: "?k p < ?k q \<longleftrightarrow> p < q" for p q by (simp add: less_txpos_def)
  have le: "keyTx n l \<le> ?k p \<longleftrightarrow> TxPos n l \<le> p" for n l p
    using mono [of p "TxPos n l"] by (simp flip: not_less)
  have lt: "?k p < keyTx n l \<longleftrightarrow> p < TxPos n l" for n l p
    using mono [of p "TxPos n l"] by simp
  have "?k ` ?A = {k. m k \<noteq> None \<and> keyTx lo i \<le> k \<and> k < keyTx (upTo64 hi) (upTo32 j)}"
    unfolding dom using tx_key_range [OF ok] by (fastforce simp: le lt)
  from entries_by_position [OF srt es mono _ this]
  have es': "es = map (\<lambda>p. (?k p, the (m (?k p)))) (sorted_list_of_set ?A)" by simp
  have A': "filter (\<lambda>p. i \<le> tpIndex p \<and> tpIndex p < upTo32 j) (sorted_list_of_set ?A) =
      sorted_list_of_set {p. TxPos lo i \<le> p \<and> p < TxPos (upTo64 hi) (upTo32 j) \<and>
        i \<le> tpIndex p \<and> tpIndex p < upTo32 j \<and> stTx (db_store C m) p \<noteq> None}"
    by (rule strict_sorted_equal) (auto intro: sorted_wrt_filter)
  have "filter (idx_between i (upTo32 j)) es = map (\<lambda>p. (?k p, the (m (?k p))))
      (filter (\<lambda>p. i \<le> tpIndex p \<and> tpIndex p < upTo32 j) (sorted_list_of_set ?A))"
    unfolding es' by (simp add: filter_map comp_def idx_between_def)
  then show "map (projr \<circ> unmarshalTxResult C \<circ> snd) (filter (idx_between i (upTo32 j)) es) =
      tx_range (db_store C m) lo hi i j"
    unfolding A' tx_range_def by (simp only: map_map) (rule map_cong, auto simp: val)
  have "(\<exists>n l. k = keyTx n l) \<and> (\<exists>t. unmarshalTxResult C v = Inr t)" if "(k, v) \<in> set es" for k v
  proof -
    from that es have kv: "m k = Some v" "keyTx lo i \<le> k" "k < keyTx (upTo64 hi) (upTo32 j)" by auto
    with tx_key_range [OF ok] obtain n l where "k = keyTx n l" by blast
    with kv(1) db_okD(2) [OF ok, of n l v] show ?thesis by blast
  qed
  then show "tx_entries C es" by (auto simp: tx_entries_def)
qed


context pebble_store
begin

lemma P_block_iter:
  assumes "db_ok C (dbv d)"
  shows "\<exists>it. Pebble_BlockIterator P d lo hi = Inr it \<and> bi_ok C ient ipos it \<and>
      bi_rest C ient ipos it = block_range (db_store C (dbv d)) lo hi"
    and "\<exists>it. Pebble_BlockReverseIterator P d lo hi = Inr it \<and> bi_ok C ient ipos it \<and>
      bi_rest C ient ipos it = rev (block_range (db_store C (dbv d)) lo hi)"
proof -
  from new_iter [of d "keyBlock lo" "keyBlock (upTo64 hi)"] obtain i where
    i: "pNewIter P d (keyBlock lo) (keyBlock (upTo64 hi)) = Inr i"
      "sorted_wrt (<) (map fst (ient i))"
      "set (ient i) = {(k, v). dbv d k = Some v \<and> keyBlock lo \<le> k \<and> k < keyBlock (upTo64 hi)}" by blast
  note es = block_list_of_entries [OF assms i(2,3)]
  show "\<exists>it. Pebble_BlockIterator P d lo hi = Inr it \<and> bi_ok C ient ipos it \<and>
      bi_rest C ient ipos it = block_range (db_store C (dbv d)) lo hi"
    using i(1) es by (simp add: Pebble_BlockIterator_def Pebble_loadBlockIterator_def Let_def
        flip: upTo64_def) (simp add: fwd_rest_def fwd_ok_def)
  show "\<exists>it. Pebble_BlockReverseIterator P d lo hi = Inr it \<and> bi_ok C ient ipos it \<and>
      bi_rest C ient ipos it = rev (block_range (db_store C (dbv d)) lo hi)"
    using i(1) es by (simp add: Pebble_BlockReverseIterator_def Let_def flip: upTo64_def)
      (simp add: rev_rest_def rev_ok_def flip: rev_map)
qed

lemma P_tx_iter:
  assumes "db_ok C (dbv d)"
  shows "\<exists>it. Pebble_TxIterator P d lo hi l j = Inr it \<and> ti_ok C ient ipos it \<and>
      ti_rest C ient ipos it = tx_range (db_store C (dbv d)) lo hi l j"
    and "\<exists>it. Pebble_TxReverseIterator P d lo hi l j = Inr it \<and> ti_ok C ient ipos it \<and>
      ti_rest C ient ipos it = rev (tx_range (db_store C (dbv d)) lo hi l j)"
proof -
  from new_iter [of d "keyTx lo l" "keyTx (upTo64 hi) (upTo32 j)"] obtain i where
    i: "pNewIter P d (keyTx lo l) (keyTx (upTo64 hi) (upTo32 j)) = Inr i"
      "sorted_wrt (<) (map fst (ient i))"
      "set (ient i) = {(k, v). dbv d k = Some v \<and> keyTx lo l \<le> k \<and> k < keyTx (upTo64 hi) (upTo32 j)}"
    by blast
  note es = tx_list_of_entries [OF assms i(2,3)]
  show "\<exists>it. Pebble_TxIterator P d lo hi l j = Inr it \<and> ti_ok C ient ipos it \<and>
      ti_rest C ient ipos it = tx_range (db_store C (dbv d)) lo hi l j"
    using i(1) es by (simp add: Pebble_TxIterator_def Pebble_loadTxIterator_def Let_def
        flip: upTo64_def upTo32_def) (simp add: fwd_rest_def fwd_ok_def)
  show "\<exists>it. Pebble_TxReverseIterator P d lo hi l j = Inr it \<and> ti_ok C ient ipos it \<and>
      ti_rest C ient ipos it = rev (tx_range (db_store C (dbv d)) lo hi l j)"
    using i(1) es by (simp add: Pebble_TxReverseIterator_def Pebble_loadTxIterator_def Let_def
        flip: upTo64_def upTo32_def) (simp add: rev_rest_def rev_ok_def rev_filter [symmetric] flip: rev_map)
qed

end

section \<open>The store keeps the contract\<close>

lemma notFound_simps [simp]: "notFound PebbleErrNotFound = ErrNotFound"
  by (simp add: notFound_def)

context pebble_store
begin

lemma P_reads:
  assumes "db_ok C (dbv d)"
  shows "Pebble_GetLatestHeight P d =
      (case stLatest (db_store C (dbv d)) of None \<Rightarrow> Inl ErrNotFound | Some h \<Rightarrow> Inr h)"
    and "Pebble_GetBlock P C d n =
      (case stBlock (db_store C (dbv d)) n of None \<Rightarrow> Inl ErrNotFound | Some b \<Rightarrow> Inr b)"
    and "Pebble_GetTx P C d n i =
      (case stTx (db_store C (dbv d)) (TxPos n i) of None \<Rightarrow> Inl ErrNotFound | Some t \<Rightarrow> Inr t)"
proof -
  show "Pebble_GetLatestHeight P d =
      (case stLatest (db_store C (dbv d)) of None \<Rightarrow> Inl ErrNotFound | Some h \<Rightarrow> Inr h)"
    using db_okD(4) [OF assms]
    by (auto simp: Pebble_GetLatestHeight_def db_store_def get decodeUint64Ascending_def split: option.splits)
  show "Pebble_GetBlock P C d n =
      (case stBlock (db_store C (dbv d)) n of None \<Rightarrow> Inl ErrNotFound | Some b \<Rightarrow> Inr b)"
    using db_okD(1) [OF assms, of n]
    by (auto simp: Pebble_GetBlock_def db_store_def get decodeBlock_def split: option.splits)
  show "Pebble_GetTx P C d n i =
      (case stTx (db_store C (dbv d)) (TxPos n i) of None \<Rightarrow> Inl ErrNotFound | Some t \<Rightarrow> Inr t)"
    using db_okD(2) [OF assms, of n i]
    by (auto simp: Pebble_GetTx_def db_store_def get decodeTx_def split: option.splits)
qed

lemma P_hash:
  assumes "db_ok C (dbv d)"
  shows "Pebble_GetTxByHash P C d h =
      (case Option.bind (stHash (db_store C (dbv d)) h) (stTx (db_store C (dbv d))) of
         None \<Rightarrow> Inl ErrNotFound | Some t \<Rightarrow> Inr t)"
proof (cases "dbv d (keyHashTx h)")
  case None
  then show ?thesis by (simp add: Pebble_GetTxByHash_def db_store_def get)
next
  case (Some v)
  with db_okD(3) [OF assms] obtain n i where "v = keyTx n i" by blast
  with Some db_okD(2) [OF assms, of n i] show ?thesis
    by (auto simp: Pebble_GetTxByHash_def db_store_def get decodeTx_def split: option.splits)
qed

lemma P_batch_add:
  assumes "kvs_ok C (btv b)" "write_ok C w" "btv b' = btv b @ write_kvs C w"
  shows "kvs_ok C (btv b') \<and> kv_writes C (btv b') = kv_writes C (btv b) @ [w]"
  using kvs_ok_snoc [OF assms(1,2)] assms(3) by simp

lemma P_set_latest:
  assumes "kvs_ok C (btv b)"
  shows "\<exists>b'. PebbleBatch_SetLatestHeight P b h = (None, b') \<and> kvs_ok C (btv b') \<and>
    kv_writes C (btv b') = kv_writes C (btv b) @ [WLatest h]"
  using bset [of b "str_bytes keyLatestHeight" "encodeUint64Ascending [] h"]
    P_batch_add [OF assms, of "WLatest h"]
  by (auto simp: PebbleBatch_SetLatestHeight_def)

lemma P_set_block:
  assumes "kvs_ok C (btv b)" "marshalBlock C x = Inr e"
  shows "\<exists>b'. PebbleBatch_SetBlock P C b x = (None, b') \<and> kvs_ok C (btv b') \<and>
    kv_writes C (btv b') = kv_writes C (btv b) @ [WBlock x]"
  using bset [of b "keyBlock (bHeight x)" e] P_batch_add [OF assms(1), of "WBlock x"] assms(2)
  by (auto simp: PebbleBatch_SetBlock_def encodeBlock_def)

lemma P_set_tx:
  assumes "kvs_ok C (btv b)" "marshalTxResult C (Some t) = Inr e"
  shows "\<exists>b'. PebbleBatch_SetTx P C b (Some t) = Ret (None, b') \<and> kvs_ok C (btv b') \<and>
    kv_writes C (btv b') = kv_writes C (btv b) @ [WTx t]"
proof -
  from bset [of b "keyHashTx (tx_key C t)" "keyTx (trHeight t) (trIndex t)"] obtain b1 where
    b1: "pSet P b (keyHashTx (tx_key C t)) (keyTx (trHeight t) (trIndex t)) = (None, b1)"
      "btv b1 = btv b @ [(keyHashTx (tx_key C t), keyTx (trHeight t) (trIndex t))]" by blast
  from bset [of b1 "keyTx (trHeight t) (trIndex t)" e] obtain b2 where
    b2: "pSet P b1 (keyTx (trHeight t) (trIndex t)) e = (None, b2)"
      "btv b2 = btv b1 @ [(keyTx (trHeight t) (trIndex t), e)]" by blast
  with b1 P_batch_add [OF assms(1), of "WTx t" b2] assms(2) show ?thesis
    by (simp add: PebbleBatch_SetTx_def encodeTx_def Let_def flip: tx_key_def)
qed

lemma P_set_err:
  "marshalBlock C x = Inl err \<Longrightarrow> PebbleBatch_SetBlock P C b x = (Some err, b)"
  "marshalTxResult C tp = Inl err \<Longrightarrow> PebbleBatch_SetTx P C b tp = Ret (Some err, b)"
  by (simp_all add: PebbleBatch_SetBlock_def PebbleBatch_SetTx_def encodeBlock_def encodeTx_def)

lemma P_set_nil:
  "kvs_ok C (btv b) \<Longrightarrow> PebbleBatch_SetTx P C b None = Ret (err, b') \<Longrightarrow>
   kvs_ok C (btv b') \<and> kv_writes C (btv b') = kv_writes C (btv b)"
  by (auto simp: PebbleBatch_SetTx_def split: sum.splits)

lemma P_commit:
  assumes "db_ok C (dbv d)" "kvs_ok C (btv b)"
  shows "\<exists>d'. PebbleBatch_Commit P b d = (None, d') \<and> db_ok C (dbv d') \<and>
    db_store C (dbv d') = apply_writes C (db_store C (dbv d)) (kv_writes C (btv b))"
  using bcommit [of b d] db_store_writes [OF assms(2,1)]
  by (auto simp: PebbleBatch_Commit_def put_all_def)

lemma P_places:
  assumes "db_ok C (dbv d)"
  shows "stBlock (db_store C (dbv d)) n = Some x \<Longrightarrow> bHeight x = n"
    and "stTx (db_store C (dbv d)) p = Some t \<Longrightarrow> tx_pos t = p"
proof -
  show "stBlock (db_store C (dbv d)) n = Some x \<Longrightarrow> bHeight x = n"
    using db_okD(1) [OF assms, of n] by (auto simp: db_store_def Option.bind_eq_Some_conv)
  show "stTx (db_store C (dbv d)) p = Some t \<Longrightarrow> tx_pos t = p"
    using db_okD(2) [OF assms, of "tpHeight p" "tpIndex p"]
    by (auto simp: db_store_def Option.bind_eq_Some_conv)
qed

lemma ti_ok_error: "ti_ok C ient ipos it \<Longrightarrow> pebbleBaseTxIter_Error P (tx_iter_base it) = None"
  by (cases it) (simp_all add: pebbleBaseTxIter_Error_def no_error)

end

sublocale pebble_store \<subseteq> storage_api "pebble_storage P C" C
  "\<lambda>d. db_store C (dbv d)" "\<lambda>d. db_ok C (dbv d)"
  "\<lambda>b. kv_writes C (btv b)" "\<lambda>b. kvs_ok C (btv b)"
  "bi_rest C ient ipos" "bi_ok C ient ipos" "ti_rest C ient ipos" "ti_ok C ient ipos"
proof (unfold_locales, goal_cases)
  case (7 s)
  have "kvs_ok C []" unfolding kvs_ok_def by (rule exI [of _ "[]"]) simp
  then show ?case by (simp add: pebble_storage_def Pebble_WriteBatch_def new_batch kv_writes_def)
next
  case (17 it)
  from block_iter_next [OF this] show ?case
    by (fastforce simp: pebble_storage_def pebbleBaseBlockIter_Error_def no_error)
next
  case (20 ti)
  from tx_iter_next [OF this] show ?case
    by (fastforce simp: pebble_storage_def ti_ok_error)
qed (simp_all add: pebble_storage_def P_reads P_hash P_places P_set_latest P_set_block P_set_tx P_commit
    P_set_err P_set_nil P_block_iter P_tx_iter)

section \<open>A database and a codec that meet the assumptions\<close>

text \<open>
  A database kept as a list of entries, the newest first; a batch is the list of its writes and an
  iterator the entries of its range with a position.
\<close>

type_synonym kvs = "(bytes \<times> bytes) list"

definition ref_entries :: "kvs \<Rightarrow> bytes \<Rightarrow> bytes \<Rightarrow> kvs" where
  "ref_entries d lo hi =
     map (\<lambda>k. (k, the (map_of d k))) (sort (filter (\<lambda>k. lo \<le> k \<and> k < hi) (remdups (map fst d))))"

fun ref_next :: "kvs \<times> cursor \<Rightarrow> bool \<times> kvs \<times> cursor" where
  "ref_next (es, At n) =
     (if Suc n < length es then (True, es, At (Suc n)) else (False, es, AtEnd))"
| "ref_next (es, c) = (False, es, c)"

fun ref_prev :: "kvs \<times> cursor \<Rightarrow> bool \<times> kvs \<times> cursor" where
  "ref_prev (es, At n) = (if 0 < n then (True, es, At (n - 1)) else (False, es, AtStart))"
| "ref_prev (es, c) = (False, es, c)"

fun ref_at :: "kvs \<times> cursor \<Rightarrow> bytes \<times> bytes" where
  "ref_at (es, At n) = es ! n"
| "ref_at (es, c) = ([], [])"

definition ref_pebble :: "(kvs, kvs, kvs \<times> cursor) pebble" where
  "ref_pebble = \<lparr>
     pGet = (\<lambda>d k. case map_of d k of None \<Rightarrow> Inl PebbleErrNotFound | Some v \<Rightarrow> Inr v),
     pNewBatch = (\<lambda>d. []),
     pSet = (\<lambda>b k v. (None, b @ [(k, v)])),
     pCommit = (\<lambda>b d. (None, rev b @ d)),
     pBatchClose = (\<lambda>b. None),
     pNewIter = (\<lambda>d lo hi. Inr (ref_entries d lo hi, Fresh)),
     pFirst = (\<lambda>(es, c). (es \<noteq> [], es, if es = [] then AtEnd else At 0)),
     pLast = (\<lambda>(es, c). (es \<noteq> [], es, if es = [] then AtStart else At (length es - 1))),
     pNext = ref_next,
     pPrev = ref_prev,
     pValid = (\<lambda>(es, c). case c of At n \<Rightarrow> True | _ \<Rightarrow> False),
     pKey = (\<lambda>i. fst (ref_at i)),
     pValue = (\<lambda>i. snd (ref_at i)),
     pIterError = (\<lambda>i. None)\<rparr>"

text \<open>
  A codec for the fields the examples use (it refuses what it cannot read back), with a
  one-to-one function in the place of the hash.
\<close>

definition ref_split :: "bytes \<Rightarrow> bytes \<times> bytes" where
  "ref_split e = (case e of [] \<Rightarrow> ([], []) | n # r \<Rightarrow> (take (unat n) r, drop (unat n) r))"

fun ref_chunks :: "nat \<Rightarrow> bytes \<Rightarrow> bytes list" where
  "ref_chunks 0 e = []"
| "ref_chunks (Suc k) e = (let (x, r) = ref_split e in x # ref_chunks k r)"

definition ref_encBlock :: "block \<Rightarrow> bytes" where
  "ref_encBlock b = encodeUint64Ascending [] (bHeight b) @
     encodeUint64Ascending [] (of_int (hTime (bHeader b))) @ of_nat (length (bTxs b)) #
     concat (map (\<lambda>t. of_nat (length t) # t) (bTxs b))"

definition ref_decBlock :: "bytes \<Rightarrow> block" where
  "ref_decBlock e = mk_block (bigEndianUint64 (take 8 e)) (sint (bigEndianUint64 (take 8 (drop 8 e))))
     (ref_chunks (unat (hd (drop 16 e))) (drop 17 e))"

definition ref_encTx :: "tx_result \<Rightarrow> bytes" where
  "ref_encTx t = encodeUint64Ascending [] (trHeight t) @ encodeUint32Ascending [] (trIndex t) @ trTx t"

definition ref_decTx :: "bytes \<Rightarrow> tx_result" where
  "ref_decTx e = mk_result (bigEndianUint64 (take 8 e)) (snd (projr (decodeUint32Ascending (drop 8 e)))) (drop 12 e)"

definition ref_codec :: codec where
  "ref_codec = \<lparr>
     marshalBlock = (\<lambda>b. let e = ref_encBlock b in
        if ref_decBlock e = b then Inr e else Inl (ErrMsg ''unsupported block'')),
     unmarshalBlock = (\<lambda>e. Inr (ref_decBlock e)),
     marshalTxResult = (\<lambda>tp. case tp of None \<Rightarrow> Inl (ErrMsg ''nil pointer'')
        | Some t \<Rightarrow> let e = ref_encTx t in
            if ref_decTx e = t then Inr e else Inl (ErrMsg ''unsupported result'')),
     unmarshalTxResult = (\<lambda>e. Inr (ref_decTx e)),
     marshalHeader = (\<lambda>h. Inr (encodeUint64Ascending [] (hHeight h))),
     marshalStdTx = (\<lambda>t. Inr (str_bytes (sMemo t))),
     unmarshalStdTx = (\<lambda>e. Inr \<lparr>sMsgs = [], sFee = \<lparr>fGasWanted = 0, fGasFee = \<lparr>cDenom = '''', cAmount = 0\<rparr>\<rparr>,
        sMemo = bytes_str e\<rparr>),
     txHash = (\<lambda>tx. tx),
     blockHash = (\<lambda>b. encodeUint64Ascending [] (bHeight b))\<rparr>"

interpretation ref_codec: amino_codec ref_codec
  by unfold_locales (simp_all add: ref_codec_def Let_def split: if_splits)

lemma ref_entries_props:
  "sorted_wrt (<) (map fst (ref_entries d lo hi))"
  "set (ref_entries d lo hi) = {(k, v). map_of d k = Some v \<and> lo \<le> k \<and> k < hi}"
proof -
  have "sorted_wrt (<) (sort (filter (\<lambda>k. lo \<le> k \<and> k < hi) (remdups (map fst d))))"
    by (simp add: strict_sorted_iff)
  then show "sorted_wrt (<) (map fst (ref_entries d lo hi))" by (simp add: ref_entries_def comp_def)
  have "k \<in> fst ` set d \<longleftrightarrow> map_of d k \<noteq> None" for k
    using map_of_eq_None_iff [of d k] by argo
  then show "set (ref_entries d lo hi) = {(k, v). map_of d k = Some v \<and> lo \<le> k \<and> k < hi}"
    unfolding ref_entries_def by auto
qed

interpretation ref_db: pebble_db ref_pebble map_of "\<lambda>b. b" fst snd
proof (unfold_locales, goal_cases)
  case (4 b d)
  have "foldl (\<lambda>m (k, v). m(k \<mapsto> v)) (map_of d) b = map_of (rev b @ d)"
  proof (induction b arbitrary: d)
    case (Cons kv b)
    from Cons [of "kv # d"] show ?case by (cases kv) simp
  qed simp
  then show ?case by (simp add: ref_pebble_def)
qed (auto simp: ref_pebble_def ref_entries_props split: cursor.splits)

interpretation ref_store: pebble_store ref_pebble map_of "\<lambda>b. b" fst snd ref_codec
  by unfold_locales

section \<open>The properties of the store\<close>

lemma db_store_empty [simp]: "db_store C Map.empty = empty_store" "db_ok C Map.empty"
  by (simp_all add: db_store_def empty_store_def db_ok_def)

lemma marshal_cases:
  "write_ok C (WBlock b) \<longleftrightarrow> (\<exists>e. marshalBlock C b = Inr e)"
  "write_ok C (WTx t) \<longleftrightarrow> (\<exists>e. marshalTxResult C (Some t) = Inr e)"
  by (auto dest: not_islD)

context pebble_store
begin

lemma batch_exists:
  "\<forall>w \<in> set ws. write_ok C w \<Longrightarrow> \<exists>w. batch_built (pebble_storage P C) s w ws"
proof (induction ws rule: rev_induct)
  case Nil
  show ?case by (rule exI, rule bb_new)
next
  case (snoc x ws)
  then obtain w where w: "batch_built (pebble_storage P C) s w ws" by auto
  note inv = batch_built_inv [OF w, THEN conjunct1]
  show ?case
  proof (cases x)
    case (WLatest h)
    with set_latest [OF inv, of h] bb_latest [OF w] show ?thesis by fastforce
  next
    case (WBlock b)
    with snoc.prems obtain e where "marshalBlock C b = Inr e" using marshal_cases(1) by fastforce
    with set_block_ok [OF inv] bb_block [OF w] WBlock show ?thesis by fastforce
  next
    case (WTx t)
    with snoc.prems obtain e where "marshalTxResult C (Some t) = Inr e" using marshal_cases(2) by fastforce
    with set_tx_ok [OF inv] bb_tx [OF w] WTx show ?thesis by fastforce
  qed
qed

lemma history_exists:
  assumes "\<forall>w \<in> set ws. write_ok C w" "db_ok C (dbv d0)"
  shows "\<exists>d. store_history (pebble_storage P C) d0 d ws"
proof -
  from batch_exists [OF assms(1)] obtain w where w: "batch_built (pebble_storage P C) d0 w ws" by blast
  with commit [OF assms(2)] batch_built_inv obtain d where
    "wb_Commit (pebble_storage P C) w d0 = (None, d)" by blast
  with sh_commit [OF sh_start w] show ?thesis by auto
qed

lemma history_store:
  assumes "dbv d0 = Map.empty" "store_history (pebble_storage P C) d0 d ws"
  shows "db_ok C (dbv d) \<and> db_store C (dbv d) = apply_writes C empty_store ws"
  using store_history_inv [OF assms(2)] assms(1) by simp

lemma history_walk_blocks:
  assumes "dbv d0 = Map.empty" "store_history (pebble_storage P C) d0 d ws"
  shows "\<exists>it rit bs. Pebble_BlockIterator P d lo hi = Inr it \<and>
    drain_blocks (pebble_storage P C) it = Some (Inr bs) \<and>
    Pebble_BlockReverseIterator P d lo hi = Inr rit \<and>
    drain_blocks (pebble_storage P C) rit = Some (Inr (rev bs)) \<and>
    sorted_wrt (\<lambda>a b. bHeight a < bHeight b) bs \<and>
    set bs = {b. stBlock (apply_writes C empty_store ws) (bHeight b) = Some b \<and> lo \<le> bHeight b \<and>
                 bHeight b < upTo64 hi}"
proof -
  note st = history_store [OF assms]
  note heights = P_places(1) [OF st [THEN conjunct1]]
  from drain_iterators(1,2) [OF st [THEN conjunct1], of lo hi] obtain it rit where
    "Pebble_BlockIterator P d lo hi = Inr it" "Pebble_BlockReverseIterator P d lo hi = Inr rit"
    "drain_blocks (pebble_storage P C) it = Some (Inr (block_range (db_store C (dbv d)) lo hi))"
    "drain_blocks (pebble_storage P C) rit = Some (Inr (rev (block_range (db_store C (dbv d)) lo hi)))"
    by (auto simp: pebble_storage_def)
  with block_range_sorted [of "db_store C (dbv d)", OF heights]
    block_range_set [of "db_store C (dbv d)", OF heights] st show ?thesis by fastforce
qed

lemma history_walk_txs:
  assumes "dbv d0 = Map.empty" "store_history (pebble_storage P C) d0 d ws"
  shows "\<exists>it rit ts. Pebble_TxIterator P d lo hi i j = Inr it \<and>
    drain_txs (pebble_storage P C) it = Some (Inr ts) \<and>
    Pebble_TxReverseIterator P d lo hi i j = Inr rit \<and>
    drain_txs (pebble_storage P C) rit = Some (Inr (rev ts)) \<and>
    sorted_wrt (\<lambda>a b. tx_pos a < tx_pos b) ts \<and>
    set ts = {t. stTx (apply_writes C empty_store ws) (tx_pos t) = Some t \<and>
      TxPos lo i \<le> tx_pos t \<and> tx_pos t < TxPos (upTo64 hi) (upTo32 j) \<and>
      i \<le> trIndex t \<and> trIndex t < upTo32 j}"
proof -
  note st = history_store [OF assms]
  note places = P_places(2) [OF st [THEN conjunct1]]
  from drain_iterators(3,4) [OF st [THEN conjunct1], of lo hi i j] obtain it rit where
    "Pebble_TxIterator P d lo hi i j = Inr it" "Pebble_TxReverseIterator P d lo hi i j = Inr rit"
    "drain_txs (pebble_storage P C) it = Some (Inr (tx_range (db_store C (dbv d)) lo hi i j))"
    "drain_txs (pebble_storage P C) rit = Some (Inr (rev (tx_range (db_store C (dbv d)) lo hi i j)))"
    by (auto simp: pebble_storage_def)
  with tx_range_sorted [of "db_store C (dbv d)" lo hi i j, OF places]
    tx_range_set [of "db_store C (dbv d)" _ lo hi i j, OF places] st show ?thesis
    by (intro exI [of _ it] exI [of _ rit] exI [of _ "tx_range (db_store C (dbv d)) lo hi i j"])
       (auto simp del: less_TxPos le_TxPos)
qed

lemma history_set_tx:
  assumes "dbv d0 = Map.empty" "store_history (pebble_storage P C) d0 d ws"
    and built: "batch_built (pebble_storage P C) d b vs"
    and set: "PebbleBatch_SetTx P C b (Some t) = Ret (err, b')"
  shows "(err \<noteq> None \<longrightarrow> b' = b) \<and>
    (\<exists>d'. PebbleBatch_Commit P b' d = (None, d') \<and>
       (err = None \<longrightarrow>
          Pebble_GetTx P C d' (trHeight t) (trIndex t) = Inr t \<and>
          Pebble_GetTxByHash P C d' (base64 (txHash C (trTx t))) = Inr t))"
proof -
  let ?vs = "vs @ (if err = None then [WTx t] else [])"
  have "batch_built (pebble_storage P C) d b' ?vs"
    using bb_tx [OF built, of t err b'] set by (simp add: pebble_storage_def)
  note b' = batch_built_inv [OF this]
  from P_commit [of d b'] history_store [OF assms(1,2)] b' obtain d' where
    d': "PebbleBatch_Commit P b' d = (None, d')" "db_ok C (dbv d')"
      "db_store C (dbv d') = apply_writes C (db_store C (dbv d)) ?vs" by metis
  have "err = None \<longrightarrow> Pebble_GetTx P C d' (trHeight t) (trIndex t) = Inr t \<and>
          Pebble_GetTxByHash P C d' (base64 (txHash C (trTx t))) = Inr t"
    by (simp add: P_reads(3) [OF d'(2)] P_hash [OF d'(2)] d'(3) tx_pos_def tx_key_def)
  moreover have "err \<noteq> None \<longrightarrow> b' = b"
    using set P_set_tx [of b t] P_set_err(2) [of "Some t" _ b] batch_built_inv [OF built]
    by (cases "marshalTxResult C (Some t)") fastforce+
  ultimately show ?thesis using d'(1) by blast
qed

end

lemma strict_list_unique:
  assumes "sorted_wrt R xs" "sorted_wrt R ys" "set xs = set ys" "\<And>a b. R a b \<Longrightarrow> f a < (f b :: 'b::linorder)"
  shows "xs = ys"
proof -
  have "sorted_wrt (<) (map f xs)" "sorted_wrt (<) (map f ys)"
    using assms(1,2,4) by (auto simp: sorted_wrt_map elim!: sorted_wrt_mono_rel [rotated])
  with assms(3) have "map f xs = map f ys" by (intro strict_sorted_equal) auto
  moreover have "inj_on f (set xs \<union> set ys)"
    using \<open>sorted_wrt (<) (map f xs)\<close> assms(3) by (auto simp: strict_sorted_iff distinct_map)
  ultimately show ?thesis by (simp add: inj_on_map_eq_map)
qed

text \<open>
  C6. The Pebble store implements the abstract store: whatever batches were filled (with calls that
  succeed or fail, in any order) and committed on an empty database, every read returns what the
  successful writes, applied in order, left there, and the storage's own \<open>ErrNotFound\<close> for anything
  never written. The hypothesis states the documented behaviour of Pebble and Amino.
\<close>

theorem Pebble_reads_history:
  assumes "pebble_store P dbv btv ient ipos C" and "dbv d0 = Map.empty"
    and "store_history (pebble_storage P C) d0 d ws"
  shows "let st = apply_writes C empty_store ws in
    Pebble_GetLatestHeight P d = (case stLatest st of None \<Rightarrow> Inl ErrNotFound | Some h \<Rightarrow> Inr h) \<and>
    Pebble_GetBlock P C d n = (case stBlock st n of None \<Rightarrow> Inl ErrNotFound | Some b \<Rightarrow> Inr b) \<and>
    Pebble_GetTx P C d n i = (case stTx st (TxPos n i) of None \<Rightarrow> Inl ErrNotFound | Some t \<Rightarrow> Inr t) \<and>
    Pebble_GetTxByHash P C d k =
      (case Option.bind (stHash st k) (stTx st) of None \<Rightarrow> Inl ErrNotFound | Some t \<Rightarrow> Inr t)"
  using pebble_store.history_store [OF assms] pebble_store.P_reads [OF assms(1), of d]
    pebble_store.P_hash [OF assms(1), of d] by (simp add: Let_def)

definition ex_block :: "u64 \<Rightarrow> block" where
  "ex_block h = mk_block h (100 * uint h) [[7], [ucast h, 9]]"

definition ex_writes :: "store_write list" where
  "ex_writes = [WBlock (ex_block 1), WTx (mk_result 1 0 [7]), WTx (mk_result 1 1 [1, 9]), WLatest 1,
     WBlock (ex_block 2), WTx (mk_result 2 0 [8]), WTx (mk_result 2 1 [2, 9]), WLatest 2]"

lemma ex_writes_ok: "\<forall>w \<in> set ex_writes. write_ok ref_codec w"
  unfolding ex_writes_def by code_simp

theorem Pebble_reads_history_witness:
  "\<exists>d. store_history (pebble_storage ref_pebble ref_codec) [] d ex_writes \<and>
     Pebble_GetLatestHeight ref_pebble d = Inr 2 \<and>
     Pebble_GetBlock ref_pebble ref_codec d 1 = Inr (ex_block 1) \<and>
     Pebble_GetTx ref_pebble ref_codec d 3 0 = Inl ErrNotFound \<and>
     Pebble_GetTxByHash ref_pebble ref_codec d ''Agk='' = Inr (mk_result 2 1 [2, 9])"
proof -
  from ref_store.history_exists [OF ex_writes_ok, of "[]"] obtain d where
    h: "store_history (pebble_storage ref_pebble ref_codec) [] d ex_writes" by auto
  have st: "stLatest (apply_writes ref_codec empty_store ex_writes) = Some 2"
    "stBlock (apply_writes ref_codec empty_store ex_writes) 1 = Some (ex_block 1)"
    "stTx (apply_writes ref_codec empty_store ex_writes) (TxPos 3 0) = None"
    "Option.bind (stHash (apply_writes ref_codec empty_store ex_writes) ''Agk='')
       (stTx (apply_writes ref_codec empty_store ex_writes)) = Some (mk_result 2 1 [2, 9])"
    by (simp_all add: ex_writes_def ex_block_def mk_block_def mk_result_def empty_store_def tx_pos_def
        tx_key_def ref_codec_def b64_digit_def b64_alphabet_def)
  note r = Pebble_reads_history [OF ref_store.pebble_store_axioms _ h]
  show ?thesis using h r [where n = 1] r [where n = 3 and i = 0] r [where k = "''Agk=''"] st by (auto simp: Let_def)
qed

text \<open>
  C24. Iterating over blocks is exact and ends: the walk of \<open>BlockIterator(from, to)\<close> on a store with
  any history returns, without an error, exactly the stored blocks with a number between \<open>from\<close> and
  \<open>to\<close> (both included; 0 for no upper bound), in strictly ascending order; the reverse iterator
  returns the same list backwards.
\<close>

theorem Pebble_BlockIterator_walk:
  assumes "pebble_store P dbv btv ient ipos C" and "dbv d0 = Map.empty"
    and "store_history (pebble_storage P C) d0 d ws"
  shows "\<exists>it rit bs. Pebble_BlockIterator P d from to = Inr it \<and>
    drain_blocks (pebble_storage P C) it = Some (Inr bs) \<and>
    Pebble_BlockReverseIterator P d from to = Inr rit \<and>
    drain_blocks (pebble_storage P C) rit = Some (Inr (rev bs)) \<and>
    sorted_wrt (\<lambda>a b. bHeight a < bHeight b) bs \<and>
    set bs = {b. stBlock (apply_writes C empty_store ws) (bHeight b) = Some b \<and> from \<le> bHeight b \<and>
                 bHeight b < (if to = 0 then maxInt64 else to + 1)}"
  using pebble_store.history_walk_blocks [OF assms] unfolding upTo64_def .

theorem Pebble_BlockIterator_walk_witness:
  "\<exists>d it. store_history (pebble_storage ref_pebble ref_codec) [] d ex_writes \<and>
     Pebble_BlockIterator ref_pebble d 1 0 = Inr it \<and>
     drain_blocks (pebble_storage ref_pebble ref_codec) it = Some (Inr [ex_block 1, ex_block 2])"
proof -
  from ref_store.history_exists [OF ex_writes_ok, of "[]"] obtain d where
    h: "store_history (pebble_storage ref_pebble ref_codec) [] d ex_writes" by auto
  from Pebble_BlockIterator_walk [OF ref_store.pebble_store_axioms _ h, of 1 0] obtain it bs where
    it: "Pebble_BlockIterator ref_pebble d 1 0 = Inr it"
      "drain_blocks (pebble_storage ref_pebble ref_codec) it = Some (Inr bs)"
      "sorted_wrt (\<lambda>a b. bHeight a < bHeight b) bs"
      "set bs = {b. stBlock (apply_writes ref_codec empty_store ex_writes) (bHeight b) = Some b \<and>
         1 \<le> bHeight b \<and> bHeight b < maxInt64}" by auto
  have "set bs = {ex_block 1, ex_block 2}" unfolding it(4)
    by (auto simp: ex_writes_def ex_block_def mk_block_def empty_store_def split: if_splits)
  moreover have "sorted_wrt (\<lambda>a b. bHeight a < bHeight b) [ex_block 1, ex_block 2]"
    by (simp add: ex_block_def mk_block_def)
  ultimately have "bs = [ex_block 1, ex_block 2]" using it(3)
    by (intro strict_list_unique [where f = "\<lambda>b. bHeight b"]) auto
  with h it show ?thesis by blast
qed


text \<open>
  C25. Iterating over transactions ends, without an error, and returns in strictly ascending order of
  block and index exactly the stored transactions whose index lies between the two index bounds
  (both included; 0 for no upper bound) and whose block lies between \<open>from\<close> and \<open>to + 1\<close>: the upper
  key of the scan is the key of block \<open>to + 1\<close> with an index behind the bound, so the matching
  transactions of the block after \<open>to\<close> are part of the result. The reverse iterator returns the same
  list backwards.
\<close>

theorem Pebble_TxIterator_walk:
  assumes "pebble_store P dbv btv ient ipos C" and "dbv d0 = Map.empty"
    and "store_history (pebble_storage P C) d0 d ws"
  shows "\<exists>it rit ts. Pebble_TxIterator P d from to i j = Inr it \<and>
    drain_txs (pebble_storage P C) it = Some (Inr ts) \<and>
    Pebble_TxReverseIterator P d from to i j = Inr rit \<and>
    drain_txs (pebble_storage P C) rit = Some (Inr (rev ts)) \<and>
    sorted_wrt (\<lambda>a b. tx_pos a < tx_pos b) ts \<and>
    set ts = {t. stTx (apply_writes C empty_store ws) (tx_pos t) = Some t \<and>
      from \<le> trHeight t \<and> trHeight t \<le> (if to = 0 then maxInt64 else to + 1) \<and>
      i \<le> trIndex t \<and> trIndex t < (if j = 0 then maxUint32 else j + 1)}"
proof -
  have range: "TxPos from i \<le> tx_pos t \<and> tx_pos t < TxPos (upTo64 to) (upTo32 j) \<and> i \<le> trIndex t \<and>
      trIndex t < upTo32 j \<longleftrightarrow>
      from \<le> trHeight t \<and> trHeight t \<le> upTo64 to \<and> i \<le> trIndex t \<and> trIndex t < upTo32 j" for t
    by (auto simp: tx_pos_def)
  from pebble_store.history_walk_txs [OF assms, of "from" to i j] show ?thesis
    unfolding range unfolding upTo64_def upTo32_def .
qed

theorem Pebble_TxIterator_walk_witness:
  "\<exists>d it. store_history (pebble_storage ref_pebble ref_codec) [] d ex_writes \<and>
     Pebble_TxIterator ref_pebble d 1 1 1 1 = Inr it \<and>
     drain_txs (pebble_storage ref_pebble ref_codec) it =
       Some (Inr [mk_result 1 1 [1, 9], mk_result 2 1 [2, 9]])"
proof -
  from ref_store.history_exists [OF ex_writes_ok, of "[]"] obtain d where
    h: "store_history (pebble_storage ref_pebble ref_codec) [] d ex_writes" by auto
  from Pebble_TxIterator_walk [OF ref_store.pebble_store_axioms _ h, of 1 1 1 1] obtain it ts where
    it: "Pebble_TxIterator ref_pebble d 1 1 1 1 = Inr it"
      "drain_txs (pebble_storage ref_pebble ref_codec) it = Some (Inr ts)"
      "sorted_wrt (\<lambda>a b. tx_pos a < tx_pos b) ts"
      "set ts = {t. stTx (apply_writes ref_codec empty_store ex_writes) (tx_pos t) = Some t \<and>
         1 \<le> trHeight t \<and> trHeight t \<le> 2 \<and> 1 \<le> trIndex t \<and> trIndex t < 2}" by auto
  have "set ts = {mk_result 1 1 [1, 9], mk_result 2 1 [2, 9]}" unfolding it(4)
    by (auto simp: ex_writes_def mk_result_def tx_pos_def empty_store_def split: if_splits)
  moreover have "sorted_wrt (\<lambda>a b. tx_pos a < tx_pos b) [mk_result 1 1 [1, 9], mk_result 2 1 [2, 9]]"
    by (simp add: mk_result_def tx_pos_def)
  ultimately have "ts = [mk_result 1 1 [1, 9], mk_result 2 1 [2, 9]]" using it(3)
    by (intro strict_list_unique [where f = tx_pos]) auto
  with h it show ?thesis by blast
qed

text \<open>
  A transaction result added to a batch is found after the commit, under its block and index and
  under its hash, and reading under the hash needs no second write by the client; when the result
  cannot be encoded, \<open>SetTx\<close> reports the error and the batch is as before.
\<close>

theorem Pebble_SetTx_found:
  assumes "pebble_store P dbv btv ient ipos C" and "dbv d0 = Map.empty"
    and "store_history (pebble_storage P C) d0 d ws" and "batch_built (pebble_storage P C) d b vs"
    and "PebbleBatch_SetTx P C b (Some t) = Ret (err, b')"
  shows "(err \<noteq> None \<longrightarrow> b' = b) \<and>
    (\<exists>d'. PebbleBatch_Commit P b' d = (None, d') \<and>
       (err = None \<longrightarrow>
          Pebble_GetTx P C d' (trHeight t) (trIndex t) = Inr t \<and>
          Pebble_GetTxByHash P C d' (base64 (txHash C (trTx t))) = Inr t))"
  by (rule pebble_store.history_set_tx [OF assms])

theorem Pebble_SetTx_found_witness:
  "\<exists>b d. PebbleBatch_SetTx ref_pebble ref_codec [] (Some (mk_result 1 0 [7])) = Ret (None, b) \<and>
     PebbleBatch_Commit ref_pebble b [] = (None, d) \<and>
     Pebble_GetTx ref_pebble ref_codec d 1 0 = Inr (mk_result 1 0 [7]) \<and>
     Pebble_GetTxByHash ref_pebble ref_codec d (base64 [7]) = Inr (mk_result 1 0 [7])"
proof -
  let ?S = "pebble_storage ref_pebble ref_codec"
  have "write_ok ref_codec (WTx (mk_result 1 0 [7]))" by code_simp
  then obtain e where e: "marshalTxResult ref_codec (Some (mk_result 1 0 [7])) = Inr e"
    using marshal_cases(2) by blast
  have new: "batch_built ?S [] [] []"
    using bb_new [of ?S "[]"] by (simp add: pebble_storage_def Pebble_WriteBatch_def ref_pebble_def)
  from ref_store.P_set_tx [OF _ e, of "[]"] ref_store.batch_built_inv [OF new] obtain b where
    b: "PebbleBatch_SetTx ref_pebble ref_codec [] (Some (mk_result 1 0 [7])) = Ret (None, b)" by blast
  from Pebble_SetTx_found [OF ref_store.pebble_store_axioms _ sh_start new b] b show ?thesis
    by (auto simp: mk_result_def ref_codec_def)
qed

end
