(* ===== verification/Fetch_Correct.thy ===== *)
theory Fetch_Correct
  imports Fetch_Fetcher Storage_Contract
begin

text \<open>
  Why the fetcher indexes the chain in order: the invariant of the loop of \<open>FetchChainData\<close> over all
  interleavings of ticks, workers and responses, and what follows from it. The proofs use only the
  contract of the storage and of the queue (the locale \<open>fetching\<close>); an interpretation on the
  Pebble store closes them.
\<close>

section \<open>The invariant of the loop\<close>

text \<open>The ranges of the slots that wait for their chunk.\<close>

definition pending :: "slot list \<Rightarrow> chunkRange multiset" where
  "pending q = image_mset slRange (filter_mset (\<lambda>s. slChunk s = None) (mset q))"

lemma pending_simps [simp]:
  "pending [] = {#}"
  "pending (xs @ ys) = pending xs + pending ys"
  "pending (map (\<lambda>r. \<lparr>slChunk = None, slRange = r\<rparr>) rs) = mset rs"
  by (simp_all add: pending_def filter_mset_image_mset image_mset.compositionality comp_def)

lemma pending_full: "\<forall>s \<in> set xs. slChunk s \<noteq> None \<Longrightarrow> pending xs = {#}"
  by (simp add: pending_def filter_mset_eq_mempty_iff)

lemma pending_update:
  assumes "k < length q" "slChunk (q ! k) = None" "c \<noteq> None"
  shows "pending (q[k := (q ! k)\<lparr>slChunk := c\<rparr>]) = pending q - {#slRange (q ! k)#}"
proof -
  have split: "pending (take k q @ x # drop (Suc k) q) =
      pending [x] + (pending (take k q) + pending (drop (Suc k) q))" for x
    using pending_simps(2) [of "take k q" "[x] @ drop (Suc k) q"] pending_simps(2) [of "[x]" "drop (Suc k) q"]
    by simp
  have "pending q = pending [q ! k] + (pending (take k q) + pending (drop (Suc k) q))"
    unfolding split [symmetric] by (rule arg_cong [OF id_take_nth_drop [OF assms(1)]])
  moreover have "pending (q[k := (q ! k)\<lparr>slChunk := c\<rparr>]) =
      pending [(q ! k)\<lparr>slChunk := c\<rparr>] + (pending (take k q) + pending (drop (Suc k) q))"
    unfolding split [symmetric] by (rule arg_cong [OF upd_conv_take_nth_drop [OF assms(1)]])
  moreover have "pending [q ! k] = {#slRange (q ! k)#}" "pending [(q ! k)\<lparr>slChunk := c\<rparr>] = {#}"
    using assms(2,3) by (simp_all add: pending_def)
  ultimately show ?thesis by simp
qed

text \<open>The heights a node reports leave room for one more chunk below the largest 64-bit number.\<close>

definition heights_fit :: "('c, 'b) client \<Rightarrow> nat \<Rightarrow> bool" where
  "heights_fit Cl sz \<longleftrightarrow> (\<forall>ctx c h c'. c_GetLatestBlockNumber Cl ctx c = (Inr h, c') \<longrightarrow> unat h + sz < 2 ^ 64)"

definition fetcher_ok :: "('st \<Rightarrow> store) \<Rightarrow> ('st \<Rightarrow> bool) \<Rightarrow> ('st, 'c) fetcher \<Rightarrow> bool" where
  "fetcher_ok sabs sinv f \<longleftrightarrow> lined_up sabs sinv f \<and> sMaxSlots (fBuffer f) = fMaxSlots f \<and>
     int (length (sQueue (fBuffer f))) \<le> fMaxSlots f \<and> 0 < unat (fMaxChunkSize f) \<and>
     (\<forall>s \<in> set (sQueue (fBuffer f)). unat (crTo (slRange s)) + unat (fMaxChunkSize f) < 2 ^ 64)"

text \<open>
  Besides: the first slot waits for its chunk; no worker under way and no response in the channel but for a waiting slot, and while
  the context is not done, one for each.
\<close>

definition fetch_inv :: "('st \<Rightarrow> store) \<Rightarrow> ('st \<Rightarrow> bool) \<Rightarrow> nat \<Rightarrow> ('st, 'c) fetch_run \<Rightarrow> bool" where
  "fetch_inv sabs sinv sz r \<longleftrightarrow> fetcher_ok sabs sinv (frFetcher r) \<and>
     unat (fMaxChunkSize (frFetcher r)) = sz \<and>
     (sQueue (fBuffer (frFetcher r)) \<noteq> [] \<longrightarrow> slChunk (hd (sQueue (fBuffer (frFetcher r)))) = None) \<and>
     frWorkers r + mset (map wrRange (frChannel r)) \<subseteq># pending (sQueue (fBuffer (frFetcher r))) \<and>
     (\<not> frDone r \<longrightarrow> pending (sQueue (fBuffer (frFetcher r))) = frWorkers r + mset (map wrRange (frChannel r))) \<and>
     (\<forall>resp \<in> set (frChannel r). wrChunk resp \<noteq> None)"

lemma waiting:
  assumes "fetch_inv sabs sinv sz r"
  shows "frChannel r = resp # rest \<Longrightarrow> wrRange resp \<in># pending (sQueue (fBuffer (frFetcher r)))"
    and "cr \<in># frWorkers r \<Longrightarrow> cr \<in># pending (sQueue (fBuffer (frFetcher r)))"
proof -
  have "frWorkers r + mset (map wrRange (frChannel r)) \<subseteq># pending (sQueue (fBuffer (frFetcher r)))"
    using assms by (simp add: fetch_inv_def)
  note sub = mset_subset_eqD [OF this]
  show "frChannel r = resp # rest \<Longrightarrow> wrRange resp \<in># pending (sQueue (fBuffer (frFetcher r)))"
    by (rule sub) simp
  show "cr \<in># frWorkers r \<Longrightarrow> cr \<in># pending (sQueue (fBuffer (frFetcher r)))" by (rule sub) simp
qed

context fetching
begin

lemma attempt_inv:
  assumes ok: "fetcher_ok sabs sinv f" and fit: "heights_fit Cl (unat (fMaxChunkSize f))"
  shows "\<exists>gaps f'. attemptRangeFetch S Cl ctx Q f = Some (Ret (None, gaps, f')) \<and> fetcher_ok sabs sinv f' \<and>
    fStorage f' = fStorage f \<and> fMaxChunkSize f' = fMaxChunkSize f \<and> fEvents f' = fEvents f \<and>
    sQueue (fBuffer f') = sQueue (fBuffer f) @ map (\<lambda>r. \<lparr>slChunk = None, slRange = r\<rparr>) gaps"
proof (cases "int (length (sQueue (fBuffer f))) = fMaxSlots f")
  case True
  with ok show ?thesis by (simp add: attemptRangeFetch_def len)
next
  case False
  let ?l = "latest_of (sabs (fStorage f))"
  from ok have inv: "sinv (fStorage f)" and lu: "contig (Suc (unat ?l)) (map slRange (sQueue (fBuffer f)))"
    and mx: "sMaxSlots (fBuffer f) = fMaxSlots f" "int (length (sQueue (fBuffer f))) \<le> fMaxSlots f"
    and sz: "0 < unat (fMaxChunkSize f)"
    and bd: "\<forall>s \<in> set (sQueue (fBuffer f)). unat (crTo (slRange s)) + unat (fMaxChunkSize f) < 18446744073709551616"
    by (auto simp: fetcher_ok_def lined_up_def)
  have loc: "(case s_GetLatestHeight S (fStorage f) of
      Inl err \<Rightarrow> if errIs err ErrNotFound then Inr 0 else Inl err | Inr h \<Rightarrow> Inr h) = Inr ?l"
    using latest [OF inv] by (simp add: latest_of_def split: option.splits)
  obtain rem c where rem: "c_GetLatestBlockNumber Cl ctx (fClient f) = (rem, c)" by force
  show ?thesis
  proof (cases "\<exists>h. rem = Inr h \<and> ?l < h")
    case no: False
    then have "attemptRangeFetch S Cl ctx Q f = Some (Ret (None, [], f\<lparr>fClient := c\<rparr>))"
      using False rem unfolding attemptRangeFetch_def loc by (auto simp: len not_less split: sum.splits)
    with ok show ?thesis by (simp add: fetcher_ok_def lined_up_def)
  next
    case True
    then obtain h where h: "rem = Inr h" "?l < h" by blast
    with fit rem have hb: "unat h + unat (fMaxChunkSize f) < 18446744073709551616"
      by (auto simp: heights_fit_def)
    have l1: "unat (?l + 1) = Suc (unat ?l)"
      using h(2) unat_bounds(3) [of h] by (intro unat_plus1) (simp add: word_less_nat_alt)
    from reserve_contig [of "?l + 1" "fBuffer f" h "fMaxChunkSize f"] lu l1 h(2) sz hb bd mx
    obtain rs where rs: "slots_reserveChunkRanges Q (fBuffer f) (?l + 1) h (fMaxChunkSize f) =
        Some (Ret (rs, (fBuffer f)\<lparr>sQueue := sQueue (fBuffer f) @ map (\<lambda>r. \<lparr>slChunk = None, slRange = r\<rparr>) rs\<rparr>))"
      "contig (Suc (unat ?l)) (map slRange (sQueue (fBuffer f)) @ rs)"
      "int (length (sQueue (fBuffer f)) + length rs) \<le> fMaxSlots f" "\<forall>r \<in> set rs. unat (crTo r) \<le> unat h"
      by (auto simp: word_less_nat_alt)
    let ?f = "f\<lparr>fClient := c, fBuffer := (fBuffer f)\<lparr>sQueue := sQueue (fBuffer f) @ map (\<lambda>r. \<lparr>slChunk = None, slRange = r\<rparr>) rs\<rparr>\<rparr>"
    have nle: "(h \<le> ?l) = False" using h(2) by (simp add: not_le)
    have "attemptRangeFetch S Cl ctx Q f = Some (Ret (None, rs, ?f))"
      using False rem h(1) rs(1) unfolding attemptRangeFetch_def loc by (simp add: len nle)
    moreover have "fetcher_ok sabs sinv ?f"
      using rs(2-4) inv mx sz bd hb by (auto simp: fetcher_ok_def lined_up_def comp_def)
    ultimately show ?thesis by simp
  qed
qed

lemma contig_index:
  assumes "contig lo (map slRange q)" "a < length q" "b < length q"
  shows "crFrom (slRange (q ! a)) \<le> crFrom (slRange (q ! b)) \<longleftrightarrow> a \<le> b"
proof -
  have "sorted_wrt (\<lambda>a b. crFrom a < crFrom b) (map slRange q)"
    using spaced_froms [OF contig_spaced [OF assms(1)]] .
  then have "crFrom (slRange (q ! i)) < crFrom (slRange (q ! j))" if "i < j" "j < length q" for i j
    using that by (simp add: sorted_wrt_iff_nth_less)
  from this [of a b] this [of b a] assms(2,3) show ?thesis by (cases a b rule: linorder_cases) auto
qed

text \<open>The search finds the slot of a response at its present place, and \<open>setChunk\<close> fills it.\<close>

lemma response_slot:
  assumes ok: "fetcher_ok sabs sinv f" and k: "k < length (sQueue (fBuffer f))"
    "slRange (sQueue (fBuffer f) ! k) = wrRange resp"
  shows "handleResponse S Q f resp = flushSlots S Q (f\<lparr>fBuffer := (fBuffer f)\<lparr>sQueue :=
      (sQueue (fBuffer f))[k := (sQueue (fBuffer f) ! k)\<lparr>slChunk := wrChunk resp\<rparr>]\<rparr>\<rparr>)"
proof -
  let ?q = "sQueue (fBuffer f)"
  let ?p = "\<lambda>i. case slots_getSlot Q (fBuffer f) (int i) of None \<Rightarrow> False
     | Some s \<Rightarrow> crFrom (slRange s) \<ge> crFrom (wrRange resp)"
  from ok have c: "contig (Suc (unat (latest_of (sabs (fStorage f))))) (map slRange ?q)"
    by (simp add: fetcher_ok_def lined_up_def)
  have get: "slots_getSlot Q (fBuffer f) (int i) = (if i < length ?q then Some (?q ! i) else None)" for i
    by (auto simp: slots_getSlot_def len index)
  have p: "?p i \<longleftrightarrow> k \<le> i" if "i < length ?q" for i
    using that k contig_index [OF c k(1) that] by (simp add: get)
  have "0 \<le> sortSearch ?p 0 (length ?q) \<and> sortSearch ?p 0 (length ?q) \<le> length ?q \<and>
      (\<forall>i < sortSearch ?p 0 (length ?q). \<not> ?p i) \<and>
      (sortSearch ?p 0 (length ?q) < length ?q \<longrightarrow> ?p (sortSearch ?p 0 (length ?q)))"
    by (rule sortSearch_spec [of "length ?q"]) (use p in auto)
  then have "sortSearch ?p 0 (length ?q) = k"
    using p k(1) by (metis le_neq_implies_less linorder_not_less order_less_le)
  then show ?thesis
    using k(1) by (simp add: handleResponse_def slots_setChunk_def get len)
qed

end

lemma fetcher_ok_wrote:
  assumes "fetcher_ok sabs sinv f" "lined_up sabs sinv f'" "wrote sabs C f done f'"
  shows "fetcher_ok sabs sinv f'"
  using assms unfolding fetcher_ok_def wrote_def by auto

lemma wroteD:
  assumes "wrote sabs C f ds f'"
  shows "sQueue (fBuffer f) = ds @ sQueue (fBuffer f')" "\<forall>s \<in> set ds. slChunk s \<noteq> None"
    "fMaxChunkSize f' = fMaxChunkSize f"
    "latest_of (sabs (fStorage f)) \<le> latest_of (sabs (fStorage f'))"
    "sabs (fStorage f') = apply_writes C (sabs (fStorage f)) (concat (map (slotWrites C) ds))"
    "fEvents f' = fEvents f @ concat (map (slotEvents C) ds)"
  using assms unfolding wrote_def by blast+

context fetching
begin

lemma receive_inv:
  assumes inv: "fetch_inv sabs sinv sz r" and ch: "frChannel r = resp # rest"
  shows "\<exists>x. handleResponse S Q (frFetcher r) resp = Some x \<and>
    (\<forall>err f'. x = Ret (err, f') \<longrightarrow> err = None \<and>
       fetch_inv sabs sinv sz (r\<lparr>frFetcher := f', frChannel := rest\<rparr>) \<and>
       latest_of (sabs (fStorage (frFetcher r))) \<le> latest_of (sabs (fStorage f')))"
proof -
  let ?f = "frFetcher r" and ?q = "sQueue (fBuffer (frFetcher r))"
  from inv ch have ok: "fetcher_ok sabs sinv ?f" and sz: "unat (fMaxChunkSize ?f) = sz"
    and pend: "frWorkers r + mset (map wrRange (resp # rest)) \<subseteq># pending ?q"
      "\<not> frDone r \<longrightarrow> pending ?q = frWorkers r + mset (map wrRange (resp # rest))"
    and ck: "wrChunk resp \<noteq> None" "\<forall>x \<in> set rest. wrChunk x \<noteq> None" by (auto simp: fetch_inv_def)
  from waiting(1) [OF inv ch] obtain k where k: "k < length ?q" "slRange (?q ! k) = wrRange resp" "slChunk (?q ! k) = None"
    by (auto simp: pending_def in_set_conv_nth)
  let ?q1 = "?q[k := (?q ! k)\<lparr>slChunk := wrChunk resp\<rparr>]"
  let ?f1 = "?f\<lparr>fBuffer := (fBuffer ?f)\<lparr>sQueue := ?q1\<rparr>\<rparr>"
  have ranges: "map slRange ?q1 = map slRange ?q" using k(1) by (simp add: map_update list_update_same_conv)
  then have "slRange ` set ?q1 = slRange ` set ?q" by (metis list.set_map)
  then have "\<forall>x \<in> slRange ` set ?q1. unat (crTo x) + unat (fMaxChunkSize ?f) < 2 ^ 64"
    using ok by (auto simp: fetcher_ok_def)
  with ok ranges have ok1: "fetcher_ok sabs sinv ?f1" by (simp add: fetcher_ok_def lined_up_def)
  have upd: "pending ?q1 = pending ?q - {#wrRange resp#}" using pending_update [OF k(1,3) ck(1)] k(2) by simp
  from pend have pend1: "frWorkers r + mset (map wrRange rest) \<subseteq># pending ?q1"
    "\<not> frDone r \<longrightarrow> pending ?q1 = frWorkers r + mset (map wrRange rest)"
    by (simp_all add: upd insert_subset_eq_iff)
  from ok1 have "lined_up sabs sinv ?f1" by (simp add: fetcher_ok_def)
  from flush_inv [OF this] obtain x where
    x: "flushSlots S Q ?f1 = Some x" "\<forall>err f'. x = Ret (err, f') \<longrightarrow> err = None \<and> lined_up sabs sinv f' \<and>
        (\<exists>done. wrote sabs C ?f1 done f') \<and>
        (sQueue (fBuffer f') \<noteq> [] \<longrightarrow> slChunk (hd (sQueue (fBuffer f'))) = None)" by blast
  have "fetch_inv sabs sinv sz (r\<lparr>frFetcher := f', frChannel := rest\<rparr>) \<and>
      latest_of (sabs (fStorage ?f)) \<le> latest_of (sabs (fStorage f'))" if "x = Ret (err, f')" for err f'
  proof -
    from x(2) that obtain ds where d: "lined_up sabs sinv f'" "wrote sabs C ?f1 ds f'"
      "sQueue (fBuffer f') \<noteq> [] \<longrightarrow> slChunk (hd (sQueue (fBuffer f'))) = None" by blast
    from wroteD [OF d(2)] have dq: "?q1 = ds @ sQueue (fBuffer f')" "\<forall>s \<in> set ds. slChunk s \<noteq> None"
      "fMaxChunkSize f' = fMaxChunkSize ?f"
      "latest_of (sabs (fStorage ?f)) \<le> latest_of (sabs (fStorage f'))" by simp_all
    from pend1 pending_full [OF dq(2)] have "frWorkers r + mset (map wrRange rest) \<subseteq># pending (sQueue (fBuffer f'))"
      "\<not> frDone r \<longrightarrow> pending (sQueue (fBuffer f')) = frWorkers r + mset (map wrRange rest)"
      unfolding dq(1) by simp_all
    with fetcher_ok_wrote [OF ok1 d(1,2)] d(3) dq(3,4) ck(2) sz show ?thesis by (simp add: fetch_inv_def)
  qed
  with x response_slot [OF ok k(1,2)] show ?thesis by auto
qed

lemma tick_inv:
  assumes "fetch_inv sabs sinv sz r" "heights_fit Cl sz"
  shows "\<exists>gaps f'. attemptRangeFetch S Cl ctx Q (frFetcher r) = Some (Ret (None, gaps, f')) \<and>
    fetch_inv sabs sinv sz (r\<lparr>frFetcher := f', frWorkers := frWorkers r + mset gaps\<rparr>) \<and>
    fStorage f' = fStorage (frFetcher r)"
proof -
  from assms have ok: "fetcher_ok sabs sinv (frFetcher r)"
    and fit: "heights_fit Cl (unat (fMaxChunkSize (frFetcher r)))" by (simp_all add: fetch_inv_def)
  from attempt_inv [OF ok fit] obtain gaps f' where
    f': "attemptRangeFetch S Cl ctx Q (frFetcher r) = Some (Ret (None, gaps, f'))" "fetcher_ok sabs sinv f'"
      "fStorage f' = fStorage (frFetcher r)" "fMaxChunkSize f' = fMaxChunkSize (frFetcher r)"
      "sQueue (fBuffer f') = sQueue (fBuffer (frFetcher r)) @ map (\<lambda>r. \<lparr>slChunk = None, slRange = r\<rparr>) gaps"
    by blast
  have "sQueue (fBuffer f') \<noteq> [] \<longrightarrow> slChunk (hd (sQueue (fBuffer f'))) = None"
    using assms(1) unfolding f'(5) fetch_inv_def by (cases "sQueue (fBuffer (frFetcher r))"; cases gaps) auto
  with f' assms(1) have "fetch_inv sabs sinv sz (r\<lparr>frFetcher := f', frWorkers := frWorkers r + mset gaps\<rparr>)"
    by (simp add: fetch_inv_def)
  with f'(1,3) show ?thesis by blast
qed

lemma step_inv:
  assumes "fetch_step S Cl Q r r'" "heights_fit Cl sz" "frPhase r = Running \<longrightarrow> fetch_inv sabs sinv sz r"
    "frPhase r' = Running"
  shows "fetch_inv sabs sinv sz r' \<and>
    latest_of (sabs (fStorage (frFetcher r))) \<le> latest_of (sabs (fStorage (frFetcher r')))"
  using assms(1)
proof cases
  case fs_cancel
  with assms show ?thesis by (auto simp: fetch_inv_def)
next
  case (fs_drop cr)
  have "frWorkers r - {#cr#} + X \<subseteq># P" if "frWorkers r + X \<subseteq># P" for X P
    using that by (meson diff_subset_eq_self subset_mset.add_right_mono subset_mset.order_trans)
  with fs_drop assms show ?thesis by (auto simp: fetch_inv_def)
next
  case (fs_tick ctx gaps f)
  with tick_inv [of sz r Cl ctx] assms show ?thesis by auto
next
  case (fs_work ctx cr c resp c')
  from handleChunk_Ret [OF fs_work(5)] fs_work assms(3) show ?thesis
    by (auto simp: fetch_inv_def)
next
  case (fs_recv resp rest f)
  with receive_inv [of sz r resp rest] assms(3) show ?thesis by fastforce
qed (use assms in auto)

lemma Running_back: "fetch_step S Cl Q r r' \<Longrightarrow> frPhase r' = Running \<Longrightarrow> frPhase r = Running"
  by (induction rule: fetch_step.induct) auto

lemma reach_inv:
  assumes "(fetch_step S Cl Q)\<^sup>*\<^sup>* r0 r" "heights_fit Cl sz" "frPhase r0 = Running \<longrightarrow> fetch_inv sabs sinv sz r0"
    "frPhase r = Running"
  shows "fetch_inv sabs sinv sz r \<and>
    latest_of (sabs (fStorage (frFetcher r0))) \<le> latest_of (sabs (fStorage (frFetcher r)))"
  using assms(1,4)
proof (induction rule: rtranclp_induct)
  case base
  with assms(3) show ?case by simp
next
  case (step y z)
  from Running_back [OF step.hyps(2) step.prems] have "frPhase y = Running" .
  with step.IH step_inv [OF step.hyps(2) assms(2) _ step.prems] show ?case by fastforce
qed

end

lemma New_fields:
  "fStorage (foldl applyOption f opts) = fStorage f"
  "fBuffer (foldl applyOption f opts) = fBuffer f"
proof -
  have "fStorage (applyOption g x) = fStorage g \<and> fBuffer (applyOption g x) = fBuffer g"
    for g :: "('a, 'b) fetcher" and x by (cases x) simp_all
  then show "fStorage (foldl applyOption f opts) = fStorage f"
    "fBuffer (foldl applyOption f opts) = fBuffer f"
    by (induction opts arbitrary: f) simp_all
qed

context fetching
begin

lemma start_inv:
  assumes "sinv st" "f = Fetcher_New st c opts" "0 \<le> fMaxSlots f" "0 < unat (fMaxChunkSize f)"
    and "frPhase (FetchChainData_start S C Cl ctx f) = Running"
  shows "fetch_inv sabs sinv (unat (fMaxChunkSize f)) (FetchChainData_start S C Cl ctx f)"
proof -
  have f: "fStorage f = st" "sQueue (fBuffer f) = []" "sMaxSlots (fBuffer f) = fMaxSlots f"
    by (simp_all add: assms(2) Fetcher_New_def Let_def New_fields)
  from assms(5) obtain err f' where g: "Fetcher_fetchGenesisData S C Cl ctx f = Ret (err, f')"
    by (auto simp: FetchChainData_start_def split: outcome.splits)
  have "sinv (fStorage f') \<and> fBuffer f' = fBuffer f \<and> fMaxSlots f' = fMaxSlots f \<and>
      fMaxChunkSize f' = fMaxChunkSize f"
  proof -
    have w: "sinv (fStorage f1) \<and> fBuffer f1 = fBuffer f \<and> fMaxSlots f1 = fMaxSlots f \<and>
        fMaxChunkSize f1 = fMaxChunkSize f"
      if "Fetcher_writeSlot S (f\<lparr>fClient := c1\<rparr>) s = Ret (err1, f1)" for c1 s err1 f1
    proof -
      have "sinv (fStorage (f\<lparr>fClient := c1\<rparr>))" using f(1) assms(1) by simp
      from writeSlot_inv [OF that this] show ?thesis by auto
    qed
    from g f(1) assms(1) show ?thesis
      by (auto simp: Fetcher_fetchGenesisData_def bindO_Ret_iff dest!: w split: sum.splits if_splits prod.splits option.splits)
  qed
  with g f assms(3,4) show ?thesis
    by (simp add: FetchChainData_start_def fetch_inv_def fetcher_ok_def lined_up_def)
qed

end

lemma latest_after:
  "\<forall>s \<in> set ss. slChunk s \<noteq> None \<Longrightarrow> ss \<noteq> [] \<Longrightarrow>
   latest_of (apply_writes C st (concat (map (slotWrites C) ss))) = crTo (slRange (last ss))"
  by (induction ss arbitrary: st rule: rev_induct) (auto simp: slotWrites_def latest_of_def)

section \<open>The fetcher on the Pebble store\<close>

text \<open>The assumptions on the packages the indexer uses, together: Pebble, Amino and the queue.\<close>

locale pebble_fetch = pebble_store P dbv btv ient ipos C + insertion_queue Q
  for P :: "('db, 'bt, 'it) pebble" and dbv and btv and ient and ipos and C and Q

sublocale pebble_fetch \<subseteq> fetching "pebble_storage P C" C
  "\<lambda>d. db_store C (dbv d)" "\<lambda>d. db_ok C (dbv d)"
  "\<lambda>b. kv_writes C (btv b)" "\<lambda>b. kvs_ok C (btv b)"
  "bi_rest C ient ipos" "bi_ok C ient ipos" "ti_rest C ient ipos" "ti_ok C ient ipos" Q
  by unfold_locales

interpretation ref_fetch: pebble_fetch ref_pebble map_of "\<lambda>b. b" fst snd ref_codec ref_queue
  by unfold_locales

text \<open>
  A run of \<open>FetchChainData\<close> on a store that an indexer wrote before (or an empty one), with options
  that leave at least no negative number of slots and a positive chunk size.
\<close>

definition fetch_run_of ::
    "('db, 'bt, 'it) pebble \<Rightarrow> ('db \<Rightarrow> bytes \<rightharpoonup> bytes) \<Rightarrow> codec \<Rightarrow> slot_queue \<Rightarrow> ('c, 'b) client \<Rightarrow>
     ('db, 'c) fetcher \<Rightarrow> ('db, 'c) fetch_run \<Rightarrow> bool" where
  "fetch_run_of P dbv C Q Cl f0 r \<longleftrightarrow>
     (\<exists>d0 c0 opts. f0 = Fetcher_New d0 c0 opts \<and> db_ok C (dbv d0)) \<and>
     0 \<le> fMaxSlots f0 \<and> 0 < unat (fMaxChunkSize f0) \<and> heights_fit Cl (unat (fMaxChunkSize f0)) \<and>
     (\<exists>ctx. (fetch_step (pebble_storage P C) Cl Q)\<^sup>*\<^sup>* (FetchChainData_start (pebble_storage P C) C Cl ctx f0) r)"

context pebble_fetch
begin

lemma run_inv:
  assumes "fetch_run_of P dbv C Q Cl f0 r" "frPhase r = Running"
  shows "fetch_inv (\<lambda>d. db_store C (dbv d)) (\<lambda>d. db_ok C (dbv d)) (unat (fMaxChunkSize f0)) r \<and>
    heights_fit Cl (unat (fMaxChunkSize f0))"
proof -
  from assms(1) obtain d0 c0 opts ctx where
    f0: "db_ok C (dbv d0)" "f0 = Fetcher_New d0 c0 opts" "0 \<le> fMaxSlots f0" "0 < unat (fMaxChunkSize f0)"
      "heights_fit Cl (unat (fMaxChunkSize f0))"
      "(fetch_step (pebble_storage P C) Cl Q)\<^sup>*\<^sup>* (FetchChainData_start (pebble_storage P C) C Cl ctx f0) r"
    by (auto simp: fetch_run_of_def)
  from reach_inv [OF f0(6,5) _ assms(2)] start_inv [OF f0(1-4), of Cl ctx] f0(5) show ?thesis by simp
qed

lemma run_slots:
  assumes "fetch_run_of P dbv C Q Cl f0 r" "frPhase r = Running"
  shows "contig (Suc (unat (latest_of (db_store C (dbv (fStorage (frFetcher r)))))))
      (map slRange (sQueue (fBuffer (frFetcher r)))) \<and>
    int (length (sQueue (fBuffer (frFetcher r)))) \<le> fMaxSlots (frFetcher r) \<and>
    frWorkers r + mset (map wrRange (frChannel r)) \<subseteq># pending (sQueue (fBuffer (frFetcher r))) \<and>
    (\<not> frDone r \<longrightarrow> pending (sQueue (fBuffer (frFetcher r))) = frWorkers r + mset (map wrRange (frChannel r))) \<and>
    (sQueue (fBuffer (frFetcher r)) \<noteq> [] \<longrightarrow> slChunk (hd (sQueue (fBuffer (frFetcher r)))) = None)"
  using run_inv [OF assms] by (simp add: fetch_inv_def fetcher_ok_def lined_up_def)

lemma run_no_error:
  assumes "fetch_run_of P dbv C Q Cl f0 r" "frPhase r = Running"
  shows "(\<exists>gaps f. attemptRangeFetch (pebble_storage P C) Cl ctx Q (frFetcher r) = Some (Ret (None, gaps, f))) \<and>
    (\<forall>resp rest. frChannel r = resp # rest \<longrightarrow>
       (\<exists>x. handleResponse (pebble_storage P C) Q (frFetcher r) resp = Some x \<and>
          (\<forall>err f. x = Ret (err, f) \<longrightarrow> err = None)))"
  using tick_inv run_inv [OF assms] receive_inv by blast

lemma response_writes:
  assumes "fetch_run_of P dbv C Q Cl f0 r" "frPhase r = Running" "frChannel r = resp # rest"
    and "handleResponse (pebble_storage P C) Q (frFetcher r) resp = Some (Ret (err, f))"
  shows "\<exists>k ss. k < length (sQueue (fBuffer (frFetcher r))) \<and>
    slRange (sQueue (fBuffer (frFetcher r)) ! k) = wrRange resp \<and>
    slChunk (sQueue (fBuffer (frFetcher r)) ! k) = None \<and>
    (sQueue (fBuffer (frFetcher r)))[k := (sQueue (fBuffer (frFetcher r)) ! k)\<lparr>slChunk := wrChunk resp\<rparr>] =
      ss @ sQueue (fBuffer f) \<and>
    contig (Suc (unat (latest_of (db_store C (dbv (fStorage (frFetcher r))))))) (map slRange ss) \<and>
    db_store C (dbv (fStorage f)) =
      apply_writes C (db_store C (dbv (fStorage (frFetcher r)))) (concat (map (slotWrites C) ss)) \<and>
    latest_of (db_store C (dbv (fStorage f))) =
      (if ss = [] then latest_of (db_store C (dbv (fStorage (frFetcher r)))) else crTo (slRange (last ss)))"
proof -
  let ?f = "frFetcher r" and ?q = "sQueue (fBuffer (frFetcher r))"
  from run_inv [OF assms(1,2)] have
    ok: "fetcher_ok (\<lambda>d. db_store C (dbv d)) (\<lambda>d. db_ok C (dbv d)) ?f"
    and "wrRange resp \<in># pending ?q" using waiting(1) [OF _ assms(3)] by (auto simp: fetch_inv_def)
  then obtain k where k: "k < length ?q" "slRange (?q ! k) = wrRange resp" "slChunk (?q ! k) = None"
    by (auto simp: pending_def in_set_conv_nth)
  let ?f1 = "?f\<lparr>fBuffer := (fBuffer ?f)\<lparr>sQueue := ?q[k := (?q ! k)\<lparr>slChunk := wrChunk resp\<rparr>]\<rparr>\<rparr>"
  from response_slot [OF ok k(1,2)] assms(4) have fl: "flushSlots (pebble_storage P C) Q ?f1 = Some (Ret (err, f))"
    by simp
  have ranges: "map slRange (?q[k := (?q ! k)\<lparr>slChunk := wrChunk resp\<rparr>]) = map slRange ?q"
    using k(1) by (simp add: map_update list_update_same_conv)
  then have "lined_up (\<lambda>d. db_store C (dbv d)) (\<lambda>d. db_ok C (dbv d)) ?f1"
    using ok by (simp add: fetcher_ok_def lined_up_def)
  from flush_inv [OF this] fl obtain ss where
    w: "wrote (\<lambda>d. db_store C (dbv d)) C ?f1 ss f" by auto
  have st: "db_store C (dbv (fStorage f)) =
      apply_writes C (db_store C (dbv (fStorage ?f))) (concat (map (slotWrites C) ss))"
    and q: "?q[k := (?q ! k)\<lparr>slChunk := wrChunk resp\<rparr>] = ss @ sQueue (fBuffer f)"
    and full: "\<forall>s \<in> set ss. slChunk s \<noteq> None"
    using w unfolding wrote_def by simp_all
  have "contig (Suc (unat (latest_of (db_store C (dbv (fStorage ?f)))))) (map slRange (ss @ sQueue (fBuffer f)))"
    using ok unfolding q [symmetric] ranges by (simp add: fetcher_ok_def lined_up_def)
  with k q st latest_after [OF full] show ?thesis by (intro exI [of _ k] exI [of _ ss]) simp
qed

lemma run_monotone:
  assumes "fetch_run_of P dbv C Q Cl f0 r" "(fetch_step (pebble_storage P C) Cl Q)\<^sup>*\<^sup>* r r'" "frPhase r' = Running"
  shows "latest_of (db_store C (dbv (fStorage (frFetcher r)))) \<le> latest_of (db_store C (dbv (fStorage (frFetcher r'))))"
proof -
  have "frPhase r = Running"
    using assms(2,3) by (induction rule: converse_rtranclp_induct) (auto dest: Running_back)
  with run_inv [OF assms(1)] reach_inv [OF assms(2) _ _ assms(3)] show ?thesis by blast
qed

end

section \<open>Complete chunks\<close>

text \<open>A chunk with an entry of results for each block and no nil result.\<close>

definition chunk_ok :: "chunk \<Rightarrow> bool" where
  "chunk_ok ck \<longleftrightarrow> length (ckBlocks ck) \<le> length (ckResults ck) \<and> (\<forall>r \<in> set (ckResults ck). None \<notin> set r)"

definition slots_complete :: "slot list \<Rightarrow> bool" where
  "slots_complete q \<longleftrightarrow> (\<forall>s \<in> set q. \<forall>ck. slChunk s = Some ck \<longrightarrow> chunk_ok ck)"

context fetching
begin

lemma flush_ok:
  "lined_up sabs sinv f \<Longrightarrow> slots_complete (sQueue (fBuffer f)) \<Longrightarrow>
   \<exists>f'. flushSlots S Q f = Some (Ret (None, f'))"
proof (induction "sQueue (fBuffer f)" arbitrary: f)
  case Nil
  then show ?case by (subst flushSlots.simps) (simp add: len)
next
  case (Cons s q)
  note q = Cons.hyps(2) [symmetric]
  let ?f = "f\<lparr>fBuffer := (fBuffer f)\<lparr>sQueue := q\<rparr>\<rparr>"
  have get: "slots_getSlot Q (fBuffer f) 0 = Some s" by (simp add: slots_getSlot_def len index q)
  show ?case
  proof (cases "slChunk s")
    case None
    then show ?thesis by (subst flushSlots.simps) (simp add: len q get)
  next
    case (Some ck)
    with Cons.prems(2) q have "chunk_ok ck" by (simp add: slots_complete_def)
    with Some Cons.prems(1) writeSlot_ok [of s ck ?f] obtain f1 where
      w: "Fetcher_writeSlot S ?f s = Ret (None, f1)" by (auto simp: chunk_ok_def lined_up_def)
    note l = lined_up_write [OF Cons.prems(1) q w]
    then have q1: "sQueue (fBuffer f1) = q" by simp
    with Cons.prems(2) q have "slots_complete (sQueue (fBuffer f1))" by (simp add: slots_complete_def)
    with Cons.hyps(1) [OF q1 [symmetric]] l obtain f' where "flushSlots S Q f1 = Some (Ret (None, f'))" by blast
    with w Some show ?thesis by (subst flushSlots.simps) (simp add: len q get pop Let_def)
  qed
qed

lemma response_ok:
  assumes inv: "fetch_inv sabs sinv sz r" and ch: "frChannel r = resp # rest"
    and full: "slots_complete (sQueue (fBuffer (frFetcher r)))" "\<forall>ck. wrChunk resp = Some ck \<longrightarrow> chunk_ok ck"
  shows "\<exists>f. handleResponse S Q (frFetcher r) resp = Some (Ret (None, f))"
proof -
  let ?f = "frFetcher r" and ?q = "sQueue (fBuffer (frFetcher r))"
  from inv waiting(1) [OF inv ch] have ok: "fetcher_ok sabs sinv ?f" and "wrRange resp \<in># pending ?q"
    by (auto simp: fetch_inv_def)
  then obtain k where k: "k < length ?q" "slRange (?q ! k) = wrRange resp"
    by (auto simp: pending_def in_set_conv_nth)
  let ?q1 = "?q[k := (?q ! k)\<lparr>slChunk := wrChunk resp\<rparr>]"
  have "map slRange ?q1 = map slRange ?q" using k(1) by (simp add: map_update list_update_same_conv)
  then have "lined_up sabs sinv (?f\<lparr>fBuffer := (fBuffer ?f)\<lparr>sQueue := ?q1\<rparr>\<rparr>)"
    using ok by (simp add: fetcher_ok_def lined_up_def)
  moreover have "slots_complete ?q1"
    using full set_update_subset_insert [of ?q k "(?q ! k)\<lparr>slChunk := wrChunk resp\<rparr>"]
    by (auto simp: slots_complete_def)
  ultimately show ?thesis unfolding response_slot [OF ok k] by (intro flush_ok) simp_all
qed

end

context pebble_fetch
begin

lemma run_progress:
  assumes "fetch_run_of P dbv C Q Cl f0 r" "frPhase r = Running"
  shows "(\<exists>gaps f. attemptRangeFetch (pebble_storage P C) Cl ctx Q (frFetcher r) = Some (Ret (None, gaps, f))) \<and>
    (\<forall>resp rest. frChannel r = resp # rest \<longrightarrow>
       (\<exists>x. handleResponse (pebble_storage P C) Q (frFetcher r) resp = Some x \<and>
          (\<forall>err f. x = Ret (err, f) \<longrightarrow> err = None) \<and>
          (slots_complete (sQueue (fBuffer (frFetcher r))) \<and> (\<forall>ck. wrChunk resp = Some ck \<longrightarrow> chunk_ok ck)
             \<longrightarrow> (\<exists>f. x = Ret (None, f)))))"
  using tick_inv run_inv [OF assms] receive_inv response_ok by (metis (no_types, lifting) option.inject)

lemma empty_chunk:
  assumes "db_ok C (dbv (fStorage f))" "slChunk s = Some \<lparr>ckBlocks = [], ckResults = rs\<rparr>"
    "\<forall>r \<in> set rs. None \<notin> set r"
  shows "\<exists>f'. Fetcher_writeSlot (pebble_storage P C) f s = Ret (None, f') \<and>
    db_store C (dbv (fStorage f')) = (db_store C (dbv (fStorage f)))\<lparr>stLatest := Some (crTo (slRange s))\<rparr>"
proof -
  from writeSlot_ok [OF assms(2)] assms(1,3) obtain f' where
    w: "Fetcher_writeSlot (pebble_storage P C) f s = Ret (None, f')" by auto
  from writeSlot_inv [OF w assms(1)] assms(2) w show ?thesis by auto
qed

end

section \<open>The properties of the fetcher\<close>

text \<open>A run on a chain of one block, for the examples.\<close>

abbreviation ex_S :: "(kvs, kvs, (kvs \<times> cursor) block_iter, (kvs \<times> cursor) tx_iter) storage" where
  "ex_S \<equiv> pebble_storage ref_pebble ref_codec"

abbreviation "ex_options \<equiv> [WithLogger, WithMaxSlots DefaultMaxSlots, WithMaxChunkSize DefaultMaxChunkSize]"

definition ex_fetcher :: "(kvs, unit) fetcher" where
  "ex_fetcher = Fetcher_New [] () ex_options"

definition ex_chain :: "u64 \<Rightarrow> block" where
  "ex_chain n = mk_block n 0 [[7]]"

definition ex_client :: "(unit, u64 list \<times> u64 list) client" where
  "ex_client = chain_node ex_chain 1"

definition ex_range :: chunkRange where "ex_range = \<lparr>crFrom = 1, crTo = 1\<rparr>"

definition ex_resp :: workerResponse where
  "ex_resp = \<lparr>wrError = None, wrChunk = Some \<lparr>ckBlocks = [mk_block 1 0 [[7]]],
     ckResults = [[Some (mk_result 1 0 [7])]]\<rparr>, wrRange = ex_range\<rparr>"

definition ex_start :: "(kvs, unit) fetch_run" where
  "ex_start = \<lparr>frFetcher = ex_fetcher, frWorkers = {#}, frChannel = [], frDone = False, frPhase = Running\<rparr>"

definition ex_ticked :: "(kvs, unit) fetch_run" where
  "ex_ticked = \<lparr>frFetcher = ex_fetcher\<lparr>fBuffer := \<lparr>sQueue = [\<lparr>slChunk = None, slRange = ex_range\<rparr>], sMaxSlots = 100\<rparr>\<rparr>,
     frWorkers = {#ex_range#}, frChannel = [], frDone = False, frPhase = Running\<rparr>"

definition ex_answered :: "(kvs, unit) fetch_run" where
  "ex_answered = ex_ticked\<lparr>frWorkers := {#}, frChannel := [ex_resp]\<rparr>"

lemma ex_fetcher_simps:
  "fMaxSlots ex_fetcher = 100" "fMaxChunkSize ex_fetcher = 100" "fStorage ex_fetcher = []"
  "fBuffer ex_fetcher = \<lparr>sQueue = [], sMaxSlots = 100\<rparr>" "fClient ex_fetcher = ()"
  by (simp_all add: ex_fetcher_def Fetcher_New_def DefaultMaxSlots_def DefaultMaxChunkSize_def)

lemma ex_latest: "s_GetLatestHeight ex_S [] = Inl ErrNotFound"
  by (simp add: pebble_storage_def Pebble_GetLatestHeight_def ref_pebble_def)

lemma ex_start_run: "FetchChainData_start ex_S ref_codec ex_client ctx ex_fetcher = ex_start"
  by (simp add: FetchChainData_start_def Fetcher_fetchGenesisData_def ex_fetcher_simps ex_latest
      getGenesisBlock_def ex_client_def chain_node_def ex_start_def)

lemma ex_reserve:
  "slots_reserveChunkRanges ref_queue \<lparr>sQueue = [], sMaxSlots = 100\<rparr> 1 1 100 =
     Some (Ret ([ex_range], \<lparr>sQueue = [\<lparr>slChunk = None, slRange = ex_range\<rparr>], sMaxSlots = 100\<rparr>))"
  by (simp add: slots_reserveChunkRanges_def slots_findGaps_def ref_queue_def ex_range_def)

lemma ex_tick: "fetch_step ex_S ex_client ref_queue ex_start ex_ticked"
proof -
  have "attemptRangeFetch ex_S ex_client Background ref_queue (frFetcher ex_start) = Some (Ret (None, [ex_range], frFetcher ex_ticked))"
    by (simp add: attemptRangeFetch_def ex_start_def ex_fetcher_simps ex_latest ex_client_def chain_node_def
        ex_reserve ex_ticked_def ref_queue.len)
  from fs_tick [OF _ _ this] show ?thesis by (simp add: ex_start_def ex_ticked_def ctx_of_def Background_def)
qed

lemma ex_handle: "handleChunk ex_client Background () ex_range = Some (Ret (ex_resp, ()))"
proof -
  have "addBlockRequests ex_client b 2 1 = Some (Inr b)" for b
    by (subst addBlockRequests.simps) (simp add: word_le_nat_alt)
  moreover have "b_AddBlockRequest ex_client ([], []) 1 = (None, ([1], []))"
    by (simp add: ex_client_def chain_node_def)
  ultimately have "addBlockRequests ex_client ([], []) 1 1 = Some (Inr ([1], []))"
    by (subst addBlockRequests.simps) simp
  then have "getBlocksFromBatch ex_client Background () ex_range = Some (([mk_block 1 0 [[7]]], None), ())"
    by (simp add: getBlocksFromBatch_def ex_client_def chain_node_def ex_chain_def ex_range_def)
  moreover have "getTxResultFromBatch ex_client Background () [mk_block 1 0 [[7]]] =
      Ret (([[Some (mk_result 1 0 [7])]], None), ())" by code_simp
  ultimately show ?thesis by (simp add: handleChunk_def ex_resp_def errorsJoin_def List.map_filter_def)
qed

lemma ex_work: "fetch_step ex_S ex_client ref_queue ex_ticked ex_answered"
  using fs_work [OF _ _ _ ex_handle, of ex_ticked] by (simp add: ctx_of_def Background_def ex_ticked_def ex_answered_def DefaultMaxSlots_def)

lemma ex_run_of: "fetch_run_of ref_pebble map_of ref_codec ref_queue ex_client ex_fetcher ex_answered"
  unfolding fetch_run_of_def
proof (intro conjI)
  show "\<exists>d0 c0 opts. ex_fetcher = Fetcher_New d0 c0 opts \<and> db_ok ref_codec (map_of d0)"
    by (rule exI [of _ "[]"], rule exI [of _ "()"], rule exI [of _ ex_options]) (simp add: ex_fetcher_def)
  show "heights_fit ex_client (unat (fMaxChunkSize ex_fetcher))"
    by (simp add: heights_fit_def ex_client_def chain_node_def ex_fetcher_simps)
  show "\<exists>ctx. (fetch_step ex_S ex_client ref_queue)\<^sup>*\<^sup>* (FetchChainData_start ex_S ref_codec ex_client ctx ex_fetcher) ex_answered"
    unfolding ex_start_run using ex_tick ex_work by (meson converse_rtranclp_into_rtranclp rtranclp.rtrancl_refl)
qed (simp_all add: ex_fetcher_simps)

lemma ex_handled: "\<exists>f. handleResponse ex_S ref_queue (frFetcher ex_answered) ex_resp = Some (Ret (None, f))"
proof -
  have "frPhase ex_answered = Running" by (simp add: ex_answered_def ex_ticked_def)
  note inv = ref_fetch.run_inv [OF ex_run_of this, THEN conjunct1]
  show ?thesis
    by (rule ref_fetch.response_ok [OF inv, of ex_resp "[]"])
       (simp_all add: ex_answered_def ex_ticked_def slots_complete_def ex_resp_def chunk_ok_def)
qed


lemma ex_phase: "frPhase ex_answered = Running" "frChannel ex_answered = [ex_resp]"
  by (simp_all add: ex_answered_def ex_ticked_def)

text \<open>
  C12. The slots follow the store: in every state of a run of \<open>FetchChainData\<close> in which its loop still runs (any interleaving of
  ticks, workers and responses and the end of the context, any answers of the node, any restart on a store the indexer wrote),
  the reserved ranges start right after the latest height stored and leave no block out, there are
  never more than \<open>maxSlots\<close> of them, the first one has no chunk, and every worker under way and every response in the channel has a range of its own among
  those without a chunk. While the context is not done these are all of them, so no range is lost or fetched twice; once it is
  done a worker may give up and its range stays without a chunk. The
  hypotheses are the documented behaviour of the packages, and the bound that the node's
  heights leave room for a chunk below the largest 64-bit number (in \<open>fetch_run_of\<close>).
\<close>

theorem FetchChainData_slots:
  assumes "pebble_fetch P dbv btv ient ipos C Q"
    and "fetch_run_of P dbv C Q Cl f0 r" and "frPhase r = Running"
  shows "contig (Suc (unat (latest_of (db_store C (dbv (fStorage (frFetcher r)))))))
      (map slRange (sQueue (fBuffer (frFetcher r)))) \<and>
    int (length (sQueue (fBuffer (frFetcher r)))) \<le> fMaxSlots (frFetcher r) \<and>
    frWorkers r + mset (map wrRange (frChannel r)) \<subseteq># pending (sQueue (fBuffer (frFetcher r))) \<and>
    (\<not> frDone r \<longrightarrow> pending (sQueue (fBuffer (frFetcher r))) = frWorkers r + mset (map wrRange (frChannel r))) \<and>
    (sQueue (fBuffer (frFetcher r)) \<noteq> [] \<longrightarrow> slChunk (hd (sQueue (fBuffer (frFetcher r)))) = None)"
  using assms by (rule pebble_fetch.run_slots)

theorem FetchChainData_slots_witness:
  "contig 1 (map slRange (sQueue (fBuffer (frFetcher ex_answered)))) \<and>
   pending (sQueue (fBuffer (frFetcher ex_answered))) = {#ex_range#}"
  using FetchChainData_slots [OF ref_fetch.pebble_fetch_axioms ex_run_of ex_phase(1)]
  by (simp add: ex_answered_def ex_ticked_def ex_fetcher_simps empty_store_def latest_of_def ex_resp_def)

text \<open>
  C13. A response is put into its slot and the chain is written in order: the slot of the response is
  found wherever it has moved to, and then the leading slots that have their chunk are written, one
  batch each, in the order of the chain and without a hole; the latest height becomes the end
  of the last slot written.
\<close>

theorem handleResponse_in_order:
  assumes "pebble_fetch P dbv btv ient ipos C Q"
    and "fetch_run_of P dbv C Q Cl f0 r" and "frPhase r = Running" and "frChannel r = resp # rest"
    and "handleResponse (pebble_storage P C) Q (frFetcher r) resp = Some (Ret (err, f))"
  shows "\<exists>k ss. k < length (sQueue (fBuffer (frFetcher r))) \<and>
    slRange (sQueue (fBuffer (frFetcher r)) ! k) = wrRange resp \<and>
    slChunk (sQueue (fBuffer (frFetcher r)) ! k) = None \<and>
    (sQueue (fBuffer (frFetcher r)))[k := (sQueue (fBuffer (frFetcher r)) ! k)\<lparr>slChunk := wrChunk resp\<rparr>] =
      ss @ sQueue (fBuffer f) \<and>
    contig (Suc (unat (latest_of (db_store C (dbv (fStorage (frFetcher r))))))) (map slRange ss) \<and>
    db_store C (dbv (fStorage f)) =
      apply_writes C (db_store C (dbv (fStorage (frFetcher r)))) (concat (map (slotWrites C) ss)) \<and>
    latest_of (db_store C (dbv (fStorage f))) =
      (if ss = [] then latest_of (db_store C (dbv (fStorage (frFetcher r)))) else crTo (slRange (last ss)))"
  using assms by (rule pebble_fetch.response_writes)

theorem handleResponse_in_order_witness:
  "\<exists>f ss. handleResponse ex_S ref_queue (frFetcher ex_answered) ex_resp = Some (Ret (None, f)) \<and>
     [\<lparr>slChunk = wrChunk ex_resp, slRange = ex_range\<rparr>] = ss @ sQueue (fBuffer f) \<and>
     db_store ref_codec (map_of (fStorage f)) =
       apply_writes ref_codec empty_store (concat (map (slotWrites ref_codec) ss))"
proof -
  from ex_handled obtain f where f: "handleResponse ex_S ref_queue (frFetcher ex_answered) ex_resp = Some (Ret (None, f))"
    by blast
  from handleResponse_in_order [OF ref_fetch.pebble_fetch_axioms ex_run_of ex_phase f] f show ?thesis
    by (auto simp: ex_answered_def ex_ticked_def ex_fetcher_simps)
qed

text \<open>
  C31. Nothing but a chunk without results stops the loop: in every state of a run the next tick
  succeeds, and the next response is handled (the loops end) without an error; if the chunks at hand
  are complete it is handled without a panic.
\<close>

theorem FetchChainData_progress:
  assumes "pebble_fetch P dbv btv ient ipos C Q"
    and "fetch_run_of P dbv C Q Cl f0 r" and "frPhase r = Running"
  shows "(\<exists>gaps f. attemptRangeFetch (pebble_storage P C) Cl ctx Q (frFetcher r) = Some (Ret (None, gaps, f))) \<and>
    (\<forall>resp rest. frChannel r = resp # rest \<longrightarrow>
       (\<exists>x. handleResponse (pebble_storage P C) Q (frFetcher r) resp = Some x \<and>
          (\<forall>err f. x = Ret (err, f) \<longrightarrow> err = None) \<and>
          (slots_complete (sQueue (fBuffer (frFetcher r))) \<and> (\<forall>ck. wrChunk resp = Some ck \<longrightarrow> chunk_ok ck)
             \<longrightarrow> (\<exists>f. x = Ret (None, f)))))"
  using assms by (rule pebble_fetch.run_progress)

theorem FetchChainData_progress_witness:
  "(\<exists>gaps f. attemptRangeFetch ex_S ex_client Background ref_queue (frFetcher ex_answered) = Some (Ret (None, gaps, f))) \<and>
   (\<exists>f. handleResponse ex_S ref_queue (frFetcher ex_answered) ex_resp = Some (Ret (None, f)))"
  using FetchChainData_progress [OF ref_fetch.pebble_fetch_axioms ex_run_of ex_phase(1)] ex_handled by blast

text \<open>The latest height stored never goes down while the fetcher runs.\<close>

theorem FetchChainData_monotone:
  assumes "pebble_fetch P dbv btv ient ipos C Q" and "fetch_run_of P dbv C Q Cl f0 r"
    and "(fetch_step (pebble_storage P C) Cl Q)\<^sup>*\<^sup>* r r'" and "frPhase r' = Running"
  shows "latest_of (db_store C (dbv (fStorage (frFetcher r)))) \<le>
    latest_of (db_store C (dbv (fStorage (frFetcher r'))))"
  using assms by (rule pebble_fetch.run_monotone)

theorem FetchChainData_monotone_witness:
  "\<exists>f. fetch_step ex_S ex_client ref_queue ex_answered (ex_answered\<lparr>frFetcher := f, frChannel := []\<rparr>) \<and>
     latest_of (db_store ref_codec (map_of [])) \<le> latest_of (db_store ref_codec (map_of (fStorage f)))"
proof -
  from ex_handled obtain f where f: "handleResponse ex_S ref_queue (frFetcher ex_answered) ex_resp = Some (Ret (None, f))"
    by blast
  let ?r = "ex_answered\<lparr>frFetcher := f, frChannel := []\<rparr>"
  have step: "fetch_step ex_S ex_client ref_queue ex_answered ?r" by (rule fs_recv [OF ex_phase f])
  then have "(fetch_step ex_S ex_client ref_queue)\<^sup>*\<^sup>* ex_answered ?r" by (rule r_into_rtranclp)
  from FetchChainData_monotone [OF ref_fetch.pebble_fetch_axioms ex_run_of this] ex_phase(1)
  have "latest_of (db_store ref_codec (map_of [])) \<le> latest_of (db_store ref_codec (map_of (fStorage f)))"
    by (simp add: ex_answered_def ex_ticked_def ex_fetcher_simps)
  with step show ?thesis by blast
qed

text \<open>
  A chunk without blocks is written as if its range had been indexed: \<open>writeSlot\<close> succeeds, stores
  no block and no transaction, and moves the latest height to the end of the range. A worker sends such
  a chunk when the requests of its range fail, so the blocks of a failed range are skipped for good.
\<close>

theorem writeSlot_skips_failed_chunk:
  assumes "pebble_fetch P dbv btv ient ipos C Q" and "db_ok C (dbv (fStorage f))"
    and "slChunk s = Some \<lparr>ckBlocks = [], ckResults = rs\<rparr>" and "\<forall>r \<in> set rs. None \<notin> set r"
  shows "\<exists>f'. Fetcher_writeSlot (pebble_storage P C) f s = Ret (None, f') \<and>
    db_store C (dbv (fStorage f')) = (db_store C (dbv (fStorage f)))\<lparr>stLatest := Some (crTo (slRange s))\<rparr>"
  using assms by (rule pebble_fetch.empty_chunk)

theorem writeSlot_skips_failed_chunk_witness:
  "\<exists>f'. Fetcher_writeSlot ex_S ex_fetcher
       \<lparr>slChunk = Some \<lparr>ckBlocks = [], ckResults = []\<rparr>, slRange = \<lparr>crFrom = 1, crTo = 5\<rparr>\<rparr> = Ret (None, f') \<and>
     db_store ref_codec (map_of (fStorage f')) = empty_store\<lparr>stLatest := Some 5\<rparr>"
  using writeSlot_skips_failed_chunk [OF ref_fetch.pebble_fetch_axioms, of ex_fetcher
      "\<lparr>slChunk = Some \<lparr>ckBlocks = [], ckResults = []\<rparr>, slRange = \<lparr>crFrom = 1, crTo = 5\<rparr>\<rparr>" "[]"]
  by (simp add: ex_fetcher_simps)

text \<open>
  A shutdown can crash the process: from every running state with a worker that will get its
  answer, the context may end first; the loop then closes the channel, and the worker's send on the
  closed channel panics.
\<close>

theorem FetchChainData_shutdown_panics:
  assumes "frPhase r = Running" and "cr \<in># frWorkers r" and "handleChunk Cl ctx c cr = Some (Ret (resp, c'))"
  shows "\<exists>r'. (fetch_step S Cl Q)\<^sup>*\<^sup>* r r' \<and> frPhase r' = Crashed ''send on closed channel''"
proof -
  let ?r = "r\<lparr>frDone := True\<rparr>"
  let ?q = "?r\<lparr>frPhase := Returned None\<rparr>"
  have "fetch_step S Cl Q r ?r" by (rule fs_cancel)
  moreover have "fetch_step S Cl Q ?r ?q" using assms(1) by (intro fs_done) simp_all
  moreover have "fetch_step S Cl Q ?q (?q\<lparr>frPhase := Crashed ''send on closed channel''\<rparr>)"
    using assms(2,3) by (intro fs_closed [of _ ctx]) (simp_all add: ctx_of_def)
  ultimately have "(fetch_step S Cl Q)\<^sup>*\<^sup>* r (?q\<lparr>frPhase := Crashed ''send on closed channel''\<rparr>)"
    by (meson converse_rtranclp_into_rtranclp rtranclp.rtrancl_refl)
  moreover have "frPhase (?q\<lparr>frPhase := Crashed ''send on closed channel''\<rparr>) = Crashed ''send on closed channel''" by simp
  ultimately show ?thesis by (intro exI conjI)
qed

theorem FetchChainData_shutdown_panics_witness:
  "\<exists>r'. (fetch_step ex_S ex_client ref_queue)\<^sup>*\<^sup>* ex_ticked r' \<and> frPhase r' = Crashed ''send on closed channel''"
  by (rule FetchChainData_shutdown_panics [OF _ _ ex_handle]) (simp_all add: ex_ticked_def)

end
