(* ===== verification/Fetch_Complete.thy ===== *)
theory Fetch_Complete
  imports Fetch_Correct
begin

text \<open>
  The end-to-end guarantee of the fetcher: on a node that serves one chain, every block up to the latest
  height in the store is the block of the chain, and so are the results of its transactions, whatever the interleaving of ticks,
  workers and responses and however often batches fail, as long as the context is not done. What a worker sends when it is done may lack
  blocks, but what was stored before stays.
\<close>

section \<open>An honest node\<close>

text \<open>
  A node that has the chain: it takes every request, and whenever it answers a batch of block
  requests, or a single one, it answers with the blocks of the chain; a batch may also fail, and so may a single request whose
  context is done. To requests for results it answers with results of any kind, or fails. \<open>reqs\<close> reads the block
  requests of a batch.
\<close>

definition honest :: "('c, 'b) client \<Rightarrow> (u64 \<Rightarrow> block) \<Rightarrow> ('b \<Rightarrow> u64 list) \<Rightarrow> bool" where
  "honest Cl chain reqs \<longleftrightarrow>
     (\<forall>c. reqs (c_CreateBatch Cl c) = []) \<and>
     (\<forall>b n. \<exists>b'. b_AddBlockRequest Cl b n = (None, b') \<and> reqs b' = reqs b @ [n]) \<and>
     (\<forall>b h. \<exists>b'. b_AddBlockResultsRequest Cl b h = (None, b') \<and> reqs b' = reqs b) \<and>
     (\<forall>b ctx c res c'. b_Execute Cl b ctx c = (Inr res, c') \<longrightarrow>
        (if reqs b = [] then \<forall>x \<in> set res. \<exists>y. x = AnyResults y
         else res = map (\<lambda>n. AnyBlock \<lparr>rbBlock = chain n\<rparr>) (reqs b))) \<and>
     (\<forall>ctx c n. \<exists>c'. c_GetBlock Cl ctx c n = (Inr \<lparr>rbBlock = chain n\<rparr>, c') \<or>
        ctx c \<and> (\<exists>err. c_GetBlock Cl ctx c n = (Inl err, c')))"

text \<open>A client whose requests for blocks are answered also when their context is done.\<close>

definition heedless :: "('c, 'b) client \<Rightarrow> bool" where
  "heedless Cl \<longleftrightarrow> (\<forall>ctx c n. \<not> isl (fst (c_GetBlock Cl ctx c n)))"

text \<open>A chain whose blocks have their number, count their transactions and can be encoded.\<close>

definition chain_ok :: "codec \<Rightarrow> (u64 \<Rightarrow> block) \<Rightarrow> bool" where
  "chain_ok C chain \<longleftrightarrow> (\<forall>n. bHeight (chain n) = n \<and> block_wf (chain n) \<and> \<not> isl (marshalBlock C (chain n)))"

lemma honestD:
  assumes "honest Cl chain reqs"
  shows "reqs (c_CreateBatch Cl c) = []"
    "\<exists>b'. b_AddBlockRequest Cl b n = (None, b') \<and> reqs b' = reqs b @ [n]"
    "\<exists>b'. b_AddBlockResultsRequest Cl b n = (None, b') \<and> reqs b' = reqs b"
    "b_Execute Cl b ctx c = (Inr res, c') \<Longrightarrow> reqs b = [] \<Longrightarrow> \<forall>x \<in> set res. \<exists>y. x = AnyResults y"
    "b_Execute Cl b ctx c = (Inr res, c') \<Longrightarrow> reqs b \<noteq> [] \<Longrightarrow> res = map (\<lambda>n. AnyBlock \<lparr>rbBlock = chain n\<rparr>) (reqs b)"
    "\<exists>c'. c_GetBlock Cl ctx c n = (Inr \<lparr>rbBlock = chain n\<rparr>, c') \<or> ctx c \<and> (\<exists>err. c_GetBlock Cl ctx c n = (Inl err, c'))"
proof -
  note h = assms [unfolded honest_def]
  show "reqs (c_CreateBatch Cl c) = []" using h [THEN conjunct1] by blast
  show "\<exists>b'. b_AddBlockRequest Cl b n = (None, b') \<and> reqs b' = reqs b @ [n]"
    using h [THEN conjunct2, THEN conjunct1] by blast
  show "\<exists>b'. b_AddBlockResultsRequest Cl b n = (None, b') \<and> reqs b' = reqs b"
    using h [THEN conjunct2, THEN conjunct2, THEN conjunct1] by blast
  note e = h [THEN conjunct2, THEN conjunct2, THEN conjunct2, THEN conjunct1, rule_format, of b ctx c res c']
  show "b_Execute Cl b ctx c = (Inr res, c') \<Longrightarrow> reqs b = [] \<Longrightarrow> \<forall>x \<in> set res. \<exists>y. x = AnyResults y"
    "b_Execute Cl b ctx c = (Inr res, c') \<Longrightarrow> reqs b \<noteq> [] \<Longrightarrow> res = map (\<lambda>n. AnyBlock \<lparr>rbBlock = chain n\<rparr>) (reqs b)"
    using e by simp_all
  show "\<exists>c'. c_GetBlock Cl ctx c n = (Inr \<lparr>rbBlock = chain n\<rparr>, c') \<or> ctx c \<and> (\<exists>err. c_GetBlock Cl ctx c n = (Inl err, c'))"
    using h [THEN conjunct2, THEN conjunct2, THEN conjunct2, THEN conjunct2] by blast
qed

lemma addBlockRequests_honest:
  assumes "honest Cl chain reqs" "to \<noteq> - 1"
  shows "\<exists>b'. addBlockRequests Cl b n to = Some (Inr b') \<and> reqs b' = reqs b @ blockNums n to"
proof (induction n arbitrary: b rule: blockNums_induct [OF assms(2)])
  case (1 n)
  note rec = blockNums_rec [OF assms(2), of n]
  obtain b' where b': "b_AddBlockRequest Cl b n = (None, b')" "reqs b' = reqs b @ [n]"
    using honestD(2) [OF assms(1)] by blast
  show ?case
  proof (cases "n \<le> to")
    case True
    from "1" [OF True, of b'] b' True show ?thesis unfolding rec by (subst addBlockRequests.simps) auto
  next
    case False
    then show ?thesis unfolding rec by (subst addBlockRequests.simps) simp
  qed
qed

text \<open>The blocks of a range that single requests give: some of those of the chain, and all if no request can fail.\<close>

definition some_of :: "('c, 'b) client \<Rightarrow> 'c ctx \<Rightarrow> u64 list \<Rightarrow> u64 list \<Rightarrow> bool" where
  "some_of Cl ctx ns all \<longleftrightarrow> set ns \<subseteq> set all \<and> distinct ns \<and> ((\<forall>c. \<not> ctx c) \<or> heedless Cl \<longrightarrow> ns = all)"

lemma mem_blockNums:
  "n \<in> set (blockNums a b) \<longleftrightarrow> a \<le> n \<and> n \<le> b"
proof -
  have "n \<in> set (blockNums a b) \<longleftrightarrow> (\<exists>k. unat a \<le> k \<and> k \<le> unat b \<and> n = of_nat k)"
    by (auto simp: blockNums_def)
  also have "\<dots> \<longleftrightarrow> unat a \<le> unat n \<and> unat n \<le> unat b"
  proof
    assume "\<exists>k. unat a \<le> k \<and> k \<le> unat b \<and> n = of_nat k"
    then obtain k where k: "unat a \<le> k" "k \<le> unat b" "n = of_nat k" by blast
    then have "unat n = k" using unat_bounds(3) [of b] by (simp add: unat_of_nat)
    with k show "unat a \<le> unat n \<and> unat n \<le> unat b" by simp
  next
    assume "unat a \<le> unat n \<and> unat n \<le> unat b"
    then show "\<exists>k. unat a \<le> k \<and> k \<le> unat b \<and> n = of_nat k" by (intro exI [of _ "unat n"]) simp
  qed
  finally show ?thesis by (simp add: word_le_nat_alt)
qed

lemma distinct_blockNums: "distinct (blockNums a b)"
proof -
  have "inj_on (of_nat :: nat \<Rightarrow> u64) {unat a..<Suc (unat b)}"
  proof (rule inj_onI)
    fix x y :: nat
    assume xy: "x \<in> {unat a..<Suc (unat b)}" "y \<in> {unat a..<Suc (unat b)}" and eq: "(of_nat x :: u64) = of_nat y"
    have "unat (of_nat k :: u64) = k" if "k \<in> {unat a..<Suc (unat b)}" for k
      using that unat_bounds(3) [of b] by (simp add: unat_of_nat)
    from this [OF xy(1)] this [OF xy(2)] eq show "x = y" by metis
  qed
  then show ?thesis by (simp add: blockNums_def distinct_map del: upt_Suc)
qed

lemma some_of_all: "some_of Cl ctx (blockNums a b) (blockNums a b)"
  by (simp add: some_of_def distinct_blockNums)

lemma sequential_honest:
  assumes "honest Cl chain reqs" "to \<noteq> - 1"
  shows "\<exists>errs' ns c'. getBlocksSequentially_loop Cl ctx c n to errs bs = Some ((errs', bs @ map chain ns), c') \<and>
    some_of Cl ctx ns (blockNums n to)"
proof (induction n arbitrary: c errs bs rule: blockNums_induct [OF assms(2)])
  case (1 n)
  note rec = blockNums_rec [OF assms(2), of n]
  show ?case
  proof (cases "n \<le> to")
    case True
    have new: "n \<notin> set (blockNums (n + 1) to)" using distinct_blockNums [of n to] True unfolding rec by simp
    from honestD(6) [OF assms(1), of ctx c n] consider (ok) c' where "c_GetBlock Cl ctx c n = (Inr \<lparr>rbBlock = chain n\<rparr>, c')"
      | (err) err c' where "ctx c" "c_GetBlock Cl ctx c n = (Inl err, c')" by blast
    then show ?thesis
    proof cases
      case ok
      from "1" [OF True, of c' errs "bs @ [chain n]"] obtain errs' ns c2 where
        s: "getBlocksSequentially_loop Cl ctx c' (n + 1) to errs (bs @ [chain n]) = Some ((errs', (bs @ [chain n]) @ map chain ns), c2)"
          "some_of Cl ctx ns (blockNums (n + 1) to)" by blast
      have "getBlocksSequentially_loop Cl ctx c n to errs bs = Some ((errs', bs @ map chain (n # ns)), c2)"
        using True ok s(1) by (subst getBlocksSequentially_loop.simps) simp
      moreover have "some_of Cl ctx (n # ns) (blockNums n to)"
        using s(2) new True unfolding rec by (auto simp: some_of_def)
      ultimately show ?thesis by blast
    next
      case err
      from "1" [OF True, of c' "errs @ [Some (ErrWrap ''unable to get block %d, %w'' [err])]" bs] obtain errs' ns c2 where
        s: "getBlocksSequentially_loop Cl ctx c' (n + 1) to (errs @ [Some (ErrWrap ''unable to get block %d, %w'' [err])]) bs =
            Some ((errs', bs @ map chain ns), c2)"
          "some_of Cl ctx ns (blockNums (n + 1) to)" by blast
      have "getBlocksSequentially_loop Cl ctx c n to errs bs = Some ((errs', bs @ map chain ns), c2)"
        using True err(2) s(1) by (subst getBlocksSequentially_loop.simps) simp
      moreover have "\<not> heedless Cl" using err(2) unfolding heedless_def by (metis fst_conv sum.disc(1))
      then have "some_of Cl ctx ns (blockNums n to)"
        using s(2) err(1) True unfolding rec by (auto simp: some_of_def)
      ultimately show ?thesis by blast
    qed
  next
    case False
    then show ?thesis unfolding rec by (subst getBlocksSequentially_loop.simps) (simp add: some_of_def)
  qed
qed

lemma castBlocks_honest: "castBlocks (map (\<lambda>n. AnyBlock \<lparr>rbBlock = chain n\<rparr>) ns) = Some (map chain ns)"
  by (induction ns) simp_all

lemma blocks_honest:
  assumes "honest Cl chain reqs" "crTo cr \<noteq> - 1" "crFrom cr \<le> crTo cr"
    and "getBlocksFromBatch Cl ctx c cr = Some ((blocks, err), c')"
  shows "\<exists>ns. blocks = map chain ns \<and> some_of Cl ctx ns (blockNums (crFrom cr) (crTo cr))"
proof -
  obtain b where b: "addBlockRequests Cl (c_CreateBatch Cl c) (crFrom cr) (crTo cr) = Some (Inr b)"
    "reqs b = blockNums (crFrom cr) (crTo cr)"
    using addBlockRequests_honest [OF assms(1,2), of "c_CreateBatch Cl c" "crFrom cr"] honestD(1) [OF assms(1)] by auto
  have ne: "reqs b \<noteq> []" using blockNums_rec [OF assms(2), of "crFrom cr"] assms(3) b(2) by simp
  obtain r c1 where ex: "b_Execute Cl b Background c = (r, c1)" by force
  show ?thesis
  proof (cases r)
    case (Inl e)
    with assms(4) b(1) ex have "getBlocksSequentially Cl ctx c1 cr = Some ((blocks, err), c')"
      by (simp add: getBlocksFromBatch_def)
    with sequential_honest [OF assms(1,2), of ctx c1 "crFrom cr" "[]" "[]"] show ?thesis
      by (auto simp: getBlocksSequentially_def)
  next
    case (Inr res)
    with honestD(5) [OF assms(1)] ex ne have "res = map (\<lambda>n. AnyBlock \<lparr>rbBlock = chain n\<rparr>) (reqs b)" by blast
    with assms(4) b ex Inr have "blocks = map chain (blockNums (crFrom cr) (crTo cr))"
      by (simp add: getBlocksFromBatch_def castBlocks_honest)
    with some_of_all show ?thesis by blast
  qed
qed

lemma blockResults_no_nil [simp]: "None \<notin> set (blockResults h txs d)"
  by (auto simp: blockResults_def)

lemma extractResults_shape:
  assumes "extractResults blocks i raws fetched = Ret (rs, err)" "\<forall>x \<in> set raws. \<exists>y. x = AnyResults y"
    "\<forall>b \<in> set blocks. block_wf b" "\<forall>r \<in> set fetched. None \<notin> set r"
  shows "length rs = length fetched \<and> (\<forall>r \<in> set rs. None \<notin> set r)"
  using assms
proof (induction raws arbitrary: i fetched)
  case (Cons x raws)
  then obtain y where "x = AnyResults y" by auto
  with Cons.prems(1) obtain d tr where
    m: "makeResults (rrHeight y) (bNumTxs (blocks ! indexOfBlockHeight blocks (rrHeight y)))
          (bTxs (blocks ! indexOfBlockHeight blocks (rrHeight y))) d = Ret tr"
    and lt: "indexOfBlockHeight blocks (rrHeight y) < length blocks"
    and e: "extractResults blocks (Suc i) raws (fetched[i := tr]) = Ret (rs, err)"
    by (auto simp: Let_def bindO_Ret_iff split: option.splits if_splits)
  from lt Cons.prems(3) have "block_wf (blocks ! indexOfBlockHeight blocks (rrHeight y))" by simp
  from makeResults_Ret [OF m this] have "None \<notin> set tr" by simp
  with Cons.prems(4) set_update_subset_insert [of fetched i tr] have "\<forall>r \<in> set (fetched[i := tr]). None \<notin> set r" by auto
  with Cons.IH [OF e] Cons.prems show ?case by simp
qed auto

lemma results_honest:
  assumes "honest Cl chain reqs" "\<forall>b \<in> set blocks. block_wf b"
    and "getTxResultFromBatch Cl ctx c blocks = Ret ((results, err), c')"
  shows "length results = length blocks \<and> (\<forall>r \<in> set results. None \<notin> set r)"
proof -
  have "\<exists>b'. addResultsRequests Cl b bs = Inr b' \<and> reqs b' = reqs b" for b bs
  proof (induction bs arbitrary: b)
    case (Cons x bs)
    obtain b' where "b_AddBlockResultsRequest Cl b (bHeight x) = (None, b')" "reqs b' = reqs b"
      using honestD(3) [OF assms(1)] by blast
    with Cons [of b] Cons [of b'] show ?case by auto
  qed simp
  then obtain b where b: "addResultsRequests Cl (c_CreateBatch Cl c) blocks = Inr b" "reqs b = []"
    using honestD(1) [OF assms(1)] by metis
  obtain r c1 where ex: "b_Execute Cl b Background c = (r, c1)" by force
  show ?thesis
  proof (cases "b_Count Cl b = 0")
    case True
    with assms(3) b show ?thesis by (auto simp: getTxResultFromBatch_def)
  next
    case False
    show ?thesis
    proof (cases r)
      case (Inl e)
      with assms(3) b ex False obtain errs where
        "getTxResultsSequentially_loop Cl ctx c1 blocks = Ret ((errs, results), c')"
        by (auto simp: getTxResultFromBatch_def getTxResultsSequentially_def bindO_Ret_iff)
      note al = sequential_aligned [OF this assms(2)]
      have "None \<notin> set r" if "r \<in> set results" for r
        using that list_all2_nthD2 [OF al] by (fastforce simp: in_set_conv_nth [of r])
      with list_all2_lengthD [OF al] show ?thesis by simp
    next
      case (Inr res)
      with assms(3) b ex False have
        e: "extractResults blocks 0 res (replicate (length blocks) []) = Ret (results, err)"
        by (auto simp: getTxResultFromBatch_def bindO_Ret_iff)
      from honestD(4) [OF assms(1)] ex Inr b(2) have "\<forall>x \<in> set res. \<exists>y. x = AnyResults y" by blast
      from extractResults_shape [OF e this assms(2)] show ?thesis by auto
    qed
  qed
qed

section \<open>Results\<close>

text \<open>
  A node that has the results as well, \<open>D\<close>: whenever it answers a batch of requests for results, or a single one whose context is
  not done, it answers with the results of the blocks asked for, in their order. \<open>rreqs\<close> reads these requests of a batch.
\<close>

definition serves_results ::
    "('c, 'b) client \<Rightarrow> (u64 \<Rightarrow> block) \<Rightarrow> (block \<Rightarrow> deliver_tx list) \<Rightarrow> ('b \<Rightarrow> u64 list) \<Rightarrow> ('b \<Rightarrow> u64 list) \<Rightarrow> bool" where
  "serves_results Cl chain D reqs rreqs \<longleftrightarrow>
     (\<forall>c. rreqs (c_CreateBatch Cl c) = []) \<and>
     (\<forall>b h b'. b_AddBlockResultsRequest Cl b h = (None, b') \<longrightarrow> rreqs b' = rreqs b @ [h]) \<and>
     (\<forall>b. b_Count Cl b = 0 \<longrightarrow> rreqs b = []) \<and>
     (\<forall>b ctx c res c'. b_Execute Cl b ctx c = (Inr res, c') \<and> reqs b = [] \<longrightarrow>
        res = map (\<lambda>h. answer D (chain h)) (rreqs b)) \<and>
     (\<forall>ctx c h. \<not> ctx c \<longrightarrow>
        (\<exists>c'. c_GetBlockResults Cl ctx c h = (Inr \<lparr>rrHeight = h, rrResults = Some (D (chain h))\<rparr>, c')))"

text \<open>The results of a block, one for each transaction.\<close>

abbreviation results_of :: "(block \<Rightarrow> deliver_tx list) \<Rightarrow> block \<Rightarrow> tx_result option list" where
  "results_of D b \<equiv> blockResults (bHeight b) (bTxs b) (D b)"

text \<open>There is a result for each transaction, which can be encoded, and the indexes of the transactions have 32 bits.\<close>

definition results_ok :: "codec \<Rightarrow> (u64 \<Rightarrow> block) \<Rightarrow> (block \<Rightarrow> deliver_tx list) \<Rightarrow> bool" where
  "results_ok C chain D \<longleftrightarrow> (\<forall>n. length (bTxs (chain n)) \<le> length (D (chain n)) \<and> length (bTxs (chain n)) < 2 ^ 32 \<and>
     (\<forall>t. Some t \<in> set (results_of D (chain n)) \<longrightarrow> \<not> isl (marshalTxResult C (Some t))))"

lemma blockResults_Nil [simp]: "blockResults h [] d = []"
  by (simp add: blockResults_def)

lemma no_txs: "block_wf b \<Longrightarrow> bNumTxs b = 0 \<longleftrightarrow> bTxs b = []"
  by (auto simp: block_wf_def) (metis signed_0 of_nat_eq_0_iff length_0_conv signed_eq_0_iff)

lemma concat_filter: "(\<And>x. x \<in> set xs \<Longrightarrow> \<not> p x \<Longrightarrow> f x = []) \<Longrightarrow> concat (map f (filter p xs)) = concat (map f xs)"
  by (induction xs) auto

lemma concat_replicate_Nil [simp]: "concat (replicate n []) = []"
  by (induction n) simp_all

lemma addResults_served:
  assumes "honest Cl chain reqs" "serves_results Cl chain D reqs rreqs"
  shows "\<exists>b'. addResultsRequests Cl b bs = Inr b' \<and> reqs b' = reqs b \<and>
    rreqs b' = rreqs b @ map (\<lambda>x. bHeight x) (filter (\<lambda>x. bNumTxs x \<noteq> 0) bs)"
proof (induction bs arbitrary: b)
  case (Cons x bs)
  obtain b' where "b_AddBlockResultsRequest Cl b (bHeight x) = (None, b')" "reqs b' = reqs b"
    using honestD(3) [OF assms(1)] by blast
  moreover from this(1) assms(2) have "rreqs b' = rreqs b @ [bHeight x]" by (auto simp: serves_results_def)
  ultimately show ?case using Cons [of b] Cons [of b'] by auto
qed simp

lemma sequential_served:
  assumes "serves_results Cl chain D reqs rreqs" "results_ok C chain D" "chain_ok C chain" "\<And>c. \<not> ctx c"
    and "getTxResultsSequentially_loop Cl ctx c (map chain ns) = Ret ((errs, rs), c')"
  shows "rs = map (\<lambda>n. results_of D (chain n)) ns"
  using assms(5)
proof (induction ns arbitrary: c errs rs)
  case (Cons n ns)
  have wf: "block_wf (chain n)" "bHeight (chain n) = n" using assms(3) by (simp_all add: chain_ok_def)
  show ?case
  proof (cases "bNumTxs (chain n) = 0")
    case True
    with no_txs [OF wf(1)] Cons show ?thesis by (auto simp: bindO_Ret_iff)
  next
    case False
    obtain c1 where g: "c_GetBlockResults Cl ctx c n = (Inr \<lparr>rrHeight = n, rrResults = Some (D (chain n))\<rparr>, c1)"
      using assms(1) [unfolded serves_results_def, THEN conjunct2, THEN conjunct2, THEN conjunct2, THEN conjunct2] assms(4) [of c]
      by blast
    have mk: "makeResults n (bNumTxs (chain n)) (bTxs (chain n)) (D (chain n)) = Ret (results_of D (chain n))"
      using wf assms(2) by (subst makeResults_ok) (simp_all add: block_wf_def results_ok_def)
    from Cons.prems False g wf(2) mk obtain errs' rs' where
      "getTxResultsSequentially_loop Cl ctx c1 (map chain ns) = Ret ((errs', rs'), c')" "rs = results_of D (chain n) # rs'"
      by (auto simp: bindO_Ret_iff split: if_splits)
    with Cons.IH show ?thesis by simp
  qed
qed simp

lemma results_served:
  assumes node: "honest Cl chain reqs" "serves_results Cl chain D reqs rreqs" "results_ok C chain D" "chain_ok C chain"
    and ctx: "\<And>c. \<not> ctx c" and ns: "distinct ns"
    and r: "getTxResultFromBatch Cl ctx c (map chain ns) = Ret ((results, err), c')"
  shows "concat results = concat (map (\<lambda>n. results_of D (chain n)) ns)"
proof -
  let ?bs = "map chain ns" and ?b0 = "c_CreateBatch Cl c"
  let ?full = "filter (\<lambda>b. bNumTxs b \<noteq> 0) ?bs"
  have wf: "\<forall>b \<in> set ?bs. block_wf b" using node(4) by (auto simp: chain_ok_def)
  have heights: "map (\<lambda>b. bHeight b) ?bs = ns" using node(4) by (simp add: chain_ok_def comp_def)
  have b0: "reqs ?b0 = []" "rreqs ?b0 = []" using node(2) honestD(1) [OF node(1)] by (simp_all add: serves_results_def)
  from addResults_served [OF node(1,2), of ?b0 ?bs] obtain b where
    b: "addResultsRequests Cl ?b0 ?bs = Inr b" "reqs b = []" "rreqs b = map (\<lambda>x. bHeight x) ?full"
    unfolding b0 by auto
  have all: "concat (map (results_of D) ?full) = concat (map (\<lambda>n. results_of D (chain n)) ns)"
    using concat_filter [of ?bs "\<lambda>b. bNumTxs b \<noteq> 0" "results_of D"] wf no_txs by (fastforce simp: comp_def)
  show ?thesis
  proof (cases "b_Count Cl b = 0")
    case True
    with node(2) b(3) have "?full = []" unfolding serves_results_def by (metis map_is_Nil_conv)
    with True r b(1) all show ?thesis by (auto simp: getTxResultFromBatch_def)
  next
    case False
    obtain x c1 where ex: "b_Execute Cl b Background c = (x, c1)" by force
    show ?thesis
    proof (cases x)
      case (Inl e)
      with r b(1) ex False obtain errs where "getTxResultsSequentially_loop Cl ctx c1 ?bs = Ret ((errs, results), c')"
        by (auto simp: getTxResultFromBatch_def getTxResultsSequentially_def bindO_Ret_iff)
      from sequential_served [OF node(2-4) ctx this] show ?thesis by simp
    next
      case (Inr res)
      have "map (\<lambda>h. answer D (chain h)) (rreqs b) = map (answer D) ?full"
        using node(4) by (auto simp: b(3) chain_ok_def)
      moreover have "res = map (\<lambda>h. answer D (chain h)) (rreqs b)"
        using node(2) ex Inr b(2) unfolding serves_results_def by blast
      ultimately have res: "b_Execute Cl b Background c = (Inr (map (answer D) ?full), c1)" using ex Inr by simp
      have "\<forall>b \<in> set ?full. block_wf b \<and> length (bTxs b) \<le> length (D b)"
        using wf node(3) by (auto simp: results_ok_def)
      note c = getTxResultFromBatch_compacts [OF b(1) False res, of ctx, OF _ this]
      have "results = map (results_of D) ?full @ replicate (length ?bs - length ?full) []"
        using c r heights ns by auto
      with all show ?thesis by simp
    qed
  qed
qed

section \<open>What a chunk holds\<close>

text \<open>
  What an honest node's chunk holds: blocks of its range, all of them if it is to be \<open>full\<close>, and, if \<open>R\<close> says what they are, their
  results, in whatever entries.
\<close>

definition chunk_of ::
    "(u64 \<Rightarrow> block) \<Rightarrow> bool \<Rightarrow> (block \<Rightarrow> deliver_tx list) option \<Rightarrow> chunkRange \<Rightarrow> chunk \<Rightarrow> bool" where
  "chunk_of chain full R cr ck \<longleftrightarrow> chunk_ok ck \<and>
     (\<exists>ns. ckBlocks ck = map chain ns \<and> set ns \<subseteq> set (blockNums (crFrom cr) (crTo cr)) \<and>
        (full \<longrightarrow> ns = blockNums (crFrom cr) (crTo cr)) \<and>
        (\<forall>D. R = Some D \<longrightarrow> length (ckResults ck) = length ns \<and>
           concat (ckResults ck) = concat (map (\<lambda>n. results_of D (chain n)) ns)))"

text \<open>
  What is relied on, \<open>d\<close> telling whether the context is done: an honest node, for full chunks one that answers all requests, and
  for results one that has them.
\<close>

definition follows ::
    "codec \<Rightarrow> ('c, 'b) client \<Rightarrow> (u64 \<Rightarrow> block) \<Rightarrow> ('b \<Rightarrow> u64 list) \<Rightarrow> ('b \<Rightarrow> u64 list) \<Rightarrow> bool \<Rightarrow>
     (block \<Rightarrow> deliver_tx list) option \<Rightarrow> bool \<Rightarrow> bool" where
  "follows C Cl chain reqs rreqs full R d \<longleftrightarrow> honest Cl chain reqs \<and> chain_ok C chain \<and> (full \<and> d \<longrightarrow> heedless Cl) \<and>
     (\<forall>D. R = Some D \<longrightarrow> full \<and> \<not> d \<and> serves_results Cl chain D reqs rreqs \<and> results_ok C chain D)"

lemma handleChunk_honest:
  assumes node: "follows C Cl chain reqs rreqs full R d" and ctx: "\<forall>c. ctx c \<longrightarrow> d"
    and cr: "crTo cr \<noteq> - 1" "crFrom cr \<le> crTo cr" and h: "handleChunk Cl ctx c cr = Some (Ret (resp, c'))"
  shows "\<exists>ck. wrChunk resp = Some ck \<and> chunk_of chain full R cr ck"
proof -
  from h obtain blocks err1 c1 results err2 where
    b: "getBlocksFromBatch Cl ctx c cr = Some ((blocks, err1), c1)"
    and r: "getTxResultFromBatch Cl ctx c1 blocks = Ret ((results, err2), c')"
    and w: "wrChunk resp = Some \<lparr>ckBlocks = blocks, ckResults = results\<rparr>"
    by (auto simp: handleChunk_def Option.bind_eq_Some_conv bindO_Ret_iff)
  from node have n: "honest Cl chain reqs" "chain_ok C chain" by (simp_all add: follows_def)
  from blocks_honest [OF n(1) cr b] obtain ns where
    ns: "blocks = map chain ns" "some_of Cl ctx ns (blockNums (crFrom cr) (crTo cr))" by blast
  have "\<forall>b \<in> set blocks. block_wf b" using n(2) ns(1) by (auto simp: chain_ok_def)
  note shape = results_honest [OF n(1) this r]
  have full: "full \<longrightarrow> ns = blockNums (crFrom cr) (crTo cr)" using ns(2) node ctx by (auto simp: some_of_def follows_def)
  have "concat results = concat (map (\<lambda>n. results_of D (chain n)) ns)" if "R = Some D" for D
    by (rule results_served [OF n(1) _ _ n(2) _ _ r [unfolded ns(1)]])
       (use node that ctx ns(2) in \<open>auto simp: follows_def some_of_def\<close>)
  then show ?thesis
    using full ns shape w by (auto simp: chunk_of_def chunk_ok_def some_of_def)
qed

section \<open>The index is complete\<close>

text \<open>Every block up to the latest height is stored.\<close>

definition complete :: "(u64 \<Rightarrow> block) \<Rightarrow> store \<Rightarrow> bool" where
  "complete chain st \<longleftrightarrow> (\<forall>n. 0 < n \<and> n \<le> latest_of st \<longrightarrow> stBlock st n = Some (chain n))"

text \<open>Every block up to a height is stored, and so are its results.\<close>

definition complete_to :: "(u64 \<Rightarrow> block) \<Rightarrow> (block \<Rightarrow> deliver_tx list) option \<Rightarrow> u64 \<Rightarrow> store \<Rightarrow> bool" where
  "complete_to chain R k st \<longleftrightarrow> (\<forall>n. 0 < n \<and> n \<le> k \<longrightarrow> stBlock st n = Some (chain n) \<and>
     (\<forall>D t. R = Some D \<and> Some t \<in> set (results_of D (chain n)) \<longrightarrow> stTx st (tx_pos t) = Some t))"

lemma complete_iff: "complete chain st \<longleftrightarrow> complete_to chain None (latest_of st) st"
  by (simp add: complete_def complete_to_def)

lemma complete_to_mono: "complete_to chain R k st \<Longrightarrow> j \<le> k \<Longrightarrow> complete_to chain R j st"
  by (auto simp: complete_to_def)

lemma txWrites_block [simp]: "stBlock (apply_writes C st (txWrites C rs)) = stBlock st"
  by (induction rs arbitrary: st) (auto simp: txWrites_def split: option.splits)

lemma chunkWrites_block:
  assumes "chain_ok C chain"
  shows "stBlock (apply_writes C st (chunkWrites C i (map chain ns) rs)) n =
    (if n \<in> set ns then Some (chain n) else stBlock st n)"
proof (induction ns arbitrary: st i)
  case (Cons m ns)
  have "bHeight (chain m) = m" "\<not> isl (marshalBlock C (chain m))" using assms by (auto simp: chain_ok_def)
  with Cons show ?case by simp
qed simp

text \<open>The transactions a chunk writes.\<close>

lemma txWrites_mem: "WTx t \<in> set (txWrites C rs) \<longleftrightarrow> Some t \<in> set rs \<and> \<not> isl (marshalTxResult C (Some t))"
  by (induction rs) (auto simp: txWrites_def split: option.splits)

lemma chunkWrites_mem:
  assumes "chain_ok C chain" "i + length ns = length rs"
  shows "WTx t \<in> set (chunkWrites C i (map chain ns) rs) \<longleftrightarrow>
    Some t \<in> set (concat (drop i rs)) \<and> \<not> isl (marshalTxResult C (Some t))"
  using assms(2)
proof (induction ns arbitrary: i)
  case (Cons m ns)
  have "\<not> isl (marshalBlock C (chain m))" using assms(1) by (auto simp: chain_ok_def)
  moreover have "drop i rs = (rs ! i) # drop (Suc i) rs" using Cons.prems by (simp add: Cons_nth_drop_Suc)
  moreover from Cons have "WTx t \<in> set (chunkWrites C (Suc i) (map chain ns) rs) \<longleftrightarrow>
      Some t \<in> set (concat (drop (Suc i) rs)) \<and> \<not> isl (marshalTxResult C (Some t))" by simp
  ultimately show ?case by (auto simp: txWrites_mem)
qed simp

lemma writes_tx:
  assumes "\<And>t t'. WTx t \<in> set ws \<Longrightarrow> WTx t' \<in> set ws \<Longrightarrow> tx_pos t = tx_pos t' \<Longrightarrow> t = t'"
  shows "WTx t \<in> set ws \<Longrightarrow> stTx (apply_writes C st ws) (tx_pos t) = Some t"
  using assms
proof (induction ws rule: rev_induct)
  case (snoc w ws)
  show ?case
  proof (cases w)
    case (WTx u)
    show ?thesis
    proof (cases "tx_pos u = tx_pos t")
      case True
      with snoc.prems WTx have "u = t" by auto
      with WTx show ?thesis by simp
    next
      case False
      with snoc WTx show ?thesis by auto
    qed
  qed (use snoc in auto)
qed simp

lemma writes_no_tx: "(\<And>t. WTx t \<in> set ws \<Longrightarrow> tx_pos t \<noteq> p) \<Longrightarrow> stTx (apply_writes C st ws) p = stTx st p"
proof (induction ws arbitrary: st)
  case (Cons w ws)
  then show ?case by (cases w) auto
qed simp

text \<open>The place of a result tells its block and its index.\<close>

lemma result_mem:
  assumes "chain_ok C chain"
  shows "Some t \<in> set (results_of D (chain n)) \<longleftrightarrow> (\<exists>k < length (bTxs (chain n)).
    t = \<lparr>trHeight = n, trIndex = of_nat k, trTx = bTxs (chain n) ! k, trResponse = D (chain n) ! k\<rparr>)"
  using assms by (auto simp: blockResults_def chain_ok_def)

lemma result_place:
  assumes "chain_ok C chain" "results_ok C chain D" "Some t \<in> set (results_of D (chain n))"
    "Some t' \<in> set (results_of D (chain m))" "tx_pos t = tx_pos t'"
  shows "n = m \<and> t = t'"
proof -
  obtain k k' where k: "k < length (bTxs (chain n))" "k' < length (bTxs (chain m))"
    "t = \<lparr>trHeight = n, trIndex = of_nat k, trTx = bTxs (chain n) ! k, trResponse = D (chain n) ! k\<rparr>"
    "t' = \<lparr>trHeight = m, trIndex = of_nat k', trTx = bTxs (chain m) ! k', trResponse = D (chain m) ! k'\<rparr>"
    using assms(3,4) unfolding result_mem [OF assms(1)] by blast
  with assms(5) have "n = m" "(of_nat k :: u32) = of_nat k'" by (simp_all add: tx_pos_def)
  moreover have "unat (of_nat j :: u32) = j" if "j < length (bTxs (chain i))" for j i
  proof -
    have "length (bTxs (chain i)) < 2 ^ 32" using assms(2) unfolding results_ok_def by blast
    with that show ?thesis by (simp add: unat_of_nat)
  qed
  ultimately show ?thesis using k by metis
qed

section \<open>Writing keeps it complete\<close>

definition slots_of :: "(u64 \<Rightarrow> block) \<Rightarrow> bool \<Rightarrow> (block \<Rightarrow> deliver_tx list) option \<Rightarrow> slot list \<Rightarrow> bool" where
  "slots_of chain full R q \<longleftrightarrow> (\<forall>s \<in> set q. \<forall>ck. slChunk s = Some ck \<longrightarrow> chunk_of chain full R (slRange s) ck)"

text \<open>The height up to which a store is complete: the latest, or a given one.\<close>

definition extent :: "bool \<Rightarrow> u64 \<Rightarrow> store \<Rightarrow> u64" where
  "extent full k st = (if full then latest_of st else k)"

lemma complete_write:
  assumes node: "follows C Cl chain reqs rreqs full R d" and st: "complete_to chain R (extent full k st) st" "k \<le> latest_of st"
    and ck: "slChunk s = Some ck" "chunk_of chain full R (slRange s) ck"
    and start: "unat (crFrom (slRange s)) = Suc (unat (latest_of st))"
  shows "complete_to chain R (extent full k (apply_writes C st (slotWrites C s))) (apply_writes C st (slotWrites C s))"
proof -
  let ?w = "apply_writes C st (slotWrites C s)"
  from node have ok: "chain_ok C chain" by (simp add: follows_def)
  from ck(2) obtain ns where
    ns: "ckBlocks ck = map chain ns" "set ns \<subseteq> set (blockNums (crFrom (slRange s)) (crTo (slRange s)))"
      "full \<longrightarrow> ns = blockNums (crFrom (slRange s)) (crTo (slRange s))"
      "\<forall>D. R = Some D \<longrightarrow> length (ckResults ck) = length ns \<and>
         concat (ckResults ck) = concat (map (\<lambda>n. results_of D (chain n)) ns)" by (auto simp: chunk_of_def)
  have blk: "stBlock ?w n = (if n \<in> set ns then Some (chain n) else stBlock st n)" for n
    using ck(1) ns(1) chunkWrites_block [OF ok] by (simp add: slotWrites_def)
  have low: "n \<notin> set ns" if "n \<le> latest_of st" for n
    using that start ns(2) by (auto simp: mem_blockNums word_le_nat_alt)
  have high: "n \<in> set ns" if "full" "n \<le> crTo (slRange s)" "\<not> n \<le> latest_of st" for n
    using that ns(3) start by (simp add: mem_blockNums word_le_nat_alt)
  have l: "latest_of ?w = crTo (slRange s)" using ck(1) by (simp add: slotWrites_def latest_of_def)
  have res: "stTx ?w (tx_pos t) = Some t"
    if D: "R = Some D" and t: "Some t \<in> set (results_of D (chain n))" and n: "n \<in> set ns \<or> stTx st (tx_pos t) = Some t" for D t n
  proof -
    let ?ws = "slotWrites C s"
    from node D have rok: "results_ok C chain D" by (auto simp: follows_def)
    have ws: "WTx u \<in> set ?ws \<longleftrightarrow> (\<exists>m \<in> set ns. Some u \<in> set (results_of D (chain m)))" for u
    proof -
      have "WTx u \<in> set ?ws \<longleftrightarrow> Some u \<in> set (concat (ckResults ck)) \<and> \<not> isl (marshalTxResult C (Some u))"
        using ck(1) ns(1) chunkWrites_mem [OF ok, of 0 ns "ckResults ck" u] ns(4) D by (simp add: slotWrites_def)
      also have "\<dots> \<longleftrightarrow> (\<exists>m \<in> set ns. Some u \<in> set (results_of D (chain m)))"
        using ns(4) D rok by (auto simp: results_ok_def)
      finally show ?thesis .
    qed
    have one: "u = u'" if "WTx u \<in> set ?ws" "WTx u' \<in> set ?ws" "tx_pos u = tx_pos u'" for u u'
      using that result_place [OF ok rok] unfolding ws by blast
    show ?thesis
    proof (cases "n \<in> set ns")
      case True
      with t have "WTx t \<in> set ?ws" unfolding ws by blast
      from writes_tx [OF one this] show ?thesis by blast
    next
      case False
      have "tx_pos u \<noteq> tx_pos t" if "WTx u \<in> set ?ws" for u
        using that result_place [OF ok rok _ t] False unfolding ws by blast
      from writes_no_tx [of ?ws "tx_pos t", OF this] n False show ?thesis by simp
    qed
  qed
  have old: "n \<in> set ns \<or> (stBlock st n = Some (chain n) \<and>
      (\<forall>D t. R = Some D \<and> Some t \<in> set (results_of D (chain n)) \<longrightarrow> stTx st (tx_pos t) = Some t))"
    if "0 < n" "n \<le> extent full k ?w" for n
    using that high st unfolding extent_def l complete_to_def by (cases full; cases "n \<le> latest_of st") auto
  show ?thesis
    unfolding complete_to_def
  proof (intro allI impI conjI)
    fix n assume n: "0 < n \<and> n \<le> extent full k ?w"
    with old show "stBlock ?w n = Some (chain n)" by (auto simp: blk)
    fix D t assume t: "R = Some D \<and> Some t \<in> set (results_of D (chain n))"
    with old n have "n \<in> set ns \<or> stTx st (tx_pos t) = Some t" by blast
    with res t show "stTx ?w (tx_pos t) = Some t" by blast
  qed
qed

lemma complete_writes:
  assumes node: "follows C Cl chain reqs rreqs full R d"
    and "complete_to chain R (extent full k st) st" "k \<le> latest_of st" "slots_of chain full R ss" "\<forall>s \<in> set ss. slChunk s \<noteq> None"
    and "contig (Suc (unat (latest_of st))) (map slRange ss)"
  shows "complete_to chain R (extent full k (apply_writes C st (concat (map (slotWrites C) ss))))
    (apply_writes C st (concat (map (slotWrites C) ss)))"
  using assms(2-6)
proof (induction ss arbitrary: st)
  case (Cons s ss)
  then obtain ck where ck: "slChunk s = Some ck" "chunk_of chain full R (slRange s) ck"
    by (fastforce simp: slots_of_def)
  have "complete_to chain R (extent full k (apply_writes C st (slotWrites C s))) (apply_writes C st (slotWrites C s))"
    using Cons.prems by (intro complete_write [OF node _ _ ck]) simp_all
  moreover have l: "latest_of (apply_writes C st (slotWrites C s)) = crTo (slRange s)"
    using ck(1) by (simp add: slotWrites_def latest_of_def)
  moreover have "k \<le> crTo (slRange s)" using Cons.prems(2,5) by (auto simp: word_le_nat_alt)
  ultimately show ?case using Cons by (simp add: slots_of_def)
qed simp

text \<open>The invariant of a run on an honest node.\<close>

definition honest_inv ::
    "('st \<Rightarrow> store) \<Rightarrow> (u64 \<Rightarrow> block) \<Rightarrow> bool \<Rightarrow> (block \<Rightarrow> deliver_tx list) option \<Rightarrow> u64 \<Rightarrow> ('st, 'c) fetch_run \<Rightarrow> bool" where
  "honest_inv sabs chain full R k r \<longleftrightarrow>
     (let st = sabs (fStorage (frFetcher r)) in k \<le> latest_of st \<and> complete_to chain R (extent full k st) st) \<and>
     slots_of chain full R (sQueue (fBuffer (frFetcher r))) \<and>
     (\<forall>resp \<in> set (frChannel r). \<forall>ck. wrChunk resp = Some ck \<longrightarrow> chunk_of chain full R (wrRange resp) ck)"

lemma slots_of_complete: "slots_of chain full R q \<Longrightarrow> slots_complete q"
  by (auto simp: slots_of_def slots_complete_def chunk_of_def)

lemma slots_of_update:
  assumes "slots_of chain full R q" "k < length q" "\<forall>ck. c = Some ck \<longrightarrow> chunk_of chain full R (slRange (q ! k)) ck"
  shows "slots_of chain full R (q[k := (q ! k)\<lparr>slChunk := c\<rparr>])"
  using assms set_update_subset_insert [of q k "(q ! k)\<lparr>slChunk := c\<rparr>"] unfolding slots_of_def by auto

text \<open>What is kept at any rate.\<close>

lemma chunk_of_some: "chunk_of chain full R cr ck \<Longrightarrow> chunk_of chain False None cr ck"
  by (auto simp: chunk_of_def)

lemma honest_inv_some:
  assumes "honest_inv sabs chain True None 0 r"
  shows "honest_inv sabs chain False None (latest_of (sabs (fStorage (frFetcher r)))) r"
  using assms chunk_of_some unfolding honest_inv_def extent_def slots_of_def by (simp add: Let_def) blast

lemma follows_some: "follows C Cl chain reqs rreqs full R d \<Longrightarrow> follows C Cl chain reqs rreqs False None d'"
  by (simp add: follows_def)

lemma follows_before: "follows C Cl chain reqs rreqs full R d \<Longrightarrow> (d' \<longrightarrow> d) \<Longrightarrow> follows C Cl chain reqs rreqs full R d'"
  by (auto simp: follows_def)

lemma done_stays_done: "fetch_step S Cl Q r r' \<Longrightarrow> frDone r \<Longrightarrow> frDone r'"
  by (induction rule: fetch_step.induct) auto

section \<open>Every step keeps it complete\<close>

context fetching
begin

lemma range_bounds:
  assumes "fetch_inv sabs sinv sz r" "cr \<in># frWorkers r"
  shows "crTo cr \<noteq> - 1 \<and> crFrom cr \<le> crTo cr"
proof -
  let ?q = "sQueue (fBuffer (frFetcher r))"
  from waiting(2) [OF assms] obtain s where s: "s \<in> set ?q" "slRange s = cr" by (auto simp: pending_def)
  from assms(1) s have "unat (crTo cr) + unat (fMaxChunkSize (frFetcher r)) < 2 ^ 64"
    "0 < unat (fMaxChunkSize (frFetcher r))" by (auto simp: fetch_inv_def fetcher_ok_def)
  then have "unat (crTo cr) < 18446744073709551615" by simp
  then have "crTo cr \<noteq> - 1" by (auto simp: unsigned_minus_1_eq_mask mask_eq_exp_minus_1)
  moreover from assms(1) have "spaced (Suc (unat (latest_of (sabs (fStorage (frFetcher r)))))) (map slRange ?q)"
    by (auto simp: fetch_inv_def fetcher_ok_def lined_up_def intro: contig_spaced)
  ultimately show ?thesis using s by (auto simp: spaced_iff word_le_nat_alt)
qed

text \<open>What a handled response writes: leading slots, which follow the latest height.\<close>

lemma received_slots:
  assumes inv: "fetch_inv sabs sinv sz r" and hinv: "honest_inv sabs chain full R k r"
    and ch: "frChannel r = resp # rest" and h: "handleResponse S Q (frFetcher r) resp = Some (Ret (err, f))"
  shows "\<exists>ss. slots_of chain full R ss \<and> slots_of chain full R (sQueue (fBuffer f)) \<and> (\<forall>s \<in> set ss. slChunk s \<noteq> None) \<and>
    contig (Suc (unat (latest_of (sabs (fStorage (frFetcher r)))))) (map slRange ss) \<and>
    sabs (fStorage f) = apply_writes C (sabs (fStorage (frFetcher r))) (concat (map (slotWrites C) ss)) \<and>
    fEvents f = fEvents (frFetcher r) @ concat (map (slotEvents C) ss)"
proof -
  let ?f = "frFetcher r" and ?q = "sQueue (fBuffer (frFetcher r))"
  from inv have ok: "fetcher_ok sabs sinv ?f" by (simp add: fetch_inv_def)
  from waiting(1) [OF inv ch] obtain i where i: "i < length ?q" "slRange (?q ! i) = wrRange resp"
    by (auto simp: pending_def in_set_conv_nth)
  let ?q1 = "?q[i := (?q ! i)\<lparr>slChunk := wrChunk resp\<rparr>]"
  have ranges: "map slRange ?q1 = map slRange ?q" using i(1) by (simp add: map_update list_update_same_conv)
  have lu: "lined_up sabs sinv (?f\<lparr>fBuffer := (fBuffer ?f)\<lparr>sQueue := ?q1\<rparr>\<rparr>)"
    using ok ranges by (simp add: fetcher_ok_def lined_up_def)
  from h response_slot [OF ok i] flush_inv [OF lu] obtain ss where
    "wrote sabs C (?f\<lparr>fBuffer := (fBuffer ?f)\<lparr>sQueue := ?q1\<rparr>\<rparr>) ss f" by auto
  from wroteD [OF this] have q: "?q1 = ss @ sQueue (fBuffer f)" and w: "\<forall>s \<in> set ss. slChunk s \<noteq> None"
    "sabs (fStorage f) = apply_writes C (sabs (fStorage ?f)) (concat (map (slotWrites C) ss))"
    "fEvents f = fEvents ?f @ concat (map (slotEvents C) ss)" by simp_all
  have "slots_of chain full R ?q1"
    using hinv i ch by (intro slots_of_update) (auto simp: honest_inv_def)
  then have so: "slots_of chain full R ss" "slots_of chain full R (sQueue (fBuffer f))"
    unfolding q by (auto simp: slots_of_def)
  have "contig (Suc (unat (latest_of (sabs (fStorage ?f))))) (map slRange (ss @ sQueue (fBuffer f)))"
    using ok unfolding q [symmetric] ranges by (simp add: fetcher_ok_def lined_up_def)
  then have "contig (Suc (unat (latest_of (sabs (fStorage ?f))))) (map slRange ss)" by simp
  with so w show ?thesis by blast
qed

lemma honest_step:
  assumes step: "fetch_step S Cl Q r r'" and fit: "heights_fit Cl sz" and inv: "fetch_inv sabs sinv sz r"
    and run: "frPhase r = Running" "frPhase r' = Running"
    and node: "follows C Cl chain reqs rreqs full R (frDone r)" and hinv: "honest_inv sabs chain full R k r"
  shows "honest_inv sabs chain full R k r'"
  using step
proof cases
  case (fs_tick ctx gaps f)
  have ok: "fetcher_ok sabs sinv (frFetcher r)" and "heights_fit Cl (unat (fMaxChunkSize (frFetcher r)))"
    using inv fit by (simp_all add: fetch_inv_def)
  from attempt_inv [OF this, of ctx] fs_tick(4) have "fStorage f = fStorage (frFetcher r)"
    "sQueue (fBuffer f) = sQueue (fBuffer (frFetcher r)) @ map (\<lambda>r. \<lparr>slChunk = None, slRange = r\<rparr>) gaps" by auto
  with hinv fs_tick(1) show ?thesis by (auto simp: honest_inv_def slots_of_def)
next
  case (fs_work ctx cr c resp c')
  have ctx: "\<forall>c. ctx c \<longrightarrow> frDone r" using fs_work(3) by (simp add: ctx_of_def)
  note b = range_bounds [OF inv fs_work(4)]
  from handleChunk_honest [OF node ctx _ _ fs_work(5)] b handleChunk_Ret [OF fs_work(5)]
  show ?thesis using hinv fs_work(1) by (auto simp: honest_inv_def)
next
  case (fs_recv resp rest f)
  from received_slots [OF inv hinv fs_recv(3,4)] obtain ss where
    ss: "slots_of chain full R ss" "slots_of chain full R (sQueue (fBuffer f))" "\<forall>s \<in> set ss. slChunk s \<noteq> None"
      "contig (Suc (unat (latest_of (sabs (fStorage (frFetcher r)))))) (map slRange ss)"
      "sabs (fStorage f) = apply_writes C (sabs (fStorage (frFetcher r))) (concat (map (slotWrites C) ss))" by blast
  have st: "k \<le> latest_of (sabs (fStorage (frFetcher r)))"
    "complete_to chain R (extent full k (sabs (fStorage (frFetcher r)))) (sabs (fStorage (frFetcher r)))"
    using hinv by (simp_all add: honest_inv_def Let_def)
  have "k \<le> latest_of (sabs (fStorage f))"
    using step_inv [OF step fit _ run(2)] inv st(1) fs_recv(1) by (auto intro: order_trans)
  with complete_writes [OF node st(2,1) ss(1,3,4)] ss(2) hinv fs_recv(1,3) show ?thesis
    by (auto simp: honest_inv_def ss(5) Let_def)
qed (use run hinv in \<open>auto simp: honest_inv_def\<close>)

lemma honest_reach:
  assumes "(fetch_step S Cl Q)\<^sup>*\<^sup>* r0 r" "heights_fit Cl sz" "frPhase r0 = Running \<longrightarrow> fetch_inv sabs sinv sz r0"
    and "frPhase r = Running" "follows C Cl chain reqs rreqs full R (frDone r)" "honest_inv sabs chain full R k r0"
  shows "honest_inv sabs chain full R k r"
  using assms(1,4,5)
proof (induction rule: rtranclp_induct)
  case (step y z)
  note y = Running_back [OF step.hyps(2) step.prems(1)]
  have node: "follows C Cl chain reqs rreqs full R (frDone y)"
    using follows_before [OF step.prems(2)] done_stays_done [OF step.hyps(2)] by blast
  from reach_inv [OF step.hyps(1) assms(2,3) y] have "fetch_inv sabs sinv sz y" by blast
  from honest_step [OF step.hyps(2) assms(2) this y step.prems(1) node step.IH [OF y node]] show ?case .
qed (use assms in auto)

end

context pebble_fetch
begin

lemma genesis_complete:
  assumes "Fetcher_fetchGenesisData (pebble_storage P C) C Cl ctx f = Ret (err, f')" "db_ok C (dbv (fStorage f))"
    and "complete_to chain R (latest_of (db_store C (dbv (fStorage f)))) (db_store C (dbv (fStorage f)))"
  shows "complete_to chain R (latest_of (db_store C (dbv (fStorage f')))) (db_store C (dbv (fStorage f')))"
proof -
  have "complete_to chain R (latest_of (db_store C (dbv (fStorage f1)))) (db_store C (dbv (fStorage f1)))"
    if "Fetcher_writeSlot (pebble_storage P C) (f\<lparr>fClient := c1\<rparr>)
          \<lparr>slChunk = ch, slRange = \<lparr>crFrom = 0, crTo = 0\<rparr>\<rparr> = Ret (err1, f1)" for c1 ch err1 f1
    using writeSlot_inv [OF that] assms(2) by (auto simp: complete_to_def latest_of_def)
  with assms(1,3) show ?thesis
    by (auto simp: Fetcher_fetchGenesisData_def bindO_Ret_iff split: sum.splits if_splits prod.splits option.splits)
qed

lemma start_queue:
  assumes "db_ok C (dbv d0)" "f = Fetcher_New d0 c opts"
    and "Fetcher_fetchGenesisData (pebble_storage P C) C Cl ctx f = Ret (err, f')"
  shows "sQueue (fBuffer f') = []"
proof -
  have f: "fStorage f = d0" "sQueue (fBuffer f) = []"
    by (simp_all add: assms(2) Fetcher_New_def Let_def New_fields)
  have "fBuffer f1 = fBuffer f" if "Fetcher_writeSlot (pebble_storage P C) (f\<lparr>fClient := c1\<rparr>) s = Ret (err1, f1)"
    for c1 s err1 f1 using writeSlot_inv [OF that] assms(1) f(1) by auto
  with assms(3) f show ?thesis
    by (auto simp: Fetcher_fetchGenesisData_def bindO_Ret_iff split: sum.splits if_splits prod.splits option.splits)
qed

text \<open>The start of a run, and the invariant in every state of it.\<close>

lemma start_honest:
  assumes run: "fetch_run_of P dbv C Q Cl f0 r" "frPhase r = Running"
    and start: "complete_to chain R (latest_of (db_store C (dbv (fStorage f0)))) (db_store C (dbv (fStorage f0)))"
  obtains ctx r0 err f' where "(fetch_step (pebble_storage P C) Cl Q)\<^sup>*\<^sup>* r0 r" "heights_fit Cl (unat (fMaxChunkSize f0))"
    "fetch_inv (\<lambda>d. db_store C (dbv d)) (\<lambda>d. db_ok C (dbv d)) (unat (fMaxChunkSize f0)) r0"
    "honest_inv (\<lambda>d. db_store C (dbv d)) chain True R 0 r0"
    "Fetcher_fetchGenesisData (pebble_storage P C) C Cl ctx f0 = Ret (err, f')" "frFetcher r0 = f'"
proof -
  from run(1) obtain d0 c0 opts ctx where
    f0: "db_ok C (dbv d0)" "f0 = Fetcher_New d0 c0 opts" "0 \<le> fMaxSlots f0" "0 < unat (fMaxChunkSize f0)"
      "heights_fit Cl (unat (fMaxChunkSize f0))"
      "(fetch_step (pebble_storage P C) Cl Q)\<^sup>*\<^sup>* (FetchChainData_start (pebble_storage P C) C Cl ctx f0) r"
    by (auto simp: fetch_run_of_def)
  let ?r0 = "FetchChainData_start (pebble_storage P C) C Cl ctx f0"
  have f0s: "fStorage f0 = d0" by (simp add: f0(2) Fetcher_New_def Let_def New_fields)
  have ph: "frPhase ?r0 = Running"
    using f0(6) run(2) by (induction rule: converse_rtranclp_induct) (auto dest: Running_back)
  then obtain err f' where g: "Fetcher_fetchGenesisData (pebble_storage P C) C Cl ctx f0 = Ret (err, f')"
    by (auto simp: FetchChainData_start_def split: outcome.splits)
  have "honest_inv (\<lambda>d. db_store C (dbv d)) chain True R 0 ?r0"
    using genesis_complete [OF g _ start] f0(1) f0s g start_queue [OF f0(1,2) g]
    by (simp add: honest_inv_def FetchChainData_start_def slots_of_def extent_def)
  moreover have "fetch_inv (\<lambda>d. db_store C (dbv d)) (\<lambda>d. db_ok C (dbv d)) (unat (fMaxChunkSize f0)) ?r0"
    using start_inv [OF f0(1-4) ph] .
  moreover have "frFetcher ?r0 = f'" using g by (simp add: FetchChainData_start_def)
  ultimately show ?thesis using that [of ?r0] f0(5,6) g by blast
qed

lemma run_honest:
  assumes "fetch_run_of P dbv C Q Cl f0 r" "frPhase r = Running" "follows C Cl chain reqs rreqs True R (frDone r)"
    and "complete_to chain R (latest_of (db_store C (dbv (fStorage f0)))) (db_store C (dbv (fStorage f0)))"
  shows "honest_inv (\<lambda>d. db_store C (dbv d)) chain True R 0 r"
  by (rule start_honest [OF assms(1,2,4)]) (rule honest_reach [OF _ _ _ assms(2,3)]; blast)

text \<open>With the node of the properties.\<close>

lemma follows_blocks:
  "honest Cl chain reqs \<Longrightarrow> chain_ok C chain \<Longrightarrow> d \<longrightarrow> heedless Cl \<Longrightarrow> follows C Cl chain reqs rreqs True None d"
  by (simp add: follows_def)

lemma follows_results:
  "honest Cl chain reqs \<Longrightarrow> chain_ok C chain \<Longrightarrow> serves_results Cl chain D reqs rreqs \<Longrightarrow> results_ok C chain D \<Longrightarrow> \<not> d \<Longrightarrow>
   follows C Cl chain reqs rreqs True (Some D) d"
  by (simp add: follows_def)

lemma run_complete_store:
  assumes "fetch_run_of P dbv C Q Cl f0 r" "frPhase r = Running" "frDone r \<longrightarrow> heedless Cl"
    and "honest Cl chain reqs" "chain_ok C chain" "complete chain (db_store C (dbv (fStorage f0)))"
  shows "complete chain (db_store C (dbv (fStorage (frFetcher r))))"
  using run_honest [OF assms(1,2) follows_blocks [OF assms(4,5,3)]] assms(6)
  by (simp add: complete_iff honest_inv_def extent_def Let_def)

lemma complete_reads:
  assumes "db_ok C (dbv d)" "complete chain (db_store C (dbv d))" "Pebble_GetLatestHeight P d = Inr h" "0 < n" "n \<le> h"
  shows "Pebble_GetBlock P C d n = Inr (chain n)"
proof -
  from assms(3) P_reads(1) [OF assms(1)] have "latest_of (db_store C (dbv d)) = h"
    by (simp add: latest_of_def split: option.splits)
  with assms(2,4,5) P_reads(2) [OF assms(1), of n] show ?thesis by (simp add: complete_def)
qed

lemma run_ok: "fetch_run_of P dbv C Q Cl f0 r \<Longrightarrow> frPhase r = Running \<Longrightarrow> db_ok C (dbv (fStorage (frFetcher r)))"
  using run_inv [of Cl f0 r] by (simp add: fetch_inv_def fetcher_ok_def lined_up_def)

lemma run_complete:
  assumes "fetch_run_of P dbv C Q Cl f0 r" "frPhase r = Running" "frDone r \<longrightarrow> heedless Cl"
    and "honest Cl chain reqs" "chain_ok C chain" "complete chain (db_store C (dbv (fStorage f0)))"
    and "Pebble_GetLatestHeight P (fStorage (frFetcher r)) = Inr h" "0 < n" "n \<le> h"
  shows "Pebble_GetBlock P C (fStorage (frFetcher r)) n = Inr (chain n)"
  using complete_reads [OF run_ok [OF assms(1,2)] run_complete_store [OF assms(1-6)] assms(7-9)] .

lemma run_results:
  assumes "fetch_run_of P dbv C Q Cl f0 r" "frPhase r = Running" "\<not> frDone r"
    and node: "honest Cl chain reqs" "chain_ok C chain" "serves_results Cl chain D reqs rreqs" "results_ok C chain D"
    and start: "complete_to chain (Some D) (latest_of (db_store C (dbv (fStorage f0)))) (db_store C (dbv (fStorage f0)))"
    and h: "Pebble_GetLatestHeight P (fStorage (frFetcher r)) = Inr h" "0 < n" "n \<le> h" "i < length (bTxs (chain n))"
  shows "Pebble_GetTx P C (fStorage (frFetcher r)) n (of_nat i) =
    Inr \<lparr>trHeight = n, trIndex = of_nat i, trTx = bTxs (chain n) ! i, trResponse = D (chain n) ! i\<rparr>"
proof -
  let ?t = "\<lparr>trHeight = n, trIndex = of_nat i, trTx = bTxs (chain n) ! i, trResponse = D (chain n) ! i\<rparr>"
  note ok = run_ok [OF assms(1,2)]
  have "complete_to chain (Some D) (latest_of (db_store C (dbv (fStorage (frFetcher r))))) (db_store C (dbv (fStorage (frFetcher r))))"
    using run_honest [OF assms(1,2) follows_results [OF node assms(3)] start] by (simp add: honest_inv_def extent_def Let_def)
  moreover have "latest_of (db_store C (dbv (fStorage (frFetcher r)))) = h"
    using h(1) P_reads(1) [OF ok] by (simp add: latest_of_def split: option.splits)
  moreover have "Some ?t \<in> set (results_of D (chain n))" using h(4) by (auto simp: result_mem [OF node(2)])
  ultimately have "stTx (db_store C (dbv (fStorage (frFetcher r)))) (tx_pos ?t) = Some ?t"
    using h(2,3) unfolding complete_to_def by blast
  then show ?thesis using P_reads(3) [OF ok, of n "of_nat i"] by (simp add: tx_pos_def)
qed

text \<open>What a run has indexed while its context was not done stays indexed.\<close>

lemma run_keeps:
  assumes run: "fetch_run_of P dbv C Q Cl f0 r" "frPhase r = Running" "frDone r \<longrightarrow> heedless Cl"
    and node: "honest Cl chain reqs" "chain_ok C chain" "complete chain (db_store C (dbv (fStorage f0)))"
    and more: "(fetch_step (pebble_storage P C) Cl Q)\<^sup>*\<^sup>* r r'" "frPhase r' = Running"
  shows "latest_of (db_store C (dbv (fStorage (frFetcher r)))) \<le> latest_of (db_store C (dbv (fStorage (frFetcher r')))) \<and>
    complete_to chain None (latest_of (db_store C (dbv (fStorage (frFetcher r))))) (db_store C (dbv (fStorage (frFetcher r'))))"
proof -
  have "honest_inv (\<lambda>d. db_store C (dbv d)) chain True None 0 r"
    using run_honest [OF run(1,2) follows_blocks [OF node(1,2) run(3)]] node(3) by (simp add: complete_iff)
  note some = honest_inv_some [OF this]
  note inv = run_inv [OF run(1,2)]
  have "honest_inv (\<lambda>d. db_store C (dbv d)) chain False None (latest_of (db_store C (dbv (fStorage (frFetcher r))))) r'"
    by (rule honest_reach [OF more(1) inv [THEN conjunct2] _ more(2) _ some])
       (use inv follows_some [OF follows_blocks [OF node(1,2) run(3)]] in blast)+
  then show ?thesis by (simp add: honest_inv_def extent_def Let_def)
qed

end

section \<open>The properties\<close>

text \<open>
  C3. The index is complete: on a node that serves one chain, started on a store that holds the chain up to its latest height (for instance
  an empty one), in every state in which the loop runs each block from 1 to the latest height is read back as the
  block of the chain, as long as the context is not done (or if the client answers also then). Batches may fail at any time and fall
  back to single requests; ticks, workers and responses interleave in any way.
\<close>

theorem FetchChainData_complete:
  assumes "pebble_fetch P dbv btv ient ipos C Q"
    and "fetch_run_of P dbv C Q Cl f0 r" and "frPhase r = Running" and "frDone r \<longrightarrow> heedless Cl"
    and "honest Cl chain reqs" and "chain_ok C chain"
    and "complete chain (db_store C (dbv (fStorage f0)))"
    and "Pebble_GetLatestHeight P (fStorage (frFetcher r)) = Inr h" and "0 < n" and "n \<le> h"
  shows "Pebble_GetBlock P C (fStorage (frFetcher r)) n = Inr (chain n)"
  using assms by (rule pebble_fetch.run_complete)

lemma ex_honest: "honest ex_client ex_chain fst"
  by (auto simp: honest_def ex_client_def chain_node_def answer_def split: if_splits)

lemma ex_chain_ok: "chain_ok ref_codec ex_chain"
proof -
  have "ref_decBlock (ref_encBlock (ex_chain n)) = ex_chain n" for n
    by (simp add: ref_decBlock_def ref_encBlock_def ex_chain_def mk_block_def ref_split_def)
  then show ?thesis
    by (simp add: chain_ok_def block_wf_def ref_codec_def Let_def) (simp add: ex_chain_def mk_block_def)
qed

text \<open>A run of the example in which the only block is in the store.\<close>

abbreviation "ex_slot \<equiv> \<lparr>slChunk = wrChunk ex_resp, slRange = ex_range\<rparr>"

lemma received_one:
  assumes run: "fetch_run_of ref_pebble map_of ref_codec ref_queue Cl ex_fetcher r" "frPhase r = Running" "frChannel r = [resp]"
    and fresh: "frFetcher r = frFetcher ex_ticked" and resp: "wrRange resp = ex_range" "wrChunk resp = Some ck" "chunk_ok ck"
  shows "\<exists>f. let r' = r\<lparr>frFetcher := f, frChannel := []\<rparr> in
    handleResponse ex_S ref_queue (frFetcher r) resp = Some (Ret (None, f)) \<and> fetch_step ex_S Cl ref_queue r r' \<and>
    fetch_run_of ref_pebble map_of ref_codec ref_queue Cl ex_fetcher r' \<and>
    db_store ref_codec (map_of (fStorage f)) =
      apply_writes ref_codec empty_store (slotWrites ref_codec \<lparr>slChunk = Some ck, slRange = ex_range\<rparr>)"
proof -
  note inv = ref_fetch.run_inv [OF run(1,2), THEN conjunct1]
  have "\<exists>f. handleResponse ex_S ref_queue (frFetcher r) resp = Some (Ret (None, f))"
    by (rule ref_fetch.response_ok [OF inv, of resp "[]"])
       (use run(3) fresh resp in \<open>simp_all add: ex_ticked_def slots_complete_def\<close>)
  then obtain f where f: "handleResponse ex_S ref_queue (frFetcher r) resp = Some (Ret (None, f))" by blast
  let ?r = "r\<lparr>frFetcher := f, frChannel := []\<rparr>" and ?s = "\<lparr>slChunk = Some ck, slRange = ex_range\<rparr>"
  have step: "fetch_step ex_S Cl ref_queue r ?r" by (rule fs_recv [OF run(2,3) f])
  then have run': "fetch_run_of ref_pebble map_of ref_codec ref_queue Cl ex_fetcher ?r"
    using run(1) unfolding fetch_run_of_def by (meson rtranclp.rtrancl_into_rtrancl)
  obtain ss where ss: "[?s] = ss @ sQueue (fBuffer f)"
    "db_store ref_codec (map_of (fStorage f)) = apply_writes ref_codec empty_store (concat (map (slotWrites ref_codec) ss))"
    "sQueue (fBuffer f) \<noteq> [] \<longrightarrow> slChunk (hd (sQueue (fBuffer f))) = None"
    using ref_fetch.response_writes [OF run f] ref_fetch.run_slots [OF run'] run(2) fresh resp
    by (auto simp: ex_ticked_def ex_fetcher_simps)
  have "ss \<noteq> []"
  proof
    assume "ss = []"
    with ss(1) have "sQueue (fBuffer f) = [?s]" by simp
    with ss(3) show False by simp
  qed
  with ss(1) have "ss = [?s]" by (cases ss) auto
  with ss(2) f step run' show ?thesis by (auto simp: Let_def)
qed

lemma ex_received:
  assumes f: "handleResponse ex_S ref_queue (frFetcher ex_answered) ex_resp = Some (Ret (None, f))"
  defines "r \<equiv> ex_answered\<lparr>frFetcher := f, frChannel := []\<rparr>"
  shows "fetch_step ex_S ex_client ref_queue ex_answered r" "frPhase r = Running" "frFetcher r = f"
    "fetch_run_of ref_pebble map_of ref_codec ref_queue ex_client ex_fetcher r"
    "db_store ref_codec (map_of (fStorage f)) = apply_writes ref_codec empty_store (slotWrites ref_codec ex_slot)"
    "\<not> frDone r"
proof -
  obtain ck where ck: "wrChunk ex_resp = Some ck" "chunk_ok ck" "wrRange ex_resp = ex_range"
    by (simp add: ex_resp_def chunk_ok_def)
  have same: "frFetcher ex_answered = frFetcher ex_ticked" by (simp add: ex_answered_def)
  from received_one [OF ex_run_of ex_phase same ck(3,1,2)] obtain g where
    g: "handleResponse ex_S ref_queue (frFetcher ex_answered) ex_resp = Some (Ret (None, g))"
    "fetch_step ex_S ex_client ref_queue ex_answered (ex_answered\<lparr>frFetcher := g, frChannel := []\<rparr>)"
    "fetch_run_of ref_pebble map_of ref_codec ref_queue ex_client ex_fetcher (ex_answered\<lparr>frFetcher := g, frChannel := []\<rparr>)"
    "db_store ref_codec (map_of (fStorage g)) = apply_writes ref_codec empty_store (slotWrites ref_codec ex_slot)"
    unfolding Let_def ck(1) by blast
  from g(1) f have "g = f" by simp
  with g(2-4) show "fetch_step ex_S ex_client ref_queue ex_answered r"
    "fetch_run_of ref_pebble map_of ref_codec ref_queue ex_client ex_fetcher r"
    "db_store ref_codec (map_of (fStorage f)) = apply_writes ref_codec empty_store (slotWrites ref_codec ex_slot)"
    unfolding r_def by blast+
  show "frPhase r = Running" "frFetcher r = f" "\<not> frDone r"
    using ex_phase by (simp_all add: r_def ex_answered_def ex_ticked_def)
qed

lemma ex_latest_one: "latest_of (apply_writes ref_codec empty_store (slotWrites ref_codec ex_slot)) = 1"
  by (simp add: slotWrites_def ex_resp_def ex_range_def latest_of_def)

lemma latest_read:
  assumes "fetch_run_of ref_pebble map_of ref_codec ref_queue Cl ex_fetcher r" "frPhase r = Running"
    and "db_store ref_codec (map_of (fStorage (frFetcher r))) = st" "stLatest st = Some h"
  shows "Pebble_GetLatestHeight ref_pebble (fStorage (frFetcher r)) = Inr h"
  using ref_store.P_reads(1) [OF ref_fetch.run_ok [OF assms(1,2)]] assms(3,4) by simp

lemma ex_complete_run:
  "\<exists>r. fetch_run_of ref_pebble map_of ref_codec ref_queue ex_client ex_fetcher r \<and> frPhase r = Running \<and>
     Pebble_GetLatestHeight ref_pebble (fStorage (frFetcher r)) = Inr 1 \<and>
     db_store ref_codec (map_of (fStorage (frFetcher r))) = apply_writes ref_codec empty_store (slotWrites ref_codec ex_slot) \<and>
     \<not> frDone r"
proof -
  from ex_handled obtain f where f: "handleResponse ex_S ref_queue (frFetcher ex_answered) ex_resp = Some (Ret (None, f))"
    by blast
  note r = ex_received [OF f]
  let ?r = "ex_answered\<lparr>frFetcher := f, frChannel := []\<rparr>"
  have st: "db_store ref_codec (map_of (fStorage (frFetcher ?r))) = apply_writes ref_codec empty_store (slotWrites ref_codec ex_slot)"
    using r(5) by simp
  have "Pebble_GetLatestHeight ref_pebble (fStorage (frFetcher ?r)) = Inr 1"
    by (rule latest_read [OF r(4,2) st]) (simp add: slotWrites_def ex_resp_def ex_range_def)
  with r(2,4,6) st show ?thesis by blast
qed

lemma ex_complete_start: "complete ex_chain (db_store ref_codec (map_of (fStorage ex_fetcher)))"
  by (auto simp: complete_def ex_fetcher_simps latest_of_def empty_store_def)

theorem FetchChainData_complete_witness:
  "\<exists>r. fetch_run_of ref_pebble map_of ref_codec ref_queue ex_client ex_fetcher r \<and>
     Pebble_GetLatestHeight ref_pebble (fStorage (frFetcher r)) = Inr 1 \<and>
     Pebble_GetBlock ref_pebble ref_codec (fStorage (frFetcher r)) 1 = Inr (mk_block 1 0 [[7]])"
proof -
  from ex_complete_run obtain r where r: "fetch_run_of ref_pebble map_of ref_codec ref_queue ex_client ex_fetcher r"
    "frPhase r = Running" "Pebble_GetLatestHeight ref_pebble (fStorage (frFetcher r)) = Inr 1" "frDone r \<longrightarrow> heedless ex_client" by blast
  from FetchChainData_complete [OF ref_fetch.pebble_fetch_axioms r(1,2,4) ex_honest ex_chain_ok ex_complete_start r(3), of 1]
  have "Pebble_GetBlock ref_pebble ref_codec (fStorage (frFetcher r)) 1 = Inr (mk_block 1 0 [[7]])"
    by (simp add: ex_chain_def)
  with r show ?thesis by blast
qed

text \<open>
  C30. The results are complete: if the node also serves the results of the transactions, and the store at the start holds those of its
  blocks, then in every state in which the loop runs and the context is not done, the result of every transaction of every block
  from 1 to the latest height is read back at the height of its block and its index there, with the transaction and the node's
  response to it; also when a batch of results comes back without entries for the empty blocks, which moves results to the entries of other blocks.
\<close>

theorem FetchChainData_results:
  assumes "pebble_fetch P dbv btv ient ipos C Q"
    and "fetch_run_of P dbv C Q Cl f0 r" and "frPhase r = Running" and "\<not> frDone r"
    and "honest Cl chain reqs" and "chain_ok C chain" and "serves_results Cl chain D reqs rreqs" and "results_ok C chain D"
    and "complete_to chain (Some D) (latest_of (db_store C (dbv (fStorage f0)))) (db_store C (dbv (fStorage f0)))"
    and "Pebble_GetLatestHeight P (fStorage (frFetcher r)) = Inr h" and "0 < n" and "n \<le> h" and "i < length (bTxs (chain n))"
  shows "Pebble_GetTx P C (fStorage (frFetcher r)) n (of_nat i) =
    Inr \<lparr>trHeight = n, trIndex = of_nat i, trTx = bTxs (chain n) ! i, trResponse = D (chain n) ! i\<rparr>"
  using assms by (rule pebble_fetch.run_results)

abbreviation "ex_responses b \<equiv> map (\<lambda>t. zero_response) (bTxs b)"

lemma ex_serves: "serves_results ex_client ex_chain ex_responses fst snd"
  by (auto simp: serves_results_def ex_client_def chain_node_def simp flip: of_nat_add)

lemma ex_results_ok: "results_ok ref_codec ex_chain ex_responses"
proof -
  have "\<not> isl (marshalTxResult ref_codec (Some (mk_result n 0 [7])))" for n
    by (simp add: ref_codec_def mk_result_def ref_encTx_def ref_decTx_def decode_encodeUint32)
  then show ?thesis
    by (simp add: results_ok_def ex_chain_def mk_block_def blockResults_def mk_result_def)
qed

theorem FetchChainData_results_witness:
  "\<exists>r. fetch_run_of ref_pebble map_of ref_codec ref_queue ex_client ex_fetcher r \<and>
     Pebble_GetTx ref_pebble ref_codec (fStorage (frFetcher r)) 1 0 = Inr (mk_result 1 0 [7])"
proof -
  from ex_complete_run obtain r where r: "fetch_run_of ref_pebble map_of ref_codec ref_queue ex_client ex_fetcher r"
    "frPhase r = Running" "Pebble_GetLatestHeight ref_pebble (fStorage (frFetcher r)) = Inr 1" "\<not> frDone r" by blast
  have start: "complete_to ex_chain (Some ex_responses) (latest_of (db_store ref_codec (map_of (fStorage ex_fetcher))))
      (db_store ref_codec (map_of (fStorage ex_fetcher)))"
    by (auto simp: complete_to_def ex_fetcher_simps latest_of_def empty_store_def)
  from FetchChainData_results [OF ref_fetch.pebble_fetch_axioms r(1,2,4) ex_honest ex_chain_ok ex_serves ex_results_ok start r(3), of 1 0] r(1)
  show ?thesis by (auto simp: ex_chain_def mk_block_def mk_result_def)
qed

section \<open>A stop can leave a hole\<close>

text \<open>
  A node whose batches fail and whose single requests fail when their context is done.
\<close>

definition ex_cut :: "(unit, u64 list \<times> u64 list) client" where
  "ex_cut = ex_client\<lparr>
     c_GetBlock := (\<lambda>ctx c n. (if ctx c then Inl (ErrMsg ''context canceled'') else Inr \<lparr>rbBlock = ex_chain n\<rparr>, c)),
     b_Execute := (\<lambda>b ctx c. (Inl (ErrMsg ''unable to send batch''), c))\<rparr>"

lemma cut_honest: "honest ex_cut ex_chain fst"
  by (auto simp: honest_def ex_cut_def ex_client_def chain_node_def split: if_splits)

lemma cut_handle:
  "\<exists>err. handleChunk ex_cut (\<lambda>_. True) () ex_range =
     Some (Ret (\<lparr>wrError = err, wrChunk = Some \<lparr>ckBlocks = [], ckResults = []\<rparr>, wrRange = ex_range\<rparr>, ()))"
proof -
  have add: "addBlockRequests ex_cut b 2 1 = Some (Inr b)" for b
    by (subst addBlockRequests.simps) (simp add: word_le_nat_alt)
  have "b_AddBlockRequest ex_cut ([], []) 1 = (None, ([1], []))"
    by (simp add: ex_cut_def ex_client_def chain_node_def)
  with add have 1: "addBlockRequests ex_cut ([], []) 1 1 = Some (Inr ([1], []))"
    by (subst addBlockRequests.simps) simp
  have "getBlocksSequentially_loop ex_cut (\<lambda>_. True) () 2 1 errs bs = Some ((errs, bs), ())" for errs bs
    by (subst getBlocksSequentially_loop.simps) (simp add: word_le_nat_alt)
  then have "\<exists>errs. getBlocksSequentially_loop ex_cut (\<lambda>_. True) () 1 1 [] [] = Some ((errs, []), ())"
    by (subst getBlocksSequentially_loop.simps) (simp add: ex_cut_def)
  then have "\<exists>err. getBlocksSequentially ex_cut (\<lambda>_. True) () ex_range = Some (([], err), ())"
    by (auto simp: getBlocksSequentially_def ex_range_def)
  moreover have "c_CreateBatch ex_cut () = ([], [])" "b_Execute ex_cut b ctx c = (Inl (ErrMsg ''unable to send batch''), c)" for b ctx c
    by (simp_all add: ex_cut_def ex_client_def chain_node_def)
  ultimately have "\<exists>err. getBlocksFromBatch ex_cut (\<lambda>_. True) () ex_range = Some (([], err), ())"
    using 1 by (simp add: getBlocksFromBatch_def ex_range_def)
  moreover have "getTxResultFromBatch ex_cut (\<lambda>_. True) () [] = Ret (([], None), ())"
    by (simp add: getTxResultFromBatch_def ex_cut_def ex_client_def chain_node_def)
  ultimately show ?thesis by (auto simp: handleChunk_def)
qed

text \<open>
  An honest node and a stop are enough for a hole: the worker's batch fails, its single requests see that the context is done, and the chunk
  without blocks is still taken from the channel and written before the loop notices. The range then counts as indexed: the fetcher stops
  without an error, at height 1, and block 1 is not in the store.
\<close>

theorem stop_leaves_hole:
  "\<exists>r. honest ex_cut ex_chain fst \<and> fetch_run_of ref_pebble map_of ref_codec ref_queue ex_cut ex_fetcher r \<and>
     frPhase r = Returned None \<and> Pebble_GetLatestHeight ref_pebble (fStorage (frFetcher r)) = Inr 1 \<and>
     Pebble_GetBlock ref_pebble ref_codec (fStorage (frFetcher r)) 1 = Inl ErrNotFound"
proof -
  let ?done = "ex_ticked\<lparr>frDone := True\<rparr>"
  from cut_handle obtain resp where resp: "handleChunk ex_cut (\<lambda>_. True) () ex_range = Some (Ret (resp, ()))"
    "wrChunk resp = Some \<lparr>ckBlocks = [], ckResults = []\<rparr>" "wrRange resp = ex_range" by force
  let ?sent = "?done\<lparr>frWorkers := {#}, frChannel := [resp]\<rparr>"
  have tick: "fetch_step ex_S ex_cut ref_queue ex_start ex_ticked"
  proof -
    have "attemptRangeFetch ex_S ex_cut Background ref_queue (frFetcher ex_start) = Some (Ret (None, [ex_range], frFetcher ex_ticked))"
      by (simp add: attemptRangeFetch_def ex_start_def ex_fetcher_simps ex_latest ex_cut_def ex_client_def chain_node_def
          ex_reserve ex_ticked_def ref_queue.len)
    from fs_tick [OF _ _ this] show ?thesis by (simp add: ex_start_def ex_ticked_def ctx_of_def Background_def)
  qed
  have work: "fetch_step ex_S ex_cut ref_queue ?done ?sent"
    using fs_work [OF _ _ _ resp(1), of ?done] by (simp add: ctx_of_def ex_ticked_def DefaultMaxSlots_def)
  have start: "FetchChainData_start ex_S ref_codec ex_cut ctx ex_fetcher = ex_start" for ctx
    by (simp add: FetchChainData_start_def Fetcher_fetchGenesisData_def ex_fetcher_simps ex_latest
        getGenesisBlock_def ex_cut_def ex_client_def chain_node_def ex_start_def)
  have run: "fetch_run_of ref_pebble map_of ref_codec ref_queue ex_cut ex_fetcher ?sent"
    unfolding fetch_run_of_def start
  proof (intro conjI exI)
    show "ex_fetcher = Fetcher_New [] () ex_options" by (simp add: ex_fetcher_def)
    show "heights_fit ex_cut (unat (fMaxChunkSize ex_fetcher))"
      by (simp add: heights_fit_def ex_cut_def ex_client_def chain_node_def ex_fetcher_simps)
    show "(fetch_step ex_S ex_cut ref_queue)\<^sup>*\<^sup>* ex_start ?sent"
      using tick fs_cancel [of ex_S ex_cut ref_queue ex_ticked] work
      by (meson converse_rtranclp_into_rtranclp rtranclp.rtrancl_refl)
  qed (simp_all add: ex_fetcher_simps)
  have ph: "frPhase ?sent = Running" "frChannel ?sent = [resp]" "frFetcher ?sent = frFetcher ex_ticked"
    by (simp_all add: ex_ticked_def)
  from received_one [OF run ph resp(3,2)] obtain f where
    f: "fetch_run_of ref_pebble map_of ref_codec ref_queue ex_cut ex_fetcher (?sent\<lparr>frFetcher := f, frChannel := []\<rparr>)"
      "db_store ref_codec (map_of (fStorage f)) =
        apply_writes ref_codec empty_store (slotWrites ref_codec \<lparr>slChunk = Some \<lparr>ckBlocks = [], ckResults = []\<rparr>, slRange = ex_range\<rparr>)"
    by (auto simp: chunk_ok_def Let_def)
  let ?r = "?sent\<lparr>frFetcher := f, frChannel := []\<rparr>"
  let ?z = "?r\<lparr>frPhase := Returned None\<rparr>"
  have st: "db_store ref_codec (map_of (fStorage (frFetcher ?r))) = empty_store\<lparr>stLatest := Some 1\<rparr>"
    by (simp add: f(2) slotWrites_def ex_range_def)
  have phr: "frPhase ?r = Running" by (simp add: ex_ticked_def)
  have "fetch_step ex_S ex_cut ref_queue ?r ?z" using phr by (intro fs_done) simp_all
  with f(1) have "fetch_run_of ref_pebble map_of ref_codec ref_queue ex_cut ex_fetcher ?z"
    unfolding fetch_run_of_def by (meson rtranclp.rtrancl_into_rtrancl)
  moreover have "Pebble_GetLatestHeight ref_pebble (fStorage f) = Inr 1"
    using latest_read [OF f(1) phr st] by simp
  moreover have "Pebble_GetBlock ref_pebble ref_codec (fStorage f) 1 = Inl ErrNotFound"
    using ref_store.P_reads(2) [OF ref_fetch.run_ok [OF f(1) phr], of 1] st by (simp add: empty_store_def)
  ultimately show ?thesis using cut_honest by (intro exI [of _ ?z]) simp
qed

end
