(* ===== verification/Serve_Gas.thy ===== *)
theory Serve_Gas
  imports Chain_Types "HOL-Library.Signed_Division" "HOL-Library.AList" "HOL-Library.Multiset"
begin

text \<open>
  The gas price statistics of \<open>serve/methods/gas.go\<close>: what the transactions of a range of blocks
  paid, per denomination. A Go map is an association list; the order in which a \<open>range\<close> visits it is
  not fixed by the language, so it is an argument, which may differ at every loop.
\<close>

section \<open>Signed arithmetic\<close>

text \<open>The built-in \<open>min\<close> and \<open>max\<close> at \<open>int64\<close>, and the truncating division, which panics at 0.\<close>

definition min64 :: "i64 \<Rightarrow> i64 \<Rightarrow> i64" where
  "min64 a b = (if sint b < sint a then b else a)"

definition max64 :: "i64 \<Rightarrow> i64 \<Rightarrow> i64" where
  "max64 a b = (if sint a < sint b then b else a)"

definition div64 :: "i64 \<Rightarrow> i64 \<Rightarrow> i64 outcome" where
  "div64 a b = (if b = 0 then Panic ''integer divide by zero'' else Ret (word_of_int (sint a sdiv sint b)))"

section \<open>The operations\<close>

record GasPrice =
  gpDenom :: string
  gpLow :: i64
  gpAverage :: i64
  gpHigh :: i64

record gasFeeTotalInfo =
  giLow :: i64
  giHigh :: i64
  giTotalAmount :: i64
  giTotalCount :: i64

type_synonym gas_map = "(string \<times> gasFeeTotalInfo) list"

definition zero_info :: gasFeeTotalInfo where
  "zero_info = \<lparr>giLow = 0, giHigh = 0, giTotalAmount = 0, giTotalCount = 0\<rparr>"

definition minWithDefault :: "i64 \<Rightarrow> i64 \<Rightarrow> i64" where
  "minWithDefault current newValue = (if sint current \<le> 0 then newValue else min64 current newValue)"

definition addAmount :: "gasFeeTotalInfo \<Rightarrow> i64 \<Rightarrow> gasFeeTotalInfo" where
  "addAmount info amount =
     \<lparr>giLow = minWithDefault (giLow info) amount,
      giHigh = max64 (giHigh info) amount,
      giTotalAmount = giTotalAmount info + amount,
      giTotalCount = giTotalCount info + 1\<rparr>"

fun calculateGasFee_txs :: "codec \<Rightarrow> gas_map \<Rightarrow> bytes list \<Rightarrow> gas_map" where
  "calculateGasFee_txs C gasFeeInfo [] = gasFeeInfo"
| "calculateGasFee_txs C gasFeeInfo (t # txs) =
     (case unmarshalStdTx C t of
        Inl err \<Rightarrow> calculateGasFee_txs C gasFeeInfo txs
      | Inr stdTx \<Rightarrow>
          let denom = cDenom (fGasFee (sFee stdTx));
              amount = cAmount (fGasFee (sFee stdTx));
              info = deref zero_info (map_of gasFeeInfo denom)
          in calculateGasFee_txs C (AList.update denom (addAmount info amount) gasFeeInfo) txs)"

definition calculateGasFeePerBlock :: "codec \<Rightarrow> block \<Rightarrow> gas_map" where
  "calculateGasFeePerBlock C block = calculateGasFee_txs C [] (bTxs block)"

definition modifyAggregatedInfo ::
    "gasFeeTotalInfo option \<Rightarrow> gasFeeTotalInfo \<Rightarrow> (go_error + gasFeeTotalInfo) outcome" where
  "modifyAggregatedInfo currentInfo blockInfo =
     (case currentInfo of
        None \<Rightarrow> Ret (Inl (ErrMsg ''not initialized aggregated data''))
      | Some info \<Rightarrow>
          bindO (div64 (giTotalAmount blockInfo) (giTotalCount blockInfo)) (\<lambda>average.
            Ret (Inr \<lparr>giLow = minWithDefault (giLow info) (giLow blockInfo),
                      giHigh = max64 (giHigh info) (giHigh blockInfo),
                      giTotalAmount = giTotalAmount info + average,
                      giTotalCount = giTotalCount info + 1\<rparr>)))"

text \<open>The inner loop of \<open>GetGasPricesByBlocks\<close>: the statistics of one block, in the order visited.\<close>

fun aggregateBlock :: "gas_map \<Rightarrow> gas_map \<Rightarrow> (go_error + gas_map) outcome" where
  "aggregateBlock gasFeeInfoMap [] = Ret (Inr gasFeeInfoMap)"
| "aggregateBlock gasFeeInfoMap ((denom, gasFeeInfo) # rest) =
     (let gasFeeInfoMap =
            (if map_of gasFeeInfoMap denom = None then AList.update denom zero_info gasFeeInfoMap
             else gasFeeInfoMap)
      in bindO (modifyAggregatedInfo (map_of gasFeeInfoMap denom) gasFeeInfo) (\<lambda>r.
           case r of
             Inl err \<Rightarrow> Ret (Inl err)
           | Inr info \<Rightarrow> aggregateBlock (AList.update denom info gasFeeInfoMap) rest))"

fun calculateGasPrices :: "gas_map \<Rightarrow> GasPrice list outcome" where
  "calculateGasPrices [] = Ret []"
| "calculateGasPrices ((denom, info) # rest) =
     (if giTotalCount info = 0 then calculateGasPrices rest
      else bindO (div64 (giTotalAmount info) (giTotalCount info)) (\<lambda>average.
             bindO (calculateGasPrices rest) (\<lambda>gasPrices.
               Ret (\<lparr>gpDenom = denom, gpLow = giLow info, gpAverage = average, gpHigh = giHigh info\<rparr>
                    # gasPrices))))"

text \<open>
  The outer loop. \<open>visit n\<close> is the order of the visit of a map: \<open>visit 0\<close> that of the last loop, the others
  those of the blocks.
\<close>

fun aggregateBlocks ::
    "codec \<Rightarrow> (nat \<Rightarrow> gas_map \<Rightarrow> gas_map) \<Rightarrow> gas_map \<Rightarrow> block list \<Rightarrow> (go_error + gas_map) outcome" where
  "aggregateBlocks C visit gasFeeInfoMap [] = Ret (Inr gasFeeInfoMap)"
| "aggregateBlocks C visit gasFeeInfoMap (block # blocks) =
     bindO (aggregateBlock gasFeeInfoMap (visit (Suc (length blocks)) (calculateGasFeePerBlock C block))) (\<lambda>r.
       case r of
         Inl err \<Rightarrow> Ret (Inl err)
       | Inr gasFeeInfoMap \<Rightarrow> aggregateBlocks C visit gasFeeInfoMap blocks)"

definition GetGasPricesByBlocks ::
    "codec \<Rightarrow> (nat \<Rightarrow> gas_map \<Rightarrow> gas_map) \<Rightarrow> block list \<Rightarrow> (go_error + GasPrice list) outcome" where
  "GetGasPricesByBlocks C visit blocks =
     bindO (aggregateBlocks C visit [] blocks) (\<lambda>r.
       case r of
         Inl err \<Rightarrow> Ret (Inl err)
       | Inr gasFeeInfoMap \<Rightarrow> bindO (calculateGasPrices (visit 0 gasFeeInfoMap)) (\<lambda>ps. Ret (Inr ps)))"

definition GetGasPricesByBlock ::
    "codec \<Rightarrow> (nat \<Rightarrow> gas_map \<Rightarrow> gas_map) \<Rightarrow> block \<Rightarrow> (go_error + GasPrice list) outcome" where
  "GetGasPricesByBlock C visit block = GetGasPricesByBlocks C visit [block]"

section \<open>What they compute\<close>

text \<open>The amounts that the readable transactions of a block paid in a denomination.\<close>

definition paid :: "codec \<Rightarrow> string \<Rightarrow> bytes \<Rightarrow> int option" where
  "paid C d t =
     (case unmarshalStdTx C t of
        Inl err \<Rightarrow> None
      | Inr stx \<Rightarrow> if cDenom (fGasFee (sFee stx)) = d then Some (sint (cAmount (fGasFee (sFee stx)))) else None)"

definition fees :: "codec \<Rightarrow> string \<Rightarrow> block \<Rightarrow> int list" where
  "fees C d b = List.map_filter (paid C d) (bTxs b)"

definition lowest :: "int list \<Rightarrow> int" where
  "lowest xs = (if xs = [] then 0 else Min (set xs))"

definition highest :: "int list \<Rightarrow> int" where
  "highest xs = (if xs = [] then 0 else Max (set xs))"

definition average :: "int list \<Rightarrow> int" where
  "average xs = sum_list xs div int (length xs)"

text \<open>The averages of the blocks in which the denomination occurs.\<close>

definition averages :: "codec \<Rightarrow> string \<Rightarrow> block list \<Rightarrow> int list" where
  "averages C d bs = map average (filter (\<lambda>xs. xs \<noteq> []) (map (fees C d) bs))"

definition all_fees :: "codec \<Rightarrow> string \<Rightarrow> block list \<Rightarrow> int list" where
  "all_fees C d bs = concat (map (fees C d) bs)"

text \<open>Amounts the statistics are meant for: positive, with a sum that fits 64 bits.\<close>

definition sane :: "int list \<Rightarrow> bool" where
  "sane xs \<longleftrightarrow> (\<forall>x \<in> set xs. 0 < x) \<and> sum_list xs < 2 ^ 63"

section \<open>Merging statistics\<close>

lemma sane_append: "sane (xs @ ys) \<Longrightarrow> sane xs \<and> sane ys"
proof -
  assume s: "sane (xs @ ys)"
  then have "0 \<le> sum_list xs" "0 \<le> sum_list ys"
    by (auto simp: sane_def intro!: sum_list_nonneg intro: less_imp_le)
  with s show ?thesis by (auto simp: sane_def)
qed

lemma sane_length: "sane xs \<Longrightarrow> int (length xs) \<le> sum_list xs \<and> sum_list xs < 2 ^ 63"
proof -
  have "\<forall>x \<in> set xs. 0 < x \<Longrightarrow> int (length xs) \<le> sum_list xs"
    by (induction xs) auto
  then show "sane xs \<Longrightarrow> ?thesis" by (simp add: sane_def)
qed

lemma lowest_append: "ys \<noteq> [] \<Longrightarrow> lowest (xs @ ys) = (if xs = [] then lowest ys else min (lowest xs) (lowest ys))"
  by (simp add: lowest_def Min_Un)

lemma highest_append: "ys \<noteq> [] \<Longrightarrow> highest (xs @ ys) = (if xs = [] then highest ys else max (highest xs) (highest ys))"
  by (simp add: highest_def Max_Un)

lemma lowest_pos: "sane xs \<Longrightarrow> lowest xs \<le> 0 \<longleftrightarrow> xs = []"
  by (auto simp: lowest_def sane_def Min_le_iff)

lemma highest_pos: "sane xs \<Longrightarrow> xs \<noteq> [] \<Longrightarrow> 0 < highest xs"
  by (auto simp: highest_def sane_def Max_gr_iff neq_Nil_conv)

lemma min_merge:
  assumes "sint l = lowest xs" "sint m = lowest ys" "ys \<noteq> []" "sane xs"
  shows "sint (minWithDefault l m) = lowest (xs @ ys)"
  using assms lowest_pos [of xs] by (auto simp: minWithDefault_def min64_def lowest_append min_def)

lemma max_merge:
  assumes "sint l = highest xs" "sint m = highest ys" "ys \<noteq> []" "sane ys"
  shows "sint (max64 l m) = highest (xs @ ys)"
  using assms highest_pos [of ys] by (auto simp: max64_def highest_append max_def highest_def [of "[]"])

lemma sint_plus64:
  assumes "0 \<le> sint a" "0 \<le> sint b" "sint a + sint b < 2 ^ 63"
  shows "sint (a + b :: i64) = sint a + sint b"
  using assms by (subst sint_word_ariths) (simp add: signed_take_bit_int_eq_self)

text \<open>
  What an entry of the maps stands for: the amounts \<open>xs\<close> it has seen, and the numbers \<open>ts\<close> it has
  added up (the amounts themselves, or one average per block).
\<close>

definition stats :: "gasFeeTotalInfo \<Rightarrow> int list \<Rightarrow> int list \<Rightarrow> bool" where
  "stats i xs ts \<longleftrightarrow> sint (giLow i) = lowest xs \<and> sint (giHigh i) = highest xs \<and>
     sint (giTotalAmount i) = sum_list ts \<and> sint (giTotalCount i) = int (length ts)"

lemma stats_zero: "stats zero_info [] []"
  by (simp add: stats_def zero_info_def lowest_def highest_def)

lemma stats_merge:
  assumes i: "stats i xs ts" "sane xs" "sane (ts @ [t])"
    and l: "sint l = lowest ys" "sint h = highest ys" "sint a = t" "ys \<noteq> []" "sane ys"
  shows "stats \<lparr>giLow = minWithDefault (giLow i) l, giHigh = max64 (giHigh i) h,
    giTotalAmount = giTotalAmount i + a, giTotalCount = giTotalCount i + 1\<rparr> (xs @ ys) (ts @ [t])"
proof -
  have s: "0 \<le> sum_list ts" "0 < t" "sum_list ts + t < 2 ^ 63" "int (length ts) + 1 < 2 ^ 63"
    using sane_length [OF i(3)] sane_length [of ts] sane_append [OF i(3)] i(3) by (auto simp: sane_def)
  have "sint (giTotalAmount i + a) = sum_list ts + t"
    using sint_plus64 [of "giTotalAmount i" a] s i(1) l(3) by (simp add: stats_def)
  moreover have "sint (giTotalCount i + 1) = int (length ts) + 1"
    using sint_plus64 [of "giTotalCount i" 1] s i(1) by (simp add: stats_def)
  moreover have "sint (minWithDefault (giLow i) l) = lowest (xs @ ys)"
    using i(1,2) l by (intro min_merge) (auto simp: stats_def)
  moreover have "sint (max64 (giHigh i) h) = highest (xs @ ys)"
    using i(1,2) l by (intro max_merge) (auto simp: stats_def)
  ultimately show ?thesis by (simp add: stats_def)
qed

lemma stats_count: "stats i xs ts \<Longrightarrow> ts \<noteq> [] \<Longrightarrow> giTotalCount i \<noteq> 0"
  by (auto simp: stats_def)

lemma div64_average:
  assumes "sint a = sum_list ts" "sint n = int (length ts)" "ts \<noteq> []" "sane ts"
  shows "\<exists>q. div64 a n = Ret q \<and> sint q = average ts"
proof -
  have n: "n \<noteq> 0" using assms(2,3) by auto
  have p: "0 \<le> sum_list ts" using sane_length [OF assms(4)] by linarith
  have "sum_list ts sdiv int (length ts) = average ts"
    using p assms(3) by (cases "sum_list ts = 0") (simp_all add: signed_divide_int_def average_def)
  moreover have nn: "0 \<le> average ts" using p assms(3) by (simp add: average_def pos_imp_zdiv_nonneg_iff)
  moreover have "average ts \<le> sum_list ts"
    using p zdiv_mono2 [of "sum_list ts" 1 "int (length ts)"] assms(3)
    by (cases "length ts") (simp_all add: average_def)
  moreover from this have "sint (word_of_int (average ts) :: i64) = average ts"
    using nn sane_length [OF assms(4)] by (simp add: sint_sbintrunc' signed_take_bit_int_eq_self)
  ultimately show ?thesis using n assms(1,2) by (simp add: div64_def)
qed


section \<open>The loops\<close>

text \<open>The statistics of one block: an entry for each denomination paid, and no other.\<close>

definition entries :: "gas_map \<Rightarrow> (string \<Rightarrow> int list) \<Rightarrow> (string \<Rightarrow> int list) \<Rightarrow> bool" where
  "entries m xs ts \<longleftrightarrow> distinct (map fst m) \<and>
     (\<forall>d. (map_of m d = None \<longrightarrow> ts d = []) \<and>
          (\<forall>i. map_of m d = Some i \<longrightarrow> ts d \<noteq> [] \<and> stats i (xs d) (ts d)))"

lemma entriesD:
  assumes "entries m xs ts"
  shows "distinct (map fst m)" "map_of m d = None \<longleftrightarrow> ts d = []"
    "map_of m d = Some i \<Longrightarrow> stats i (xs d) (ts d)"
  using assms by (auto simp: entries_def simp del: map_of_eq_Some_iff)

lemma entries_update:
  assumes "entries m xs ts" "stats i (xs' d) (ts' d)" "ts' d \<noteq> []"
    and "\<And>e. e \<noteq> d \<Longrightarrow> xs' e = xs e \<and> ts' e = ts e"
  shows "entries (AList.update d i m) xs' ts'"
  using assms by (simp add: entries_def distinct_update update_conv' del: map_of_eq_Some_iff)

lemma entries_start:
  assumes "entries m xs ts" "\<And>d. ts d = [] \<Longrightarrow> xs d = []"
  shows "stats (deref zero_info (map_of m d)) (xs d) (ts d)"
  using entriesD(2,3) [OF assms(1), where d = d] assms(2) [of d] stats_zero by (cases "map_of m d") auto

lemma block_entries:
  assumes "\<And>d. sane (xs d @ List.map_filter (paid C d) txs)" "entries m xs xs"
  shows "entries (calculateGasFee_txs C m txs)
    (\<lambda>d. xs d @ List.map_filter (paid C d) txs) (\<lambda>d. xs d @ List.map_filter (paid C d) txs)"
  using assms
proof (induction txs arbitrary: xs m)
  case (Cons t txs)
  show ?case
  proof (cases "unmarshalStdTx C t")
    case (Inl err)
    then show ?thesis using Cons by (simp add: paid_def List.map_filter_simps)
  next
    case (Inr stx)
    define d where "d = cDenom (fGasFee (sFee stx))"
    define a where "a = cAmount (fGasFee (sFee stx))"
    let ?ys = "\<lambda>e. xs e @ (if e = d then [sint a] else [])"
    have e: "?ys e @ List.map_filter (paid C e) txs = xs e @ List.map_filter (paid C e) (t # txs)" for e
      by (auto simp: List.map_filter_simps paid_def Inr d_def a_def)
    have s: "sane (?ys e @ List.map_filter (paid C e) txs)" for e using Cons.prems(1) e by metis
    then have sd: "sane (xs d @ [sint a])" using sane_append [OF s [of d]] by simp
    have "stats (addAmount (deref zero_info (map_of m d)) a) (?ys d) (?ys d)"
      unfolding addAmount_def using entries_start [OF Cons.prems(2), of d] sane_append [OF sd] sd
      by (simp, intro stats_merge) (auto simp: lowest_def highest_def)
    then have "entries (AList.update d (addAmount (deref zero_info (map_of m d)) a) m) ?ys ?ys"
      by (intro entries_update [OF Cons.prems(2)]) auto
    from Cons.IH [OF s this] show ?thesis
      unfolding e by (simp add: Inr Let_def flip: d_def a_def)
  qed
qed (simp add: List.map_filter_simps)

lemma calculateGasFeePerBlock_entries:
  assumes "\<And>d. sane (fees C d b)"
  shows "entries (calculateGasFeePerBlock C b) (\<lambda>d. fees C d b) (\<lambda>d. fees C d b)"
  using block_entries [of "\<lambda>_. []" C "bTxs b" "[]"] assms
  by (simp add: fees_def calculateGasFeePerBlock_def entries_def)

lemma modify_stats:
  assumes "stats i xs ts" "sane xs" "stats bi ys ys" "ys \<noteq> []" "sane ys" "sane (ts @ [average ys])"
  shows "\<exists>i'. modifyAggregatedInfo (Some i) bi = Ret (Inr i') \<and> stats i' (xs @ ys) (ts @ [average ys])"
proof -
  from div64_average [of "giTotalAmount bi" ys "giTotalCount bi"] assms(3-5) obtain q where
    q: "div64 (giTotalAmount bi) (giTotalCount bi) = Ret q" "sint q = average ys"
    by (auto simp: stats_def)
  with assms show ?thesis
    by (auto simp: modifyAggregatedInfo_def stats_def [of bi] intro!: stats_merge)
qed

text \<open>The visit of a block's entries in any order adds to each denomination its own entry.\<close>

lemma aggregateBlock_entries:
  assumes "entries m xs ts" "\<And>d. ts d = [] \<Longrightarrow> xs d = []" "distinct (map fst bs)"
    and "\<And>d bi. (d, bi) \<in> set bs \<Longrightarrow> stats bi (ys d) (ys d) \<and> ys d \<noteq> [] \<and> sane (xs d) \<and> sane (ys d) \<and> sane (ts d @ [average (ys d)])"
  shows "\<exists>m'. aggregateBlock m bs = Ret (Inr m') \<and>
    entries m' (\<lambda>d. if d \<in> fst ` set bs then xs d @ ys d else xs d)
      (\<lambda>d. if d \<in> fst ` set bs then ts d @ [average (ys d)] else ts d)"
  using assms
proof (induction bs arbitrary: m xs ts)
  case (Cons b bs)
  obtain d bi where b: "b = (d, bi)" by (cases b)
  let ?xs = "\<lambda>e. if e = d then xs e @ ys e else xs e"
  let ?ts = "\<lambda>e. if e = d then ts e @ [average (ys e)] else ts e"
  from Cons.prems(4) [of d bi] b have bi: "stats bi (ys d) (ys d)" "ys d \<noteq> []" "sane (xs d)" "sane (ys d)"
    "sane (ts d @ [average (ys d)])" by auto
  from modify_stats [OF entries_start [OF Cons.prems(1,2)] bi(3,1,2,4,5)] obtain i where
    i: "modifyAggregatedInfo (Some (deref zero_info (map_of m d))) bi = Ret (Inr i)"
      "stats i (?xs d) (?ts d)" by auto
  let ?m = "if map_of m d = None then AList.update d zero_info m else m"
  have "map_of ?m d = Some (deref zero_info (map_of m d))" by (cases "map_of m d") (simp_all add: update_conv')
  then have step: "aggregateBlock m (b # bs) = aggregateBlock (AList.update d i ?m) bs"
    using i(1) by (simp add: b Let_def split: option.splits)
  have "AList.update d i ?m = AList.update d i m" by (induction m) auto
  with i(2) have en: "entries (AList.update d i ?m) ?xs ?ts"
    using entries_update [OF Cons.prems(1), where d = d and i = i and xs' = ?xs and ts' = ?ts] by simp
  from Cons.prems(3) b have nd: "d \<notin> fst ` set bs" by simp
  have "\<exists>m'. aggregateBlock (AList.update d i ?m) bs = Ret (Inr m') \<and>
    entries m' (\<lambda>e. if e \<in> fst ` set bs then ?xs e @ ys e else ?xs e)
      (\<lambda>e. if e \<in> fst ` set bs then ?ts e @ [average (ys e)] else ?ts e)"
  proof (rule Cons.IH [OF en])
    show "?ts e = [] \<Longrightarrow> ?xs e = []" for e using Cons.prems(2) by (auto split: if_splits)
    show "distinct (map fst bs)" using Cons.prems(3) by simp
    fix e bj assume "(e, bj) \<in> set bs"
    moreover from this nd have "e \<noteq> d" by force
    ultimately show "stats bj (ys e) (ys e) \<and> ys e \<noteq> [] \<and> sane (?xs e) \<and> sane (ys e) \<and> sane (?ts e @ [average (ys e)])"
      using Cons.prems(4) [of e bj] by simp
  qed
  moreover have "(\<lambda>e. if e \<in> fst ` set bs then ?xs e @ ys e else ?xs e) =
      (\<lambda>e. if e \<in> fst ` set (b # bs) then xs e @ ys e else xs e)"
    "(\<lambda>e. if e \<in> fst ` set bs then ?ts e @ [average (ys e)] else ?ts e) =
      (\<lambda>e. if e \<in> fst ` set (b # bs) then ts e @ [average (ys e)] else ts e)"
    using nd by (auto simp: b fun_eq_iff)
  ultimately show ?case by (simp add: step)
qed simp


lemma averages_simps [simp]:
  "averages C d [] = []"
  "averages C d (b # bs) = (if fees C d b = [] then [] else [average (fees C d b)]) @ averages C d bs"
  by (simp_all add: averages_def)

lemma all_fees_simps [simp]: "all_fees C d [] = []" "all_fees C d (b # bs) = fees C d b @ all_fees C d bs"
  by (simp_all add: all_fees_def)

lemma averages_empty: "averages C d bs = [] \<longleftrightarrow> all_fees C d bs = []"
  by (induction bs) auto

lemma average_bounds: "sane xs \<Longrightarrow> xs \<noteq> [] \<Longrightarrow> 0 < average xs \<and> average xs \<le> sum_list xs"
  using sane_length [of xs] zdiv_mono2 [of "sum_list xs" 1 "int (length xs)"]
    zdiv_mono1 [of "int (length xs)" "sum_list xs" "int (length xs)"]
  by (cases xs) (auto simp: average_def)

lemma averages_sane: "sane (all_fees C d bs) \<Longrightarrow> sane (averages C d bs)"
proof -
  have "sane (all_fees C d bs) \<Longrightarrow> (\<forall>x \<in> set (averages C d bs). 0 < x) \<and> sum_list (averages C d bs) \<le> sum_list (all_fees C d bs)"
  proof (induction bs)
    case (Cons b bs)
    then have "sane (fees C d b)" "sane (all_fees C d bs)"
      using sane_append [of "fees C d b" "all_fees C d bs"] by simp_all
    with Cons.IH average_bounds [of "fees C d b"] show ?case by auto
  qed simp
  moreover assume "sane (all_fees C d bs)"
  ultimately show ?thesis unfolding sane_def by linarith
qed

lemma visit_facts:
  assumes "mset (visit m) = mset (m :: ('a \<times> 'b) list)"
  shows "set (visit m) = set m" "distinct (map fst (visit m)) \<longleftrightarrow> distinct (map fst m)"
  using assms mset_eq_setD mset_map mset_eq_imp_distinct_iff by (blast, metis)

lemma aggregateBlocks_entries:
  assumes "\<And>n m. mset (visit n m) = mset m" "entries m xs ts" "\<And>d. ts d = [] \<Longrightarrow> xs d = []"
    and "\<And>d. sane (xs d @ all_fees C d bs)" "\<And>d. sane (ts d @ averages C d bs)"
  shows "\<exists>m'. aggregateBlocks C visit m bs = Ret (Inr m') \<and>
    entries m' (\<lambda>d. xs d @ all_fees C d bs) (\<lambda>d. ts d @ averages C d bs)"
  using assms(2-)
proof (induction bs arbitrary: m xs ts)
  case (Cons b bs)
  have s: "sane (xs d)" "sane (fees C d b)" for d
    using Cons.prems(3) [of d] by (auto dest!: sane_append)
  have t: "sane (ts d @ [average (fees C d b)])" if "fees C d b \<noteq> []" for d
    using Cons.prems(4) [of d] that sane_append [of "ts d @ [average (fees C d b)]" "averages C d bs"] by simp
  let ?e = "visit (Suc (length bs)) (calculateGasFeePerBlock C b)"
  note en = calculateGasFeePerBlock_entries [where C = C and b = b, OF s(2)]
  note v = visit_facts [of "visit (Suc (length bs))" "calculateGasFeePerBlock C b", OF assms(1)]
  have mem: "(d, bi) \<in> set ?e \<longleftrightarrow> map_of (calculateGasFeePerBlock C b) d = Some bi" for d bi
    using entriesD(1) [OF en] v(1) by (simp add: map_of_eq_Some_iff)
  have dom: "d \<in> fst ` set ?e \<longleftrightarrow> fees C d b \<noteq> []" for d
    using entriesD(2) [OF en, of d] v(1) by (auto simp: map_of_eq_None_iff)
  have "\<exists>m'. aggregateBlock m ?e = Ret (Inr m') \<and>
    entries m' (\<lambda>d. if d \<in> fst ` set ?e then xs d @ fees C d b else xs d)
      (\<lambda>d. if d \<in> fst ` set ?e then ts d @ [average (fees C d b)] else ts d)"
  proof (rule aggregateBlock_entries [OF Cons.prems(1,2)])
    show "distinct (map fst ?e)" using v(2) entriesD(1) [OF en] by simp
    fix d bi assume "(d, bi) \<in> set ?e"
    then have "map_of (calculateGasFeePerBlock C b) d = Some bi" using mem by simp
    with entriesD(2,3) [OF en, of d] s [of d] t [of d]
    show "stats bi (fees C d b) (fees C d b) \<and> fees C d b \<noteq> [] \<and> sane (xs d) \<and> sane (fees C d b) \<and>
        sane (ts d @ [average (fees C d b)])" by fastforce
  qed
  moreover have "(\<lambda>d. if d \<in> fst ` set ?e then xs d @ fees C d b else xs d) = (\<lambda>d. xs d @ fees C d b)"
    "(\<lambda>d. if d \<in> fst ` set ?e then ts d @ [average (fees C d b)] else ts d) =
     (\<lambda>d. ts d @ (if fees C d b = [] then [] else [average (fees C d b)]))"
    by (auto simp: dom fun_eq_iff)
  ultimately obtain m' where m': "aggregateBlock m ?e = Ret (Inr m')"
    "entries m' (\<lambda>d. xs d @ fees C d b) (\<lambda>d. ts d @ (if fees C d b = [] then [] else [average (fees C d b)]))"
    by auto
  have "\<exists>m''. aggregateBlocks C visit m' bs = Ret (Inr m'') \<and>
     entries m'' (\<lambda>d. (xs d @ fees C d b) @ all_fees C d bs)
       (\<lambda>d. (ts d @ (if fees C d b = [] then [] else [average (fees C d b)])) @ averages C d bs)"
    using Cons.prems by (intro Cons.IH [OF m'(2)]) (auto split: if_splits)
  with m'(1) show ?case by simp
qed simp


section \<open>The property\<close>

text \<open>The entry the statistics should have for its denomination.\<close>

definition is_price :: "codec \<Rightarrow> block list \<Rightarrow> GasPrice \<Rightarrow> bool" where
  "is_price C bs p \<longleftrightarrow>
     (let d = gpDenom p; xs = all_fees C d bs in
      xs \<noteq> [] \<and> sint (gpLow p) = Min (set xs) \<and> sint (gpHigh p) = Max (set xs) \<and>
      sint (gpAverage p) = average (averages C d bs))"

lemma is_price_unique: "is_price C bs p \<Longrightarrow> is_price C bs q \<Longrightarrow> gpDenom p = gpDenom q \<Longrightarrow> p = q"
  by (cases p; cases q) (simp add: is_price_def Let_def signed_word_eqI [where 'a = int])

lemma calculateGasPrices_entries:
  assumes "\<And>d i. (d, i) \<in> set m \<Longrightarrow> stats i (all_fees C d bs) (averages C d bs) \<and>
      all_fees C d bs \<noteq> [] \<and> sane (averages C d bs)"
  shows "\<exists>ps. calculateGasPrices m = Ret ps \<and> map gpDenom ps = map fst m \<and> (\<forall>p \<in> set ps. is_price C bs p)"
  using assms
proof (induction m)
  case (Cons e m)
  obtain d i where e: "e = (d, i)" by (cases e)
  from Cons.prems [of d i] e have i: "stats i (all_fees C d bs) (averages C d bs)"
    "all_fees C d bs \<noteq> []" "averages C d bs \<noteq> []" "sane (averages C d bs)"
    by (auto simp: averages_empty)
  from div64_average [of "giTotalAmount i" "averages C d bs" "giTotalCount i"] i obtain q where
    q: "div64 (giTotalAmount i) (giTotalCount i) = Ret q" "sint q = average (averages C d bs)"
    by (auto simp: stats_def)
  from Cons obtain ps where "calculateGasPrices m = Ret ps" "map gpDenom ps = map fst m"
    "\<forall>p \<in> set ps. is_price C bs p" by auto
  with q i stats_count [OF i(1,3)] show ?case
    by (simp add: e is_price_def Let_def stats_def lowest_def highest_def)
qed simp

lemma gas_prices_exact:
  assumes "\<And>n m. mset (visit n m) = mset m" and "\<And>d. sane (all_fees C d bs)"
  shows "\<exists>ps. GetGasPricesByBlocks C visit bs = Ret (Inr ps) \<and> distinct (map gpDenom ps) \<and>
    (\<forall>p. p \<in> set ps \<longleftrightarrow> is_price C bs p)"
proof -
  from aggregateBlocks_entries [of visit "[]" "\<lambda>_. []" "\<lambda>_. []" C bs, OF assms(1)] obtain m where
    m: "aggregateBlocks C visit [] bs = Ret (Inr m)" "entries m (\<lambda>d. all_fees C d bs) (\<lambda>d. averages C d bs)"
    using assms(2) averages_sane by (auto simp: entries_def)
  note v = visit_facts [of "visit 0" m, OF assms(1)]
  have dist: "distinct (map fst m)" by (rule entriesD(1) [OF m(2)])
  have "\<exists>ps. calculateGasPrices (visit 0 m) = Ret ps \<and> map gpDenom ps = map fst (visit 0 m) \<and>
      (\<forall>p \<in> set ps. is_price C bs p)"
  proof (rule calculateGasPrices_entries)
    fix d i assume "(d, i) \<in> set (visit 0 m)"
    then have "map_of m d = Some i" using v(1) dist by simp
    with entriesD(2,3) [OF m(2), of d] averages_sane [OF assms(2)]
    show "stats i (all_fees C d bs) (averages C d bs) \<and> all_fees C d bs \<noteq> [] \<and> sane (averages C d bs)"
      by (auto simp: averages_empty)
  qed
  then obtain ps where ps: "calculateGasPrices (visit 0 m) = Ret ps" "map gpDenom ps = map fst (visit 0 m)"
    "\<forall>p \<in> set ps. is_price C bs p" by auto
  have "p \<in> set ps" if "is_price C bs p" for p
  proof -
    from that have "averages C (gpDenom p) bs \<noteq> []" by (simp add: is_price_def Let_def averages_empty)
    then have "gpDenom p \<in> fst ` set m" using entriesD(2) [OF m(2), of "gpDenom p"] by (simp add: map_of_eq_None_iff)
    then have "gpDenom p \<in> gpDenom ` set ps" using ps(2) v(1) by (metis list.set_map)
    then show ?thesis using ps(3) that is_price_unique by fastforce
  qed
  with ps m(1) v(2) dist show ?thesis by (auto simp: GetGasPricesByBlocks_def)
qed


text \<open>
  C35. The gas price statistics: for blocks whose readable transactions paid, in each denomination, only positive amounts with a
  sum below \<open>2^63\<close> (\<open>sane\<close>), whatever the order in which Go visits its maps, the result has exactly one
  entry for each denomination paid, with the smallest and the largest amount paid, and the mean over the
  blocks of the blocks' mean amounts (each division rounding down). A fee of zero is left out, since the next amount would
  replace it as the smallest.
\<close>

theorem GetGasPricesByBlocks_exact:
  assumes "\<And>n m. mset (visit n m) = mset m" and "\<And>d. sane (all_fees C d bs)"
  shows "\<exists>ps. GetGasPricesByBlocks C visit bs = Ret (Inr ps) \<and> distinct (map gpDenom ps) \<and>
    (\<forall>p. p \<in> set ps \<longleftrightarrow> is_price C bs p)"
  using assms by (rule gas_prices_exact)

text \<open>A codec that reads the first byte of a transaction as its fee, for examples.\<close>

definition fee_codec :: codec where
  "fee_codec = \<lparr>
     marshalBlock = (\<lambda>_. Inl (ErrMsg ''unsupported'')), unmarshalBlock = (\<lambda>_. Inl (ErrMsg ''unsupported'')),
     marshalTxResult = (\<lambda>_. Inl (ErrMsg ''unsupported'')), unmarshalTxResult = (\<lambda>_. Inl (ErrMsg ''unsupported'')),
     marshalHeader = (\<lambda>_. Inl (ErrMsg ''unsupported'')), marshalStdTx = (\<lambda>_. Inl (ErrMsg ''unsupported'')),
     unmarshalStdTx = (\<lambda>e. case e of [] \<Rightarrow> Inl (ErrMsg ''unexpected EOF'')
        | a # _ \<Rightarrow> Inr \<lparr>sMsgs = [], sFee = \<lparr>fGasWanted = 0, fGasFee = \<lparr>cDenom = ''ugnot'', cAmount = ucast a\<rparr>\<rparr>,
            sMemo = ''''\<rparr>),
     txHash = (\<lambda>b. b), blockHash = (\<lambda>_. [])\<rparr>"

lemma paid_fee_codec:
  "paid fee_codec d [] = None" "paid fee_codec d (a # t) = (if ''ugnot'' = d then Some (sint (ucast a :: i64)) else None)"
  by (simp_all add: paid_def fee_codec_def)

theorem GetGasPricesByBlocks_exact_witness:
  "\<exists>ps. GetGasPricesByBlocks fee_codec (\<lambda>_. rev) [mk_block 1 0 [[1], [2], [], [3], [4]], mk_block 2 0 [[7]]] = Ret (Inr ps) \<and>
     \<lparr>gpDenom = ''ugnot'', gpLow = 1, gpAverage = 4, gpHigh = 7\<rparr> \<in> set ps"
proof -
  let ?bs = "[mk_block 1 0 [[1], [2], [], [3], [4]], mk_block 2 0 [[7]]]"
  have s: "sane (all_fees fee_codec d ?bs)" for d
    by (simp add: fees_def mk_block_def paid_fee_codec List.map_filter_simps sane_def)
  have p: "is_price fee_codec ?bs \<lparr>gpDenom = ''ugnot'', gpLow = 1, gpAverage = 4, gpHigh = 7\<rparr>"
    by (simp add: is_price_def fees_def mk_block_def paid_fee_codec List.map_filter_simps average_def)
  from GetGasPricesByBlocks_exact [of "\<lambda>_. rev" fee_codec ?bs, OF _ s] p show ?thesis by auto
qed

end
