(* ===== verification/Serve_Rpc.thy ===== *)
theory Serve_Rpc
  imports Serve_Gas
begin

text \<open>
  What the JSON-RPC handlers share: the values of parameters and results, the request, response and
  error objects of \<open>serve/spec\<close>, the metadata of a request, the encoding of results
  (\<open>serve/encode\<close>), and the functions of Go's standard library the handlers call on these (\<open>fmt\<close>'s \<open>%v\<close>
  and \<open>%d\<close>, \<open>strconv.ParseUint\<close>, the text of an error).
\<close>

section \<open>Values\<close>

text \<open>
  A parameter is a value that \<open>encoding/json\<close> decoded into an \<open>any\<close>. A number is a \<open>float64\<close>; the
  handlers read it only through \<open>%v\<close>, so its constructor holds the text this verb prints. The keys of an
  object are in ascending order, which is the order in which \<open>fmt\<close> prints them.
\<close>

datatype goany =
    ANil
  | ABool bool
  | AFloat string
  | AString string
  | AArray "goany list"
  | AObject "(string \<times> goany) list"

fun spaced :: "string list \<Rightarrow> string" where
  "spaced [] = ''''"
| "spaced [x] = x"
| "spaced (x # xs) = x @ '' '' @ spaced xs"

fun sprintv :: "goany \<Rightarrow> string" where
  "sprintv ANil = ''<nil>''"
| "sprintv (ABool b) = (if b then ''true'' else ''false'')"
| "sprintv (AFloat t) = t"
| "sprintv (AString s) = s"
| "sprintv (AArray xs) = ''['' @ spaced (map sprintv xs) @ '']''"
| "sprintv (AObject kvs) = ''map['' @ spaced (map (\<lambda>kv. fst kv @ '':'' @ sprintv (snd kv)) kvs) @ '']''"

text \<open>Decimal numbers.\<close>

definition digit_char :: "nat \<Rightarrow> char" where
  "digit_char d = char_of (48 + d)"

definition char_digit :: "char \<Rightarrow> nat option" where
  "char_digit c = (let n = of_char c in if 48 \<le> n \<and> n \<le> 57 then Some (n - 48) else None)"

fun show_nat :: "nat \<Rightarrow> string" where
  "show_nat n = (if n < 10 then [digit_char n] else show_nat (n div 10) @ [digit_char (n mod 10)])"

declare show_nat.simps [simp del]

definition show_int :: "int \<Rightarrow> string" where
  "show_int i = (if i < 0 then CHR ''-'' # show_nat (nat (- i)) else show_nat (nat i))"

fun read_digits :: "nat \<Rightarrow> string \<Rightarrow> nat option" where
  "read_digits n [] = Some n"
| "read_digits n (c # cs) = (case char_digit c of None \<Rightarrow> None | Some d \<Rightarrow> read_digits (n * 10 + d) cs)"

text \<open>\<open>strconv.ParseUint(s, 10, 64)\<close>: one or more digits whose value fits 64 bits.\<close>

definition parseUint :: "string \<Rightarrow> u64 option" where
  "parseUint s =
     (if s = [] then None
      else (case read_digits 0 s of
              None \<Rightarrow> None
            | Some n \<Rightarrow> if n < 2 ^ 64 then Some (of_nat n) else None))"

text \<open>The remainder of Go, which has the sign of the dividend.\<close>

definition go_rem :: "int \<Rightarrow> int \<Rightarrow> int" where
  "go_rem a b = a smod b"

section \<open>The text of an error\<close>

fun fill :: "string \<Rightarrow> string list \<Rightarrow> string" where
  "fill [] ts = []"
| "fill (c # d # r) (t # ts) =
     (if c = CHR ''%'' \<and> d = CHR ''w'' then t @ fill r ts else c # fill (d # r) (t # ts))"
| "fill (c # r) ts = c # fill r ts"

fun lines :: "string list \<Rightarrow> string" where
  "lines [] = ''''"
| "lines [x] = x"
| "lines (x # xs) = x @ [CHR 0x0A] @ lines xs"

fun errText :: "go_error \<Rightarrow> string" where
  "errText ErrNotFound = ''item not found in storage''"
| "errText PebbleErrNotFound = ''pebble: not found''"
| "errText (ErrMsg m) = m"
| "errText (ErrWrap m es) = fill m (map errText es)"
| "errText (ErrJoin es) = lines (map errText es)"

section \<open>Requests, responses and errors\<close>

definition ParseErrorCode :: int where "ParseErrorCode = - 32700"
definition InvalidParamsErrorCode :: int where "InvalidParamsErrorCode = - 32602"
definition MethodNotFoundErrorCode :: int where "MethodNotFoundErrorCode = - 32601"
definition InvalidRequestErrorCode :: int where "InvalidRequestErrorCode = - 32600"
definition ServerErrorCode :: int where "ServerErrorCode = - 32000"

definition JSONRPCVersion :: string where "JSONRPCVersion = ''2.0''"
definition SubscriptionMethod :: string where "SubscriptionMethod = ''subscription''"

record BaseJSON =
  bjJSONRPC :: string
  bjID :: u64

record BaseJSONRequest = BaseJSON +
  rqMethod :: string
  rqParams :: "goany list"

text \<open>What the handlers return: nil, an identifier or an encoded value, a flag, several encoded values, prices.\<close>

datatype rpc_value =
    VNil
  | VString string
  | VBool bool
  | VStrings "string list"
  | VGasPrices "GasPrice list"

record BaseJSONError =
  beData :: goany
  beMessage :: string
  beCode :: int

record BaseJSONResponse = BaseJSON +
  rsResult :: rpc_value
  rsError :: "BaseJSONError option"

record SubscribeResponse =
  srResult :: rpc_value
  srSubscription :: string

record BaseJSONSubscribeResponse =
  bsParams :: SubscribeResponse
  bsJSONRPC :: string
  bsMethod :: string

definition NewJSONRequest :: "u64 \<Rightarrow> string \<Rightarrow> goany list \<Rightarrow> BaseJSONRequest" where
  "NewJSONRequest ident method params =
     \<lparr>bjJSONRPC = JSONRPCVersion, bjID = ident, rqMethod = method, rqParams = params\<rparr>"

definition NewJSONResponse :: "u64 \<Rightarrow> rpc_value \<Rightarrow> BaseJSONError option \<Rightarrow> BaseJSONResponse" where
  "NewJSONResponse ident result err =
     \<lparr>bjJSONRPC = JSONRPCVersion, bjID = ident, rsResult = result, rsError = err\<rparr>"

definition NewJSONError :: "string \<Rightarrow> int \<Rightarrow> BaseJSONError" where
  "NewJSONError message code = \<lparr>beData = ANil, beMessage = message, beCode = code\<rparr>"

definition NewJSONSubscribeResponse :: "string \<Rightarrow> rpc_value \<Rightarrow> BaseJSONSubscribeResponse" where
  "NewJSONSubscribeResponse ident result =
     \<lparr>bsParams = \<lparr>srResult = result, srSubscription = ident\<rparr>, bsJSONRPC = JSONRPCVersion,
      bsMethod = SubscriptionMethod\<rparr>"

definition GenerateResponseError :: "go_error \<Rightarrow> BaseJSONError" where
  "GenerateResponseError err = NewJSONError (errText err) ServerErrorCode"

definition getOrdinalSuffix :: "int \<Rightarrow> string" where
  "getOrdinalSuffix num =
     (if go_rem num 10 = 1 \<and> go_rem num 100 \<noteq> 11 then show_int num @ ''st''
      else if go_rem num 10 = 2 \<and> go_rem num 100 \<noteq> 12 then show_int num @ ''nd''
      else if go_rem num 10 = 3 \<and> go_rem num 100 \<noteq> 13 then show_int num @ ''rd''
      else show_int num @ ''th'')"

definition GenerateInvalidParamError :: "int \<Rightarrow> BaseJSONError" where
  "GenerateInvalidParamError index =
     NewJSONError (''Invalid '' @ getOrdinalSuffix index @ '' parameter'') InvalidParamsErrorCode"

definition GenerateInvalidParamCountError :: BaseJSONError where
  "GenerateInvalidParamCountError = NewJSONError ''Invalid number of parameters'' InvalidParamsErrorCode"

text \<open>
  \<open>ParseObjectParameter\<close> marshals the parameter to JSON and unmarshals it at the wanted type; both are
  functions of \<open>encoding/json\<close> at types the caller chooses, so they are arguments.
\<close>

definition ParseObjectParameter ::
    "(goany \<Rightarrow> go_error + string) \<Rightarrow> (string \<Rightarrow> go_error + 'a) \<Rightarrow> goany \<Rightarrow> go_error + 'a" where
  "ParseObjectParameter marshal unmarshal param =
     (case marshal param of Inl err \<Rightarrow> Inl err | Inr marshaled \<Rightarrow> unmarshal marshaled)"

section \<open>Metadata\<close>

record Metadata =
  mdWebSocketID :: "string option"
  mdRemoteAddr :: string

definition WithWebSocketID :: "string \<Rightarrow> Metadata \<Rightarrow> Metadata" where
  "WithWebSocketID ident m = m\<lparr>mdWebSocketID := Some ident\<rparr>"

definition NewMetadata :: "string \<Rightarrow> (Metadata \<Rightarrow> Metadata) list \<Rightarrow> Metadata" where
  "NewMetadata remoteAddr opts = fold (\<lambda>opt m. opt m) opts \<lparr>mdWebSocketID = None, mdRemoteAddr = remoteAddr\<rparr>"

definition Metadata_IsWS :: "Metadata \<Rightarrow> bool" where
  "Metadata_IsWS m \<longleftrightarrow> mdWebSocketID m \<noteq> None"

section \<open>Encoding of results\<close>

definition PrepareValue :: "('a \<Rightarrow> go_error + bytes) \<Rightarrow> 'a \<Rightarrow> go_error + string" where
  "PrepareValue marshal value =
     (case marshal value of
        Inl err \<Rightarrow> Inl (ErrMsg ''unable to amino encode value'')
      | Inr aminoEncoding \<Rightarrow> Inr (base64 aminoEncoding))"

text \<open>Decimal text is read back: the block numbers clients send in decimal reach the storage.\<close>

lemma char_digit_digit_char: "d < 10 \<Longrightarrow> char_digit (digit_char d) = Some d"
  by (simp add: char_digit_def digit_char_def Let_def)

lemma read_digits_append:
  "read_digits n (s @ t) = Option.bind (read_digits n s) (\<lambda>m. read_digits m t)"
  by (induction s arbitrary: n) (auto split: option.splits)

lemma show_nat_not_empty [simp]: "show_nat n \<noteq> []"
  by (subst show_nat.simps) simp

lemma read_digits_show_nat: "read_digits 0 (show_nat n) = Some n"
proof (induction n rule: show_nat.induct)
  case (1 n)
  show ?case
  proof (cases "n < 10")
    case True
    then show ?thesis by (subst show_nat.simps) (simp add: char_digit_digit_char)
  next
    case False
    with "1" have "read_digits 0 (show_nat (n div 10)) = Some (n div 10)" by simp
    with False show ?thesis
      by (subst show_nat.simps) (simp add: read_digits_append char_digit_digit_char)
  qed
qed

lemma parseUint_show_nat: "parseUint (show_nat (unat n)) = Some n"
  using unat_bounds(3) [of n] by (simp add: parseUint_def read_digits_show_nat)

end
