(* ===== verification/Serve_Conns.thy ===== *)
theory Serve_Conns
  imports Serve_Rpc
begin

text \<open>
  The WebSocket connections of \<open>serve/conns\<close> and the response writers of \<open>serve/writer\<close>. A
  session of the WebSocket package is a number, and what is written to it is the list of texts passed to
  its \<open>Write\<close>, whose errors the writer only logs. A context is a number; it is cancelled when it
  is among the cancelled ones.
\<close>

section \<open>Writers\<close>

text \<open>What is written: a response, a batch of responses, or an update of a subscription.\<close>

datatype rpc_message =
    MSingle BaseJSONResponse
  | MBatch "BaseJSONResponse list"
  | MSubscribe BaseJSONSubscribeResponse

text \<open>
  The marshalling of these messages is that of \<open>encoding/json\<close>, an argument of the writers. The HTTP writer
  encodes straight into the response body, the WebSocket writer marshals and then writes.
\<close>

type_synonym marshaller = "rpc_message \<Rightarrow> go_error + string"
type_synonym ws_output = "(nat \<times> string) list"

definition http_WriteResponse :: "marshaller \<Rightarrow> rpc_message \<Rightarrow> string \<Rightarrow> string" where
  "http_WriteResponse J response body =
     (case J response of Inl err \<Rightarrow> body | Inr text \<Rightarrow> body @ text @ [CHR 0x0A])"

definition ws_WriteResponse :: "marshaller \<Rightarrow> nat \<Rightarrow> rpc_message \<Rightarrow> ws_output \<Rightarrow> ws_output" where
  "ws_WriteResponse J session response out =
     (case J response of Inl encodeErr \<Rightarrow> out | Inr jsonRaw \<Rightarrow> out @ [(session, jsonRaw)])"

section \<open>Connections\<close>

record Conn =
  coCtx :: nat
  coSession :: nat

record Conns =
  csConns :: "(string \<times> Conn) list"
  csCancelled :: "nat list"
  csNextCtx :: nat

definition NewConns :: Conns where
  "NewConns = \<lparr>csConns = [], csCancelled = [], csNextCtx = 0\<rparr>"

definition AddWSConnection :: "Conns \<Rightarrow> string \<Rightarrow> nat \<Rightarrow> Conns" where
  "AddWSConnection pw ident session =
     pw\<lparr>csConns := AList.update ident \<lparr>coCtx = csNextCtx pw, coSession = session\<rparr> (csConns pw),
        csNextCtx := Suc (csNextCtx pw)\<rparr>"

definition RemoveWSConnection :: "Conns \<Rightarrow> string \<Rightarrow> Conns" where
  "RemoveWSConnection pw ident =
     (case map_of (csConns pw) ident of
        None \<Rightarrow> pw
      | Some conn \<Rightarrow> pw\<lparr>csCancelled := coCtx conn # csCancelled pw,
                        csConns := AList.delete ident (csConns pw)\<rparr>)"

definition GetWSConnection :: "Conns \<Rightarrow> string \<Rightarrow> Conn option" where
  "GetWSConnection pw ident = map_of (csConns pw) ident"

definition Conn_WriteData ::
    "marshaller \<Rightarrow> Conns \<Rightarrow> Conn \<Rightarrow> rpc_message \<Rightarrow> ws_output \<Rightarrow> go_error option \<times> ws_output" where
  "Conn_WriteData J pw c data out =
     (if coCtx c \<in> set (csCancelled pw) then (Some (ErrMsg ''context canceled''), out)
      else (None, ws_WriteResponse J (coSession c) data out))"

section \<open>Contexts\<close>

text \<open>
  Every connection has a context of its own, used before: removing one connection cancels no other.
\<close>

definition conns_ok :: "Conns \<Rightarrow> bool" where
  "conns_ok pw \<longleftrightarrow> distinct (map fst (csConns pw)) \<and>
     (\<forall>c \<in> set (csCancelled pw). c < csNextCtx pw) \<and>
     (\<forall>i c. map_of (csConns pw) i = Some c \<longrightarrow> coCtx c < csNextCtx pw \<and> coCtx c \<notin> set (csCancelled pw)) \<and>
     (\<forall>i j c d. map_of (csConns pw) i = Some c \<longrightarrow> map_of (csConns pw) j = Some d \<longrightarrow> coCtx c = coCtx d \<longrightarrow> i = j)"

lemma NewConns_ok: "conns_ok NewConns"
  by (simp add: conns_ok_def NewConns_def)

lemma AddWSConnection_ok: "conns_ok pw \<Longrightarrow> conns_ok (AddWSConnection pw i s)"
  by (auto simp: conns_ok_def AddWSConnection_def distinct_update update_conv' simp del: map_of_eq_Some_iff
      split: if_splits) (metis less_irrefl less_SucI)+

lemma RemoveWSConnection_ok: "conns_ok pw \<Longrightarrow> conns_ok (RemoveWSConnection pw i)"
  by (auto simp: conns_ok_def RemoveWSConnection_def distinct_delete delete_conv' simp del: map_of_eq_Some_iff
      split: if_splits option.splits)

text \<open>A write to a registered connection is never refused; one to a removed connection always is.\<close>

lemma write_registered:
  assumes "conns_ok pw" "GetWSConnection pw i = Some c"
  shows "fst (Conn_WriteData J pw c data out) = None"
    and "fst (Conn_WriteData J (RemoveWSConnection pw i) c data out) \<noteq> None"
  using assms by (auto simp: conns_ok_def Conn_WriteData_def RemoveWSConnection_def GetWSConnection_def
      simp del: map_of_eq_Some_iff)

end
