(* ===== verification/Events.thy ===== *)
theory Events
  imports Chain_Types "HOL-Library.AList"
begin

text \<open>
  The event manager of \<open>events/\<close>: a queue of events per subscription, the loop that passes the events
  of one subscription on to its subscriber, and the manager that knows the subscriptions. The loop
  runs beside the calls that push events, so a subscription is a step relation; the manager's
  operations hold its lock and are functions.
\<close>

section \<open>Events\<close>

text \<open>An event has a type and data (\<open>GetType\<close>, \<open>GetData\<close>).\<close>

record 'd event =
  evType :: string
  evData :: 'd

text \<open>\<open>types/events.go\<close>\<close>

definition NewBlockEvent :: string where "NewBlockEvent = ''newHeads''"

definition newBlock_event :: "newBlock \<Rightarrow> newBlock event" where
  "newBlock_event n = \<lparr>evType = NewBlockEvent, evData = n\<rparr>"

text \<open>The data of an event, which its consumers accept when it is a new block.\<close>

datatype event_data = DNewBlock newBlock | DOther string

section \<open>The queue\<close>

definition eventQueue_push :: "'d event list \<Rightarrow> 'd event \<Rightarrow> 'd event list" where
  "eventQueue_push events event = events @ [event]"

fun eventQueue_pop :: "'d event list \<Rightarrow> 'd event option \<times> 'd event list" where
  "eventQueue_pop [] = (None, [])"
| "eventQueue_pop (event # events) = (Some event, events)"

section \<open>A subscription\<close>

text \<open>
  Where the loop stands: at the outer select, about to pop, about to send the event it popped, or
  returned (which closes the output channel).
\<close>

datatype 'd run_loop = Listening | Popping | Sending "'d event" | Stopped

text \<open>
  \<open>esNotify\<close> says whether the notification channel (capacity 1) holds a value, \<open>esOutput\<close> is the
  content of the output channel (capacity 1), \<open>esDone\<close> whether \<open>doneCh\<close> is closed.
\<close>

record 'd eventSubscription =
  esStore :: "'d event list"
  esOutput :: "'d event list"
  esDone :: bool
  esNotify :: bool
  esTypes :: "string list"
  esLoop :: "'d run_loop"

definition new_subscription :: "string list \<Rightarrow> 'd eventSubscription" where
  "new_subscription eventTypes = \<lparr>esStore = [], esOutput = [], esDone = False, esNotify = False,
     esTypes = eventTypes, esLoop = Listening\<rparr>"

definition eventSubscription_close :: "'d eventSubscription \<Rightarrow> 'd eventSubscription outcome" where
  "eventSubscription_close es =
     (if esDone es then Panic ''close of closed channel'' else Ret (es\<lparr>esDone := True\<rparr>))"

definition eventSupported :: "'d eventSubscription \<Rightarrow> string \<Rightarrow> bool" where
  "eventSupported es eventType \<longleftrightarrow> list_ex (\<lambda>supportedType. supportedType = eventType) (esTypes es)"

text \<open>The two actions of \<open>pushEvent\<close>: store the event, then notify the loop without blocking.\<close>

definition pushEvent_store :: "'d eventSubscription \<Rightarrow> 'd event \<Rightarrow> 'd eventSubscription" where
  "pushEvent_store es event = es\<lparr>esStore := eventQueue_push (esStore es) event\<rparr>"

definition pushEvent_notify :: "'d eventSubscription \<Rightarrow> 'd eventSubscription" where
  "pushEvent_notify es = es\<lparr>esNotify := True\<rparr>"

definition eventSubscription_pushEvent :: "'d eventSubscription \<Rightarrow> 'd event \<Rightarrow> 'd eventSubscription" where
  "eventSubscription_pushEvent es event =
     (if \<not> eventSupported es (evType event) then es
      else pushEvent_notify (pushEvent_store es event))"

text \<open>
  One step of the loop. At a select with several ready cases any of them may be taken; the
  inner send blocks while the output channel is full.
\<close>

inductive runLoop_step :: "'d eventSubscription \<Rightarrow> 'd eventSubscription \<Rightarrow> bool" where
  rl_done: "esLoop es = Listening \<Longrightarrow> esDone es \<Longrightarrow> runLoop_step es (es\<lparr>esLoop := Stopped\<rparr>)"
| rl_notified: "esLoop es = Listening \<Longrightarrow> esNotify es \<Longrightarrow>
    runLoop_step es (es\<lparr>esNotify := False, esLoop := Popping\<rparr>)"
| rl_empty: "esLoop es = Popping \<Longrightarrow> eventQueue_pop (esStore es) = (None, q) \<Longrightarrow>
    runLoop_step es (es\<lparr>esStore := q, esLoop := Listening\<rparr>)"
| rl_pop: "esLoop es = Popping \<Longrightarrow> eventQueue_pop (esStore es) = (Some e, q) \<Longrightarrow>
    runLoop_step es (es\<lparr>esStore := q, esLoop := Sending e\<rparr>)"
| rl_send: "esLoop es = Sending e \<Longrightarrow> length (esOutput es) < 1 \<Longrightarrow>
    runLoop_step es (es\<lparr>esOutput := esOutput es @ [e], esLoop := Popping\<rparr>)"
| rl_abort: "esLoop es = Sending e \<Longrightarrow> esDone es \<Longrightarrow> runLoop_step es (es\<lparr>esLoop := Stopped\<rparr>)"

text \<open>
  A subscription with its surroundings: pushes under way (stored but not yet notified), the
  events the subscriber has received and, for the record, all supported events pushed.
\<close>

record 'd sub_run =
  srSub :: "'d eventSubscription"
  srPushing :: nat
  srReceived :: "'d event list"
  srPushed :: "'d event list"

inductive sub_step :: "'d sub_run \<Rightarrow> 'd sub_run \<Rightarrow> bool" where
  ss_push: "eventSupported (srSub r) (evType e) \<Longrightarrow>
    sub_step r (r\<lparr>srSub := pushEvent_store (srSub r) e, srPushing := Suc (srPushing r),
                 srPushed := srPushed r @ [e]\<rparr>)"
| ss_skip: "\<not> eventSupported (srSub r) (evType (e :: 'd event)) \<Longrightarrow> sub_step r r"
| ss_notify: "srPushing r = Suc n \<Longrightarrow>
    sub_step r (r\<lparr>srSub := pushEvent_notify (srSub r), srPushing := n\<rparr>)"
| ss_loop: "runLoop_step (srSub r) es \<Longrightarrow> sub_step r (r\<lparr>srSub := es\<rparr>)"
| ss_receive: "esOutput (srSub r) = e # q \<Longrightarrow>
    sub_step r (r\<lparr>srSub := (srSub r)\<lparr>esOutput := q\<rparr>, srReceived := srReceived r @ [e]\<rparr>)"
| ss_close: "eventSubscription_close (srSub r) = Ret es \<Longrightarrow> sub_step r (r\<lparr>srSub := es\<rparr>)"

definition sub_start :: "string list \<Rightarrow> 'd sub_run" where
  "sub_start eventTypes = \<lparr>srSub = new_subscription eventTypes, srPushing = 0, srReceived = [], srPushed = []\<rparr>"

section \<open>The manager\<close>

text \<open>The map of subscriptions as an association list; \<open>numSubscriptions\<close> is an atomic counter.\<close>

record 'd manager =
  mSubscriptions :: "(u32 \<times> 'd eventSubscription) list"
  mNumSubscriptions :: i64

definition NewManager :: "'d manager" where
  "NewManager = \<lparr>mSubscriptions = [], mNumSubscriptions = 0\<rparr>"

text \<open>The identifier comes from the package \<open>uuid\<close> and is an argument.\<close>

definition Manager_Subscribe :: "'d manager \<Rightarrow> u32 \<Rightarrow> string list \<Rightarrow> u32 \<times> 'd manager" where
  "Manager_Subscribe em sid eventTypes =
     (sid, em\<lparr>mSubscriptions := AList.update sid (new_subscription eventTypes) (mSubscriptions em),
            mNumSubscriptions := mNumSubscriptions em + 1\<rparr>)"

definition Manager_CancelSubscription :: "'d manager \<Rightarrow> u32 \<Rightarrow> 'd manager outcome" where
  "Manager_CancelSubscription em sid =
     (case map_of (mSubscriptions em) sid of
        None \<Rightarrow> Ret em
      | Some subscription \<Rightarrow>
          bindO (eventSubscription_close subscription) (\<lambda>_.
            Ret (em\<lparr>mSubscriptions := AList.delete sid (mSubscriptions em),
                    mNumSubscriptions := mNumSubscriptions em - 1\<rparr>)))"

fun closeAll :: "(u32 \<times> 'd eventSubscription) list \<Rightarrow> (u32 \<times> 'd eventSubscription) list outcome" where
  "closeAll [] = Ret []"
| "closeAll ((sid, es) # subs) =
     bindO (eventSubscription_close es) (\<lambda>es. bindO (closeAll subs) (\<lambda>subs. Ret ((sid, es) # subs)))"

definition Manager_Close :: "'d manager \<Rightarrow> 'd manager outcome" where
  "Manager_Close em =
     bindO (closeAll (mSubscriptions em)) (\<lambda>subs.
       Ret (em\<lparr>mSubscriptions := subs, mNumSubscriptions := 0\<rparr>))"

definition Manager_SignalEvent :: "'d manager \<Rightarrow> 'd event \<Rightarrow> 'd manager" where
  "Manager_SignalEvent em event =
     (if mNumSubscriptions em = 0 then em
      else em\<lparr>mSubscriptions := map (\<lambda>(sid, es). (sid, eventSubscription_pushEvent es event)) (mSubscriptions em)\<rparr>)"

section \<open>Delivery\<close>

fun in_hand :: "'d run_loop \<Rightarrow> 'd event list" where
  "in_hand (Sending e) = [e]"
| "in_hand _ = []"

text \<open>
  The invariant: while the loop lives, what the subscriber has, what is in the channel, in the loop's
  hand and in the store is, in this order, what was pushed; and a store that is not empty is
  being served, or a notification is there or on its way.
\<close>

definition sub_inv :: "'d sub_run \<Rightarrow> bool" where
  "sub_inv r \<longleftrightarrow>
     (let es = srSub r in
      length (esOutput es) \<le> 1 \<and>
      (if esLoop es = Stopped
       then esDone es \<and> (\<exists>rest. srPushed r = srReceived r @ esOutput es @ rest)
       else srPushed r = srReceived r @ esOutput es @ in_hand (esLoop es) @ esStore es) \<and>
      (esLoop es = Listening \<and> esStore es \<noteq> [] \<longrightarrow> esNotify es \<or> 0 < srPushing r))"

lemmas push_defs = pushEvent_store_def pushEvent_notify_def eventQueue_push_def eventSubscription_close_def

lemma eventQueue_pop_None: "eventQueue_pop q = (None, q') \<longleftrightarrow> q = [] \<and> q' = []"
  by (cases q) auto

lemma eventQueue_pop_Some: "eventQueue_pop q = (Some e, q') \<longleftrightarrow> q = e # q'"
  by (cases q) auto

lemma loop_inv:
  assumes "runLoop_step es es'" "sub_inv r" "srSub r = es"
  shows "sub_inv (r\<lparr>srSub := es'\<rparr>)"
  using assms
  by (cases rule: runLoop_step.cases)
     (auto simp: sub_inv_def Let_def eventQueue_pop_None eventQueue_pop_Some)

lemma sub_step_inv: "sub_step r r' \<Longrightarrow> sub_inv r \<Longrightarrow> sub_inv r'"
proof (induction rule: sub_step.induct)
  case (ss_loop r es)
  then show ?case by (rule loop_inv) simp
qed (auto simp: sub_inv_def Let_def push_defs split: if_splits)

lemma sub_reach_inv: "sub_step\<^sup>*\<^sup>* (sub_start types) r \<Longrightarrow> sub_inv r"
proof (induction rule: rtranclp_induct)
  case base
  show ?case by (simp add: sub_inv_def sub_start_def new_subscription_def)
qed (rule sub_step_inv)

text \<open>What remains to be done for the delivery of everything pushed.\<close>

definition undelivered :: "'d sub_run \<Rightarrow> 'd event list" where
  "undelivered r = esOutput (srSub r) @ in_hand (esLoop (srSub r)) @ esStore (srSub r)"

inductive deliver_step :: "'d sub_run \<Rightarrow> 'd sub_run \<Rightarrow> bool" where
  ds_notify: "srPushing r = Suc n \<Longrightarrow>
    deliver_step r (r\<lparr>srSub := pushEvent_notify (srSub r), srPushing := n\<rparr>)"
| ds_loop: "runLoop_step (srSub r) es \<Longrightarrow> deliver_step r (r\<lparr>srSub := es\<rparr>)"
| ds_receive: "esOutput (srSub r) = e # q \<Longrightarrow>
    deliver_step r (r\<lparr>srSub := (srSub r)\<lparr>esOutput := q\<rparr>, srReceived := srReceived r @ [e]\<rparr>)"

lemma deliver_sub: "deliver_step r r' \<Longrightarrow> sub_step r r'"
  by (induction rule: deliver_step.induct) (auto intro: sub_step.intros)

definition work_left :: "'d sub_run \<Rightarrow> nat" where
  "work_left r = 3 * srPushing r + (if esNotify (srSub r) then 2 else 0) +
     3 * length (esStore (srSub r)) + length (esOutput (srSub r)) +
     (case esLoop (srSub r) of Listening \<Rightarrow> 0 | Popping \<Rightarrow> 1 | Sending e \<Rightarrow> 3 | Stopped \<Rightarrow> 0)"


lemma deliver_decreases: "deliver_step r r' \<Longrightarrow> \<not> esDone (srSub r) \<Longrightarrow> work_left r' < work_left r"
proof (induction rule: deliver_step.induct)
  case (ds_loop r es)
  then show ?case
    by (cases rule: runLoop_step.cases) (auto simp: work_left_def eventQueue_pop_None eventQueue_pop_Some)
qed (auto simp: work_left_def pushEvent_notify_def)

lemma deliver_keeps:
  "deliver_step r r' \<Longrightarrow> \<not> esDone (srSub r) \<Longrightarrow> esLoop (srSub r) \<noteq> Stopped \<Longrightarrow>
   \<not> esDone (srSub r') \<and> esLoop (srSub r') \<noteq> Stopped \<and> srPushed r' = srPushed r"
proof (induction rule: deliver_step.induct)
  case (ds_loop r es)
  then show ?case by (cases rule: runLoop_step.cases) auto
qed (auto simp: pushEvent_notify_def)

lemma deliver_progress:
  assumes "sub_inv r" "\<not> esDone (srSub r)" "esLoop (srSub r) \<noteq> Stopped" "undelivered r \<noteq> []"
  shows "\<exists>r'. deliver_step r r'"
proof (cases "esOutput (srSub r)")
  case (Cons e q)
  then show ?thesis using ds_receive by blast
next
  case Nil
  show ?thesis
  proof (cases "esLoop (srSub r)")
    case Listening
    with assms Nil have "esNotify (srSub r) \<or> 0 < srPushing r"
      by (auto simp: sub_inv_def Let_def undelivered_def)
    then show ?thesis
    proof
      assume "esNotify (srSub r)"
      with rl_notified [OF Listening] show ?thesis using ds_loop by blast
    next
      assume "0 < srPushing r"
      then obtain n where "srPushing r = Suc n" by (cases "srPushing r") auto
      then show ?thesis using ds_notify by blast
    qed
  next
    case Popping
    have "\<exists>es. runLoop_step (srSub r) es"
    proof (cases "esStore (srSub r)")
      case Nil
      with rl_empty [OF Popping, of "[]"] show ?thesis by auto
    next
      case (Cons e q)
      with rl_pop [OF Popping, of e q] show ?thesis by auto
    qed
    then show ?thesis using ds_loop by blast
  next
    case (Sending e)
    with rl_send [OF Sending] Nil show ?thesis using ds_loop by force
  qed (use assms in simp)
qed

lemma delivered_eq:
  "sub_inv r \<Longrightarrow> esLoop (srSub r) \<noteq> Stopped \<Longrightarrow> srPushed r = srReceived r @ undelivered r"
  by (simp add: sub_inv_def Let_def undelivered_def)

lemma deliver_run:
  assumes "(deliver_step ^^ n) r r'" "sub_inv r" "\<not> esDone (srSub r)" "esLoop (srSub r) \<noteq> Stopped"
  shows "n + work_left r' \<le> work_left r \<and> sub_inv r' \<and> \<not> esDone (srSub r') \<and>
    esLoop (srSub r') \<noteq> Stopped \<and> srPushed r' = srPushed r"
  using assms
proof (induction n arbitrary: r')
  case (Suc n)
  from Suc.prems(1) obtain r1 where r1: "(deliver_step ^^ n) r r1" "deliver_step r1 r'" by auto
  note IH = Suc.IH [OF r1(1) Suc.prems(2-4)]
  then have open_: "\<not> esDone (srSub r1)" "esLoop (srSub r1) \<noteq> Stopped" by auto
  from IH deliver_decreases [OF r1(2) open_(1)] deliver_keeps [OF r1(2) open_]
    sub_step_inv [OF deliver_sub [OF r1(2)]]
  show ?case by auto
qed simp

section \<open>The manager's bookkeeping\<close>

text \<open>
  The states of a manager until it is closed: subscriptions with identifiers that are not in use,
  cancellations, events, and the loops and subscribers of the subscriptions in between.
\<close>

inductive manager_reach :: "'d manager \<Rightarrow> bool" where
  mr_new: "manager_reach NewManager"
| mr_subscribe: "manager_reach em \<Longrightarrow> map_of (mSubscriptions em) sid = None \<Longrightarrow>
    Manager_Subscribe em sid types = (sid, em') \<Longrightarrow> manager_reach em'"
| mr_cancel: "manager_reach em \<Longrightarrow> Manager_CancelSubscription em sid = Ret em' \<Longrightarrow> manager_reach em'"
| mr_signal: "manager_reach em \<Longrightarrow> manager_reach (Manager_SignalEvent em e)"
| mr_loop: "manager_reach em \<Longrightarrow> map_of (mSubscriptions em) sid = Some es \<Longrightarrow> runLoop_step es es' \<Longrightarrow>
    manager_reach (em\<lparr>mSubscriptions := AList.update sid es' (mSubscriptions em)\<rparr>)"
| mr_receive: "manager_reach em \<Longrightarrow> map_of (mSubscriptions em) sid = Some es \<Longrightarrow> esOutput es = e # q \<Longrightarrow>
    manager_reach (em\<lparr>mSubscriptions := AList.update sid (es\<lparr>esOutput := q\<rparr>) (mSubscriptions em)\<rparr>)"

definition manager_ok :: "'d manager \<Rightarrow> bool" where
  "manager_ok em \<longleftrightarrow> distinct (map fst (mSubscriptions em)) \<and>
     mNumSubscriptions em = of_nat (length (mSubscriptions em)) \<and>
     (\<forall>(sid, es) \<in> set (mSubscriptions em). \<not> esDone es)"

lemma length_update: "length (AList.update k v al) = (if map_of al k = None then Suc (length al) else length al)"
  by (induction al) auto

lemma length_delete:
  "distinct (map fst al) \<Longrightarrow> map_of al k = Some v \<Longrightarrow> length al = Suc (length (AList.delete k al))"
proof (induction al)
  case (Cons x al)
  have "k \<notin> fst ` set al \<Longrightarrow> filter (\<lambda>(k', _). k \<noteq> k') al = al" by (rule filter_True) force
  with Cons show ?case by (cases x) (auto simp: AList.delete_eq)
qed simp

lemma update_mem: "(k', v') \<in> set (AList.update k v al) \<Longrightarrow> (k', v') = (k, v) \<or> (k', v') \<in> set al"
  by (induction al) (auto split: if_splits)

lemma pushEvent_done [simp]: "esDone (eventSubscription_pushEvent es e) = esDone es"
  by (simp add: eventSubscription_pushEvent_def push_defs)

lemma runLoop_done: "runLoop_step es es' \<Longrightarrow> esDone es' = esDone es"
  by (induction rule: runLoop_step.induct) auto

lemma manager_update_ok:
  assumes "manager_ok em" "map_of (mSubscriptions em) sid = Some es" "esDone es' = esDone es"
  shows "manager_ok (em\<lparr>mSubscriptions := AList.update sid es' (mSubscriptions em)\<rparr>)"
  using assms map_of_SomeD [OF assms(2)]
  by (auto simp: manager_ok_def length_update distinct_update dest!: update_mem)

lemma manager_reach_ok: "manager_reach em \<Longrightarrow> manager_ok em"
proof (induction rule: manager_reach.induct)
  case mr_new
  show ?case by (simp add: manager_ok_def NewManager_def)
next
  case (mr_subscribe em sid types em')
  then show ?case
    by (auto simp: manager_ok_def Manager_Subscribe_def length_update distinct_update new_subscription_def
        dest!: update_mem)
next
  case (mr_cancel em sid em')
  show ?case
  proof (cases "map_of (mSubscriptions em) sid")
    case None
    with mr_cancel show ?thesis by (simp add: Manager_CancelSubscription_def)
  next
    case (Some es)
    with mr_cancel have em': "em' = em\<lparr>mSubscriptions := AList.delete sid (mSubscriptions em),
        mNumSubscriptions := mNumSubscriptions em - 1\<rparr>"
      by (simp add: Manager_CancelSubscription_def bindO_Ret_iff)
    from mr_cancel.IH have "length (mSubscriptions em) = Suc (length (AList.delete sid (mSubscriptions em)))"
      by (intro length_delete [OF _ Some]) (simp add: manager_ok_def)
    with mr_cancel.IH show ?thesis unfolding em'
      by (auto simp: manager_ok_def distinct_delete) (auto simp: AList.delete_eq)
  qed
next
  case (mr_signal em e)
  then show ?case by (auto simp: manager_ok_def Manager_SignalEvent_def comp_def case_prod_beta)
next
  case (mr_loop em sid es es')
  show ?case by (rule manager_update_ok [OF mr_loop.IH mr_loop.hyps(2) runLoop_done [OF mr_loop.hyps(3)]])
next
  case (mr_receive em sid es e q)
  then show ?case by (intro manager_update_ok) auto
qed

lemma closeAll_open:
  "\<forall>(sid, es) \<in> set subs. \<not> esDone es \<Longrightarrow>
   closeAll subs = Ret (map (\<lambda>(sid, es). (sid, es\<lparr>esDone := True\<rparr>)) subs)"
  by (induction subs) (auto simp: eventSubscription_close_def)

lemma map_of_map_snd: "map_of (map (\<lambda>(k, v). (k, f v)) al) k = map_option f (map_of al k)"
  by (induction al) auto

section \<open>Properties\<close>

text \<open>
  C21. A subscriber receives the events of the types it asked for in the order in which they were pushed,
  each once and without a gap, whatever the interleaving of pushes, notifications, the loop, the
  subscriber and the close; what it has not received while the subscription is open is in the
  output channel, in the hand of the loop, or in the store.
\<close>

theorem subscription_fifo:
  assumes "sub_step\<^sup>*\<^sup>* (sub_start types) r"
  shows "(\<exists>rest. srPushed r = srReceived r @ rest) \<and> length (esOutput (srSub r)) \<le> 1 \<and>
    (\<not> esDone (srSub r) \<longrightarrow>
       srPushed r = srReceived r @ esOutput (srSub r) @ in_hand (esLoop (srSub r)) @ esStore (srSub r))"
  using sub_reach_inv [OF assms] by (auto simp: sub_inv_def Let_def split: if_splits)

definition ex_event :: "nat event" where
  "ex_event = \<lparr>evType = ''newHeads'', evData = 7\<rparr>"

definition ex_run :: "nat sub_run" where
  "ex_run = (sub_start [''newHeads''])\<lparr>srSub := pushEvent_store (new_subscription [''newHeads'']) ex_event,
     srPushing := 1, srPushed := [ex_event]\<rparr>"

lemma ex_run_reach: "sub_step\<^sup>*\<^sup>* (sub_start [''newHeads'']) ex_run"
proof -
  have "sub_step (sub_start [''newHeads'']) ex_run"
    using ss_push [of "sub_start [''newHeads'']" ex_event]
    by (simp add: ex_run_def ex_event_def sub_start_def new_subscription_def eventSupported_def)
  then show ?thesis by blast
qed

theorem subscription_fifo_witness:
  "\<exists>rest. srPushed ex_run = srReceived ex_run @ rest"
  using subscription_fifo [OF ex_run_reach] by blast

text \<open>
  C38. While a subscription is open, every event pushed is delivered: a run of the notifications, the
  loop and the subscriber is bounded by the work left, and where it can go no further the
  subscriber has received everything that was pushed (no notification is lost, although the channel
  holds only one).
\<close>

theorem subscription_delivers:
  assumes "sub_step\<^sup>*\<^sup>* (sub_start types) r" "\<not> esDone (srSub r)"
  shows "\<forall>n r'. (deliver_step ^^ n) r r' \<longrightarrow>
    n \<le> work_left r \<and> (\<not> (\<exists>r''. deliver_step r' r'') \<longrightarrow> srReceived r' = srPushed r)"
proof (intro allI impI)
  fix n r' assume n: "(deliver_step ^^ n) r r'"
  have inv: "sub_inv r" by (rule sub_reach_inv [OF assms(1)])
  have "esLoop (srSub r) \<noteq> Stopped" using inv assms(2) by (auto simp: sub_inv_def Let_def)
  note run = deliver_run [OF n inv assms(2) this]
  show "n \<le> work_left r \<and> (\<not> (\<exists>r''. deliver_step r' r'') \<longrightarrow> srReceived r' = srPushed r)"
    using run deliver_progress [of r'] delivered_eq [of r'] by fastforce
qed

theorem subscription_delivers_witness:
  "work_left ex_run = 6 \<and> \<not> (\<exists>r'. (deliver_step ^^ 7) ex_run r')"
proof -
  have w: "work_left ex_run = 6" "\<not> esDone (srSub ex_run)"
    by (simp_all add: work_left_def ex_run_def sub_start_def new_subscription_def pushEvent_store_def eventQueue_push_def)
  with subscription_delivers [OF ex_run_reach w(2)] show ?thesis by fastforce
qed

text \<open>
  In every state a manager reaches before it is closed, its counter is the number of its
  subscriptions, so the shortcut of \<open>SignalEvent\<close> never skips a subscriber: each open subscription that supports the type
  has the event at the end of its store and a notification, and the others are as they were.
\<close>

theorem SignalEvent_reaches_all:
  assumes "manager_reach em" "length (mSubscriptions em) < 2 ^ 64"
  shows "unat (mNumSubscriptions em) = length (mSubscriptions em) \<and>
    map_of (mSubscriptions (Manager_SignalEvent em e)) sid =
      (case map_of (mSubscriptions em) sid of
         None \<Rightarrow> None
       | Some es \<Rightarrow> Some (if evType e \<in> set (esTypes es)
                         then es\<lparr>esStore := esStore es @ [e], esNotify := True\<rparr> else es))"
proof -
  have n: "unat (mNumSubscriptions em) = length (mSubscriptions em)"
    using manager_reach_ok [OF assms(1)] assms(2)
    by (simp add: manager_ok_def unat_of_nat take_bit_eq_mod)
  have z: "mNumSubscriptions em = 0 \<Longrightarrow> mSubscriptions em = []" using n by simp
  have p: "eventSubscription_pushEvent es e =
      (if evType e \<in> set (esTypes es) then es\<lparr>esStore := esStore es @ [e], esNotify := True\<rparr> else es)" for es
    by (auto simp: eventSubscription_pushEvent_def push_defs eventSupported_def list_ex_iff)
  show ?thesis
    using z by (simp add: n Manager_SignalEvent_def map_of_map_snd p split: option.split)
qed

definition ex_manager :: "nat manager" where
  "ex_manager = snd (Manager_Subscribe NewManager 5 [''newHeads''])"

lemma ex_manager_reach: "manager_reach ex_manager"
  by (rule mr_subscribe [OF mr_new, of 5]) (simp_all add: ex_manager_def Manager_Subscribe_def NewManager_def)

lemma ex_manager_subs: "mSubscriptions ex_manager = [(5, new_subscription [''newHeads''])]"
  by (simp add: ex_manager_def Manager_Subscribe_def NewManager_def)

theorem SignalEvent_reaches_all_witness:
  "unat (mNumSubscriptions ex_manager) = 1 \<and>
   map_option esStore (map_of (mSubscriptions (Manager_SignalEvent ex_manager ex_event)) 5) = Some [ex_event]"
  using SignalEvent_reaches_all [OF ex_manager_reach, of ex_event 5]
  by (simp add: ex_manager_subs new_subscription_def ex_event_def)

text \<open>
  \<open>Close\<close> closes every subscription but leaves them in the map, so cancelling a subscription of a
  closed manager closes its channel a second time and panics.
\<close>

theorem Close_then_Cancel_panics:
  assumes "manager_reach em" "map_of (mSubscriptions em) sid = Some es"
  shows "\<exists>em'. Manager_Close em = Ret em' \<and> mNumSubscriptions em' = 0 \<and>
    map_of (mSubscriptions em') sid = Some (es\<lparr>esDone := True\<rparr>) \<and>
    Manager_CancelSubscription em' sid = Panic ''close of closed channel''"
proof -
  have "\<forall>(sid, es) \<in> set (mSubscriptions em). \<not> esDone es"
    using manager_reach_ok [OF assms(1)] by (simp add: manager_ok_def)
  from closeAll_open [OF this] show ?thesis
    using assms(2) map_of_map_snd [of "\<lambda>es. es\<lparr>esDone := True\<rparr>" "mSubscriptions em" sid]
    by (simp add: Manager_Close_def Manager_CancelSubscription_def eventSubscription_close_def)
qed

theorem Close_then_Cancel_panics_witness:
  "\<exists>em'. Manager_Close ex_manager = Ret em' \<and>
    Manager_CancelSubscription em' 5 = Panic ''close of closed channel''"
  using Close_then_Cancel_panics [OF ex_manager_reach, of 5] by (auto simp: ex_manager_subs)

end
