(* ===== verification/Serve_Filters.thy ===== *)
theory Serve_Filters
  imports Serve_Conns Events
begin

text \<open>
  The filters and subscriptions of \<open>serve/filters\<close>: the filters that collect what is new until a
  client asks, the subscriptions that push it over a WebSocket connection, the two maps that hold them,
  and the manager that feeds both from the stream of new blocks. Each operation holds the lock of its
  map or filter and is a function; the manager's goroutines and the requests of clients interleave
  between them, which is a step relation. The current time and new identifiers are arguments.
\<close>

section \<open>Filters\<close>

definition BlockFilterType :: string where "BlockFilterType = ''BlockFilter''"
definition TxFilterType :: string where "TxFilterType = ''TxFilter''"

record baseFilter =
  baLastUsed :: gotime
  baFilterType :: string

definition newBaseFilter :: "gotime \<Rightarrow> string \<Rightarrow> baseFilter" where
  "newBaseFilter now filterType = \<lparr>baLastUsed = now, baFilterType = filterType\<rparr>"

definition baseFilter_GetType :: "baseFilter \<Rightarrow> string" where
  "baseFilter_GetType b = baFilterType b"

definition baseFilter_GetLastUsed :: "baseFilter \<Rightarrow> gotime" where
  "baseFilter_GetLastUsed b = baLastUsed b"

definition baseFilter_UpdateLastUsed :: "gotime \<Rightarrow> baseFilter \<Rightarrow> baseFilter" where
  "baseFilter_UpdateLastUsed now b = b\<lparr>baLastUsed := now\<rparr>"

text \<open>What a filter is given, and what it returns.\<close>

datatype update = UBlock block | UTx "tx_result option"
datatype change = CHeader header | CTx tx_result

record block_filter =
  blBase :: baseFilter
  blBlockHeaders :: "header list"

definition NewBlockFilter :: "gotime \<Rightarrow> block_filter" where
  "NewBlockFilter now = \<lparr>blBase = newBaseFilter now BlockFilterType, blBlockHeaders = []\<rparr>"

definition updateWithBlock :: "block_filter \<Rightarrow> block \<Rightarrow> block_filter" where
  "updateWithBlock b block = b\<lparr>blBlockHeaders := blBlockHeaders b @ [bHeader block]\<rparr>"

definition BlockFilter_UpdateWith :: "block_filter \<Rightarrow> update \<Rightarrow> block_filter" where
  "BlockFilter_UpdateWith b data = (case data of UBlock block \<Rightarrow> updateWithBlock b block | UTx _ \<Rightarrow> b)"

definition getBlockChanges :: "block_filter \<Rightarrow> change list \<times> block_filter" where
  "getBlockChanges b = (map CHeader (blBlockHeaders b), b\<lparr>blBlockHeaders := []\<rparr>)"

record RangeFilterOption =
  roMin :: "i64 option"
  roMax :: "i64 option"

record TxFilterOption =
  toGasUsed :: "RangeFilterOption option"
  toGasWanted :: "RangeFilterOption option"
  toGasLimit :: "RangeFilterOption option"

record tx_filter =
  tfOpts :: TxFilterOption
  tfBase :: baseFilter
  tfTxs :: "tx_result list"

definition NewTxFilter :: "gotime \<Rightarrow> TxFilterOption \<Rightarrow> tx_filter" where
  "NewTxFilter now opts = \<lparr>tfOpts = opts, tfBase = newBaseFilter now TxFilterType, tfTxs = []\<rparr>"

definition filteredByRangeFilterOption :: "i64 \<Rightarrow> RangeFilterOption option \<Rightarrow> bool" where
  "filteredByRangeFilterOption value rangeFilterOption =
     (case rangeFilterOption of
        None \<Rightarrow> True
      | Some r \<Rightarrow>
          let leftBound = deref 0 (roMin r); rightBound = deref maxInt64 (roMax r) in
          sint leftBound \<le> sint value \<and> sint value \<le> sint rightBound)"

definition checkFilterOptions :: "TxFilterOption \<Rightarrow> tx_result option \<Rightarrow> bool outcome" where
  "checkFilterOptions opts tx =
     (case tx of
        None \<Rightarrow> Panic ''invalid memory address or nil pointer dereference''
      | Some t \<Rightarrow>
          Ret (filteredByRangeFilterOption (rGasUsed (trResponse t)) (toGasUsed opts) \<and>
               filteredByRangeFilterOption (rGasWanted (trResponse t)) (toGasWanted opts) \<and>
               filteredByRangeFilterOption (rGasUsed (trResponse t)) (toGasLimit opts)))"

definition updateWithTx :: "tx_filter \<Rightarrow> tx_result option \<Rightarrow> tx_filter outcome" where
  "updateWithTx tf tx =
     (case tx of
        None \<Rightarrow> Panic ''invalid memory address or nil pointer dereference''
      | Some t \<Rightarrow> Ret (tf\<lparr>tfTxs := tfTxs tf @ [t]\<rparr>))"

definition TxFilter_UpdateWith :: "tx_filter \<Rightarrow> update \<Rightarrow> tx_filter outcome" where
  "TxFilter_UpdateWith tf data =
     (case data of
        UBlock _ \<Rightarrow> Ret tf
      | UTx tx \<Rightarrow> bindO (checkFilterOptions (tfOpts tf) tx) (\<lambda>ok. if ok then updateWithTx tf tx else Ret tf))"

definition getTxChanges :: "tx_filter \<Rightarrow> change list \<times> tx_filter" where
  "getTxChanges tf = (map CTx (tfTxs tf), tf\<lparr>tfTxs := []\<rparr>)"

text \<open>The interface \<open>Filter\<close>, with its two implementations.\<close>

datatype filter_item = BlockItem block_filter | TxItem tx_filter

fun Filter_base :: "filter_item \<Rightarrow> baseFilter" where
  "Filter_base (BlockItem b) = blBase b"
| "Filter_base (TxItem tf) = tfBase tf"

fun Filter_UpdateLastUsed :: "gotime \<Rightarrow> filter_item \<Rightarrow> filter_item" where
  "Filter_UpdateLastUsed now (BlockItem b) = BlockItem (b\<lparr>blBase := baseFilter_UpdateLastUsed now (blBase b)\<rparr>)"
| "Filter_UpdateLastUsed now (TxItem tf) = TxItem (tf\<lparr>tfBase := baseFilter_UpdateLastUsed now (tfBase tf)\<rparr>)"

fun Filter_GetChanges :: "filter_item \<Rightarrow> change list \<times> filter_item" where
  "Filter_GetChanges (BlockItem b) = (case getBlockChanges b of (cs, b) \<Rightarrow> (cs, BlockItem b))"
| "Filter_GetChanges (TxItem tf) = (case getTxChanges tf of (cs, tf) \<Rightarrow> (cs, TxItem tf))"

fun Filter_UpdateWith :: "update \<Rightarrow> filter_item \<Rightarrow> filter_item outcome" where
  "Filter_UpdateWith data (BlockItem b) = Ret (BlockItem (BlockFilter_UpdateWith b data))"
| "Filter_UpdateWith data (TxItem tf) = bindO (TxFilter_UpdateWith tf data) (\<lambda>tf. Ret (TxItem tf))"

section \<open>The map of filters\<close>

type_synonym filter_map = "(string \<times> filter_item) list"

definition filterMap_newFilter :: "filter_map \<Rightarrow> string \<Rightarrow> filter_item \<Rightarrow> string \<times> filter_map" where
  "filterMap_newFilter items ident filterItem = (ident, AList.update ident filterItem items)"

definition filterMap_uninstallFilter :: "filter_map \<Rightarrow> string \<Rightarrow> bool \<times> filter_map" where
  "filterMap_uninstallFilter items ident = (map_of items ident \<noteq> None, AList.delete ident items)"

definition filterMap_getFilter :: "gotime \<Rightarrow> filter_map \<Rightarrow> string \<Rightarrow> filter_item option \<times> filter_map" where
  "filterMap_getFilter now items ident =
     (case map_of items ident of
        None \<Rightarrow> (None, items)
      | Some filterItem \<Rightarrow>
          let filterItem = Filter_UpdateLastUsed now filterItem
          in (Some filterItem, AList.update ident filterItem items))"

definition filterMap_cleanup :: "gotime \<Rightarrow> filter_map \<Rightarrow> filter_map" where
  "filterMap_cleanup cutoff items =
     filter (\<lambda>(key, filterItem). \<not> baseFilter_GetLastUsed (Filter_base filterItem) < cutoff) items"

text \<open>\<open>rangeItems\<close> with a callback that updates a filter. Every filter is visited once; a panic ends the visit.\<close>

fun filterMap_rangeItems :: "(filter_item \<Rightarrow> filter_item outcome) \<Rightarrow> filter_map \<Rightarrow> filter_map outcome" where
  "filterMap_rangeItems cb [] = Ret []"
| "filterMap_rangeItems cb ((key, item) # items) =
     bindO (cb item) (\<lambda>item. bindO (filterMap_rangeItems cb items) (\<lambda>items. Ret ((key, item) # items)))"

section \<open>Subscriptions\<close>

definition NewHeadsEvent :: string where "NewHeadsEvent = ''newHeads''"
definition NewGasPriceEvent :: string where "NewGasPriceEvent = ''newGasPrice''"
definition NewTransactionsEvent :: string where "NewTransactionsEvent = ''newTransactions''"

text \<open>The interface \<open>subscription\<close>, with its implementations: each holds its connection.\<close>

datatype subscription =
    BlockSubscription Conn
  | TransactionSubscription Conn
  | GasPriceSubscription Conn

fun subscription_GetType :: "subscription \<Rightarrow> string" where
  "subscription_GetType (BlockSubscription conn) = NewHeadsEvent"
| "subscription_GetType (TransactionSubscription conn) = NewTransactionsEvent"
| "subscription_GetType (GasPriceSubscription conn) = NewGasPriceEvent"

text \<open>
  The surroundings of the manager: the codec, the marshalling of messages, and the order in which the
  visits of the maps of the gas statistics and of the map of subscriptions proceed. In the errors the data, which the
  code prints after the text, is left out: the only caller looks at whether there is an error.
\<close>

record fm_env =
  feCodec :: codec
  feMarshal :: marshaller
  feVisitGas :: "nat \<Rightarrow> gas_map \<Rightarrow> gas_map"
  feVisitSubs :: "(string \<times> subscription) list \<Rightarrow> (string \<times> subscription) list"

definition castError :: "string \<Rightarrow> go_error" where
  "castError what = ErrMsg (''unable to cast '' @ what)"

definition BlockSubscription_WriteResponse ::
    "fm_env \<Rightarrow> Conns \<Rightarrow> Conn \<Rightarrow> string \<Rightarrow> update \<Rightarrow> ws_output \<Rightarrow> go_error option \<times> ws_output" where
  "BlockSubscription_WriteResponse E pw conn ident data out =
     (case data of
        UTx _ \<Rightarrow> (Some (castError ''block''), out)
      | UBlock block \<Rightarrow>
          (case PrepareValue (marshalHeader (feCodec E)) (bHeader block) of
             Inl err \<Rightarrow> (Some err, out)
           | Inr encodedBlock \<Rightarrow>
               Conn_WriteData (feMarshal E) pw conn
                 (MSubscribe (NewJSONSubscribeResponse ident (VString encodedBlock))) out))"

definition TransactionSubscription_WriteResponse ::
    "fm_env \<Rightarrow> Conns \<Rightarrow> Conn \<Rightarrow> string \<Rightarrow> update \<Rightarrow> ws_output \<Rightarrow> go_error option \<times> ws_output" where
  "TransactionSubscription_WriteResponse E pw conn ident data out =
     (case data of
        UBlock _ \<Rightarrow> (Some (castError ''txResult''), out)
      | UTx tx \<Rightarrow>
          (case PrepareValue (marshalTxResult (feCodec E)) tx of
             Inl err \<Rightarrow> (Some err, out)
           | Inr encodedTx \<Rightarrow>
               Conn_WriteData (feMarshal E) pw conn
                 (MSubscribe (NewJSONSubscribeResponse ident (VString encodedTx))) out))"

definition GasPriceSubscription_WriteResponse ::
    "fm_env \<Rightarrow> Conns \<Rightarrow> Conn \<Rightarrow> string \<Rightarrow> update \<Rightarrow> ws_output \<Rightarrow> (go_error option \<times> ws_output) outcome" where
  "GasPriceSubscription_WriteResponse E pw conn ident data out =
     (case data of
        UTx _ \<Rightarrow> Ret (Some (castError ''txResult''), out)
      | UBlock block \<Rightarrow>
          bindO (GetGasPricesByBlock (feCodec E) (feVisitGas E) block) (\<lambda>r.
            case r of
              Inl err \<Rightarrow> Ret (Some err, out)
            | Inr gasPrices \<Rightarrow>
                Ret (Conn_WriteData (feMarshal E) pw conn
                  (MSubscribe (NewJSONSubscribeResponse ident (VGasPrices gasPrices))) out)))"

fun subscription_WriteResponse ::
    "fm_env \<Rightarrow> Conns \<Rightarrow> subscription \<Rightarrow> string \<Rightarrow> update \<Rightarrow> ws_output \<Rightarrow> (go_error option \<times> ws_output) outcome" where
  "subscription_WriteResponse E pw (BlockSubscription conn) ident data out =
     Ret (BlockSubscription_WriteResponse E pw conn ident data out)"
| "subscription_WriteResponse E pw (TransactionSubscription conn) ident data out =
     Ret (TransactionSubscription_WriteResponse E pw conn ident data out)"
| "subscription_WriteResponse E pw (GasPriceSubscription conn) ident data out =
     GasPriceSubscription_WriteResponse E pw conn ident data out"

type_synonym sub_map = "(string \<times> subscription) list"

definition subMap_addSubscription :: "sub_map \<Rightarrow> string \<Rightarrow> subscription \<Rightarrow> string \<times> sub_map" where
  "subMap_addSubscription subs ident sub = (ident, AList.update ident sub subs)"

definition subMap_deleteSubscription :: "sub_map \<Rightarrow> string \<Rightarrow> bool \<times> sub_map" where
  "subMap_deleteSubscription subs ident =
     (case map_of subs ident of
        Some _ \<Rightarrow> (True, AList.delete ident subs)
      | None \<Rightarrow> (False, subs))"

text \<open>
  The goroutines of \<open>sendEvent\<close>, in the order in which they write: the identifiers whose write failed, and
  the output.
\<close>

fun sendEvent_writes ::
    "fm_env \<Rightarrow> Conns \<Rightarrow> string \<Rightarrow> update \<Rightarrow> sub_map \<Rightarrow> string list \<Rightarrow> ws_output \<Rightarrow> (string list \<times> ws_output) outcome" where
  "sendEvent_writes E pw eventType data [] invalidSends out = Ret (invalidSends, out)"
| "sendEvent_writes E pw eventType data ((ident, sub) # subs) invalidSends out =
     (if subscription_GetType sub \<noteq> eventType then sendEvent_writes E pw eventType data subs invalidSends out
      else bindO (subscription_WriteResponse E pw sub ident data out) (\<lambda>(err, out).
             sendEvent_writes E pw eventType data subs
               (if err \<noteq> None then invalidSends @ [ident] else invalidSends) out))"

definition subMap_sendEvent ::
    "fm_env \<Rightarrow> Conns \<Rightarrow> sub_map \<Rightarrow> string \<Rightarrow> update \<Rightarrow> ws_output \<Rightarrow> (sub_map \<times> ws_output) outcome" where
  "subMap_sendEvent E pw subs eventType data out =
     bindO (sendEvent_writes E pw eventType data (feVisitSubs E subs) [] out) (\<lambda>(invalidSends, out).
       Ret (fold AList.delete invalidSends subs, out))"

section \<open>The manager\<close>

record Manager =
  mgFilters :: filter_map
  mgSubscriptions :: sub_map
  mgCleanupInterval :: int

definition WithCleanupInterval :: "int \<Rightarrow> Manager \<Rightarrow> Manager" where
  "WithCleanupInterval interval manager = manager\<lparr>mgCleanupInterval := interval\<rparr>"

definition NewFilterManager :: "(Manager \<Rightarrow> Manager) list \<Rightarrow> Manager" where
  "NewFilterManager opts =
     fold (\<lambda>opt m. opt m) opts
       \<lparr>mgFilters = [], mgSubscriptions = [], mgCleanupInterval = 5 * 60 * 1000000000\<rparr>"

definition Manager_NewBlockFilter :: "gotime \<Rightarrow> string \<Rightarrow> Manager \<Rightarrow> string \<times> Manager" where
  "Manager_NewBlockFilter now uid f =
     (case filterMap_newFilter (mgFilters f) uid (BlockItem (NewBlockFilter now)) of
        (ident, items) \<Rightarrow> (ident, f\<lparr>mgFilters := items\<rparr>))"

definition Manager_NewTxFilter :: "gotime \<Rightarrow> string \<Rightarrow> TxFilterOption \<Rightarrow> Manager \<Rightarrow> string \<times> Manager" where
  "Manager_NewTxFilter now uid options f =
     (case filterMap_newFilter (mgFilters f) uid (TxItem (NewTxFilter now options)) of
        (ident, items) \<Rightarrow> (ident, f\<lparr>mgFilters := items\<rparr>))"

definition Manager_UninstallFilter :: "string \<Rightarrow> Manager \<Rightarrow> bool \<times> Manager" where
  "Manager_UninstallFilter ident f =
     (case filterMap_uninstallFilter (mgFilters f) ident of (ok, items) \<Rightarrow> (ok, f\<lparr>mgFilters := items\<rparr>))"

definition Manager_newSubscription :: "string \<Rightarrow> subscription \<Rightarrow> Manager \<Rightarrow> string \<times> Manager" where
  "Manager_newSubscription uid sub f =
     (case subMap_addSubscription (mgSubscriptions f) uid sub of
        (ident, subs) \<Rightarrow> (ident, f\<lparr>mgSubscriptions := subs\<rparr>))"

definition Manager_NewBlockSubscription :: "string \<Rightarrow> Conn \<Rightarrow> Manager \<Rightarrow> string \<times> Manager" where
  "Manager_NewBlockSubscription uid conn f = Manager_newSubscription uid (BlockSubscription conn) f"

definition Manager_NewTransactionSubscription :: "string \<Rightarrow> Conn \<Rightarrow> Manager \<Rightarrow> string \<times> Manager" where
  "Manager_NewTransactionSubscription uid conn f = Manager_newSubscription uid (TransactionSubscription conn) f"

definition Manager_NewGasPriceSubscription :: "string \<Rightarrow> Conn \<Rightarrow> Manager \<Rightarrow> string \<times> Manager" where
  "Manager_NewGasPriceSubscription uid conn f = Manager_newSubscription uid (GasPriceSubscription conn) f"

definition Manager_UninstallSubscription :: "string \<Rightarrow> Manager \<Rightarrow> bool \<times> Manager" where
  "Manager_UninstallSubscription ident f =
     (case subMap_deleteSubscription (mgSubscriptions f) ident of
        (ok, subs) \<Rightarrow> (ok, f\<lparr>mgSubscriptions := subs\<rparr>))"

definition ErrFilterNotFound :: go_error where "ErrFilterNotFound = ErrMsg ''filter not found''"

definition Manager_GetFilter :: "gotime \<Rightarrow> string \<Rightarrow> Manager \<Rightarrow> (go_error + filter_item) \<times> Manager" where
  "Manager_GetFilter now ident f =
     (case filterMap_getFilter now (mgFilters f) ident of
        (None, items) \<Rightarrow> (Inl (ErrWrap (''%w, id: '' @ ident) [ErrFilterNotFound]), f\<lparr>mgFilters := items\<rparr>)
      | (Some filterItem, items) \<Rightarrow> (Inr filterItem, f\<lparr>mgFilters := items\<rparr>))"

text \<open>
  \<open>GetChanges\<close> on the filter that \<open>GetFilter\<close> returned: the map holds the same pointer, so the emptied filter is
  what the map holds afterwards.
\<close>

definition Manager_GetChanges :: "gotime \<Rightarrow> string \<Rightarrow> Manager \<Rightarrow> (go_error + change list) \<times> Manager" where
  "Manager_GetChanges now ident f =
     (case Manager_GetFilter now ident f of
        (Inl err, f) \<Rightarrow> (Inl err, f)
      | (Inr filterItem, f) \<Rightarrow>
          (case Filter_GetChanges filterItem of
             (changes, filterItem) \<Rightarrow>
               (Inr changes, f\<lparr>mgFilters := AList.update ident filterItem (mgFilters f)\<rparr>)))"

definition Manager_cleanup :: "gotime \<Rightarrow> Manager \<Rightarrow> Manager" where
  "Manager_cleanup now f =
     (let cutoff = now - mgCleanupInterval f in f\<lparr>mgFilters := filterMap_cleanup cutoff (mgFilters f)\<rparr>)"

definition Manager_updateFiltersWith :: "update \<Rightarrow> Manager \<Rightarrow> Manager outcome" where
  "Manager_updateFiltersWith data f =
     bindO (filterMap_rangeItems (Filter_UpdateWith data) (mgFilters f)) (\<lambda>items. Ret (f\<lparr>mgFilters := items\<rparr>))"

definition updateFiltersWithBlock :: "block \<Rightarrow> Manager \<Rightarrow> Manager outcome" where
  "updateFiltersWithBlock block f = Manager_updateFiltersWith (UBlock block) f"

definition updateFiltersWithTxResult :: "tx_result option \<Rightarrow> Manager \<Rightarrow> Manager outcome" where
  "updateFiltersWithTxResult txResult f = Manager_updateFiltersWith (UTx txResult) f"

section \<open>The loop over the events\<close>

text \<open>What the loop of \<open>subscribeToEvents\<close> does with an event, in order; each action holds one lock.\<close>

datatype fm_action =
    UpdateFilters update
  | SendEvent string update

definition newBlock_actions :: "newBlock \<Rightarrow> fm_action list" where
  "newBlock_actions nb =
     [UpdateFilters (UBlock (nbBlock nb)), SendEvent NewHeadsEvent (UBlock (nbBlock nb))] @
     (if bTxs (nbBlock nb) \<noteq> [] then [SendEvent NewGasPriceEvent (UBlock (nbBlock nb))] else []) @
     concat (map (\<lambda>txResult. [UpdateFilters (UTx txResult), SendEvent NewTransactionsEvent (UTx txResult)])
       (nbResults nb))"

definition event_actions :: "event_data event \<Rightarrow> fm_action list" where
  "event_actions event =
     (if evType event = NewBlockEvent
      then (case evData event of DNewBlock nb \<Rightarrow> newBlock_actions nb | DOther _ \<Rightarrow> [])
      else [])"

text \<open>The manager with the connections and their output.\<close>

record fm_world =
  fwManager :: Manager
  fwConns :: Conns
  fwOut :: ws_output

fun run_action :: "fm_env \<Rightarrow> fm_action \<Rightarrow> fm_world \<Rightarrow> fm_world outcome" where
  "run_action E (UpdateFilters data) w =
     bindO (case data of UBlock block \<Rightarrow> updateFiltersWithBlock block (fwManager w)
                       | UTx txResult \<Rightarrow> updateFiltersWithTxResult txResult (fwManager w))
       (\<lambda>f. Ret (w\<lparr>fwManager := f\<rparr>))"
| "run_action E (SendEvent eventType data) w =
     bindO (subMap_sendEvent E (fwConns w) (mgSubscriptions (fwManager w)) eventType data (fwOut w))
       (\<lambda>(subs, out). Ret (w\<lparr>fwManager := (fwManager w)\<lparr>mgSubscriptions := subs\<rparr>, fwOut := out\<rparr>))"


text \<open>
  A run: the loop takes events one at a time and performs their actions; clients create, poll and
  remove filters and subscriptions, connect and disconnect; the cleanup runs at any time. For the record, the log
  says which filters were created, which updates were applied to the filters and which changes were
  returned, and \<open>fmEvents\<close> which events were taken. Identifiers come from the package \<open>uuid\<close>: a new one was never
  used before. A panic in the loop ends the process.
\<close>

datatype fm_log = Installed string | Applied update | Returned string "change list"

datatype fm_phase = FmServing | FmEnded | FmCrashed string

record fm_run =
  fmWorld :: fm_world
  fmPending :: "fm_action list"
  fmPhase :: fm_phase
  fmLog :: "fm_log list"
  fmEvents :: "event_data event list"

definition fm_start :: "(Manager \<Rightarrow> Manager) list \<Rightarrow> fm_run" where
  "fm_start opts =
     \<lparr>fmWorld = \<lparr>fwManager = NewFilterManager opts, fwConns = NewConns, fwOut = []\<rparr>, fmPending = [],
      fmPhase = FmServing, fmLog = [], fmEvents = []\<rparr>"

abbreviation set_manager :: "fm_run \<Rightarrow> Manager \<Rightarrow> fm_log list \<Rightarrow> fm_run" where
  "set_manager r f l \<equiv> r\<lparr>fmWorld := (fmWorld r)\<lparr>fwManager := f\<rparr>, fmLog := fmLog r @ l\<rparr>"

fun action_log :: "fm_action \<Rightarrow> fm_log list" where
  "action_log (UpdateFilters u) = [Applied u]"
| "action_log (SendEvent _ _) = []"

inductive fm_step :: "fm_env \<Rightarrow> fm_run \<Rightarrow> fm_run \<Rightarrow> bool" for E where
  fm_take: "fmPhase r = FmServing \<Longrightarrow> fmPending r = [] \<Longrightarrow>
    fm_step E r (r\<lparr>fmPending := event_actions e, fmEvents := fmEvents r @ [e]\<rparr>)"
| fm_act: "fmPhase r = FmServing \<Longrightarrow> fmPending r = a # as \<Longrightarrow> run_action E a (fmWorld r) = Ret w \<Longrightarrow>
    fm_step E r (r\<lparr>fmWorld := w, fmPending := as, fmLog := fmLog r @ action_log a\<rparr>)"
| fm_panic: "fmPhase r = FmServing \<Longrightarrow> fmPending r = a # as \<Longrightarrow> run_action E a (fmWorld r) = Panic m \<Longrightarrow>
    fm_step E r (r\<lparr>fmPhase := FmCrashed m\<rparr>)"
| fm_done: "fmPhase r = FmServing \<Longrightarrow> fmPending r = [] \<Longrightarrow> fm_step E r (r\<lparr>fmPhase := FmEnded\<rparr>)"
| fm_new_block: "\<forall>m. fmPhase r \<noteq> FmCrashed m \<Longrightarrow> Installed uid \<notin> set (fmLog r) \<Longrightarrow>
    Manager_NewBlockFilter now uid (fwManager (fmWorld r)) = (i, f) \<Longrightarrow>
    fm_step E r (set_manager r f [Installed i])"
| fm_new_tx: "\<forall>m. fmPhase r \<noteq> FmCrashed m \<Longrightarrow> Installed uid \<notin> set (fmLog r) \<Longrightarrow>
    Manager_NewTxFilter now uid opts (fwManager (fmWorld r)) = (i, f) \<Longrightarrow>
    fm_step E r (set_manager r f [Installed i])"
| fm_uninstall: "\<forall>m. fmPhase r \<noteq> FmCrashed m \<Longrightarrow>
    Manager_UninstallFilter i (fwManager (fmWorld r)) = (ok, f) \<Longrightarrow> fm_step E r (set_manager r f [])"
| fm_changes: "\<forall>m. fmPhase r \<noteq> FmCrashed m \<Longrightarrow>
    Manager_GetChanges now i (fwManager (fmWorld r)) = (c, f) \<Longrightarrow>
    fm_step E r (set_manager r f (case c of Inl _ \<Rightarrow> [] | Inr cs \<Rightarrow> [Returned i cs]))"
| fm_cleanup: "\<forall>m. fmPhase r \<noteq> FmCrashed m \<Longrightarrow>
    fm_step E r (set_manager r (Manager_cleanup now (fwManager (fmWorld r))) [])"
| fm_subscribe: "\<forall>m. fmPhase r \<noteq> FmCrashed m \<Longrightarrow>
    Manager_newSubscription uid sub (fwManager (fmWorld r)) = (i, f) \<Longrightarrow> fm_step E r (set_manager r f [])"
| fm_unsubscribe: "\<forall>m. fmPhase r \<noteq> FmCrashed m \<Longrightarrow>
    Manager_UninstallSubscription i (fwManager (fmWorld r)) = (ok, f) \<Longrightarrow> fm_step E r (set_manager r f [])"
| fm_connect: "\<forall>m. fmPhase r \<noteq> FmCrashed m \<Longrightarrow>
    fm_step E r (r\<lparr>fmWorld := (fmWorld r)\<lparr>fwConns := AddWSConnection (fwConns (fmWorld r)) i s\<rparr>\<rparr>)"
| fm_disconnect: "\<forall>m. fmPhase r \<noteq> FmCrashed m \<Longrightarrow>
    fm_step E r (r\<lparr>fmWorld := (fmWorld r)\<lparr>fwConns := RemoveWSConnection (fwConns (fmWorld r)) i\<rparr>\<rparr>)"

section \<open>Filters lose nothing\<close>

text \<open>The log since the creation of a filter, what was returned of it, and what the filter should report.\<close>

fun since :: "string \<Rightarrow> fm_log list \<Rightarrow> fm_log list" where
  "since i [] = []"
| "since i (x # l) = (if x = Installed i then l else since i l)"

fun returned :: "string \<Rightarrow> fm_log list \<Rightarrow> change list" where
  "returned i [] = []"
| "returned i (Returned j cs # l) = (if i = j then cs else []) @ returned i l"
| "returned i (_ # l) = returned i l"

fun wanted :: "filter_item \<Rightarrow> update \<Rightarrow> change list" where
  "wanted (BlockItem b) (UBlock block) = [CHeader (bHeader block)]"
| "wanted (TxItem tf) (UTx (Some t)) =
     (if filteredByRangeFilterOption (rGasUsed (trResponse t)) (toGasUsed (tfOpts tf)) \<and>
         filteredByRangeFilterOption (rGasWanted (trResponse t)) (toGasWanted (tfOpts tf)) \<and>
         filteredByRangeFilterOption (rGasUsed (trResponse t)) (toGasLimit (tfOpts tf))
      then [CTx t] else [])"
| "wanted _ _ = []"

fun applied :: "fm_log list \<Rightarrow> update list" where
  "applied [] = []"
| "applied (Applied u # l) = u # applied l"
| "applied (_ # l) = applied l"

fun updates :: "fm_action list \<Rightarrow> update list" where
  "updates [] = []"
| "updates (UpdateFilters u # as) = u # updates as"
| "updates (SendEvent _ _ # as) = updates as"

lemma log_append [simp]:
  "returned i (l @ l') = returned i l @ returned i l'"
  "applied (l @ l') = applied l @ applied l'"
proof -
  show "returned i (l @ l') = returned i l @ returned i l'" by (induction i l rule: returned.induct) simp_all
  show "applied (l @ l') = applied l @ applied l'" by (induction l rule: applied.induct) simp_all
qed

lemma since_append:
  "Installed i \<in> set l \<Longrightarrow> since i (l @ l') = since i l @ l'"
  "Installed i \<notin> set l \<Longrightarrow> since i (l @ l') = since i l'"
  by (induction l) auto

definition filters_inv :: "filter_map \<Rightarrow> fm_log list \<Rightarrow> bool" where
  "filters_inv items l \<longleftrightarrow> distinct (map fst items) \<and>
     (\<forall>i f. map_of items i = Some f \<longrightarrow> Installed i \<in> set l \<and>
        returned i (since i l) @ fst (Filter_GetChanges f) =
        concat (map (wanted f) (applied (since i l))))"

lemma filters_invI:
  assumes "filters_inv items l" "distinct (map fst items')"
    and "\<And>i f. map_of items' i = Some f \<Longrightarrow>
      (\<exists>f0. map_of items i = Some f0 \<and> wanted f = wanted f0 \<and>
         returned i l' @ fst (Filter_GetChanges f) = fst (Filter_GetChanges f0) @ concat (map (wanted f) (applied l'))) \<or>
      Installed i \<notin> set l \<and> l' = [Installed i] \<and> fst (Filter_GetChanges f) = []"
  shows "filters_inv items' (l @ l')"
  unfolding filters_inv_def
proof (intro conjI allI impI assms(2))
  fix i f assume f: "map_of items' i = Some f"
  from assms(3) [OF f] show "Installed i \<in> set (l @ l')"
    using assms(1) by (auto simp: filters_inv_def)
  from assms(3) [OF f] show "returned i (since i (l @ l')) @ fst (Filter_GetChanges f) =
        concat (map (wanted f) (applied (since i (l @ l'))))"
  proof (elim disjE exE conjE)
    fix f0 assume "map_of items i = Some f0" "wanted f = wanted f0"
      "returned i l' @ fst (Filter_GetChanges f) = fst (Filter_GetChanges f0) @ concat (map (wanted f) (applied l'))"
    with assms(1) show ?thesis by (simp add: filters_inv_def since_append del: map_of_eq_Some_iff)
  qed (simp add: since_append)
qed


lemma item_facts [simp]:
  "wanted (Filter_UpdateLastUsed now f) = wanted f"
  "fst (Filter_GetChanges (Filter_UpdateLastUsed now f)) = fst (Filter_GetChanges f)"
  "wanted (snd (Filter_GetChanges f)) = wanted f"
  "fst (Filter_GetChanges (snd (Filter_GetChanges f))) = []"
  by (cases f; simp add: getBlockChanges_def getTxChanges_def fun_eq_iff; intro allI;
      rename_tac u; case_tac u; simp; rename_tac t; case_tac t; simp)+

lemma UpdateWith_wanted:
  assumes "Filter_UpdateWith u f = Ret f'"
  shows "wanted f' = wanted f \<and> fst (Filter_GetChanges f') = fst (Filter_GetChanges f) @ wanted f u"
proof (cases f)
  case (BlockItem b)
  with assms have "f' = BlockItem (BlockFilter_UpdateWith b u)" by simp
  moreover have "wanted (BlockItem b') = wanted (BlockItem b)" for b'
    by (rule ext, rename_tac u, case_tac u) simp_all
  ultimately show ?thesis using BlockItem
    by (cases u) (simp_all add: BlockFilter_UpdateWith_def updateWithBlock_def getBlockChanges_def)
next
  case (TxItem tf)
  with assms obtain tf' where tf': "f' = TxItem tf'" "TxFilter_UpdateWith tf u = Ret tf'"
    by (auto simp: bindO_Ret_iff)
  then have "tfOpts tf' = tfOpts tf"
    by (auto simp: TxFilter_UpdateWith_def updateWithTx_def bindO_Ret_iff split: update.splits if_splits option.splits)
  then have "wanted (TxItem tf') = wanted (TxItem tf)"
    by (intro ext, rename_tac u, case_tac u; simp; rename_tac t, case_tac t; simp)
  moreover have "map CTx (tfTxs tf') = map CTx (tfTxs tf) @ wanted (TxItem tf) u"
  proof (cases u)
    case (UTx t)
    with tf'(2) show ?thesis
      by (cases t) (auto simp: TxFilter_UpdateWith_def updateWithTx_def checkFilterOptions_def split: if_split_asm)
  qed (use tf'(2) in \<open>simp add: TxFilter_UpdateWith_def\<close>)
  ultimately show ?thesis using TxItem tf'(1) by (simp add: getTxChanges_def)
qed

lemma rangeItems_Ret:
  "filterMap_rangeItems cb items = Ret items' \<Longrightarrow> map fst items' = map fst items \<and>
     (\<forall>i f'. map_of items' i = Some f' \<longrightarrow> (\<exists>f. map_of items i = Some f \<and> cb f = Ret f'))"
  by (induction items arbitrary: items') (auto simp: bindO_Ret_iff simp del: map_of_eq_Some_iff)

lemma updateFilters_inv:
  assumes "filters_inv items l" "filterMap_rangeItems (Filter_UpdateWith u) items = Ret items'"
  shows "filters_inv items' (l @ [Applied u])"
proof (rule filters_invI [OF assms(1)])
  note r = rangeItems_Ret [OF assms(2)]
  show "distinct (map fst items')" using r assms(1) by (simp add: filters_inv_def)
  fix i f' assume "map_of items' i = Some f'"
  with r obtain f where "map_of items i = Some f" "Filter_UpdateWith u f = Ret f'" by blast
  with UpdateWith_wanted [of u f f'] show "(\<exists>f0. map_of items i = Some f0 \<and> wanted f' = wanted f0 \<and>
      returned i [Applied u] @ fst (Filter_GetChanges f') =
      fst (Filter_GetChanges f0) @ concat (map (wanted f') (applied [Applied u]))) \<or>
    Installed i \<notin> set l \<and> [Applied u] = [Installed i] \<and> fst (Filter_GetChanges f') = []" by auto
qed

lemma newFilter_inv:
  assumes "filters_inv items l" "Installed i \<notin> set l" "fst (Filter_GetChanges f) = []"
  shows "filters_inv (AList.update i f items) (l @ [Installed i])"
  using assms
  by (intro filters_invI [OF assms(1)])
     (auto simp: filters_inv_def distinct_update update_conv' simp del: map_of_eq_Some_iff split: if_splits)

text \<open>Steps that only remove filters, or change nothing a filter reports.\<close>

lemma restrict_inv:
  assumes "filters_inv items l" "distinct (map fst items')"
    and "\<And>i f. map_of items' i = Some f \<Longrightarrow> map_of items i = Some f"
  shows "filters_inv items' l"
  using filters_invI [OF assms(1,2), of "[]"] assms(3) by (simp del: map_of_eq_Some_iff)

lemma GetChanges_inv:
  assumes "filters_inv (mgFilters m) l" "Manager_GetChanges now i m = (c, m')"
  shows "filters_inv (mgFilters m') (l @ (case c of Inl _ \<Rightarrow> [] | Inr cs \<Rightarrow> [Returned i cs]))"
proof (cases "map_of (mgFilters m) i")
  case None
  with assms show ?thesis
    by (auto simp: Manager_GetChanges_def Manager_GetFilter_def filterMap_getFilter_def)
next
  case (Some f)
  let ?f = "Filter_UpdateLastUsed now f"
  have m': "c = Inr (fst (Filter_GetChanges ?f))"
    "mgFilters m' = AList.update i (snd (Filter_GetChanges ?f)) (AList.update i ?f (mgFilters m))"
    using assms(2) Some
    by (auto simp: Manager_GetChanges_def Manager_GetFilter_def filterMap_getFilter_def Let_def
        simp del: item_facts split: prod.splits)
  show ?thesis unfolding m' sum.case
  proof (rule filters_invI [OF assms(1)])
    show "distinct (map fst (AList.update i (snd (Filter_GetChanges ?f)) (AList.update i ?f (mgFilters m))))"
      using assms(1) by (simp add: filters_inv_def distinct_update)
  qed (use Some in \<open>auto simp: update_conv' simp del: map_of_eq_Some_iff split: if_splits\<close>)
qed

definition fm_inv :: "fm_run \<Rightarrow> bool" where
  "fm_inv r \<longleftrightarrow> filters_inv (mgFilters (fwManager (fmWorld r))) (fmLog r) \<and>
     applied (fmLog r) @ updates (fmPending r) = concat (map (\<lambda>e. updates (event_actions e)) (fmEvents r))"

lemma action_inv:
  assumes "filters_inv (mgFilters (fwManager w)) l" "run_action E a w = Ret w'"
  shows "filters_inv (mgFilters (fwManager w')) (l @ action_log a)"
proof (cases a)
  case (UpdateFilters u)
  with assms show ?thesis
    by (auto simp: updateFiltersWithBlock_def updateFiltersWithTxResult_def Manager_updateFiltersWith_def
        bindO_Ret_iff split: update.splits intro: updateFilters_inv)
qed (use assms in \<open>auto simp: bindO_Ret_iff\<close>)

lemma updates_action: "updates (a # as) = applied (action_log a) @ updates as"
  by (cases a) simp_all

lemmas manager_defs = Manager_NewBlockFilter_def Manager_NewTxFilter_def Manager_UninstallFilter_def
  filterMap_newFilter_def filterMap_uninstallFilter_def Manager_newSubscription_def
  Manager_UninstallSubscription_def subMap_addSubscription_def subMap_deleteSubscription_def

lemma fm_step_inv: "fm_step E r r' \<Longrightarrow> fm_inv r \<Longrightarrow> fm_inv r'"
proof (induction rule: fm_step.induct)
  case (fm_act r a as w)
  with action_inv [of "fmWorld r" "fmLog r" E a w] show ?case by (simp add: fm_inv_def updates_action)
next
  case (fm_new_block r uid now i f)
  then show ?case
    by (auto simp: fm_inv_def manager_defs NewBlockFilter_def getBlockChanges_def intro!: newFilter_inv)
next
  case (fm_new_tx r uid now opts i f)
  then show ?case
    by (auto simp: fm_inv_def manager_defs NewTxFilter_def getTxChanges_def intro!: newFilter_inv)
next
  case (fm_uninstall r i ok f)
  then show ?case
    by (auto simp: fm_inv_def manager_defs filters_inv_def delete_conv' distinct_delete
        simp del: map_of_eq_Some_iff split: if_splits intro!: restrict_inv [of "mgFilters (fwManager (fmWorld r))"])
next
  case (fm_changes r now i c f)
  with GetChanges_inv [of "fwManager (fmWorld r)" "fmLog r" now i c f] show ?case
    by (auto simp: fm_inv_def split: sum.splits)
next
  case (fm_cleanup r now)
  let ?m = "fwManager (fmWorld r)"
  from fm_cleanup have "filters_inv (mgFilters ?m) (fmLog r)" by (simp add: fm_inv_def)
  then have "filters_inv (filterMap_cleanup (now - mgCleanupInterval ?m) (mgFilters ?m)) (fmLog r)"
    by (rule restrict_inv)
       (use fm_cleanup in \<open>auto simp: fm_inv_def filters_inv_def filterMap_cleanup_def distinct_map_filter\<close>)
  with fm_cleanup show ?case by (simp add: fm_inv_def Manager_cleanup_def Let_def)
qed (auto simp: fm_inv_def manager_defs split: option.splits)


lemma fm_reach_inv: "(fm_step E)\<^sup>*\<^sup>* (fm_start opts) r \<Longrightarrow> mgFilters (NewFilterManager opts) = [] \<Longrightarrow> fm_inv r"
proof (induction rule: rtranclp_induct)
  case base
  then show ?case by (simp add: fm_inv_def fm_start_def filters_inv_def)
qed (auto intro: fm_step_inv)

text \<open>
  C32. Filters lose and repeat nothing: at every moment of every run, for an installed filter, what
  \<open>getFilterChanges\<close> returned since the filter was created, followed by what its next call returns, is exactly
  what the filter accepts of the updates applied since then, in order; and the updates applied, with those
  the loop still has at hand, are those of the events taken.
\<close>

theorem getFilterChanges_exact:
  assumes "(fm_step E)\<^sup>*\<^sup>* (fm_start [WithCleanupInterval interval]) r"
    and "map_of (mgFilters (fwManager (fmWorld r))) i = Some f"
  shows "returned i (since i (fmLog r)) @ fst (Filter_GetChanges f) =
      concat (map (wanted f) (applied (since i (fmLog r)))) \<and>
    applied (fmLog r) @ updates (fmPending r) = concat (map (\<lambda>e. updates (event_actions e)) (fmEvents r))"
  using fm_reach_inv [OF assms(1)] assms(2)
  by (simp add: fm_inv_def filters_inv_def NewFilterManager_def WithCleanupInterval_def del: map_of_eq_Some_iff)

definition ex_fm_env :: fm_env where
  "ex_fm_env = \<lparr>feCodec = fee_codec\<lparr>marshalHeader := \<lambda>h. Inr [7]\<rparr>, feMarshal = (\<lambda>_. Inr ''update''),
     feVisitGas = (\<lambda>_. rev), feVisitSubs = rev\<rparr>"

definition ex_fm_block :: newBlock where
  "ex_fm_block = \<lparr>nbBlock = mk_block 1 0 [], nbResults = []\<rparr>"

definition ex_fm_event :: "event_data event" where
  "ex_fm_event = \<lparr>evType = NewBlockEvent, evData = DNewBlock ex_fm_block\<rparr>"

text \<open>A run in which a filter is created, a block arrives and the client polls.\<close>

lemma ex_fm_run:
  defines "m0 \<equiv> NewFilterManager [WithCleanupInterval 60]"
    and "f0 \<equiv> NewBlockFilter 0"
  defines "f1 \<equiv> f0\<lparr>blBlockHeaders := []\<rparr>"
  shows "\<exists>r. (fm_step ex_fm_env)\<^sup>*\<^sup>* (fm_start [WithCleanupInterval 60]) r \<and>
    map_of (mgFilters (fwManager (fmWorld r))) ''a'' = Some (BlockItem f1) \<and>
    fmLog r = [Installed ''a'', Applied (UBlock (mk_block 1 0 [])), Returned ''a'' [CHeader (bHeader (mk_block 1 0 []))]]"
proof -
  let ?E = ex_fm_env and ?r0 = "fm_start [WithCleanupInterval 60]"
  let ?r1 = "set_manager ?r0 (m0\<lparr>mgFilters := [(''a'', BlockItem f0)]\<rparr>) [Installed ''a'']"
  let ?r2 = "?r1\<lparr>fmPending := event_actions ex_fm_event, fmEvents := fmEvents ?r1 @ [ex_fm_event]\<rparr>"
  let ?u = "UBlock (mk_block 1 0 [])"
  let ?r3 = "?r2\<lparr>fmWorld := (fmWorld ?r2)\<lparr>fwManager := m0\<lparr>mgFilters := [(''a'', BlockItem (updateWithBlock f0 (mk_block 1 0 [])))]\<rparr>\<rparr>,
    fmPending := [SendEvent NewHeadsEvent ?u], fmLog := fmLog ?r2 @ action_log (UpdateFilters ?u)\<rparr>"
  let ?r4 = "set_manager ?r3 (m0\<lparr>mgFilters := [(''a'', BlockItem f1)]\<rparr>) [Returned ''a'' [CHeader (bHeader (mk_block 1 0 []))]]"
  note defs = fm_start_def manager_defs m0_def f0_def f1_def NewFilterManager_def WithCleanupInterval_def
    NewBlockFilter_def newBaseFilter_def event_actions_def newBlock_actions_def ex_fm_event_def ex_fm_block_def mk_block_def
  have "fm_step ?E ?r0 ?r1"
    by (rule fm_new_block [where uid = "''a''" and now = 0]) (simp_all add: defs)
  moreover have "fm_step ?E ?r1 ?r2" by (rule fm_take) (simp_all add: defs)
  moreover have "fm_step ?E ?r2 ?r3"
    by (rule fm_act) (simp_all add: defs updateFiltersWithBlock_def Manager_updateFiltersWith_def
        BlockFilter_UpdateWith_def)
  moreover have "fm_step ?E ?r3 ?r4"
  proof -
    let ?cs = "[CHeader (bHeader (mk_block 1 0 []))]"
    have g: "Manager_GetChanges 0 ''a'' (fwManager (fmWorld ?r3)) = (Inr ?cs, m0\<lparr>mgFilters := [(''a'', BlockItem f1)]\<rparr>)"
      by (simp add: defs Manager_GetChanges_def Manager_GetFilter_def filterMap_getFilter_def
          baseFilter_UpdateLastUsed_def updateWithBlock_def getBlockChanges_def Let_def)
    have "fm_step ?E ?r3 (set_manager ?r3 (m0\<lparr>mgFilters := [(''a'', BlockItem f1)]\<rparr>)
        (case (Inr ?cs :: go_error + change list) of Inl _ \<Rightarrow> [] | Inr cs \<Rightarrow> [Returned ''a'' cs]))"
      by (rule fm_changes [OF _ g]) (simp add: fm_start_def)
    then show ?thesis by (simp only: sum.case)
  qed
  ultimately have "(fm_step ?E)\<^sup>*\<^sup>* ?r0 ?r4" by (meson converse_rtranclp_into_rtranclp rtranclp.rtrancl_refl)
  then show ?thesis by (intro exI [of _ ?r4]) (simp add: defs)
qed

theorem getFilterChanges_exact_witness:
  "\<exists>r f. (fm_step ex_fm_env)\<^sup>*\<^sup>* (fm_start [WithCleanupInterval 60]) r \<and>
     map_of (mgFilters (fwManager (fmWorld r))) ''a'' = Some f \<and> applied (fmLog r) \<noteq> [] \<and>
     returned ''a'' (since ''a'' (fmLog r)) @ fst (Filter_GetChanges f) =
       concat (map (wanted f) (applied (since ''a'' (fmLog r))))"
proof -
  from ex_fm_run obtain r f where r: "(fm_step ex_fm_env)\<^sup>*\<^sup>* (fm_start [WithCleanupInterval 60]) r"
    "map_of (mgFilters (fwManager (fmWorld r))) ''a'' = Some f" "applied (fmLog r) \<noteq> []" by auto
  from getFilterChanges_exact [OF r(1,2)] r show ?thesis by blast
qed

section \<open>Subscriptions are notified\<close>

definition heads_text :: "fm_env \<Rightarrow> string \<Rightarrow> string \<Rightarrow> go_error + string" where
  "heads_text E enc i = feMarshal E (MSubscribe (NewJSONSubscribeResponse i (VString enc)))"

text \<open>The subscriptions to new blocks whose connection is open, and those whose connection is closed.\<close>

definition open_heads :: "Conns \<Rightarrow> sub_map \<Rightarrow> (string \<times> nat) list" where
  "open_heads pw subs = List.map_filter (\<lambda>(i, s). case s of
     BlockSubscription c \<Rightarrow> if coCtx c \<in> set (csCancelled pw) then None else Some (i, coSession c) | _ \<Rightarrow> None) subs"

definition closed_head :: "Conns \<Rightarrow> subscription \<Rightarrow> bool" where
  "closed_head pw s \<longleftrightarrow> (case s of BlockSubscription c \<Rightarrow> coCtx c \<in> set (csCancelled pw) | _ \<Rightarrow> False)"

lemma event_names: "NewTransactionsEvent \<noteq> NewHeadsEvent" "NewGasPriceEvent \<noteq> NewHeadsEvent"
  by (simp_all add: NewHeadsEvent_def NewTransactionsEvent_def NewGasPriceEvent_def)

lemma heads_simps:
  "closed_head pw (BlockSubscription c) \<longleftrightarrow> coCtx c \<in> set (csCancelled pw)"
  "\<not> closed_head pw (TransactionSubscription c)" "\<not> closed_head pw (GasPriceSubscription c)"
  "open_heads pw [] = []"
  "open_heads pw ((i, BlockSubscription c) # subs) =
     (if coCtx c \<in> set (csCancelled pw) then open_heads pw subs else (i, coSession c) # open_heads pw subs)"
  "open_heads pw ((i, TransactionSubscription c) # subs) = open_heads pw subs"
  "open_heads pw ((i, GasPriceSubscription c) # subs) = open_heads pw subs"
  by (simp_all add: closed_head_def open_heads_def List.map_filter_simps)

lemma sendEvent_writes_heads:
  assumes "PrepareValue (marshalHeader (feCodec E)) (bHeader b) = Inr enc" "\<And>i. heads_text E enc i = Inr (txt i)"
  shows "sendEvent_writes E pw NewHeadsEvent (UBlock b) subs bad out =
    Ret (bad @ map fst (filter (closed_head pw \<circ> snd) subs), out @ map (\<lambda>(i, s). (s, txt i)) (open_heads pw subs))"
proof (induction subs arbitrary: bad out)
  case (Cons x subs)
  obtain i s where x: "x = (i, s)" by (cases x)
  show ?case
    using assms(2) [of i]
    by (cases s) (simp_all add: x Cons heads_simps event_names
        BlockSubscription_WriteResponse_def assms(1) Conn_WriteData_def ws_WriteResponse_def heads_text_def)
qed (simp add: heads_simps)

lemma map_of_fold_delete: "map_of (fold AList.delete ks m) i = (if i \<in> set ks then None else map_of m i)"
  by (induction ks arbitrary: m) (auto simp: delete_conv')

lemma mset_map_filter: "mset xs = mset ys \<Longrightarrow> mset (List.map_filter f xs) = mset (List.map_filter f ys)"
  by (simp add: List.map_filter_def)

text \<open>
  C36. A new block reaches every new-heads subscription whose connection is open exactly once, under the
  subscription's own identifier, whatever the order in which the map is visited and the goroutines write; the
  subscriptions whose connection is closed are dropped, and no other subscription is.
\<close>

theorem sendEvent_newHeads_exact:
  assumes "mset (feVisitSubs E subs) = mset subs" and "distinct (map fst subs)"
    and "PrepareValue (marshalHeader (feCodec E)) (bHeader b) = Inr enc" and "\<And>i. heads_text E enc i = Inr (txt i)"
  shows "\<exists>subs' new. subMap_sendEvent E pw subs NewHeadsEvent (UBlock b) out = Ret (subs', out @ new) \<and>
    mset new = mset (map (\<lambda>(i, s). (s, txt i)) (open_heads pw subs)) \<and>
    (\<forall>i. map_of subs' i =
       (case map_of subs i of Some s \<Rightarrow> if closed_head pw s then None else Some s | None \<Rightarrow> None))"
proof -
  let ?vs = "feVisitSubs E subs"
  let ?new = "map (\<lambda>(i, s). (s, txt i)) (open_heads pw ?vs)"
  let ?del = "map fst (filter (closed_head pw \<circ> snd) ?vs)"
  have set: "set ?vs = set subs" using assms(1) by (rule mset_eq_setD)
  have "subMap_sendEvent E pw subs NewHeadsEvent (UBlock b) out = Ret (fold AList.delete ?del subs, out @ ?new)"
    by (simp add: subMap_sendEvent_def sendEvent_writes_heads [OF assms(3,4)])
  moreover have "mset ?new = mset (map (\<lambda>(i, s). (s, txt i)) (open_heads pw subs))"
    unfolding open_heads_def mset_map by (subst mset_map_filter [OF assms(1)]) (rule refl)
  moreover have "i \<in> set ?del \<longleftrightarrow> (\<exists>s. map_of subs i = Some s \<and> closed_head pw s)" for i
    using assms(2) by (force simp: set)
  ultimately show ?thesis by (auto simp: map_of_fold_delete split: option.splits simp del: map_of_eq_Some_iff)
qed


theorem sendEvent_newHeads_exact_witness:
  "\<exists>subs' new. subMap_sendEvent ex_fm_env \<lparr>csConns = [], csCancelled = [1], csNextCtx = 2\<rparr>
      [(''a'', BlockSubscription \<lparr>coCtx = 0, coSession = 5\<rparr>), (''b'', BlockSubscription \<lparr>coCtx = 1, coSession = 6\<rparr>)]
      NewHeadsEvent (UBlock (mk_block 1 0 [])) [] = Ret (subs', [] @ new) \<and>
    mset new = {#(5, ''update'')#} \<and> map_of subs' ''b'' = None"
proof -
  have p: "PrepareValue (marshalHeader (feCodec ex_fm_env)) (bHeader (mk_block 1 0 [])) = Inr (base64 [7])"
    by (simp add: PrepareValue_def ex_fm_env_def)
  have t: "heads_text ex_fm_env (base64 [7]) i = Inr ''update''" for i by (simp add: heads_text_def ex_fm_env_def)
  let ?subs = "[(''a'', BlockSubscription \<lparr>coCtx = 0, coSession = 5\<rparr>), (''b'', BlockSubscription \<lparr>coCtx = 1, coSession = 6\<rparr>)]"
  let ?pw = "\<lparr>csConns = [], csCancelled = [1], csNextCtx = 2\<rparr>"
  have v: "mset (feVisitSubs ex_fm_env ?subs) = mset ?subs" "distinct (map fst ?subs)"
    by (simp_all add: ex_fm_env_def)
  from sendEvent_newHeads_exact [OF v p t, of ?pw "[]"] obtain subs' new where
    s: "subMap_sendEvent ex_fm_env ?pw ?subs NewHeadsEvent (UBlock (mk_block 1 0 [])) [] = Ret (subs', [] @ new)"
      "mset new = mset (map (\<lambda>(i, s). (s, ''update'')) (open_heads ?pw ?subs))"
      "\<forall>i. map_of subs' i = (case map_of ?subs i of Some s \<Rightarrow> if closed_head ?pw s then None else Some s | None \<Rightarrow> None)"
    by blast
  show ?thesis by (intro exI conjI, rule s(1)) (simp_all only: s(2,3), simp_all add: heads_simps)
qed

end
