(* ===== verification/Serve_Handlers.thy ===== *)
theory Serve_Handlers
  imports Serve_Filters Storage_Contract
begin

text \<open>
  The method handlers of \<open>serve/handlers\<close>: blocks, transactions and gas prices are read from the
  storage; the handlers of filters and subscriptions work on the filter manager. A handler returns its result and
  its error, as the code does.
\<close>

type_synonym answer = "rpc_value \<times> BaseJSONError option"

section \<open>Blocks\<close>

definition block_getBlock :: "('st, 'wb, 'bi, 'ti) storage \<Rightarrow> 'st \<Rightarrow> u64 \<Rightarrow> go_error + block option" where
  "block_getBlock S store blockNum =
     (case s_GetBlock S store blockNum of
        Inr block \<Rightarrow> Inr (Some block)
      | Inl err \<Rightarrow> if errIs err ErrNotFound then Inr None else Inl err)"

definition GetBlockHandler :: "('st, 'wb, 'bi, 'ti) storage \<Rightarrow> codec \<Rightarrow> 'st \<Rightarrow> goany list \<Rightarrow> answer" where
  "GetBlockHandler S C store params =
     (case params of
        [AString requestedBlock] \<Rightarrow>
          (case parseUint requestedBlock of
             None \<Rightarrow> (VNil, Some (GenerateInvalidParamError 1))
           | Some blockNum \<Rightarrow>
               (case block_getBlock S store blockNum of
                  Inl err \<Rightarrow> (VNil, Some (GenerateResponseError err))
                | Inr None \<Rightarrow> (VNil, None)
                | Inr (Some response) \<Rightarrow>
                    (case PrepareValue (marshalBlock C) response of
                       Inl err \<Rightarrow> (VNil, Some (GenerateResponseError err))
                     | Inr encodedResponse \<Rightarrow> (VString encodedResponse, None))))
      | [_] \<Rightarrow> (VNil, Some (GenerateInvalidParamError 1))
      | _ \<Rightarrow> (VNil, Some GenerateInvalidParamCountError))"

section \<open>Transactions\<close>

definition toUint64 :: "goany \<Rightarrow> u64 option" where
  "toUint64 data = parseUint (sprintv data)"

definition tx_getTx :: "('st, 'wb, 'bi, 'ti) storage \<Rightarrow> 'st \<Rightarrow> u64 \<Rightarrow> u32 \<Rightarrow> go_error + tx_result option" where
  "tx_getTx S store blockNum txIndex =
     (case s_GetTx S store blockNum txIndex of
        Inr tx \<Rightarrow> Inr (Some tx)
      | Inl err \<Rightarrow> if errIs err ErrNotFound then Inr None else Inl err)"

definition tx_getTxByHash :: "('st, 'wb, 'bi, 'ti) storage \<Rightarrow> 'st \<Rightarrow> string \<Rightarrow> go_error + tx_result option" where
  "tx_getTxByHash S store hash =
     (case s_GetTxByHash S store hash of
        Inr tx \<Rightarrow> Inr (Some tx)
      | Inl err \<Rightarrow> if errIs err ErrNotFound then Inr None else Inl err)"

definition tx_answer :: "codec \<Rightarrow> go_error + tx_result option \<Rightarrow> answer" where
  "tx_answer C r =
     (case r of
        Inl err \<Rightarrow> (VNil, Some (GenerateResponseError err))
      | Inr None \<Rightarrow> (VNil, None)
      | Inr (Some response) \<Rightarrow>
          (case PrepareValue (marshalTxResult C) (Some response) of
             Inl err \<Rightarrow> (VNil, Some (GenerateResponseError err))
           | Inr encodedResponse \<Rightarrow> (VString encodedResponse, None)))"

definition GetTxHandler :: "('st, 'wb, 'bi, 'ti) storage \<Rightarrow> codec \<Rightarrow> 'st \<Rightarrow> goany list \<Rightarrow> answer" where
  "GetTxHandler S C store params =
     (case params of
        p0 # p1 # _ \<Rightarrow>
          (case toUint64 p0 of
             None \<Rightarrow> (VNil, Some (GenerateInvalidParamError 1))
           | Some blockNum \<Rightarrow>
               (case toUint64 p1 of
                  None \<Rightarrow> (VNil, Some (GenerateInvalidParamError 2))
                | Some txIndex \<Rightarrow> tx_answer C (tx_getTx S store blockNum (ucast txIndex))))
      | _ \<Rightarrow> (VNil, Some GenerateInvalidParamCountError))"

definition GetTxByHashHandler :: "('st, 'wb, 'bi, 'ti) storage \<Rightarrow> codec \<Rightarrow> 'st \<Rightarrow> goany list \<Rightarrow> answer" where
  "GetTxByHashHandler S C store params =
     (case params of
        [] \<Rightarrow> (VNil, Some GenerateInvalidParamCountError)
      | AString hash # _ \<Rightarrow> tx_answer C (tx_getTxByHash S store hash)
      | _ # _ \<Rightarrow> (VNil, Some (GenerateInvalidParamError 1)))"

section \<open>Gas prices\<close>

definition DefaultBlockRangeSize :: u64 where "DefaultBlockRangeSize = 1000"

definition initializeDefaultBlockRangeByHeight :: "u64 \<Rightarrow> u64 \<times> u64" where
  "initializeDefaultBlockRangeByHeight latestHeight =
     (if latestHeight > DefaultBlockRangeSize then latestHeight - DefaultBlockRangeSize else 0, latestHeight)"

definition parseBlockRangeByParams :: "goany \<Rightarrow> goany \<Rightarrow> u64 \<times> u64" where
  "parseBlockRangeByParams p0 p1 = (deref 0 (parseUint (sprintv p0)), deref 0 (parseUint (sprintv p1)))"

text \<open>
  The loop that collects the blocks; on a block that cannot be read it gives up with no result and,
  because it returns the wrong variable, no error. The value \<open>None\<close> would be a loop that never ends.
\<close>

partial_function (option) gas_blocks ::
    "('st, 'wb, 'bi, 'ti) storage \<Rightarrow> 'bi \<Rightarrow> block list \<Rightarrow> block list option option" where
  "gas_blocks S it blocks =
     (case bi_Next S it of (ok, it) \<Rightarrow>
        if \<not> ok then Some (Some blocks)
        else (case bi_Value S it of
                Inl itErr \<Rightarrow> Some None
              | Inr block \<Rightarrow> gas_blocks S it (blocks @ [block])))"

text \<open>
  \<open>getGasPriceBy\<close>; \<open>wrap\<close> is \<open>gqlerror.Wrap\<close>. The result \<open>Inr None\<close> is the nil slice with no error.
\<close>

definition getGasPriceBy ::
    "('st, 'wb, 'bi, 'ti) storage \<Rightarrow> codec \<Rightarrow> (nat \<Rightarrow> gas_map \<Rightarrow> gas_map) \<Rightarrow> (go_error \<Rightarrow> go_error) \<Rightarrow> 'st \<Rightarrow>
     u64 \<Rightarrow> u64 \<Rightarrow> (go_error + GasPrice list option) outcome option" where
  "getGasPriceBy S C visit wrap store fromBlockNum toBlockNum =
     (case s_BlockIterator S store fromBlockNum toBlockNum of
        Inl err \<Rightarrow> Some (Ret (Inl (wrap err)))
      | Inr it \<Rightarrow>
          (case gas_blocks S it [] of
             None \<Rightarrow> None
           | Some None \<Rightarrow> Some (Ret (Inr None))
           | Some (Some blocks) \<Rightarrow>
               Some (bindO (GetGasPricesByBlocks C visit blocks) (\<lambda>r. Ret (map_sum id Some r)))))"

definition gas_answer :: "go_error + GasPrice list option \<Rightarrow> answer" where
  "gas_answer r =
     (case r of
        Inl err \<Rightarrow> (VNil, Some (GenerateResponseError err))
      | Inr None \<Rightarrow> (VNil, None)
      | Inr (Some response) \<Rightarrow> (VGasPrices response, None))"

definition GetGasPriceHandler ::
    "('st, 'wb, 'bi, 'ti) storage \<Rightarrow> codec \<Rightarrow> (nat \<Rightarrow> gas_map \<Rightarrow> gas_map) \<Rightarrow> (go_error \<Rightarrow> go_error) \<Rightarrow> 'st \<Rightarrow>
     goany list \<Rightarrow> answer outcome option" where
  "GetGasPriceHandler S C visit wrap store params =
     (let serve = (\<lambda>(fromBlockNum, toBlockNum).
            map_option (\<lambda>res. bindO res (\<lambda>r. Ret (gas_answer r)))
              (getGasPriceBy S C visit wrap store fromBlockNum toBlockNum))
      in case params of
        [] \<Rightarrow>
          (case s_GetLatestHeight S store of
             Inl err \<Rightarrow> Some (Ret (VNil, Some (GenerateResponseError err)))
           | Inr latestHeight \<Rightarrow> serve (initializeDefaultBlockRangeByHeight latestHeight))
      | [p0, p1] \<Rightarrow> serve (parseBlockRangeByParams p0 p1)
      | _ \<Rightarrow> Some (Ret (VNil, Some GenerateInvalidParamCountError)))"

section \<open>Filters and subscriptions\<close>

text \<open>
  The surroundings of these handlers: the clock and the identifiers, by the number of the call that asks for
  them, and the functions of \<open>encoding/json\<close> that read the options of a transaction filter.
\<close>

record subs_env =
  seFm :: fm_env
  seNow :: "nat \<Rightarrow> gotime"
  seUid :: "nat \<Rightarrow> string"
  seMarshalParam :: "goany \<Rightarrow> go_error + string"
  seUnmarshalOptions :: "string \<Rightarrow> go_error + TxFilterOption"

record subs_world =
  swFm :: fm_world
  swTick :: nat

definition with_manager ::
    "(nat \<Rightarrow> Manager \<Rightarrow> 'a \<times> Manager) \<Rightarrow> subs_world \<Rightarrow> 'a \<times> subs_world" where
  "with_manager g w =
     (case g (swTick w) (fwManager (swFm w)) of
        (r, f) \<Rightarrow> (r, w\<lparr>swFm := (swFm w)\<lparr>fwManager := f\<rparr>, swTick := Suc (swTick w)\<rparr>))"

definition NewBlockFilterHandler :: "subs_env \<Rightarrow> goany list \<Rightarrow> subs_world \<Rightarrow> answer \<times> subs_world" where
  "NewBlockFilterHandler E params w =
     (if params \<noteq> [] then ((VNil, Some GenerateInvalidParamCountError), w)
      else with_manager (\<lambda>n f. case Manager_NewBlockFilter (seNow E n) (seUid E n) f of
             (ident, f) \<Rightarrow> ((VString ident, None), f)) w)"

definition NewTransactionFilterHandler :: "subs_env \<Rightarrow> goany list \<Rightarrow> subs_world \<Rightarrow> answer \<times> subs_world" where
  "NewTransactionFilterHandler E params w =
     (case params of
        [] \<Rightarrow> ((VNil, Some GenerateInvalidParamCountError), w)
      | p0 # _ \<Rightarrow>
          (case ParseObjectParameter (seMarshalParam E) (seUnmarshalOptions E) p0 of
             Inl err \<Rightarrow> ((VNil, Some (GenerateInvalidParamError 1)), w)
           | Inr options \<Rightarrow>
               with_manager (\<lambda>n f. case Manager_NewTxFilter (seNow E n) (seUid E n) options f of
                 (ident, f) \<Rightarrow> ((VString ident, None), f)) w))"

definition UninstallFilterHandler :: "goany list \<Rightarrow> subs_world \<Rightarrow> answer \<times> subs_world" where
  "UninstallFilterHandler params w =
     (case params of
        [AString ident] \<Rightarrow>
          with_manager (\<lambda>n f. case Manager_UninstallFilter ident f of (ok, f) \<Rightarrow> ((VBool ok, None), f)) w
      | [_] \<Rightarrow> ((VNil, Some (GenerateInvalidParamError 1)), w)
      | _ \<Rightarrow> ((VNil, Some GenerateInvalidParamCountError), w))"

definition subs_subscribe :: "subs_env \<Rightarrow> string \<Rightarrow> string \<Rightarrow> subs_world \<Rightarrow> (go_error + string) \<times> subs_world" where
  "subs_subscribe E connID eventType w =
     (case GetWSConnection (fwConns (swFm w)) connID of
        None \<Rightarrow> (Inl (ErrMsg (''WS connection with ID '' @ connID @ '' not found'')), w)
      | Some conn \<Rightarrow>
          let add = (\<lambda>new. with_manager (\<lambda>n f. case new (seUid E n) conn f of (ident, f) \<Rightarrow> (Inr ident, f)) w) in
          if eventType = NewHeadsEvent then add Manager_NewBlockSubscription
          else if eventType = NewTransactionsEvent then add Manager_NewTransactionSubscription
          else if eventType = NewGasPriceEvent then add Manager_NewGasPriceSubscription
          else (Inl (ErrMsg (''invalid event type: '' @ eventType)), w))"

definition notOverWS :: BaseJSONError where
  "notOverWS = NewJSONError ''Method only supported over WS'' ServerErrorCode"

definition SubscribeHandler :: "subs_env \<Rightarrow> Metadata \<Rightarrow> goany list \<Rightarrow> subs_world \<Rightarrow> answer \<times> subs_world" where
  "SubscribeHandler E metadata params w =
     (case mdWebSocketID metadata of
        None \<Rightarrow> ((VNil, Some notOverWS), w)
      | Some wsID \<Rightarrow>
          (case params of
             [] \<Rightarrow> ((VNil, Some GenerateInvalidParamCountError), w)
           | AString eventType # _ \<Rightarrow>
               (case subs_subscribe E wsID eventType w of
                  (Inl err, w) \<Rightarrow>
                    ((VNil, Some (NewJSONError (''unable to subscribe, '' @ errText err) ServerErrorCode)), w)
                | (Inr subscriptionID, w) \<Rightarrow> ((VString subscriptionID, None), w))
           | _ # _ \<Rightarrow> ((VNil, Some (GenerateInvalidParamError 1)), w)))"

definition UnsubscribeHandler :: "Metadata \<Rightarrow> goany list \<Rightarrow> subs_world \<Rightarrow> answer \<times> subs_world" where
  "UnsubscribeHandler metadata params w =
     (if \<not> Metadata_IsWS metadata then ((VNil, Some notOverWS), w)
      else case params of
        [AString subscriptionID] \<Rightarrow>
          with_manager (\<lambda>n f. case Manager_UninstallSubscription subscriptionID f of
            (ok, f) \<Rightarrow> ((VBool ok, None), f)) w
      | [_] \<Rightarrow> ((VNil, Some (GenerateInvalidParamError 1)), w)
      | _ \<Rightarrow> ((VNil, Some GenerateInvalidParamCountError), w))"

text \<open>The encoding of the changes stops at the first that cannot be encoded.\<close>

fun prepare_change :: "codec \<Rightarrow> change \<Rightarrow> go_error + string" where
  "prepare_change C (CHeader h) = PrepareValue (marshalHeader C) h"
| "prepare_change C (CTx t) = PrepareValue (marshalTxResult C) (Some t)"

fun prepare_changes :: "codec \<Rightarrow> change list \<Rightarrow> go_error + string list" where
  "prepare_changes C [] = Inr []"
| "prepare_changes C (c # cs) =
     (case prepare_change C c of
        Inl err \<Rightarrow> Inl err
      | Inr encodedResponse \<Rightarrow>
          (case prepare_changes C cs of Inl err \<Rightarrow> Inl err | Inr results \<Rightarrow> Inr (encodedResponse # results)))"

definition GetFilterChangesHandler :: "subs_env \<Rightarrow> goany list \<Rightarrow> subs_world \<Rightarrow> answer \<times> subs_world" where
  "GetFilterChangesHandler E params w =
     (case params of
        [AString ident] \<Rightarrow>
          with_manager (\<lambda>n f.
            case Manager_GetChanges (seNow E n) ident f of
              (Inl err, f) \<Rightarrow> ((VNil, Some (GenerateResponseError err)), f)
            | (Inr changes, f) \<Rightarrow>
                (case prepare_changes (feCodec (seFm E)) changes of
                   Inl encodeErr \<Rightarrow> ((VNil, Some (GenerateResponseError encodeErr)), f)
                 | Inr results \<Rightarrow> ((VStrings results, None), f))) w
      | [_] \<Rightarrow> ((VNil, Some (GenerateInvalidParamError 1)), w)
      | _ \<Rightarrow> ((VNil, Some GenerateInvalidParamCountError), w))"

section \<open>The handlers on a storage that keeps its contract\<close>

context storage_api
begin

lemma gas_blocks_rest: "binv it \<Longrightarrow> gas_blocks S it bs = Some (Some (bs @ brest it))"
proof (induction "brest it" arbitrary: it bs)
  case Nil
  from block_next [OF Nil(2)] Nil(1) show ?case by (subst gas_blocks.simps) auto
next
  case (Cons b rest)
  from block_next [OF Cons.prems] Cons.hyps(2) obtain it' where
    n: "bi_Next S it = (True, it')" "binv it'" "brest it' = rest" "bi_Value S it' = Inr b"
    by (metis list.discI list.sel(1,3))
  with Cons.hyps(1) [of it'] Cons.hyps(2) show ?case by (subst gas_blocks.simps) simp
qed

lemma getGasPriceBy_range:
  assumes "sinv s"
  shows "getGasPriceBy S C visit wrap s lo hi =
    Some (bindO (GetGasPricesByBlocks C visit (block_range (sabs s) lo hi)) (\<lambda>r. Ret (map_sum id Some r)))"
  using block_iter [OF assms, of lo hi] gas_blocks_rest by (auto simp: getGasPriceBy_def)

lemma handler_reads:
  assumes "sinv s"
  shows "block_getBlock S s n = Inr (stBlock (sabs s) n)"
    and "tx_getTx S s n i = Inr (stTx (sabs s) (TxPos n i))"
    and "tx_getTxByHash S s k = Inr (Option.bind (stHash (sabs s) k) (stTx (sabs s)))"
  using get_block [OF assms, of n] get_tx [OF assms, of n i] get_tx_by_hash [OF assms, of k]
  by (auto simp: block_getBlock_def tx_getTx_def tx_getTxByHash_def split: option.splits)

end

context pebble_store
begin

lemma history_handlers:
  assumes h: "dbv d0 = Map.empty" "store_history (pebble_storage P C) d0 d ws"
  shows "block_getBlock (pebble_storage P C) d m = Inr (stBlock (apply_writes C empty_store ws) m)"
    and "tx_getTx (pebble_storage P C) d n i = Inr (stTx (apply_writes C empty_store ws) (TxPos n i))"
    and "tx_getTxByHash (pebble_storage P C) d k =
      Inr (Option.bind (stHash (apply_writes C empty_store ws) k) (stTx (apply_writes C empty_store ws)))"
    and "s_GetLatestHeight (pebble_storage P C) d =
      (case stLatest (apply_writes C empty_store ws) of None \<Rightarrow> Inl ErrNotFound | Some h \<Rightarrow> Inr h)"
    and "getGasPriceBy (pebble_storage P C) C visit wrap d lo hi =
      Some (bindO (GetGasPricesByBlocks C visit (block_range (apply_writes C empty_store ws) lo hi))
        (\<lambda>r. Ret (map_sum id Some r)))"
  using history_store [OF h] handler_reads [of d] getGasPriceBy_range [of d] latest [of d] by auto

end

section \<open>The properties\<close>

text \<open>
  C34. The read methods answer from the store: on a Pebble store with any history, \<open>getBlock\<close> of a number
  in decimal, \<open>getTxResult\<close> of two parameters that are numbers and \<open>getTxResultByHash\<close> return the base64 of the
  Amino encoding of what the writes left there, and nil with no error for what was never written; the
  transaction index is read modulo \<open>2\<^sup>3\<^sup>2\<close>.
\<close>

theorem read_handlers_answer_from_store:
  assumes "pebble_store P dbv btv ient ipos C" and "dbv d0 = Map.empty"
    and "store_history (pebble_storage P C) d0 d ws"
    and "toUint64 p0 = Some n" and "toUint64 p1 = Some i"
  shows "let st = apply_writes C empty_store ws; S = pebble_storage P C in
    GetBlockHandler S C d [AString (show_nat (unat m))] =
      (case stBlock st m of
         None \<Rightarrow> (VNil, None)
       | Some b \<Rightarrow> (case marshalBlock C b of
           Inl err \<Rightarrow> (VNil, Some (NewJSONError ''unable to amino encode value'' (- 32000)))
         | Inr e \<Rightarrow> (VString (base64 e), None))) \<and>
    GetTxHandler S C d (p0 # p1 # ps) = tx_answer C (Inr (stTx st (TxPos n (of_nat (unat i mod 2 ^ 32))))) \<and>
    GetTxByHashHandler S C d (AString k # ps) = tx_answer C (Inr (Option.bind (stHash st k) (stTx st)))"
proof -
  have u: "ucast i = (of_nat (unat i mod 2 ^ 32) :: u32)"
    by (simp add: word_unat_eq_iff unsigned_ucast_eq unsigned_of_nat take_bit_eq_mod)
  show ?thesis
    unfolding Let_def GetBlockHandler_def GetTxHandler_def GetTxByHashHandler_def
    by (simp add: pebble_store.history_handlers [OF assms(1-3)] assms(4,5) parseUint_show_nat u PrepareValue_def
        GenerateResponseError_def ServerErrorCode_def split: option.splits sum.splits)
qed

theorem read_handlers_answer_from_store_witness:
  "\<exists>d. store_history (pebble_storage ref_pebble ref_codec) [] d ex_writes \<and>
     GetBlockHandler (pebble_storage ref_pebble ref_codec) ref_codec d [AString (show_nat (unat (3 :: u64)))] = (VNil, None) \<and>
     GetTxHandler (pebble_storage ref_pebble ref_codec) ref_codec d [AFloat ''1'', AString ''4294967297''] =
       tx_answer ref_codec (Inr (Some (mk_result 1 1 [1, 9])))"
proof -
  from ref_store.history_exists [OF ex_writes_ok, of "[]"] obtain d where
    h: "store_history (pebble_storage ref_pebble ref_codec) [] d ex_writes" by auto
  have n: "toUint64 (AFloat ''1'') = Some 1" "toUint64 (AString ''4294967297'') = Some 4294967297"
    by (simp_all add: toUint64_def parseUint_def char_digit_def)
  have st: "stBlock (apply_writes ref_codec empty_store ex_writes) 3 = None"
    "stTx (apply_writes ref_codec empty_store ex_writes) (TxPos 1 1) = Some (mk_result 1 1 [1, 9])"
    by (simp_all add: ex_writes_def ex_block_def mk_block_def mk_result_def empty_store_def tx_pos_def)
  from read_handlers_answer_from_store [OF ref_store.pebble_store_axioms _ h n, of 3 "[]"] st h show ?thesis
    by (auto simp: Let_def)
qed

text \<open>
  \<open>getGasPrice\<close> without parameters answers for the last blocks: on a Pebble store with any history and
  latest height \<open>h\<close>, it ends and returns, without an error, exactly the statistics of the stored blocks from
  \<open>h - 1000\<close> (or 0) to \<open>h\<close>, given amounts that are positive and add up within 64 bits.
\<close>

theorem GetGasPriceHandler_default:
  assumes "pebble_store P dbv btv ient ipos C" and "dbv d0 = Map.empty"
    and "store_history (pebble_storage P C) d0 d ws"
    and "stLatest (apply_writes C empty_store ws) = Some h"
    and "\<And>n m. mset (visit n m) = mset m"
    and "\<And>x. sane (all_fees C x (block_range (apply_writes C empty_store ws) (of_nat (unat h - 1000)) h))"
  shows "\<exists>ps. GetGasPriceHandler (pebble_storage P C) C visit wrap d [] = Some (Ret (VGasPrices ps, None)) \<and>
    distinct (map gpDenom ps) \<and>
    (\<forall>p. p \<in> set ps \<longleftrightarrow>
       is_price C (block_range (apply_writes C empty_store ws) (of_nat (unat h - 1000)) h) p)"
proof -
  have "initializeDefaultBlockRangeByHeight h = (of_nat (unat h - 1000), h)"
    using unat_bounds(3) [of h]
    by (auto simp: initializeDefaultBlockRangeByHeight_def DefaultBlockRangeSize_def word_less_nat_alt
        word_unat_eq_iff unat_sub word_le_nat_alt unat_of_nat take_bit_nat_eq_self)
  with gas_prices_exact [of visit, OF assms(5,6)] show ?thesis
    by (auto simp: GetGasPriceHandler_def pebble_store.history_handlers [OF assms(1-3)] assms(4) gas_answer_def)
qed


text \<open>The codec of the examples, with fees.\<close>

definition fee_ref_codec :: codec where
  "fee_ref_codec = ref_codec\<lparr>unmarshalStdTx := unmarshalStdTx fee_codec\<rparr>"

interpretation fee_ref_codec: amino_codec fee_ref_codec
  by unfold_locales (simp_all add: fee_ref_codec_def ref_codec_def Let_def split: if_splits)

interpretation fee_store: pebble_store ref_pebble map_of "\<lambda>b. b" fst snd fee_ref_codec
  by unfold_locales

theorem GetGasPriceHandler_default_witness:
  "\<exists>d ps. store_history (pebble_storage ref_pebble fee_ref_codec) [] d [WBlock (mk_block 1 0 [[3], [5]]), WLatest 1] \<and>
     GetGasPriceHandler (pebble_storage ref_pebble fee_ref_codec) fee_ref_codec (\<lambda>_. rev) (\<lambda>e. e) d [] =
       Some (Ret (VGasPrices ps, None)) \<and>
     \<lparr>gpDenom = ''ugnot'', gpLow = 3, gpAverage = 4, gpHigh = 5\<rparr> \<in> set ps"
proof -
  let ?b = "mk_block 1 0 [[3], [5]]" and ?C = fee_ref_codec
  let ?ws = "[WBlock ?b, WLatest 1]"
  have "\<forall>w \<in> set ?ws. write_ok ?C w" by code_simp
  from fee_store.history_exists [OF this, of "[]"] obtain d where
    h: "store_history (pebble_storage ref_pebble ?C) [] d ?ws" by auto
  have st: "stBlock (apply_writes ?C empty_store ?ws) = [1 \<mapsto> ?b]" "stLatest (apply_writes ?C empty_store ?ws) = Some 1"
    by (simp_all add: empty_store_def mk_block_def)
  have "{n. of_nat (unat (1 :: u64) - 1000) \<le> n \<and> n < upTo64 1 \<and> stBlock (apply_writes ?C empty_store ?ws) n \<noteq> None} = {1}"
    unfolding st(1) by (auto simp: upTo64_def)
  then have r: "block_range (apply_writes ?C empty_store ?ws) (of_nat (unat (1 :: u64) - 1000)) 1 = [?b]"
    unfolding block_range_def by (simp add: mk_block_def)
  have f: "paid ?C x = paid fee_codec x" for x by (simp add: paid_def [abs_def] fee_ref_codec_def)
  have s: "sane (all_fees ?C x [?b])" for x
    by (simp add: fees_def f mk_block_def paid_fee_codec List.map_filter_simps sane_def)
  have p: "is_price ?C [?b] \<lparr>gpDenom = ''ugnot'', gpLow = 3, gpAverage = 4, gpHigh = 5\<rparr>"
    by (simp add: is_price_def fees_def f mk_block_def paid_fee_codec List.map_filter_simps average_def)
  from GetGasPriceHandler_default [OF fee_store.pebble_store_axioms _ h st(2), of "\<lambda>_. rev" "\<lambda>e. e"]
  show ?thesis using h p s unfolding r by auto
qed

section \<open>Numbers as parameters\<close>

text \<open>
  \<open>%v\<close> prints a number from a million on with an exponent, which \<open>ParseUint\<close> does not read: a block number of seven
  digits sent as a JSON number is an invalid parameter for \<open>getTxResult\<close>, and 0 for \<open>getGasPrice\<close>.
\<close>

lemma million_as_number:
  "toUint64 (AFloat ''1e+06'') = None"
  "GetTxHandler S C store [AFloat ''1e+06'', AFloat ''0''] = (VNil, Some (GenerateInvalidParamError 1))"
  "parseBlockRangeByParams (AFloat ''1e+06'') (AFloat ''2e+06'') = (0, 0)"
proof -
  show t: "toUint64 (AFloat ''1e+06'') = None" by (simp add: toUint64_def parseUint_def char_digit_def)
  show "GetTxHandler S C store [AFloat ''1e+06'', AFloat ''0''] = (VNil, Some (GenerateInvalidParamError 1))"
    by (simp add: GetTxHandler_def t)
  show "parseBlockRangeByParams (AFloat ''1e+06'') (AFloat ''2e+06'') = (0, 0)"
    by (simp add: parseBlockRangeByParams_def parseUint_def char_digit_def)
qed

end
