(* ===== verification/Serve_JsonRpc.thy ===== *)
theory Serve_JsonRpc
  imports Serve_Handlers
begin

text \<open>
  The JSON-RPC server of \<open>serve/jsonrpc.go\<close> and \<open>serve/handler.go\<close>: the table of methods, the check
  and the routing of the requests of a batch, and the two ways in which a batch arrives, over HTTP and over a
  WebSocket session.
\<close>

section \<open>Handlers that may panic or never return\<close>

text \<open>A handler works on a world of its own choice. \<open>None\<close> stands for a call that does not return.\<close>

type_synonym ('w, 'a) run = "'w \<Rightarrow> ('a \<times> 'w) outcome option"
type_synonym 'w handler = "Metadata \<Rightarrow> goany list \<Rightarrow> ('w, answer) run"

definition retR :: "'a \<Rightarrow> ('w, 'a) run" where
  "retR x w = Some (Ret (x, w))"

definition bindR :: "('w, 'a) run \<Rightarrow> ('a \<Rightarrow> ('w, 'b) run) \<Rightarrow> ('w, 'b) run" where
  "bindR m f w =
     (case m w of
        None \<Rightarrow> None
      | Some (Panic e) \<Rightarrow> Some (Panic e)
      | Some (Ret (x, w)) \<Rightarrow> f x w)"

section \<open>The table of methods\<close>

type_synonym 'w handlers = "(string \<times> 'w handler) list"

definition newHandlers :: "'w handlers" where
  "newHandlers = []"

definition addHandler :: "string \<Rightarrow> 'w handler \<Rightarrow> 'w handlers \<Rightarrow> 'w handlers" where
  "addHandler method handler h = AList.update method handler h"

definition removeHandler :: "string \<Rightarrow> 'w handlers \<Rightarrow> 'w handlers" where
  "removeHandler method h = AList.delete method h"

record 'w JSONRPC =
  jrHandlers :: "'w handlers"

definition NewJSONRPC :: "('w JSONRPC \<Rightarrow> 'w JSONRPC) list \<Rightarrow> 'w JSONRPC" where
  "NewJSONRPC opts = fold (\<lambda>opt j. opt j) opts \<lparr>jrHandlers = newHandlers\<rparr>"

definition RegisterHandler :: "string \<Rightarrow> 'w handler \<Rightarrow> 'w JSONRPC \<Rightarrow> 'w JSONRPC" where
  "RegisterHandler method handler j = j\<lparr>jrHandlers := addHandler method handler (jrHandlers j)\<rparr>"

definition UnregisterHandler :: "string \<Rightarrow> 'w JSONRPC \<Rightarrow> 'w JSONRPC" where
  "UnregisterHandler method j = j\<lparr>jrHandlers := removeHandler method (jrHandlers j)\<rparr>"

section \<open>Requests\<close>

definition isValidBaseRequest :: "BaseJSONRequest option \<Rightarrow> bool outcome" where
  "isValidBaseRequest baseRequest =
     (case baseRequest of
        None \<Rightarrow> Panic ''invalid memory address or nil pointer dereference''
      | Some r \<Rightarrow> Ret (rqMethod r \<noteq> '''' \<and> bjJSONRPC r = JSONRPCVersion))"

definition route :: "'w JSONRPC \<Rightarrow> Metadata \<Rightarrow> BaseJSONRequest \<Rightarrow> ('w, answer) run" where
  "route j metadata request =
     (case map_of (jrHandlers j) (rqMethod request) of
        None \<Rightarrow> retR (VNil, Some (NewJSONError ''Method handler not set'' MethodNotFoundErrorCode))
      | Some handler \<Rightarrow> handler metadata (rqParams request))"

text \<open>The body of the loop over the requests, and the loop.\<close>

definition handleOne :: "'w JSONRPC \<Rightarrow> Metadata \<Rightarrow> BaseJSONRequest option \<Rightarrow> ('w, BaseJSONResponse) run" where
  "handleOne j metadata baseRequest w =
     (case isValidBaseRequest baseRequest of
        Panic e \<Rightarrow> Some (Panic e)
      | Ret valid \<Rightarrow>
          (case baseRequest of
             None \<Rightarrow> Some (Panic ''invalid memory address or nil pointer dereference'')
           | Some r \<Rightarrow>
               if \<not> valid
               then retR (NewJSONResponse (bjID r) VNil
                      (Some (NewJSONError ''invalid JSON-RPC 2.0 request'' InvalidRequestErrorCode))) w
               else bindR (route j metadata r) (\<lambda>(handleResp, handleErr).
                 case handleErr of
                   Some err \<Rightarrow> retR (NewJSONResponse (bjID r) VNil (Some err))
                 | None \<Rightarrow> retR (NewJSONResponse (bjID r) handleResp None)) w))"

fun handleAll :: "'w JSONRPC \<Rightarrow> Metadata \<Rightarrow> BaseJSONRequest option list \<Rightarrow> ('w, BaseJSONResponse list) run" where
  "handleAll j metadata [] = retR []"
| "handleAll j metadata (r # requests) =
     bindR (handleOne j metadata r) (\<lambda>response.
       bindR (handleAll j metadata requests) (\<lambda>responses. retR (response # responses)))"

text \<open>\<open>handleRequest\<close> with its writer, which works on the same world.\<close>

definition handleRequest ::
    "'w JSONRPC \<Rightarrow> Metadata \<Rightarrow> (rpc_message \<Rightarrow> 'w \<Rightarrow> 'w) \<Rightarrow> BaseJSONRequest option list \<Rightarrow> ('w, unit) run" where
  "handleRequest j metadata writer requests =
     bindR (handleAll j metadata requests) (\<lambda>responses w.
       Some (Ret ((), case responses of
                        [response] \<Rightarrow> writer (MSingle response) w
                      | _ \<Rightarrow> writer (MBatch responses) w)))"

text \<open>
  \<open>json.Unmarshal\<close> at the two types tried, as functions of the body; a JSON \<open>null\<close> gives a nil pointer.
\<close>

record json_decoder =
  jdRequests :: "string \<Rightarrow> go_error + BaseJSONRequest option list"
  jdRequest :: "string \<Rightarrow> go_error + BaseJSONRequest option"

definition extractBaseRequests :: "json_decoder \<Rightarrow> string \<Rightarrow> go_error + BaseJSONRequest option list" where
  "extractBaseRequests D requestBody =
     (case jdRequests D requestBody of
        Inr requests \<Rightarrow> Inr requests
      | Inl _ \<Rightarrow>
          (case jdRequest D requestBody of
             Inl err \<Rightarrow> Inl err
           | Inr baseRequest \<Rightarrow> Inr [baseRequest]))"

section \<open>The world of the server\<close>

text \<open>
  The storage, the filter manager with the connections, the identifiers the sessions carry, the body of the HTTP
  response under way and the status and media type set for it.
\<close>

record 'st rpc_world =
  rwStore :: 'st
  rwSubs :: subs_world
  rwSessions :: "(nat \<times> string) list"
  rwStatus :: int
  rwContentType :: string
  rwBody :: string

record rpc_env =
  reSubs :: subs_env
  reDecoder :: json_decoder
  reWrap :: "go_error \<Rightarrow> go_error"

definition jsonMimeType :: string where "jsonMimeType = ''application/json''"
definition maxRequestBodySize :: nat where "maxRequestBodySize = 1048576"

text \<open>\<open>http.Error\<close> sets the status and a plain-text media type, and writes a line.\<close>

definition http_Error :: "string \<Rightarrow> int \<Rightarrow> 'st rpc_world \<Rightarrow> 'st rpc_world" where
  "http_Error msg code w =
     w\<lparr>rwStatus := code, rwContentType := ''text/plain; charset=utf-8'', rwBody := rwBody w @ msg @ [CHR 0x0A]\<rparr>"

text \<open>Reading the body through the size limit of \<open>maxSizeMiddleware\<close>.\<close>

definition readBody :: "go_error + string \<Rightarrow> go_error + string" where
  "readBody body =
     (case body of
        Inl err \<Rightarrow> Inl err
      | Inr requestBody \<Rightarrow>
          if length requestBody > maxRequestBodySize then Inl (ErrMsg ''http: request body too large'')
          else Inr requestBody)"

definition handleHTTPRequest ::
    "rpc_env \<Rightarrow> 'st rpc_world JSONRPC \<Rightarrow> string \<Rightarrow> go_error + string \<Rightarrow> ('st rpc_world, unit) run" where
  "handleHTTPRequest E j remoteAddr body w =
     (case readBody body of
        Inl readErr \<Rightarrow> retR () (http_Error ''unable to read request'' 400 w)
      | Inr requestBody \<Rightarrow>
          (case extractBaseRequests (reDecoder E) requestBody of
             Inl err \<Rightarrow> retR () (http_Error ''Invalid request body'' 400 w)
           | Inr requests \<Rightarrow>
               handleRequest j (NewMetadata remoteAddr [])
                 (\<lambda>m w. w\<lparr>rwBody := http_WriteResponse (feMarshal (seFm (reSubs E))) m (rwBody w)\<rparr>) requests
                 (w\<lparr>rwContentType := jsonMimeType\<rparr>)))"

abbreviation set_fm :: "'st rpc_world \<Rightarrow> fm_world \<Rightarrow> 'st rpc_world" where
  "set_fm w f \<equiv> w\<lparr>rwSubs := (rwSubs w)\<lparr>swFm := f\<rparr>\<rparr>"

text \<open>The listeners of the WebSocket sessions: connect, disconnect, message.\<close>

definition ws_HandleConnect :: "string \<Rightarrow> nat \<Rightarrow> 'st rpc_world \<Rightarrow> 'st rpc_world" where
  "ws_HandleConnect wsID s w =
     (let f = swFm (rwSubs w) in
      set_fm (w\<lparr>rwSessions := AList.update s wsID (rwSessions w)\<rparr>)
        (f\<lparr>fwConns := AddWSConnection (fwConns f) wsID s\<rparr>))"

definition ws_HandleDisconnect :: "nat \<Rightarrow> 'st rpc_world \<Rightarrow> 'st rpc_world outcome" where
  "ws_HandleDisconnect s w =
     (case map_of (rwSessions w) s of
        None \<Rightarrow> Panic ''interface conversion: interface {} is nil, not string''
      | Some wsConnID \<Rightarrow>
          let f = swFm (rwSubs w) in
          Ret (set_fm w (f\<lparr>fwConns := RemoveWSConnection (fwConns f) wsConnID\<rparr>)))"

definition ws_HandleMessage ::
    "rpc_env \<Rightarrow> 'st rpc_world JSONRPC \<Rightarrow> string \<Rightarrow> nat \<Rightarrow> string \<Rightarrow> ('st rpc_world, unit) run" where
  "ws_HandleMessage E j remoteAddr s msg w =
     (case extractBaseRequests (reDecoder E) msg of
        Inl err \<Rightarrow> retR () w
      | Inr requests \<Rightarrow>
          (case map_of (rwSessions w) s of
             None \<Rightarrow> Some (Panic ''interface conversion: interface {} is nil, not string'')
           | Some wsConnID \<Rightarrow>
               handleRequest j (NewMetadata remoteAddr [WithWebSocketID wsConnID])
                 (\<lambda>m w. let f = swFm (rwSubs w) in
                    set_fm w (f\<lparr>fwOut := ws_WriteResponse (feMarshal (seFm (reSubs E))) s m (fwOut f)\<rparr>))
                 requests w))"

section \<open>The endpoints\<close>

definition read_handler :: "('st \<Rightarrow> goany list \<Rightarrow> answer) \<Rightarrow> 'st rpc_world handler" where
  "read_handler h metadata params w = retR (h (rwStore w) params) w"

definition subs_handler ::
    "(Metadata \<Rightarrow> goany list \<Rightarrow> subs_world \<Rightarrow> answer \<times> subs_world) \<Rightarrow> 'st rpc_world handler" where
  "subs_handler h metadata params w =
     (case h metadata params (rwSubs w) of (r, subs) \<Rightarrow> retR r (w\<lparr>rwSubs := subs\<rparr>))"

definition RegisterTxEndpoints ::
    "('st, 'wb, 'bi, 'ti) storage \<Rightarrow> codec \<Rightarrow> 'st rpc_world JSONRPC \<Rightarrow> 'st rpc_world JSONRPC" where
  "RegisterTxEndpoints S C j =
     RegisterHandler ''getTxResultByHash'' (read_handler (GetTxByHashHandler S C))
       (RegisterHandler ''getTxResult'' (read_handler (GetTxHandler S C)) j)"

definition RegisterGasEndpoints ::
    "('st, 'wb, 'bi, 'ti) storage \<Rightarrow> codec \<Rightarrow> rpc_env \<Rightarrow> 'st rpc_world JSONRPC \<Rightarrow> 'st rpc_world JSONRPC" where
  "RegisterGasEndpoints S C E j =
     RegisterHandler ''getGasPrice'' (\<lambda>metadata params w.
       map_option (\<lambda>r. bindO r (\<lambda>a. Ret (a, w)))
         (GetGasPriceHandler S C (feVisitGas (seFm (reSubs E))) (reWrap E) (rwStore w) params)) j"

definition RegisterBlockEndpoints ::
    "('st, 'wb, 'bi, 'ti) storage \<Rightarrow> codec \<Rightarrow> 'st rpc_world JSONRPC \<Rightarrow> 'st rpc_world JSONRPC" where
  "RegisterBlockEndpoints S C j = RegisterHandler ''getBlock'' (read_handler (GetBlockHandler S C)) j"

definition RegisterSubEndpoints :: "rpc_env \<Rightarrow> 'st rpc_world JSONRPC \<Rightarrow> 'st rpc_world JSONRPC" where
  "RegisterSubEndpoints E j =
     (let s = reSubs E in
      fold (\<lambda>(method, handler). RegisterHandler method handler)
        [(''subscribe'', subs_handler (SubscribeHandler s)),
         (''unsubscribe'', subs_handler UnsubscribeHandler),
         (''newBlockFilter'', subs_handler (\<lambda>_. NewBlockFilterHandler s)),
         (''newTransactionFilter'', subs_handler (\<lambda>_. NewTransactionFilterHandler s)),
         (''getFilterChanges'', subs_handler (\<lambda>_. GetFilterChangesHandler s)),
         (''uninstallFilter'', subs_handler (\<lambda>_. UninstallFilterHandler))] j)"

text \<open>\<open>setupJSONRPC\<close> of \<open>cmd/start.go\<close>: the server with all its endpoints.\<close>

definition setupJSONRPC ::
    "('st, 'wb, 'bi, 'ti) storage \<Rightarrow> codec \<Rightarrow> rpc_env \<Rightarrow> 'st rpc_world JSONRPC" where
  "setupJSONRPC S C E =
     RegisterSubEndpoints E (RegisterBlockEndpoints S C (RegisterGasEndpoints S C E
       (RegisterTxEndpoints S C (NewJSONRPC []))))"

section \<open>Every request is answered\<close>

text \<open>The handlers of the table return, whatever they are given.\<close>

definition handler_returns :: "'w handler \<Rightarrow> bool" where
  "handler_returns h \<longleftrightarrow> (\<forall>md ps w. \<exists>a w'. h md ps w = Some (Ret (a, w')))"

definition table_returns :: "'w JSONRPC \<Rightarrow> bool" where
  "table_returns j \<longleftrightarrow> (\<forall>m h. map_of (jrHandlers j) m = Some h \<longrightarrow> handler_returns h)"

named_theorems returns \<open>handlers and tables that always return\<close>

lemma NewJSONRPC_returns [returns]: "table_returns (NewJSONRPC [])"
  by (simp add: table_returns_def NewJSONRPC_def newHandlers_def)

lemma RegisterHandler_returns [returns]:
  "table_returns j \<Longrightarrow> handler_returns h \<Longrightarrow> table_returns (RegisterHandler m h j)"
  by (simp add: table_returns_def RegisterHandler_def addHandler_def update_conv' del: map_of_eq_Some_iff)

lemma UnregisterHandler_returns [returns]: 
  "table_returns j \<Longrightarrow> table_returns (UnregisterHandler m j)"
  by (auto simp: table_returns_def UnregisterHandler_def removeHandler_def delete_conv' simp del: map_of_eq_Some_iff
      split: if_splits)

lemma read_handler_returns [returns]: "handler_returns (read_handler h)"
  by (simp add: handler_returns_def read_handler_def retR_def)

lemma subs_handler_returns [returns]: "handler_returns (subs_handler h)"
  by (auto simp: handler_returns_def subs_handler_def retR_def split: prod.splits)

lemma endpoints_return [returns]:
  "table_returns j \<Longrightarrow> table_returns (RegisterTxEndpoints S C j)"
  "table_returns j \<Longrightarrow> table_returns (RegisterBlockEndpoints S C j)"
  "table_returns j \<Longrightarrow> table_returns (RegisterSubEndpoints E j)"
  unfolding RegisterTxEndpoints_def RegisterBlockEndpoints_def RegisterSubEndpoints_def
  by (simp_all add: Let_def returns)

text \<open>What the server owes to a request.\<close>

definition answers :: "'w JSONRPC \<Rightarrow> BaseJSONRequest \<Rightarrow> BaseJSONResponse \<Rightarrow> bool" where
  "answers j r s \<longleftrightarrow> bjID s = bjID r \<and> bjJSONRPC s = JSONRPCVersion \<and>
     (rsError s \<noteq> None \<longrightarrow> rsResult s = VNil) \<and>
     (if rqMethod r = '''' \<or> bjJSONRPC r \<noteq> JSONRPCVersion
      then map_option beCode (rsError s) = Some InvalidRequestErrorCode
      else map_of (jrHandlers j) (rqMethod r) = None \<longrightarrow>
           map_option beCode (rsError s) = Some MethodNotFoundErrorCode)"

lemma handleOne_answers:
  assumes "table_returns j"
  shows "\<exists>s w'. handleOne j md (Some r) w = Some (Ret (s, w')) \<and> answers j r s"
proof (cases "map_of (jrHandlers j) (rqMethod r)")
  case None
  then show ?thesis
    by (auto simp: handleOne_def isValidBaseRequest_def route_def retR_def bindR_def NewJSONResponse_def
        answers_def NewJSONError_def)
next
  case (Some h)
  with assms obtain v e w' where "h md (rqParams r) w = Some (Ret ((v, e), w'))"
    unfolding table_returns_def handler_returns_def by (metis surj_pair)
  with Some show ?thesis
    by (cases e) (auto simp: handleOne_def isValidBaseRequest_def route_def retR_def bindR_def
        NewJSONResponse_def answers_def NewJSONError_def)
qed

lemma handleAll_answers:
  assumes "table_returns j"
  shows "\<exists>ss w'. handleAll j md (map Some rs) w = Some (Ret (ss, w')) \<and> list_all2 (answers j) rs ss"
proof (induction rs arbitrary: w)
  case (Cons r rs)
  from handleOne_answers [OF assms] obtain s w' where
    s: "handleOne j md (Some r) w = Some (Ret (s, w'))" "answers j r s" by blast
  from Cons obtain ss w'' where
    "handleAll j md (map Some rs) w' = Some (Ret (ss, w''))" "list_all2 (answers j) rs ss" by blast
  with s show ?case by (simp add: bindR_def retR_def)
qed (simp add: retR_def)

text \<open>A JSON \<open>null\<close> among the requests of a batch is a nil pointer that the server follows.\<close>

lemma null_request_panics:
  assumes "table_returns j"
  shows "\<exists>e. handleRequest j md wr (map Some rs @ None # rest) w = Some (Panic e)"
proof -
  have "\<exists>e. handleAll j md (map Some rs @ None # rest) w = Some (Panic e)" for w
  proof (induction rs arbitrary: w)
    case (Cons r rs)
    from handleOne_answers [OF assms] obtain s w' where "handleOne j md (Some r) w = Some (Ret (s, w'))" by blast
    with Cons [of w'] show ?case by (auto simp: bindR_def)
  qed (simp add: handleOne_def isValidBaseRequest_def bindR_def)
  from this [of w] show ?thesis by (auto simp: handleRequest_def bindR_def)
qed

text \<open>
  C33. Every request of a batch is answered: with handlers that return (all but \<open>getGasPrice\<close> do so always),
  a batch without nil requests gets one message, with a response for each request, in the order of
  the requests, under the request's identifier; a request with another version or no method, and one with
  an unknown method, gets the error the specification names, and a response with an error has no result.
  A single response is written by itself, any other number as a batch.
\<close>

theorem handleRequest_answers_all:
  assumes "table_returns j"
  shows "\<exists>ss w'. list_all2 (answers j) rs ss \<and>
    handleRequest j md writer (map Some rs) w =
      Some (Ret ((), writer (if length rs = 1 then MSingle (hd ss) else MBatch ss) w'))"
proof -
  from handleAll_answers [OF assms] obtain ss w' where
    ss: "handleAll j md (map Some rs) w = Some (Ret (ss, w'))" "list_all2 (answers j) rs ss" by blast
  from list_all2_lengthD [OF ss(2)] have "length rs = length ss" .
  with ss show ?thesis
    by (intro exI [of _ ss] exI [of _ w']) (auto simp: handleRequest_def bindR_def length_Suc_conv split: list.splits)
qed

definition ex_rpc_env :: rpc_env where
  "ex_rpc_env = \<lparr>reSubs = \<lparr>seFm = ex_fm_env, seNow = int, seUid = show_nat,
       seMarshalParam = (\<lambda>p. Inr (sprintv p)), seUnmarshalOptions = (\<lambda>_. Inr \<lparr>toGasUsed = None, toGasWanted = None, toGasLimit = None\<rparr>)\<rparr>,
     reDecoder = \<lparr>jdRequests = (\<lambda>_. Inl (ErrMsg ''not an array'')), jdRequest = (\<lambda>_. Inl (ErrMsg ''not an object''))\<rparr>,
     reWrap = (\<lambda>e. e)\<rparr>"

definition ex_rpc_world :: "'st \<Rightarrow> 'st rpc_world" where
  "ex_rpc_world store = \<lparr>rwStore = store, rwSubs = \<lparr>swFm = \<lparr>fwManager = NewFilterManager [], fwConns = NewConns, fwOut = []\<rparr>, swTick = 0\<rparr>,
     rwSessions = [], rwStatus = 200, rwContentType = [], rwBody = []\<rparr>"

abbreviation "ex_table \<equiv>
  RegisterSubEndpoints ex_rpc_env (RegisterBlockEndpoints (pebble_storage ref_pebble ref_codec) ref_codec (NewJSONRPC []))"

abbreviation count_writer :: "rpc_message \<Rightarrow> 'st rpc_world \<Rightarrow> 'st rpc_world" where
  "count_writer m w \<equiv> w\<lparr>rwStatus := (case m of MBatch ss \<Rightarrow> int (length ss) | _ \<Rightarrow> 0)\<rparr>"

theorem handleRequest_answers_all_witness:
  "\<exists>(s1 :: BaseJSONResponse) (s2 :: BaseJSONResponse) w. handleRequest ex_table (NewMetadata ''::1'' []) count_writer
       [Some (NewJSONRequest 7 ''getBlock'' []), Some (NewJSONRequest 9 '''' [])] (ex_rpc_world []) =
     Some (Ret ((), count_writer (MBatch [s1, s2]) w)) \<and>
     bjID s1 = 7 \<and> map_option beCode (rsError s2) = Some InvalidRequestErrorCode"
proof -
  have "table_returns ex_table" by (intro returns)
  from handleRequest_answers_all [OF this, where rs = "[NewJSONRequest 7 ''getBlock'' [], NewJSONRequest 9 '''' []]"
      and w = "ex_rpc_world []" and md = "NewMetadata ''::1'' []" and writer = count_writer]
  obtain s1 s2 w where a: "answers ex_table (NewJSONRequest 7 ''getBlock'' []) s1"
      "answers ex_table (NewJSONRequest 9 '''' []) s2"
    and h: "handleRequest ex_table (NewMetadata ''::1'' []) count_writer
       [Some (NewJSONRequest 7 ''getBlock'' []), Some (NewJSONRequest 9 '''' [])] (ex_rpc_world []) =
      Some (Ret ((), count_writer (MBatch [s1, s2]) w))"
    by (auto simp: list_all2_Cons1)
  from a have "bjID s1 = 7" "map_option beCode (rsError s2) = Some InvalidRequestErrorCode"
    by (simp_all add: answers_def NewJSONRequest_def)
  with h show ?thesis by blast
qed

end
