(* ===== verification/Graph_Model.thy ===== *)
theory Graph_Model
  imports Chain_Types
begin

text \<open>
  The GraphQL objects of \<open>serve/graph/model\<close>: the generated structures of \<open>models_gen.go\<close>, the
  enumerations with their decoding, and the objects \<open>Block\<close> and \<open>Transaction\<close> with their fields
  (\<open>block.go\<close>, \<open>transaction.go\<close>). A pointer that may be nil is an option; the values of an
  interface type are a datatype with one constructor per dynamic type. \<open>sync.Once\<close> makes a
  decoded field a function of the object, so the fields are functions without state.
\<close>

section \<open>Objects\<close>

record Coin =
  coAmount :: i64
  coDenom :: string

record TxFee =
  tfGasWanted :: i64
  tfGasFee :: "Coin option"

record BlockTransaction =
  btHash :: string
  btFee :: "TxFee option"
  btMemo :: string
  btContentRaw :: string

record GnoEventAttribute =
  gaKey :: string
  gaValue :: string

record GnoEvent =
  geType :: string
  gePkgPath :: string
  geAttrs :: "GnoEventAttribute list option"

record StorageDepositEvent =
  sdType :: string
  sdBytesDelta :: i64
  sdFeeDelta :: "Coin option"
  sdPkgPath :: string

record StorageUnlockEvent =
  suType :: string
  suBytesDelta :: i64
  suFeeRefund :: "Coin option"
  suPkgPath :: string

record UnknownEvent =
  ueValue :: string

datatype Event =
    EvGno GnoEvent
  | EvStorageDeposit StorageDepositEvent
  | EvStorageUnlock StorageUnlockEvent
  | EvUnknown UnknownEvent

record MemFile =
  mfName :: string
  mfBody :: string

record MemPackage =
  mpName :: string
  mpPath :: string
  mpFiles :: "MemFile list"

record BankMsgSend =
  bsFromAddress :: string
  bsToAddress :: string
  bsAmount :: string

text \<open>\<open>mcArgs\<close> is an option because one caller distinguishes a nil slice from an empty one.\<close>

record MsgCall =
  mcCaller :: string
  mcSend :: string
  mcPkgPath :: string
  mcFunc :: string
  mcArgs :: "string list option"
  mcMaxDeposit :: string

record MsgAddPackage =
  maCreator :: string
  maPackage :: "MemPackage option"
  maDeposit :: string
  maSend :: string
  maMaxDeposit :: string

record MsgRun =
  mrCaller :: string
  mrSend :: string
  mrPackage :: "MemPackage option"
  mrMaxDeposit :: string

record UnexpectedMessage =
  umRaw :: string

datatype MessageValue =
    MvBankMsgSend BankMsgSend
  | MvMsgCall MsgCall
  | MvMsgAddPackage MsgAddPackage
  | MvMsgRun MsgRun
  | MvUnexpected UnexpectedMessage

record TransactionMessage =
  tmValue :: MessageValue
  tmRoute :: string
  tmTypeURL :: string

section \<open>Enumerations\<close>

text \<open>
  An enumeration is a string type. \<open>UnmarshalGQL\<close> decodes a value of type \<open>any\<close>, of which only a
  string is accepted; \<open>MarshalGQL\<close> writes the quoted string (\<open>strconv.Quote\<close>, which leaves the
  ASCII letters and the underscore of the valid values alone).
\<close>

datatype gql_value = GString string | GOther

type_synonym MessageRoute = string
type_synonym MessageType = string
type_synonym Order = string
type_synonym FilterableExtra = string

definition FilterableExtraMinmax :: FilterableExtra where "FilterableExtraMinmax = ''MINMAX''"
definition MessageRouteVM :: MessageRoute where "MessageRouteVM = ''vm''"
definition MessageRouteBank :: MessageRoute where "MessageRouteBank = ''bank''"
definition MessageTypeSend :: MessageType where "MessageTypeSend = ''send''"
definition MessageTypeExec :: MessageType where "MessageTypeExec = ''exec''"
definition MessageTypeAddPackage :: MessageType where "MessageTypeAddPackage = ''add_package''"
definition MessageTypeRun :: MessageType where "MessageTypeRun = ''run''"
definition OrderAsc :: Order where "OrderAsc = ''ASC''"
definition OrderDesc :: Order where "OrderDesc = ''DESC''"

lemmas enum_defs = FilterableExtraMinmax_def MessageRouteVM_def MessageRouteBank_def MessageTypeSend_def
  MessageTypeExec_def MessageTypeAddPackage_def MessageTypeRun_def OrderAsc_def OrderDesc_def

definition AllFilterableExtra :: "FilterableExtra list" where
  "AllFilterableExtra = [FilterableExtraMinmax]"

definition AllMessageRoute :: "MessageRoute list" where
  "AllMessageRoute = [MessageRouteVM, MessageRouteBank]"

definition AllMessageType :: "MessageType list" where
  "AllMessageType = [MessageTypeSend, MessageTypeExec, MessageTypeAddPackage, MessageTypeRun]"

definition AllOrder :: "Order list" where
  "AllOrder = [OrderAsc, OrderDesc]"

definition FilterableExtra_IsValid :: "FilterableExtra \<Rightarrow> bool" where
  "FilterableExtra_IsValid e \<longleftrightarrow> e = FilterableExtraMinmax"

definition MessageRoute_IsValid :: "MessageRoute \<Rightarrow> bool" where
  "MessageRoute_IsValid e \<longleftrightarrow> e = MessageRouteVM \<or> e = MessageRouteBank"

definition MessageType_IsValid :: "MessageType \<Rightarrow> bool" where
  "MessageType_IsValid e \<longleftrightarrow>
     e = MessageTypeSend \<or> e = MessageTypeExec \<or> e = MessageTypeAddPackage \<or> e = MessageTypeRun"

definition Order_IsValid :: "Order \<Rightarrow> bool" where
  "Order_IsValid e \<longleftrightarrow> e = OrderAsc \<or> e = OrderDesc"

text \<open>
  The decoding returns the error and the new value of the receiver, which is assigned before it is
  checked.
\<close>

definition unmarshalEnum :: "(string \<Rightarrow> bool) \<Rightarrow> string \<Rightarrow> string \<Rightarrow> gql_value \<Rightarrow> go_error option \<times> string" where
  "unmarshalEnum valid name e v =
     (case v of
        GOther \<Rightarrow> (Some (ErrMsg ''enums must be strings''), e)
      | GString str \<Rightarrow>
          (if valid str then None else Some (ErrMsg (str @ '' is not a valid '' @ name)), str))"

definition FilterableExtra_UnmarshalGQL :: "FilterableExtra \<Rightarrow> gql_value \<Rightarrow> go_error option \<times> FilterableExtra" where
  "FilterableExtra_UnmarshalGQL = unmarshalEnum FilterableExtra_IsValid ''FilterableExtra''"

definition MessageRoute_UnmarshalGQL :: "MessageRoute \<Rightarrow> gql_value \<Rightarrow> go_error option \<times> MessageRoute" where
  "MessageRoute_UnmarshalGQL = unmarshalEnum MessageRoute_IsValid ''MessageRoute''"

definition MessageType_UnmarshalGQL :: "MessageType \<Rightarrow> gql_value \<Rightarrow> go_error option \<times> MessageType" where
  "MessageType_UnmarshalGQL = unmarshalEnum MessageType_IsValid ''MessageType''"

definition Order_UnmarshalGQL :: "Order \<Rightarrow> gql_value \<Rightarrow> go_error option \<times> Order" where
  "Order_UnmarshalGQL = unmarshalEnum Order_IsValid ''Order''"

definition quoteEnum :: "string \<Rightarrow> string" where
  "quoteEnum e = CHR 0x22 # e @ [CHR 0x22]"

definition FilterableExtra_MarshalGQL :: "FilterableExtra \<Rightarrow> string" where
  "FilterableExtra_MarshalGQL e = quoteEnum e"

definition MessageRoute_MarshalGQL :: "MessageRoute \<Rightarrow> string" where
  "MessageRoute_MarshalGQL e = quoteEnum e"

definition MessageType_MarshalGQL :: "MessageType \<Rightarrow> string" where
  "MessageType_MarshalGQL e = quoteEnum e"

definition Order_MarshalGQL :: "Order \<Rightarrow> string" where
  "Order_MarshalGQL e = quoteEnum e"

section \<open>Third-party operations\<close>

text \<open>
  The messages of the packages \<open>bank\<close> and \<open>vm\<close> after decoding, with addresses and coins as the
  strings their \<open>String\<close> methods return.
\<close>

record mem_package =
  pkName :: string
  pkPath :: string
  pkFiles :: "(string \<times> string) list"

record bank_msg_send =
  xsFromAddress :: string
  xsToAddress :: string
  xsAmount :: string

record vm_msg_call =
  xcCaller :: string
  xcSend :: string
  xcMaxDeposit :: string
  xcPkgPath :: string
  xcFunc :: string
  xcArgs :: "string list option"

text \<open>The package of the two messages below is a pointer.\<close>

record vm_msg_add_package =
  xaCreator :: string
  xaPackage :: "mem_package option"
  xaSend :: string
  xaMaxDeposit :: string

record vm_msg_run =
  xrCaller :: string
  xrSend :: string
  xrMaxDeposit :: string
  xrPackage :: "mem_package option"

text \<open>
  What the GraphQL layer calls in other packages: \<open>Tx.String\<close>, the value a failed
  \<open>amino.Unmarshal\<close> leaves in its target, JSON of messages and events and its decoding at the types used,
  \<open>std.ParseCoins\<close> and \<open>regexp.MatchString\<close>.
\<close>

record graph_env =
  txString :: "bytes \<Rightarrow> string"
  leftStdTx :: "bytes \<Rightarrow> std_tx"
  jsonMsg :: "std_msg \<Rightarrow> go_error + string"
  unjsonSend :: "string \<Rightarrow> go_error + bank_msg_send"
  unjsonCall :: "string \<Rightarrow> go_error + vm_msg_call"
  unjsonAddPackage :: "string \<Rightarrow> go_error + vm_msg_add_package"
  unjsonRun :: "string \<Rightarrow> go_error + vm_msg_run"
  jsonEvent :: "abci_event \<Rightarrow> go_error + string"
  unjsonGnoEvent :: "string \<Rightarrow> go_error + GnoEvent"
  unjsonStorageDeposit :: "string \<Rightarrow> go_error + StorageDepositEvent"
  unjsonStorageUnlock :: "string \<Rightarrow> go_error + StorageUnlockEvent"
  parseCoins :: "string \<Rightarrow> go_error + coin list"
  matchString :: "string \<Rightarrow> string \<Rightarrow> go_error + bool"

section \<open>Messages\<close>

definition cast :: "('a \<Rightarrow> go_error + string) \<Rightarrow> (string \<Rightarrow> go_error + 'b) \<Rightarrow> 'a \<Rightarrow> go_error + 'b" where
  "cast marshal unmarshal input =
     (case marshal input of Inl err \<Rightarrow> Inl err | Inr encoded \<Rightarrow> unmarshal encoded)"

definition makeBankMsgSend :: "graph_env \<Rightarrow> std_msg \<Rightarrow> BankMsgSend" where
  "makeBankMsgSend G value =
     (case cast (jsonMsg G) (unjsonSend G) value of
        Inl err \<Rightarrow> \<lparr>bsFromAddress = '''', bsToAddress = '''', bsAmount = ''''\<rparr>
      | Inr m \<Rightarrow> \<lparr>bsFromAddress = xsFromAddress m, bsToAddress = xsToAddress m, bsAmount = xsAmount m\<rparr>)"

definition makeVMMsgCall :: "graph_env \<Rightarrow> std_msg \<Rightarrow> MsgCall" where
  "makeVMMsgCall G value =
     (case cast (jsonMsg G) (unjsonCall G) value of
        Inl err \<Rightarrow> \<lparr>mcCaller = '''', mcSend = '''', mcPkgPath = '''', mcFunc = '''', mcArgs = None,
                    mcMaxDeposit = ''''\<rparr>
      | Inr m \<Rightarrow> \<lparr>mcCaller = xcCaller m, mcSend = xcSend m, mcPkgPath = xcPkgPath m, mcFunc = xcFunc m,
                  mcArgs = xcArgs m, mcMaxDeposit = xcMaxDeposit m\<rparr>)"

definition makeMemFiles :: "(string \<times> string) list \<Rightarrow> MemFile list" where
  "makeMemFiles files = map (\<lambda>(name, body). \<lparr>mfName = name, mfBody = body\<rparr>) files"

definition makeMemPackage :: "mem_package \<Rightarrow> MemPackage" where
  "makeMemPackage p = \<lparr>mpName = pkName p, mpPath = pkPath p, mpFiles = makeMemFiles (pkFiles p)\<rparr>"

definition makeVMAddPackage :: "graph_env \<Rightarrow> std_msg \<Rightarrow> MsgAddPackage outcome" where
  "makeVMAddPackage G value =
     (case cast (jsonMsg G) (unjsonAddPackage G) value of
        Inl err \<Rightarrow> Ret \<lparr>maCreator = '''', maPackage = None, maDeposit = '''', maSend = '''', maMaxDeposit = ''''\<rparr>
      | Inr m \<Rightarrow>
          (case xaPackage m of
             None \<Rightarrow> Panic ''nil pointer dereference''
           | Some p \<Rightarrow> Ret \<lparr>maCreator = xaCreator m, maPackage = Some (makeMemPackage p),
               maDeposit = xaSend m, maSend = xaSend m, maMaxDeposit = xaMaxDeposit m\<rparr>))"

definition makeVMMsgRun :: "graph_env \<Rightarrow> std_msg \<Rightarrow> MsgRun outcome" where
  "makeVMMsgRun G value =
     (case cast (jsonMsg G) (unjsonRun G) value of
        Inl err \<Rightarrow> Ret \<lparr>mrCaller = '''', mrSend = '''', mrPackage = None, mrMaxDeposit = ''''\<rparr>
      | Inr m \<Rightarrow>
          (case xrPackage m of
             None \<Rightarrow> Panic ''nil pointer dereference''
           | Some p \<Rightarrow> Ret \<lparr>mrCaller = xrCaller m, mrSend = xrSend m, mrPackage = Some (makeMemPackage p),
               mrMaxDeposit = xrMaxDeposit m\<rparr>))"

definition makeUnexpectedMessage :: "graph_env \<Rightarrow> std_msg \<Rightarrow> UnexpectedMessage" where
  "makeUnexpectedMessage G value =
     (case jsonMsg G value of Inl err \<Rightarrow> \<lparr>umRaw = ''''\<rparr> | Inr raw \<Rightarrow> \<lparr>umRaw = raw\<rparr>)"

text \<open>The router keys of the packages \<open>bank\<close> and \<open>vm\<close>.\<close>

definition bank_RouterKey :: string where "bank_RouterKey = ''bank''"
definition vm_RouterKey :: string where "vm_RouterKey = ''vm''"

definition NewTransactionMessage :: "graph_env \<Rightarrow> std_msg \<Rightarrow> TransactionMessage outcome" where
  "NewTransactionMessage G message =
     (if mRoute message = bank_RouterKey \<and> mType message = MessageTypeSend then
        Ret \<lparr>tmValue = MvBankMsgSend (makeBankMsgSend G message), tmRoute = MessageRouteBank,
             tmTypeURL = MessageTypeSend\<rparr>
      else if mRoute message = vm_RouterKey \<and> mType message = MessageTypeExec then
        Ret \<lparr>tmValue = MvMsgCall (makeVMMsgCall G message), tmRoute = MessageRouteVM,
             tmTypeURL = MessageTypeExec\<rparr>
      else if mRoute message = vm_RouterKey \<and> mType message = MessageTypeAddPackage then
        bindO (makeVMAddPackage G message) (\<lambda>v.
          Ret \<lparr>tmValue = MvMsgAddPackage v, tmRoute = MessageRouteVM, tmTypeURL = MessageTypeAddPackage\<rparr>)
      else if mRoute message = vm_RouterKey \<and> mType message = MessageTypeRun then
        bindO (makeVMMsgRun G message) (\<lambda>v.
          Ret \<lparr>tmValue = MvMsgRun v, tmRoute = MessageRouteVM, tmTypeURL = MessageTypeRun\<rparr>)
      else
        Ret \<lparr>tmValue = MvUnexpected (makeUnexpectedMessage G message), tmRoute = mRoute message,
             tmTypeURL = mType message\<rparr>)"

text \<open>The type assertions of the message value; a failed one panics.\<close>

definition TransactionMessage_BankMsgSend :: "TransactionMessage \<Rightarrow> BankMsgSend outcome" where
  "TransactionMessage_BankMsgSend tm =
     (case tmValue tm of MvBankMsgSend v \<Rightarrow> Ret v | _ \<Rightarrow> Panic ''interface conversion'')"

definition TransactionMessage_VMMsgCall :: "TransactionMessage \<Rightarrow> MsgCall outcome" where
  "TransactionMessage_VMMsgCall tm =
     (case tmValue tm of MvMsgCall v \<Rightarrow> Ret v | _ \<Rightarrow> Panic ''interface conversion'')"

definition TransactionMessage_VMAddPackage :: "TransactionMessage \<Rightarrow> MsgAddPackage outcome" where
  "TransactionMessage_VMAddPackage tm =
     (case tmValue tm of MvMsgAddPackage v \<Rightarrow> Ret v | _ \<Rightarrow> Panic ''interface conversion'')"

definition TransactionMessage_VMMsgRun :: "TransactionMessage \<Rightarrow> MsgRun outcome" where
  "TransactionMessage_VMMsgRun tm =
     (case tmValue tm of MvMsgRun v \<Rightarrow> Ret v | _ \<Rightarrow> Panic ''interface conversion'')"

section \<open>Events\<close>

definition makeEvent :: "graph_env \<Rightarrow> abci_event \<Rightarrow> go_error + Event" where
  "makeEvent G abciEvent =
     (case jsonEvent G abciEvent of
        Inl err \<Rightarrow> Inl err
      | Inr data \<Rightarrow>
          let unknown = Inr (EvUnknown \<lparr>ueValue = data\<rparr>) in
          (case abciEvent of
             ChainEvent _ \<Rightarrow>
               (case unjsonGnoEvent G data of Inl err \<Rightarrow> unknown | Inr e \<Rightarrow> Inr (EvGno e))
           | ChainStorageDepositEvent _ \<Rightarrow>
               (case unjsonStorageDeposit G data of
                  Inl err \<Rightarrow> unknown
                | Inr e \<Rightarrow> Inr (EvStorageDeposit (e\<lparr>sdType := ''StorageDepositEvent''\<rparr>)))
           | ChainStorageUnlockEvent _ \<Rightarrow>
               (case unjsonStorageUnlock G data of
                  Inl err \<Rightarrow> unknown
                | Inr e \<Rightarrow> Inr (EvStorageUnlock (e\<lparr>suType := ''StorageUnlockEvent''\<rparr>)))
           | OtherEvent _ \<Rightarrow> unknown))"

fun makeEvents :: "graph_env \<Rightarrow> abci_event list \<Rightarrow> Event list" where
  "makeEvents G [] = []"
| "makeEvents G (event # events) =
     (case makeEvent G event of
        Inl err \<Rightarrow> makeEvents G events
      | Inr e \<Rightarrow> e # makeEvents G events)"

section \<open>The response of a transaction\<close>

record TransactionResponse =
  rsResponse :: deliver_tx

definition NewTransactionResponse :: "deliver_tx \<Rightarrow> TransactionResponse" where
  "NewTransactionResponse response = \<lparr>rsResponse = response\<rparr>"

definition TransactionResponse_Log :: "TransactionResponse \<Rightarrow> string" where
  "TransactionResponse_Log tr = rLog (rsResponse tr)"

definition TransactionResponse_Info :: "TransactionResponse \<Rightarrow> string" where
  "TransactionResponse_Info tr = rInfo (rsResponse tr)"

definition TransactionResponse_Error :: "TransactionResponse \<Rightarrow> string" where
  "TransactionResponse_Error tr = (case rError (rsResponse tr) of Some msg \<Rightarrow> msg | None \<Rightarrow> '''')"

definition TransactionResponse_Data :: "TransactionResponse \<Rightarrow> string" where
  "TransactionResponse_Data tr = bytes_str (rData (rsResponse tr))"

definition TransactionResponse_Events :: "graph_env \<Rightarrow> TransactionResponse \<Rightarrow> Event list" where
  "TransactionResponse_Events G tr = makeEvents G (rEvents (rsResponse tr))"

section \<open>Transactions\<close>

text \<open>
  A transaction holds the pointer to its result; the accessors read through it, so they panic on a
  nil pointer (\<open>Transaction_result\<close>).
\<close>

record Transaction =
  tnResult :: "tx_result option"

definition NewTransaction :: "tx_result option \<Rightarrow> Transaction" where
  "NewTransaction txResult = \<lparr>tnResult = txResult\<rparr>"

definition Transaction_result :: "Transaction \<Rightarrow> tx_result outcome" where
  "Transaction_result t = (case tnResult t of None \<Rightarrow> Panic ''nil pointer dereference'' | Some r \<Rightarrow> Ret r)"

text \<open>Decimal digits (\<open>%d\<close>, \<open>strconv.Itoa\<close>).\<close>

fun showNat :: "nat \<Rightarrow> string" where
  "showNat n = (if n < 10 then [char_of (48 + n)] else showNat (n div 10) @ [char_of (48 + n mod 10)])"

declare showNat.simps [simp del]

definition showInt :: "int \<Rightarrow> string" where
  "showInt i = (if i < 0 then CHR 0x2D # showNat (nat (- i)) else showNat (nat i))"

definition Transaction_ID :: "tx_result \<Rightarrow> string" where
  "Transaction_ID t = showInt (sint (trHeight t)) @ ''_'' @ showNat (unat (trIndex t))"

definition Transaction_Index :: "tx_result \<Rightarrow> i64" where
  "Transaction_Index t = ucast (trIndex t)"

definition Transaction_Hash :: "codec \<Rightarrow> tx_result \<Rightarrow> string" where
  "Transaction_Hash C t = base64 (txHash C (trTx t))"

definition Transaction_BlockHeight :: "tx_result \<Rightarrow> i64" where
  "Transaction_BlockHeight t = trHeight t"

definition Transaction_Success :: "tx_result \<Rightarrow> bool" where
  "Transaction_Success t \<longleftrightarrow> rError (trResponse t) = None"

definition Transaction_Response :: "tx_result \<Rightarrow> TransactionResponse" where
  "Transaction_Response t = \<lparr>rsResponse = trResponse t\<rparr>"

definition Transaction_GasWanted :: "tx_result \<Rightarrow> i64" where
  "Transaction_GasWanted t = rGasWanted (trResponse t)"

definition Transaction_GasUsed :: "tx_result \<Rightarrow> i64" where
  "Transaction_GasUsed t = rGasUsed (trResponse t)"

definition Transaction_ContentRaw :: "graph_env \<Rightarrow> tx_result \<Rightarrow> string" where
  "Transaction_ContentRaw G t = txString G (trTx t)"

text \<open>
  A failed decoding first stores nil and then, like a successful one, the address of the target:
  the result is never nil.
\<close>

definition Transaction_getStdTx :: "codec \<Rightarrow> graph_env \<Rightarrow> tx_result \<Rightarrow> std_tx option" where
  "Transaction_getStdTx C G t =
     (case unmarshalStdTx C (trTx t) of
        Inl err \<Rightarrow> Some (leftStdTx G (trTx t))
      | Inr stdTx \<Rightarrow> Some stdTx)"

definition Transaction_Memo :: "codec \<Rightarrow> graph_env \<Rightarrow> tx_result \<Rightarrow> string" where
  "Transaction_Memo C G t =
     (case Transaction_getStdTx C G t of None \<Rightarrow> '''' | Some stdTx \<Rightarrow> sMemo stdTx)"

definition Transaction_GasFee :: "codec \<Rightarrow> graph_env \<Rightarrow> tx_result \<Rightarrow> Coin option" where
  "Transaction_GasFee C G t =
     (case Transaction_getStdTx C G t of
        None \<Rightarrow> None
      | Some stdTx \<Rightarrow> Some \<lparr>coAmount = cAmount (fGasFee (sFee stdTx)), coDenom = cDenom (fGasFee (sFee stdTx))\<rparr>)"

fun makeMessages :: "graph_env \<Rightarrow> std_msg list \<Rightarrow> TransactionMessage list outcome" where
  "makeMessages G [] = Ret []"
| "makeMessages G (message # msgs) =
     bindO (NewTransactionMessage G message) (\<lambda>m. bindO (makeMessages G msgs) (\<lambda>ms. Ret (m # ms)))"

definition Transaction_getMessages :: "codec \<Rightarrow> graph_env \<Rightarrow> tx_result \<Rightarrow> TransactionMessage list outcome" where
  "Transaction_getMessages C G t =
     (case Transaction_getStdTx C G t of
        None \<Rightarrow> Panic ''nil pointer dereference''
      | Some stdTx \<Rightarrow> makeMessages G (sMsgs stdTx))"

definition Transaction_Messages :: "codec \<Rightarrow> graph_env \<Rightarrow> tx_result \<Rightarrow> TransactionMessage list outcome" where
  "Transaction_Messages C G t = Transaction_getMessages C G t"

section \<open>Blocks\<close>

record Block =
  bkB :: block

definition NewBlock :: "block \<Rightarrow> Block" where
  "NewBlock b = \<lparr>bkB = b\<rparr>"

definition Block_ID :: "Block \<Rightarrow> string" where
  "Block_ID b = showInt (sint (bHeight (bkB b)))"

definition Block_Hash :: "codec \<Rightarrow> Block \<Rightarrow> string" where
  "Block_Hash C b = base64 (blockHash C (bkB b))"

definition Block_Height :: "Block \<Rightarrow> i64" where
  "Block_Height b = hHeight (bHeader (bkB b))"

definition Block_Version :: "Block \<Rightarrow> string" where
  "Block_Version b = hVersion (bHeader (bkB b))"

definition Block_ChainID :: "Block \<Rightarrow> string" where
  "Block_ChainID b = hChainID (bHeader (bkB b))"

definition Block_Time :: "Block \<Rightarrow> gotime" where
  "Block_Time b = hTime (bHeader (bkB b))"

definition Block_NumTxs :: "Block \<Rightarrow> i64" where
  "Block_NumTxs b = hNumTxs (bHeader (bkB b))"

definition Block_TotalTxs :: "Block \<Rightarrow> i64" where
  "Block_TotalTxs b = hTotalTxs (bHeader (bkB b))"

definition Block_AppVersion :: "Block \<Rightarrow> string" where
  "Block_AppVersion b = hAppVersion (bHeader (bkB b))"

definition Block_LastBlockHash :: "Block \<Rightarrow> string" where
  "Block_LastBlockHash b = base64 (hLastBlockID (bHeader (bkB b)))"

definition Block_ProposerAddressRaw :: "Block \<Rightarrow> string" where
  "Block_ProposerAddressRaw b = hProposerAddress (bHeader (bkB b))"

text \<open>The case of a nil hash is the encoding of no bytes.\<close>

definition Block_LastCommitHash :: "Block \<Rightarrow> string" where
  "Block_LastCommitHash b =
     (if hLastCommitHash (bHeader (bkB b)) = [] then '''' else base64 (hLastCommitHash (bHeader (bkB b))))"

definition Block_ValidatorsHash :: "Block \<Rightarrow> string" where
  "Block_ValidatorsHash b = base64 (hValidatorsHash (bHeader (bkB b)))"

definition Block_NextValidatorsHash :: "Block \<Rightarrow> string" where
  "Block_NextValidatorsHash b = base64 (hNextValidatorsHash (bHeader (bkB b)))"

definition Block_ConsensusHash :: "Block \<Rightarrow> string" where
  "Block_ConsensusHash b = base64 (hConsensusHash (bHeader (bkB b)))"

definition Block_AppHash :: "Block \<Rightarrow> string" where
  "Block_AppHash b = base64 (hAppHash (bHeader (bkB b)))"

definition Block_LastResultsHash :: "Block \<Rightarrow> string" where
  "Block_LastResultsHash b = base64 (hLastResultsHash (bHeader (bkB b)))"

definition NewBlockTransaction :: "codec \<Rightarrow> graph_env \<Rightarrow> bytes \<Rightarrow> BlockTransaction option" where
  "NewBlockTransaction C G tx =
     (case unmarshalStdTx C tx of
        Inl err \<Rightarrow> None
      | Inr stdTx \<Rightarrow>
          Some \<lparr>btHash = base64 (txHash C tx),
                btFee = Some \<lparr>tfGasWanted = fGasWanted (sFee stdTx),
                  tfGasFee = Some \<lparr>coAmount = cAmount (fGasFee (sFee stdTx)),
                                   coDenom = cDenom (fGasFee (sFee stdTx))\<rparr>\<rparr>,
                btMemo = sMemo stdTx,
                btContentRaw = txString G tx\<rparr>)"

definition Block_Txs :: "codec \<Rightarrow> graph_env \<Rightarrow> Block \<Rightarrow> BlockTransaction list" where
  "Block_Txs C G b = List.map_filter (NewBlockTransaction C G) (bTxs (bkB b))"

end
