(* ===== verification/Graph_Filter.thy ===== *)
theory Graph_Filter
  imports Graph_Model
begin

text \<open>
  The filter language of the GraphQL queries. Every filter structure of \<open>models_gen.go\<close> has the same
  three logical operators and a set of fields of its own, and every method of \<open>filter_methods_gen.go\<close>
  is an instance of one template. This theory holds the filters of the basic types, the template
  (\<open>evalFilter\<close> and \<open>minMaxAt\<close>) and the laws of the template; \<open>Graph_Filters\<close> holds the instances.
\<close>

section \<open>Filters of the basic types\<close>

record FilterBoolean =
  fbExists :: "bool option"
  fbEq :: "bool option"

record FilterInt =
  fiExists :: "bool option"
  fiEq :: "i64 option"
  fiGt :: "i64 option"
  fiLt :: "i64 option"

record FilterString =
  fsExists :: "bool option"
  fsEq :: "string option"
  fsLike :: "string option"

text \<open>
  A time value of Go is an instant with a location, and \<open>==\<close> compares both; the location of UTC is
  the empty string here.
\<close>

record go_time =
  gtInstant :: gotime
  gtLocation :: string

record FilterTime =
  ftExists :: "bool option"
  ftEq :: "go_time option"
  ftBefore :: "go_time option"
  ftAfter :: "go_time option"

definition rootEval :: "'a option \<Rightarrow> bool option \<Rightarrow> 'a option \<Rightarrow> bool" where
  "rootEval val exists eq =
     (if exists = Some True \<and> val = None then False
      else if exists = Some False \<and> val \<noteq> None then False
      else (case val of
              None \<Rightarrow> True
            | Some v \<Rightarrow> (case eq of None \<Rightarrow> True | Some e \<Rightarrow> e = v)))"

definition FilterBoolean_Eval :: "FilterBoolean option \<Rightarrow> bool option \<Rightarrow> bool" where
  "FilterBoolean_Eval f val =
     (case f of None \<Rightarrow> True | Some f \<Rightarrow> rootEval val (fbExists f) (fbEq f))"

definition FilterInt_Eval :: "FilterInt option \<Rightarrow> i64 option \<Rightarrow> bool" where
  "FilterInt_Eval f val =
     (case f of
        None \<Rightarrow> True
      | Some f \<Rightarrow>
          if \<not> rootEval val (fiExists f) (fiEq f) then False
          else
            (case (val, fiGt f) of (Some v, Some g) \<Rightarrow> \<not> v \<le>s g | _ \<Rightarrow> True) \<and>
            (case (val, fiLt f) of (Some v, Some l) \<Rightarrow> \<not> l \<le>s v | _ \<Rightarrow> True))"

definition FilterString_Eval :: "graph_env \<Rightarrow> FilterString option \<Rightarrow> string option \<Rightarrow> bool" where
  "FilterString_Eval G f val =
     (case f of
        None \<Rightarrow> True
      | Some f \<Rightarrow>
          if \<not> rootEval val (fsExists f) (fsEq f) then False
          else (case (val, fsLike f) of
                  (Some v, Some p) \<Rightarrow> (case matchString G p v of Inl err \<Rightarrow> False | Inr matched \<Rightarrow> matched)
                | _ \<Rightarrow> True))"

text \<open>The time filter reads the value without checking it for nil.\<close>

definition FilterTime_Eval :: "FilterTime option \<Rightarrow> go_time option \<Rightarrow> bool outcome" where
  "FilterTime_Eval f val =
     (case f of
        None \<Rightarrow> Ret True
      | Some f \<Rightarrow>
          if \<not> rootEval val (ftExists f) (ftEq f) then Ret False
          else if val = None \<and> (ftBefore f \<noteq> None \<or> ftAfter f \<noteq> None)
            then Panic ''nil pointer dereference''
          else Ret
            ((case (val, ftBefore f) of (Some v, Some b) \<Rightarrow> gtInstant v < gtInstant b | _ \<Rightarrow> True) \<and>
             (case (val, ftAfter f) of (Some v, Some a) \<Rightarrow> gtInstant a < gtInstant v | _ \<Rightarrow> True)))"

text \<open>The dynamic types \<open>toIntPtr\<close> distinguishes; a nil pointer to another type than \<open>int\<close> panics.\<close>

datatype int_value =
    VNil | VInt i64 | VInt64 i64 | VInt32 "32 word" | VInt16 "16 word" | VInt8 "8 word"
  | PInt "i64 option" | PInt64 "i64 option" | PInt32 "32 word option" | PInt16 "16 word option"
  | PInt8 "8 word option" | VOther

definition derefInt :: "('a::len) word option \<Rightarrow> i64 option outcome" where
  "derefInt v = (case v of None \<Rightarrow> Panic ''nil pointer dereference'' | Some i \<Rightarrow> Ret (Some (scast i)))"

fun toIntPtr :: "int_value \<Rightarrow> i64 option outcome" where
  "toIntPtr VNil = Ret None"
| "toIntPtr (VInt v) = Ret (Some v)"
| "toIntPtr (VInt64 v) = Ret (Some v)"
| "toIntPtr (VInt32 v) = Ret (Some (scast v))"
| "toIntPtr (VInt16 v) = Ret (Some (scast v))"
| "toIntPtr (VInt8 v) = Ret (Some (scast v))"
| "toIntPtr (PInt v) = Ret v"
| "toIntPtr (PInt64 v) = derefInt v"
| "toIntPtr (PInt32 v) = derefInt v"
| "toIntPtr (PInt16 v) = derefInt v"
| "toIntPtr (PInt8 v) = derefInt v"
| "toIntPtr VOther = Ret None"

section \<open>The template\<close>

text \<open>
  A filter: the lists of \<open>_and\<close> and \<open>_or\<close>, the pointer of \<open>_not\<close> and the fields. The elements of the lists are
  nullable in the schema, so they may be nil pointers.
\<close>

datatype 'p gql_filter =
  Filter (fAnd: "'p gql_filter option list") (fOr: "'p gql_filter option list")
    (fNot: "'p gql_filter option") (fFields: 'p)

text \<open>Loops over results that may panic: stop at the first \<open>False\<close>, stop at the first \<open>True\<close>, run to the end.\<close>

fun allO :: "bool outcome list \<Rightarrow> bool outcome" where
  "allO [] = Ret True"
| "allO (x # xs) = bindO x (\<lambda>b. if b then allO xs else Ret False)"

fun anyO :: "bool outcome list \<Rightarrow> bool outcome" where
  "anyO [] = Ret False"
| "anyO (x # xs) = bindO x (\<lambda>b. if b then Ret True else anyO xs)"

fun someElem :: "bool outcome list \<Rightarrow> bool outcome" where
  "someElem [] = Ret False"
| "someElem (x # xs) = bindO x (\<lambda>b. bindO (someElem xs) (\<lambda>c. Ret (b \<or> c)))"

text \<open>A method called on a nil filter reads its fields and panics.\<close>

definition derefO :: "'a outcome option \<Rightarrow> 'a outcome" where
  "derefO x = (case x of None \<Rightarrow> Panic ''nil pointer dereference'' | Some r \<Rightarrow> r)"

text \<open>The part of \<open>Eval\<close> that is the same in every method: the logical operators, then the fields.\<close>

definition evalLogic ::
    "bool outcome option list \<Rightarrow> bool outcome option list \<Rightarrow> bool outcome option \<Rightarrow> bool outcome \<Rightarrow> bool outcome" where
  "evalLogic ands ors nt own =
     bindO (allO (map derefO ands)) (\<lambda>a. if \<not> a then Ret False else
     bindO (if ors = [] then Ret True else anyO (map derefO ors)) (\<lambda>b. if \<not> b then Ret False else
     bindO (case nt of None \<Rightarrow> Ret False | Some r \<Rightarrow> r) (\<lambda>n. if n then Ret False else own)))"

primrec evalFilter :: "('p \<Rightarrow> bool outcome) \<Rightarrow> 'p gql_filter \<Rightarrow> bool outcome" where
  "evalFilter evalFields (Filter ands ors nt p) =
     evalLogic (map (map_option (evalFilter evalFields)) ands) (map (map_option (evalFilter evalFields)) ors)
       (map_option (evalFilter evalFields) nt) (evalFields p)"

text \<open>One field: \<open>if f.X != nil && !f.X.Eval(toEval) { return false }\<close>, and the loop over a slice.\<close>

definition boolField :: "FilterBoolean option \<Rightarrow> bool \<Rightarrow> bool outcome" where
  "boolField f v = Ret (f = None \<or> FilterBoolean_Eval f (Some v))"

definition intField :: "FilterInt option \<Rightarrow> int_value \<Rightarrow> bool outcome" where
  "intField f v = bindO (toIntPtr v) (\<lambda>p. Ret (f = None \<or> FilterInt_Eval f p))"

definition stringField :: "graph_env \<Rightarrow> FilterString option \<Rightarrow> string \<Rightarrow> bool outcome" where
  "stringField G f v = Ret (f = None \<or> FilterString_Eval G f (Some v))"

definition timeField :: "FilterTime option \<Rightarrow> go_time \<Rightarrow> bool outcome" where
  "timeField f v = (if f = None then Ret True else FilterTime_Eval f (Some v))"

definition objField :: "('f \<Rightarrow> 'o \<Rightarrow> bool outcome) \<Rightarrow> 'f option \<Rightarrow> 'o \<Rightarrow> bool outcome" where
  "objField eval f v = (case f of None \<Rightarrow> Ret True | Some f \<Rightarrow> eval f v)"

definition sliceField :: "('f \<Rightarrow> 'o \<Rightarrow> bool outcome) \<Rightarrow> 'f option \<Rightarrow> 'o list outcome \<Rightarrow> bool outcome" where
  "sliceField eval f vs =
     (case f of None \<Rightarrow> Ret True | Some f \<Rightarrow> bindO vs (\<lambda>vs. someElem (map (eval f) vs)))"

text \<open>The fields of an object behind a pointer, and the filter of one type of a union.\<close>

definition readO :: "'o option \<Rightarrow> ('o \<Rightarrow> bool outcome) \<Rightarrow> bool outcome" where
  "readO obj k = (case obj of None \<Rightarrow> Panic ''nil pointer dereference'' | Some o' \<Rightarrow> k o')"

definition typeField :: "('f \<Rightarrow> 'o \<Rightarrow> bool outcome) \<Rightarrow> 'f option \<Rightarrow> 'o \<Rightarrow> bool outcome" where
  "typeField eval f uObj = (case f of None \<Rightarrow> Ret False | Some f \<Rightarrow> eval f uObj)"

text \<open>
  The bounds a filter puts on an integer field. The results are pointers into the filter, which the resolvers compare, so a
  pointer is the place of the number (the path to the filter, the field of the integer filter) with the number.
\<close>

datatype int_bound = AtGt | AtLt | AtEq

type_synonym int_ptr = "(nat list \<times> int_bound) \<times> i64"
type_synonym min_max = "int_ptr option \<times> int_ptr option"

definition lowerMin :: "int_ptr option \<Rightarrow> int_ptr option \<Rightarrow> int_ptr option" where
  "lowerMin mn sub =
     (case sub of
        None \<Rightarrow> mn
      | Some s \<Rightarrow> (case mn of None \<Rightarrow> sub | Some m \<Rightarrow> if snd s <s snd m then sub else mn))"

definition raiseMax :: "int_ptr option \<Rightarrow> int_ptr option \<Rightarrow> int_ptr option" where
  "raiseMax mx sub =
     (case sub of
        None \<Rightarrow> mx
      | Some s \<Rightarrow> (case mx of None \<Rightarrow> sub | Some m \<Rightarrow> if snd m <s snd s then sub else mx))"

fun minMaxSubs :: "min_max outcome list \<Rightarrow> min_max \<Rightarrow> min_max outcome" where
  "minMaxSubs [] mm = Ret mm"
| "minMaxSubs (r # rs) mm =
     bindO r (\<lambda>(subMin, subMax). minMaxSubs rs (lowerMin (fst mm) subMin, raiseMax (snd mm) subMax))"

definition minMaxField :: "FilterInt option \<Rightarrow> nat list \<Rightarrow> min_max \<Rightarrow> min_max" where
  "minMaxField f path mm =
     (case f of
        None \<Rightarrow> mm
      | Some f \<Rightarrow>
          let ptr = \<lambda>w. map_option (\<lambda>v. ((path, w), v));
              mn = lowerMin (fst mm) (ptr AtGt (fiGt f));
              mx = raiseMax (snd mm) (ptr AtLt (fiLt f))
          in (lowerMin mn (ptr AtEq (fiEq f)), raiseMax mx (ptr AtEq (fiEq f))))"

text \<open>The calls on the elements of a list, each at its own path.\<close>

definition atPaths :: "(nat list \<Rightarrow> min_max outcome) option list \<Rightarrow> nat \<Rightarrow> nat list \<Rightarrow> min_max outcome list" where
  "atPaths rs k path = map (\<lambda>(i, r). derefO (map_option (\<lambda>g. g ((2 * i + k) # path)) r)) (enumerate 0 rs)"

primrec minMaxAt :: "('p \<Rightarrow> FilterInt option) \<Rightarrow> 'p gql_filter \<Rightarrow> nat list \<Rightarrow> min_max outcome" where
  "minMaxAt sel (Filter ands ors nt p) = (\<lambda>path.
     bindO (minMaxSubs (atPaths (map (map_option (minMaxAt sel)) ands) 0 path) (None, None)) (\<lambda>mm.
     bindO (minMaxSubs (atPaths (map (map_option (minMaxAt sel)) ors) 1 path) mm) (\<lambda>mm.
     Ret (minMaxField (sel p) path mm))))"

section \<open>The meaning of the logical operators\<close>

lemma allO_True: "allO xs = Ret True \<longleftrightarrow> (\<forall>x \<in> set xs. x = Ret True)"
  by (induction xs) (auto simp: bindO_Ret_iff)

lemma anyO_True: "anyO xs = Ret True \<Longrightarrow> Ret True \<in> set xs"
  by (induction xs) (auto simp: bindO_Ret_iff split: if_splits)

lemma allO_total: "\<forall>x \<in> set xs. \<exists>b. x = Ret b \<Longrightarrow> allO xs = Ret (\<forall>x \<in> set xs. x = Ret True)"
  by (induction xs) auto

lemma anyO_total: "\<forall>x \<in> set xs. \<exists>b. x = Ret b \<Longrightarrow> anyO xs = Ret (Ret True \<in> set xs)"
  by (induction xs) auto

lemma someElem_total: "\<forall>x \<in> set xs. \<exists>b. x = Ret b \<Longrightarrow> someElem xs = Ret (Ret True \<in> set xs)"
  by (induction xs) auto

lemma derefO_simps [simp]: "derefO (Some r) = r" "derefO None = Panic ''nil pointer dereference''"
  by (simp_all add: derefO_def)

text \<open>A filter without nil pointers in its lists; \<open>subfilters\<close> are the filters it refers to directly.\<close>

primrec no_null :: "'p gql_filter \<Rightarrow> bool" where
  "no_null (Filter ands ors nt p) \<longleftrightarrow>
     list_all (\<lambda>x. x = Some True) (map (map_option no_null) ands) \<and>
     list_all (\<lambda>x. x = Some True) (map (map_option no_null) ors) \<and> map_option no_null nt \<noteq> Some False"

lemma no_null_iff:
  "no_null f \<longleftrightarrow> (\<forall>x \<in> set (fAnd f) \<union> set (fOr f). \<exists>s. x = Some s \<and> no_null s) \<and>
     (\<forall>s. fNot f = Some s \<longrightarrow> no_null s)"
  by (cases f) (auto simp: list_all_iff)

lemma evalFilter_unfold:
  "evalFilter E f = evalLogic (map (map_option (evalFilter E)) (fAnd f)) (map (map_option (evalFilter E)) (fOr f))
     (map_option (evalFilter E) (fNot f)) (E (fFields f))"
  by (cases f) simp

lemma derefO_True: "derefO x = Ret b \<longleftrightarrow> x = Some (Ret b)"
  by (cases x) auto

lemma evalLogic_True:
  assumes "evalLogic ands ors nt own = Ret True"
  shows "(\<forall>x \<in> set ands. x = Some (Ret True)) \<and> (ors \<noteq> [] \<longrightarrow> Some (Ret True) \<in> set ors) \<and>
    (\<forall>r. nt = Some r \<longrightarrow> r = Ret False) \<and> own = Ret True"
proof -
  have ands: "allO (map derefO ands) = Ret True"
    and ors: "ors \<noteq> [] \<Longrightarrow> anyO (map derefO ors) = Ret True"
    and rest: "(case nt of None \<Rightarrow> Ret False | Some r \<Rightarrow> r) = Ret False" "own = Ret True"
    using assms by (auto simp: evalLogic_def bindO_Ret_iff split: if_splits)
  have "ors \<noteq> [] \<longrightarrow> Some (Ret True) \<in> set ors"
    using ors by (auto dest!: anyO_True simp: derefO_True eq_commute [of "Ret True"])
  with ands rest show ?thesis by (auto simp: allO_True derefO_True)
qed

lemma evalFilter_True:
  assumes "evalFilter E f = Ret True"
  shows "(\<forall>x \<in> set (fAnd f). \<exists>s. x = Some s \<and> evalFilter E s = Ret True) \<and>
    (fOr f \<noteq> [] \<longrightarrow> (\<exists>s. Some s \<in> set (fOr f) \<and> evalFilter E s = Ret True)) \<and>
    (\<forall>s. fNot f = Some s \<longrightarrow> evalFilter E s = Ret False) \<and> E (fFields f) = Ret True"
proof -
  have e: "map_option (evalFilter E) x = Some (Ret b) \<longleftrightarrow> (\<exists>s. x = Some s \<and> evalFilter E s = Ret b)" for x b
    by (cases x) auto
  note t = evalLogic_True [OF assms [unfolded evalFilter_unfold [of E f]]]
  have "\<forall>x \<in> set (fAnd f). \<exists>s. x = Some s \<and> evalFilter E s = Ret True" using t by (simp add: e)
  moreover have "fOr f \<noteq> [] \<longrightarrow> (\<exists>s. Some s \<in> set (fOr f) \<and> evalFilter E s = Ret True)"
    using t by (auto simp: eq_commute [of "Some (Ret True)"] e image_iff)
  ultimately show ?thesis using t by simp
qed

text \<open>If no field panics, a filter without nil pointers is decided, by the rules of logic.\<close>

lemma evalLogic_total:
  assumes "\<forall>x \<in> set ands \<union> set ors. \<exists>b. x = Some (Ret b)" "\<forall>r. nt = Some r \<longrightarrow> (\<exists>b. r = Ret b)" "\<exists>b. own = Ret b"
  shows "\<exists>b. evalLogic ands ors nt own = Ret b \<and> (b \<longleftrightarrow>
    (\<forall>x \<in> set ands. x = Some (Ret True)) \<and> (ors \<noteq> [] \<longrightarrow> Some (Ret True) \<in> set ors) \<and>
    (\<forall>r. nt = Some r \<longrightarrow> r = Ret False) \<and> own = Ret True)"
proof -
  have tot: "\<forall>x \<in> set (map derefO ands). \<exists>b. x = Ret b" "\<forall>x \<in> set (map derefO ors). \<exists>b. x = Ret b"
    using assms(1) by (auto simp: derefO_True)
  have a: "allO (map derefO ands) = Ret (\<forall>x \<in> set ands. x = Some (Ret True))"
    using allO_total [OF tot(1)] by (simp add: derefO_True)
  have "Ret True \<in> set (map derefO ors) \<longleftrightarrow> Some (Ret True) \<in> set ors"
    by (simp add: image_iff derefO_True eq_commute [of "Ret True"])
  then have o': "anyO (map derefO ors) = Ret (Some (Ret True) \<in> set ors)"
    using anyO_total [OF tot(2)] by simp
  show ?thesis using assms(2,3) by (cases nt) (auto simp: evalLogic_def a o')
qed

lemma set_sub:
  "Some s \<in> set (fAnd f) \<Longrightarrow> set_gql_filter s \<subseteq> set_gql_filter f"
  "Some s \<in> set (fOr f) \<Longrightarrow> set_gql_filter s \<subseteq> set_gql_filter f"
  "fNot f = Some s \<Longrightarrow> set_gql_filter s \<subseteq> set_gql_filter f"
  by (cases f; force)+

lemma evalFilter_ret: "no_null f \<Longrightarrow> \<forall>p \<in> set_gql_filter f. \<exists>b. E p = Ret b \<Longrightarrow> \<exists>b. evalFilter E f = Ret b"
proof (induction f)
  case (Filter ands ors nt p)
  have a: "\<forall>x \<in> set ands. \<exists>b. map_option (evalFilter E) x = Some (Ret b)"
  proof
    fix x assume x: "x \<in> set ands"
    then obtain s where s: "x = Some s" "no_null s" using Filter.prems(1) by (auto simp: list_all_iff)
    with Filter.IH(1) [OF x, of s] Filter.prems(2) x show "\<exists>b. map_option (evalFilter E) x = Some (Ret b)" by force
  qed
  have o': "\<forall>x \<in> set ors. \<exists>b. map_option (evalFilter E) x = Some (Ret b)"
  proof
    fix x assume x: "x \<in> set ors"
    then obtain s where s: "x = Some s" "no_null s" using Filter.prems(1) by (auto simp: list_all_iff)
    with Filter.IH(2) [OF x, of s] Filter.prems(2) x show "\<exists>b. map_option (evalFilter E) x = Some (Ret b)" by force
  qed
  have n: "\<forall>r. map_option (evalFilter E) nt = Some r \<longrightarrow> (\<exists>b. r = Ret b)"
    using Filter.IH(3) Filter.prems by (cases nt) auto
  have "\<forall>x \<in> set (map (map_option (evalFilter E)) ands) \<union> set (map (map_option (evalFilter E)) ors).
      \<exists>b. x = Some (Ret b)"
    using a o' by (simp add: ball_Un)
  from evalLogic_total [OF this n, of "E p"] Filter.prems(2) show ?case by auto
qed

lemma evalFilter_total:
  assumes "no_null f" "\<forall>p \<in> set_gql_filter f. \<exists>b. E p = Ret b"
  shows "\<exists>b. evalFilter E f = Ret b \<and> (b \<longleftrightarrow>
    (\<forall>s. Some s \<in> set (fAnd f) \<longrightarrow> evalFilter E s = Ret True) \<and>
    (fOr f \<noteq> [] \<longrightarrow> (\<exists>s. Some s \<in> set (fOr f) \<and> evalFilter E s = Ret True)) \<and>
    (\<forall>s. fNot f = Some s \<longrightarrow> evalFilter E s = Ret False) \<and> E (fFields f) = Ret True)"
proof -
  have sub: "\<exists>b. evalFilter E s = Ret b" if "Some s \<in> set (fAnd f) \<union> set (fOr f) \<or> fNot f = Some s" for s
  proof (rule evalFilter_ret)
    show "no_null s" using no_null_iff [THEN iffD1, OF assms(1)] that by (metis option.inject)
    have "set_gql_filter s \<subseteq> set_gql_filter f" using that set_sub(1,2) [of s f] set_sub(3) [of f s] by blast
    then show "\<forall>p \<in> set_gql_filter s. \<exists>b. E p = Ret b" using assms(2) by (meson subsetD)
  qed
  have nn: "\<forall>x \<in> set (fAnd f) \<union> set (fOr f). \<exists>s. x = Some s"
    using no_null_iff [THEN iffD1, OF assms(1)] by blast
  let ?ev = "map_option (evalFilter E)"
  have a: "(\<forall>x \<in> set (map ?ev (fAnd f)). x = Some (Ret True)) \<longleftrightarrow>
      (\<forall>s. Some s \<in> set (fAnd f) \<longrightarrow> evalFilter E s = Ret True)"
  proof -
    have "?ev x = Some (Ret True)" if "x \<in> set (fAnd f)" "\<forall>s. Some s \<in> set (fAnd f) \<longrightarrow> evalFilter E s = Ret True" for x
    proof -
      from nn that(1) obtain s where "x = Some s" by blast
      with that show ?thesis by simp
    qed
    then show ?thesis by fastforce
  qed
  have o': "Some (Ret True) \<in> set (map ?ev (fOr f)) \<longleftrightarrow>
      (\<exists>s. Some s \<in> set (fOr f) \<and> evalFilter E s = Ret True)"
    by (auto simp: image_iff eq_commute [of "Some (Ret True)"])
  have s1: "\<forall>x \<in> set (map ?ev (fAnd f)) \<union> set (map ?ev (fOr f)). \<exists>b. x = Some (Ret b)"
  proof
    fix x assume "x \<in> set (map ?ev (fAnd f)) \<union> set (map ?ev (fOr f))"
    then obtain y where y: "x = ?ev y" "y \<in> set (fAnd f) \<union> set (fOr f)" by auto
    with nn obtain s where "y = Some s" by blast
    with sub [of s] y show "\<exists>b. x = Some (Ret b)" by auto
  qed
  have s2: "\<forall>r. ?ev (fNot f) = Some r \<longrightarrow> (\<exists>b. r = Ret b)" using sub by auto
  have s3: "\<exists>b. E (fFields f) = Ret b" using assms(2) by (cases f) auto
  from evalLogic_total [OF s1 s2 s3] show ?thesis unfolding evalFilter_unfold [of E f] a o' by auto
qed

text \<open>A nil pointer at the head of \<open>_and\<close> makes every call panic.\<close>

lemma evalFilter_null: "evalFilter E (Filter (None # ands) ors nt p) = Panic ''nil pointer dereference''"
  by (simp add: evalLogic_def)

section \<open>The meaning of the bounds\<close>

text \<open>A pair of bounds covers another one if it is at most as strong on both sides.\<close>

definition min_le :: "int_ptr option \<Rightarrow> int_ptr option \<Rightarrow> bool" where
  "min_le mn sub \<longleftrightarrow> (\<forall>s. sub = Some s \<longrightarrow> (\<exists>m. mn = Some m \<and> sint (snd m) \<le> sint (snd s)))"

definition max_ge :: "int_ptr option \<Rightarrow> int_ptr option \<Rightarrow> bool" where
  "max_ge mx sub \<longleftrightarrow> (\<forall>s. sub = Some s \<longrightarrow> (\<exists>m. mx = Some m \<and> sint (snd s) \<le> sint (snd m)))"

lemmas signed_order = word_sle_eq word_sless_alt

lemma lowerMin_le: "min_le (lowerMin mn s) s" "min_le (lowerMin mn s) mn"
  by (auto simp: min_le_def lowerMin_def signed_order split: option.splits)

lemma raiseMax_ge: "max_ge (raiseMax mx s) s" "max_ge (raiseMax mx s) mx"
  by (auto simp: max_ge_def raiseMax_def signed_order split: option.splits)

lemma min_le_trans: "min_le a b \<Longrightarrow> min_le b c \<Longrightarrow> min_le a c"
  by (force simp: min_le_def)

lemma max_ge_trans: "max_ge a b \<Longrightarrow> max_ge b c \<Longrightarrow> max_ge a c"
  by (force simp: max_ge_def)

definition covers :: "min_max \<Rightarrow> min_max \<Rightarrow> bool" where
  "covers mm sub \<longleftrightarrow> min_le (fst mm) (fst sub) \<and> max_ge (snd mm) (snd sub)"

lemma covers_trans: "covers a b \<Longrightarrow> covers b c \<Longrightarrow> covers a c"
  by (auto simp: covers_def intro: min_le_trans max_ge_trans)

lemma covers_refl [simp]: "covers a a"
  by (simp add: covers_def min_le_def max_ge_def)

lemma minMaxSubs_covers:
  "minMaxSubs rs acc = Ret mm \<Longrightarrow> covers mm acc \<and> (\<forall>r \<in> set rs. \<exists>sub. r = Ret sub \<and> covers mm sub)"
proof (induction rs acc rule: minMaxSubs.induct)
  case (2 r rs acc)
  from "2.prems" obtain a b where r: "r = Ret (a, b)"
    and m: "minMaxSubs rs (lowerMin (fst acc) a, raiseMax (snd acc) b) = Ret mm"
    by (auto simp: bindO_Ret_iff)
  have "covers (lowerMin (fst acc) a, raiseMax (snd acc) b) acc"
    "covers (lowerMin (fst acc) a, raiseMax (snd acc) b) (a, b)"
    by (simp_all add: covers_def lowerMin_le raiseMax_ge)
  with "2.IH" [OF r refl m] r show ?case by (auto intro: covers_trans)
qed simp

lemma minMaxField_covers: "covers (minMaxField f path mm) mm"
  by (cases f)
     (auto simp: minMaxField_def covers_def [of "(x, y)" for x y] Let_def
        intro: lowerMin_le raiseMax_ge min_le_trans max_ge_trans)

text \<open>
  A filter bounds a value from below if its own field does, or one of its conjuncts, or every one of
  its alternatives; likewise from above.
\<close>

definition has_lower :: "FilterInt option \<Rightarrow> bool" where
  "has_lower f \<longleftrightarrow> (case f of None \<Rightarrow> False | Some f \<Rightarrow> fiGt f \<noteq> None \<or> fiEq f \<noteq> None)"

definition has_upper :: "FilterInt option \<Rightarrow> bool" where
  "has_upper f \<longleftrightarrow> (case f of None \<Rightarrow> False | Some f \<Rightarrow> fiLt f \<noteq> None \<or> fiEq f \<noteq> None)"

primrec bounds :: "('p \<Rightarrow> bool) \<Rightarrow> 'p gql_filter \<Rightarrow> bool" where
  "bounds own (Filter ands ors nt p) \<longleftrightarrow> own p \<or> Some True \<in> set (map (map_option (bounds own)) ands) \<or>
     ors \<noteq> [] \<and> list_all (\<lambda>x. x = Some True) (map (map_option (bounds own)) ors)"

abbreviation "bounds_below sel \<equiv> bounds (\<lambda>p. has_lower (sel p))"
abbreviation "bounds_above sel \<equiv> bounds (\<lambda>p. has_upper (sel p))"

lemma FilterInt_Eval_bounds:
  assumes "FilterInt_Eval (Some f) (Some v)"
  shows "fiEq f = Some e \<Longrightarrow> v = e" "fiGt f = Some g \<Longrightarrow> sint g < sint v" "fiLt f = Some l \<Longrightarrow> sint v < sint l"
  using assms by (auto simp: FilterInt_Eval_def rootEval_def signed_order split: if_splits option.splits)

definition below :: "int_ptr option \<Rightarrow> i64 \<Rightarrow> bool" where
  "below mn v \<longleftrightarrow> (\<exists>m. mn = Some m \<and> sint (snd m) \<le> sint v)"

definition above :: "int_ptr option \<Rightarrow> i64 \<Rightarrow> bool" where
  "above mx v \<longleftrightarrow> (\<exists>m. mx = Some m \<and> sint v \<le> sint (snd m))"

lemma below_covers: "covers mm sub \<Longrightarrow> below (fst sub) v \<Longrightarrow> below (fst mm) v"
  by (force simp: covers_def min_le_def below_def)

lemma above_covers: "covers mm sub \<Longrightarrow> above (snd sub) v \<Longrightarrow> above (snd mm) v"
  by (force simp: covers_def max_ge_def above_def)

lemma lowerMin_below: "below mn v \<Longrightarrow> below (lowerMin mn s) v" "sint x \<le> sint v \<Longrightarrow> below (lowerMin mn (Some (l, x))) v"
  by (force simp: below_def lowerMin_def signed_order split: option.splits)+

lemma raiseMax_above: "above mx v \<Longrightarrow> above (raiseMax mx s) v" "sint v \<le> sint x \<Longrightarrow> above (raiseMax mx (Some (l, x))) v"
  by (force simp: above_def raiseMax_def signed_order split: option.splits)+

lemma minMaxField_own:
  assumes "FilterInt_Eval f (Some v)"
  shows "has_lower f \<Longrightarrow> below (fst (minMaxField f path mm)) v"
    and "has_upper f \<Longrightarrow> above (snd (minMaxField f path mm)) v"
  using assms FilterInt_Eval_bounds [of "the f" v]
  by (cases f; force simp: has_lower_def has_upper_def minMaxField_def Let_def intro: lowerMin_below raiseMax_above)+

text \<open>The bounds of a filter cover those of its parts.\<close>

lemma atPaths_mem: "Some g \<in> set rs \<Longrightarrow> \<exists>q. g q \<in> set (atPaths rs k path)"
  by (force simp: atPaths_def in_set_conv_nth nth_enumerate_eq)

lemma minMaxAt_parts:
  assumes "minMaxAt sel (Filter ands ors nt p) path = Ret mm"
  shows "\<exists>mm'. mm = minMaxField (sel p) path mm' \<and>
    (\<forall>s. Some s \<in> set ands \<union> set ors \<longrightarrow> (\<exists>q sub. minMaxAt sel s q = Ret sub \<and> covers mm sub))"
proof -
  let ?mm = "map_option (minMaxAt sel)"
  from assms obtain m1 m2 where m: "minMaxSubs (atPaths (map ?mm ands) 0 path) (None, None) = Ret m1"
    "minMaxSubs (atPaths (map ?mm ors) 1 path) m1 = Ret m2" "mm = minMaxField (sel p) path m2"
    by (auto simp: bindO_Ret_iff)
  have c: "covers mm m2" unfolding m(3) by (rule minMaxField_covers)
  have cov: "covers mm sub" if "covers m1 sub \<or> covers m2 sub" for sub
    using that c minMaxSubs_covers [OF m(2)] covers_trans by blast
  have "\<exists>q sub. minMaxAt sel s q = Ret sub \<and> covers mm sub" if "Some s \<in> set ands \<union> set ors" for s
  proof -
    have "Some (minMaxAt sel s) \<in> set (map ?mm ands) \<or> Some (minMaxAt sel s) \<in> set (map ?mm ors)"
      using that by force
    then obtain q where "minMaxAt sel s q \<in> set (atPaths (map ?mm ands) 0 path) \<or>
        minMaxAt sel s q \<in> set (atPaths (map ?mm ors) 1 path)" using atPaths_mem by metis
    with minMaxSubs_covers [OF m(1)] minMaxSubs_covers [OF m(2)] cov show ?thesis by metis
  qed
  with m(3) show ?thesis by blast
qed

text \<open>
  If a filter accepts, the value lies within the bounds it computes on every side on which the filter
  bounds the value; \<open>R\<close> stands for \<open>below\<close> or \<open>above\<close>.
\<close>

lemma minMaxAt_bounds:
  assumes own: "\<And>p path mm. own p \<Longrightarrow> E p = Ret True \<Longrightarrow> R (minMaxField (sel p) path mm)"
    and cov: "\<And>mm sub. covers mm sub \<Longrightarrow> R sub \<Longrightarrow> R mm"
  shows "bounds own f \<Longrightarrow> evalFilter E f = Ret True \<Longrightarrow> minMaxAt sel f path = Ret mm \<Longrightarrow> R mm"
proof (induction f arbitrary: path mm)
  case (Filter ands ors nt p)
  note t = evalFilter_True [OF Filter.prems(2), simplified]
  from minMaxAt_parts [OF Filter.prems(3)] obtain mm' where mm': "mm = minMaxField (sel p) path mm'"
    and parts: "\<And>s. Some s \<in> set ands \<union> set ors \<Longrightarrow> \<exists>q sub. minMaxAt sel s q = Ret sub \<and> covers mm sub" by blast
  have sub: "R mm" if s: "Some s \<in> set ands \<union> set ors" "bounds own s" "evalFilter E s = Ret True" for s
  proof -
    from parts [OF s(1)] obtain q sub where q: "minMaxAt sel s q = Ret sub" "covers mm sub" by blast
    have "R sub" using Filter.IH(1) [of "Some s" s] Filter.IH(2) [of "Some s" s] s q(1) by (cases sub) auto
    with q(2) cov show ?thesis by blast
  qed
  from Filter.prems(1) consider "own p" | s where "Some s \<in> set ands" "bounds own s"
    | "ors \<noteq> []" "\<forall>x \<in> set ors. map_option (bounds own) x = Some True"
    by (auto simp: list_all_iff eq_commute [of "Some True"])
  then show ?case
  proof cases
    case 1
    then show ?thesis unfolding mm' using t own by blast
  next
    case (2 s)
    with t sub show ?thesis by blast
  next
    case 3
    with t obtain s where s: "Some s \<in> set ors" "evalFilter E s = Ret True" by blast
    with 3(2) have "bounds own s" by fastforce
    with s sub show ?thesis by blast
  qed
qed

lemma minMaxAt_sound:
  assumes "\<And>p. E p = Ret True \<Longrightarrow> FilterInt_Eval (sel p) (Some v)"
    and "evalFilter E f = Ret True" "minMaxAt sel f path = Ret (mn, mx)"
  shows "bounds_below sel f \<Longrightarrow> below mn v" "bounds_above sel f \<Longrightarrow> above mx v"
proof -
  have "R (mn, mx)" if "bounds own f" "\<And>p path mm. own p \<Longrightarrow> E p = Ret True \<Longrightarrow> R (minMaxField (sel p) path mm)"
      "\<And>mm sub. covers mm sub \<Longrightarrow> R sub \<Longrightarrow> R mm" for R own
    using minMaxAt_bounds [where R = R and own = own and E = E and sel = sel and f = f] that assms(2,3) by blast
  from this [where R = "\<lambda>mm. below (fst mm) v", OF _ minMaxField_own(1) [OF assms(1)] below_covers]
    this [where R = "\<lambda>mm. above (snd mm) v", OF _ minMaxField_own(2) [OF assms(1)] above_covers]
  show "bounds_below sel f \<Longrightarrow> below mn v" "bounds_above sel f \<Longrightarrow> above mx v" by simp_all
qed

text \<open>The bounds of a filter without nil pointers are computed without a panic.\<close>

lemma minMaxSubs_ret: "\<forall>r \<in> set rs. \<exists>x. r = Ret x \<Longrightarrow> \<exists>mm. minMaxSubs rs acc = Ret mm"
  by (induction rs arbitrary: acc) auto

lemma minMaxAt_ret: "no_null f \<Longrightarrow> \<exists>mm. minMaxAt sel f path = Ret mm"
proof (induction f arbitrary: path)
  case (Filter ands ors nt p)
  have at: "\<forall>r \<in> set (atPaths (map (map_option (minMaxAt sel)) xs) k path). \<exists>x. r = Ret x"
    if "\<And>s q. Some s \<in> set xs \<Longrightarrow> \<exists>mm. minMaxAt sel s q = Ret mm" "None \<notin> set xs" for xs k
  proof
    fix r assume "r \<in> set (atPaths (map (map_option (minMaxAt sel)) xs) k path)"
    then obtain i where "i < length xs"
      and r: "r = derefO (map_option (\<lambda>g. g ((2 * i + k) # path)) (map_option (minMaxAt sel) (xs ! i)))"
      by (auto simp: atPaths_def in_set_conv_nth nth_enumerate_eq)
    with that(2) obtain s where "xs ! i = Some s" by (metis not_None_eq nth_mem)
    with r that(1) [of s] \<open>i < length xs\<close> show "\<exists>x. r = Ret x" by (metis derefO_simps(1) nth_mem option.simps(9))
  qed
  have nn: "Some s \<in> set ands \<union> set ors \<Longrightarrow> no_null s" "None \<notin> set ands \<union> set ors" for s
    using Filter.prems by (auto simp: list_all_iff)
  have sub: "\<exists>mm. minMaxAt sel s q = Ret mm" if "Some s \<in> set ands \<union> set ors" for s q
    using Filter.IH(1) [of "Some s" s] Filter.IH(2) [of "Some s" s] nn(1) [OF that] that by auto
  have a: "\<forall>r \<in> set (atPaths (map (map_option (minMaxAt sel)) ands) 0 path). \<exists>x. r = Ret x"
    by (rule at) (use nn(2) sub in auto)
  have o': "\<forall>r \<in> set (atPaths (map (map_option (minMaxAt sel)) ors) 1 path). \<exists>x. r = Ret x"
    by (rule at) (use nn(2) sub in auto)
  from minMaxSubs_ret [OF a] obtain m1 where
    m1: "minMaxSubs (atPaths (map (map_option (minMaxAt sel)) ands) 0 path) (None, None) = Ret m1" by blast
  from minMaxSubs_ret [OF o'] obtain m2 where
    "minMaxSubs (atPaths (map (map_option (minMaxAt sel)) ors) 1 path) m1 = Ret m2" by blast
  with m1 show ?case by simp
qed

end
