(* ===== verification/Graph_Filters.thy ===== *)
theory Graph_Filters
  imports Graph_Filter
begin

text \<open>
  The filters of \<open>models_gen.go\<close> and the methods of \<open>filter_methods_gen.go\<close> as instances of the
  template: per filter the record of its fields, the fields' part of \<open>Eval\<close> in the order of the source, and
  \<open>Eval\<close> itself. An object behind a pointer that may be nil is an option.
\<close>

section \<open>Filters of nested objects and of the two query types\<close>

record NestedFilterCoin_fields =
  fCoAmount :: "FilterInt option"
  fCoDenom :: "FilterString option"

type_synonym NestedFilterCoin = "NestedFilterCoin_fields gql_filter"

definition NestedFilterCoin_evalFields ::
    "graph_env \<Rightarrow> NestedFilterCoin_fields \<Rightarrow> Coin option \<Rightarrow> bool outcome" where
  "NestedFilterCoin_evalFields G f obj = readO obj (\<lambda>obj. allO
     [stringField G (fCoDenom f) (coDenom obj),
      intField (fCoAmount f) (VInt (coAmount obj))])"

definition NestedFilterCoin_Eval ::
    "graph_env \<Rightarrow> NestedFilterCoin \<Rightarrow> Coin option \<Rightarrow> bool outcome" where
  "NestedFilterCoin_Eval G f obj = evalFilter (\<lambda>p. NestedFilterCoin_evalFields G p obj) f"

record NestedFilterTxFee_fields =
  fTfGasWanted :: "FilterInt option"
  fTfGasFee :: "NestedFilterCoin option"

type_synonym NestedFilterTxFee = "NestedFilterTxFee_fields gql_filter"

definition NestedFilterTxFee_evalFields ::
    "graph_env \<Rightarrow> NestedFilterTxFee_fields \<Rightarrow> TxFee option \<Rightarrow> bool outcome" where
  "NestedFilterTxFee_evalFields G f obj = readO obj (\<lambda>obj. allO
     [intField (fTfGasWanted f) (VInt (tfGasWanted obj)),
      objField (NestedFilterCoin_Eval G) (fTfGasFee f) (tfGasFee obj)])"

definition NestedFilterTxFee_Eval ::
    "graph_env \<Rightarrow> NestedFilterTxFee \<Rightarrow> TxFee option \<Rightarrow> bool outcome" where
  "NestedFilterTxFee_Eval G f obj = evalFilter (\<lambda>p. NestedFilterTxFee_evalFields G p obj) f"

record NestedFilterBlockTransaction_fields =
  fBtHash :: "FilterString option"
  fBtFee :: "NestedFilterTxFee option"
  fBtMemo :: "FilterString option"

type_synonym NestedFilterBlockTransaction = "NestedFilterBlockTransaction_fields gql_filter"

definition NestedFilterBlockTransaction_evalFields ::
    "graph_env \<Rightarrow> NestedFilterBlockTransaction_fields \<Rightarrow> BlockTransaction \<Rightarrow> bool outcome" where
  "NestedFilterBlockTransaction_evalFields G f obj = allO
     [stringField G (fBtMemo f) (btMemo obj),
      stringField G (fBtHash f) (btHash obj),
      objField (NestedFilterTxFee_Eval G) (fBtFee f) (btFee obj)]"

definition NestedFilterBlockTransaction_Eval ::
    "graph_env \<Rightarrow> NestedFilterBlockTransaction \<Rightarrow> BlockTransaction \<Rightarrow> bool outcome" where
  "NestedFilterBlockTransaction_Eval G f obj = evalFilter (\<lambda>p. NestedFilterBlockTransaction_evalFields G p obj) f"

record NestedFilterMemFile_fields =
  fMfName :: "FilterString option"
  fMfBody :: "FilterString option"

type_synonym NestedFilterMemFile = "NestedFilterMemFile_fields gql_filter"

definition NestedFilterMemFile_evalFields ::
    "graph_env \<Rightarrow> NestedFilterMemFile_fields \<Rightarrow> MemFile \<Rightarrow> bool outcome" where
  "NestedFilterMemFile_evalFields G f obj = allO
     [stringField G (fMfName f) (mfName obj),
      stringField G (fMfBody f) (mfBody obj)]"

definition NestedFilterMemFile_Eval ::
    "graph_env \<Rightarrow> NestedFilterMemFile \<Rightarrow> MemFile \<Rightarrow> bool outcome" where
  "NestedFilterMemFile_Eval G f obj = evalFilter (\<lambda>p. NestedFilterMemFile_evalFields G p obj) f"

record NestedFilterMemPackage_fields =
  fMpName :: "FilterString option"
  fMpPath :: "FilterString option"
  fMpFiles :: "NestedFilterMemFile option"

type_synonym NestedFilterMemPackage = "NestedFilterMemPackage_fields gql_filter"

definition NestedFilterMemPackage_evalFields ::
    "graph_env \<Rightarrow> NestedFilterMemPackage_fields \<Rightarrow> MemPackage option \<Rightarrow> bool outcome" where
  "NestedFilterMemPackage_evalFields G f obj = readO obj (\<lambda>obj. allO
     [stringField G (fMpPath f) (mpPath obj),
      stringField G (fMpName f) (mpName obj),
      sliceField (NestedFilterMemFile_Eval G) (fMpFiles f) (Ret (mpFiles obj))])"

definition NestedFilterMemPackage_Eval ::
    "graph_env \<Rightarrow> NestedFilterMemPackage \<Rightarrow> MemPackage option \<Rightarrow> bool outcome" where
  "NestedFilterMemPackage_Eval G f obj = evalFilter (\<lambda>p. NestedFilterMemPackage_evalFields G p obj) f"

record NestedFilterBankMsgSend_fields =
  fBsFromAddress :: "FilterString option"
  fBsToAddress :: "FilterString option"
  fBsAmount :: "FilterString option"

type_synonym NestedFilterBankMsgSend = "NestedFilterBankMsgSend_fields gql_filter"

definition NestedFilterBankMsgSend_evalFields ::
    "graph_env \<Rightarrow> NestedFilterBankMsgSend_fields \<Rightarrow> BankMsgSend \<Rightarrow> bool outcome" where
  "NestedFilterBankMsgSend_evalFields G f obj = allO
     [stringField G (fBsToAddress f) (bsToAddress obj),
      stringField G (fBsFromAddress f) (bsFromAddress obj),
      stringField G (fBsAmount f) (bsAmount obj)]"

definition NestedFilterBankMsgSend_Eval ::
    "graph_env \<Rightarrow> NestedFilterBankMsgSend \<Rightarrow> BankMsgSend \<Rightarrow> bool outcome" where
  "NestedFilterBankMsgSend_Eval G f obj = evalFilter (\<lambda>p. NestedFilterBankMsgSend_evalFields G p obj) f"

record NestedFilterMsgCall_fields =
  fMcCaller :: "FilterString option"
  fMcSend :: "FilterString option"
  fMcPkgPath :: "FilterString option"
  fMcFunc :: "FilterString option"
  fMcArgs :: "FilterString option"
  fMcMaxDeposit :: "FilterString option"

type_synonym NestedFilterMsgCall = "NestedFilterMsgCall_fields gql_filter"

definition NestedFilterMsgCall_evalFields ::
    "graph_env \<Rightarrow> NestedFilterMsgCall_fields \<Rightarrow> MsgCall \<Rightarrow> bool outcome" where
  "NestedFilterMsgCall_evalFields G f obj = allO
     [stringField G (fMcSend f) (mcSend obj),
      stringField G (fMcPkgPath f) (mcPkgPath obj),
      stringField G (fMcMaxDeposit f) (mcMaxDeposit obj),
      stringField G (fMcFunc f) (mcFunc obj),
      stringField G (fMcCaller f) (mcCaller obj),
      sliceField (\<lambda>g v. Ret (FilterString_Eval G (Some g) (Some v))) (fMcArgs f) (Ret (deref [] (mcArgs obj)))]"

definition NestedFilterMsgCall_Eval ::
    "graph_env \<Rightarrow> NestedFilterMsgCall \<Rightarrow> MsgCall \<Rightarrow> bool outcome" where
  "NestedFilterMsgCall_Eval G f obj = evalFilter (\<lambda>p. NestedFilterMsgCall_evalFields G p obj) f"

record NestedFilterMsgAddPackage_fields =
  fMaCreator :: "FilterString option"
  fMaPackage :: "NestedFilterMemPackage option"
  fMaDeposit :: "FilterString option"
  fMaSend :: "FilterString option"
  fMaMaxDeposit :: "FilterString option"

type_synonym NestedFilterMsgAddPackage = "NestedFilterMsgAddPackage_fields gql_filter"

definition NestedFilterMsgAddPackage_evalFields ::
    "graph_env \<Rightarrow> NestedFilterMsgAddPackage_fields \<Rightarrow> MsgAddPackage \<Rightarrow> bool outcome" where
  "NestedFilterMsgAddPackage_evalFields G f obj = allO
     [stringField G (fMaSend f) (maSend obj),
      objField (NestedFilterMemPackage_Eval G) (fMaPackage f) (maPackage obj),
      stringField G (fMaMaxDeposit f) (maMaxDeposit obj),
      stringField G (fMaDeposit f) (maDeposit obj),
      stringField G (fMaCreator f) (maCreator obj)]"

definition NestedFilterMsgAddPackage_Eval ::
    "graph_env \<Rightarrow> NestedFilterMsgAddPackage \<Rightarrow> MsgAddPackage \<Rightarrow> bool outcome" where
  "NestedFilterMsgAddPackage_Eval G f obj = evalFilter (\<lambda>p. NestedFilterMsgAddPackage_evalFields G p obj) f"

record NestedFilterMsgRun_fields =
  fMrCaller :: "FilterString option"
  fMrSend :: "FilterString option"
  fMrPackage :: "NestedFilterMemPackage option"
  fMrMaxDeposit :: "FilterString option"

type_synonym NestedFilterMsgRun = "NestedFilterMsgRun_fields gql_filter"

definition NestedFilterMsgRun_evalFields ::
    "graph_env \<Rightarrow> NestedFilterMsgRun_fields \<Rightarrow> MsgRun \<Rightarrow> bool outcome" where
  "NestedFilterMsgRun_evalFields G f obj = allO
     [stringField G (fMrSend f) (mrSend obj),
      objField (NestedFilterMemPackage_Eval G) (fMrPackage f) (mrPackage obj),
      stringField G (fMrMaxDeposit f) (mrMaxDeposit obj),
      stringField G (fMrCaller f) (mrCaller obj)]"

definition NestedFilterMsgRun_Eval ::
    "graph_env \<Rightarrow> NestedFilterMsgRun \<Rightarrow> MsgRun \<Rightarrow> bool outcome" where
  "NestedFilterMsgRun_Eval G f obj = evalFilter (\<lambda>p. NestedFilterMsgRun_evalFields G p obj) f"

record NestedFilterMessageValue_fields =
  fMvBankMsgSend :: "NestedFilterBankMsgSend option"
  fMvMsgCall :: "NestedFilterMsgCall option"
  fMvMsgAddPackage :: "NestedFilterMsgAddPackage option"
  fMvMsgRun :: "NestedFilterMsgRun option"

type_synonym NestedFilterMessageValue = "NestedFilterMessageValue_fields gql_filter"

definition NestedFilterMessageValue_evalFields ::
    "graph_env \<Rightarrow> NestedFilterMessageValue_fields \<Rightarrow> MessageValue \<Rightarrow> bool outcome" where
  "NestedFilterMessageValue_evalFields G f obj =
     (if \<not> (fMvBankMsgSend f \<noteq> None \<or> fMvMsgCall f \<noteq> None \<or> fMvMsgAddPackage f \<noteq> None \<or> fMvMsgRun f \<noteq> None) then Ret True
      else (case obj of
          MvBankMsgSend uObj \<Rightarrow> typeField (NestedFilterBankMsgSend_Eval G) (fMvBankMsgSend f) uObj
        | MvMsgCall uObj \<Rightarrow> typeField (NestedFilterMsgCall_Eval G) (fMvMsgCall f) uObj
        | MvMsgAddPackage uObj \<Rightarrow> typeField (NestedFilterMsgAddPackage_Eval G) (fMvMsgAddPackage f) uObj
        | MvMsgRun uObj \<Rightarrow> typeField (NestedFilterMsgRun_Eval G) (fMvMsgRun f) uObj
        | MvUnexpected _ \<Rightarrow> Ret True))"

definition NestedFilterMessageValue_Eval ::
    "graph_env \<Rightarrow> NestedFilterMessageValue \<Rightarrow> MessageValue \<Rightarrow> bool outcome" where
  "NestedFilterMessageValue_Eval G f obj = evalFilter (\<lambda>p. NestedFilterMessageValue_evalFields G p obj) f"

record NestedFilterTransactionMessage_fields =
  fTmTypeURL :: "FilterString option"
  fTmRoute :: "FilterString option"
  fTmValue :: "NestedFilterMessageValue option"

type_synonym NestedFilterTransactionMessage = "NestedFilterTransactionMessage_fields gql_filter"

definition NestedFilterTransactionMessage_evalFields ::
    "graph_env \<Rightarrow> NestedFilterTransactionMessage_fields \<Rightarrow> TransactionMessage \<Rightarrow> bool outcome" where
  "NestedFilterTransactionMessage_evalFields G f obj = allO
     [objField (NestedFilterMessageValue_Eval G) (fTmValue f) (tmValue obj),
      stringField G (fTmTypeURL f) (tmTypeURL obj),
      stringField G (fTmRoute f) (tmRoute obj)]"

definition NestedFilterTransactionMessage_Eval ::
    "graph_env \<Rightarrow> NestedFilterTransactionMessage \<Rightarrow> TransactionMessage \<Rightarrow> bool outcome" where
  "NestedFilterTransactionMessage_Eval G f obj = evalFilter (\<lambda>p. NestedFilterTransactionMessage_evalFields G p obj) f"

record NestedFilterGnoEventAttribute_fields =
  fGaKey :: "FilterString option"
  fGaValue :: "FilterString option"

type_synonym NestedFilterGnoEventAttribute = "NestedFilterGnoEventAttribute_fields gql_filter"

definition NestedFilterGnoEventAttribute_evalFields ::
    "graph_env \<Rightarrow> NestedFilterGnoEventAttribute_fields \<Rightarrow> GnoEventAttribute \<Rightarrow> bool outcome" where
  "NestedFilterGnoEventAttribute_evalFields G f obj = allO
     [stringField G (fGaValue f) (gaValue obj),
      stringField G (fGaKey f) (gaKey obj)]"

definition NestedFilterGnoEventAttribute_Eval ::
    "graph_env \<Rightarrow> NestedFilterGnoEventAttribute \<Rightarrow> GnoEventAttribute \<Rightarrow> bool outcome" where
  "NestedFilterGnoEventAttribute_Eval G f obj = evalFilter (\<lambda>p. NestedFilterGnoEventAttribute_evalFields G p obj) f"

record NestedFilterGnoEvent_fields =
  fGeType :: "FilterString option"
  fGePkgPath :: "FilterString option"
  fGeAttrs :: "NestedFilterGnoEventAttribute option"

type_synonym NestedFilterGnoEvent = "NestedFilterGnoEvent_fields gql_filter"

definition NestedFilterGnoEvent_evalFields ::
    "graph_env \<Rightarrow> NestedFilterGnoEvent_fields \<Rightarrow> GnoEvent \<Rightarrow> bool outcome" where
  "NestedFilterGnoEvent_evalFields G f obj = allO
     [stringField G (fGeType f) (geType obj),
      stringField G (fGePkgPath f) (gePkgPath obj),
      sliceField (NestedFilterGnoEventAttribute_Eval G) (fGeAttrs f) (Ret (deref [] (geAttrs obj)))]"

definition NestedFilterGnoEvent_Eval ::
    "graph_env \<Rightarrow> NestedFilterGnoEvent \<Rightarrow> GnoEvent \<Rightarrow> bool outcome" where
  "NestedFilterGnoEvent_Eval G f obj = evalFilter (\<lambda>p. NestedFilterGnoEvent_evalFields G p obj) f"

record NestedFilterStorageDepositEvent_fields =
  fSdType :: "FilterString option"
  fSdBytesDelta :: "FilterInt option"
  fSdFeeDelta :: "NestedFilterCoin option"
  fSdPkgPath :: "FilterString option"

type_synonym NestedFilterStorageDepositEvent = "NestedFilterStorageDepositEvent_fields gql_filter"

definition NestedFilterStorageDepositEvent_evalFields ::
    "graph_env \<Rightarrow> NestedFilterStorageDepositEvent_fields \<Rightarrow> StorageDepositEvent \<Rightarrow> bool outcome" where
  "NestedFilterStorageDepositEvent_evalFields G f obj = allO
     [stringField G (fSdType f) (sdType obj),
      stringField G (fSdPkgPath f) (sdPkgPath obj),
      objField (NestedFilterCoin_Eval G) (fSdFeeDelta f) (sdFeeDelta obj),
      intField (fSdBytesDelta f) (VInt (sdBytesDelta obj))]"

definition NestedFilterStorageDepositEvent_Eval ::
    "graph_env \<Rightarrow> NestedFilterStorageDepositEvent \<Rightarrow> StorageDepositEvent \<Rightarrow> bool outcome" where
  "NestedFilterStorageDepositEvent_Eval G f obj = evalFilter (\<lambda>p. NestedFilterStorageDepositEvent_evalFields G p obj) f"

record NestedFilterStorageUnlockEvent_fields =
  fSuType :: "FilterString option"
  fSuBytesDelta :: "FilterInt option"
  fSuFeeRefund :: "NestedFilterCoin option"
  fSuPkgPath :: "FilterString option"

type_synonym NestedFilterStorageUnlockEvent = "NestedFilterStorageUnlockEvent_fields gql_filter"

definition NestedFilterStorageUnlockEvent_evalFields ::
    "graph_env \<Rightarrow> NestedFilterStorageUnlockEvent_fields \<Rightarrow> StorageUnlockEvent \<Rightarrow> bool outcome" where
  "NestedFilterStorageUnlockEvent_evalFields G f obj = allO
     [stringField G (fSuType f) (suType obj),
      stringField G (fSuPkgPath f) (suPkgPath obj),
      objField (NestedFilterCoin_Eval G) (fSuFeeRefund f) (suFeeRefund obj),
      intField (fSuBytesDelta f) (VInt (suBytesDelta obj))]"

definition NestedFilterStorageUnlockEvent_Eval ::
    "graph_env \<Rightarrow> NestedFilterStorageUnlockEvent \<Rightarrow> StorageUnlockEvent \<Rightarrow> bool outcome" where
  "NestedFilterStorageUnlockEvent_Eval G f obj = evalFilter (\<lambda>p. NestedFilterStorageUnlockEvent_evalFields G p obj) f"

record NestedFilterUnknownEvent_fields =
  fUeValue :: "FilterString option"

type_synonym NestedFilterUnknownEvent = "NestedFilterUnknownEvent_fields gql_filter"

definition NestedFilterUnknownEvent_evalFields ::
    "graph_env \<Rightarrow> NestedFilterUnknownEvent_fields \<Rightarrow> UnknownEvent \<Rightarrow> bool outcome" where
  "NestedFilterUnknownEvent_evalFields G f obj = allO
     [stringField G (fUeValue f) (ueValue obj)]"

definition NestedFilterUnknownEvent_Eval ::
    "graph_env \<Rightarrow> NestedFilterUnknownEvent \<Rightarrow> UnknownEvent \<Rightarrow> bool outcome" where
  "NestedFilterUnknownEvent_Eval G f obj = evalFilter (\<lambda>p. NestedFilterUnknownEvent_evalFields G p obj) f"

record NestedFilterEvent_fields =
  fEvGnoEvent :: "NestedFilterGnoEvent option"
  fEvStorageDepositEvent :: "NestedFilterStorageDepositEvent option"
  fEvStorageUnlockEvent :: "NestedFilterStorageUnlockEvent option"
  fEvUnknownEvent :: "NestedFilterUnknownEvent option"

type_synonym NestedFilterEvent = "NestedFilterEvent_fields gql_filter"

definition NestedFilterEvent_evalFields ::
    "graph_env \<Rightarrow> NestedFilterEvent_fields \<Rightarrow> Event \<Rightarrow> bool outcome" where
  "NestedFilterEvent_evalFields G f obj =
     (if \<not> (fEvGnoEvent f \<noteq> None \<or> fEvStorageDepositEvent f \<noteq> None \<or> fEvStorageUnlockEvent f \<noteq> None \<or> fEvUnknownEvent f \<noteq> None) then Ret True
      else (case obj of
          EvGno uObj \<Rightarrow> typeField (NestedFilterGnoEvent_Eval G) (fEvGnoEvent f) uObj
        | EvStorageDeposit uObj \<Rightarrow> typeField (NestedFilterStorageDepositEvent_Eval G) (fEvStorageDepositEvent f) uObj
        | EvStorageUnlock uObj \<Rightarrow> typeField (NestedFilterStorageUnlockEvent_Eval G) (fEvStorageUnlockEvent f) uObj
        | EvUnknown uObj \<Rightarrow> typeField (NestedFilterUnknownEvent_Eval G) (fEvUnknownEvent f) uObj))"

definition NestedFilterEvent_Eval ::
    "graph_env \<Rightarrow> NestedFilterEvent \<Rightarrow> Event \<Rightarrow> bool outcome" where
  "NestedFilterEvent_Eval G f obj = evalFilter (\<lambda>p. NestedFilterEvent_evalFields G p obj) f"

record NestedFilterTransactionResponse_fields =
  fTrLog :: "FilterString option"
  fTrInfo :: "FilterString option"
  fTrError :: "FilterString option"
  fTrData :: "FilterString option"
  fTrEvents :: "NestedFilterEvent option"

type_synonym NestedFilterTransactionResponse = "NestedFilterTransactionResponse_fields gql_filter"

definition NestedFilterTransactionResponse_evalFields ::
    "graph_env \<Rightarrow> NestedFilterTransactionResponse_fields \<Rightarrow> TransactionResponse \<Rightarrow> bool outcome" where
  "NestedFilterTransactionResponse_evalFields G f obj = allO
     [stringField G (fTrLog f) (TransactionResponse_Log obj),
      stringField G (fTrInfo f) (TransactionResponse_Info obj),
      sliceField (NestedFilterEvent_Eval G) (fTrEvents f) (Ret (TransactionResponse_Events G obj)),
      stringField G (fTrError f) (TransactionResponse_Error obj),
      stringField G (fTrData f) (TransactionResponse_Data obj)]"

definition NestedFilterTransactionResponse_Eval ::
    "graph_env \<Rightarrow> NestedFilterTransactionResponse \<Rightarrow> TransactionResponse \<Rightarrow> bool outcome" where
  "NestedFilterTransactionResponse_Eval G f obj = evalFilter (\<lambda>p. NestedFilterTransactionResponse_evalFields G p obj) f"

record FilterTransaction_fields =
  fTnIndex :: "FilterInt option"
  fTnHash :: "FilterString option"
  fTnSuccess :: "FilterBoolean option"
  fTnBlockHeight :: "FilterInt option"
  fTnGasWanted :: "FilterInt option"
  fTnGasUsed :: "FilterInt option"
  fTnGasFee :: "NestedFilterCoin option"
  fTnMessages :: "NestedFilterTransactionMessage option"
  fTnMemo :: "FilterString option"
  fTnResponse :: "NestedFilterTransactionResponse option"

type_synonym FilterTransaction = "FilterTransaction_fields gql_filter"

definition FilterTransaction_evalFields ::
    "codec \<Rightarrow> graph_env \<Rightarrow> FilterTransaction_fields \<Rightarrow> Transaction \<Rightarrow> bool outcome" where
  "FilterTransaction_evalFields C G f obj = bindO (Transaction_result obj) (\<lambda>r. allO
     [boolField (fTnSuccess f) (Transaction_Success r),
      objField (NestedFilterTransactionResponse_Eval G) (fTnResponse f) (Transaction_Response r),
      sliceField (NestedFilterTransactionMessage_Eval G) (fTnMessages f) (Transaction_Messages C G r),
      stringField G (fTnMemo f) (Transaction_Memo C G r),
      intField (fTnIndex f) (VInt (Transaction_Index r)),
      stringField G (fTnHash f) (Transaction_Hash C r),
      intField (fTnGasWanted f) (VInt (Transaction_GasWanted r)),
      intField (fTnGasUsed f) (VInt (Transaction_GasUsed r)),
      objField (NestedFilterCoin_Eval G) (fTnGasFee f) (Transaction_GasFee C G r),
      intField (fTnBlockHeight f) (VInt (Transaction_BlockHeight r))])"

definition FilterTransaction_Eval ::
    "codec \<Rightarrow> graph_env \<Rightarrow> FilterTransaction \<Rightarrow> Transaction \<Rightarrow> bool outcome" where
  "FilterTransaction_Eval C G f obj = evalFilter (\<lambda>p. FilterTransaction_evalFields C G p obj) f"

record FilterBlock_fields =
  fBkHash :: "FilterString option"
  fBkHeight :: "FilterInt option"
  fBkVersion :: "FilterString option"
  fBkChainID :: "FilterString option"
  fBkTime :: "FilterTime option"
  fBkNumTxs :: "FilterInt option"
  fBkTotalTxs :: "FilterInt option"
  fBkAppVersion :: "FilterString option"
  fBkLastBlockHash :: "FilterString option"
  fBkLastCommitHash :: "FilterString option"
  fBkValidatorsHash :: "FilterString option"
  fBkNextValidatorsHash :: "FilterString option"
  fBkConsensusHash :: "FilterString option"
  fBkAppHash :: "FilterString option"
  fBkLastResultsHash :: "FilterString option"
  fBkProposerAddressRaw :: "FilterString option"
  fBkTxs :: "NestedFilterBlockTransaction option"

type_synonym FilterBlock = "FilterBlock_fields gql_filter"

definition FilterBlock_evalFields ::
    "codec \<Rightarrow> graph_env \<Rightarrow> FilterBlock_fields \<Rightarrow> Block \<Rightarrow> bool outcome" where
  "FilterBlock_evalFields C G f obj = allO
     [stringField G (fBkVersion f) (Block_Version obj),
      stringField G (fBkValidatorsHash f) (Block_ValidatorsHash obj),
      sliceField (NestedFilterBlockTransaction_Eval G) (fBkTxs f) (Ret (Block_Txs C G obj)),
      intField (fBkTotalTxs f) (VInt64 (Block_TotalTxs obj)),
      timeField (fBkTime f) \<lparr>gtInstant = Block_Time obj, gtLocation = ''''\<rparr>,
      stringField G (fBkProposerAddressRaw f) (Block_ProposerAddressRaw obj),
      intField (fBkNumTxs f) (VInt64 (Block_NumTxs obj)),
      stringField G (fBkNextValidatorsHash f) (Block_NextValidatorsHash obj),
      stringField G (fBkLastResultsHash f) (Block_LastResultsHash obj),
      stringField G (fBkLastCommitHash f) (Block_LastCommitHash obj),
      stringField G (fBkLastBlockHash f) (Block_LastBlockHash obj),
      intField (fBkHeight f) (VInt64 (Block_Height obj)),
      stringField G (fBkHash f) (Block_Hash C obj),
      stringField G (fBkConsensusHash f) (Block_ConsensusHash obj),
      stringField G (fBkChainID f) (Block_ChainID obj),
      stringField G (fBkAppVersion f) (Block_AppVersion obj),
      stringField G (fBkAppHash f) (Block_AppHash obj)]"

definition FilterBlock_Eval ::
    "codec \<Rightarrow> graph_env \<Rightarrow> FilterBlock \<Rightarrow> Block \<Rightarrow> bool outcome" where
  "FilterBlock_Eval C G f obj = evalFilter (\<lambda>p. FilterBlock_evalFields C G p obj) f"

section \<open>Filters that no resolver uses\<close>

text \<open>
  The generator also emits a filter \<open>FilterX\<close> for every \<open>NestedFilterX\<close>, with the same fields and
  a method with the same body.
\<close>

type_synonym FilterCoin = NestedFilterCoin

definition FilterCoin_Eval ::
    "graph_env \<Rightarrow> FilterCoin \<Rightarrow> Coin option \<Rightarrow> bool outcome" where
  "FilterCoin_Eval G f obj = evalFilter (\<lambda>p. NestedFilterCoin_evalFields G p obj) f"

type_synonym FilterTxFee = NestedFilterTxFee

definition FilterTxFee_Eval ::
    "graph_env \<Rightarrow> FilterTxFee \<Rightarrow> TxFee option \<Rightarrow> bool outcome" where
  "FilterTxFee_Eval G f obj = evalFilter (\<lambda>p. NestedFilterTxFee_evalFields G p obj) f"

type_synonym FilterBlockTransaction = NestedFilterBlockTransaction

definition FilterBlockTransaction_Eval ::
    "graph_env \<Rightarrow> FilterBlockTransaction \<Rightarrow> BlockTransaction \<Rightarrow> bool outcome" where
  "FilterBlockTransaction_Eval G f obj = evalFilter (\<lambda>p. NestedFilterBlockTransaction_evalFields G p obj) f"

type_synonym FilterMemFile = NestedFilterMemFile

definition FilterMemFile_Eval ::
    "graph_env \<Rightarrow> FilterMemFile \<Rightarrow> MemFile \<Rightarrow> bool outcome" where
  "FilterMemFile_Eval G f obj = evalFilter (\<lambda>p. NestedFilterMemFile_evalFields G p obj) f"

type_synonym FilterMemPackage = NestedFilterMemPackage

definition FilterMemPackage_Eval ::
    "graph_env \<Rightarrow> FilterMemPackage \<Rightarrow> MemPackage option \<Rightarrow> bool outcome" where
  "FilterMemPackage_Eval G f obj = evalFilter (\<lambda>p. NestedFilterMemPackage_evalFields G p obj) f"

type_synonym FilterBankMsgSend = NestedFilterBankMsgSend

definition FilterBankMsgSend_Eval ::
    "graph_env \<Rightarrow> FilterBankMsgSend \<Rightarrow> BankMsgSend \<Rightarrow> bool outcome" where
  "FilterBankMsgSend_Eval G f obj = evalFilter (\<lambda>p. NestedFilterBankMsgSend_evalFields G p obj) f"

type_synonym FilterMsgCall = NestedFilterMsgCall

definition FilterMsgCall_Eval ::
    "graph_env \<Rightarrow> FilterMsgCall \<Rightarrow> MsgCall \<Rightarrow> bool outcome" where
  "FilterMsgCall_Eval G f obj = evalFilter (\<lambda>p. NestedFilterMsgCall_evalFields G p obj) f"

type_synonym FilterMsgAddPackage = NestedFilterMsgAddPackage

definition FilterMsgAddPackage_Eval ::
    "graph_env \<Rightarrow> FilterMsgAddPackage \<Rightarrow> MsgAddPackage \<Rightarrow> bool outcome" where
  "FilterMsgAddPackage_Eval G f obj = evalFilter (\<lambda>p. NestedFilterMsgAddPackage_evalFields G p obj) f"

type_synonym FilterMsgRun = NestedFilterMsgRun

definition FilterMsgRun_Eval ::
    "graph_env \<Rightarrow> FilterMsgRun \<Rightarrow> MsgRun \<Rightarrow> bool outcome" where
  "FilterMsgRun_Eval G f obj = evalFilter (\<lambda>p. NestedFilterMsgRun_evalFields G p obj) f"

type_synonym FilterMessageValue = NestedFilterMessageValue

definition FilterMessageValue_Eval ::
    "graph_env \<Rightarrow> FilterMessageValue \<Rightarrow> MessageValue \<Rightarrow> bool outcome" where
  "FilterMessageValue_Eval G f obj = evalFilter (\<lambda>p. NestedFilterMessageValue_evalFields G p obj) f"

type_synonym FilterTransactionMessage = NestedFilterTransactionMessage

definition FilterTransactionMessage_Eval ::
    "graph_env \<Rightarrow> FilterTransactionMessage \<Rightarrow> TransactionMessage \<Rightarrow> bool outcome" where
  "FilterTransactionMessage_Eval G f obj = evalFilter (\<lambda>p. NestedFilterTransactionMessage_evalFields G p obj) f"

type_synonym FilterGnoEventAttribute = NestedFilterGnoEventAttribute

definition FilterGnoEventAttribute_Eval ::
    "graph_env \<Rightarrow> FilterGnoEventAttribute \<Rightarrow> GnoEventAttribute \<Rightarrow> bool outcome" where
  "FilterGnoEventAttribute_Eval G f obj = evalFilter (\<lambda>p. NestedFilterGnoEventAttribute_evalFields G p obj) f"

type_synonym FilterGnoEvent = NestedFilterGnoEvent

definition FilterGnoEvent_Eval ::
    "graph_env \<Rightarrow> FilterGnoEvent \<Rightarrow> GnoEvent \<Rightarrow> bool outcome" where
  "FilterGnoEvent_Eval G f obj = evalFilter (\<lambda>p. NestedFilterGnoEvent_evalFields G p obj) f"

type_synonym FilterStorageDepositEvent = NestedFilterStorageDepositEvent

definition FilterStorageDepositEvent_Eval ::
    "graph_env \<Rightarrow> FilterStorageDepositEvent \<Rightarrow> StorageDepositEvent \<Rightarrow> bool outcome" where
  "FilterStorageDepositEvent_Eval G f obj = evalFilter (\<lambda>p. NestedFilterStorageDepositEvent_evalFields G p obj) f"

type_synonym FilterStorageUnlockEvent = NestedFilterStorageUnlockEvent

definition FilterStorageUnlockEvent_Eval ::
    "graph_env \<Rightarrow> FilterStorageUnlockEvent \<Rightarrow> StorageUnlockEvent \<Rightarrow> bool outcome" where
  "FilterStorageUnlockEvent_Eval G f obj = evalFilter (\<lambda>p. NestedFilterStorageUnlockEvent_evalFields G p obj) f"

type_synonym FilterUnknownEvent = NestedFilterUnknownEvent

definition FilterUnknownEvent_Eval ::
    "graph_env \<Rightarrow> FilterUnknownEvent \<Rightarrow> UnknownEvent \<Rightarrow> bool outcome" where
  "FilterUnknownEvent_Eval G f obj = evalFilter (\<lambda>p. NestedFilterUnknownEvent_evalFields G p obj) f"

type_synonym FilterEvent = NestedFilterEvent

definition FilterEvent_Eval ::
    "graph_env \<Rightarrow> FilterEvent \<Rightarrow> Event \<Rightarrow> bool outcome" where
  "FilterEvent_Eval G f obj = evalFilter (\<lambda>p. NestedFilterEvent_evalFields G p obj) f"

type_synonym FilterTransactionResponse = NestedFilterTransactionResponse

definition FilterTransactionResponse_Eval ::
    "graph_env \<Rightarrow> FilterTransactionResponse \<Rightarrow> TransactionResponse \<Rightarrow> bool outcome" where
  "FilterTransactionResponse_Eval G f obj = evalFilter (\<lambda>p. NestedFilterTransactionResponse_evalFields G p obj) f"

section \<open>Bounds\<close>

definition FilterTransaction_MinMaxIndex :: "FilterTransaction \<Rightarrow> min_max outcome" where
  "FilterTransaction_MinMaxIndex f = minMaxAt fTnIndex f []"

definition FilterTransaction_MinMaxBlockHeight :: "FilterTransaction \<Rightarrow> min_max outcome" where
  "FilterTransaction_MinMaxBlockHeight f = minMaxAt fTnBlockHeight f []"

definition FilterBlock_MinMaxHeight :: "FilterBlock \<Rightarrow> min_max outcome" where
  "FilterBlock_MinMaxHeight f = minMaxAt fBkHeight f []"

section \<open>Block filters\<close>

text \<open>Block filters without nil pointers at any depth.\<close>

definition TxFee_no_null :: "NestedFilterTxFee \<Rightarrow> bool" where
  "TxFee_no_null f \<longleftrightarrow> no_null f \<and> (\<forall>p \<in> set_gql_filter f. \<forall>c. fTfGasFee p = Some c \<longrightarrow> no_null c)"

definition BlockTransaction_no_null :: "NestedFilterBlockTransaction \<Rightarrow> bool" where
  "BlockTransaction_no_null f \<longleftrightarrow>
     no_null f \<and> (\<forall>p \<in> set_gql_filter f. \<forall>g. fBtFee p = Some g \<longrightarrow> TxFee_no_null g)"

definition FilterBlock_no_null :: "FilterBlock \<Rightarrow> bool" where
  "FilterBlock_no_null f \<longleftrightarrow>
     no_null f \<and> (\<forall>p \<in> set_gql_filter f. \<forall>t. fBkTxs p = Some t \<longrightarrow> BlockTransaction_no_null t)"

lemma field_ret:
  "\<exists>b. boolField f v = Ret b" "\<exists>b. stringField G g s = Ret b" "\<exists>b. timeField h t = Ret b"
  "\<exists>b. intField i (VInt x) = Ret b" "\<exists>b. intField i (VInt64 x) = Ret b"
  by (auto simp: boolField_def stringField_def timeField_def intField_def FilterTime_Eval_def split: option.splits)

lemma objField_ret: "(\<And>g. f = Some g \<Longrightarrow> \<exists>b. eval g v = Ret b) \<Longrightarrow> \<exists>b. objField eval f v = Ret b"
  by (cases f) (auto simp: objField_def)

lemma sliceField_ret:
  "(\<And>g v. f = Some g \<Longrightarrow> v \<in> set vs \<Longrightarrow> \<exists>b. eval g v = Ret b) \<Longrightarrow> \<exists>b. sliceField eval f (Ret vs) = Ret b"
  using someElem_total [of "map (eval (the f)) vs"] by (cases f) (auto simp: sliceField_def)

lemma allO_ret: "\<forall>x \<in> set xs. \<exists>b. x = Ret b \<Longrightarrow> \<exists>b. allO xs = Ret b"
  using allO_total by blast

lemma Coin_Eval_ret: "no_null f \<Longrightarrow> \<exists>b. NestedFilterCoin_Eval G f (Some c) = Ret b"
  unfolding NestedFilterCoin_Eval_def
  by (erule evalFilter_ret) (auto simp: NestedFilterCoin_evalFields_def readO_def field_ret simp del: allO.simps intro!: allO_ret)

lemma TxFee_Eval_ret:
  assumes "TxFee_no_null f" "tfGasFee o' = Some c"
  shows "\<exists>b. NestedFilterTxFee_Eval G f (Some o') = Ret b"
  unfolding NestedFilterTxFee_Eval_def
proof (rule evalFilter_ret)
  show "\<forall>p \<in> set_gql_filter f. \<exists>b. NestedFilterTxFee_evalFields G p (Some o') = Ret b"
    using assms
    by (auto simp: NestedFilterTxFee_evalFields_def readO_def TxFee_no_null_def field_ret simp del: allO.simps
        intro!: allO_ret objField_ret Coin_Eval_ret)
qed (use assms in \<open>simp add: TxFee_no_null_def\<close>)

lemma BlockTransaction_Eval_ret:
  assumes "BlockTransaction_no_null f" "btFee o' = Some g" "tfGasFee g = Some c"
  shows "\<exists>b. NestedFilterBlockTransaction_Eval G f o' = Ret b"
  unfolding NestedFilterBlockTransaction_Eval_def
proof (rule evalFilter_ret)
  show "\<forall>p \<in> set_gql_filter f. \<exists>b. NestedFilterBlockTransaction_evalFields G p o' = Ret b"
    using assms
    by (auto simp: NestedFilterBlockTransaction_evalFields_def BlockTransaction_no_null_def field_ret simp del: allO.simps
        intro!: allO_ret objField_ret TxFee_Eval_ret)
qed (use assms in \<open>simp add: BlockTransaction_no_null_def\<close>)

lemma Block_Txs_fee: "t \<in> set (Block_Txs C G b) \<Longrightarrow> \<exists>g c. btFee t = Some g \<and> tfGasFee g = Some c"
  by (auto simp: Block_Txs_def List.map_filter_def NewBlockTransaction_def split: sum.splits)

lemma FilterBlock_fields_ret:
  assumes "FilterBlock_no_null f" "p \<in> set_gql_filter f"
  shows "\<exists>b. FilterBlock_evalFields C G p obj = Ret b"
proof -
  have "\<exists>b. sliceField (NestedFilterBlockTransaction_Eval G) (fBkTxs p) (Ret (Block_Txs C G obj)) = Ret b"
  proof (rule sliceField_ret)
    fix g v assume g: "fBkTxs p = Some g" "v \<in> set (Block_Txs C G obj)"
    from assms g(1) have "BlockTransaction_no_null g" by (simp add: FilterBlock_no_null_def)
    with Block_Txs_fee [OF g(2)] show "\<exists>b. NestedFilterBlockTransaction_Eval G g v = Ret b"
      using BlockTransaction_Eval_ret by blast
  qed
  then show ?thesis by (auto simp: FilterBlock_evalFields_def field_ret simp del: allO.simps intro!: allO_ret)
qed

lemma FilterBlock_ret: "FilterBlock_no_null f \<Longrightarrow> \<exists>b. FilterBlock_Eval C G f obj = Ret b"
  unfolding FilterBlock_Eval_def
  by (rule evalFilter_ret) (auto simp: FilterBlock_no_null_def FilterBlock_fields_ret)

lemma intField_True: "intField f (VInt v) = Ret True \<longleftrightarrow> FilterInt_Eval f (Some v)"
  "intField f (VInt64 v) = Ret True \<longleftrightarrow> FilterInt_Eval f (Some v)"
  by (cases f; simp add: intField_def FilterInt_Eval_def)+

lemma FilterBlock_fields_height:
  "FilterBlock_evalFields C G p obj = Ret True \<Longrightarrow> FilterInt_Eval (fBkHeight p) (Some (Block_Height obj))"
  by (simp add: FilterBlock_evalFields_def allO_True intField_True del: allO.simps)

lemma FilterTransaction_fields_place:
  assumes "FilterTransaction_evalFields C G p (NewTransaction (Some t)) = Ret True"
  shows "FilterInt_Eval (fTnBlockHeight p) (Some (Transaction_BlockHeight t))"
    and "FilterInt_Eval (fTnIndex p) (Some (Transaction_Index t))"
proof -
  have "intField (fTnBlockHeight p) (VInt (Transaction_BlockHeight t)) = Ret True"
    "intField (fTnIndex p) (VInt (Transaction_Index t)) = Ret True"
    using assms by (auto simp: FilterTransaction_evalFields_def Transaction_result_def NewTransaction_def allO_True simp del: allO.simps)
  then show "FilterInt_Eval (fTnBlockHeight p) (Some (Transaction_BlockHeight t))"
    "FilterInt_Eval (fTnIndex p) (Some (Transaction_Index t))"
    by (simp_all add: intField_True)
qed

section \<open>Examples\<close>

text \<open>The empty fields of a block filter, and third-party operations that fail, for the examples.\<close>

definition no_fields :: FilterBlock_fields where
  "no_fields = \<lparr>fBkHash = None, fBkHeight = None, fBkVersion = None, fBkChainID = None, fBkTime = None,
     fBkNumTxs = None, fBkTotalTxs = None, fBkAppVersion = None, fBkLastBlockHash = None,
     fBkLastCommitHash = None, fBkValidatorsHash = None, fBkNextValidatorsHash = None, fBkConsensusHash = None,
     fBkAppHash = None, fBkLastResultsHash = None, fBkProposerAddressRaw = None, fBkTxs = None\<rparr>"

definition gt_filter :: "i64 \<Rightarrow> FilterInt" where
  "gt_filter v = \<lparr>fiExists = None, fiEq = None, fiGt = Some v, fiLt = None\<rparr>"

definition lt_filter :: "i64 \<Rightarrow> FilterInt" where
  "lt_filter v = \<lparr>fiExists = None, fiEq = None, fiGt = None, fiLt = Some v\<rparr>"

definition ex_env :: graph_env where
  "ex_env = \<lparr>txString = bytes_str,
     leftStdTx = (\<lambda>_. \<lparr>sMsgs = [], sFee = \<lparr>fGasWanted = 0, fGasFee = \<lparr>cDenom = '''', cAmount = 0\<rparr>\<rparr>, sMemo = ''''\<rparr>),
     jsonMsg = (\<lambda>m. Inr (mPayload m)), unjsonSend = (\<lambda>_. Inl (ErrMsg ''json'')), unjsonCall = (\<lambda>_. Inl (ErrMsg ''json'')),
     unjsonAddPackage = (\<lambda>_. Inl (ErrMsg ''json'')), unjsonRun = (\<lambda>_. Inl (ErrMsg ''json'')),
     jsonEvent = (\<lambda>_. Inr ''{}''), unjsonGnoEvent = (\<lambda>_. Inl (ErrMsg ''json'')),
     unjsonStorageDeposit = (\<lambda>_. Inl (ErrMsg ''json'')), unjsonStorageUnlock = (\<lambda>_. Inl (ErrMsg ''json'')),
     parseCoins = (\<lambda>_. Inr []), matchString = (\<lambda>p s. Inr (p = s))\<rparr>"

definition height_filter :: "i64 \<Rightarrow> FilterBlock" where
  "height_filter v = Filter [] [] None (no_fields\<lparr>fBkHeight := Some (gt_filter v)\<rparr>)"

definition empty_filter :: FilterBlock where
  "empty_filter = Filter [] [] None (no_fields\<lparr>fBkNumTxs := Some (lt_filter 1)\<rparr>)"

definition or_filter :: FilterBlock where
  "or_filter = Filter [] [Some (height_filter 5), Some empty_filter] None no_fields"

lemmas ex_filter_defs = no_fields_def gt_filter_def lt_filter_def height_filter_def empty_filter_def or_filter_def

lemmas eval_defs = FilterBlock_Eval_def FilterBlock_evalFields_def evalLogic_def boolField_def stringField_def
  timeField_def intField_def objField_def sliceField_def FilterInt_Eval_def FilterString_Eval_def rootEval_def

lemma or_filter_no_null: "FilterBlock_no_null or_filter"
  by (simp add: FilterBlock_no_null_def ex_filter_defs)

section \<open>Properties of the filters\<close>

text \<open>
  C26. A block filter without nil pointers is decided for every block, without a panic, by the rules
  of logic: it accepts exactly if every element of \<open>_and\<close> does, some element of \<open>_or\<close> does (unless
  there are none), \<open>_not\<close> does not, and the fields given in the filter match the block.
\<close>

theorem FilterBlock_Eval_logic:
  assumes "FilterBlock_no_null f"
  shows "\<exists>v. FilterBlock_Eval C G f b = Ret v \<and> (v \<longleftrightarrow>
    (\<forall>s. Some s \<in> set (fAnd f) \<longrightarrow> FilterBlock_Eval C G s b = Ret True) \<and>
    (fOr f \<noteq> [] \<longrightarrow> (\<exists>s. Some s \<in> set (fOr f) \<and> FilterBlock_Eval C G s b = Ret True)) \<and>
    (\<forall>s. fNot f = Some s \<longrightarrow> FilterBlock_Eval C G s b = Ret False) \<and>
    FilterBlock_evalFields C G (fFields f) b = Ret True)"
  unfolding FilterBlock_Eval_def
  by (rule evalFilter_total) (use assms in \<open>auto simp: FilterBlock_no_null_def FilterBlock_fields_ret\<close>)

theorem FilterBlock_Eval_logic_witness:
  "\<forall>C. \<exists>v. FilterBlock_Eval C ex_env or_filter (NewBlock (mk_block 3 0 [])) = Ret v"
proof
  fix C show "\<exists>v. FilterBlock_Eval C ex_env or_filter (NewBlock (mk_block 3 0 [])) = Ret v"
    using FilterBlock_Eval_logic [OF or_filter_no_null, of C ex_env "NewBlock (mk_block 3 0 [])"] by blast
qed

text \<open>
  C27. The bounds that \<open>MinMaxHeight\<close> computes for the iteration are sound on each side on which the filter
  bounds the height (by its own field, by a conjunct or by every alternative): every block
  the filter accepts has a height within them, as signed numbers.
\<close>

theorem MinMaxHeight_sound:
  assumes "FilterBlock_MinMaxHeight f = Ret (mn, mx)" and "FilterBlock_Eval C G f b = Ret True"
  shows "(bounds_below fBkHeight f \<longrightarrow> (\<exists>p m. mn = Some (p, m) \<and> sint m \<le> sint (Block_Height b))) \<and>
    (bounds_above fBkHeight f \<longrightarrow> (\<exists>p m. mx = Some (p, m) \<and> sint (Block_Height b) \<le> sint m))"
  using minMaxAt_sound [OF FilterBlock_fields_height assms(2) [unfolded FilterBlock_Eval_def]
      assms(1) [unfolded FilterBlock_MinMaxHeight_def]]
  by (auto simp: below_def above_def)

theorem MinMaxHeight_sound_witness:
  "\<exists>p m. FilterBlock_MinMaxHeight (height_filter 5) = Ret (Some (p, m), None) \<and>
     sint m \<le> sint (Block_Height (NewBlock (mk_block 7 0 [])))"
proof -
  have m: "FilterBlock_MinMaxHeight (height_filter 5) = Ret (Some (([], AtGt), 5), None)"
    by (simp add: FilterBlock_MinMaxHeight_def ex_filter_defs atPaths_def minMaxField_def lowerMin_def raiseMax_def Let_def)
  have e: "FilterBlock_Eval ref ex_env (height_filter 5) (NewBlock (mk_block 7 0 [])) = Ret True" for ref
    by (simp add: eval_defs ex_filter_defs NewBlock_def Block_Height_def mk_block_def signed_order)
  have "bounds_below fBkHeight (height_filter 5)" by (simp add: ex_filter_defs has_lower_def)
  with MinMaxHeight_sound [OF m e] m show ?thesis by auto
qed

end
