(* ===== verification/Graph_Legacy.thy ===== *)
theory Graph_Legacy
  imports Graph_Model
begin

text \<open>
  The filters of the first query fields, \<open>block_filter.go\<close> and \<open>transaction_filter.go\<close>, over the input
  structures of \<open>models_gen.go\<close>. A slice that the source compares with nil is an option.
\<close>

section \<open>Inputs\<close>

record AmountInput =
  aiFrom :: "i64 option"
  aiTo :: "i64 option"
  aiDenomination :: "string option"

record BankMsgSendInput =
  biFromAddress :: "string option"
  biToAddress :: "string option"
  biAmount :: "AmountInput option"

record MemFileInput =
  miName :: "string option"
  miBody :: "string option"

record MemPackageInput =
  piName :: "string option"
  piPath :: "string option"
  piFiles :: "MemFileInput option list"

record MsgAddPackageInput =
  apCreator :: "string option"
  apPackage :: "MemPackageInput option"
  apDeposit :: "AmountInput option"

record MsgCallInput =
  ciCaller :: "string option"
  ciSend :: "AmountInput option"
  ciPkgPath :: "string option"
  ciFunc :: "string option"
  ciArgs :: "string list option"

record MsgRunInput =
  riCaller :: "string option"
  riSend :: "AmountInput option"
  riPackage :: "MemPackageInput option"

record TransactionBankMessageInput =
  tbSend :: "BankMsgSendInput option"

record TransactionVMMessageInput =
  tvExec :: "MsgCallInput option"
  tvAddPackage :: "MsgAddPackageInput option"
  tvRun :: "MsgRunInput option"

record TransactionMessageInput =
  tiTypeURL :: "MessageType option"
  tiRoute :: "MessageRoute option"
  tiBankParam :: "TransactionBankMessageInput option"
  tiVMParam :: "TransactionVMMessageInput option"

record EventAttributeInput =
  eaKey :: "string option"
  eaValue :: "string option"

record GnoEventInput =
  giType :: "string option"
  giPkgPath :: "string option"
  giAttrs :: "EventAttributeInput list option"

record CoinInput =
  cnAmount :: "i64 option"
  cnDenom :: "string option"

record StorageDepositEventInput =
  siType :: "string option"
  siBytesDelta :: "i64 option"
  siFeeDelta :: "CoinInput option"
  siPkgPath :: "string option"

record StorageUnlockEventInput =
  uiType :: "string option"
  uiBytesDelta :: "i64 option"
  uiFeeRefund :: "CoinInput option"
  uiPkgPath :: "string option"

record EventInput =
  eiGnoEvent :: "GnoEventInput option"
  eiStorageDepositEvent :: "StorageDepositEventInput option"
  eiStorageUnlockEvent :: "StorageUnlockEventInput option"

record BlockFilter =
  bfFromHeight :: "i64 option"
  bfToHeight :: "i64 option"
  bfFromTime :: "gotime option"
  bfToTime :: "gotime option"

record TransactionFilter =
  xfFromBlockHeight :: "i64 option"
  xfToBlockHeight :: "i64 option"
  xfFromIndex :: "i64 option"
  xfToIndex :: "i64 option"
  xfFromGasWanted :: "i64 option"
  xfToGasWanted :: "i64 option"
  xfFromGasUsed :: "i64 option"
  xfToGasUsed :: "i64 option"
  xfHash :: "string option"
  xfMessage :: "TransactionMessageInput list"
  xfMemo :: "string option"
  xfSuccess :: "bool option"
  xfEvents :: "EventInput list"

section \<open>Blocks\<close>

text \<open>\<open>now\<close> is the time of the call.\<close>

definition filteredBlockByBlockTime :: "gotime \<Rightarrow> Block \<Rightarrow> gotime option \<Rightarrow> gotime option \<Rightarrow> bool" where
  "filteredBlockByBlockTime now block filterFromTime filterToTime =
     (let fromTime = deref 0 filterFromTime;
          toTime = (if filterToTime = None then now else deref 0 filterToTime);
          blockTime = Block_Time block
      in (fromTime < blockTime \<or> blockTime = fromTime) \<and> (toTime = 0 \<or> blockTime < toTime))"

definition FilteredBlockBy :: "gotime \<Rightarrow> Block option \<Rightarrow> BlockFilter \<Rightarrow> bool" where
  "FilteredBlockBy now block f =
     (case block of
        None \<Rightarrow> False
      | Some block \<Rightarrow> filteredBlockByBlockTime now block (bfFromTime f) (bfToTime f))"

section \<open>Amounts and gas\<close>

text \<open>The range check with 0 as \<open>math.MaxInt\<close>, on signed numbers.\<close>

definition inRange :: "i64 \<Rightarrow> i64 option \<Rightarrow> i64 option \<Rightarrow> bool" where
  "inRange v lo hi =
     (let toV = (if deref 0 hi = 0 then maxInt64 else deref 0 hi) in deref 0 lo \<le>s v \<and> v \<le>s toV)"

fun coinsInRange :: "AmountInput \<Rightarrow> coin list \<Rightarrow> bool" where
  "coinsInRange amountInput [] = False"
| "coinsInRange amountInput (c # coins) =
     (if (aiDenomination amountInput = None \<or> cDenom c = deref '''' (aiDenomination amountInput)) \<and>
         inRange (cAmount c) (aiFrom amountInput) (aiTo amountInput)
      then True else coinsInRange amountInput coins)"

definition filteredAmountBy :: "graph_env \<Rightarrow> string \<Rightarrow> AmountInput option \<Rightarrow> bool" where
  "filteredAmountBy G amountStr amountInput =
     (case amountInput of
        None \<Rightarrow> True
      | Some amountInput \<Rightarrow>
          (case parseCoins G amountStr of
             Inl err \<Rightarrow> False
           | Inr coins \<Rightarrow>
               if aiDenomination amountInput = Some '''' \<and> coins = [] then True
               else coinsInRange amountInput coins))"

definition filteredTransactionByGasUsed :: "tx_result \<Rightarrow> i64 option \<Rightarrow> i64 option \<Rightarrow> bool" where
  "filteredTransactionByGasUsed tx filterFromGasUsed filterToGasUsed =
     inRange (Transaction_GasUsed tx) filterFromGasUsed filterToGasUsed"

definition filteredTransactionByGasWanted :: "tx_result \<Rightarrow> i64 option \<Rightarrow> i64 option \<Rightarrow> bool" where
  "filteredTransactionByGasWanted tx filterFromGasWanted filterToGasWanted =
     inRange (Transaction_GasWanted tx) filterFromGasWanted filterToGasWanted"

definition filteredTransactionByMemo :: "codec \<Rightarrow> graph_env \<Rightarrow> tx_result \<Rightarrow> string option \<Rightarrow> bool" where
  "filteredTransactionByMemo C G tx filterMemo =
     (if filterMemo = None then True else deref '''' filterMemo = Transaction_Memo C G tx)"

definition filteredTransactionBySuccess :: "tx_result \<Rightarrow> bool option \<Rightarrow> bool" where
  "filteredTransactionBySuccess tx success =
     (if success = None then True else deref False success = Transaction_Success tx)"

section \<open>Events\<close>

definition attributeMatches :: "GnoEventAttribute \<Rightarrow> EventAttributeInput \<Rightarrow> bool" where
  "attributeMatches attr f =
     (if eaKey f \<noteq> None \<and> gaKey attr \<noteq> deref '''' (eaKey f) then False
      else if eaValue f \<noteq> None \<and> gaValue attr \<noteq> deref '''' (eaValue f) then False
      else True)"

definition filteredGnoEventAttributesBy :: "GnoEventAttribute list \<Rightarrow> EventAttributeInput list \<Rightarrow> bool" where
  "filteredGnoEventAttributesBy attrs filterAttrs =
     (if attrs = [] then True
      else list_ex (\<lambda>attr. list_ex (attributeMatches attr) filterAttrs) attrs)"

text \<open>The input of an event without \<open>gno_event\<close> is read through a nil pointer.\<close>

definition filteredEventBy :: "Event option \<Rightarrow> EventInput \<Rightarrow> bool outcome" where
  "filteredEventBy event eventInput =
     (case event of
        Some (EvGno gnoEvent) \<Rightarrow>
          (case eiGnoEvent eventInput of
             None \<Rightarrow> Panic ''nil pointer dereference''
           | Some f \<Rightarrow>
               if giType f \<noteq> None \<and> deref '''' (giType f) \<noteq> geType gnoEvent then Ret False
               else if giPkgPath f \<noteq> None \<and> deref '''' (giPkgPath f) \<noteq> gePkgPath gnoEvent then Ret False
               else if giAttrs f \<noteq> None \<and> \<not> filteredGnoEventAttributesBy (deref [] (geAttrs gnoEvent)) (deref [] (giAttrs f))
                 then Ret False
               else Ret True)
      | _ \<Rightarrow> Ret False)"

text \<open>A loop that returns at the first match.\<close>

fun firstMatch :: "bool outcome list \<Rightarrow> bool outcome" where
  "firstMatch [] = Ret False"
| "firstMatch (x # xs) = bindO x (\<lambda>b. if b then Ret True else firstMatch xs)"

definition filteredTransactionByEvents :: "graph_env \<Rightarrow> tx_result \<Rightarrow> EventInput list \<Rightarrow> bool outcome" where
  "filteredTransactionByEvents G tx eventInputs =
     (if eventInputs = [] then Ret True
      else let events = TransactionResponse_Events G (Transaction_Response tx) in
        if events = [] then Ret False
        else firstMatch (concat (map (\<lambda>event. map (filteredEventBy (Some event)) eventInputs) events)))"

section \<open>Messages\<close>

definition filteredMessageOfBankMsgSendBy ::
    "graph_env \<Rightarrow> BankMsgSend \<Rightarrow> TransactionBankMessageInput option \<Rightarrow> bool" where
  "filteredMessageOfBankMsgSendBy G messageValue params =
     (case Option.bind params tbSend of
        None \<Rightarrow> True
      | Some send \<Rightarrow>
          if biAmount send \<noteq> None \<and> \<not> filteredAmountBy G (bsAmount messageValue) (biAmount send) then False
          else if biFromAddress send \<noteq> None \<and> deref '''' (biFromAddress send) \<noteq> bsFromAddress messageValue then False
          else if biToAddress send \<noteq> None \<and> deref '''' (biToAddress send) \<noteq> bsToAddress messageValue then False
          else True)"

text \<open>The loop over the arguments, at index \<open>index\<close>.\<close>

fun argsMatch :: "string list \<Rightarrow> nat \<Rightarrow> string list \<Rightarrow> bool" where
  "argsMatch messageFilterArgs index [] = True"
| "argsMatch messageFilterArgs index (arg # messageArgs) =
     (if index < length messageFilterArgs \<and> arg \<noteq> '''' \<and> messageFilterArgs ! index \<noteq> arg then False
      else argsMatch messageFilterArgs (Suc index) messageArgs)"

definition filteredMessageOfMsgCallBy ::
    "graph_env \<Rightarrow> MsgCall \<Rightarrow> TransactionVMMessageInput option \<Rightarrow> bool" where
  "filteredMessageOfMsgCallBy G messageValue params =
     (case params of
        None \<Rightarrow> True
      | Some params \<Rightarrow>
          (case tvExec params of
             None \<Rightarrow> False
           | Some exec \<Rightarrow>
               if ciCaller exec \<noteq> None \<and> deref '''' (ciCaller exec) \<noteq> mcCaller messageValue then False
               else if ciFunc exec \<noteq> None \<and> deref '''' (ciFunc exec) \<noteq> mcFunc messageValue then False
               else if ciPkgPath exec \<noteq> None \<and> deref '''' (ciPkgPath exec) \<noteq> mcPkgPath messageValue then False
               else if ciSend exec \<noteq> None \<and> filteredAmountBy G (mcSend messageValue) (ciSend exec) then False
               else
                 (case ciArgs exec of
                    None \<Rightarrow> True
                  | Some messageFilterArgs \<Rightarrow>
                      (case mcArgs messageValue of
                         None \<Rightarrow> False
                       | Some messageArgs \<Rightarrow> argsMatch messageFilterArgs 0 messageArgs))))"

definition filteredMessageOfMsgAddPackageBy ::
    "graph_env \<Rightarrow> MsgAddPackage \<Rightarrow> TransactionVMMessageInput option \<Rightarrow> bool outcome" where
  "filteredMessageOfMsgAddPackageBy G messageValue params =
     (case params of
        None \<Rightarrow> Ret True
      | Some params \<Rightarrow>
          (case tvAddPackage params of
             None \<Rightarrow> Ret False
           | Some add \<Rightarrow>
               if apCreator add \<noteq> None \<and> deref '''' (apCreator add) \<noteq> maCreator messageValue then Ret False
               else if apDeposit add \<noteq> None \<and> filteredAmountBy G (maDeposit messageValue) (apDeposit add)
                 then Ret False
               else
                 (case apPackage add of
                    None \<Rightarrow> Ret True
                  | Some f \<Rightarrow>
                      if piName f = None \<and> piPath f = None then Ret True
                      else
                        (case maPackage messageValue of
                           None \<Rightarrow> Panic ''nil pointer dereference''
                         | Some p \<Rightarrow>
                             if piName f \<noteq> None \<and> deref '''' (piName f) \<noteq> mpName p then Ret False
                             else if piPath f \<noteq> None \<and> deref '''' (piPath f) \<noteq> mpPath p then Ret False
                             else Ret True))))"

definition filteredMessageOfMsgRunBy ::
    "graph_env \<Rightarrow> MsgRun \<Rightarrow> TransactionVMMessageInput option \<Rightarrow> bool outcome" where
  "filteredMessageOfMsgRunBy G messageValue params =
     (case params of
        None \<Rightarrow> Ret True
      | Some params \<Rightarrow>
          (case tvRun params of
             None \<Rightarrow> Ret False
           | Some run \<Rightarrow>
               if riCaller run \<noteq> None \<and> deref '''' (riCaller run) \<noteq> mrCaller messageValue then Ret False
               else if riSend run \<noteq> None \<and> filteredAmountBy G (mrSend messageValue) (riSend run) then Ret False
               else
                 (case riPackage run of
                    None \<Rightarrow> Ret True
                  | Some f \<Rightarrow>
                      (case mrPackage messageValue of
                         None \<Rightarrow> Panic ''nil pointer dereference''
                       | Some p \<Rightarrow>
                           if deref '''' (piName f) \<noteq> mpName p then Ret False
                           else if deref '''' (piPath f) \<noteq> mpPath p then Ret False
                           else Ret True))))"

definition filteredTransactionMessageBy ::
    "graph_env \<Rightarrow> TransactionMessage \<Rightarrow> TransactionMessageInput \<Rightarrow> bool outcome" where
  "filteredTransactionMessageBy G tm messageInput =
     (if tiRoute messageInput \<noteq> None \<and> deref '''' (tiRoute messageInput) \<noteq> tmRoute tm then Ret False
      else if tiTypeURL messageInput \<noteq> None \<and> deref '''' (tiTypeURL messageInput) \<noteq> tmTypeURL tm then Ret False
      else if tiBankParam messageInput = None \<and> tiVMParam messageInput = None then Ret True
      else if \<not> (if tmRoute tm = MessageRouteBank then tiBankParam messageInput \<noteq> None
                else if tmRoute tm = MessageRouteVM then tiVMParam messageInput \<noteq> None
                else False) then Ret False
      else if tmTypeURL tm = MessageTypeSend then
        bindO (TransactionMessage_BankMsgSend tm) (\<lambda>v.
          Ret (filteredMessageOfBankMsgSendBy G v (tiBankParam messageInput)))
      else if tmTypeURL tm = MessageTypeExec then
        bindO (TransactionMessage_VMMsgCall tm) (\<lambda>v.
          Ret (filteredMessageOfMsgCallBy G v (tiVMParam messageInput)))
      else if tmTypeURL tm = MessageTypeAddPackage then
        bindO (TransactionMessage_VMAddPackage tm) (\<lambda>v.
          filteredMessageOfMsgAddPackageBy G v (tiVMParam messageInput))
      else if tmTypeURL tm = MessageTypeRun then
        bindO (TransactionMessage_VMMsgRun tm) (\<lambda>v.
          filteredMessageOfMsgRunBy G v (tiVMParam messageInput))
      else Ret False)"

definition filteredTransactionByMessages ::
    "codec \<Rightarrow> graph_env \<Rightarrow> tx_result \<Rightarrow> TransactionMessageInput list \<Rightarrow> bool outcome" where
  "filteredTransactionByMessages C G tx messageInputs =
     (if messageInputs = [] then Ret True
      else bindO (Transaction_Messages C G tx) (\<lambda>msgs.
        if msgs = [] then Ret False
        else firstMatch (concat (map (\<lambda>message. map (filteredTransactionMessageBy G message) messageInputs) msgs))))"

section \<open>Transactions\<close>

text \<open>The guards in order; the first one reads the result, or panics when it is nil and a guard needs it.\<close>

definition FilteredTransactionBy :: "codec \<Rightarrow> graph_env \<Rightarrow> Transaction \<Rightarrow> TransactionFilter \<Rightarrow> bool outcome" where
  "FilteredTransactionBy C G tx f =
     bindO (Transaction_result tx) (\<lambda>tx.
       if \<not> filteredTransactionBySuccess tx (xfSuccess f) then Ret False
       else if \<not> filteredTransactionByGasUsed tx (xfFromGasUsed f) (xfToGasUsed f) then Ret False
       else if \<not> filteredTransactionByGasWanted tx (xfFromGasWanted f) (xfToGasWanted f) then Ret False
       else if \<not> filteredTransactionByMemo C G tx (xfMemo f) then Ret False
       else
         bindO (filteredTransactionByEvents G tx (xfEvents f)) (\<lambda>ok.
           if \<not> ok then Ret False
           else bindO (filteredTransactionByMessages C G tx (xfMessage f)) (\<lambda>ok.
             if \<not> ok then Ret False else Ret True)))"

section \<open>Where the guards go wrong\<close>

text \<open>
  The amount guards of calls, additions and runs lack the negation that the guard of sends has: a message
  whose amount lies in the range asked for is rejected.
\<close>

lemma amount_guards_negated:
  "tvExec p = Some x \<Longrightarrow> ciSend x = Some a \<Longrightarrow> filteredAmountBy G (mcSend m) (Some a) \<Longrightarrow>
     \<not> filteredMessageOfMsgCallBy G m (Some p)"
  "tvAddPackage p = Some y \<Longrightarrow> apDeposit y = Some a \<Longrightarrow> filteredAmountBy G (maDeposit n) (Some a) \<Longrightarrow>
     filteredMessageOfMsgAddPackageBy G n (Some p) = Ret False"
  "tvRun p = Some z \<Longrightarrow> riSend z = Some a \<Longrightarrow> filteredAmountBy G (mrSend r) (Some a) \<Longrightarrow>
     filteredMessageOfMsgRunBy G r (Some p) = Ret False"
  by (simp_all add: filteredMessageOfMsgCallBy_def filteredMessageOfMsgAddPackageBy_def filteredMessageOfMsgRunBy_def)

text \<open>A package filter with a path only compares the name it does not have.\<close>

lemma run_package_without_name:
  assumes "tvRun p = Some z" "riCaller z = None" "riSend z = None" "riPackage z = Some f" "piName f = None"
    and "mrPackage r = Some k" "mpName k \<noteq> ''''"
  shows "filteredMessageOfMsgRunBy G r (Some p) = Ret False"
  using assms by (simp add: filteredMessageOfMsgRunBy_def)

end
