(* ===== verification/Graph_Resolvers.thy ===== *)
theory Graph_Resolvers
  imports Graph_Filters Graph_Legacy Storage_Contract Events
begin

text \<open>
  The resolvers of \<open>all.resolvers.go\<close> and \<open>resolver.go\<close>. A query walks a storage iterator, keeps what its
  filter accepts and stops at a fixed number of elements; a subscription is a step relation that
  joins a subscription of the event manager with the channel the GraphQL layer reads.
\<close>

section \<open>Queries\<close>

definition maxElementsPerQuery :: nat where "maxElementsPerQuery = 10000"

text \<open>
  What a resolver returns: the elements, its error, and the errors it added to the response. \<open>stop n\<close>
  says whether the context is done at the \<open>n\<close>-th element read, and the filter of blocks is given the number of
  the element because it may read the clock. The value \<open>None\<close> would be a loop that
  never ends.
\<close>

record 'a query_result =
  qOut :: "'a list"
  qErr :: "go_error option"
  qAdded :: "go_error list"

definition result :: "'a list \<Rightarrow> go_error option \<Rightarrow> go_error list \<Rightarrow> 'a query_result outcome option" where
  "result out err added = Some (Ret \<lparr>qOut = out, qErr = err, qAdded = added\<rparr>)"

definition maxReached :: go_error where
  "maxReached = ErrMsg ''max elements per query reached (10000)''"

definition ctxErr :: go_error where
  "ctxErr = ErrMsg ''context canceled''"

partial_function (option) collectBlocks ::
    "('st, 'wb, 'bi, 'ti) storage \<Rightarrow> (nat \<Rightarrow> bool) \<Rightarrow> (nat \<Rightarrow> Block \<Rightarrow> bool outcome) \<Rightarrow> 'bi \<Rightarrow> nat \<Rightarrow> Block list \<Rightarrow>
     Block query_result outcome option" where
  "collectBlocks S stop keep it n out =
     (if length out = maxElementsPerQuery then result out None [maxReached]
      else (case bi_Next S it of (ok, it) \<Rightarrow>
        if \<not> ok then result out (bi_Error S it) []
        else if stop n then result out None [ctxErr]
        else (case bi_Value S it of
                Inl err \<Rightarrow> result out None [err]
              | Inr b \<Rightarrow>
                  let block = NewBlock b in
                  (case keep n block of
                     Panic m \<Rightarrow> Some (Panic m)
                   | Ret k \<Rightarrow> collectBlocks S stop keep it (Suc n) (if k then out @ [block] else out)))))"

partial_function (option) collectTxs ::
    "('st, 'wb, 'bi, 'ti) storage \<Rightarrow> (nat \<Rightarrow> bool) \<Rightarrow> (Transaction \<Rightarrow> bool outcome) \<Rightarrow> 'ti \<Rightarrow> nat \<Rightarrow>
     Transaction list \<Rightarrow> Transaction query_result outcome option" where
  "collectTxs S stop keep it n out =
     (if length out = maxElementsPerQuery then result out None [maxReached]
      else Option.bind (ti_Next S it) (\<lambda>(ok, it).
        if \<not> ok then result out (ti_Error S it) []
        else if stop n then result out None [ctxErr]
        else (case ti_Value S it of
                Inl err \<Rightarrow> result out None [err]
              | Inr t \<Rightarrow>
                  let transaction = NewTransaction (Some t) in
                  (case keep transaction of
                     Panic m \<Rightarrow> Some (Panic m)
                   | Ret k \<Rightarrow> collectTxs S stop keep it (Suc n) (if k then out @ [transaction] else out)))))"

text \<open>\<open>gqlerror.Wrap\<close> keeps the error.\<close>

definition gqlWrap :: "go_error \<Rightarrow> go_error" where
  "gqlWrap err = ErrWrap ''%w'' [err]"

definition queryResolver_Transactions ::
    "('st, 'wb, 'bi, 'ti) storage \<Rightarrow> codec \<Rightarrow> graph_env \<Rightarrow> (nat \<Rightarrow> bool) \<Rightarrow> 'st \<Rightarrow> TransactionFilter \<Rightarrow>
     Transaction query_result outcome option" where
  "queryResolver_Transactions S C G stop store f =
     (case xfHash f of
        Some h \<Rightarrow>
          (case s_GetTxByHash S store h of
             Inl err \<Rightarrow> result [] (Some (gqlWrap err)) []
           | Inr tx \<Rightarrow> result [NewTransaction (Some tx)] None [])
      | None \<Rightarrow>
          (case s_TxIterator S store (deref 0 (xfFromBlockHeight f)) (deref 0 (xfToBlockHeight f))
                  (ucast (deref 0 (xfFromIndex f))) (ucast (deref 0 (xfToIndex f))) of
             Inl err \<Rightarrow> result [] (Some (gqlWrap err)) []
           | Inr it \<Rightarrow> collectTxs S stop (\<lambda>t. FilteredTransactionBy C G t f) it 0 []))"

definition queryResolver_Blocks ::
    "('st, 'wb, 'bi, 'ti) storage \<Rightarrow> (nat \<Rightarrow> gotime) \<Rightarrow> (nat \<Rightarrow> bool) \<Rightarrow> 'st \<Rightarrow> BlockFilter \<Rightarrow>
     Block query_result outcome option" where
  "queryResolver_Blocks S now stop store f =
     (case s_BlockIterator S store (deref 0 (bfFromHeight f)) (deref 0 (bfToHeight f)) of
        Inl err \<Rightarrow> result [] (Some (gqlWrap err)) []
      | Inr it \<Rightarrow> collectBlocks S stop (\<lambda>n b. Ret (FilteredBlockBy (now n) (Some b) f)) it 0 [])"

definition queryResolver_LatestBlockHeight ::
    "('st, 'wb, 'bi, 'ti) storage \<Rightarrow> 'st \<Rightarrow> i64 \<times> go_error option" where
  "queryResolver_LatestBlockHeight S store =
     (case s_GetLatestHeight S store of Inl err \<Rightarrow> (0, Some err) | Inr h \<Rightarrow> (h, None))"

text \<open>
  The range of the iteration from the bounds of a filter; \<open>samePtr\<close> is the comparison of the two
  pointers.
\<close>

definition samePtr :: "int_ptr option \<Rightarrow> int_ptr option \<Rightarrow> bool" where
  "samePtr p q \<longleftrightarrow> map_option fst p = map_option fst q"

definition iterRange :: "min_max \<Rightarrow> i64 \<times> i64" where
  "iterRange mm =
     (let dfrom = deref 0 (map_option snd (fst mm));
          dto = deref 0 (map_option snd (snd mm))
      in (dfrom, if samePtr (fst mm) (snd mm) \<and> snd mm \<noteq> None then dto + 1 else dto))"

definition iterRange32 :: "min_max \<Rightarrow> u32 \<times> u32" where
  "iterRange32 mm =
     (let dfrom = ucast (deref 0 (map_option snd (fst mm)));
          dto = ucast (deref 0 (map_option snd (snd mm)))
      in (dfrom, if samePtr (fst mm) (snd mm) \<and> snd mm \<noteq> None then dto + 1 else dto))"

definition liftO :: "'a outcome \<Rightarrow> ('a \<Rightarrow> 'b outcome option) \<Rightarrow> 'b outcome option" where
  "liftO x k = (case x of Panic m \<Rightarrow> Some (Panic m) | Ret v \<Rightarrow> k v)"

definition queryResolver_GetBlocks ::
    "('st, 'wb, 'bi, 'ti) storage \<Rightarrow> codec \<Rightarrow> graph_env \<Rightarrow> (nat \<Rightarrow> bool) \<Rightarrow> 'st \<Rightarrow> FilterBlock \<Rightarrow> Order option \<Rightarrow>
     Block query_result outcome option" where
  "queryResolver_GetBlocks S C G stop store where' order =
     liftO (FilterBlock_MinMaxHeight where') (\<lambda>mm.
       let (dfromh, dtoh) = iterRange mm in
       (case (if order = Some OrderDesc then s_BlockReverseIterator S store dfromh dtoh
              else s_BlockIterator S store dfromh dtoh) of
          Inl err \<Rightarrow> result [] (Some (gqlWrap err)) []
        | Inr it \<Rightarrow> collectBlocks S stop (\<lambda>_. FilterBlock_Eval C G where') it 0 []))"

definition queryResolver_GetTransactions ::
    "('st, 'wb, 'bi, 'ti) storage \<Rightarrow> codec \<Rightarrow> graph_env \<Rightarrow> (nat \<Rightarrow> bool) \<Rightarrow> 'st \<Rightarrow> FilterTransaction \<Rightarrow>
     Order option \<Rightarrow> Transaction query_result outcome option" where
  "queryResolver_GetTransactions S C G stop store where' order =
     (case (Option.bind (fTnHash (fFields where')) fsEq, fOr where') of
        (Some h, []) \<Rightarrow>
          (case s_GetTxByHash S store h of
             Inl err \<Rightarrow> result [] (Some (gqlWrap err)) []
           | Inr tx \<Rightarrow>
               let otx = NewTransaction (Some tx) in
               liftO (FilterTransaction_Eval C G where' otx) (\<lambda>ok.
                 if \<not> ok then result [] None [] else result [otx] None []))
      | _ \<Rightarrow>
          liftO (FilterTransaction_MinMaxBlockHeight where') (\<lambda>mmh.
          liftO (FilterTransaction_MinMaxIndex where') (\<lambda>mmi.
            let (dfromh, dtoh) = iterRange mmh; (dfromi, dtoi) = iterRange32 mmi in
            (case (if order = Some OrderDesc then s_TxReverseIterator S store dfromh dtoh dfromi dtoi
                   else s_TxIterator S store dfromh dtoh dfromi dtoi) of
               Inl err \<Rightarrow> result [] (Some (gqlWrap err)) []
             | Inr it \<Rightarrow> collectTxs S stop (FilterTransaction_Eval C G where') it 0 []))))"

section \<open>Subscriptions\<close>

text \<open>
  What a subscription resolver does with a new block: for each candidate, in order, it either sends a
  value, or nothing, or panics in the filter.
\<close>

definition subscriptionResolver_Transactions ::
    "codec \<Rightarrow> graph_env \<Rightarrow> TransactionFilter \<Rightarrow> newBlock \<Rightarrow> Transaction option outcome list" where
  "subscriptionResolver_Transactions C G f nb =
     map (\<lambda>tx. let transaction = NewTransaction tx in
            bindO (FilteredTransactionBy C G transaction f) (\<lambda>ok. Ret (if ok then Some transaction else None)))
       (nbResults nb)"

definition subscriptionResolver_Blocks :: "gotime \<Rightarrow> BlockFilter \<Rightarrow> newBlock \<Rightarrow> Block option outcome list" where
  "subscriptionResolver_Blocks now f nb =
     (let block = NewBlock (nbBlock nb) in
      [Ret (if FilteredBlockBy now (Some block) f then Some block else None)])"

definition subscriptionResolver_GetTransactions ::
    "codec \<Rightarrow> graph_env \<Rightarrow> FilterTransaction \<Rightarrow> newBlock \<Rightarrow> Transaction option outcome list" where
  "subscriptionResolver_GetTransactions C G where' nb =
     map (\<lambda>tx. let transaction = NewTransaction tx in
            bindO (FilterTransaction_Eval C G where' transaction) (\<lambda>ok. Ret (if ok then Some transaction else None)))
       (nbResults nb)"

definition subscriptionResolver_GetBlocks ::
    "codec \<Rightarrow> graph_env \<Rightarrow> FilterBlock \<Rightarrow> newBlock \<Rightarrow> Block option outcome list" where
  "subscriptionResolver_GetBlocks C G where' nb =
     (let block = NewBlock (nbBlock nb) in
      [bindO (FilterBlock_Eval C G where' block) (\<lambda>ok. Ret (if ok then Some block else None))])"

text \<open>
  The goroutine of \<open>handleChannel\<close>: at its select, inside \<open>writeToChannel\<close> with what is still to be
  done, returned, or crashed (a panic of the goroutine ends the process). The run holds the subscription of the event
  manager, whether the context is done, and what the reader of the channel has received. The
  channel has no buffer, and the GraphQL layer stops reading when the context is done.
\<close>

datatype 'a chan_phase = Selecting | Writing "'a option outcome list" | Finished | ChanCrashed string

record 'a chan_run =
  cxSub :: "event_data sub_run"
  cxPhase :: "'a chan_phase"
  cxDone :: bool
  cxSent :: "'a list"

text \<open>Leaving the goroutine runs the deferred \<open>CancelSubscription\<close>.\<close>

definition leave :: "'a chan_run \<Rightarrow> 'a chan_run" where
  "leave r =
     (case eventSubscription_close (srSub (cxSub r)) of
        Panic m \<Rightarrow> r\<lparr>cxPhase := ChanCrashed m\<rparr>
      | Ret es \<Rightarrow> r\<lparr>cxSub := (cxSub r)\<lparr>srSub := es\<rparr>, cxPhase := Finished\<rparr>)"

inductive chan_step :: "(newBlock \<Rightarrow> 'a option outcome list) \<Rightarrow> 'a chan_run \<Rightarrow> 'a chan_run \<Rightarrow> bool" for W where
  ch_take: "cxPhase r = Selecting \<Longrightarrow> esOutput (srSub (cxSub r)) = e # q \<Longrightarrow> evData e = DNewBlock nb \<Longrightarrow>
    chan_step W r (r\<lparr>cxSub := (cxSub r)\<lparr>srSub := (srSub (cxSub r))\<lparr>esOutput := q\<rparr>,
                                     srReceived := srReceived (cxSub r) @ [e]\<rparr>, cxPhase := Writing (W nb)\<rparr>)"
| ch_cast: "cxPhase r = Selecting \<Longrightarrow> esOutput (srSub (cxSub r)) = e # q \<Longrightarrow> evData e = DOther m \<Longrightarrow>
    chan_step W r (leave (r\<lparr>cxSub := (cxSub r)\<lparr>srSub := (srSub (cxSub r))\<lparr>esOutput := q\<rparr>,
                                     srReceived := srReceived (cxSub r) @ [e]\<rparr>\<rparr>))"
| ch_closed: "cxPhase r = Selecting \<Longrightarrow> esOutput (srSub (cxSub r)) = [] \<Longrightarrow> esLoop (srSub (cxSub r)) = Stopped \<Longrightarrow>
    chan_step W r (leave r)"
| ch_done: "cxPhase r = Selecting \<Longrightarrow> cxDone r \<Longrightarrow> chan_step W r (leave r)"
| ch_skip: "cxPhase r = Writing (Ret None # xs) \<Longrightarrow> chan_step W r (r\<lparr>cxPhase := Writing xs\<rparr>)"
| ch_panic: "cxPhase r = Writing (Panic m # xs) \<Longrightarrow> chan_step W r (r\<lparr>cxPhase := ChanCrashed m\<rparr>)"
| ch_send: "cxPhase r = Writing (Ret (Some v) # xs) \<Longrightarrow> \<not> cxDone r \<Longrightarrow>
    chan_step W r (r\<lparr>cxPhase := Writing xs, cxSent := cxSent r @ [v]\<rparr>)"
| ch_next: "cxPhase r = Writing [] \<Longrightarrow> chan_step W r (r\<lparr>cxPhase := Selecting\<rparr>)"
| ch_cancel: "chan_step W r (r\<lparr>cxDone := True\<rparr>)"
| ch_sub: "sub_step (cxSub r) s \<Longrightarrow> srReceived s = srReceived (cxSub r) \<Longrightarrow> chan_step W r (r\<lparr>cxSub := s\<rparr>)"

definition handleChannel :: "'a chan_run" where
  "handleChannel = \<lparr>cxSub = sub_start [NewBlockEvent], cxPhase = Selecting, cxDone = False, cxSent = []\<rparr>"

end
