(* ===== verification/Graph_Queries.thy ===== *)
theory Graph_Queries
  imports Graph_Resolvers
begin

text \<open>
  What the query resolvers return: the loops over the iterators in terms of the storage contract, the
  range of the iteration in terms of the bounds of the filter, and from both that a query returns exactly
  the stored elements its filter accepts.
\<close>

section \<open>What a query returns\<close>

text \<open>The answer to a query over all elements \<open>xs\<close> with the filter \<open>Q\<close>: at most the fixed number of elements.\<close>

definition answer_of :: "'a list \<Rightarrow> 'a query_result" where
  "answer_of xs = \<lparr>qOut = take maxElementsPerQuery xs, qErr = None,
     qAdded = (if maxElementsPerQuery \<le> length xs then [maxReached] else [])\<rparr>"

context storage_api
begin

lemma collectBlocks_rest:
  assumes "binv it" "\<forall>n. \<not> stop n" "\<forall>b \<in> set (brest it). \<forall>n. keep n (NewBlock b) = Ret (Q b)"
    "length out \<le> maxElementsPerQuery"
  shows "collectBlocks S stop keep it n out = Some (Ret (answer_of (out @ map NewBlock (filter Q (brest it)))))"
  using assms
proof (induction "brest it" arbitrary: it n out)
  case Nil
  from block_next [OF Nil(2)] Nil(1) obtain it' where "bi_Next S it = (False, it')" "bi_Error S it' = None" by auto
  with Nil show ?case by (subst collectBlocks.simps) (simp add: result_def answer_of_def)
next
  case (Cons b bs)
  show ?case
  proof (cases "length out = maxElementsPerQuery")
    case True
    then show ?thesis by (subst collectBlocks.simps) (simp add: result_def answer_of_def)
  next
    case False
    from block_next [OF Cons.prems(1)] Cons.hyps(2) obtain it' where
      n: "bi_Next S it = (True, it')" "binv it'" "brest it' = bs" "bi_Value S it' = Inr b"
      by (metis list.discI list.sel(1,3))
    have k: "keep n (NewBlock b) = Ret (Q b)" using Cons.prems(3) Cons.hyps(2) by (metis list.set_intros(1))
    have "\<forall>b \<in> set (brest it'). \<forall>n. keep n (NewBlock b) = Ret (Q b)"
      using Cons.prems(3) Cons.hyps(2) n(3) by (metis list.set_intros(2))
    moreover have "length (if Q b then out @ [NewBlock b] else out) \<le> maxElementsPerQuery"
      using Cons.prems(4) False by simp
    ultimately have "collectBlocks S stop keep it' (Suc n) (if Q b then out @ [NewBlock b] else out) =
        Some (Ret (answer_of ((if Q b then out @ [NewBlock b] else out) @ map NewBlock (filter Q bs))))"
      using Cons.hyps(1) [of it' "if Q b then out @ [NewBlock b] else out" "Suc n"] n Cons.prems(2) by simp
    then show ?thesis
      using False n Cons.prems(2) k Cons.hyps(2) [symmetric]
      by (subst collectBlocks.simps) (simp add: Let_def)
  qed
qed

lemma collectTxs_rest:
  assumes "tinv it" "\<forall>n. \<not> stop n" "\<forall>t \<in> set (trest it). keep (NewTransaction (Some t)) = Ret (Q t)"
    "length out \<le> maxElementsPerQuery"
  shows "collectTxs S stop keep it n out =
    Some (Ret (answer_of (out @ map (\<lambda>t. NewTransaction (Some t)) (filter Q (trest it)))))"
  using assms
proof (induction "trest it" arbitrary: it n out)
  case Nil
  from tx_next [OF Nil(2)] Nil(1) obtain it' where "ti_Next S it = Some (False, it')" "ti_Error S it' = None" by auto
  with Nil show ?case by (subst collectTxs.simps) (simp add: result_def answer_of_def)
next
  case (Cons t ts)
  let ?tx = "NewTransaction (Some t)"
  show ?case
  proof (cases "length out = maxElementsPerQuery")
    case True
    then show ?thesis by (subst collectTxs.simps) (simp add: result_def answer_of_def)
  next
    case False
    from tx_next [OF Cons.prems(1)] Cons.hyps(2) obtain it' where
      n: "ti_Next S it = Some (True, it')" "tinv it'" "trest it' = ts" "ti_Value S it' = Inr t"
      by (metis list.discI list.sel(1,3))
    have k: "keep ?tx = Ret (Q t)" using Cons.prems(3) Cons.hyps(2) by (metis list.set_intros(1))
    have "\<forall>t \<in> set (trest it'). keep (NewTransaction (Some t)) = Ret (Q t)"
      using Cons.prems(3) Cons.hyps(2) n(3) by (metis list.set_intros(2))
    moreover have "length (if Q t then out @ [?tx] else out) \<le> maxElementsPerQuery"
      using Cons.prems(4) False by simp
    ultimately have "collectTxs S stop keep it' (Suc n) (if Q t then out @ [?tx] else out) =
        Some (Ret (answer_of ((if Q t then out @ [?tx] else out) @ map (\<lambda>t. NewTransaction (Some t)) (filter Q ts))))"
      using Cons.hyps(1) [of it' "if Q t then out @ [?tx] else out" "Suc n"] n Cons.prems(2) by simp
    then show ?thesis
      using False n Cons.prems(2) k Cons.hyps(2) [symmetric]
      by (subst collectTxs.simps) (simp add: Let_def)
  qed
qed

end

section \<open>The range of the iteration\<close>

lemma sint_nonneg: "0 \<le> sint (m :: i64) \<Longrightarrow> sint m = uint m"
  using sint_less [of m] by (simp add: uint_sint take_bit_int_eq_self)

lemma sint_small: "(h :: u64) < maxInt64 \<Longrightarrow> sint h = uint h"
proof -
  assume "h < maxInt64"
  then have "- (2 ^ 63) \<le> uint h" "uint h < 2 ^ 63"
    using order_trans [of "- (2 ^ 63)" 0 "uint h"] by (simp_all add: word_less_def)
  then show "sint h = uint h" by (simp add: sint_uint signed_take_bit_int_eq_self)
qed

lemma upTo64_above:
  assumes "0 \<le> sint (m :: u64)" "uint (h :: u64) \<le> sint m" "h < maxInt64"
  shows "h < upTo64 m" "h < upTo64 (m + 1)"
proof -
  have m: "uint m < 2 ^ 63" using sint_nonneg [OF assms(1)] sint_less [of m] by simp
  then have s: "uint (m + 1) = uint m + 1" "uint (m + 1 + 1) = uint m + 2"
    by (simp_all add: uint_word_ariths)
  show "h < upTo64 m"
    using assms m s sint_nonneg [OF assms(1)] by (simp add: upTo64_def word_less_def)
  have "uint (m + 1) \<noteq> 0" 
  proof -
    have "0 \<le> uint m" by simp
    then show ?thesis using s(1) by linarith
  qed
  then have "m + 1 \<noteq> 0" by auto
  then show "h < upTo64 (m + 1)"
    using assms m s sint_nonneg [OF assms(1)] by (simp add: upTo64_def word_less_def)
qed

text \<open>The bounds of a pair, where there are any, are not negative.\<close>

definition nonneg_bounds :: "min_max \<Rightarrow> bool" where
  "nonneg_bounds mm \<longleftrightarrow> (\<forall>p m. fst mm = Some (p, m) \<or> snd mm = Some (p, m) \<longrightarrow> 0 \<le> sint m)"

lemma iterRange_hit:
  assumes "nonneg_bounds mm" "h < maxInt64" "fst mm = None \<or> below (fst mm) h" "snd mm = None \<or> above (snd mm) h"
  shows "fst (iterRange mm) \<le> h \<and> h < upTo64 (snd (iterRange mm))"
proof
  obtain mn mx where mm: "mm = (mn, mx)" by (cases mm)
  show "fst (iterRange mm) \<le> h"
  proof (cases mn)
    case None
    then show ?thesis by (simp add: mm iterRange_def Let_def)
  next
    case (Some q)
    then obtain p m where q: "mn = Some (p, m)" by (cases q) auto
    have "0 \<le> sint m" using assms(1) q by (cases p) (auto simp: mm nonneg_bounds_def)
    moreover have "sint m \<le> uint h" using assms(3) q sint_small [OF assms(2)] by (auto simp: mm below_def)
    ultimately have "0 \<le> sint m" "sint m \<le> uint h" by auto
    then have "m \<le> h" by (simp add: sint_nonneg word_le_def)
    then show ?thesis by (simp add: mm q iterRange_def Let_def)
  qed
  show "h < upTo64 (snd (iterRange mm))"
  proof (cases mx)
    case None
    then show ?thesis using assms(2) by (simp add: mm iterRange_def Let_def upTo64_def)
  next
    case (Some q)
    then obtain p m where q: "mx = Some (p, m)" by (cases q) auto
    have "0 \<le> sint m" using assms(1) q by (cases p) (auto simp: mm nonneg_bounds_def)
    moreover have "uint h \<le> sint m" using assms(4) q sint_small [OF assms(2)] by (auto simp: mm above_def)
    ultimately have "0 \<le> sint m" "uint h \<le> sint m" by auto
    from upTo64_above [OF this assms(2)] show ?thesis by (simp add: mm q iterRange_def Let_def)
  qed
qed

text \<open>The same for an index, which is cut to 32 bits.\<close>

definition small_bounds :: "min_max \<Rightarrow> bool" where
  "small_bounds mm \<longleftrightarrow> (\<forall>p m. fst mm = Some (p, m) \<or> snd mm = Some (p, m) \<longrightarrow> 0 \<le> sint m \<and> sint m < 2 ^ 32 - 2)"

lemma sint_ucast32: "sint (ucast (i :: u32) :: i64) = uint i"
proof -
  have i: "uint i < 2 ^ 32" using uint_lt2p [of i] by simp
  then have "uint (ucast i :: i64) = uint i" by (simp add: unsigned_ucast_eq take_bit_int_eq_self)
  with i show ?thesis
    using sint_small [of "ucast i"] by (simp add: word_less_def)
qed

lemma iterRange32_hit:
  assumes "small_bounds mm" "i < maxUint32" "fst mm = None \<or> below (fst mm) (ucast i)"
    "snd mm = None \<or> above (snd mm) (ucast i)"
  shows "fst (iterRange32 mm) \<le> i \<and> i < upTo32 (snd (iterRange32 mm))"
proof
  obtain mn mx where mm: "mm = (mn, mx)" by (cases mm)
  have cut: "uint (ucast m :: u32) = sint m" "uint (ucast m + 1 :: u32) = sint m + 1"
      "uint (ucast m + 1 + 1 :: u32) = sint m + 2"
    if "mn = Some (p, m) \<or> mx = Some (p, m)" for p m
  proof -
    have "0 \<le> sint m" "sint m < 2 ^ 32 - 2"
      using assms(1) that by (cases p; auto simp: mm small_bounds_def)+
    then show u: "uint (ucast m :: u32) = sint m"
      by (simp add: sint_nonneg unsigned_ucast_eq take_bit_int_eq_self)
    with \<open>sint m < 2 ^ 32 - 2\<close> \<open>0 \<le> sint m\<close>
    show "uint (ucast m + 1 :: u32) = sint m + 1" "uint (ucast m + 1 + 1 :: u32) = sint m + 2"
      by (simp_all add: uint_word_ariths)
  qed
  show "fst (iterRange32 mm) \<le> i"
  proof (cases mn)
    case (Some q)
    then obtain p m where q: "mn = Some (p, m)" by (cases q) auto
    have "sint m \<le> uint i" using assms(3) q by (auto simp: mm below_def sint_ucast32)
    with cut(1) [of p m] q show ?thesis by (simp add: mm iterRange32_def Let_def word_le_def)
  qed (simp add: mm iterRange32_def Let_def)
  show "i < upTo32 (snd (iterRange32 mm))"
  proof (cases mx)
    case None
    then show ?thesis using assms(2) by (simp add: mm iterRange32_def Let_def upTo32_def)
  next
    case (Some q)
    then obtain p m where q: "mx = Some (p, m)" by (cases q) auto
    have "uint i \<le> sint m" using assms(4) q by (auto simp: mm above_def sint_ucast32)
    then have "i < ucast m + 1" "i < ucast m + 1 + 1" using cut [of p m] q by (simp_all add: word_less_def)
    then show ?thesis using assms(2) by (simp add: mm q iterRange32_def Let_def upTo32_def)
  qed
qed

section \<open>Queries against the contents of the store\<close>

text \<open>Everything a store holds, in ascending order, and the order a query asks for.\<close>

definition stored_blocks :: "store \<Rightarrow> block list" where
  "stored_blocks st = map (the \<circ> stBlock st) (sorted_list_of_set (dom (stBlock st)))"

definition stored_txs :: "store \<Rightarrow> tx_result list" where
  "stored_txs st = map (the \<circ> stTx st) (sorted_list_of_set (dom (stTx st)))"

definition in_order :: "Order option \<Rightarrow> 'a list \<Rightarrow> 'a list" where
  "in_order order xs = (if order = Some OrderDesc then rev xs else xs)"

lemma filter_sorted_set:
  "finite A \<Longrightarrow> filter P (sorted_list_of_set A) = sorted_list_of_set {x \<in> A. P x}"
  by (rule strict_list_unique [where f = "\<lambda>x. x"]) (auto intro: sorted_wrt_filter)

lemma block_range_filter:
  assumes "\<And>n b. stBlock st n = Some b \<Longrightarrow> bHeight b = n"
    and "\<And>b. Q b \<Longrightarrow> stBlock st (bHeight b) = Some b \<Longrightarrow> lo \<le> bHeight b \<and> bHeight b < upTo64 hi"
  shows "filter Q (block_range st lo hi) = filter Q (stored_blocks st)"
proof -
  have "{n \<in> {n. lo \<le> n \<and> n < upTo64 hi \<and> stBlock st n \<noteq> None}. Q (the (stBlock st n))} =
      {n \<in> dom (stBlock st). Q (the (stBlock st n))}"
  proof (intro Collect_cong iffI conjI; clarsimp)
    fix n b assume n: "stBlock st n = Some b" "Q b"
    with assms(1) [OF n(1)] assms(2) [OF n(2)] show "lo \<le> n \<and> n < upTo64 hi" by simp
  qed
  then show ?thesis by (simp add: block_range_def stored_blocks_def filter_map filter_sorted_set comp_def)
qed

lemma tx_range_filter:
  assumes "\<And>p t. stTx st p = Some t \<Longrightarrow> tx_pos t = p"
    and "\<And>t. Q t \<Longrightarrow> stTx st (tx_pos t) = Some t \<Longrightarrow>
      lo \<le> trHeight t \<and> trHeight t < upTo64 hi \<and> i \<le> trIndex t \<and> trIndex t < upTo32 j"
  shows "filter Q (tx_range st lo hi i j) = filter Q (stored_txs st)"
proof -
  have "TxPos lo i \<le> p \<and> p < TxPos (upTo64 hi) (upTo32 j) \<and> i \<le> tpIndex p \<and> tpIndex p < upTo32 j"
    if "stTx st p = Some t" "Q t" for p t
    using assms(1) [OF that(1)] assms(2) [OF that(2)] that(1) by (auto simp: tx_pos_def)
  then have "{p \<in> {p. TxPos lo i \<le> p \<and> p < TxPos (upTo64 hi) (upTo32 j) \<and> i \<le> tpIndex p \<and>
        tpIndex p < upTo32 j \<and> stTx st p \<noteq> None}. Q (the (stTx st p))} =
      {p \<in> dom (stTx st). Q (the (stTx st p))}" by fastforce
  then show ?thesis by (simp add: tx_range_def stored_txs_def filter_map filter_sorted_set comp_def)
qed

lemma filter_in_order: "filter Q (in_order order xs) = in_order order (filter Q xs)"
  by (simp add: in_order_def rev_filter)

text \<open>A filter with sound bounds: on each side, the filter bounds the field or no bound is computed.\<close>

definition sound_bounds :: "('p \<Rightarrow> FilterInt option) \<Rightarrow> 'p gql_filter \<Rightarrow> min_max \<Rightarrow> bool" where
  "sound_bounds sel f mm \<longleftrightarrow> nonneg_bounds mm \<and> (fst mm = None \<or> bounds_below sel f) \<and>
     (snd mm = None \<or> bounds_above sel f)"

lemma FilterBlock_within:
  assumes "FilterBlock_MinMaxHeight w = Ret mm" "FilterBlock_Eval C G w b = Ret True"
  shows "bounds_below fBkHeight w \<Longrightarrow> below (fst mm) (Block_Height b)"
    "bounds_above fBkHeight w \<Longrightarrow> above (snd mm) (Block_Height b)"
  using minMaxAt_sound [where E = "\<lambda>p. FilterBlock_evalFields C G p b" and v = "Block_Height b" and sel = fBkHeight
      and f = w and path = "[]" and mn = "fst mm" and mx = "snd mm", OF FilterBlock_fields_height] assms
  by (simp_all add: FilterBlock_Eval_def FilterBlock_MinMaxHeight_def)

lemma FilterTransaction_within:
  assumes "FilterTransaction_Eval C G w (NewTransaction (Some t)) = Ret True"
  shows "FilterTransaction_MinMaxBlockHeight w = Ret mmh \<Longrightarrow> sound_bounds fTnBlockHeight w mmh \<Longrightarrow>
      (fst mmh = None \<or> below (fst mmh) (trHeight t)) \<and> (snd mmh = None \<or> above (snd mmh) (trHeight t))"
    and "FilterTransaction_MinMaxIndex w = Ret mmi \<Longrightarrow> sound_bounds fTnIndex w mmi \<Longrightarrow>
      (fst mmi = None \<or> below (fst mmi) (ucast (trIndex t))) \<and> (snd mmi = None \<or> above (snd mmi) (ucast (trIndex t)))"
proof -
  note sd = minMaxAt_sound [where E = "\<lambda>p. FilterTransaction_evalFields C G p (NewTransaction (Some t))"
      and f = w and path = "[]"]
  have e: "evalFilter (\<lambda>p. FilterTransaction_evalFields C G p (NewTransaction (Some t))) w = Ret True"
    using assms by (simp add: FilterTransaction_Eval_def)
  show "FilterTransaction_MinMaxBlockHeight w = Ret mmh \<Longrightarrow> sound_bounds fTnBlockHeight w mmh \<Longrightarrow>
      (fst mmh = None \<or> below (fst mmh) (trHeight t)) \<and> (snd mmh = None \<or> above (snd mmh) (trHeight t))"
    using sd [where v = "trHeight t" and sel = fTnBlockHeight and mn = "fst mmh" and mx = "snd mmh"]
      FilterTransaction_fields_place(1) [of C G _ t] e
    by (auto simp: FilterTransaction_MinMaxBlockHeight_def sound_bounds_def Transaction_BlockHeight_def)
  show "FilterTransaction_MinMaxIndex w = Ret mmi \<Longrightarrow> sound_bounds fTnIndex w mmi \<Longrightarrow>
      (fst mmi = None \<or> below (fst mmi) (ucast (trIndex t))) \<and> (snd mmi = None \<or> above (snd mmi) (ucast (trIndex t)))"
    using sd [where v = "ucast (trIndex t)" and sel = fTnIndex and mn = "fst mmi" and mx = "snd mmi"]
      FilterTransaction_fields_place(2) [of C G _ t] e
    by (auto simp: FilterTransaction_MinMaxIndex_def sound_bounds_def Transaction_Index_def)
qed

context storage_api
begin

lemma block_iterators:
  assumes "sinv s"
  shows "\<exists>it. (if order = Some OrderDesc then s_BlockReverseIterator S s lo hi else s_BlockIterator S s lo hi) = Inr it \<and>
    binv it \<and> brest it = in_order order (block_range (sabs s) lo hi)"
  using block_iter [OF assms] block_riter [OF assms] by (auto simp: in_order_def)

lemma tx_iterators:
  assumes "sinv s"
  shows "\<exists>it. (if order = Some OrderDesc then s_TxReverseIterator S s lo hi i j else s_TxIterator S s lo hi i j) = Inr it \<and>
    tinv it \<and> trest it = in_order order (tx_range (sabs s) lo hi i j)"
  using tx_iter [OF assms] tx_riter [OF assms] by (auto simp: in_order_def)

lemma getBlocks_answer:
  assumes "sinv s" and w: "FilterBlock_no_null w" "FilterBlock_MinMaxHeight w = Ret mm" "sound_bounds fBkHeight w mm"
    and small: "\<And>n. stBlock (sabs s) n \<noteq> None \<Longrightarrow> n < maxInt64" and stop: "\<forall>n. \<not> stop n"
  shows "queryResolver_GetBlocks S C G stop s w order = Some (Ret (answer_of (map NewBlock (in_order order
    (filter (\<lambda>b. FilterBlock_Eval C G w (NewBlock b) = Ret True) (stored_blocks (sabs s)))))))"
proof -
  let ?Q = "\<lambda>b. FilterBlock_Eval C G w (NewBlock b) = Ret True"
  obtain lo hi where r: "iterRange mm = (lo, hi)" by (cases "iterRange mm")
  have hit: "lo \<le> bHeight b \<and> bHeight b < upTo64 hi" if "?Q b" "stBlock (sabs s) (bHeight b) = Some b" for b
  proof -
    have "fst mm = None \<or> below (fst mm) (bHeight b)" "snd mm = None \<or> above (snd mm) (bHeight b)"
      using FilterBlock_within [OF w(2) that(1)] w(3) by (auto simp: sound_bounds_def Block_Height_def NewBlock_def)
    from iterRange_hit [OF _ _ this] small [of "bHeight b"] that(2) w(3) r show ?thesis
      by (auto simp: sound_bounds_def)
  qed
  from block_iterators [OF assms(1)] obtain it where
    it: "(if order = Some OrderDesc then s_BlockReverseIterator S s lo hi else s_BlockIterator S s lo hi) = Inr it"
      "binv it" "brest it = in_order order (block_range (sabs s) lo hi)" by blast
  have keep: "\<forall>b \<in> set (brest it). \<forall>n. FilterBlock_Eval C G w (NewBlock b) = Ret (?Q b)"
    using FilterBlock_ret [OF w(1)] by (metis (full_types))
  have "filter ?Q (brest it) = in_order order (filter ?Q (stored_blocks (sabs s)))"
    unfolding it(3) filter_in_order by (subst block_range_filter [OF block_heights [OF assms(1)] hit]) simp_all
  then show ?thesis
    using collectBlocks_rest [of it stop "\<lambda>_. FilterBlock_Eval C G w", OF it(2) stop keep, of "[]" 0]
    by (simp add: queryResolver_GetBlocks_def w(2) liftO_def r it(1))
qed

lemma getTransactions_answer:
  assumes "sinv s" and nohash: "Option.bind (fTnHash (fFields w)) fsEq = None \<or> fOr w \<noteq> []"
    and h: "FilterTransaction_MinMaxBlockHeight w = Ret mmh" "sound_bounds fTnBlockHeight w mmh"
    and i: "FilterTransaction_MinMaxIndex w = Ret mmi" "sound_bounds fTnIndex w mmi" "small_bounds mmi"
    and small: "\<And>p. stTx (sabs s) p \<noteq> None \<Longrightarrow> tpHeight p < maxInt64 \<and> tpIndex p < maxUint32"
    and decided: "\<And>t. t \<in> set (stored_txs (sabs s)) \<Longrightarrow>
      \<exists>b. FilterTransaction_Eval C G w (NewTransaction (Some t)) = Ret b"
    and stop: "\<forall>n. \<not> stop n"
  shows "queryResolver_GetTransactions S C G stop s w order =
    Some (Ret (answer_of (map (\<lambda>t. NewTransaction (Some t)) (in_order order
      (filter (\<lambda>t. FilterTransaction_Eval C G w (NewTransaction (Some t)) = Ret True) (stored_txs (sabs s)))))))"
proof -
  let ?Q = "\<lambda>t. FilterTransaction_Eval C G w (NewTransaction (Some t)) = Ret True"
  obtain lo hi where r: "iterRange mmh = (lo, hi)" by (cases "iterRange mmh")
  obtain li hi' where ri: "iterRange32 mmi = (li, hi')" by (cases "iterRange32 mmi")
  have hit: "lo \<le> trHeight t \<and> trHeight t < upTo64 hi \<and> li \<le> trIndex t \<and> trIndex t < upTo32 hi'"
    if "?Q t" "stTx (sabs s) (tx_pos t) = Some t" for t
  proof -
    have sm: "trHeight t < maxInt64" "trIndex t < maxUint32"
      using small [of "tx_pos t"] that(2) by (auto simp: tx_pos_def)
    from iterRange_hit [of mmh "trHeight t"] sm(1) FilterTransaction_within(1) [OF that(1) h] h(2) r
    have "lo \<le> trHeight t \<and> trHeight t < upTo64 hi" by (simp add: sound_bounds_def)
    moreover from iterRange32_hit [OF i(3) sm(2)] FilterTransaction_within(2) [OF that(1) i(1,2)] ri
    have "li \<le> trIndex t \<and> trIndex t < upTo32 hi'" by simp
    ultimately show ?thesis by blast
  qed
  from tx_iterators [OF assms(1)] obtain it where
    it: "(if order = Some OrderDesc then s_TxReverseIterator S s lo hi li hi' else s_TxIterator S s lo hi li hi') = Inr it"
      "tinv it" "trest it = in_order order (tx_range (sabs s) lo hi li hi')" by blast
  have "set (trest it) \<subseteq> set (stored_txs (sabs s))"
    unfolding it(3) by (auto simp: in_order_def tx_range_def stored_txs_def)
  then have keep: "\<forall>t \<in> set (trest it). FilterTransaction_Eval C G w (NewTransaction (Some t)) = Ret (?Q t)"
    using decided by (metis (full_types) subsetD)
  have "filter ?Q (trest it) = in_order order (filter ?Q (stored_txs (sabs s)))"
    unfolding it(3) filter_in_order by (subst tx_range_filter [OF tx_places [OF assms(1)] hit]) simp_all
  then show ?thesis
    using collectTxs_rest [of it stop "FilterTransaction_Eval C G w", OF it(2) stop keep, of "[]" 0] nohash
    by (cases "Option.bind (fTnHash (fFields w)) fsEq"; cases "fOr w")
       (simp_all add: queryResolver_GetTransactions_def h(1) i(1) liftO_def r ri it(1))
qed

lemma getTransactions_hash:
  assumes "sinv s" "Option.bind (fTnHash (fFields w)) fsEq = Some k" "fOr w = []"
  shows "queryResolver_GetTransactions S C G stop s w order =
    (case Option.bind (stHash (sabs s) k) (stTx (sabs s)) of
       None \<Rightarrow> result [] (Some (gqlWrap ErrNotFound)) []
     | Some t \<Rightarrow> (case FilterTransaction_Eval C G w (NewTransaction (Some t)) of
         Panic m \<Rightarrow> Some (Panic m)
       | Ret ok \<Rightarrow> result (if ok then [NewTransaction (Some t)] else []) None []))"
  using assms
  by (simp add: queryResolver_GetTransactions_def get_tx_by_hash liftO_def split: option.split outcome.split)

end

section \<open>Properties of the queries\<close>

context pebble_store
begin

lemma history_getBlocks:
  assumes "dbv d0 = Map.empty" "store_history (pebble_storage P C) d0 d ws"
    and "FilterBlock_no_null w" "FilterBlock_MinMaxHeight w = Ret mm" "sound_bounds fBkHeight w mm"
    and "\<forall>n. stBlock (apply_writes C empty_store ws) n \<noteq> None \<longrightarrow> n < maxInt64"
  shows "queryResolver_GetBlocks (pebble_storage P C) C G (\<lambda>_. False) d w order =
    Some (Ret (answer_of (map NewBlock (in_order order
      (filter (\<lambda>b. FilterBlock_Eval C G w (NewBlock b) = Ret True)
         (stored_blocks (apply_writes C empty_store ws)))))))"
  using getBlocks_answer [of d w mm "\<lambda>_. False" G order] history_store [OF assms(1,2)] assms(3-6) by simp

lemma history_getTransactions:
  assumes "dbv d0 = Map.empty" "store_history (pebble_storage P C) d0 d ws"
    and "Option.bind (fTnHash (fFields w)) fsEq = None \<or> fOr w \<noteq> []"
    and "FilterTransaction_MinMaxBlockHeight w = Ret mmh" "sound_bounds fTnBlockHeight w mmh"
    and "FilterTransaction_MinMaxIndex w = Ret mmi" "sound_bounds fTnIndex w mmi" "small_bounds mmi"
    and "\<forall>p. stTx (apply_writes C empty_store ws) p \<noteq> None \<longrightarrow> tpHeight p < maxInt64 \<and> tpIndex p < maxUint32"
    and "\<forall>t \<in> set (stored_txs (apply_writes C empty_store ws)).
      \<exists>b. FilterTransaction_Eval C G w (NewTransaction (Some t)) = Ret b"
  shows "queryResolver_GetTransactions (pebble_storage P C) C G (\<lambda>_. False) d w order =
    Some (Ret (answer_of (map (\<lambda>t. NewTransaction (Some t)) (in_order order
      (filter (\<lambda>t. FilterTransaction_Eval C G w (NewTransaction (Some t)) = Ret True)
         (stored_txs (apply_writes C empty_store ws)))))))"
  using getTransactions_answer [of d w mmh mmi G "\<lambda>_. False" order] history_store [OF assms(1,2)] assms(3-10) by simp

lemma history_hash:
  assumes "dbv d0 = Map.empty" "store_history (pebble_storage P C) d0 d ws"
    and "Option.bind (fTnHash (fFields w)) fsEq = Some k" "fOr w = []"
  shows "queryResolver_GetTransactions (pebble_storage P C) C G stop d w order =
    (case Option.bind (stHash (apply_writes C empty_store ws) k) (stTx (apply_writes C empty_store ws)) of
       None \<Rightarrow> result [] (Some (gqlWrap ErrNotFound)) []
     | Some t \<Rightarrow> (case FilterTransaction_Eval C G w (NewTransaction (Some t)) of
         Panic m \<Rightarrow> Some (Panic m)
       | Ret ok \<Rightarrow> result (if ok then [NewTransaction (Some t)] else []) None []))"
  using getTransactions_hash [of d w k G stop order] history_store [OF assms(1,2)] assms(3,4) by simp

lemma getBlocks_range:
  assumes "dbv d0 = Map.empty" "store_history (pebble_storage P C) d0 d ws"
    and "FilterBlock_no_null w" "FilterBlock_MinMaxHeight w = Ret mm" "iterRange mm = (lo, hi)"
  shows "queryResolver_GetBlocks (pebble_storage P C) C G (\<lambda>_. False) d w None =
    Some (Ret (answer_of (map NewBlock (filter (\<lambda>b. FilterBlock_Eval C G w (NewBlock b) = Ret True)
       (block_range (apply_writes C empty_store ws) lo hi)))))"
proof -
  note st = history_store [OF assms(1,2)]
  from block_iter [OF st [THEN conjunct1], of lo hi] obtain it where
    it: "s_BlockIterator (pebble_storage P C) d lo hi = Inr it" "bi_ok C ient ipos it"
      "bi_rest C ient ipos it = block_range (apply_writes C empty_store ws) lo hi" using st by auto
  have "\<forall>b \<in> set (bi_rest C ient ipos it). \<forall>n.
      FilterBlock_Eval C G w (NewBlock b) = Ret (FilterBlock_Eval C G w (NewBlock b) = Ret True)"
    using FilterBlock_ret [OF assms(3)] by (metis (full_types))
  from collectBlocks_rest [OF it(2) _ this, of "\<lambda>_. False" "[]" 0] it(1,3) show ?thesis
    by (simp add: queryResolver_GetBlocks_def assms(4,5) liftO_def)
qed

end

text \<open>
  C7. The query \<open>getBlocks\<close> is complete and exact for the filters that bound heights as a whole: on a store with any history of batches
  on an empty database, with stored heights below the largest signed 64-bit number, for a filter
  without nil pointers whose computed height bounds are not negative and come from the filter as a whole (its own
  field, a conjunct or every alternative), and a context that is not done, the resolver ends and returns, in the order asked for, exactly the stored blocks
  the filter accepts, or the first 10000 of them with the error that says so. A bound in one alternative of
  \<open>_or\<close> is left out: there blocks are missed.
\<close>

theorem GetBlocks_exact:
  assumes "pebble_store P dbv btv ient ipos C" and "dbv d0 = Map.empty"
    and "store_history (pebble_storage P C) d0 d ws"
    and "FilterBlock_no_null w" and "FilterBlock_MinMaxHeight w = Ret mm" and "sound_bounds fBkHeight w mm"
    and "\<forall>n. stBlock (apply_writes C empty_store ws) n \<noteq> None \<longrightarrow> n < maxInt64"
  shows "queryResolver_GetBlocks (pebble_storage P C) C G (\<lambda>_. False) d w order =
    Some (Ret (answer_of (map NewBlock (in_order order
      (filter (\<lambda>b. FilterBlock_Eval C G w (NewBlock b) = Ret True)
         (stored_blocks (apply_writes C empty_store ws)))))))"
  using assms by (rule pebble_store.history_getBlocks)

lemma height_filter_bounds:
  "FilterBlock_MinMaxHeight (height_filter v) = Ret (Some (([], AtGt), v), None)"
  by (simp add: FilterBlock_MinMaxHeight_def ex_filter_defs atPaths_def minMaxField_def lowerMin_def raiseMax_def Let_def)

lemma height_filter_eval: "FilterBlock_Eval C G (height_filter v) b = Ret (v <s Block_Height b)"
  by (simp add: eval_defs ex_filter_defs signed_order not_le)

lemma ex_store:
  "stBlock (apply_writes ref_codec empty_store ex_writes) = [1 \<mapsto> ex_block 1, 2 \<mapsto> ex_block 2]"
  "stored_blocks (apply_writes ref_codec empty_store ex_writes) = [ex_block 1, ex_block 2]"
proof -
  show st: "stBlock (apply_writes ref_codec empty_store ex_writes) = [1 \<mapsto> ex_block 1, 2 \<mapsto> ex_block 2]"
    by (simp add: ex_writes_def ex_block_def mk_block_def empty_store_def)
  have "dom [1 :: u64 \<mapsto> ex_block 1, 2 \<mapsto> ex_block 2] = {1, 2}" by auto
  then show "stored_blocks (apply_writes ref_codec empty_store ex_writes) = [ex_block 1, ex_block 2]"
    by (simp add: stored_blocks_def st)
qed

theorem GetBlocks_exact_witness:
  "\<exists>d. store_history (pebble_storage ref_pebble ref_codec) [] d ex_writes \<and>
     queryResolver_GetBlocks (pebble_storage ref_pebble ref_codec) ref_codec ex_env (\<lambda>_. False) d (height_filter 1) None =
       Some (Ret (answer_of [NewBlock (ex_block 2)]))"
proof -
  from ref_store.history_exists [OF ex_writes_ok, of "[]"] obtain d where
    h: "store_history (pebble_storage ref_pebble ref_codec) [] d ex_writes" by auto
  have b: "sound_bounds fBkHeight (height_filter 1) (Some (([], AtGt), 1), None)"
    by (simp add: sound_bounds_def nonneg_bounds_def height_filter_def gt_filter_def has_lower_def)
  have n: "FilterBlock_no_null (height_filter 1)" by (simp add: FilterBlock_no_null_def ex_filter_defs)
  have s: "\<forall>n. stBlock (apply_writes ref_codec empty_store ex_writes) n \<noteq> None \<longrightarrow> n < maxInt64"
    by (simp add: ex_store)
  from GetBlocks_exact [OF ref_store.pebble_store_axioms _ h n height_filter_bounds b s, of ex_env None] h
  show ?thesis
    by (auto simp: ex_store height_filter_eval in_order_def Block_Height_def NewBlock_def ex_block_def mk_block_def
        signed_order)
qed

text \<open>
  C39. A bound in one alternative only is applied to all of them: with the filter
  \<open>{_or: [{height: {gt: 5}}, {num_txs: {lt: 1}}]}\<close> and a store that holds the empty block 3, the filter
  accepts the block, but \<open>getBlocks\<close> starts at height 5 and returns nothing.
\<close>

abbreviation "empty_block \<equiv> mk_block 3 0 []"

theorem GetBlocks_misses_open_alternative:
  "\<exists>d. store_history (pebble_storage ref_pebble ref_codec) [] d [WBlock empty_block] \<and>
     FilterBlock_Eval ref_codec ex_env or_filter (NewBlock empty_block) = Ret True \<and>
     queryResolver_GetBlocks (pebble_storage ref_pebble ref_codec) ref_codec ex_env (\<lambda>_. False) d or_filter None =
       Some (Ret \<lparr>qOut = [], qErr = None, qAdded = []\<rparr>)"
proof -
  have "\<forall>w \<in> set [WBlock empty_block]. write_ok ref_codec w" by code_simp
  from ref_store.history_exists [OF this, of "[]"] obtain d where
    h: "store_history (pebble_storage ref_pebble ref_codec) [] d [WBlock empty_block]" by auto
  have e: "FilterBlock_Eval ref_codec ex_env or_filter (NewBlock empty_block) = Ret True"
    by (simp add: eval_defs ex_filter_defs NewBlock_def Block_Height_def Block_NumTxs_def mk_block_def
        signed_order)
  have m: "FilterBlock_MinMaxHeight or_filter = Ret (Some (([1], AtGt), 5), None)"
    by (simp add: FilterBlock_MinMaxHeight_def ex_filter_defs atPaths_def minMaxField_def lowerMin_def raiseMax_def Let_def)
  have r: "iterRange (Some (([1], AtGt), 5), None) = (5, 0)" by (simp add: iterRange_def)
  have "block_range (apply_writes ref_codec empty_store [WBlock empty_block]) 5 0 = []"
    by (simp add: block_range_def empty_store_def mk_block_def)
  with ref_store.getBlocks_range [OF _ h or_filter_no_null m r, of ex_env] h e show ?thesis
    by (auto simp: answer_of_def maxElementsPerQuery_def)
qed

text \<open>
  C8. The query \<open>getTransactions\<close> is complete and exact for the filters that bound heights and indexes as a whole and do not ask for
  a hash: on a store with any history of batches on an empty database, with stored heights below the largest signed 64-bit number and stored indexes below the largest of 32 bits,
  for a filter that does not take the path of a hash (its own \<open>hash\<close> has no \<open>eq\<close>, or it has alternatives), whose computed bounds on block height
  and index come from the filter as a whole (its own field, a conjunct or every alternative) and are not negative, the bounds on the index below \<open>2^32 - 2\<close>, and which
  is decided without a panic on every stored transaction, the resolver ends and returns, in the order asked for, exactly the stored transactions the
  filter accepts, or the first 10000 of them with the error that says so; the transactions of the
  block behind the range that the iterator visits as well are rejected by the filter.
\<close>

theorem GetTransactions_exact:
  assumes "pebble_store P dbv btv ient ipos C" and "dbv d0 = Map.empty"
    and "store_history (pebble_storage P C) d0 d ws"
    and "Option.bind (fTnHash (fFields w)) fsEq = None \<or> fOr w \<noteq> []"
    and "FilterTransaction_MinMaxBlockHeight w = Ret mmh" and "sound_bounds fTnBlockHeight w mmh"
    and "FilterTransaction_MinMaxIndex w = Ret mmi" and "sound_bounds fTnIndex w mmi" and "small_bounds mmi"
    and "\<forall>p. stTx (apply_writes C empty_store ws) p \<noteq> None \<longrightarrow> tpHeight p < maxInt64 \<and> tpIndex p < maxUint32"
    and "\<forall>t \<in> set (stored_txs (apply_writes C empty_store ws)).
      \<exists>b. FilterTransaction_Eval C G w (NewTransaction (Some t)) = Ret b"
  shows "queryResolver_GetTransactions (pebble_storage P C) C G (\<lambda>_. False) d w order =
    Some (Ret (answer_of (map (\<lambda>t. NewTransaction (Some t)) (in_order order
      (filter (\<lambda>t. FilterTransaction_Eval C G w (NewTransaction (Some t)) = Ret True)
         (stored_txs (apply_writes C empty_store ws)))))))"
  using assms by (rule pebble_store.history_getTransactions)

definition no_tx_fields :: FilterTransaction_fields where
  "no_tx_fields = \<lparr>fTnIndex = None, fTnHash = None, fTnSuccess = None, fTnBlockHeight = None, fTnGasWanted = None,
     fTnGasUsed = None, fTnGasFee = None, fTnMessages = None, fTnMemo = None, fTnResponse = None\<rparr>"

definition tx_height_filter :: "i64 \<Rightarrow> FilterTransaction" where
  "tx_height_filter v = Filter [] [] None (no_tx_fields\<lparr>fTnBlockHeight := Some (gt_filter v)\<rparr>)"

lemma tx_height_filter_eval:
  "FilterTransaction_Eval C G (tx_height_filter v) (NewTransaction (Some t)) = Ret (v <s trHeight t)"
  by (simp add: FilterTransaction_Eval_def FilterTransaction_evalFields_def tx_height_filter_def no_tx_fields_def
      gt_filter_def evalLogic_def boolField_def stringField_def intField_def objField_def sliceField_def
      FilterInt_Eval_def rootEval_def NewTransaction_def Transaction_result_def Transaction_BlockHeight_def
      signed_order not_le)

lemma tx_height_filter_bounds:
  "FilterTransaction_MinMaxBlockHeight (tx_height_filter v) = Ret (Some (([], AtGt), v), None)"
  "FilterTransaction_MinMaxIndex (tx_height_filter v) = Ret (None, None)"
  by (simp_all add: FilterTransaction_MinMaxBlockHeight_def FilterTransaction_MinMaxIndex_def tx_height_filter_def
      no_tx_fields_def gt_filter_def atPaths_def minMaxField_def lowerMin_def raiseMax_def Let_def)

lemma ex_store_txs:
  "stTx (apply_writes ref_codec empty_store ex_writes) =
     [TxPos 1 0 \<mapsto> mk_result 1 0 [7], TxPos 1 1 \<mapsto> mk_result 1 1 [1, 9],
      TxPos 2 0 \<mapsto> mk_result 2 0 [8], TxPos 2 1 \<mapsto> mk_result 2 1 [2, 9]]"
  "stored_txs (apply_writes ref_codec empty_store ex_writes) =
     [mk_result 1 0 [7], mk_result 1 1 [1, 9], mk_result 2 0 [8], mk_result 2 1 [2, 9]]"
proof -
  let ?m = "[TxPos 1 0 \<mapsto> mk_result 1 0 [7], TxPos 1 1 \<mapsto> mk_result 1 1 [1, 9],
      TxPos 2 0 \<mapsto> mk_result 2 0 [8], TxPos 2 1 \<mapsto> mk_result 2 1 [2, 9]]"
  show st: "stTx (apply_writes ref_codec empty_store ex_writes) = ?m"
    by (simp add: ex_writes_def mk_result_def empty_store_def tx_pos_def)
  have "dom ?m = {TxPos 1 0, TxPos 1 1, TxPos 2 0, TxPos 2 1}" by auto
  then show "stored_txs (apply_writes ref_codec empty_store ex_writes) =
     [mk_result 1 0 [7], mk_result 1 1 [1, 9], mk_result 2 0 [8], mk_result 2 1 [2, 9]]"
    by (simp add: stored_txs_def st)
qed

theorem GetTransactions_exact_witness:
  "\<exists>d. store_history (pebble_storage ref_pebble ref_codec) [] d ex_writes \<and>
     queryResolver_GetTransactions (pebble_storage ref_pebble ref_codec) ref_codec ex_env (\<lambda>_. False) d
       (tx_height_filter 1) (Some OrderDesc) =
       Some (Ret (answer_of [NewTransaction (Some (mk_result 2 1 [2, 9])), NewTransaction (Some (mk_result 2 0 [8]))]))"
proof -
  from ref_store.history_exists [OF ex_writes_ok, of "[]"] obtain d where
    h: "store_history (pebble_storage ref_pebble ref_codec) [] d ex_writes" by auto
  have b: "sound_bounds fTnBlockHeight (tx_height_filter 1) (Some (([], AtGt), 1), None)"
    "sound_bounds fTnIndex (tx_height_filter 1) (None, None)" "small_bounds (None, None)"
    by (simp_all add: sound_bounds_def nonneg_bounds_def small_bounds_def tx_height_filter_def gt_filter_def has_lower_def)
  have n: "Option.bind (fTnHash (fFields (tx_height_filter 1))) fsEq = None \<or> fOr (tx_height_filter 1) \<noteq> []"
    by (simp add: tx_height_filter_def no_tx_fields_def)
  have s: "\<forall>p. stTx (apply_writes ref_codec empty_store ex_writes) p \<noteq> None \<longrightarrow> tpHeight p < maxInt64 \<and> tpIndex p < maxUint32"
    unfolding ex_store_txs by auto
  have e: "\<forall>t \<in> set (stored_txs (apply_writes ref_codec empty_store ex_writes)).
      \<exists>b. FilterTransaction_Eval ref_codec ex_env (tx_height_filter 1) (NewTransaction (Some t)) = Ret b"
    by (simp add: tx_height_filter_eval)
  from GetTransactions_exact [OF ref_store.pebble_store_axioms _ h n tx_height_filter_bounds(1) b(1)
      tx_height_filter_bounds(2) b(2,3) s e, of "Some OrderDesc"] h
  show ?thesis
    by (auto simp: ex_store_txs tx_height_filter_eval in_order_def mk_result_def signed_order)
qed

text \<open>
  A filter on the hash without alternatives reads one transaction by its hash instead of walking the store: the answer is the
  transaction stored under the hash if the rest of the filter accepts it, nothing if it does not, and
  the error \<open>not found\<close> if there is none.
\<close>

theorem GetTransactions_by_hash:
  assumes "pebble_store P dbv btv ient ipos C" and "dbv d0 = Map.empty"
    and "store_history (pebble_storage P C) d0 d ws"
    and "Option.bind (fTnHash (fFields w)) fsEq = Some k" and "fOr w = []"
  shows "queryResolver_GetTransactions (pebble_storage P C) C G stop d w order =
    (case Option.bind (stHash (apply_writes C empty_store ws) k) (stTx (apply_writes C empty_store ws)) of
       None \<Rightarrow> result [] (Some (gqlWrap ErrNotFound)) []
     | Some t \<Rightarrow> (case FilterTransaction_Eval C G w (NewTransaction (Some t)) of
         Panic m \<Rightarrow> Some (Panic m)
       | Ret ok \<Rightarrow> result (if ok then [NewTransaction (Some t)] else []) None []))"
  using assms by (rule pebble_store.history_hash)

definition hash_filter :: "string \<Rightarrow> FilterTransaction" where
  "hash_filter k = Filter [] [] None
     (no_tx_fields\<lparr>fTnHash := Some \<lparr>fsExists = None, fsEq = Some k, fsLike = None\<rparr>\<rparr>)"

theorem GetTransactions_by_hash_witness:
  "\<exists>d. store_history (pebble_storage ref_pebble ref_codec) [] d ex_writes \<and>
     queryResolver_GetTransactions (pebble_storage ref_pebble ref_codec) ref_codec ex_env (\<lambda>_. False) d
       (hash_filter ''none'') None = result [] (Some (gqlWrap ErrNotFound)) []"
proof -
  from ref_store.history_exists [OF ex_writes_ok, of "[]"] obtain d where
    h: "store_history (pebble_storage ref_pebble ref_codec) [] d ex_writes" by auto
  have "stHash (apply_writes ref_codec empty_store ex_writes) ''none'' = None"
    by (simp add: ex_writes_def mk_result_def empty_store_def tx_key_def ref_codec_def b64_digit_def b64_alphabet_def)
  with GetTransactions_by_hash [OF ref_store.pebble_store_axioms _ h, of "hash_filter ''none''" "''none''"] h
  show ?thesis by (auto simp: hash_filter_def)
qed

end
