(* ===== verification/Startup.thy ===== *)
theory Startup
  imports Fetch_Complete Serve_JsonRpc Graph_Queries
begin

text \<open>
  The start of the program (\<open>cmd/start.go\<close>, \<open>cmd/waiter.go\<close>, \<open>serve/server.go\<close>): its configuration, the composition of its services
  and the command that runs them. Here \<open>wait\<close>, an argument, runs the services to their end and hands back the database as they
  left it; the theory \<open>Services\<close> has the steps by which it does.
\<close>

section \<open>Configuration\<close>

definition defaultRemote :: string where "defaultRemote = ''http://127.0.0.1:26657''"
definition defaultDBPath :: string where "defaultDBPath = ''indexer-db''"
definition DefaultListenAddress :: string where "DefaultListenAddress = ''0.0.0.0:8546''"

record startCfg =
  scListenAddress :: string
  scRemote :: string
  scDbPath :: string
  scLogLevel :: string
  scMaxSlots :: int
  scMaxChunkSize :: i64
  scRateLimit :: int
  scDisableIntrospection :: bool

text \<open>The values of the flags that are not given.\<close>

definition registerFlags :: startCfg where
  "registerFlags = \<lparr>scListenAddress = DefaultListenAddress, scRemote = defaultRemote, scDbPath = defaultDBPath,
     scLogLevel = ''info'', scMaxSlots = DefaultMaxSlots, scMaxChunkSize = DefaultMaxChunkSize, scRateLimit = 0,
     scDisableIntrospection = False\<rparr>"

section \<open>The services\<close>

text \<open>
  What is started: the fetcher and the HTTP server, with the JSON-RPC table, the limit of requests per minute if there is one,
  and whether the GraphQL server describes its schema. They share the database and the event manager.
\<close>

record HTTPServer =
  hsAddr :: string

definition NewHTTPServer :: "string \<Rightarrow> HTTPServer" where
  "NewHTTPServer addr = \<lparr>hsAddr = addr\<rparr>"

record ('db, 'c) program =
  pgFetcher :: "('db, 'c) fetcher"
  pgRPC :: "'db rpc_world JSONRPC"
  pgRateLimit :: "int option"
  pgDisableIntrospection :: bool
  pgServer :: HTTPServer

definition newProgram ::
    "('db, 'bt, 'bi, 'ti) storage \<Rightarrow> codec \<Rightarrow> rpc_env \<Rightarrow> startCfg \<Rightarrow> 'db \<Rightarrow> 'c \<Rightarrow> ('db, 'c) program" where
  "newProgram S C E cfg db tm2Client = \<lparr>
     pgFetcher = Fetcher_New db tm2Client [WithLogger, WithMaxSlots (scMaxSlots cfg), WithMaxChunkSize (scMaxChunkSize cfg)],
     pgRPC = setupJSONRPC S C E,
     pgRateLimit = (if scRateLimit cfg \<noteq> 0 then Some (scRateLimit cfg) else None),
     pgDisableIntrospection = scDisableIntrospection cfg,
     pgServer = NewHTTPServer (scListenAddress cfg)\<rparr>"

section \<open>The command\<close>

text \<open>The packages the command calls: the logger, Pebble, the client of the node.\<close>

record ('db, 'it, 'c) start_env =
  seParseLevel :: "string \<Rightarrow> go_error option"
  seBuildLogger :: "go_error option"
  seHandles :: "('db, 'it) pebble_handles"
  seNewClient :: "string \<Rightarrow> go_error + 'c"
  seSync :: "go_error option"

text \<open>
  \<open>exec\<close> returns its error, and the database it closed last with the error of closing it, which is only logged. A
  database that was opened is closed by a deferred function however the command ends.
\<close>

definition startCfg_exec ::
    "('db, 'it, 'c) start_env \<Rightarrow> ('db, 'bt, 'bi, 'ti) storage \<Rightarrow> codec \<Rightarrow> rpc_env \<Rightarrow>
     (('db, 'c) program \<Rightarrow> go_error option \<times> 'db) \<Rightarrow> startCfg \<Rightarrow> go_error option \<times> ('db \<times> go_error option) option" where
  "startCfg_exec V S C E wait cfg =
     (case seParseLevel V (scLogLevel cfg) of
        Some err \<Rightarrow> (Some (ErrWrap ''unable to parse log level, %w'' [err]), None)
      | None \<Rightarrow>
          (case seBuildLogger V of
             Some err \<Rightarrow> (Some (ErrWrap ''unable to create logger, %w'' [err]), None)
           | None \<Rightarrow>
               (case NewPebble (seHandles V) (scDbPath cfg) of
                  Inl err \<Rightarrow> (Some (ErrWrap ''unable to open storage DB, %w'' [err]), None)
                | Inr db \<Rightarrow>
                    let (err, db) =
                      (case seNewClient V (scRemote cfg) of
                         Inl err \<Rightarrow> (Some (ErrWrap ''unable to create client, %w'' [err]), db)
                       | Inr tm2Client \<Rightarrow>
                           (case wait (newProgram S C E cfg db tm2Client) of
                              (err, db) \<Rightarrow> (errorsJoin [err, seSync V], db)))
                    in (err, Some (db, Pebble_Close (seHandles V) db)))))"

section \<open>What the command guarantees\<close>

lemma getBlock_endpoint:
  "map_of (jrHandlers (setupJSONRPC S C E)) ''getBlock'' = Some (read_handler (GetBlockHandler S C))"
  by (simp add: setupJSONRPC_def RegisterSubEndpoints_def RegisterBlockEndpoints_def RegisterHandler_def addHandler_def
      Let_def update_conv')

lemma error_kept: "\<exists>y. errorsJoin [Some e, s] = Some y"
  using errorsJoin_None_iff [of "[Some e, s]"] by auto

text \<open>Every database that is opened is closed, and no error of a service is lost.\<close>

lemma exec_closes_database:
  "startCfg_exec V S C E wait cfg = (err, closed) \<Longrightarrow>
    (closed = None \<longleftrightarrow> seParseLevel V (scLogLevel cfg) \<noteq> None \<or> seBuildLogger V \<noteq> None \<or> isl (NewPebble (seHandles V) (scDbPath cfg))) \<and>
    (closed = None \<longrightarrow> err \<noteq> None) \<and>
    (\<forall>db c e d. seNewClient V (scRemote cfg) = Inr c \<longrightarrow> NewPebble (seHandles V) (scDbPath cfg) = Inr db \<longrightarrow>
       wait (newProgram S C E cfg db c) = (Some e, d) \<longrightarrow> err \<noteq> None)"
  by (auto simp: startCfg_exec_def Let_def error_kept split: option.splits sum.splits prod.splits)

context pebble_fetch
begin

lemma program_serves:
  assumes cfg: "0 \<le> scMaxSlots cfg" "0 < unat (scMaxChunkSize cfg)" "heights_fit Cl (unat (scMaxChunkSize cfg))"
    and empty: "dbv db = Map.empty"
    and run: "(fetch_step (pebble_storage P C) Cl Q)\<^sup>*\<^sup>* (FetchChainData_start (pebble_storage P C) C Cl ctx f0) r" "frPhase r = Running"
      "frDone r \<longrightarrow> heedless Cl"
    and f0: "f0 = pgFetcher (newProgram (pebble_storage P C) C E cfg db c)"
    and node: "honest Cl chain reqs" "chain_ok C chain"
    and h: "Pebble_GetLatestHeight P (fStorage (frFetcher r)) = Inr h" "0 < n" "n \<le> h"
  shows "\<exists>e. marshalBlock C (chain n) = Inr e \<and>
    GetBlockHandler (pebble_storage P C) C (fStorage (frFetcher r)) [AString (show_nat (unat n))] = (VString (base64 e), None)"
proof -
  have f: "f0 = Fetcher_New db c [WithLogger, WithMaxSlots (scMaxSlots cfg), WithMaxChunkSize (scMaxChunkSize cfg)]"
    by (simp add: f0 newProgram_def)
  have "fMaxSlots f0 = scMaxSlots cfg" "fMaxChunkSize f0 = scMaxChunkSize cfg" "fStorage f0 = db"
    by (simp_all add: f Fetcher_New_def)
  moreover have "db_ok C (dbv db)" using empty by simp
  moreover have "\<exists>d0 c0 opts. f0 = Fetcher_New d0 c0 opts \<and> db_ok C (dbv d0)"
    using f \<open>db_ok C (dbv db)\<close> by blast
  ultimately have "fetch_run_of P dbv C Q Cl f0 r" "complete chain (db_store C (dbv (fStorage f0)))"
    using cfg run(1) empty by (auto simp: fetch_run_of_def complete_def latest_of_def empty_store_def)
  from run_complete [OF this(1) run(2,3) node this(2) h] have
    "Pebble_GetBlock P C (fStorage (frFetcher r)) n = Inr (chain n)" .
  moreover obtain e where "marshalBlock C (chain n) = Inr e"
    using node(2) by (auto simp: chain_ok_def dest!: spec [of _ n] not_islD)
  ultimately show ?thesis
    by (simp add: GetBlockHandler_def parseUint_show_nat PrepareValue_def block_getBlock_def pebble_storage_def)
qed

end

text \<open>
  C2. The program from its start: with any configuration that gives the fetcher slots and chunks, on an empty database and against a node that
  serves one chain, at every moment of a run of the fetcher that the program starts, while it runs and its context is not done (or the client
  answers also then), the table of the JSON-RPC server that it starts answers
  \<open>getBlock\<close> for every height up to the latest with the block of the chain, encoded with Amino in base64.
\<close>

theorem started_program_serves_chain:
  assumes "pebble_fetch P dbv btv ient ipos C Q"
    and "0 \<le> scMaxSlots cfg" and "0 < unat (scMaxChunkSize cfg)" and "heights_fit Cl (unat (scMaxChunkSize cfg))"
    and "dbv db = Map.empty" and "pg = newProgram (pebble_storage P C) C E cfg db c"
    and "(fetch_step (pebble_storage P C) Cl Q)\<^sup>*\<^sup>* (FetchChainData_start (pebble_storage P C) C Cl ctx (pgFetcher pg)) r"
    and "frPhase r = Running" and "frDone r \<longrightarrow> heedless Cl" and "honest Cl chain reqs" and "chain_ok C chain"
    and "Pebble_GetLatestHeight P (fStorage (frFetcher r)) = Inr h" and "0 < n" and "n \<le> h"
    and "rwStore w = fStorage (frFetcher r)"
  shows "\<exists>getBlock e. map_of (jrHandlers (pgRPC pg)) ''getBlock'' = Some getBlock \<and> marshalBlock C (chain n) = Inr e \<and>
    getBlock md [AString (show_nat (unat n))] w = Some (Ret ((VString (base64 e), None), w))"
  using pebble_fetch.program_serves [OF assms(1-5,7-9) _ assms(10-14), of E c] assms(6,15)
  by (auto simp: newProgram_def getBlock_endpoint read_handler_def retR_def)

text \<open>The default flags.\<close>

theorem started_program_serves_chain_witness:
  "\<forall>E md w. \<exists>(r :: (kvs, unit) fetch_run) e getBlock. frPhase r = Running \<and> Pebble_GetLatestHeight ref_pebble (fStorage (frFetcher r)) = Inr 1 \<and>
     map_of (jrHandlers (pgRPC (newProgram (pebble_storage ref_pebble ref_codec) ref_codec E registerFlags [] ()))) ''getBlock'' =
       Some getBlock \<and>
     getBlock md [AString (show_nat (unat (1 :: u64)))] (w\<lparr>rwStore := fStorage (frFetcher r)\<rparr>) =
       Some (Ret ((VString (base64 e), None), w\<lparr>rwStore := fStorage (frFetcher r)\<rparr>))"
proof (intro allI)
  fix E md and w :: "kvs rpc_world"
  let ?pg = "newProgram (pebble_storage ref_pebble ref_codec) ref_codec E registerFlags [] ()"
  have f: "pgFetcher ?pg = ex_fetcher" by (simp add: newProgram_def registerFlags_def ex_fetcher_def)
  from ex_complete_run obtain r where r: "fetch_run_of ref_pebble map_of ref_codec ref_queue ex_client ex_fetcher r"
    "frPhase r = Running" "Pebble_GetLatestHeight ref_pebble (fStorage (frFetcher r)) = Inr 1" "frDone r \<longrightarrow> heedless ex_client"
    by blast
  from r(1) obtain ctx where run: "heights_fit ex_client (unat (scMaxChunkSize registerFlags))"
    "(fetch_step ex_S ex_client ref_queue)\<^sup>*\<^sup>* (FetchChainData_start ex_S ref_codec ex_client ctx (pgFetcher ?pg)) r"
    unfolding f by (auto simp: fetch_run_of_def ex_fetcher_simps registerFlags_def DefaultMaxChunkSize_def)
  have cfg: "0 \<le> scMaxSlots registerFlags" "0 < unat (scMaxChunkSize registerFlags)" "map_of [] = Map.empty"
    by (simp_all add: registerFlags_def DefaultMaxSlots_def DefaultMaxChunkSize_def)
  from started_program_serves_chain [OF ref_fetch.pebble_fetch_axioms cfg(1,2) run(1) cfg(3) refl run(2) r(2,4) ex_honest
      ex_chain_ok r(3), of 1 "w\<lparr>rwStore := fStorage (frFetcher r)\<rparr>" md]
  obtain getBlock e where "map_of (jrHandlers (pgRPC ?pg)) ''getBlock'' = Some getBlock"
    "getBlock md [AString (show_nat (unat (1 :: u64)))] (w\<lparr>rwStore := fStorage (frFetcher r)\<rparr>) =
       Some (Ret ((VString (base64 e), None), w\<lparr>rwStore := fStorage (frFetcher r)\<rparr>))" by auto
  with r(2,3) show "\<exists>(r :: (kvs, unit) fetch_run) e getBlock. frPhase r = Running \<and> Pebble_GetLatestHeight ref_pebble (fStorage (frFetcher r)) = Inr 1 \<and>
     map_of (jrHandlers (pgRPC ?pg)) ''getBlock'' = Some getBlock \<and>
     getBlock md [AString (show_nat (unat (1 :: u64)))] (w\<lparr>rwStore := fStorage (frFetcher r)\<rparr>) =
       Some (Ret ((VString (base64 e), None), w\<lparr>rwStore := fStorage (frFetcher r)\<rparr>))"
    by (intro exI conjI) assumption+
qed

end
