(* ===== verification/Fetch_Events.thy ===== *)
theory Fetch_Events
  imports Fetch_Complete
begin

text \<open>
  What the fetcher signals: on a node that serves one chain, the events of a run are the blocks of the chain, one event for
  each block that becomes part of the index, in the order of the heights.
\<close>

section \<open>The events of a step\<close>

text \<open>The blocks of the heights from \<open>a + 1\<close> to \<open>b\<close>.\<close>

definition chain_from :: "(u64 \<Rightarrow> block) \<Rightarrow> nat \<Rightarrow> nat \<Rightarrow> block list" where
  "chain_from chain a b = map (\<lambda>k. chain (of_nat k)) [Suc a..<Suc b]"

lemma chain_from_empty [simp]: "chain_from chain a a = []"
  by (simp add: chain_from_def)

lemma chain_from_append: "a \<le> b \<Longrightarrow> b \<le> c \<Longrightarrow> chain_from chain a b @ chain_from chain b c = chain_from chain a c"
  unfolding chain_from_def map_append [symmetric] by (rule arg_cong [of _ _ "map _"]) (metis Suc_le_mono upt_add_eq_append le_add_diff_inverse)

lemma chain_from_prefix:
  assumes "a \<le> b" "chain_from chain a b = xs @ ys"
  shows "xs = chain_from chain a (a + length xs) \<and> a + length xs \<le> b"
proof -
  have "length (chain_from chain a b) = b - a" by (simp add: chain_from_def del: upt_Suc)
  with assms have l: "Suc a + length xs \<le> Suc b" by simp
  have "xs = take (length xs) (chain_from chain a b)" using assms(2) by simp
  also have "\<dots> = chain_from chain a (a + length xs)"
    using take_upt [OF l] by (simp add: chain_from_def take_map del: upt_Suc)
  finally show ?thesis using l by simp
qed

lemma chunkEvents_chain:
  assumes "chain_ok C chain"
  shows "map nbBlock (chunkEvents C i (map chain ns) rs) = map chain ns"
  using assms by (induction ns arbitrary: i) (simp_all add: chain_ok_def)

lemma slotEvents_chain:
  assumes "chain_ok C chain" "slChunk s = Some ck" "chunk_of chain True R (slRange s) ck"
    and "unat (crFrom (slRange s)) = Suc a"
  shows "map nbBlock (slotEvents C s) = chain_from chain a (unat (crTo (slRange s)))"
  using chunkEvents_chain [OF assms(1), of 0 "blockNums (crFrom (slRange s)) (crTo (slRange s))" "ckResults ck"] assms(2-4)
  by (auto simp: slotEvents_def chunk_of_def) (simp add: chain_from_def blockNums_def comp_def del: upt_Suc)

lemma slotsEvents_chain:
  assumes "chain_ok C chain" "slots_of chain True R ss" "\<forall>s \<in> set ss. slChunk s \<noteq> None" "contig (Suc a) (map slRange ss)"
  shows "map nbBlock (concat (map (slotEvents C) ss)) =
    chain_from chain a (if ss = [] then a else unat (crTo (slRange (last ss)))) \<and>
    (ss \<noteq> [] \<longrightarrow> a \<le> unat (crTo (slRange (last ss))))"
  using assms(2-4)
proof (induction ss arbitrary: a)
  case (Cons s ss)
  let ?b = "unat (crTo (slRange s))"
  from Cons.prems obtain ck where ck: "slChunk s = Some ck" "chunk_of chain True R (slRange s) ck" by (fastforce simp: slots_of_def)
  from Cons.prems(3) have c: "unat (crFrom (slRange s)) = Suc a" "Suc a \<le> ?b" "contig (Suc ?b) (map slRange ss)" by auto
  from Cons.IH [OF _ _ c(3)] Cons.prems have
    IH: "map nbBlock (concat (map (slotEvents C) ss)) = chain_from chain ?b (if ss = [] then ?b else unat (crTo (slRange (last ss))))"
      "ss \<noteq> [] \<longrightarrow> ?b \<le> unat (crTo (slRange (last ss)))" by (simp_all add: slots_of_def)
  from slotEvents_chain [OF assms(1) ck c(1)] IH c(2) chain_from_append [of a ?b _ chain] show ?case by auto
qed simp

lemma last_latest:
  assumes "\<forall>s \<in> set ss. slChunk s \<noteq> None"
  shows "unat (latest_of (apply_writes C st (concat (map (slotWrites C) ss)))) =
    (if ss = [] then unat (latest_of st) else unat (crTo (slRange (last ss))))"
  using latest_after [OF assms] by auto

text \<open>The heights that a step adds to the index are the heights of the events it signals.\<close>

definition signals_chain ::
    "('st \<Rightarrow> store) \<Rightarrow> (u64 \<Rightarrow> block) \<Rightarrow> ('st, 'c) fetch_run \<Rightarrow> ('st, 'c) fetch_run \<Rightarrow> bool" where
  "signals_chain sabs chain r r' \<longleftrightarrow>
     (let l = unat (latest_of (sabs (fStorage (frFetcher r)))); l' = unat (latest_of (sabs (fStorage (frFetcher r')))) in
      l \<le> l' \<and> map nbBlock (fEvents (frFetcher r')) = map nbBlock (fEvents (frFetcher r)) @ chain_from chain l l')"

lemma signals_same:
  "frFetcher r' = frFetcher r \<or> (fStorage (frFetcher r') = fStorage (frFetcher r) \<and> fEvents (frFetcher r') = fEvents (frFetcher r)) \<Longrightarrow>
   signals_chain sabs chain r r'"
  by (auto simp: signals_chain_def)

lemma signals_trans: "signals_chain sabs chain x y \<Longrightarrow> signals_chain sabs chain y z \<Longrightarrow> signals_chain sabs chain x z"
  by (auto simp: signals_chain_def Let_def chain_from_append)

context fetching
begin

lemma receive_signals:
  assumes inv: "fetch_inv sabs sinv sz r" and hinv: "honest_inv sabs chain True R k r" and "chain_ok C chain"
    and ch: "frChannel r = resp # rest" and h: "handleResponse S Q (frFetcher r) resp = Some (Ret (err, f))"
  shows "signals_chain sabs chain r (r\<lparr>frFetcher := f, frChannel := rest\<rparr>)"
proof -
  from received_slots [OF inv hinv ch h] obtain ss where
    ss: "slots_of chain True R ss" "\<forall>s \<in> set ss. slChunk s \<noteq> None"
      "contig (Suc (unat (latest_of (sabs (fStorage (frFetcher r)))))) (map slRange ss)"
      "sabs (fStorage f) = apply_writes C (sabs (fStorage (frFetcher r))) (concat (map (slotWrites C) ss))"
      "fEvents f = fEvents (frFetcher r) @ concat (map (slotEvents C) ss)" by blast
  have "unat (latest_of (sabs (fStorage f))) =
      (if ss = [] then unat (latest_of (sabs (fStorage (frFetcher r)))) else unat (crTo (slRange (last ss))))"
    unfolding ss(4) by (rule last_latest [OF ss(2)])
  then show ?thesis
    using slotsEvents_chain [OF assms(3) ss(1-3)] by (simp add: signals_chain_def ss(5) Let_def)
qed

text \<open>Every step keeps this, also the last one of a run: a step that ends the run signals nothing.\<close>

lemma step_signals:
  assumes step: "fetch_step S Cl Q r r'" and fit: "heights_fit Cl sz" and inv: "fetch_inv sabs sinv sz r"
    and hinv: "honest_inv sabs chain True R k r" and chain: "chain_ok C chain" and run: "frPhase r = Running"
  shows "signals_chain sabs chain r r'"
  using step
proof cases
  case (fs_tick ctx gaps f)
  have "fetcher_ok sabs sinv (frFetcher r)" "heights_fit Cl (unat (fMaxChunkSize (frFetcher r)))"
    using inv fit by (simp_all add: fetch_inv_def)
  from attempt_inv [OF this, of ctx] fs_tick show ?thesis by (intro signals_same) auto
next
  case (fs_tick_err ctx err gaps f)
  with tick_inv [OF inv fit, of ctx] show ?thesis by simp
next
  case (fs_recv resp rest f)
  from receive_signals [OF inv hinv chain fs_recv(3,4)] fs_recv(1) show ?thesis by simp
next
  case (fs_recv_err resp rest err f)
  with receive_inv [OF inv fs_recv_err(3)] show ?thesis by auto
qed (use run in \<open>auto intro: signals_same\<close>)

lemma run_signals:
  assumes "(fetch_step S Cl Q)\<^sup>*\<^sup>* r r'" "heights_fit Cl sz" "fetch_inv sabs sinv sz r" "honest_inv sabs chain True R k r"
    and "follows C Cl chain reqs rreqs True R (frDone r')" "frPhase r' = Running"
  shows "signals_chain sabs chain r r'"
  using assms(1,5,6)
proof (induction rule: rtranclp_induct)
  case base
  show ?case by (rule signals_same) simp
next
  case (step y z)
  note y = Running_back [OF step.hyps(2) step.prems(2)]
  have node: "follows C Cl chain reqs rreqs True R (frDone y)"
    using follows_before [OF step.prems(1)] done_stays_done [OF step.hyps(2)] by blast
  from reach_inv [OF step.hyps(1) assms(2) _ y] assms(3) have inv: "fetch_inv sabs sinv sz y" by blast
  from honest_reach [OF step.hyps(1) assms(2) _ y node assms(4)] assms(3) have h: "honest_inv sabs chain True R k y" by blast
  from node have "chain_ok C chain" by (simp add: follows_def)
  from signals_trans [OF step.IH [OF node y] step_signals [OF step.hyps(2) assms(2) inv h this y]] show ?case .
qed

end

section \<open>The events of a run\<close>

lemma genesis_height: "getGenesisBlock C Cl ctx c = (Inr b, c') \<Longrightarrow> bHeight b = 0"
  by (auto simp: getGenesisBlock_def zero_header_def split: prod.splits sum.splits option.splits app_state.splits)

lemma New_events: "fEvents (foldl applyOption f opts) = fEvents f"
proof -
  have "fEvents (applyOption g x) = fEvents g" for g :: "('a, 'b) fetcher" and x by (cases x) simp_all
  then show ?thesis by (induction opts arbitrary: f) simp_all
qed

context fetching
begin

text \<open>At the start the genesis block is signalled, if it is written.\<close>

lemma genesis_events:
  assumes "Fetcher_fetchGenesisData S C Cl ctx f = Ret (err, f')" and inv: "sinv (fStorage f)"
  shows "\<exists>bs. map nbBlock (fEvents f') = map nbBlock (fEvents f) @ bs \<and> length bs \<le> 1 \<and>
    (\<forall>b \<in> set bs. bHeight b = 0 \<and> stLatest (sabs (fStorage f)) = None) \<and>
    latest_of (sabs (fStorage f')) = latest_of (sabs (fStorage f))"
proof (cases "fStorage f' = fStorage f \<and> fEvents f' = fEvents f")
  case True
  then show ?thesis by (intro exI [of _ "[]"]) simp
next
  case False
  with assms(1) obtain b c c1 rs err1 where
    g: "getGenesisBlock C Cl ctx (fClient f) = (Inr b, c)" "s_GetLatestHeight S (fStorage f) = Inl err1"
    and w: "Fetcher_writeSlot S (f\<lparr>fClient := c1\<rparr>)
      \<lparr>slChunk = Some \<lparr>ckBlocks = [b], ckResults = [rs]\<rparr>, slRange = \<lparr>crFrom = 0, crTo = 0\<rparr>\<rparr> = Ret (err, f')"
    by (auto simp: Fetcher_fetchGenesisData_def bindO_Ret_iff split: sum.splits if_splits prod.splits option.splits)
  from latest [OF inv] g(2) have l: "stLatest (sabs (fStorage f)) = None" by (simp split: option.splits)
  let ?bs = "map nbBlock (chunkEvents C 0 [b] [rs])"
  have "map nbBlock (fEvents f') = map nbBlock (fEvents f) @ ?bs" "latest_of (sabs (fStorage f')) = latest_of (sabs (fStorage f))"
    using writeSlot_inv [OF w] inv l by (auto simp: latest_of_def)
  moreover have "length ?bs \<le> 1" "\<forall>x \<in> set ?bs. bHeight x = 0" using genesis_height [OF g(1)] by simp_all
  ultimately show ?thesis using l by blast
qed

end

text \<open>The latest height in the store of a fetcher, 0 when there is none.\<close>

definition indexed :: "codec \<Rightarrow> ('db \<Rightarrow> bytes \<rightharpoonup> bytes) \<Rightarrow> ('db, 'c) fetcher \<Rightarrow> nat" where
  "indexed C dbv f = unat (latest_of (db_store C (dbv (fStorage f))))"

context pebble_fetch
begin

lemma run_events:
  assumes run: "fetch_run_of P dbv C Q Cl f0 r" "frPhase r = Running" "frDone r \<longrightarrow> heedless Cl"
    and node: "honest Cl chain reqs" "chain_ok C chain"
    and start: "complete chain (db_store C (dbv (fStorage f0)))"
  shows "\<exists>genesis. map nbBlock (fEvents (frFetcher r)) = genesis @ chain_from chain (indexed C dbv f0) (indexed C dbv (frFetcher r)) \<and>
    indexed C dbv f0 \<le> indexed C dbv (frFetcher r) \<and> length genesis \<le> 1 \<and>
    (\<forall>b \<in> set genesis. bHeight b = 0 \<and> stLatest (db_store C (dbv (fStorage f0))) = None)"
proof -
  obtain ctx r0 err f' where s: "(fetch_step (pebble_storage P C) Cl Q)\<^sup>*\<^sup>* r0 r" "heights_fit Cl (unat (fMaxChunkSize f0))"
    "fetch_inv (\<lambda>d. db_store C (dbv d)) (\<lambda>d. db_ok C (dbv d)) (unat (fMaxChunkSize f0)) r0"
    "honest_inv (\<lambda>d. db_store C (dbv d)) chain True None 0 r0"
    "Fetcher_fetchGenesisData (pebble_storage P C) C Cl ctx f0 = Ret (err, f')" "frFetcher r0 = f'"
    by (rule start_honest [OF run(1,2) start [unfolded complete_iff]])
  from run(1) obtain d0 c0 opts where f0: "db_ok C (dbv d0)" "f0 = Fetcher_New d0 c0 opts" by (auto simp: fetch_run_of_def)
  have f: "fStorage f0 = d0" "fEvents f0 = []" by (simp_all add: f0(2) Fetcher_New_def Let_def New_fields New_events)
  from run_signals [OF s(1-4) follows_blocks [OF node run(3)] run(2)] genesis_events [OF s(5)] f0(1) f s(6) show ?thesis
    by (auto simp: signals_chain_def Let_def indexed_def)
qed

end

section \<open>The property\<close>

text \<open>
  C11. Every block that becomes part of the index is signalled, once and in the order of the chain: on a node that serves one chain, in every
  state in which the loop runs and the context is not done (or the client answers also then) the events signalled so far are, after the genesis block if it was written at the start, the blocks of the heights from
  the first one that was missing when the run started up to the latest height in the store.
\<close>

theorem FetchChainData_signals_chain:
  assumes "pebble_fetch P dbv btv ient ipos C Q"
    and "fetch_run_of P dbv C Q Cl f0 r" and "frPhase r = Running" and "frDone r \<longrightarrow> heedless Cl"
    and "honest Cl chain reqs" and "chain_ok C chain"
    and "complete chain (db_store C (dbv (fStorage f0)))"
  shows "\<exists>genesis. map nbBlock (fEvents (frFetcher r)) =
      genesis @ map (\<lambda>n. chain (of_nat n)) [Suc (indexed C dbv f0)..<Suc (indexed C dbv (frFetcher r))] \<and>
    indexed C dbv f0 \<le> indexed C dbv (frFetcher r) \<and> length genesis \<le> 1 \<and>
    (\<forall>b \<in> set genesis. bHeight b = 0 \<and> stLatest (db_store C (dbv (fStorage f0))) = None)"
  using pebble_fetch.run_events [OF assms] unfolding chain_from_def .

theorem FetchChainData_signals_chain_witness:
  "\<exists>r genesis. fetch_run_of ref_pebble map_of ref_codec ref_queue ex_client ex_fetcher r \<and>
     map nbBlock (fEvents (frFetcher r)) = genesis @ [mk_block 1 0 [[7]]] \<and> (\<forall>b \<in> set genesis. bHeight b = 0)"
proof -
  from ex_complete_run obtain r where r: "fetch_run_of ref_pebble map_of ref_codec ref_queue ex_client ex_fetcher r"
    "frPhase r = Running" "frDone r \<longrightarrow> heedless ex_client"
    "db_store ref_codec (map_of (fStorage (frFetcher r))) = apply_writes ref_codec empty_store (slotWrites ref_codec ex_slot)" by blast
  have i: "indexed ref_codec map_of ex_fetcher = 0" "indexed ref_codec map_of (frFetcher r) = 1"
    by (simp_all add: indexed_def ex_fetcher_simps latest_of_def empty_store_def r(4) slotWrites_def ex_resp_def ex_range_def)
  from FetchChainData_signals_chain [OF ref_fetch.pebble_fetch_axioms r(1-3) ex_honest ex_chain_ok ex_complete_start] r(1) show ?thesis
    unfolding i by (auto simp: ex_chain_def)
qed

end
