(* ===== verification/Services.thy ===== *)
theory Services
  imports Startup Fetch_Events
begin

text \<open>
  The running program: the waiter (\<open>cmd/waiter.go\<close>), which runs the services in a group of goroutines and waits for them, the HTTP
  server as such a service (\<open>serve/server.go\<close>), and the fetcher as the other; from the start of the program to the signal or the
  error that ends it.
\<close>

section \<open>Groups of goroutines\<close>

text \<open>
  A group of the package \<open>errgroup\<close>, with the context derived for it: a new one, a function started in it, a function that returned, whether the
  group has cancelled the context, and what \<open>Wait\<close> returns, if it does not block.
\<close>

record 'g errgroup =
  egWithContext :: 'g
  egGo :: "'g \<Rightarrow> 'g"
  egReturn :: "'g \<Rightarrow> go_error option \<Rightarrow> 'g"
  egDone :: "'g \<Rightarrow> bool"
  egWait :: "'g \<Rightarrow> go_error option option"

text \<open>
  The documented behaviour: the context is cancelled the first time that a function returns an error; \<open>Wait\<close> blocks until
  all functions have returned and returns the first error.
\<close>

locale error_group =
  fixes G :: "'g errgroup" and running :: "'g \<Rightarrow> nat" and first :: "'g \<Rightarrow> go_error option"
  assumes new: "running (egWithContext G) = 0" "first (egWithContext G) = None"
    and go: "running (egGo G g) = Suc (running g)" "first (egGo G g) = first g"
    and returned: "0 < running g \<Longrightarrow> running (egReturn G g err) = running g - 1"
      "0 < running g \<Longrightarrow> first (egReturn G g err) = (if first g = None then err else first g)"
    and cancels: "egDone G g \<longleftrightarrow> first g \<noteq> None"
    and waits: "egWait G g = (if running g = 0 then Some (first g) else None)"

text \<open>A group as the number of its running functions and its first error.\<close>

definition ref_group :: "(nat \<times> go_error option) errgroup" where
  "ref_group = \<lparr>egWithContext = (0, None), egGo = (\<lambda>(n, e). (Suc n, e)),
     egReturn = (\<lambda>(n, e) err. (n - 1, if e = None then err else e)), egDone = (\<lambda>(n, e). e \<noteq> None),
     egWait = (\<lambda>(n, e). if n = 0 then Some e else None)\<rparr>"

interpretation ref_group: error_group ref_group fst snd
  by unfold_locales (auto simp: ref_group_def split: prod.splits)

section \<open>The HTTP server\<close>

text \<open>\<open>http.ErrServerClosed\<close>\<close>

definition ErrServerClosed :: go_error where "ErrServerClosed = ErrMsg ''http: Server closed''"

text \<open>The goroutine that listens and the one that shuts the server down.\<close>

datatype listener = Listen | Accept | ListenerReturned
datatype shutter = AwaitDone | Shutdown | ShutterReturned

text \<open>A call of \<open>Serve\<close>: its group, its two goroutines, whether \<open>Shutdown\<close> was called, and its result.\<close>

record 'g serve_run =
  hrGroup :: 'g
  hrListener :: listener
  hrShutter :: shutter
  hrShut :: bool
  hrResult :: "go_error option option"

definition HTTPServer_Serve :: "'g errgroup \<Rightarrow> 'g serve_run" where
  "HTTPServer_Serve G = \<lparr>hrGroup = egGo G (egGo G (egWithContext G)), hrListener = Listen, hrShutter = AwaitDone,
     hrShut = False, hrResult = None\<rparr>"

text \<open>What the listening goroutine returns when \<open>faucet.Serve\<close> has returned an error.\<close>

definition served :: "go_error option \<Rightarrow> go_error option" where
  "served err = (case err of Some e \<Rightarrow> if \<not> errIs e ErrServerClosed then Some e else None | None \<Rightarrow> None)"

text \<open>
  The steps of \<open>Serve\<close>, given whether its context is done. Listening may fail. \<open>faucet.Serve\<close> returns with an error, which is
  \<open>ErrServerClosed\<close> exactly if \<open>Shutdown\<close> was called before, and it does return then; \<open>Shutdown\<close> returns nil, or an error, at the latest after its
  timeout.
\<close>

inductive serve_step :: "'g errgroup \<Rightarrow> bool \<Rightarrow> 'g serve_run \<Rightarrow> 'g serve_run \<Rightarrow> bool" for G ctxDone where
  sv_listen: "hrListener r = Listen \<Longrightarrow> serve_step G ctxDone r (r\<lparr>hrListener := Accept\<rparr>)"
| sv_listen_err: "hrListener r = Listen \<Longrightarrow>
    serve_step G ctxDone r (r\<lparr>hrGroup := egReturn G (hrGroup r) (Some err), hrListener := ListenerReturned\<rparr>)"
| sv_serve_err: "hrListener r = Accept \<Longrightarrow> \<not> hrShut r \<Longrightarrow> \<not> errIs err ErrServerClosed \<Longrightarrow>
    serve_step G ctxDone r (r\<lparr>hrGroup := egReturn G (hrGroup r) (served (Some err)), hrListener := ListenerReturned\<rparr>)"
| sv_serve_closed: "hrListener r = Accept \<Longrightarrow> hrShut r \<Longrightarrow>
    serve_step G ctxDone r (r\<lparr>hrGroup := egReturn G (hrGroup r) (served (Some ErrServerClosed)), hrListener := ListenerReturned\<rparr>)"
| sv_shutdown: "hrShutter r = AwaitDone \<Longrightarrow> ctxDone \<or> egDone G (hrGroup r) \<Longrightarrow>
    serve_step G ctxDone r (r\<lparr>hrShutter := Shutdown, hrShut := True\<rparr>)"
| sv_shut: "hrShutter r = Shutdown \<Longrightarrow>
    serve_step G ctxDone r (r\<lparr>hrGroup := egReturn G (hrGroup r) err, hrShutter := ShutterReturned\<rparr>)"
| sv_wait: "hrResult r = None \<Longrightarrow> egWait G (hrGroup r) = Some res \<Longrightarrow>
    serve_step G ctxDone r (r\<lparr>hrResult := Some res\<rparr>)"

section \<open>The waiter\<close>

text \<open>
  A waiter: whether its context is done (its parent's or by one of the signals it was created with), and the functions to
  run.
\<close>

record 'f waiter =
  wCtxDone :: bool
  wFns :: "'f list"

definition newWaiter :: "bool \<Rightarrow> 'f waiter" where
  "newWaiter parentDone = \<lparr>wCtxDone = parentDone, wFns = []\<rparr>"

definition waiter_add :: "'f waiter \<Rightarrow> 'f list \<Rightarrow> 'f waiter" where
  "waiter_add w fns = w\<lparr>wFns := wFns w @ fns\<rparr>"

text \<open>
  A call of \<open>wait\<close>: the waiter, whose functions are now at work, the group, whether the goroutine that cancels the context has
  returned, what each function has returned, and the result.
\<close>

record ('f, 'g) wait_run =
  wrWaiter :: "'f waiter"
  wrGroup :: 'g
  wrCanceller :: bool
  wrBack :: "go_error option option list"
  wrSignalled :: bool
  wrResult :: "go_error option option"

definition waiter_wait :: "'g errgroup \<Rightarrow> 'f waiter \<Rightarrow> ('f, 'g) wait_run" where
  "waiter_wait G w = \<lparr>wrWaiter = w, wrGroup = (egGo G ^^ Suc (length (wFns w))) (egWithContext G), wrCanceller = False,
     wrBack = replicate (length (wFns w)) None, wrSignalled = wCtxDone w, wrResult = None\<rparr>"

text \<open>
  The steps: the signal; the goroutine that cancels; a step of a function, given whether the context of the group is done; a function that
  has its result and returns; and the end. The functions are given by their steps and their results.
\<close>

definition group_done :: "'g errgroup \<Rightarrow> ('f, 'g) wait_run \<Rightarrow> bool" where
  "group_done G r \<longleftrightarrow> wCtxDone (wrWaiter r) \<or> egDone G (wrGroup r)"

inductive wait_step ::
    "'g errgroup \<Rightarrow> (bool \<Rightarrow> 'f \<Rightarrow> 'f \<Rightarrow> bool) \<Rightarrow> ('f \<Rightarrow> go_error option option) \<Rightarrow>
     ('f, 'g) wait_run \<Rightarrow> ('f, 'g) wait_run \<Rightarrow> bool" for G fstep fres where
  wt_signal: "wait_step G fstep fres r (r\<lparr>wrWaiter := (wrWaiter r)\<lparr>wCtxDone := True\<rparr>, wrSignalled := True\<rparr>)"
| wt_cancel: "\<not> wrCanceller r \<Longrightarrow> group_done G r \<Longrightarrow>
    wait_step G fstep fres r (r\<lparr>wrWaiter := (wrWaiter r)\<lparr>wCtxDone := True\<rparr>,
      wrGroup := egReturn G (wrGroup r) None, wrCanceller := True\<rparr>)"
| wt_work: "i < length (wFns (wrWaiter r)) \<Longrightarrow> fstep (group_done G r) (wFns (wrWaiter r) ! i) f \<Longrightarrow>
    wait_step G fstep fres r (r\<lparr>wrWaiter := (wrWaiter r)\<lparr>wFns := (wFns (wrWaiter r))[i := f]\<rparr>\<rparr>)"
| wt_return: "i < length (wFns (wrWaiter r)) \<Longrightarrow> wrBack r ! i = None \<Longrightarrow> fres (wFns (wrWaiter r) ! i) = Some err \<Longrightarrow>
    wait_step G fstep fres r (r\<lparr>wrGroup := egReturn G (wrGroup r) err, wrBack := (wrBack r)[i := Some err]\<rparr>)"
| wt_wait: "wrResult r = None \<Longrightarrow> egWait G (wrGroup r) = Some res \<Longrightarrow>
    wait_step G fstep fres r (r\<lparr>wrResult := Some res\<rparr>)"

section \<open>How a call of wait ends\<close>

definition out :: "go_error option option list \<Rightarrow> nat" where
  "out bs = length (filter (\<lambda>b. b = None) bs)"

lemma out_update: "i < length bs \<Longrightarrow> bs ! i = None \<Longrightarrow> out bs = Suc (out (bs[i := Some e]))"
proof (induction bs arbitrary: i)
  case (Cons b bs)
  then show ?case by (cases i) (auto simp: out_def)
qed simp

lemma set_update_None:
  assumes "i < length bs" "bs ! i = None" "x \<noteq> None"
  shows "x \<in> set (bs[i := Some e]) \<longleftrightarrow> x = Some e \<or> x \<in> set bs"
proof -
  have "set bs = set (take i bs) \<union> set (drop (Suc i) bs) \<union> {None}"
    using id_take_nth_drop [OF assms(1)] assms(2) by (metis list.simps(15) set_append sup_assoc sup_commute insert_is_Un)
  with assms show ?thesis by (auto simp: upd_conv_take_nth_drop)
qed

lemma out_0: "out bs = 0 \<longleftrightarrow> None \<notin> set bs"
  by (induction bs) (auto simp: out_def)

text \<open>
  The invariant: the group counts what has not returned; its first error is one of the errors returned, and is there when there is
  any; the context is done only from outside or after an error; and the result is the first error, when all have returned.
\<close>

context error_group
begin

definition wait_inv :: "('f, 'g) wait_run \<Rightarrow> bool" where
  "wait_inv r \<longleftrightarrow> length (wrBack r) = length (wFns (wrWaiter r)) \<and>
     running (wrGroup r) = (if wrCanceller r then 0 else 1) + out (wrBack r) \<and>
     (\<forall>e. Some (Some e) \<in> set (wrBack r) \<longrightarrow> first (wrGroup r) \<noteq> None) \<and>
     (\<forall>e. first (wrGroup r) = Some e \<longrightarrow> Some (Some e) \<in> set (wrBack r)) \<and>
     (wCtxDone (wrWaiter r) \<longrightarrow> wrSignalled r \<or> first (wrGroup r) \<noteq> None) \<and> (wrSignalled r \<longrightarrow> wCtxDone (wrWaiter r)) \<and>
     (wrCanceller r \<longrightarrow> wCtxDone (wrWaiter r)) \<and>
     (\<forall>res. wrResult r = Some res \<longrightarrow> wrCanceller r \<and> out (wrBack r) = 0 \<and> res = first (wrGroup r))"

lemma group_goes: "running ((egGo G ^^ n) (egWithContext G)) = n" "first ((egGo G ^^ n) (egWithContext G)) = None"
  by (induction n) (simp_all add: new go)

lemma wait_start: "wait_inv (waiter_wait G w)"
  by (auto simp: wait_inv_def waiter_wait_def group_goes out_def go)

lemma wait_step_inv: "wait_step G fstep fres r r' \<Longrightarrow> wait_inv r \<Longrightarrow> wait_inv r'"
proof (induction rule: wait_step.induct)
  case (wt_signal r)
  then show ?case by (auto simp: wait_inv_def)
next
  case (wt_cancel r)
  then have pos: "0 < running (wrGroup r)" by (simp add: wait_inv_def)
  from wt_cancel show ?case
    by (auto simp: wait_inv_def returned [OF pos] group_done_def cancels)
next
  case (wt_work i r f)
  then show ?case by (simp add: wait_inv_def)
next
  case (wt_return i r err)
  then have i: "i < length (wrBack r)" by (simp add: wait_inv_def)
  note u = out_update [OF i wt_return(2), of err]
  with wt_return have pos: "0 < running (wrGroup r)" by (simp add: wait_inv_def)
  note mem = set_update_None [OF i wt_return(2)]
  from wt_return u show ?case
    by (cases err) (auto simp: wait_inv_def returned [OF pos] mem split: option.splits)
next
  case (wt_wait r res)
  then show ?case by (auto simp: wait_inv_def waits split: if_splits)
qed

lemma wait_reach_inv: "(wait_step G fstep fres)\<^sup>*\<^sup>* (waiter_wait G w) r \<Longrightarrow> wait_inv r"
  by (induction rule: rtranclp_induct) (auto intro: wait_start wait_step_inv)

text \<open>
  Once the context of the group is done it stays done; and if every function that is still at work can then come to its
  result, so can \<open>wait\<close>.
\<close>

lemma done_stays:
  "wait_step G fstep fres r r' \<Longrightarrow> wait_inv r \<Longrightarrow> group_done G r \<Longrightarrow> group_done G r'"
proof (induction rule: wait_step.induct)
  case (wt_return i r err)
  then have "0 < running (wrGroup r)" using out_update [of i "wrBack r" err] by (simp add: wait_inv_def)
  from returned(2) [OF this] wt_return show ?case by (auto simp: group_done_def cancels)
qed (auto simp: group_done_def)

lemma fn_finishes:
  assumes "(fstep True)\<^sup>*\<^sup>* f f'" "i < length (wFns (wrWaiter r))" "wFns (wrWaiter r) ! i = f" "group_done G r"
  shows "(wait_step G fstep fres)\<^sup>*\<^sup>* r (r\<lparr>wrWaiter := (wrWaiter r)\<lparr>wFns := (wFns (wrWaiter r))[i := f']\<rparr>\<rparr>)"
  using assms(1)
proof (induction rule: rtranclp_induct)
  case base
  obtain d fs where w: "wrWaiter r = \<lparr>wCtxDone = d, wFns = fs\<rparr>" by (cases "wrWaiter r") simp
  then have "r\<lparr>wrWaiter := (wrWaiter r)\<lparr>wFns := (wFns (wrWaiter r))[i := f]\<rparr>\<rparr> = r"
    using assms(3) by (cases r) auto
  then show ?case by simp
next
  case (step y z)
  let ?y = "r\<lparr>wrWaiter := (wrWaiter r)\<lparr>wFns := (wFns (wrWaiter r))[i := y]\<rparr>\<rparr>"
  have "group_done G ?y" using assms(4) by (simp add: group_done_def)
  then have "wait_step G fstep fres ?y (?y\<lparr>wrWaiter := (wrWaiter ?y)\<lparr>wFns := (wFns (wrWaiter ?y))[i := z]\<rparr>\<rparr>)"
    using assms(2) step.hyps(2) by (intro wt_work) simp_all
  with step.IH show ?case by (simp add: rtranclp.rtrancl_into_rtrancl)
qed

definition can_finish :: "(bool \<Rightarrow> 'f \<Rightarrow> 'f \<Rightarrow> bool) \<Rightarrow> ('f \<Rightarrow> go_error option option) \<Rightarrow> 'f \<Rightarrow> bool" where
  "can_finish fstep fres f \<longleftrightarrow> (\<exists>f'. (fstep True)\<^sup>*\<^sup>* f f' \<and> fres f' \<noteq> None)"

lemma all_return:
  assumes "wait_inv r" "group_done G r"
    and "\<forall>i < length (wFns (wrWaiter r)). wrBack r ! i = None \<longrightarrow> can_finish fstep fres (wFns (wrWaiter r) ! i)"
  shows "\<exists>r'. (wait_step G fstep fres)\<^sup>*\<^sup>* r r' \<and> out (wrBack r') = 0"
  using assms
proof (induction "out (wrBack r)" arbitrary: r)
  case 0
  then show ?case by auto
next
  case (Suc n)
  then have "None \<in> set (wrBack r)" using out_0 [of "wrBack r"] by auto
  then obtain i where i: "i < length (wFns (wrWaiter r))" "wrBack r ! i = None"
    using Suc.prems(1) by (auto simp: in_set_conv_nth wait_inv_def)
  with Suc.prems(3) obtain f' err where f': "(fstep True)\<^sup>*\<^sup>* (wFns (wrWaiter r) ! i) f'" "fres f' = Some err"
    by (auto simp: can_finish_def)
  let ?y = "r\<lparr>wrWaiter := (wrWaiter r)\<lparr>wFns := (wFns (wrWaiter r))[i := f']\<rparr>\<rparr>"
  let ?z = "?y\<lparr>wrGroup := egReturn G (wrGroup ?y) err, wrBack := (wrBack ?y)[i := Some err]\<rparr>"
  have "wait_step G fstep fres ?y ?z" by (rule wt_return) (use i f'(2) in simp_all)
  with fn_finishes [where r = r and i = i and f = "wFns (wrWaiter r) ! i" and fstep = fstep and f' = f', OF f'(1) i(1) refl Suc.prems(2), of fres] have z: "(wait_step G fstep fres)\<^sup>*\<^sup>* r ?z" by (rule rtranclp.rtrancl_into_rtrancl)
  have zi: "wait_inv ?z \<and> group_done G ?z" using z
    by (induction rule: rtranclp_induct) (use Suc.prems(1,2) wait_step_inv done_stays in blast)+
  have "i < length (wrBack r)" using i(1) Suc.prems(1) by (simp add: wait_inv_def)
  from out_update [OF this i(2), of err] Suc.hyps(2) have "n = out (wrBack ?z)" by simp
  moreover have "\<forall>j < length (wFns (wrWaiter ?z)). wrBack ?z ! j = None \<longrightarrow> can_finish fstep fres (wFns (wrWaiter ?z) ! j)"
    using Suc.prems(3) \<open>i < length (wrBack r)\<close> by (auto simp: nth_list_update)
  ultimately obtain r' where "(wait_step G fstep fres)\<^sup>*\<^sup>* ?z r'" "out (wrBack r') = 0" using Suc.hyps(1) zi by blast
  with z show ?case by (meson rtranclp_trans)
qed

lemma wait_finishes:
  assumes "wait_inv r" "group_done G r"
    and "\<forall>i < length (wFns (wrWaiter r)). wrBack r ! i = None \<longrightarrow> can_finish fstep fres (wFns (wrWaiter r) ! i)"
  shows "\<exists>r'. (wait_step G fstep fres)\<^sup>*\<^sup>* r r' \<and> wrResult r' \<noteq> None"
proof -
  from all_return [OF assms] obtain y where y: "(wait_step G fstep fres)\<^sup>*\<^sup>* r y" "out (wrBack y) = 0" by blast
  have yi: "wait_inv y \<and> group_done G y" using y(1)
    by (induction rule: rtranclp_induct) (use assms(1,2) wait_step_inv done_stays in blast)+
  have "\<exists>z. (wait_step G fstep fres)\<^sup>*\<^sup>* y z \<and> wait_inv z \<and> out (wrBack z) = 0 \<and> wrCanceller z"
  proof (cases "wrCanceller y")
    case False
    let ?z = "y\<lparr>wrWaiter := (wrWaiter y)\<lparr>wCtxDone := True\<rparr>, wrGroup := egReturn G (wrGroup y) None, wrCanceller := True\<rparr>"
    have "wait_step G fstep fres y ?z" using False yi by (intro wt_cancel) simp_all
    with wait_step_inv yi y(2) show ?thesis by (intro exI [of _ ?z]) auto
  qed (use yi y(2) in blast)
  then obtain z where z: "(wait_step G fstep fres)\<^sup>*\<^sup>* y z" "wait_inv z" "out (wrBack z) = 0" "wrCanceller z" by blast
  have "\<exists>r'. (wait_step G fstep fres)\<^sup>*\<^sup>* z r' \<and> wrResult r' \<noteq> None"
  proof (cases "wrResult z")
    case None
    have "egWait G (wrGroup z) = Some (first (wrGroup z))" using z(2-4) by (simp add: waits wait_inv_def)
    from wt_wait [OF None this, of fstep fres] show ?thesis
      by (intro exI [of _ "z\<lparr>wrResult := Some (first (wrGroup z))\<rparr>"]) (simp add: r_into_rtranclp)
  qed auto
  with y(1) z(1) show ?thesis by (meson rtranclp_trans)
qed

end

section \<open>How the HTTP server ends\<close>

context error_group
begin

text \<open>
  The goroutines that have not returned are counted by the group; the server is shut down only when the context is done or after an
  error; and it returns without an error only if it was shut down.
\<close>

definition serve_inv :: "bool \<Rightarrow> 'g serve_run \<Rightarrow> bool" where
  "serve_inv d r \<longleftrightarrow>
     running (hrGroup r) = (if hrListener r = ListenerReturned then 0 else 1) + (if hrShutter r = ShutterReturned then 0 else 1) \<and>
     (hrShut r \<longleftrightarrow> hrShutter r \<noteq> AwaitDone) \<and> (hrShut r \<longrightarrow> d \<or> first (hrGroup r) \<noteq> None) \<and>
     (hrListener r = ListenerReturned \<longrightarrow> hrShut r \<or> first (hrGroup r) \<noteq> None) \<and>
     (\<forall>res. hrResult r = Some res \<longrightarrow> hrListener r = ListenerReturned \<and> hrShutter r = ShutterReturned \<and> res = first (hrGroup r))"

lemma serve_start: "serve_inv d (HTTPServer_Serve G)"
  by (simp add: serve_inv_def HTTPServer_Serve_def new go)

lemma serve_inv_mono: "serve_inv d r \<Longrightarrow> (d \<longrightarrow> d') \<Longrightarrow> serve_inv d' r"
  by (auto simp: serve_inv_def)

lemma serve_step_inv: "serve_step G d r r' \<Longrightarrow> serve_inv d r \<Longrightarrow> serve_inv d r'"
proof (induction rule: serve_step.induct)
  case (sv_listen_err r err)
  then have "0 < running (hrGroup r)" by (simp add: serve_inv_def)
  with sv_listen_err show ?case by (auto simp: serve_inv_def returned)
next
  case (sv_serve_err r err)
  then have "0 < running (hrGroup r)" by (simp add: serve_inv_def)
  with sv_serve_err show ?case by (auto simp: serve_inv_def returned served_def)
next
  case (sv_serve_closed r)
  then have "0 < running (hrGroup r)" by (simp add: serve_inv_def)
  with sv_serve_closed show ?case by (auto simp: serve_inv_def returned served_def)
next
  case (sv_shut r err)
  then have "0 < running (hrGroup r)" by (simp add: serve_inv_def)
  with sv_shut show ?case by (auto simp: serve_inv_def returned)
qed (auto simp: serve_inv_def cancels waits split: if_splits)

lemma serve_nil: "serve_inv d r \<Longrightarrow> hrResult r = Some None \<Longrightarrow> d"
  by (auto simp: serve_inv_def)

lemma serve_finishes:
  assumes "serve_inv True r"
  shows "can_finish (serve_step G) hrResult r"
proof -
  have steps: "serve_inv True r'" if "(serve_step G True)\<^sup>*\<^sup>* x r'" "serve_inv True x" for x r'
    using that by (induction rule: rtranclp_induct) (auto intro: serve_step_inv)
  have shut: "\<exists>r'. (serve_step G True)\<^sup>*\<^sup>* x r' \<and> hrShutter r' = ShutterReturned" for x
  proof -
    have fin: "\<exists>r'. (serve_step G True)\<^sup>*\<^sup>* y r' \<and> hrShutter r' = ShutterReturned" if "hrShutter y = Shutdown" for y
      using sv_shut [OF that, of G True None]
      by (intro exI [of _ "y\<lparr>hrGroup := egReturn G (hrGroup y) None, hrShutter := ShutterReturned\<rparr>"]) (simp add: r_into_rtranclp)
    show ?thesis
    proof (cases "hrShutter x")
      case AwaitDone
      have "serve_step G True x (x\<lparr>hrShutter := Shutdown, hrShut := True\<rparr>)" using AwaitDone by (rule sv_shutdown) simp
      with fin [of "x\<lparr>hrShutter := Shutdown, hrShut := True\<rparr>"] show ?thesis
        by (auto intro: converse_rtranclp_into_rtranclp)
    qed (use fin in auto)
  qed
  have listen: "\<exists>r'. (serve_step G True)\<^sup>*\<^sup>* x r' \<and> hrShutter r' = ShutterReturned \<and> hrListener r' = ListenerReturned"
    if x: "hrShutter x = ShutterReturned" "serve_inv True x" for x
  proof -
    have fin: "\<exists>r'. (serve_step G True)\<^sup>*\<^sup>* y r' \<and> hrShutter r' = ShutterReturned \<and> hrListener r' = ListenerReturned"
      if "hrListener y = Accept" "hrShut y" "hrShutter y = ShutterReturned" for y
      using sv_serve_closed [OF that(1,2), of G True] that(3)
      by (intro exI [of _ "y\<lparr>hrGroup := egReturn G (hrGroup y) (served (Some ErrServerClosed)), hrListener := ListenerReturned\<rparr>"])
         (simp add: r_into_rtranclp)
    have s: "hrShut x" using x by (simp add: serve_inv_def)
    show ?thesis
    proof (cases "hrListener x")
      case Listen
      from sv_listen [OF this] have "serve_step G True x (x\<lparr>hrListener := Accept\<rparr>)" .
      with fin [of "x\<lparr>hrListener := Accept\<rparr>"] s x(1) show ?thesis by (auto intro: converse_rtranclp_into_rtranclp)
    qed (use fin s x(1) in auto)
  qed
  from shut obtain y where y: "(serve_step G True)\<^sup>*\<^sup>* r y" "hrShutter y = ShutterReturned" by blast
  from listen [OF y(2) steps [OF y(1) assms]] obtain z where
    z: "(serve_step G True)\<^sup>*\<^sup>* y z" "hrShutter z = ShutterReturned" "hrListener z = ListenerReturned" by blast
  with steps [OF z(1) steps [OF y(1) assms]] have w: "egWait G (hrGroup z) = Some (first (hrGroup z))"
    by (simp add: serve_inv_def waits)
  have "\<exists>r'. (serve_step G True)\<^sup>*\<^sup>* z r' \<and> hrResult r' \<noteq> None"
  proof (cases "hrResult z")
    case None
    from sv_wait [OF None w, of True] show ?thesis
      by (intro exI [of _ "z\<lparr>hrResult := Some (first (hrGroup z))\<rparr>"]) (simp add: r_into_rtranclp)
  qed auto
  with y(1) z(1) show ?thesis unfolding can_finish_def by (meson rtranclp_trans)
qed

end

section \<open>The program\<close>

text \<open>The two services that the command adds to the waiter.\<close>

datatype ('db, 'c, 'g) service = SvFetch "('db, 'c) fetch_run" | SvServe "'g serve_run"

text \<open>The fetcher's context is that of the group: the fetcher and its workers see that it is done only when it is.\<close>

fun service_step ::
    "('db, 'wb, 'bi, 'ti) storage \<Rightarrow> ('c, 'b) client \<Rightarrow> slot_queue \<Rightarrow> 'g errgroup \<Rightarrow> bool \<Rightarrow>
     ('db, 'c, 'g) service \<Rightarrow> ('db, 'c, 'g) service \<Rightarrow> bool" where
  "service_step S Cl Q G d (SvFetch r) (SvFetch r') =
     (fetch_step S Cl Q r r' \<and> (frDone r' \<longrightarrow> d))"
| "service_step S Cl Q G d (SvServe h) (SvServe h') = serve_step G d h h'"
| "service_step S Cl Q G d _ _ = False"

fun service_result :: "('db, 'c, 'g) service \<Rightarrow> go_error option option" where
  "service_result (SvFetch r) = (case frPhase r of fetch_phase.Returned err \<Rightarrow> Some err | _ \<Rightarrow> None)"
| "service_result (SvServe h) = hrResult h"

definition startCfg_services ::
    "('db, 'wb, 'bi, 'ti) storage \<Rightarrow> codec \<Rightarrow> ('c, 'b) client \<Rightarrow> 'c ctx \<Rightarrow> 'g errgroup \<Rightarrow> bool \<Rightarrow> ('db, 'c) program \<Rightarrow>
     (('db, 'c, 'g) service, 'g) wait_run" where
  "startCfg_services S C Cl ctx G parentDone pg =
     (let w = newWaiter parentDone;
          w = waiter_add w [SvFetch (FetchChainData_start S C Cl ctx (pgFetcher pg))];
          w = waiter_add w [SvServe (HTTPServer_Serve G)]
      in waiter_wait G w)"

lemma service_step_cases:
  "service_step S Cl Q G d (SvFetch r) f' \<longleftrightarrow> (\<exists>r'. f' = SvFetch r' \<and> fetch_step S Cl Q r r' \<and> (frDone r' \<longrightarrow> d))"
  "service_step S Cl Q G d (SvServe h) f' \<longleftrightarrow> (\<exists>h'. f' = SvServe h' \<and> serve_step G d h h')"
  by (cases f'; simp)+

text \<open>A configuration that gives the fetcher slots and chunks which the heights of the node leave room for.\<close>

definition config_ok :: "('c, 'b) client \<Rightarrow> startCfg \<Rightarrow> bool" where
  "config_ok Cl cfg \<longleftrightarrow> 0 \<le> scMaxSlots cfg \<and> 0 < unat (scMaxChunkSize cfg) \<and> heights_fit Cl (unat (scMaxChunkSize cfg))"

text \<open>The assumptions on the packages of the running program, together.\<close>

locale program_packages = pebble_fetch P dbv btv ient ipos C Q + error_group G running first
  for P :: "('db, 'bt, 'it) pebble" and dbv and btv and ient and ipos and C and Q
    and G :: "'g errgroup" and running and first

interpretation ref_program: program_packages ref_pebble map_of "\<lambda>b. b" fst snd ref_codec ref_queue ref_group fst snd
  by unfold_locales

context program_packages
begin

abbreviation "prog_step Cl \<equiv> wait_step G (service_step (pebble_storage P C) Cl Q G) service_result"

text \<open>
  What holds in every state of the program: the services are the fetcher, in a state of a run of its own, and the HTTP server; a service that
  stopped without an error was told to.
\<close>

definition prog_inv :: "('c, 'b) client \<Rightarrow> 'c ctx \<Rightarrow> ('db, 'c) fetcher \<Rightarrow> (('db, 'c, 'g) service, 'g) wait_run \<Rightarrow> bool" where
  "prog_inv Cl ctx f0 r \<longleftrightarrow> (\<exists>fr h. wFns (wrWaiter r) = [SvFetch fr, SvServe h] \<and>
     (fetch_step (pebble_storage P C) Cl Q)\<^sup>*\<^sup>* (FetchChainData_start (pebble_storage P C) C Cl ctx f0) fr \<and>
     serve_inv (group_done G r) h \<and> (frPhase fr = fetch_phase.Returned None \<longrightarrow> frDone fr) \<and> (frDone fr \<longrightarrow> group_done G r))"

lemma prog_start:
  "wait_inv (startCfg_services (pebble_storage P C) C Cl ctx G d pg) \<and>
   prog_inv Cl ctx (pgFetcher pg) (startCfg_services (pebble_storage P C) C Cl ctx G d pg)"
proof -
  have "frPhase (FetchChainData_start (pebble_storage P C) C Cl ctx f0) \<noteq> fetch_phase.Returned None \<and>
      \<not> frDone (FetchChainData_start (pebble_storage P C) C Cl ctx f0)" for f0
    by (simp add: FetchChainData_start_def split: outcome.splits prod.splits)
  then have "prog_inv Cl ctx (pgFetcher pg) (startCfg_services (pebble_storage P C) C Cl ctx G d pg)"
    by (simp add: startCfg_services_def Let_def prog_inv_def newWaiter_def waiter_add_def waiter_wait_def serve_start)
  then show ?thesis by (simp add: startCfg_services_def Let_def wait_start)
qed

lemma fetch_returned_done:
  "fetch_step S Cl Q r r' \<Longrightarrow> (frPhase r = fetch_phase.Returned None \<longrightarrow> frDone r) \<Longrightarrow>
   frPhase r' = fetch_phase.Returned None \<longrightarrow> frDone r'"
  by (induction rule: fetch_step.induct) auto

lemma prog_step_inv:
  assumes step: "prog_step Cl r r'" and "wait_inv r" "prog_inv Cl ctx f0 r"
  shows "wait_inv r' \<and> prog_inv Cl ctx f0 r'"
proof -
  from assms(3) obtain fr h where
    f: "wFns (wrWaiter r) = [SvFetch fr, SvServe h]" "(fetch_step (pebble_storage P C) Cl Q)\<^sup>*\<^sup>* (FetchChainData_start (pebble_storage P C) C Cl ctx f0) fr"
      "serve_inv (group_done G r) h" "frPhase fr = fetch_phase.Returned None \<longrightarrow> frDone fr" "frDone fr \<longrightarrow> group_done G r" by (auto simp: prog_inv_def)
  have dn: "group_done G r \<longrightarrow> group_done G r'" using done_stays [OF step assms(2)] by blast
  have same: "prog_inv Cl ctx f0 r'" if "wFns (wrWaiter r') = wFns (wrWaiter r)"
    using that f dn serve_inv_mono [OF f(3) dn] by (auto simp: prog_inv_def)
  have "prog_inv Cl ctx f0 r'"
    using step
  proof cases
    case (wt_work i g)
    from wt_work(2) f(1) have "i = 0 \<or> i = 1" by auto
    then show ?thesis
    proof
      assume i: "i = 0"
      with wt_work(3) f(1) obtain fr' where g: "g = SvFetch fr'" "fetch_step (pebble_storage P C) Cl Q fr fr'"
        "frDone fr' \<longrightarrow> group_done G r"
        by (auto simp: service_step_cases)
      note fetch_returned_done [OF g(2) f(4)]
      with g f dn serve_inv_mono [OF f(3) dn] i show ?thesis
        by (auto simp: prog_inv_def wt_work(1) group_done_def intro: rtranclp.rtrancl_into_rtrancl)
    next
      assume i: "i = 1"
      with wt_work(3) f(1) obtain h' where g: "g = SvServe h'" "serve_step G (group_done G r) h h'"
        by (auto simp: service_step_cases)
      from serve_step_inv [OF g(2) f(3)] g(1) f i show ?thesis by (auto simp: prog_inv_def wt_work(1) group_done_def)
    qed
  qed (use same in simp_all)
  with wait_step_inv [OF step assms(2)] show ?thesis by blast
qed

lemma prog_reach:
  assumes "(prog_step Cl)\<^sup>*\<^sup>* (startCfg_services (pebble_storage P C) C Cl ctx G d pg) r"
  shows "wait_inv r \<and> prog_inv Cl ctx (pgFetcher pg) r"
  using assms by (induction rule: rtranclp_induct) (use prog_start prog_step_inv in blast)+

text \<open>The fetcher can stop when it is told to, unless it has crashed.\<close>

lemma fetch_finishes:
  assumes "\<forall>m. frPhase fr \<noteq> Crashed m"
  shows "can_finish (service_step (pebble_storage P C) Cl Q G) service_result (SvFetch fr)"
proof (cases "frPhase fr")
  case Running
  let ?r = "fr\<lparr>frDone := True\<rparr>"
  have "service_step (pebble_storage P C) Cl Q G True (SvFetch fr) (SvFetch ?r)" using fs_cancel by simp
  moreover have "service_step (pebble_storage P C) Cl Q G True (SvFetch ?r) (SvFetch (?r\<lparr>frPhase := fetch_phase.Returned None\<rparr>))"
    using fs_done [of ?r] Running by simp
  ultimately have "(service_step (pebble_storage P C) Cl Q G True)\<^sup>*\<^sup>* (SvFetch fr) (SvFetch (?r\<lparr>frPhase := fetch_phase.Returned None\<rparr>))"
    by (meson converse_rtranclp_into_rtranclp rtranclp.rtrancl_refl)
  then show ?thesis unfolding can_finish_def
    by (intro exI [of _ "SvFetch (?r\<lparr>frPhase := fetch_phase.Returned None\<rparr>)"]) simp
next
  case (Returned e)
  then show ?thesis unfolding can_finish_def by (intro exI [of _ "SvFetch fr"]) simp
qed (use assms in simp)

lemma server_finishes:
  assumes "serve_inv True h"
  shows "can_finish (service_step (pebble_storage P C) Cl Q G) service_result (SvServe h)"
proof -
  from serve_finishes [OF assms] obtain h' where h': "(serve_step G True)\<^sup>*\<^sup>* h h'" "hrResult h' \<noteq> None"
    by (auto simp: can_finish_def)
  from h'(1) have "(service_step (pebble_storage P C) Cl Q G True)\<^sup>*\<^sup>* (SvServe h) (SvServe h')"
    by (induction rule: rtranclp_induct) (auto intro: rtranclp.rtrancl_into_rtrancl)
  with h'(2) show ?thesis unfolding can_finish_def by (intro exI [of _ "SvServe h'"]) simp
qed

text \<open>A stopped fetcher stopped without an error, and left the store as it was when it ran.\<close>

lemma fetch_stopped:
  assumes run: "fetch_run_of P dbv C Q Cl f0 r0" "frPhase r0 = Running" and steps: "(fetch_step (pebble_storage P C) Cl Q)\<^sup>*\<^sup>* r0 r"
    and alive: "\<forall>m. frPhase r \<noteq> Crashed m"
  shows "\<exists>r1. fetch_run_of P dbv C Q Cl f0 r1 \<and> (fetch_step (pebble_storage P C) Cl Q)\<^sup>*\<^sup>* r0 r1 \<and> frPhase r1 = Running \<and>
    frFetcher r1 = frFetcher r \<and> (frDone r1 \<longrightarrow> frDone r) \<and> (frPhase r = Running \<and> r1 = r \<or> frPhase r = fetch_phase.Returned None)"
  using steps alive
proof (induction rule: rtranclp_induct)
  case base
  with run show ?case by blast
next
  case (step y z)
  have "\<forall>m. frPhase y \<noteq> Crashed m" using step.hyps(2) step.prems by cases auto
  from step.IH [OF this] obtain r1 where r1: "fetch_run_of P dbv C Q Cl f0 r1" "(fetch_step (pebble_storage P C) Cl Q)\<^sup>*\<^sup>* r0 r1"
    "frPhase r1 = Running" "frFetcher r1 = frFetcher y" "frDone r1 \<longrightarrow> frDone y"
    "frPhase y = Running \<and> r1 = y \<or> frPhase y = fetch_phase.Returned None" by blast
  note dn = done_stays_done [OF step.hyps(2)]
  show ?case
  proof (cases "frPhase z = Running")
    case True
    with r1 step.hyps(2) have "fetch_run_of P dbv C Q Cl f0 z"
      using Running_back [OF step.hyps(2)] by (auto simp: fetch_run_of_def intro: rtranclp.rtrancl_into_rtrancl)
    with True rtranclp.rtrancl_into_rtrancl [OF step.hyps] show ?thesis by blast
  next
    case False
    show ?thesis using step.hyps(2)
    proof cases
      case (fs_tick_err ctx err gaps f)
      with r1(6) tick_inv [of _ y Cl ctx] run_inv [of Cl f0 y] r1(1,3) show ?thesis by fastforce
    next
      case (fs_recv_err resp rest err f)
      with r1(6) receive_inv [of _ y resp rest] run_inv [of Cl f0 y] r1(1,3) show ?thesis by fastforce
    qed (use r1 False step.prems dn in auto)
  qed
qed

lemma alive_back:
  "(fetch_step S Cl Q)\<^sup>*\<^sup>* r r' \<Longrightarrow> \<forall>m. frPhase r' \<noteq> Crashed m \<Longrightarrow> \<forall>m. frPhase r \<noteq> Crashed m"
proof (induction rule: rtranclp_induct)
  case (step y z)
  from step.hyps(2) step.prems have "\<forall>m. frPhase y \<noteq> Crashed m" by cases auto
  with step.IH show ?case by blast
qed

lemma prog_fetcher:
  assumes cfg: "config_ok Cl cfg" "db_ok C (dbv db)" and pg: "pg = newProgram (pebble_storage P C) C E cfg db c"
    and r: "(prog_step Cl)\<^sup>*\<^sup>* (startCfg_services (pebble_storage P C) C Cl ctx G d pg) r"
    and fns: "wFns (wrWaiter r) = [SvFetch fr, SvServe h]" and alive: "\<forall>m. frPhase fr \<noteq> Crashed m"
  shows "\<exists>r1. fetch_run_of P dbv C Q Cl (pgFetcher pg) r1 \<and> frPhase r1 = Running \<and> frFetcher r1 = frFetcher fr \<and>
    (frDone r1 \<longrightarrow> frDone fr) \<and> (frPhase fr = Running \<and> r1 = fr \<or> frPhase fr = fetch_phase.Returned None)"
proof -
  let ?r0 = "FetchChainData_start (pebble_storage P C) C Cl ctx (pgFetcher pg)"
  from prog_reach [OF r] fns have st: "(fetch_step (pebble_storage P C) Cl Q)\<^sup>*\<^sup>* ?r0 fr" by (auto simp: prog_inv_def)
  have f: "pgFetcher pg = Fetcher_New db c [WithLogger, WithMaxSlots (scMaxSlots cfg), WithMaxChunkSize (scMaxChunkSize cfg)]"
    by (simp add: pg newProgram_def)
  have "fMaxSlots (pgFetcher pg) = scMaxSlots cfg" "fMaxChunkSize (pgFetcher pg) = scMaxChunkSize cfg"
    by (simp_all add: f Fetcher_New_def)
  with cfg f have run0: "fetch_run_of P dbv C Q Cl (pgFetcher pg) ?r0"
    unfolding fetch_run_of_def config_ok_def by auto
  have "frPhase ?r0 = Running" using alive_back [OF st alive]
    by (auto simp: FetchChainData_start_def split: outcome.splits prod.splits)
  from fetch_stopped [OF run0 this st alive] show ?thesis by blast
qed

text \<open>Between two states of the program the fetcher has made steps of its own, and a stopped one has not changed.\<close>

lemma prog_fetches:
  assumes "(prog_step Cl)\<^sup>*\<^sup>* r r'" "wFns (wrWaiter r) = [SvFetch fr, SvServe h]"
  shows "\<exists>fr' h'. wFns (wrWaiter r') = [SvFetch fr', SvServe h'] \<and> (fetch_step (pebble_storage P C) Cl Q)\<^sup>*\<^sup>* fr fr'"
  using assms(1)
proof (induction rule: rtranclp_induct)
  case base
  with assms(2) show ?case by simp
next
  case (step y z)
  then obtain fy hy where y: "wFns (wrWaiter y) = [SvFetch fy, SvServe hy]" "(fetch_step (pebble_storage P C) Cl Q)\<^sup>*\<^sup>* fr fy" by blast
  from step.hyps(2) show ?case
  proof cases
    case (wt_work i g)
    from wt_work(2) y(1) have "i = 0 \<or> i = 1" by auto
    then show ?thesis
    proof
      assume i: "i = 0"
      with wt_work(3) y(1) obtain fz where "g = SvFetch fz" "fetch_step (pebble_storage P C) Cl Q fy fz"
        by (auto simp: service_step_cases)
      with y i show ?thesis by (auto simp: wt_work(1) intro: rtranclp.rtrancl_into_rtrancl)
    next
      assume i: "i = 1"
      with wt_work(3) y(1) obtain hz where "g = SvServe hz" by (auto simp: service_step_cases)
      with y i show ?thesis by (simp add: wt_work(1))
    qed
  qed (use y in simp_all)
qed

lemma returned_stays:
  assumes "(fetch_step S Cl Q)\<^sup>*\<^sup>* y z" "frPhase y = fetch_phase.Returned None" "\<forall>m. frPhase z \<noteq> Crashed m"
  shows "frPhase z = fetch_phase.Returned None \<and> frFetcher z = frFetcher y"
  using assms(1,3)
proof (induction rule: rtranclp_induct)
  case (step u v)
  have "\<forall>m. frPhase u \<noteq> Crashed m" using step.hyps(2) step.prems by cases auto
  from step.hyps(2) step.IH [OF this] step.prems show ?case by cases auto
qed (simp add: assms(2))

lemma fetcher_returns_nil:
  assumes cfg: "config_ok Cl cfg" "db_ok C (dbv db)" and pg: "pg = newProgram (pebble_storage P C) C E cfg db c"
    and "(prog_step Cl)\<^sup>*\<^sup>* (startCfg_services (pebble_storage P C) C Cl ctx G d pg) r"
  shows "\<exists>e0 e1. wrBack r = [e0, e1] \<and> (\<forall>e. e0 \<noteq> Some (Some e))"
  using assms(4)
proof (induction rule: rtranclp_induct)
  case base
  show ?case by (simp add: startCfg_services_def Let_def waiter_wait_def waiter_add_def newWaiter_def)
next
  case (step y z)
  from step.hyps(2) step.IH show ?case
  proof cases
    case (wt_return i err)
    from prog_reach [OF step.hyps(1)] obtain fr h where
      f: "wFns (wrWaiter y) = [SvFetch fr, SvServe h]" by (auto simp: prog_inv_def)
    show ?thesis
    proof (cases i)
      case 0
      with wt_return(4) f have ph: "frPhase fr = fetch_phase.Returned err" by (simp split: fetch_phase.splits)
      with prog_fetcher [OF cfg pg step.hyps(1) f] have "err = None" by auto
      with step.IH 0 wt_return(1) show ?thesis by auto
    next
      case (Suc j)
      with wt_return(2) f have "i = 1" by simp
      with step.IH wt_return(1) show ?thesis by auto
    qed
  qed auto
qed

lemma prog_ends:
  assumes "config_ok Cl cfg" "db_ok C (dbv db)" "pg = newProgram (pebble_storage P C) C E cfg db c"
    and r: "(prog_step Cl)\<^sup>*\<^sup>* (startCfg_services (pebble_storage P C) C Cl ctx G d pg) r" and res: "wrResult r = Some err"
  shows "wrBack r = [Some None, Some err] \<and> (err = None \<longrightarrow> wrSignalled r)"
proof -
  from fetcher_returns_nil [OF assms(1-4)] obtain e0 e1 where
    b: "wrBack r = [e0, e1]" "\<forall>e. e0 \<noteq> Some (Some e)" by blast
  from prog_reach [OF r] have inv: "wait_inv r" by blast
  with res have w: "wrCanceller r" "out (wrBack r) = 0" "err = first (wrGroup r)" by (auto simp: wait_inv_def)
  from w(2) b obtain x1 where x: "e0 = Some None" "e1 = Some x1" by (auto simp: out_def split: if_splits)
  have "first (wrGroup r) = x1"
  proof (cases x1)
    case (Some e)
    have "Some (Some e) \<in> set (wrBack r)" using b(1) x Some by simp
    then obtain e' where e': "first (wrGroup r) = Some e'" using inv unfolding wait_inv_def by blast
    then have "Some (Some e') \<in> set (wrBack r)" using inv unfolding wait_inv_def by blast
    with b(1) x Some e' show ?thesis by simp
  next
    case None
    then have "\<forall>e. Some (Some e) \<notin> set (wrBack r)" using b(1) x by simp
    then have "first (wrGroup r) = None" using inv unfolding wait_inv_def by (meson not_Some_eq)
    with None show ?thesis by simp
  qed
  with b(1) x w inv show ?thesis by (auto simp: wait_inv_def)
qed

lemma prog_index:
  assumes "config_ok Cl cfg" "db_ok C (dbv db)" and pg: "pg = newProgram (pebble_storage P C) C E cfg db c"
    and start: "complete chain (db_store C (dbv db))" and node: "honest Cl chain reqs" "chain_ok C chain"
    and r: "(prog_step Cl)\<^sup>*\<^sup>* (startCfg_services (pebble_storage P C) C Cl ctx G d pg) r" and dn: "group_done G r \<longrightarrow> heedless Cl"
    and fns: "wFns (wrWaiter r) = [SvFetch fr, SvServe h]" and alive: "\<forall>m. frPhase fr \<noteq> Crashed m"
    and r': "(prog_step Cl)\<^sup>*\<^sup>* r r'"
    and fns': "wFns (wrWaiter r') = [SvFetch fr', SvServe h']" and alive': "\<forall>m. frPhase fr' \<noteq> Crashed m"
  shows "complete chain (db_store C (dbv (fStorage (frFetcher fr)))) \<and> db_ok C (dbv (fStorage (frFetcher fr'))) \<and>
    indexed C dbv (frFetcher fr) \<le> indexed C dbv (frFetcher fr') \<and>
    (\<forall>n. 0 < n \<and> unat n \<le> indexed C dbv (frFetcher fr) \<longrightarrow> Pebble_GetBlock P C (fStorage (frFetcher fr')) n = Inr (chain n))"
proof -
  let ?st = "\<lambda>f. db_store C (dbv (fStorage (frFetcher f)))"
  from prog_fetcher [OF assms(1-3) r fns alive] obtain r1 where
    r1: "fetch_run_of P dbv C Q Cl (pgFetcher pg) r1" "frPhase r1 = Running" "frFetcher r1 = frFetcher fr"
      "frDone r1 \<longrightarrow> frDone fr" "frPhase fr = Running \<and> r1 = fr \<or> frPhase fr = fetch_phase.Returned None" by blast
  from prog_reach [OF r] fns dn r1(4) have dn1: "frDone r1 \<longrightarrow> heedless Cl" by (auto simp: prog_inv_def)
  have c0: "complete chain (db_store C (dbv (fStorage (pgFetcher pg))))"
    using start by (simp add: pg newProgram_def Fetcher_New_def)
  have fin: "complete chain (?st fr)" using run_complete_store [OF r1(1,2) dn1 node c0] r1(3) by simp
  from prog_fetches [OF r' fns] fns' have steps: "(fetch_step (pebble_storage P C) Cl Q)\<^sup>*\<^sup>* fr fr'" by auto
  obtain r2 where r2: "fetch_run_of P dbv C Q Cl (pgFetcher pg) r2" "frPhase r2 = Running" "frFetcher r2 = frFetcher fr'"
    "(fetch_step (pebble_storage P C) Cl Q)\<^sup>*\<^sup>* r1 r2"
  proof (cases "frPhase fr = Running")
    case True
    with r1(5) have "r1 = fr" by auto
    with fetch_stopped [OF r1(1,2) _ alive', of] steps that show ?thesis by blast
  next
    case False
    with r1(5) returned_stays [OF steps _ alive'] r1(1-3) that show ?thesis by auto
  qed
  from run_keeps [OF r1(1,2) dn1 node c0 r2(4,2)] r1(3) r2(3) have
    k: "latest_of (?st fr) \<le> latest_of (?st fr')" "complete_to chain None (latest_of (?st fr)) (?st fr')" by simp_all
  have ok: "db_ok C (dbv (fStorage (frFetcher fr')))" using run_ok [OF r2(1,2)] r2(3) by simp
  have "Pebble_GetBlock P C (fStorage (frFetcher fr')) n = Inr (chain n)"
    if "0 < n" "unat n \<le> indexed C dbv (frFetcher fr)" for n
    using that k(2) P_reads(2) [OF ok, of n] by (simp add: complete_to_def indexed_def word_le_nat_alt)
  with fin ok k(1) show ?thesis by (simp add: indexed_def word_le_nat_alt)
qed

lemma prog_stops:
  assumes r: "(prog_step Cl)\<^sup>*\<^sup>* (startCfg_services (pebble_storage P C) C Cl ctx G d pg) r" and dn: "group_done G r"
    and fns: "wFns (wrWaiter r) = [SvFetch fr, SvServe h]" and alive: "\<forall>m. frPhase fr \<noteq> Crashed m"
  shows "\<exists>r'. (prog_step Cl)\<^sup>*\<^sup>* r r' \<and> wrResult r' \<noteq> None"
proof -
  from prog_reach [OF r] fns have inv: "wait_inv r" "serve_inv True h"
    using serve_inv_mono [of "group_done G r" h True] by (auto simp: prog_inv_def)
  show ?thesis
    by (rule wait_finishes [OF inv(1) dn, of "service_step (pebble_storage P C) Cl Q G" service_result])
       (simp add: fns All_less_Suc fetch_finishes [OF alive] server_finishes [OF inv(2)])
qed

end

section \<open>An example run\<close>

text \<open>The program with the default flags fetches the only block of the chain and is then interrupted.\<close>

abbreviation "prog_at d fr h g canc bk sig res \<equiv>
  \<lparr>wrWaiter = \<lparr>wCtxDone = d, wFns = [SvFetch fr, SvServe h]\<rparr>, wrGroup = g, wrCanceller = canc, wrBack = bk,
   wrSignalled = sig, wrResult = res\<rparr>"

abbreviation "serve_at g l s shut res \<equiv>
  \<lparr>hrGroup = g, hrListener = l, hrShutter = s, hrShut = shut, hrResult = res\<rparr>"

abbreviation "ex_prog_step \<equiv> wait_step ref_group (service_step ex_S ex_client ref_queue ref_group) service_result"

abbreviation "ex_serving \<equiv> serve_at (2, None) Listen AwaitDone False None"
abbreviation "ex_served \<equiv> serve_at (0, None) ListenerReturned ShutterReturned True (Some None)"

lemma ex_prog_start:
  "startCfg_services ex_S ref_codec ex_client ctx ref_group d (newProgram ex_S ref_codec E registerFlags [] ()) =
     prog_at d ex_start ex_serving (3, None) False [None, None] d None"
proof -
  have "pgFetcher (newProgram ex_S ref_codec E registerFlags [] ()) = ex_fetcher"
    by (simp add: newProgram_def registerFlags_def ex_fetcher_def)
  then show ?thesis
    by (simp add: startCfg_services_def waiter_wait_def waiter_add_def newWaiter_def ex_start_run HTTPServer_Serve_def ref_group_def)
qed

lemma ex_serve_work:
  assumes "serve_step ref_group True h h'" "d"
  shows "ex_prog_step (prog_at d fr h g canc bk sig res) (prog_at d fr h' g canc bk sig res)"
  using wt_work [of 1 "prog_at d fr h g canc bk sig res" "service_step ex_S ex_client ref_queue ref_group" ref_group "SvServe h'" service_result]
    assms by (simp add: group_done_def)

lemma ex_serve_steps:
  "serve_step ref_group True ex_serving (serve_at (2, None) Listen Shutdown True None)"
  "serve_step ref_group True (serve_at (2, None) Listen Shutdown True None) (serve_at (1, None) Listen ShutterReturned True None)"
  "serve_step ref_group True (serve_at (1, None) Listen ShutterReturned True None) (serve_at (1, None) Accept ShutterReturned True None)"
  "serve_step ref_group True (serve_at (1, None) Accept ShutterReturned True None) (serve_at (0, None) ListenerReturned ShutterReturned True None)"
  "serve_step ref_group True (serve_at (0, None) ListenerReturned ShutterReturned True None) ex_served"
  using sv_shutdown [of ex_serving True ref_group]
    sv_shut [of "serve_at (2, None) Listen Shutdown True None" ref_group True None]
    sv_listen [of "serve_at (1, None) Listen ShutterReturned True None" ref_group True]
    sv_serve_closed [of "serve_at (1, None) Accept ShutterReturned True None" ref_group True]
    sv_wait [of "serve_at (0, None) ListenerReturned ShutterReturned True None" ref_group None True]
  by (simp_all add: ref_group_def served_def ErrServerClosed_def)

lemma ex_stop_run:
  assumes "frPhase fr = Running"
  defines "stopped \<equiv> fr\<lparr>frDone := True, frPhase := fetch_phase.Returned None\<rparr>"
  shows "ex_prog_step\<^sup>*\<^sup>* (prog_at False fr ex_serving (3, None) False [None, None] False None)
     (prog_at True stopped ex_served (0, None) True [Some None, Some None] True (Some None))"
proof -
  have 1: "ex_prog_step (prog_at False fr ex_serving (3, None) False [None, None] False None)
      (prog_at True fr ex_serving (3, None) False [None, None] True None)"
    using wt_signal [of ref_group "service_step ex_S ex_client ref_queue ref_group" service_result
      "prog_at False fr ex_serving (3, None) False [None, None] False None"] by simp
  have work: "ex_prog_step (prog_at True f ex_serving (3, None) False [None, None] True None)
      (prog_at True f' ex_serving (3, None) False [None, None] True None)" if "fetch_step ex_S ex_client ref_queue f f'" for f f'
    using wt_work [of 0 "prog_at True f ex_serving (3, None) False [None, None] True None"
      "service_step ex_S ex_client ref_queue ref_group" ref_group "SvFetch f'" service_result] that
    by (simp add: group_done_def)
  note 2 = work [OF fs_cancel [of ex_S ex_client ref_queue fr]]
  have "fetch_step ex_S ex_client ref_queue (fr\<lparr>frDone := True\<rparr>) stopped"
    using fs_done [of "fr\<lparr>frDone := True\<rparr>"] assms by simp
  note 4 = work [OF this]
  have 3: "ex_prog_step (prog_at True stopped ex_serving (3, None) False [None, None] True None)
      (prog_at True stopped ex_serving (2, None) False [Some None, None] True None)"
    using wt_return [of 0 "prog_at True stopped ex_serving (3, None) False [None, None] True None" service_result None ref_group
      "service_step ex_S ex_client ref_queue ref_group"] by (simp add: ref_group_def stopped_def)
  note serving = ex_serve_steps [THEN ex_serve_work, OF TrueI, where fr = stopped and g = "(2, None)" and canc = False
      and bk = "[Some None, None]" and sig = True and res = None]
  have 5: "ex_prog_step (prog_at True stopped ex_served (2, None) False [Some None, None] True None)
      (prog_at True stopped ex_served (1, None) False [Some None, Some None] True None)"
    using wt_return [of 1 "prog_at True stopped ex_served (2, None) False [Some None, None] True None" service_result None ref_group
      "service_step ex_S ex_client ref_queue ref_group"] by (simp add: ref_group_def)
  have 6: "ex_prog_step (prog_at True stopped ex_served (1, None) False [Some None, Some None] True None)
      (prog_at True stopped ex_served (0, None) True [Some None, Some None] True None)"
    using wt_cancel [of "prog_at True stopped ex_served (1, None) False [Some None, Some None] True None" ref_group
      "service_step ex_S ex_client ref_queue ref_group" service_result] by (simp add: group_done_def) (simp add: ref_group_def)
  have 7: "ex_prog_step (prog_at True stopped ex_served (0, None) True [Some None, Some None] True None)
      (prog_at True stopped ex_served (0, None) True [Some None, Some None] True (Some None))"
    using wt_wait [of "prog_at True stopped ex_served (0, None) True [Some None, Some None] True None" ref_group None
      "service_step ex_S ex_client ref_queue ref_group" service_result] by (simp add: ref_group_def)
  show ?thesis
    using 1 2 4 3 serving 5 6 7 by (meson TrueI converse_rtranclp_into_rtranclp rtranclp.rtrancl_refl)
qed

lemma ex_fetch_work:
  assumes "(fetch_step ex_S ex_client ref_queue)\<^sup>*\<^sup>* fr fr'" "frPhase fr' = Running" "\<not> frDone fr'"
  shows "ex_prog_step\<^sup>*\<^sup>* (prog_at d fr h g canc bk sig res) (prog_at d fr' h g canc bk sig res)"
  using assms
proof (induction rule: rtranclp_induct)
  case (step y z)
  then have "ex_prog_step (prog_at d y h g canc bk sig res) (prog_at d z h g canc bk sig res)"
    using wt_work [of 0 "prog_at d y h g canc bk sig res" "service_step ex_S ex_client ref_queue ref_group" ref_group "SvFetch z"
      service_result] by simp
  with step.IH [OF ref_fetch.Running_back [OF step.hyps(2) step.prems(1)]] done_stays_done [OF step.hyps(2)] step.prems(2) show ?case by (blast intro: rtranclp.rtrancl_into_rtrancl)
qed simp

lemma ex_prog_run:
  "\<exists>fr. let fr' = fr\<lparr>frDone := True, frPhase := fetch_phase.Returned None\<rparr>; z = prog_at False fr ex_serving (3, None) False [None, None] False None in
     (\<forall>ctx E. ex_prog_step\<^sup>*\<^sup>* (startCfg_services ex_S ref_codec ex_client ctx ref_group False (newProgram ex_S ref_codec E registerFlags [] ())) z) \<and>
     ex_prog_step\<^sup>*\<^sup>* z (prog_at True fr' ex_served (0, None) True [Some None, Some None] True (Some None)) \<and>
     frPhase fr = Running \<and> indexed ref_codec map_of (frFetcher fr) = 1"
proof -
  from ex_complete_run obtain r where r: "fetch_run_of ref_pebble map_of ref_codec ref_queue ex_client ex_fetcher r"
    "frPhase r = Running" "\<not> frDone r"
    "db_store ref_codec (map_of (fStorage (frFetcher r))) = apply_writes ref_codec empty_store (slotWrites ref_codec ex_slot)" by blast
  from r(1) have st: "(fetch_step ex_S ex_client ref_queue)\<^sup>*\<^sup>* ex_start r" by (auto simp: fetch_run_of_def ex_start_run)
  have "indexed ref_codec map_of (frFetcher r) = 1" unfolding indexed_def r(4) ex_latest_one by simp
  with ex_fetch_work [OF st r(2,3)] ex_stop_run [OF r(2)] r(2) show ?thesis
    unfolding ex_prog_start Let_def by (intro exI [of _ r]) simp
qed

lemma ex_config: "config_ok ex_client registerFlags"
  by (simp add: config_ok_def registerFlags_def DefaultMaxSlots_def DefaultMaxChunkSize_def heights_fit_def ex_client_def chain_node_def)

section \<open>The properties\<close>

text \<open>
  C14. The program can always be stopped, and it stops for a reason: in every state that it reaches in which the context of its services is done,
  because a signal came or a service returned an error, it can go on to its end, unless the fetcher has crashed. When it has ended,
  both services have returned, the fetcher without an error, so that the result is that of the HTTP server; and without an error it
  has ended only because of a signal.
\<close>

theorem program_stops:
  assumes "program_packages P dbv btv ient ipos C Q G running first"
    and "config_ok Cl cfg" and "db_ok C (dbv db)" and "pg = newProgram (pebble_storage P C) C E cfg db c"
    and "(wait_step G (service_step (pebble_storage P C) Cl Q G) service_result)\<^sup>*\<^sup>*
      (startCfg_services (pebble_storage P C) C Cl ctx G d pg) r"
  shows "(\<forall>fr h. wFns (wrWaiter r) = [SvFetch fr, SvServe h] \<and> group_done G r \<and> (\<forall>m. frPhase fr \<noteq> Crashed m) \<longrightarrow>
      (\<exists>r'. (wait_step G (service_step (pebble_storage P C) Cl Q G) service_result)\<^sup>*\<^sup>* r r' \<and> wrResult r' \<noteq> None)) \<and>
    (\<forall>err. wrResult r = Some err \<longrightarrow> wrBack r = [Some None, Some err] \<and> (err = None \<longrightarrow> wrSignalled r))"
  using program_packages.prog_stops [OF assms(1,5)] program_packages.prog_ends [OF assms] by blast

theorem program_stops_witness:
  "\<exists>r'. ex_prog_step\<^sup>*\<^sup>* (prog_at True ex_start ex_serving (3, None) False [None, None] True None) r' \<and> wrResult r' \<noteq> None"
proof -
  obtain E :: rpc_env where True by blast
  let ?r = "prog_at True ex_start ex_serving (3, None) False [None, None] True None :: ((kvs, unit, nat \<times> go_error option) service, nat \<times> go_error option) wait_run"
  have "wFns (wrWaiter ?r) = [SvFetch ex_start, SvServe ex_serving] \<and> group_done ref_group ?r \<and> (\<forall>m. frPhase ex_start \<noteq> Crashed m)"
    by (simp add: group_done_def ex_start_def)
  then show ?thesis
    using program_stops [OF ref_program.program_packages_axioms ex_config _ refl rtranclp.rtrancl_refl, where db = "[]" and E = E and c = "()" and d = True,
        THEN conjunct1] unfolding ex_prog_start by simp
qed

text \<open>
  C5. The index survives the program: against a node that serves one chain, started on a store that holds the chain up to its latest height,
  in every state that the program reaches before the context of its services is done (or in any, if the client answers also then), the store
  holds the whole chain up to the latest height; and in every state it reaches from there, running, stopping or ended, unless the fetcher
  has crashed, the store is one on which the program can be started again, its latest height is no lower, and every block indexed before is
  read back as the block of the chain. (What a stopping fetcher still adds may lack blocks: \<open>stop_leaves_hole\<close>.)
\<close>

theorem program_keeps_index:
  assumes "program_packages P dbv btv ient ipos C Q G running first"
    and "config_ok Cl cfg" and "db_ok C (dbv db)" and "pg = newProgram (pebble_storage P C) C E cfg db c"
    and "complete chain (db_store C (dbv db))" and "honest Cl chain reqs" and "chain_ok C chain"
    and "(wait_step G (service_step (pebble_storage P C) Cl Q G) service_result)\<^sup>*\<^sup>*
      (startCfg_services (pebble_storage P C) C Cl ctx G d pg) r" and "group_done G r \<longrightarrow> heedless Cl"
    and "wFns (wrWaiter r) = [SvFetch fr, SvServe h]" and "\<forall>m. frPhase fr \<noteq> Crashed m"
    and "(wait_step G (service_step (pebble_storage P C) Cl Q G) service_result)\<^sup>*\<^sup>* r r'"
    and "wFns (wrWaiter r') = [SvFetch fr', SvServe h']" and "\<forall>m. frPhase fr' \<noteq> Crashed m"
  shows "complete chain (db_store C (dbv (fStorage (frFetcher fr)))) \<and> db_ok C (dbv (fStorage (frFetcher fr'))) \<and>
    indexed C dbv (frFetcher fr) \<le> indexed C dbv (frFetcher fr') \<and>
    (\<forall>n. 0 < n \<and> unat n \<le> indexed C dbv (frFetcher fr) \<longrightarrow> Pebble_GetBlock P C (fStorage (frFetcher fr')) n = Inr (chain n))"
  using assms by (rule program_packages.prog_index)

theorem program_keeps_index_witness:
  "\<forall>ctx (E :: rpc_env). \<exists>r r' fr'. ex_prog_step\<^sup>*\<^sup>*
       (startCfg_services ex_S ref_codec ex_client ctx ref_group False (newProgram ex_S ref_codec E registerFlags [] ())) r \<and>
     ex_prog_step\<^sup>*\<^sup>* r r' \<and> wrResult r' = Some None \<and> wFns (wrWaiter r') = [SvFetch fr', SvServe ex_served] \<and>
     Pebble_GetBlock ref_pebble ref_codec (fStorage (frFetcher fr')) 1 = Inr (mk_block 1 0 [[7]])"
proof (intro allI)
  fix ctx and E :: rpc_env
  from ex_prog_run obtain fr where r: "ex_prog_step\<^sup>*\<^sup>*
      (startCfg_services ex_S ref_codec ex_client ctx ref_group False (newProgram ex_S ref_codec E registerFlags [] ()))
      (prog_at False fr ex_serving (3, None) False [None, None] False None)"
    "ex_prog_step\<^sup>*\<^sup>* (prog_at False fr ex_serving (3, None) False [None, None] False None)
      (prog_at True (fr\<lparr>frDone := True, frPhase := fetch_phase.Returned None\<rparr>) ex_served (0, None) True [Some None, Some None] True (Some None))"
    "frPhase fr = Running" "indexed ref_codec map_of (frFetcher fr) = 1" unfolding Let_def by blast
  have empty: "db_ok ref_codec (map_of [])" "complete ex_chain (db_store ref_codec (map_of []))"
    using ex_complete_start by (simp_all add: ex_fetcher_simps)
  have start: "group_done ref_group (prog_at False fr ex_serving (3, None) False [None, None] False None) \<longrightarrow> heedless ex_client"
    by (simp add: group_done_def ref_group_def)
  have one: "unat (1 :: u64) \<le> indexed ref_codec map_of (frFetcher fr)" using r(4) by simp
  from program_keeps_index [OF ref_program.program_packages_axioms ex_config empty(1) refl empty(2) ex_honest ex_chain_ok r(1) start _ _ r(2),
      of fr ex_serving "fr\<lparr>frDone := True, frPhase := fetch_phase.Returned None\<rparr>" ex_served] r(3)
  have "\<forall>n. 0 < n \<and> unat n \<le> indexed ref_codec map_of (frFetcher fr) \<longrightarrow>
      Pebble_GetBlock ref_pebble ref_codec (fStorage (frFetcher fr)) n = Inr (ex_chain n)" by simp
  moreover have "0 < (1 :: u64)" by simp
  ultimately have "Pebble_GetBlock ref_pebble ref_codec (fStorage (frFetcher fr)) 1 = Inr (ex_chain 1)" using one by blast
  then have "Pebble_GetBlock ref_pebble ref_codec (fStorage (frFetcher fr)) 1 = Inr (mk_block 1 0 [[7]])" by (simp add: ex_chain_def)
  with r(1,2) show "\<exists>r r' fr'. ex_prog_step\<^sup>*\<^sup>*
       (startCfg_services ex_S ref_codec ex_client ctx ref_group False (newProgram ex_S ref_codec E registerFlags [] ())) r \<and>
     ex_prog_step\<^sup>*\<^sup>* r r' \<and> wrResult r' = Some None \<and> wFns (wrWaiter r') = [SvFetch fr', SvServe ex_served] \<and>
     Pebble_GetBlock ref_pebble ref_codec (fStorage (frFetcher fr')) 1 = Inr (mk_block 1 0 [[7]])"
    by (intro exI conjI) (assumption | simp)+
qed

end
