(* ===== verification/Graph_Decode.thy ===== *)
theory Graph_Decode
  imports Graph_Filters Graph_Legacy
begin

text \<open>
  How the generated executor turns the arguments of a query into Go values. Every function
  \<open>unmarshalInputX\<close>, \<open>unmarshalNX\<close>, \<open>unmarshalOX\<close> of \<open>serve/graph/generated.go\<close> is an instance of one of
  a few templates of the code generator: an object is decoded field by field in a fixed order, a nullable value
  becomes a pointer, a list is decoded element by element, and a scalar is left to the library. This
  theory holds the values, the templates and their laws; \<open>Graph_Inputs\<close> holds the instances.
\<close>

section \<open>Values and the library\<close>

text \<open>
  The dynamic types of an argument: \<open>nil\<close>, \<open>bool\<close>, \<open>int64\<close>, \<open>float64\<close> (by its text), \<open>json.Number\<close>,
  \<open>string\<close> (also for an enum), \<open>[]interface{}\<close> and \<open>map[string]interface{}\<close>.
\<close>

datatype gql_input =
    INull
  | IBool bool
  | IInt i64
  | IFloat string
  | INumber string
  | IString string
  | IList "gql_input list"
  | IObject "(string \<times> gql_input) list"

datatype path_elem = PField string | PIndex nat

type_synonym gql_path = "path_elem list"

text \<open>
  \<open>graphql.CoerceList\<close> of gqlgen turns a value into a slice. Of its behaviour the type keeps only that
  no element of the slice is bigger than the value, so that decoding ends; what it does to a list and to a single
  value is the hypothesis \<open>coerces_lists\<close> below.
\<close>

typedef list_coercion = "{f :: gql_input \<Rightarrow> gql_input list. \<forall>v. \<forall>x \<in> set (f v). size x \<le> size v}"
  morphisms coerceList Coercion
  by (rule exI [of _ "\<lambda>v. [v]"]) simp

setup_lifting type_definition_list_coercion

lemma coerceList_size: "x \<in> set (coerceList c v) \<Longrightarrow> size x \<le> size v"
  using coerceList [of c] by auto

text \<open>The coercion that the GraphQL specification asks for.\<close>

lift_definition specCoercion :: list_coercion is
  "\<lambda>v. case v of IList vs \<Rightarrow> vs | _ \<Rightarrow> [v]"
  by (auto split: gql_input.splits intro!: le_SucI size_list_estimation' [OF _ order_refl])

text \<open>The functions of the library: the scalars, the path an error gets (\<open>graphql.ErrorOnPath\<close>) and the coercion of lists.\<close>

record input_env =
  geInt :: "gql_input \<Rightarrow> go_error + i64"
  geInt64 :: "gql_input \<Rightarrow> go_error + i64"
  geBoolean :: "gql_input \<Rightarrow> go_error + bool"
  geString :: "gql_input \<Rightarrow> go_error + string"
  geTime :: "gql_input \<Rightarrow> go_error + go_time"
  geErrorOnPath :: "gql_path \<Rightarrow> go_error \<Rightarrow> go_error"
  geCoerce :: list_coercion

definition coerces_lists :: "input_env \<Rightarrow> bool" where
  "coerces_lists E \<longleftrightarrow>
     (\<forall>vs. coerceList (geCoerce E) (IList vs) = vs) \<and>
     (\<forall>v. (\<forall>vs. v \<noteq> IList vs) \<longrightarrow> coerceList (geCoerce E) v = [v])"

section \<open>The templates\<close>

type_synonym 'a decoded = "(go_error + 'a) outcome"
type_synonym 'a decoder = "gql_path \<Rightarrow> gql_input \<Rightarrow> 'a decoded"

text \<open>Go on with the value of a call that may fail, and apply a function to the value.\<close>

definition bindE :: "'a decoded \<Rightarrow> ('a \<Rightarrow> 'b decoded) \<Rightarrow> 'b decoded" where
  "bindE m k = bindO m (\<lambda>r. case r of Inl e \<Rightarrow> Ret (Inl e) | Inr x \<Rightarrow> k x)"

definition mapE :: "('a \<Rightarrow> 'b) \<Rightarrow> 'a decoded \<Rightarrow> 'b decoded" where
  "mapE f m = bindE m (\<lambda>x. Ret (Inr (f x)))"

lemma bindE_simps [simp]:
  "bindE (Panic s) k = Panic s" "bindE (Ret (Inl e)) k = Ret (Inl e)" "bindE (Ret (Inr x)) k = k x"
  by (simp_all add: bindE_def)

lemma mapE_simps [simp]:
  "mapE f (Panic s) = Panic s" "mapE f (Ret (Inl e)) = Ret (Inl e)" "mapE f (Ret (Inr x)) = Ret (Inr (f x))"
  by (simp_all add: mapE_def)

lemma bindE_Ret_iff: "bindE m k = Ret (Inr y) \<longleftrightarrow> (\<exists>x. m = Ret (Inr x) \<and> k x = Ret (Inr y))"
proof (cases m)
  case (Ret r)
  then show ?thesis by (cases r) simp_all
qed simp

lemma bindE_cong [fundef_cong]:
  assumes "m = m'" "\<And>x. m' = Ret (Inr x) \<Longrightarrow> k x = k' x"
  shows "bindE m k = bindE m' k'"
  using assms by (auto simp: bindE_def intro!: bindO_cong split: sum.split)

text \<open>\<open>return res, graphql.ErrorOnPath(ctx, err)\<close>; a nil error stays nil.\<close>

definition onPath :: "input_env \<Rightarrow> gql_path \<Rightarrow> 'a decoded \<Rightarrow> 'a decoded" where
  "onPath E p m = bindO m (\<lambda>r. Ret (case r of Inl e \<Rightarrow> Inl (geErrorOnPath E p e) | Inr x \<Rightarrow> Inr x))"

lemma onPath_simps [simp]:
  "onPath E p (Panic s) = Panic s"
  "onPath E p (Ret (Inl e)) = Ret (Inl (geErrorOnPath E p e))"
  "onPath E p (Ret (Inr x)) = Ret (Inr x)"
  by (simp_all add: onPath_def)

text \<open>A scalar of the library, and an enum, whose own \<open>UnmarshalGQL\<close> gets a new zero value.\<close>

definition scalarIn :: "(gql_input \<Rightarrow> go_error + 'a) \<Rightarrow> 'a decoder" where
  "scalarIn f p v = Ret (f v)"

fun enumValue :: "gql_input \<Rightarrow> gql_value" where
  "enumValue (IString s) = GString s"
| "enumValue _ = GOther"

definition enumIn :: "(string \<Rightarrow> gql_value \<Rightarrow> go_error option \<times> string) \<Rightarrow> string decoder" where
  "enumIn unmarshalGQL p v =
     Ret (case unmarshalGQL '''' (enumValue v) of (Some e, x) \<Rightarrow> Inl e | (None, x) \<Rightarrow> Inr x)"

text \<open>\<open>unmarshalNX\<close>: the value itself, the error put on the path. \<open>unmarshalOX\<close>: nil is a nil pointer.\<close>

definition requiredIn :: "input_env \<Rightarrow> 'a decoder \<Rightarrow> 'a decoder" where
  "requiredIn E dec p v = onPath E p (dec p v)"

definition nullableIn :: "input_env \<Rightarrow> 'a decoder \<Rightarrow> 'a option decoder" where
  "nullableIn E dec p v = (if v = INull then Ret (Inr None) else onPath E p (mapE Some (dec p v)))"

text \<open>The loop over the elements of a list stops at the first error.\<close>

fun elemsIn :: "'a decoder \<Rightarrow> gql_path \<Rightarrow> nat \<Rightarrow> gql_input list \<Rightarrow> 'a list decoded" where
  "elemsIn dec p i [] = Ret (Inr [])"
| "elemsIn dec p i (v # vs) =
     bindE (dec (p @ [PIndex i]) v) (\<lambda>x. bindE (elemsIn dec p (Suc i) vs) (\<lambda>xs. Ret (Inr (x # xs))))"

definition listIn :: "input_env \<Rightarrow> 'a decoder \<Rightarrow> 'a list option decoder" where
  "listIn E dec p v =
     (if v = INull then Ret (Inr None)
      else mapE Some (elemsIn dec p 0 (coerceList (geCoerce E) v)))"

text \<open>A slice that the program does not compare with nil.\<close>

definition sliceIn :: "input_env \<Rightarrow> 'a decoder \<Rightarrow> 'a list decoder" where
  "sliceIn E dec p v = mapE (deref []) (listIn E dec p v)"

text \<open>
  \<open>unmarshalInputX\<close>: the value is asserted to be a map, which panics for another type; then, in the order of the
  schema, each field that the map has is decoded with its name added to the path, and assigned; an
  error returns at once.
\<close>

type_synonym 'r field_step = "gql_path \<Rightarrow> (string \<rightharpoonup> gql_input) \<Rightarrow> 'r \<Rightarrow> 'r decoded"

fun asMap :: "gql_input \<Rightarrow> (string \<rightharpoonup> gql_input) outcome" where
  "asMap (IObject kvs) = Ret (map_of kvs)"
| "asMap _ = Panic ''interface conversion''"

definition fieldIn :: "string \<Rightarrow> 'a decoder \<Rightarrow> ('a \<Rightarrow> 'r \<Rightarrow> 'r) \<Rightarrow> 'r field_step" where
  "fieldIn k dec upd p m it =
     (case m k of None \<Rightarrow> Ret (Inr it) | Some v \<Rightarrow> mapE (\<lambda>d. upd d it) (dec (p @ [PField k]) v))"

fun fieldsIn :: "'r field_step list \<Rightarrow> 'r field_step" where
  "fieldsIn [] p m it = Ret (Inr it)"
| "fieldsIn (s # ss) p m it = bindE (s p m it) (fieldsIn ss p m)"

definition objectIn :: "'r \<Rightarrow> 'r field_step list \<Rightarrow> 'r decoder" where
  "objectIn zero steps p v = bindO (asMap v) (\<lambda>m. fieldsIn steps p m zero)"

text \<open>An argument of a field, from the map of its raw arguments.\<close>

type_synonym 'a arg_decoder = "gql_path \<Rightarrow> (string \<rightharpoonup> gql_input) \<Rightarrow> 'a decoded"

definition argIn :: "string \<Rightarrow> 'a \<Rightarrow> 'a decoder \<Rightarrow> 'a arg_decoder" where
  "argIn k zeroVal dec p rawArgs =
     (case rawArgs k of None \<Rightarrow> Ret (Inr zeroVal) | Some tmp \<Rightarrow> dec (p @ [PField k]) tmp)"

text \<open>
  The inputs \<open>FilterX\<close> contain themselves: their first three fields are \<open>_and\<close>, \<open>_or\<close> and \<open>_not\<close>, with elements of the
  same type, and the fields of their own follow.
\<close>

fun setAnd :: "'p gql_filter option list \<Rightarrow> 'p gql_filter \<Rightarrow> 'p gql_filter" where
  "setAnd d (Filter a r n q) = Filter d r n q"

fun setOr :: "'p gql_filter option list \<Rightarrow> 'p gql_filter \<Rightarrow> 'p gql_filter" where
  "setOr d (Filter a r n q) = Filter a d n q"

fun setNot :: "'p gql_filter option \<Rightarrow> 'p gql_filter \<Rightarrow> 'p gql_filter" where
  "setNot d (Filter a r n q) = Filter a r d q"

fun setOwn :: "'p \<Rightarrow> 'p gql_filter \<Rightarrow> 'p gql_filter" where
  "setOwn d (Filter a r n q) = Filter a r n d"

definition ownIn :: "'p field_step list \<Rightarrow> 'p gql_filter field_step" where
  "ownIn steps p m it = mapE (\<lambda>q. setOwn q it) (fieldsIn steps p m (fFields it))"

lemma fieldIn_cong [fundef_cong]:
  assumes "m k = m' k" "\<And>v. m' k = Some v \<Longrightarrow> dec (p @ [PField k]) v = dec' (p @ [PField k]) v"
  shows "fieldIn k dec upd p m it = fieldIn k dec' upd p m' it"
  using assms by (simp add: fieldIn_def split: option.split)

lemma nullableIn_cong [fundef_cong]:
  assumes "p = p'" "v = v'" "v' \<noteq> INull \<Longrightarrow> dec p' v' = dec' p' v'"
  shows "nullableIn E dec p v = nullableIn E dec' p' v'"
  using assms by (simp add: nullableIn_def)

lemma elemsIn_cong:
  assumes "\<And>q x. x \<in> set vs \<Longrightarrow> dec q x = dec' q x"
  shows "elemsIn dec p i vs = elemsIn dec' p i vs"
  using assms by (induction vs arbitrary: i) (auto intro!: bindE_cong)

lemma sliceIn_cong [fundef_cong]:
  assumes "p = p'" "v = v'" "\<And>q x. x \<in> set (coerceList (geCoerce E) v') \<Longrightarrow> dec q x = dec' q x"
  shows "sliceIn E dec p v = sliceIn E dec' p' v'"
  using assms by (simp add: sliceIn_def listIn_def cong: elemsIn_cong)

lemma asMap_size: "asMap v = Ret m \<Longrightarrow> m k = Some x \<Longrightarrow> size x < size v"
proof (cases v)
  case (IObject kvs)
  assume "asMap v = Ret m" "m k = Some x"
  then have "(k, x) \<in> set kvs" using IObject by (auto dest: map_of_SomeD)
  then have "size x < Suc (size_list (size_prod (\<lambda>_. 0) size) kvs)"
    by (intro le_imp_less_Suc size_list_estimation') auto
  then show ?thesis using IObject by simp
qed auto

function filterIn :: "input_env \<Rightarrow> 'p \<Rightarrow> 'p field_step list \<Rightarrow> 'p gql_filter decoder" where
  "filterIn E zero steps p v =
     bindO (asMap v) (\<lambda>m.
       bindE (fieldIn ''_and'' (sliceIn E (nullableIn E (\<lambda>p v. filterIn E zero steps p v))) setAnd p m (Filter [] [] None zero)) (\<lambda>it.
       bindE (fieldIn ''_or'' (sliceIn E (nullableIn E (\<lambda>p v. filterIn E zero steps p v))) setOr p m it) (\<lambda>it.
       bindE (fieldIn ''_not'' (nullableIn E (\<lambda>p v. filterIn E zero steps p v)) setNot p m it) (\<lambda>it.
       ownIn steps p m it))))"
  by pat_completeness auto
termination
  by (relation "measure (\<lambda>(E, zero, steps, p, v). size v)")
    (auto dest!: asMap_size coerceList_size)

declare filterIn.simps [simp del]

end
