(* ===== verification/Graph_Inputs.thy ===== *)
theory Graph_Inputs
  imports Graph_Decode
begin

text \<open>
  The decoders of \<open>serve/graph/generated.go\<close> as instances of the templates of \<open>Graph_Decode\<close>: per input of
  the schema its \<open>unmarshalInputX\<close> with the fields in the order of the source, its pointer (\<open>unmarshalOX\<close>), its
  list (\<open>unmarshalOX_list\<close>) and its non-null form (\<open>unmarshalNX\<close>), and the functions that decode the
  arguments of the query and subscription fields.
\<close>

section \<open>Scalars, enumerations and filters of the basic types\<close>

definition unmarshalNBoolean :: "input_env \<Rightarrow> bool decoder" where
  "unmarshalNBoolean E = requiredIn E (scalarIn (geBoolean E))"

definition unmarshalNInt :: "input_env \<Rightarrow> i64 decoder" where
  "unmarshalNInt E = requiredIn E (scalarIn (geInt E))"

definition unmarshalNInt64 :: "input_env \<Rightarrow> i64 decoder" where
  "unmarshalNInt64 E = requiredIn E (scalarIn (geInt64 E))"

definition unmarshalNString :: "input_env \<Rightarrow> string decoder" where
  "unmarshalNString E = requiredIn E (scalarIn (geString E))"

definition unmarshalNTime :: "input_env \<Rightarrow> go_time decoder" where
  "unmarshalNTime E = requiredIn E (scalarIn (geTime E))"

definition unmarshalOBoolean :: "input_env \<Rightarrow> (bool option) decoder" where
  "unmarshalOBoolean E = nullableIn E (scalarIn (geBoolean E))"

definition unmarshalOInt :: "input_env \<Rightarrow> (i64 option) decoder" where
  "unmarshalOInt E = nullableIn E (scalarIn (geInt E))"

definition unmarshalOString :: "input_env \<Rightarrow> (string option) decoder" where
  "unmarshalOString E = nullableIn E (scalarIn (geString E))"

definition unmarshalOTime :: "input_env \<Rightarrow> (go_time option) decoder" where
  "unmarshalOTime E = nullableIn E (scalarIn (geTime E))"

definition unmarshalOBool :: "input_env \<Rightarrow> bool decoder" where
  "unmarshalOBool E = requiredIn E (scalarIn (geBoolean E))"

definition unmarshalNOrder :: "input_env \<Rightarrow> Order decoder" where
  "unmarshalNOrder E = requiredIn E (enumIn Order_UnmarshalGQL)"

definition unmarshalNFilterableExtra :: "input_env \<Rightarrow> FilterableExtra decoder" where
  "unmarshalNFilterableExtra E = requiredIn E (enumIn FilterableExtra_UnmarshalGQL)"

definition unmarshalOFilterableExtra_list ::
    "input_env \<Rightarrow> (FilterableExtra list option) decoder" where
  "unmarshalOFilterableExtra_list E = listIn E (unmarshalNFilterableExtra E)"

definition unmarshalOMessageRoute :: "input_env \<Rightarrow> (MessageRoute option) decoder" where
  "unmarshalOMessageRoute E = nullableIn E (enumIn MessageRoute_UnmarshalGQL)"

definition unmarshalOMessageType :: "input_env \<Rightarrow> (MessageType option) decoder" where
  "unmarshalOMessageType E = nullableIn E (enumIn MessageType_UnmarshalGQL)"

definition unmarshalInputFilterString :: "input_env \<Rightarrow> FilterString decoder" where
  "unmarshalInputFilterString E = objectIn \<lparr>fsExists = None, fsEq = None, fsLike = None\<rparr>
     [fieldIn ''exists'' (unmarshalOBoolean E) (\<lambda>d it. it\<lparr>fsExists := d\<rparr>),
      fieldIn ''eq'' (unmarshalOString E) (\<lambda>d it. it\<lparr>fsEq := d\<rparr>),
      fieldIn ''like'' (unmarshalOString E) (\<lambda>d it. it\<lparr>fsLike := d\<rparr>)]"

definition unmarshalOFilterString :: "input_env \<Rightarrow> (FilterString option) decoder" where
  "unmarshalOFilterString E = nullableIn E (unmarshalInputFilterString E)"

definition unmarshalInputFilterInt :: "input_env \<Rightarrow> FilterInt decoder" where
  "unmarshalInputFilterInt E = objectIn \<lparr>fiExists = None, fiEq = None, fiGt = None, fiLt = None\<rparr>
     [fieldIn ''exists'' (unmarshalOBoolean E) (\<lambda>d it. it\<lparr>fiExists := d\<rparr>),
      fieldIn ''eq'' (unmarshalOInt E) (\<lambda>d it. it\<lparr>fiEq := d\<rparr>),
      fieldIn ''gt'' (unmarshalOInt E) (\<lambda>d it. it\<lparr>fiGt := d\<rparr>),
      fieldIn ''lt'' (unmarshalOInt E) (\<lambda>d it. it\<lparr>fiLt := d\<rparr>)]"

definition unmarshalOFilterInt :: "input_env \<Rightarrow> (FilterInt option) decoder" where
  "unmarshalOFilterInt E = nullableIn E (unmarshalInputFilterInt E)"

definition unmarshalInputFilterBoolean :: "input_env \<Rightarrow> FilterBoolean decoder" where
  "unmarshalInputFilterBoolean E = objectIn \<lparr>fbExists = None, fbEq = None\<rparr>
     [fieldIn ''exists'' (unmarshalOBoolean E) (\<lambda>d it. it\<lparr>fbExists := d\<rparr>),
      fieldIn ''eq'' (unmarshalOBoolean E) (\<lambda>d it. it\<lparr>fbEq := d\<rparr>)]"

definition unmarshalOFilterBoolean :: "input_env \<Rightarrow> (FilterBoolean option) decoder" where
  "unmarshalOFilterBoolean E = nullableIn E (unmarshalInputFilterBoolean E)"

definition unmarshalInputFilterTime :: "input_env \<Rightarrow> FilterTime decoder" where
  "unmarshalInputFilterTime E = objectIn \<lparr>ftExists = None, ftEq = None, ftBefore = None, ftAfter = None\<rparr>
     [fieldIn ''exists'' (unmarshalOBoolean E) (\<lambda>d it. it\<lparr>ftExists := d\<rparr>),
      fieldIn ''eq'' (unmarshalOTime E) (\<lambda>d it. it\<lparr>ftEq := d\<rparr>),
      fieldIn ''before'' (unmarshalOTime E) (\<lambda>d it. it\<lparr>ftBefore := d\<rparr>),
      fieldIn ''after'' (unmarshalOTime E) (\<lambda>d it. it\<lparr>ftAfter := d\<rparr>)]"

definition unmarshalOFilterTime :: "input_env \<Rightarrow> (FilterTime option) decoder" where
  "unmarshalOFilterTime E = nullableIn E (unmarshalInputFilterTime E)"

section \<open>Filters of nested objects\<close>

text \<open>
  The filters that are the type of a field of another filter; the names are those of the schema.
\<close>

definition unmarshalInputNestedFilterBankMsgSend ::
    "input_env \<Rightarrow> NestedFilterBankMsgSend decoder" where
  "unmarshalInputNestedFilterBankMsgSend E = filterIn E \<lparr>fBsFromAddress = None, fBsToAddress = None, fBsAmount = None\<rparr>
     [fieldIn ''from_address'' (unmarshalOFilterString E) (\<lambda>d it. it\<lparr>fBsFromAddress := d\<rparr>),
      fieldIn ''to_address'' (unmarshalOFilterString E) (\<lambda>d it. it\<lparr>fBsToAddress := d\<rparr>),
      fieldIn ''amount'' (unmarshalOFilterString E) (\<lambda>d it. it\<lparr>fBsAmount := d\<rparr>)]"

definition unmarshalONestedFilterBankMsgSend ::
    "input_env \<Rightarrow> (NestedFilterBankMsgSend option) decoder" where
  "unmarshalONestedFilterBankMsgSend E = nullableIn E (unmarshalInputNestedFilterBankMsgSend E)"

definition unmarshalONestedFilterBankMsgSend_list ::
    "input_env \<Rightarrow> (NestedFilterBankMsgSend option list) decoder" where
  "unmarshalONestedFilterBankMsgSend_list E = sliceIn E (unmarshalONestedFilterBankMsgSend E)"

definition unmarshalInputNestedFilterCoin ::
    "input_env \<Rightarrow> NestedFilterCoin decoder" where
  "unmarshalInputNestedFilterCoin E = filterIn E \<lparr>fCoAmount = None, fCoDenom = None\<rparr>
     [fieldIn ''amount'' (unmarshalOFilterInt E) (\<lambda>d it. it\<lparr>fCoAmount := d\<rparr>),
      fieldIn ''denom'' (unmarshalOFilterString E) (\<lambda>d it. it\<lparr>fCoDenom := d\<rparr>)]"

definition unmarshalONestedFilterCoin ::
    "input_env \<Rightarrow> (NestedFilterCoin option) decoder" where
  "unmarshalONestedFilterCoin E = nullableIn E (unmarshalInputNestedFilterCoin E)"

definition unmarshalONestedFilterCoin_list ::
    "input_env \<Rightarrow> (NestedFilterCoin option list) decoder" where
  "unmarshalONestedFilterCoin_list E = sliceIn E (unmarshalONestedFilterCoin E)"

definition unmarshalInputNestedFilterTxFee ::
    "input_env \<Rightarrow> NestedFilterTxFee decoder" where
  "unmarshalInputNestedFilterTxFee E = filterIn E \<lparr>fTfGasWanted = None, fTfGasFee = None\<rparr>
     [fieldIn ''gas_wanted'' (unmarshalOFilterInt E) (\<lambda>d it. it\<lparr>fTfGasWanted := d\<rparr>),
      fieldIn ''gas_fee'' (unmarshalONestedFilterCoin E) (\<lambda>d it. it\<lparr>fTfGasFee := d\<rparr>)]"

definition unmarshalONestedFilterTxFee ::
    "input_env \<Rightarrow> (NestedFilterTxFee option) decoder" where
  "unmarshalONestedFilterTxFee E = nullableIn E (unmarshalInputNestedFilterTxFee E)"

definition unmarshalONestedFilterTxFee_list ::
    "input_env \<Rightarrow> (NestedFilterTxFee option list) decoder" where
  "unmarshalONestedFilterTxFee_list E = sliceIn E (unmarshalONestedFilterTxFee E)"

definition unmarshalInputNestedFilterBlockTransaction ::
    "input_env \<Rightarrow> NestedFilterBlockTransaction decoder" where
  "unmarshalInputNestedFilterBlockTransaction E = filterIn E \<lparr>fBtHash = None, fBtFee = None, fBtMemo = None\<rparr>
     [fieldIn ''hash'' (unmarshalOFilterString E) (\<lambda>d it. it\<lparr>fBtHash := d\<rparr>),
      fieldIn ''fee'' (unmarshalONestedFilterTxFee E) (\<lambda>d it. it\<lparr>fBtFee := d\<rparr>),
      fieldIn ''memo'' (unmarshalOFilterString E) (\<lambda>d it. it\<lparr>fBtMemo := d\<rparr>)]"

definition unmarshalONestedFilterBlockTransaction ::
    "input_env \<Rightarrow> (NestedFilterBlockTransaction option) decoder" where
  "unmarshalONestedFilterBlockTransaction E = nullableIn E (unmarshalInputNestedFilterBlockTransaction E)"

definition unmarshalONestedFilterBlockTransaction_list ::
    "input_env \<Rightarrow> (NestedFilterBlockTransaction option list) decoder" where
  "unmarshalONestedFilterBlockTransaction_list E = sliceIn E (unmarshalONestedFilterBlockTransaction E)"

definition unmarshalInputNestedFilterGnoEventAttribute ::
    "input_env \<Rightarrow> NestedFilterGnoEventAttribute decoder" where
  "unmarshalInputNestedFilterGnoEventAttribute E = filterIn E \<lparr>fGaKey = None, fGaValue = None\<rparr>
     [fieldIn ''key'' (unmarshalOFilterString E) (\<lambda>d it. it\<lparr>fGaKey := d\<rparr>),
      fieldIn ''value'' (unmarshalOFilterString E) (\<lambda>d it. it\<lparr>fGaValue := d\<rparr>)]"

definition unmarshalONestedFilterGnoEventAttribute ::
    "input_env \<Rightarrow> (NestedFilterGnoEventAttribute option) decoder" where
  "unmarshalONestedFilterGnoEventAttribute E = nullableIn E (unmarshalInputNestedFilterGnoEventAttribute E)"

definition unmarshalONestedFilterGnoEventAttribute_list ::
    "input_env \<Rightarrow> (NestedFilterGnoEventAttribute option list) decoder" where
  "unmarshalONestedFilterGnoEventAttribute_list E = sliceIn E (unmarshalONestedFilterGnoEventAttribute E)"

definition unmarshalInputNestedFilterGnoEvent ::
    "input_env \<Rightarrow> NestedFilterGnoEvent decoder" where
  "unmarshalInputNestedFilterGnoEvent E = filterIn E \<lparr>fGeType = None, fGePkgPath = None, fGeAttrs = None\<rparr>
     [fieldIn ''type'' (unmarshalOFilterString E) (\<lambda>d it. it\<lparr>fGeType := d\<rparr>),
      fieldIn ''pkg_path'' (unmarshalOFilterString E) (\<lambda>d it. it\<lparr>fGePkgPath := d\<rparr>),
      fieldIn ''attrs'' (unmarshalONestedFilterGnoEventAttribute E) (\<lambda>d it. it\<lparr>fGeAttrs := d\<rparr>)]"

definition unmarshalONestedFilterGnoEvent ::
    "input_env \<Rightarrow> (NestedFilterGnoEvent option) decoder" where
  "unmarshalONestedFilterGnoEvent E = nullableIn E (unmarshalInputNestedFilterGnoEvent E)"

definition unmarshalONestedFilterGnoEvent_list ::
    "input_env \<Rightarrow> (NestedFilterGnoEvent option list) decoder" where
  "unmarshalONestedFilterGnoEvent_list E = sliceIn E (unmarshalONestedFilterGnoEvent E)"

definition unmarshalInputNestedFilterStorageDepositEvent ::
    "input_env \<Rightarrow> NestedFilterStorageDepositEvent decoder" where
  "unmarshalInputNestedFilterStorageDepositEvent E = filterIn E \<lparr>fSdType = None, fSdBytesDelta = None, fSdFeeDelta = None, fSdPkgPath = None\<rparr>
     [fieldIn ''type'' (unmarshalOFilterString E) (\<lambda>d it. it\<lparr>fSdType := d\<rparr>),
      fieldIn ''bytes_delta'' (unmarshalOFilterInt E) (\<lambda>d it. it\<lparr>fSdBytesDelta := d\<rparr>),
      fieldIn ''fee_delta'' (unmarshalONestedFilterCoin E) (\<lambda>d it. it\<lparr>fSdFeeDelta := d\<rparr>),
      fieldIn ''pkg_path'' (unmarshalOFilterString E) (\<lambda>d it. it\<lparr>fSdPkgPath := d\<rparr>)]"

definition unmarshalONestedFilterStorageDepositEvent ::
    "input_env \<Rightarrow> (NestedFilterStorageDepositEvent option) decoder" where
  "unmarshalONestedFilterStorageDepositEvent E = nullableIn E (unmarshalInputNestedFilterStorageDepositEvent E)"

definition unmarshalONestedFilterStorageDepositEvent_list ::
    "input_env \<Rightarrow> (NestedFilterStorageDepositEvent option list) decoder" where
  "unmarshalONestedFilterStorageDepositEvent_list E = sliceIn E (unmarshalONestedFilterStorageDepositEvent E)"

definition unmarshalInputNestedFilterStorageUnlockEvent ::
    "input_env \<Rightarrow> NestedFilterStorageUnlockEvent decoder" where
  "unmarshalInputNestedFilterStorageUnlockEvent E = filterIn E \<lparr>fSuType = None, fSuBytesDelta = None, fSuFeeRefund = None, fSuPkgPath = None\<rparr>
     [fieldIn ''type'' (unmarshalOFilterString E) (\<lambda>d it. it\<lparr>fSuType := d\<rparr>),
      fieldIn ''bytes_delta'' (unmarshalOFilterInt E) (\<lambda>d it. it\<lparr>fSuBytesDelta := d\<rparr>),
      fieldIn ''fee_refund'' (unmarshalONestedFilterCoin E) (\<lambda>d it. it\<lparr>fSuFeeRefund := d\<rparr>),
      fieldIn ''pkg_path'' (unmarshalOFilterString E) (\<lambda>d it. it\<lparr>fSuPkgPath := d\<rparr>)]"

definition unmarshalONestedFilterStorageUnlockEvent ::
    "input_env \<Rightarrow> (NestedFilterStorageUnlockEvent option) decoder" where
  "unmarshalONestedFilterStorageUnlockEvent E = nullableIn E (unmarshalInputNestedFilterStorageUnlockEvent E)"

definition unmarshalONestedFilterStorageUnlockEvent_list ::
    "input_env \<Rightarrow> (NestedFilterStorageUnlockEvent option list) decoder" where
  "unmarshalONestedFilterStorageUnlockEvent_list E = sliceIn E (unmarshalONestedFilterStorageUnlockEvent E)"

definition unmarshalInputNestedFilterUnknownEvent ::
    "input_env \<Rightarrow> NestedFilterUnknownEvent decoder" where
  "unmarshalInputNestedFilterUnknownEvent E = filterIn E \<lparr>fUeValue = None\<rparr>
     [fieldIn ''value'' (unmarshalOFilterString E) (\<lambda>d it. it\<lparr>fUeValue := d\<rparr>)]"

definition unmarshalONestedFilterUnknownEvent ::
    "input_env \<Rightarrow> (NestedFilterUnknownEvent option) decoder" where
  "unmarshalONestedFilterUnknownEvent E = nullableIn E (unmarshalInputNestedFilterUnknownEvent E)"

definition unmarshalONestedFilterUnknownEvent_list ::
    "input_env \<Rightarrow> (NestedFilterUnknownEvent option list) decoder" where
  "unmarshalONestedFilterUnknownEvent_list E = sliceIn E (unmarshalONestedFilterUnknownEvent E)"

definition unmarshalInputNestedFilterEvent ::
    "input_env \<Rightarrow> NestedFilterEvent decoder" where
  "unmarshalInputNestedFilterEvent E = filterIn E \<lparr>fEvGnoEvent = None, fEvStorageDepositEvent = None, fEvStorageUnlockEvent = None,
      fEvUnknownEvent = None\<rparr>
     [fieldIn ''GnoEvent'' (unmarshalONestedFilterGnoEvent E) (\<lambda>d it. it\<lparr>fEvGnoEvent := d\<rparr>),
      fieldIn ''StorageDepositEvent'' (unmarshalONestedFilterStorageDepositEvent E) (\<lambda>d it. it\<lparr>fEvStorageDepositEvent := d\<rparr>),
      fieldIn ''StorageUnlockEvent'' (unmarshalONestedFilterStorageUnlockEvent E) (\<lambda>d it. it\<lparr>fEvStorageUnlockEvent := d\<rparr>),
      fieldIn ''UnknownEvent'' (unmarshalONestedFilterUnknownEvent E) (\<lambda>d it. it\<lparr>fEvUnknownEvent := d\<rparr>)]"

definition unmarshalONestedFilterEvent ::
    "input_env \<Rightarrow> (NestedFilterEvent option) decoder" where
  "unmarshalONestedFilterEvent E = nullableIn E (unmarshalInputNestedFilterEvent E)"

definition unmarshalONestedFilterEvent_list ::
    "input_env \<Rightarrow> (NestedFilterEvent option list) decoder" where
  "unmarshalONestedFilterEvent_list E = sliceIn E (unmarshalONestedFilterEvent E)"

definition unmarshalInputNestedFilterMemFile ::
    "input_env \<Rightarrow> NestedFilterMemFile decoder" where
  "unmarshalInputNestedFilterMemFile E = filterIn E \<lparr>fMfName = None, fMfBody = None\<rparr>
     [fieldIn ''name'' (unmarshalOFilterString E) (\<lambda>d it. it\<lparr>fMfName := d\<rparr>),
      fieldIn ''body'' (unmarshalOFilterString E) (\<lambda>d it. it\<lparr>fMfBody := d\<rparr>)]"

definition unmarshalONestedFilterMemFile ::
    "input_env \<Rightarrow> (NestedFilterMemFile option) decoder" where
  "unmarshalONestedFilterMemFile E = nullableIn E (unmarshalInputNestedFilterMemFile E)"

definition unmarshalONestedFilterMemFile_list ::
    "input_env \<Rightarrow> (NestedFilterMemFile option list) decoder" where
  "unmarshalONestedFilterMemFile_list E = sliceIn E (unmarshalONestedFilterMemFile E)"

definition unmarshalInputNestedFilterMemPackage ::
    "input_env \<Rightarrow> NestedFilterMemPackage decoder" where
  "unmarshalInputNestedFilterMemPackage E = filterIn E \<lparr>fMpName = None, fMpPath = None, fMpFiles = None\<rparr>
     [fieldIn ''name'' (unmarshalOFilterString E) (\<lambda>d it. it\<lparr>fMpName := d\<rparr>),
      fieldIn ''path'' (unmarshalOFilterString E) (\<lambda>d it. it\<lparr>fMpPath := d\<rparr>),
      fieldIn ''files'' (unmarshalONestedFilterMemFile E) (\<lambda>d it. it\<lparr>fMpFiles := d\<rparr>)]"

definition unmarshalONestedFilterMemPackage ::
    "input_env \<Rightarrow> (NestedFilterMemPackage option) decoder" where
  "unmarshalONestedFilterMemPackage E = nullableIn E (unmarshalInputNestedFilterMemPackage E)"

definition unmarshalONestedFilterMemPackage_list ::
    "input_env \<Rightarrow> (NestedFilterMemPackage option list) decoder" where
  "unmarshalONestedFilterMemPackage_list E = sliceIn E (unmarshalONestedFilterMemPackage E)"

definition unmarshalInputNestedFilterMsgCall ::
    "input_env \<Rightarrow> NestedFilterMsgCall decoder" where
  "unmarshalInputNestedFilterMsgCall E = filterIn E \<lparr>fMcCaller = None, fMcSend = None, fMcPkgPath = None, fMcFunc = None, fMcArgs = None,
      fMcMaxDeposit = None\<rparr>
     [fieldIn ''caller'' (unmarshalOFilterString E) (\<lambda>d it. it\<lparr>fMcCaller := d\<rparr>),
      fieldIn ''send'' (unmarshalOFilterString E) (\<lambda>d it. it\<lparr>fMcSend := d\<rparr>),
      fieldIn ''pkg_path'' (unmarshalOFilterString E) (\<lambda>d it. it\<lparr>fMcPkgPath := d\<rparr>),
      fieldIn ''func'' (unmarshalOFilterString E) (\<lambda>d it. it\<lparr>fMcFunc := d\<rparr>),
      fieldIn ''args'' (unmarshalOFilterString E) (\<lambda>d it. it\<lparr>fMcArgs := d\<rparr>),
      fieldIn ''max_deposit'' (unmarshalOFilterString E) (\<lambda>d it. it\<lparr>fMcMaxDeposit := d\<rparr>)]"

definition unmarshalONestedFilterMsgCall ::
    "input_env \<Rightarrow> (NestedFilterMsgCall option) decoder" where
  "unmarshalONestedFilterMsgCall E = nullableIn E (unmarshalInputNestedFilterMsgCall E)"

definition unmarshalONestedFilterMsgCall_list ::
    "input_env \<Rightarrow> (NestedFilterMsgCall option list) decoder" where
  "unmarshalONestedFilterMsgCall_list E = sliceIn E (unmarshalONestedFilterMsgCall E)"

definition unmarshalInputNestedFilterMsgAddPackage ::
    "input_env \<Rightarrow> NestedFilterMsgAddPackage decoder" where
  "unmarshalInputNestedFilterMsgAddPackage E = filterIn E \<lparr>fMaCreator = None, fMaPackage = None, fMaDeposit = None, fMaSend = None,
      fMaMaxDeposit = None\<rparr>
     [fieldIn ''creator'' (unmarshalOFilterString E) (\<lambda>d it. it\<lparr>fMaCreator := d\<rparr>),
      fieldIn ''package'' (unmarshalONestedFilterMemPackage E) (\<lambda>d it. it\<lparr>fMaPackage := d\<rparr>),
      fieldIn ''deposit'' (unmarshalOFilterString E) (\<lambda>d it. it\<lparr>fMaDeposit := d\<rparr>),
      fieldIn ''send'' (unmarshalOFilterString E) (\<lambda>d it. it\<lparr>fMaSend := d\<rparr>),
      fieldIn ''max_deposit'' (unmarshalOFilterString E) (\<lambda>d it. it\<lparr>fMaMaxDeposit := d\<rparr>)]"

definition unmarshalONestedFilterMsgAddPackage ::
    "input_env \<Rightarrow> (NestedFilterMsgAddPackage option) decoder" where
  "unmarshalONestedFilterMsgAddPackage E = nullableIn E (unmarshalInputNestedFilterMsgAddPackage E)"

definition unmarshalONestedFilterMsgAddPackage_list ::
    "input_env \<Rightarrow> (NestedFilterMsgAddPackage option list) decoder" where
  "unmarshalONestedFilterMsgAddPackage_list E = sliceIn E (unmarshalONestedFilterMsgAddPackage E)"

definition unmarshalInputNestedFilterMsgRun ::
    "input_env \<Rightarrow> NestedFilterMsgRun decoder" where
  "unmarshalInputNestedFilterMsgRun E = filterIn E \<lparr>fMrCaller = None, fMrSend = None, fMrPackage = None, fMrMaxDeposit = None\<rparr>
     [fieldIn ''caller'' (unmarshalOFilterString E) (\<lambda>d it. it\<lparr>fMrCaller := d\<rparr>),
      fieldIn ''send'' (unmarshalOFilterString E) (\<lambda>d it. it\<lparr>fMrSend := d\<rparr>),
      fieldIn ''package'' (unmarshalONestedFilterMemPackage E) (\<lambda>d it. it\<lparr>fMrPackage := d\<rparr>),
      fieldIn ''max_deposit'' (unmarshalOFilterString E) (\<lambda>d it. it\<lparr>fMrMaxDeposit := d\<rparr>)]"

definition unmarshalONestedFilterMsgRun ::
    "input_env \<Rightarrow> (NestedFilterMsgRun option) decoder" where
  "unmarshalONestedFilterMsgRun E = nullableIn E (unmarshalInputNestedFilterMsgRun E)"

definition unmarshalONestedFilterMsgRun_list ::
    "input_env \<Rightarrow> (NestedFilterMsgRun option list) decoder" where
  "unmarshalONestedFilterMsgRun_list E = sliceIn E (unmarshalONestedFilterMsgRun E)"

definition unmarshalInputNestedFilterMessageValue ::
    "input_env \<Rightarrow> NestedFilterMessageValue decoder" where
  "unmarshalInputNestedFilterMessageValue E = filterIn E \<lparr>fMvBankMsgSend = None, fMvMsgCall = None, fMvMsgAddPackage = None, fMvMsgRun = None\<rparr>
     [fieldIn ''BankMsgSend'' (unmarshalONestedFilterBankMsgSend E) (\<lambda>d it. it\<lparr>fMvBankMsgSend := d\<rparr>),
      fieldIn ''MsgCall'' (unmarshalONestedFilterMsgCall E) (\<lambda>d it. it\<lparr>fMvMsgCall := d\<rparr>),
      fieldIn ''MsgAddPackage'' (unmarshalONestedFilterMsgAddPackage E) (\<lambda>d it. it\<lparr>fMvMsgAddPackage := d\<rparr>),
      fieldIn ''MsgRun'' (unmarshalONestedFilterMsgRun E) (\<lambda>d it. it\<lparr>fMvMsgRun := d\<rparr>)]"

definition unmarshalONestedFilterMessageValue ::
    "input_env \<Rightarrow> (NestedFilterMessageValue option) decoder" where
  "unmarshalONestedFilterMessageValue E = nullableIn E (unmarshalInputNestedFilterMessageValue E)"

definition unmarshalONestedFilterMessageValue_list ::
    "input_env \<Rightarrow> (NestedFilterMessageValue option list) decoder" where
  "unmarshalONestedFilterMessageValue_list E = sliceIn E (unmarshalONestedFilterMessageValue E)"

definition unmarshalInputNestedFilterTransactionMessage ::
    "input_env \<Rightarrow> NestedFilterTransactionMessage decoder" where
  "unmarshalInputNestedFilterTransactionMessage E = filterIn E \<lparr>fTmTypeURL = None, fTmRoute = None, fTmValue = None\<rparr>
     [fieldIn ''typeUrl'' (unmarshalOFilterString E) (\<lambda>d it. it\<lparr>fTmTypeURL := d\<rparr>),
      fieldIn ''route'' (unmarshalOFilterString E) (\<lambda>d it. it\<lparr>fTmRoute := d\<rparr>),
      fieldIn ''value'' (unmarshalONestedFilterMessageValue E) (\<lambda>d it. it\<lparr>fTmValue := d\<rparr>)]"

definition unmarshalONestedFilterTransactionMessage ::
    "input_env \<Rightarrow> (NestedFilterTransactionMessage option) decoder" where
  "unmarshalONestedFilterTransactionMessage E = nullableIn E (unmarshalInputNestedFilterTransactionMessage E)"

definition unmarshalONestedFilterTransactionMessage_list ::
    "input_env \<Rightarrow> (NestedFilterTransactionMessage option list) decoder" where
  "unmarshalONestedFilterTransactionMessage_list E = sliceIn E (unmarshalONestedFilterTransactionMessage E)"

definition unmarshalInputNestedFilterTransactionResponse ::
    "input_env \<Rightarrow> NestedFilterTransactionResponse decoder" where
  "unmarshalInputNestedFilterTransactionResponse E = filterIn E \<lparr>fTrLog = None, fTrInfo = None, fTrError = None, fTrData = None, fTrEvents = None\<rparr>
     [fieldIn ''log'' (unmarshalOFilterString E) (\<lambda>d it. it\<lparr>fTrLog := d\<rparr>),
      fieldIn ''info'' (unmarshalOFilterString E) (\<lambda>d it. it\<lparr>fTrInfo := d\<rparr>),
      fieldIn ''error'' (unmarshalOFilterString E) (\<lambda>d it. it\<lparr>fTrError := d\<rparr>),
      fieldIn ''data'' (unmarshalOFilterString E) (\<lambda>d it. it\<lparr>fTrData := d\<rparr>),
      fieldIn ''events'' (unmarshalONestedFilterEvent E) (\<lambda>d it. it\<lparr>fTrEvents := d\<rparr>)]"

definition unmarshalONestedFilterTransactionResponse ::
    "input_env \<Rightarrow> (NestedFilterTransactionResponse option) decoder" where
  "unmarshalONestedFilterTransactionResponse E = nullableIn E (unmarshalInputNestedFilterTransactionResponse E)"

definition unmarshalONestedFilterTransactionResponse_list ::
    "input_env \<Rightarrow> (NestedFilterTransactionResponse option list) decoder" where
  "unmarshalONestedFilterTransactionResponse_list E = sliceIn E (unmarshalONestedFilterTransactionResponse E)"

section \<open>Filters of the two query types\<close>

abbreviation zeroFilterTransaction :: FilterTransaction_fields where
  "zeroFilterTransaction \<equiv> \<lparr>fTnIndex = None, fTnHash = None, fTnSuccess = None, fTnBlockHeight = None, fTnGasWanted = None,
      fTnGasUsed = None, fTnGasFee = None, fTnMessages = None, fTnMemo = None, fTnResponse = None\<rparr>"

definition unmarshalInputFilterTransaction ::
    "input_env \<Rightarrow> FilterTransaction decoder" where
  "unmarshalInputFilterTransaction E = filterIn E zeroFilterTransaction
     [fieldIn ''index'' (unmarshalOFilterInt E) (\<lambda>d it. it\<lparr>fTnIndex := d\<rparr>),
      fieldIn ''hash'' (unmarshalOFilterString E) (\<lambda>d it. it\<lparr>fTnHash := d\<rparr>),
      fieldIn ''success'' (unmarshalOFilterBoolean E) (\<lambda>d it. it\<lparr>fTnSuccess := d\<rparr>),
      fieldIn ''block_height'' (unmarshalOFilterInt E) (\<lambda>d it. it\<lparr>fTnBlockHeight := d\<rparr>),
      fieldIn ''gas_wanted'' (unmarshalOFilterInt E) (\<lambda>d it. it\<lparr>fTnGasWanted := d\<rparr>),
      fieldIn ''gas_used'' (unmarshalOFilterInt E) (\<lambda>d it. it\<lparr>fTnGasUsed := d\<rparr>),
      fieldIn ''gas_fee'' (unmarshalONestedFilterCoin E) (\<lambda>d it. it\<lparr>fTnGasFee := d\<rparr>),
      fieldIn ''messages'' (unmarshalONestedFilterTransactionMessage E) (\<lambda>d it. it\<lparr>fTnMessages := d\<rparr>),
      fieldIn ''memo'' (unmarshalOFilterString E) (\<lambda>d it. it\<lparr>fTnMemo := d\<rparr>),
      fieldIn ''response'' (unmarshalONestedFilterTransactionResponse E) (\<lambda>d it. it\<lparr>fTnResponse := d\<rparr>)]"

definition unmarshalOFilterTransaction ::
    "input_env \<Rightarrow> (FilterTransaction option) decoder" where
  "unmarshalOFilterTransaction E = nullableIn E (unmarshalInputFilterTransaction E)"

definition unmarshalOFilterTransaction_list ::
    "input_env \<Rightarrow> (FilterTransaction option list) decoder" where
  "unmarshalOFilterTransaction_list E = sliceIn E (unmarshalOFilterTransaction E)"

definition unmarshalNFilterTransaction ::
    "input_env \<Rightarrow> FilterTransaction decoder" where
  "unmarshalNFilterTransaction E = requiredIn E (unmarshalInputFilterTransaction E)"

abbreviation zeroFilterBlock :: FilterBlock_fields where
  "zeroFilterBlock \<equiv> \<lparr>fBkHash = None, fBkHeight = None, fBkVersion = None, fBkChainID = None, fBkTime = None,
      fBkNumTxs = None, fBkTotalTxs = None, fBkAppVersion = None, fBkLastBlockHash = None,
      fBkLastCommitHash = None, fBkValidatorsHash = None, fBkNextValidatorsHash = None,
      fBkConsensusHash = None, fBkAppHash = None, fBkLastResultsHash = None, fBkProposerAddressRaw = None,
      fBkTxs = None\<rparr>"

definition unmarshalInputFilterBlock ::
    "input_env \<Rightarrow> FilterBlock decoder" where
  "unmarshalInputFilterBlock E = filterIn E zeroFilterBlock
     [fieldIn ''hash'' (unmarshalOFilterString E) (\<lambda>d it. it\<lparr>fBkHash := d\<rparr>),
      fieldIn ''height'' (unmarshalOFilterInt E) (\<lambda>d it. it\<lparr>fBkHeight := d\<rparr>),
      fieldIn ''version'' (unmarshalOFilterString E) (\<lambda>d it. it\<lparr>fBkVersion := d\<rparr>),
      fieldIn ''chain_id'' (unmarshalOFilterString E) (\<lambda>d it. it\<lparr>fBkChainID := d\<rparr>),
      fieldIn ''time'' (unmarshalOFilterTime E) (\<lambda>d it. it\<lparr>fBkTime := d\<rparr>),
      fieldIn ''num_txs'' (unmarshalOFilterInt E) (\<lambda>d it. it\<lparr>fBkNumTxs := d\<rparr>),
      fieldIn ''total_txs'' (unmarshalOFilterInt E) (\<lambda>d it. it\<lparr>fBkTotalTxs := d\<rparr>),
      fieldIn ''app_version'' (unmarshalOFilterString E) (\<lambda>d it. it\<lparr>fBkAppVersion := d\<rparr>),
      fieldIn ''last_block_hash'' (unmarshalOFilterString E) (\<lambda>d it. it\<lparr>fBkLastBlockHash := d\<rparr>),
      fieldIn ''last_commit_hash'' (unmarshalOFilterString E) (\<lambda>d it. it\<lparr>fBkLastCommitHash := d\<rparr>),
      fieldIn ''validators_hash'' (unmarshalOFilterString E) (\<lambda>d it. it\<lparr>fBkValidatorsHash := d\<rparr>),
      fieldIn ''next_validators_hash'' (unmarshalOFilterString E) (\<lambda>d it. it\<lparr>fBkNextValidatorsHash := d\<rparr>),
      fieldIn ''consensus_hash'' (unmarshalOFilterString E) (\<lambda>d it. it\<lparr>fBkConsensusHash := d\<rparr>),
      fieldIn ''app_hash'' (unmarshalOFilterString E) (\<lambda>d it. it\<lparr>fBkAppHash := d\<rparr>),
      fieldIn ''last_results_hash'' (unmarshalOFilterString E) (\<lambda>d it. it\<lparr>fBkLastResultsHash := d\<rparr>),
      fieldIn ''proposer_address_raw'' (unmarshalOFilterString E) (\<lambda>d it. it\<lparr>fBkProposerAddressRaw := d\<rparr>),
      fieldIn ''txs'' (unmarshalONestedFilterBlockTransaction E) (\<lambda>d it. it\<lparr>fBkTxs := d\<rparr>)]"

definition unmarshalOFilterBlock ::
    "input_env \<Rightarrow> (FilterBlock option) decoder" where
  "unmarshalOFilterBlock E = nullableIn E (unmarshalInputFilterBlock E)"

definition unmarshalOFilterBlock_list ::
    "input_env \<Rightarrow> (FilterBlock option list) decoder" where
  "unmarshalOFilterBlock_list E = sliceIn E (unmarshalOFilterBlock E)"

definition unmarshalNFilterBlock :: "input_env \<Rightarrow> FilterBlock decoder" where
  "unmarshalNFilterBlock E = requiredIn E (unmarshalInputFilterBlock E)"

section \<open>Filters that no field uses\<close>

text \<open>
  For every nested filter the generator emits a second input with the same fields, whose logical operators have
  elements of its own type.
\<close>

definition unmarshalInputFilterBankMsgSend ::
    "input_env \<Rightarrow> NestedFilterBankMsgSend decoder" where
  "unmarshalInputFilterBankMsgSend E = filterIn E \<lparr>fBsFromAddress = None, fBsToAddress = None, fBsAmount = None\<rparr>
     [fieldIn ''from_address'' (unmarshalOFilterString E) (\<lambda>d it. it\<lparr>fBsFromAddress := d\<rparr>),
      fieldIn ''to_address'' (unmarshalOFilterString E) (\<lambda>d it. it\<lparr>fBsToAddress := d\<rparr>),
      fieldIn ''amount'' (unmarshalOFilterString E) (\<lambda>d it. it\<lparr>fBsAmount := d\<rparr>)]"

definition unmarshalOFilterBankMsgSend ::
    "input_env \<Rightarrow> (NestedFilterBankMsgSend option) decoder" where
  "unmarshalOFilterBankMsgSend E = nullableIn E (unmarshalInputFilterBankMsgSend E)"

definition unmarshalOFilterBankMsgSend_list ::
    "input_env \<Rightarrow> (NestedFilterBankMsgSend option list) decoder" where
  "unmarshalOFilterBankMsgSend_list E = sliceIn E (unmarshalOFilterBankMsgSend E)"

definition unmarshalInputFilterBlockTransaction ::
    "input_env \<Rightarrow> NestedFilterBlockTransaction decoder" where
  "unmarshalInputFilterBlockTransaction E = filterIn E \<lparr>fBtHash = None, fBtFee = None, fBtMemo = None\<rparr>
     [fieldIn ''hash'' (unmarshalOFilterString E) (\<lambda>d it. it\<lparr>fBtHash := d\<rparr>),
      fieldIn ''fee'' (unmarshalONestedFilterTxFee E) (\<lambda>d it. it\<lparr>fBtFee := d\<rparr>),
      fieldIn ''memo'' (unmarshalOFilterString E) (\<lambda>d it. it\<lparr>fBtMemo := d\<rparr>)]"

definition unmarshalOFilterBlockTransaction ::
    "input_env \<Rightarrow> (NestedFilterBlockTransaction option) decoder" where
  "unmarshalOFilterBlockTransaction E = nullableIn E (unmarshalInputFilterBlockTransaction E)"

definition unmarshalOFilterBlockTransaction_list ::
    "input_env \<Rightarrow> (NestedFilterBlockTransaction option list) decoder" where
  "unmarshalOFilterBlockTransaction_list E = sliceIn E (unmarshalOFilterBlockTransaction E)"

definition unmarshalInputFilterCoin ::
    "input_env \<Rightarrow> NestedFilterCoin decoder" where
  "unmarshalInputFilterCoin E = filterIn E \<lparr>fCoAmount = None, fCoDenom = None\<rparr>
     [fieldIn ''amount'' (unmarshalOFilterInt E) (\<lambda>d it. it\<lparr>fCoAmount := d\<rparr>),
      fieldIn ''denom'' (unmarshalOFilterString E) (\<lambda>d it. it\<lparr>fCoDenom := d\<rparr>)]"

definition unmarshalOFilterCoin ::
    "input_env \<Rightarrow> (NestedFilterCoin option) decoder" where
  "unmarshalOFilterCoin E = nullableIn E (unmarshalInputFilterCoin E)"

definition unmarshalOFilterCoin_list ::
    "input_env \<Rightarrow> (NestedFilterCoin option list) decoder" where
  "unmarshalOFilterCoin_list E = sliceIn E (unmarshalOFilterCoin E)"

definition unmarshalInputFilterEvent ::
    "input_env \<Rightarrow> NestedFilterEvent decoder" where
  "unmarshalInputFilterEvent E = filterIn E \<lparr>fEvGnoEvent = None, fEvStorageDepositEvent = None, fEvStorageUnlockEvent = None,
      fEvUnknownEvent = None\<rparr>
     [fieldIn ''GnoEvent'' (unmarshalONestedFilterGnoEvent E) (\<lambda>d it. it\<lparr>fEvGnoEvent := d\<rparr>),
      fieldIn ''StorageDepositEvent'' (unmarshalONestedFilterStorageDepositEvent E) (\<lambda>d it. it\<lparr>fEvStorageDepositEvent := d\<rparr>),
      fieldIn ''StorageUnlockEvent'' (unmarshalONestedFilterStorageUnlockEvent E) (\<lambda>d it. it\<lparr>fEvStorageUnlockEvent := d\<rparr>),
      fieldIn ''UnknownEvent'' (unmarshalONestedFilterUnknownEvent E) (\<lambda>d it. it\<lparr>fEvUnknownEvent := d\<rparr>)]"

definition unmarshalOFilterEvent ::
    "input_env \<Rightarrow> (NestedFilterEvent option) decoder" where
  "unmarshalOFilterEvent E = nullableIn E (unmarshalInputFilterEvent E)"

definition unmarshalOFilterEvent_list ::
    "input_env \<Rightarrow> (NestedFilterEvent option list) decoder" where
  "unmarshalOFilterEvent_list E = sliceIn E (unmarshalOFilterEvent E)"

definition unmarshalInputFilterGnoEvent ::
    "input_env \<Rightarrow> NestedFilterGnoEvent decoder" where
  "unmarshalInputFilterGnoEvent E = filterIn E \<lparr>fGeType = None, fGePkgPath = None, fGeAttrs = None\<rparr>
     [fieldIn ''type'' (unmarshalOFilterString E) (\<lambda>d it. it\<lparr>fGeType := d\<rparr>),
      fieldIn ''pkg_path'' (unmarshalOFilterString E) (\<lambda>d it. it\<lparr>fGePkgPath := d\<rparr>),
      fieldIn ''attrs'' (unmarshalONestedFilterGnoEventAttribute E) (\<lambda>d it. it\<lparr>fGeAttrs := d\<rparr>)]"

definition unmarshalOFilterGnoEvent ::
    "input_env \<Rightarrow> (NestedFilterGnoEvent option) decoder" where
  "unmarshalOFilterGnoEvent E = nullableIn E (unmarshalInputFilterGnoEvent E)"

definition unmarshalOFilterGnoEvent_list ::
    "input_env \<Rightarrow> (NestedFilterGnoEvent option list) decoder" where
  "unmarshalOFilterGnoEvent_list E = sliceIn E (unmarshalOFilterGnoEvent E)"

definition unmarshalInputFilterGnoEventAttribute ::
    "input_env \<Rightarrow> NestedFilterGnoEventAttribute decoder" where
  "unmarshalInputFilterGnoEventAttribute E = filterIn E \<lparr>fGaKey = None, fGaValue = None\<rparr>
     [fieldIn ''key'' (unmarshalOFilterString E) (\<lambda>d it. it\<lparr>fGaKey := d\<rparr>),
      fieldIn ''value'' (unmarshalOFilterString E) (\<lambda>d it. it\<lparr>fGaValue := d\<rparr>)]"

definition unmarshalOFilterGnoEventAttribute ::
    "input_env \<Rightarrow> (NestedFilterGnoEventAttribute option) decoder" where
  "unmarshalOFilterGnoEventAttribute E = nullableIn E (unmarshalInputFilterGnoEventAttribute E)"

definition unmarshalOFilterGnoEventAttribute_list ::
    "input_env \<Rightarrow> (NestedFilterGnoEventAttribute option list) decoder" where
  "unmarshalOFilterGnoEventAttribute_list E = sliceIn E (unmarshalOFilterGnoEventAttribute E)"

definition unmarshalInputFilterMemFile ::
    "input_env \<Rightarrow> NestedFilterMemFile decoder" where
  "unmarshalInputFilterMemFile E = filterIn E \<lparr>fMfName = None, fMfBody = None\<rparr>
     [fieldIn ''name'' (unmarshalOFilterString E) (\<lambda>d it. it\<lparr>fMfName := d\<rparr>),
      fieldIn ''body'' (unmarshalOFilterString E) (\<lambda>d it. it\<lparr>fMfBody := d\<rparr>)]"

definition unmarshalOFilterMemFile ::
    "input_env \<Rightarrow> (NestedFilterMemFile option) decoder" where
  "unmarshalOFilterMemFile E = nullableIn E (unmarshalInputFilterMemFile E)"

definition unmarshalOFilterMemFile_list ::
    "input_env \<Rightarrow> (NestedFilterMemFile option list) decoder" where
  "unmarshalOFilterMemFile_list E = sliceIn E (unmarshalOFilterMemFile E)"

definition unmarshalInputFilterMemPackage ::
    "input_env \<Rightarrow> NestedFilterMemPackage decoder" where
  "unmarshalInputFilterMemPackage E = filterIn E \<lparr>fMpName = None, fMpPath = None, fMpFiles = None\<rparr>
     [fieldIn ''name'' (unmarshalOFilterString E) (\<lambda>d it. it\<lparr>fMpName := d\<rparr>),
      fieldIn ''path'' (unmarshalOFilterString E) (\<lambda>d it. it\<lparr>fMpPath := d\<rparr>),
      fieldIn ''files'' (unmarshalONestedFilterMemFile E) (\<lambda>d it. it\<lparr>fMpFiles := d\<rparr>)]"

definition unmarshalOFilterMemPackage ::
    "input_env \<Rightarrow> (NestedFilterMemPackage option) decoder" where
  "unmarshalOFilterMemPackage E = nullableIn E (unmarshalInputFilterMemPackage E)"

definition unmarshalOFilterMemPackage_list ::
    "input_env \<Rightarrow> (NestedFilterMemPackage option list) decoder" where
  "unmarshalOFilterMemPackage_list E = sliceIn E (unmarshalOFilterMemPackage E)"

definition unmarshalInputFilterMessageValue ::
    "input_env \<Rightarrow> NestedFilterMessageValue decoder" where
  "unmarshalInputFilterMessageValue E = filterIn E \<lparr>fMvBankMsgSend = None, fMvMsgCall = None, fMvMsgAddPackage = None, fMvMsgRun = None\<rparr>
     [fieldIn ''BankMsgSend'' (unmarshalONestedFilterBankMsgSend E) (\<lambda>d it. it\<lparr>fMvBankMsgSend := d\<rparr>),
      fieldIn ''MsgCall'' (unmarshalONestedFilterMsgCall E) (\<lambda>d it. it\<lparr>fMvMsgCall := d\<rparr>),
      fieldIn ''MsgAddPackage'' (unmarshalONestedFilterMsgAddPackage E) (\<lambda>d it. it\<lparr>fMvMsgAddPackage := d\<rparr>),
      fieldIn ''MsgRun'' (unmarshalONestedFilterMsgRun E) (\<lambda>d it. it\<lparr>fMvMsgRun := d\<rparr>)]"

definition unmarshalOFilterMessageValue ::
    "input_env \<Rightarrow> (NestedFilterMessageValue option) decoder" where
  "unmarshalOFilterMessageValue E = nullableIn E (unmarshalInputFilterMessageValue E)"

definition unmarshalOFilterMessageValue_list ::
    "input_env \<Rightarrow> (NestedFilterMessageValue option list) decoder" where
  "unmarshalOFilterMessageValue_list E = sliceIn E (unmarshalOFilterMessageValue E)"

definition unmarshalInputFilterMsgAddPackage ::
    "input_env \<Rightarrow> NestedFilterMsgAddPackage decoder" where
  "unmarshalInputFilterMsgAddPackage E = filterIn E \<lparr>fMaCreator = None, fMaPackage = None, fMaDeposit = None, fMaSend = None,
      fMaMaxDeposit = None\<rparr>
     [fieldIn ''creator'' (unmarshalOFilterString E) (\<lambda>d it. it\<lparr>fMaCreator := d\<rparr>),
      fieldIn ''package'' (unmarshalONestedFilterMemPackage E) (\<lambda>d it. it\<lparr>fMaPackage := d\<rparr>),
      fieldIn ''deposit'' (unmarshalOFilterString E) (\<lambda>d it. it\<lparr>fMaDeposit := d\<rparr>),
      fieldIn ''send'' (unmarshalOFilterString E) (\<lambda>d it. it\<lparr>fMaSend := d\<rparr>),
      fieldIn ''max_deposit'' (unmarshalOFilterString E) (\<lambda>d it. it\<lparr>fMaMaxDeposit := d\<rparr>)]"

definition unmarshalOFilterMsgAddPackage ::
    "input_env \<Rightarrow> (NestedFilterMsgAddPackage option) decoder" where
  "unmarshalOFilterMsgAddPackage E = nullableIn E (unmarshalInputFilterMsgAddPackage E)"

definition unmarshalOFilterMsgAddPackage_list ::
    "input_env \<Rightarrow> (NestedFilterMsgAddPackage option list) decoder" where
  "unmarshalOFilterMsgAddPackage_list E = sliceIn E (unmarshalOFilterMsgAddPackage E)"

definition unmarshalInputFilterMsgCall ::
    "input_env \<Rightarrow> NestedFilterMsgCall decoder" where
  "unmarshalInputFilterMsgCall E = filterIn E \<lparr>fMcCaller = None, fMcSend = None, fMcPkgPath = None, fMcFunc = None, fMcArgs = None,
      fMcMaxDeposit = None\<rparr>
     [fieldIn ''caller'' (unmarshalOFilterString E) (\<lambda>d it. it\<lparr>fMcCaller := d\<rparr>),
      fieldIn ''send'' (unmarshalOFilterString E) (\<lambda>d it. it\<lparr>fMcSend := d\<rparr>),
      fieldIn ''pkg_path'' (unmarshalOFilterString E) (\<lambda>d it. it\<lparr>fMcPkgPath := d\<rparr>),
      fieldIn ''func'' (unmarshalOFilterString E) (\<lambda>d it. it\<lparr>fMcFunc := d\<rparr>),
      fieldIn ''args'' (unmarshalOFilterString E) (\<lambda>d it. it\<lparr>fMcArgs := d\<rparr>),
      fieldIn ''max_deposit'' (unmarshalOFilterString E) (\<lambda>d it. it\<lparr>fMcMaxDeposit := d\<rparr>)]"

definition unmarshalOFilterMsgCall ::
    "input_env \<Rightarrow> (NestedFilterMsgCall option) decoder" where
  "unmarshalOFilterMsgCall E = nullableIn E (unmarshalInputFilterMsgCall E)"

definition unmarshalOFilterMsgCall_list ::
    "input_env \<Rightarrow> (NestedFilterMsgCall option list) decoder" where
  "unmarshalOFilterMsgCall_list E = sliceIn E (unmarshalOFilterMsgCall E)"

definition unmarshalInputFilterMsgRun ::
    "input_env \<Rightarrow> NestedFilterMsgRun decoder" where
  "unmarshalInputFilterMsgRun E = filterIn E \<lparr>fMrCaller = None, fMrSend = None, fMrPackage = None, fMrMaxDeposit = None\<rparr>
     [fieldIn ''caller'' (unmarshalOFilterString E) (\<lambda>d it. it\<lparr>fMrCaller := d\<rparr>),
      fieldIn ''send'' (unmarshalOFilterString E) (\<lambda>d it. it\<lparr>fMrSend := d\<rparr>),
      fieldIn ''package'' (unmarshalONestedFilterMemPackage E) (\<lambda>d it. it\<lparr>fMrPackage := d\<rparr>),
      fieldIn ''max_deposit'' (unmarshalOFilterString E) (\<lambda>d it. it\<lparr>fMrMaxDeposit := d\<rparr>)]"

definition unmarshalOFilterMsgRun ::
    "input_env \<Rightarrow> (NestedFilterMsgRun option) decoder" where
  "unmarshalOFilterMsgRun E = nullableIn E (unmarshalInputFilterMsgRun E)"

definition unmarshalOFilterMsgRun_list ::
    "input_env \<Rightarrow> (NestedFilterMsgRun option list) decoder" where
  "unmarshalOFilterMsgRun_list E = sliceIn E (unmarshalOFilterMsgRun E)"

definition unmarshalInputFilterStorageDepositEvent ::
    "input_env \<Rightarrow> NestedFilterStorageDepositEvent decoder" where
  "unmarshalInputFilterStorageDepositEvent E = filterIn E \<lparr>fSdType = None, fSdBytesDelta = None, fSdFeeDelta = None, fSdPkgPath = None\<rparr>
     [fieldIn ''type'' (unmarshalOFilterString E) (\<lambda>d it. it\<lparr>fSdType := d\<rparr>),
      fieldIn ''bytes_delta'' (unmarshalOFilterInt E) (\<lambda>d it. it\<lparr>fSdBytesDelta := d\<rparr>),
      fieldIn ''fee_delta'' (unmarshalONestedFilterCoin E) (\<lambda>d it. it\<lparr>fSdFeeDelta := d\<rparr>),
      fieldIn ''pkg_path'' (unmarshalOFilterString E) (\<lambda>d it. it\<lparr>fSdPkgPath := d\<rparr>)]"

definition unmarshalOFilterStorageDepositEvent ::
    "input_env \<Rightarrow> (NestedFilterStorageDepositEvent option) decoder" where
  "unmarshalOFilterStorageDepositEvent E = nullableIn E (unmarshalInputFilterStorageDepositEvent E)"

definition unmarshalOFilterStorageDepositEvent_list ::
    "input_env \<Rightarrow> (NestedFilterStorageDepositEvent option list) decoder" where
  "unmarshalOFilterStorageDepositEvent_list E = sliceIn E (unmarshalOFilterStorageDepositEvent E)"

definition unmarshalInputFilterStorageUnlockEvent ::
    "input_env \<Rightarrow> NestedFilterStorageUnlockEvent decoder" where
  "unmarshalInputFilterStorageUnlockEvent E = filterIn E \<lparr>fSuType = None, fSuBytesDelta = None, fSuFeeRefund = None, fSuPkgPath = None\<rparr>
     [fieldIn ''type'' (unmarshalOFilterString E) (\<lambda>d it. it\<lparr>fSuType := d\<rparr>),
      fieldIn ''bytes_delta'' (unmarshalOFilterInt E) (\<lambda>d it. it\<lparr>fSuBytesDelta := d\<rparr>),
      fieldIn ''fee_refund'' (unmarshalONestedFilterCoin E) (\<lambda>d it. it\<lparr>fSuFeeRefund := d\<rparr>),
      fieldIn ''pkg_path'' (unmarshalOFilterString E) (\<lambda>d it. it\<lparr>fSuPkgPath := d\<rparr>)]"

definition unmarshalOFilterStorageUnlockEvent ::
    "input_env \<Rightarrow> (NestedFilterStorageUnlockEvent option) decoder" where
  "unmarshalOFilterStorageUnlockEvent E = nullableIn E (unmarshalInputFilterStorageUnlockEvent E)"

definition unmarshalOFilterStorageUnlockEvent_list ::
    "input_env \<Rightarrow> (NestedFilterStorageUnlockEvent option list) decoder" where
  "unmarshalOFilterStorageUnlockEvent_list E = sliceIn E (unmarshalOFilterStorageUnlockEvent E)"

definition unmarshalInputFilterTransactionMessage ::
    "input_env \<Rightarrow> NestedFilterTransactionMessage decoder" where
  "unmarshalInputFilterTransactionMessage E = filterIn E \<lparr>fTmTypeURL = None, fTmRoute = None, fTmValue = None\<rparr>
     [fieldIn ''typeUrl'' (unmarshalOFilterString E) (\<lambda>d it. it\<lparr>fTmTypeURL := d\<rparr>),
      fieldIn ''route'' (unmarshalOFilterString E) (\<lambda>d it. it\<lparr>fTmRoute := d\<rparr>),
      fieldIn ''value'' (unmarshalONestedFilterMessageValue E) (\<lambda>d it. it\<lparr>fTmValue := d\<rparr>)]"

definition unmarshalOFilterTransactionMessage ::
    "input_env \<Rightarrow> (NestedFilterTransactionMessage option) decoder" where
  "unmarshalOFilterTransactionMessage E = nullableIn E (unmarshalInputFilterTransactionMessage E)"

definition unmarshalOFilterTransactionMessage_list ::
    "input_env \<Rightarrow> (NestedFilterTransactionMessage option list) decoder" where
  "unmarshalOFilterTransactionMessage_list E = sliceIn E (unmarshalOFilterTransactionMessage E)"

definition unmarshalInputFilterTransactionResponse ::
    "input_env \<Rightarrow> NestedFilterTransactionResponse decoder" where
  "unmarshalInputFilterTransactionResponse E = filterIn E \<lparr>fTrLog = None, fTrInfo = None, fTrError = None, fTrData = None, fTrEvents = None\<rparr>
     [fieldIn ''log'' (unmarshalOFilterString E) (\<lambda>d it. it\<lparr>fTrLog := d\<rparr>),
      fieldIn ''info'' (unmarshalOFilterString E) (\<lambda>d it. it\<lparr>fTrInfo := d\<rparr>),
      fieldIn ''error'' (unmarshalOFilterString E) (\<lambda>d it. it\<lparr>fTrError := d\<rparr>),
      fieldIn ''data'' (unmarshalOFilterString E) (\<lambda>d it. it\<lparr>fTrData := d\<rparr>),
      fieldIn ''events'' (unmarshalONestedFilterEvent E) (\<lambda>d it. it\<lparr>fTrEvents := d\<rparr>)]"

definition unmarshalOFilterTransactionResponse ::
    "input_env \<Rightarrow> (NestedFilterTransactionResponse option) decoder" where
  "unmarshalOFilterTransactionResponse E = nullableIn E (unmarshalInputFilterTransactionResponse E)"

definition unmarshalOFilterTransactionResponse_list ::
    "input_env \<Rightarrow> (NestedFilterTransactionResponse option list) decoder" where
  "unmarshalOFilterTransactionResponse_list E = sliceIn E (unmarshalOFilterTransactionResponse E)"

definition unmarshalInputFilterTxFee ::
    "input_env \<Rightarrow> NestedFilterTxFee decoder" where
  "unmarshalInputFilterTxFee E = filterIn E \<lparr>fTfGasWanted = None, fTfGasFee = None\<rparr>
     [fieldIn ''gas_wanted'' (unmarshalOFilterInt E) (\<lambda>d it. it\<lparr>fTfGasWanted := d\<rparr>),
      fieldIn ''gas_fee'' (unmarshalONestedFilterCoin E) (\<lambda>d it. it\<lparr>fTfGasFee := d\<rparr>)]"

definition unmarshalOFilterTxFee ::
    "input_env \<Rightarrow> (NestedFilterTxFee option) decoder" where
  "unmarshalOFilterTxFee E = nullableIn E (unmarshalInputFilterTxFee E)"

definition unmarshalOFilterTxFee_list ::
    "input_env \<Rightarrow> (NestedFilterTxFee option list) decoder" where
  "unmarshalOFilterTxFee_list E = sliceIn E (unmarshalOFilterTxFee E)"

definition unmarshalInputFilterUnknownEvent ::
    "input_env \<Rightarrow> NestedFilterUnknownEvent decoder" where
  "unmarshalInputFilterUnknownEvent E = filterIn E \<lparr>fUeValue = None\<rparr>
     [fieldIn ''value'' (unmarshalOFilterString E) (\<lambda>d it. it\<lparr>fUeValue := d\<rparr>)]"

definition unmarshalOFilterUnknownEvent ::
    "input_env \<Rightarrow> (NestedFilterUnknownEvent option) decoder" where
  "unmarshalOFilterUnknownEvent E = nullableIn E (unmarshalInputFilterUnknownEvent E)"

definition unmarshalOFilterUnknownEvent_list ::
    "input_env \<Rightarrow> (NestedFilterUnknownEvent option list) decoder" where
  "unmarshalOFilterUnknownEvent_list E = sliceIn E (unmarshalOFilterUnknownEvent E)"

section \<open>Inputs of the first query fields\<close>

abbreviation zeroBlockFilter :: BlockFilter where
  "zeroBlockFilter \<equiv> \<lparr>bfFromHeight = None, bfToHeight = None, bfFromTime = None, bfToTime = None\<rparr>"

definition unmarshalInputBlockFilter :: "input_env \<Rightarrow> BlockFilter decoder" where
  "unmarshalInputBlockFilter E = objectIn zeroBlockFilter
     [fieldIn ''from_height'' (unmarshalOInt E) (\<lambda>d it. it\<lparr>bfFromHeight := d\<rparr>),
      fieldIn ''to_height'' (unmarshalOInt E) (\<lambda>d it. it\<lparr>bfToHeight := d\<rparr>),
      fieldIn ''from_time'' (unmarshalOTime E) (\<lambda>d it. it\<lparr>bfFromTime := map_option gtInstant d\<rparr>),
      fieldIn ''to_time'' (unmarshalOTime E) (\<lambda>d it. it\<lparr>bfToTime := map_option gtInstant d\<rparr>)]"

definition unmarshalNBlockFilter :: "input_env \<Rightarrow> BlockFilter decoder" where
  "unmarshalNBlockFilter E = requiredIn E (unmarshalInputBlockFilter E)"

definition unmarshalInputAmountInput :: "input_env \<Rightarrow> AmountInput decoder" where
  "unmarshalInputAmountInput E = objectIn \<lparr>aiFrom = None, aiTo = None, aiDenomination = None\<rparr>
     [fieldIn ''from'' (unmarshalOInt E) (\<lambda>d it. it\<lparr>aiFrom := d\<rparr>),
      fieldIn ''to'' (unmarshalOInt E) (\<lambda>d it. it\<lparr>aiTo := d\<rparr>),
      fieldIn ''denomination'' (unmarshalOString E) (\<lambda>d it. it\<lparr>aiDenomination := d\<rparr>)]"

definition unmarshalOAmountInput :: "input_env \<Rightarrow> (AmountInput option) decoder" where
  "unmarshalOAmountInput E = nullableIn E (unmarshalInputAmountInput E)"

definition unmarshalInputBankMsgSendInput :: "input_env \<Rightarrow> BankMsgSendInput decoder" where
  "unmarshalInputBankMsgSendInput E = objectIn \<lparr>biFromAddress = None, biToAddress = None, biAmount = None\<rparr>
     [fieldIn ''from_address'' (unmarshalOString E) (\<lambda>d it. it\<lparr>biFromAddress := d\<rparr>),
      fieldIn ''to_address'' (unmarshalOString E) (\<lambda>d it. it\<lparr>biToAddress := d\<rparr>),
      fieldIn ''amount'' (unmarshalOAmountInput E) (\<lambda>d it. it\<lparr>biAmount := d\<rparr>)]"

definition unmarshalOBankMsgSendInput :: "input_env \<Rightarrow> (BankMsgSendInput option) decoder" where
  "unmarshalOBankMsgSendInput E = nullableIn E (unmarshalInputBankMsgSendInput E)"

definition unmarshalInputTransactionBankMessageInput ::
    "input_env \<Rightarrow> TransactionBankMessageInput decoder" where
  "unmarshalInputTransactionBankMessageInput E = objectIn \<lparr>tbSend = None\<rparr>
     [fieldIn ''send'' (unmarshalOBankMsgSendInput E) (\<lambda>d it. it\<lparr>tbSend := d\<rparr>)]"

definition unmarshalOTransactionBankMessageInput ::
    "input_env \<Rightarrow> (TransactionBankMessageInput option) decoder" where
  "unmarshalOTransactionBankMessageInput E = nullableIn E (unmarshalInputTransactionBankMessageInput E)"

definition unmarshalOString_list :: "input_env \<Rightarrow> (string list option) decoder" where
  "unmarshalOString_list E = listIn E (unmarshalNString E)"

definition unmarshalInputMsgCallInput :: "input_env \<Rightarrow> MsgCallInput decoder" where
  "unmarshalInputMsgCallInput E = objectIn \<lparr>ciCaller = None, ciSend = None, ciPkgPath = None, ciFunc = None, ciArgs = None\<rparr>
     [fieldIn ''caller'' (unmarshalOString E) (\<lambda>d it. it\<lparr>ciCaller := d\<rparr>),
      fieldIn ''send'' (unmarshalOAmountInput E) (\<lambda>d it. it\<lparr>ciSend := d\<rparr>),
      fieldIn ''pkg_path'' (unmarshalOString E) (\<lambda>d it. it\<lparr>ciPkgPath := d\<rparr>),
      fieldIn ''func'' (unmarshalOString E) (\<lambda>d it. it\<lparr>ciFunc := d\<rparr>),
      fieldIn ''args'' (unmarshalOString_list E) (\<lambda>d it. it\<lparr>ciArgs := d\<rparr>)]"

definition unmarshalOMsgCallInput :: "input_env \<Rightarrow> (MsgCallInput option) decoder" where
  "unmarshalOMsgCallInput E = nullableIn E (unmarshalInputMsgCallInput E)"

definition unmarshalInputMemFileInput :: "input_env \<Rightarrow> MemFileInput decoder" where
  "unmarshalInputMemFileInput E = objectIn \<lparr>miName = None, miBody = None\<rparr>
     [fieldIn ''name'' (unmarshalOString E) (\<lambda>d it. it\<lparr>miName := d\<rparr>),
      fieldIn ''body'' (unmarshalOString E) (\<lambda>d it. it\<lparr>miBody := d\<rparr>)]"

definition unmarshalOMemFileInput :: "input_env \<Rightarrow> (MemFileInput option) decoder" where
  "unmarshalOMemFileInput E = nullableIn E (unmarshalInputMemFileInput E)"

definition unmarshalOMemFileInput_list :: "input_env \<Rightarrow> (MemFileInput option list) decoder" where
  "unmarshalOMemFileInput_list E = sliceIn E (unmarshalOMemFileInput E)"

definition unmarshalInputMemPackageInput :: "input_env \<Rightarrow> MemPackageInput decoder" where
  "unmarshalInputMemPackageInput E = objectIn \<lparr>piName = None, piPath = None, piFiles = []\<rparr>
     [fieldIn ''name'' (unmarshalOString E) (\<lambda>d it. it\<lparr>piName := d\<rparr>),
      fieldIn ''path'' (unmarshalOString E) (\<lambda>d it. it\<lparr>piPath := d\<rparr>),
      fieldIn ''files'' (unmarshalOMemFileInput_list E) (\<lambda>d it. it\<lparr>piFiles := d\<rparr>)]"

definition unmarshalOMemPackageInput :: "input_env \<Rightarrow> (MemPackageInput option) decoder" where
  "unmarshalOMemPackageInput E = nullableIn E (unmarshalInputMemPackageInput E)"

definition unmarshalInputMsgAddPackageInput :: "input_env \<Rightarrow> MsgAddPackageInput decoder" where
  "unmarshalInputMsgAddPackageInput E = objectIn \<lparr>apCreator = None, apPackage = None, apDeposit = None\<rparr>
     [fieldIn ''creator'' (unmarshalOString E) (\<lambda>d it. it\<lparr>apCreator := d\<rparr>),
      fieldIn ''package'' (unmarshalOMemPackageInput E) (\<lambda>d it. it\<lparr>apPackage := d\<rparr>),
      fieldIn ''deposit'' (unmarshalOAmountInput E) (\<lambda>d it. it\<lparr>apDeposit := d\<rparr>)]"

definition unmarshalOMsgAddPackageInput :: "input_env \<Rightarrow> (MsgAddPackageInput option) decoder" where
  "unmarshalOMsgAddPackageInput E = nullableIn E (unmarshalInputMsgAddPackageInput E)"

definition unmarshalInputMsgRunInput :: "input_env \<Rightarrow> MsgRunInput decoder" where
  "unmarshalInputMsgRunInput E = objectIn \<lparr>riCaller = None, riSend = None, riPackage = None\<rparr>
     [fieldIn ''caller'' (unmarshalOString E) (\<lambda>d it. it\<lparr>riCaller := d\<rparr>),
      fieldIn ''send'' (unmarshalOAmountInput E) (\<lambda>d it. it\<lparr>riSend := d\<rparr>),
      fieldIn ''package'' (unmarshalOMemPackageInput E) (\<lambda>d it. it\<lparr>riPackage := d\<rparr>)]"

definition unmarshalOMsgRunInput :: "input_env \<Rightarrow> (MsgRunInput option) decoder" where
  "unmarshalOMsgRunInput E = nullableIn E (unmarshalInputMsgRunInput E)"

definition unmarshalInputTransactionVmMessageInput ::
    "input_env \<Rightarrow> TransactionVMMessageInput decoder" where
  "unmarshalInputTransactionVmMessageInput E = objectIn \<lparr>tvExec = None, tvAddPackage = None, tvRun = None\<rparr>
     [fieldIn ''exec'' (unmarshalOMsgCallInput E) (\<lambda>d it. it\<lparr>tvExec := d\<rparr>),
      fieldIn ''add_package'' (unmarshalOMsgAddPackageInput E) (\<lambda>d it. it\<lparr>tvAddPackage := d\<rparr>),
      fieldIn ''run'' (unmarshalOMsgRunInput E) (\<lambda>d it. it\<lparr>tvRun := d\<rparr>)]"

definition unmarshalOTransactionVmMessageInput ::
    "input_env \<Rightarrow> (TransactionVMMessageInput option) decoder" where
  "unmarshalOTransactionVmMessageInput E = nullableIn E (unmarshalInputTransactionVmMessageInput E)"

definition unmarshalInputTransactionMessageInput ::
    "input_env \<Rightarrow> TransactionMessageInput decoder" where
  "unmarshalInputTransactionMessageInput E = objectIn \<lparr>tiTypeURL = None, tiRoute = None, tiBankParam = None, tiVMParam = None\<rparr>
     [fieldIn ''type_url'' (unmarshalOMessageType E) (\<lambda>d it. it\<lparr>tiTypeURL := d\<rparr>),
      fieldIn ''route'' (unmarshalOMessageRoute E) (\<lambda>d it. it\<lparr>tiRoute := d\<rparr>),
      fieldIn ''bank_param'' (unmarshalOTransactionBankMessageInput E) (\<lambda>d it. it\<lparr>tiBankParam := d\<rparr>),
      fieldIn ''vm_param'' (unmarshalOTransactionVmMessageInput E) (\<lambda>d it. it\<lparr>tiVMParam := d\<rparr>)]"

definition unmarshalNTransactionMessageInput ::
    "input_env \<Rightarrow> TransactionMessageInput decoder" where
  "unmarshalNTransactionMessageInput E = requiredIn E (unmarshalInputTransactionMessageInput E)"

definition unmarshalOTransactionMessageInput_list ::
    "input_env \<Rightarrow> (TransactionMessageInput list) decoder" where
  "unmarshalOTransactionMessageInput_list E = sliceIn E (unmarshalNTransactionMessageInput E)"

definition unmarshalInputEventAttributeInput :: "input_env \<Rightarrow> EventAttributeInput decoder" where
  "unmarshalInputEventAttributeInput E = objectIn \<lparr>eaKey = None, eaValue = None\<rparr>
     [fieldIn ''key'' (unmarshalOString E) (\<lambda>d it. it\<lparr>eaKey := d\<rparr>),
      fieldIn ''value'' (unmarshalOString E) (\<lambda>d it. it\<lparr>eaValue := d\<rparr>)]"

definition unmarshalNEventAttributeInput :: "input_env \<Rightarrow> EventAttributeInput decoder" where
  "unmarshalNEventAttributeInput E = requiredIn E (unmarshalInputEventAttributeInput E)"

definition unmarshalOEventAttributeInput_list ::
    "input_env \<Rightarrow> (EventAttributeInput list option) decoder" where
  "unmarshalOEventAttributeInput_list E = listIn E (unmarshalNEventAttributeInput E)"

definition unmarshalInputGnoEventInput :: "input_env \<Rightarrow> GnoEventInput decoder" where
  "unmarshalInputGnoEventInput E = objectIn \<lparr>giType = None, giPkgPath = None, giAttrs = None\<rparr>
     [fieldIn ''type'' (unmarshalOString E) (\<lambda>d it. it\<lparr>giType := d\<rparr>),
      fieldIn ''pkg_path'' (unmarshalOString E) (\<lambda>d it. it\<lparr>giPkgPath := d\<rparr>),
      fieldIn ''attrs'' (unmarshalOEventAttributeInput_list E) (\<lambda>d it. it\<lparr>giAttrs := d\<rparr>)]"

definition unmarshalOGnoEventInput :: "input_env \<Rightarrow> (GnoEventInput option) decoder" where
  "unmarshalOGnoEventInput E = nullableIn E (unmarshalInputGnoEventInput E)"

definition unmarshalInputCoinInput :: "input_env \<Rightarrow> CoinInput decoder" where
  "unmarshalInputCoinInput E = objectIn \<lparr>cnAmount = None, cnDenom = None\<rparr>
     [fieldIn ''amount'' (unmarshalOInt E) (\<lambda>d it. it\<lparr>cnAmount := d\<rparr>),
      fieldIn ''denom'' (unmarshalOString E) (\<lambda>d it. it\<lparr>cnDenom := d\<rparr>)]"

definition unmarshalOCoinInput :: "input_env \<Rightarrow> (CoinInput option) decoder" where
  "unmarshalOCoinInput E = nullableIn E (unmarshalInputCoinInput E)"

definition unmarshalInputStorageDepositEventInput ::
    "input_env \<Rightarrow> StorageDepositEventInput decoder" where
  "unmarshalInputStorageDepositEventInput E = objectIn \<lparr>siType = None, siBytesDelta = None, siFeeDelta = None, siPkgPath = None\<rparr>
     [fieldIn ''type'' (unmarshalOString E) (\<lambda>d it. it\<lparr>siType := d\<rparr>),
      fieldIn ''bytes_delta'' (unmarshalOInt E) (\<lambda>d it. it\<lparr>siBytesDelta := d\<rparr>),
      fieldIn ''fee_delta'' (unmarshalOCoinInput E) (\<lambda>d it. it\<lparr>siFeeDelta := d\<rparr>),
      fieldIn ''pkg_path'' (unmarshalOString E) (\<lambda>d it. it\<lparr>siPkgPath := d\<rparr>)]"

definition unmarshalOStorageDepositEventInput ::
    "input_env \<Rightarrow> (StorageDepositEventInput option) decoder" where
  "unmarshalOStorageDepositEventInput E = nullableIn E (unmarshalInputStorageDepositEventInput E)"

definition unmarshalInputStorageUnlockEventInput ::
    "input_env \<Rightarrow> StorageUnlockEventInput decoder" where
  "unmarshalInputStorageUnlockEventInput E = objectIn \<lparr>uiType = None, uiBytesDelta = None, uiFeeRefund = None, uiPkgPath = None\<rparr>
     [fieldIn ''type'' (unmarshalOString E) (\<lambda>d it. it\<lparr>uiType := d\<rparr>),
      fieldIn ''bytes_delta'' (unmarshalOInt E) (\<lambda>d it. it\<lparr>uiBytesDelta := d\<rparr>),
      fieldIn ''fee_refund'' (unmarshalOCoinInput E) (\<lambda>d it. it\<lparr>uiFeeRefund := d\<rparr>),
      fieldIn ''pkg_path'' (unmarshalOString E) (\<lambda>d it. it\<lparr>uiPkgPath := d\<rparr>)]"

definition unmarshalOStorageUnlockEventInput ::
    "input_env \<Rightarrow> (StorageUnlockEventInput option) decoder" where
  "unmarshalOStorageUnlockEventInput E = nullableIn E (unmarshalInputStorageUnlockEventInput E)"

definition unmarshalInputEventInput :: "input_env \<Rightarrow> EventInput decoder" where
  "unmarshalInputEventInput E = objectIn \<lparr>eiGnoEvent = None, eiStorageDepositEvent = None, eiStorageUnlockEvent = None\<rparr>
     [fieldIn ''gno_event'' (unmarshalOGnoEventInput E) (\<lambda>d it. it\<lparr>eiGnoEvent := d\<rparr>),
      fieldIn ''storage_deposit_event'' (unmarshalOStorageDepositEventInput E) (\<lambda>d it. it\<lparr>eiStorageDepositEvent := d\<rparr>),
      fieldIn ''storage_unlock_event'' (unmarshalOStorageUnlockEventInput E) (\<lambda>d it. it\<lparr>eiStorageUnlockEvent := d\<rparr>)]"

definition unmarshalNEventInput :: "input_env \<Rightarrow> EventInput decoder" where
  "unmarshalNEventInput E = requiredIn E (unmarshalInputEventInput E)"

definition unmarshalOEventInput_list :: "input_env \<Rightarrow> (EventInput list) decoder" where
  "unmarshalOEventInput_list E = sliceIn E (unmarshalNEventInput E)"

abbreviation zeroTransactionFilter :: TransactionFilter where
  "zeroTransactionFilter \<equiv> \<lparr>xfFromBlockHeight = None, xfToBlockHeight = None, xfFromIndex = None, xfToIndex = None,
      xfFromGasWanted = None, xfToGasWanted = None, xfFromGasUsed = None, xfToGasUsed = None, xfHash = None,
      xfMessage = [], xfMemo = None, xfSuccess = None, xfEvents = []\<rparr>"

definition unmarshalInputTransactionFilter :: "input_env \<Rightarrow> TransactionFilter decoder" where
  "unmarshalInputTransactionFilter E = objectIn zeroTransactionFilter
     [fieldIn ''from_block_height'' (unmarshalOInt E) (\<lambda>d it. it\<lparr>xfFromBlockHeight := d\<rparr>),
      fieldIn ''to_block_height'' (unmarshalOInt E) (\<lambda>d it. it\<lparr>xfToBlockHeight := d\<rparr>),
      fieldIn ''from_index'' (unmarshalOInt E) (\<lambda>d it. it\<lparr>xfFromIndex := d\<rparr>),
      fieldIn ''to_index'' (unmarshalOInt E) (\<lambda>d it. it\<lparr>xfToIndex := d\<rparr>),
      fieldIn ''from_gas_wanted'' (unmarshalOInt E) (\<lambda>d it. it\<lparr>xfFromGasWanted := d\<rparr>),
      fieldIn ''to_gas_wanted'' (unmarshalOInt E) (\<lambda>d it. it\<lparr>xfToGasWanted := d\<rparr>),
      fieldIn ''from_gas_used'' (unmarshalOInt E) (\<lambda>d it. it\<lparr>xfFromGasUsed := d\<rparr>),
      fieldIn ''to_gas_used'' (unmarshalOInt E) (\<lambda>d it. it\<lparr>xfToGasUsed := d\<rparr>),
      fieldIn ''hash'' (unmarshalOString E) (\<lambda>d it. it\<lparr>xfHash := d\<rparr>),
      fieldIn ''message'' (unmarshalOTransactionMessageInput_list E) (\<lambda>d it. it\<lparr>xfMessage := d\<rparr>),
      fieldIn ''memo'' (unmarshalOString E) (\<lambda>d it. it\<lparr>xfMemo := d\<rparr>),
      fieldIn ''success'' (unmarshalOBoolean E) (\<lambda>d it. it\<lparr>xfSuccess := d\<rparr>),
      fieldIn ''events'' (unmarshalOEventInput_list E) (\<lambda>d it. it\<lparr>xfEvents := d\<rparr>)]"

definition unmarshalNTransactionFilter :: "input_env \<Rightarrow> TransactionFilter decoder" where
  "unmarshalNTransactionFilter E = requiredIn E (unmarshalInputTransactionFilter E)"

section \<open>Orders\<close>

record BlockOrder =
  boHeight :: Order

definition unmarshalInputBlockOrder :: "input_env \<Rightarrow> BlockOrder decoder" where
  "unmarshalInputBlockOrder E = objectIn \<lparr>boHeight = ''''\<rparr>
     [fieldIn ''height'' (unmarshalNOrder E) (\<lambda>d it. it\<lparr>boHeight := d\<rparr>)]"

definition unmarshalOBlockOrder :: "input_env \<Rightarrow> (BlockOrder option) decoder" where
  "unmarshalOBlockOrder E = nullableIn E (unmarshalInputBlockOrder E)"

record TransactionOrder =
  toHeightAndIndex :: Order

definition unmarshalInputTransactionOrder :: "input_env \<Rightarrow> TransactionOrder decoder" where
  "unmarshalInputTransactionOrder E = objectIn \<lparr>toHeightAndIndex = ''''\<rparr>
     [fieldIn ''heightAndIndex'' (unmarshalNOrder E) (\<lambda>d it. it\<lparr>toHeightAndIndex := d\<rparr>)]"

definition unmarshalOTransactionOrder :: "input_env \<Rightarrow> (TransactionOrder option) decoder" where
  "unmarshalOTransactionOrder E = nullableIn E (unmarshalInputTransactionOrder E)"

section \<open>Arguments of the fields\<close>

text \<open>
  An argument that is missing has the zero value of its type; the arguments are decoded in order and the first
  error ends the field.
\<close>

definition dir_filterable_argsExtras ::
    "input_env \<Rightarrow> (FilterableExtra list option) arg_decoder" where
  "dir_filterable_argsExtras E = argIn ''extras'' None (unmarshalOFilterableExtra_list E)"

definition dir_filterable_args :: "input_env \<Rightarrow> (FilterableExtra list option) arg_decoder" where
  "dir_filterable_args E p raw = dir_filterable_argsExtras E p raw"

definition field_Query___type_argsName :: "input_env \<Rightarrow> string arg_decoder" where
  "field_Query___type_argsName E = argIn ''name'' '''' (unmarshalNString E)"

definition field_Query___type_args :: "input_env \<Rightarrow> string arg_decoder" where
  "field_Query___type_args E p raw = field_Query___type_argsName E p raw"

definition field_Query_blocks_argsFilter :: "input_env \<Rightarrow> BlockFilter arg_decoder" where
  "field_Query_blocks_argsFilter E = argIn ''filter'' zeroBlockFilter (unmarshalNBlockFilter E)"

definition field_Query_blocks_args :: "input_env \<Rightarrow> BlockFilter arg_decoder" where
  "field_Query_blocks_args E p raw = field_Query_blocks_argsFilter E p raw"

definition field_Query_getBlocks_argsWhere ::
    "input_env \<Rightarrow> FilterBlock arg_decoder" where
  "field_Query_getBlocks_argsWhere E = argIn ''where'' (Filter [] [] None zeroFilterBlock) (unmarshalNFilterBlock E)"

definition field_Query_getBlocks_argsOrder :: "input_env \<Rightarrow> (BlockOrder option) arg_decoder" where
  "field_Query_getBlocks_argsOrder E = argIn ''order'' None (unmarshalOBlockOrder E)"

definition field_Query_getBlocks_args ::
    "input_env \<Rightarrow> (FilterBlock \<times> BlockOrder option) arg_decoder" where
  "field_Query_getBlocks_args E p raw =
     bindE (field_Query_getBlocks_argsWhere E p raw) (\<lambda>arg0.
     bindE (field_Query_getBlocks_argsOrder E p raw) (\<lambda>arg1. Ret (Inr (arg0, arg1))))"

definition field_Query_getTransactions_argsWhere ::
    "input_env \<Rightarrow> FilterTransaction arg_decoder" where
  "field_Query_getTransactions_argsWhere E = argIn ''where'' (Filter [] [] None zeroFilterTransaction) (unmarshalNFilterTransaction E)"

definition field_Query_getTransactions_argsOrder ::
    "input_env \<Rightarrow> (TransactionOrder option) arg_decoder" where
  "field_Query_getTransactions_argsOrder E = argIn ''order'' None (unmarshalOTransactionOrder E)"

definition field_Query_getTransactions_args ::
    "input_env \<Rightarrow> (FilterTransaction \<times> TransactionOrder option) arg_decoder" where
  "field_Query_getTransactions_args E p raw =
     bindE (field_Query_getTransactions_argsWhere E p raw) (\<lambda>arg0.
     bindE (field_Query_getTransactions_argsOrder E p raw) (\<lambda>arg1. Ret (Inr (arg0, arg1))))"

definition field_Query_transactions_argsFilter ::
    "input_env \<Rightarrow> TransactionFilter arg_decoder" where
  "field_Query_transactions_argsFilter E = argIn ''filter'' zeroTransactionFilter (unmarshalNTransactionFilter E)"

definition field_Query_transactions_args :: "input_env \<Rightarrow> TransactionFilter arg_decoder" where
  "field_Query_transactions_args E p raw = field_Query_transactions_argsFilter E p raw"

definition field_Subscription_blocks_argsFilter :: "input_env \<Rightarrow> BlockFilter arg_decoder" where
  "field_Subscription_blocks_argsFilter E = argIn ''filter'' zeroBlockFilter (unmarshalNBlockFilter E)"

definition field_Subscription_blocks_args :: "input_env \<Rightarrow> BlockFilter arg_decoder" where
  "field_Subscription_blocks_args E p raw = field_Subscription_blocks_argsFilter E p raw"

definition field_Subscription_getBlocks_argsWhere ::
    "input_env \<Rightarrow> FilterBlock arg_decoder" where
  "field_Subscription_getBlocks_argsWhere E = argIn ''where'' (Filter [] [] None zeroFilterBlock) (unmarshalNFilterBlock E)"

definition field_Subscription_getBlocks_args ::
    "input_env \<Rightarrow> FilterBlock arg_decoder" where
  "field_Subscription_getBlocks_args E p raw = field_Subscription_getBlocks_argsWhere E p raw"

definition field_Subscription_getTransactions_argsWhere ::
    "input_env \<Rightarrow> FilterTransaction arg_decoder" where
  "field_Subscription_getTransactions_argsWhere E = argIn ''where'' (Filter [] [] None zeroFilterTransaction) (unmarshalNFilterTransaction E)"

definition field_Subscription_getTransactions_args ::
    "input_env \<Rightarrow> FilterTransaction arg_decoder" where
  "field_Subscription_getTransactions_args E p raw = field_Subscription_getTransactions_argsWhere E p raw"

definition field_Subscription_transactions_argsFilter ::
    "input_env \<Rightarrow> TransactionFilter arg_decoder" where
  "field_Subscription_transactions_argsFilter E = argIn ''filter'' zeroTransactionFilter (unmarshalNTransactionFilter E)"

definition field_Subscription_transactions_args ::
    "input_env \<Rightarrow> TransactionFilter arg_decoder" where
  "field_Subscription_transactions_args E p raw = field_Subscription_transactions_argsFilter E p raw"

definition field_t_Type_enumValues_argsIncludeDeprecated :: "input_env \<Rightarrow> bool arg_decoder" where
  "field_t_Type_enumValues_argsIncludeDeprecated E = argIn ''includeDeprecated'' False (unmarshalOBool E)"

definition field_t_Type_enumValues_args :: "input_env \<Rightarrow> bool arg_decoder" where
  "field_t_Type_enumValues_args E p raw = field_t_Type_enumValues_argsIncludeDeprecated E p raw"

definition field_t_Type_fields_argsIncludeDeprecated :: "input_env \<Rightarrow> bool arg_decoder" where
  "field_t_Type_fields_argsIncludeDeprecated E = argIn ''includeDeprecated'' False (unmarshalOBool E)"

definition field_t_Type_fields_args :: "input_env \<Rightarrow> bool arg_decoder" where
  "field_t_Type_fields_args E p raw = field_t_Type_fields_argsIncludeDeprecated E p raw"

named_theorems input_defs \<open>pointers, lists and non-null forms of the inputs\<close>

lemmas wrapper_defs [input_defs] =
  unmarshalNBoolean_def unmarshalNInt_def unmarshalNInt64_def unmarshalNString_def unmarshalNTime_def
  unmarshalOBoolean_def unmarshalOInt_def unmarshalOString_def unmarshalOTime_def unmarshalOBool_def
  unmarshalNOrder_def unmarshalNFilterableExtra_def unmarshalOFilterableExtra_list_def unmarshalOMessageRoute_def
  unmarshalOMessageType_def unmarshalOFilterString_def unmarshalOFilterInt_def unmarshalOFilterBoolean_def
  unmarshalOFilterTime_def unmarshalONestedFilterBankMsgSend_def unmarshalONestedFilterBankMsgSend_list_def
  unmarshalONestedFilterCoin_def unmarshalONestedFilterCoin_list_def unmarshalONestedFilterTxFee_def
  unmarshalONestedFilterTxFee_list_def unmarshalONestedFilterBlockTransaction_def
  unmarshalONestedFilterBlockTransaction_list_def unmarshalONestedFilterGnoEventAttribute_def
  unmarshalONestedFilterGnoEventAttribute_list_def unmarshalONestedFilterGnoEvent_def
  unmarshalONestedFilterGnoEvent_list_def unmarshalONestedFilterStorageDepositEvent_def
  unmarshalONestedFilterStorageDepositEvent_list_def unmarshalONestedFilterStorageUnlockEvent_def
  unmarshalONestedFilterStorageUnlockEvent_list_def unmarshalONestedFilterUnknownEvent_def
  unmarshalONestedFilterUnknownEvent_list_def unmarshalONestedFilterEvent_def unmarshalONestedFilterEvent_list_def
  unmarshalONestedFilterMemFile_def unmarshalONestedFilterMemFile_list_def unmarshalONestedFilterMemPackage_def
  unmarshalONestedFilterMemPackage_list_def unmarshalONestedFilterMsgCall_def
  unmarshalONestedFilterMsgCall_list_def unmarshalONestedFilterMsgAddPackage_def
  unmarshalONestedFilterMsgAddPackage_list_def unmarshalONestedFilterMsgRun_def
  unmarshalONestedFilterMsgRun_list_def unmarshalONestedFilterMessageValue_def
  unmarshalONestedFilterMessageValue_list_def unmarshalONestedFilterTransactionMessage_def
  unmarshalONestedFilterTransactionMessage_list_def unmarshalONestedFilterTransactionResponse_def
  unmarshalONestedFilterTransactionResponse_list_def unmarshalOFilterTransaction_def
  unmarshalOFilterTransaction_list_def unmarshalNFilterTransaction_def unmarshalOFilterBlock_def
  unmarshalOFilterBlock_list_def unmarshalNFilterBlock_def unmarshalOFilterBankMsgSend_def
  unmarshalOFilterBankMsgSend_list_def unmarshalOFilterBlockTransaction_def
  unmarshalOFilterBlockTransaction_list_def unmarshalOFilterCoin_def unmarshalOFilterCoin_list_def
  unmarshalOFilterEvent_def unmarshalOFilterEvent_list_def unmarshalOFilterGnoEvent_def
  unmarshalOFilterGnoEvent_list_def unmarshalOFilterGnoEventAttribute_def
  unmarshalOFilterGnoEventAttribute_list_def unmarshalOFilterMemFile_def unmarshalOFilterMemFile_list_def
  unmarshalOFilterMemPackage_def unmarshalOFilterMemPackage_list_def unmarshalOFilterMessageValue_def
  unmarshalOFilterMessageValue_list_def unmarshalOFilterMsgAddPackage_def unmarshalOFilterMsgAddPackage_list_def
  unmarshalOFilterMsgCall_def unmarshalOFilterMsgCall_list_def unmarshalOFilterMsgRun_def
  unmarshalOFilterMsgRun_list_def unmarshalOFilterStorageDepositEvent_def
  unmarshalOFilterStorageDepositEvent_list_def unmarshalOFilterStorageUnlockEvent_def
  unmarshalOFilterStorageUnlockEvent_list_def unmarshalOFilterTransactionMessage_def
  unmarshalOFilterTransactionMessage_list_def unmarshalOFilterTransactionResponse_def
  unmarshalOFilterTransactionResponse_list_def unmarshalOFilterTxFee_def unmarshalOFilterTxFee_list_def
  unmarshalOFilterUnknownEvent_def unmarshalOFilterUnknownEvent_list_def unmarshalNBlockFilter_def
  unmarshalOAmountInput_def unmarshalOBankMsgSendInput_def unmarshalOTransactionBankMessageInput_def
  unmarshalOString_list_def unmarshalOMsgCallInput_def unmarshalOMemFileInput_def unmarshalOMemFileInput_list_def
  unmarshalOMemPackageInput_def unmarshalOMsgAddPackageInput_def unmarshalOMsgRunInput_def
  unmarshalOTransactionVmMessageInput_def unmarshalNTransactionMessageInput_def
  unmarshalOTransactionMessageInput_list_def unmarshalNEventAttributeInput_def
  unmarshalOEventAttributeInput_list_def unmarshalOGnoEventInput_def unmarshalOCoinInput_def
  unmarshalOStorageDepositEventInput_def unmarshalOStorageUnlockEventInput_def unmarshalNEventInput_def
  unmarshalOEventInput_list_def unmarshalNTransactionFilter_def unmarshalOBlockOrder_def
  unmarshalOTransactionOrder_def

end
