(* ===== verification/Graph_Execute.thy ===== *)
theory Graph_Execute
  imports Graph_Resolvers Graph_Inputs
begin

text \<open>
  How the generated executor turns Go values into a response. The functions \<open>_Type_field\<close>, \<open>_Type\<close> and
  \<open>marshalX\<close> of \<open>serve/graph/generated.go\<close> are instances of a few templates: a field is resolved under a \<open>recover\<close>, an
  object runs its selected fields in order and becomes null when a non-null one is, and a list runs its elements in
  goroutines of their own. This theory holds the templates and their laws; \<open>Graph_Executors\<close> holds the instances.
\<close>

section \<open>Responses and the library\<close>

text \<open>A \<open>graphql.Marshaler\<close> by what it writes.\<close>

datatype gql_out =
    ONull
  | OBool bool
  | OInt i64
  | OText string
  | OArray "gql_out list"
  | OObject "(string \<times> gql_out) list"

text \<open>The errors of the response, with the path of the field each was reported at.\<close>

type_synonym error_log = "(gql_path \<times> go_error) list"

text \<open>
  A selected field of a query (\<open>graphql.CollectedField\<close>). The selections are a type of the library and stay
  abstract; \<open>xeCollect\<close> is \<open>graphql.CollectFields\<close>, which is given the names an object answers to in a fragment.
\<close>

record 'sel collected =
  cfName :: string
  cfAlias :: string
  cfSelections :: 'sel
  cfArgs :: "string \<rightharpoonup> gql_input"

text \<open>
  The library: the selected fields, the marshalers of the scalars, \<open>graphql.HasFieldError\<close>, the error that a panic
  becomes (\<open>ec.Recover\<close>), the decoding of arguments; and whether the directive \<open>@filterable\<close> is
  configured. No extension of the server intercepts fields (\<open>setup.go\<close>), so \<open>ResolverMiddleware\<close> and
  \<open>RootResolverMiddleware\<close> run what they are given.
\<close>

record 'sel exec_env =
  xeCollect :: "'sel \<Rightarrow> string list \<Rightarrow> 'sel collected list"
  xeInt :: "i64 \<Rightarrow> gql_out"
  xeInt64 :: "i64 \<Rightarrow> gql_out"
  xeBoolean :: "bool \<Rightarrow> gql_out"
  xeString :: "string \<Rightarrow> gql_out"
  xeTime :: "gotime \<Rightarrow> gql_out"
  xeHasFieldError :: "error_log \<Rightarrow> gql_path \<Rightarrow> bool"
  xeRecover :: "string \<Rightarrow> go_error"
  xeInput :: input_env
  xeFilterable :: bool

section \<open>Running with an error log\<close>

type_synonym 'a run = "error_log \<Rightarrow> 'a outcome \<times> error_log"

definition retX :: "'a \<Rightarrow> 'a run" where
  "retX x l = (Ret x, l)"

definition panicX :: "string \<Rightarrow> 'a run" where
  "panicX m l = (Panic m, l)"

definition bindX :: "'a run \<Rightarrow> ('a \<Rightarrow> 'b run) \<Rightarrow> 'b run" where
  "bindX m k l = (case m l of (Panic s, l') \<Rightarrow> (Panic s, l') | (Ret x, l') \<Rightarrow> k x l')"

text \<open>\<open>ec.Error\<close>, and the report of a null that the schema does not allow.\<close>

definition reportX :: "gql_path \<Rightarrow> go_error \<Rightarrow> unit run" where
  "reportX p e l = (Ret (), l @ [(p, e)])"

definition notNullX :: "'sel exec_env \<Rightarrow> gql_path \<Rightarrow> string \<Rightarrow> gql_out run" where
  "notNullX E p m l = (Ret ONull, if xeHasFieldError E l p then l else l @ [(p, ErrMsg m)])"

text \<open>The deferred function of a field: a panic is reported and the field is null.\<close>

definition recoverX :: "'sel exec_env \<Rightarrow> gql_path \<Rightarrow> gql_out run \<Rightarrow> gql_out run" where
  "recoverX E p m l = (case m l of (Panic s, l') \<Rightarrow> (Ret ONull, l' @ [(p, xeRecover E s)]) | (Ret x, l') \<Rightarrow> (Ret x, l'))"

section \<open>The templates\<close>

text \<open>
  \<open>_Type_field\<close>, after the field context: run the resolver; an error is reported, no value is null (reported where
  the schema does not allow it), and a value is marshaled.
\<close>

definition fieldX ::
    "'sel exec_env \<Rightarrow> gql_path \<Rightarrow> bool \<Rightarrow> (go_error + 'a option) run \<Rightarrow> ('a \<Rightarrow> gql_out run) \<Rightarrow> gql_out run" where
  "fieldX E p nonNull resolve marshal = recoverX E p (bindX resolve (\<lambda>r.
     case r of
       Inl e \<Rightarrow> bindX (reportX p e) (\<lambda>_. retX ONull)
     | Inr None \<Rightarrow> if nonNull then notNullX E p ''must not be null'' else retX ONull
     | Inr (Some res) \<Rightarrow> marshal res))"

text \<open>A resolver that reports nothing itself.\<close>

definition pureX :: "'a decoded \<Rightarrow> (go_error + 'a) run" where
  "pureX d l = (d, l)"

text \<open>
  The field context of a field with arguments: a failed decoding of the arguments is reported and the field is null, and so is a
  panic in it.
\<close>

definition contextX :: "'sel exec_env \<Rightarrow> gql_path \<Rightarrow> 'a decoded \<Rightarrow> ('a \<Rightarrow> gql_out run) \<Rightarrow> gql_out run" where
  "contextX E p args k =
     (case args of
        Panic s \<Rightarrow> bindX (reportX p (xeRecover E s)) (\<lambda>_. retX ONull)
      | Ret (Inl e) \<Rightarrow> bindX (reportX p e) (\<lambda>_. retX ONull)
      | Ret (Inr x) \<Rightarrow> k x)"

text \<open>
  A resolver of \<open>Graph_Resolvers\<close>: the errors it adds are reported at the path of the field, and its
  slice is nil when it has no element, since it starts as nil and only grows by \<open>append\<close>.
\<close>

definition queryX :: "gql_path \<Rightarrow> 'a query_result outcome \<Rightarrow> (go_error + 'a list option option) run" where
  "queryX p r l =
     (case r of
        Panic s \<Rightarrow> (Panic s, l)
      | Ret q \<Rightarrow>
          (Ret (case qErr q of
                  Some e \<Rightarrow> Inl e
                | None \<Rightarrow> Inr (Some (if qOut q = [] then None else Some (qOut q)))),
           l @ map (\<lambda>e. (p, e)) (qAdded q)))"

text \<open>A field of the query type: its value stays a nil interface after a panic, and writing it panics again.\<close>

definition rootX :: "'sel exec_env \<Rightarrow> gql_path \<Rightarrow> gql_out run \<Rightarrow> gql_out run" where
  "rootX E p m l =
     (case m l of
        (Panic s, l') \<Rightarrow> (Panic ''nil pointer dereference'', l' @ [(p, xeRecover E s)])
      | (Ret x, l') \<Rightarrow> (Ret x, l'))"

definition valueOf :: "'a \<Rightarrow> 'a option decoded" where
  "valueOf v = Ret (Inr (Some v))"

text \<open>The directive: the function that \<open>Setup\<close> configures calls the next resolver.\<close>

definition Filterable :: "'a option decoded \<Rightarrow> FilterableExtra list option \<Rightarrow> 'a option decoded" where
  "Filterable next extras = next"

definition directiveX :: "'sel exec_env \<Rightarrow> gql_path \<Rightarrow> FilterableExtra list option decoded \<Rightarrow> 'a option decoded \<Rightarrow> 'a option decoded" where
  "directiveX E p extras directive0 =
     onPath (xeInput E) p
       (bindE extras (\<lambda>extras.
          if \<not> xeFilterable E then Ret (Inl (ErrMsg ''directive filterable is not implemented''))
          else Filterable directive0 extras))"

definition filterableX :: "'sel exec_env \<Rightarrow> gql_path \<Rightarrow> 'a outcome \<Rightarrow> 'a option decoded" where
  "filterableX E p v = directiveX E p (Ret (Inr None)) (bindO v valueOf)"

definition minmaxX :: "'sel exec_env \<Rightarrow> gql_path \<Rightarrow> 'a outcome \<Rightarrow> 'a option decoded" where
  "minmaxX E p v =
     directiveX E p (unmarshalOFilterableExtra_list (xeInput E) p (IList [IString ''MINMAX''])) (bindO v valueOf)"

text \<open>\<open>marshalNX\<close> of a scalar and of a pointer, \<open>marshalOX\<close> of a pointer or an interface.\<close>

definition nullMsg :: string where
  "nullMsg = ''the requested element is null which the schema does not allow''"

definition scalarX :: "'sel exec_env \<Rightarrow> gql_path \<Rightarrow> gql_out \<Rightarrow> gql_out run" where
  "scalarX E p res = (if res = ONull then notNullX E p nullMsg else retX res)"

definition requiredX :: "'sel exec_env \<Rightarrow> gql_path \<Rightarrow> ('a \<Rightarrow> gql_out run) \<Rightarrow> 'a option \<Rightarrow> gql_out run" where
  "requiredX E p f v = (case v of None \<Rightarrow> notNullX E p nullMsg | Some x \<Rightarrow> f x)"

definition nullableX :: "('a \<Rightarrow> gql_out run) \<Rightarrow> 'a option \<Rightarrow> gql_out run" where
  "nullableX f v = (case v of None \<Rightarrow> retX ONull | Some x \<Rightarrow> f x)"

text \<open>
  A list: every element in a goroutine of its own, whose panic is reported and sets the slice of results to nil; the
  elements after that find no place for their result, which is one more panic. The model runs the goroutines one
  after the other in the order of the list. With \<open>nonNull\<close> a null element makes the list null.
\<close>

fun elemsX :: "'sel exec_env \<Rightarrow> (gql_path \<Rightarrow> 'a \<Rightarrow> gql_out run) \<Rightarrow> gql_path \<Rightarrow> nat \<Rightarrow> bool \<Rightarrow> 'a list \<Rightarrow>
    error_log \<Rightarrow> gql_out list option \<times> error_log" where
  "elemsX E f p i alive [] l = (if alive then Some [] else None, l)"
| "elemsX E f p i alive (v # vs) l =
     (case f (p @ [PIndex i]) v l of
        (Panic s, l') \<Rightarrow> elemsX E f p (Suc i) False vs (l' @ [(p @ [PIndex i], xeRecover E s)])
      | (Ret x, l') \<Rightarrow>
          if alive then map_prod (map_option (\<lambda>xs. x # xs)) id (elemsX E f p (Suc i) True vs l')
          else elemsX E f p (Suc i) False vs (l' @ [(p @ [PIndex i], xeRecover E ''index out of range'')]))"

definition listX :: "'sel exec_env \<Rightarrow> bool \<Rightarrow> (gql_path \<Rightarrow> 'a \<Rightarrow> gql_out run) \<Rightarrow> gql_path \<Rightarrow> 'a list \<Rightarrow> gql_out run" where
  "listX E nonNull f p vs l =
     (case elemsX E f p 0 True vs l of
        (ret, l') \<Rightarrow>
          let ret = deref [] ret in
          (Ret (if nonNull \<and> ONull \<in> set ret then ONull else OArray ret), l'))"

text \<open>The list of strings is written in a plain loop.\<close>

fun loopX :: "('a \<Rightarrow> gql_out run) \<Rightarrow> 'a list \<Rightarrow> gql_out list run" where
  "loopX f [] = retX []"
| "loopX f (v # vs) = bindX (f v) (\<lambda>x. bindX (loopX f vs) (\<lambda>xs. retX (x # xs)))"

definition stringsX :: "('a \<Rightarrow> gql_out run) \<Rightarrow> 'a list \<Rightarrow> gql_out run" where
  "stringsX f vs = bindX (loopX f vs) (\<lambda>ret. retX (if ONull \<in> set ret then ONull else OArray ret))"

text \<open>
  An object: the selected fields in order, each under the name it was selected by, with a count of the fields that are null
  against the schema; an unknown field panics. Nothing is deferred: the generator defers only fields with
  a \<open>@defer\<close> in their selection, and no such field exists here.
\<close>

type_synonym 'sel object_field = "string \<times> bool \<times> (gql_path \<Rightarrow> 'sel collected \<Rightarrow> gql_out run)"

fun selectionsX :: "'sel exec_env \<Rightarrow> string \<Rightarrow> 'sel object_field list \<Rightarrow> gql_path \<Rightarrow> 'sel collected list \<Rightarrow>
    ((string \<times> gql_out) list \<times> nat) run" where
  "selectionsX E typename fs p [] = retX ([], 0)"
| "selectionsX E typename fs p (c # cs) =
     bindX
       (if cfName c = ''__typename'' then retX (xeString E typename, 0)
        else (case map_of fs (cfName c) of
                None \<Rightarrow> panicX (''unknown field '' @ cfName c)
              | Some (counted, exec) \<Rightarrow> bindX (exec p c) (\<lambda>v. retX (v, if counted \<and> v = ONull then 1 else 0))))
       (\<lambda>(v, n). bindX (selectionsX E typename fs p cs) (\<lambda>(kvs, invalids). retX ((cfAlias c, v) # kvs, n + invalids)))"

definition objectX :: "'sel exec_env \<Rightarrow> string list \<Rightarrow> string \<Rightarrow> 'sel object_field list \<Rightarrow> 'sel \<Rightarrow> gql_path \<Rightarrow> gql_out run" where
  "objectX E implementors typename fs sel p =
     bindX (selectionsX E typename fs p (xeCollect E sel implementors))
       (\<lambda>(kvs, invalids). retX (if invalids > 0 then ONull else OObject kvs))"

section \<open>The marshalers of scalars\<close>

definition marshalNBoolean ::
    "'sel exec_env \<Rightarrow> 'sel \<Rightarrow> gql_path \<Rightarrow> bool \<Rightarrow> gql_out run" where
  "marshalNBoolean E sel p v = scalarX E p (xeBoolean E v)"

definition marshalNInt ::
    "'sel exec_env \<Rightarrow> 'sel \<Rightarrow> gql_path \<Rightarrow> i64 \<Rightarrow> gql_out run" where
  "marshalNInt E sel p v = scalarX E p (xeInt E v)"

definition marshalNInt64 ::
    "'sel exec_env \<Rightarrow> 'sel \<Rightarrow> gql_path \<Rightarrow> i64 \<Rightarrow> gql_out run" where
  "marshalNInt64 E sel p v = scalarX E p (xeInt64 E v)"

definition marshalNString ::
    "'sel exec_env \<Rightarrow> 'sel \<Rightarrow> gql_path \<Rightarrow> string \<Rightarrow> gql_out run" where
  "marshalNString E sel p v = scalarX E p (xeString E v)"

definition marshalNTime ::
    "'sel exec_env \<Rightarrow> 'sel \<Rightarrow> gql_path \<Rightarrow> gotime \<Rightarrow> gql_out run" where
  "marshalNTime E sel p v = scalarX E p (xeTime E v)"

definition marshalOBool ::
    "'sel exec_env \<Rightarrow> 'sel \<Rightarrow> gql_path \<Rightarrow> bool \<Rightarrow> gql_out run" where
  "marshalOBool E sel p v = retX (xeBoolean E v)"

definition marshalOBoolean ::
    "'sel exec_env \<Rightarrow> 'sel \<Rightarrow> gql_path \<Rightarrow> bool option \<Rightarrow> gql_out run" where
  "marshalOBoolean E sel p v = nullableX (\<lambda>x. retX (xeBoolean E x)) v"

definition marshalOInt ::
    "'sel exec_env \<Rightarrow> 'sel \<Rightarrow> gql_path \<Rightarrow> i64 option \<Rightarrow> gql_out run" where
  "marshalOInt E sel p v = nullableX (\<lambda>x. retX (xeInt E x)) v"

definition marshalOString_list ::
    "'sel exec_env \<Rightarrow> 'sel \<Rightarrow> gql_path \<Rightarrow> string list option \<Rightarrow> gql_out run" where
  "marshalOString_list E sel p v =
     nullableX (stringsX (\<lambda>v. marshalNString E sel p v)) v"

definition marshalOString ::
    "'sel exec_env \<Rightarrow> 'sel \<Rightarrow> gql_path \<Rightarrow> string option \<Rightarrow> gql_out run" where
  "marshalOString E sel p v = nullableX (\<lambda>x. retX (xeString E x)) v"

definition marshalOTime ::
    "'sel exec_env \<Rightarrow> 'sel \<Rightarrow> gql_path \<Rightarrow> gotime option \<Rightarrow> gql_out run" where
  "marshalOTime E sel p v = nullableX (\<lambda>x. retX (xeTime E x)) v"

end
