(* ===== verification/Graph_Introspect.thy ===== *)
theory Graph_Introspect
  imports Graph_Execute
begin

text \<open>
  Introspection: the fields \<open>__type\<close> and \<open>__schema\<close> of a query and the objects below them
  (\<open>serve/graph/generated.go\<close>, the functions of \<open>__Schema\<close>, \<open>__Type\<close>, \<open>__Field\<close>, \<open>__InputValue\<close>, \<open>__EnumValue\<close> and
  \<open>__Directive\<close>), over the package that wraps the parsed schema. A type holds types without end (the fields of a
  type have types with fields), but the selections of a request are finite.
\<close>

section \<open>The package that wraps the schema\<close>

text \<open>
  The values of \<open>graphql/introspection\<close>, by their fields and by what their methods return, which may panic. A type
  of the schema is a value of a type \<open>'ty\<close> that only the package knows.
\<close>

record intro_enum_value =
  evName :: string
  evDescription :: "string option outcome"
  evIsDeprecated :: "bool outcome"
  evDeprecationReason :: "string option outcome"

record 'ty intro_input_value =
  ivName :: string
  ivDescription :: "string option outcome"
  ivType :: "'ty option"
  ivDefaultValue :: "string option"

record 'ty intro_field =
  fdName :: string
  fdDescription :: "string option outcome"
  fdArgs :: "'ty intro_input_value list"
  fdType :: "'ty option"
  fdIsDeprecated :: "bool outcome"
  fdDeprecationReason :: "string option outcome"

record 'ty intro_directive =
  dvName :: string
  dvDescription :: "string option outcome"
  dvLocations :: "string list"
  dvArgs :: "'ty intro_input_value list"
  dvIsRepeatable :: bool

record 'ty intro_schema =
  ssDescription :: "string option outcome"
  ssTypes :: "'ty list outcome"
  ssQueryType :: "'ty option outcome"
  ssMutationType :: "'ty option outcome"
  ssSubscriptionType :: "'ty option outcome"
  ssDirectives :: "'ty intro_directive list outcome"

text \<open>
  The package for one request: whether introspection is disabled for it (\<open>DisableIntrospection\<close>), the wrapped schema
  (\<open>WrapSchema\<close>), the type of a name (\<open>WrapTypeFromDef\<close>, nil for an unknown name), the methods of a type, where a slice may
  be nil, and the depth of a selection: how many objects it selects inside one another.
\<close>

record ('ty, 'sel) introspection =
  inDisabled :: bool
  inSchema :: "'ty intro_schema"
  inTypeOf :: "string \<Rightarrow> 'ty option outcome"
  tyKind :: "'ty \<Rightarrow> string outcome"
  tyName :: "'ty \<Rightarrow> string option outcome"
  tyDescription :: "'ty \<Rightarrow> string option outcome"
  tyFields :: "'ty \<Rightarrow> bool \<Rightarrow> 'ty intro_field list option outcome"
  tyInterfaces :: "'ty \<Rightarrow> 'ty list option outcome"
  tyPossibleTypes :: "'ty \<Rightarrow> 'ty list option outcome"
  tyEnumValues :: "'ty \<Rightarrow> bool \<Rightarrow> intro_enum_value list option outcome"
  tyInputFields :: "'ty \<Rightarrow> 'ty intro_input_value list option outcome"
  tyOfType :: "'ty \<Rightarrow> 'ty option outcome"
  tySpecifiedByURL :: "'ty \<Rightarrow> string option outcome"
  inDepth :: "'sel \<Rightarrow> nat"

type_synonym ('ty, 'sel) type_executor = "'sel \<Rightarrow> gql_path \<Rightarrow> 'ty \<Rightarrow> gql_out run"

text \<open>\<open>Setup\<close> installs the extension for introspection unless it is disabled; without it the library disables introspection.\<close>

definition Setup :: "bool \<Rightarrow> ('ty, 'sel) introspection \<Rightarrow> ('ty, 'sel) introspection" where
  "Setup disableIntrospection I = (if \<not> disableIntrospection then I\<lparr>inDisabled := False\<rparr> else I\<lparr>inDisabled := True\<rparr>)"

definition introspectSchema :: "('ty, 'sel) introspection \<Rightarrow> 'ty intro_schema option decoded" where
  "introspectSchema I =
     (if inDisabled I then Ret (Inl (ErrMsg ''introspection disabled'')) else valueOf (inSchema I))"

definition introspectType :: "('ty, 'sel) introspection \<Rightarrow> string \<Rightarrow> 'ty option option decoded" where
  "introspectType I name =
     (if inDisabled I then Ret (Inl (ErrMsg ''introspection disabled'')) else bindO (inTypeOf I name) valueOf)"

section \<open>Arguments\<close>

definition field___Type_enumValues_argsIncludeDeprecated :: "input_env \<Rightarrow> bool arg_decoder" where
  "field___Type_enumValues_argsIncludeDeprecated E = argIn ''includeDeprecated'' False (unmarshalOBool E)"

definition field___Type_enumValues_args :: "input_env \<Rightarrow> bool arg_decoder" where
  "field___Type_enumValues_args E = field___Type_enumValues_argsIncludeDeprecated E"

definition field___Type_fields_argsIncludeDeprecated :: "input_env \<Rightarrow> bool arg_decoder" where
  "field___Type_fields_argsIncludeDeprecated E = argIn ''includeDeprecated'' False (unmarshalOBool E)"

definition field___Type_fields_args :: "input_env \<Rightarrow> bool arg_decoder" where
  "field___Type_fields_args E = field___Type_fields_argsIncludeDeprecated E"

section \<open>Types, by a function for the types inside them\<close>

text \<open>\<open>T\<close> is the function \<open>___Type\<close>, which the types inside a type call again.\<close>

definition marshalN__Type_value ::
    "('ty, 'sel) type_executor \<Rightarrow> 'sel exec_env \<Rightarrow> 'sel \<Rightarrow> gql_path \<Rightarrow> 'ty \<Rightarrow> gql_out run" where
  "marshalN__Type_value T E sel p v = T sel p v"

definition marshalN__Type ::
    "('ty, 'sel) type_executor \<Rightarrow> 'sel exec_env \<Rightarrow> 'sel \<Rightarrow> gql_path \<Rightarrow> 'ty option \<Rightarrow> gql_out run" where
  "marshalN__Type T E sel p v = requiredX E p (T sel p) v"

definition marshalN__Type_list ::
    "('ty, 'sel) type_executor \<Rightarrow> 'sel exec_env \<Rightarrow> 'sel \<Rightarrow> gql_path \<Rightarrow> 'ty list \<Rightarrow> gql_out run" where
  "marshalN__Type_list T E sel p v = listX E True (marshalN__Type_value T E sel) p v"

definition marshalO__Type ::
    "('ty, 'sel) type_executor \<Rightarrow> 'sel exec_env \<Rightarrow> 'sel \<Rightarrow> gql_path \<Rightarrow> 'ty option \<Rightarrow> gql_out run" where
  "marshalO__Type T E sel p v = nullableX (T sel p) v"

definition marshalO__Type_list ::
    "('ty, 'sel) type_executor \<Rightarrow> 'sel exec_env \<Rightarrow> 'sel \<Rightarrow> gql_path \<Rightarrow> 'ty list option \<Rightarrow> gql_out run" where
  "marshalO__Type_list T E sel p v = nullableX (listX E True (marshalN__Type_value T E sel) p) v"

definition marshalN__TypeKind ::
    "'sel exec_env \<Rightarrow> 'sel \<Rightarrow> gql_path \<Rightarrow> string \<Rightarrow> gql_out run" where
  "marshalN__TypeKind E sel p v = scalarX E p (xeString E v)"

definition marshalN__DirectiveLocation ::
    "'sel exec_env \<Rightarrow> 'sel \<Rightarrow> gql_path \<Rightarrow> string \<Rightarrow> gql_out run" where
  "marshalN__DirectiveLocation E sel p v = scalarX E p (xeString E v)"

definition marshalN__DirectiveLocation_list ::
    "'sel exec_env \<Rightarrow> 'sel \<Rightarrow> gql_path \<Rightarrow> string list \<Rightarrow> gql_out run" where
  "marshalN__DirectiveLocation_list E sel p v = listX E True (marshalN__DirectiveLocation E sel) p v"

section \<open>Values of enumerations and inputs\<close>

definition exec___EnumValue_name ::
    "'sel exec_env \<Rightarrow> gql_path \<Rightarrow> 'sel collected \<Rightarrow> intro_enum_value \<Rightarrow> gql_out run" where
  "exec___EnumValue_name E p field obj = (let p = p @ [PField (cfAlias field)] in
     fieldX E p True (pureX (valueOf (evName obj)))
       (marshalNString E (cfSelections field) p))"

definition exec___EnumValue_description ::
    "'sel exec_env \<Rightarrow> gql_path \<Rightarrow> 'sel collected \<Rightarrow> intro_enum_value \<Rightarrow> gql_out run" where
  "exec___EnumValue_description E p field obj = (let p = p @ [PField (cfAlias field)] in
     fieldX E p False (pureX (bindO (evDescription obj) valueOf))
       (marshalOString E (cfSelections field) p))"

definition exec___EnumValue_isDeprecated ::
    "'sel exec_env \<Rightarrow> gql_path \<Rightarrow> 'sel collected \<Rightarrow> intro_enum_value \<Rightarrow> gql_out run" where
  "exec___EnumValue_isDeprecated E p field obj = (let p = p @ [PField (cfAlias field)] in
     fieldX E p True (pureX (bindO (evIsDeprecated obj) valueOf))
       (marshalNBoolean E (cfSelections field) p))"

definition exec___EnumValue_deprecationReason ::
    "'sel exec_env \<Rightarrow> gql_path \<Rightarrow> 'sel collected \<Rightarrow> intro_enum_value \<Rightarrow> gql_out run" where
  "exec___EnumValue_deprecationReason E p field obj = (let p = p @ [PField (cfAlias field)] in
     fieldX E p False (pureX (bindO (evDeprecationReason obj) valueOf))
       (marshalOString E (cfSelections field) p))"

definition enumValueImplementors :: "string list" where
  "enumValueImplementors = [''__EnumValue'']"

definition exec___EnumValue ::
    "'sel exec_env \<Rightarrow> 'sel \<Rightarrow> gql_path \<Rightarrow> intro_enum_value \<Rightarrow> gql_out run" where
  "exec___EnumValue E sel p obj = objectX E enumValueImplementors ''__EnumValue''
     [(''name'', True, \<lambda>p field. exec___EnumValue_name E p field obj),
      (''description'', False, \<lambda>p field. exec___EnumValue_description E p field obj),
      (''isDeprecated'', True, \<lambda>p field. exec___EnumValue_isDeprecated E p field obj),
      (''deprecationReason'', False, \<lambda>p field. exec___EnumValue_deprecationReason E p field obj)] sel p"

definition marshalN__EnumValue_value ::
    "'sel exec_env \<Rightarrow> 'sel \<Rightarrow> gql_path \<Rightarrow> intro_enum_value \<Rightarrow> gql_out run" where
  "marshalN__EnumValue_value E sel p v = exec___EnumValue E sel p v"

definition marshalO__EnumValue_list ::
    "'sel exec_env \<Rightarrow> 'sel \<Rightarrow> gql_path \<Rightarrow> intro_enum_value list option \<Rightarrow> gql_out run" where
  "marshalO__EnumValue_list E sel p v = nullableX (listX E True (marshalN__EnumValue_value E sel) p) v"

definition exec___InputValue_name ::
    "'sel exec_env \<Rightarrow> gql_path \<Rightarrow> 'sel collected \<Rightarrow> 'ty intro_input_value \<Rightarrow> gql_out run" where
  "exec___InputValue_name E p field obj = (let p = p @ [PField (cfAlias field)] in
     fieldX E p True (pureX (valueOf (ivName obj)))
       (marshalNString E (cfSelections field) p))"

definition exec___InputValue_description ::
    "'sel exec_env \<Rightarrow> gql_path \<Rightarrow> 'sel collected \<Rightarrow> 'ty intro_input_value \<Rightarrow> gql_out run" where
  "exec___InputValue_description E p field obj = (let p = p @ [PField (cfAlias field)] in
     fieldX E p False (pureX (bindO (ivDescription obj) valueOf))
       (marshalOString E (cfSelections field) p))"

definition exec___InputValue_type ::
    "('ty, 'sel) type_executor \<Rightarrow> 'sel exec_env \<Rightarrow>
     gql_path \<Rightarrow> 'sel collected \<Rightarrow> 'ty intro_input_value \<Rightarrow> gql_out run" where
  "exec___InputValue_type T E p field obj = (let p = p @ [PField (cfAlias field)] in
     fieldX E p True (pureX (valueOf (ivType obj)))
       (marshalN__Type T E (cfSelections field) p))"

definition exec___InputValue_defaultValue ::
    "'sel exec_env \<Rightarrow> gql_path \<Rightarrow> 'sel collected \<Rightarrow> 'ty intro_input_value \<Rightarrow> gql_out run" where
  "exec___InputValue_defaultValue E p field obj = (let p = p @ [PField (cfAlias field)] in
     fieldX E p False (pureX (valueOf (ivDefaultValue obj)))
       (marshalOString E (cfSelections field) p))"

definition inputValueImplementors :: "string list" where
  "inputValueImplementors = [''__InputValue'']"

definition exec___InputValue ::
    "('ty, 'sel) type_executor \<Rightarrow> 'sel exec_env \<Rightarrow> 'sel \<Rightarrow> gql_path \<Rightarrow> 'ty intro_input_value \<Rightarrow> gql_out run" where
  "exec___InputValue T E sel p obj = objectX E inputValueImplementors ''__InputValue''
     [(''name'', True, \<lambda>p field. exec___InputValue_name E p field obj),
      (''description'', False, \<lambda>p field. exec___InputValue_description E p field obj),
      (''type'', True, \<lambda>p field. exec___InputValue_type T E p field obj),
      (''defaultValue'', False, \<lambda>p field. exec___InputValue_defaultValue E p field obj)] sel p"

definition marshalN__InputValue_value ::
    "('ty, 'sel) type_executor \<Rightarrow> 'sel exec_env \<Rightarrow> 'sel \<Rightarrow> gql_path \<Rightarrow> 'ty intro_input_value \<Rightarrow> gql_out run" where
  "marshalN__InputValue_value T E sel p v = exec___InputValue T E sel p v"

definition marshalN__InputValue_list ::
    "('ty, 'sel) type_executor \<Rightarrow> 'sel exec_env \<Rightarrow> 'sel \<Rightarrow> gql_path \<Rightarrow> 'ty intro_input_value list \<Rightarrow> gql_out run" where
  "marshalN__InputValue_list T E sel p v = listX E True (marshalN__InputValue_value T E sel) p v"

definition marshalO__InputValue_list ::
    "('ty, 'sel) type_executor \<Rightarrow> 'sel exec_env \<Rightarrow> 'sel \<Rightarrow> gql_path \<Rightarrow> 'ty intro_input_value list option \<Rightarrow> gql_out run" where
  "marshalO__InputValue_list T E sel p v = nullableX (listX E True (marshalN__InputValue_value T E sel) p) v"

section \<open>Fields and directives\<close>

definition exec___Field_name ::
    "'sel exec_env \<Rightarrow> gql_path \<Rightarrow> 'sel collected \<Rightarrow> 'ty intro_field \<Rightarrow> gql_out run" where
  "exec___Field_name E p field obj = (let p = p @ [PField (cfAlias field)] in
     fieldX E p True (pureX (valueOf (fdName obj)))
       (marshalNString E (cfSelections field) p))"

definition exec___Field_description ::
    "'sel exec_env \<Rightarrow> gql_path \<Rightarrow> 'sel collected \<Rightarrow> 'ty intro_field \<Rightarrow> gql_out run" where
  "exec___Field_description E p field obj = (let p = p @ [PField (cfAlias field)] in
     fieldX E p False (pureX (bindO (fdDescription obj) valueOf))
       (marshalOString E (cfSelections field) p))"

definition exec___Field_args ::
    "('ty, 'sel) type_executor \<Rightarrow> 'sel exec_env \<Rightarrow>
     gql_path \<Rightarrow> 'sel collected \<Rightarrow> 'ty intro_field \<Rightarrow> gql_out run" where
  "exec___Field_args T E p field obj = (let p = p @ [PField (cfAlias field)] in
     fieldX E p True (pureX (valueOf (fdArgs obj)))
       (marshalN__InputValue_list T E (cfSelections field) p))"

definition exec___Field_type ::
    "('ty, 'sel) type_executor \<Rightarrow> 'sel exec_env \<Rightarrow>
     gql_path \<Rightarrow> 'sel collected \<Rightarrow> 'ty intro_field \<Rightarrow> gql_out run" where
  "exec___Field_type T E p field obj = (let p = p @ [PField (cfAlias field)] in
     fieldX E p True (pureX (valueOf (fdType obj)))
       (marshalN__Type T E (cfSelections field) p))"

definition exec___Field_isDeprecated ::
    "'sel exec_env \<Rightarrow> gql_path \<Rightarrow> 'sel collected \<Rightarrow> 'ty intro_field \<Rightarrow> gql_out run" where
  "exec___Field_isDeprecated E p field obj = (let p = p @ [PField (cfAlias field)] in
     fieldX E p True (pureX (bindO (fdIsDeprecated obj) valueOf))
       (marshalNBoolean E (cfSelections field) p))"

definition exec___Field_deprecationReason ::
    "'sel exec_env \<Rightarrow> gql_path \<Rightarrow> 'sel collected \<Rightarrow> 'ty intro_field \<Rightarrow> gql_out run" where
  "exec___Field_deprecationReason E p field obj = (let p = p @ [PField (cfAlias field)] in
     fieldX E p False (pureX (bindO (fdDeprecationReason obj) valueOf))
       (marshalOString E (cfSelections field) p))"

definition fieldImplementors :: "string list" where
  "fieldImplementors = [''__Field'']"

definition exec___Field ::
    "('ty, 'sel) type_executor \<Rightarrow> 'sel exec_env \<Rightarrow> 'sel \<Rightarrow> gql_path \<Rightarrow> 'ty intro_field \<Rightarrow> gql_out run" where
  "exec___Field T E sel p obj = objectX E fieldImplementors ''__Field''
     [(''name'', True, \<lambda>p field. exec___Field_name E p field obj),
      (''description'', False, \<lambda>p field. exec___Field_description E p field obj),
      (''args'', True, \<lambda>p field. exec___Field_args T E p field obj),
      (''type'', True, \<lambda>p field. exec___Field_type T E p field obj),
      (''isDeprecated'', True, \<lambda>p field. exec___Field_isDeprecated E p field obj),
      (''deprecationReason'', False, \<lambda>p field. exec___Field_deprecationReason E p field obj)] sel p"

definition marshalN__Field_value ::
    "('ty, 'sel) type_executor \<Rightarrow> 'sel exec_env \<Rightarrow> 'sel \<Rightarrow> gql_path \<Rightarrow> 'ty intro_field \<Rightarrow> gql_out run" where
  "marshalN__Field_value T E sel p v = exec___Field T E sel p v"

definition marshalO__Field_list ::
    "('ty, 'sel) type_executor \<Rightarrow> 'sel exec_env \<Rightarrow> 'sel \<Rightarrow> gql_path \<Rightarrow> 'ty intro_field list option \<Rightarrow> gql_out run" where
  "marshalO__Field_list T E sel p v = nullableX (listX E True (marshalN__Field_value T E sel) p) v"

definition exec___Directive_name ::
    "'sel exec_env \<Rightarrow> gql_path \<Rightarrow> 'sel collected \<Rightarrow> 'ty intro_directive \<Rightarrow> gql_out run" where
  "exec___Directive_name E p field obj = (let p = p @ [PField (cfAlias field)] in
     fieldX E p True (pureX (valueOf (dvName obj)))
       (marshalNString E (cfSelections field) p))"

definition exec___Directive_description ::
    "'sel exec_env \<Rightarrow> gql_path \<Rightarrow> 'sel collected \<Rightarrow> 'ty intro_directive \<Rightarrow> gql_out run" where
  "exec___Directive_description E p field obj = (let p = p @ [PField (cfAlias field)] in
     fieldX E p False (pureX (bindO (dvDescription obj) valueOf))
       (marshalOString E (cfSelections field) p))"

definition exec___Directive_locations ::
    "'sel exec_env \<Rightarrow> gql_path \<Rightarrow> 'sel collected \<Rightarrow> 'ty intro_directive \<Rightarrow> gql_out run" where
  "exec___Directive_locations E p field obj = (let p = p @ [PField (cfAlias field)] in
     fieldX E p True (pureX (valueOf (dvLocations obj)))
       (marshalN__DirectiveLocation_list E (cfSelections field) p))"

definition exec___Directive_args ::
    "('ty, 'sel) type_executor \<Rightarrow> 'sel exec_env \<Rightarrow>
     gql_path \<Rightarrow> 'sel collected \<Rightarrow> 'ty intro_directive \<Rightarrow> gql_out run" where
  "exec___Directive_args T E p field obj = (let p = p @ [PField (cfAlias field)] in
     fieldX E p True (pureX (valueOf (dvArgs obj)))
       (marshalN__InputValue_list T E (cfSelections field) p))"

definition exec___Directive_isRepeatable ::
    "'sel exec_env \<Rightarrow> gql_path \<Rightarrow> 'sel collected \<Rightarrow> 'ty intro_directive \<Rightarrow> gql_out run" where
  "exec___Directive_isRepeatable E p field obj = (let p = p @ [PField (cfAlias field)] in
     fieldX E p True (pureX (valueOf (dvIsRepeatable obj)))
       (marshalNBoolean E (cfSelections field) p))"

definition directiveImplementors :: "string list" where
  "directiveImplementors = [''__Directive'']"

definition exec___Directive ::
    "('ty, 'sel) type_executor \<Rightarrow> 'sel exec_env \<Rightarrow> 'sel \<Rightarrow> gql_path \<Rightarrow> 'ty intro_directive \<Rightarrow> gql_out run" where
  "exec___Directive T E sel p obj = objectX E directiveImplementors ''__Directive''
     [(''name'', True, \<lambda>p field. exec___Directive_name E p field obj),
      (''description'', False, \<lambda>p field. exec___Directive_description E p field obj),
      (''locations'', True, \<lambda>p field. exec___Directive_locations E p field obj),
      (''args'', True, \<lambda>p field. exec___Directive_args T E p field obj),
      (''isRepeatable'', True, \<lambda>p field. exec___Directive_isRepeatable E p field obj)] sel p"

definition marshalN__Directive_value ::
    "('ty, 'sel) type_executor \<Rightarrow> 'sel exec_env \<Rightarrow> 'sel \<Rightarrow> gql_path \<Rightarrow> 'ty intro_directive \<Rightarrow> gql_out run" where
  "marshalN__Directive_value T E sel p v = exec___Directive T E sel p v"

definition marshalN__Directive_list ::
    "('ty, 'sel) type_executor \<Rightarrow> 'sel exec_env \<Rightarrow> 'sel \<Rightarrow> gql_path \<Rightarrow> 'ty intro_directive list \<Rightarrow> gql_out run" where
  "marshalN__Directive_list T E sel p v = listX E True (marshalN__Directive_value T E sel) p v"

section \<open>Types\<close>

definition exec___Type_kind ::
    "('ty, 'sel) introspection \<Rightarrow> 'sel exec_env \<Rightarrow> gql_path \<Rightarrow> 'sel collected \<Rightarrow> 'ty \<Rightarrow> gql_out run" where
  "exec___Type_kind I E p field obj = (let p = p @ [PField (cfAlias field)] in
     fieldX E p True (pureX (bindO (tyKind I obj) valueOf))
       (marshalN__TypeKind E (cfSelections field) p))"

definition exec___Type_name ::
    "('ty, 'sel) introspection \<Rightarrow> 'sel exec_env \<Rightarrow> gql_path \<Rightarrow> 'sel collected \<Rightarrow> 'ty \<Rightarrow> gql_out run" where
  "exec___Type_name I E p field obj = (let p = p @ [PField (cfAlias field)] in
     fieldX E p False (pureX (bindO (tyName I obj) valueOf))
       (marshalOString E (cfSelections field) p))"

definition exec___Type_description ::
    "('ty, 'sel) introspection \<Rightarrow> 'sel exec_env \<Rightarrow> gql_path \<Rightarrow> 'sel collected \<Rightarrow> 'ty \<Rightarrow> gql_out run" where
  "exec___Type_description I E p field obj = (let p = p @ [PField (cfAlias field)] in
     fieldX E p False (pureX (bindO (tyDescription I obj) valueOf))
       (marshalOString E (cfSelections field) p))"

definition exec___Type_fields ::
    "('ty, 'sel) introspection \<Rightarrow> ('ty, 'sel) type_executor \<Rightarrow>
     'sel exec_env \<Rightarrow> gql_path \<Rightarrow> 'sel collected \<Rightarrow> 'ty \<Rightarrow> gql_out run" where
  "exec___Type_fields I T E p field obj = (let p = p @ [PField (cfAlias field)] in
     contextX E p (field___Type_fields_args (xeInput E) p (cfArgs field)) (\<lambda>x.
     fieldX E p False (pureX (bindO (tyFields I obj x) valueOf))
       (marshalO__Field_list T E (cfSelections field) p)))"

definition exec___Type_interfaces ::
    "('ty, 'sel) introspection \<Rightarrow> ('ty, 'sel) type_executor \<Rightarrow>
     'sel exec_env \<Rightarrow> gql_path \<Rightarrow> 'sel collected \<Rightarrow> 'ty \<Rightarrow> gql_out run" where
  "exec___Type_interfaces I T E p field obj = (let p = p @ [PField (cfAlias field)] in
     fieldX E p False (pureX (bindO (tyInterfaces I obj) valueOf))
       (marshalO__Type_list T E (cfSelections field) p))"

definition exec___Type_possibleTypes ::
    "('ty, 'sel) introspection \<Rightarrow> ('ty, 'sel) type_executor \<Rightarrow>
     'sel exec_env \<Rightarrow> gql_path \<Rightarrow> 'sel collected \<Rightarrow> 'ty \<Rightarrow> gql_out run" where
  "exec___Type_possibleTypes I T E p field obj = (let p = p @ [PField (cfAlias field)] in
     fieldX E p False (pureX (bindO (tyPossibleTypes I obj) valueOf))
       (marshalO__Type_list T E (cfSelections field) p))"

definition exec___Type_enumValues ::
    "('ty, 'sel) introspection \<Rightarrow> 'sel exec_env \<Rightarrow> gql_path \<Rightarrow> 'sel collected \<Rightarrow> 'ty \<Rightarrow> gql_out run" where
  "exec___Type_enumValues I E p field obj = (let p = p @ [PField (cfAlias field)] in
     contextX E p (field___Type_enumValues_args (xeInput E) p (cfArgs field)) (\<lambda>x.
     fieldX E p False (pureX (bindO (tyEnumValues I obj x) valueOf))
       (marshalO__EnumValue_list E (cfSelections field) p)))"

definition exec___Type_inputFields ::
    "('ty, 'sel) introspection \<Rightarrow> ('ty, 'sel) type_executor \<Rightarrow>
     'sel exec_env \<Rightarrow> gql_path \<Rightarrow> 'sel collected \<Rightarrow> 'ty \<Rightarrow> gql_out run" where
  "exec___Type_inputFields I T E p field obj = (let p = p @ [PField (cfAlias field)] in
     fieldX E p False (pureX (bindO (tyInputFields I obj) valueOf))
       (marshalO__InputValue_list T E (cfSelections field) p))"

definition exec___Type_ofType ::
    "('ty, 'sel) introspection \<Rightarrow> ('ty, 'sel) type_executor \<Rightarrow>
     'sel exec_env \<Rightarrow> gql_path \<Rightarrow> 'sel collected \<Rightarrow> 'ty \<Rightarrow> gql_out run" where
  "exec___Type_ofType I T E p field obj = (let p = p @ [PField (cfAlias field)] in
     fieldX E p False (pureX (bindO (tyOfType I obj) valueOf))
       (marshalO__Type T E (cfSelections field) p))"

definition exec___Type_specifiedByURL ::
    "('ty, 'sel) introspection \<Rightarrow> 'sel exec_env \<Rightarrow> gql_path \<Rightarrow> 'sel collected \<Rightarrow> 'ty \<Rightarrow> gql_out run" where
  "exec___Type_specifiedByURL I E p field obj = (let p = p @ [PField (cfAlias field)] in
     fieldX E p False (pureX (bindO (tySpecifiedByURL I obj) valueOf))
       (marshalOString E (cfSelections field) p))"

definition typeImplementors :: "string list" where
  "typeImplementors = [''__Type'']"

definition exec___Type_body ::
    "('ty, 'sel) introspection \<Rightarrow> ('ty, 'sel) type_executor \<Rightarrow> 'sel exec_env \<Rightarrow> 'sel \<Rightarrow> gql_path \<Rightarrow> 'ty \<Rightarrow> gql_out run" where
  "exec___Type_body I T E sel p obj = objectX E typeImplementors ''__Type''
     [(''kind'', True, \<lambda>p field. exec___Type_kind I E p field obj),
      (''name'', False, \<lambda>p field. exec___Type_name I E p field obj),
      (''description'', False, \<lambda>p field. exec___Type_description I E p field obj),
      (''fields'', False, \<lambda>p field. exec___Type_fields I T E p field obj),
      (''interfaces'', False, \<lambda>p field. exec___Type_interfaces I T E p field obj),
      (''possibleTypes'', False, \<lambda>p field. exec___Type_possibleTypes I T E p field obj),
      (''enumValues'', False, \<lambda>p field. exec___Type_enumValues I E p field obj),
      (''inputFields'', False, \<lambda>p field. exec___Type_inputFields I T E p field obj),
      (''ofType'', False, \<lambda>p field. exec___Type_ofType I T E p field obj),
      (''specifiedByURL'', False, \<lambda>p field. exec___Type_specifiedByURL I E p field obj)] sel p"

text \<open>
  \<open>___Type\<close> calls itself on the selections inside its own: the body above with itself for \<open>T\<close>. The depth of the selections
  bounds the calls, and at the end of the bound there is no type left to answer; \<open>Type_equation\<close> and \<open>Type_unique\<close> show that
  the bound is never met, where the selections of a field are less deep than those it was collected from.
\<close>

primrec exec___Type_at :: "('ty, 'sel) introspection \<Rightarrow> 'sel exec_env \<Rightarrow> nat \<Rightarrow> ('ty, 'sel) type_executor" where
  "exec___Type_at I E 0 = (\<lambda>sel p obj. panicX ''no selection is this deep'')"
| "exec___Type_at I E (Suc n) = exec___Type_body I (exec___Type_at I E n) E"

definition exec___Type :: "('ty, 'sel) introspection \<Rightarrow> 'sel exec_env \<Rightarrow> ('ty, 'sel) type_executor" where
  "exec___Type I E sel p obj = exec___Type_at I E (Suc (inDepth I sel)) sel p obj"

section \<open>The schema\<close>

definition exec___Schema_description ::
    "'sel exec_env \<Rightarrow> gql_path \<Rightarrow> 'sel collected \<Rightarrow> 'ty intro_schema \<Rightarrow> gql_out run" where
  "exec___Schema_description E p field obj = (let p = p @ [PField (cfAlias field)] in
     fieldX E p False (pureX (bindO (ssDescription obj) valueOf))
       (marshalOString E (cfSelections field) p))"

definition exec___Schema_types ::
    "('ty, 'sel) type_executor \<Rightarrow> 'sel exec_env \<Rightarrow>
     gql_path \<Rightarrow> 'sel collected \<Rightarrow> 'ty intro_schema \<Rightarrow> gql_out run" where
  "exec___Schema_types T E p field obj = (let p = p @ [PField (cfAlias field)] in
     fieldX E p True (pureX (bindO (ssTypes obj) valueOf))
       (marshalN__Type_list T E (cfSelections field) p))"

definition exec___Schema_queryType ::
    "('ty, 'sel) type_executor \<Rightarrow> 'sel exec_env \<Rightarrow>
     gql_path \<Rightarrow> 'sel collected \<Rightarrow> 'ty intro_schema \<Rightarrow> gql_out run" where
  "exec___Schema_queryType T E p field obj = (let p = p @ [PField (cfAlias field)] in
     fieldX E p True (pureX (bindO (ssQueryType obj) valueOf))
       (marshalN__Type T E (cfSelections field) p))"

definition exec___Schema_mutationType ::
    "('ty, 'sel) type_executor \<Rightarrow> 'sel exec_env \<Rightarrow>
     gql_path \<Rightarrow> 'sel collected \<Rightarrow> 'ty intro_schema \<Rightarrow> gql_out run" where
  "exec___Schema_mutationType T E p field obj = (let p = p @ [PField (cfAlias field)] in
     fieldX E p False (pureX (bindO (ssMutationType obj) valueOf))
       (marshalO__Type T E (cfSelections field) p))"

definition exec___Schema_subscriptionType ::
    "('ty, 'sel) type_executor \<Rightarrow> 'sel exec_env \<Rightarrow>
     gql_path \<Rightarrow> 'sel collected \<Rightarrow> 'ty intro_schema \<Rightarrow> gql_out run" where
  "exec___Schema_subscriptionType T E p field obj = (let p = p @ [PField (cfAlias field)] in
     fieldX E p False (pureX (bindO (ssSubscriptionType obj) valueOf))
       (marshalO__Type T E (cfSelections field) p))"

definition exec___Schema_directives ::
    "('ty, 'sel) type_executor \<Rightarrow> 'sel exec_env \<Rightarrow>
     gql_path \<Rightarrow> 'sel collected \<Rightarrow> 'ty intro_schema \<Rightarrow> gql_out run" where
  "exec___Schema_directives T E p field obj = (let p = p @ [PField (cfAlias field)] in
     fieldX E p True (pureX (bindO (ssDirectives obj) valueOf))
       (marshalN__Directive_list T E (cfSelections field) p))"

definition schemaImplementors :: "string list" where
  "schemaImplementors = [''__Schema'']"

definition exec___Schema ::
    "('ty, 'sel) type_executor \<Rightarrow> 'sel exec_env \<Rightarrow> 'sel \<Rightarrow> gql_path \<Rightarrow> 'ty intro_schema \<Rightarrow> gql_out run" where
  "exec___Schema T E sel p obj = objectX E schemaImplementors ''__Schema''
     [(''description'', False, \<lambda>p field. exec___Schema_description E p field obj),
      (''types'', True, \<lambda>p field. exec___Schema_types T E p field obj),
      (''queryType'', True, \<lambda>p field. exec___Schema_queryType T E p field obj),
      (''mutationType'', False, \<lambda>p field. exec___Schema_mutationType T E p field obj),
      (''subscriptionType'', False, \<lambda>p field. exec___Schema_subscriptionType T E p field obj),
      (''directives'', True, \<lambda>p field. exec___Schema_directives T E p field obj)] sel p"

definition marshalO__Schema ::
    "('ty, 'sel) type_executor \<Rightarrow> 'sel exec_env \<Rightarrow> 'sel \<Rightarrow> gql_path \<Rightarrow> 'ty intro_schema option \<Rightarrow> gql_out run" where
  "marshalO__Schema T E sel p v = nullableX (exec___Schema T E sel p) v"

section \<open>The fields of a query\<close>

definition exec_Query___type ::
    "('ty, 'sel) introspection \<Rightarrow> 'sel exec_env \<Rightarrow> gql_path \<Rightarrow> 'sel collected \<Rightarrow> gql_out run" where
  "exec_Query___type I E p field = (let p = p @ [PField (cfAlias field)] in
     contextX E p (field_Query___type_args (xeInput E) p (cfArgs field)) (\<lambda>x.
     fieldX E p False (pureX (introspectType I x))
       (marshalO__Type (exec___Type I E) E (cfSelections field) p)))"

definition exec_Query___schema ::
    "('ty, 'sel) introspection \<Rightarrow> 'sel exec_env \<Rightarrow> gql_path \<Rightarrow> 'sel collected \<Rightarrow> gql_out run" where
  "exec_Query___schema I E p field = (let p = p @ [PField (cfAlias field)] in
     fieldX E p False (pureX (introspectSchema I))
       (\<lambda>v. marshalO__Schema (exec___Type I E) E (cfSelections field) p (Some v)))"

end
