(* ===== verification/Graph_Executors.thy ===== *)
theory Graph_Executors
  imports Graph_Introspect
begin

text \<open>
  The executors of \<open>serve/graph/generated.go\<close> as instances of the templates of \<open>Graph_Execute\<close>: per object of the
  schema one function per field (\<open>_Type_field\<close>), the function of the object (\<open>_Type\<close>) and the marshalers of its
  pointers and slices; then the fields of queries and subscriptions and the execution of an operation.
\<close>

section \<open>Objects of a block\<close>

definition exec_Block_hash ::
    "codec \<Rightarrow> graph_env \<Rightarrow> 'sel exec_env \<Rightarrow> gql_path \<Rightarrow> 'sel collected \<Rightarrow> Block \<Rightarrow> gql_out run" where
  "exec_Block_hash C G E p field obj = (let p = p @ [PField (cfAlias field)] in
     fieldX E p True (pureX (filterableX E p (Ret (Block_Hash C obj))))
       (marshalNString E (cfSelections field) p))"

definition exec_Block_height ::
    "codec \<Rightarrow> graph_env \<Rightarrow> 'sel exec_env \<Rightarrow> gql_path \<Rightarrow> 'sel collected \<Rightarrow> Block \<Rightarrow> gql_out run" where
  "exec_Block_height C G E p field obj = (let p = p @ [PField (cfAlias field)] in
     fieldX E p True (pureX (minmaxX E p (Ret (Block_Height obj))))
       (marshalNInt64 E (cfSelections field) p))"

definition exec_Block_version ::
    "codec \<Rightarrow> graph_env \<Rightarrow> 'sel exec_env \<Rightarrow> gql_path \<Rightarrow> 'sel collected \<Rightarrow> Block \<Rightarrow> gql_out run" where
  "exec_Block_version C G E p field obj = (let p = p @ [PField (cfAlias field)] in
     fieldX E p True (pureX (filterableX E p (Ret (Block_Version obj))))
       (marshalNString E (cfSelections field) p))"

definition exec_Block_chain_id ::
    "codec \<Rightarrow> graph_env \<Rightarrow> 'sel exec_env \<Rightarrow> gql_path \<Rightarrow> 'sel collected \<Rightarrow> Block \<Rightarrow> gql_out run" where
  "exec_Block_chain_id C G E p field obj = (let p = p @ [PField (cfAlias field)] in
     fieldX E p True (pureX (filterableX E p (Ret (Block_ChainID obj))))
       (marshalNString E (cfSelections field) p))"

definition exec_Block_time ::
    "codec \<Rightarrow> graph_env \<Rightarrow> 'sel exec_env \<Rightarrow> gql_path \<Rightarrow> 'sel collected \<Rightarrow> Block \<Rightarrow> gql_out run" where
  "exec_Block_time C G E p field obj = (let p = p @ [PField (cfAlias field)] in
     fieldX E p True (pureX (filterableX E p (Ret (Block_Time obj))))
       (marshalNTime E (cfSelections field) p))"

definition exec_Block_num_txs ::
    "codec \<Rightarrow> graph_env \<Rightarrow> 'sel exec_env \<Rightarrow> gql_path \<Rightarrow> 'sel collected \<Rightarrow> Block \<Rightarrow> gql_out run" where
  "exec_Block_num_txs C G E p field obj = (let p = p @ [PField (cfAlias field)] in
     fieldX E p True (pureX (filterableX E p (Ret (Block_NumTxs obj))))
       (marshalNInt64 E (cfSelections field) p))"

definition exec_Block_total_txs ::
    "codec \<Rightarrow> graph_env \<Rightarrow> 'sel exec_env \<Rightarrow> gql_path \<Rightarrow> 'sel collected \<Rightarrow> Block \<Rightarrow> gql_out run" where
  "exec_Block_total_txs C G E p field obj = (let p = p @ [PField (cfAlias field)] in
     fieldX E p True (pureX (filterableX E p (Ret (Block_TotalTxs obj))))
       (marshalNInt64 E (cfSelections field) p))"

definition exec_Block_app_version ::
    "codec \<Rightarrow> graph_env \<Rightarrow> 'sel exec_env \<Rightarrow> gql_path \<Rightarrow> 'sel collected \<Rightarrow> Block \<Rightarrow> gql_out run" where
  "exec_Block_app_version C G E p field obj = (let p = p @ [PField (cfAlias field)] in
     fieldX E p True (pureX (filterableX E p (Ret (Block_AppVersion obj))))
       (marshalNString E (cfSelections field) p))"

definition exec_Block_last_block_hash ::
    "codec \<Rightarrow> graph_env \<Rightarrow> 'sel exec_env \<Rightarrow> gql_path \<Rightarrow> 'sel collected \<Rightarrow> Block \<Rightarrow> gql_out run" where
  "exec_Block_last_block_hash C G E p field obj = (let p = p @ [PField (cfAlias field)] in
     fieldX E p True (pureX (filterableX E p (Ret (Block_LastBlockHash obj))))
       (marshalNString E (cfSelections field) p))"

definition exec_Block_last_commit_hash ::
    "codec \<Rightarrow> graph_env \<Rightarrow> 'sel exec_env \<Rightarrow> gql_path \<Rightarrow> 'sel collected \<Rightarrow> Block \<Rightarrow> gql_out run" where
  "exec_Block_last_commit_hash C G E p field obj = (let p = p @ [PField (cfAlias field)] in
     fieldX E p True (pureX (filterableX E p (Ret (Block_LastCommitHash obj))))
       (marshalNString E (cfSelections field) p))"

definition exec_Block_validators_hash ::
    "codec \<Rightarrow> graph_env \<Rightarrow> 'sel exec_env \<Rightarrow> gql_path \<Rightarrow> 'sel collected \<Rightarrow> Block \<Rightarrow> gql_out run" where
  "exec_Block_validators_hash C G E p field obj = (let p = p @ [PField (cfAlias field)] in
     fieldX E p True (pureX (filterableX E p (Ret (Block_ValidatorsHash obj))))
       (marshalNString E (cfSelections field) p))"

definition exec_Block_next_validators_hash ::
    "codec \<Rightarrow> graph_env \<Rightarrow> 'sel exec_env \<Rightarrow> gql_path \<Rightarrow> 'sel collected \<Rightarrow> Block \<Rightarrow> gql_out run" where
  "exec_Block_next_validators_hash C G E p field obj = (let p = p @ [PField (cfAlias field)] in
     fieldX E p True (pureX (filterableX E p (Ret (Block_NextValidatorsHash obj))))
       (marshalNString E (cfSelections field) p))"

definition exec_Block_consensus_hash ::
    "codec \<Rightarrow> graph_env \<Rightarrow> 'sel exec_env \<Rightarrow> gql_path \<Rightarrow> 'sel collected \<Rightarrow> Block \<Rightarrow> gql_out run" where
  "exec_Block_consensus_hash C G E p field obj = (let p = p @ [PField (cfAlias field)] in
     fieldX E p True (pureX (filterableX E p (Ret (Block_ConsensusHash obj))))
       (marshalNString E (cfSelections field) p))"

definition exec_Block_app_hash ::
    "codec \<Rightarrow> graph_env \<Rightarrow> 'sel exec_env \<Rightarrow> gql_path \<Rightarrow> 'sel collected \<Rightarrow> Block \<Rightarrow> gql_out run" where
  "exec_Block_app_hash C G E p field obj = (let p = p @ [PField (cfAlias field)] in
     fieldX E p True (pureX (filterableX E p (Ret (Block_AppHash obj))))
       (marshalNString E (cfSelections field) p))"

definition exec_Block_last_results_hash ::
    "codec \<Rightarrow> graph_env \<Rightarrow> 'sel exec_env \<Rightarrow> gql_path \<Rightarrow> 'sel collected \<Rightarrow> Block \<Rightarrow> gql_out run" where
  "exec_Block_last_results_hash C G E p field obj = (let p = p @ [PField (cfAlias field)] in
     fieldX E p True (pureX (filterableX E p (Ret (Block_LastResultsHash obj))))
       (marshalNString E (cfSelections field) p))"

definition exec_Block_proposer_address_raw ::
    "codec \<Rightarrow> graph_env \<Rightarrow> 'sel exec_env \<Rightarrow> gql_path \<Rightarrow> 'sel collected \<Rightarrow> Block \<Rightarrow> gql_out run" where
  "exec_Block_proposer_address_raw C G E p field obj = (let p = p @ [PField (cfAlias field)] in
     fieldX E p True (pureX (filterableX E p (Ret (Block_ProposerAddressRaw obj))))
       (marshalNString E (cfSelections field) p))"

definition exec_BlockTransaction_hash ::
    "'sel exec_env \<Rightarrow> gql_path \<Rightarrow> 'sel collected \<Rightarrow> BlockTransaction \<Rightarrow> gql_out run" where
  "exec_BlockTransaction_hash E p field obj = (let p = p @ [PField (cfAlias field)] in
     fieldX E p True (pureX (filterableX E p (Ret (btHash obj))))
       (marshalNString E (cfSelections field) p))"

definition exec_TxFee_gas_wanted ::
    "'sel exec_env \<Rightarrow> gql_path \<Rightarrow> 'sel collected \<Rightarrow> TxFee \<Rightarrow> gql_out run" where
  "exec_TxFee_gas_wanted E p field obj = (let p = p @ [PField (cfAlias field)] in
     fieldX E p True (pureX (filterableX E p (Ret (tfGasWanted obj))))
       (marshalNInt E (cfSelections field) p))"

definition exec_Coin_amount ::
    "'sel exec_env \<Rightarrow> gql_path \<Rightarrow> 'sel collected \<Rightarrow> Coin \<Rightarrow> gql_out run" where
  "exec_Coin_amount E p field obj = (let p = p @ [PField (cfAlias field)] in
     fieldX E p True (pureX (filterableX E p (Ret (coAmount obj))))
       (marshalNInt E (cfSelections field) p))"

definition exec_Coin_denom ::
    "'sel exec_env \<Rightarrow> gql_path \<Rightarrow> 'sel collected \<Rightarrow> Coin \<Rightarrow> gql_out run" where
  "exec_Coin_denom E p field obj = (let p = p @ [PField (cfAlias field)] in
     fieldX E p True (pureX (filterableX E p (Ret (coDenom obj))))
       (marshalNString E (cfSelections field) p))"

definition coinImplementors :: "string list" where
  "coinImplementors = [''Coin'']"

definition exec_Coin ::
    "'sel exec_env \<Rightarrow> 'sel \<Rightarrow> gql_path \<Rightarrow> Coin \<Rightarrow> gql_out run" where
  "exec_Coin E sel p obj = objectX E coinImplementors ''Coin''
     [(''amount'', True, \<lambda>p field. exec_Coin_amount E p field obj),
      (''denom'', True, \<lambda>p field. exec_Coin_denom E p field obj)] sel p"

definition marshalNCoin ::
    "'sel exec_env \<Rightarrow> 'sel \<Rightarrow> gql_path \<Rightarrow> Coin option \<Rightarrow> gql_out run" where
  "marshalNCoin E sel p v = requiredX E p (exec_Coin E sel p) v"

definition exec_TxFee_gas_fee ::
    "'sel exec_env \<Rightarrow> gql_path \<Rightarrow> 'sel collected \<Rightarrow> TxFee \<Rightarrow> gql_out run" where
  "exec_TxFee_gas_fee E p field obj = (let p = p @ [PField (cfAlias field)] in
     fieldX E p True (pureX (filterableX E p (Ret (tfGasFee obj))))
       (marshalNCoin E (cfSelections field) p))"

definition txFeeImplementors :: "string list" where
  "txFeeImplementors = [''TxFee'']"

definition exec_TxFee ::
    "'sel exec_env \<Rightarrow> 'sel \<Rightarrow> gql_path \<Rightarrow> TxFee \<Rightarrow> gql_out run" where
  "exec_TxFee E sel p obj = objectX E txFeeImplementors ''TxFee''
     [(''gas_wanted'', True, \<lambda>p field. exec_TxFee_gas_wanted E p field obj),
      (''gas_fee'', True, \<lambda>p field. exec_TxFee_gas_fee E p field obj)] sel p"

definition marshalNTxFee ::
    "'sel exec_env \<Rightarrow> 'sel \<Rightarrow> gql_path \<Rightarrow> TxFee option \<Rightarrow> gql_out run" where
  "marshalNTxFee E sel p v = requiredX E p (exec_TxFee E sel p) v"

definition exec_BlockTransaction_fee ::
    "'sel exec_env \<Rightarrow> gql_path \<Rightarrow> 'sel collected \<Rightarrow> BlockTransaction \<Rightarrow> gql_out run" where
  "exec_BlockTransaction_fee E p field obj = (let p = p @ [PField (cfAlias field)] in
     fieldX E p True (pureX (filterableX E p (Ret (btFee obj))))
       (marshalNTxFee E (cfSelections field) p))"

definition exec_BlockTransaction_memo ::
    "'sel exec_env \<Rightarrow> gql_path \<Rightarrow> 'sel collected \<Rightarrow> BlockTransaction \<Rightarrow> gql_out run" where
  "exec_BlockTransaction_memo E p field obj = (let p = p @ [PField (cfAlias field)] in
     fieldX E p True (pureX (filterableX E p (Ret (btMemo obj))))
       (marshalNString E (cfSelections field) p))"

definition exec_BlockTransaction_content_raw ::
    "'sel exec_env \<Rightarrow> gql_path \<Rightarrow> 'sel collected \<Rightarrow> BlockTransaction \<Rightarrow> gql_out run" where
  "exec_BlockTransaction_content_raw E p field obj = (let p = p @ [PField (cfAlias field)] in
     fieldX E p True (pureX (bindO (Ret (btContentRaw obj)) valueOf))
       (marshalNString E (cfSelections field) p))"

definition blockTransactionImplementors :: "string list" where
  "blockTransactionImplementors = [''BlockTransaction'']"

definition exec_BlockTransaction ::
    "'sel exec_env \<Rightarrow> 'sel \<Rightarrow> gql_path \<Rightarrow> BlockTransaction \<Rightarrow> gql_out run" where
  "exec_BlockTransaction E sel p obj = objectX E blockTransactionImplementors ''BlockTransaction''
     [(''hash'', True, \<lambda>p field. exec_BlockTransaction_hash E p field obj),
      (''fee'', True, \<lambda>p field. exec_BlockTransaction_fee E p field obj),
      (''memo'', True, \<lambda>p field. exec_BlockTransaction_memo E p field obj),
      (''content_raw'', True, \<lambda>p field. exec_BlockTransaction_content_raw E p field obj)] sel p"

definition marshalOBlockTransaction ::
    "'sel exec_env \<Rightarrow> 'sel \<Rightarrow> gql_path \<Rightarrow> BlockTransaction option \<Rightarrow> gql_out run" where
  "marshalOBlockTransaction E sel p v = nullableX (exec_BlockTransaction E sel p) v"

definition marshalNBlockTransaction_list ::
    "'sel exec_env \<Rightarrow> 'sel \<Rightarrow> gql_path \<Rightarrow> BlockTransaction list \<Rightarrow> gql_out run" where
  "marshalNBlockTransaction_list E sel p v =
     listX E False (\<lambda>p v. marshalOBlockTransaction E sel p (Some v)) p v"

definition exec_Block_txs ::
    "codec \<Rightarrow> graph_env \<Rightarrow> 'sel exec_env \<Rightarrow> gql_path \<Rightarrow> 'sel collected \<Rightarrow> Block \<Rightarrow> gql_out run" where
  "exec_Block_txs C G E p field obj = (let p = p @ [PField (cfAlias field)] in
     fieldX E p True (pureX (filterableX E p (Ret (Block_Txs C G obj))))
       (marshalNBlockTransaction_list E (cfSelections field) p))"

definition blockImplementors :: "string list" where
  "blockImplementors = [''Block'']"

definition exec_Block ::
    "codec \<Rightarrow> graph_env \<Rightarrow> 'sel exec_env \<Rightarrow> 'sel \<Rightarrow> gql_path \<Rightarrow> Block \<Rightarrow> gql_out run" where
  "exec_Block C G E sel p obj = objectX E blockImplementors ''Block''
     [(''hash'', True, \<lambda>p field. exec_Block_hash C G E p field obj),
      (''height'', True, \<lambda>p field. exec_Block_height C G E p field obj),
      (''version'', True, \<lambda>p field. exec_Block_version C G E p field obj),
      (''chain_id'', True, \<lambda>p field. exec_Block_chain_id C G E p field obj),
      (''time'', True, \<lambda>p field. exec_Block_time C G E p field obj),
      (''num_txs'', True, \<lambda>p field. exec_Block_num_txs C G E p field obj),
      (''total_txs'', True, \<lambda>p field. exec_Block_total_txs C G E p field obj),
      (''app_version'', True, \<lambda>p field. exec_Block_app_version C G E p field obj),
      (''last_block_hash'', True, \<lambda>p field. exec_Block_last_block_hash C G E p field obj),
      (''last_commit_hash'', True, \<lambda>p field. exec_Block_last_commit_hash C G E p field obj),
      (''validators_hash'', True, \<lambda>p field. exec_Block_validators_hash C G E p field obj),
      (''next_validators_hash'', True, \<lambda>p field. exec_Block_next_validators_hash C G E p field obj),
      (''consensus_hash'', True, \<lambda>p field. exec_Block_consensus_hash C G E p field obj),
      (''app_hash'', True, \<lambda>p field. exec_Block_app_hash C G E p field obj),
      (''last_results_hash'', True, \<lambda>p field. exec_Block_last_results_hash C G E p field obj),
      (''proposer_address_raw'', True, \<lambda>p field. exec_Block_proposer_address_raw C G E p field obj),
      (''txs'', True, \<lambda>p field. exec_Block_txs C G E p field obj)] sel p"

definition marshalNBlock ::
    "codec \<Rightarrow> graph_env \<Rightarrow> 'sel exec_env \<Rightarrow> 'sel \<Rightarrow> gql_path \<Rightarrow> Block option \<Rightarrow> gql_out run" where
  "marshalNBlock C G E sel p v = requiredX E p (exec_Block C G E sel p) v"

definition marshalOBlock_list ::
    "codec \<Rightarrow> graph_env \<Rightarrow> 'sel exec_env \<Rightarrow> 'sel \<Rightarrow> gql_path \<Rightarrow> Block list option \<Rightarrow> gql_out run" where
  "marshalOBlock_list C G E sel p v =
     nullableX (listX E True (\<lambda>p v. marshalNBlock C G E sel p (Some v)) p) v"

definition marshalNBlock_value ::
    "codec \<Rightarrow> graph_env \<Rightarrow> 'sel exec_env \<Rightarrow> 'sel \<Rightarrow> gql_path \<Rightarrow> Block \<Rightarrow> gql_out run" where
  "marshalNBlock_value C G E sel p v = exec_Block C G E sel p v"

section \<open>Objects of a transaction\<close>

definition exec_Transaction_index ::
    "codec \<Rightarrow> graph_env \<Rightarrow> 'sel exec_env \<Rightarrow> gql_path \<Rightarrow> 'sel collected \<Rightarrow> Transaction \<Rightarrow> gql_out run" where
  "exec_Transaction_index C G E p field obj = (let p = p @ [PField (cfAlias field)] in
     fieldX E p True (pureX (minmaxX E p (bindO (Transaction_result obj) (\<lambda>r. Ret (Transaction_Index r)))))
       (marshalNInt E (cfSelections field) p))"

definition exec_Transaction_hash ::
    "codec \<Rightarrow> graph_env \<Rightarrow> 'sel exec_env \<Rightarrow> gql_path \<Rightarrow> 'sel collected \<Rightarrow> Transaction \<Rightarrow> gql_out run" where
  "exec_Transaction_hash C G E p field obj = (let p = p @ [PField (cfAlias field)] in
     fieldX E p True (pureX (filterableX E p (bindO (Transaction_result obj) (\<lambda>r. Ret (Transaction_Hash C r)))))
       (marshalNString E (cfSelections field) p))"

definition exec_Transaction_success ::
    "codec \<Rightarrow> graph_env \<Rightarrow> 'sel exec_env \<Rightarrow> gql_path \<Rightarrow> 'sel collected \<Rightarrow> Transaction \<Rightarrow> gql_out run" where
  "exec_Transaction_success C G E p field obj = (let p = p @ [PField (cfAlias field)] in
     fieldX E p True (pureX (filterableX E p (bindO (Transaction_result obj) (\<lambda>r. Ret (Transaction_Success r)))))
       (marshalNBoolean E (cfSelections field) p))"

definition exec_Transaction_block_height ::
    "codec \<Rightarrow> graph_env \<Rightarrow> 'sel exec_env \<Rightarrow> gql_path \<Rightarrow> 'sel collected \<Rightarrow> Transaction \<Rightarrow> gql_out run" where
  "exec_Transaction_block_height C G E p field obj = (let p = p @ [PField (cfAlias field)] in
     fieldX E p True (pureX (minmaxX E p (bindO (Transaction_result obj) (\<lambda>r. Ret (Transaction_BlockHeight r)))))
       (marshalNInt E (cfSelections field) p))"

definition exec_Transaction_gas_wanted ::
    "codec \<Rightarrow> graph_env \<Rightarrow> 'sel exec_env \<Rightarrow> gql_path \<Rightarrow> 'sel collected \<Rightarrow> Transaction \<Rightarrow> gql_out run" where
  "exec_Transaction_gas_wanted C G E p field obj = (let p = p @ [PField (cfAlias field)] in
     fieldX E p True (pureX (filterableX E p (bindO (Transaction_result obj) (\<lambda>r. Ret (Transaction_GasWanted r)))))
       (marshalNInt E (cfSelections field) p))"

definition exec_Transaction_gas_used ::
    "codec \<Rightarrow> graph_env \<Rightarrow> 'sel exec_env \<Rightarrow> gql_path \<Rightarrow> 'sel collected \<Rightarrow> Transaction \<Rightarrow> gql_out run" where
  "exec_Transaction_gas_used C G E p field obj = (let p = p @ [PField (cfAlias field)] in
     fieldX E p True (pureX (filterableX E p (bindO (Transaction_result obj) (\<lambda>r. Ret (Transaction_GasUsed r)))))
       (marshalNInt E (cfSelections field) p))"

definition marshalOCoin ::
    "'sel exec_env \<Rightarrow> 'sel \<Rightarrow> gql_path \<Rightarrow> Coin option \<Rightarrow> gql_out run" where
  "marshalOCoin E sel p v = nullableX (exec_Coin E sel p) v"

definition exec_Transaction_gas_fee ::
    "codec \<Rightarrow> graph_env \<Rightarrow> 'sel exec_env \<Rightarrow> gql_path \<Rightarrow> 'sel collected \<Rightarrow> Transaction \<Rightarrow> gql_out run" where
  "exec_Transaction_gas_fee C G E p field obj = (let p = p @ [PField (cfAlias field)] in
     fieldX E p False (pureX (filterableX E p (bindO (Transaction_result obj) (\<lambda>r. Ret (Transaction_GasFee C G r)))))
       (marshalOCoin E (cfSelections field) p))"

definition exec_Transaction_content_raw ::
    "codec \<Rightarrow> graph_env \<Rightarrow> 'sel exec_env \<Rightarrow> gql_path \<Rightarrow> 'sel collected \<Rightarrow> Transaction \<Rightarrow> gql_out run" where
  "exec_Transaction_content_raw C G E p field obj = (let p = p @ [PField (cfAlias field)] in
     fieldX E p True (pureX (bindO (bindO (Transaction_result obj) (\<lambda>r. Ret (Transaction_ContentRaw G r))) valueOf))
       (marshalNString E (cfSelections field) p))"

definition exec_TransactionMessage_typeUrl ::
    "'sel exec_env \<Rightarrow> gql_path \<Rightarrow> 'sel collected \<Rightarrow> TransactionMessage \<Rightarrow> gql_out run" where
  "exec_TransactionMessage_typeUrl E p field obj = (let p = p @ [PField (cfAlias field)] in
     fieldX E p True (pureX (filterableX E p (Ret (tmTypeURL obj))))
       (marshalNString E (cfSelections field) p))"

definition exec_TransactionMessage_route ::
    "'sel exec_env \<Rightarrow> gql_path \<Rightarrow> 'sel collected \<Rightarrow> TransactionMessage \<Rightarrow> gql_out run" where
  "exec_TransactionMessage_route E p field obj = (let p = p @ [PField (cfAlias field)] in
     fieldX E p True (pureX (filterableX E p (Ret (tmRoute obj))))
       (marshalNString E (cfSelections field) p))"

definition exec_BankMsgSend_from_address ::
    "'sel exec_env \<Rightarrow> gql_path \<Rightarrow> 'sel collected \<Rightarrow> BankMsgSend \<Rightarrow> gql_out run" where
  "exec_BankMsgSend_from_address E p field obj = (let p = p @ [PField (cfAlias field)] in
     fieldX E p True (pureX (filterableX E p (Ret (bsFromAddress obj))))
       (marshalNString E (cfSelections field) p))"

definition exec_BankMsgSend_to_address ::
    "'sel exec_env \<Rightarrow> gql_path \<Rightarrow> 'sel collected \<Rightarrow> BankMsgSend \<Rightarrow> gql_out run" where
  "exec_BankMsgSend_to_address E p field obj = (let p = p @ [PField (cfAlias field)] in
     fieldX E p True (pureX (filterableX E p (Ret (bsToAddress obj))))
       (marshalNString E (cfSelections field) p))"

definition exec_BankMsgSend_amount ::
    "'sel exec_env \<Rightarrow> gql_path \<Rightarrow> 'sel collected \<Rightarrow> BankMsgSend \<Rightarrow> gql_out run" where
  "exec_BankMsgSend_amount E p field obj = (let p = p @ [PField (cfAlias field)] in
     fieldX E p True (pureX (filterableX E p (Ret (bsAmount obj))))
       (marshalNString E (cfSelections field) p))"

definition bankMsgSendImplementors :: "string list" where
  "bankMsgSendImplementors = [''BankMsgSend'', ''MessageValue'']"

definition exec_BankMsgSend ::
    "'sel exec_env \<Rightarrow> 'sel \<Rightarrow> gql_path \<Rightarrow> BankMsgSend \<Rightarrow> gql_out run" where
  "exec_BankMsgSend E sel p obj = objectX E bankMsgSendImplementors ''BankMsgSend''
     [(''from_address'', True, \<lambda>p field. exec_BankMsgSend_from_address E p field obj),
      (''to_address'', True, \<lambda>p field. exec_BankMsgSend_to_address E p field obj),
      (''amount'', True, \<lambda>p field. exec_BankMsgSend_amount E p field obj)] sel p"

definition exec_MsgCall_caller ::
    "'sel exec_env \<Rightarrow> gql_path \<Rightarrow> 'sel collected \<Rightarrow> MsgCall \<Rightarrow> gql_out run" where
  "exec_MsgCall_caller E p field obj = (let p = p @ [PField (cfAlias field)] in
     fieldX E p True (pureX (filterableX E p (Ret (mcCaller obj))))
       (marshalNString E (cfSelections field) p))"

definition exec_MsgCall_send ::
    "'sel exec_env \<Rightarrow> gql_path \<Rightarrow> 'sel collected \<Rightarrow> MsgCall \<Rightarrow> gql_out run" where
  "exec_MsgCall_send E p field obj = (let p = p @ [PField (cfAlias field)] in
     fieldX E p True (pureX (filterableX E p (Ret (mcSend obj))))
       (marshalNString E (cfSelections field) p))"

definition exec_MsgCall_pkg_path ::
    "'sel exec_env \<Rightarrow> gql_path \<Rightarrow> 'sel collected \<Rightarrow> MsgCall \<Rightarrow> gql_out run" where
  "exec_MsgCall_pkg_path E p field obj = (let p = p @ [PField (cfAlias field)] in
     fieldX E p True (pureX (filterableX E p (Ret (mcPkgPath obj))))
       (marshalNString E (cfSelections field) p))"

definition exec_MsgCall_func ::
    "'sel exec_env \<Rightarrow> gql_path \<Rightarrow> 'sel collected \<Rightarrow> MsgCall \<Rightarrow> gql_out run" where
  "exec_MsgCall_func E p field obj = (let p = p @ [PField (cfAlias field)] in
     fieldX E p True (pureX (filterableX E p (Ret (mcFunc obj))))
       (marshalNString E (cfSelections field) p))"

definition exec_MsgCall_args ::
    "'sel exec_env \<Rightarrow> gql_path \<Rightarrow> 'sel collected \<Rightarrow> MsgCall \<Rightarrow> gql_out run" where
  "exec_MsgCall_args E p field obj = (let p = p @ [PField (cfAlias field)] in
     fieldX E p False (pureX (filterableX E p (Ret (mcArgs obj))))
       (marshalOString_list E (cfSelections field) p))"

definition exec_MsgCall_max_deposit ::
    "'sel exec_env \<Rightarrow> gql_path \<Rightarrow> 'sel collected \<Rightarrow> MsgCall \<Rightarrow> gql_out run" where
  "exec_MsgCall_max_deposit E p field obj = (let p = p @ [PField (cfAlias field)] in
     fieldX E p True (pureX (filterableX E p (Ret (mcMaxDeposit obj))))
       (marshalNString E (cfSelections field) p))"

definition msgCallImplementors :: "string list" where
  "msgCallImplementors = [''MsgCall'', ''MessageValue'']"

definition exec_MsgCall ::
    "'sel exec_env \<Rightarrow> 'sel \<Rightarrow> gql_path \<Rightarrow> MsgCall \<Rightarrow> gql_out run" where
  "exec_MsgCall E sel p obj = objectX E msgCallImplementors ''MsgCall''
     [(''caller'', True, \<lambda>p field. exec_MsgCall_caller E p field obj),
      (''send'', True, \<lambda>p field. exec_MsgCall_send E p field obj),
      (''pkg_path'', True, \<lambda>p field. exec_MsgCall_pkg_path E p field obj),
      (''func'', True, \<lambda>p field. exec_MsgCall_func E p field obj),
      (''args'', False, \<lambda>p field. exec_MsgCall_args E p field obj),
      (''max_deposit'', True, \<lambda>p field. exec_MsgCall_max_deposit E p field obj)] sel p"

definition exec_MsgAddPackage_creator ::
    "'sel exec_env \<Rightarrow> gql_path \<Rightarrow> 'sel collected \<Rightarrow> MsgAddPackage \<Rightarrow> gql_out run" where
  "exec_MsgAddPackage_creator E p field obj = (let p = p @ [PField (cfAlias field)] in
     fieldX E p True (pureX (filterableX E p (Ret (maCreator obj))))
       (marshalNString E (cfSelections field) p))"

definition exec_MemPackage_name ::
    "'sel exec_env \<Rightarrow> gql_path \<Rightarrow> 'sel collected \<Rightarrow> MemPackage \<Rightarrow> gql_out run" where
  "exec_MemPackage_name E p field obj = (let p = p @ [PField (cfAlias field)] in
     fieldX E p True (pureX (filterableX E p (Ret (mpName obj))))
       (marshalNString E (cfSelections field) p))"

definition exec_MemPackage_path ::
    "'sel exec_env \<Rightarrow> gql_path \<Rightarrow> 'sel collected \<Rightarrow> MemPackage \<Rightarrow> gql_out run" where
  "exec_MemPackage_path E p field obj = (let p = p @ [PField (cfAlias field)] in
     fieldX E p True (pureX (filterableX E p (Ret (mpPath obj))))
       (marshalNString E (cfSelections field) p))"

definition exec_MemFile_name ::
    "'sel exec_env \<Rightarrow> gql_path \<Rightarrow> 'sel collected \<Rightarrow> MemFile \<Rightarrow> gql_out run" where
  "exec_MemFile_name E p field obj = (let p = p @ [PField (cfAlias field)] in
     fieldX E p True (pureX (filterableX E p (Ret (mfName obj))))
       (marshalNString E (cfSelections field) p))"

definition exec_MemFile_body ::
    "'sel exec_env \<Rightarrow> gql_path \<Rightarrow> 'sel collected \<Rightarrow> MemFile \<Rightarrow> gql_out run" where
  "exec_MemFile_body E p field obj = (let p = p @ [PField (cfAlias field)] in
     fieldX E p True (pureX (filterableX E p (Ret (mfBody obj))))
       (marshalNString E (cfSelections field) p))"

definition memFileImplementors :: "string list" where
  "memFileImplementors = [''MemFile'']"

definition exec_MemFile ::
    "'sel exec_env \<Rightarrow> 'sel \<Rightarrow> gql_path \<Rightarrow> MemFile \<Rightarrow> gql_out run" where
  "exec_MemFile E sel p obj = objectX E memFileImplementors ''MemFile''
     [(''name'', True, \<lambda>p field. exec_MemFile_name E p field obj),
      (''body'', True, \<lambda>p field. exec_MemFile_body E p field obj)] sel p"

definition marshalNMemFile ::
    "'sel exec_env \<Rightarrow> 'sel \<Rightarrow> gql_path \<Rightarrow> MemFile option \<Rightarrow> gql_out run" where
  "marshalNMemFile E sel p v = requiredX E p (exec_MemFile E sel p) v"

definition marshalOMemFile_list ::
    "'sel exec_env \<Rightarrow> 'sel \<Rightarrow> gql_path \<Rightarrow> MemFile list option \<Rightarrow> gql_out run" where
  "marshalOMemFile_list E sel p v =
     nullableX (listX E True (\<lambda>p v. marshalNMemFile E sel p (Some v)) p) v"

definition exec_MemPackage_files ::
    "'sel exec_env \<Rightarrow> gql_path \<Rightarrow> 'sel collected \<Rightarrow> MemPackage \<Rightarrow> gql_out run" where
  "exec_MemPackage_files E p field obj = (let p = p @ [PField (cfAlias field)] in
     fieldX E p False (pureX (filterableX E p (Ret (Some (mpFiles obj)))))
       (marshalOMemFile_list E (cfSelections field) p))"

definition memPackageImplementors :: "string list" where
  "memPackageImplementors = [''MemPackage'']"

definition exec_MemPackage ::
    "'sel exec_env \<Rightarrow> 'sel \<Rightarrow> gql_path \<Rightarrow> MemPackage \<Rightarrow> gql_out run" where
  "exec_MemPackage E sel p obj = objectX E memPackageImplementors ''MemPackage''
     [(''name'', True, \<lambda>p field. exec_MemPackage_name E p field obj),
      (''path'', True, \<lambda>p field. exec_MemPackage_path E p field obj),
      (''files'', False, \<lambda>p field. exec_MemPackage_files E p field obj)] sel p"

definition marshalNMemPackage ::
    "'sel exec_env \<Rightarrow> 'sel \<Rightarrow> gql_path \<Rightarrow> MemPackage option \<Rightarrow> gql_out run" where
  "marshalNMemPackage E sel p v = requiredX E p (exec_MemPackage E sel p) v"

definition exec_MsgAddPackage_package ::
    "'sel exec_env \<Rightarrow> gql_path \<Rightarrow> 'sel collected \<Rightarrow> MsgAddPackage \<Rightarrow> gql_out run" where
  "exec_MsgAddPackage_package E p field obj = (let p = p @ [PField (cfAlias field)] in
     fieldX E p True (pureX (filterableX E p (Ret (maPackage obj))))
       (marshalNMemPackage E (cfSelections field) p))"

definition exec_MsgAddPackage_deposit ::
    "'sel exec_env \<Rightarrow> gql_path \<Rightarrow> 'sel collected \<Rightarrow> MsgAddPackage \<Rightarrow> gql_out run" where
  "exec_MsgAddPackage_deposit E p field obj = (let p = p @ [PField (cfAlias field)] in
     fieldX E p True (pureX (filterableX E p (Ret (maDeposit obj))))
       (marshalNString E (cfSelections field) p))"

definition exec_MsgAddPackage_send ::
    "'sel exec_env \<Rightarrow> gql_path \<Rightarrow> 'sel collected \<Rightarrow> MsgAddPackage \<Rightarrow> gql_out run" where
  "exec_MsgAddPackage_send E p field obj = (let p = p @ [PField (cfAlias field)] in
     fieldX E p True (pureX (filterableX E p (Ret (maSend obj))))
       (marshalNString E (cfSelections field) p))"

definition exec_MsgAddPackage_max_deposit ::
    "'sel exec_env \<Rightarrow> gql_path \<Rightarrow> 'sel collected \<Rightarrow> MsgAddPackage \<Rightarrow> gql_out run" where
  "exec_MsgAddPackage_max_deposit E p field obj = (let p = p @ [PField (cfAlias field)] in
     fieldX E p True (pureX (filterableX E p (Ret (maMaxDeposit obj))))
       (marshalNString E (cfSelections field) p))"

definition msgAddPackageImplementors :: "string list" where
  "msgAddPackageImplementors = [''MsgAddPackage'', ''MessageValue'']"

definition exec_MsgAddPackage ::
    "'sel exec_env \<Rightarrow> 'sel \<Rightarrow> gql_path \<Rightarrow> MsgAddPackage \<Rightarrow> gql_out run" where
  "exec_MsgAddPackage E sel p obj = objectX E msgAddPackageImplementors ''MsgAddPackage''
     [(''creator'', True, \<lambda>p field. exec_MsgAddPackage_creator E p field obj),
      (''package'', True, \<lambda>p field. exec_MsgAddPackage_package E p field obj),
      (''deposit'', True, \<lambda>p field. exec_MsgAddPackage_deposit E p field obj),
      (''send'', True, \<lambda>p field. exec_MsgAddPackage_send E p field obj),
      (''max_deposit'', True, \<lambda>p field. exec_MsgAddPackage_max_deposit E p field obj)] sel p"

definition exec_MsgRun_caller ::
    "'sel exec_env \<Rightarrow> gql_path \<Rightarrow> 'sel collected \<Rightarrow> MsgRun \<Rightarrow> gql_out run" where
  "exec_MsgRun_caller E p field obj = (let p = p @ [PField (cfAlias field)] in
     fieldX E p True (pureX (filterableX E p (Ret (mrCaller obj))))
       (marshalNString E (cfSelections field) p))"

definition exec_MsgRun_send ::
    "'sel exec_env \<Rightarrow> gql_path \<Rightarrow> 'sel collected \<Rightarrow> MsgRun \<Rightarrow> gql_out run" where
  "exec_MsgRun_send E p field obj = (let p = p @ [PField (cfAlias field)] in
     fieldX E p True (pureX (filterableX E p (Ret (mrSend obj))))
       (marshalNString E (cfSelections field) p))"

definition exec_MsgRun_package ::
    "'sel exec_env \<Rightarrow> gql_path \<Rightarrow> 'sel collected \<Rightarrow> MsgRun \<Rightarrow> gql_out run" where
  "exec_MsgRun_package E p field obj = (let p = p @ [PField (cfAlias field)] in
     fieldX E p True (pureX (filterableX E p (Ret (mrPackage obj))))
       (marshalNMemPackage E (cfSelections field) p))"

definition exec_MsgRun_max_deposit ::
    "'sel exec_env \<Rightarrow> gql_path \<Rightarrow> 'sel collected \<Rightarrow> MsgRun \<Rightarrow> gql_out run" where
  "exec_MsgRun_max_deposit E p field obj = (let p = p @ [PField (cfAlias field)] in
     fieldX E p True (pureX (filterableX E p (Ret (mrMaxDeposit obj))))
       (marshalNString E (cfSelections field) p))"

definition msgRunImplementors :: "string list" where
  "msgRunImplementors = [''MsgRun'', ''MessageValue'']"

definition exec_MsgRun ::
    "'sel exec_env \<Rightarrow> 'sel \<Rightarrow> gql_path \<Rightarrow> MsgRun \<Rightarrow> gql_out run" where
  "exec_MsgRun E sel p obj = objectX E msgRunImplementors ''MsgRun''
     [(''caller'', True, \<lambda>p field. exec_MsgRun_caller E p field obj),
      (''send'', True, \<lambda>p field. exec_MsgRun_send E p field obj),
      (''package'', True, \<lambda>p field. exec_MsgRun_package E p field obj),
      (''max_deposit'', True, \<lambda>p field. exec_MsgRun_max_deposit E p field obj)] sel p"

definition exec_UnexpectedMessage_raw ::
    "'sel exec_env \<Rightarrow> gql_path \<Rightarrow> 'sel collected \<Rightarrow> UnexpectedMessage \<Rightarrow> gql_out run" where
  "exec_UnexpectedMessage_raw E p field obj = (let p = p @ [PField (cfAlias field)] in
     fieldX E p True (pureX (bindO (Ret (umRaw obj)) valueOf))
       (marshalNString E (cfSelections field) p))"

definition unexpectedMessageImplementors :: "string list" where
  "unexpectedMessageImplementors = [''UnexpectedMessage'', ''MessageValue'']"

definition exec_UnexpectedMessage ::
    "'sel exec_env \<Rightarrow> 'sel \<Rightarrow> gql_path \<Rightarrow> UnexpectedMessage \<Rightarrow> gql_out run" where
  "exec_UnexpectedMessage E sel p obj = objectX E unexpectedMessageImplementors ''UnexpectedMessage''
     [(''raw'', True, \<lambda>p field. exec_UnexpectedMessage_raw E p field obj)] sel p"

definition exec_MessageValue ::
    "'sel exec_env \<Rightarrow> 'sel \<Rightarrow> gql_path \<Rightarrow> MessageValue \<Rightarrow> gql_out run" where
  "exec_MessageValue E sel p obj =
     (case obj of
        MvBankMsgSend obj \<Rightarrow> exec_BankMsgSend E sel p obj
      | MvMsgCall obj \<Rightarrow> exec_MsgCall E sel p obj
      | MvMsgAddPackage obj \<Rightarrow> exec_MsgAddPackage E sel p obj
      | MvMsgRun obj \<Rightarrow> exec_MsgRun E sel p obj
      | MvUnexpected obj \<Rightarrow> exec_UnexpectedMessage E sel p obj)"

definition marshalNMessageValue ::
    "'sel exec_env \<Rightarrow> 'sel \<Rightarrow> gql_path \<Rightarrow> MessageValue option \<Rightarrow> gql_out run" where
  "marshalNMessageValue E sel p v = requiredX E p (exec_MessageValue E sel p) v"

definition exec_TransactionMessage_value ::
    "'sel exec_env \<Rightarrow> gql_path \<Rightarrow> 'sel collected \<Rightarrow> TransactionMessage \<Rightarrow> gql_out run" where
  "exec_TransactionMessage_value E p field obj = (let p = p @ [PField (cfAlias field)] in
     fieldX E p True (pureX (filterableX E p (Ret (Some (tmValue obj)))))
       (marshalNMessageValue E (cfSelections field) p))"

definition transactionMessageImplementors :: "string list" where
  "transactionMessageImplementors = [''TransactionMessage'']"

definition exec_TransactionMessage ::
    "'sel exec_env \<Rightarrow> 'sel \<Rightarrow> gql_path \<Rightarrow> TransactionMessage \<Rightarrow> gql_out run" where
  "exec_TransactionMessage E sel p obj = objectX E transactionMessageImplementors ''TransactionMessage''
     [(''typeUrl'', True, \<lambda>p field. exec_TransactionMessage_typeUrl E p field obj),
      (''route'', True, \<lambda>p field. exec_TransactionMessage_route E p field obj),
      (''value'', True, \<lambda>p field. exec_TransactionMessage_value E p field obj)] sel p"

definition marshalOTransactionMessage ::
    "'sel exec_env \<Rightarrow> 'sel \<Rightarrow> gql_path \<Rightarrow> TransactionMessage option \<Rightarrow> gql_out run" where
  "marshalOTransactionMessage E sel p v = nullableX (exec_TransactionMessage E sel p) v"

definition marshalNTransactionMessage_list ::
    "'sel exec_env \<Rightarrow> 'sel \<Rightarrow> gql_path \<Rightarrow> TransactionMessage list \<Rightarrow> gql_out run" where
  "marshalNTransactionMessage_list E sel p v =
     listX E False (\<lambda>p v. marshalOTransactionMessage E sel p (Some v)) p v"

definition exec_Transaction_messages ::
    "codec \<Rightarrow> graph_env \<Rightarrow> 'sel exec_env \<Rightarrow> gql_path \<Rightarrow> 'sel collected \<Rightarrow> Transaction \<Rightarrow> gql_out run" where
  "exec_Transaction_messages C G E p field obj = (let p = p @ [PField (cfAlias field)] in
     fieldX E p True (pureX (filterableX E p (bindO (Transaction_result obj) (Transaction_Messages C G))))
       (marshalNTransactionMessage_list E (cfSelections field) p))"

definition exec_Transaction_memo ::
    "codec \<Rightarrow> graph_env \<Rightarrow> 'sel exec_env \<Rightarrow> gql_path \<Rightarrow> 'sel collected \<Rightarrow> Transaction \<Rightarrow> gql_out run" where
  "exec_Transaction_memo C G E p field obj = (let p = p @ [PField (cfAlias field)] in
     fieldX E p True (pureX (filterableX E p (bindO (Transaction_result obj) (\<lambda>r. Ret (Transaction_Memo C G r)))))
       (marshalNString E (cfSelections field) p))"

definition exec_TransactionResponse_log ::
    "graph_env \<Rightarrow> 'sel exec_env \<Rightarrow> gql_path \<Rightarrow> 'sel collected \<Rightarrow> TransactionResponse \<Rightarrow> gql_out run" where
  "exec_TransactionResponse_log G E p field obj = (let p = p @ [PField (cfAlias field)] in
     fieldX E p True (pureX (filterableX E p (Ret (TransactionResponse_Log obj))))
       (marshalNString E (cfSelections field) p))"

definition exec_TransactionResponse_info ::
    "graph_env \<Rightarrow> 'sel exec_env \<Rightarrow> gql_path \<Rightarrow> 'sel collected \<Rightarrow> TransactionResponse \<Rightarrow> gql_out run" where
  "exec_TransactionResponse_info G E p field obj = (let p = p @ [PField (cfAlias field)] in
     fieldX E p True (pureX (filterableX E p (Ret (TransactionResponse_Info obj))))
       (marshalNString E (cfSelections field) p))"

definition exec_TransactionResponse_error ::
    "graph_env \<Rightarrow> 'sel exec_env \<Rightarrow> gql_path \<Rightarrow> 'sel collected \<Rightarrow> TransactionResponse \<Rightarrow> gql_out run" where
  "exec_TransactionResponse_error G E p field obj = (let p = p @ [PField (cfAlias field)] in
     fieldX E p True (pureX (filterableX E p (Ret (TransactionResponse_Error obj))))
       (marshalNString E (cfSelections field) p))"

definition exec_TransactionResponse_data ::
    "graph_env \<Rightarrow> 'sel exec_env \<Rightarrow> gql_path \<Rightarrow> 'sel collected \<Rightarrow> TransactionResponse \<Rightarrow> gql_out run" where
  "exec_TransactionResponse_data G E p field obj = (let p = p @ [PField (cfAlias field)] in
     fieldX E p True (pureX (filterableX E p (Ret (TransactionResponse_Data obj))))
       (marshalNString E (cfSelections field) p))"

definition exec_GnoEvent_type ::
    "'sel exec_env \<Rightarrow> gql_path \<Rightarrow> 'sel collected \<Rightarrow> GnoEvent \<Rightarrow> gql_out run" where
  "exec_GnoEvent_type E p field obj = (let p = p @ [PField (cfAlias field)] in
     fieldX E p True (pureX (filterableX E p (Ret (geType obj))))
       (marshalNString E (cfSelections field) p))"

definition exec_GnoEvent_pkg_path ::
    "'sel exec_env \<Rightarrow> gql_path \<Rightarrow> 'sel collected \<Rightarrow> GnoEvent \<Rightarrow> gql_out run" where
  "exec_GnoEvent_pkg_path E p field obj = (let p = p @ [PField (cfAlias field)] in
     fieldX E p True (pureX (filterableX E p (Ret (gePkgPath obj))))
       (marshalNString E (cfSelections field) p))"

definition exec_GnoEventAttribute_key ::
    "'sel exec_env \<Rightarrow> gql_path \<Rightarrow> 'sel collected \<Rightarrow> GnoEventAttribute \<Rightarrow> gql_out run" where
  "exec_GnoEventAttribute_key E p field obj = (let p = p @ [PField (cfAlias field)] in
     fieldX E p True (pureX (filterableX E p (Ret (gaKey obj))))
       (marshalNString E (cfSelections field) p))"

definition exec_GnoEventAttribute_value ::
    "'sel exec_env \<Rightarrow> gql_path \<Rightarrow> 'sel collected \<Rightarrow> GnoEventAttribute \<Rightarrow> gql_out run" where
  "exec_GnoEventAttribute_value E p field obj = (let p = p @ [PField (cfAlias field)] in
     fieldX E p True (pureX (filterableX E p (Ret (gaValue obj))))
       (marshalNString E (cfSelections field) p))"

definition gnoEventAttributeImplementors :: "string list" where
  "gnoEventAttributeImplementors = [''GnoEventAttribute'']"

definition exec_GnoEventAttribute ::
    "'sel exec_env \<Rightarrow> 'sel \<Rightarrow> gql_path \<Rightarrow> GnoEventAttribute \<Rightarrow> gql_out run" where
  "exec_GnoEventAttribute E sel p obj = objectX E gnoEventAttributeImplementors ''GnoEventAttribute''
     [(''key'', True, \<lambda>p field. exec_GnoEventAttribute_key E p field obj),
      (''value'', True, \<lambda>p field. exec_GnoEventAttribute_value E p field obj)] sel p"

definition marshalNGnoEventAttribute ::
    "'sel exec_env \<Rightarrow> 'sel \<Rightarrow> gql_path \<Rightarrow> GnoEventAttribute option \<Rightarrow> gql_out run" where
  "marshalNGnoEventAttribute E sel p v = requiredX E p (exec_GnoEventAttribute E sel p) v"

definition marshalOGnoEventAttribute_list ::
    "'sel exec_env \<Rightarrow> 'sel \<Rightarrow> gql_path \<Rightarrow> GnoEventAttribute list option \<Rightarrow> gql_out run" where
  "marshalOGnoEventAttribute_list E sel p v =
     nullableX (listX E True (\<lambda>p v. marshalNGnoEventAttribute E sel p (Some v)) p) v"

definition exec_GnoEvent_attrs ::
    "'sel exec_env \<Rightarrow> gql_path \<Rightarrow> 'sel collected \<Rightarrow> GnoEvent \<Rightarrow> gql_out run" where
  "exec_GnoEvent_attrs E p field obj = (let p = p @ [PField (cfAlias field)] in
     fieldX E p False (pureX (filterableX E p (Ret (geAttrs obj))))
       (marshalOGnoEventAttribute_list E (cfSelections field) p))"

definition gnoEventImplementors :: "string list" where
  "gnoEventImplementors = [''GnoEvent'', ''Event'']"

definition exec_GnoEvent ::
    "'sel exec_env \<Rightarrow> 'sel \<Rightarrow> gql_path \<Rightarrow> GnoEvent \<Rightarrow> gql_out run" where
  "exec_GnoEvent E sel p obj = objectX E gnoEventImplementors ''GnoEvent''
     [(''type'', True, \<lambda>p field. exec_GnoEvent_type E p field obj),
      (''pkg_path'', True, \<lambda>p field. exec_GnoEvent_pkg_path E p field obj),
      (''attrs'', False, \<lambda>p field. exec_GnoEvent_attrs E p field obj)] sel p"

definition exec_StorageDepositEvent_type ::
    "'sel exec_env \<Rightarrow> gql_path \<Rightarrow> 'sel collected \<Rightarrow> StorageDepositEvent \<Rightarrow> gql_out run" where
  "exec_StorageDepositEvent_type E p field obj = (let p = p @ [PField (cfAlias field)] in
     fieldX E p True (pureX (filterableX E p (Ret (sdType obj))))
       (marshalNString E (cfSelections field) p))"

definition exec_StorageDepositEvent_bytes_delta ::
    "'sel exec_env \<Rightarrow> gql_path \<Rightarrow> 'sel collected \<Rightarrow> StorageDepositEvent \<Rightarrow> gql_out run" where
  "exec_StorageDepositEvent_bytes_delta E p field obj = (let p = p @ [PField (cfAlias field)] in
     fieldX E p True (pureX (filterableX E p (Ret (sdBytesDelta obj))))
       (marshalNInt E (cfSelections field) p))"

definition exec_StorageDepositEvent_fee_delta ::
    "'sel exec_env \<Rightarrow> gql_path \<Rightarrow> 'sel collected \<Rightarrow> StorageDepositEvent \<Rightarrow> gql_out run" where
  "exec_StorageDepositEvent_fee_delta E p field obj = (let p = p @ [PField (cfAlias field)] in
     fieldX E p True (pureX (filterableX E p (Ret (sdFeeDelta obj))))
       (marshalNCoin E (cfSelections field) p))"

definition exec_StorageDepositEvent_pkg_path ::
    "'sel exec_env \<Rightarrow> gql_path \<Rightarrow> 'sel collected \<Rightarrow> StorageDepositEvent \<Rightarrow> gql_out run" where
  "exec_StorageDepositEvent_pkg_path E p field obj = (let p = p @ [PField (cfAlias field)] in
     fieldX E p True (pureX (filterableX E p (Ret (sdPkgPath obj))))
       (marshalNString E (cfSelections field) p))"

definition storageDepositEventImplementors :: "string list" where
  "storageDepositEventImplementors = [''StorageDepositEvent'', ''Event'']"

definition exec_StorageDepositEvent ::
    "'sel exec_env \<Rightarrow> 'sel \<Rightarrow> gql_path \<Rightarrow> StorageDepositEvent \<Rightarrow> gql_out run" where
  "exec_StorageDepositEvent E sel p obj = objectX E storageDepositEventImplementors ''StorageDepositEvent''
     [(''type'', True, \<lambda>p field. exec_StorageDepositEvent_type E p field obj),
      (''bytes_delta'', True, \<lambda>p field. exec_StorageDepositEvent_bytes_delta E p field obj),
      (''fee_delta'', True, \<lambda>p field. exec_StorageDepositEvent_fee_delta E p field obj),
      (''pkg_path'', True, \<lambda>p field. exec_StorageDepositEvent_pkg_path E p field obj)] sel p"

definition exec_StorageUnlockEvent_type ::
    "'sel exec_env \<Rightarrow> gql_path \<Rightarrow> 'sel collected \<Rightarrow> StorageUnlockEvent \<Rightarrow> gql_out run" where
  "exec_StorageUnlockEvent_type E p field obj = (let p = p @ [PField (cfAlias field)] in
     fieldX E p True (pureX (filterableX E p (Ret (suType obj))))
       (marshalNString E (cfSelections field) p))"

definition exec_StorageUnlockEvent_bytes_delta ::
    "'sel exec_env \<Rightarrow> gql_path \<Rightarrow> 'sel collected \<Rightarrow> StorageUnlockEvent \<Rightarrow> gql_out run" where
  "exec_StorageUnlockEvent_bytes_delta E p field obj = (let p = p @ [PField (cfAlias field)] in
     fieldX E p True (pureX (filterableX E p (Ret (suBytesDelta obj))))
       (marshalNInt E (cfSelections field) p))"

definition exec_StorageUnlockEvent_fee_refund ::
    "'sel exec_env \<Rightarrow> gql_path \<Rightarrow> 'sel collected \<Rightarrow> StorageUnlockEvent \<Rightarrow> gql_out run" where
  "exec_StorageUnlockEvent_fee_refund E p field obj = (let p = p @ [PField (cfAlias field)] in
     fieldX E p True (pureX (filterableX E p (Ret (suFeeRefund obj))))
       (marshalNCoin E (cfSelections field) p))"

definition exec_StorageUnlockEvent_pkg_path ::
    "'sel exec_env \<Rightarrow> gql_path \<Rightarrow> 'sel collected \<Rightarrow> StorageUnlockEvent \<Rightarrow> gql_out run" where
  "exec_StorageUnlockEvent_pkg_path E p field obj = (let p = p @ [PField (cfAlias field)] in
     fieldX E p True (pureX (filterableX E p (Ret (suPkgPath obj))))
       (marshalNString E (cfSelections field) p))"

definition storageUnlockEventImplementors :: "string list" where
  "storageUnlockEventImplementors = [''StorageUnlockEvent'', ''Event'']"

definition exec_StorageUnlockEvent ::
    "'sel exec_env \<Rightarrow> 'sel \<Rightarrow> gql_path \<Rightarrow> StorageUnlockEvent \<Rightarrow> gql_out run" where
  "exec_StorageUnlockEvent E sel p obj = objectX E storageUnlockEventImplementors ''StorageUnlockEvent''
     [(''type'', True, \<lambda>p field. exec_StorageUnlockEvent_type E p field obj),
      (''bytes_delta'', True, \<lambda>p field. exec_StorageUnlockEvent_bytes_delta E p field obj),
      (''fee_refund'', True, \<lambda>p field. exec_StorageUnlockEvent_fee_refund E p field obj),
      (''pkg_path'', True, \<lambda>p field. exec_StorageUnlockEvent_pkg_path E p field obj)] sel p"

definition exec_UnknownEvent_value ::
    "'sel exec_env \<Rightarrow> gql_path \<Rightarrow> 'sel collected \<Rightarrow> UnknownEvent \<Rightarrow> gql_out run" where
  "exec_UnknownEvent_value E p field obj = (let p = p @ [PField (cfAlias field)] in
     fieldX E p True (pureX (filterableX E p (Ret (ueValue obj))))
       (marshalNString E (cfSelections field) p))"

definition unknownEventImplementors :: "string list" where
  "unknownEventImplementors = [''UnknownEvent'', ''Event'']"

definition exec_UnknownEvent ::
    "'sel exec_env \<Rightarrow> 'sel \<Rightarrow> gql_path \<Rightarrow> UnknownEvent \<Rightarrow> gql_out run" where
  "exec_UnknownEvent E sel p obj = objectX E unknownEventImplementors ''UnknownEvent''
     [(''value'', True, \<lambda>p field. exec_UnknownEvent_value E p field obj)] sel p"

definition exec_Event ::
    "'sel exec_env \<Rightarrow> 'sel \<Rightarrow> gql_path \<Rightarrow> Event \<Rightarrow> gql_out run" where
  "exec_Event E sel p obj =
     (case obj of
        EvGno obj \<Rightarrow> exec_GnoEvent E sel p obj
      | EvStorageDeposit obj \<Rightarrow> exec_StorageDepositEvent E sel p obj
      | EvStorageUnlock obj \<Rightarrow> exec_StorageUnlockEvent E sel p obj
      | EvUnknown obj \<Rightarrow> exec_UnknownEvent E sel p obj)"

definition marshalOEvent ::
    "'sel exec_env \<Rightarrow> 'sel \<Rightarrow> gql_path \<Rightarrow> Event option \<Rightarrow> gql_out run" where
  "marshalOEvent E sel p v = nullableX (exec_Event E sel p) v"

definition marshalOEvent_list ::
    "'sel exec_env \<Rightarrow> 'sel \<Rightarrow> gql_path \<Rightarrow> Event list option \<Rightarrow> gql_out run" where
  "marshalOEvent_list E sel p v =
     nullableX (listX E False (\<lambda>p v. marshalOEvent E sel p (Some v)) p) v"

definition exec_TransactionResponse_events ::
    "graph_env \<Rightarrow> 'sel exec_env \<Rightarrow> gql_path \<Rightarrow> 'sel collected \<Rightarrow> TransactionResponse \<Rightarrow> gql_out run" where
  "exec_TransactionResponse_events G E p field obj = (let p = p @ [PField (cfAlias field)] in
     fieldX E p False (pureX (filterableX E p (Ret (Some (TransactionResponse_Events G obj)))))
       (marshalOEvent_list E (cfSelections field) p))"

definition transactionResponseImplementors :: "string list" where
  "transactionResponseImplementors = [''TransactionResponse'']"

definition exec_TransactionResponse ::
    "graph_env \<Rightarrow> 'sel exec_env \<Rightarrow> 'sel \<Rightarrow> gql_path \<Rightarrow> TransactionResponse \<Rightarrow> gql_out run" where
  "exec_TransactionResponse G E sel p obj = objectX E transactionResponseImplementors ''TransactionResponse''
     [(''log'', True, \<lambda>p field. exec_TransactionResponse_log G E p field obj),
      (''info'', True, \<lambda>p field. exec_TransactionResponse_info G E p field obj),
      (''error'', True, \<lambda>p field. exec_TransactionResponse_error G E p field obj),
      (''data'', True, \<lambda>p field. exec_TransactionResponse_data G E p field obj),
      (''events'', False, \<lambda>p field. exec_TransactionResponse_events G E p field obj)] sel p"

definition marshalNTransactionResponse ::
    "graph_env \<Rightarrow> 'sel exec_env \<Rightarrow> 'sel \<Rightarrow> gql_path \<Rightarrow> TransactionResponse option \<Rightarrow> gql_out run" where
  "marshalNTransactionResponse G E sel p v = requiredX E p (exec_TransactionResponse G E sel p) v"

definition exec_Transaction_response ::
    "codec \<Rightarrow> graph_env \<Rightarrow> 'sel exec_env \<Rightarrow> gql_path \<Rightarrow> 'sel collected \<Rightarrow> Transaction \<Rightarrow> gql_out run" where
  "exec_Transaction_response C G E p field obj = (let p = p @ [PField (cfAlias field)] in
     fieldX E p True (pureX (filterableX E p (bindO (Transaction_result obj) (\<lambda>r. Ret (Some (Transaction_Response r))))))
       (marshalNTransactionResponse G E (cfSelections field) p))"

definition transactionImplementors :: "string list" where
  "transactionImplementors = [''Transaction'']"

definition exec_Transaction ::
    "codec \<Rightarrow> graph_env \<Rightarrow> 'sel exec_env \<Rightarrow> 'sel \<Rightarrow> gql_path \<Rightarrow> Transaction \<Rightarrow> gql_out run" where
  "exec_Transaction C G E sel p obj = objectX E transactionImplementors ''Transaction''
     [(''index'', True, \<lambda>p field. exec_Transaction_index C G E p field obj),
      (''hash'', True, \<lambda>p field. exec_Transaction_hash C G E p field obj),
      (''success'', True, \<lambda>p field. exec_Transaction_success C G E p field obj),
      (''block_height'', True, \<lambda>p field. exec_Transaction_block_height C G E p field obj),
      (''gas_wanted'', True, \<lambda>p field. exec_Transaction_gas_wanted C G E p field obj),
      (''gas_used'', True, \<lambda>p field. exec_Transaction_gas_used C G E p field obj),
      (''gas_fee'', False, \<lambda>p field. exec_Transaction_gas_fee C G E p field obj),
      (''content_raw'', True, \<lambda>p field. exec_Transaction_content_raw C G E p field obj),
      (''messages'', True, \<lambda>p field. exec_Transaction_messages C G E p field obj),
      (''memo'', True, \<lambda>p field. exec_Transaction_memo C G E p field obj),
      (''response'', True, \<lambda>p field. exec_Transaction_response C G E p field obj)] sel p"

definition marshalNTransaction ::
    "codec \<Rightarrow> graph_env \<Rightarrow> 'sel exec_env \<Rightarrow> 'sel \<Rightarrow> gql_path \<Rightarrow> Transaction option \<Rightarrow> gql_out run" where
  "marshalNTransaction C G E sel p v = requiredX E p (exec_Transaction C G E sel p) v"

definition marshalOTransaction_list ::
    "codec \<Rightarrow> graph_env \<Rightarrow> 'sel exec_env \<Rightarrow> 'sel \<Rightarrow> gql_path \<Rightarrow> Transaction list option \<Rightarrow> gql_out run" where
  "marshalOTransaction_list C G E sel p v =
     nullableX (listX E True (\<lambda>p v. marshalNTransaction C G E sel p (Some v)) p) v"

definition marshalNTransaction_value ::
    "codec \<Rightarrow> graph_env \<Rightarrow> 'sel exec_env \<Rightarrow> 'sel \<Rightarrow> gql_path \<Rightarrow> Transaction \<Rightarrow> gql_out run" where
  "marshalNTransaction_value C G E sel p v = exec_Transaction C G E sel p v"

section \<open>Queries\<close>

text \<open>The resolvers of a query, as the executor calls them: with the arguments of the field, in the context of the request.\<close>

record query_resolvers =
  rsTransactions :: "TransactionFilter \<Rightarrow> Transaction query_result outcome"
  rsBlocks :: "BlockFilter \<Rightarrow> Block query_result outcome"
  rsLatestBlockHeight :: "i64 \<times> go_error option"
  rsGetBlocks :: "FilterBlock \<Rightarrow> BlockOrder option \<Rightarrow> Block query_result outcome"
  rsGetTransactions :: "FilterTransaction \<Rightarrow> TransactionOrder option \<Rightarrow> Transaction query_result outcome"

definition exec_Query_transactions ::
    "codec \<Rightarrow> graph_env \<Rightarrow> query_resolvers \<Rightarrow> 'sel exec_env \<Rightarrow> gql_path \<Rightarrow> 'sel collected \<Rightarrow> gql_out run" where
  "exec_Query_transactions C G R E p field = (let p = p @ [PField (cfAlias field)] in
     contextX E p (field_Query_transactions_args (xeInput E) p (cfArgs field)) (\<lambda>x.
     fieldX E p False (queryX p (rsTransactions R x)) (marshalOTransaction_list C G E (cfSelections field) p)))"

definition exec_Query_blocks ::
    "codec \<Rightarrow> graph_env \<Rightarrow> query_resolvers \<Rightarrow> 'sel exec_env \<Rightarrow> gql_path \<Rightarrow> 'sel collected \<Rightarrow> gql_out run" where
  "exec_Query_blocks C G R E p field = (let p = p @ [PField (cfAlias field)] in
     contextX E p (field_Query_blocks_args (xeInput E) p (cfArgs field)) (\<lambda>x.
     fieldX E p False (queryX p (rsBlocks R x)) (marshalOBlock_list C G E (cfSelections field) p)))"

definition exec_Query_latestBlockHeight ::
    "query_resolvers \<Rightarrow> 'sel exec_env \<Rightarrow> gql_path \<Rightarrow> 'sel collected \<Rightarrow> gql_out run" where
  "exec_Query_latestBlockHeight R E p field = (let p = p @ [PField (cfAlias field)] in
     fieldX E p True (pureX (Ret (case rsLatestBlockHeight R of (h, Some e) \<Rightarrow> Inl e | (h, None) \<Rightarrow> Inr (Some h))))
       (marshalNInt E (cfSelections field) p))"

definition exec_Query_getBlocks ::
    "codec \<Rightarrow> graph_env \<Rightarrow> query_resolvers \<Rightarrow> 'sel exec_env \<Rightarrow> gql_path \<Rightarrow> 'sel collected \<Rightarrow> gql_out run" where
  "exec_Query_getBlocks C G R E p field = (let p = p @ [PField (cfAlias field)] in
     contextX E p (field_Query_getBlocks_args (xeInput E) p (cfArgs field)) (\<lambda>x.
     fieldX E p False (queryX p (rsGetBlocks R (fst x) (snd x))) (marshalOBlock_list C G E (cfSelections field) p)))"

definition exec_Query_getTransactions ::
    "codec \<Rightarrow> graph_env \<Rightarrow> query_resolvers \<Rightarrow> 'sel exec_env \<Rightarrow> gql_path \<Rightarrow> 'sel collected \<Rightarrow> gql_out run" where
  "exec_Query_getTransactions C G R E p field = (let p = p @ [PField (cfAlias field)] in
     contextX E p (field_Query_getTransactions_args (xeInput E) p (cfArgs field)) (\<lambda>x.
     fieldX E p False (queryX p (rsGetTransactions R (fst x) (snd x))) (marshalOTransaction_list C G E (cfSelections field) p)))"

definition queryImplementors :: "string list" where
  "queryImplementors = [''Query'']"

text \<open>The fields \<open>__type\<close> and \<open>__schema\<close> run at once, without the \<open>recover\<close> of the others.\<close>

definition exec_Query ::
    "codec \<Rightarrow> graph_env \<Rightarrow> query_resolvers \<Rightarrow> ('ty, 'sel) introspection \<Rightarrow> 'sel exec_env \<Rightarrow> 'sel \<Rightarrow> gql_path \<Rightarrow> gql_out run" where
  "exec_Query C G R I E sel p = objectX E queryImplementors ''Query''
     [(''transactions'', False, \<lambda>p field. rootX E p (exec_Query_transactions C G R E p field)),
      (''blocks'', False, \<lambda>p field. rootX E p (exec_Query_blocks C G R E p field)),
      (''latestBlockHeight'', True, \<lambda>p field. rootX E p (exec_Query_latestBlockHeight R E p field)),
      (''getBlocks'', False, \<lambda>p field. rootX E p (exec_Query_getBlocks C G R E p field)),
      (''getTransactions'', False, \<lambda>p field. rootX E p (exec_Query_getTransactions C G R E p field)),
      (''__type'', False, \<lambda>p field. exec_Query___type I E p field),
      (''__schema'', False, \<lambda>p field. exec_Query___schema I E p field)] sel p"

section \<open>Subscriptions\<close>

text \<open>
  A subscription field starts with its arguments and hands the filter to its resolver, whose channel is never nil and whose
  error is always nil; no filter means that the field ended with an error. The function it returns is called for every
  response: it waits for an element of the channel or the end of the request. It runs in the context of the request, so the
  paths of its errors begin at the object, not at the field.
\<close>

datatype 'a received = Received 'a | ChannelClosed | RequestDone

definition startX :: "'sel exec_env \<Rightarrow> gql_path \<Rightarrow> 'a decoded \<Rightarrow> 'a option run" where
  "startX E p args =
     (case args of
        Panic s \<Rightarrow> bindX (reportX p (xeRecover E s)) (\<lambda>_. retX None)
      | Ret (Inl e) \<Rightarrow> bindX (reportX p e) (\<lambda>_. retX None)
      | Ret (Inr x) \<Rightarrow> retX (Some x))"

definition nextX :: "('a \<Rightarrow> gql_out run) \<Rightarrow> 'sel collected \<Rightarrow> 'a received \<Rightarrow> gql_out option run" where
  "nextX marshal field res =
     (case res of
        Received v \<Rightarrow> bindX (marshal v) (\<lambda>x. retX (Some (OObject [(cfAlias field, x)])))
      | ChannelClosed \<Rightarrow> retX None
      | RequestDone \<Rightarrow> retX None)"


definition exec_Subscription_transactions ::
    "'sel exec_env \<Rightarrow> gql_path \<Rightarrow> 'sel collected \<Rightarrow> TransactionFilter option run" where
  "exec_Subscription_transactions E p field = (let p = p @ [PField (cfAlias field)] in
     startX E p (field_Subscription_transactions_args (xeInput E) p (cfArgs field)))"

definition exec_Subscription_transactions_next ::
    "codec \<Rightarrow> graph_env \<Rightarrow> 'sel exec_env \<Rightarrow> 'sel collected \<Rightarrow> Transaction received \<Rightarrow> gql_out option run" where
  "exec_Subscription_transactions_next C G E field =
     nextX (\<lambda>res. marshalNTransaction C G E (cfSelections field) [] (Some res)) field"

definition exec_Subscription_blocks ::
    "'sel exec_env \<Rightarrow> gql_path \<Rightarrow> 'sel collected \<Rightarrow> BlockFilter option run" where
  "exec_Subscription_blocks E p field = (let p = p @ [PField (cfAlias field)] in
     startX E p (field_Subscription_blocks_args (xeInput E) p (cfArgs field)))"

definition exec_Subscription_blocks_next ::
    "codec \<Rightarrow> graph_env \<Rightarrow> 'sel exec_env \<Rightarrow> 'sel collected \<Rightarrow> Block received \<Rightarrow> gql_out option run" where
  "exec_Subscription_blocks_next C G E field =
     nextX (\<lambda>res. marshalNBlock C G E (cfSelections field) [] (Some res)) field"

definition exec_Subscription_getTransactions ::
    "'sel exec_env \<Rightarrow> gql_path \<Rightarrow> 'sel collected \<Rightarrow> FilterTransaction option run" where
  "exec_Subscription_getTransactions E p field = (let p = p @ [PField (cfAlias field)] in
     startX E p (field_Subscription_getTransactions_args (xeInput E) p (cfArgs field)))"

definition exec_Subscription_getTransactions_next ::
    "codec \<Rightarrow> graph_env \<Rightarrow> 'sel exec_env \<Rightarrow> 'sel collected \<Rightarrow> Transaction received \<Rightarrow> gql_out option run" where
  "exec_Subscription_getTransactions_next C G E field =
     nextX (\<lambda>res. marshalNTransaction C G E (cfSelections field) [] (Some res)) field"

definition exec_Subscription_getBlocks ::
    "'sel exec_env \<Rightarrow> gql_path \<Rightarrow> 'sel collected \<Rightarrow> FilterBlock option run" where
  "exec_Subscription_getBlocks E p field = (let p = p @ [PField (cfAlias field)] in
     startX E p (field_Subscription_getBlocks_args (xeInput E) p (cfArgs field)))"

definition exec_Subscription_getBlocks_next ::
    "codec \<Rightarrow> graph_env \<Rightarrow> 'sel exec_env \<Rightarrow> 'sel collected \<Rightarrow> Block received \<Rightarrow> gql_out option run" where
  "exec_Subscription_getBlocks_next C G E field =
     nextX (\<lambda>res. marshalNBlock C G E (cfSelections field) [] (Some res)) field"

text \<open>The subscription of a request: exactly one field, by its name.\<close>

datatype subscription =
    SubTransactions TransactionFilter
  | SubBlocks BlockFilter
  | SubGetTransactions FilterTransaction
  | SubGetBlocks FilterBlock

definition subscriptionImplementors :: "string list" where
  "subscriptionImplementors = [''Subscription'']"

definition exec_Subscription :: "'sel exec_env \<Rightarrow> 'sel \<Rightarrow> gql_path \<Rightarrow> subscription option run" where
  "exec_Subscription E sel p =
     (case xeCollect E sel subscriptionImplementors of
        [field] \<Rightarrow>
          if cfName field = ''transactions'' then bindX (exec_Subscription_transactions E p field) (retX \<circ> map_option SubTransactions)
          else if cfName field = ''blocks'' then bindX (exec_Subscription_blocks E p field) (retX \<circ> map_option SubBlocks)
          else if cfName field = ''getTransactions''
            then bindX (exec_Subscription_getTransactions E p field) (retX \<circ> map_option SubGetTransactions)
          else if cfName field = ''getBlocks'' then bindX (exec_Subscription_getBlocks E p field) (retX \<circ> map_option SubGetBlocks)
          else panicX (''unknown field '' @ cfName field)
      | _ \<Rightarrow> bindX (reportX p (ErrMsg ''must subscribe to exactly one stream'')) (\<lambda>_. retX None))"

section \<open>Operations\<close>

text \<open>
  \<open>Exec\<close>: a query is answered once with its data and the errors reported on the way; a subscription answers every time
  its stream has an element; no other operation is supported. The responses of deferred fields do not arise.
\<close>

datatype operation = OpQuery | OpMutation | OpSubscription

datatype executed =
    Answer gql_out error_log
  | Stream "subscription option" error_log
  | Unsupported
  | ExecPanic string

definition Exec ::
    "codec \<Rightarrow> graph_env \<Rightarrow> query_resolvers \<Rightarrow> ('ty, 'sel) introspection \<Rightarrow> 'sel exec_env \<Rightarrow> operation \<Rightarrow>
     'sel \<Rightarrow> executed" where
  "Exec C G R I E op sel =
     (case op of
        OpQuery \<Rightarrow> (case exec_Query C G R I E sel [] [] of (Ret data, l) \<Rightarrow> Answer data l | (Panic s, l) \<Rightarrow> ExecPanic s)
      | OpSubscription \<Rightarrow> (case exec_Subscription E sel [] [] of (Ret sub, l) \<Rightarrow> Stream sub l | (Panic s, l) \<Rightarrow> ExecPanic s)
      | OpMutation \<Rightarrow> Unsupported)"

end
