(* ===== verification/Graph_Schema.thy ===== *)
theory Graph_Schema
  imports Graph_Decode
begin

text \<open>
  The schema that \<open>serve/graph/generated.go\<close> embeds (the sources under \<open>serve/graph/schema\<close>): per type of the
  schema its fields with their types, and what it means that a value is a value of a type.
\<close>

section \<open>Types\<close>

datatype gql_type = TNamed string | TList gql_type | TNonNull gql_type

text \<open>Inputs have fields, objects have fields with arguments, unions have objects.\<close>

type_synonym input_fields = "(string \<times> gql_type) list"
type_synonym object_fields = "(string \<times> input_fields \<times> gql_type) list"

datatype type_def =
    DScalar
  | DEnum "string list"
  | DInput input_fields
  | DObject object_fields
  | DUnion "string list"

section \<open>Inputs\<close>

definition AmountInput_schema :: input_fields where
  "AmountInput_schema =
    [(''from'', TNamed ''Int''),
     (''to'', TNamed ''Int''),
     (''denomination'', TNamed ''String'')]"

definition BankMsgSendInput_schema :: input_fields where
  "BankMsgSendInput_schema =
    [(''from_address'', TNamed ''String''),
     (''to_address'', TNamed ''String''),
     (''amount'', TNamed ''AmountInput'')]"

definition BlockFilter_schema :: input_fields where
  "BlockFilter_schema =
    [(''from_height'', TNamed ''Int''),
     (''to_height'', TNamed ''Int''),
     (''from_time'', TNamed ''Time''),
     (''to_time'', TNamed ''Time'')]"

definition BlockOrder_schema :: input_fields where
  "BlockOrder_schema =
    [(''height'', TNonNull (TNamed ''Order''))]"

definition CoinInput_schema :: input_fields where
  "CoinInput_schema =
    [(''amount'', TNamed ''Int''),
     (''denom'', TNamed ''String'')]"

definition EventAttributeInput_schema :: input_fields where
  "EventAttributeInput_schema =
    [(''key'', TNamed ''String''),
     (''value'', TNamed ''String'')]"

definition EventInput_schema :: input_fields where
  "EventInput_schema =
    [(''gno_event'', TNamed ''GnoEventInput''),
     (''storage_deposit_event'', TNamed ''StorageDepositEventInput''),
     (''storage_unlock_event'', TNamed ''StorageUnlockEventInput'')]"

definition FilterBankMsgSend_schema :: input_fields where
  "FilterBankMsgSend_schema =
    [(''_and'', TList (TNamed ''FilterBankMsgSend'')),
     (''_or'', TList (TNamed ''FilterBankMsgSend'')),
     (''_not'', TNamed ''FilterBankMsgSend''),
     (''from_address'', TNamed ''FilterString''),
     (''to_address'', TNamed ''FilterString''),
     (''amount'', TNamed ''FilterString'')]"

definition FilterBlock_schema :: input_fields where
  "FilterBlock_schema =
    [(''_and'', TList (TNamed ''FilterBlock'')),
     (''_or'', TList (TNamed ''FilterBlock'')),
     (''_not'', TNamed ''FilterBlock''),
     (''hash'', TNamed ''FilterString''),
     (''height'', TNamed ''FilterInt''),
     (''version'', TNamed ''FilterString''),
     (''chain_id'', TNamed ''FilterString''),
     (''time'', TNamed ''FilterTime''),
     (''num_txs'', TNamed ''FilterInt''),
     (''total_txs'', TNamed ''FilterInt''),
     (''app_version'', TNamed ''FilterString''),
     (''last_block_hash'', TNamed ''FilterString''),
     (''last_commit_hash'', TNamed ''FilterString''),
     (''validators_hash'', TNamed ''FilterString''),
     (''next_validators_hash'', TNamed ''FilterString''),
     (''consensus_hash'', TNamed ''FilterString''),
     (''app_hash'', TNamed ''FilterString''),
     (''last_results_hash'', TNamed ''FilterString''),
     (''proposer_address_raw'', TNamed ''FilterString''),
     (''txs'', TNamed ''NestedFilterBlockTransaction'')]"

definition FilterBlockTransaction_schema :: input_fields where
  "FilterBlockTransaction_schema =
    [(''_and'', TList (TNamed ''FilterBlockTransaction'')),
     (''_or'', TList (TNamed ''FilterBlockTransaction'')),
     (''_not'', TNamed ''FilterBlockTransaction''),
     (''hash'', TNamed ''FilterString''),
     (''fee'', TNamed ''NestedFilterTxFee''),
     (''memo'', TNamed ''FilterString'')]"

definition FilterBoolean_schema :: input_fields where
  "FilterBoolean_schema =
    [(''exists'', TNamed ''Boolean''),
     (''eq'', TNamed ''Boolean'')]"

definition FilterCoin_schema :: input_fields where
  "FilterCoin_schema =
    [(''_and'', TList (TNamed ''FilterCoin'')),
     (''_or'', TList (TNamed ''FilterCoin'')),
     (''_not'', TNamed ''FilterCoin''),
     (''amount'', TNamed ''FilterInt''),
     (''denom'', TNamed ''FilterString'')]"

definition FilterEvent_schema :: input_fields where
  "FilterEvent_schema =
    [(''_and'', TList (TNamed ''FilterEvent'')),
     (''_or'', TList (TNamed ''FilterEvent'')),
     (''_not'', TNamed ''FilterEvent''),
     (''GnoEvent'', TNamed ''NestedFilterGnoEvent''),
     (''StorageDepositEvent'', TNamed ''NestedFilterStorageDepositEvent''),
     (''StorageUnlockEvent'', TNamed ''NestedFilterStorageUnlockEvent''),
     (''UnknownEvent'', TNamed ''NestedFilterUnknownEvent'')]"

definition FilterGnoEvent_schema :: input_fields where
  "FilterGnoEvent_schema =
    [(''_and'', TList (TNamed ''FilterGnoEvent'')),
     (''_or'', TList (TNamed ''FilterGnoEvent'')),
     (''_not'', TNamed ''FilterGnoEvent''),
     (''type'', TNamed ''FilterString''),
     (''pkg_path'', TNamed ''FilterString''),
     (''attrs'', TNamed ''NestedFilterGnoEventAttribute'')]"

definition FilterGnoEventAttribute_schema :: input_fields where
  "FilterGnoEventAttribute_schema =
    [(''_and'', TList (TNamed ''FilterGnoEventAttribute'')),
     (''_or'', TList (TNamed ''FilterGnoEventAttribute'')),
     (''_not'', TNamed ''FilterGnoEventAttribute''),
     (''key'', TNamed ''FilterString''),
     (''value'', TNamed ''FilterString'')]"

definition FilterInt_schema :: input_fields where
  "FilterInt_schema =
    [(''exists'', TNamed ''Boolean''),
     (''eq'', TNamed ''Int''),
     (''gt'', TNamed ''Int''),
     (''lt'', TNamed ''Int'')]"

definition FilterMemFile_schema :: input_fields where
  "FilterMemFile_schema =
    [(''_and'', TList (TNamed ''FilterMemFile'')),
     (''_or'', TList (TNamed ''FilterMemFile'')),
     (''_not'', TNamed ''FilterMemFile''),
     (''name'', TNamed ''FilterString''),
     (''body'', TNamed ''FilterString'')]"

definition FilterMemPackage_schema :: input_fields where
  "FilterMemPackage_schema =
    [(''_and'', TList (TNamed ''FilterMemPackage'')),
     (''_or'', TList (TNamed ''FilterMemPackage'')),
     (''_not'', TNamed ''FilterMemPackage''),
     (''name'', TNamed ''FilterString''),
     (''path'', TNamed ''FilterString''),
     (''files'', TNamed ''NestedFilterMemFile'')]"

definition FilterMessageValue_schema :: input_fields where
  "FilterMessageValue_schema =
    [(''_and'', TList (TNamed ''FilterMessageValue'')),
     (''_or'', TList (TNamed ''FilterMessageValue'')),
     (''_not'', TNamed ''FilterMessageValue''),
     (''BankMsgSend'', TNamed ''NestedFilterBankMsgSend''),
     (''MsgCall'', TNamed ''NestedFilterMsgCall''),
     (''MsgAddPackage'', TNamed ''NestedFilterMsgAddPackage''),
     (''MsgRun'', TNamed ''NestedFilterMsgRun'')]"

definition FilterMsgAddPackage_schema :: input_fields where
  "FilterMsgAddPackage_schema =
    [(''_and'', TList (TNamed ''FilterMsgAddPackage'')),
     (''_or'', TList (TNamed ''FilterMsgAddPackage'')),
     (''_not'', TNamed ''FilterMsgAddPackage''),
     (''creator'', TNamed ''FilterString''),
     (''package'', TNamed ''NestedFilterMemPackage''),
     (''deposit'', TNamed ''FilterString''),
     (''send'', TNamed ''FilterString''),
     (''max_deposit'', TNamed ''FilterString'')]"

definition FilterMsgCall_schema :: input_fields where
  "FilterMsgCall_schema =
    [(''_and'', TList (TNamed ''FilterMsgCall'')),
     (''_or'', TList (TNamed ''FilterMsgCall'')),
     (''_not'', TNamed ''FilterMsgCall''),
     (''caller'', TNamed ''FilterString''),
     (''send'', TNamed ''FilterString''),
     (''pkg_path'', TNamed ''FilterString''),
     (''func'', TNamed ''FilterString''),
     (''args'', TNamed ''FilterString''),
     (''max_deposit'', TNamed ''FilterString'')]"

definition FilterMsgRun_schema :: input_fields where
  "FilterMsgRun_schema =
    [(''_and'', TList (TNamed ''FilterMsgRun'')),
     (''_or'', TList (TNamed ''FilterMsgRun'')),
     (''_not'', TNamed ''FilterMsgRun''),
     (''caller'', TNamed ''FilterString''),
     (''send'', TNamed ''FilterString''),
     (''package'', TNamed ''NestedFilterMemPackage''),
     (''max_deposit'', TNamed ''FilterString'')]"

definition FilterStorageDepositEvent_schema :: input_fields where
  "FilterStorageDepositEvent_schema =
    [(''_and'', TList (TNamed ''FilterStorageDepositEvent'')),
     (''_or'', TList (TNamed ''FilterStorageDepositEvent'')),
     (''_not'', TNamed ''FilterStorageDepositEvent''),
     (''type'', TNamed ''FilterString''),
     (''bytes_delta'', TNamed ''FilterInt''),
     (''fee_delta'', TNamed ''NestedFilterCoin''),
     (''pkg_path'', TNamed ''FilterString'')]"

definition FilterStorageUnlockEvent_schema :: input_fields where
  "FilterStorageUnlockEvent_schema =
    [(''_and'', TList (TNamed ''FilterStorageUnlockEvent'')),
     (''_or'', TList (TNamed ''FilterStorageUnlockEvent'')),
     (''_not'', TNamed ''FilterStorageUnlockEvent''),
     (''type'', TNamed ''FilterString''),
     (''bytes_delta'', TNamed ''FilterInt''),
     (''fee_refund'', TNamed ''NestedFilterCoin''),
     (''pkg_path'', TNamed ''FilterString'')]"

definition FilterString_schema :: input_fields where
  "FilterString_schema =
    [(''exists'', TNamed ''Boolean''),
     (''eq'', TNamed ''String''),
     (''like'', TNamed ''String'')]"

definition FilterTime_schema :: input_fields where
  "FilterTime_schema =
    [(''exists'', TNamed ''Boolean''),
     (''eq'', TNamed ''Time''),
     (''before'', TNamed ''Time''),
     (''after'', TNamed ''Time'')]"

definition FilterTransaction_schema :: input_fields where
  "FilterTransaction_schema =
    [(''_and'', TList (TNamed ''FilterTransaction'')),
     (''_or'', TList (TNamed ''FilterTransaction'')),
     (''_not'', TNamed ''FilterTransaction''),
     (''index'', TNamed ''FilterInt''),
     (''hash'', TNamed ''FilterString''),
     (''success'', TNamed ''FilterBoolean''),
     (''block_height'', TNamed ''FilterInt''),
     (''gas_wanted'', TNamed ''FilterInt''),
     (''gas_used'', TNamed ''FilterInt''),
     (''gas_fee'', TNamed ''NestedFilterCoin''),
     (''messages'', TNamed ''NestedFilterTransactionMessage''),
     (''memo'', TNamed ''FilterString''),
     (''response'', TNamed ''NestedFilterTransactionResponse'')]"

definition FilterTransactionMessage_schema :: input_fields where
  "FilterTransactionMessage_schema =
    [(''_and'', TList (TNamed ''FilterTransactionMessage'')),
     (''_or'', TList (TNamed ''FilterTransactionMessage'')),
     (''_not'', TNamed ''FilterTransactionMessage''),
     (''typeUrl'', TNamed ''FilterString''),
     (''route'', TNamed ''FilterString''),
     (''value'', TNamed ''NestedFilterMessageValue'')]"

definition FilterTransactionResponse_schema :: input_fields where
  "FilterTransactionResponse_schema =
    [(''_and'', TList (TNamed ''FilterTransactionResponse'')),
     (''_or'', TList (TNamed ''FilterTransactionResponse'')),
     (''_not'', TNamed ''FilterTransactionResponse''),
     (''log'', TNamed ''FilterString''),
     (''info'', TNamed ''FilterString''),
     (''error'', TNamed ''FilterString''),
     (''data'', TNamed ''FilterString''),
     (''events'', TNamed ''NestedFilterEvent'')]"

definition FilterTxFee_schema :: input_fields where
  "FilterTxFee_schema =
    [(''_and'', TList (TNamed ''FilterTxFee'')),
     (''_or'', TList (TNamed ''FilterTxFee'')),
     (''_not'', TNamed ''FilterTxFee''),
     (''gas_wanted'', TNamed ''FilterInt''),
     (''gas_fee'', TNamed ''NestedFilterCoin'')]"

definition FilterUnknownEvent_schema :: input_fields where
  "FilterUnknownEvent_schema =
    [(''_and'', TList (TNamed ''FilterUnknownEvent'')),
     (''_or'', TList (TNamed ''FilterUnknownEvent'')),
     (''_not'', TNamed ''FilterUnknownEvent''),
     (''value'', TNamed ''FilterString'')]"

definition GnoEventInput_schema :: input_fields where
  "GnoEventInput_schema =
    [(''type'', TNamed ''String''),
     (''pkg_path'', TNamed ''String''),
     (''attrs'', TList (TNonNull (TNamed ''EventAttributeInput'')))]"

definition MemFileInput_schema :: input_fields where
  "MemFileInput_schema =
    [(''name'', TNamed ''String''),
     (''body'', TNamed ''String'')]"

definition MemPackageInput_schema :: input_fields where
  "MemPackageInput_schema =
    [(''name'', TNamed ''String''),
     (''path'', TNamed ''String''),
     (''files'', TList (TNamed ''MemFileInput''))]"

definition MsgAddPackageInput_schema :: input_fields where
  "MsgAddPackageInput_schema =
    [(''creator'', TNamed ''String''),
     (''package'', TNamed ''MemPackageInput''),
     (''deposit'', TNamed ''AmountInput'')]"

definition MsgCallInput_schema :: input_fields where
  "MsgCallInput_schema =
    [(''caller'', TNamed ''String''),
     (''send'', TNamed ''AmountInput''),
     (''pkg_path'', TNamed ''String''),
     (''func'', TNamed ''String''),
     (''args'', TList (TNonNull (TNamed ''String'')))]"

definition MsgRunInput_schema :: input_fields where
  "MsgRunInput_schema =
    [(''caller'', TNamed ''String''),
     (''send'', TNamed ''AmountInput''),
     (''package'', TNamed ''MemPackageInput'')]"

definition NestedFilterBankMsgSend_schema :: input_fields where
  "NestedFilterBankMsgSend_schema =
    [(''_and'', TList (TNamed ''NestedFilterBankMsgSend'')),
     (''_or'', TList (TNamed ''NestedFilterBankMsgSend'')),
     (''_not'', TNamed ''NestedFilterBankMsgSend''),
     (''from_address'', TNamed ''FilterString''),
     (''to_address'', TNamed ''FilterString''),
     (''amount'', TNamed ''FilterString'')]"

definition NestedFilterBlockTransaction_schema :: input_fields where
  "NestedFilterBlockTransaction_schema =
    [(''_and'', TList (TNamed ''NestedFilterBlockTransaction'')),
     (''_or'', TList (TNamed ''NestedFilterBlockTransaction'')),
     (''_not'', TNamed ''NestedFilterBlockTransaction''),
     (''hash'', TNamed ''FilterString''),
     (''fee'', TNamed ''NestedFilterTxFee''),
     (''memo'', TNamed ''FilterString'')]"

definition NestedFilterCoin_schema :: input_fields where
  "NestedFilterCoin_schema =
    [(''_and'', TList (TNamed ''NestedFilterCoin'')),
     (''_or'', TList (TNamed ''NestedFilterCoin'')),
     (''_not'', TNamed ''NestedFilterCoin''),
     (''amount'', TNamed ''FilterInt''),
     (''denom'', TNamed ''FilterString'')]"

definition NestedFilterEvent_schema :: input_fields where
  "NestedFilterEvent_schema =
    [(''_and'', TList (TNamed ''NestedFilterEvent'')),
     (''_or'', TList (TNamed ''NestedFilterEvent'')),
     (''_not'', TNamed ''NestedFilterEvent''),
     (''GnoEvent'', TNamed ''NestedFilterGnoEvent''),
     (''StorageDepositEvent'', TNamed ''NestedFilterStorageDepositEvent''),
     (''StorageUnlockEvent'', TNamed ''NestedFilterStorageUnlockEvent''),
     (''UnknownEvent'', TNamed ''NestedFilterUnknownEvent'')]"

definition NestedFilterGnoEvent_schema :: input_fields where
  "NestedFilterGnoEvent_schema =
    [(''_and'', TList (TNamed ''NestedFilterGnoEvent'')),
     (''_or'', TList (TNamed ''NestedFilterGnoEvent'')),
     (''_not'', TNamed ''NestedFilterGnoEvent''),
     (''type'', TNamed ''FilterString''),
     (''pkg_path'', TNamed ''FilterString''),
     (''attrs'', TNamed ''NestedFilterGnoEventAttribute'')]"

definition NestedFilterGnoEventAttribute_schema :: input_fields where
  "NestedFilterGnoEventAttribute_schema =
    [(''_and'', TList (TNamed ''NestedFilterGnoEventAttribute'')),
     (''_or'', TList (TNamed ''NestedFilterGnoEventAttribute'')),
     (''_not'', TNamed ''NestedFilterGnoEventAttribute''),
     (''key'', TNamed ''FilterString''),
     (''value'', TNamed ''FilterString'')]"

definition NestedFilterMemFile_schema :: input_fields where
  "NestedFilterMemFile_schema =
    [(''_and'', TList (TNamed ''NestedFilterMemFile'')),
     (''_or'', TList (TNamed ''NestedFilterMemFile'')),
     (''_not'', TNamed ''NestedFilterMemFile''),
     (''name'', TNamed ''FilterString''),
     (''body'', TNamed ''FilterString'')]"

definition NestedFilterMemPackage_schema :: input_fields where
  "NestedFilterMemPackage_schema =
    [(''_and'', TList (TNamed ''NestedFilterMemPackage'')),
     (''_or'', TList (TNamed ''NestedFilterMemPackage'')),
     (''_not'', TNamed ''NestedFilterMemPackage''),
     (''name'', TNamed ''FilterString''),
     (''path'', TNamed ''FilterString''),
     (''files'', TNamed ''NestedFilterMemFile'')]"

definition NestedFilterMessageValue_schema :: input_fields where
  "NestedFilterMessageValue_schema =
    [(''_and'', TList (TNamed ''NestedFilterMessageValue'')),
     (''_or'', TList (TNamed ''NestedFilterMessageValue'')),
     (''_not'', TNamed ''NestedFilterMessageValue''),
     (''BankMsgSend'', TNamed ''NestedFilterBankMsgSend''),
     (''MsgCall'', TNamed ''NestedFilterMsgCall''),
     (''MsgAddPackage'', TNamed ''NestedFilterMsgAddPackage''),
     (''MsgRun'', TNamed ''NestedFilterMsgRun'')]"

definition NestedFilterMsgAddPackage_schema :: input_fields where
  "NestedFilterMsgAddPackage_schema =
    [(''_and'', TList (TNamed ''NestedFilterMsgAddPackage'')),
     (''_or'', TList (TNamed ''NestedFilterMsgAddPackage'')),
     (''_not'', TNamed ''NestedFilterMsgAddPackage''),
     (''creator'', TNamed ''FilterString''),
     (''package'', TNamed ''NestedFilterMemPackage''),
     (''deposit'', TNamed ''FilterString''),
     (''send'', TNamed ''FilterString''),
     (''max_deposit'', TNamed ''FilterString'')]"

definition NestedFilterMsgCall_schema :: input_fields where
  "NestedFilterMsgCall_schema =
    [(''_and'', TList (TNamed ''NestedFilterMsgCall'')),
     (''_or'', TList (TNamed ''NestedFilterMsgCall'')),
     (''_not'', TNamed ''NestedFilterMsgCall''),
     (''caller'', TNamed ''FilterString''),
     (''send'', TNamed ''FilterString''),
     (''pkg_path'', TNamed ''FilterString''),
     (''func'', TNamed ''FilterString''),
     (''args'', TNamed ''FilterString''),
     (''max_deposit'', TNamed ''FilterString'')]"

definition NestedFilterMsgRun_schema :: input_fields where
  "NestedFilterMsgRun_schema =
    [(''_and'', TList (TNamed ''NestedFilterMsgRun'')),
     (''_or'', TList (TNamed ''NestedFilterMsgRun'')),
     (''_not'', TNamed ''NestedFilterMsgRun''),
     (''caller'', TNamed ''FilterString''),
     (''send'', TNamed ''FilterString''),
     (''package'', TNamed ''NestedFilterMemPackage''),
     (''max_deposit'', TNamed ''FilterString'')]"

definition NestedFilterStorageDepositEvent_schema :: input_fields where
  "NestedFilterStorageDepositEvent_schema =
    [(''_and'', TList (TNamed ''NestedFilterStorageDepositEvent'')),
     (''_or'', TList (TNamed ''NestedFilterStorageDepositEvent'')),
     (''_not'', TNamed ''NestedFilterStorageDepositEvent''),
     (''type'', TNamed ''FilterString''),
     (''bytes_delta'', TNamed ''FilterInt''),
     (''fee_delta'', TNamed ''NestedFilterCoin''),
     (''pkg_path'', TNamed ''FilterString'')]"

definition NestedFilterStorageUnlockEvent_schema :: input_fields where
  "NestedFilterStorageUnlockEvent_schema =
    [(''_and'', TList (TNamed ''NestedFilterStorageUnlockEvent'')),
     (''_or'', TList (TNamed ''NestedFilterStorageUnlockEvent'')),
     (''_not'', TNamed ''NestedFilterStorageUnlockEvent''),
     (''type'', TNamed ''FilterString''),
     (''bytes_delta'', TNamed ''FilterInt''),
     (''fee_refund'', TNamed ''NestedFilterCoin''),
     (''pkg_path'', TNamed ''FilterString'')]"

definition NestedFilterTransactionMessage_schema :: input_fields where
  "NestedFilterTransactionMessage_schema =
    [(''_and'', TList (TNamed ''NestedFilterTransactionMessage'')),
     (''_or'', TList (TNamed ''NestedFilterTransactionMessage'')),
     (''_not'', TNamed ''NestedFilterTransactionMessage''),
     (''typeUrl'', TNamed ''FilterString''),
     (''route'', TNamed ''FilterString''),
     (''value'', TNamed ''NestedFilterMessageValue'')]"

definition NestedFilterTransactionResponse_schema :: input_fields where
  "NestedFilterTransactionResponse_schema =
    [(''_and'', TList (TNamed ''NestedFilterTransactionResponse'')),
     (''_or'', TList (TNamed ''NestedFilterTransactionResponse'')),
     (''_not'', TNamed ''NestedFilterTransactionResponse''),
     (''log'', TNamed ''FilterString''),
     (''info'', TNamed ''FilterString''),
     (''error'', TNamed ''FilterString''),
     (''data'', TNamed ''FilterString''),
     (''events'', TNamed ''NestedFilterEvent'')]"

definition NestedFilterTxFee_schema :: input_fields where
  "NestedFilterTxFee_schema =
    [(''_and'', TList (TNamed ''NestedFilterTxFee'')),
     (''_or'', TList (TNamed ''NestedFilterTxFee'')),
     (''_not'', TNamed ''NestedFilterTxFee''),
     (''gas_wanted'', TNamed ''FilterInt''),
     (''gas_fee'', TNamed ''NestedFilterCoin'')]"

definition NestedFilterUnknownEvent_schema :: input_fields where
  "NestedFilterUnknownEvent_schema =
    [(''_and'', TList (TNamed ''NestedFilterUnknownEvent'')),
     (''_or'', TList (TNamed ''NestedFilterUnknownEvent'')),
     (''_not'', TNamed ''NestedFilterUnknownEvent''),
     (''value'', TNamed ''FilterString'')]"

definition StorageDepositEventInput_schema :: input_fields where
  "StorageDepositEventInput_schema =
    [(''type'', TNamed ''String''),
     (''bytes_delta'', TNamed ''Int''),
     (''fee_delta'', TNamed ''CoinInput''),
     (''pkg_path'', TNamed ''String'')]"

definition StorageUnlockEventInput_schema :: input_fields where
  "StorageUnlockEventInput_schema =
    [(''type'', TNamed ''String''),
     (''bytes_delta'', TNamed ''Int''),
     (''fee_refund'', TNamed ''CoinInput''),
     (''pkg_path'', TNamed ''String'')]"

definition TransactionBankMessageInput_schema :: input_fields where
  "TransactionBankMessageInput_schema =
    [(''send'', TNamed ''BankMsgSendInput'')]"

definition TransactionFilter_schema :: input_fields where
  "TransactionFilter_schema =
    [(''from_block_height'', TNamed ''Int''),
     (''to_block_height'', TNamed ''Int''),
     (''from_index'', TNamed ''Int''),
     (''to_index'', TNamed ''Int''),
     (''from_gas_wanted'', TNamed ''Int''),
     (''to_gas_wanted'', TNamed ''Int''),
     (''from_gas_used'', TNamed ''Int''),
     (''to_gas_used'', TNamed ''Int''),
     (''hash'', TNamed ''String''),
     (''message'', TList (TNonNull (TNamed ''TransactionMessageInput''))),
     (''memo'', TNamed ''String''),
     (''success'', TNamed ''Boolean''),
     (''events'', TList (TNonNull (TNamed ''EventInput'')))]"

definition TransactionMessageInput_schema :: input_fields where
  "TransactionMessageInput_schema =
    [(''type_url'', TNamed ''MessageType''),
     (''route'', TNamed ''MessageRoute''),
     (''bank_param'', TNamed ''TransactionBankMessageInput''),
     (''vm_param'', TNamed ''TransactionVmMessageInput'')]"

definition TransactionOrder_schema :: input_fields where
  "TransactionOrder_schema =
    [(''heightAndIndex'', TNonNull (TNamed ''Order''))]"

definition TransactionVmMessageInput_schema :: input_fields where
  "TransactionVmMessageInput_schema =
    [(''exec'', TNamed ''MsgCallInput''),
     (''add_package'', TNamed ''MsgAddPackageInput''),
     (''run'', TNamed ''MsgRunInput'')]"

section \<open>Enumerations\<close>

definition FilterableExtra_schema :: "string list" where
  "FilterableExtra_schema = [''MINMAX'']"

definition MessageRoute_schema :: "string list" where
  "MessageRoute_schema = [''vm'', ''bank'']"

definition MessageType_schema :: "string list" where
  "MessageType_schema = [''send'', ''exec'', ''add_package'', ''run'']"

definition Order_schema :: "string list" where
  "Order_schema = [''ASC'', ''DESC'']"

section \<open>Objects and unions\<close>

definition BankMsgSend_schema :: object_fields where
  "BankMsgSend_schema =
    [(''from_address'', [], TNonNull (TNamed ''String'')),
     (''to_address'', [], TNonNull (TNamed ''String'')),
     (''amount'', [], TNonNull (TNamed ''String''))]"

definition Block_schema :: object_fields where
  "Block_schema =
    [(''hash'', [], TNonNull (TNamed ''String'')),
     (''height'', [], TNonNull (TNamed ''Int'')),
     (''version'', [], TNonNull (TNamed ''String'')),
     (''chain_id'', [], TNonNull (TNamed ''String'')),
     (''time'', [], TNonNull (TNamed ''Time'')),
     (''num_txs'', [], TNonNull (TNamed ''Int'')),
     (''total_txs'', [], TNonNull (TNamed ''Int'')),
     (''app_version'', [], TNonNull (TNamed ''String'')),
     (''last_block_hash'', [], TNonNull (TNamed ''String'')),
     (''last_commit_hash'', [], TNonNull (TNamed ''String'')),
     (''validators_hash'', [], TNonNull (TNamed ''String'')),
     (''next_validators_hash'', [], TNonNull (TNamed ''String'')),
     (''consensus_hash'', [], TNonNull (TNamed ''String'')),
     (''app_hash'', [], TNonNull (TNamed ''String'')),
     (''last_results_hash'', [], TNonNull (TNamed ''String'')),
     (''proposer_address_raw'', [], TNonNull (TNamed ''String'')),
     (''txs'', [], TNonNull (TList (TNamed ''BlockTransaction'')))]"

definition BlockTransaction_schema :: object_fields where
  "BlockTransaction_schema =
    [(''hash'', [], TNonNull (TNamed ''String'')),
     (''fee'', [], TNonNull (TNamed ''TxFee'')),
     (''memo'', [], TNonNull (TNamed ''String'')),
     (''content_raw'', [], TNonNull (TNamed ''String''))]"

definition Coin_schema :: object_fields where
  "Coin_schema =
    [(''amount'', [], TNonNull (TNamed ''Int'')),
     (''denom'', [], TNonNull (TNamed ''String''))]"

definition GnoEvent_schema :: object_fields where
  "GnoEvent_schema =
    [(''type'', [], TNonNull (TNamed ''String'')),
     (''pkg_path'', [], TNonNull (TNamed ''String'')),
     (''attrs'', [], TList (TNonNull (TNamed ''GnoEventAttribute'')))]"

definition GnoEventAttribute_schema :: object_fields where
  "GnoEventAttribute_schema =
    [(''key'', [], TNonNull (TNamed ''String'')),
     (''value'', [], TNonNull (TNamed ''String''))]"

definition MemFile_schema :: object_fields where
  "MemFile_schema =
    [(''name'', [], TNonNull (TNamed ''String'')),
     (''body'', [], TNonNull (TNamed ''String''))]"

definition MemPackage_schema :: object_fields where
  "MemPackage_schema =
    [(''name'', [], TNonNull (TNamed ''String'')),
     (''path'', [], TNonNull (TNamed ''String'')),
     (''files'', [], TList (TNonNull (TNamed ''MemFile'')))]"

definition MsgAddPackage_schema :: object_fields where
  "MsgAddPackage_schema =
    [(''creator'', [], TNonNull (TNamed ''String'')),
     (''package'', [], TNonNull (TNamed ''MemPackage'')),
     (''deposit'', [], TNonNull (TNamed ''String'')),
     (''send'', [], TNonNull (TNamed ''String'')),
     (''max_deposit'', [], TNonNull (TNamed ''String''))]"

definition MsgCall_schema :: object_fields where
  "MsgCall_schema =
    [(''caller'', [], TNonNull (TNamed ''String'')),
     (''send'', [], TNonNull (TNamed ''String'')),
     (''pkg_path'', [], TNonNull (TNamed ''String'')),
     (''func'', [], TNonNull (TNamed ''String'')),
     (''args'', [], TList (TNonNull (TNamed ''String''))),
     (''max_deposit'', [], TNonNull (TNamed ''String''))]"

definition MsgRun_schema :: object_fields where
  "MsgRun_schema =
    [(''caller'', [], TNonNull (TNamed ''String'')),
     (''send'', [], TNonNull (TNamed ''String'')),
     (''package'', [], TNonNull (TNamed ''MemPackage'')),
     (''max_deposit'', [], TNonNull (TNamed ''String''))]"

definition Query_schema :: object_fields where
  "Query_schema =
    [(''transactions'', [(''filter'', TNonNull (TNamed ''TransactionFilter''))], TList (TNonNull (TNamed ''Transaction''))),
     (''blocks'', [(''filter'', TNonNull (TNamed ''BlockFilter''))], TList (TNonNull (TNamed ''Block''))),
     (''latestBlockHeight'', [], TNonNull (TNamed ''Int'')),
     (''getBlocks'', [(''where'', TNonNull (TNamed ''FilterBlock'')), (''order'', TNamed ''BlockOrder'')], TList (TNonNull (TNamed ''Block''))),
     (''getTransactions'', [(''where'', TNonNull (TNamed ''FilterTransaction'')), (''order'', TNamed ''TransactionOrder'')], TList (TNonNull (TNamed ''Transaction'')))]"

definition StorageDepositEvent_schema :: object_fields where
  "StorageDepositEvent_schema =
    [(''type'', [], TNonNull (TNamed ''String'')),
     (''bytes_delta'', [], TNonNull (TNamed ''Int'')),
     (''fee_delta'', [], TNonNull (TNamed ''Coin'')),
     (''pkg_path'', [], TNonNull (TNamed ''String''))]"

definition StorageUnlockEvent_schema :: object_fields where
  "StorageUnlockEvent_schema =
    [(''type'', [], TNonNull (TNamed ''String'')),
     (''bytes_delta'', [], TNonNull (TNamed ''Int'')),
     (''fee_refund'', [], TNonNull (TNamed ''Coin'')),
     (''pkg_path'', [], TNonNull (TNamed ''String''))]"

definition Subscription_schema :: object_fields where
  "Subscription_schema =
    [(''transactions'', [(''filter'', TNonNull (TNamed ''TransactionFilter''))], TNonNull (TNamed ''Transaction'')),
     (''blocks'', [(''filter'', TNonNull (TNamed ''BlockFilter''))], TNonNull (TNamed ''Block'')),
     (''getTransactions'', [(''where'', TNonNull (TNamed ''FilterTransaction''))], TNonNull (TNamed ''Transaction'')),
     (''getBlocks'', [(''where'', TNonNull (TNamed ''FilterBlock''))], TNonNull (TNamed ''Block''))]"

definition Transaction_schema :: object_fields where
  "Transaction_schema =
    [(''index'', [], TNonNull (TNamed ''Int'')),
     (''hash'', [], TNonNull (TNamed ''String'')),
     (''success'', [], TNonNull (TNamed ''Boolean'')),
     (''block_height'', [], TNonNull (TNamed ''Int'')),
     (''gas_wanted'', [], TNonNull (TNamed ''Int'')),
     (''gas_used'', [], TNonNull (TNamed ''Int'')),
     (''gas_fee'', [], TNamed ''Coin''),
     (''content_raw'', [], TNonNull (TNamed ''String'')),
     (''messages'', [], TNonNull (TList (TNamed ''TransactionMessage''))),
     (''memo'', [], TNonNull (TNamed ''String'')),
     (''response'', [], TNonNull (TNamed ''TransactionResponse''))]"

definition TransactionMessage_schema :: object_fields where
  "TransactionMessage_schema =
    [(''typeUrl'', [], TNonNull (TNamed ''String'')),
     (''route'', [], TNonNull (TNamed ''String'')),
     (''value'', [], TNonNull (TNamed ''MessageValue''))]"

definition TransactionResponse_schema :: object_fields where
  "TransactionResponse_schema =
    [(''log'', [], TNonNull (TNamed ''String'')),
     (''info'', [], TNonNull (TNamed ''String'')),
     (''error'', [], TNonNull (TNamed ''String'')),
     (''data'', [], TNonNull (TNamed ''String'')),
     (''events'', [], TList (TNamed ''Event''))]"

definition TxFee_schema :: object_fields where
  "TxFee_schema =
    [(''gas_wanted'', [], TNonNull (TNamed ''Int'')),
     (''gas_fee'', [], TNonNull (TNamed ''Coin''))]"

definition UnexpectedMessage_schema :: object_fields where
  "UnexpectedMessage_schema =
    [(''raw'', [], TNonNull (TNamed ''String''))]"

definition UnknownEvent_schema :: object_fields where
  "UnknownEvent_schema =
    [(''value'', [], TNonNull (TNamed ''String''))]"

definition Event_schema :: "string list" where
  "Event_schema = [''GnoEvent'', ''StorageDepositEvent'', ''StorageUnlockEvent'', ''UnknownEvent'']"

definition MessageValue_schema :: "string list" where
  "MessageValue_schema = [''BankMsgSend'', ''MsgCall'', ''MsgAddPackage'', ''MsgRun'', ''UnexpectedMessage'']"

section \<open>The types of introspection\<close>

text \<open>
  The types that every schema has (section 4 of the GraphQL specification) and the library adds when it loads the sources, and
  the two fields of \<open>Query\<close> they are asked for by; the field \<open>__schema\<close> can be null here, where introspection is
  disabled.
\<close>

definition meta_Schema_schema :: object_fields where
  "meta_Schema_schema =
    [(''description'', [], TNamed ''String''),
     (''types'', [], TNonNull (TList (TNonNull (TNamed ''__Type'')))),
     (''queryType'', [], TNonNull (TNamed ''__Type'')),
     (''mutationType'', [], TNamed ''__Type''),
     (''subscriptionType'', [], TNamed ''__Type''),
     (''directives'', [], TNonNull (TList (TNonNull (TNamed ''__Directive''))))]"

definition meta_Type_schema :: object_fields where
  "meta_Type_schema =
    [(''kind'', [], TNonNull (TNamed ''__TypeKind'')),
     (''name'', [], TNamed ''String''),
     (''description'', [], TNamed ''String''),
     (''fields'', [(''includeDeprecated'', TNamed ''Boolean'')], TList (TNonNull (TNamed ''__Field''))),
     (''interfaces'', [], TList (TNonNull (TNamed ''__Type''))),
     (''possibleTypes'', [], TList (TNonNull (TNamed ''__Type''))),
     (''enumValues'', [(''includeDeprecated'', TNamed ''Boolean'')], TList (TNonNull (TNamed ''__EnumValue''))),
     (''inputFields'', [], TList (TNonNull (TNamed ''__InputValue''))),
     (''ofType'', [], TNamed ''__Type''),
     (''specifiedByURL'', [], TNamed ''String'')]"

definition meta_Field_schema :: object_fields where
  "meta_Field_schema =
    [(''name'', [], TNonNull (TNamed ''String'')),
     (''description'', [], TNamed ''String''),
     (''args'', [], TNonNull (TList (TNonNull (TNamed ''__InputValue'')))),
     (''type'', [], TNonNull (TNamed ''__Type'')),
     (''isDeprecated'', [], TNonNull (TNamed ''Boolean'')),
     (''deprecationReason'', [], TNamed ''String'')]"

definition meta_InputValue_schema :: object_fields where
  "meta_InputValue_schema =
    [(''name'', [], TNonNull (TNamed ''String'')),
     (''description'', [], TNamed ''String''),
     (''type'', [], TNonNull (TNamed ''__Type'')),
     (''defaultValue'', [], TNamed ''String'')]"

definition meta_EnumValue_schema :: object_fields where
  "meta_EnumValue_schema =
    [(''name'', [], TNonNull (TNamed ''String'')),
     (''description'', [], TNamed ''String''),
     (''isDeprecated'', [], TNonNull (TNamed ''Boolean'')),
     (''deprecationReason'', [], TNamed ''String'')]"

definition meta_Directive_schema :: object_fields where
  "meta_Directive_schema =
    [(''name'', [], TNonNull (TNamed ''String'')),
     (''description'', [], TNamed ''String''),
     (''locations'', [], TNonNull (TList (TNonNull (TNamed ''__DirectiveLocation'')))),
     (''args'', [], TNonNull (TList (TNonNull (TNamed ''__InputValue'')))),
     (''isRepeatable'', [], TNonNull (TNamed ''Boolean''))]"

definition meta_TypeKind_schema :: "string list" where
  "meta_TypeKind_schema =
    [''SCALAR'', ''OBJECT'', ''INTERFACE'', ''UNION'', ''ENUM'', ''INPUT_OBJECT'', ''LIST'', ''NON_NULL'']"

definition meta_DirectiveLocation_schema :: "string list" where
  "meta_DirectiveLocation_schema =
    [''QUERY'', ''MUTATION'', ''SUBSCRIPTION'', ''FIELD'', ''FRAGMENT_DEFINITION'', ''FRAGMENT_SPREAD'',
     ''INLINE_FRAGMENT'', ''VARIABLE_DEFINITION'', ''SCHEMA'', ''SCALAR'', ''OBJECT'', ''FIELD_DEFINITION'',
     ''ARGUMENT_DEFINITION'', ''INTERFACE'', ''UNION'', ''ENUM'', ''ENUM_VALUE'', ''INPUT_OBJECT'',
     ''INPUT_FIELD_DEFINITION'']"

definition meta_Query_schema :: object_fields where
  "meta_Query_schema =
    [(''__type'', [(''name'', TNonNull (TNamed ''String''))], TNamed ''__Type''),
     (''__schema'', [], TNamed ''__Schema'')]"

section \<open>The schema\<close>

text \<open>The types by name, with the scalars of GraphQL and the scalar \<open>Time\<close>.\<close>

definition schema_types :: "(string \<times> type_def) list" where
  "schema_types =
    [(''Int'', DScalar),
     (''Float'', DScalar),
     (''String'', DScalar),
     (''Boolean'', DScalar),
     (''ID'', DScalar),
     (''Time'', DScalar),
     (''AmountInput'', DInput AmountInput_schema),
     (''BankMsgSend'', DObject BankMsgSend_schema),
     (''BankMsgSendInput'', DInput BankMsgSendInput_schema),
     (''Block'', DObject Block_schema),
     (''BlockFilter'', DInput BlockFilter_schema),
     (''BlockOrder'', DInput BlockOrder_schema),
     (''BlockTransaction'', DObject BlockTransaction_schema),
     (''Coin'', DObject Coin_schema),
     (''CoinInput'', DInput CoinInput_schema),
     (''EventAttributeInput'', DInput EventAttributeInput_schema),
     (''EventInput'', DInput EventInput_schema),
     (''FilterBankMsgSend'', DInput FilterBankMsgSend_schema),
     (''FilterBlock'', DInput FilterBlock_schema),
     (''FilterBlockTransaction'', DInput FilterBlockTransaction_schema),
     (''FilterBoolean'', DInput FilterBoolean_schema),
     (''FilterCoin'', DInput FilterCoin_schema),
     (''FilterEvent'', DInput FilterEvent_schema),
     (''FilterGnoEvent'', DInput FilterGnoEvent_schema),
     (''FilterGnoEventAttribute'', DInput FilterGnoEventAttribute_schema),
     (''FilterInt'', DInput FilterInt_schema),
     (''FilterMemFile'', DInput FilterMemFile_schema),
     (''FilterMemPackage'', DInput FilterMemPackage_schema),
     (''FilterMessageValue'', DInput FilterMessageValue_schema),
     (''FilterMsgAddPackage'', DInput FilterMsgAddPackage_schema),
     (''FilterMsgCall'', DInput FilterMsgCall_schema),
     (''FilterMsgRun'', DInput FilterMsgRun_schema),
     (''FilterStorageDepositEvent'', DInput FilterStorageDepositEvent_schema),
     (''FilterStorageUnlockEvent'', DInput FilterStorageUnlockEvent_schema),
     (''FilterString'', DInput FilterString_schema),
     (''FilterTime'', DInput FilterTime_schema),
     (''FilterTransaction'', DInput FilterTransaction_schema),
     (''FilterTransactionMessage'', DInput FilterTransactionMessage_schema),
     (''FilterTransactionResponse'', DInput FilterTransactionResponse_schema),
     (''FilterTxFee'', DInput FilterTxFee_schema),
     (''FilterUnknownEvent'', DInput FilterUnknownEvent_schema),
     (''FilterableExtra'', DEnum FilterableExtra_schema),
     (''GnoEvent'', DObject GnoEvent_schema),
     (''GnoEventAttribute'', DObject GnoEventAttribute_schema),
     (''GnoEventInput'', DInput GnoEventInput_schema),
     (''MemFile'', DObject MemFile_schema),
     (''MemFileInput'', DInput MemFileInput_schema),
     (''MemPackage'', DObject MemPackage_schema),
     (''MemPackageInput'', DInput MemPackageInput_schema),
     (''MessageRoute'', DEnum MessageRoute_schema),
     (''MessageType'', DEnum MessageType_schema),
     (''MsgAddPackage'', DObject MsgAddPackage_schema),
     (''MsgAddPackageInput'', DInput MsgAddPackageInput_schema),
     (''MsgCall'', DObject MsgCall_schema),
     (''MsgCallInput'', DInput MsgCallInput_schema),
     (''MsgRun'', DObject MsgRun_schema),
     (''MsgRunInput'', DInput MsgRunInput_schema),
     (''NestedFilterBankMsgSend'', DInput NestedFilterBankMsgSend_schema),
     (''NestedFilterBlockTransaction'', DInput NestedFilterBlockTransaction_schema),
     (''NestedFilterCoin'', DInput NestedFilterCoin_schema),
     (''NestedFilterEvent'', DInput NestedFilterEvent_schema),
     (''NestedFilterGnoEvent'', DInput NestedFilterGnoEvent_schema),
     (''NestedFilterGnoEventAttribute'', DInput NestedFilterGnoEventAttribute_schema),
     (''NestedFilterMemFile'', DInput NestedFilterMemFile_schema),
     (''NestedFilterMemPackage'', DInput NestedFilterMemPackage_schema),
     (''NestedFilterMessageValue'', DInput NestedFilterMessageValue_schema),
     (''NestedFilterMsgAddPackage'', DInput NestedFilterMsgAddPackage_schema),
     (''NestedFilterMsgCall'', DInput NestedFilterMsgCall_schema),
     (''NestedFilterMsgRun'', DInput NestedFilterMsgRun_schema),
     (''NestedFilterStorageDepositEvent'', DInput NestedFilterStorageDepositEvent_schema),
     (''NestedFilterStorageUnlockEvent'', DInput NestedFilterStorageUnlockEvent_schema),
     (''NestedFilterTransactionMessage'', DInput NestedFilterTransactionMessage_schema),
     (''NestedFilterTransactionResponse'', DInput NestedFilterTransactionResponse_schema),
     (''NestedFilterTxFee'', DInput NestedFilterTxFee_schema),
     (''NestedFilterUnknownEvent'', DInput NestedFilterUnknownEvent_schema),
     (''Order'', DEnum Order_schema),
     (''Query'', DObject (Query_schema @ meta_Query_schema)),
     (''StorageDepositEvent'', DObject StorageDepositEvent_schema),
     (''StorageDepositEventInput'', DInput StorageDepositEventInput_schema),
     (''StorageUnlockEvent'', DObject StorageUnlockEvent_schema),
     (''StorageUnlockEventInput'', DInput StorageUnlockEventInput_schema),
     (''Subscription'', DObject Subscription_schema),
     (''Transaction'', DObject Transaction_schema),
     (''TransactionBankMessageInput'', DInput TransactionBankMessageInput_schema),
     (''TransactionFilter'', DInput TransactionFilter_schema),
     (''TransactionMessage'', DObject TransactionMessage_schema),
     (''TransactionMessageInput'', DInput TransactionMessageInput_schema),
     (''TransactionOrder'', DInput TransactionOrder_schema),
     (''TransactionResponse'', DObject TransactionResponse_schema),
     (''TransactionVmMessageInput'', DInput TransactionVmMessageInput_schema),
     (''TxFee'', DObject TxFee_schema),
     (''UnexpectedMessage'', DObject UnexpectedMessage_schema),
     (''UnknownEvent'', DObject UnknownEvent_schema),
     (''Event'', DUnion Event_schema),
     (''MessageValue'', DUnion MessageValue_schema),
     (''__Schema'', DObject meta_Schema_schema),
     (''__Type'', DObject meta_Type_schema),
     (''__Field'', DObject meta_Field_schema),
     (''__InputValue'', DObject meta_InputValue_schema),
     (''__EnumValue'', DObject meta_EnumValue_schema),
     (''__Directive'', DObject meta_Directive_schema),
     (''__TypeKind'', DEnum meta_TypeKind_schema),
     (''__DirectiveLocation'', DEnum meta_DirectiveLocation_schema)]"

definition schema :: "string \<rightharpoonup> type_def" where
  "schema = map_of schema_types"

lemma schema_distinct: "distinct (map fst schema_types)"
  by code_simp

section \<open>Values of a type\<close>

lemma object_value_size: "(k, x) \<in> set kvs \<Longrightarrow> size x < size (IObject kvs)"
  using size_list_estimation' [of "(k, x)" kvs "size x" "size_prod (\<lambda>_. 0) size"] by simp

lemma list_value_size: "x \<in> set vs \<Longrightarrow> size x < size (IList vs)"
  using size_list_estimation' [of x vs "size x" size] by simp

text \<open>
  What the validation of a request establishes (sections 3.10 and 6.1.2 of the GraphQL specification): nil is a value of every
  nullable type; a list type takes a list, or a single value as a list of one; an enum takes one of its names; an
  input takes an object without unknown or repeated fields that has a field for every non-null type. Which values a
  scalar takes is a parameter.
\<close>

function (sequential) conforms :: "(string \<Rightarrow> gql_input \<Rightarrow> bool) \<Rightarrow> gql_type \<Rightarrow> gql_input \<Rightarrow> bool" where
  "conforms sc (TNonNull t) v \<longleftrightarrow> v \<noteq> INull \<and> conforms sc t v"
| "conforms sc (TList t) (IList vs) \<longleftrightarrow> (\<forall>x \<in> set vs. conforms sc t x)"
| "conforms sc (TList t) v \<longleftrightarrow> v = INull \<or> conforms sc t v"
| "conforms sc (TNamed n) INull \<longleftrightarrow> True"
| "conforms sc (TNamed n) v \<longleftrightarrow>
     (case schema n of
        Some DScalar \<Rightarrow> sc n v
      | Some (DEnum es) \<Rightarrow> (case v of IString s \<Rightarrow> List.member es s | _ \<Rightarrow> False)
      | Some (DInput fs) \<Rightarrow>
          (case v of
             IObject kvs \<Rightarrow>
               distinct (map fst kvs) \<and>
               (\<forall>(k, x) \<in> set kvs. case map_of fs k of None \<Rightarrow> False | Some t \<Rightarrow> conforms sc t x) \<and>
               (\<forall>(k, t) \<in> set fs. case t of TNonNull _ \<Rightarrow> k \<in> fst ` set kvs | _ \<Rightarrow> True)
           | _ \<Rightarrow> False)
      | _ \<Rightarrow> False)"
  by pat_completeness auto

termination
  by (relation "measures [\<lambda>(sc, t, v). size v, \<lambda>(sc, t, v). size t]")
    (auto dest: object_value_size list_value_size)

text \<open>A decoder takes every value of a type: it neither panics nor fails.\<close>

definition accepts :: "(string \<Rightarrow> gql_input \<Rightarrow> bool) \<Rightarrow> gql_type \<Rightarrow> 'a decoder \<Rightarrow> bool" where
  "accepts sc t dec \<longleftrightarrow> (\<forall>p v. conforms sc t v \<longrightarrow> (\<exists>x. dec p v = Ret (Inr x)))"

end
