(* ===== verification/Graph_Responses.thy ===== *)
theory Graph_Responses
  imports Graph_Executors Graph_Schema
begin

text \<open>
  Responses have the types of the schema (\<open>conform\<close>): whatever fails or panics on the way, no field that the schema calls
  non-null is null in a response, because the null moves up to the next nullable field, and every scalar is
  written as its type is.
\<close>

section \<open>Responses of a type\<close>

text \<open>An object answers to its own name and to the unions it belongs to.\<close>

definition schema_unions :: "(string \<times> string list) list" where
  "schema_unions = concat (map (\<lambda>(n, d). case d of DUnion us \<Rightarrow> [(n, us)] | _ \<Rightarrow> []) schema_types)"

definition implementors :: "string \<Rightarrow> string list" where
  "implementors n = n # map fst (filter (\<lambda>(u, us). List.member us n) schema_unions)"

text \<open>
  What a value without parts is written as (sections 3.5 and 3.9 of the GraphQL specification): an \<open>Int\<close> is a number, a \<open>Boolean\<close> a
  truth value, a \<open>String\<close>, an \<open>ID\<close> and a \<open>Time\<close> a string, and a value of an enumeration the string of one of its names.
  There are no fractions in the responses, and no field of type \<open>Float\<close>.
\<close>

fun written_as :: "string \<Rightarrow> gql_out \<Rightarrow> bool" where
  "written_as n (OInt i) \<longleftrightarrow> n = ''Int''"
| "written_as n (OBool b) \<longleftrightarrow> n = ''Boolean''"
| "written_as n (OText s) \<longleftrightarrow> n \<in> {''String'', ''ID'', ''Time''}"
| "written_as n v \<longleftrightarrow> False"

definition leaf :: "string \<Rightarrow> gql_out \<Rightarrow> bool" where
  "leaf n v \<longleftrightarrow>
     (case schema n of
        Some DScalar \<Rightarrow> written_as n v
      | Some (DEnum es) \<Rightarrow> (case v of OText s \<Rightarrow> List.member es s | _ \<Rightarrow> False)
      | _ \<Rightarrow> False)"

text \<open>
  The object of a selection has exactly the selected fields, under the names they were selected by, each of its type; the field
  \<open>__typename\<close>, which every object has, is the name of the object, also where a union was asked for.
\<close>

function (sequential) answers :: "'sel exec_env \<Rightarrow> 'sel \<Rightarrow> gql_type \<Rightarrow> gql_out \<Rightarrow> bool" where
  "answers E sel (TNonNull t) v \<longleftrightarrow> v \<noteq> ONull \<and> answers E sel t v"
| "answers E sel t ONull \<longleftrightarrow> True"
| "answers E sel (TList t) (OArray vs) \<longleftrightarrow> (\<forall>v \<in> set vs. answers E sel t v)"
| "answers E sel (TNamed n) (OObject kvs) \<longleftrightarrow>
     (\<exists>fs obj.
        (schema n = Some (DObject fs) \<and> obj = n \<or>
         (\<exists>us. schema n = Some (DUnion us) \<and> List.member us obj \<and> schema obj = Some (DObject fs))) \<and>
        length kvs = length (xeCollect E sel (implementors obj)) \<and>
        (\<forall>(c, (k, v)) \<in> set (zip (xeCollect E sel (implementors obj)) kvs).
           k = cfAlias c \<and>
           (if cfName c = ''__typename'' then v = OText obj
            else \<exists>as t. map_of fs (cfName c) = Some (as, t) \<and> answers E (cfSelections c) t v)))"
| "answers E sel (TNamed n) (OArray vs) \<longleftrightarrow> False"
| "answers E sel (TNamed n) v \<longleftrightarrow> leaf n v"
| "answers E sel t v \<longleftrightarrow> False"
  by pat_completeness auto
termination
proof (relation "measures [\<lambda>(E, sel, t, v). size v, \<lambda>(E, sel, t, v). size t]", goal_cases)
  case (3 E sel t vs v)
  then show ?case using size_list_estimation' [of v vs "size v" size] by simp
next
  case (4 E sel n kvs fs obj x c kv k v as t)
  then have "(k, v) \<in> set kvs" by (auto dest: set_zip_rightD)
  then show ?case using size_list_estimation' [of "(k, v)" kvs "size v" "size_prod (\<lambda>_. 0) size"] by simp
qed auto

text \<open>
  The marshalers of the library (\<open>graphql.MarshalInt\<close>, \<open>MarshalInt64\<close>, \<open>MarshalBoolean\<close>, \<open>MarshalString\<close>, \<open>MarshalTime\<close>) write what
  they are given: numbers, truth values and strings as themselves, and a time as some string, the zero time as null.
\<close>

definition writes_scalars :: "'sel exec_env \<Rightarrow> bool" where
  "writes_scalars E \<longleftrightarrow>
     (\<forall>i. xeInt E i = OInt i \<and> xeInt64 E i = OInt i) \<and> (\<forall>b. xeBoolean E b = OBool b) \<and> (\<forall>s. xeString E s = OText s) \<and>
     (\<forall>t. xeTime E t = ONull \<or> (\<exists>s. xeTime E t = OText s))"

section \<open>What a run returns\<close>

named_theorems conform \<open>runs that return a value of a type\<close>

definition returns :: "('a \<Rightarrow> bool) \<Rightarrow> 'a run \<Rightarrow> bool" where
  "returns P m \<longleftrightarrow> (\<forall>l x l'. m l = (Ret x, l') \<longrightarrow> P x)"

lemma returnsI: "(\<And>l x l'. m l = (Ret x, l') \<Longrightarrow> P x) \<Longrightarrow> returns P m"
  by (auto simp: returns_def)

lemma returnsD: "returns P m \<Longrightarrow> m l = (Ret x, l') \<Longrightarrow> P x"
  by (auto simp: returns_def)

lemma bindX_Ret:
  "bindX m k l = (Ret y, l') \<longleftrightarrow> (\<exists>x l1. m l = (Ret x, l1) \<and> k x l1 = (Ret y, l'))"
  by (auto simp: bindX_def split: prod.splits outcome.splits)

lemma returns_pure [simp]: "returns P (retX x) = P x" "returns P (panicX s)"
  by (auto simp: returns_def retX_def panicX_def)

lemma returns_basic:
  "P ONull \<Longrightarrow> returns P (notNullX E p s)" "P ONull \<Longrightarrow> returns P (bindX (reportX p e) (\<lambda>_. retX ONull))"
  by (auto simp: returns_def retX_def panicX_def notNullX_def reportX_def bindX_def)

lemma returns_bind: "(\<And>x. Q x \<Longrightarrow> returns P (k x)) \<Longrightarrow> returns Q m \<Longrightarrow> returns P (bindX m k)"
  unfolding returns_def bindX_Ret by blast

lemma returns_bind_any: "(\<And>x. returns P (k x)) \<Longrightarrow> returns P (bindX m k)"
  unfolding returns_def bindX_Ret by blast

lemma returns_recover: "P ONull \<Longrightarrow> returns P m \<Longrightarrow> returns P (recoverX E p m)"
  by (auto simp: returns_def recoverX_def split: prod.splits outcome.splits)

lemma returns_field [conform]:
  assumes "P ONull" "\<And>v. returns P (marshal v)"
  shows "returns P (fieldX E p nonNull resolve marshal)"
  unfolding fieldX_def using assms
  by (intro returns_recover returns_bind_any) (auto simp: returns_basic split: sum.split option.split)

lemma returns_resolved:
  assumes "P ONull" "\<And>v. d = Ret (Inr (Some v)) \<Longrightarrow> returns P (marshal v)"
  shows "returns P (fieldX E p nonNull (pureX d) marshal)"
  unfolding fieldX_def
proof (rule returns_recover, rule assms(1), rule returns_bind [where Q = "\<lambda>r. d = Ret r"])
  fix r assume "d = Ret r"
  with assms show "returns P (case r of Inl e \<Rightarrow> bindX (reportX p e) (\<lambda>_. retX ONull)
      | Inr None \<Rightarrow> if nonNull then notNullX E p ''must not be null'' else retX ONull | Inr (Some v) \<Rightarrow> marshal v)"
    by (simp add: returns_basic split: sum.split option.split)
qed (simp add: returns_def pureX_def)

lemma returns_context [conform]:
  "P ONull \<Longrightarrow> (\<And>x. returns P (k x)) \<Longrightarrow> returns P (contextX E p args k)"
  by (auto simp: contextX_def returns_basic split: outcome.split sum.split)

lemma returns_root [conform]: "returns P m \<Longrightarrow> returns P (rootX E p m)"
  by (auto simp: returns_def rootX_def split: prod.splits outcome.splits)

lemma returns_scalar: "P ONull \<Longrightarrow> P v \<Longrightarrow> returns P (scalarX E p v)"
  by (simp add: scalarX_def returns_basic)

lemma returns_required [conform]: "P ONull \<Longrightarrow> (\<And>v. returns P (f v)) \<Longrightarrow> returns P (requiredX E p f v)"
  by (simp add: requiredX_def returns_basic split: option.split)

lemma returns_nullable [conform]: "P ONull \<Longrightarrow> (\<And>v. returns P (f v)) \<Longrightarrow> returns P (nullableX f v)"
  by (simp add: nullableX_def returns_basic split: option.split)

section \<open>Lists and objects\<close>

text \<open>A type without the demand that the value is not null.\<close>

fun nullable_part :: "gql_type \<Rightarrow> gql_type" where
  "nullable_part (TNonNull t) = t"
| "nullable_part t = t"

lemma answers_iff:
  "answers E sel t v \<longleftrightarrow> ((\<exists>u. t = TNonNull u) \<longrightarrow> v \<noteq> ONull) \<and> answers E sel (nullable_part t) v"
  by (cases t) auto

lemma answers_null [conform]: "answers E sel (TNamed n) ONull" "answers E sel (TList t) ONull"
  by simp_all

lemma elems_return:
  assumes "\<And>p v. v \<in> set vs \<Longrightarrow> returns Q (f p v)" "elemsX E f p i alive vs l = (Some xs, l')"
  shows "\<forall>x \<in> set xs. Q x"
  using assms
proof (induction vs arbitrary: i alive l xs)
  case (Cons v vs)
  note IH = Cons.IH [OF Cons.prems(1)]
  from Cons.prems(2) show ?case
  proof (cases "f (p @ [PIndex i]) v l")
    case (Pair r l1)
    show ?thesis
    proof (cases r)
      case (Panic s)
      with Cons.prems(2) Pair IH show ?thesis by auto
    next
      case (Ret x)
      then have "Q x" using Cons.prems(1) [of v] Pair by (auto dest: returnsD)
      with Cons.prems(2) Pair Ret IH show ?thesis
        by (cases "elemsX E f p (Suc i) True vs l1") (auto split: if_splits)
    qed
  qed
qed (auto split: if_splits)

lemma returns_list:
  assumes "\<And>p v. v \<in> set vs \<Longrightarrow> returns (answers E sel (nullable_part t)) (f p v)" and "(\<exists>u. t = TNonNull u) \<Longrightarrow> nonNull"
  shows "returns (answers E sel (TList t)) (listX E nonNull f p vs)"
proof (rule returnsI)
  fix l x l' assume run: "listX E nonNull f p vs l = (Ret x, l')"
  obtain ret l1 where e: "elemsX E f p 0 True vs l = (ret, l1)" by fastforce
  have "\<forall>x \<in> set xs. answers E sel (nullable_part t) x" if "ret = Some xs" for xs
    using e that by (intro elems_return [OF assms(1)]) auto
  then have "\<forall>x \<in> set (deref [] ret). answers E sel (nullable_part t) x" by (cases ret) simp_all
  then show "answers E sel (TList t) x"
    using run e assms(2) by (auto simp: listX_def Let_def answers_iff [of E sel t] split: if_splits)
qed

lemma returns_lists [conform]:
  "(\<And>p v. returns (answers E sel (TNamed n)) (f p v)) \<Longrightarrow> returns (answers E sel (TList (TNonNull (TNamed n)))) (listX E True f p vs)"
  "(\<And>p v. returns (answers E sel (TNamed n)) (f p v)) \<Longrightarrow> returns (answers E sel (TList (TNamed n))) (listX E b f p vs)"
  by (rule returns_list; simp)+

lemma loop_returns:
  assumes "\<And>v. returns Q (f v)"
  shows "returns (\<lambda>xs. \<forall>x \<in> set xs. Q x) (loopX f vs)"
proof (induction vs)
  case (Cons v vs)
  then show ?case
    using assms by (auto simp: returns_basic intro!: returns_bind [where Q = Q] returns_bind [where Q = "\<lambda>xs. \<forall>x \<in> set xs. Q x"])
qed (simp add: returns_basic)

lemma returns_strings [conform]:
  assumes "\<And>v. returns (answers E sel (TNamed n)) (f v)"
  shows "returns (answers E sel (TList (TNonNull (TNamed n)))) (stringsX f vs)"
  unfolding stringsX_def
  by (rule returns_bind [OF _ loop_returns [OF assms]]) (auto simp: returns_basic)

text \<open>The fields that a run of the selections returns, if none of them is null against the schema.\<close>

definition field_conforms :: "'sel exec_env \<Rightarrow> object_fields \<Rightarrow> 'sel object_field \<Rightarrow> bool" where
  "field_conforms E fs f \<longleftrightarrow> (case f of (k, counted, exec) \<Rightarrow>
     \<exists>as t. map_of fs k = Some (as, t) \<and> ((\<exists>u. t = TNonNull u) \<longrightarrow> counted) \<and>
       (\<forall>p c. returns (answers E (cfSelections c) (nullable_part t)) (exec p c)))"

definition selected_ok :: "'sel exec_env \<Rightarrow> string \<Rightarrow> object_fields \<Rightarrow> 'sel collected \<Rightarrow> string \<times> gql_out \<Rightarrow> bool" where
  "selected_ok E ty fs c kv \<longleftrightarrow> fst kv = cfAlias c \<and>
     (if cfName c = ''__typename'' then snd kv = OText ty
      else \<exists>as t. map_of fs (cfName c) = Some (as, t) \<and> answers E (cfSelections c) t (snd kv))"

lemma field_selected:
  assumes "field_conforms E fs (cfName c, counted, exec)" and "cfName c \<noteq> ''__typename''"
  shows "returns (\<lambda>v. \<not> (counted \<and> v = ONull) \<longrightarrow> selected_ok E ty fs c (cfAlias c, v)) (exec p c)"
proof (rule returnsI, rule impI)
  obtain as t where t: "map_of fs (cfName c) = Some (as, t)" "(\<exists>u. t = TNonNull u) \<longrightarrow> counted"
    and r: "returns (answers E (cfSelections c) (nullable_part t)) (exec p c)"
    using assms(1) by (auto simp: field_conforms_def)
  fix l x l' assume "exec p c l = (Ret x, l')" "\<not> (counted \<and> x = ONull)"
  then have "answers E (cfSelections c) t x"
    using returnsD [OF r] t(2) answers_iff [of E "cfSelections c" t x] by blast
  with t(1) assms(2) show "selected_ok E ty fs c (cfAlias c, x)" by (simp add: selected_ok_def)
qed

lemma selections_return:
  assumes fields: "\<forall>f \<in> set ofs. field_conforms E fs f" and writes: "writes_scalars E"
  shows "returns (\<lambda>(kvs, n). n = 0 \<longrightarrow> list_all2 (selected_ok E ty fs) cs kvs) (selectionsX E ty ofs p cs)"
proof (induction cs)
  case (Cons c cs)
  let ?first = "if cfName c = ''__typename'' then retX (xeString E ty, 0)
        else (case map_of ofs (cfName c) of
                None \<Rightarrow> panicX (''unknown field '' @ cfName c)
              | Some (counted, exec) \<Rightarrow> bindX (exec p c) (\<lambda>v. retX (v, if counted \<and> v = ONull then 1 else 0)))"
  have "returns (\<lambda>(v, n). n = (0::nat) \<longrightarrow> selected_ok E ty fs c (cfAlias c, v)) ?first"
  proof (cases "cfName c = ''__typename''")
    case True
    with writes show ?thesis by (simp add: returns_basic selected_ok_def writes_scalars_def)
  next
    case False
    show ?thesis
    proof (cases "map_of ofs (cfName c)")
      case None
      with False show ?thesis by (simp add: returns_basic)
    next
      case (Some f)
      obtain counted exec where f: "f = (counted, exec)" by fastforce
      have "field_conforms E fs (cfName c, counted, exec)" using fields Some f map_of_SomeD by fastforce
      then have "returns (\<lambda>v. \<not> (counted \<and> v = ONull) \<longrightarrow> selected_ok E ty fs c (cfAlias c, v)) (exec p c)"
        using False by (rule field_selected)
      then have "returns (\<lambda>(v, n). n = (0::nat) \<longrightarrow> selected_ok E ty fs c (cfAlias c, v))
          (bindX (exec p c) (\<lambda>v. retX (v, if counted \<and> v = ONull then 1 else 0)))"
        by (rule returns_bind [rotated]) simp
      with False Some f show ?thesis by simp
    qed
  qed
  then show ?case
    unfolding selectionsX.simps
  proof (rule returns_bind [rotated], clarify)
    fix v n assume v: "n = (0::nat) \<longrightarrow> selected_ok E ty fs c (cfAlias c, v)"
    show "returns (\<lambda>(kvs, n). n = 0 \<longrightarrow> list_all2 (selected_ok E ty fs) (c # cs) kvs)
        (bindX (selectionsX E ty ofs p cs) (\<lambda>(kvs, invalids). retX ((cfAlias c, v) # kvs, n + invalids)))"
      using Cons.IH by (rule returns_bind [rotated]) (use v in auto)
  qed
qed simp

lemma returns_object:
  assumes "schema n = Some (DObject fs)" and "impl = implementors n" and "\<forall>f \<in> set ofs. field_conforms E fs f"
    and "writes_scalars E"
  shows "returns (answers E sel (TNamed n)) (objectX E impl n ofs sel p)"
  unfolding objectX_def
proof (rule returns_bind [OF _ selections_return [OF assms(3,4)]])
  fix r :: "(string \<times> gql_out) list \<times> nat"
  obtain kvs n' where r: "r = (kvs, n')" by fastforce
  assume "case r of (kvs, k) \<Rightarrow> k = 0 \<longrightarrow> list_all2 (selected_ok E n fs) (xeCollect E sel impl) kvs"
  then show "returns (answers E sel (TNamed n)) (case r of (kvs, invalids) \<Rightarrow> retX (if invalids > 0 then ONull else OObject kvs))"
    using assms(1,2) r by (auto simp: returns_basic list_all2_iff selected_ok_def split: prod.splits)
qed

text \<open>An object of a union is a value of the union.\<close>

lemma answers_union:
  assumes "schema n = Some (DUnion us)" "List.member us obj" "schema obj = Some (DObject fs)"
    and "returns (answers E sel (TNamed obj)) m"
  shows "returns (answers E sel (TNamed n)) m"
proof -
  have "answers E sel (TNamed n) v" if "answers E sel (TNamed obj) v" for v
    using that assms(1-3) by (cases v) (auto simp: leaf_def split del: if_split)
  with assms(4) show ?thesis by (auto simp: returns_def)
qed

section \<open>The objects of the schema\<close>

lemma object_lookup:
  "schema ''Coin'' = Some (DObject Coin_schema)"
  "schema ''TxFee'' = Some (DObject TxFee_schema)"
  "schema ''BlockTransaction'' = Some (DObject BlockTransaction_schema)"
  "schema ''Block'' = Some (DObject Block_schema)"
  "schema ''BankMsgSend'' = Some (DObject BankMsgSend_schema)"
  "schema ''MsgCall'' = Some (DObject MsgCall_schema)"
  "schema ''MemFile'' = Some (DObject MemFile_schema)"
  "schema ''MemPackage'' = Some (DObject MemPackage_schema)"
  "schema ''MsgAddPackage'' = Some (DObject MsgAddPackage_schema)"
  "schema ''MsgRun'' = Some (DObject MsgRun_schema)"
  "schema ''UnexpectedMessage'' = Some (DObject UnexpectedMessage_schema)"
  "schema ''TransactionMessage'' = Some (DObject TransactionMessage_schema)"
  "schema ''GnoEventAttribute'' = Some (DObject GnoEventAttribute_schema)"
  "schema ''GnoEvent'' = Some (DObject GnoEvent_schema)"
  "schema ''StorageDepositEvent'' = Some (DObject StorageDepositEvent_schema)"
  "schema ''StorageUnlockEvent'' = Some (DObject StorageUnlockEvent_schema)"
  "schema ''UnknownEvent'' = Some (DObject UnknownEvent_schema)"
  "schema ''TransactionResponse'' = Some (DObject TransactionResponse_schema)"
  "schema ''Transaction'' = Some (DObject Transaction_schema)"
  "schema ''Query'' = Some (DObject (Query_schema @ meta_Query_schema))"
  "schema ''__Schema'' = Some (DObject meta_Schema_schema)"
  "schema ''__Type'' = Some (DObject meta_Type_schema)"
  "schema ''__Field'' = Some (DObject meta_Field_schema)"
  "schema ''__InputValue'' = Some (DObject meta_InputValue_schema)"
  "schema ''__EnumValue'' = Some (DObject meta_EnumValue_schema)"
  "schema ''__Directive'' = Some (DObject meta_Directive_schema)"
  unfolding schema_def by (rule map_of_is_SomeI [OF schema_distinct]; simp only: schema_types_def list.set; (rule
      insertI1 | rule insertI2)+)+

lemma union_lookup:
  "schema ''Event'' = Some (DUnion Event_schema)"
  "schema ''MessageValue'' = Some (DUnion MessageValue_schema)"
  unfolding schema_def by (rule map_of_is_SomeI [OF schema_distinct]; simp only: schema_types_def list.set; (rule
      insertI1 | rule insertI2)+)+

lemma enum_lookup:
  "schema ''__TypeKind'' = Some (DEnum meta_TypeKind_schema)"
  "schema ''__DirectiveLocation'' = Some (DEnum meta_DirectiveLocation_schema)"
  unfolding schema_def by (rule map_of_is_SomeI [OF schema_distinct]; simp only: schema_types_def list.set; (rule
      insertI1 | rule insertI2)+)+

lemma scalar_lookup:
  "schema ''Int'' = Some DScalar"
  "schema ''Boolean'' = Some DScalar"
  "schema ''String'' = Some DScalar"
  "schema ''Time'' = Some DScalar"
  unfolding schema_def by (rule map_of_is_SomeI [OF schema_distinct]; simp only: schema_types_def list.set; (rule
      insertI1 | rule insertI2)+)+

lemma schema_unions: "schema_unions = [(''Event'', Event_schema), (''MessageValue'', MessageValue_schema)]"
  by (simp add: schema_unions_def schema_types_def)

lemma object_implementors:
  "coinImplementors = implementors ''Coin''"
  "txFeeImplementors = implementors ''TxFee''"
  "blockTransactionImplementors = implementors ''BlockTransaction''"
  "blockImplementors = implementors ''Block''"
  "bankMsgSendImplementors = implementors ''BankMsgSend''"
  "msgCallImplementors = implementors ''MsgCall''"
  "memFileImplementors = implementors ''MemFile''"
  "memPackageImplementors = implementors ''MemPackage''"
  "msgAddPackageImplementors = implementors ''MsgAddPackage''"
  "msgRunImplementors = implementors ''MsgRun''"
  "unexpectedMessageImplementors = implementors ''UnexpectedMessage''"
  "transactionMessageImplementors = implementors ''TransactionMessage''"
  "gnoEventAttributeImplementors = implementors ''GnoEventAttribute''"
  "gnoEventImplementors = implementors ''GnoEvent''"
  "storageDepositEventImplementors = implementors ''StorageDepositEvent''"
  "storageUnlockEventImplementors = implementors ''StorageUnlockEvent''"
  "unknownEventImplementors = implementors ''UnknownEvent''"
  "transactionResponseImplementors = implementors ''TransactionResponse''"
  "transactionImplementors = implementors ''Transaction''"
  "queryImplementors = implementors ''Query''"
  "schemaImplementors = implementors ''__Schema''"
  "typeImplementors = implementors ''__Type''"
  "fieldImplementors = implementors ''__Field''"
  "inputValueImplementors = implementors ''__InputValue''"
  "enumValueImplementors = implementors ''__EnumValue''"
  "directiveImplementors = implementors ''__Directive''"
  by (simp_all add: implementors_def schema_unions Event_schema_def MessageValue_schema_def coinImplementors_def
      txFeeImplementors_def blockTransactionImplementors_def blockImplementors_def bankMsgSendImplementors_def
      msgCallImplementors_def memFileImplementors_def memPackageImplementors_def msgAddPackageImplementors_def
      msgRunImplementors_def unexpectedMessageImplementors_def transactionMessageImplementors_def
      gnoEventAttributeImplementors_def gnoEventImplementors_def storageDepositEventImplementors_def
      storageUnlockEventImplementors_def unknownEventImplementors_def transactionResponseImplementors_def
      transactionImplementors_def queryImplementors_def schemaImplementors_def typeImplementors_def
      fieldImplementors_def inputValueImplementors_def enumValueImplementors_def directiveImplementors_def)

lemma returns_written: "leaf n v \<or> v = ONull \<Longrightarrow> returns (answers E sel (TNamed n)) (scalarX E p v)"
  by (cases v) (auto simp: leaf_def intro!: returns_scalar split: option.splits type_def.splits)

lemma scalars_return [conform]:
  assumes "writes_scalars E"
  shows "returns (answers E sel (TNamed ''Int'')) (marshalNInt E s p i)"
    "returns (answers E sel (TNamed ''Int'')) (marshalNInt64 E s p j)"
    "returns (answers E sel (TNamed ''Boolean'')) (marshalNBoolean E s p b)"
    "returns (answers E sel (TNamed ''String'')) (marshalNString E s p str)"
    "returns (answers E sel (TNamed ''Time'')) (marshalNTime E s p t)"
  using assms
  by (auto simp: writes_scalars_def marshalNInt_def marshalNInt64_def marshalNBoolean_def marshalNString_def
      marshalNTime_def leaf_def scalar_lookup intro!: returns_written)

lemma conforms_field:
  assumes "map_of fs k = Some (as, t)" "(\<exists>u. t = TNonNull u) \<longrightarrow> counted"
    and "\<And>p c. returns (answers E (cfSelections c) (nullable_part t)) (exec p c)"
  shows "field_conforms E fs (k, counted, exec)"
  using assms by (auto simp: field_conforms_def)

lemmas marshal_defs =
  marshalOString_list_def marshalNCoin_def marshalNTxFee_def marshalOBlockTransaction_def
  marshalNBlockTransaction_list_def marshalNBlock_def marshalOBlock_list_def marshalNBlock_value_def
  marshalOCoin_def marshalNMemFile_def marshalOMemFile_list_def marshalNMemPackage_def marshalNMessageValue_def
  marshalOTransactionMessage_def marshalNTransactionMessage_list_def marshalNGnoEventAttribute_def
  marshalOGnoEventAttribute_list_def marshalOEvent_def marshalOEvent_list_def marshalNTransactionResponse_def
  marshalNTransaction_def marshalOTransaction_list_def marshalNTransaction_value_def

lemma conform_Coin [conform]:
  "writes_scalars E \<Longrightarrow> returns (answers E sel (TNamed ''Coin'')) (exec_Coin E sel p obj)"
  unfolding exec_Coin_def
  by (rule returns_object [OF object_lookup(1) object_implementors(1)])
    (simp add: Coin_schema_def field_conforms_def conform marshal_defs Let_def exec_Coin_amount_def
      exec_Coin_denom_def)

lemma conform_TxFee [conform]:
  "writes_scalars E \<Longrightarrow> returns (answers E sel (TNamed ''TxFee'')) (exec_TxFee E sel p obj)"
  unfolding exec_TxFee_def
  by (rule returns_object [OF object_lookup(2) object_implementors(2)])
    (simp add: TxFee_schema_def field_conforms_def conform marshal_defs Let_def exec_TxFee_gas_wanted_def
      exec_TxFee_gas_fee_def)

lemma conform_BlockTransaction [conform]:
  "writes_scalars E \<Longrightarrow> returns (answers E sel (TNamed ''BlockTransaction'')) (exec_BlockTransaction
      E sel p obj)"
  unfolding exec_BlockTransaction_def
  by (rule returns_object [OF object_lookup(3) object_implementors(3)])
    (simp add: BlockTransaction_schema_def field_conforms_def conform marshal_defs Let_def
      exec_BlockTransaction_hash_def exec_BlockTransaction_fee_def exec_BlockTransaction_memo_def
      exec_BlockTransaction_content_raw_def)

lemma conform_Block [conform]:
  "writes_scalars E \<Longrightarrow> returns (answers E sel (TNamed ''Block'')) (exec_Block C G E sel p obj)"
  unfolding exec_Block_def
  by (rule returns_object [OF object_lookup(4) object_implementors(4)])
    (simp add: Block_schema_def field_conforms_def conform marshal_defs Let_def exec_Block_hash_def
      exec_Block_height_def exec_Block_version_def exec_Block_chain_id_def exec_Block_time_def
      exec_Block_num_txs_def exec_Block_total_txs_def exec_Block_app_version_def exec_Block_last_block_hash_def
      exec_Block_last_commit_hash_def exec_Block_validators_hash_def exec_Block_next_validators_hash_def
      exec_Block_consensus_hash_def exec_Block_app_hash_def exec_Block_last_results_hash_def
      exec_Block_proposer_address_raw_def exec_Block_txs_def)

lemma conform_BankMsgSend [conform]:
  "writes_scalars E \<Longrightarrow> returns (answers E sel (TNamed ''BankMsgSend'')) (exec_BankMsgSend E sel p obj)"
  unfolding exec_BankMsgSend_def
  by (rule returns_object [OF object_lookup(5) object_implementors(5)])
    (simp add: BankMsgSend_schema_def field_conforms_def conform marshal_defs Let_def
      exec_BankMsgSend_from_address_def exec_BankMsgSend_to_address_def exec_BankMsgSend_amount_def)

lemma conform_MsgCall [conform]:
  "writes_scalars E \<Longrightarrow> returns (answers E sel (TNamed ''MsgCall'')) (exec_MsgCall E sel p obj)"
  unfolding exec_MsgCall_def
  by (rule returns_object [OF object_lookup(6) object_implementors(6)])
    (simp add: MsgCall_schema_def field_conforms_def conform marshal_defs Let_def exec_MsgCall_caller_def
      exec_MsgCall_send_def exec_MsgCall_pkg_path_def exec_MsgCall_func_def exec_MsgCall_args_def
      exec_MsgCall_max_deposit_def)

lemma conform_MemFile [conform]:
  "writes_scalars E \<Longrightarrow> returns (answers E sel (TNamed ''MemFile'')) (exec_MemFile E sel p obj)"
  unfolding exec_MemFile_def
  by (rule returns_object [OF object_lookup(7) object_implementors(7)])
    (simp add: MemFile_schema_def field_conforms_def conform marshal_defs Let_def exec_MemFile_name_def
      exec_MemFile_body_def)

lemma conform_MemPackage [conform]:
  "writes_scalars E \<Longrightarrow> returns (answers E sel (TNamed ''MemPackage'')) (exec_MemPackage E sel p obj)"
  unfolding exec_MemPackage_def
  by (rule returns_object [OF object_lookup(8) object_implementors(8)])
    (simp add: MemPackage_schema_def field_conforms_def conform marshal_defs Let_def exec_MemPackage_name_def
      exec_MemPackage_path_def exec_MemPackage_files_def)

lemma conform_MsgAddPackage [conform]:
  "writes_scalars E \<Longrightarrow> returns (answers E sel (TNamed ''MsgAddPackage'')) (exec_MsgAddPackage E sel
      p obj)"
  unfolding exec_MsgAddPackage_def
  by (rule returns_object [OF object_lookup(9) object_implementors(9)])
    (simp add: MsgAddPackage_schema_def field_conforms_def conform marshal_defs Let_def
      exec_MsgAddPackage_creator_def exec_MsgAddPackage_package_def exec_MsgAddPackage_deposit_def
      exec_MsgAddPackage_send_def exec_MsgAddPackage_max_deposit_def)

lemma conform_MsgRun [conform]:
  "writes_scalars E \<Longrightarrow> returns (answers E sel (TNamed ''MsgRun'')) (exec_MsgRun E sel p obj)"
  unfolding exec_MsgRun_def
  by (rule returns_object [OF object_lookup(10) object_implementors(10)])
    (simp add: MsgRun_schema_def field_conforms_def conform marshal_defs Let_def exec_MsgRun_caller_def
      exec_MsgRun_send_def exec_MsgRun_package_def exec_MsgRun_max_deposit_def)

lemma conform_UnexpectedMessage [conform]:
  "writes_scalars E \<Longrightarrow> returns (answers E sel (TNamed ''UnexpectedMessage''))
      (exec_UnexpectedMessage E sel p obj)"
  unfolding exec_UnexpectedMessage_def
  by (rule returns_object [OF object_lookup(11) object_implementors(11)])
    (simp add: UnexpectedMessage_schema_def field_conforms_def conform marshal_defs Let_def
      exec_UnexpectedMessage_raw_def)

lemma conform_MessageValue [conform]:
  assumes "writes_scalars E"
  shows "returns (answers E sel (TNamed ''MessageValue'')) (exec_MessageValue E sel p obj)"
proof (cases obj)
  case (MvBankMsgSend x)
  have "returns (answers E sel (TNamed ''BankMsgSend'')) (exec_BankMsgSend E sel p x)"
    using assms by (simp add: conform)
  then show ?thesis
    unfolding MvBankMsgSend exec_MessageValue_def by (auto intro: answers_union [OF union_lookup(2) _
      object_lookup(5)] simp: MessageValue_schema_def)
next
  case (MvMsgCall x)
  have "returns (answers E sel (TNamed ''MsgCall'')) (exec_MsgCall E sel p x)"
    using assms by (simp add: conform)
  then show ?thesis
    unfolding MvMsgCall exec_MessageValue_def by (auto intro: answers_union [OF union_lookup(2) _ object_lookup(6)]
      simp: MessageValue_schema_def)
next
  case (MvMsgAddPackage x)
  have "returns (answers E sel (TNamed ''MsgAddPackage'')) (exec_MsgAddPackage E sel p x)"
    using assms by (simp add: conform)
  then show ?thesis
    unfolding MvMsgAddPackage exec_MessageValue_def by (auto intro: answers_union [OF union_lookup(2) _
      object_lookup(9)] simp: MessageValue_schema_def)
next
  case (MvMsgRun x)
  have "returns (answers E sel (TNamed ''MsgRun'')) (exec_MsgRun E sel p x)"
    using assms by (simp add: conform)
  then show ?thesis
    unfolding MvMsgRun exec_MessageValue_def by (auto intro: answers_union [OF union_lookup(2) _ object_lookup(10)]
      simp: MessageValue_schema_def)
next
  case (MvUnexpected x)
  have "returns (answers E sel (TNamed ''UnexpectedMessage'')) (exec_UnexpectedMessage E sel p x)"
    using assms by (simp add: conform)
  then show ?thesis
    unfolding MvUnexpected exec_MessageValue_def by (auto intro: answers_union [OF union_lookup(2) _
      object_lookup(11)] simp: MessageValue_schema_def)
qed

lemma conform_TransactionMessage [conform]:
  "writes_scalars E \<Longrightarrow> returns (answers E sel (TNamed ''TransactionMessage''))
      (exec_TransactionMessage E sel p obj)"
  unfolding exec_TransactionMessage_def
  by (rule returns_object [OF object_lookup(12) object_implementors(12)])
    (simp add: TransactionMessage_schema_def field_conforms_def conform marshal_defs Let_def
      exec_TransactionMessage_typeUrl_def exec_TransactionMessage_route_def exec_TransactionMessage_value_def)

lemma conform_GnoEventAttribute [conform]:
  "writes_scalars E \<Longrightarrow> returns (answers E sel (TNamed ''GnoEventAttribute''))
      (exec_GnoEventAttribute E sel p obj)"
  unfolding exec_GnoEventAttribute_def
  by (rule returns_object [OF object_lookup(13) object_implementors(13)])
    (simp add: GnoEventAttribute_schema_def field_conforms_def conform marshal_defs Let_def
      exec_GnoEventAttribute_key_def exec_GnoEventAttribute_value_def)

lemma conform_GnoEvent [conform]:
  "writes_scalars E \<Longrightarrow> returns (answers E sel (TNamed ''GnoEvent'')) (exec_GnoEvent E sel p obj)"
  unfolding exec_GnoEvent_def
  by (rule returns_object [OF object_lookup(14) object_implementors(14)])
    (simp add: GnoEvent_schema_def field_conforms_def conform marshal_defs Let_def exec_GnoEvent_type_def
      exec_GnoEvent_pkg_path_def exec_GnoEvent_attrs_def)

lemma conform_StorageDepositEvent [conform]:
  "writes_scalars E \<Longrightarrow> returns (answers E sel (TNamed ''StorageDepositEvent''))
      (exec_StorageDepositEvent E sel p obj)"
  unfolding exec_StorageDepositEvent_def
  by (rule returns_object [OF object_lookup(15) object_implementors(15)])
    (simp add: StorageDepositEvent_schema_def field_conforms_def conform marshal_defs Let_def
      exec_StorageDepositEvent_type_def exec_StorageDepositEvent_bytes_delta_def
      exec_StorageDepositEvent_fee_delta_def exec_StorageDepositEvent_pkg_path_def)

lemma conform_StorageUnlockEvent [conform]:
  "writes_scalars E \<Longrightarrow> returns (answers E sel (TNamed ''StorageUnlockEvent''))
      (exec_StorageUnlockEvent E sel p obj)"
  unfolding exec_StorageUnlockEvent_def
  by (rule returns_object [OF object_lookup(16) object_implementors(16)])
    (simp add: StorageUnlockEvent_schema_def field_conforms_def conform marshal_defs Let_def
      exec_StorageUnlockEvent_type_def exec_StorageUnlockEvent_bytes_delta_def
      exec_StorageUnlockEvent_fee_refund_def exec_StorageUnlockEvent_pkg_path_def)

lemma conform_UnknownEvent [conform]:
  "writes_scalars E \<Longrightarrow> returns (answers E sel (TNamed ''UnknownEvent'')) (exec_UnknownEvent E sel p
      obj)"
  unfolding exec_UnknownEvent_def
  by (rule returns_object [OF object_lookup(17) object_implementors(17)])
    (simp add: UnknownEvent_schema_def field_conforms_def conform marshal_defs Let_def exec_UnknownEvent_value_def)

lemma conform_Event [conform]:
  assumes "writes_scalars E"
  shows "returns (answers E sel (TNamed ''Event'')) (exec_Event E sel p obj)"
proof (cases obj)
  case (EvGno x)
  have "returns (answers E sel (TNamed ''GnoEvent'')) (exec_GnoEvent E sel p x)"
    using assms by (simp add: conform)
  then show ?thesis
    unfolding EvGno exec_Event_def by (auto intro: answers_union [OF union_lookup(1) _ object_lookup(14)] simp:
      Event_schema_def)
next
  case (EvStorageDeposit x)
  have "returns (answers E sel (TNamed ''StorageDepositEvent'')) (exec_StorageDepositEvent E sel p x)"
    using assms by (simp add: conform)
  then show ?thesis
    unfolding EvStorageDeposit exec_Event_def by (auto intro: answers_union [OF union_lookup(1) _
      object_lookup(15)] simp: Event_schema_def)
next
  case (EvStorageUnlock x)
  have "returns (answers E sel (TNamed ''StorageUnlockEvent'')) (exec_StorageUnlockEvent E sel p x)"
    using assms by (simp add: conform)
  then show ?thesis
    unfolding EvStorageUnlock exec_Event_def by (auto intro: answers_union [OF union_lookup(1) _ object_lookup(16)]
      simp: Event_schema_def)
next
  case (EvUnknown x)
  have "returns (answers E sel (TNamed ''UnknownEvent'')) (exec_UnknownEvent E sel p x)"
    using assms by (simp add: conform)
  then show ?thesis
    unfolding EvUnknown exec_Event_def by (auto intro: answers_union [OF union_lookup(1) _ object_lookup(17)] simp:
      Event_schema_def)
qed

lemma conform_TransactionResponse [conform]:
  "writes_scalars E \<Longrightarrow> returns (answers E sel (TNamed ''TransactionResponse''))
      (exec_TransactionResponse G E sel p obj)"
  unfolding exec_TransactionResponse_def
  by (rule returns_object [OF object_lookup(18) object_implementors(18)])
    (simp add: TransactionResponse_schema_def field_conforms_def conform marshal_defs Let_def
      exec_TransactionResponse_log_def exec_TransactionResponse_info_def exec_TransactionResponse_error_def
      exec_TransactionResponse_data_def exec_TransactionResponse_events_def)

lemma conform_Transaction [conform]:
  "writes_scalars E \<Longrightarrow> returns (answers E sel (TNamed ''Transaction'')) (exec_Transaction C G E sel
      p obj)"
  unfolding exec_Transaction_def
  by (rule returns_object [OF object_lookup(19) object_implementors(19)])
    (simp add: Transaction_schema_def field_conforms_def conform marshal_defs Let_def exec_Transaction_index_def
      exec_Transaction_hash_def exec_Transaction_success_def exec_Transaction_block_height_def
      exec_Transaction_gas_wanted_def exec_Transaction_gas_used_def exec_Transaction_gas_fee_def
      exec_Transaction_content_raw_def exec_Transaction_messages_def exec_Transaction_memo_def
      exec_Transaction_response_def)

end
