(* ===== verification/Graph_Introspected.thy ===== *)
theory Graph_Introspected
  imports Graph_Responses
begin

text \<open>
  What introspection answers: values of the types of the specification, if the package that wraps the schema names kinds and
  locations as the specification does; the
  equation of \<open>___Type\<close> as it is written, without the bound by which the model ends its recursion; and nothing of the
  schema where introspection is disabled.
\<close>

section \<open>Answers of the types of introspection\<close>

text \<open>
  What the package (\<open>graphql/introspection\<close>) names: the kind of a type and the locations of the directives of the schema are names of the
  enumerations \<open>__TypeKind\<close> and \<open>__DirectiveLocation\<close>.
\<close>

definition names_enums :: "('ty, 'sel) introspection \<Rightarrow> bool" where
  "names_enums I \<longleftrightarrow>
     (\<forall>t k. tyKind I t = Ret k \<longrightarrow> List.member meta_TypeKind_schema k) \<and>
     (\<forall>ds. ssDirectives (inSchema I) = Ret ds \<longrightarrow>
        (\<forall>d \<in> set ds. \<forall>l \<in> set (dvLocations d). List.member meta_DirectiveLocation_schema l))"

lemma resolved_value: "bindO m valueOf = Ret (Inr (Some v)) \<longleftrightarrow> m = Ret v"
  by (cases m) (auto simp: valueOf_def)

lemma enums_return:
  assumes "writes_scalars E"
  shows "List.member meta_TypeKind_schema k \<Longrightarrow> returns (answers E sel (TNamed ''__TypeKind'')) (marshalN__TypeKind E s p k)"
    "List.member meta_DirectiveLocation_schema k \<Longrightarrow>
      returns (answers E sel (TNamed ''__DirectiveLocation'')) (marshalN__DirectiveLocation E s p k)"
  using assms
  by (auto simp: writes_scalars_def marshalN__TypeKind_def marshalN__DirectiveLocation_def enum_lookup leaf_def
      intro!: returns_written)

lemma kind_returns [conform]:
  assumes "writes_scalars E" "names_enums I"
  shows "returns (answers E (cfSelections c) (TNamed ''__TypeKind'')) (exec___Type_kind I E p c obj)"
  unfolding exec___Type_kind_def Let_def
  by (rule returns_resolved)
    (use assms in \<open>auto simp: names_enums_def resolved_value enums_return\<close>)

lemma locations_return:
  assumes "writes_scalars E" "\<forall>l \<in> set (dvLocations d). List.member meta_DirectiveLocation_schema l"
  shows "returns (answers E (cfSelections c) (TList (TNonNull (TNamed ''__DirectiveLocation'')))) (exec___Directive_locations E p c d)"
  unfolding exec___Directive_locations_def Let_def marshalN__DirectiveLocation_list_def
  by (rule returns_resolved, simp, rule returns_list) (use assms in \<open>auto simp: enums_return valueOf_def\<close>)

lemma optional_string [conform]:
  "writes_scalars E \<Longrightarrow> returns (answers E sel (TNamed ''String'')) (marshalOString E s p v)"
  by (auto simp: marshalOString_def nullableX_def writes_scalars_def scalar_lookup leaf_def returns_basic split: option.split)

text \<open>A function for types all of whose answers are types.\<close>

definition types_conform :: "'sel exec_env \<Rightarrow> ('ty, 'sel) type_executor \<Rightarrow> bool" where
  "types_conform E T \<longleftrightarrow> (\<forall>sel p obj. returns (answers E sel (TNamed ''__Type'')) (T sel p obj))"

lemma conform_types [conform]:
  "types_conform E T \<Longrightarrow> returns (answers E sel (TNamed ''__Type'')) (T sel p obj)"
  by (simp add: types_conform_def)

lemmas intro_marshal_defs =
  marshalN__Type_value_def marshalN__Type_def marshalN__Type_list_def marshalO__Type_def marshalO__Type_list_def
  marshalN__EnumValue_value_def marshalO__EnumValue_list_def
  marshalN__InputValue_value_def marshalN__InputValue_list_def marshalO__InputValue_list_def
  marshalN__Field_value_def marshalO__Field_list_def marshalN__Directive_value_def marshalN__Directive_list_def
  marshalO__Schema_def

lemma conform_IntroEnumValue [conform]:
  "writes_scalars E \<Longrightarrow> returns (answers E sel (TNamed ''__EnumValue'')) (exec___EnumValue E sel p obj)"
  unfolding exec___EnumValue_def
  by (rule returns_object [OF object_lookup(25) object_implementors(25)])
    (simp add: meta_EnumValue_schema_def field_conforms_def conform marshal_defs intro_marshal_defs Let_def
      exec___EnumValue_name_def exec___EnumValue_description_def exec___EnumValue_isDeprecated_def
      exec___EnumValue_deprecationReason_def)

lemma conform_IntroInputValue [conform]:
  "writes_scalars E \<Longrightarrow> types_conform E T \<Longrightarrow> returns (answers E sel (TNamed ''__InputValue'')) (exec___InputValue T E sel p obj)"
  unfolding exec___InputValue_def
  by (rule returns_object [OF object_lookup(24) object_implementors(24)])
    (simp add: meta_InputValue_schema_def field_conforms_def conform marshal_defs intro_marshal_defs Let_def
      exec___InputValue_name_def exec___InputValue_description_def exec___InputValue_type_def
      exec___InputValue_defaultValue_def)

lemma conform_IntroField [conform]:
  "writes_scalars E \<Longrightarrow> types_conform E T \<Longrightarrow> returns (answers E sel (TNamed ''__Field'')) (exec___Field T E sel p obj)"
  unfolding exec___Field_def
  by (rule returns_object [OF object_lookup(23) object_implementors(23)])
    (simp add: meta_Field_schema_def field_conforms_def conform marshal_defs intro_marshal_defs Let_def
      exec___Field_name_def exec___Field_description_def exec___Field_args_def exec___Field_type_def
      exec___Field_isDeprecated_def exec___Field_deprecationReason_def)

lemma conform_IntroDirective:
  assumes "writes_scalars E" "types_conform E T" "\<forall>l \<in> set (dvLocations obj). List.member meta_DirectiveLocation_schema l"
  shows "returns (answers E sel (TNamed ''__Directive'')) (exec___Directive T E sel p obj)"
  unfolding exec___Directive_def
  by (rule returns_object [OF object_lookup(26) object_implementors(26)])
    (use assms in \<open>simp_all add: meta_Directive_schema_def field_conforms_def conform marshal_defs intro_marshal_defs Let_def
      exec___Directive_name_def exec___Directive_description_def exec___Directive_args_def
      exec___Directive_isRepeatable_def locations_return\<close>)

lemma directives_return:
  assumes "writes_scalars E" "types_conform E T" "names_enums I"
  shows "returns (answers E (cfSelections c) (TList (TNonNull (TNamed ''__Directive'')))) (exec___Schema_directives T E p c (inSchema I))"
  unfolding exec___Schema_directives_def Let_def
proof (rule returns_resolved)
  fix ds assume "bindO (ssDirectives (inSchema I)) valueOf = Ret (Inr (Some ds))"
  then have "ssDirectives (inSchema I) = Ret ds" by (simp add: resolved_value)
  with assms(3) have "\<forall>d \<in> set ds. \<forall>l \<in> set (dvLocations d). List.member meta_DirectiveLocation_schema l"
    unfolding names_enums_def by blast
  then show "returns (answers E (cfSelections c) (TList (TNonNull (TNamed ''__Directive''))))
      (marshalN__Directive_list T E (cfSelections c) (p @ [PField (cfAlias c)]) ds)"
    unfolding marshalN__Directive_list_def marshalN__Directive_value_def
    by (intro returns_list) (use assms(1,2) in \<open>simp_all add: conform_IntroDirective\<close>)
qed simp

lemma conform_IntroType:
  "writes_scalars E \<Longrightarrow> names_enums I \<Longrightarrow> types_conform E T \<Longrightarrow>
    returns (answers E sel (TNamed ''__Type'')) (exec___Type_body I T E sel p obj)"
  unfolding exec___Type_body_def
  by (rule returns_object [OF object_lookup(22) object_implementors(22)])
    (simp add: meta_Type_schema_def field_conforms_def conform marshal_defs intro_marshal_defs Let_def
      exec___Type_name_def exec___Type_description_def exec___Type_fields_def
      exec___Type_interfaces_def exec___Type_possibleTypes_def exec___Type_enumValues_def
      exec___Type_inputFields_def exec___Type_ofType_def exec___Type_specifiedByURL_def)

lemma conform_IntroSchema:
  "writes_scalars E \<Longrightarrow> types_conform E T \<Longrightarrow> names_enums I \<Longrightarrow>
    returns (answers E sel (TNamed ''__Schema'')) (exec___Schema T E sel p (inSchema I))"
  unfolding exec___Schema_def
  by (rule returns_object [OF object_lookup(21) object_implementors(21)])
    (simp add: meta_Schema_schema_def field_conforms_def conform marshal_defs intro_marshal_defs Let_def
      exec___Schema_description_def exec___Schema_types_def exec___Schema_queryType_def
      exec___Schema_mutationType_def exec___Schema_subscriptionType_def directives_return)

lemma types_conform_at: "writes_scalars E \<Longrightarrow> names_enums I \<Longrightarrow> types_conform E (exec___Type_at I E n)"
  by (induction n) (simp_all add: types_conform_def conform_IntroType)

lemma types_conform_Type [conform]: "writes_scalars E \<Longrightarrow> names_enums I \<Longrightarrow> types_conform E (exec___Type I E)"
  using types_conform_at [of E I] by (simp add: types_conform_def exec___Type_def del: exec___Type_at.simps)

lemma conform_introspection [conform]:
  assumes "writes_scalars E" "names_enums I"
  shows "returns (answers E (cfSelections c) (TNamed ''__Type'')) (exec_Query___type I E p c)"
    "returns (answers E (cfSelections c) (TNamed ''__Schema'')) (exec_Query___schema I E p c)"
proof -
  show "returns (answers E (cfSelections c) (TNamed ''__Type'')) (exec_Query___type I E p c)"
    using assms by (simp add: exec_Query___type_def Let_def intro_marshal_defs conform)
  show "returns (answers E (cfSelections c) (TNamed ''__Schema'')) (exec_Query___schema I E p c)"
    unfolding exec_Query___schema_def Let_def marshalO__Schema_def nullableX_def option.case
  proof (rule returns_resolved)
    fix s assume "introspectSchema I = Ret (Inr (Some s))"
    then have "s = inSchema I" by (auto simp: introspectSchema_def valueOf_def split: if_splits)
    then show "returns (answers E (cfSelections c) (TNamed ''__Schema''))
        (exec___Schema (exec___Type I E) E (cfSelections c) (p @ [PField (cfAlias c)]) s)"
      using assms by (simp add: conform_IntroSchema types_conform_Type)
  qed simp
qed

section \<open>The equation of the code\<close>

text \<open>
  What the library makes of the finite text of a request: the selections of a collected field are inside the selections it was
  collected from, since fragments do not contain themselves (section 5.5.2.2 of the GraphQL specification).
\<close>

definition shallower :: "('ty, 'sel) introspection \<Rightarrow> 'sel exec_env \<Rightarrow> bool" where
  "shallower I E \<longleftrightarrow>
     (\<forall>sel impl. \<forall>c \<in> set (xeCollect E sel impl). inDepth I (cfSelections c) < inDepth I sel)"

text \<open>Two functions for types that answer the same to the selections below a depth.\<close>

definition agree :: "('ty, 'sel) introspection \<Rightarrow> nat \<Rightarrow> ('ty, 'sel) type_executor \<Rightarrow> ('ty, 'sel) type_executor \<Rightarrow> bool" where
  "agree I n T T' \<longleftrightarrow> (\<forall>sel. inDepth I sel < n \<longrightarrow> T sel = T' sel)"

definition same_fields :: "'sel collected list \<Rightarrow> 'sel object_field list \<Rightarrow> 'sel object_field list \<Rightarrow> bool" where
  "same_fields cs fs gs \<longleftrightarrow>
     list_all2 (\<lambda>(k, b, e) (k', b', e'). k = k' \<and> b = b' \<and> (\<forall>p. \<forall>c \<in> set cs. e p c = e' p c)) fs gs"

lemma same_field:
  assumes "same_fields cs fs gs"
  shows "rel_option (\<lambda>(b, e) (b', e'). b = b' \<and> (\<forall>p. \<forall>c \<in> set cs. e p c = e' p c)) (map_of fs k) (map_of gs k)"
  using assms unfolding same_fields_def by (induction rule: list_all2_induct) auto

lemma selections_cong:
  assumes "same_fields ds fs gs" "set cs \<subseteq> set ds"
  shows "selectionsX E ty fs p cs = selectionsX E ty gs p cs"
  using assms(2)
proof (induction cs)
  case (Cons c cs)
  then have "(case map_of fs (cfName c) of None \<Rightarrow> panicX s
      | Some (counted, exec) \<Rightarrow> bindX (exec p c) (\<lambda>v. retX (v, if counted \<and> v = ONull then 1 else 0))) =
    (case map_of gs (cfName c) of None \<Rightarrow> panicX s
      | Some (counted, exec) \<Rightarrow> bindX (exec p c) (\<lambda>v. retX (v, if counted \<and> v = ONull then 1 else 0 :: nat)))"
    for s :: string
    using same_field [OF assms(1), of "cfName c"] by (auto elim!: option.rel_cases)
  with Cons show ?case by simp
qed simp

lemma objectX_cong:
  "same_fields (xeCollect E sel impl) fs gs \<Longrightarrow> objectX E impl ty fs sel p = objectX E impl ty gs sel p"
  by (simp add: objectX_def selections_cong)

lemma agree_InputValue:
  assumes "shallower I E" "agree I n T T'" "inDepth I sel \<le> n"
  shows "exec___InputValue T E sel = exec___InputValue T' E sel"
proof (rule ext, rule ext)
  fix p obj
  have d: "inDepth I (cfSelections c) < n" if "c \<in> set (xeCollect E sel impl)" for c impl
    using assms(1,3) that by (force simp: shallower_def)
  have "T (cfSelections c) = T' (cfSelections c)" if "c \<in> set (xeCollect E sel impl)" for c impl
    using assms(2) d [OF that] by (simp add: agree_def)
  then show "exec___InputValue T E sel p obj = exec___InputValue T' E sel p obj"
    unfolding exec___InputValue_def
    by (intro objectX_cong) (simp add: same_fields_def Let_def intro_marshal_defs [abs_def]
      exec___InputValue_type_def)
qed

lemma agree_Field:
  assumes "shallower I E" "agree I n T T'" "inDepth I sel \<le> n"
  shows "exec___Field T E sel = exec___Field T' E sel"
proof (rule ext, rule ext)
  fix p obj
  have d: "inDepth I (cfSelections c) < n" if "c \<in> set (xeCollect E sel impl)" for c impl
    using assms(1,3) that by (force simp: shallower_def)
  have "T (cfSelections c) = T' (cfSelections c)" if "c \<in> set (xeCollect E sel impl)" for c impl
    using assms(2) d [OF that] by (simp add: agree_def)
  then show "exec___Field T E sel p obj = exec___Field T' E sel p obj"
    unfolding exec___Field_def
    by (intro objectX_cong) (simp add: same_fields_def Let_def intro_marshal_defs [abs_def]
      exec___Field_args_def exec___Field_type_def
      agree_InputValue [OF assms(1,2) less_imp_le [OF d]])
qed

lemma agree_Type:
  assumes "shallower I E" "agree I n T T'" "inDepth I sel \<le> n"
  shows "exec___Type_body I T E sel = exec___Type_body I T' E sel"
proof (rule ext, rule ext)
  fix p obj
  have d: "inDepth I (cfSelections c) < n" if "c \<in> set (xeCollect E sel impl)" for c impl
    using assms(1,3) that by (force simp: shallower_def)
  have "T (cfSelections c) = T' (cfSelections c)" if "c \<in> set (xeCollect E sel impl)" for c impl
    using assms(2) d [OF that] by (simp add: agree_def)
  then show "exec___Type_body I T E sel p obj = exec___Type_body I T' E sel p obj"
    unfolding exec___Type_body_def
    by (intro objectX_cong) (simp add: same_fields_def Let_def intro_marshal_defs [abs_def]
      exec___Type_fields_def exec___Type_interfaces_def exec___Type_possibleTypes_def
      exec___Type_inputFields_def exec___Type_ofType_def
      agree_Field [OF assms(1,2) less_imp_le [OF d]]
      agree_InputValue [OF assms(1,2) less_imp_le [OF d]])
qed

text \<open>Past the depth of the selections the bound does not matter.\<close>

lemma at_stable:
  assumes "shallower I E" "inDepth I sel < m" "inDepth I sel < k"
  shows "exec___Type_at I E m sel = exec___Type_at I E k sel"
  using assms(2,3)
proof (induction m arbitrary: k sel)
  case (Suc m)
  then obtain k' where k: "k = Suc k'" by (cases k) auto
  have "agree I (inDepth I sel) (exec___Type_at I E m) (exec___Type_at I E k')"
    unfolding agree_def using Suc.prems k by (intro allI impI Suc.IH) simp_all
  then show ?case using agree_Type [OF assms(1) _ order_refl] k by simp
qed simp

lemma Type_equation:
  assumes "shallower I E"
  shows "exec___Type I E sel = exec___Type_body I (exec___Type I E) E sel"
proof -
  have "exec___Type I E s = exec___Type_at I E n s" if "inDepth I s < n" for n s
    using at_stable [OF assms, of s "Suc (inDepth I s)" n] that
    by (intro ext) (simp add: exec___Type_def del: exec___Type_at.simps)
  then have "agree I (inDepth I sel) (exec___Type_at I E (inDepth I sel)) (exec___Type I E)"
    by (simp add: agree_def)
  from agree_Type [OF assms this order_refl] show ?thesis by (intro ext) (simp add: exec___Type_def)
qed

lemma Type_unique:
  assumes "shallower I E" "\<And>sel. T sel = exec___Type_body I T E sel"
  shows "T sel = exec___Type I E sel"
proof (induction "inDepth I sel" arbitrary: sel rule: less_induct)
  case less
  then have "agree I (inDepth I sel) T (exec___Type I E)" by (simp add: agree_def)
  from agree_Type [OF assms(1) this order_refl] show ?case
    using assms(2) [of sel] Type_equation [OF assms(1), of sel] by simp
qed

section \<open>Introspection that is disabled\<close>

lemma disabled_fields:
  assumes "inDisabled I"
  shows "exec_Query___schema I E p c l = (Ret ONull, l @ [(p @ [PField (cfAlias c)], ErrMsg ''introspection disabled'')])"
    and "exec_Query___type I E p c = (let p = p @ [PField (cfAlias c)] in
      contextX E p (field_Query___type_args (xeInput E) p (cfArgs c)) (\<lambda>_.
        bindX (reportX p (ErrMsg ''introspection disabled'')) (\<lambda>_. retX ONull)))"
  using assms
  by (simp_all add: exec_Query___schema_def exec_Query___type_def introspectSchema_def introspectType_def fieldX_def
      pureX_def recoverX_def bindX_def reportX_def retX_def Let_def contextX_def fun_eq_iff split: outcome.split sum.split)

end
