(* ===== verification/Graph_Reference.thy ===== *)
theory Graph_Reference
  imports Graph_Executors
begin

text \<open>
  The executor against a reference: the value of an object is a tree, and a selection is executed by recursion on the
  tree, as the GraphQL specification executes a selection set (section 6.3). Where nothing fails, the functions of
  \<open>generated.go\<close> return what the reference returns and report nothing (\<open>executes\<close>).
\<close>

section \<open>The reference\<close>

named_theorems executes \<open>functions of the executor that return the value of the reference\<close>

text \<open>\<open>TrMissing\<close> is a null where the schema does not allow it.\<close>

datatype gql_tree =
    TrInt i64
  | TrInt64 i64
  | TrBool bool
  | TrText string
  | TrTime gotime
  | TrNull
  | TrMissing
  | TrList "gql_tree list"
  | TrObject string "string list" "(string \<times> gql_tree) list"

definition nullable_tree :: "('a \<Rightarrow> gql_tree) \<Rightarrow> 'a option \<Rightarrow> gql_tree" where
  "nullable_tree f v = (case v of None \<Rightarrow> TrNull | Some x \<Rightarrow> f x)"

definition required_tree :: "('a \<Rightarrow> gql_tree) \<Rightarrow> 'a option \<Rightarrow> gql_tree" where
  "required_tree f v = (case v of None \<Rightarrow> TrMissing | Some x \<Rightarrow> f x)"

lemma object_tree_size: "map_of kvs k = Some t \<Longrightarrow> size t < Suc (size_list (size_prod (\<lambda>_. 0) size) kvs)"
  using size_list_estimation' [of "(k, t)" kvs "size t" "size_prod (\<lambda>_. 0) size"] by (auto dest: map_of_SomeD)

function render :: "'sel exec_env \<Rightarrow> 'sel \<Rightarrow> gql_tree \<Rightarrow> gql_out" where
  "render E sel (TrInt i) = xeInt E i"
| "render E sel (TrInt64 i) = xeInt64 E i"
| "render E sel (TrBool b) = xeBoolean E b"
| "render E sel (TrText s) = xeString E s"
| "render E sel (TrTime t) = xeTime E t"
| "render E sel TrNull = ONull"
| "render E sel TrMissing = ONull"
| "render E sel (TrList ts) = OArray (map (\<lambda>t. render E sel t) ts)"
| "render E sel (TrObject n impl kvs) = OObject
     (map (\<lambda>c. (cfAlias c,
        if cfName c = ''__typename'' then xeString E n
        else (case map_of kvs (cfName c) of None \<Rightarrow> ONull | Some t \<Rightarrow> render E (cfSelections c) t)))
      (xeCollect E sel impl))"
  by pat_completeness auto
termination
  by (relation "measure (\<lambda>(E, sel, t). size t)") (auto simp: object_tree_size intro: le_imp_less_Suc size_list_estimation')

text \<open>A selection that asks for known fields of a tree whose scalars are written and that misses nothing.\<close>

function writable :: "'sel exec_env \<Rightarrow> 'sel \<Rightarrow> gql_tree \<Rightarrow> bool" where
  "writable E sel (TrInt i) \<longleftrightarrow> xeInt E i \<noteq> ONull"
| "writable E sel (TrInt64 i) \<longleftrightarrow> xeInt64 E i \<noteq> ONull"
| "writable E sel (TrBool b) \<longleftrightarrow> xeBoolean E b \<noteq> ONull"
| "writable E sel (TrText s) \<longleftrightarrow> xeString E s \<noteq> ONull"
| "writable E sel (TrTime t) \<longleftrightarrow> xeTime E t \<noteq> ONull"
| "writable E sel TrNull \<longleftrightarrow> True"
| "writable E sel TrMissing \<longleftrightarrow> False"
| "writable E sel (TrList ts) \<longleftrightarrow> (\<forall>t \<in> set ts. writable E sel t)"
| "writable E sel (TrObject n impl kvs) \<longleftrightarrow>
     (\<forall>c \<in> set (xeCollect E sel impl). cfName c = ''__typename'' \<or>
        (case map_of kvs (cfName c) of None \<Rightarrow> False | Some t \<Rightarrow> writable E (cfSelections c) t))"
  by pat_completeness auto
termination
  by (relation "measure (\<lambda>(E, sel, t). size t)") (auto simp: object_tree_size intro: le_imp_less_Suc size_list_estimation')

lemma writable_not_null: "writable E sel t \<Longrightarrow> t \<noteq> TrNull \<Longrightarrow> render E sel t \<noteq> ONull"
  by (cases t) auto

section \<open>The templates return the value of the reference\<close>

text \<open>The directive is configured and its argument is decoded.\<close>

definition ready :: "'sel exec_env \<Rightarrow> bool" where
  "ready E \<longleftrightarrow> xeFilterable E \<and> coerces_lists (xeInput E)"

lemma minmax_decoded: "coerces_lists E \<Longrightarrow> unmarshalOFilterableExtra_list E p (IList [IString ''MINMAX'']) = Ret (Inr (Some [''MINMAX'']))"
  by (simp add: unmarshalOFilterableExtra_list_def listIn_def coerces_lists_def unmarshalNFilterableExtra_def requiredIn_def enumIn_def
      FilterableExtra_UnmarshalGQL_def unmarshalEnum_def FilterableExtra_IsValid_def FilterableExtraMinmax_def)

lemma resolved:
  "ready E \<Longrightarrow> filterableX E p (Ret v) = Ret (Inr (Some v))"
  "ready E \<Longrightarrow> minmaxX E p (Ret v) = Ret (Inr (Some v))"
  "bindO (Ret v) valueOf = Ret (Inr (Some v))"
  "valueOf v = Ret (Inr (Some v))"
  by (simp_all add: filterableX_def minmaxX_def directiveX_def ready_def minmax_decoded Filterable_def valueOf_def)

lemma field_runs: "marshal v l = (Ret x, l) \<Longrightarrow> fieldX E p nn (pureX (Ret (Inr (Some v)))) marshal l = (Ret x, l)"
  by (simp add: fieldX_def recoverX_def bindX_def pureX_def)

lemma scalars_run [executes]:
  "xeInt E i \<noteq> ONull \<Longrightarrow> marshalNInt E sel p i l = (Ret (xeInt E i), l)"
  "xeInt64 E j \<noteq> ONull \<Longrightarrow> marshalNInt64 E sel p j l = (Ret (xeInt64 E j), l)"
  "xeBoolean E b \<noteq> ONull \<Longrightarrow> marshalNBoolean E sel p b l = (Ret (xeBoolean E b), l)"
  "xeString E s \<noteq> ONull \<Longrightarrow> marshalNString E sel p s l = (Ret (xeString E s), l)"
  "xeTime E t \<noteq> ONull \<Longrightarrow> marshalNTime E sel p t l = (Ret (xeTime E t), l)"
  by (simp_all add: marshalNInt_def marshalNInt64_def marshalNBoolean_def marshalNString_def marshalNTime_def scalarX_def retX_def)

lemma required_runs:
  assumes "writable E sel (required_tree tr v)" "\<And>x. writable E sel (tr x) \<Longrightarrow> f x l = (Ret (render E sel (tr x)), l)"
  shows "requiredX E p f v l = (Ret (render E sel (required_tree tr v)), l)"
  using assms by (cases v) (simp_all add: required_tree_def requiredX_def)

lemma nullable_runs:
  assumes "writable E sel (nullable_tree tr v)" "\<And>x. writable E sel (tr x) \<Longrightarrow> f x l = (Ret (render E sel (tr x)), l)"
  shows "nullableX f v l = (Ret (render E sel (nullable_tree tr v)), l)"
  using assms by (cases v) (simp_all add: nullable_tree_def nullableX_def retX_def)

lemma present_runs [executes]: "requiredX E p f (Some x) = f x" "nullableX f (Some x) = f x"
  by (simp_all add: requiredX_def nullableX_def)

lemma elems_run:
  assumes "\<And>v p. v \<in> set vs \<Longrightarrow> f p v l = (Ret (g v), l)"
  shows "elemsX E f p i True vs l = (Some (map g vs), l)"
  using assms by (induction vs arbitrary: i) auto

text \<open>A list of trees none of which is null.\<close>

definition list_tree :: "('a \<Rightarrow> gql_tree) \<Rightarrow> 'a list \<Rightarrow> gql_tree" where
  "list_tree tr vs = TrList (map tr vs)"

lemma list_runs:
  assumes "writable E sel (list_tree tr vs)" "\<And>p x. writable E sel (tr x) \<Longrightarrow> f p x l = (Ret (render E sel (tr x)), l)"
    and "\<And>x. tr x \<noteq> TrNull"
  shows "listX E nn f p vs l = (Ret (render E sel (list_tree tr vs)), l)"
proof -
  have "elemsX E f p 0 True vs l = (Some (map (\<lambda>v. render E sel (tr v)) vs), l)"
    using assms(1,2) by (intro elems_run) (auto simp: list_tree_def)
  moreover have "ONull \<notin> set (map (\<lambda>v. render E sel (tr v)) vs)"
    using assms(1,3) writable_not_null by (fastforce simp: list_tree_def)
  ultimately show ?thesis by (simp add: listX_def list_tree_def comp_def)
qed

lemma strings_run:
  assumes "writable E sel (list_tree TrText vs)"
  shows "stringsX (\<lambda>v. marshalNString E sel p v) vs l = (Ret (render E sel (list_tree TrText vs)), l)"
proof -
  have "loopX (\<lambda>v. marshalNString E sel p v) vs l = (Ret (map (xeString E) vs), l)"
    using assms by (induction vs) (auto simp: list_tree_def retX_def bindX_def executes)
  then show ?thesis using assms by (force simp: stringsX_def bindX_def retX_def list_tree_def)
qed

lemma trees_not_null [simp]: "list_tree tr vs \<noteq> TrNull" "(\<And>x. tr x \<noteq> TrNull) \<Longrightarrow> required_tree tr v \<noteq> TrNull"
  by (simp_all add: list_tree_def required_tree_def split: option.split)

text \<open>A field of an object against the field of its tree.\<close>

definition field_runs_as :: "'sel exec_env \<Rightarrow> 'sel object_field \<Rightarrow> string \<times> gql_tree \<Rightarrow> bool" where
  "field_runs_as E f kt \<longleftrightarrow> (case f of (k, counted, exec) \<Rightarrow> case kt of (k', t) \<Rightarrow>
     k = k' \<and> (counted \<longrightarrow> t \<noteq> TrNull) \<and>
     (\<forall>p c l. writable E (cfSelections c) t \<longrightarrow> exec p c l = (Ret (render E (cfSelections c) t), l)))"

lemma field_runs_as_map_of:
  assumes "list_all2 (field_runs_as E) ofs kvs" "map_of kvs k = Some t"
  shows "\<exists>counted exec. map_of ofs k = Some (counted, exec) \<and> field_runs_as E (k, counted, exec) (k, t)"
  using assms by (induction ofs kvs rule: list_all2_induct) (auto simp: field_runs_as_def split: if_splits)

lemma selections_run:
  assumes fields: "list_all2 (field_runs_as E) ofs kvs"
    and cs: "\<forall>c \<in> set cs. cfName c = ''__typename'' \<or>
      (case map_of kvs (cfName c) of None \<Rightarrow> False | Some t \<Rightarrow> writable E (cfSelections c) t)"
  shows "selectionsX E ty ofs p cs l =
    (Ret (map (\<lambda>c. (cfAlias c,
        if cfName c = ''__typename'' then xeString E ty
        else (case map_of kvs (cfName c) of None \<Rightarrow> ONull | Some t \<Rightarrow> render E (cfSelections c) t))) cs, 0), l)"
  using cs
proof (induction cs)
  case (Cons c cs)
  show ?case
  proof (cases "cfName c = ''__typename''")
    case True
    with Cons show ?thesis by (simp add: bindX_def retX_def)
  next
    case False
    then obtain t where t: "map_of kvs (cfName c) = Some t" "writable E (cfSelections c) t"
      using Cons.prems by (auto split: option.splits)
    from field_runs_as_map_of [OF fields t(1)] obtain counted exec where
      f: "map_of ofs (cfName c) = Some (counted, exec)" "counted \<longrightarrow> t \<noteq> TrNull"
        "exec p c l = (Ret (render E (cfSelections c) t), l)"
      using t(2) by (auto simp: field_runs_as_def)
    with writable_not_null [OF t(2)] have "\<not> (counted \<and> render E (cfSelections c) t = ONull)" by blast
    with False t f Cons show ?thesis by (auto simp: bindX_def retX_def)
  qed
qed (simp add: retX_def)

lemma object_runs:
  assumes "writable E sel (TrObject ty impl kvs)" "list_all2 (field_runs_as E) ofs kvs"
  shows "objectX E impl ty ofs sel p l = (Ret (render E sel (TrObject ty impl kvs)), l)"
  using assms by (simp add: objectX_def bindX_def selections_run [OF assms(2)] retX_def)

lemmas marshal_defs =
  marshalOString_list_def marshalNCoin_def marshalNTxFee_def marshalOBlockTransaction_def
  marshalNBlockTransaction_list_def marshalNBlock_def marshalOBlock_list_def marshalNBlock_value_def
  marshalOCoin_def marshalNMemFile_def marshalOMemFile_list_def marshalNMemPackage_def marshalNMessageValue_def
  marshalOTransactionMessage_def marshalNTransactionMessage_list_def marshalNGnoEventAttribute_def
  marshalOGnoEventAttribute_list_def marshalOEvent_def marshalOEvent_list_def marshalNTransactionResponse_def
  marshalNTransaction_def marshalOTransaction_list_def marshalNTransaction_value_def

section \<open>The trees of the objects\<close>

definition Coin_tree :: "Coin \<Rightarrow> gql_tree" where
  "Coin_tree obj = TrObject ''Coin'' coinImplementors
     [(''amount'', TrInt (coAmount obj)),
      (''denom'', TrText (coDenom obj))]"

lemma Coin_tree_not_null [simp]: "Coin_tree obj \<noteq> TrNull"
  by (simp add: Coin_tree_def)

lemma executes_Coin [executes]:
  "ready E \<Longrightarrow> writable E sel (Coin_tree obj) \<Longrightarrow> exec_Coin E sel p obj l = (Ret
      (render E sel (Coin_tree obj)), l)"
  unfolding exec_Coin_def Coin_tree_def
  by (intro object_runs) (auto simp: field_runs_as_def Let_def resolved marshal_defs executes exec_Coin_amount_def
      exec_Coin_denom_def
      intro!: field_runs required_runs nullable_runs list_runs strings_run)

definition TxFee_tree :: "TxFee \<Rightarrow> gql_tree" where
  "TxFee_tree obj = TrObject ''TxFee'' txFeeImplementors
     [(''gas_wanted'', TrInt (tfGasWanted obj)),
      (''gas_fee'', required_tree Coin_tree (tfGasFee obj))]"

lemma TxFee_tree_not_null [simp]: "TxFee_tree obj \<noteq> TrNull"
  by (simp add: TxFee_tree_def)

lemma executes_TxFee [executes]:
  "ready E \<Longrightarrow> writable E sel (TxFee_tree obj) \<Longrightarrow> exec_TxFee E sel p obj l = (Ret
      (render E sel (TxFee_tree obj)), l)"
  unfolding exec_TxFee_def TxFee_tree_def
  by (intro object_runs) (auto simp: field_runs_as_def Let_def resolved marshal_defs executes
      exec_TxFee_gas_wanted_def exec_TxFee_gas_fee_def
      intro!: field_runs required_runs nullable_runs list_runs strings_run)

definition BlockTransaction_tree :: "BlockTransaction \<Rightarrow> gql_tree" where
  "BlockTransaction_tree obj = TrObject ''BlockTransaction'' blockTransactionImplementors
     [(''hash'', TrText (btHash obj)),
      (''fee'', required_tree TxFee_tree (btFee obj)),
      (''memo'', TrText (btMemo obj)),
      (''content_raw'', TrText (btContentRaw obj))]"

lemma BlockTransaction_tree_not_null [simp]: "BlockTransaction_tree obj \<noteq> TrNull"
  by (simp add: BlockTransaction_tree_def)

lemma executes_BlockTransaction [executes]:
  "ready E \<Longrightarrow> writable E sel (BlockTransaction_tree obj) \<Longrightarrow> exec_BlockTransaction E
      sel p obj l = (Ret (render E sel (BlockTransaction_tree obj)), l)"
  unfolding exec_BlockTransaction_def BlockTransaction_tree_def
  by (intro object_runs) (auto simp: field_runs_as_def Let_def resolved marshal_defs executes
      exec_BlockTransaction_hash_def exec_BlockTransaction_fee_def exec_BlockTransaction_memo_def
      exec_BlockTransaction_content_raw_def
      intro!: field_runs required_runs nullable_runs list_runs strings_run)

definition Block_tree :: "codec \<Rightarrow> graph_env \<Rightarrow> Block \<Rightarrow> gql_tree" where
  "Block_tree C G obj = TrObject ''Block'' blockImplementors
     [(''hash'', TrText (Block_Hash C obj)),
      (''height'', TrInt64 (Block_Height obj)),
      (''version'', TrText (Block_Version obj)),
      (''chain_id'', TrText (Block_ChainID obj)),
      (''time'', TrTime (Block_Time obj)),
      (''num_txs'', TrInt64 (Block_NumTxs obj)),
      (''total_txs'', TrInt64 (Block_TotalTxs obj)),
      (''app_version'', TrText (Block_AppVersion obj)),
      (''last_block_hash'', TrText (Block_LastBlockHash obj)),
      (''last_commit_hash'', TrText (Block_LastCommitHash obj)),
      (''validators_hash'', TrText (Block_ValidatorsHash obj)),
      (''next_validators_hash'', TrText (Block_NextValidatorsHash obj)),
      (''consensus_hash'', TrText (Block_ConsensusHash obj)),
      (''app_hash'', TrText (Block_AppHash obj)),
      (''last_results_hash'', TrText (Block_LastResultsHash obj)),
      (''proposer_address_raw'', TrText (Block_ProposerAddressRaw obj)),
      (''txs'', list_tree BlockTransaction_tree (Block_Txs C G obj))]"

lemma Block_tree_not_null [simp]: "Block_tree C G obj \<noteq> TrNull"
  by (simp add: Block_tree_def)

lemma executes_Block [executes]:
  "ready E \<Longrightarrow> writable E sel (Block_tree C G obj) \<Longrightarrow> exec_Block C G E sel p obj l =
      (Ret (render E sel (Block_tree C G obj)), l)"
  unfolding exec_Block_def Block_tree_def
  by (intro object_runs) (auto simp: field_runs_as_def Let_def resolved marshal_defs executes exec_Block_hash_def
      exec_Block_height_def exec_Block_version_def exec_Block_chain_id_def exec_Block_time_def
      exec_Block_num_txs_def exec_Block_total_txs_def exec_Block_app_version_def exec_Block_last_block_hash_def
      exec_Block_last_commit_hash_def exec_Block_validators_hash_def exec_Block_next_validators_hash_def
      exec_Block_consensus_hash_def exec_Block_app_hash_def exec_Block_last_results_hash_def
      exec_Block_proposer_address_raw_def exec_Block_txs_def
      intro!: field_runs required_runs nullable_runs list_runs strings_run)

definition BankMsgSend_tree :: "BankMsgSend \<Rightarrow> gql_tree" where
  "BankMsgSend_tree obj = TrObject ''BankMsgSend'' bankMsgSendImplementors
     [(''from_address'', TrText (bsFromAddress obj)),
      (''to_address'', TrText (bsToAddress obj)),
      (''amount'', TrText (bsAmount obj))]"

lemma BankMsgSend_tree_not_null [simp]: "BankMsgSend_tree obj \<noteq> TrNull"
  by (simp add: BankMsgSend_tree_def)

lemma executes_BankMsgSend [executes]:
  "ready E \<Longrightarrow> writable E sel (BankMsgSend_tree obj) \<Longrightarrow> exec_BankMsgSend E sel p obj l
      = (Ret (render E sel (BankMsgSend_tree obj)), l)"
  unfolding exec_BankMsgSend_def BankMsgSend_tree_def
  by (intro object_runs) (auto simp: field_runs_as_def Let_def resolved marshal_defs executes
      exec_BankMsgSend_from_address_def exec_BankMsgSend_to_address_def exec_BankMsgSend_amount_def
      intro!: field_runs required_runs nullable_runs list_runs strings_run)

definition MsgCall_tree :: "MsgCall \<Rightarrow> gql_tree" where
  "MsgCall_tree obj = TrObject ''MsgCall'' msgCallImplementors
     [(''caller'', TrText (mcCaller obj)),
      (''send'', TrText (mcSend obj)),
      (''pkg_path'', TrText (mcPkgPath obj)),
      (''func'', TrText (mcFunc obj)),
      (''args'', nullable_tree (list_tree TrText) (mcArgs obj)),
      (''max_deposit'', TrText (mcMaxDeposit obj))]"

lemma MsgCall_tree_not_null [simp]: "MsgCall_tree obj \<noteq> TrNull"
  by (simp add: MsgCall_tree_def)

lemma executes_MsgCall [executes]:
  "ready E \<Longrightarrow> writable E sel (MsgCall_tree obj) \<Longrightarrow> exec_MsgCall E sel p obj l = (Ret
      (render E sel (MsgCall_tree obj)), l)"
  unfolding exec_MsgCall_def MsgCall_tree_def
  by (intro object_runs) (auto simp: field_runs_as_def Let_def resolved marshal_defs executes
      exec_MsgCall_caller_def exec_MsgCall_send_def exec_MsgCall_pkg_path_def exec_MsgCall_func_def
      exec_MsgCall_args_def exec_MsgCall_max_deposit_def
      intro!: field_runs required_runs nullable_runs list_runs strings_run)

definition MemFile_tree :: "MemFile \<Rightarrow> gql_tree" where
  "MemFile_tree obj = TrObject ''MemFile'' memFileImplementors
     [(''name'', TrText (mfName obj)),
      (''body'', TrText (mfBody obj))]"

lemma MemFile_tree_not_null [simp]: "MemFile_tree obj \<noteq> TrNull"
  by (simp add: MemFile_tree_def)

lemma executes_MemFile [executes]:
  "ready E \<Longrightarrow> writable E sel (MemFile_tree obj) \<Longrightarrow> exec_MemFile E sel p obj l = (Ret
      (render E sel (MemFile_tree obj)), l)"
  unfolding exec_MemFile_def MemFile_tree_def
  by (intro object_runs) (auto simp: field_runs_as_def Let_def resolved marshal_defs executes exec_MemFile_name_def
      exec_MemFile_body_def
      intro!: field_runs required_runs nullable_runs list_runs strings_run)

definition MemPackage_tree :: "MemPackage \<Rightarrow> gql_tree" where
  "MemPackage_tree obj = TrObject ''MemPackage'' memPackageImplementors
     [(''name'', TrText (mpName obj)),
      (''path'', TrText (mpPath obj)),
      (''files'', list_tree MemFile_tree (mpFiles obj))]"

lemma MemPackage_tree_not_null [simp]: "MemPackage_tree obj \<noteq> TrNull"
  by (simp add: MemPackage_tree_def)

lemma executes_MemPackage [executes]:
  "ready E \<Longrightarrow> writable E sel (MemPackage_tree obj) \<Longrightarrow> exec_MemPackage E sel p obj l =
      (Ret (render E sel (MemPackage_tree obj)), l)"
  unfolding exec_MemPackage_def MemPackage_tree_def
  by (intro object_runs) (auto simp: field_runs_as_def Let_def resolved marshal_defs executes
      exec_MemPackage_name_def exec_MemPackage_path_def exec_MemPackage_files_def
      intro!: field_runs required_runs nullable_runs list_runs strings_run)

definition MsgAddPackage_tree :: "MsgAddPackage \<Rightarrow> gql_tree" where
  "MsgAddPackage_tree obj = TrObject ''MsgAddPackage'' msgAddPackageImplementors
     [(''creator'', TrText (maCreator obj)),
      (''package'', required_tree MemPackage_tree (maPackage obj)),
      (''deposit'', TrText (maDeposit obj)),
      (''send'', TrText (maSend obj)),
      (''max_deposit'', TrText (maMaxDeposit obj))]"

lemma MsgAddPackage_tree_not_null [simp]: "MsgAddPackage_tree obj \<noteq> TrNull"
  by (simp add: MsgAddPackage_tree_def)

lemma executes_MsgAddPackage [executes]:
  "ready E \<Longrightarrow> writable E sel (MsgAddPackage_tree obj) \<Longrightarrow> exec_MsgAddPackage E sel p
      obj l = (Ret (render E sel (MsgAddPackage_tree obj)), l)"
  unfolding exec_MsgAddPackage_def MsgAddPackage_tree_def
  by (intro object_runs) (auto simp: field_runs_as_def Let_def resolved marshal_defs executes
      exec_MsgAddPackage_creator_def exec_MsgAddPackage_package_def exec_MsgAddPackage_deposit_def
      exec_MsgAddPackage_send_def exec_MsgAddPackage_max_deposit_def
      intro!: field_runs required_runs nullable_runs list_runs strings_run)

definition MsgRun_tree :: "MsgRun \<Rightarrow> gql_tree" where
  "MsgRun_tree obj = TrObject ''MsgRun'' msgRunImplementors
     [(''caller'', TrText (mrCaller obj)),
      (''send'', TrText (mrSend obj)),
      (''package'', required_tree MemPackage_tree (mrPackage obj)),
      (''max_deposit'', TrText (mrMaxDeposit obj))]"

lemma MsgRun_tree_not_null [simp]: "MsgRun_tree obj \<noteq> TrNull"
  by (simp add: MsgRun_tree_def)

lemma executes_MsgRun [executes]:
  "ready E \<Longrightarrow> writable E sel (MsgRun_tree obj) \<Longrightarrow> exec_MsgRun E sel p obj l = (Ret
      (render E sel (MsgRun_tree obj)), l)"
  unfolding exec_MsgRun_def MsgRun_tree_def
  by (intro object_runs) (auto simp: field_runs_as_def Let_def resolved marshal_defs executes
      exec_MsgRun_caller_def exec_MsgRun_send_def exec_MsgRun_package_def exec_MsgRun_max_deposit_def
      intro!: field_runs required_runs nullable_runs list_runs strings_run)

definition UnexpectedMessage_tree :: "UnexpectedMessage \<Rightarrow> gql_tree" where
  "UnexpectedMessage_tree obj = TrObject ''UnexpectedMessage'' unexpectedMessageImplementors
     [(''raw'', TrText (umRaw obj))]"

lemma UnexpectedMessage_tree_not_null [simp]: "UnexpectedMessage_tree obj \<noteq> TrNull"
  by (simp add: UnexpectedMessage_tree_def)

lemma executes_UnexpectedMessage [executes]:
  "ready E \<Longrightarrow> writable E sel (UnexpectedMessage_tree obj) \<Longrightarrow> exec_UnexpectedMessage E
      sel p obj l = (Ret (render E sel (UnexpectedMessage_tree obj)), l)"
  unfolding exec_UnexpectedMessage_def UnexpectedMessage_tree_def
  by (intro object_runs) (auto simp: field_runs_as_def Let_def resolved marshal_defs executes
      exec_UnexpectedMessage_raw_def
      intro!: field_runs required_runs nullable_runs list_runs strings_run)

fun MessageValue_tree :: "MessageValue \<Rightarrow> gql_tree" where
  "MessageValue_tree (MvBankMsgSend x) = BankMsgSend_tree x"
| "MessageValue_tree (MvMsgCall x) = MsgCall_tree x"
| "MessageValue_tree (MvMsgAddPackage x) = MsgAddPackage_tree x"
| "MessageValue_tree (MvMsgRun x) = MsgRun_tree x"
| "MessageValue_tree (MvUnexpected x) = UnexpectedMessage_tree x"

lemma MessageValue_tree_not_null [simp]: "MessageValue_tree obj \<noteq> TrNull"
  by (cases obj) (simp_all add: BankMsgSend_tree_def MsgCall_tree_def MsgAddPackage_tree_def MsgRun_tree_def
      UnexpectedMessage_tree_def)

lemma executes_MessageValue [executes]:
  "ready E \<Longrightarrow> writable E sel (MessageValue_tree obj) \<Longrightarrow> exec_MessageValue E sel p obj
      l = (Ret (render E sel (MessageValue_tree obj)), l)"
  by (cases obj) (simp_all add: exec_MessageValue_def executes)

definition TransactionMessage_tree :: "TransactionMessage \<Rightarrow> gql_tree" where
  "TransactionMessage_tree obj = TrObject ''TransactionMessage'' transactionMessageImplementors
     [(''typeUrl'', TrText (tmTypeURL obj)),
      (''route'', TrText (tmRoute obj)),
      (''value'', MessageValue_tree (tmValue obj))]"

lemma TransactionMessage_tree_not_null [simp]: "TransactionMessage_tree obj \<noteq> TrNull"
  by (simp add: TransactionMessage_tree_def)

lemma executes_TransactionMessage [executes]:
  "ready E \<Longrightarrow> writable E sel (TransactionMessage_tree obj) \<Longrightarrow> exec_TransactionMessage
      E sel p obj l = (Ret (render E sel (TransactionMessage_tree obj)), l)"
  unfolding exec_TransactionMessage_def TransactionMessage_tree_def
  by (intro object_runs) (auto simp: field_runs_as_def Let_def resolved marshal_defs executes
      exec_TransactionMessage_typeUrl_def exec_TransactionMessage_route_def exec_TransactionMessage_value_def
      intro!: field_runs required_runs nullable_runs list_runs strings_run)

definition GnoEventAttribute_tree :: "GnoEventAttribute \<Rightarrow> gql_tree" where
  "GnoEventAttribute_tree obj = TrObject ''GnoEventAttribute'' gnoEventAttributeImplementors
     [(''key'', TrText (gaKey obj)),
      (''value'', TrText (gaValue obj))]"

lemma GnoEventAttribute_tree_not_null [simp]: "GnoEventAttribute_tree obj \<noteq> TrNull"
  by (simp add: GnoEventAttribute_tree_def)

lemma executes_GnoEventAttribute [executes]:
  "ready E \<Longrightarrow> writable E sel (GnoEventAttribute_tree obj) \<Longrightarrow> exec_GnoEventAttribute E
      sel p obj l = (Ret (render E sel (GnoEventAttribute_tree obj)), l)"
  unfolding exec_GnoEventAttribute_def GnoEventAttribute_tree_def
  by (intro object_runs) (auto simp: field_runs_as_def Let_def resolved marshal_defs executes
      exec_GnoEventAttribute_key_def exec_GnoEventAttribute_value_def
      intro!: field_runs required_runs nullable_runs list_runs strings_run)

definition GnoEvent_tree :: "GnoEvent \<Rightarrow> gql_tree" where
  "GnoEvent_tree obj = TrObject ''GnoEvent'' gnoEventImplementors
     [(''type'', TrText (geType obj)),
      (''pkg_path'', TrText (gePkgPath obj)),
      (''attrs'', nullable_tree (list_tree GnoEventAttribute_tree) (geAttrs obj))]"

lemma GnoEvent_tree_not_null [simp]: "GnoEvent_tree obj \<noteq> TrNull"
  by (simp add: GnoEvent_tree_def)

lemma executes_GnoEvent [executes]:
  "ready E \<Longrightarrow> writable E sel (GnoEvent_tree obj) \<Longrightarrow> exec_GnoEvent E sel p obj l =
      (Ret (render E sel (GnoEvent_tree obj)), l)"
  unfolding exec_GnoEvent_def GnoEvent_tree_def
  by (intro object_runs) (auto simp: field_runs_as_def Let_def resolved marshal_defs executes
      exec_GnoEvent_type_def exec_GnoEvent_pkg_path_def exec_GnoEvent_attrs_def
      intro!: field_runs required_runs nullable_runs list_runs strings_run)

definition StorageDepositEvent_tree :: "StorageDepositEvent \<Rightarrow> gql_tree" where
  "StorageDepositEvent_tree obj = TrObject ''StorageDepositEvent'' storageDepositEventImplementors
     [(''type'', TrText (sdType obj)),
      (''bytes_delta'', TrInt (sdBytesDelta obj)),
      (''fee_delta'', required_tree Coin_tree (sdFeeDelta obj)),
      (''pkg_path'', TrText (sdPkgPath obj))]"

lemma StorageDepositEvent_tree_not_null [simp]: "StorageDepositEvent_tree obj \<noteq> TrNull"
  by (simp add: StorageDepositEvent_tree_def)

lemma executes_StorageDepositEvent [executes]:
  "ready E \<Longrightarrow> writable E sel (StorageDepositEvent_tree obj) \<Longrightarrow>
      exec_StorageDepositEvent E sel p obj l = (Ret (render E sel (StorageDepositEvent_tree obj)), l)"
  unfolding exec_StorageDepositEvent_def StorageDepositEvent_tree_def
  by (intro object_runs) (auto simp: field_runs_as_def Let_def resolved marshal_defs executes
      exec_StorageDepositEvent_type_def exec_StorageDepositEvent_bytes_delta_def
      exec_StorageDepositEvent_fee_delta_def exec_StorageDepositEvent_pkg_path_def
      intro!: field_runs required_runs nullable_runs list_runs strings_run)

definition StorageUnlockEvent_tree :: "StorageUnlockEvent \<Rightarrow> gql_tree" where
  "StorageUnlockEvent_tree obj = TrObject ''StorageUnlockEvent'' storageUnlockEventImplementors
     [(''type'', TrText (suType obj)),
      (''bytes_delta'', TrInt (suBytesDelta obj)),
      (''fee_refund'', required_tree Coin_tree (suFeeRefund obj)),
      (''pkg_path'', TrText (suPkgPath obj))]"

lemma StorageUnlockEvent_tree_not_null [simp]: "StorageUnlockEvent_tree obj \<noteq> TrNull"
  by (simp add: StorageUnlockEvent_tree_def)

lemma executes_StorageUnlockEvent [executes]:
  "ready E \<Longrightarrow> writable E sel (StorageUnlockEvent_tree obj) \<Longrightarrow> exec_StorageUnlockEvent
      E sel p obj l = (Ret (render E sel (StorageUnlockEvent_tree obj)), l)"
  unfolding exec_StorageUnlockEvent_def StorageUnlockEvent_tree_def
  by (intro object_runs) (auto simp: field_runs_as_def Let_def resolved marshal_defs executes
      exec_StorageUnlockEvent_type_def exec_StorageUnlockEvent_bytes_delta_def
      exec_StorageUnlockEvent_fee_refund_def exec_StorageUnlockEvent_pkg_path_def
      intro!: field_runs required_runs nullable_runs list_runs strings_run)

definition UnknownEvent_tree :: "UnknownEvent \<Rightarrow> gql_tree" where
  "UnknownEvent_tree obj = TrObject ''UnknownEvent'' unknownEventImplementors
     [(''value'', TrText (ueValue obj))]"

lemma UnknownEvent_tree_not_null [simp]: "UnknownEvent_tree obj \<noteq> TrNull"
  by (simp add: UnknownEvent_tree_def)

lemma executes_UnknownEvent [executes]:
  "ready E \<Longrightarrow> writable E sel (UnknownEvent_tree obj) \<Longrightarrow> exec_UnknownEvent E sel p obj
      l = (Ret (render E sel (UnknownEvent_tree obj)), l)"
  unfolding exec_UnknownEvent_def UnknownEvent_tree_def
  by (intro object_runs) (auto simp: field_runs_as_def Let_def resolved marshal_defs executes
      exec_UnknownEvent_value_def
      intro!: field_runs required_runs nullable_runs list_runs strings_run)

fun Event_tree :: "Event \<Rightarrow> gql_tree" where
  "Event_tree (EvGno x) = GnoEvent_tree x"
| "Event_tree (EvStorageDeposit x) = StorageDepositEvent_tree x"
| "Event_tree (EvStorageUnlock x) = StorageUnlockEvent_tree x"
| "Event_tree (EvUnknown x) = UnknownEvent_tree x"

lemma Event_tree_not_null [simp]: "Event_tree obj \<noteq> TrNull"
  by (cases obj) (simp_all add: GnoEvent_tree_def StorageDepositEvent_tree_def StorageUnlockEvent_tree_def
      UnknownEvent_tree_def)

lemma executes_Event [executes]:
  "ready E \<Longrightarrow> writable E sel (Event_tree obj) \<Longrightarrow> exec_Event E sel p obj l = (Ret
      (render E sel (Event_tree obj)), l)"
  by (cases obj) (simp_all add: exec_Event_def executes)

definition TransactionResponse_tree :: "graph_env \<Rightarrow> TransactionResponse \<Rightarrow> gql_tree" where
  "TransactionResponse_tree G obj = TrObject ''TransactionResponse'' transactionResponseImplementors
     [(''log'', TrText (TransactionResponse_Log obj)),
      (''info'', TrText (TransactionResponse_Info obj)),
      (''error'', TrText (TransactionResponse_Error obj)),
      (''data'', TrText (TransactionResponse_Data obj)),
      (''events'', list_tree Event_tree (TransactionResponse_Events G obj))]"

lemma TransactionResponse_tree_not_null [simp]: "TransactionResponse_tree G obj \<noteq> TrNull"
  by (simp add: TransactionResponse_tree_def)

lemma executes_TransactionResponse [executes]:
  "ready E \<Longrightarrow> writable E sel (TransactionResponse_tree G obj) \<Longrightarrow>
      exec_TransactionResponse G E sel p obj l = (Ret (render E sel (TransactionResponse_tree G obj)), l)"
  unfolding exec_TransactionResponse_def TransactionResponse_tree_def
  by (intro object_runs) (auto simp: field_runs_as_def Let_def resolved marshal_defs executes
      exec_TransactionResponse_log_def exec_TransactionResponse_info_def exec_TransactionResponse_error_def
      exec_TransactionResponse_data_def exec_TransactionResponse_events_def
      intro!: field_runs required_runs nullable_runs list_runs strings_run)

text \<open>A transaction by the result it holds and its messages.\<close>

definition Transaction_tree :: "codec \<Rightarrow> graph_env \<Rightarrow> tx_result \<Rightarrow>
      TransactionMessage list \<Rightarrow> gql_tree" where
  "Transaction_tree C G r ms = TrObject ''Transaction'' transactionImplementors
     [(''index'', TrInt (Transaction_Index r)),
      (''hash'', TrText (Transaction_Hash C r)),
      (''success'', TrBool (Transaction_Success r)),
      (''block_height'', TrInt (Transaction_BlockHeight r)),
      (''gas_wanted'', TrInt (Transaction_GasWanted r)),
      (''gas_used'', TrInt (Transaction_GasUsed r)),
      (''gas_fee'', nullable_tree Coin_tree (Transaction_GasFee C G r)),
      (''content_raw'', TrText (Transaction_ContentRaw G r)),
      (''messages'', list_tree TransactionMessage_tree (ms)),
      (''memo'', TrText (Transaction_Memo C G r)),
      (''response'', TransactionResponse_tree G (Transaction_Response r))]"

lemma Transaction_tree_not_null [simp]: "Transaction_tree C G r ms \<noteq> TrNull"
  by (simp add: Transaction_tree_def)

lemma executes_Transaction [executes]:
  assumes "ready E" "Transaction_result obj = Ret r" "Transaction_Messages C G r = Ret ms" "writable E sel
      (Transaction_tree C G r ms)"
  shows "exec_Transaction C G E sel p obj l = (Ret (render E sel (Transaction_tree C G r ms)), l)"
  using assms(1,4) unfolding exec_Transaction_def Transaction_tree_def
  by (intro object_runs) (auto simp: field_runs_as_def Let_def assms(2,3) resolved marshal_defs executes
      exec_Transaction_index_def exec_Transaction_hash_def exec_Transaction_success_def
      exec_Transaction_block_height_def exec_Transaction_gas_wanted_def exec_Transaction_gas_used_def
      exec_Transaction_gas_fee_def exec_Transaction_content_raw_def exec_Transaction_messages_def
      exec_Transaction_memo_def exec_Transaction_response_def
      intro!: field_runs required_runs nullable_runs list_runs strings_run)

end
