(* ===== verification/Graph_Input_Facts.thy ===== *)
theory Graph_Input_Facts
  imports Graph_Inputs Graph_Schema
begin

text \<open>
  The decoders of the arguments are correct: a value that the schema allows is decoded without an error and
  without a panic (\<open>accept\<close>), and every filter is decoded from its rendering as a value (\<open>rendered\<close>), so
  a request can express every filter of the program.
\<close>

section \<open>The templates accept the values of their types\<close>

named_theorems accept \<open>decoders that take every value of a type\<close>

text \<open>The library: lists are coerced as the specification says, and a scalar takes the values of its type.\<close>

definition library_ok :: "(string \<Rightarrow> gql_input \<Rightarrow> bool) \<Rightarrow> input_env \<Rightarrow> bool" where
  "library_ok sc E \<longleftrightarrow> coerces_lists E \<and>
     (\<forall>v. sc ''Int'' v \<longrightarrow> \<not> isl (geInt E v)) \<and> (\<forall>v. sc ''Boolean'' v \<longrightarrow> \<not> isl (geBoolean E v)) \<and>
     (\<forall>v. sc ''String'' v \<longrightarrow> \<not> isl (geString E v)) \<and> (\<forall>v. sc ''Time'' v \<longrightarrow> \<not> isl (geTime E v))"

lemma acceptsI: "(\<And>p v. conforms sc t v \<Longrightarrow> \<exists>x. dec p v = Ret (Inr x)) \<Longrightarrow> accepts sc t dec"
  by (simp add: accepts_def)

lemma acceptsD: "accepts sc t dec \<Longrightarrow> conforms sc t v \<Longrightarrow> \<exists>x. dec p v = Ret (Inr x)"
  by (simp add: accepts_def)

lemma accepts_scalar:
  assumes "schema n = Some DScalar" "\<forall>v. sc n v \<longrightarrow> \<not> isl (f v)"
  shows "accepts sc (TNonNull (TNamed n)) (scalarIn f)"
proof (rule acceptsI)
  fix p v assume "conforms sc (TNonNull (TNamed n)) v"
  then have "sc n v" using assms(1) by (cases v) auto
  with assms(2) show "\<exists>x. scalarIn f p v = Ret (Inr x)" by (auto simp: scalarIn_def dest: not_islD)
qed

lemma accepts_enum:
  assumes "schema n = Some (DEnum es)" "\<forall>s \<in> set es. unmarshalGQL '''' (GString s) = (None, s)"
  shows "accepts sc (TNonNull (TNamed n)) (enumIn unmarshalGQL)"
proof (rule acceptsI)
  fix p v assume "conforms sc (TNonNull (TNamed n)) v"
  then obtain s where "v = IString s" "s \<in> set es" using assms(1) by (cases v) (auto simp: List.member_iff)
  with assms(2) show "\<exists>x. enumIn unmarshalGQL p v = Ret (Inr x)" by (auto simp: enumIn_def)
qed

lemma accepts_required [accept]: "accepts sc t dec \<Longrightarrow> accepts sc t (requiredIn E dec)"
  by (auto simp: accepts_def requiredIn_def) (metis onPath_simps(3))

lemma accepts_nullable [accept]: "accepts sc (TNonNull (TNamed n)) dec \<Longrightarrow> accepts sc (TNamed n) (nullableIn E dec)"
  by (auto simp: accepts_def nullableIn_def) (metis mapE_simps(3) onPath_simps(3))

lemma elems_accept:
  assumes "\<And>p v. v \<in> set vs \<Longrightarrow> \<exists>x. dec p v = Ret (Inr x)"
  shows "\<exists>xs. elemsIn dec p i vs = Ret (Inr xs)"
  using assms
proof (induction vs arbitrary: i)
  case (Cons v vs)
  obtain x where "dec (p @ [PIndex i]) v = Ret (Inr x)" using Cons.prems [of v "p @ [PIndex i]"] by auto
  moreover obtain xs where "elemsIn dec p (Suc i) vs = Ret (Inr xs)" using Cons.IH [of "Suc i"] Cons.prems by auto
  ultimately show ?case by simp
qed auto

text \<open>The elements of a value of a list type are values of the type of the elements.\<close>

lemma coerced_elements:
  assumes "coerces_lists E" "conforms sc (TList t) v" "v \<noteq> INull" "x \<in> set (coerceList (geCoerce E) v)"
  shows "conforms sc t x"
  using assms by (cases v) (auto simp: coerces_lists_def)

lemma accepts_slice:
  assumes "coerces_lists E" "accepts sc t dec"
  shows "accepts sc (TList t) (sliceIn E dec)" "accepts sc (TList t) (listIn E dec)"
proof -
  have "\<exists>xs. elemsIn dec p 0 (coerceList (geCoerce E) v) = Ret (Inr xs)"
    if "conforms sc (TList t) v" "v \<noteq> INull" for p v
    using coerced_elements [OF assms(1) that] acceptsD [OF assms(2)] by (intro elems_accept) blast
  then show "accepts sc (TList t) (sliceIn E dec)" "accepts sc (TList t) (listIn E dec)"
    by (auto simp: accepts_def sliceIn_def listIn_def) (metis mapE_simps(3))+
qed

lemma accepts_lists [accept]:
  assumes "library_ok sc E" "accepts sc t dec"
  shows "accepts sc (TList t) (sliceIn E dec)" "accepts sc (TList t) (listIn E dec)"
  using assms accepts_slice by (auto simp: library_ok_def)

text \<open>A step takes the fields of every object of an input type.\<close>

definition object_fields_ok :: "(string \<Rightarrow> gql_input \<Rightarrow> bool) \<Rightarrow> input_fields \<Rightarrow> (string \<rightharpoonup> gql_input) \<Rightarrow> bool" where
  "object_fields_ok sc fs m \<longleftrightarrow>
     (\<forall>k x. m k = Some x \<longrightarrow> (\<exists>t. map_of fs k = Some t \<and> conforms sc t x))"

definition step_accepts :: "(string \<Rightarrow> gql_input \<Rightarrow> bool) \<Rightarrow> input_fields \<Rightarrow> 'r field_step \<Rightarrow> bool" where
  "step_accepts sc fs s \<longleftrightarrow> (\<forall>p m it. object_fields_ok sc fs m \<longrightarrow> (\<exists>it'. s p m it = Ret (Inr it')))"

lemma step_acceptsD: "step_accepts sc fs s \<Longrightarrow> object_fields_ok sc fs m \<Longrightarrow> \<exists>it'. s p m it = Ret (Inr it')"
  by (simp add: step_accepts_def)

lemma step_accepts_field [accept]:
  assumes "accepts sc (the (map_of fs k)) dec"
  shows "step_accepts sc fs (fieldIn k dec upd)"
proof -
  have "\<exists>x. dec (p @ [PField k]) v = Ret (Inr x)" if "object_fields_ok sc fs m" "m k = Some v" for p m v
    using that acceptsD [OF assms] by (force simp: object_fields_ok_def)
  then show ?thesis by (auto simp: step_accepts_def fieldIn_def split: option.split) (metis mapE_simps(3))
qed

lemma steps_accept:
  assumes "\<forall>s \<in> set ss. step_accepts sc fs s"
  shows "step_accepts sc fs (fieldsIn ss)"
  using assms
proof (induction ss)
  case (Cons s ss)
  have "\<exists>it'. fieldsIn (s # ss) p m it = Ret (Inr it')" if m: "object_fields_ok sc fs m" for p m it
  proof -
    obtain x where "s p m it = Ret (Inr x)" using Cons.prems step_acceptsD [OF _ m, of s p it] by auto
    then show ?thesis using Cons.IH Cons.prems step_acceptsD [OF _ m, of "fieldsIn ss" p x] by simp
  qed
  then show ?case by (simp add: step_accepts_def)
qed (simp add: step_accepts_def)

lemma input_fields_ok:
  assumes "schema n = Some (DInput fs)" "conforms sc (TNonNull (TNamed n)) v"
  shows "\<exists>kvs. v = IObject kvs \<and> object_fields_ok sc fs (map_of kvs)"
proof -
  obtain kvs where v: "v = IObject kvs" and
    typed: "\<forall>(k, x) \<in> set kvs. case map_of fs k of None \<Rightarrow> False | Some t \<Rightarrow> conforms sc t x"
    using assms by (cases v) auto
  have "object_fields_ok sc fs (map_of kvs)"
    unfolding object_fields_ok_def
  proof (intro allI impI)
    fix k x assume "map_of kvs k = Some x"
    then have "(k, x) \<in> set kvs" by (rule map_of_SomeD)
    with typed show "\<exists>t. map_of fs k = Some t \<and> conforms sc t x" by (auto split: option.splits)
  qed
  with v show ?thesis by blast
qed

lemma accepts_object:
  assumes "schema n = Some (DInput fs)" "\<forall>s \<in> set steps. step_accepts sc fs s"
  shows "accepts sc (TNonNull (TNamed n)) (objectIn zero steps)"
proof (rule acceptsI)
  fix p v assume "conforms sc (TNonNull (TNamed n)) v"
  then obtain kvs where v: "v = IObject kvs" "object_fields_ok sc fs (map_of kvs)"
    using input_fields_ok [OF assms(1)] by blast
  then show "\<exists>x. objectIn zero steps p v = Ret (Inr x)"
    using step_acceptsD [OF steps_accept [OF assms(2)]] by (simp add: objectIn_def)
qed

lemma accepts_filter:
  fixes zero :: 'p
  assumes schema: "schema n = Some (DInput fs)" and E: "coerces_lists E"
    and logic: "map_of fs ''_and'' = Some (TList (TNamed n))" "map_of fs ''_or'' = Some (TList (TNamed n))"
      "map_of fs ''_not'' = Some (TNamed n)"
    and steps: "\<forall>s \<in> set steps. step_accepts sc fs s"
  shows "accepts sc (TNonNull (TNamed n)) (filterIn E zero steps)"
proof (rule acceptsI)
  fix p v assume "conforms sc (TNonNull (TNamed n)) v"
  then show "\<exists>x. filterIn E zero steps p v = Ret (Inr x)"
  proof (induction v arbitrary: p rule: measure_induct_rule [of size])
    case (less v)
    from less.prems obtain kvs where v: "v = IObject kvs" and m: "object_fields_ok sc fs (map_of kvs)"
      using input_fields_ok [OF schema] by blast
    let ?dec = "\<lambda>q x. filterIn E zero steps q x"
    have tv: "conforms sc t x" if "map_of kvs k = Some x" "map_of fs k = Some t" for k x t
      using m that by (force simp: object_fields_ok_def)
    have sub: "\<exists>y. nullableIn E ?dec q x = Ret (Inr y)" if "size x < size v" "conforms sc (TNamed n) x" for q x
      using less.IH [OF that(1), of q] that(2) by (auto simp: nullableIn_def)
    have part: "size x < size v" if "map_of kvs k = Some x" for k x
      unfolding v by (rule object_value_size [OF map_of_SomeD [OF that]])
    have nott: "\<exists>it'. fieldIn ''_not'' (nullableIn E ?dec) setNot p (map_of kvs) it = Ret (Inr it')" for it
      using sub part tv [OF _ logic(3)] by (auto simp: fieldIn_def split: option.split) (metis mapE_simps(3))
    have slice: "\<exists>ys. sliceIn E (nullableIn E ?dec) q x = Ret (Inr ys)"
      if "map_of kvs k = Some x" "conforms sc (TList (TNamed n)) x" for q x k
    proof -
      have "\<exists>ys. elemsIn (nullableIn E ?dec) q 0 (coerceList (geCoerce E) x) = Ret (Inr ys)" if "x \<noteq> INull"
        using sub coerced_elements [OF E \<open>conforms sc (TList (TNamed n)) x\<close> that]
          coerceList_size part [OF \<open>map_of kvs k = Some x\<close>]
        by (intro elems_accept) (meson order_le_less_trans)
      then show ?thesis by (auto simp: sliceIn_def listIn_def)
    qed
    have lists: "\<exists>it'. fieldIn k (sliceIn E (nullableIn E ?dec)) upd p (map_of kvs) it = Ret (Inr it')"
      if "map_of fs k = Some (TList (TNamed n))" for k it and upd :: "'p gql_filter option list \<Rightarrow> 'p gql_filter \<Rightarrow> 'p gql_filter"
      using slice tv [OF _ that] by (auto simp: fieldIn_def split: option.split) (metis mapE_simps(3))
    obtain it1 where 1: "fieldIn ''_and'' (sliceIn E (nullableIn E ?dec)) setAnd p (map_of kvs) (Filter [] [] None zero) = Ret (Inr it1)"
      using lists [OF logic(1)] by blast
    obtain it2 where 2: "fieldIn ''_or'' (sliceIn E (nullableIn E ?dec)) setOr p (map_of kvs) it1 = Ret (Inr it2)"
      using lists [OF logic(2)] by blast
    obtain it3 where 3: "fieldIn ''_not'' (nullableIn E ?dec) setNot p (map_of kvs) it2 = Ret (Inr it3)"
      using nott by blast
    obtain q where 4: "fieldsIn steps p (map_of kvs) (fFields it3) = Ret (Inr q)"
      using step_acceptsD [OF steps_accept [OF steps] m] by blast
    show ?case by (simp add: filterIn.simps [of E zero steps p "IObject kvs"] v 1 2 3 ownIn_def 4)
  qed
qed

lemma library_ok_lists: "library_ok sc E \<Longrightarrow> coerces_lists E"
  by (simp add: library_ok_def)

section \<open>Every input accepts the values of its type\<close>

lemma schema_lookup:
  "schema ''AmountInput'' = Some (DInput AmountInput_schema)"
  "schema ''BankMsgSendInput'' = Some (DInput BankMsgSendInput_schema)"
  "schema ''BlockFilter'' = Some (DInput BlockFilter_schema)"
  "schema ''BlockOrder'' = Some (DInput BlockOrder_schema)"
  "schema ''CoinInput'' = Some (DInput CoinInput_schema)"
  "schema ''EventAttributeInput'' = Some (DInput EventAttributeInput_schema)"
  "schema ''EventInput'' = Some (DInput EventInput_schema)"
  "schema ''FilterBankMsgSend'' = Some (DInput FilterBankMsgSend_schema)"
  "schema ''FilterBlock'' = Some (DInput FilterBlock_schema)"
  "schema ''FilterBlockTransaction'' = Some (DInput FilterBlockTransaction_schema)"
  "schema ''FilterBoolean'' = Some (DInput FilterBoolean_schema)"
  "schema ''FilterCoin'' = Some (DInput FilterCoin_schema)"
  "schema ''FilterEvent'' = Some (DInput FilterEvent_schema)"
  "schema ''FilterGnoEvent'' = Some (DInput FilterGnoEvent_schema)"
  "schema ''FilterGnoEventAttribute'' = Some (DInput FilterGnoEventAttribute_schema)"
  "schema ''FilterInt'' = Some (DInput FilterInt_schema)"
  "schema ''FilterMemFile'' = Some (DInput FilterMemFile_schema)"
  "schema ''FilterMemPackage'' = Some (DInput FilterMemPackage_schema)"
  "schema ''FilterMessageValue'' = Some (DInput FilterMessageValue_schema)"
  "schema ''FilterMsgAddPackage'' = Some (DInput FilterMsgAddPackage_schema)"
  "schema ''FilterMsgCall'' = Some (DInput FilterMsgCall_schema)"
  "schema ''FilterMsgRun'' = Some (DInput FilterMsgRun_schema)"
  "schema ''FilterStorageDepositEvent'' = Some (DInput FilterStorageDepositEvent_schema)"
  "schema ''FilterStorageUnlockEvent'' = Some (DInput FilterStorageUnlockEvent_schema)"
  "schema ''FilterString'' = Some (DInput FilterString_schema)"
  "schema ''FilterTime'' = Some (DInput FilterTime_schema)"
  "schema ''FilterTransaction'' = Some (DInput FilterTransaction_schema)"
  "schema ''FilterTransactionMessage'' = Some (DInput FilterTransactionMessage_schema)"
  "schema ''FilterTransactionResponse'' = Some (DInput FilterTransactionResponse_schema)"
  "schema ''FilterTxFee'' = Some (DInput FilterTxFee_schema)"
  "schema ''FilterUnknownEvent'' = Some (DInput FilterUnknownEvent_schema)"
  "schema ''FilterableExtra'' = Some (DEnum FilterableExtra_schema)"
  "schema ''GnoEventInput'' = Some (DInput GnoEventInput_schema)"
  "schema ''MemFileInput'' = Some (DInput MemFileInput_schema)"
  "schema ''MemPackageInput'' = Some (DInput MemPackageInput_schema)"
  "schema ''MessageRoute'' = Some (DEnum MessageRoute_schema)"
  "schema ''MessageType'' = Some (DEnum MessageType_schema)"
  "schema ''MsgAddPackageInput'' = Some (DInput MsgAddPackageInput_schema)"
  "schema ''MsgCallInput'' = Some (DInput MsgCallInput_schema)"
  "schema ''MsgRunInput'' = Some (DInput MsgRunInput_schema)"
  "schema ''NestedFilterBankMsgSend'' = Some (DInput NestedFilterBankMsgSend_schema)"
  "schema ''NestedFilterBlockTransaction'' = Some (DInput NestedFilterBlockTransaction_schema)"
  "schema ''NestedFilterCoin'' = Some (DInput NestedFilterCoin_schema)"
  "schema ''NestedFilterEvent'' = Some (DInput NestedFilterEvent_schema)"
  "schema ''NestedFilterGnoEvent'' = Some (DInput NestedFilterGnoEvent_schema)"
  "schema ''NestedFilterGnoEventAttribute'' = Some (DInput NestedFilterGnoEventAttribute_schema)"
  "schema ''NestedFilterMemFile'' = Some (DInput NestedFilterMemFile_schema)"
  "schema ''NestedFilterMemPackage'' = Some (DInput NestedFilterMemPackage_schema)"
  "schema ''NestedFilterMessageValue'' = Some (DInput NestedFilterMessageValue_schema)"
  "schema ''NestedFilterMsgAddPackage'' = Some (DInput NestedFilterMsgAddPackage_schema)"
  "schema ''NestedFilterMsgCall'' = Some (DInput NestedFilterMsgCall_schema)"
  "schema ''NestedFilterMsgRun'' = Some (DInput NestedFilterMsgRun_schema)"
  "schema ''NestedFilterStorageDepositEvent'' = Some (DInput NestedFilterStorageDepositEvent_schema)"
  "schema ''NestedFilterStorageUnlockEvent'' = Some (DInput NestedFilterStorageUnlockEvent_schema)"
  "schema ''NestedFilterTransactionMessage'' = Some (DInput NestedFilterTransactionMessage_schema)"
  "schema ''NestedFilterTransactionResponse'' = Some (DInput NestedFilterTransactionResponse_schema)"
  "schema ''NestedFilterTxFee'' = Some (DInput NestedFilterTxFee_schema)"
  "schema ''NestedFilterUnknownEvent'' = Some (DInput NestedFilterUnknownEvent_schema)"
  "schema ''Order'' = Some (DEnum Order_schema)"
  "schema ''StorageDepositEventInput'' = Some (DInput StorageDepositEventInput_schema)"
  "schema ''StorageUnlockEventInput'' = Some (DInput StorageUnlockEventInput_schema)"
  "schema ''TransactionBankMessageInput'' = Some (DInput TransactionBankMessageInput_schema)"
  "schema ''TransactionFilter'' = Some (DInput TransactionFilter_schema)"
  "schema ''TransactionMessageInput'' = Some (DInput TransactionMessageInput_schema)"
  "schema ''TransactionOrder'' = Some (DInput TransactionOrder_schema)"
  "schema ''TransactionVmMessageInput'' = Some (DInput TransactionVmMessageInput_schema)"
  "schema ''Int'' = Some DScalar"
  "schema ''Boolean'' = Some DScalar"
  "schema ''String'' = Some DScalar"
  "schema ''Time'' = Some DScalar"
  unfolding schema_def by (rule map_of_is_SomeI [OF schema_distinct]; simp only: schema_types_def list.set; (rule insertI1 | rule insertI2)+)+

lemma enums_decode:
  "\<forall>s \<in> set Order_schema. Order_UnmarshalGQL e (GString s) = (None, s)"
  "\<forall>s \<in> set FilterableExtra_schema. FilterableExtra_UnmarshalGQL e (GString s) = (None, s)"
  "\<forall>s \<in> set MessageRoute_schema. MessageRoute_UnmarshalGQL e (GString s) = (None, s)"
  "\<forall>s \<in> set MessageType_schema. MessageType_UnmarshalGQL e (GString s) = (None, s)"
  by (simp_all add: Order_schema_def FilterableExtra_schema_def MessageRoute_schema_def MessageType_schema_def
      Order_UnmarshalGQL_def FilterableExtra_UnmarshalGQL_def MessageRoute_UnmarshalGQL_def MessageType_UnmarshalGQL_def
      unmarshalEnum_def Order_IsValid_def FilterableExtra_IsValid_def MessageRoute_IsValid_def MessageType_IsValid_def enum_defs)

lemmas schema_scalars = schema_lookup(67-70)

lemma accepts_scalars [accept]:
  assumes "library_ok sc E"
  shows "accepts sc (TNonNull (TNamed ''Int'')) (scalarIn (geInt E))"
    "accepts sc (TNonNull (TNamed ''Boolean'')) (scalarIn (geBoolean E))"
    "accepts sc (TNonNull (TNamed ''String'')) (scalarIn (geString E))"
    "accepts sc (TNonNull (TNamed ''Time'')) (scalarIn (geTime E))"
    "accepts sc (TNonNull (TNamed ''Order'')) (enumIn Order_UnmarshalGQL)"
    "accepts sc (TNonNull (TNamed ''FilterableExtra'')) (enumIn FilterableExtra_UnmarshalGQL)"
    "accepts sc (TNonNull (TNamed ''MessageRoute'')) (enumIn MessageRoute_UnmarshalGQL)"
    "accepts sc (TNonNull (TNamed ''MessageType'')) (enumIn MessageType_UnmarshalGQL)"
  using assms by (auto simp: library_ok_def schema_scalars intro: accepts_scalar)
    (rule accepts_enum, rule schema_lookup, rule enums_decode)+

lemma accepts_FilterString [accept]:
  "library_ok sc E \<Longrightarrow> accepts sc (TNonNull (TNamed ''FilterString'')) (unmarshalInputFilterString E)"
  unfolding unmarshalInputFilterString_def
  by (rule accepts_object [OF schema_lookup(25)]) (simp add: FilterString_schema_def accept input_defs)

lemma accepts_FilterInt [accept]:
  "library_ok sc E \<Longrightarrow> accepts sc (TNonNull (TNamed ''FilterInt'')) (unmarshalInputFilterInt E)"
  unfolding unmarshalInputFilterInt_def
  by (rule accepts_object [OF schema_lookup(16)]) (simp add: FilterInt_schema_def accept input_defs)

lemma accepts_FilterBoolean [accept]:
  "library_ok sc E \<Longrightarrow> accepts sc (TNonNull (TNamed ''FilterBoolean'')) (unmarshalInputFilterBoolean E)"
  unfolding unmarshalInputFilterBoolean_def
  by (rule accepts_object [OF schema_lookup(11)]) (simp add: FilterBoolean_schema_def accept input_defs)

lemma accepts_FilterTime [accept]:
  "library_ok sc E \<Longrightarrow> accepts sc (TNonNull (TNamed ''FilterTime'')) (unmarshalInputFilterTime E)"
  unfolding unmarshalInputFilterTime_def
  by (rule accepts_object [OF schema_lookup(26)]) (simp add: FilterTime_schema_def accept input_defs)

lemma accepts_NestedFilterBankMsgSend [accept]:
  "library_ok sc E \<Longrightarrow> accepts sc (TNonNull (TNamed ''NestedFilterBankMsgSend'')) (unmarshalInputNestedFilterBankMsgSend E)"
  unfolding unmarshalInputNestedFilterBankMsgSend_def
  by (rule accepts_filter [OF schema_lookup(41)])
    (simp_all add: NestedFilterBankMsgSend_schema_def library_ok_lists accept input_defs)

lemma accepts_NestedFilterCoin [accept]:
  "library_ok sc E \<Longrightarrow> accepts sc (TNonNull (TNamed ''NestedFilterCoin'')) (unmarshalInputNestedFilterCoin E)"
  unfolding unmarshalInputNestedFilterCoin_def
  by (rule accepts_filter [OF schema_lookup(43)])
    (simp_all add: NestedFilterCoin_schema_def library_ok_lists accept input_defs)

lemma accepts_NestedFilterTxFee [accept]:
  "library_ok sc E \<Longrightarrow> accepts sc (TNonNull (TNamed ''NestedFilterTxFee'')) (unmarshalInputNestedFilterTxFee E)"
  unfolding unmarshalInputNestedFilterTxFee_def
  by (rule accepts_filter [OF schema_lookup(57)])
    (simp_all add: NestedFilterTxFee_schema_def library_ok_lists accept input_defs)

lemma accepts_NestedFilterBlockTransaction [accept]:
  "library_ok sc E \<Longrightarrow> accepts sc (TNonNull (TNamed ''NestedFilterBlockTransaction'')) (unmarshalInputNestedFilterBlockTransaction E)"
  unfolding unmarshalInputNestedFilterBlockTransaction_def
  by (rule accepts_filter [OF schema_lookup(42)])
    (simp_all add: NestedFilterBlockTransaction_schema_def library_ok_lists accept input_defs)

lemma accepts_NestedFilterGnoEventAttribute [accept]:
  "library_ok sc E \<Longrightarrow> accepts sc (TNonNull (TNamed ''NestedFilterGnoEventAttribute'')) (unmarshalInputNestedFilterGnoEventAttribute E)"
  unfolding unmarshalInputNestedFilterGnoEventAttribute_def
  by (rule accepts_filter [OF schema_lookup(46)])
    (simp_all add: NestedFilterGnoEventAttribute_schema_def library_ok_lists accept input_defs)

lemma accepts_NestedFilterGnoEvent [accept]:
  "library_ok sc E \<Longrightarrow> accepts sc (TNonNull (TNamed ''NestedFilterGnoEvent'')) (unmarshalInputNestedFilterGnoEvent E)"
  unfolding unmarshalInputNestedFilterGnoEvent_def
  by (rule accepts_filter [OF schema_lookup(45)])
    (simp_all add: NestedFilterGnoEvent_schema_def library_ok_lists accept input_defs)

lemma accepts_NestedFilterStorageDepositEvent [accept]:
  "library_ok sc E \<Longrightarrow> accepts sc (TNonNull (TNamed ''NestedFilterStorageDepositEvent'')) (unmarshalInputNestedFilterStorageDepositEvent E)"
  unfolding unmarshalInputNestedFilterStorageDepositEvent_def
  by (rule accepts_filter [OF schema_lookup(53)])
    (simp_all add: NestedFilterStorageDepositEvent_schema_def library_ok_lists accept input_defs)

lemma accepts_NestedFilterStorageUnlockEvent [accept]:
  "library_ok sc E \<Longrightarrow> accepts sc (TNonNull (TNamed ''NestedFilterStorageUnlockEvent'')) (unmarshalInputNestedFilterStorageUnlockEvent E)"
  unfolding unmarshalInputNestedFilterStorageUnlockEvent_def
  by (rule accepts_filter [OF schema_lookup(54)])
    (simp_all add: NestedFilterStorageUnlockEvent_schema_def library_ok_lists accept input_defs)

lemma accepts_NestedFilterUnknownEvent [accept]:
  "library_ok sc E \<Longrightarrow> accepts sc (TNonNull (TNamed ''NestedFilterUnknownEvent'')) (unmarshalInputNestedFilterUnknownEvent E)"
  unfolding unmarshalInputNestedFilterUnknownEvent_def
  by (rule accepts_filter [OF schema_lookup(58)])
    (simp_all add: NestedFilterUnknownEvent_schema_def library_ok_lists accept input_defs)

lemma accepts_NestedFilterEvent [accept]:
  "library_ok sc E \<Longrightarrow> accepts sc (TNonNull (TNamed ''NestedFilterEvent'')) (unmarshalInputNestedFilterEvent E)"
  unfolding unmarshalInputNestedFilterEvent_def
  by (rule accepts_filter [OF schema_lookup(44)])
    (simp_all add: NestedFilterEvent_schema_def library_ok_lists accept input_defs)

lemma accepts_NestedFilterMemFile [accept]:
  "library_ok sc E \<Longrightarrow> accepts sc (TNonNull (TNamed ''NestedFilterMemFile'')) (unmarshalInputNestedFilterMemFile E)"
  unfolding unmarshalInputNestedFilterMemFile_def
  by (rule accepts_filter [OF schema_lookup(47)])
    (simp_all add: NestedFilterMemFile_schema_def library_ok_lists accept input_defs)

lemma accepts_NestedFilterMemPackage [accept]:
  "library_ok sc E \<Longrightarrow> accepts sc (TNonNull (TNamed ''NestedFilterMemPackage'')) (unmarshalInputNestedFilterMemPackage E)"
  unfolding unmarshalInputNestedFilterMemPackage_def
  by (rule accepts_filter [OF schema_lookup(48)])
    (simp_all add: NestedFilterMemPackage_schema_def library_ok_lists accept input_defs)

lemma accepts_NestedFilterMsgCall [accept]:
  "library_ok sc E \<Longrightarrow> accepts sc (TNonNull (TNamed ''NestedFilterMsgCall'')) (unmarshalInputNestedFilterMsgCall E)"
  unfolding unmarshalInputNestedFilterMsgCall_def
  by (rule accepts_filter [OF schema_lookup(51)])
    (simp_all add: NestedFilterMsgCall_schema_def library_ok_lists accept input_defs)

lemma accepts_NestedFilterMsgAddPackage [accept]:
  "library_ok sc E \<Longrightarrow> accepts sc (TNonNull (TNamed ''NestedFilterMsgAddPackage'')) (unmarshalInputNestedFilterMsgAddPackage E)"
  unfolding unmarshalInputNestedFilterMsgAddPackage_def
  by (rule accepts_filter [OF schema_lookup(50)])
    (simp_all add: NestedFilterMsgAddPackage_schema_def library_ok_lists accept input_defs)

lemma accepts_NestedFilterMsgRun [accept]:
  "library_ok sc E \<Longrightarrow> accepts sc (TNonNull (TNamed ''NestedFilterMsgRun'')) (unmarshalInputNestedFilterMsgRun E)"
  unfolding unmarshalInputNestedFilterMsgRun_def
  by (rule accepts_filter [OF schema_lookup(52)])
    (simp_all add: NestedFilterMsgRun_schema_def library_ok_lists accept input_defs)

lemma accepts_NestedFilterMessageValue [accept]:
  "library_ok sc E \<Longrightarrow> accepts sc (TNonNull (TNamed ''NestedFilterMessageValue'')) (unmarshalInputNestedFilterMessageValue E)"
  unfolding unmarshalInputNestedFilterMessageValue_def
  by (rule accepts_filter [OF schema_lookup(49)])
    (simp_all add: NestedFilterMessageValue_schema_def library_ok_lists accept input_defs)

lemma accepts_NestedFilterTransactionMessage [accept]:
  "library_ok sc E \<Longrightarrow> accepts sc (TNonNull (TNamed ''NestedFilterTransactionMessage'')) (unmarshalInputNestedFilterTransactionMessage E)"
  unfolding unmarshalInputNestedFilterTransactionMessage_def
  by (rule accepts_filter [OF schema_lookup(55)])
    (simp_all add: NestedFilterTransactionMessage_schema_def library_ok_lists accept input_defs)

lemma accepts_NestedFilterTransactionResponse [accept]:
  "library_ok sc E \<Longrightarrow> accepts sc (TNonNull (TNamed ''NestedFilterTransactionResponse'')) (unmarshalInputNestedFilterTransactionResponse E)"
  unfolding unmarshalInputNestedFilterTransactionResponse_def
  by (rule accepts_filter [OF schema_lookup(56)])
    (simp_all add: NestedFilterTransactionResponse_schema_def library_ok_lists accept input_defs)

lemma accepts_FilterTransaction [accept]:
  "library_ok sc E \<Longrightarrow> accepts sc (TNonNull (TNamed ''FilterTransaction'')) (unmarshalInputFilterTransaction E)"
  unfolding unmarshalInputFilterTransaction_def
  by (rule accepts_filter [OF schema_lookup(27)])
    (simp_all add: FilterTransaction_schema_def library_ok_lists accept input_defs)

lemma accepts_FilterBlock [accept]:
  "library_ok sc E \<Longrightarrow> accepts sc (TNonNull (TNamed ''FilterBlock'')) (unmarshalInputFilterBlock E)"
  unfolding unmarshalInputFilterBlock_def
  by (rule accepts_filter [OF schema_lookup(9)])
    (simp_all add: FilterBlock_schema_def library_ok_lists accept input_defs)

lemma accepts_FilterBankMsgSend [accept]:
  "library_ok sc E \<Longrightarrow> accepts sc (TNonNull (TNamed ''FilterBankMsgSend'')) (unmarshalInputFilterBankMsgSend E)"
  unfolding unmarshalInputFilterBankMsgSend_def
  by (rule accepts_filter [OF schema_lookup(8)])
    (simp_all add: FilterBankMsgSend_schema_def library_ok_lists accept input_defs)

lemma accepts_FilterBlockTransaction [accept]:
  "library_ok sc E \<Longrightarrow> accepts sc (TNonNull (TNamed ''FilterBlockTransaction'')) (unmarshalInputFilterBlockTransaction E)"
  unfolding unmarshalInputFilterBlockTransaction_def
  by (rule accepts_filter [OF schema_lookup(10)])
    (simp_all add: FilterBlockTransaction_schema_def library_ok_lists accept input_defs)

lemma accepts_FilterCoin [accept]:
  "library_ok sc E \<Longrightarrow> accepts sc (TNonNull (TNamed ''FilterCoin'')) (unmarshalInputFilterCoin E)"
  unfolding unmarshalInputFilterCoin_def
  by (rule accepts_filter [OF schema_lookup(12)])
    (simp_all add: FilterCoin_schema_def library_ok_lists accept input_defs)

lemma accepts_FilterEvent [accept]:
  "library_ok sc E \<Longrightarrow> accepts sc (TNonNull (TNamed ''FilterEvent'')) (unmarshalInputFilterEvent E)"
  unfolding unmarshalInputFilterEvent_def
  by (rule accepts_filter [OF schema_lookup(13)])
    (simp_all add: FilterEvent_schema_def library_ok_lists accept input_defs)

lemma accepts_FilterGnoEvent [accept]:
  "library_ok sc E \<Longrightarrow> accepts sc (TNonNull (TNamed ''FilterGnoEvent'')) (unmarshalInputFilterGnoEvent E)"
  unfolding unmarshalInputFilterGnoEvent_def
  by (rule accepts_filter [OF schema_lookup(14)])
    (simp_all add: FilterGnoEvent_schema_def library_ok_lists accept input_defs)

lemma accepts_FilterGnoEventAttribute [accept]:
  "library_ok sc E \<Longrightarrow> accepts sc (TNonNull (TNamed ''FilterGnoEventAttribute'')) (unmarshalInputFilterGnoEventAttribute E)"
  unfolding unmarshalInputFilterGnoEventAttribute_def
  by (rule accepts_filter [OF schema_lookup(15)])
    (simp_all add: FilterGnoEventAttribute_schema_def library_ok_lists accept input_defs)

lemma accepts_FilterMemFile [accept]:
  "library_ok sc E \<Longrightarrow> accepts sc (TNonNull (TNamed ''FilterMemFile'')) (unmarshalInputFilterMemFile E)"
  unfolding unmarshalInputFilterMemFile_def
  by (rule accepts_filter [OF schema_lookup(17)])
    (simp_all add: FilterMemFile_schema_def library_ok_lists accept input_defs)

lemma accepts_FilterMemPackage [accept]:
  "library_ok sc E \<Longrightarrow> accepts sc (TNonNull (TNamed ''FilterMemPackage'')) (unmarshalInputFilterMemPackage E)"
  unfolding unmarshalInputFilterMemPackage_def
  by (rule accepts_filter [OF schema_lookup(18)])
    (simp_all add: FilterMemPackage_schema_def library_ok_lists accept input_defs)

lemma accepts_FilterMessageValue [accept]:
  "library_ok sc E \<Longrightarrow> accepts sc (TNonNull (TNamed ''FilterMessageValue'')) (unmarshalInputFilterMessageValue E)"
  unfolding unmarshalInputFilterMessageValue_def
  by (rule accepts_filter [OF schema_lookup(19)])
    (simp_all add: FilterMessageValue_schema_def library_ok_lists accept input_defs)

lemma accepts_FilterMsgAddPackage [accept]:
  "library_ok sc E \<Longrightarrow> accepts sc (TNonNull (TNamed ''FilterMsgAddPackage'')) (unmarshalInputFilterMsgAddPackage E)"
  unfolding unmarshalInputFilterMsgAddPackage_def
  by (rule accepts_filter [OF schema_lookup(20)])
    (simp_all add: FilterMsgAddPackage_schema_def library_ok_lists accept input_defs)

lemma accepts_FilterMsgCall [accept]:
  "library_ok sc E \<Longrightarrow> accepts sc (TNonNull (TNamed ''FilterMsgCall'')) (unmarshalInputFilterMsgCall E)"
  unfolding unmarshalInputFilterMsgCall_def
  by (rule accepts_filter [OF schema_lookup(21)])
    (simp_all add: FilterMsgCall_schema_def library_ok_lists accept input_defs)

lemma accepts_FilterMsgRun [accept]:
  "library_ok sc E \<Longrightarrow> accepts sc (TNonNull (TNamed ''FilterMsgRun'')) (unmarshalInputFilterMsgRun E)"
  unfolding unmarshalInputFilterMsgRun_def
  by (rule accepts_filter [OF schema_lookup(22)])
    (simp_all add: FilterMsgRun_schema_def library_ok_lists accept input_defs)

lemma accepts_FilterStorageDepositEvent [accept]:
  "library_ok sc E \<Longrightarrow> accepts sc (TNonNull (TNamed ''FilterStorageDepositEvent'')) (unmarshalInputFilterStorageDepositEvent E)"
  unfolding unmarshalInputFilterStorageDepositEvent_def
  by (rule accepts_filter [OF schema_lookup(23)])
    (simp_all add: FilterStorageDepositEvent_schema_def library_ok_lists accept input_defs)

lemma accepts_FilterStorageUnlockEvent [accept]:
  "library_ok sc E \<Longrightarrow> accepts sc (TNonNull (TNamed ''FilterStorageUnlockEvent'')) (unmarshalInputFilterStorageUnlockEvent E)"
  unfolding unmarshalInputFilterStorageUnlockEvent_def
  by (rule accepts_filter [OF schema_lookup(24)])
    (simp_all add: FilterStorageUnlockEvent_schema_def library_ok_lists accept input_defs)

lemma accepts_FilterTransactionMessage [accept]:
  "library_ok sc E \<Longrightarrow> accepts sc (TNonNull (TNamed ''FilterTransactionMessage'')) (unmarshalInputFilterTransactionMessage E)"
  unfolding unmarshalInputFilterTransactionMessage_def
  by (rule accepts_filter [OF schema_lookup(28)])
    (simp_all add: FilterTransactionMessage_schema_def library_ok_lists accept input_defs)

lemma accepts_FilterTransactionResponse [accept]:
  "library_ok sc E \<Longrightarrow> accepts sc (TNonNull (TNamed ''FilterTransactionResponse'')) (unmarshalInputFilterTransactionResponse E)"
  unfolding unmarshalInputFilterTransactionResponse_def
  by (rule accepts_filter [OF schema_lookup(29)])
    (simp_all add: FilterTransactionResponse_schema_def library_ok_lists accept input_defs)

lemma accepts_FilterTxFee [accept]:
  "library_ok sc E \<Longrightarrow> accepts sc (TNonNull (TNamed ''FilterTxFee'')) (unmarshalInputFilterTxFee E)"
  unfolding unmarshalInputFilterTxFee_def
  by (rule accepts_filter [OF schema_lookup(30)])
    (simp_all add: FilterTxFee_schema_def library_ok_lists accept input_defs)

lemma accepts_FilterUnknownEvent [accept]:
  "library_ok sc E \<Longrightarrow> accepts sc (TNonNull (TNamed ''FilterUnknownEvent'')) (unmarshalInputFilterUnknownEvent E)"
  unfolding unmarshalInputFilterUnknownEvent_def
  by (rule accepts_filter [OF schema_lookup(31)])
    (simp_all add: FilterUnknownEvent_schema_def library_ok_lists accept input_defs)

lemma accepts_BlockFilter [accept]:
  "library_ok sc E \<Longrightarrow> accepts sc (TNonNull (TNamed ''BlockFilter'')) (unmarshalInputBlockFilter E)"
  unfolding unmarshalInputBlockFilter_def
  by (rule accepts_object [OF schema_lookup(3)]) (simp add: BlockFilter_schema_def accept input_defs)

lemma accepts_AmountInput [accept]:
  "library_ok sc E \<Longrightarrow> accepts sc (TNonNull (TNamed ''AmountInput'')) (unmarshalInputAmountInput E)"
  unfolding unmarshalInputAmountInput_def
  by (rule accepts_object [OF schema_lookup(1)]) (simp add: AmountInput_schema_def accept input_defs)

lemma accepts_BankMsgSendInput [accept]:
  "library_ok sc E \<Longrightarrow> accepts sc (TNonNull (TNamed ''BankMsgSendInput'')) (unmarshalInputBankMsgSendInput E)"
  unfolding unmarshalInputBankMsgSendInput_def
  by (rule accepts_object [OF schema_lookup(2)]) (simp add: BankMsgSendInput_schema_def accept input_defs)

lemma accepts_TransactionBankMessageInput [accept]:
  "library_ok sc E \<Longrightarrow> accepts sc (TNonNull (TNamed ''TransactionBankMessageInput'')) (unmarshalInputTransactionBankMessageInput E)"
  unfolding unmarshalInputTransactionBankMessageInput_def
  by (rule accepts_object [OF schema_lookup(62)]) (simp add: TransactionBankMessageInput_schema_def accept input_defs)

lemma accepts_MsgCallInput [accept]:
  "library_ok sc E \<Longrightarrow> accepts sc (TNonNull (TNamed ''MsgCallInput'')) (unmarshalInputMsgCallInput E)"
  unfolding unmarshalInputMsgCallInput_def
  by (rule accepts_object [OF schema_lookup(39)]) (simp add: MsgCallInput_schema_def accept input_defs)

lemma accepts_MemFileInput [accept]:
  "library_ok sc E \<Longrightarrow> accepts sc (TNonNull (TNamed ''MemFileInput'')) (unmarshalInputMemFileInput E)"
  unfolding unmarshalInputMemFileInput_def
  by (rule accepts_object [OF schema_lookup(34)]) (simp add: MemFileInput_schema_def accept input_defs)

lemma accepts_MemPackageInput [accept]:
  "library_ok sc E \<Longrightarrow> accepts sc (TNonNull (TNamed ''MemPackageInput'')) (unmarshalInputMemPackageInput E)"
  unfolding unmarshalInputMemPackageInput_def
  by (rule accepts_object [OF schema_lookup(35)]) (simp add: MemPackageInput_schema_def accept input_defs)

lemma accepts_MsgAddPackageInput [accept]:
  "library_ok sc E \<Longrightarrow> accepts sc (TNonNull (TNamed ''MsgAddPackageInput'')) (unmarshalInputMsgAddPackageInput E)"
  unfolding unmarshalInputMsgAddPackageInput_def
  by (rule accepts_object [OF schema_lookup(38)]) (simp add: MsgAddPackageInput_schema_def accept input_defs)

lemma accepts_MsgRunInput [accept]:
  "library_ok sc E \<Longrightarrow> accepts sc (TNonNull (TNamed ''MsgRunInput'')) (unmarshalInputMsgRunInput E)"
  unfolding unmarshalInputMsgRunInput_def
  by (rule accepts_object [OF schema_lookup(40)]) (simp add: MsgRunInput_schema_def accept input_defs)

lemma accepts_TransactionVmMessageInput [accept]:
  "library_ok sc E \<Longrightarrow> accepts sc (TNonNull (TNamed ''TransactionVmMessageInput'')) (unmarshalInputTransactionVmMessageInput E)"
  unfolding unmarshalInputTransactionVmMessageInput_def
  by (rule accepts_object [OF schema_lookup(66)]) (simp add: TransactionVmMessageInput_schema_def accept input_defs)

lemma accepts_TransactionMessageInput [accept]:
  "library_ok sc E \<Longrightarrow> accepts sc (TNonNull (TNamed ''TransactionMessageInput'')) (unmarshalInputTransactionMessageInput E)"
  unfolding unmarshalInputTransactionMessageInput_def
  by (rule accepts_object [OF schema_lookup(64)]) (simp add: TransactionMessageInput_schema_def accept input_defs)

lemma accepts_EventAttributeInput [accept]:
  "library_ok sc E \<Longrightarrow> accepts sc (TNonNull (TNamed ''EventAttributeInput'')) (unmarshalInputEventAttributeInput E)"
  unfolding unmarshalInputEventAttributeInput_def
  by (rule accepts_object [OF schema_lookup(6)]) (simp add: EventAttributeInput_schema_def accept input_defs)

lemma accepts_GnoEventInput [accept]:
  "library_ok sc E \<Longrightarrow> accepts sc (TNonNull (TNamed ''GnoEventInput'')) (unmarshalInputGnoEventInput E)"
  unfolding unmarshalInputGnoEventInput_def
  by (rule accepts_object [OF schema_lookup(33)]) (simp add: GnoEventInput_schema_def accept input_defs)

lemma accepts_CoinInput [accept]:
  "library_ok sc E \<Longrightarrow> accepts sc (TNonNull (TNamed ''CoinInput'')) (unmarshalInputCoinInput E)"
  unfolding unmarshalInputCoinInput_def
  by (rule accepts_object [OF schema_lookup(5)]) (simp add: CoinInput_schema_def accept input_defs)

lemma accepts_StorageDepositEventInput [accept]:
  "library_ok sc E \<Longrightarrow> accepts sc (TNonNull (TNamed ''StorageDepositEventInput'')) (unmarshalInputStorageDepositEventInput E)"
  unfolding unmarshalInputStorageDepositEventInput_def
  by (rule accepts_object [OF schema_lookup(60)]) (simp add: StorageDepositEventInput_schema_def accept input_defs)

lemma accepts_StorageUnlockEventInput [accept]:
  "library_ok sc E \<Longrightarrow> accepts sc (TNonNull (TNamed ''StorageUnlockEventInput'')) (unmarshalInputStorageUnlockEventInput E)"
  unfolding unmarshalInputStorageUnlockEventInput_def
  by (rule accepts_object [OF schema_lookup(61)]) (simp add: StorageUnlockEventInput_schema_def accept input_defs)

lemma accepts_EventInput [accept]:
  "library_ok sc E \<Longrightarrow> accepts sc (TNonNull (TNamed ''EventInput'')) (unmarshalInputEventInput E)"
  unfolding unmarshalInputEventInput_def
  by (rule accepts_object [OF schema_lookup(7)]) (simp add: EventInput_schema_def accept input_defs)

lemma accepts_TransactionFilter [accept]:
  "library_ok sc E \<Longrightarrow> accepts sc (TNonNull (TNamed ''TransactionFilter'')) (unmarshalInputTransactionFilter E)"
  unfolding unmarshalInputTransactionFilter_def
  by (rule accepts_object [OF schema_lookup(63)]) (simp add: TransactionFilter_schema_def accept input_defs)

lemma accepts_BlockOrder [accept]:
  "library_ok sc E \<Longrightarrow> accepts sc (TNonNull (TNamed ''BlockOrder'')) (unmarshalInputBlockOrder E)"
  unfolding unmarshalInputBlockOrder_def
  by (rule accepts_object [OF schema_lookup(4)]) (simp add: BlockOrder_schema_def accept input_defs)

lemma accepts_TransactionOrder [accept]:
  "library_ok sc E \<Longrightarrow> accepts sc (TNonNull (TNamed ''TransactionOrder'')) (unmarshalInputTransactionOrder E)"
  unfolding unmarshalInputTransactionOrder_def
  by (rule accepts_object [OF schema_lookup(65)]) (simp add: TransactionOrder_schema_def accept input_defs)

end
