(* ===== verification/Graph_Input_Render.thy ===== *)
theory Graph_Input_Render
  imports Graph_Inputs
begin

text \<open>
  Every filter of the four query fields and every order can be written as an argument: \<open>renderX\<close> writes a
  value, and the decoder of the generated executor reads it back (\<open>rendered\<close>).
\<close>

section \<open>Rendering\<close>

named_theorems rendered \<open>values that are read back from their rendering\<close>

definition renderOpt :: "('a \<Rightarrow> gql_input) \<Rightarrow> 'a option \<Rightarrow> gql_input" where
  "renderOpt r x = (case x of None \<Rightarrow> INull | Some y \<Rightarrow> r y)"

primrec renderFilter :: "('p \<Rightarrow> (string \<times> gql_input) list) \<Rightarrow> 'p gql_filter \<Rightarrow> gql_input" where
  "renderFilter own (Filter ands ors nt q) = IObject
     ([(''_and'', IList (map (renderOpt id) (map (map_option (renderFilter own)) ands))),
       (''_or'', IList (map (renderOpt id) (map (map_option (renderFilter own)) ors))),
       (''_not'', renderOpt id (map_option (renderFilter own) nt))] @ own q)"

text \<open>
  The library reads an integer, a boolean and a string as themselves; a time can be expressed when the library reads it from
  some text (\<open>readable\<close>), which by RFC 3339 are the times of UTC and of a fixed offset.
\<close>

definition renders_ok :: "input_env \<Rightarrow> bool" where
  "renders_ok E \<longleftrightarrow> coerces_lists E \<and> (\<forall>i. geInt E (IInt i) = Inr i) \<and> (\<forall>b. geBoolean E (IBool b) = Inr b) \<and>
     (\<forall>s. geString E (IString s) = Inr s)"

definition readable :: "(go_time \<Rightarrow> gql_input) \<Rightarrow> input_env \<Rightarrow> go_time \<Rightarrow> bool" where
  "readable rt E t \<longleftrightarrow> rt t \<noteq> INull \<and> geTime E (rt t) = Inr t"

section \<open>The templates read back what is rendered\<close>

lemma renders_coerce: "renders_ok E \<Longrightarrow> coerceList (geCoerce E) (IList vs) = vs"
  by (simp add: renders_ok_def coerces_lists_def)

lemma nullable_rendered:
  assumes "\<And>y. x = Some y \<Longrightarrow> r y \<noteq> INull \<and> dec p (r y) = Ret (Inr y)"
  shows "nullableIn E dec p (renderOpt r x) = Ret (Inr x)"
  using assms by (cases x) (simp_all add: nullableIn_def renderOpt_def)

lemma required_rendered: "dec p v = Ret (Inr x) \<Longrightarrow> requiredIn E dec p v = Ret (Inr x)"
  by (simp add: requiredIn_def)

lemma scalars_rendered:
  assumes "renders_ok E"
  shows "scalarIn (geInt E) p (IInt i) = Ret (Inr i)" "scalarIn (geBoolean E) p (IBool b) = Ret (Inr b)"
    "scalarIn (geString E) p (IString s) = Ret (Inr s)"
  using assms by (simp_all add: scalarIn_def renders_ok_def)

lemma time_rendered:
  "(\<And>t. x = Some t \<Longrightarrow> readable rt E t) \<Longrightarrow> nullableIn E (scalarIn (geTime E)) p (renderOpt rt x) = Ret (Inr x)"
  by (rule nullable_rendered) (simp add: scalarIn_def readable_def)

lemma order_rendered: "Order_IsValid s \<Longrightarrow> enumIn Order_UnmarshalGQL p (IString s) = Ret (Inr s)"
  by (simp add: enumIn_def Order_UnmarshalGQL_def unmarshalEnum_def)

lemma renderFilter_not_null [simp]: "renderFilter own f \<noteq> INull"
  by (cases f) simp

lemma elems_rendered:
  assumes "\<And>x q. x \<in> set xs \<Longrightarrow> dec q (r x) = Ret (Inr x)"
  shows "elemsIn dec p i (map r xs) = Ret (Inr xs)"
  using assms by (induction xs arbitrary: i) simp_all

lemma slice_rendered:
  assumes "renders_ok E" "\<And>x q. x \<in> set xs \<Longrightarrow> dec q (r x) = Ret (Inr x)"
  shows "sliceIn E dec p (IList (map r xs)) = Ret (Inr xs)"
  using elems_rendered [OF assms(2)] by (simp add: sliceIn_def listIn_def renders_coerce [OF assms(1)])

text \<open>A filter is read back when its own fields are, whatever else the object has.\<close>

lemma filter_rendered:
  assumes E: "renders_ok E" and f: "pred_gql_filter ok f"
    and keys: "\<And>q. ''_and'' \<notin> fst ` set (own q) \<and> ''_or'' \<notin> fst ` set (own q) \<and> ''_not'' \<notin> fst ` set (own q)"
    and fields: "\<And>p m q. ok q \<Longrightarrow> \<forall>k \<in> fst ` set (own q). m k = map_of (own q) k \<Longrightarrow> fieldsIn steps p m zero = Ret (Inr q)"
  shows "filterIn E zero steps p (renderFilter own f) = Ret (Inr f)"
  using f
proof (induction f arbitrary: p)
  case (Filter ands ors nt q)
  let ?dec = "\<lambda>q x. filterIn E zero steps q x"
  let ?m = "map_of ([(''_and'', IList (map (renderOpt id) (map (map_option (renderFilter own)) ands))),
       (''_or'', IList (map (renderOpt id) (map (map_option (renderFilter own)) ors))),
       (''_not'', renderOpt id (map_option (renderFilter own) nt))] @ own q)"
  have comp: "renderOpt id (map_option (renderFilter own) x) = renderOpt (renderFilter own) x" for x
    by (cases x) (simp_all add: renderOpt_def)
  have slice: "sliceIn E (nullableIn E ?dec) p (IList (map (\<lambda>x. renderOpt id (map_option (renderFilter own) x)) xs)) = Ret (Inr xs)"
    if "\<And>x y p. x \<in> set xs \<Longrightarrow> x = Some y \<Longrightarrow> ?dec p (renderFilter own y) = Ret (Inr y)" for xs p
    unfolding comp using that by (intro slice_rendered [OF E] nullable_rendered) simp
  have ok: "pred_gql_filter ok y" if "Some y \<in> set ands \<or> Some y \<in> set ors \<or> nt = Some y" for y
    using Filter.prems that by (auto simp: list_all_iff)
  have 1: "sliceIn E (nullableIn E ?dec) (p @ [PField ''_and'']) (IList (map (\<lambda>x. renderOpt id (map_option (renderFilter own) x)) ands)) = Ret (Inr ands)"
    by (rule slice) (use Filter.IH(1) ok in auto)
  have 2: "sliceIn E (nullableIn E ?dec) (p @ [PField ''_or'']) (IList (map (\<lambda>x. renderOpt id (map_option (renderFilter own) x)) ors)) = Ret (Inr ors)"
    by (rule slice) (use Filter.IH(2) ok in auto)
  have 3: "nullableIn E ?dec (p @ [PField ''_not'']) (renderOpt id (map_option (renderFilter own) nt)) = Ret (Inr nt)"
    unfolding comp by (rule nullable_rendered) (use Filter.IH(3) ok in auto)
  have 4: "fieldsIn steps p ?m zero = Ret (Inr q)"
  proof (rule fields, use Filter.prems in simp, rule ballI)
    fix k assume "k \<in> fst ` set (own q)"
    then have "k \<noteq> ''_and''" "k \<noteq> ''_or''" "k \<noteq> ''_not''" using keys [of q] by metis+
    then show "?m k = map_of (own q) k" by simp
  qed
  show ?case
    unfolding renderFilter.simps
    by (subst filterIn.simps) (use 4 in \<open>simp add: fieldIn_def ownIn_def comp_def 1 2 3\<close>)
qed

lemma pred_filter_True: "pred_gql_filter (\<lambda>_. True) f"
  by (simp add: gql_filter.pred_True)

lemmas filter_rendered_all = filter_rendered [OF _ pred_filter_True, simplified]

lemmas object_steps = objectIn_def fieldIn_def nullable_rendered required_rendered scalars_rendered order_rendered
  input_defs

section \<open>The inputs\<close>

definition renderFilterInt :: "FilterInt \<Rightarrow> gql_input" where
  "renderFilterInt x = IObject
     [(''exists'', renderOpt IBool (fiExists x)),
      (''eq'', renderOpt IInt (fiEq x)),
      (''gt'', renderOpt IInt (fiGt x)),
      (''lt'', renderOpt IInt (fiLt x))]"

definition renderFilterString :: "FilterString \<Rightarrow> gql_input" where
  "renderFilterString x = IObject
     [(''exists'', renderOpt IBool (fsExists x)),
      (''eq'', renderOpt IString (fsEq x)),
      (''like'', renderOpt IString (fsLike x))]"

definition renderFilterBoolean :: "FilterBoolean \<Rightarrow> gql_input" where
  "renderFilterBoolean x = IObject
     [(''exists'', renderOpt IBool (fbExists x)),
      (''eq'', renderOpt IBool (fbEq x))]"

definition renderNestedFilterCoin_own :: "NestedFilterCoin_fields \<Rightarrow> (string \<times> gql_input) list" where
  "renderNestedFilterCoin_own x =
     [(''amount'', renderOpt renderFilterInt (fCoAmount x)),
      (''denom'', renderOpt renderFilterString (fCoDenom x))]"

abbreviation renderNestedFilterCoin :: "NestedFilterCoin \<Rightarrow> gql_input" where
  "renderNestedFilterCoin \<equiv> renderFilter renderNestedFilterCoin_own"

definition renderNestedFilterBankMsgSend_own :: "NestedFilterBankMsgSend_fields \<Rightarrow> (string \<times> gql_input) list" where
  "renderNestedFilterBankMsgSend_own x =
     [(''from_address'', renderOpt renderFilterString (fBsFromAddress x)),
      (''to_address'', renderOpt renderFilterString (fBsToAddress x)),
      (''amount'', renderOpt renderFilterString (fBsAmount x))]"

abbreviation renderNestedFilterBankMsgSend :: "NestedFilterBankMsgSend \<Rightarrow> gql_input" where
  "renderNestedFilterBankMsgSend \<equiv> renderFilter renderNestedFilterBankMsgSend_own"

definition renderNestedFilterMsgCall_own :: "NestedFilterMsgCall_fields \<Rightarrow> (string \<times> gql_input) list" where
  "renderNestedFilterMsgCall_own x =
     [(''caller'', renderOpt renderFilterString (fMcCaller x)),
      (''send'', renderOpt renderFilterString (fMcSend x)),
      (''pkg_path'', renderOpt renderFilterString (fMcPkgPath x)),
      (''func'', renderOpt renderFilterString (fMcFunc x)),
      (''args'', renderOpt renderFilterString (fMcArgs x)),
      (''max_deposit'', renderOpt renderFilterString (fMcMaxDeposit x))]"

abbreviation renderNestedFilterMsgCall :: "NestedFilterMsgCall \<Rightarrow> gql_input" where
  "renderNestedFilterMsgCall \<equiv> renderFilter renderNestedFilterMsgCall_own"

definition renderNestedFilterMemFile_own :: "NestedFilterMemFile_fields \<Rightarrow> (string \<times> gql_input) list" where
  "renderNestedFilterMemFile_own x =
     [(''name'', renderOpt renderFilterString (fMfName x)),
      (''body'', renderOpt renderFilterString (fMfBody x))]"

abbreviation renderNestedFilterMemFile :: "NestedFilterMemFile \<Rightarrow> gql_input" where
  "renderNestedFilterMemFile \<equiv> renderFilter renderNestedFilterMemFile_own"

definition renderNestedFilterMemPackage_own :: "NestedFilterMemPackage_fields \<Rightarrow> (string \<times> gql_input) list" where
  "renderNestedFilterMemPackage_own x =
     [(''name'', renderOpt renderFilterString (fMpName x)),
      (''path'', renderOpt renderFilterString (fMpPath x)),
      (''files'', renderOpt renderNestedFilterMemFile (fMpFiles x))]"

abbreviation renderNestedFilterMemPackage :: "NestedFilterMemPackage \<Rightarrow> gql_input" where
  "renderNestedFilterMemPackage \<equiv> renderFilter renderNestedFilterMemPackage_own"

definition renderNestedFilterMsgAddPackage_own :: "NestedFilterMsgAddPackage_fields \<Rightarrow> (string \<times> gql_input) list" where
  "renderNestedFilterMsgAddPackage_own x =
     [(''creator'', renderOpt renderFilterString (fMaCreator x)),
      (''package'', renderOpt renderNestedFilterMemPackage (fMaPackage x)),
      (''deposit'', renderOpt renderFilterString (fMaDeposit x)),
      (''send'', renderOpt renderFilterString (fMaSend x)),
      (''max_deposit'', renderOpt renderFilterString (fMaMaxDeposit x))]"

abbreviation renderNestedFilterMsgAddPackage :: "NestedFilterMsgAddPackage \<Rightarrow> gql_input" where
  "renderNestedFilterMsgAddPackage \<equiv> renderFilter renderNestedFilterMsgAddPackage_own"

definition renderNestedFilterMsgRun_own :: "NestedFilterMsgRun_fields \<Rightarrow> (string \<times> gql_input) list" where
  "renderNestedFilterMsgRun_own x =
     [(''caller'', renderOpt renderFilterString (fMrCaller x)),
      (''send'', renderOpt renderFilterString (fMrSend x)),
      (''package'', renderOpt renderNestedFilterMemPackage (fMrPackage x)),
      (''max_deposit'', renderOpt renderFilterString (fMrMaxDeposit x))]"

abbreviation renderNestedFilterMsgRun :: "NestedFilterMsgRun \<Rightarrow> gql_input" where
  "renderNestedFilterMsgRun \<equiv> renderFilter renderNestedFilterMsgRun_own"

definition renderNestedFilterMessageValue_own :: "NestedFilterMessageValue_fields \<Rightarrow> (string \<times> gql_input) list" where
  "renderNestedFilterMessageValue_own x =
     [(''BankMsgSend'', renderOpt renderNestedFilterBankMsgSend (fMvBankMsgSend x)),
      (''MsgCall'', renderOpt renderNestedFilterMsgCall (fMvMsgCall x)),
      (''MsgAddPackage'', renderOpt renderNestedFilterMsgAddPackage (fMvMsgAddPackage x)),
      (''MsgRun'', renderOpt renderNestedFilterMsgRun (fMvMsgRun x))]"

abbreviation renderNestedFilterMessageValue :: "NestedFilterMessageValue \<Rightarrow> gql_input" where
  "renderNestedFilterMessageValue \<equiv> renderFilter renderNestedFilterMessageValue_own"

definition renderNestedFilterTransactionMessage_own :: "NestedFilterTransactionMessage_fields \<Rightarrow> (string \<times> gql_input) list" where
  "renderNestedFilterTransactionMessage_own x =
     [(''typeUrl'', renderOpt renderFilterString (fTmTypeURL x)),
      (''route'', renderOpt renderFilterString (fTmRoute x)),
      (''value'', renderOpt renderNestedFilterMessageValue (fTmValue x))]"

abbreviation renderNestedFilterTransactionMessage :: "NestedFilterTransactionMessage \<Rightarrow> gql_input" where
  "renderNestedFilterTransactionMessage \<equiv> renderFilter renderNestedFilterTransactionMessage_own"

definition renderNestedFilterGnoEventAttribute_own :: "NestedFilterGnoEventAttribute_fields \<Rightarrow> (string \<times> gql_input) list" where
  "renderNestedFilterGnoEventAttribute_own x =
     [(''key'', renderOpt renderFilterString (fGaKey x)),
      (''value'', renderOpt renderFilterString (fGaValue x))]"

abbreviation renderNestedFilterGnoEventAttribute :: "NestedFilterGnoEventAttribute \<Rightarrow> gql_input" where
  "renderNestedFilterGnoEventAttribute \<equiv> renderFilter renderNestedFilterGnoEventAttribute_own"

definition renderNestedFilterGnoEvent_own :: "NestedFilterGnoEvent_fields \<Rightarrow> (string \<times> gql_input) list" where
  "renderNestedFilterGnoEvent_own x =
     [(''type'', renderOpt renderFilterString (fGeType x)),
      (''pkg_path'', renderOpt renderFilterString (fGePkgPath x)),
      (''attrs'', renderOpt renderNestedFilterGnoEventAttribute (fGeAttrs x))]"

abbreviation renderNestedFilterGnoEvent :: "NestedFilterGnoEvent \<Rightarrow> gql_input" where
  "renderNestedFilterGnoEvent \<equiv> renderFilter renderNestedFilterGnoEvent_own"

definition renderNestedFilterStorageDepositEvent_own :: "NestedFilterStorageDepositEvent_fields \<Rightarrow> (string \<times> gql_input) list" where
  "renderNestedFilterStorageDepositEvent_own x =
     [(''type'', renderOpt renderFilterString (fSdType x)),
      (''bytes_delta'', renderOpt renderFilterInt (fSdBytesDelta x)),
      (''fee_delta'', renderOpt renderNestedFilterCoin (fSdFeeDelta x)),
      (''pkg_path'', renderOpt renderFilterString (fSdPkgPath x))]"

abbreviation renderNestedFilterStorageDepositEvent :: "NestedFilterStorageDepositEvent \<Rightarrow> gql_input" where
  "renderNestedFilterStorageDepositEvent \<equiv> renderFilter renderNestedFilterStorageDepositEvent_own"

definition renderNestedFilterStorageUnlockEvent_own :: "NestedFilterStorageUnlockEvent_fields \<Rightarrow> (string \<times> gql_input) list" where
  "renderNestedFilterStorageUnlockEvent_own x =
     [(''type'', renderOpt renderFilterString (fSuType x)),
      (''bytes_delta'', renderOpt renderFilterInt (fSuBytesDelta x)),
      (''fee_refund'', renderOpt renderNestedFilterCoin (fSuFeeRefund x)),
      (''pkg_path'', renderOpt renderFilterString (fSuPkgPath x))]"

abbreviation renderNestedFilterStorageUnlockEvent :: "NestedFilterStorageUnlockEvent \<Rightarrow> gql_input" where
  "renderNestedFilterStorageUnlockEvent \<equiv> renderFilter renderNestedFilterStorageUnlockEvent_own"

definition renderNestedFilterUnknownEvent_own :: "NestedFilterUnknownEvent_fields \<Rightarrow> (string \<times> gql_input) list" where
  "renderNestedFilterUnknownEvent_own x =
     [(''value'', renderOpt renderFilterString (fUeValue x))]"

abbreviation renderNestedFilterUnknownEvent :: "NestedFilterUnknownEvent \<Rightarrow> gql_input" where
  "renderNestedFilterUnknownEvent \<equiv> renderFilter renderNestedFilterUnknownEvent_own"

definition renderNestedFilterEvent_own :: "NestedFilterEvent_fields \<Rightarrow> (string \<times> gql_input) list" where
  "renderNestedFilterEvent_own x =
     [(''GnoEvent'', renderOpt renderNestedFilterGnoEvent (fEvGnoEvent x)),
      (''StorageDepositEvent'', renderOpt renderNestedFilterStorageDepositEvent (fEvStorageDepositEvent x)),
      (''StorageUnlockEvent'', renderOpt renderNestedFilterStorageUnlockEvent (fEvStorageUnlockEvent x)),
      (''UnknownEvent'', renderOpt renderNestedFilterUnknownEvent (fEvUnknownEvent x))]"

abbreviation renderNestedFilterEvent :: "NestedFilterEvent \<Rightarrow> gql_input" where
  "renderNestedFilterEvent \<equiv> renderFilter renderNestedFilterEvent_own"

definition renderNestedFilterTransactionResponse_own :: "NestedFilterTransactionResponse_fields \<Rightarrow> (string \<times> gql_input) list" where
  "renderNestedFilterTransactionResponse_own x =
     [(''log'', renderOpt renderFilterString (fTrLog x)),
      (''info'', renderOpt renderFilterString (fTrInfo x)),
      (''error'', renderOpt renderFilterString (fTrError x)),
      (''data'', renderOpt renderFilterString (fTrData x)),
      (''events'', renderOpt renderNestedFilterEvent (fTrEvents x))]"

abbreviation renderNestedFilterTransactionResponse :: "NestedFilterTransactionResponse \<Rightarrow> gql_input" where
  "renderNestedFilterTransactionResponse \<equiv> renderFilter renderNestedFilterTransactionResponse_own"

definition renderFilterTransaction_own :: "FilterTransaction_fields \<Rightarrow> (string \<times> gql_input) list" where
  "renderFilterTransaction_own x =
     [(''index'', renderOpt renderFilterInt (fTnIndex x)),
      (''hash'', renderOpt renderFilterString (fTnHash x)),
      (''success'', renderOpt renderFilterBoolean (fTnSuccess x)),
      (''block_height'', renderOpt renderFilterInt (fTnBlockHeight x)),
      (''gas_wanted'', renderOpt renderFilterInt (fTnGasWanted x)),
      (''gas_used'', renderOpt renderFilterInt (fTnGasUsed x)),
      (''gas_fee'', renderOpt renderNestedFilterCoin (fTnGasFee x)),
      (''messages'', renderOpt renderNestedFilterTransactionMessage (fTnMessages x)),
      (''memo'', renderOpt renderFilterString (fTnMemo x)),
      (''response'', renderOpt renderNestedFilterTransactionResponse (fTnResponse x))]"

abbreviation renderFilterTransaction :: "FilterTransaction \<Rightarrow> gql_input" where
  "renderFilterTransaction \<equiv> renderFilter renderFilterTransaction_own"

definition renderFilterTime :: "(go_time \<Rightarrow> gql_input) \<Rightarrow> FilterTime \<Rightarrow> gql_input" where
  "renderFilterTime rt x = IObject
     [(''exists'', renderOpt IBool (ftExists x)),
      (''eq'', renderOpt rt (ftEq x)),
      (''before'', renderOpt rt (ftBefore x)),
      (''after'', renderOpt rt (ftAfter x))]"

definition renderNestedFilterTxFee_own :: "NestedFilterTxFee_fields \<Rightarrow> (string \<times> gql_input) list" where
  "renderNestedFilterTxFee_own x =
     [(''gas_wanted'', renderOpt renderFilterInt (fTfGasWanted x)),
      (''gas_fee'', renderOpt renderNestedFilterCoin (fTfGasFee x))]"

abbreviation renderNestedFilterTxFee :: "NestedFilterTxFee \<Rightarrow> gql_input" where
  "renderNestedFilterTxFee \<equiv> renderFilter renderNestedFilterTxFee_own"

definition renderNestedFilterBlockTransaction_own :: "NestedFilterBlockTransaction_fields \<Rightarrow> (string \<times> gql_input) list" where
  "renderNestedFilterBlockTransaction_own x =
     [(''hash'', renderOpt renderFilterString (fBtHash x)),
      (''fee'', renderOpt renderNestedFilterTxFee (fBtFee x)),
      (''memo'', renderOpt renderFilterString (fBtMemo x))]"

abbreviation renderNestedFilterBlockTransaction :: "NestedFilterBlockTransaction \<Rightarrow> gql_input" where
  "renderNestedFilterBlockTransaction \<equiv> renderFilter renderNestedFilterBlockTransaction_own"

definition renderFilterBlock_own :: "(go_time \<Rightarrow> gql_input) \<Rightarrow> FilterBlock_fields \<Rightarrow> (string \<times> gql_input) list" where
  "renderFilterBlock_own rt x =
     [(''hash'', renderOpt renderFilterString (fBkHash x)),
      (''height'', renderOpt renderFilterInt (fBkHeight x)),
      (''version'', renderOpt renderFilterString (fBkVersion x)),
      (''chain_id'', renderOpt renderFilterString (fBkChainID x)),
      (''time'', renderOpt (renderFilterTime rt) (fBkTime x)),
      (''num_txs'', renderOpt renderFilterInt (fBkNumTxs x)),
      (''total_txs'', renderOpt renderFilterInt (fBkTotalTxs x)),
      (''app_version'', renderOpt renderFilterString (fBkAppVersion x)),
      (''last_block_hash'', renderOpt renderFilterString (fBkLastBlockHash x)),
      (''last_commit_hash'', renderOpt renderFilterString (fBkLastCommitHash x)),
      (''validators_hash'', renderOpt renderFilterString (fBkValidatorsHash x)),
      (''next_validators_hash'', renderOpt renderFilterString (fBkNextValidatorsHash x)),
      (''consensus_hash'', renderOpt renderFilterString (fBkConsensusHash x)),
      (''app_hash'', renderOpt renderFilterString (fBkAppHash x)),
      (''last_results_hash'', renderOpt renderFilterString (fBkLastResultsHash x)),
      (''proposer_address_raw'', renderOpt renderFilterString (fBkProposerAddressRaw x)),
      (''txs'', renderOpt renderNestedFilterBlockTransaction (fBkTxs x))]"

abbreviation renderFilterBlock :: "(go_time \<Rightarrow> gql_input) \<Rightarrow> FilterBlock \<Rightarrow> gql_input" where
  "renderFilterBlock rt \<equiv> renderFilter (renderFilterBlock_own rt)"

definition renderBlockOrder :: "BlockOrder \<Rightarrow> gql_input" where
  "renderBlockOrder x = IObject
     [(''height'', IString (boHeight x))]"

definition renderTransactionOrder :: "TransactionOrder \<Rightarrow> gql_input" where
  "renderTransactionOrder x = IObject
     [(''heightAndIndex'', IString (toHeightAndIndex x))]"

definition readsFilterTime :: "(go_time \<Rightarrow> gql_input) \<Rightarrow> input_env \<Rightarrow> FilterTime \<Rightarrow> bool" where
  "readsFilterTime rt E x \<longleftrightarrow>
     (\<forall>t \<in> set_option (ftEq x) \<union> set_option (ftBefore x) \<union> set_option (ftAfter x). readable rt E t)"

definition readsBlockFields :: "(go_time \<Rightarrow> gql_input) \<Rightarrow> input_env \<Rightarrow> FilterBlock_fields \<Rightarrow> bool" where
  "readsBlockFields rt E x \<longleftrightarrow> (\<forall>y. fBkTime x = Some y \<longrightarrow> readsFilterTime rt E y)"

lemma decode_FilterInt [rendered]:
  "renders_ok E \<Longrightarrow> unmarshalInputFilterInt E p (renderFilterInt x) = Ret (Inr x)"
  by (simp add: unmarshalInputFilterInt_def renderFilterInt_def rendered object_steps)

lemma renderFilterInt_not_null [simp]: "renderFilterInt x \<noteq> INull"
  by (simp add: renderFilterInt_def)

lemma decode_FilterString [rendered]:
  "renders_ok E \<Longrightarrow> unmarshalInputFilterString E p (renderFilterString x) = Ret (Inr x)"
  by (simp add: unmarshalInputFilterString_def renderFilterString_def rendered object_steps)

lemma renderFilterString_not_null [simp]: "renderFilterString x \<noteq> INull"
  by (simp add: renderFilterString_def)

lemma decode_FilterBoolean [rendered]:
  "renders_ok E \<Longrightarrow> unmarshalInputFilterBoolean E p (renderFilterBoolean x) = Ret (Inr x)"
  by (simp add: unmarshalInputFilterBoolean_def renderFilterBoolean_def rendered object_steps)

lemma renderFilterBoolean_not_null [simp]: "renderFilterBoolean x \<noteq> INull"
  by (simp add: renderFilterBoolean_def)

lemma decode_NestedFilterCoin [rendered]:
  "renders_ok E \<Longrightarrow> unmarshalInputNestedFilterCoin E p (renderNestedFilterCoin x) = Ret (Inr x)"
  unfolding unmarshalInputNestedFilterCoin_def
  by (rule filter_rendered_all) (simp_all add: renderNestedFilterCoin_own_def rendered object_steps)

lemma decode_NestedFilterBankMsgSend [rendered]:
  "renders_ok E \<Longrightarrow> unmarshalInputNestedFilterBankMsgSend E p (renderNestedFilterBankMsgSend x) = Ret (Inr x)"
  unfolding unmarshalInputNestedFilterBankMsgSend_def
  by (rule filter_rendered_all) (simp_all add: renderNestedFilterBankMsgSend_own_def rendered object_steps)

lemma decode_NestedFilterMsgCall [rendered]:
  "renders_ok E \<Longrightarrow> unmarshalInputNestedFilterMsgCall E p (renderNestedFilterMsgCall x) = Ret (Inr x)"
  unfolding unmarshalInputNestedFilterMsgCall_def
  by (rule filter_rendered_all) (simp_all add: renderNestedFilterMsgCall_own_def rendered object_steps)

lemma decode_NestedFilterMemFile [rendered]:
  "renders_ok E \<Longrightarrow> unmarshalInputNestedFilterMemFile E p (renderNestedFilterMemFile x) = Ret (Inr x)"
  unfolding unmarshalInputNestedFilterMemFile_def
  by (rule filter_rendered_all) (simp_all add: renderNestedFilterMemFile_own_def rendered object_steps)

lemma decode_NestedFilterMemPackage [rendered]:
  "renders_ok E \<Longrightarrow> unmarshalInputNestedFilterMemPackage E p (renderNestedFilterMemPackage x) = Ret (Inr x)"
  unfolding unmarshalInputNestedFilterMemPackage_def
  by (rule filter_rendered_all) (simp_all add: renderNestedFilterMemPackage_own_def rendered object_steps)

lemma decode_NestedFilterMsgAddPackage [rendered]:
  "renders_ok E \<Longrightarrow> unmarshalInputNestedFilterMsgAddPackage E p (renderNestedFilterMsgAddPackage x) = Ret (Inr x)"
  unfolding unmarshalInputNestedFilterMsgAddPackage_def
  by (rule filter_rendered_all) (simp_all add: renderNestedFilterMsgAddPackage_own_def rendered object_steps)

lemma decode_NestedFilterMsgRun [rendered]:
  "renders_ok E \<Longrightarrow> unmarshalInputNestedFilterMsgRun E p (renderNestedFilterMsgRun x) = Ret (Inr x)"
  unfolding unmarshalInputNestedFilterMsgRun_def
  by (rule filter_rendered_all) (simp_all add: renderNestedFilterMsgRun_own_def rendered object_steps)

lemma decode_NestedFilterMessageValue [rendered]:
  "renders_ok E \<Longrightarrow> unmarshalInputNestedFilterMessageValue E p (renderNestedFilterMessageValue x) = Ret (Inr x)"
  unfolding unmarshalInputNestedFilterMessageValue_def
  by (rule filter_rendered_all) (simp_all add: renderNestedFilterMessageValue_own_def rendered object_steps)

lemma decode_NestedFilterTransactionMessage [rendered]:
  "renders_ok E \<Longrightarrow> unmarshalInputNestedFilterTransactionMessage E p (renderNestedFilterTransactionMessage x) = Ret (Inr x)"
  unfolding unmarshalInputNestedFilterTransactionMessage_def
  by (rule filter_rendered_all) (simp_all add: renderNestedFilterTransactionMessage_own_def rendered object_steps)

lemma decode_NestedFilterGnoEventAttribute [rendered]:
  "renders_ok E \<Longrightarrow> unmarshalInputNestedFilterGnoEventAttribute E p (renderNestedFilterGnoEventAttribute x) = Ret (Inr x)"
  unfolding unmarshalInputNestedFilterGnoEventAttribute_def
  by (rule filter_rendered_all) (simp_all add: renderNestedFilterGnoEventAttribute_own_def rendered object_steps)

lemma decode_NestedFilterGnoEvent [rendered]:
  "renders_ok E \<Longrightarrow> unmarshalInputNestedFilterGnoEvent E p (renderNestedFilterGnoEvent x) = Ret (Inr x)"
  unfolding unmarshalInputNestedFilterGnoEvent_def
  by (rule filter_rendered_all) (simp_all add: renderNestedFilterGnoEvent_own_def rendered object_steps)

lemma decode_NestedFilterStorageDepositEvent [rendered]:
  "renders_ok E \<Longrightarrow> unmarshalInputNestedFilterStorageDepositEvent E p (renderNestedFilterStorageDepositEvent x) = Ret (Inr x)"
  unfolding unmarshalInputNestedFilterStorageDepositEvent_def
  by (rule filter_rendered_all) (simp_all add: renderNestedFilterStorageDepositEvent_own_def rendered object_steps)

lemma decode_NestedFilterStorageUnlockEvent [rendered]:
  "renders_ok E \<Longrightarrow> unmarshalInputNestedFilterStorageUnlockEvent E p (renderNestedFilterStorageUnlockEvent x) = Ret (Inr x)"
  unfolding unmarshalInputNestedFilterStorageUnlockEvent_def
  by (rule filter_rendered_all) (simp_all add: renderNestedFilterStorageUnlockEvent_own_def rendered object_steps)

lemma decode_NestedFilterUnknownEvent [rendered]:
  "renders_ok E \<Longrightarrow> unmarshalInputNestedFilterUnknownEvent E p (renderNestedFilterUnknownEvent x) = Ret (Inr x)"
  unfolding unmarshalInputNestedFilterUnknownEvent_def
  by (rule filter_rendered_all) (simp_all add: renderNestedFilterUnknownEvent_own_def rendered object_steps)

lemma decode_NestedFilterEvent [rendered]:
  "renders_ok E \<Longrightarrow> unmarshalInputNestedFilterEvent E p (renderNestedFilterEvent x) = Ret (Inr x)"
  unfolding unmarshalInputNestedFilterEvent_def
  by (rule filter_rendered_all) (simp_all add: renderNestedFilterEvent_own_def rendered object_steps)

lemma decode_NestedFilterTransactionResponse [rendered]:
  "renders_ok E \<Longrightarrow> unmarshalInputNestedFilterTransactionResponse E p (renderNestedFilterTransactionResponse x) = Ret (Inr x)"
  unfolding unmarshalInputNestedFilterTransactionResponse_def
  by (rule filter_rendered_all) (simp_all add: renderNestedFilterTransactionResponse_own_def rendered object_steps)

lemma decode_FilterTransaction [rendered]:
  "renders_ok E \<Longrightarrow> unmarshalInputFilterTransaction E p (renderFilterTransaction x) = Ret (Inr x)"
  unfolding unmarshalInputFilterTransaction_def
  by (rule filter_rendered_all) (simp_all add: renderFilterTransaction_own_def rendered object_steps)

lemma decode_FilterTime [rendered]:
  "renders_ok E \<Longrightarrow> readsFilterTime rt E x \<Longrightarrow> unmarshalInputFilterTime E p (renderFilterTime rt x) = Ret (Inr x)"
  by (simp add: unmarshalInputFilterTime_def renderFilterTime_def rendered object_steps time_rendered readsFilterTime_def)

lemma renderFilterTime_not_null [simp]: "renderFilterTime rt x \<noteq> INull"
  by (simp add: renderFilterTime_def)

lemma decode_NestedFilterTxFee [rendered]:
  "renders_ok E \<Longrightarrow> unmarshalInputNestedFilterTxFee E p (renderNestedFilterTxFee x) = Ret (Inr x)"
  unfolding unmarshalInputNestedFilterTxFee_def
  by (rule filter_rendered_all) (simp_all add: renderNestedFilterTxFee_own_def rendered object_steps)

lemma decode_NestedFilterBlockTransaction [rendered]:
  "renders_ok E \<Longrightarrow> unmarshalInputNestedFilterBlockTransaction E p (renderNestedFilterBlockTransaction x) = Ret (Inr x)"
  unfolding unmarshalInputNestedFilterBlockTransaction_def
  by (rule filter_rendered_all) (simp_all add: renderNestedFilterBlockTransaction_own_def rendered object_steps)

lemma decode_FilterBlock [rendered]:
  "renders_ok E \<Longrightarrow> pred_gql_filter (readsBlockFields rt E) x \<Longrightarrow> unmarshalInputFilterBlock E p (renderFilterBlock rt x) = Ret (Inr x)"
  unfolding unmarshalInputFilterBlock_def
  by (rule filter_rendered, assumption, assumption) (simp_all add: renderFilterBlock_own_def rendered object_steps readsBlockFields_def)

lemma decode_BlockOrder [rendered]:
  "renders_ok E \<Longrightarrow> Order_IsValid (boHeight x) \<Longrightarrow> unmarshalInputBlockOrder E p (renderBlockOrder x) = Ret (Inr x)"
  by (simp add: unmarshalInputBlockOrder_def renderBlockOrder_def rendered object_steps)

lemma renderBlockOrder_not_null [simp]: "renderBlockOrder x \<noteq> INull"
  by (simp add: renderBlockOrder_def)

lemma decode_TransactionOrder [rendered]:
  "renders_ok E \<Longrightarrow> Order_IsValid (toHeightAndIndex x) \<Longrightarrow> unmarshalInputTransactionOrder E p (renderTransactionOrder x) = Ret (Inr x)"
  by (simp add: unmarshalInputTransactionOrder_def renderTransactionOrder_def rendered object_steps)

lemma renderTransactionOrder_not_null [simp]: "renderTransactionOrder x \<noteq> INull"
  by (simp add: renderTransactionOrder_def)

section \<open>The filters of the first query fields\<close>

text \<open>
  The inputs of \<open>blocks\<close> and \<open>transactions\<close>. A block filter keeps the instants of its times only, which are written in UTC; the
  type and the route of a message are among the names of their enumerations.
\<close>

definition renderList :: "('a \<Rightarrow> gql_input) \<Rightarrow> 'a list \<Rightarrow> gql_input" where
  "renderList r xs = IList (map r xs)"

definition utcTime :: "gotime \<Rightarrow> go_time" where
  "utcTime t = \<lparr>gtInstant = t, gtLocation = ''''\<rparr>"

definition renderAmountInput :: "AmountInput \<Rightarrow> gql_input" where
  "renderAmountInput x = IObject
     [(''from'', renderOpt IInt (aiFrom x)),
      (''to'', renderOpt IInt (aiTo x)),
      (''denomination'', renderOpt IString (aiDenomination x))]"

definition renderBankMsgSendInput :: "BankMsgSendInput \<Rightarrow> gql_input" where
  "renderBankMsgSendInput x = IObject
     [(''from_address'', renderOpt IString (biFromAddress x)),
      (''to_address'', renderOpt IString (biToAddress x)),
      (''amount'', renderOpt renderAmountInput (biAmount x))]"

definition renderTransactionBankMessageInput :: "TransactionBankMessageInput \<Rightarrow> gql_input" where
  "renderTransactionBankMessageInput x = IObject
     [(''send'', renderOpt renderBankMsgSendInput (tbSend x))]"

definition renderMsgCallInput :: "MsgCallInput \<Rightarrow> gql_input" where
  "renderMsgCallInput x = IObject
     [(''caller'', renderOpt IString (ciCaller x)),
      (''send'', renderOpt renderAmountInput (ciSend x)),
      (''pkg_path'', renderOpt IString (ciPkgPath x)),
      (''func'', renderOpt IString (ciFunc x)),
      (''args'', renderOpt (renderList IString) (ciArgs x))]"

definition renderMemFileInput :: "MemFileInput \<Rightarrow> gql_input" where
  "renderMemFileInput x = IObject
     [(''name'', renderOpt IString (miName x)),
      (''body'', renderOpt IString (miBody x))]"

definition renderMemPackageInput :: "MemPackageInput \<Rightarrow> gql_input" where
  "renderMemPackageInput x = IObject
     [(''name'', renderOpt IString (piName x)),
      (''path'', renderOpt IString (piPath x)),
      (''files'', renderList (renderOpt renderMemFileInput) (piFiles x))]"

definition renderMsgAddPackageInput :: "MsgAddPackageInput \<Rightarrow> gql_input" where
  "renderMsgAddPackageInput x = IObject
     [(''creator'', renderOpt IString (apCreator x)),
      (''package'', renderOpt renderMemPackageInput (apPackage x)),
      (''deposit'', renderOpt renderAmountInput (apDeposit x))]"

definition renderMsgRunInput :: "MsgRunInput \<Rightarrow> gql_input" where
  "renderMsgRunInput x = IObject
     [(''caller'', renderOpt IString (riCaller x)),
      (''send'', renderOpt renderAmountInput (riSend x)),
      (''package'', renderOpt renderMemPackageInput (riPackage x))]"

definition renderTransactionVmMessageInput :: "TransactionVMMessageInput \<Rightarrow> gql_input" where
  "renderTransactionVmMessageInput x = IObject
     [(''exec'', renderOpt renderMsgCallInput (tvExec x)),
      (''add_package'', renderOpt renderMsgAddPackageInput (tvAddPackage x)),
      (''run'', renderOpt renderMsgRunInput (tvRun x))]"

definition renderTransactionMessageInput :: "TransactionMessageInput \<Rightarrow> gql_input" where
  "renderTransactionMessageInput x = IObject
     [(''type_url'', renderOpt IString (tiTypeURL x)),
      (''route'', renderOpt IString (tiRoute x)),
      (''bank_param'', renderOpt renderTransactionBankMessageInput (tiBankParam x)),
      (''vm_param'', renderOpt renderTransactionVmMessageInput (tiVMParam x))]"

definition renderEventAttributeInput :: "EventAttributeInput \<Rightarrow> gql_input" where
  "renderEventAttributeInput x = IObject
     [(''key'', renderOpt IString (eaKey x)),
      (''value'', renderOpt IString (eaValue x))]"

definition renderGnoEventInput :: "GnoEventInput \<Rightarrow> gql_input" where
  "renderGnoEventInput x = IObject
     [(''type'', renderOpt IString (giType x)),
      (''pkg_path'', renderOpt IString (giPkgPath x)),
      (''attrs'', renderOpt (renderList renderEventAttributeInput) (giAttrs x))]"

definition renderCoinInput :: "CoinInput \<Rightarrow> gql_input" where
  "renderCoinInput x = IObject
     [(''amount'', renderOpt IInt (cnAmount x)),
      (''denom'', renderOpt IString (cnDenom x))]"

definition renderStorageDepositEventInput :: "StorageDepositEventInput \<Rightarrow> gql_input" where
  "renderStorageDepositEventInput x = IObject
     [(''type'', renderOpt IString (siType x)),
      (''bytes_delta'', renderOpt IInt (siBytesDelta x)),
      (''fee_delta'', renderOpt renderCoinInput (siFeeDelta x)),
      (''pkg_path'', renderOpt IString (siPkgPath x))]"

definition renderStorageUnlockEventInput :: "StorageUnlockEventInput \<Rightarrow> gql_input" where
  "renderStorageUnlockEventInput x = IObject
     [(''type'', renderOpt IString (uiType x)),
      (''bytes_delta'', renderOpt IInt (uiBytesDelta x)),
      (''fee_refund'', renderOpt renderCoinInput (uiFeeRefund x)),
      (''pkg_path'', renderOpt IString (uiPkgPath x))]"

definition renderEventInput :: "EventInput \<Rightarrow> gql_input" where
  "renderEventInput x = IObject
     [(''gno_event'', renderOpt renderGnoEventInput (eiGnoEvent x)),
      (''storage_deposit_event'', renderOpt renderStorageDepositEventInput (eiStorageDepositEvent x)),
      (''storage_unlock_event'', renderOpt renderStorageUnlockEventInput (eiStorageUnlockEvent x))]"

definition renderBlockFilter :: "(go_time \<Rightarrow> gql_input) \<Rightarrow> BlockFilter \<Rightarrow> gql_input" where
  "renderBlockFilter rt x = IObject
     [(''from_height'', renderOpt IInt (bfFromHeight x)),
      (''to_height'', renderOpt IInt (bfToHeight x)),
      (''from_time'', renderOpt (\<lambda>t. rt (utcTime t)) (bfFromTime x)),
      (''to_time'', renderOpt (\<lambda>t. rt (utcTime t)) (bfToTime x))]"

definition renderTransactionFilter :: "TransactionFilter \<Rightarrow> gql_input" where
  "renderTransactionFilter x = IObject
     [(''from_block_height'', renderOpt IInt (xfFromBlockHeight x)),
      (''to_block_height'', renderOpt IInt (xfToBlockHeight x)),
      (''from_index'', renderOpt IInt (xfFromIndex x)),
      (''to_index'', renderOpt IInt (xfToIndex x)),
      (''from_gas_wanted'', renderOpt IInt (xfFromGasWanted x)),
      (''to_gas_wanted'', renderOpt IInt (xfToGasWanted x)),
      (''from_gas_used'', renderOpt IInt (xfFromGasUsed x)),
      (''to_gas_used'', renderOpt IInt (xfToGasUsed x)),
      (''hash'', renderOpt IString (xfHash x)),
      (''message'', renderList renderTransactionMessageInput (xfMessage x)),
      (''memo'', renderOpt IString (xfMemo x)),
      (''success'', renderOpt IBool (xfSuccess x)),
      (''events'', renderList renderEventInput (xfEvents x))]"

definition validMessageInput :: "TransactionMessageInput \<Rightarrow> bool" where
  "validMessageInput x \<longleftrightarrow> pred_option MessageType_IsValid (tiTypeURL x) \<and> pred_option MessageRoute_IsValid (tiRoute x)"

definition readsBlockFilter :: "(go_time \<Rightarrow> gql_input) \<Rightarrow> input_env \<Rightarrow> BlockFilter \<Rightarrow> bool" where
  "readsBlockFilter rt E x \<longleftrightarrow>
     (\<forall>t \<in> set_option (bfFromTime x) \<union> set_option (bfToTime x). readable rt E (utcTime t))"

lemma renderList_not_null [simp]: "renderList r xs \<noteq> INull"
  by (simp add: renderList_def)

lemma lists_rendered:
  assumes "renders_ok E"
  shows "(\<And>x q. x \<in> set xs \<Longrightarrow> dec q (r x) = Ret (Inr x)) \<Longrightarrow> sliceIn E dec p (renderList r xs) = Ret (Inr xs)"
    and "(\<And>xs x q. xo = Some xs \<Longrightarrow> x \<in> set xs \<Longrightarrow> dec q (r x) = Ret (Inr x)) \<Longrightarrow>
      listIn E dec p (renderOpt (renderList r) xo) = Ret (Inr xo)"
  using assms elems_rendered [of _ dec r]
  by (auto simp: renderList_def renderOpt_def slice_rendered listIn_def renders_coerce split: option.split)

lemma instant_rendered:
  "(\<And>t. x = Some t \<Longrightarrow> readable rt E (utcTime t)) \<Longrightarrow>
    nullableIn E (scalarIn (geTime E)) p (renderOpt (\<lambda>t. rt (utcTime t)) x) = Ret (Inr (map_option utcTime x))"
  by (cases x) (simp_all add: nullableIn_def renderOpt_def scalarIn_def readable_def)

lemma utcTime_instant [simp]: "gtInstant (utcTime t) = t"
  by (simp add: utcTime_def)

lemma enums_rendered:
  "MessageType_IsValid s \<Longrightarrow> enumIn MessageType_UnmarshalGQL p (IString s) = Ret (Inr s)"
  "MessageRoute_IsValid s \<Longrightarrow> enumIn MessageRoute_UnmarshalGQL p (IString s) = Ret (Inr s)"
  by (simp_all add: enumIn_def MessageType_UnmarshalGQL_def MessageRoute_UnmarshalGQL_def unmarshalEnum_def)

lemma renderAmountInput_not_null [simp]: "renderAmountInput x \<noteq> INull"
  by (simp add: renderAmountInput_def)

lemma decode_AmountInput [rendered]:
  "renders_ok E \<Longrightarrow> unmarshalInputAmountInput E p (renderAmountInput x) = Ret (Inr x)"
  by (simp add: unmarshalInputAmountInput_def renderAmountInput_def rendered object_steps lists_rendered enums_rendered)

lemma renderBankMsgSendInput_not_null [simp]: "renderBankMsgSendInput x \<noteq> INull"
  by (simp add: renderBankMsgSendInput_def)

lemma decode_BankMsgSendInput [rendered]:
  "renders_ok E \<Longrightarrow> unmarshalInputBankMsgSendInput E p (renderBankMsgSendInput x) = Ret (Inr x)"
  by (simp add: unmarshalInputBankMsgSendInput_def renderBankMsgSendInput_def rendered object_steps lists_rendered enums_rendered)

lemma renderTransactionBankMessageInput_not_null [simp]: "renderTransactionBankMessageInput x \<noteq> INull"
  by (simp add: renderTransactionBankMessageInput_def)

lemma decode_TransactionBankMessageInput [rendered]:
  "renders_ok E \<Longrightarrow> unmarshalInputTransactionBankMessageInput E p (renderTransactionBankMessageInput x) = Ret (Inr x)"
  by (simp add: unmarshalInputTransactionBankMessageInput_def renderTransactionBankMessageInput_def rendered object_steps lists_rendered enums_rendered)

lemma renderMsgCallInput_not_null [simp]: "renderMsgCallInput x \<noteq> INull"
  by (simp add: renderMsgCallInput_def)

lemma decode_MsgCallInput [rendered]:
  "renders_ok E \<Longrightarrow> unmarshalInputMsgCallInput E p (renderMsgCallInput x) = Ret (Inr x)"
  by (simp add: unmarshalInputMsgCallInput_def renderMsgCallInput_def rendered object_steps lists_rendered enums_rendered)

lemma renderMemFileInput_not_null [simp]: "renderMemFileInput x \<noteq> INull"
  by (simp add: renderMemFileInput_def)

lemma decode_MemFileInput [rendered]:
  "renders_ok E \<Longrightarrow> unmarshalInputMemFileInput E p (renderMemFileInput x) = Ret (Inr x)"
  by (simp add: unmarshalInputMemFileInput_def renderMemFileInput_def rendered object_steps lists_rendered enums_rendered)

lemma renderMemPackageInput_not_null [simp]: "renderMemPackageInput x \<noteq> INull"
  by (simp add: renderMemPackageInput_def)

lemma decode_MemPackageInput [rendered]:
  "renders_ok E \<Longrightarrow> unmarshalInputMemPackageInput E p (renderMemPackageInput x) = Ret (Inr x)"
  by (simp add: unmarshalInputMemPackageInput_def renderMemPackageInput_def rendered object_steps lists_rendered enums_rendered)

lemma renderMsgAddPackageInput_not_null [simp]: "renderMsgAddPackageInput x \<noteq> INull"
  by (simp add: renderMsgAddPackageInput_def)

lemma decode_MsgAddPackageInput [rendered]:
  "renders_ok E \<Longrightarrow> unmarshalInputMsgAddPackageInput E p (renderMsgAddPackageInput x) = Ret (Inr x)"
  by (simp add: unmarshalInputMsgAddPackageInput_def renderMsgAddPackageInput_def rendered object_steps lists_rendered enums_rendered)

lemma renderMsgRunInput_not_null [simp]: "renderMsgRunInput x \<noteq> INull"
  by (simp add: renderMsgRunInput_def)

lemma decode_MsgRunInput [rendered]:
  "renders_ok E \<Longrightarrow> unmarshalInputMsgRunInput E p (renderMsgRunInput x) = Ret (Inr x)"
  by (simp add: unmarshalInputMsgRunInput_def renderMsgRunInput_def rendered object_steps lists_rendered enums_rendered)

lemma renderTransactionVmMessageInput_not_null [simp]: "renderTransactionVmMessageInput x \<noteq> INull"
  by (simp add: renderTransactionVmMessageInput_def)

lemma decode_TransactionVmMessageInput [rendered]:
  "renders_ok E \<Longrightarrow> unmarshalInputTransactionVmMessageInput E p (renderTransactionVmMessageInput x) = Ret (Inr x)"
  by (simp add: unmarshalInputTransactionVmMessageInput_def renderTransactionVmMessageInput_def rendered object_steps lists_rendered enums_rendered)

lemma renderTransactionMessageInput_not_null [simp]: "renderTransactionMessageInput x \<noteq> INull"
  by (simp add: renderTransactionMessageInput_def)

lemma decode_TransactionMessageInput [rendered]:
  "renders_ok E \<Longrightarrow> validMessageInput x \<Longrightarrow> unmarshalInputTransactionMessageInput E p (renderTransactionMessageInput x) = Ret (Inr x)"
  by (simp add: unmarshalInputTransactionMessageInput_def renderTransactionMessageInput_def rendered object_steps lists_rendered enums_rendered validMessageInput_def option.pred_set)

lemma renderEventAttributeInput_not_null [simp]: "renderEventAttributeInput x \<noteq> INull"
  by (simp add: renderEventAttributeInput_def)

lemma decode_EventAttributeInput [rendered]:
  "renders_ok E \<Longrightarrow> unmarshalInputEventAttributeInput E p (renderEventAttributeInput x) = Ret (Inr x)"
  by (simp add: unmarshalInputEventAttributeInput_def renderEventAttributeInput_def rendered object_steps lists_rendered enums_rendered)

lemma renderGnoEventInput_not_null [simp]: "renderGnoEventInput x \<noteq> INull"
  by (simp add: renderGnoEventInput_def)

lemma decode_GnoEventInput [rendered]:
  "renders_ok E \<Longrightarrow> unmarshalInputGnoEventInput E p (renderGnoEventInput x) = Ret (Inr x)"
  by (simp add: unmarshalInputGnoEventInput_def renderGnoEventInput_def rendered object_steps lists_rendered enums_rendered)

lemma renderCoinInput_not_null [simp]: "renderCoinInput x \<noteq> INull"
  by (simp add: renderCoinInput_def)

lemma decode_CoinInput [rendered]:
  "renders_ok E \<Longrightarrow> unmarshalInputCoinInput E p (renderCoinInput x) = Ret (Inr x)"
  by (simp add: unmarshalInputCoinInput_def renderCoinInput_def rendered object_steps lists_rendered enums_rendered)

lemma renderStorageDepositEventInput_not_null [simp]: "renderStorageDepositEventInput x \<noteq> INull"
  by (simp add: renderStorageDepositEventInput_def)

lemma decode_StorageDepositEventInput [rendered]:
  "renders_ok E \<Longrightarrow> unmarshalInputStorageDepositEventInput E p (renderStorageDepositEventInput x) = Ret (Inr x)"
  by (simp add: unmarshalInputStorageDepositEventInput_def renderStorageDepositEventInput_def rendered object_steps lists_rendered enums_rendered)

lemma renderStorageUnlockEventInput_not_null [simp]: "renderStorageUnlockEventInput x \<noteq> INull"
  by (simp add: renderStorageUnlockEventInput_def)

lemma decode_StorageUnlockEventInput [rendered]:
  "renders_ok E \<Longrightarrow> unmarshalInputStorageUnlockEventInput E p (renderStorageUnlockEventInput x) = Ret (Inr x)"
  by (simp add: unmarshalInputStorageUnlockEventInput_def renderStorageUnlockEventInput_def rendered object_steps lists_rendered enums_rendered)

lemma renderEventInput_not_null [simp]: "renderEventInput x \<noteq> INull"
  by (simp add: renderEventInput_def)

lemma decode_EventInput [rendered]:
  "renders_ok E \<Longrightarrow> unmarshalInputEventInput E p (renderEventInput x) = Ret (Inr x)"
  by (simp add: unmarshalInputEventInput_def renderEventInput_def rendered object_steps lists_rendered enums_rendered)

lemma renderBlockFilter_not_null [simp]: "renderBlockFilter rt x \<noteq> INull"
  by (simp add: renderBlockFilter_def)

lemma decode_BlockFilter [rendered]:
  "renders_ok E \<Longrightarrow> readsBlockFilter rt E x \<Longrightarrow> unmarshalInputBlockFilter E p (renderBlockFilter rt x) = Ret (Inr x)"
  by (simp add: unmarshalInputBlockFilter_def renderBlockFilter_def rendered object_steps lists_rendered enums_rendered instant_rendered readsBlockFilter_def option.map_comp comp_def option.map_ident)

lemma renderTransactionFilter_not_null [simp]: "renderTransactionFilter x \<noteq> INull"
  by (simp add: renderTransactionFilter_def)

lemma decode_TransactionFilter [rendered]:
  "renders_ok E \<Longrightarrow> \<forall>m \<in> set (xfMessage x). validMessageInput m \<Longrightarrow> unmarshalInputTransactionFilter E p (renderTransactionFilter x) = Ret (Inr x)"
  by (simp add: unmarshalInputTransactionFilter_def renderTransactionFilter_def rendered object_steps lists_rendered enums_rendered)

end
