(* ===== verification/Graph_Subscriptions.thy ===== *)
theory Graph_Subscriptions
  imports Graph_Resolvers
begin

text \<open>
  What the subscription resolvers deliver: the invariant of a subscription with its goroutine, and
  the two ways in which it goes wrong.
\<close>

section \<open>Subscriptions deliver in order\<close>

fun vals :: "'a option outcome list \<Rightarrow> 'a list" where
  "vals [] = []"
| "vals (Ret (Some v) # xs) = v # vals xs"
| "vals (_ # xs) = vals xs"

text \<open>The values a resolver has for a list of events.\<close>

definition values_of :: "(newBlock \<Rightarrow> 'a option outcome list) \<Rightarrow> event_data event list \<Rightarrow> 'a list" where
  "values_of W es = concat (map (\<lambda>e. case evData e of DNewBlock nb \<Rightarrow> vals (W nb) | DOther _ \<Rightarrow> []) es)"

lemma values_of_simps [simp]:
  "values_of W [] = []" "values_of W (xs @ ys) = values_of W xs @ values_of W ys"
  "values_of W [e] = (case evData e of DNewBlock nb \<Rightarrow> vals (W nb) | DOther _ \<Rightarrow> [])"
  by (simp_all add: values_of_def)

fun to_write :: "'a chan_phase \<Rightarrow> 'a list" where
  "to_write (Writing xs) = vals xs"
| "to_write _ = []"

definition chan_inv :: "(newBlock \<Rightarrow> 'a option outcome list) \<Rightarrow> 'a chan_run \<Rightarrow> bool" where
  "chan_inv W r \<longleftrightarrow> sub_inv (cxSub r) \<and>
     (\<exists>rest. values_of W (srReceived (cxSub r)) = cxSent r @ to_write (cxPhase r) @ rest \<and>
        (rest = [] \<or> (\<exists>m. cxPhase r = ChanCrashed m)))"

lemma leave_inv:
  assumes "chan_inv W r" "to_write (cxPhase r) = []" "\<forall>m. cxPhase r \<noteq> ChanCrashed m"
  shows "chan_inv W (leave r)"
proof (cases "eventSubscription_close (srSub (cxSub r))")
  case (Ret es)
  have "sub_inv ((cxSub r)\<lparr>srSub := es\<rparr>)"
    using sub_step_inv [OF ss_close [OF Ret]] assms(1) by (simp add: chan_inv_def)
  with Ret assms show ?thesis by (simp add: leave_def chan_inv_def)
qed (use assms in \<open>simp add: leave_def chan_inv_def\<close>)

lemma chan_step_inv: "chan_step W r r' \<Longrightarrow> chan_inv W r \<Longrightarrow> chan_inv W r'"
proof (induction rule: chan_step.induct)
  case (ch_take r e q nb)
  from sub_step_inv [OF ss_receive [OF ch_take(2)]] ch_take show ?case by (simp add: chan_inv_def)
next
  case (ch_cast r e q m)
  from sub_step_inv [OF ss_receive [OF ch_cast(2)]] ch_cast show ?case
    by (intro leave_inv) (simp_all add: chan_inv_def)
next
  case (ch_closed r)
  then show ?case by (intro leave_inv) simp_all
next
  case (ch_done r)
  then show ?case by (intro leave_inv) simp_all
next
  case (ch_sub r s)
  from sub_step_inv [OF ch_sub(1)] ch_sub show ?case by (simp add: chan_inv_def)
qed (auto simp: chan_inv_def)

lemma chan_reach_inv: "(chan_step W)\<^sup>*\<^sup>* handleChannel r \<Longrightarrow> chan_inv W r"
proof (induction rule: rtranclp_induct)
  case base
  have "sub_inv (sub_start [NewBlockEvent] :: event_data sub_run)" by (rule sub_reach_inv [OF rtranclp.rtrancl_refl])
  then show ?case by (simp add: chan_inv_def handleChannel_def sub_start_def)
qed (rule chan_step_inv)

lemma sub_inv_prefix: "sub_inv r \<Longrightarrow> \<exists>rest. srPushed r = srReceived r @ rest"
  by (auto simp: sub_inv_def Let_def split: if_splits)

text \<open>
  A goroutine that writes after the context is done waits for ever: none of its own steps is
  possible, and no step of its surroundings lets it return.
\<close>

lemma stuck_step:
  "chan_step W r r' \<Longrightarrow> cxDone r \<Longrightarrow> cxPhase r = Writing (Ret (Some v) # xs) \<Longrightarrow>
   cxDone r' \<and> cxPhase r' = cxPhase r \<and> cxSent r' = cxSent r"
  by (induction rule: chan_step.induct) auto

lemma stuck_run:
  assumes "(chan_step W)\<^sup>*\<^sup>* r r'" "cxDone r" "cxPhase r = Writing (Ret (Some v) # xs)"
  shows "cxDone r' \<and> cxPhase r' = cxPhase r \<and> cxSent r' = cxSent r"
  using assms(1)
proof (induction rule: rtranclp_induct)
  case (step y z)
  from stuck_step [OF step(2)] step.IH assms(2,3) show ?case by simp
qed (simp add: assms)

section \<open>An example run\<close>

definition ex_new_block :: "event_data event" where
  "ex_new_block = \<lparr>evType = NewBlockEvent, evData = DNewBlock \<lparr>nbBlock = mk_block 7 0 [], nbResults = []\<rparr>\<rparr>"

definition ex_sub ::
    "event_data event list \<Rightarrow> event_data event list \<Rightarrow> bool \<Rightarrow> event_data run_loop \<Rightarrow> nat \<Rightarrow> event_data event list \<Rightarrow>
     event_data sub_run" where
  "ex_sub st out nt lp pushing received =
     \<lparr>srSub = \<lparr>esStore = st, esOutput = out, esDone = False, esNotify = nt, esTypes = [NewBlockEvent], esLoop = lp\<rparr>,
      srPushing = pushing, srReceived = received, srPushed = [ex_new_block]\<rparr>"

definition ex_chan :: "'a chan_phase \<Rightarrow> bool \<Rightarrow> event_data sub_run \<Rightarrow> 'a list \<Rightarrow> 'a chan_run" where
  "ex_chan ph dn s sent = \<lparr>cxSub = s, cxPhase = ph, cxDone = dn, cxSent = sent\<rparr>"

lemma ex_sub_steps:
  "sub_step (sub_start [NewBlockEvent]) (ex_sub [ex_new_block] [] False Listening 1 [])"
  "sub_step (ex_sub [ex_new_block] [] False Listening 1 []) (ex_sub [ex_new_block] [] True Listening 0 [])"
  "sub_step (ex_sub [ex_new_block] [] True Listening 0 []) (ex_sub [ex_new_block] [] False Popping 0 [])"
  "sub_step (ex_sub [ex_new_block] [] False Popping 0 []) (ex_sub [] [] False (Sending ex_new_block) 0 [])"
  "sub_step (ex_sub [] [] False (Sending ex_new_block) 0 []) (ex_sub [] [ex_new_block] False Popping 0 [])"
proof -
  note d = sub_start_def new_subscription_def pushEvent_store_def pushEvent_notify_def eventQueue_push_def ex_sub_def
  show "sub_step (sub_start [NewBlockEvent]) (ex_sub [ex_new_block] [] False Listening 1 [])"
    using ss_push [of "sub_start [NewBlockEvent]" ex_new_block]
    by (simp add: d eventSupported_def) (simp add: ex_new_block_def)
  show "sub_step (ex_sub [ex_new_block] [] False Listening 1 []) (ex_sub [ex_new_block] [] True Listening 0 [])"
    using ss_notify [of "ex_sub [ex_new_block] [] False Listening 1 []" 0] by (simp add: d)
  show "sub_step (ex_sub [ex_new_block] [] True Listening 0 []) (ex_sub [ex_new_block] [] False Popping 0 [])"
    using ss_loop [OF rl_notified, of "ex_sub [ex_new_block] [] True Listening 0 []"] by (simp add: d)
  show "sub_step (ex_sub [ex_new_block] [] False Popping 0 []) (ex_sub [] [] False (Sending ex_new_block) 0 [])"
    using ss_loop [OF rl_pop, of "ex_sub [ex_new_block] [] False Popping 0 []" ex_new_block "[]"] by (simp add: d)
  show "sub_step (ex_sub [] [] False (Sending ex_new_block) 0 []) (ex_sub [] [ex_new_block] False Popping 0 [])"
    using ss_loop [OF rl_send, of "ex_sub [] [] False (Sending ex_new_block) 0 []" ex_new_block] by (simp add: d)
qed

lemma ex_chan_sub:
  "sub_step s s' \<Longrightarrow> srReceived s' = srReceived s \<Longrightarrow> chan_step W (ex_chan ph dn s sent) (ex_chan ph dn s' sent)"
  using ch_sub [of "ex_chan ph dn s sent" s' W] by (simp add: ex_chan_def)

text \<open>The event arrives and the goroutine takes it.\<close>

lemma ex_arrives:
  "(chan_step W)\<^sup>*\<^sup>* handleChannel
     (ex_chan (Writing (W \<lparr>nbBlock = mk_block 7 0 [], nbResults = []\<rparr>)) False
       (ex_sub [] [] False Popping 0 [ex_new_block]) [])"
proof -
  have r: "srReceived (ex_sub a b c d e []) = []" "srReceived (sub_start ts) = []" for a b c d e ts
    by (simp_all add: ex_sub_def sub_start_def)
  note steps = ex_sub_steps [THEN ex_chan_sub, unfolded r, OF refl, where W = W and ph = Selecting and dn = False and sent = "[]"]
  have start: "handleChannel = ex_chan Selecting False (sub_start [NewBlockEvent]) []"
    by (simp add: handleChannel_def ex_chan_def)
  have take: "chan_step W (ex_chan Selecting False (ex_sub [] [ex_new_block] False Popping 0 []) [])
      (ex_chan (Writing (W \<lparr>nbBlock = mk_block 7 0 [], nbResults = []\<rparr>)) False
        (ex_sub [] [] False Popping 0 [ex_new_block]) [])"
    using ch_take [of "ex_chan Selecting False (ex_sub [] [ex_new_block] False Popping 0 []) []" ex_new_block "[]"
        "\<lparr>nbBlock = mk_block 7 0 [], nbResults = []\<rparr>" W]
    by (simp add: ex_chan_def ex_sub_def) (simp add: ex_new_block_def)
  show ?thesis unfolding start
    using steps take by (meson converse_rtranclp_into_rtranclp r_into_rtranclp)
qed

abbreviation "ex_writer \<equiv> subscriptionResolver_GetBlocks ref_codec ex_env (height_filter 5)"

lemma ex_writer:
  "ex_writer \<lparr>nbBlock = mk_block 7 0 [], nbResults = []\<rparr> = [Ret (Some (NewBlock (mk_block 7 0 [])))]"
  by (simp add: subscriptionResolver_GetBlocks_def eval_defs ex_filter_defs NewBlock_def Block_Height_def mk_block_def
      signed_order)

section \<open>Properties of the subscriptions\<close>

text \<open>
  A GraphQL subscription delivers in order: whatever the interleaving of new blocks, the event loop, the
  goroutine and the reader, what the client has received is a beginning of the values the resolver has
  for the new-block events signalled since the subscription started, none left out, doubled or out of order.
\<close>

theorem handleChannel_in_order:
  assumes "(chan_step W)\<^sup>*\<^sup>* handleChannel r"
  shows "\<exists>rest. values_of W (srPushed (cxSub r)) = cxSent r @ rest"
proof -
  have "chan_inv W r" by (rule chan_reach_inv [OF assms])
  moreover from this obtain rest where "srPushed (cxSub r) = srReceived (cxSub r) @ rest"
    using sub_inv_prefix by (auto simp: chan_inv_def)
  ultimately show ?thesis by (auto simp: chan_inv_def)
qed

theorem handleChannel_in_order_witness:
  "\<exists>r. (chan_step ex_writer)\<^sup>*\<^sup>* handleChannel r \<and> cxSent r = [NewBlock (mk_block 7 0 [])] \<and>
     (\<exists>rest. values_of ex_writer (srPushed (cxSub r)) = cxSent r @ rest)"
proof -
  let ?b = "NewBlock (mk_block 7 0 [])"
  let ?r = "ex_chan (Writing [Ret (Some ?b)]) False (ex_sub [] [] False Popping 0 [ex_new_block]) []"
  have "chan_step ex_writer ?r (?r\<lparr>cxPhase := Writing [], cxSent := [?b]\<rparr>)"
    using ch_send [of ?r ?b "[]"] by (simp add: ex_chan_def)
  with ex_arrives [of ex_writer] have
    run: "(chan_step ex_writer)\<^sup>*\<^sup>* handleChannel (?r\<lparr>cxPhase := Writing [], cxSent := [?b]\<rparr>)"
    by (simp add: ex_writer)
  have "cxSent (?r\<lparr>cxPhase := Writing [], cxSent := [?b]\<rparr>) = [?b]" by simp
  with handleChannel_in_order [OF run] run show ?thesis by blast
qed

text \<open>
  A subscription with a nil pointer in its filter, such as \<open>getBlocks(where: {_and: [null]})\<close>, which the schema allows, crashes the
  process at the next block: the filter panics in a goroutine of its own, where nothing recovers.
\<close>

theorem null_filter_crashes:
  "\<exists>r. (chan_step (subscriptionResolver_GetBlocks C G (Filter (None # ands) ors nt p)))\<^sup>*\<^sup>* handleChannel r \<and>
     cxPhase r = ChanCrashed ''nil pointer dereference''"
proof -
  let ?W = "subscriptionResolver_GetBlocks C G (Filter (None # ands) ors nt p)"
  let ?r = "ex_chan (Writing [Panic ''nil pointer dereference'']) False (ex_sub [] [] False Popping 0 [ex_new_block]) []"
  have "?W \<lparr>nbBlock = mk_block 7 0 [], nbResults = []\<rparr> = [Panic ''nil pointer dereference'']"
    by (simp add: subscriptionResolver_GetBlocks_def FilterBlock_Eval_def Let_def evalLogic_def)
  with ex_arrives [of ?W] have run: "(chan_step ?W)\<^sup>*\<^sup>* handleChannel ?r" by simp
  have "chan_step ?W ?r (?r\<lparr>cxPhase := ChanCrashed ''nil pointer dereference''\<rparr>)"
    by (rule ch_panic [of _ _ "[]"]) (simp add: ex_chan_def)
  with run have "(chan_step ?W)\<^sup>*\<^sup>* handleChannel (?r\<lparr>cxPhase := ChanCrashed ''nil pointer dereference''\<rparr>)" by simp
  then show ?thesis by force
qed

text \<open>
  A goroutine that has a value to send when the context ends never returns: the reader is gone, and the send does not
  look at the context. In every state that follows it is still at the same send, so its deferred cancellation of the
  subscription never runs.
\<close>

theorem writer_blocks_forever:
  assumes "cxDone r" and "cxPhase r = Writing (Ret (Some v) # xs)" and "(chan_step W)\<^sup>*\<^sup>* r r'"
  shows "cxPhase r' = Writing (Ret (Some v) # xs) \<and> cxSent r' = cxSent r"
  using stuck_run [OF assms(3,1,2)] assms(2) by simp

theorem writer_blocks_forever_witness:
  "\<exists>r r'. (chan_step ex_writer)\<^sup>*\<^sup>* handleChannel r \<and> chan_step ex_writer r r' \<and> cxDone r \<and>
     cxPhase r' = Writing [Ret (Some (NewBlock (mk_block 7 0 [])))]"
proof -
  let ?b = "NewBlock (mk_block 7 0 [])"
  let ?r = "ex_chan (Writing [Ret (Some ?b)]) False (ex_sub [] [] False Popping 0 [ex_new_block]) []\<lparr>cxDone := True\<rparr>"
  have run: "(chan_step ex_writer)\<^sup>*\<^sup>* handleChannel ?r"
    using ex_arrives [of ex_writer] ch_cancel [where W = ex_writer] by (simp add: ex_writer rtranclp.rtrancl_into_rtrancl)
  have ph: "cxDone ?r" "cxPhase ?r = Writing (Ret (Some ?b) # [])" by (simp_all add: ex_chan_def)
  have step: "chan_step ex_writer ?r (?r\<lparr>cxDone := True\<rparr>)" by (rule ch_cancel)
  have "cxPhase (?r\<lparr>cxDone := True\<rparr>) = Writing [Ret (Some ?b)]"
    by (rule writer_blocks_forever [OF ph, THEN conjunct1]) (rule r_into_rtranclp, rule step)
  with run step ph(1) show ?thesis by blast
qed

end
