(* ===== verification/Graph_Requests.thy ===== *)
theory Graph_Requests
  imports Graph_Input_Facts Graph_Input_Render Graph_Subscriptions
begin

text \<open>
  What the decoding of arguments guarantees to the resolvers: it takes every request that the schema allows, it can
  deliver every filter, and the filters that the generator emits twice are read in the same way; and what it lets through.
\<close>

section \<open>A library\<close>

text \<open>The documented behaviour of the library on the values of a request, with the time of UTC in unary.\<close>

definition ex_time :: "go_time \<Rightarrow> gql_input" where
  "ex_time t = IString (if gtInstant t < 0 then CHR ''-'' # replicate (nat (- gtInstant t)) CHR ''1''
     else replicate (nat (gtInstant t)) CHR ''1'')"

definition ex_read_time :: "string \<Rightarrow> go_time" where
  "ex_read_time s = \<lparr>gtInstant = (case s of [] \<Rightarrow> 0 | c # cs \<Rightarrow> if c = CHR ''-'' then - int (length cs) else int (length s)),
     gtLocation = ''''\<rparr>"

definition ex_library :: input_env where
  "ex_library = \<lparr>
     geInt = (\<lambda>v. case v of IInt i \<Rightarrow> Inr i | _ \<Rightarrow> Inl (ErrMsg ''not an int'')),
     geInt64 = (\<lambda>v. case v of IInt i \<Rightarrow> Inr i | _ \<Rightarrow> Inl (ErrMsg ''not an int'')),
     geBoolean = (\<lambda>v. case v of IBool b \<Rightarrow> Inr b | _ \<Rightarrow> Inl (ErrMsg ''not a bool'')),
     geString = (\<lambda>v. case v of IString s \<Rightarrow> Inr s | _ \<Rightarrow> Inl (ErrMsg ''not a string'')),
     geTime = (\<lambda>v. case v of IString s \<Rightarrow> Inr (ex_read_time s) | _ \<Rightarrow> Inl (ErrMsg ''not a time'')),
     geErrorOnPath = (\<lambda>p e. ErrWrap ''path'' [e]),
     geCoerce = specCoercion\<rparr>"

definition ex_scalar :: "string \<Rightarrow> gql_input \<Rightarrow> bool" where
  "ex_scalar n v = (case v of IInt i \<Rightarrow> n = ''Int'' | IBool b \<Rightarrow> n = ''Boolean'' | IString s \<Rightarrow> n = ''String'' \<or> n = ''Time'' | _ \<Rightarrow> False)"

lemma ex_coerces [simp]: "coerces_lists ex_library"
proof -
  have "coerceList specCoercion v = (case v of IList vs \<Rightarrow> vs | _ \<Rightarrow> [v])" for v
    by transfer simp
  then show ?thesis by (auto simp: coerces_lists_def ex_library_def split: gql_input.split)
qed

lemma ex_library_ok [simp]: "library_ok ex_scalar ex_library"
proof -
  have "coerces_lists ex_library" by simp
  then show ?thesis
    unfolding library_ok_def by (auto simp: ex_library_def ex_scalar_def split: gql_input.splits)
qed

lemma ex_renders_ok [simp]: "renders_ok ex_library"
proof -
  have "coerces_lists ex_library" by simp
  then show ?thesis unfolding renders_ok_def by (simp add: ex_library_def)
qed

lemma ex_readable [simp]: "gtLocation t = '''' \<Longrightarrow> readable ex_time ex_library t"
proof -
  assume utc: "gtLocation t = ''''"
  have "ex_read_time (if i < 0 then CHR ''-'' # replicate (nat (- i)) CHR ''1'' else replicate (nat i) CHR ''1'') =
      \<lparr>gtInstant = i, gtLocation = ''''\<rparr>" for i
    by (cases "nat i") (auto simp: ex_read_time_def)
  moreover obtain i where "t = \<lparr>gtInstant = i, gtLocation = ''''\<rparr>" using utc by (cases t) simp
  ultimately show ?thesis by (simp add: readable_def ex_time_def ex_library_def split del: if_split cong del: if_weak_cong)
qed

section \<open>What is accepted\<close>

text \<open>The raw arguments of a field hold values of the types that the schema gives its arguments.\<close>

definition args_conform :: "(string \<Rightarrow> gql_input \<Rightarrow> bool) \<Rightarrow> input_fields \<Rightarrow> (string \<rightharpoonup> gql_input) \<Rightarrow> bool" where
  "args_conform sc as raw \<longleftrightarrow> (\<forall>k x t. raw k = Some x \<longrightarrow> map_of as k = Some t \<longrightarrow> conforms sc t x)"

definition field_args :: "string \<Rightarrow> string \<Rightarrow> input_fields" where
  "field_args obj field =
     (case schema obj of Some (DObject fs) \<Rightarrow> (case map_of fs field of Some (as, t) \<Rightarrow> as | None \<Rightarrow> []) | _ \<Rightarrow> [])"

lemma schema_roots:
  "schema ''Query'' = Some (DObject (Query_schema @ meta_Query_schema))" "schema ''Subscription'' = Some (DObject Subscription_schema)"
  unfolding schema_def
  by (rule map_of_is_SomeI [OF schema_distinct]; simp only: schema_types_def list.set; (rule insertI1 | rule insertI2)+)+

lemma root_args:
  "field_args ''Query'' ''blocks'' = [(''filter'', TNonNull (TNamed ''BlockFilter''))]"
  "field_args ''Query'' ''transactions'' = [(''filter'', TNonNull (TNamed ''TransactionFilter''))]"
  "field_args ''Query'' ''getBlocks'' = [(''where'', TNonNull (TNamed ''FilterBlock'')), (''order'', TNamed ''BlockOrder'')]"
  "field_args ''Query'' ''getTransactions'' =
     [(''where'', TNonNull (TNamed ''FilterTransaction'')), (''order'', TNamed ''TransactionOrder'')]"
  "field_args ''Subscription'' ''blocks'' = [(''filter'', TNonNull (TNamed ''BlockFilter''))]"
  "field_args ''Subscription'' ''transactions'' = [(''filter'', TNonNull (TNamed ''TransactionFilter''))]"
  "field_args ''Subscription'' ''getBlocks'' = [(''where'', TNonNull (TNamed ''FilterBlock''))]"
  "field_args ''Subscription'' ''getTransactions'' = [(''where'', TNonNull (TNamed ''FilterTransaction''))]"
  by (simp_all add: field_args_def schema_roots Query_schema_def Subscription_schema_def)

lemma argIn_accepts:
  assumes "args_conform sc as raw" "map_of as k = Some t" "accepts sc t dec"
  shows "\<exists>x. argIn k zero dec p raw = Ret (Inr x)"
  using assms by (auto simp: argIn_def args_conform_def intro: acceptsD split: option.split)

lemma where_args:
  "field_Subscription_getBlocks_argsWhere = field_Query_getBlocks_argsWhere"
  "field_Subscription_getTransactions_argsWhere = field_Query_getTransactions_argsWhere"
  "field_Subscription_blocks_argsFilter = field_Query_blocks_argsFilter"
  "field_Subscription_transactions_argsFilter = field_Query_transactions_argsFilter"
  by (simp_all add: fun_eq_iff field_Subscription_getBlocks_argsWhere_def field_Query_getBlocks_argsWhere_def
      field_Subscription_getTransactions_argsWhere_def field_Query_getTransactions_argsWhere_def
      field_Subscription_blocks_argsFilter_def field_Query_blocks_argsFilter_def
      field_Subscription_transactions_argsFilter_def field_Query_transactions_argsFilter_def)

lemma args_accept:
  assumes E: "library_ok sc E" and c: "args_conform sc as raw"
  shows "map_of as ''where'' = Some (TNonNull (TNamed ''FilterBlock'')) \<Longrightarrow>
      \<exists>x. field_Query_getBlocks_argsWhere E p raw = Ret (Inr x)"
    and "map_of as ''where'' = Some (TNonNull (TNamed ''FilterTransaction'')) \<Longrightarrow>
      \<exists>x. field_Query_getTransactions_argsWhere E p raw = Ret (Inr x)"
    and "map_of as ''filter'' = Some (TNonNull (TNamed ''BlockFilter'')) \<Longrightarrow>
      \<exists>x. field_Query_blocks_argsFilter E p raw = Ret (Inr x)"
    and "map_of as ''filter'' = Some (TNonNull (TNamed ''TransactionFilter'')) \<Longrightarrow>
      \<exists>x. field_Query_transactions_argsFilter E p raw = Ret (Inr x)"
    and "map_of as ''order'' = Some (TNamed ''BlockOrder'') \<Longrightarrow>
      \<exists>x. field_Query_getBlocks_argsOrder E p raw = Ret (Inr x)"
    and "map_of as ''order'' = Some (TNamed ''TransactionOrder'') \<Longrightarrow>
      \<exists>x. field_Query_getTransactions_argsOrder E p raw = Ret (Inr x)"
  unfolding field_Query_getBlocks_argsWhere_def field_Query_getTransactions_argsWhere_def
    field_Query_blocks_argsFilter_def field_Query_transactions_argsFilter_def
    field_Query_getBlocks_argsOrder_def field_Query_getTransactions_argsOrder_def
  using E by (auto intro!: argIn_accepts [OF c] simp: accept input_defs)

lemma bindE_pair:
  "(\<exists>x. bindE m (\<lambda>a. bindE m' (\<lambda>b. Ret (Inr (a, b)))) = Ret (Inr x)) \<longleftrightarrow> (\<exists>a. m = Ret (Inr a)) \<and> (\<exists>b. m' = Ret (Inr b))"
  by (auto simp: bindE_Ret_iff)

lemmas args_defs = field_Query_getBlocks_args_def field_Query_getTransactions_args_def field_Query_blocks_args_def
  field_Query_transactions_args_def field_Subscription_getBlocks_args_def field_Subscription_getTransactions_args_def
  field_Subscription_blocks_args_def field_Subscription_transactions_args_def

text \<open>
  C19. A request that the schema allows reaches the resolvers: the arguments of each of the eight fields of queries and subscriptions
  are decoded without an error and without a panic, whatever the values, if the scalars of the library take
  the values of their types.
\<close>

theorem arguments_accepted:
  assumes E: "library_ok sc E" and c: "args_conform sc (field_args obj field) raw"
  shows "((obj, field) = (''Query'', ''getBlocks'') \<longrightarrow> (\<exists>x. field_Query_getBlocks_args E p raw = Ret (Inr x))) \<and>
    ((obj, field) = (''Query'', ''getTransactions'') \<longrightarrow> (\<exists>x. field_Query_getTransactions_args E p raw = Ret (Inr x))) \<and>
    ((obj, field) = (''Query'', ''blocks'') \<longrightarrow> (\<exists>x. field_Query_blocks_args E p raw = Ret (Inr x))) \<and>
    ((obj, field) = (''Query'', ''transactions'') \<longrightarrow> (\<exists>x. field_Query_transactions_args E p raw = Ret (Inr x))) \<and>
    ((obj, field) = (''Subscription'', ''getBlocks'') \<longrightarrow> (\<exists>x. field_Subscription_getBlocks_args E p raw = Ret (Inr x))) \<and>
    ((obj, field) = (''Subscription'', ''getTransactions'') \<longrightarrow> (\<exists>x. field_Subscription_getTransactions_args E p raw = Ret (Inr x))) \<and>
    ((obj, field) = (''Subscription'', ''blocks'') \<longrightarrow> (\<exists>x. field_Subscription_blocks_args E p raw = Ret (Inr x))) \<and>
    ((obj, field) = (''Subscription'', ''transactions'') \<longrightarrow> (\<exists>x. field_Subscription_transactions_args E p raw = Ret (Inr x)))"
  using args_accept [OF E c, of p] by (auto simp: root_args args_defs where_args bindE_pair)

text \<open>A request for the blocks above a height.\<close>

theorem arguments_accepted_witness:
  "\<exists>x. field_Query_getBlocks_args ex_library [] [''where'' \<mapsto> IObject [(''height'', IObject [(''gt'', IInt 5)])]] = Ret (Inr x)"
proof -
  have "args_conform ex_scalar (field_args ''Query'' ''getBlocks'')
      [''where'' \<mapsto> IObject [(''height'', IObject [(''gt'', IInt 5)])]]"
    by (auto simp: args_conform_def root_args schema_lookup FilterBlock_schema_def FilterInt_schema_def ex_scalar_def
        schema_scalars split: if_splits)
  from arguments_accepted [OF ex_library_ok this, of "[]"] show ?thesis by simp
qed

section \<open>What can be expressed\<close>

text \<open>
  C20. Every filter of the program can be asked for: for each of the eight fields of queries and subscriptions, the arguments that
  hold the rendering of a filter, and of an order where there is one, are decoded to that filter and that order, to any depth of the logical operators,
  of the nested objects and of the lists. The times of a filter are those that the library reads from some text (the
  filter of \<open>blocks\<close> keeps only their instants), and directions, message types and routes are names of their enumerations.
\<close>

theorem filters_expressible:
  assumes "renders_ok E"
    and "pred_gql_filter (readsBlockFields rt E) f" and "pred_option (\<lambda>o'. Order_IsValid (boHeight o')) bo"
    and "pred_option (\<lambda>o'. Order_IsValid (toHeightAndIndex o')) to"
    and "readsBlockFilter rt E bf" and "\<forall>m \<in> set (xfMessage xf). validMessageInput m"
  shows "field_Query_getBlocks_args E p
      [''where'' \<mapsto> renderFilterBlock rt f, ''order'' \<mapsto> renderOpt renderBlockOrder bo] = Ret (Inr (f, bo)) \<and>
    field_Query_getTransactions_args E p
      [''where'' \<mapsto> renderFilterTransaction g, ''order'' \<mapsto> renderOpt renderTransactionOrder to] = Ret (Inr (g, to)) \<and>
    field_Query_blocks_args E p [''filter'' \<mapsto> renderBlockFilter rt bf] = Ret (Inr bf) \<and>
    field_Query_transactions_args E p [''filter'' \<mapsto> renderTransactionFilter xf] = Ret (Inr xf) \<and>
    field_Subscription_getBlocks_args E p [''where'' \<mapsto> renderFilterBlock rt f] = Ret (Inr f) \<and>
    field_Subscription_getTransactions_args E p [''where'' \<mapsto> renderFilterTransaction g] = Ret (Inr g) \<and>
    field_Subscription_blocks_args E p [''filter'' \<mapsto> renderBlockFilter rt bf] = Ret (Inr bf) \<and>
    field_Subscription_transactions_args E p [''filter'' \<mapsto> renderTransactionFilter xf] = Ret (Inr xf)"
proof -
  have "unmarshalOBlockOrder E q (renderOpt renderBlockOrder bo) = Ret (Inr bo)" for q
    unfolding input_defs by (rule nullable_rendered) (use assms(1,3) in \<open>simp add: rendered\<close>)
  moreover have "unmarshalOTransactionOrder E q (renderOpt renderTransactionOrder to) = Ret (Inr to)" for q
    unfolding input_defs by (rule nullable_rendered) (use assms(1,4) in \<open>simp add: rendered\<close>)
  ultimately show ?thesis
    using assms(1,2,5,6)
    by (simp add: args_defs where_args field_Query_getBlocks_argsWhere_def field_Query_getBlocks_argsOrder_def
        field_Query_getTransactions_argsWhere_def field_Query_getTransactions_argsOrder_def
        field_Query_blocks_argsFilter_def field_Query_transactions_argsFilter_def
        argIn_def unmarshalNFilterBlock_def unmarshalNFilterTransaction_def
        unmarshalNBlockFilter_def unmarshalNTransactionFilter_def required_rendered rendered)
qed

text \<open>The blocks after an instant, with a nested filter and a nil pointer.\<close>

definition ex_block_query :: FilterBlock where
  "ex_block_query = Filter [Some (Filter [] [] None zeroFilterBlock), None] [] None
     (zeroFilterBlock\<lparr>fBkTime := Some \<lparr>ftExists = None, ftEq = None, ftBefore = None,
        ftAfter = Some \<lparr>gtInstant = 7, gtLocation = ''''\<rparr>\<rparr>\<rparr>)"

text \<open>The calls of a function, with a deposit.\<close>

definition ex_call_query :: TransactionFilter where
  "ex_call_query = zeroTransactionFilter\<lparr>xfMessage := [\<lparr>tiTypeURL = Some MessageTypeExec, tiRoute = Some MessageRouteVM, tiBankParam = None,
     tiVMParam = Some \<lparr>tvExec = Some \<lparr>ciCaller = None, ciSend = Some \<lparr>aiFrom = Some 1, aiTo = None, aiDenomination = None\<rparr>,
       ciPkgPath = Some ''gno.land/r/demo'', ciFunc = Some ''Add'', ciArgs = Some []\<rparr>, tvAddPackage = None, tvRun = None\<rparr>\<rparr>]\<rparr>"

theorem filters_expressible_witness:
  "field_Query_getBlocks_args ex_library []
      [''where'' \<mapsto> renderFilterBlock ex_time ex_block_query,
       ''order'' \<mapsto> renderOpt renderBlockOrder (Some \<lparr>boHeight = OrderDesc\<rparr>)] =
    Ret (Inr (ex_block_query, Some \<lparr>boHeight = OrderDesc\<rparr>)) \<and>
   field_Query_blocks_args ex_library [] [''filter'' \<mapsto> renderBlockFilter ex_time (zeroBlockFilter\<lparr>bfFromTime := Some 3\<rparr>)] =
    Ret (Inr (zeroBlockFilter\<lparr>bfFromTime := Some 3\<rparr>)) \<and>
   field_Subscription_transactions_args ex_library [] [''filter'' \<mapsto> renderTransactionFilter ex_call_query] = Ret (Inr ex_call_query)"
proof -
  have "pred_gql_filter (readsBlockFields ex_time ex_library) ex_block_query"
    by (simp add: ex_block_query_def readsBlockFields_def readsFilterTime_def)
  moreover have "readsBlockFilter ex_time ex_library (zeroBlockFilter\<lparr>bfFromTime := Some 3\<rparr>)"
    by (simp add: readsBlockFilter_def utcTime_def)
  moreover have "\<forall>m \<in> set (xfMessage ex_call_query). validMessageInput m"
    by (simp add: ex_call_query_def validMessageInput_def MessageType_IsValid_def MessageRoute_IsValid_def)
  moreover have "pred_option (\<lambda>o'. Order_IsValid (boHeight o')) (Some \<lparr>boHeight = OrderDesc\<rparr>)"
    by (simp add: Order_IsValid_def)
  ultimately show ?thesis
    using filters_expressible [OF ex_renders_ok, of ex_time ex_block_query "Some \<lparr>boHeight = OrderDesc\<rparr>" None
        "zeroBlockFilter\<lparr>bfFromTime := Some 3\<rparr>" ex_call_query] by simp
qed

lemmas twin_defs =
  unmarshalInputFilterCoin_def unmarshalInputNestedFilterCoin_def unmarshalInputFilterTxFee_def
  unmarshalInputNestedFilterTxFee_def unmarshalInputFilterBlockTransaction_def
  unmarshalInputNestedFilterBlockTransaction_def unmarshalInputFilterMemFile_def
  unmarshalInputNestedFilterMemFile_def unmarshalInputFilterMemPackage_def
  unmarshalInputNestedFilterMemPackage_def unmarshalInputFilterBankMsgSend_def
  unmarshalInputNestedFilterBankMsgSend_def unmarshalInputFilterMsgCall_def unmarshalInputNestedFilterMsgCall_def
  unmarshalInputFilterMsgAddPackage_def unmarshalInputNestedFilterMsgAddPackage_def
  unmarshalInputFilterMsgRun_def unmarshalInputNestedFilterMsgRun_def unmarshalInputFilterMessageValue_def
  unmarshalInputNestedFilterMessageValue_def unmarshalInputFilterTransactionMessage_def
  unmarshalInputNestedFilterTransactionMessage_def unmarshalInputFilterGnoEventAttribute_def
  unmarshalInputNestedFilterGnoEventAttribute_def unmarshalInputFilterGnoEvent_def
  unmarshalInputNestedFilterGnoEvent_def unmarshalInputFilterStorageDepositEvent_def
  unmarshalInputNestedFilterStorageDepositEvent_def unmarshalInputFilterStorageUnlockEvent_def
  unmarshalInputNestedFilterStorageUnlockEvent_def unmarshalInputFilterUnknownEvent_def
  unmarshalInputNestedFilterUnknownEvent_def unmarshalInputFilterEvent_def unmarshalInputNestedFilterEvent_def
  unmarshalInputFilterTransactionResponse_def unmarshalInputNestedFilterTransactionResponse_def

text \<open>
  The generator emits the decoder of an object's filter twice, for the filter of a field and for a filter on its own. The two read every value in
  the same way, with the same errors at the same paths.
\<close>

theorem twin_decoders_agree:
  "unmarshalInputFilterCoin = unmarshalInputNestedFilterCoin \<and>
   unmarshalInputFilterTxFee = unmarshalInputNestedFilterTxFee \<and>
   unmarshalInputFilterBlockTransaction = unmarshalInputNestedFilterBlockTransaction \<and>
   unmarshalInputFilterMemFile = unmarshalInputNestedFilterMemFile \<and>
   unmarshalInputFilterMemPackage = unmarshalInputNestedFilterMemPackage \<and>
   unmarshalInputFilterBankMsgSend = unmarshalInputNestedFilterBankMsgSend \<and>
   unmarshalInputFilterMsgCall = unmarshalInputNestedFilterMsgCall \<and>
   unmarshalInputFilterMsgAddPackage = unmarshalInputNestedFilterMsgAddPackage \<and>
   unmarshalInputFilterMsgRun = unmarshalInputNestedFilterMsgRun \<and>
   unmarshalInputFilterMessageValue = unmarshalInputNestedFilterMessageValue \<and>
   unmarshalInputFilterTransactionMessage = unmarshalInputNestedFilterTransactionMessage \<and>
   unmarshalInputFilterGnoEventAttribute = unmarshalInputNestedFilterGnoEventAttribute \<and>
   unmarshalInputFilterGnoEvent = unmarshalInputNestedFilterGnoEvent \<and>
   unmarshalInputFilterStorageDepositEvent = unmarshalInputNestedFilterStorageDepositEvent \<and>
   unmarshalInputFilterStorageUnlockEvent = unmarshalInputNestedFilterStorageUnlockEvent \<and>
   unmarshalInputFilterUnknownEvent = unmarshalInputNestedFilterUnknownEvent \<and>
   unmarshalInputFilterEvent = unmarshalInputNestedFilterEvent \<and>
   unmarshalInputFilterTransactionResponse = unmarshalInputNestedFilterTransactionResponse"
  by (simp add: fun_eq_iff twin_defs)

section \<open>What should not be let through\<close>

text \<open>
  C40. The elements of \<open>_and\<close> and \<open>_or\<close> are nullable in the schema, so \<open>getBlocks(where: {_and: [null]})\<close> is a valid
  subscription. It is decoded to a filter with a nil pointer, and at the next block the filter panics in a goroutine of its own, where
  nothing recovers: the request ends the process.
\<close>

theorem null_element_ends_process:
  assumes "library_ok sc E"
  shows "args_conform sc (field_args ''Subscription'' ''getBlocks'') [''where'' \<mapsto> IObject [(''_and'', IList [INull])]] \<and>
    (\<exists>f r. field_Subscription_getBlocks_args E p [''where'' \<mapsto> IObject [(''_and'', IList [INull])]] = Ret (Inr f) \<and>
      (chan_step (subscriptionResolver_GetBlocks C G f))\<^sup>*\<^sup>* handleChannel r \<and>
      cxPhase r = ChanCrashed ''nil pointer dereference'')"
proof -
  let ?f = "Filter [None] [] None zeroFilterBlock"
  have coerce: "coerceList (geCoerce E) (IList [INull]) = [INull]"
    using assms by (simp add: library_ok_def coerces_lists_def)
  have "filterIn E zeroFilterBlock steps q (IObject [(''_and'', IList [INull])]) =
      mapE (\<lambda>o'. Filter [None] [] None o') (fieldsIn steps q [''_and'' \<mapsto> IList [INull]] zeroFilterBlock)" for q steps
    by (subst filterIn.simps) (simp add: fieldIn_def sliceIn_def listIn_def nullableIn_def ownIn_def coerce)
  then have "field_Subscription_getBlocks_args E p [''where'' \<mapsto> IObject [(''_and'', IList [INull])]] = Ret (Inr ?f)"
    by (simp add: field_Subscription_getBlocks_args_def field_Subscription_getBlocks_argsWhere_def argIn_def
        unmarshalNFilterBlock_def requiredIn_def unmarshalInputFilterBlock_def fieldIn_def)
  moreover have "args_conform sc (field_args ''Subscription'' ''getBlocks'') [''where'' \<mapsto> IObject [(''_and'', IList [INull])]]"
    by (simp add: args_conform_def root_args schema_lookup FilterBlock_schema_def)
  ultimately show ?thesis
    using null_filter_crashes [of C G "[]" "[]" None zeroFilterBlock] by blast
qed

theorem null_element_ends_process_witness:
  "\<exists>f r. field_Subscription_getBlocks_args ex_library [] [''where'' \<mapsto> IObject [(''_and'', IList [INull])]] = Ret (Inr f) \<and>
      (chan_step (subscriptionResolver_GetBlocks ref_codec ex_env f))\<^sup>*\<^sup>* handleChannel r \<and>
      cxPhase r = ChanCrashed ''nil pointer dereference''"
  using null_element_ends_process [OF ex_library_ok, of "[]" ref_codec ex_env] by blast

end
