(* ===== verification/Graph_Answers.thy ===== *)
theory Graph_Answers
  imports Graph_Introspected Graph_Reference Graph_Requests Graph_Queries
begin

text \<open>
  What the server of GraphQL answers: responses have the types of the schema, are those of the reference where nothing
  fails, hold the blocks of the store, and no query ends the process.
\<close>

section \<open>A server\<close>

text \<open>A selection by the fields it asks for, with their arguments, and a library that writes scalars as they are.\<close>

datatype ex_sel = ExSel "(string \<times> (string \<times> gql_input) list \<times> ex_sel) list"

fun ex_collect :: "ex_sel \<Rightarrow> string list \<Rightarrow> ex_sel collected list" where
  "ex_collect (ExSel fs) impl =
     map (\<lambda>(n, as, s). \<lparr>cfName = n, cfAlias = n, cfSelections = s, cfArgs = map_of as\<rparr>) fs"

definition ex_server :: "ex_sel exec_env" where
  "ex_server = \<lparr>xeCollect = ex_collect, xeInt = OInt, xeInt64 = OInt, xeBoolean = OBool, xeString = OText,
     xeTime = (\<lambda>_. OText ''time''), xeHasFieldError = (\<lambda>l p. p \<in> fst ` set l), xeRecover = ErrMsg,
     xeInput = ex_library, xeFilterable = True\<rparr>"

lemma ex_server_simps [simp]:
  "xeCollect ex_server = ex_collect" "xeInt ex_server = OInt" "xeInt64 ex_server = OInt" "xeInput ex_server = ex_library" "xeRecover ex_server = ErrMsg"
  "xeString ex_server = OText"
  by (simp_all add: ex_server_def)

lemma ex_server_writes [simp]: "writes_scalars ex_server"
  by (simp add: writes_scalars_def ex_server_def)

lemma ex_server_ready [simp]: "ready ex_server"
proof -
  have "coerces_lists ex_library" by simp
  then show ?thesis unfolding ready_def by (simp add: ex_server_def)
qed

text \<open>Resolvers none of which finds anything, and one that panics.\<close>

definition ex_resolvers :: query_resolvers where
  "ex_resolvers =
     (let r = \<lparr>qOut = [], qErr = None, qAdded = []\<rparr> in
      \<lparr>rsTransactions = \<lambda>_. Ret r, rsBlocks = \<lambda>_. Panic ''nil pointer dereference'', rsLatestBlockHeight = (7, None),
       rsGetBlocks = \<lambda>_ _. Ret \<lparr>qOut = [], qErr = None, qAdded = []\<rparr>,
       rsGetTransactions = \<lambda>_ _. Ret r\<rparr>)"

text \<open>
  A package that wraps the schema of \<open>Graph_Schema\<close>: its types are the types of the schema and the wrappers around them.
\<close>

definition ex_kind :: "gql_type \<Rightarrow> string" where
  "ex_kind t =
     (case t of
        TNonNull u \<Rightarrow> ''NON_NULL''
      | TList u \<Rightarrow> ''LIST''
      | TNamed n \<Rightarrow> (case schema n of Some (DObject _) \<Rightarrow> ''OBJECT'' | Some (DInput _) \<Rightarrow> ''INPUT_OBJECT''
                     | Some (DEnum _) \<Rightarrow> ''ENUM'' | Some (DUnion _) \<Rightarrow> ''UNION'' | _ \<Rightarrow> ''SCALAR''))"

definition ex_input :: "string \<times> gql_type \<Rightarrow> gql_type intro_input_value" where
  "ex_input a = \<lparr>ivName = fst a, ivDescription = Ret None, ivType = Some (snd a), ivDefaultValue = None\<rparr>"

definition ex_field :: "string \<times> input_fields \<times> gql_type \<Rightarrow> gql_type intro_field" where
  "ex_field f = \<lparr>fdName = fst f, fdDescription = Ret None, fdArgs = map ex_input (fst (snd f)), fdType = Some (snd (snd f)),
     fdIsDeprecated = Ret False, fdDeprecationReason = Ret None\<rparr>"

definition ex_enum_value :: "string \<Rightarrow> intro_enum_value" where
  "ex_enum_value n = \<lparr>evName = n, evDescription = Ret None, evIsDeprecated = Ret False, evDeprecationReason = Ret None\<rparr>"

definition ex_introspection :: "(gql_type, ex_sel) introspection" where
  "ex_introspection =
     \<lparr>inDisabled = False,
      inSchema = \<lparr>ssDescription = Ret None, ssTypes = Ret (map (TNamed \<circ> fst) schema_types), ssQueryType = Ret (Some (TNamed ''Query'')),
        ssMutationType = Ret None, ssSubscriptionType = Ret (Some (TNamed ''Subscription'')), ssDirectives = Ret []\<rparr>,
      inTypeOf = (\<lambda>n. Ret (map_option (\<lambda>_. TNamed n) (schema n))),
      tyKind = (\<lambda>t. Ret (ex_kind t)),
      tyName = (\<lambda>t. Ret (case t of TNamed n \<Rightarrow> Some n | _ \<Rightarrow> None)),
      tyDescription = (\<lambda>_. Ret None),
      tyFields = (\<lambda>t _. Ret (case t of TNamed n \<Rightarrow> (case schema n of Some (DObject fs) \<Rightarrow> Some (map ex_field fs) | _ \<Rightarrow> None)
        | _ \<Rightarrow> None)),
      tyInterfaces = (\<lambda>_. Ret None),
      tyPossibleTypes = (\<lambda>t. Ret (case t of TNamed n \<Rightarrow> (case schema n of Some (DUnion us) \<Rightarrow> Some (map TNamed us) | _ \<Rightarrow> None)
        | _ \<Rightarrow> None)),
      tyEnumValues = (\<lambda>t _. Ret (case t of TNamed n \<Rightarrow> (case schema n of Some (DEnum es) \<Rightarrow> Some (map ex_enum_value es) | _ \<Rightarrow> None)
        | _ \<Rightarrow> None)),
      tyInputFields = (\<lambda>t. Ret (case t of TNamed n \<Rightarrow> (case schema n of Some (DInput fs) \<Rightarrow> Some (map ex_input fs) | _ \<Rightarrow> None)
        | _ \<Rightarrow> None)),
      tyOfType = (\<lambda>t. Ret (case t of TNonNull u \<Rightarrow> Some u | TList u \<Rightarrow> Some u | TNamed n \<Rightarrow> None)),
      tySpecifiedByURL = (\<lambda>_. Ret None),
      inDepth = size\<rparr>"

lemma ex_names_enums [simp]: "names_enums ex_introspection"
  by (auto simp: names_enums_def ex_introspection_def ex_kind_def meta_TypeKind_schema_def split: gql_type.split option.split
      type_def.split)

lemma ex_shallower [simp]: "shallower ex_introspection ex_server"
proof -
  have "size s < size (ExSel fs)" if "(n, as, s) \<in> set fs" for n as s fs
    using size_list_estimation' [OF that, of "size s" "size_prod (\<lambda>_. 0) (size_prod (\<lambda>_. 0) size)"] by simp
  then have "size (cfSelections c) < size sel" if "c \<in> set (ex_collect sel impl)" for sel c impl
    using that by (cases sel) (auto simp: image_iff)
  then show ?thesis by (simp add: shallower_def ex_introspection_def)
qed

section \<open>Responses have the type of the schema\<close>

lemma conform_Query:
  assumes "writes_scalars E" "names_enums I"
  shows "returns (answers E sel (TNamed ''Query'')) (exec_Query C G R I E sel p)"
  unfolding exec_Query_def
  by (rule returns_object [OF object_lookup(20) object_implementors(20) _ assms(1)])
    (simp add: Query_schema_def meta_Query_schema_def field_conforms_def conform assms marshal_defs Let_def
      exec_Query_transactions_def exec_Query_blocks_def exec_Query_latestBlockHeight_def exec_Query_getBlocks_def
      exec_Query_getTransactions_def)

text \<open>
  C17. Every answer to a query has the type that the schema gives it, at every depth: objects hold exactly the fields that were
  selected, under their aliases and in their order, with values of the types of the fields, and \<open>__typename\<close> is the name of the object; values that the schema does
  not allow to be null are not, lists hold elements of their type, an object of a union is one of its members, an \<open>Int\<close> is a
  number, a \<open>Boolean\<close> a truth value, a \<open>String\<close> and a \<open>Time\<close> a string, and a value of an enumeration one of its names. It
  holds whatever the resolvers do, for a library whose marshalers write numbers, truth values and strings as
  themselves and a time as a string or null, and whose introspection names kinds and locations of the specification.
\<close>

theorem responses_conform:
  assumes "writes_scalars E" and "names_enums I" and "Exec C G R I E op sel = Answer data errs"
  shows "answers E sel (TNamed ''Query'') data"
proof -
  from assms(3) have "exec_Query C G R I E sel [] [] = (Ret data, errs)"
    by (auto simp: Exec_def split: operation.splits prod.splits outcome.splits)
  with conform_Query [OF assms(1,2)] show ?thesis by (rule returnsD)
qed

text \<open>The latest height, and blocks that cannot be read.\<close>

definition ex_request :: ex_sel where
  "ex_request = ExSel [(''latestBlockHeight'', [], ExSel []), (''blocks'', [(''filter'', IObject [])], ExSel [(''height'', [], ExSel [])])]"

lemma ex_no_filter: "field_Query_blocks_args ex_library p [''filter'' \<mapsto> IObject []] = Ret (Inr zeroBlockFilter)"
  by (simp add: field_Query_blocks_args_def field_Query_blocks_argsFilter_def argIn_def input_defs requiredIn_def
      unmarshalInputBlockFilter_def objectIn_def bindE_def fieldIn_def)

lemma ex_request_answer:
  "Exec C G ex_resolvers ex_introspection ex_server OpQuery ex_request =
     Answer (OObject [(''latestBlockHeight'', OInt 7), (''blocks'', ONull)])
       [([PField ''blocks''], ErrMsg ''nil pointer dereference'')]"
  by (simp add: Exec_def exec_Query_def objectX_def ex_request_def bindX_def rootX_def exec_Query_latestBlockHeight_def
      exec_Query_blocks_def ex_no_filter contextX_def fieldX_def recoverX_def pureX_def queryX_def ex_resolvers_def Let_def
      marshalNInt_def scalarX_def retX_def)

theorem responses_conform_witness:
  "answers ex_server ex_request (TNamed ''Query'') (OObject [(''latestBlockHeight'', OInt 7), (''blocks'', ONull)])"
  by (rule responses_conform [OF ex_server_writes ex_names_enums ex_request_answer [of ref_codec ex_env]])

section \<open>The executor is the reference\<close>

text \<open>
  C10. The generated functions compute the execution of the specification: for a block and for a transaction whose messages
  decode, and any selection of known fields, to any depth, whose scalars can be written and that meets no forbidden null, the value is the one the
  reference reads off the tree of the object, and no error is reported.
\<close>

theorem executor_is_reference:
  assumes "ready E" and "Transaction_result tx = Ret r" and "Transaction_Messages C G r = Ret ms"
  shows "(writable E sel (Block_tree C G b) \<longrightarrow>
      exec_Block C G E sel p b l = (Ret (render E sel (Block_tree C G b)), l)) \<and>
    (writable E sel (Transaction_tree C G r ms) \<longrightarrow>
      exec_Transaction C G E sel p tx l = (Ret (render E sel (Transaction_tree C G r ms)), l))"
  using executes_Block [OF assms(1)] executes_Transaction [OF assms] by blast

text \<open>The height and the transactions of a block, the index and the messages of a transaction.\<close>

definition ex_fields :: ex_sel where
  "ex_fields = ExSel [(''height'', [], ExSel []), (''txs'', [], ExSel [(''hash'', [], ExSel [])])]"

definition ex_tx_fields :: ex_sel where
  "ex_tx_fields = ExSel [(''index'', [], ExSel []), (''messages'', [], ExSel [(''route'', [], ExSel [])])]"

theorem executor_is_reference_witness:
  "exec_Block ref_codec ex_env ex_server ex_fields [] (NewBlock (mk_block 2 0 [])) [] =
     (Ret (OObject [(''height'', OInt 2), (''txs'', OArray [])]), []) \<and>
   exec_Transaction ref_codec ex_env ex_server ex_tx_fields [] (NewTransaction (Some (mk_result 1 0 [7]))) [] =
     (Ret (OObject [(''index'', OInt 0), (''messages'', OArray [])]), [])"
proof -
  let ?r = "mk_result 1 0 [7]"
  have r: "Transaction_result (NewTransaction (Some ?r)) = Ret ?r" "Transaction_Messages ref_codec ex_env ?r = Ret []"
    by (simp_all add: Transaction_result_def NewTransaction_def Transaction_Messages_def Transaction_getMessages_def
        Transaction_getStdTx_def ref_codec_def mk_result_def)
  have "writable ex_server ex_fields (Block_tree ref_codec ex_env (NewBlock (mk_block 2 0 [])))"
    "render ex_server ex_fields (Block_tree ref_codec ex_env (NewBlock (mk_block 2 0 []))) =
       OObject [(''height'', OInt 2), (''txs'', OArray [])]"
    by (simp_all add: ex_fields_def Block_tree_def list_tree_def Block_Height_def Block_Txs_def NewBlock_def mk_block_def)
  moreover have "writable ex_server ex_tx_fields (Transaction_tree ref_codec ex_env ?r [])"
    "render ex_server ex_tx_fields (Transaction_tree ref_codec ex_env ?r []) = OObject [(''index'', OInt 0), (''messages'', OArray [])]"
    by (simp_all add: ex_tx_fields_def Transaction_tree_def list_tree_def Transaction_Index_def mk_result_def)
  ultimately show ?thesis
    using executor_is_reference [OF ex_server_ready r, where b = "NewBlock (mk_block 2 0 [])" and sel = ex_fields and p = "[]" and l = "[]"]
      executor_is_reference [OF ex_server_ready r, where sel = ex_tx_fields and p = "[]" and l = "[]"]
    by simp
qed

section \<open>The answer to a query of blocks\<close>

lemma blocks_list_runs:
  assumes "ready E" "\<forall>b \<in> set bs. writable E sel (Block_tree C G b)"
  shows "marshalOBlock_list C G E sel p (Some bs) l = (Ret (OArray (map (\<lambda>b. render E sel (Block_tree C G b)) bs)), l)"
proof -
  have "listX E True (\<lambda>p v. marshalNBlock C G E sel p (Some v)) p bs l = (Ret (render E sel (list_tree (Block_tree C G) bs)), l)"
    using assms by (intro list_runs) (auto simp: list_tree_def marshalNBlock_def executes)
  then show ?thesis by (simp add: marshalOBlock_list_def nullableX_def list_tree_def comp_def)
qed


text \<open>The value of a list of blocks: Go's nil slice, which is null, when there is none.\<close>

definition render_blocks :: "'sel exec_env \<Rightarrow> codec \<Rightarrow> graph_env \<Rightarrow> 'sel \<Rightarrow> Block list \<Rightarrow> gql_out" where
  "render_blocks E C G sel bs = (if bs = [] then ONull else OArray (map (\<lambda>b. render E sel (Block_tree C G b)) bs))"

lemma getBlocks_runs:
  assumes E: "ready E" and args: "field_Query_getBlocks_args (xeInput E) (p @ [PField (cfAlias c)]) (cfArgs c) = Ret (Inr (w, bo))"
    and res: "rsGetBlocks R w bo = Ret \<lparr>qOut = bs, qErr = None, qAdded = es\<rparr>"
    and ok: "\<forall>b \<in> set bs. writable E (cfSelections c) (Block_tree C G b)"
  shows "exec_Query_getBlocks C G R E p c l =
    (Ret (render_blocks E C G (cfSelections c) bs), l @ map (\<lambda>e. (p @ [PField (cfAlias c)], e)) es)"
proof -
  have "bs \<noteq> [] \<Longrightarrow> marshalOBlock_list C G E (cfSelections c) p' (Some bs) l' = (Ret (render_blocks E C G (cfSelections c) bs), l')"
    "marshalOBlock_list C G E (cfSelections c) p' None l' = (Ret (render_blocks E C G (cfSelections c) []), l')" for p' l'
    using blocks_list_runs [OF E ok] by (simp_all add: render_blocks_def) (simp add: marshalOBlock_list_def nullableX_def retX_def)
  then show ?thesis
    by (simp add: exec_Query_getBlocks_def Let_def args contextX_def fieldX_def recoverX_def bindX_def queryX_def res)
qed

text \<open>
  C9. What a client of GraphQL receives for \<open>getBlocks\<close>: from the arguments of the field to the response, on
  a store with any history of batches on an empty database, with stored heights below the largest signed 64-bit number, for arguments that decode to a filter without nil pointers whose height bounds are
  not negative and come from the filter as a whole, where the directive \<open>@filterable\<close> is configured and the selected fields of the blocks answered can be written,
  the value is the list of the stored blocks that the filter accepts, in the order asked for, each
  with the fields that were selected, up to 10000 of them, and an error at the path of the field is added exactly when that
  number is reached. No accepted block is null, not the empty list.
\<close>

theorem getBlocks_answered:
  assumes "pebble_store P dbv btv ient ipos C" and "dbv d0 = Map.empty"
    and "store_history (pebble_storage P C) d0 d ws"
    and "field_Query_getBlocks_args (xeInput E) (p @ [PField (cfAlias c)]) (cfArgs c) = Ret (Inr (w, bo))"
    and "FilterBlock_no_null w" and "FilterBlock_MinMaxHeight w = Ret mm" and "sound_bounds fBkHeight w mm"
    and "\<forall>n. stBlock (apply_writes C empty_store ws) n \<noteq> None \<longrightarrow> n < maxInt64"
    and "queryResolver_GetBlocks (pebble_storage P C) C G (\<lambda>_. False) d w (map_option boHeight bo) = Some (rsGetBlocks R w bo)"
    and "bs = map NewBlock (in_order (map_option boHeight bo)
      (filter (\<lambda>b. FilterBlock_Eval C G w (NewBlock b) = Ret True) (stored_blocks (apply_writes C empty_store ws))))"
    and "ready E" and "\<forall>b \<in> set (take maxElementsPerQuery bs). writable E (cfSelections c) (Block_tree C G b)"
  shows "exec_Query_getBlocks C G R E p c l =
    (Ret (render_blocks E C G (cfSelections c) (take maxElementsPerQuery bs)),
     l @ (if maxElementsPerQuery \<le> length bs then [(p @ [PField (cfAlias c)], maxReached)] else []))"
proof -
  have "rsGetBlocks R w bo = Ret (answer_of bs)"
    using pebble_store.history_getBlocks [OF assms(1-3,5-8), of G "map_option boHeight bo"] assms(9,10) by simp
  from getBlocks_runs [where p = p, OF assms(11,4) this [unfolded answer_of_def] assms(12)] show ?thesis by simp
qed

text \<open>The heights and transactions of the blocks above 1, on the store of two blocks.\<close>

abbreviation "ex_height n \<equiv> IObject [(''height'', IObject [(''gt'', IInt n)])]"

abbreviation "ex_above \<equiv> ex_height 1"

lemma ex_height_where: "field_Query_getBlocks_argsWhere ex_library p [''where'' \<mapsto> ex_height n] = Ret (Inr (height_filter n))"
proof -
  have int: "unmarshalOFilterInt ex_library q (IObject [(''gt'', IInt n)]) = Ret (Inr (Some (gt_filter n)))" for q
    by (simp add: input_defs unmarshalInputFilterInt_def nullableIn_def objectIn_def fieldIn_def scalarIn_def onPath_def
        ex_library_def gt_filter_def)
  have "unmarshalInputFilterBlock ex_library q (ex_height n) = Ret (Inr (height_filter n))" for q
    unfolding unmarshalInputFilterBlock_def
    by (subst filterIn.simps) (simp add: fieldIn_def ownIn_def int height_filter_def no_fields_def)
  then show ?thesis
    by (simp add: field_Query_getBlocks_argsWhere_def argIn_def unmarshalNFilterBlock_def requiredIn_def)
qed

lemma ex_above_args: "field_Query_getBlocks_args ex_library p [''where'' \<mapsto> ex_above] = Ret (Inr (height_filter 1, None))"
  by (simp add: field_Query_getBlocks_args_def ex_height_where field_Query_getBlocks_argsOrder_def argIn_def)

theorem getBlocks_answered_witness:
  "\<exists>d R. store_history (pebble_storage ref_pebble ref_codec) [] d ex_writes \<and>
     queryResolver_GetBlocks (pebble_storage ref_pebble ref_codec) ref_codec ex_env (\<lambda>_. False) d (height_filter 1) None =
       Some (rsGetBlocks R (height_filter 1) None) \<and>
     exec_Query_getBlocks ref_codec ex_env R ex_server []
       \<lparr>cfName = ''getBlocks'', cfAlias = ''above'', cfSelections = ExSel [(''height'', [], ExSel [])], cfArgs = [''where'' \<mapsto> ex_above]\<rparr> [] =
       (Ret (OArray [OObject [(''height'', OInt 2)]]), [])"
proof -
  let ?c = "\<lparr>cfName = ''getBlocks'', cfAlias = ''above'', cfSelections = ExSel [(''height'', [], ExSel [])],
    cfArgs = [''where'' \<mapsto> ex_above]\<rparr>"
  let ?S = "pebble_storage ref_pebble ref_codec"
  from ref_store.history_exists [OF ex_writes_ok, of "[]"] obtain d where h: "store_history ?S [] d ex_writes" by auto
  have b: "sound_bounds fBkHeight (height_filter 1) (Some (([], AtGt), 1), None)"
    by (simp add: sound_bounds_def nonneg_bounds_def height_filter_def gt_filter_def has_lower_def)
  have n: "FilterBlock_no_null (height_filter 1)" by (simp add: FilterBlock_no_null_def ex_filter_defs)
  have s: "\<forall>n. stBlock (apply_writes ref_codec empty_store ex_writes) n \<noteq> None \<longrightarrow> n < maxInt64"
    by (simp add: ex_store)
  obtain r where r: "queryResolver_GetBlocks ?S ref_codec ex_env (\<lambda>_. False) d (height_filter 1) None = Some r"
    using ref_store.history_getBlocks [OF _ h n height_filter_bounds b s, of ex_env None] by simp
  define R where "R = ex_resolvers\<lparr>rsGetBlocks := \<lambda>_ _. r\<rparr>"
  have R: "queryResolver_GetBlocks ?S ref_codec ex_env (\<lambda>_. False) d (height_filter 1) (map_option boHeight None) =
      Some (rsGetBlocks R (height_filter 1) None)" using r by (simp add: R_def)
  have bs: "[NewBlock (ex_block 2)] = map NewBlock (in_order (map_option boHeight None)
      (filter (\<lambda>b. FilterBlock_Eval ref_codec ex_env (height_filter 1) (NewBlock b) = Ret True)
        (stored_blocks (apply_writes ref_codec empty_store ex_writes))))"
    by (simp add: ex_store height_filter_eval in_order_def Block_Height_def NewBlock_def ex_block_def mk_block_def signed_order)
  have m: "take maxElementsPerQuery [NewBlock (ex_block 2)] = [NewBlock (ex_block 2)]" "\<not> maxElementsPerQuery \<le> Suc 0"
    by (simp_all add: maxElementsPerQuery_def)
  have t: "writable ex_server (cfSelections ?c) (Block_tree ref_codec ex_env (NewBlock (ex_block 2)))"
    "render ex_server (cfSelections ?c) (Block_tree ref_codec ex_env (NewBlock (ex_block 2))) = OObject [(''height'', OInt 2)]"
    by (simp_all add: Block_tree_def Block_Height_def NewBlock_def ex_block_def mk_block_def)
  have a: "field_Query_getBlocks_args (xeInput ex_server) ([] @ [PField (cfAlias ?c)]) (cfArgs ?c) = Ret (Inr (height_filter 1, None))"
    by (simp add: ex_above_args)
  have "exec_Query_getBlocks ref_codec ex_env R ex_server [] ?c [] = (Ret (OArray [OObject [(''height'', OInt 2)]]), [])"
    using getBlocks_answered [OF ref_store.pebble_store_axioms _ h a n height_filter_bounds b s R bs ex_server_ready, of "[]"] t m
    by (simp add: render_blocks_def)
  with h R show ?thesis by auto
qed

section \<open>Queries do not end the process\<close>

text \<open>A run that returns.\<close>

definition settles :: "'a run \<Rightarrow> bool" where
  "settles m \<longleftrightarrow> (\<forall>l. \<exists>x l'. m l = (Ret x, l'))"

lemma settles_recover: "settles (recoverX E p m)"
  by (simp add: settles_def recoverX_def split: prod.split outcome.split)

lemma settles_field: "settles (fieldX E p nn r m)"
  by (simp add: fieldX_def settles_recover)

lemma settles_context: "(\<And>x. settles (k x)) \<Longrightarrow> settles (contextX E p args k)"
  by (auto simp: settles_def contextX_def bindX_def reportX_def retX_def split: outcome.split sum.split)

lemma settles_root: "settles m \<Longrightarrow> settles (rootX E p m)"
  unfolding settles_def
proof
  fix l assume "\<forall>l. \<exists>x l'. m l = (Ret x, l')"
  then obtain x l' where "m l = (Ret x, l')" by blast
  then show "\<exists>x l'. rootX E p m l = (Ret x, l')" by (simp add: rootX_def)
qed

lemma settles_bind: "settles m \<Longrightarrow> (\<And>x. settles (k x)) \<Longrightarrow> settles (bindX m k)"
  unfolding settles_def bindX_def by (metis (mono_tags, lifting) old.prod.case outcome.simps(5) outcome.simps(6))

lemma settles_ret: "settles (retX x)"
  by (simp add: settles_def retX_def)

lemma settles_selections:
  assumes "\<forall>f \<in> set fs. \<forall>p c. settles (snd (snd f) p c)" "\<forall>c \<in> set cs. cfName c \<in> insert ''__typename'' (fst ` set fs)"
  shows "settles (selectionsX E ty fs p cs)"
  using assms(2)
proof (induction cs)
  case (Cons c cs)
  have "settles (case map_of fs (cfName c) of None \<Rightarrow> panicX s
      | Some (counted, exec) \<Rightarrow> bindX (exec p c) (\<lambda>v. retX (v, if counted \<and> v = ONull then 1 else 0)))"
    if named: "cfName c \<noteq> ''__typename''" for s
  proof -
    obtain counted exec where f: "map_of fs (cfName c) = Some (counted, exec)"
      using named Cons.prems by (cases "map_of fs (cfName c)") (auto simp: map_of_eq_None_iff)
    then have "(cfName c, counted, exec) \<in> set fs" by (rule map_of_SomeD)
    with assms(1) have "settles (exec p c)" by fastforce
    then show ?thesis using f by (simp add: settles_bind settles_ret)
  qed
  then show ?case using Cons by (auto intro!: settles_bind settles_ret)
qed (simp add: settles_ret)

text \<open>
  C28. A query never ends the process: whatever the resolvers do, panics included, a query of fields that exist is answered.
  A panic of the resolver of \<open>getBlocks\<close> makes the field null and is reported at its path.
\<close>

theorem queries_are_answered:
  assumes "\<forall>c \<in> set (xeCollect E sel queryImplementors). cfName c \<in>
      {''__typename'', ''__type'', ''__schema'', ''transactions'', ''blocks'', ''latestBlockHeight'', ''getBlocks'', ''getTransactions''}"
  shows "(\<exists>data errs. Exec C G R I E OpQuery sel = Answer data errs) \<and>
    (field_Query_getBlocks_args (xeInput E) (p @ [PField (cfAlias c)]) (cfArgs c) = Ret (Inr (w, bo)) \<longrightarrow>
     rsGetBlocks R w bo = Panic s \<longrightarrow>
     exec_Query_getBlocks C G R E p c l = (Ret ONull, l @ [(p @ [PField (cfAlias c)], xeRecover E s)]))"
proof
  have "settles (exec_Query C G R I E sel [])"
    unfolding exec_Query_def objectX_def using assms
    by (intro settles_bind settles_selections)
      (auto simp: settles_ret exec_Query_transactions_def exec_Query_blocks_def exec_Query_latestBlockHeight_def
        exec_Query_getBlocks_def exec_Query_getTransactions_def exec_Query___type_def exec_Query___schema_def Let_def
        intro!: settles_root settles_context settles_field)
  then obtain x l' where "exec_Query C G R I E sel [] [] = (Ret x, l')"
    unfolding settles_def by blast
  then show "\<exists>data errs. Exec C G R I E OpQuery sel = Answer data errs" by (simp add: Exec_def)
qed (simp add: exec_Query_getBlocks_def Let_def contextX_def fieldX_def recoverX_def bindX_def queryX_def)

theorem queries_are_answered_witness:
  "\<exists>data errs. Exec ref_codec ex_env ex_resolvers ex_introspection ex_server OpQuery ex_request = Answer data errs"
proof -
  have "\<forall>c \<in> set (xeCollect ex_server ex_request queryImplementors). cfName c \<in>
      {''__typename'', ''__type'', ''__schema'', ''transactions'', ''blocks'', ''latestBlockHeight'', ''getBlocks'', ''getTransactions''}"
    by (simp add: ex_request_def)
  from queries_are_answered [OF this] show ?thesis by (rule conjunct1)
qed

section \<open>Introspection\<close>

text \<open>
  Introspection ends and is what the code says: where the selections inside a field are shallower than those it was
  collected from, \<open>exec___Type\<close> is the one function that satisfies the equation of \<open>___Type\<close>, which calls itself
  through the fields of a type; in particular there is an answer for every selection, although types contain one another.
\<close>

theorem introspection_recursion:
  assumes "shallower I E"
  shows "(\<forall>sel. T sel = exec___Type_body I T E sel) \<longleftrightarrow> (\<forall>sel. T sel = exec___Type I E sel)"
proof
  assume "\<forall>sel. T sel = exec___Type_body I T E sel"
  then show "\<forall>sel. T sel = exec___Type I E sel" using Type_unique [OF assms] by blast
next
  assume "\<forall>sel. T sel = exec___Type I E sel"
  then have "T sel = exec___Type I E sel" for sel by blast
  then have "T = exec___Type I E" by (rule ext)
  then show "\<forall>sel. T sel = exec___Type_body I T E sel" using Type_equation [OF assms] by simp
qed

lemma ex_introspection_simps [simp]:
  "tyName ex_introspection (TNamed n) = Ret (Some n)"
  "tyKind ex_introspection t = Ret (ex_kind t)"
  "tyFields ex_introspection (TNamed ''TxFee'') b = Ret (Some (map ex_field TxFee_schema))"
  "tyOfType ex_introspection (TNonNull t) = Ret (Some t)"
  by (simp_all add: ex_introspection_def object_lookup)

text \<open>The names of the fields of a type, and of the types inside theirs.\<close>

definition ex_meta_fields :: ex_sel where
  "ex_meta_fields = ExSel [(''name'', [], ExSel []), (''fields'', [], ExSel [(''name'', [], ExSel []),
     (''type'', [], ExSel [(''ofType'', [], ExSel [(''name'', [], ExSel [])])])])]"

lemmas intro_run =
  exec___Type_body_def exec___Field_def exec___Type_name_def exec___Type_fields_def exec___Type_ofType_def exec___Field_name_def
  exec___Field_type_def field___Type_fields_args_def field___Type_fields_argsIncludeDeprecated_def
  objectX_def bindX_def contextX_def fieldX_def recoverX_def pureX_def valueOf_def Let_def intro_marshal_defs [abs_def]
  nullableX_def requiredX_def listX_def retX_def scalarX_def marshalNString_def marshalOString_def argIn_def

theorem introspection_recursion_witness:
  "exec___Type ex_introspection ex_server ex_meta_fields [] (TNamed ''TxFee'') [] =
     (Ret (OObject [(''name'', OText ''TxFee''), (''fields'', OArray
       [OObject [(''name'', OText ''gas_wanted''), (''type'', OObject [(''ofType'', OObject [(''name'', OText ''Int'')])])],
        OObject [(''name'', OText ''gas_fee''), (''type'', OObject [(''ofType'', OObject [(''name'', OText ''Coin'')])])]])]), [])"
proof -
  have e: "exec___Type ex_introspection ex_server s = exec___Type_body ex_introspection (exec___Type ex_introspection ex_server) ex_server s" for s
    using introspection_recursion [OF ex_shallower, of "exec___Type ex_introspection ex_server"] by blast
  show ?thesis
    by (simp add: e [of "ExSel _"] ex_meta_fields_def intro_run TxFee_schema_def ex_field_def)
qed

text \<open>
  C29. With introspection disabled by the configuration nothing of the schema is told: every operation is answered as with any
  other schema, and the field \<open>__schema\<close> is null with the error \<open>introspection disabled\<close> at its path.
\<close>

theorem introspection_disabled:
  "Exec C G R (Setup True I) E op sel = Exec C G R (Setup True I') E op sel \<and>
   exec_Query___schema (Setup True I) E p c l =
     (Ret ONull, l @ [(p @ [PField (cfAlias c)], ErrMsg ''introspection disabled'')])"
proof -
  have d: "inDisabled (Setup True I)" for I :: "('x, 'y) introspection" by (simp add: Setup_def)
  have "exec_Query___type (Setup True I) E = exec_Query___type (Setup True I') E"
    by (intro ext) (simp add: disabled_fields d)
  moreover have "exec_Query___schema (Setup True I) E = exec_Query___schema (Setup True I') E"
    by (intro ext) (simp add: disabled_fields d)
  ultimately have "exec_Query C G R (Setup True I) E sel [] = exec_Query C G R (Setup True I') E sel []"
    by (simp add: exec_Query_def)
  then show ?thesis by (simp add: Exec_def disabled_fields(1) d split: operation.split)
qed

section \<open>Subscriptions begin or report\<close>

text \<open>A start that reports exactly when it has no stream.\<close>

definition begins :: "'a option run \<Rightarrow> bool" where
  "begins m \<longleftrightarrow> (\<forall>l v l'. m l = (Ret v, l') \<longrightarrow> (if v = None then \<exists>e. l' = l @ [e] else l' = l))"

lemma begins_start: "begins (startX E p args)"
  by (auto simp: begins_def startX_def bindX_def reportX_def retX_def split: outcome.splits sum.splits)

lemma begins_map: "begins m \<Longrightarrow> begins (bindX m (retX \<circ> map_option f))"
  by (fastforce simp: begins_def bindX_def retX_def split: prod.splits outcome.splits)

lemma begins_reports: "begins (bindX (reportX p e) (\<lambda>_. retX None))" "begins (panicX s)"
  by (auto simp: begins_def bindX_def reportX_def retX_def panicX_def)

lemma begins_subscription: "begins (exec_Subscription E sel p)"
  unfolding exec_Subscription_def exec_Subscription_transactions_def exec_Subscription_blocks_def
    exec_Subscription_getTransactions_def exec_Subscription_getBlocks_def Let_def
  by (auto split: list.split intro!: begins_start begins_map begins_reports)

lemma start_accepted: "\<exists>x. args = Ret (Inr x) \<Longrightarrow> \<exists>x. startX E p args l = (Ret (Some x), l)"
  by (auto simp: startX_def retX_def)

lemma subscription_accepted:
  assumes "library_ok sc (xeInput E)" "xeCollect E sel subscriptionImplementors = [c]"
    and "cfName c \<in> {''transactions'', ''blocks'', ''getTransactions'', ''getBlocks''}"
    and "args_conform sc (field_args ''Subscription'' (cfName c)) (cfArgs c)"
  shows "\<exists>s. exec_Subscription E sel p l = (Ret (Some s), l)"
proof -
  have bind: "\<exists>x. m l = (Ret (Some x), l) \<Longrightarrow> \<exists>s. bindX m (retX \<circ> map_option f) l = (Ret (Some s), l)"
    for m :: "'b option run" and f :: "'b \<Rightarrow> subscription"
    by (auto simp: bindX_def retX_def)
  show ?thesis
    using assms(3,4) args_accept [OF assms(1), where raw = "cfArgs c" and p = "p @ [PField (cfAlias c)]"]
    by (auto simp: exec_Subscription_def assms(2) exec_Subscription_transactions_def exec_Subscription_blocks_def
        exec_Subscription_getTransactions_def exec_Subscription_getBlocks_def Let_def args_defs where_args root_args
        intro!: bind start_accepted)
qed

text \<open>
  A subscription begins or reports why not: it has a stream exactly when no error was reported, and a request for one
  of the four streams whose arguments the schema allows has a stream.
\<close>

theorem subscriptions_begin:
  assumes "Exec C G R I E OpSubscription sel = Stream sub errs"
  shows "(sub = None \<longleftrightarrow> errs \<noteq> []) \<and>
    (library_ok sc (xeInput E) \<longrightarrow> xeCollect E sel subscriptionImplementors = [c] \<longrightarrow>
     cfName c \<in> {''transactions'', ''blocks'', ''getTransactions'', ''getBlocks''} \<longrightarrow>
     args_conform sc (field_args ''Subscription'' (cfName c)) (cfArgs c) \<longrightarrow> sub \<noteq> None)"
proof -
  from assms have e: "exec_Subscription E sel [] [] = (Ret sub, errs)"
    by (auto simp: Exec_def split: prod.splits outcome.splits)
  then have "sub = None \<longleftrightarrow> errs \<noteq> []"
    using begins_subscription [of E sel "[]"] by (auto simp: begins_def split: if_splits)
  moreover have "sub \<noteq> None" if "library_ok sc (xeInput E)" "xeCollect E sel subscriptionImplementors = [c]"
    "cfName c \<in> {''transactions'', ''blocks'', ''getTransactions'', ''getBlocks''}"
    "args_conform sc (field_args ''Subscription'' (cfName c)) (cfArgs c)"
    using subscription_accepted [OF that, of "[]" "[]"] e by auto
  ultimately show ?thesis by blast
qed

definition ex_stream :: ex_sel where
  "ex_stream = ExSel [(''getBlocks'', [(''where'', ex_above)], ExSel [(''height'', [], ExSel [])])]"

theorem subscriptions_begin_witness:
  "\<exists>s. Exec ref_codec ex_env ex_resolvers ex_introspection ex_server OpSubscription ex_stream = Stream (Some s) []"
proof -
  let ?c = "\<lparr>cfName = ''getBlocks'', cfAlias = ''getBlocks'', cfSelections = ExSel [(''height'', [], ExSel [])],
    cfArgs = [''where'' \<mapsto> ex_above]\<rparr>"
  obtain sub errs where e: "Exec ref_codec ex_env ex_resolvers ex_introspection ex_server OpSubscription ex_stream = Stream sub errs"
    using ex_height_where by (auto simp: Exec_def exec_Subscription_def ex_stream_def exec_Subscription_getBlocks_def Let_def
        field_Subscription_getBlocks_args_def where_args startX_def bindX_def retX_def)
  have "args_conform ex_scalar (field_args ''Subscription'' (cfName ?c)) (cfArgs ?c)"
    by (auto simp: args_conform_def root_args schema_lookup FilterBlock_schema_def FilterInt_schema_def ex_scalar_def
        schema_scalars split: if_splits)
  moreover have "xeCollect ex_server ex_stream subscriptionImplementors = [?c]" by (simp add: ex_stream_def)
  ultimately have "sub \<noteq> None" "errs = []"
    using subscriptions_begin [OF e, of ex_scalar ?c] ex_library_ok by auto
  with e show ?thesis by auto
qed

section \<open>The answers to a subscription of blocks\<close>

text \<open>The blocks of the new-block events that a filter accepts.\<close>

definition accepted_blocks :: "codec \<Rightarrow> graph_env \<Rightarrow> FilterBlock \<Rightarrow> event_data event list \<Rightarrow> Block list" where
  "accepted_blocks C G f es = filter (\<lambda>b. FilterBlock_Eval C G f b = Ret True)
     (concat (map (\<lambda>e. case evData e of DNewBlock nb \<Rightarrow> [NewBlock (nbBlock nb)] | DOther _ \<Rightarrow> []) es))"

lemma accepted_values: "values_of (subscriptionResolver_GetBlocks C G f) es = accepted_blocks C G f es"
proof (induction es)
  case (Cons e es)
  have "values_of (subscriptionResolver_GetBlocks C G f) [e] = accepted_blocks C G f [e]"
  proof (cases "evData e")
    case (DNewBlock nb)
    then show ?thesis
      by (cases "FilterBlock_Eval C G f (NewBlock (nbBlock nb))") (auto simp: accepted_blocks_def subscriptionResolver_GetBlocks_def Let_def)
  qed (simp add: accepted_blocks_def)
  moreover have "values_of W (e # es) = values_of W [e] @ values_of W es" for W :: "newBlock \<Rightarrow> Block option outcome list"
    using values_of_simps(2) [of W "[e]" es] by simp
  moreover have "accepted_blocks C G f (e # es) = accepted_blocks C G f [e] @ accepted_blocks C G f es"
    by (simp add: accepted_blocks_def)
  ultimately show ?case using Cons by simp
qed (simp add: accepted_blocks_def)

lemma received_block_runs:
  assumes "ready E" "writable E (cfSelections c) (Block_tree C G b)"
  shows "exec_Subscription_getBlocks_next C G E c (Received b) l =
    (Ret (Some (OObject [(cfAlias c, render E (cfSelections c) (Block_tree C G b))])), l)"
  using executes_Block [OF assms]
  by (simp add: exec_Subscription_getBlocks_next_def nextX_def bindX_def retX_def marshalNBlock_def executes)

text \<open>
  C37. What a subscriber of \<open>getBlocks\<close> is sent, from its arguments to its responses: whatever the interleaving of new blocks, the event
  loop, the goroutine and the reader, the responses are, in order, one for each block of a beginning of the new blocks that the filter
  of the request accepts, with the fields that were selected, and without an error.
\<close>

theorem getBlocks_streamed:
  assumes "exec_Subscription_getBlocks E [] c [] = (Ret (Some f), [])"
    and "(chan_step (subscriptionResolver_GetBlocks C G f))\<^sup>*\<^sup>* handleChannel r"
    and "ready E" and "\<forall>b \<in> set (accepted_blocks C G f (srPushed (cxSub r))). writable E (cfSelections c) (Block_tree C G b)"
  shows "map (\<lambda>b. exec_Subscription_getBlocks_next C G E c (Received b) []) (cxSent r) =
    map (\<lambda>b. (Ret (Some (OObject [(cfAlias c, render E (cfSelections c) (Block_tree C G b))])), []))
      (take (length (cxSent r)) (accepted_blocks C G f (srPushed (cxSub r))))"
proof -
  have "chan_inv (subscriptionResolver_GetBlocks C G f) r" by (rule chan_reach_inv [OF assms(2)])
  moreover from this obtain rest where "srPushed (cxSub r) = srReceived (cxSub r) @ rest"
    using sub_inv_prefix by (auto simp: chan_inv_def)
  ultimately have "\<exists>rest. accepted_blocks C G f (srPushed (cxSub r)) = cxSent r @ rest"
    unfolding accepted_values [symmetric] by (auto simp: chan_inv_def)
  then obtain rest where p: "accepted_blocks C G f (srPushed (cxSub r)) = cxSent r @ rest" by blast
  with assms(4) have "\<forall>b \<in> set (cxSent r). writable E (cfSelections c) (Block_tree C G b)" by simp
  then show ?thesis using received_block_runs [OF assms(3)] p by simp
qed

text \<open>The subscription to the blocks above 5, at the block 7.\<close>

abbreviation "ex_above_five \<equiv> \<lparr>cfName = ''getBlocks'', cfAlias = ''new'', cfSelections = ExSel [(''height'', [], ExSel [])],
  cfArgs = [''where'' \<mapsto> ex_height 5]\<rparr>"

theorem getBlocks_streamed_witness:
  "\<exists>r. (chan_step ex_writer)\<^sup>*\<^sup>* handleChannel r \<and>
     map (\<lambda>b. exec_Subscription_getBlocks_next ref_codec ex_env ex_server ex_above_five (Received b) []) (cxSent r) =
       [(Ret (Some (OObject [(''new'', OObject [(''height'', OInt 7)])])), [])]"
proof -
  let ?b = "NewBlock (mk_block 7 0 [])"
  let ?r = "ex_chan (Writing [Ret (Some ?b)]) False (ex_sub [] [] False Popping 0 [ex_new_block]) []"
  let ?r' = "?r\<lparr>cxPhase := Writing [], cxSent := [?b]\<rparr>"
  have "chan_step ex_writer ?r ?r'" using ch_send [of ?r ?b "[]"] by (simp add: ex_chan_def)
  with ex_arrives [of ex_writer] have run: "(chan_step ex_writer)\<^sup>*\<^sup>* handleChannel ?r'" by (simp add: ex_writer)
  have a: "accepted_blocks ref_codec ex_env (height_filter 5) (srPushed (cxSub ?r')) = [?b]"
    by (simp add: ex_chan_def ex_sub_def accepted_blocks_def ex_new_block_def height_filter_eval Block_Height_def NewBlock_def
        mk_block_def signed_order)
  have s: "exec_Subscription_getBlocks ex_server [] ex_above_five [] = (Ret (Some (height_filter 5)), [])"
    by (simp add: exec_Subscription_getBlocks_def Let_def field_Subscription_getBlocks_args_def where_args ex_height_where startX_def retX_def)
  have t: "writable ex_server (cfSelections ex_above_five) (Block_tree ref_codec ex_env ?b)"
    "render ex_server (cfSelections ex_above_five) (Block_tree ref_codec ex_env ?b) = OObject [(''height'', OInt 7)]"
    by (simp_all add: Block_tree_def Block_Height_def NewBlock_def mk_block_def)
  have "\<forall>b \<in> set (accepted_blocks ref_codec ex_env (height_filter 5) (srPushed (cxSub ?r'))).
      writable ex_server (cfSelections ex_above_five) (Block_tree ref_codec ex_env b)"
    unfolding a using t(1) by simp
  from getBlocks_streamed [OF s run ex_server_ready this]
  have "map (\<lambda>b. exec_Subscription_getBlocks_next ref_codec ex_env ex_server ex_above_five (Received b) []) (cxSent ?r') =
      [(Ret (Some (OObject [(''new'', OObject [(''height'', OInt 7)])])), [])]"
    unfolding a using t(2) by simp
  with run show ?thesis by (intro exI conjI)
qed

end
