(* ===== verification/Live_Chain.thy ===== *)
theory Live_Chain
  imports Fetch_Events Graph_Answers
begin

text \<open>
  The fetcher and a subscriber of the GraphQL server, together: the goroutine of \<open>FetchChainData\<close> with its workers, the event manager's
  subscription and the goroutine of the resolver run side by side, and meet where \<open>writeSlot\<close> signals a block.
\<close>

section \<open>The system\<close>

text \<open>The event as the manager passes it on.\<close>

definition signal_of :: "newBlock \<Rightarrow> event_data event" where
  "signal_of n = \<lparr>evType = evType (newBlock_event n), evData = DNewBlock (evData (newBlock_event n))\<rparr>"

text \<open>
  A step of the loop signals its blocks before it commits them, so between two steps some events may be ahead of the store.
  There is at most one subscriber in view, the manager treats each alike; \<open>lvSince\<close> records the height up to which blocks had been
  signalled when it subscribed.
\<close>

record ('st, 'c, 'a) live =
  lvFetch :: "('st, 'c) fetch_run"
  lvAhead :: "newBlock list"
  lvChan :: "'a chan_run option"
  lvSince :: nat

definition open_chan :: "'a chan_run \<Rightarrow> bool" where
  "open_chan c \<longleftrightarrow> \<not> esDone (srSub (cxSub c))"

text \<open>\<open>SignalEvent\<close> for one subscription, up to the notification, which is a step of its own.\<close>

definition push_signal :: "'a chan_run \<Rightarrow> newBlock \<Rightarrow> 'a chan_run" where
  "push_signal c n =
     (if open_chan c \<and> eventSupported (srSub (cxSub c)) (evType (signal_of n))
      then c\<lparr>cxSub := (cxSub c)\<lparr>srSub := pushEvent_store (srSub (cxSub c)) (signal_of n),
             srPushing := Suc (srPushing (cxSub c)), srPushed := srPushed (cxSub c) @ [signal_of n]\<rparr>\<rparr>
      else c)"

text \<open>
  The steps: the next signal of a write under way; the end of a step of the loop, all of whose signals are out; a step of a worker; the
  end of the fetcher; the start of the subscription; and the steps of the subscription, its event loop and its reader. A
  subscription that was closed is no longer in the manager's map.
\<close>

inductive live_step ::
    "('db, 'bt, 'it) pebble \<Rightarrow> ('db \<Rightarrow> bytes \<rightharpoonup> bytes) \<Rightarrow> codec \<Rightarrow> ('c, 'b) client \<Rightarrow> slot_queue \<Rightarrow>
     (newBlock \<Rightarrow> 'a option outcome list) \<Rightarrow> ('db, 'c, 'a) live \<Rightarrow> ('db, 'c, 'a) live \<Rightarrow> bool"
  for P dbv C Cl Q W where
  lv_signal: "fetch_step (pebble_storage P C) Cl Q (lvFetch s) r \<Longrightarrow> frPhase r = Running \<Longrightarrow>
    fEvents (frFetcher r) = fEvents (frFetcher (lvFetch s)) @ lvAhead s @ n # ns \<Longrightarrow>
    live_step P dbv C Cl Q W s (s\<lparr>lvAhead := lvAhead s @ [n],
      lvChan := map_option (\<lambda>c. push_signal c n) (lvChan s)\<rparr>)"
| lv_loop: "fetch_step (pebble_storage P C) Cl Q (lvFetch s) r \<Longrightarrow> frPhase r = Running \<Longrightarrow>
    fEvents (frFetcher r) = fEvents (frFetcher (lvFetch s)) @ lvAhead s \<Longrightarrow>
    live_step P dbv C Cl Q W s (s\<lparr>lvFetch := r, lvAhead := []\<rparr>)"
| lv_work: "fetch_step (pebble_storage P C) Cl Q (lvFetch s) r \<Longrightarrow> frPhase r = Running \<Longrightarrow>
    frFetcher r = frFetcher (lvFetch s) \<Longrightarrow> live_step P dbv C Cl Q W s (s\<lparr>lvFetch := r\<rparr>)"
| lv_end: "fetch_step (pebble_storage P C) Cl Q (lvFetch s) r \<Longrightarrow> frPhase r \<noteq> Running \<Longrightarrow>
    live_step P dbv C Cl Q W s (s\<lparr>lvFetch := r\<rparr>)"
| lv_subscribe: "lvChan s = None \<Longrightarrow>
    live_step P dbv C Cl Q W s (s\<lparr>lvChan := Some handleChannel,
      lvSince := indexed C dbv (frFetcher (lvFetch s)) + length (lvAhead s)\<rparr>)"
| lv_chan: "lvChan s = Some c \<Longrightarrow> chan_step W c c' \<Longrightarrow> srPushed (cxSub c') = srPushed (cxSub c) \<Longrightarrow>
    live_step P dbv C Cl Q W s (s\<lparr>lvChan := Some c'\<rparr>)"

definition live_start :: "('db, 'c) fetch_run \<Rightarrow> ('db, 'c, 'a) live" where
  "live_start r = \<lparr>lvFetch = r, lvAhead = [], lvChan = None, lvSince = 0\<rparr>"

text \<open>A run of the two, from a state of the fetcher in which no write is under way.\<close>

definition live_run_of ::
    "('db, 'bt, 'it) pebble \<Rightarrow> ('db \<Rightarrow> bytes \<rightharpoonup> bytes) \<Rightarrow> codec \<Rightarrow> slot_queue \<Rightarrow> ('c, 'b) client \<Rightarrow>
     (newBlock \<Rightarrow> 'a option outcome list) \<Rightarrow> ('db, 'c) fetcher \<Rightarrow> ('db, 'c, 'a) live \<Rightarrow> bool" where
  "live_run_of P dbv C Q Cl W f0 s \<longleftrightarrow>
     (\<exists>r. fetch_run_of P dbv C Q Cl f0 r \<and> (live_step P dbv C Cl Q W)\<^sup>*\<^sup>* (live_start r) s)"

section \<open>The invariant\<close>

text \<open>A closed subscription stays closed, and no subscription changes its types.\<close>

abbreviation chan_types :: "'a chan_run \<Rightarrow> string list" where
  "chan_types c \<equiv> esTypes (srSub (cxSub c))"

lemma chan_keeps:
  assumes "chan_step W r r'"
  shows "(open_chan r' \<longrightarrow> open_chan r) \<and> chan_types r' = chan_types r"
proof -
  have l: "(open_chan (leave r) \<longrightarrow> open_chan r) \<and> chan_types (leave r) = chan_types r" for r :: "'a chan_run"
    by (auto simp: leave_def open_chan_def eventSubscription_close_def split: if_splits)
  have rl: "runLoop_step a b \<Longrightarrow> esTypes b = esTypes a" for a b :: "event_data eventSubscription"
    by (induction rule: runLoop_step.induct) auto
  have s: "sub_step a b \<Longrightarrow> (esDone (srSub a) \<longrightarrow> esDone (srSub b)) \<and> esTypes (srSub b) = esTypes (srSub a)"
    for a b :: "event_data sub_run"
    by (induction rule: sub_step.induct) (auto simp: push_defs runLoop_done rl split: if_splits)
  from assms show ?thesis
    by (induction rule: chan_step.induct) (use l s in \<open>fastforce simp: open_chan_def\<close>)+
qed

text \<open>The blocks pushed to a subscriber, from its start to the place of the signals.\<close>

definition signalled :: "(u64 \<Rightarrow> block) \<Rightarrow> nat \<Rightarrow> 'a chan_run \<Rightarrow> nat \<Rightarrow> bool" where
  "signalled chain since c m \<longleftrightarrow> since \<le> m \<and>
     (\<exists>nbs. srPushed (cxSub c) = map signal_of nbs \<and> map nbBlock nbs = chain_from chain since m)"

definition chan_ok ::
    "(u64 \<Rightarrow> block) \<Rightarrow> (newBlock \<Rightarrow> 'a option outcome list) \<Rightarrow> nat \<Rightarrow> nat \<Rightarrow> 'a chan_run \<Rightarrow> bool" where
  "chan_ok chain W since m c \<longleftrightarrow> chan_inv W c \<and> chan_types c = [NewBlockEvent] \<and>
     (\<exists>k \<le> m. signalled chain since c k \<and> (open_chan c \<longrightarrow> k = m))"

definition live_inv ::
    "(('db, 'c) fetcher \<Rightarrow> nat) \<Rightarrow> (u64 \<Rightarrow> block) \<Rightarrow> (newBlock \<Rightarrow> 'a option outcome list) \<Rightarrow> ('db, 'c, 'a) live \<Rightarrow> bool" where
  "live_inv height chain W s \<longleftrightarrow>
     (let h = height (frFetcher (lvFetch s)); m = h + length (lvAhead s) in
      map nbBlock (lvAhead s) = chain_from chain h m \<and>
      (\<forall>c. lvChan s = Some c \<longrightarrow> chan_ok chain W (lvSince s) m c))"

lemma chain_from_snoc: "a \<le> b \<Longrightarrow> chain_from chain a (Suc b) = chain_from chain a b @ [chain (of_nat (Suc b))]"
  by (simp add: chain_from_def)

lemma push_signal_ok:
  assumes "chan_ok chain W since m c" "nbBlock n = chain (of_nat (Suc m))"
  shows "chan_ok chain W since (Suc m) (push_signal c n)"
proof (cases "open_chan c")
  case True
  have sup: "eventSupported (srSub (cxSub c)) (evType (signal_of n))"
    using assms(1) by (simp add: chan_ok_def eventSupported_def signal_of_def newBlock_event_def)
  let ?s = "(cxSub c)\<lparr>srSub := pushEvent_store (srSub (cxSub c)) (signal_of n),
      srPushing := Suc (srPushing (cxSub c)), srPushed := srPushed (cxSub c) @ [signal_of n]\<rparr>"
  have p: "push_signal c n = c\<lparr>cxSub := ?s\<rparr>" using True sup by (simp add: push_signal_def)
  from assms(1) True obtain nbs where
    n: "srPushed (cxSub c) = map signal_of nbs" "map nbBlock nbs = chain_from chain since m" "since \<le> m"
    by (auto simp: chan_ok_def signalled_def)
  have "signalled chain since (push_signal c n) (Suc m)"
    unfolding signalled_def p using n assms(2) by (auto simp: chain_from_snoc intro!: exI [of _ "nbs @ [n]"])
  moreover have "chan_inv W (push_signal c n)"
    using ch_sub [OF ss_push [OF sup]] chan_step_inv assms(1) unfolding p chan_ok_def by fastforce
  moreover have "chan_types (push_signal c n) = chan_types c" by (simp add: p push_defs)
  ultimately show ?thesis using assms(1) by (auto simp: chan_ok_def)
qed (use assms in \<open>auto simp: chan_ok_def push_signal_def intro: le_SucI\<close>)

lemma chan_step_ok:
  assumes "chan_ok chain W since m c" "chan_step W c c'" "srPushed (cxSub c') = srPushed (cxSub c)"
  shows "chan_ok chain W since m c'"
  using assms chan_keeps [OF assms(2)] chan_step_inv [OF assms(2)] by (auto simp: chan_ok_def signalled_def)

lemma handleChannel_ok: "chan_ok chain W m m handleChannel"
  using chan_reach_inv [OF rtranclp.rtrancl_refl, of W]
  by (auto simp: chan_ok_def signalled_def handleChannel_def sub_start_def new_subscription_def)

lemma fetch_run_step:
  "fetch_run_of P dbv C Q Cl f0 r \<Longrightarrow> fetch_step (pebble_storage P C) Cl Q r r' \<Longrightarrow> fetch_run_of P dbv C Q Cl f0 r'"
  unfolding fetch_run_of_def by (blast intro: rtranclp.rtrancl_into_rtrancl)

context pebble_fetch
begin

lemma run_step_signals:
  assumes "fetch_run_of P dbv C Q Cl f0 r" "frPhase r = Running" "frDone r \<longrightarrow> heedless Cl"
    and "honest Cl chain reqs" "chain_ok C chain"
    and "complete chain (db_store C (dbv (fStorage f0)))" "fetch_step (pebble_storage P C) Cl Q r r'"
  shows "indexed C dbv (frFetcher r) \<le> indexed C dbv (frFetcher r') \<and>
    map nbBlock (fEvents (frFetcher r')) =
      map nbBlock (fEvents (frFetcher r)) @ chain_from chain (indexed C dbv (frFetcher r)) (indexed C dbv (frFetcher r'))"
proof -
  note h = run_honest [OF assms(1,2) follows_blocks [OF assms(4,5,3)] assms(6) [unfolded complete_iff]]
  note inv = run_inv [OF assms(1,2)]
  from step_signals [OF assms(7) inv [THEN conjunct2] inv [THEN conjunct1] h assms(5,2)]
  show ?thesis unfolding signals_chain_def indexed_def Let_def .
qed

lemma live_step_inv:
  assumes step: "live_step P dbv C Cl Q W s s'" and run: "fetch_run_of P dbv C Q Cl f0 (lvFetch s)" "frPhase (lvFetch s) = Running"
      "frDone (lvFetch s) \<longrightarrow> heedless Cl"
    and node: "honest Cl chain reqs" "chain_ok C chain" "complete chain (db_store C (dbv (fStorage f0)))"
    and inv: "live_inv (indexed C dbv) chain W s" and run': "frPhase (lvFetch s') = Running"
  shows "live_inv (indexed C dbv) chain W s'"
  using step
proof cases
  let ?h = "indexed C dbv (frFetcher (lvFetch s))"
  let ?m = "?h + length (lvAhead s)"
  case (lv_signal r n ns)
  from run_step_signals [OF run node lv_signal(2)] have
    "?h \<le> indexed C dbv (frFetcher r)"
    "map nbBlock (lvAhead s @ [n]) @ map nbBlock ns = chain_from chain ?h (indexed C dbv (frFetcher r))"
    unfolding lv_signal(4) by simp_all
  from chain_from_prefix [OF this(1) this(2) [symmetric]] have
    a: "map nbBlock (lvAhead s @ [n]) = chain_from chain ?h (Suc ?m)" by simp
  moreover have "map nbBlock (lvAhead s) = chain_from chain ?h ?m" using inv by (simp add: live_inv_def Let_def)
  ultimately have "nbBlock n = chain (of_nat (Suc ?m))" by (simp add: chain_from_snoc)
  note push = push_signal_ok [where m = ?m and n = n and chain = chain, OF _ this]
  from inv have "\<forall>c. lvChan s = Some c \<longrightarrow> chan_ok chain W (lvSince s) ?m c" by (simp add: live_inv_def Let_def)
  with push a show ?thesis by (auto simp: live_inv_def lv_signal(1) Let_def)
next
  case (lv_loop r)
  from run_step_signals [OF run node lv_loop(2)] have
    r: "indexed C dbv (frFetcher (lvFetch s)) \<le> indexed C dbv (frFetcher r)"
      "map nbBlock (lvAhead s) = chain_from chain (indexed C dbv (frFetcher (lvFetch s))) (indexed C dbv (frFetcher r))"
    unfolding lv_loop(4) by simp_all
  from arg_cong [OF r(2), of length] r(1) have
    "indexed C dbv (frFetcher r) = indexed C dbv (frFetcher (lvFetch s)) + length (lvAhead s)"
    by (simp add: chain_from_def del: upt_Suc)
  with inv show ?thesis by (simp add: live_inv_def lv_loop(1) Let_def)
next
  case (lv_work r)
  with inv show ?thesis by (simp add: live_inv_def Let_def)
next
  case (lv_end r)
  with run' show ?thesis by simp
next
  case lv_subscribe
  with inv handleChannel_ok show ?thesis by (auto simp: live_inv_def Let_def)
next
  case (lv_chan c c')
  with inv chan_step_ok show ?thesis by (fastforce simp: live_inv_def Let_def)
qed

lemma live_reach:
  assumes run: "fetch_run_of P dbv C Q Cl f0 r" and node: "honest Cl chain reqs" "chain_ok C chain"
    and start: "complete chain (db_store C (dbv (fStorage f0)))"
    and steps: "(live_step P dbv C Cl Q W)\<^sup>*\<^sup>* (live_start r) s"
  shows "fetch_run_of P dbv C Q Cl f0 (lvFetch s) \<and>
    (frPhase (lvFetch s) = Running \<and> (frDone (lvFetch s) \<longrightarrow> heedless Cl) \<longrightarrow> live_inv (indexed C dbv) chain W s)"
  using steps
proof (induction rule: rtranclp_induct)
  case base
  show ?case using run by (simp add: live_start_def live_inv_def)
next
  case (step y z)
  then have y: "fetch_run_of P dbv C Q Cl f0 (lvFetch y)" by blast
  from step.hyps(2) have st: "lvFetch z = lvFetch y \<or> fetch_step (pebble_storage P C) Cl Q (lvFetch y) (lvFetch z)"
    by cases auto
  then have z: "fetch_run_of P dbv C Q Cl f0 (lvFetch z)" "frPhase (lvFetch z) = Running \<Longrightarrow> frPhase (lvFetch y) = Running"
    using y fetch_run_step Running_back by (metis, metis)
  moreover from st have "frDone (lvFetch y) \<longrightarrow> frDone (lvFetch z)" using done_stays_done by metis
  ultimately show ?case using live_step_inv [OF step.hyps(2) y _ _ node start] step.IH by blast
qed

end

section \<open>What a subscriber receives\<close>

text \<open>Nothing is under way to the client, and the subscription is open.\<close>

definition quiet :: "'a chan_run \<Rightarrow> bool" where
  "quiet c \<longleftrightarrow> open_chan c \<and> cxPhase c = Selecting \<and> undelivered (cxSub c) = []"

lemma accepted_signals:
  "accepted_blocks C G f (map signal_of nbs) =
    filter (\<lambda>b. FilterBlock_Eval C G f b = Ret True) (map NewBlock (map nbBlock nbs))"
  by (simp add: accepted_blocks_def signal_of_def newBlock_event_def comp_def)

lemma sent_prefix:
  assumes "chan_inv W c"
  shows "\<exists>rest. values_of W (srPushed (cxSub c)) = cxSent c @ rest \<and> (quiet c \<longrightarrow> rest = [])"
proof -
  from assms obtain rest where
    i: "sub_inv (cxSub c)" "values_of W (srReceived (cxSub c)) = cxSent c @ to_write (cxPhase c) @ rest"
      "rest = [] \<or> (\<exists>m. cxPhase c = ChanCrashed m)" by (auto simp: chan_inv_def)
  from sub_inv_prefix [OF i(1)] obtain more where m: "srPushed (cxSub c) = srReceived (cxSub c) @ more" by blast
  have "more = []" if "quiet c"
  proof -
    have "esLoop (srSub (cxSub c)) \<noteq> Stopped" using i(1) that by (auto simp: sub_inv_def Let_def quiet_def open_chan_def)
    from delivered_eq [OF i(1) this] that m show ?thesis by (simp add: quiet_def)
  qed
  with i(2,3) m show ?thesis by (auto simp: quiet_def)
qed

context pebble_fetch
begin

lemma subscriber_follows:
  assumes live: "live_run_of P dbv C Q Cl (subscriptionResolver_GetBlocks C G f) f0 s" "frPhase (lvFetch s) = Running"
      "frDone (lvFetch s) \<longrightarrow> heedless Cl"
    and node: "honest Cl chain reqs" "chain_ok C chain" "complete chain (db_store C (dbv (fStorage f0)))"
    and c: "lvChan s = Some c"
  defines "m \<equiv> indexed C dbv (frFetcher (lvFetch s)) + length (lvAhead s)"
  shows "\<exists>rest. filter (\<lambda>b. FilterBlock_Eval C G f b = Ret True)
        (map (\<lambda>n. NewBlock (chain (of_nat n))) [Suc (lvSince s)..<Suc m]) = cxSent c @ rest \<and> (quiet c \<longrightarrow> rest = [])"
proof -
  from live(1) obtain r where
    r: "fetch_run_of P dbv C Q Cl f0 r" "(live_step P dbv C Cl Q (subscriptionResolver_GetBlocks C G f))\<^sup>*\<^sup>* (live_start r) s"
    by (auto simp: live_run_of_def)
  from live_reach [OF r(1) node r(2)] live(2,3) have "live_inv (indexed C dbv) chain (subscriptionResolver_GetBlocks C G f) s" by blast
  with c have ok: "chan_ok chain (subscriptionResolver_GetBlocks C G f) (lvSince s) m c" by (simp add: live_inv_def Let_def m_def)
  then obtain k nbs where k: "k \<le> m" "lvSince s \<le> k" "open_chan c \<longrightarrow> k = m"
    "srPushed (cxSub c) = map signal_of nbs" "map nbBlock nbs = chain_from chain (lvSince s) k"
    by (auto simp: chan_ok_def signalled_def)
  let ?acc = "\<lambda>a b. filter (\<lambda>b. FilterBlock_Eval C G f b = Ret True) (map NewBlock (chain_from chain a b))"
  have "chan_inv (subscriptionResolver_GetBlocks C G f) c" using ok by (simp add: chan_ok_def)
  from sent_prefix [OF this] obtain rest where rest: "?acc (lvSince s) k = cxSent c @ rest" "quiet c \<longrightarrow> rest = []"
    unfolding accepted_values k(4) accepted_signals k(5) by blast
  have "?acc (lvSince s) m = ?acc (lvSince s) k @ ?acc k m"
    using chain_from_append [OF k(2,1), of chain] by (metis filter_append map_append)
  moreover have "quiet c \<longrightarrow> ?acc k m = []" using k(3) by (simp add: quiet_def)
  ultimately show ?thesis
    using rest unfolding chain_from_def by (intro exI [of _ "rest @ ?acc k m"]) (simp add: chain_from_def comp_def del: upt_Suc)
qed

end

section \<open>An example run\<close>

text \<open>The way of an event from the manager to the client.\<close>

definition sub_at ::
    "event_data event \<Rightarrow> event_data event list \<Rightarrow> event_data event list \<Rightarrow> bool \<Rightarrow> event_data run_loop \<Rightarrow> nat \<Rightarrow>
     event_data event list \<Rightarrow> event_data sub_run" where
  "sub_at e st out nt lp pushing received =
     \<lparr>srSub = \<lparr>esStore = st, esOutput = out, esDone = False, esNotify = nt, esTypes = [NewBlockEvent], esLoop = lp\<rparr>,
      srPushing = pushing, srReceived = received, srPushed = [e]\<rparr>"

abbreviation "chan_at ph s sent \<equiv> \<lparr>cxSub = s, cxPhase = ph, cxDone = False, cxSent = sent\<rparr>"

definition quiet_step :: "(newBlock \<Rightarrow> 'a option outcome list) \<Rightarrow> 'a chan_run \<Rightarrow> 'a chan_run \<Rightarrow> bool" where
  "quiet_step W c c' \<longleftrightarrow> chan_step W c c' \<and> srPushed (cxSub c') = srPushed (cxSub c)"

lemma live_quiet_steps:
  "(quiet_step W)\<^sup>*\<^sup>* c c' \<Longrightarrow> lvChan s = Some c \<Longrightarrow>
   (live_step P dbv C Cl Q W)\<^sup>*\<^sup>* s (s\<lparr>lvChan := Some c'\<rparr>)"
proof (induction rule: rtranclp_induct)
  case base
  then show ?case by (cases s) simp
next
  case (step y z)
  have "live_step P dbv C Cl Q W (s\<lparr>lvChan := Some y\<rparr>) (s\<lparr>lvChan := Some y\<rparr>\<lparr>lvChan := Some z\<rparr>)"
    by (rule lv_chan) (use step.hyps(2) in \<open>simp_all add: quiet_step_def\<close>)
  with step show ?case by (simp add: rtranclp.rtrancl_into_rtrancl)
qed

lemma event_arrives:
  assumes "W n = [Ret (Some v)]"
  defines "e \<equiv> signal_of n"
  shows "(quiet_step W)\<^sup>*\<^sup>* (chan_at Selecting (sub_at e [e] [] False Listening 1 []) [])
     (chan_at Selecting (sub_at e [] [] False Popping 0 [e]) [v])"
proof -
  have 1: "quiet_step W (chan_at Selecting (sub_at e [e] [] False Listening 1 []) []) (chan_at Selecting (sub_at e [e] [] True Listening 0 []) [])"
    using ch_sub [OF ss_notify, of "chan_at Selecting (sub_at e [e] [] False Listening 1 []) []" 0 W]
    by (simp add: quiet_step_def sub_at_def pushEvent_notify_def)
  have 2: "quiet_step W (chan_at Selecting (sub_at e [e] [] True Listening 0 []) []) (chan_at Selecting (sub_at e [e] [] False Popping 0 []) [])"
    using ch_sub [OF ss_loop [OF rl_notified], of "chan_at Selecting (sub_at e [e] [] True Listening 0 []) []" W]
    by (simp add: quiet_step_def sub_at_def)
  have 3: "quiet_step W (chan_at Selecting (sub_at e [e] [] False Popping 0 []) []) (chan_at Selecting (sub_at e [] [] False (Sending e) 0 []) [])"
    using ch_sub [OF ss_loop [OF rl_pop], of "chan_at Selecting (sub_at e [e] [] False Popping 0 []) []" e "[]" W]
    by (simp add: quiet_step_def sub_at_def)
  have 4: "quiet_step W (chan_at Selecting (sub_at e [] [] False (Sending e) 0 []) []) (chan_at Selecting (sub_at e [] [e] False Popping 0 []) [])"
    using ch_sub [OF ss_loop [OF rl_send], of "chan_at Selecting (sub_at e [] [] False (Sending e) 0 []) []" e W]
    by (simp add: quiet_step_def sub_at_def)
  have 5: "quiet_step W (chan_at Selecting (sub_at e [] [e] False Popping 0 []) []) (chan_at (Writing (W n)) (sub_at e [] [] False Popping 0 [e]) [])"
    using ch_take [of "chan_at Selecting (sub_at e [] [e] False Popping 0 []) []" e "[]" n W]
    by (simp add: quiet_step_def sub_at_def e_def signal_of_def newBlock_event_def)
  have 6: "quiet_step W (chan_at (Writing (W n)) (sub_at e [] [] False Popping 0 [e]) []) (chan_at (Writing []) (sub_at e [] [] False Popping 0 [e]) [v])"
    using ch_send [of "chan_at (Writing (W n)) (sub_at e [] [] False Popping 0 [e]) []" v "[]" W] by (simp add: quiet_step_def assms(1))
  have 7: "quiet_step W (chan_at (Writing []) (sub_at e [] [] False Popping 0 [e]) [v]) (chan_at Selecting (sub_at e [] [] False Popping 0 [e]) [v])"
    using ch_next [of "chan_at (Writing []) (sub_at e [] [] False Popping 0 [e]) [v]" W] by (simp add: quiet_step_def)
  from 1 2 3 4 5 6 7 show ?thesis by (meson converse_rtranclp_into_rtranclp rtranclp.rtrancl_refl)
qed

abbreviation "ex_live_writer \<equiv> subscriptionResolver_GetBlocks ref_codec ex_env (height_filter 0)"

lemma ex_live_writer: "nbBlock n = mk_block 1 0 [[7]] \<Longrightarrow> ex_live_writer n = [Ret (Some (NewBlock (mk_block 1 0 [[7]])))]"
  by (simp add: subscriptionResolver_GetBlocks_def height_filter_eval NewBlock_def Block_Height_def mk_block_def signed_order)

text \<open>A client that subscribes while the only block of the chain is being fetched, and receives it.\<close>

lemma ex_live_run:
  "\<exists>s s' c. live_run_of ref_pebble map_of ref_codec ref_queue ex_client ex_live_writer ex_fetcher s \<and> lvFetch s = ex_answered \<and>
     lvChan s = Some c \<and> cxSent c = [NewBlock (mk_block 1 0 [[7]])] \<and> quiet c \<and>
     live_run_of ref_pebble map_of ref_codec ref_queue ex_client ex_live_writer ex_fetcher s' \<and> frPhase (lvFetch s') = Running \<and> \<not> frDone (lvFetch s') \<and>
     lvChan s' = Some c \<and> lvSince s' = 0 \<and> lvAhead s' = [] \<and> indexed ref_codec map_of (frFetcher (lvFetch s')) = 1"
proof -
  let ?step = "live_step ref_pebble map_of ref_codec ex_client ref_queue ex_live_writer"
  from ex_handled obtain f where f: "handleResponse ex_S ref_queue (frFetcher ex_answered) ex_resp = Some (Ret (None, f))"
    by blast
  let ?r = "ex_answered\<lparr>frFetcher := f, frChannel := []\<rparr>"
  note r = ex_received [OF f]
  have l: "indexed ref_codec map_of f = 1" unfolding indexed_def r(5) ex_latest_one by simp
  have i: "indexed ref_codec map_of (frFetcher ex_answered) = 0" "fEvents (frFetcher ex_answered) = []"
    by (simp_all add: indexed_def ex_answered_def ex_ticked_def ex_fetcher_simps latest_of_def empty_store_def ex_fetcher_def
        Fetcher_New_def Let_def New_fields New_events)
  have "map nbBlock (fEvents f) = [ex_chain 1]"
    using ref_fetch.run_step_signals [OF ex_run_of ex_phase(1) _ ex_honest ex_chain_ok ex_complete_start r(1)] r(3) i l
    by (simp add: chain_from_def ex_answered_def ex_ticked_def)
  then obtain n where n: "fEvents f = [n]" "nbBlock n = mk_block 1 0 [[7]]" by (auto simp: ex_chain_def)
  let ?s = "live_start ex_answered\<lparr>lvChan := Some handleChannel\<rparr>"
  let ?c = "chan_at Selecting (sub_at (signal_of n) [signal_of n] [] False Listening 1 []) []"
  let ?c' = "chan_at Selecting (sub_at (signal_of n) [] [] False Popping 0 [signal_of n]) [NewBlock (mk_block 1 0 [[7]])]"
  let ?a = "?s\<lparr>lvAhead := [n], lvChan := Some ?c'\<rparr>"
  let ?b = "?a\<lparr>lvFetch := ?r, lvAhead := []\<rparr>"
  have "?step (live_start ex_answered) ?s"
    using lv_subscribe [of "live_start ex_answered" ref_pebble map_of ref_codec ex_client ref_queue ex_live_writer] i
    by (simp add: live_start_def)
  moreover have "push_signal (handleChannel :: Block chan_run) n = ?c"
    by (simp add: push_signal_def handleChannel_def sub_start_def new_subscription_def open_chan_def eventSupported_def signal_of_def
        newBlock_event_def sub_at_def push_defs)
  then have "?step ?s (?s\<lparr>lvAhead := [n], lvChan := Some ?c\<rparr>)"
    using lv_signal [of ref_pebble ref_codec ex_client ref_queue ?s ?r n "[]" map_of ex_live_writer] r(1-3) i(2) n(1)
    by (simp add: live_start_def)
  moreover have "?step\<^sup>*\<^sup>* (?s\<lparr>lvAhead := [n], lvChan := Some ?c\<rparr>) ?a"
    using live_quiet_steps [OF event_arrives [of ex_live_writer, OF ex_live_writer [OF n(2)]],
      of "?s\<lparr>lvAhead := [n], lvChan := Some ?c\<rparr>" ref_pebble map_of ref_codec ex_client ref_queue] by simp
  ultimately have a: "?step\<^sup>*\<^sup>* (live_start ex_answered) ?a" by (meson converse_rtranclp_into_rtranclp)
  have "?step ?a ?b"
    using lv_loop [of ref_pebble ref_codec ex_client ref_queue ?a ?r map_of ex_live_writer] r(1-3) i(2) n(1)
    by (simp add: live_start_def)
  with a have b: "?step\<^sup>*\<^sup>* (live_start ex_answered) ?b" by (rule rtranclp.rtrancl_into_rtrancl)
  have "quiet ?c'" by (simp add: quiet_def open_chan_def sub_at_def undelivered_def)
  with a b ex_run_of r(2,3,6) l show ?thesis
    unfolding live_run_of_def by (intro exI [of _ ?a] exI [of _ ?b] exI [of _ ?c']) (auto simp: live_start_def)
qed

section \<open>The properties\<close>

text \<open>
  C4. A client that subscribes to blocks with GraphQL follows the chain: on a node that serves one chain, in every state of the fetcher, the
  event manager and the resolver running together in which the fetcher's context is not done (or the client answers also then), and whatever their interleaving, what the client has received is a beginning of the blocks
  that its filter accepts among those of the heights after the one at which it subscribed, in the order of the heights, none left out and
  none twice; and when nothing is under way to it, it has received all of them up to the latest height indexed (with those the
  write under way has signalled).
\<close>

theorem subscriber_follows_chain:
  assumes "pebble_fetch P dbv btv ient ipos C Q"
    and "live_run_of P dbv C Q Cl (subscriptionResolver_GetBlocks C G f) f0 s" and "frPhase (lvFetch s) = Running"
    and "frDone (lvFetch s) \<longrightarrow> heedless Cl" and "honest Cl chain reqs" and "chain_ok C chain" and "complete chain (db_store C (dbv (fStorage f0)))"
    and "lvChan s = Some c" and "m = indexed C dbv (frFetcher (lvFetch s)) + length (lvAhead s)"
  shows "\<exists>rest. filter (\<lambda>b. FilterBlock_Eval C G f b = Ret True)
        (map (\<lambda>n. NewBlock (chain (of_nat n))) [Suc (lvSince s)..<Suc m]) = cxSent c @ rest \<and> (quiet c \<longrightarrow> rest = [])"
  using pebble_fetch.subscriber_follows [OF assms(1-8)] unfolding assms(9) .

theorem subscriber_follows_chain_witness:
  "\<exists>s c. live_run_of ref_pebble map_of ref_codec ref_queue ex_client ex_live_writer ex_fetcher s \<and> lvChan s = Some c \<and>
     filter (\<lambda>b. FilterBlock_Eval ref_codec ex_env (height_filter 0) b = Ret True) [NewBlock (mk_block 1 0 [[7]])] = cxSent c"
proof -
  from ex_live_run obtain s c where s: "live_run_of ref_pebble map_of ref_codec ref_queue ex_client ex_live_writer ex_fetcher s"
    "frPhase (lvFetch s) = Running" "frDone (lvFetch s) \<longrightarrow> heedless ex_client" "lvChan s = Some c" "quiet c" "lvSince s = 0" "lvAhead s = []"
    "indexed ref_codec map_of (frFetcher (lvFetch s)) = 1" by blast
  from subscriber_follows_chain [OF ref_fetch.pebble_fetch_axioms s(1-3) ex_honest ex_chain_ok ex_complete_start s(4) refl] s
  show ?thesis by (auto simp: ex_chain_def)
qed

text \<open>
  An event is signalled before its block is stored, although the comment says that it announces a saved block: a client that asks for the
  block when it hears of it may be told that there is none. (And had the commit failed, the block would have been announced for nothing.)
\<close>

theorem signalled_before_stored:
  "\<exists>s c. live_run_of ref_pebble map_of ref_codec ref_queue ex_client ex_live_writer ex_fetcher s \<and> lvChan s = Some c \<and>
     cxSent c = [NewBlock (mk_block 1 0 [[7]])] \<and>
     Pebble_GetBlock ref_pebble ref_codec (fStorage (frFetcher (lvFetch s))) 1 = Inl ErrNotFound"
proof -
  have "Pebble_GetBlock ref_pebble ref_codec (fStorage (frFetcher ex_answered)) 1 = Inl ErrNotFound"
    by (simp add: ex_answered_def ex_ticked_def ex_fetcher_simps Pebble_GetBlock_def ref_pebble_def)
  with ex_live_run show ?thesis by metis
qed

end
