(* ===== verification/Graph_Meta_Contexts.thy ===== *)
theory Graph_Meta_Contexts
  imports Graph_Responses Graph_Requests
begin

text \<open>
  The contexts of the fields (\<open>fieldContext_Type_field\<close> of \<open>serve/graph/generated.go\<close>) and what it means that
  they follow the schema; here the contexts of introspection, where a type has fields that have types again, so that
  the functions call one another without end. Those of the API are in \<open>Graph_Contexts\<close>.
\<close>

section \<open>Contexts\<close>

text \<open>
  The object a field belongs to, whether a method or a resolver computes it, and the function from the name of a field
  inside its value to the context of that field, by which the library follows a selection.
\<close>

codatatype field_context =
  FieldContext (fcObject: string) (fcIsMethod: bool) (fcIsResolver: bool)
    (fcChild: "string \<Rightarrow> go_error + field_context")

text \<open>The names of fields have no character that \<open>%q\<close> escapes.\<close>

definition children :: "string \<Rightarrow> (string \<times> 'c) list \<Rightarrow> string \<Rightarrow> go_error + 'c" where
  "children ty cs name =
     (case map_of cs name of
        Some fc \<Rightarrow> Inr fc
      | None \<Rightarrow> Inl (ErrMsg (''no field named '' @ [CHR 34] @ name @ [CHR 34] @ '' was found under type '' @ ty)))"

definition noChildren :: "string \<Rightarrow> string \<Rightarrow> go_error + 'c" where
  "noChildren ty name = Inl (ErrMsg (''field of type '' @ ty @ '' does not have child fields''))"

section \<open>The contexts of introspection\<close>

text \<open>
  One name for every function, and what the function returns, with names for the functions it calls; none has
  a resolver.
\<close>


datatype meta_context =
    Ctx_Query__type
  | Ctx_Query__schema
  | Ctx_Directive_name
  | Ctx_Directive_description
  | Ctx_Directive_locations
  | Ctx_Directive_args
  | Ctx_Directive_isRepeatable
  | Ctx_EnumValue_name
  | Ctx_EnumValue_description
  | Ctx_EnumValue_isDeprecated
  | Ctx_EnumValue_deprecationReason
  | Ctx_Field_name
  | Ctx_Field_description
  | Ctx_Field_args
  | Ctx_Field_type
  | Ctx_Field_isDeprecated
  | Ctx_Field_deprecationReason
  | Ctx_InputValue_name
  | Ctx_InputValue_description
  | Ctx_InputValue_type
  | Ctx_InputValue_defaultValue
  | Ctx_Schema_description
  | Ctx_Schema_types
  | Ctx_Schema_queryType
  | Ctx_Schema_mutationType
  | Ctx_Schema_subscriptionType
  | Ctx_Schema_directives
  | Ctx_Type_kind
  | Ctx_Type_name
  | Ctx_Type_description
  | Ctx_Type_fields
  | Ctx_Type_interfaces
  | Ctx_Type_possibleTypes
  | Ctx_Type_enumValues
  | Ctx_Type_inputFields
  | Ctx_Type_ofType
  | Ctx_Type_specifiedByURL

datatype context_row =
  ContextRow (rowObject: string) (rowIsMethod: bool) (rowChild: "string \<Rightarrow> go_error + meta_context")

definition fieldContext_Query___type :: context_row where
  "fieldContext_Query___type = ContextRow ''Query'' True (children ''__Type''
     [(''kind'', Ctx_Type_kind),
      (''name'', Ctx_Type_name),
      (''description'', Ctx_Type_description),
      (''fields'', Ctx_Type_fields),
      (''interfaces'', Ctx_Type_interfaces),
      (''possibleTypes'', Ctx_Type_possibleTypes),
      (''enumValues'', Ctx_Type_enumValues),
      (''inputFields'', Ctx_Type_inputFields),
      (''ofType'', Ctx_Type_ofType),
      (''specifiedByURL'', Ctx_Type_specifiedByURL)])"

definition fieldContext_Query___schema :: context_row where
  "fieldContext_Query___schema = ContextRow ''Query'' True (children ''__Schema''
     [(''description'', Ctx_Schema_description),
      (''types'', Ctx_Schema_types),
      (''queryType'', Ctx_Schema_queryType),
      (''mutationType'', Ctx_Schema_mutationType),
      (''subscriptionType'', Ctx_Schema_subscriptionType),
      (''directives'', Ctx_Schema_directives)])"

definition fieldContext___Directive_name :: context_row where
  "fieldContext___Directive_name = ContextRow ''__Directive'' False (noChildren ''String'')"

definition fieldContext___Directive_description :: context_row where
  "fieldContext___Directive_description = ContextRow ''__Directive'' True (noChildren ''String'')"

definition fieldContext___Directive_locations :: context_row where
  "fieldContext___Directive_locations = ContextRow ''__Directive'' False (noChildren ''__DirectiveLocation'')"

definition fieldContext___Directive_args :: context_row where
  "fieldContext___Directive_args = ContextRow ''__Directive'' False (children ''__InputValue''
     [(''name'', Ctx_InputValue_name),
      (''description'', Ctx_InputValue_description),
      (''type'', Ctx_InputValue_type),
      (''defaultValue'', Ctx_InputValue_defaultValue)])"

definition fieldContext___Directive_isRepeatable :: context_row where
  "fieldContext___Directive_isRepeatable = ContextRow ''__Directive'' False (noChildren ''Boolean'')"

definition fieldContext___EnumValue_name :: context_row where
  "fieldContext___EnumValue_name = ContextRow ''__EnumValue'' False (noChildren ''String'')"

definition fieldContext___EnumValue_description :: context_row where
  "fieldContext___EnumValue_description = ContextRow ''__EnumValue'' True (noChildren ''String'')"

definition fieldContext___EnumValue_isDeprecated :: context_row where
  "fieldContext___EnumValue_isDeprecated = ContextRow ''__EnumValue'' True (noChildren ''Boolean'')"

definition fieldContext___EnumValue_deprecationReason :: context_row where
  "fieldContext___EnumValue_deprecationReason = ContextRow ''__EnumValue'' True (noChildren ''String'')"

definition fieldContext___Field_name :: context_row where
  "fieldContext___Field_name = ContextRow ''__Field'' False (noChildren ''String'')"

definition fieldContext___Field_description :: context_row where
  "fieldContext___Field_description = ContextRow ''__Field'' True (noChildren ''String'')"

definition fieldContext___Field_args :: context_row where
  "fieldContext___Field_args = ContextRow ''__Field'' False (children ''__InputValue''
     [(''name'', Ctx_InputValue_name),
      (''description'', Ctx_InputValue_description),
      (''type'', Ctx_InputValue_type),
      (''defaultValue'', Ctx_InputValue_defaultValue)])"

definition fieldContext___Field_type :: context_row where
  "fieldContext___Field_type = ContextRow ''__Field'' False (children ''__Type''
     [(''kind'', Ctx_Type_kind),
      (''name'', Ctx_Type_name),
      (''description'', Ctx_Type_description),
      (''fields'', Ctx_Type_fields),
      (''interfaces'', Ctx_Type_interfaces),
      (''possibleTypes'', Ctx_Type_possibleTypes),
      (''enumValues'', Ctx_Type_enumValues),
      (''inputFields'', Ctx_Type_inputFields),
      (''ofType'', Ctx_Type_ofType),
      (''specifiedByURL'', Ctx_Type_specifiedByURL)])"

definition fieldContext___Field_isDeprecated :: context_row where
  "fieldContext___Field_isDeprecated = ContextRow ''__Field'' True (noChildren ''Boolean'')"

definition fieldContext___Field_deprecationReason :: context_row where
  "fieldContext___Field_deprecationReason = ContextRow ''__Field'' True (noChildren ''String'')"

definition fieldContext___InputValue_name :: context_row where
  "fieldContext___InputValue_name = ContextRow ''__InputValue'' False (noChildren ''String'')"

definition fieldContext___InputValue_description :: context_row where
  "fieldContext___InputValue_description = ContextRow ''__InputValue'' True (noChildren ''String'')"

definition fieldContext___InputValue_type :: context_row where
  "fieldContext___InputValue_type = ContextRow ''__InputValue'' False (children ''__Type''
     [(''kind'', Ctx_Type_kind),
      (''name'', Ctx_Type_name),
      (''description'', Ctx_Type_description),
      (''fields'', Ctx_Type_fields),
      (''interfaces'', Ctx_Type_interfaces),
      (''possibleTypes'', Ctx_Type_possibleTypes),
      (''enumValues'', Ctx_Type_enumValues),
      (''inputFields'', Ctx_Type_inputFields),
      (''ofType'', Ctx_Type_ofType),
      (''specifiedByURL'', Ctx_Type_specifiedByURL)])"

definition fieldContext___InputValue_defaultValue :: context_row where
  "fieldContext___InputValue_defaultValue = ContextRow ''__InputValue'' False (noChildren ''String'')"

definition fieldContext___Schema_description :: context_row where
  "fieldContext___Schema_description = ContextRow ''__Schema'' True (noChildren ''String'')"

definition fieldContext___Schema_types :: context_row where
  "fieldContext___Schema_types = ContextRow ''__Schema'' True (children ''__Type''
     [(''kind'', Ctx_Type_kind),
      (''name'', Ctx_Type_name),
      (''description'', Ctx_Type_description),
      (''fields'', Ctx_Type_fields),
      (''interfaces'', Ctx_Type_interfaces),
      (''possibleTypes'', Ctx_Type_possibleTypes),
      (''enumValues'', Ctx_Type_enumValues),
      (''inputFields'', Ctx_Type_inputFields),
      (''ofType'', Ctx_Type_ofType),
      (''specifiedByURL'', Ctx_Type_specifiedByURL)])"

definition fieldContext___Schema_queryType :: context_row where
  "fieldContext___Schema_queryType = ContextRow ''__Schema'' True (children ''__Type''
     [(''kind'', Ctx_Type_kind),
      (''name'', Ctx_Type_name),
      (''description'', Ctx_Type_description),
      (''fields'', Ctx_Type_fields),
      (''interfaces'', Ctx_Type_interfaces),
      (''possibleTypes'', Ctx_Type_possibleTypes),
      (''enumValues'', Ctx_Type_enumValues),
      (''inputFields'', Ctx_Type_inputFields),
      (''ofType'', Ctx_Type_ofType),
      (''specifiedByURL'', Ctx_Type_specifiedByURL)])"

definition fieldContext___Schema_mutationType :: context_row where
  "fieldContext___Schema_mutationType = ContextRow ''__Schema'' True (children ''__Type''
     [(''kind'', Ctx_Type_kind),
      (''name'', Ctx_Type_name),
      (''description'', Ctx_Type_description),
      (''fields'', Ctx_Type_fields),
      (''interfaces'', Ctx_Type_interfaces),
      (''possibleTypes'', Ctx_Type_possibleTypes),
      (''enumValues'', Ctx_Type_enumValues),
      (''inputFields'', Ctx_Type_inputFields),
      (''ofType'', Ctx_Type_ofType),
      (''specifiedByURL'', Ctx_Type_specifiedByURL)])"

definition fieldContext___Schema_subscriptionType :: context_row where
  "fieldContext___Schema_subscriptionType = ContextRow ''__Schema'' True (children ''__Type''
     [(''kind'', Ctx_Type_kind),
      (''name'', Ctx_Type_name),
      (''description'', Ctx_Type_description),
      (''fields'', Ctx_Type_fields),
      (''interfaces'', Ctx_Type_interfaces),
      (''possibleTypes'', Ctx_Type_possibleTypes),
      (''enumValues'', Ctx_Type_enumValues),
      (''inputFields'', Ctx_Type_inputFields),
      (''ofType'', Ctx_Type_ofType),
      (''specifiedByURL'', Ctx_Type_specifiedByURL)])"

definition fieldContext___Schema_directives :: context_row where
  "fieldContext___Schema_directives = ContextRow ''__Schema'' True (children ''__Directive''
     [(''name'', Ctx_Directive_name),
      (''description'', Ctx_Directive_description),
      (''locations'', Ctx_Directive_locations),
      (''args'', Ctx_Directive_args),
      (''isRepeatable'', Ctx_Directive_isRepeatable)])"

definition fieldContext___Type_kind :: context_row where
  "fieldContext___Type_kind = ContextRow ''__Type'' True (noChildren ''__TypeKind'')"

definition fieldContext___Type_name :: context_row where
  "fieldContext___Type_name = ContextRow ''__Type'' True (noChildren ''String'')"

definition fieldContext___Type_description :: context_row where
  "fieldContext___Type_description = ContextRow ''__Type'' True (noChildren ''String'')"

definition fieldContext___Type_fields :: context_row where
  "fieldContext___Type_fields = ContextRow ''__Type'' True (children ''__Field''
     [(''name'', Ctx_Field_name),
      (''description'', Ctx_Field_description),
      (''args'', Ctx_Field_args),
      (''type'', Ctx_Field_type),
      (''isDeprecated'', Ctx_Field_isDeprecated),
      (''deprecationReason'', Ctx_Field_deprecationReason)])"

definition fieldContext___Type_interfaces :: context_row where
  "fieldContext___Type_interfaces = ContextRow ''__Type'' True (children ''__Type''
     [(''kind'', Ctx_Type_kind),
      (''name'', Ctx_Type_name),
      (''description'', Ctx_Type_description),
      (''fields'', Ctx_Type_fields),
      (''interfaces'', Ctx_Type_interfaces),
      (''possibleTypes'', Ctx_Type_possibleTypes),
      (''enumValues'', Ctx_Type_enumValues),
      (''inputFields'', Ctx_Type_inputFields),
      (''ofType'', Ctx_Type_ofType),
      (''specifiedByURL'', Ctx_Type_specifiedByURL)])"

definition fieldContext___Type_possibleTypes :: context_row where
  "fieldContext___Type_possibleTypes = ContextRow ''__Type'' True (children ''__Type''
     [(''kind'', Ctx_Type_kind),
      (''name'', Ctx_Type_name),
      (''description'', Ctx_Type_description),
      (''fields'', Ctx_Type_fields),
      (''interfaces'', Ctx_Type_interfaces),
      (''possibleTypes'', Ctx_Type_possibleTypes),
      (''enumValues'', Ctx_Type_enumValues),
      (''inputFields'', Ctx_Type_inputFields),
      (''ofType'', Ctx_Type_ofType),
      (''specifiedByURL'', Ctx_Type_specifiedByURL)])"

definition fieldContext___Type_enumValues :: context_row where
  "fieldContext___Type_enumValues = ContextRow ''__Type'' True (children ''__EnumValue''
     [(''name'', Ctx_EnumValue_name),
      (''description'', Ctx_EnumValue_description),
      (''isDeprecated'', Ctx_EnumValue_isDeprecated),
      (''deprecationReason'', Ctx_EnumValue_deprecationReason)])"

definition fieldContext___Type_inputFields :: context_row where
  "fieldContext___Type_inputFields = ContextRow ''__Type'' True (children ''__InputValue''
     [(''name'', Ctx_InputValue_name),
      (''description'', Ctx_InputValue_description),
      (''type'', Ctx_InputValue_type),
      (''defaultValue'', Ctx_InputValue_defaultValue)])"

definition fieldContext___Type_ofType :: context_row where
  "fieldContext___Type_ofType = ContextRow ''__Type'' True (children ''__Type''
     [(''kind'', Ctx_Type_kind),
      (''name'', Ctx_Type_name),
      (''description'', Ctx_Type_description),
      (''fields'', Ctx_Type_fields),
      (''interfaces'', Ctx_Type_interfaces),
      (''possibleTypes'', Ctx_Type_possibleTypes),
      (''enumValues'', Ctx_Type_enumValues),
      (''inputFields'', Ctx_Type_inputFields),
      (''ofType'', Ctx_Type_ofType),
      (''specifiedByURL'', Ctx_Type_specifiedByURL)])"

definition fieldContext___Type_specifiedByURL :: context_row where
  "fieldContext___Type_specifiedByURL = ContextRow ''__Type'' True (noChildren ''String'')"

text \<open>The function that a name stands for, and the field that the function belongs to.\<close>

fun meta_row :: "meta_context \<Rightarrow> context_row" where
  "meta_row Ctx_Query__type = fieldContext_Query___type"
| "meta_row Ctx_Query__schema = fieldContext_Query___schema"
| "meta_row Ctx_Directive_name = fieldContext___Directive_name"
| "meta_row Ctx_Directive_description = fieldContext___Directive_description"
| "meta_row Ctx_Directive_locations = fieldContext___Directive_locations"
| "meta_row Ctx_Directive_args = fieldContext___Directive_args"
| "meta_row Ctx_Directive_isRepeatable = fieldContext___Directive_isRepeatable"
| "meta_row Ctx_EnumValue_name = fieldContext___EnumValue_name"
| "meta_row Ctx_EnumValue_description = fieldContext___EnumValue_description"
| "meta_row Ctx_EnumValue_isDeprecated = fieldContext___EnumValue_isDeprecated"
| "meta_row Ctx_EnumValue_deprecationReason = fieldContext___EnumValue_deprecationReason"
| "meta_row Ctx_Field_name = fieldContext___Field_name"
| "meta_row Ctx_Field_description = fieldContext___Field_description"
| "meta_row Ctx_Field_args = fieldContext___Field_args"
| "meta_row Ctx_Field_type = fieldContext___Field_type"
| "meta_row Ctx_Field_isDeprecated = fieldContext___Field_isDeprecated"
| "meta_row Ctx_Field_deprecationReason = fieldContext___Field_deprecationReason"
| "meta_row Ctx_InputValue_name = fieldContext___InputValue_name"
| "meta_row Ctx_InputValue_description = fieldContext___InputValue_description"
| "meta_row Ctx_InputValue_type = fieldContext___InputValue_type"
| "meta_row Ctx_InputValue_defaultValue = fieldContext___InputValue_defaultValue"
| "meta_row Ctx_Schema_description = fieldContext___Schema_description"
| "meta_row Ctx_Schema_types = fieldContext___Schema_types"
| "meta_row Ctx_Schema_queryType = fieldContext___Schema_queryType"
| "meta_row Ctx_Schema_mutationType = fieldContext___Schema_mutationType"
| "meta_row Ctx_Schema_subscriptionType = fieldContext___Schema_subscriptionType"
| "meta_row Ctx_Schema_directives = fieldContext___Schema_directives"
| "meta_row Ctx_Type_kind = fieldContext___Type_kind"
| "meta_row Ctx_Type_name = fieldContext___Type_name"
| "meta_row Ctx_Type_description = fieldContext___Type_description"
| "meta_row Ctx_Type_fields = fieldContext___Type_fields"
| "meta_row Ctx_Type_interfaces = fieldContext___Type_interfaces"
| "meta_row Ctx_Type_possibleTypes = fieldContext___Type_possibleTypes"
| "meta_row Ctx_Type_enumValues = fieldContext___Type_enumValues"
| "meta_row Ctx_Type_inputFields = fieldContext___Type_inputFields"
| "meta_row Ctx_Type_ofType = fieldContext___Type_ofType"
| "meta_row Ctx_Type_specifiedByURL = fieldContext___Type_specifiedByURL"

fun meta_name :: "meta_context \<Rightarrow> string \<times> string" where
  "meta_name Ctx_Query__type = (''Query'', ''__type'')"
| "meta_name Ctx_Query__schema = (''Query'', ''__schema'')"
| "meta_name Ctx_Directive_name = (''__Directive'', ''name'')"
| "meta_name Ctx_Directive_description = (''__Directive'', ''description'')"
| "meta_name Ctx_Directive_locations = (''__Directive'', ''locations'')"
| "meta_name Ctx_Directive_args = (''__Directive'', ''args'')"
| "meta_name Ctx_Directive_isRepeatable = (''__Directive'', ''isRepeatable'')"
| "meta_name Ctx_EnumValue_name = (''__EnumValue'', ''name'')"
| "meta_name Ctx_EnumValue_description = (''__EnumValue'', ''description'')"
| "meta_name Ctx_EnumValue_isDeprecated = (''__EnumValue'', ''isDeprecated'')"
| "meta_name Ctx_EnumValue_deprecationReason = (''__EnumValue'', ''deprecationReason'')"
| "meta_name Ctx_Field_name = (''__Field'', ''name'')"
| "meta_name Ctx_Field_description = (''__Field'', ''description'')"
| "meta_name Ctx_Field_args = (''__Field'', ''args'')"
| "meta_name Ctx_Field_type = (''__Field'', ''type'')"
| "meta_name Ctx_Field_isDeprecated = (''__Field'', ''isDeprecated'')"
| "meta_name Ctx_Field_deprecationReason = (''__Field'', ''deprecationReason'')"
| "meta_name Ctx_InputValue_name = (''__InputValue'', ''name'')"
| "meta_name Ctx_InputValue_description = (''__InputValue'', ''description'')"
| "meta_name Ctx_InputValue_type = (''__InputValue'', ''type'')"
| "meta_name Ctx_InputValue_defaultValue = (''__InputValue'', ''defaultValue'')"
| "meta_name Ctx_Schema_description = (''__Schema'', ''description'')"
| "meta_name Ctx_Schema_types = (''__Schema'', ''types'')"
| "meta_name Ctx_Schema_queryType = (''__Schema'', ''queryType'')"
| "meta_name Ctx_Schema_mutationType = (''__Schema'', ''mutationType'')"
| "meta_name Ctx_Schema_subscriptionType = (''__Schema'', ''subscriptionType'')"
| "meta_name Ctx_Schema_directives = (''__Schema'', ''directives'')"
| "meta_name Ctx_Type_kind = (''__Type'', ''kind'')"
| "meta_name Ctx_Type_name = (''__Type'', ''name'')"
| "meta_name Ctx_Type_description = (''__Type'', ''description'')"
| "meta_name Ctx_Type_fields = (''__Type'', ''fields'')"
| "meta_name Ctx_Type_interfaces = (''__Type'', ''interfaces'')"
| "meta_name Ctx_Type_possibleTypes = (''__Type'', ''possibleTypes'')"
| "meta_name Ctx_Type_enumValues = (''__Type'', ''enumValues'')"
| "meta_name Ctx_Type_inputFields = (''__Type'', ''inputFields'')"
| "meta_name Ctx_Type_ofType = (''__Type'', ''ofType'')"
| "meta_name Ctx_Type_specifiedByURL = (''__Type'', ''specifiedByURL'')"

text \<open>The functions themselves: calling one for a child calls the function the name stands for.\<close>

primcorec metaContext :: "meta_context \<Rightarrow> field_context" where
  "fcObject (metaContext c) = rowObject (meta_row c)"
| "fcIsMethod (metaContext c) = rowIsMethod (meta_row c)"
| "fcIsResolver (metaContext c) = False"
| "fcChild (metaContext c) = map_sum id metaContext \<circ> rowChild (meta_row c)"

section \<open>Following the schema\<close>

fun typeName :: "gql_type \<Rightarrow> string" where
  "typeName (TNamed n) = n"
| "typeName (TList t) = typeName t"
| "typeName (TNonNull t) = typeName t"

text \<open>
  The context of a field knows its object; inside a value that is not an object it knows no field (the fields of a
  union are those of its members, which the library finds by fragments), and inside an object exactly
  the fields of the object, with contexts that follow the schema in turn, without end.
\<close>

coinductive follows :: "string \<Rightarrow> string \<Rightarrow> field_context \<Rightarrow> bool" where
  follows_leaf: "schema ty = Some (DObject fs) \<Longrightarrow> map_of fs f = Some (as, t) \<Longrightarrow> fcObject fc = ty \<Longrightarrow>
    (\<nexists>gs. schema (typeName t) = Some (DObject gs)) \<Longrightarrow> (\<forall>g. isl (fcChild fc g)) \<Longrightarrow> follows ty f fc"
| follows_object: "schema ty = Some (DObject fs) \<Longrightarrow> map_of fs f = Some (as, t) \<Longrightarrow> fcObject fc = ty \<Longrightarrow>
    schema (typeName t) = Some (DObject gs) \<Longrightarrow>
    (\<forall>g. isl (fcChild fc g) \<longleftrightarrow> map_of gs g = None) \<Longrightarrow>
    (\<forall>g c. fcChild fc g = Inr c \<longrightarrow> follows (typeName t) g c) \<Longrightarrow>
    follows ty f fc"

lemma noChildren_isl [simp]: "isl (noChildren ty g)"
  by (simp add: noChildren_def)

lemma children_isl: "map fst cs = map fst gs \<Longrightarrow> isl (children ty cs g) \<longleftrightarrow> map_of gs g = None"
proof -
  assume "map fst cs = map fst gs"
  then have "fst ` set cs = fst ` set gs" by (metis list.set_map)
  then have "map_of cs g = None \<longleftrightarrow> map_of gs g = None" by (simp add: map_of_eq_None_iff)
  then show ?thesis by (cases "map_of cs g") (simp_all add: children_def)
qed

lemma children_member: "children ty cs g = Inr c \<Longrightarrow> (g, c) \<in> set cs"
  by (auto simp: children_def split: option.splits dest: map_of_SomeD)

lemma leaf_types:
  "\<nexists>gs. schema ''Int'' = Some (DObject gs)" "\<nexists>gs. schema ''Boolean'' = Some (DObject gs)"
  "\<nexists>gs. schema ''String'' = Some (DObject gs)" "\<nexists>gs. schema ''Time'' = Some (DObject gs)"
  "\<nexists>gs. schema ''Event'' = Some (DObject gs)" "\<nexists>gs. schema ''MessageValue'' = Some (DObject gs)"
  "\<nexists>gs. schema ''__TypeKind'' = Some (DObject gs)" "\<nexists>gs. schema ''__DirectiveLocation'' = Some (DObject gs)"
  by (simp_all add: scalar_lookup union_lookup enum_lookup)

text \<open>A row follows the schema by one step, if the rows it names are those of the fields.\<close>

inductive row_follows :: "string \<times> string \<Rightarrow> context_row \<Rightarrow> bool" where
  row_leaf: "schema ty = Some (DObject fs) \<Longrightarrow> map_of fs f = Some (as, t) \<Longrightarrow> rowObject r = ty \<Longrightarrow>
    \<nexists>gs. schema (typeName t) = Some (DObject gs) \<Longrightarrow> \<forall>g. isl (rowChild r g) \<Longrightarrow> row_follows (ty, f) r"
| row_object: "schema ty = Some (DObject fs) \<Longrightarrow> map_of fs f = Some (as, t) \<Longrightarrow> rowObject r = ty \<Longrightarrow>
    schema (typeName t) = Some (DObject gs) \<Longrightarrow> rowChild r = children (typeName t) cs \<Longrightarrow>
    map fst cs = map fst gs \<Longrightarrow> \<forall>(g, c) \<in> set cs. meta_name c = (typeName t, g) \<Longrightarrow> row_follows (ty, f) r"

named_theorems rows_of \<open>rows that follow the schema\<close>

lemma rows_Directive_leaf [rows_of]:
  "row_follows (''__Directive'', ''name'') fieldContext___Directive_name"
  "row_follows (''__Directive'', ''description'') fieldContext___Directive_description"
  "row_follows (''__Directive'', ''locations'') fieldContext___Directive_locations"
  "row_follows (''__Directive'', ''isRepeatable'') fieldContext___Directive_isRepeatable"
  by (rule row_leaf [OF object_lookup(26)], simp add: meta_Directive_schema_def,
    (simp add: fieldContext___Directive_name_def fieldContext___Directive_description_def
      fieldContext___Directive_locations_def fieldContext___Directive_isRepeatable_def leaf_types)+)+

lemma rows_Directive_obj [rows_of]:
  "row_follows (''__Directive'', ''args'') fieldContext___Directive_args"
  by (rule row_object [OF object_lookup(26)], simp add: meta_Directive_schema_def,
    (simp add: fieldContext___Directive_args_def object_lookup meta_InputValue_schema_def)+)+

lemma rows_EnumValue_leaf [rows_of]:
  "row_follows (''__EnumValue'', ''name'') fieldContext___EnumValue_name"
  "row_follows (''__EnumValue'', ''description'') fieldContext___EnumValue_description"
  "row_follows (''__EnumValue'', ''isDeprecated'') fieldContext___EnumValue_isDeprecated"
  "row_follows (''__EnumValue'', ''deprecationReason'') fieldContext___EnumValue_deprecationReason"
  by (rule row_leaf [OF object_lookup(25)], simp add: meta_EnumValue_schema_def,
    (simp add: fieldContext___EnumValue_name_def fieldContext___EnumValue_description_def
      fieldContext___EnumValue_isDeprecated_def fieldContext___EnumValue_deprecationReason_def leaf_types)+)+

lemma rows_Field_leaf [rows_of]:
  "row_follows (''__Field'', ''name'') fieldContext___Field_name"
  "row_follows (''__Field'', ''description'') fieldContext___Field_description"
  "row_follows (''__Field'', ''isDeprecated'') fieldContext___Field_isDeprecated"
  "row_follows (''__Field'', ''deprecationReason'') fieldContext___Field_deprecationReason"
  by (rule row_leaf [OF object_lookup(23)], simp add: meta_Field_schema_def,
    (simp add: fieldContext___Field_name_def fieldContext___Field_description_def
      fieldContext___Field_isDeprecated_def fieldContext___Field_deprecationReason_def leaf_types)+)+

lemma rows_Field_obj [rows_of]:
  "row_follows (''__Field'', ''args'') fieldContext___Field_args"
  "row_follows (''__Field'', ''type'') fieldContext___Field_type"
  by (rule row_object [OF object_lookup(23)], simp add: meta_Field_schema_def,
    (simp add: fieldContext___Field_args_def fieldContext___Field_type_def object_lookup
      meta_InputValue_schema_def meta_Type_schema_def)+)+

lemma rows_InputValue_leaf [rows_of]:
  "row_follows (''__InputValue'', ''name'') fieldContext___InputValue_name"
  "row_follows (''__InputValue'', ''description'') fieldContext___InputValue_description"
  "row_follows (''__InputValue'', ''defaultValue'') fieldContext___InputValue_defaultValue"
  by (rule row_leaf [OF object_lookup(24)], simp add: meta_InputValue_schema_def,
    (simp add: fieldContext___InputValue_name_def fieldContext___InputValue_description_def
      fieldContext___InputValue_defaultValue_def leaf_types)+)+

lemma rows_InputValue_obj [rows_of]:
  "row_follows (''__InputValue'', ''type'') fieldContext___InputValue_type"
  by (rule row_object [OF object_lookup(24)], simp add: meta_InputValue_schema_def,
    (simp add: fieldContext___InputValue_type_def object_lookup meta_Type_schema_def)+)+

lemma rows_Schema_leaf [rows_of]:
  "row_follows (''__Schema'', ''description'') fieldContext___Schema_description"
  by (rule row_leaf [OF object_lookup(21)], simp add: meta_Schema_schema_def,
    (simp add: fieldContext___Schema_description_def leaf_types)+)+

lemma rows_Schema_obj [rows_of]:
  "row_follows (''__Schema'', ''types'') fieldContext___Schema_types"
  "row_follows (''__Schema'', ''queryType'') fieldContext___Schema_queryType"
  "row_follows (''__Schema'', ''mutationType'') fieldContext___Schema_mutationType"
  "row_follows (''__Schema'', ''subscriptionType'') fieldContext___Schema_subscriptionType"
  "row_follows (''__Schema'', ''directives'') fieldContext___Schema_directives"
  by (rule row_object [OF object_lookup(21)], simp add: meta_Schema_schema_def,
    (simp add: fieldContext___Schema_types_def fieldContext___Schema_queryType_def
      fieldContext___Schema_mutationType_def fieldContext___Schema_subscriptionType_def
      fieldContext___Schema_directives_def object_lookup meta_Directive_schema_def meta_Type_schema_def)+)+

lemma rows_Type_leaf [rows_of]:
  "row_follows (''__Type'', ''kind'') fieldContext___Type_kind"
  "row_follows (''__Type'', ''name'') fieldContext___Type_name"
  "row_follows (''__Type'', ''description'') fieldContext___Type_description"
  "row_follows (''__Type'', ''specifiedByURL'') fieldContext___Type_specifiedByURL"
  by (rule row_leaf [OF object_lookup(22)], simp add: meta_Type_schema_def,
    (simp add: fieldContext___Type_kind_def fieldContext___Type_name_def fieldContext___Type_description_def
      fieldContext___Type_specifiedByURL_def leaf_types)+)+

lemma rows_Type_obj [rows_of]:
  "row_follows (''__Type'', ''fields'') fieldContext___Type_fields"
  "row_follows (''__Type'', ''interfaces'') fieldContext___Type_interfaces"
  "row_follows (''__Type'', ''possibleTypes'') fieldContext___Type_possibleTypes"
  "row_follows (''__Type'', ''enumValues'') fieldContext___Type_enumValues"
  "row_follows (''__Type'', ''inputFields'') fieldContext___Type_inputFields"
  "row_follows (''__Type'', ''ofType'') fieldContext___Type_ofType"
  by (rule row_object [OF object_lookup(22)], simp add: meta_Type_schema_def,
    (simp add: fieldContext___Type_fields_def fieldContext___Type_interfaces_def
      fieldContext___Type_possibleTypes_def fieldContext___Type_enumValues_def
      fieldContext___Type_inputFields_def fieldContext___Type_ofType_def object_lookup
      meta_EnumValue_schema_def meta_Field_schema_def meta_InputValue_schema_def meta_Type_schema_def)+)+

lemma rows_Query_obj [rows_of]:
  "row_follows (''Query'', ''__type'') fieldContext_Query___type"
  "row_follows (''Query'', ''__schema'') fieldContext_Query___schema"
  by (rule row_object [OF object_lookup(20)], simp add: meta_Query_schema_def Query_schema_def,
    (simp add: fieldContext_Query___type_def fieldContext_Query___schema_def object_lookup
      meta_Schema_schema_def meta_Type_schema_def)+)+

lemma rows_follow: "row_follows (meta_name c) (meta_row c)"
  by (cases c) (simp_all add: rows_of)

lemma meta_follows: "meta_name c = (ty, f) \<Longrightarrow> follows ty f (metaContext c)"
proof (coinduction arbitrary: ty f c rule: follows.coinduct)
  case follows
  from rows_follow [of c] show ?case unfolding follows
  proof (cases rule: row_follows.cases)
    case (row_leaf fs as t)
    then show ?thesis by (auto simp: isl_map_sum)
  next
    case (row_object fs as t gs cs)
    have "isl (fcChild (metaContext c) g) \<longleftrightarrow> map_of gs g = None" for g
      using children_isl [OF row_object(6)] row_object(5) by (simp add: isl_map_sum)
    moreover have "\<exists>d. meta_name d = (typeName t, g) \<and> fc = metaContext d" if "fcChild (metaContext c) g = Inr fc" for g fc
    proof -
      from that obtain d where "children (typeName t) cs g = Inr d" "fc = metaContext d"
        using row_object(5) by (cases "children (typeName t) cs g") auto
      then show ?thesis using row_object(7) children_member by fastforce
    qed
    ultimately show ?thesis using row_object by fastforce
  qed
qed

end
