(* ===== verification/Graph_Contexts.thy ===== *)
theory Graph_Contexts
  imports Graph_Meta_Contexts
begin

text \<open>
  The contexts of the fields of the API (\<open>fieldContext_Type_field\<close> of
    \<open>serve/graph/generated.go\<close>) and, with those of
  introspection, that they follow the schema at every depth. The arguments of the root fields, which their contexts also
  hold, are decoded in \<open>Graph_Inputs\<close>.
\<close>

section \<open>The contexts\<close>

definition fieldContext_BankMsgSend_from_address :: field_context where
  "fieldContext_BankMsgSend_from_address = FieldContext ''BankMsgSend'' False False (noChildren ''String'')"

definition fieldContext_BankMsgSend_to_address :: field_context where
  "fieldContext_BankMsgSend_to_address = FieldContext ''BankMsgSend'' False False (noChildren ''String'')"

definition fieldContext_BankMsgSend_amount :: field_context where
  "fieldContext_BankMsgSend_amount = FieldContext ''BankMsgSend'' False False (noChildren ''String'')"

definition fieldContext_Block_hash :: field_context where
  "fieldContext_Block_hash = FieldContext ''Block'' True False (noChildren ''String'')"

definition fieldContext_Block_height :: field_context where
  "fieldContext_Block_height = FieldContext ''Block'' True False (noChildren ''Int'')"

definition fieldContext_Block_version :: field_context where
  "fieldContext_Block_version = FieldContext ''Block'' True False (noChildren ''String'')"

definition fieldContext_Block_chain_id :: field_context where
  "fieldContext_Block_chain_id = FieldContext ''Block'' True False (noChildren ''String'')"

definition fieldContext_Block_time :: field_context where
  "fieldContext_Block_time = FieldContext ''Block'' True False (noChildren ''Time'')"

definition fieldContext_Block_num_txs :: field_context where
  "fieldContext_Block_num_txs = FieldContext ''Block'' True False (noChildren ''Int'')"

definition fieldContext_Block_total_txs :: field_context where
  "fieldContext_Block_total_txs = FieldContext ''Block'' True False (noChildren ''Int'')"

definition fieldContext_Block_app_version :: field_context where
  "fieldContext_Block_app_version = FieldContext ''Block'' True False (noChildren ''String'')"

definition fieldContext_Block_last_block_hash :: field_context where
  "fieldContext_Block_last_block_hash = FieldContext ''Block'' True False (noChildren ''String'')"

definition fieldContext_Block_last_commit_hash :: field_context where
  "fieldContext_Block_last_commit_hash = FieldContext ''Block'' True False (noChildren ''String'')"

definition fieldContext_Block_validators_hash :: field_context where
  "fieldContext_Block_validators_hash = FieldContext ''Block'' True False (noChildren ''String'')"

definition fieldContext_Block_next_validators_hash :: field_context where
  "fieldContext_Block_next_validators_hash = FieldContext ''Block'' True False (noChildren ''String'')"

definition fieldContext_Block_consensus_hash :: field_context where
  "fieldContext_Block_consensus_hash = FieldContext ''Block'' True False (noChildren ''String'')"

definition fieldContext_Block_app_hash :: field_context where
  "fieldContext_Block_app_hash = FieldContext ''Block'' True False (noChildren ''String'')"

definition fieldContext_Block_last_results_hash :: field_context where
  "fieldContext_Block_last_results_hash = FieldContext ''Block'' True False (noChildren ''String'')"

definition fieldContext_Block_proposer_address_raw :: field_context where
  "fieldContext_Block_proposer_address_raw = FieldContext ''Block'' True False (noChildren ''String'')"

definition fieldContext_BlockTransaction_hash :: field_context where
  "fieldContext_BlockTransaction_hash = FieldContext ''BlockTransaction'' False False (noChildren ''String'')"

definition fieldContext_TxFee_gas_wanted :: field_context where
  "fieldContext_TxFee_gas_wanted = FieldContext ''TxFee'' False False (noChildren ''Int'')"

definition fieldContext_Coin_amount :: field_context where
  "fieldContext_Coin_amount = FieldContext ''Coin'' False False (noChildren ''Int'')"

definition fieldContext_Coin_denom :: field_context where
  "fieldContext_Coin_denom = FieldContext ''Coin'' False False (noChildren ''String'')"

definition fieldContext_TxFee_gas_fee :: field_context where
  "fieldContext_TxFee_gas_fee = FieldContext ''TxFee'' False False (children ''Coin''
     [(''amount'', fieldContext_Coin_amount),
      (''denom'', fieldContext_Coin_denom)])"

definition fieldContext_BlockTransaction_fee :: field_context where
  "fieldContext_BlockTransaction_fee = FieldContext ''BlockTransaction'' False False (children ''TxFee''
     [(''gas_wanted'', fieldContext_TxFee_gas_wanted),
      (''gas_fee'', fieldContext_TxFee_gas_fee)])"

definition fieldContext_BlockTransaction_memo :: field_context where
  "fieldContext_BlockTransaction_memo = FieldContext ''BlockTransaction'' False False (noChildren ''String'')"

definition fieldContext_BlockTransaction_content_raw :: field_context where
  "fieldContext_BlockTransaction_content_raw = FieldContext ''BlockTransaction'' False False (noChildren ''String'')"

definition fieldContext_Block_txs :: field_context where
  "fieldContext_Block_txs = FieldContext ''Block'' True False (children ''BlockTransaction''
     [(''hash'', fieldContext_BlockTransaction_hash),
      (''fee'', fieldContext_BlockTransaction_fee),
      (''memo'', fieldContext_BlockTransaction_memo),
      (''content_raw'', fieldContext_BlockTransaction_content_raw)])"

definition fieldContext_GnoEvent_type :: field_context where
  "fieldContext_GnoEvent_type = FieldContext ''GnoEvent'' False False (noChildren ''String'')"

definition fieldContext_GnoEvent_pkg_path :: field_context where
  "fieldContext_GnoEvent_pkg_path = FieldContext ''GnoEvent'' False False (noChildren ''String'')"

definition fieldContext_GnoEventAttribute_key :: field_context where
  "fieldContext_GnoEventAttribute_key = FieldContext ''GnoEventAttribute'' False False (noChildren ''String'')"

definition fieldContext_GnoEventAttribute_value :: field_context where
  "fieldContext_GnoEventAttribute_value = FieldContext ''GnoEventAttribute'' False False (noChildren ''String'')"

definition fieldContext_GnoEvent_attrs :: field_context where
  "fieldContext_GnoEvent_attrs = FieldContext ''GnoEvent'' False False (children ''GnoEventAttribute''
     [(''key'', fieldContext_GnoEventAttribute_key),
      (''value'', fieldContext_GnoEventAttribute_value)])"

definition fieldContext_MemFile_name :: field_context where
  "fieldContext_MemFile_name = FieldContext ''MemFile'' False False (noChildren ''String'')"

definition fieldContext_MemFile_body :: field_context where
  "fieldContext_MemFile_body = FieldContext ''MemFile'' False False (noChildren ''String'')"

definition fieldContext_MemPackage_name :: field_context where
  "fieldContext_MemPackage_name = FieldContext ''MemPackage'' False False (noChildren ''String'')"

definition fieldContext_MemPackage_path :: field_context where
  "fieldContext_MemPackage_path = FieldContext ''MemPackage'' False False (noChildren ''String'')"

definition fieldContext_MemPackage_files :: field_context where
  "fieldContext_MemPackage_files = FieldContext ''MemPackage'' False False (children ''MemFile''
     [(''name'', fieldContext_MemFile_name),
      (''body'', fieldContext_MemFile_body)])"

definition fieldContext_MsgAddPackage_creator :: field_context where
  "fieldContext_MsgAddPackage_creator = FieldContext ''MsgAddPackage'' False False (noChildren ''String'')"

definition fieldContext_MsgAddPackage_package :: field_context where
  "fieldContext_MsgAddPackage_package = FieldContext ''MsgAddPackage'' False False (children ''MemPackage''
     [(''name'', fieldContext_MemPackage_name),
      (''path'', fieldContext_MemPackage_path),
      (''files'', fieldContext_MemPackage_files)])"

definition fieldContext_MsgAddPackage_deposit :: field_context where
  "fieldContext_MsgAddPackage_deposit = FieldContext ''MsgAddPackage'' False False (noChildren ''String'')"

definition fieldContext_MsgAddPackage_send :: field_context where
  "fieldContext_MsgAddPackage_send = FieldContext ''MsgAddPackage'' False False (noChildren ''String'')"

definition fieldContext_MsgAddPackage_max_deposit :: field_context where
  "fieldContext_MsgAddPackage_max_deposit = FieldContext ''MsgAddPackage'' False False (noChildren ''String'')"

definition fieldContext_MsgCall_caller :: field_context where
  "fieldContext_MsgCall_caller = FieldContext ''MsgCall'' False False (noChildren ''String'')"

definition fieldContext_MsgCall_send :: field_context where
  "fieldContext_MsgCall_send = FieldContext ''MsgCall'' False False (noChildren ''String'')"

definition fieldContext_MsgCall_pkg_path :: field_context where
  "fieldContext_MsgCall_pkg_path = FieldContext ''MsgCall'' False False (noChildren ''String'')"

definition fieldContext_MsgCall_func :: field_context where
  "fieldContext_MsgCall_func = FieldContext ''MsgCall'' False False (noChildren ''String'')"

definition fieldContext_MsgCall_args :: field_context where
  "fieldContext_MsgCall_args = FieldContext ''MsgCall'' False False (noChildren ''String'')"

definition fieldContext_MsgCall_max_deposit :: field_context where
  "fieldContext_MsgCall_max_deposit = FieldContext ''MsgCall'' False False (noChildren ''String'')"

definition fieldContext_MsgRun_caller :: field_context where
  "fieldContext_MsgRun_caller = FieldContext ''MsgRun'' False False (noChildren ''String'')"

definition fieldContext_MsgRun_send :: field_context where
  "fieldContext_MsgRun_send = FieldContext ''MsgRun'' False False (noChildren ''String'')"

definition fieldContext_MsgRun_package :: field_context where
  "fieldContext_MsgRun_package = FieldContext ''MsgRun'' False False (children ''MemPackage''
     [(''name'', fieldContext_MemPackage_name),
      (''path'', fieldContext_MemPackage_path),
      (''files'', fieldContext_MemPackage_files)])"

definition fieldContext_MsgRun_max_deposit :: field_context where
  "fieldContext_MsgRun_max_deposit = FieldContext ''MsgRun'' False False (noChildren ''String'')"

definition fieldContext_Transaction_index :: field_context where
  "fieldContext_Transaction_index = FieldContext ''Transaction'' True False (noChildren ''Int'')"

definition fieldContext_Transaction_hash :: field_context where
  "fieldContext_Transaction_hash = FieldContext ''Transaction'' True False (noChildren ''String'')"

definition fieldContext_Transaction_success :: field_context where
  "fieldContext_Transaction_success = FieldContext ''Transaction'' True False (noChildren ''Boolean'')"

definition fieldContext_Transaction_block_height :: field_context where
  "fieldContext_Transaction_block_height = FieldContext ''Transaction'' True False (noChildren ''Int'')"

definition fieldContext_Transaction_gas_wanted :: field_context where
  "fieldContext_Transaction_gas_wanted = FieldContext ''Transaction'' True False (noChildren ''Int'')"

definition fieldContext_Transaction_gas_used :: field_context where
  "fieldContext_Transaction_gas_used = FieldContext ''Transaction'' True False (noChildren ''Int'')"

definition fieldContext_Transaction_gas_fee :: field_context where
  "fieldContext_Transaction_gas_fee = FieldContext ''Transaction'' True False (children ''Coin''
     [(''amount'', fieldContext_Coin_amount),
      (''denom'', fieldContext_Coin_denom)])"

definition fieldContext_Transaction_content_raw :: field_context where
  "fieldContext_Transaction_content_raw = FieldContext ''Transaction'' True False (noChildren ''String'')"

definition fieldContext_TransactionMessage_typeUrl :: field_context where
  "fieldContext_TransactionMessage_typeUrl = FieldContext ''TransactionMessage'' False False (noChildren ''String'')"

definition fieldContext_TransactionMessage_route :: field_context where
  "fieldContext_TransactionMessage_route = FieldContext ''TransactionMessage'' False False (noChildren ''String'')"

definition fieldContext_TransactionMessage_value :: field_context where
  "fieldContext_TransactionMessage_value = FieldContext ''TransactionMessage'' False False (noChildren ''MessageValue'')"

definition fieldContext_Transaction_messages :: field_context where
  "fieldContext_Transaction_messages = FieldContext ''Transaction'' True False (children ''TransactionMessage''
     [(''typeUrl'', fieldContext_TransactionMessage_typeUrl),
      (''route'', fieldContext_TransactionMessage_route),
      (''value'', fieldContext_TransactionMessage_value)])"

definition fieldContext_Transaction_memo :: field_context where
  "fieldContext_Transaction_memo = FieldContext ''Transaction'' True False (noChildren ''String'')"

definition fieldContext_TransactionResponse_log :: field_context where
  "fieldContext_TransactionResponse_log = FieldContext ''TransactionResponse'' True False (noChildren ''String'')"

definition fieldContext_TransactionResponse_info :: field_context where
  "fieldContext_TransactionResponse_info = FieldContext ''TransactionResponse'' True False (noChildren ''String'')"

definition fieldContext_TransactionResponse_error :: field_context where
  "fieldContext_TransactionResponse_error = FieldContext ''TransactionResponse'' True False (noChildren ''String'')"

definition fieldContext_TransactionResponse_data :: field_context where
  "fieldContext_TransactionResponse_data = FieldContext ''TransactionResponse'' True False (noChildren ''String'')"

definition fieldContext_TransactionResponse_events :: field_context where
  "fieldContext_TransactionResponse_events = FieldContext ''TransactionResponse'' True False (noChildren ''Event'')"

definition fieldContext_Transaction_response :: field_context where
  "fieldContext_Transaction_response = FieldContext ''Transaction'' True False (children ''TransactionResponse''
     [(''log'', fieldContext_TransactionResponse_log),
      (''info'', fieldContext_TransactionResponse_info),
      (''error'', fieldContext_TransactionResponse_error),
      (''data'', fieldContext_TransactionResponse_data),
      (''events'', fieldContext_TransactionResponse_events)])"

definition fieldContext_Query_transactions :: field_context where
  "fieldContext_Query_transactions = FieldContext ''Query'' True True (children ''Transaction''
     [(''index'', fieldContext_Transaction_index),
      (''hash'', fieldContext_Transaction_hash),
      (''success'', fieldContext_Transaction_success),
      (''block_height'', fieldContext_Transaction_block_height),
      (''gas_wanted'', fieldContext_Transaction_gas_wanted),
      (''gas_used'', fieldContext_Transaction_gas_used),
      (''gas_fee'', fieldContext_Transaction_gas_fee),
      (''content_raw'', fieldContext_Transaction_content_raw),
      (''messages'', fieldContext_Transaction_messages),
      (''memo'', fieldContext_Transaction_memo),
      (''response'', fieldContext_Transaction_response)])"

definition fieldContext_Query_blocks :: field_context where
  "fieldContext_Query_blocks = FieldContext ''Query'' True True (children ''Block''
     [(''hash'', fieldContext_Block_hash),
      (''height'', fieldContext_Block_height),
      (''version'', fieldContext_Block_version),
      (''chain_id'', fieldContext_Block_chain_id),
      (''time'', fieldContext_Block_time),
      (''num_txs'', fieldContext_Block_num_txs),
      (''total_txs'', fieldContext_Block_total_txs),
      (''app_version'', fieldContext_Block_app_version),
      (''last_block_hash'', fieldContext_Block_last_block_hash),
      (''last_commit_hash'', fieldContext_Block_last_commit_hash),
      (''validators_hash'', fieldContext_Block_validators_hash),
      (''next_validators_hash'', fieldContext_Block_next_validators_hash),
      (''consensus_hash'', fieldContext_Block_consensus_hash),
      (''app_hash'', fieldContext_Block_app_hash),
      (''last_results_hash'', fieldContext_Block_last_results_hash),
      (''proposer_address_raw'', fieldContext_Block_proposer_address_raw),
      (''txs'', fieldContext_Block_txs)])"

definition fieldContext_Query_latestBlockHeight :: field_context where
  "fieldContext_Query_latestBlockHeight = FieldContext ''Query'' True True (noChildren ''Int'')"

definition fieldContext_Query_getBlocks :: field_context where
  "fieldContext_Query_getBlocks = FieldContext ''Query'' True True (children ''Block''
     [(''hash'', fieldContext_Block_hash),
      (''height'', fieldContext_Block_height),
      (''version'', fieldContext_Block_version),
      (''chain_id'', fieldContext_Block_chain_id),
      (''time'', fieldContext_Block_time),
      (''num_txs'', fieldContext_Block_num_txs),
      (''total_txs'', fieldContext_Block_total_txs),
      (''app_version'', fieldContext_Block_app_version),
      (''last_block_hash'', fieldContext_Block_last_block_hash),
      (''last_commit_hash'', fieldContext_Block_last_commit_hash),
      (''validators_hash'', fieldContext_Block_validators_hash),
      (''next_validators_hash'', fieldContext_Block_next_validators_hash),
      (''consensus_hash'', fieldContext_Block_consensus_hash),
      (''app_hash'', fieldContext_Block_app_hash),
      (''last_results_hash'', fieldContext_Block_last_results_hash),
      (''proposer_address_raw'', fieldContext_Block_proposer_address_raw),
      (''txs'', fieldContext_Block_txs)])"

definition fieldContext_Query_getTransactions :: field_context where
  "fieldContext_Query_getTransactions = FieldContext ''Query'' True True (children ''Transaction''
     [(''index'', fieldContext_Transaction_index),
      (''hash'', fieldContext_Transaction_hash),
      (''success'', fieldContext_Transaction_success),
      (''block_height'', fieldContext_Transaction_block_height),
      (''gas_wanted'', fieldContext_Transaction_gas_wanted),
      (''gas_used'', fieldContext_Transaction_gas_used),
      (''gas_fee'', fieldContext_Transaction_gas_fee),
      (''content_raw'', fieldContext_Transaction_content_raw),
      (''messages'', fieldContext_Transaction_messages),
      (''memo'', fieldContext_Transaction_memo),
      (''response'', fieldContext_Transaction_response)])"

definition fieldContext_StorageDepositEvent_type :: field_context where
  "fieldContext_StorageDepositEvent_type = FieldContext ''StorageDepositEvent'' False False (noChildren ''String'')"

definition fieldContext_StorageDepositEvent_bytes_delta :: field_context where
  "fieldContext_StorageDepositEvent_bytes_delta = FieldContext ''StorageDepositEvent'' False False (noChildren ''Int'')"

definition fieldContext_StorageDepositEvent_fee_delta :: field_context where
  "fieldContext_StorageDepositEvent_fee_delta = FieldContext ''StorageDepositEvent'' False False (children ''Coin''
     [(''amount'', fieldContext_Coin_amount),
      (''denom'', fieldContext_Coin_denom)])"

definition fieldContext_StorageDepositEvent_pkg_path :: field_context where
  "fieldContext_StorageDepositEvent_pkg_path = FieldContext ''StorageDepositEvent'' False False (noChildren ''String'')"

definition fieldContext_StorageUnlockEvent_type :: field_context where
  "fieldContext_StorageUnlockEvent_type = FieldContext ''StorageUnlockEvent'' False False (noChildren ''String'')"

definition fieldContext_StorageUnlockEvent_bytes_delta :: field_context where
  "fieldContext_StorageUnlockEvent_bytes_delta = FieldContext ''StorageUnlockEvent'' False False (noChildren ''Int'')"

definition fieldContext_StorageUnlockEvent_fee_refund :: field_context where
  "fieldContext_StorageUnlockEvent_fee_refund = FieldContext ''StorageUnlockEvent'' False False (children ''Coin''
     [(''amount'', fieldContext_Coin_amount),
      (''denom'', fieldContext_Coin_denom)])"

definition fieldContext_StorageUnlockEvent_pkg_path :: field_context where
  "fieldContext_StorageUnlockEvent_pkg_path = FieldContext ''StorageUnlockEvent'' False False (noChildren ''String'')"

definition fieldContext_Subscription_transactions :: field_context where
  "fieldContext_Subscription_transactions = FieldContext ''Subscription'' True True (children ''Transaction''
     [(''index'', fieldContext_Transaction_index),
      (''hash'', fieldContext_Transaction_hash),
      (''success'', fieldContext_Transaction_success),
      (''block_height'', fieldContext_Transaction_block_height),
      (''gas_wanted'', fieldContext_Transaction_gas_wanted),
      (''gas_used'', fieldContext_Transaction_gas_used),
      (''gas_fee'', fieldContext_Transaction_gas_fee),
      (''content_raw'', fieldContext_Transaction_content_raw),
      (''messages'', fieldContext_Transaction_messages),
      (''memo'', fieldContext_Transaction_memo),
      (''response'', fieldContext_Transaction_response)])"

definition fieldContext_Subscription_blocks :: field_context where
  "fieldContext_Subscription_blocks = FieldContext ''Subscription'' True True (children ''Block''
     [(''hash'', fieldContext_Block_hash),
      (''height'', fieldContext_Block_height),
      (''version'', fieldContext_Block_version),
      (''chain_id'', fieldContext_Block_chain_id),
      (''time'', fieldContext_Block_time),
      (''num_txs'', fieldContext_Block_num_txs),
      (''total_txs'', fieldContext_Block_total_txs),
      (''app_version'', fieldContext_Block_app_version),
      (''last_block_hash'', fieldContext_Block_last_block_hash),
      (''last_commit_hash'', fieldContext_Block_last_commit_hash),
      (''validators_hash'', fieldContext_Block_validators_hash),
      (''next_validators_hash'', fieldContext_Block_next_validators_hash),
      (''consensus_hash'', fieldContext_Block_consensus_hash),
      (''app_hash'', fieldContext_Block_app_hash),
      (''last_results_hash'', fieldContext_Block_last_results_hash),
      (''proposer_address_raw'', fieldContext_Block_proposer_address_raw),
      (''txs'', fieldContext_Block_txs)])"

definition fieldContext_Subscription_getTransactions :: field_context where
  "fieldContext_Subscription_getTransactions = FieldContext ''Subscription'' True True (children ''Transaction''
     [(''index'', fieldContext_Transaction_index),
      (''hash'', fieldContext_Transaction_hash),
      (''success'', fieldContext_Transaction_success),
      (''block_height'', fieldContext_Transaction_block_height),
      (''gas_wanted'', fieldContext_Transaction_gas_wanted),
      (''gas_used'', fieldContext_Transaction_gas_used),
      (''gas_fee'', fieldContext_Transaction_gas_fee),
      (''content_raw'', fieldContext_Transaction_content_raw),
      (''messages'', fieldContext_Transaction_messages),
      (''memo'', fieldContext_Transaction_memo),
      (''response'', fieldContext_Transaction_response)])"

definition fieldContext_Subscription_getBlocks :: field_context where
  "fieldContext_Subscription_getBlocks = FieldContext ''Subscription'' True True (children ''Block''
     [(''hash'', fieldContext_Block_hash),
      (''height'', fieldContext_Block_height),
      (''version'', fieldContext_Block_version),
      (''chain_id'', fieldContext_Block_chain_id),
      (''time'', fieldContext_Block_time),
      (''num_txs'', fieldContext_Block_num_txs),
      (''total_txs'', fieldContext_Block_total_txs),
      (''app_version'', fieldContext_Block_app_version),
      (''last_block_hash'', fieldContext_Block_last_block_hash),
      (''last_commit_hash'', fieldContext_Block_last_commit_hash),
      (''validators_hash'', fieldContext_Block_validators_hash),
      (''next_validators_hash'', fieldContext_Block_next_validators_hash),
      (''consensus_hash'', fieldContext_Block_consensus_hash),
      (''app_hash'', fieldContext_Block_app_hash),
      (''last_results_hash'', fieldContext_Block_last_results_hash),
      (''proposer_address_raw'', fieldContext_Block_proposer_address_raw),
      (''txs'', fieldContext_Block_txs)])"

definition fieldContext_UnexpectedMessage_raw :: field_context where
  "fieldContext_UnexpectedMessage_raw = FieldContext ''UnexpectedMessage'' False False (noChildren ''String'')"

definition fieldContext_UnknownEvent_value :: field_context where
  "fieldContext_UnknownEvent_value = FieldContext ''UnknownEvent'' False False (noChildren ''String'')"

text \<open>The contexts of every object under the names of its fields.\<close>

definition object_contexts :: "(string \<times> (string \<times> field_context) list) list" where
  "object_contexts =
     [(''BankMsgSend'',
       [(''from_address'', fieldContext_BankMsgSend_from_address),
        (''to_address'', fieldContext_BankMsgSend_to_address),
        (''amount'', fieldContext_BankMsgSend_amount)]),
      (''Block'',
       [(''hash'', fieldContext_Block_hash),
        (''height'', fieldContext_Block_height),
        (''version'', fieldContext_Block_version),
        (''chain_id'', fieldContext_Block_chain_id),
        (''time'', fieldContext_Block_time),
        (''num_txs'', fieldContext_Block_num_txs),
        (''total_txs'', fieldContext_Block_total_txs),
        (''app_version'', fieldContext_Block_app_version),
        (''last_block_hash'', fieldContext_Block_last_block_hash),
        (''last_commit_hash'', fieldContext_Block_last_commit_hash),
        (''validators_hash'', fieldContext_Block_validators_hash),
        (''next_validators_hash'', fieldContext_Block_next_validators_hash),
        (''consensus_hash'', fieldContext_Block_consensus_hash),
        (''app_hash'', fieldContext_Block_app_hash),
        (''last_results_hash'', fieldContext_Block_last_results_hash),
        (''proposer_address_raw'', fieldContext_Block_proposer_address_raw),
        (''txs'', fieldContext_Block_txs)]),
      (''BlockTransaction'',
       [(''hash'', fieldContext_BlockTransaction_hash),
        (''fee'', fieldContext_BlockTransaction_fee),
        (''memo'', fieldContext_BlockTransaction_memo),
        (''content_raw'', fieldContext_BlockTransaction_content_raw)]),
      (''Coin'',
       [(''amount'', fieldContext_Coin_amount),
        (''denom'', fieldContext_Coin_denom)]),
      (''GnoEvent'',
       [(''type'', fieldContext_GnoEvent_type),
        (''pkg_path'', fieldContext_GnoEvent_pkg_path),
        (''attrs'', fieldContext_GnoEvent_attrs)]),
      (''GnoEventAttribute'',
       [(''key'', fieldContext_GnoEventAttribute_key),
        (''value'', fieldContext_GnoEventAttribute_value)]),
      (''MemFile'',
       [(''name'', fieldContext_MemFile_name),
        (''body'', fieldContext_MemFile_body)]),
      (''MemPackage'',
       [(''name'', fieldContext_MemPackage_name),
        (''path'', fieldContext_MemPackage_path),
        (''files'', fieldContext_MemPackage_files)]),
      (''MsgAddPackage'',
       [(''creator'', fieldContext_MsgAddPackage_creator),
        (''package'', fieldContext_MsgAddPackage_package),
        (''deposit'', fieldContext_MsgAddPackage_deposit),
        (''send'', fieldContext_MsgAddPackage_send),
        (''max_deposit'', fieldContext_MsgAddPackage_max_deposit)]),
      (''MsgCall'',
       [(''caller'', fieldContext_MsgCall_caller),
        (''send'', fieldContext_MsgCall_send),
        (''pkg_path'', fieldContext_MsgCall_pkg_path),
        (''func'', fieldContext_MsgCall_func),
        (''args'', fieldContext_MsgCall_args),
        (''max_deposit'', fieldContext_MsgCall_max_deposit)]),
      (''MsgRun'',
       [(''caller'', fieldContext_MsgRun_caller),
        (''send'', fieldContext_MsgRun_send),
        (''package'', fieldContext_MsgRun_package),
        (''max_deposit'', fieldContext_MsgRun_max_deposit)]),
      (''Query'',
       [(''transactions'', fieldContext_Query_transactions),
        (''blocks'', fieldContext_Query_blocks),
        (''latestBlockHeight'', fieldContext_Query_latestBlockHeight),
        (''getBlocks'', fieldContext_Query_getBlocks),
        (''getTransactions'', fieldContext_Query_getTransactions),
        (''__type'', metaContext Ctx_Query__type),
        (''__schema'', metaContext Ctx_Query__schema)]),
      (''StorageDepositEvent'',
       [(''type'', fieldContext_StorageDepositEvent_type),
        (''bytes_delta'', fieldContext_StorageDepositEvent_bytes_delta),
        (''fee_delta'', fieldContext_StorageDepositEvent_fee_delta),
        (''pkg_path'', fieldContext_StorageDepositEvent_pkg_path)]),
      (''StorageUnlockEvent'',
       [(''type'', fieldContext_StorageUnlockEvent_type),
        (''bytes_delta'', fieldContext_StorageUnlockEvent_bytes_delta),
        (''fee_refund'', fieldContext_StorageUnlockEvent_fee_refund),
        (''pkg_path'', fieldContext_StorageUnlockEvent_pkg_path)]),
      (''Subscription'',
       [(''transactions'', fieldContext_Subscription_transactions),
        (''blocks'', fieldContext_Subscription_blocks),
        (''getTransactions'', fieldContext_Subscription_getTransactions),
        (''getBlocks'', fieldContext_Subscription_getBlocks)]),
      (''Transaction'',
       [(''index'', fieldContext_Transaction_index),
        (''hash'', fieldContext_Transaction_hash),
        (''success'', fieldContext_Transaction_success),
        (''block_height'', fieldContext_Transaction_block_height),
        (''gas_wanted'', fieldContext_Transaction_gas_wanted),
        (''gas_used'', fieldContext_Transaction_gas_used),
        (''gas_fee'', fieldContext_Transaction_gas_fee),
        (''content_raw'', fieldContext_Transaction_content_raw),
        (''messages'', fieldContext_Transaction_messages),
        (''memo'', fieldContext_Transaction_memo),
        (''response'', fieldContext_Transaction_response)]),
      (''TransactionMessage'',
       [(''typeUrl'', fieldContext_TransactionMessage_typeUrl),
        (''route'', fieldContext_TransactionMessage_route),
        (''value'', fieldContext_TransactionMessage_value)]),
      (''TransactionResponse'',
       [(''log'', fieldContext_TransactionResponse_log),
        (''info'', fieldContext_TransactionResponse_info),
        (''error'', fieldContext_TransactionResponse_error),
        (''data'', fieldContext_TransactionResponse_data),
        (''events'', fieldContext_TransactionResponse_events)]),
      (''TxFee'',
       [(''gas_wanted'', fieldContext_TxFee_gas_wanted),
        (''gas_fee'', fieldContext_TxFee_gas_fee)]),
      (''UnexpectedMessage'',
       [(''raw'', fieldContext_UnexpectedMessage_raw)]),
      (''UnknownEvent'',
       [(''value'', fieldContext_UnknownEvent_value)]),
      (''__Schema'',
       [(''description'', metaContext Ctx_Schema_description),
        (''types'', metaContext Ctx_Schema_types),
        (''queryType'', metaContext Ctx_Schema_queryType),
        (''mutationType'', metaContext Ctx_Schema_mutationType),
        (''subscriptionType'', metaContext Ctx_Schema_subscriptionType),
        (''directives'', metaContext Ctx_Schema_directives)]),
      (''__Type'',
       [(''kind'', metaContext Ctx_Type_kind),
        (''name'', metaContext Ctx_Type_name),
        (''description'', metaContext Ctx_Type_description),
        (''fields'', metaContext Ctx_Type_fields),
        (''interfaces'', metaContext Ctx_Type_interfaces),
        (''possibleTypes'', metaContext Ctx_Type_possibleTypes),
        (''enumValues'', metaContext Ctx_Type_enumValues),
        (''inputFields'', metaContext Ctx_Type_inputFields),
        (''ofType'', metaContext Ctx_Type_ofType),
        (''specifiedByURL'', metaContext Ctx_Type_specifiedByURL)]),
      (''__Field'',
       [(''name'', metaContext Ctx_Field_name),
        (''description'', metaContext Ctx_Field_description),
        (''args'', metaContext Ctx_Field_args),
        (''type'', metaContext Ctx_Field_type),
        (''isDeprecated'', metaContext Ctx_Field_isDeprecated),
        (''deprecationReason'', metaContext Ctx_Field_deprecationReason)]),
      (''__InputValue'',
       [(''name'', metaContext Ctx_InputValue_name),
        (''description'', metaContext Ctx_InputValue_description),
        (''type'', metaContext Ctx_InputValue_type),
        (''defaultValue'', metaContext Ctx_InputValue_defaultValue)]),
      (''__EnumValue'',
       [(''name'', metaContext Ctx_EnumValue_name),
        (''description'', metaContext Ctx_EnumValue_description),
        (''isDeprecated'', metaContext Ctx_EnumValue_isDeprecated),
        (''deprecationReason'', metaContext Ctx_EnumValue_deprecationReason)]),
      (''__Directive'',
       [(''name'', metaContext Ctx_Directive_name),
        (''description'', metaContext Ctx_Directive_description),
        (''locations'', metaContext Ctx_Directive_locations),
        (''args'', metaContext Ctx_Directive_args),
        (''isRepeatable'', metaContext Ctx_Directive_isRepeatable)])]"

section \<open>The contexts follow the schema\<close>

named_theorems follow \<open>contexts that follow the schema\<close>

lemma children_follow:
  assumes "map fst cs = map fst gs" "\<forall>(g, c) \<in> set cs. follows ty g c"
  shows "(\<forall>g. isl (children ty cs g) \<longleftrightarrow> map_of gs g = None) \<and>
    (\<forall>g c. children ty cs g = Inr c \<longrightarrow> follows ty g c)"
  using children_isl [OF assms(1)] children_member assms(2) by fastforce

lemma follows_children:
  assumes "schema ty = Some (DObject fs)" "map_of fs f = Some (as, t)" "fcObject fc = ty"
    and "schema (typeName t) = Some (DObject gs)" "fcChild fc = children (typeName t) cs"
    and "map fst cs = map fst gs" "\<forall>(g, c) \<in> set cs. follows (typeName t) g c"
  shows "follows ty f fc"
  using children_follow [OF assms(6,7)] by (intro follows_object [OF assms(1-4)]) (simp_all add: assms(5))

lemma follows_BankMsgSend_from_address [follow]:
  "follows ''BankMsgSend'' ''from_address'' fieldContext_BankMsgSend_from_address"
  by (rule follows_leaf [OF object_lookup(5)], simp add: BankMsgSend_schema_def)
    (simp_all add: fieldContext_BankMsgSend_from_address_def leaf_types)

lemma follows_BankMsgSend_to_address [follow]:
  "follows ''BankMsgSend'' ''to_address'' fieldContext_BankMsgSend_to_address"
  by (rule follows_leaf [OF object_lookup(5)], simp add: BankMsgSend_schema_def)
    (simp_all add: fieldContext_BankMsgSend_to_address_def leaf_types)

lemma follows_BankMsgSend_amount [follow]: "follows ''BankMsgSend'' ''amount'' fieldContext_BankMsgSend_amount"
  by (rule follows_leaf [OF object_lookup(5)], simp add: BankMsgSend_schema_def)
    (simp_all add: fieldContext_BankMsgSend_amount_def leaf_types)

lemma follows_Block_hash [follow]: "follows ''Block'' ''hash'' fieldContext_Block_hash"
  by (rule follows_leaf [OF object_lookup(4)], simp add: Block_schema_def)
    (simp_all add: fieldContext_Block_hash_def leaf_types)

lemma follows_Block_height [follow]: "follows ''Block'' ''height'' fieldContext_Block_height"
  by (rule follows_leaf [OF object_lookup(4)], simp add: Block_schema_def)
    (simp_all add: fieldContext_Block_height_def leaf_types)

lemma follows_Block_version [follow]: "follows ''Block'' ''version'' fieldContext_Block_version"
  by (rule follows_leaf [OF object_lookup(4)], simp add: Block_schema_def)
    (simp_all add: fieldContext_Block_version_def leaf_types)

lemma follows_Block_chain_id [follow]: "follows ''Block'' ''chain_id'' fieldContext_Block_chain_id"
  by (rule follows_leaf [OF object_lookup(4)], simp add: Block_schema_def)
    (simp_all add: fieldContext_Block_chain_id_def leaf_types)

lemma follows_Block_time [follow]: "follows ''Block'' ''time'' fieldContext_Block_time"
  by (rule follows_leaf [OF object_lookup(4)], simp add: Block_schema_def)
    (simp_all add: fieldContext_Block_time_def leaf_types)

lemma follows_Block_num_txs [follow]: "follows ''Block'' ''num_txs'' fieldContext_Block_num_txs"
  by (rule follows_leaf [OF object_lookup(4)], simp add: Block_schema_def)
    (simp_all add: fieldContext_Block_num_txs_def leaf_types)

lemma follows_Block_total_txs [follow]: "follows ''Block'' ''total_txs'' fieldContext_Block_total_txs"
  by (rule follows_leaf [OF object_lookup(4)], simp add: Block_schema_def)
    (simp_all add: fieldContext_Block_total_txs_def leaf_types)

lemma follows_Block_app_version [follow]: "follows ''Block'' ''app_version'' fieldContext_Block_app_version"
  by (rule follows_leaf [OF object_lookup(4)], simp add: Block_schema_def)
    (simp_all add: fieldContext_Block_app_version_def leaf_types)

lemma follows_Block_last_block_hash [follow]:
  "follows ''Block'' ''last_block_hash'' fieldContext_Block_last_block_hash"
  by (rule follows_leaf [OF object_lookup(4)], simp add: Block_schema_def)
    (simp_all add: fieldContext_Block_last_block_hash_def leaf_types)

lemma follows_Block_last_commit_hash [follow]:
  "follows ''Block'' ''last_commit_hash'' fieldContext_Block_last_commit_hash"
  by (rule follows_leaf [OF object_lookup(4)], simp add: Block_schema_def)
    (simp_all add: fieldContext_Block_last_commit_hash_def leaf_types)

lemma follows_Block_validators_hash [follow]:
  "follows ''Block'' ''validators_hash'' fieldContext_Block_validators_hash"
  by (rule follows_leaf [OF object_lookup(4)], simp add: Block_schema_def)
    (simp_all add: fieldContext_Block_validators_hash_def leaf_types)

lemma follows_Block_next_validators_hash [follow]:
  "follows ''Block'' ''next_validators_hash'' fieldContext_Block_next_validators_hash"
  by (rule follows_leaf [OF object_lookup(4)], simp add: Block_schema_def)
    (simp_all add: fieldContext_Block_next_validators_hash_def leaf_types)

lemma follows_Block_consensus_hash [follow]: "follows ''Block'' ''consensus_hash'' fieldContext_Block_consensus_hash"
  by (rule follows_leaf [OF object_lookup(4)], simp add: Block_schema_def)
    (simp_all add: fieldContext_Block_consensus_hash_def leaf_types)

lemma follows_Block_app_hash [follow]: "follows ''Block'' ''app_hash'' fieldContext_Block_app_hash"
  by (rule follows_leaf [OF object_lookup(4)], simp add: Block_schema_def)
    (simp_all add: fieldContext_Block_app_hash_def leaf_types)

lemma follows_Block_last_results_hash [follow]:
  "follows ''Block'' ''last_results_hash'' fieldContext_Block_last_results_hash"
  by (rule follows_leaf [OF object_lookup(4)], simp add: Block_schema_def)
    (simp_all add: fieldContext_Block_last_results_hash_def leaf_types)

lemma follows_Block_proposer_address_raw [follow]:
  "follows ''Block'' ''proposer_address_raw'' fieldContext_Block_proposer_address_raw"
  by (rule follows_leaf [OF object_lookup(4)], simp add: Block_schema_def)
    (simp_all add: fieldContext_Block_proposer_address_raw_def leaf_types)

lemma follows_BlockTransaction_hash [follow]:
  "follows ''BlockTransaction'' ''hash'' fieldContext_BlockTransaction_hash"
  by (rule follows_leaf [OF object_lookup(3)], simp add: BlockTransaction_schema_def)
    (simp_all add: fieldContext_BlockTransaction_hash_def leaf_types)

lemma follows_TxFee_gas_wanted [follow]: "follows ''TxFee'' ''gas_wanted'' fieldContext_TxFee_gas_wanted"
  by (rule follows_leaf [OF object_lookup(2)], simp add: TxFee_schema_def)
    (simp_all add: fieldContext_TxFee_gas_wanted_def leaf_types)

lemma follows_Coin_amount [follow]: "follows ''Coin'' ''amount'' fieldContext_Coin_amount"
  by (rule follows_leaf [OF object_lookup(1)], simp add: Coin_schema_def)
    (simp_all add: fieldContext_Coin_amount_def leaf_types)

lemma follows_Coin_denom [follow]: "follows ''Coin'' ''denom'' fieldContext_Coin_denom"
  by (rule follows_leaf [OF object_lookup(1)], simp add: Coin_schema_def)
    (simp_all add: fieldContext_Coin_denom_def leaf_types)

lemma follows_TxFee_gas_fee [follow]: "follows ''TxFee'' ''gas_fee'' fieldContext_TxFee_gas_fee"
  by (rule follows_children [OF object_lookup(2)], simp add: TxFee_schema_def)
    ((simp_all add: fieldContext_TxFee_gas_fee_def object_lookup(1) Coin_schema_def follow)+)

lemma follows_BlockTransaction_fee [follow]: "follows ''BlockTransaction'' ''fee'' fieldContext_BlockTransaction_fee"
  by (rule follows_children [OF object_lookup(3)], simp add: BlockTransaction_schema_def)
    ((simp_all add: fieldContext_BlockTransaction_fee_def object_lookup(2) TxFee_schema_def follow)+)

lemma follows_BlockTransaction_memo [follow]:
  "follows ''BlockTransaction'' ''memo'' fieldContext_BlockTransaction_memo"
  by (rule follows_leaf [OF object_lookup(3)], simp add: BlockTransaction_schema_def)
    (simp_all add: fieldContext_BlockTransaction_memo_def leaf_types)

lemma follows_BlockTransaction_content_raw [follow]:
  "follows ''BlockTransaction'' ''content_raw'' fieldContext_BlockTransaction_content_raw"
  by (rule follows_leaf [OF object_lookup(3)], simp add: BlockTransaction_schema_def)
    (simp_all add: fieldContext_BlockTransaction_content_raw_def leaf_types)

lemma follows_Block_txs [follow]: "follows ''Block'' ''txs'' fieldContext_Block_txs"
  by (rule follows_children [OF object_lookup(4)], simp add: Block_schema_def)
    ((simp_all add: fieldContext_Block_txs_def object_lookup(3) BlockTransaction_schema_def follow)+)

lemma follows_GnoEvent_type [follow]: "follows ''GnoEvent'' ''type'' fieldContext_GnoEvent_type"
  by (rule follows_leaf [OF object_lookup(14)], simp add: GnoEvent_schema_def)
    (simp_all add: fieldContext_GnoEvent_type_def leaf_types)

lemma follows_GnoEvent_pkg_path [follow]: "follows ''GnoEvent'' ''pkg_path'' fieldContext_GnoEvent_pkg_path"
  by (rule follows_leaf [OF object_lookup(14)], simp add: GnoEvent_schema_def)
    (simp_all add: fieldContext_GnoEvent_pkg_path_def leaf_types)

lemma follows_GnoEventAttribute_key [follow]:
  "follows ''GnoEventAttribute'' ''key'' fieldContext_GnoEventAttribute_key"
  by (rule follows_leaf [OF object_lookup(13)], simp add: GnoEventAttribute_schema_def)
    (simp_all add: fieldContext_GnoEventAttribute_key_def leaf_types)

lemma follows_GnoEventAttribute_value [follow]:
  "follows ''GnoEventAttribute'' ''value'' fieldContext_GnoEventAttribute_value"
  by (rule follows_leaf [OF object_lookup(13)], simp add: GnoEventAttribute_schema_def)
    (simp_all add: fieldContext_GnoEventAttribute_value_def leaf_types)

lemma follows_GnoEvent_attrs [follow]: "follows ''GnoEvent'' ''attrs'' fieldContext_GnoEvent_attrs"
  by (rule follows_children [OF object_lookup(14)], simp add: GnoEvent_schema_def)
    ((simp_all add: fieldContext_GnoEvent_attrs_def object_lookup(13) GnoEventAttribute_schema_def follow)+)

lemma follows_MemFile_name [follow]: "follows ''MemFile'' ''name'' fieldContext_MemFile_name"
  by (rule follows_leaf [OF object_lookup(7)], simp add: MemFile_schema_def)
    (simp_all add: fieldContext_MemFile_name_def leaf_types)

lemma follows_MemFile_body [follow]: "follows ''MemFile'' ''body'' fieldContext_MemFile_body"
  by (rule follows_leaf [OF object_lookup(7)], simp add: MemFile_schema_def)
    (simp_all add: fieldContext_MemFile_body_def leaf_types)

lemma follows_MemPackage_name [follow]: "follows ''MemPackage'' ''name'' fieldContext_MemPackage_name"
  by (rule follows_leaf [OF object_lookup(8)], simp add: MemPackage_schema_def)
    (simp_all add: fieldContext_MemPackage_name_def leaf_types)

lemma follows_MemPackage_path [follow]: "follows ''MemPackage'' ''path'' fieldContext_MemPackage_path"
  by (rule follows_leaf [OF object_lookup(8)], simp add: MemPackage_schema_def)
    (simp_all add: fieldContext_MemPackage_path_def leaf_types)

lemma follows_MemPackage_files [follow]: "follows ''MemPackage'' ''files'' fieldContext_MemPackage_files"
  by (rule follows_children [OF object_lookup(8)], simp add: MemPackage_schema_def)
    ((simp_all add: fieldContext_MemPackage_files_def object_lookup(7) MemFile_schema_def follow)+)

lemma follows_MsgAddPackage_creator [follow]:
  "follows ''MsgAddPackage'' ''creator'' fieldContext_MsgAddPackage_creator"
  by (rule follows_leaf [OF object_lookup(9)], simp add: MsgAddPackage_schema_def)
    (simp_all add: fieldContext_MsgAddPackage_creator_def leaf_types)

lemma follows_MsgAddPackage_package [follow]:
  "follows ''MsgAddPackage'' ''package'' fieldContext_MsgAddPackage_package"
  by (rule follows_children [OF object_lookup(9)], simp add: MsgAddPackage_schema_def)
    ((simp_all add: fieldContext_MsgAddPackage_package_def object_lookup(8) MemPackage_schema_def follow)+)

lemma follows_MsgAddPackage_deposit [follow]:
  "follows ''MsgAddPackage'' ''deposit'' fieldContext_MsgAddPackage_deposit"
  by (rule follows_leaf [OF object_lookup(9)], simp add: MsgAddPackage_schema_def)
    (simp_all add: fieldContext_MsgAddPackage_deposit_def leaf_types)

lemma follows_MsgAddPackage_send [follow]: "follows ''MsgAddPackage'' ''send'' fieldContext_MsgAddPackage_send"
  by (rule follows_leaf [OF object_lookup(9)], simp add: MsgAddPackage_schema_def)
    (simp_all add: fieldContext_MsgAddPackage_send_def leaf_types)

lemma follows_MsgAddPackage_max_deposit [follow]:
  "follows ''MsgAddPackage'' ''max_deposit'' fieldContext_MsgAddPackage_max_deposit"
  by (rule follows_leaf [OF object_lookup(9)], simp add: MsgAddPackage_schema_def)
    (simp_all add: fieldContext_MsgAddPackage_max_deposit_def leaf_types)

lemma follows_MsgCall_caller [follow]: "follows ''MsgCall'' ''caller'' fieldContext_MsgCall_caller"
  by (rule follows_leaf [OF object_lookup(6)], simp add: MsgCall_schema_def)
    (simp_all add: fieldContext_MsgCall_caller_def leaf_types)

lemma follows_MsgCall_send [follow]: "follows ''MsgCall'' ''send'' fieldContext_MsgCall_send"
  by (rule follows_leaf [OF object_lookup(6)], simp add: MsgCall_schema_def)
    (simp_all add: fieldContext_MsgCall_send_def leaf_types)

lemma follows_MsgCall_pkg_path [follow]: "follows ''MsgCall'' ''pkg_path'' fieldContext_MsgCall_pkg_path"
  by (rule follows_leaf [OF object_lookup(6)], simp add: MsgCall_schema_def)
    (simp_all add: fieldContext_MsgCall_pkg_path_def leaf_types)

lemma follows_MsgCall_func [follow]: "follows ''MsgCall'' ''func'' fieldContext_MsgCall_func"
  by (rule follows_leaf [OF object_lookup(6)], simp add: MsgCall_schema_def)
    (simp_all add: fieldContext_MsgCall_func_def leaf_types)

lemma follows_MsgCall_args [follow]: "follows ''MsgCall'' ''args'' fieldContext_MsgCall_args"
  by (rule follows_leaf [OF object_lookup(6)], simp add: MsgCall_schema_def)
    (simp_all add: fieldContext_MsgCall_args_def leaf_types)

lemma follows_MsgCall_max_deposit [follow]: "follows ''MsgCall'' ''max_deposit'' fieldContext_MsgCall_max_deposit"
  by (rule follows_leaf [OF object_lookup(6)], simp add: MsgCall_schema_def)
    (simp_all add: fieldContext_MsgCall_max_deposit_def leaf_types)

lemma follows_MsgRun_caller [follow]: "follows ''MsgRun'' ''caller'' fieldContext_MsgRun_caller"
  by (rule follows_leaf [OF object_lookup(10)], simp add: MsgRun_schema_def)
    (simp_all add: fieldContext_MsgRun_caller_def leaf_types)

lemma follows_MsgRun_send [follow]: "follows ''MsgRun'' ''send'' fieldContext_MsgRun_send"
  by (rule follows_leaf [OF object_lookup(10)], simp add: MsgRun_schema_def)
    (simp_all add: fieldContext_MsgRun_send_def leaf_types)

lemma follows_MsgRun_package [follow]: "follows ''MsgRun'' ''package'' fieldContext_MsgRun_package"
  by (rule follows_children [OF object_lookup(10)], simp add: MsgRun_schema_def)
    ((simp_all add: fieldContext_MsgRun_package_def object_lookup(8) MemPackage_schema_def follow)+)

lemma follows_MsgRun_max_deposit [follow]: "follows ''MsgRun'' ''max_deposit'' fieldContext_MsgRun_max_deposit"
  by (rule follows_leaf [OF object_lookup(10)], simp add: MsgRun_schema_def)
    (simp_all add: fieldContext_MsgRun_max_deposit_def leaf_types)

lemma follows_Transaction_index [follow]: "follows ''Transaction'' ''index'' fieldContext_Transaction_index"
  by (rule follows_leaf [OF object_lookup(19)], simp add: Transaction_schema_def)
    (simp_all add: fieldContext_Transaction_index_def leaf_types)

lemma follows_Transaction_hash [follow]: "follows ''Transaction'' ''hash'' fieldContext_Transaction_hash"
  by (rule follows_leaf [OF object_lookup(19)], simp add: Transaction_schema_def)
    (simp_all add: fieldContext_Transaction_hash_def leaf_types)

lemma follows_Transaction_success [follow]: "follows ''Transaction'' ''success'' fieldContext_Transaction_success"
  by (rule follows_leaf [OF object_lookup(19)], simp add: Transaction_schema_def)
    (simp_all add: fieldContext_Transaction_success_def leaf_types)

lemma follows_Transaction_block_height [follow]:
  "follows ''Transaction'' ''block_height'' fieldContext_Transaction_block_height"
  by (rule follows_leaf [OF object_lookup(19)], simp add: Transaction_schema_def)
    (simp_all add: fieldContext_Transaction_block_height_def leaf_types)

lemma follows_Transaction_gas_wanted [follow]:
  "follows ''Transaction'' ''gas_wanted'' fieldContext_Transaction_gas_wanted"
  by (rule follows_leaf [OF object_lookup(19)], simp add: Transaction_schema_def)
    (simp_all add: fieldContext_Transaction_gas_wanted_def leaf_types)

lemma follows_Transaction_gas_used [follow]: "follows ''Transaction'' ''gas_used'' fieldContext_Transaction_gas_used"
  by (rule follows_leaf [OF object_lookup(19)], simp add: Transaction_schema_def)
    (simp_all add: fieldContext_Transaction_gas_used_def leaf_types)

lemma follows_Transaction_gas_fee [follow]: "follows ''Transaction'' ''gas_fee'' fieldContext_Transaction_gas_fee"
  by (rule follows_children [OF object_lookup(19)], simp add: Transaction_schema_def)
    ((simp_all add: fieldContext_Transaction_gas_fee_def object_lookup(1) Coin_schema_def follow)+)

lemma follows_Transaction_content_raw [follow]:
  "follows ''Transaction'' ''content_raw'' fieldContext_Transaction_content_raw"
  by (rule follows_leaf [OF object_lookup(19)], simp add: Transaction_schema_def)
    (simp_all add: fieldContext_Transaction_content_raw_def leaf_types)

lemma follows_TransactionMessage_typeUrl [follow]:
  "follows ''TransactionMessage'' ''typeUrl'' fieldContext_TransactionMessage_typeUrl"
  by (rule follows_leaf [OF object_lookup(12)], simp add: TransactionMessage_schema_def)
    (simp_all add: fieldContext_TransactionMessage_typeUrl_def leaf_types)

lemma follows_TransactionMessage_route [follow]:
  "follows ''TransactionMessage'' ''route'' fieldContext_TransactionMessage_route"
  by (rule follows_leaf [OF object_lookup(12)], simp add: TransactionMessage_schema_def)
    (simp_all add: fieldContext_TransactionMessage_route_def leaf_types)

lemma follows_TransactionMessage_value [follow]:
  "follows ''TransactionMessage'' ''value'' fieldContext_TransactionMessage_value"
  by (rule follows_leaf [OF object_lookup(12)], simp add: TransactionMessage_schema_def)
    (simp_all add: fieldContext_TransactionMessage_value_def leaf_types)

lemma follows_Transaction_messages [follow]: "follows ''Transaction'' ''messages'' fieldContext_Transaction_messages"
  by (rule follows_children [OF object_lookup(19)], simp add: Transaction_schema_def)
    ((simp_all add: fieldContext_Transaction_messages_def object_lookup(12) TransactionMessage_schema_def follow)+)

lemma follows_Transaction_memo [follow]: "follows ''Transaction'' ''memo'' fieldContext_Transaction_memo"
  by (rule follows_leaf [OF object_lookup(19)], simp add: Transaction_schema_def)
    (simp_all add: fieldContext_Transaction_memo_def leaf_types)

lemma follows_TransactionResponse_log [follow]:
  "follows ''TransactionResponse'' ''log'' fieldContext_TransactionResponse_log"
  by (rule follows_leaf [OF object_lookup(18)], simp add: TransactionResponse_schema_def)
    (simp_all add: fieldContext_TransactionResponse_log_def leaf_types)

lemma follows_TransactionResponse_info [follow]:
  "follows ''TransactionResponse'' ''info'' fieldContext_TransactionResponse_info"
  by (rule follows_leaf [OF object_lookup(18)], simp add: TransactionResponse_schema_def)
    (simp_all add: fieldContext_TransactionResponse_info_def leaf_types)

lemma follows_TransactionResponse_error [follow]:
  "follows ''TransactionResponse'' ''error'' fieldContext_TransactionResponse_error"
  by (rule follows_leaf [OF object_lookup(18)], simp add: TransactionResponse_schema_def)
    (simp_all add: fieldContext_TransactionResponse_error_def leaf_types)

lemma follows_TransactionResponse_data [follow]:
  "follows ''TransactionResponse'' ''data'' fieldContext_TransactionResponse_data"
  by (rule follows_leaf [OF object_lookup(18)], simp add: TransactionResponse_schema_def)
    (simp_all add: fieldContext_TransactionResponse_data_def leaf_types)

lemma follows_TransactionResponse_events [follow]:
  "follows ''TransactionResponse'' ''events'' fieldContext_TransactionResponse_events"
  by (rule follows_leaf [OF object_lookup(18)], simp add: TransactionResponse_schema_def)
    (simp_all add: fieldContext_TransactionResponse_events_def leaf_types)

lemma follows_Transaction_response [follow]: "follows ''Transaction'' ''response'' fieldContext_Transaction_response"
  by (rule follows_children [OF object_lookup(19)], simp add: Transaction_schema_def)
    ((simp_all add: fieldContext_Transaction_response_def object_lookup(18) TransactionResponse_schema_def follow)+)

lemma follows_Query_transactions [follow]: "follows ''Query'' ''transactions'' fieldContext_Query_transactions"
  by (rule follows_children [OF object_lookup(20)], simp add: Query_schema_def)
    ((simp_all add: fieldContext_Query_transactions_def object_lookup(19) Transaction_schema_def follow)+)

lemma follows_Query_blocks [follow]: "follows ''Query'' ''blocks'' fieldContext_Query_blocks"
  by (rule follows_children [OF object_lookup(20)], simp add: Query_schema_def)
    ((simp_all add: fieldContext_Query_blocks_def object_lookup(4) Block_schema_def follow)+)

lemma follows_Query_latestBlockHeight [follow]:
  "follows ''Query'' ''latestBlockHeight'' fieldContext_Query_latestBlockHeight"
  by (rule follows_leaf [OF object_lookup(20)], simp add: Query_schema_def)
    (simp_all add: fieldContext_Query_latestBlockHeight_def leaf_types)

lemma follows_Query_getBlocks [follow]: "follows ''Query'' ''getBlocks'' fieldContext_Query_getBlocks"
  by (rule follows_children [OF object_lookup(20)], simp add: Query_schema_def)
    ((simp_all add: fieldContext_Query_getBlocks_def object_lookup(4) Block_schema_def follow)+)

lemma follows_Query_getTransactions [follow]:
  "follows ''Query'' ''getTransactions'' fieldContext_Query_getTransactions"
  by (rule follows_children [OF object_lookup(20)], simp add: Query_schema_def)
    ((simp_all add: fieldContext_Query_getTransactions_def object_lookup(19) Transaction_schema_def follow)+)

lemma follows_StorageDepositEvent_type [follow]:
  "follows ''StorageDepositEvent'' ''type'' fieldContext_StorageDepositEvent_type"
  by (rule follows_leaf [OF object_lookup(15)], simp add: StorageDepositEvent_schema_def)
    (simp_all add: fieldContext_StorageDepositEvent_type_def leaf_types)

lemma follows_StorageDepositEvent_bytes_delta [follow]:
  "follows ''StorageDepositEvent'' ''bytes_delta'' fieldContext_StorageDepositEvent_bytes_delta"
  by (rule follows_leaf [OF object_lookup(15)], simp add: StorageDepositEvent_schema_def)
    (simp_all add: fieldContext_StorageDepositEvent_bytes_delta_def leaf_types)

lemma follows_StorageDepositEvent_fee_delta [follow]:
  "follows ''StorageDepositEvent'' ''fee_delta'' fieldContext_StorageDepositEvent_fee_delta"
  by (rule follows_children [OF object_lookup(15)], simp add: StorageDepositEvent_schema_def)
    ((simp_all add: fieldContext_StorageDepositEvent_fee_delta_def object_lookup(1) Coin_schema_def follow)+)

lemma follows_StorageDepositEvent_pkg_path [follow]:
  "follows ''StorageDepositEvent'' ''pkg_path'' fieldContext_StorageDepositEvent_pkg_path"
  by (rule follows_leaf [OF object_lookup(15)], simp add: StorageDepositEvent_schema_def)
    (simp_all add: fieldContext_StorageDepositEvent_pkg_path_def leaf_types)

lemma follows_StorageUnlockEvent_type [follow]:
  "follows ''StorageUnlockEvent'' ''type'' fieldContext_StorageUnlockEvent_type"
  by (rule follows_leaf [OF object_lookup(16)], simp add: StorageUnlockEvent_schema_def)
    (simp_all add: fieldContext_StorageUnlockEvent_type_def leaf_types)

lemma follows_StorageUnlockEvent_bytes_delta [follow]:
  "follows ''StorageUnlockEvent'' ''bytes_delta'' fieldContext_StorageUnlockEvent_bytes_delta"
  by (rule follows_leaf [OF object_lookup(16)], simp add: StorageUnlockEvent_schema_def)
    (simp_all add: fieldContext_StorageUnlockEvent_bytes_delta_def leaf_types)

lemma follows_StorageUnlockEvent_fee_refund [follow]:
  "follows ''StorageUnlockEvent'' ''fee_refund'' fieldContext_StorageUnlockEvent_fee_refund"
  by (rule follows_children [OF object_lookup(16)], simp add: StorageUnlockEvent_schema_def)
    ((simp_all add: fieldContext_StorageUnlockEvent_fee_refund_def object_lookup(1) Coin_schema_def follow)+)

lemma follows_StorageUnlockEvent_pkg_path [follow]:
  "follows ''StorageUnlockEvent'' ''pkg_path'' fieldContext_StorageUnlockEvent_pkg_path"
  by (rule follows_leaf [OF object_lookup(16)], simp add: StorageUnlockEvent_schema_def)
    (simp_all add: fieldContext_StorageUnlockEvent_pkg_path_def leaf_types)

lemma follows_Subscription_transactions [follow]:
  "follows ''Subscription'' ''transactions'' fieldContext_Subscription_transactions"
  by (rule follows_children [OF schema_roots(2)], simp add: Subscription_schema_def)
    ((simp_all add: fieldContext_Subscription_transactions_def object_lookup(19) Transaction_schema_def follow)+)

lemma follows_Subscription_blocks [follow]: "follows ''Subscription'' ''blocks'' fieldContext_Subscription_blocks"
  by (rule follows_children [OF schema_roots(2)], simp add: Subscription_schema_def)
    ((simp_all add: fieldContext_Subscription_blocks_def object_lookup(4) Block_schema_def follow)+)

lemma follows_Subscription_getTransactions [follow]:
  "follows ''Subscription'' ''getTransactions'' fieldContext_Subscription_getTransactions"
  by (rule follows_children [OF schema_roots(2)], simp add: Subscription_schema_def)
    ((simp_all add: fieldContext_Subscription_getTransactions_def object_lookup(19) Transaction_schema_def follow)+)

lemma follows_Subscription_getBlocks [follow]:
  "follows ''Subscription'' ''getBlocks'' fieldContext_Subscription_getBlocks"
  by (rule follows_children [OF schema_roots(2)], simp add: Subscription_schema_def)
    ((simp_all add: fieldContext_Subscription_getBlocks_def object_lookup(4) Block_schema_def follow)+)

lemma follows_UnexpectedMessage_raw [follow]:
  "follows ''UnexpectedMessage'' ''raw'' fieldContext_UnexpectedMessage_raw"
  by (rule follows_leaf [OF object_lookup(11)], simp add: UnexpectedMessage_schema_def)
    (simp_all add: fieldContext_UnexpectedMessage_raw_def leaf_types)

lemma follows_UnknownEvent_value [follow]: "follows ''UnknownEvent'' ''value'' fieldContext_UnknownEvent_value"
  by (rule follows_leaf [OF object_lookup(17)], simp add: UnknownEvent_schema_def)
    (simp_all add: fieldContext_UnknownEvent_value_def leaf_types)

section \<open>Every object\<close>

named_theorems resolver \<open>behind which fields a resolver stands\<close>
named_theorems object_ok \<open>objects whose contexts follow the schema\<close>

definition contexts_ok :: "string \<times> (string \<times> field_context) list \<Rightarrow> bool" where
  "contexts_ok tc \<longleftrightarrow> (case tc of (ty, cs) \<Rightarrow>
     (\<exists>fs. schema ty = Some (DObject fs) \<and> map fst cs = map fst fs) \<and>
     (\<forall>(f, fc) \<in> set cs. follows ty f fc \<and>
       (fcIsResolver fc \<longleftrightarrow> (ty = ''Query'' \<or> ty = ''Subscription'') \<and>
         f \<notin> {''__type'', ''__schema''})))"

lemma contexts_okI:
  assumes "schema ty = Some (DObject fs)" "map fst cs = map fst fs"
    and "\<forall>(f, fc) \<in> set cs. follows ty f fc \<and>
       (fcIsResolver fc \<longleftrightarrow> (ty = ''Query'' \<or> ty = ''Subscription'') \<and>
         f \<notin> {''__type'', ''__schema''})"
  shows "contexts_ok (ty, cs)"
  using assms by (auto simp: contexts_ok_def)

lemma resolver_BankMsgSend [resolver]:
  "fcIsResolver fieldContext_BankMsgSend_from_address = False"
  "fcIsResolver fieldContext_BankMsgSend_to_address = False"
  "fcIsResolver fieldContext_BankMsgSend_amount = False"
  by (simp_all add: fieldContext_BankMsgSend_from_address_def fieldContext_BankMsgSend_to_address_def
    fieldContext_BankMsgSend_amount_def)

lemma contexts_BankMsgSend [object_ok]:
  "contexts_ok (''BankMsgSend'', [(''from_address'', fieldContext_BankMsgSend_from_address),
     (''to_address'', fieldContext_BankMsgSend_to_address), (''amount'', fieldContext_BankMsgSend_amount)])"
  by (rule contexts_okI [OF object_lookup(5)]) (simp_all add: BankMsgSend_schema_def follow resolver)

lemma resolver_Block [resolver]:
  "fcIsResolver fieldContext_Block_hash = False"
  "fcIsResolver fieldContext_Block_height = False"
  "fcIsResolver fieldContext_Block_version = False"
  "fcIsResolver fieldContext_Block_chain_id = False"
  "fcIsResolver fieldContext_Block_time = False"
  "fcIsResolver fieldContext_Block_num_txs = False"
  "fcIsResolver fieldContext_Block_total_txs = False"
  "fcIsResolver fieldContext_Block_app_version = False"
  "fcIsResolver fieldContext_Block_last_block_hash = False"
  "fcIsResolver fieldContext_Block_last_commit_hash = False"
  "fcIsResolver fieldContext_Block_validators_hash = False"
  "fcIsResolver fieldContext_Block_next_validators_hash = False"
  "fcIsResolver fieldContext_Block_consensus_hash = False"
  "fcIsResolver fieldContext_Block_app_hash = False"
  "fcIsResolver fieldContext_Block_last_results_hash = False"
  "fcIsResolver fieldContext_Block_proposer_address_raw = False"
  "fcIsResolver fieldContext_Block_txs = False"
  by (simp_all add: fieldContext_Block_hash_def fieldContext_Block_height_def fieldContext_Block_version_def
    fieldContext_Block_chain_id_def fieldContext_Block_time_def fieldContext_Block_num_txs_def
    fieldContext_Block_total_txs_def fieldContext_Block_app_version_def fieldContext_Block_last_block_hash_def
    fieldContext_Block_last_commit_hash_def fieldContext_Block_validators_hash_def
    fieldContext_Block_next_validators_hash_def fieldContext_Block_consensus_hash_def fieldContext_Block_app_hash_def
    fieldContext_Block_last_results_hash_def fieldContext_Block_proposer_address_raw_def fieldContext_Block_txs_def)

lemma contexts_Block [object_ok]:
  "contexts_ok (''Block'', [(''hash'', fieldContext_Block_hash), (''height'', fieldContext_Block_height),
     (''version'', fieldContext_Block_version), (''chain_id'', fieldContext_Block_chain_id),
     (''time'', fieldContext_Block_time), (''num_txs'', fieldContext_Block_num_txs),
     (''total_txs'', fieldContext_Block_total_txs), (''app_version'', fieldContext_Block_app_version),
     (''last_block_hash'', fieldContext_Block_last_block_hash),
     (''last_commit_hash'', fieldContext_Block_last_commit_hash),
     (''validators_hash'', fieldContext_Block_validators_hash),
     (''next_validators_hash'', fieldContext_Block_next_validators_hash),
     (''consensus_hash'', fieldContext_Block_consensus_hash), (''app_hash'', fieldContext_Block_app_hash),
     (''last_results_hash'', fieldContext_Block_last_results_hash),
     (''proposer_address_raw'', fieldContext_Block_proposer_address_raw), (''txs'', fieldContext_Block_txs)])"
  by (rule contexts_okI [OF object_lookup(4)]) (simp_all add: Block_schema_def follow resolver)

lemma resolver_BlockTransaction [resolver]:
  "fcIsResolver fieldContext_BlockTransaction_hash = False"
  "fcIsResolver fieldContext_BlockTransaction_fee = False"
  "fcIsResolver fieldContext_BlockTransaction_memo = False"
  "fcIsResolver fieldContext_BlockTransaction_content_raw = False"
  by (simp_all add: fieldContext_BlockTransaction_hash_def fieldContext_BlockTransaction_fee_def
    fieldContext_BlockTransaction_memo_def fieldContext_BlockTransaction_content_raw_def)

lemma contexts_BlockTransaction [object_ok]:
  "contexts_ok (''BlockTransaction'', [(''hash'', fieldContext_BlockTransaction_hash),
     (''fee'', fieldContext_BlockTransaction_fee), (''memo'', fieldContext_BlockTransaction_memo),
     (''content_raw'', fieldContext_BlockTransaction_content_raw)])"
  by (rule contexts_okI [OF object_lookup(3)]) (simp_all add: BlockTransaction_schema_def follow resolver)

lemma resolver_Coin [resolver]:
  "fcIsResolver fieldContext_Coin_amount = False"
  "fcIsResolver fieldContext_Coin_denom = False"
  by (simp_all add: fieldContext_Coin_amount_def fieldContext_Coin_denom_def)

lemma contexts_Coin [object_ok]:
  "contexts_ok (''Coin'', [(''amount'', fieldContext_Coin_amount), (''denom'', fieldContext_Coin_denom)])"
  by (rule contexts_okI [OF object_lookup(1)]) (simp_all add: Coin_schema_def follow resolver)

lemma resolver_GnoEvent [resolver]:
  "fcIsResolver fieldContext_GnoEvent_type = False"
  "fcIsResolver fieldContext_GnoEvent_pkg_path = False"
  "fcIsResolver fieldContext_GnoEvent_attrs = False"
  by (simp_all add: fieldContext_GnoEvent_type_def fieldContext_GnoEvent_pkg_path_def fieldContext_GnoEvent_attrs_def)

lemma contexts_GnoEvent [object_ok]:
  "contexts_ok (''GnoEvent'', [(''type'', fieldContext_GnoEvent_type),
     (''pkg_path'', fieldContext_GnoEvent_pkg_path), (''attrs'', fieldContext_GnoEvent_attrs)])"
  by (rule contexts_okI [OF object_lookup(14)]) (simp_all add: GnoEvent_schema_def follow resolver)

lemma resolver_GnoEventAttribute [resolver]:
  "fcIsResolver fieldContext_GnoEventAttribute_key = False"
  "fcIsResolver fieldContext_GnoEventAttribute_value = False"
  by (simp_all add: fieldContext_GnoEventAttribute_key_def fieldContext_GnoEventAttribute_value_def)

lemma contexts_GnoEventAttribute [object_ok]:
  "contexts_ok (''GnoEventAttribute'', [(''key'', fieldContext_GnoEventAttribute_key),
     (''value'', fieldContext_GnoEventAttribute_value)])"
  by (rule contexts_okI [OF object_lookup(13)]) (simp_all add: GnoEventAttribute_schema_def follow resolver)

lemma resolver_MemFile [resolver]:
  "fcIsResolver fieldContext_MemFile_name = False"
  "fcIsResolver fieldContext_MemFile_body = False"
  by (simp_all add: fieldContext_MemFile_name_def fieldContext_MemFile_body_def)

lemma contexts_MemFile [object_ok]:
  "contexts_ok (''MemFile'', [(''name'', fieldContext_MemFile_name), (''body'', fieldContext_MemFile_body)])"
  by (rule contexts_okI [OF object_lookup(7)]) (simp_all add: MemFile_schema_def follow resolver)

lemma resolver_MemPackage [resolver]:
  "fcIsResolver fieldContext_MemPackage_name = False"
  "fcIsResolver fieldContext_MemPackage_path = False"
  "fcIsResolver fieldContext_MemPackage_files = False"
  by (simp_all add: fieldContext_MemPackage_name_def fieldContext_MemPackage_path_def fieldContext_MemPackage_files_def)

lemma contexts_MemPackage [object_ok]:
  "contexts_ok (''MemPackage'', [(''name'', fieldContext_MemPackage_name), (''path'', fieldContext_MemPackage_path),
     (''files'', fieldContext_MemPackage_files)])"
  by (rule contexts_okI [OF object_lookup(8)]) (simp_all add: MemPackage_schema_def follow resolver)

lemma resolver_MsgAddPackage [resolver]:
  "fcIsResolver fieldContext_MsgAddPackage_creator = False"
  "fcIsResolver fieldContext_MsgAddPackage_package = False"
  "fcIsResolver fieldContext_MsgAddPackage_deposit = False"
  "fcIsResolver fieldContext_MsgAddPackage_send = False"
  "fcIsResolver fieldContext_MsgAddPackage_max_deposit = False"
  by (simp_all add: fieldContext_MsgAddPackage_creator_def fieldContext_MsgAddPackage_package_def
    fieldContext_MsgAddPackage_deposit_def fieldContext_MsgAddPackage_send_def fieldContext_MsgAddPackage_max_deposit_def)

lemma contexts_MsgAddPackage [object_ok]:
  "contexts_ok (''MsgAddPackage'', [(''creator'', fieldContext_MsgAddPackage_creator),
     (''package'', fieldContext_MsgAddPackage_package), (''deposit'', fieldContext_MsgAddPackage_deposit),
     (''send'', fieldContext_MsgAddPackage_send), (''max_deposit'', fieldContext_MsgAddPackage_max_deposit)])"
  by (rule contexts_okI [OF object_lookup(9)]) (simp_all add: MsgAddPackage_schema_def follow resolver)

lemma resolver_MsgCall [resolver]:
  "fcIsResolver fieldContext_MsgCall_caller = False"
  "fcIsResolver fieldContext_MsgCall_send = False"
  "fcIsResolver fieldContext_MsgCall_pkg_path = False"
  "fcIsResolver fieldContext_MsgCall_func = False"
  "fcIsResolver fieldContext_MsgCall_args = False"
  "fcIsResolver fieldContext_MsgCall_max_deposit = False"
  by (simp_all add: fieldContext_MsgCall_caller_def fieldContext_MsgCall_send_def fieldContext_MsgCall_pkg_path_def
    fieldContext_MsgCall_func_def fieldContext_MsgCall_args_def fieldContext_MsgCall_max_deposit_def)

lemma contexts_MsgCall [object_ok]:
  "contexts_ok (''MsgCall'', [(''caller'', fieldContext_MsgCall_caller), (''send'', fieldContext_MsgCall_send),
     (''pkg_path'', fieldContext_MsgCall_pkg_path), (''func'', fieldContext_MsgCall_func),
     (''args'', fieldContext_MsgCall_args), (''max_deposit'', fieldContext_MsgCall_max_deposit)])"
  by (rule contexts_okI [OF object_lookup(6)]) (simp_all add: MsgCall_schema_def follow resolver)

lemma resolver_MsgRun [resolver]:
  "fcIsResolver fieldContext_MsgRun_caller = False"
  "fcIsResolver fieldContext_MsgRun_send = False"
  "fcIsResolver fieldContext_MsgRun_package = False"
  "fcIsResolver fieldContext_MsgRun_max_deposit = False"
  by (simp_all add: fieldContext_MsgRun_caller_def fieldContext_MsgRun_send_def fieldContext_MsgRun_package_def
    fieldContext_MsgRun_max_deposit_def)

lemma contexts_MsgRun [object_ok]:
  "contexts_ok (''MsgRun'', [(''caller'', fieldContext_MsgRun_caller), (''send'', fieldContext_MsgRun_send),
     (''package'', fieldContext_MsgRun_package), (''max_deposit'', fieldContext_MsgRun_max_deposit)])"
  by (rule contexts_okI [OF object_lookup(10)]) (simp_all add: MsgRun_schema_def follow resolver)

lemma resolver_Query [resolver]:
  "fcIsResolver fieldContext_Query_transactions = True"
  "fcIsResolver fieldContext_Query_blocks = True"
  "fcIsResolver fieldContext_Query_latestBlockHeight = True"
  "fcIsResolver fieldContext_Query_getBlocks = True"
  "fcIsResolver fieldContext_Query_getTransactions = True"
  by (simp_all add: fieldContext_Query_transactions_def fieldContext_Query_blocks_def
    fieldContext_Query_latestBlockHeight_def fieldContext_Query_getBlocks_def fieldContext_Query_getTransactions_def)

lemma contexts_Query [object_ok]:
  "contexts_ok (''Query'',
    [(''transactions'', fieldContext_Query_transactions),
     (''blocks'', fieldContext_Query_blocks),
     (''latestBlockHeight'', fieldContext_Query_latestBlockHeight),
     (''getBlocks'', fieldContext_Query_getBlocks),
     (''getTransactions'', fieldContext_Query_getTransactions),
     (''__type'', metaContext Ctx_Query__type),
     (''__schema'', metaContext Ctx_Query__schema)])"
  by (rule contexts_okI [OF object_lookup(20)])
    (simp_all add: Query_schema_def meta_Query_schema_def follow resolver meta_follows)

lemma resolver_StorageDepositEvent [resolver]:
  "fcIsResolver fieldContext_StorageDepositEvent_type = False"
  "fcIsResolver fieldContext_StorageDepositEvent_bytes_delta = False"
  "fcIsResolver fieldContext_StorageDepositEvent_fee_delta = False"
  "fcIsResolver fieldContext_StorageDepositEvent_pkg_path = False"
  by (simp_all add: fieldContext_StorageDepositEvent_type_def fieldContext_StorageDepositEvent_bytes_delta_def
    fieldContext_StorageDepositEvent_fee_delta_def fieldContext_StorageDepositEvent_pkg_path_def)

lemma contexts_StorageDepositEvent [object_ok]:
  "contexts_ok (''StorageDepositEvent'', [(''type'', fieldContext_StorageDepositEvent_type),
     (''bytes_delta'', fieldContext_StorageDepositEvent_bytes_delta),
     (''fee_delta'', fieldContext_StorageDepositEvent_fee_delta),
     (''pkg_path'', fieldContext_StorageDepositEvent_pkg_path)])"
  by (rule contexts_okI [OF object_lookup(15)]) (simp_all add: StorageDepositEvent_schema_def follow resolver)

lemma resolver_StorageUnlockEvent [resolver]:
  "fcIsResolver fieldContext_StorageUnlockEvent_type = False"
  "fcIsResolver fieldContext_StorageUnlockEvent_bytes_delta = False"
  "fcIsResolver fieldContext_StorageUnlockEvent_fee_refund = False"
  "fcIsResolver fieldContext_StorageUnlockEvent_pkg_path = False"
  by (simp_all add: fieldContext_StorageUnlockEvent_type_def fieldContext_StorageUnlockEvent_bytes_delta_def
    fieldContext_StorageUnlockEvent_fee_refund_def fieldContext_StorageUnlockEvent_pkg_path_def)

lemma contexts_StorageUnlockEvent [object_ok]:
  "contexts_ok (''StorageUnlockEvent'', [(''type'', fieldContext_StorageUnlockEvent_type),
     (''bytes_delta'', fieldContext_StorageUnlockEvent_bytes_delta),
     (''fee_refund'', fieldContext_StorageUnlockEvent_fee_refund),
     (''pkg_path'', fieldContext_StorageUnlockEvent_pkg_path)])"
  by (rule contexts_okI [OF object_lookup(16)]) (simp_all add: StorageUnlockEvent_schema_def follow resolver)

lemma resolver_Subscription [resolver]:
  "fcIsResolver fieldContext_Subscription_transactions = True"
  "fcIsResolver fieldContext_Subscription_blocks = True"
  "fcIsResolver fieldContext_Subscription_getTransactions = True"
  "fcIsResolver fieldContext_Subscription_getBlocks = True"
  by (simp_all add: fieldContext_Subscription_transactions_def fieldContext_Subscription_blocks_def
    fieldContext_Subscription_getTransactions_def fieldContext_Subscription_getBlocks_def)

lemma contexts_Subscription [object_ok]:
  "contexts_ok (''Subscription'', [(''transactions'', fieldContext_Subscription_transactions),
     (''blocks'', fieldContext_Subscription_blocks),
     (''getTransactions'', fieldContext_Subscription_getTransactions),
     (''getBlocks'', fieldContext_Subscription_getBlocks)])"
  by (rule contexts_okI [OF schema_roots(2)]) (simp_all add: Subscription_schema_def follow resolver)

lemma resolver_Transaction [resolver]:
  "fcIsResolver fieldContext_Transaction_index = False"
  "fcIsResolver fieldContext_Transaction_hash = False"
  "fcIsResolver fieldContext_Transaction_success = False"
  "fcIsResolver fieldContext_Transaction_block_height = False"
  "fcIsResolver fieldContext_Transaction_gas_wanted = False"
  "fcIsResolver fieldContext_Transaction_gas_used = False"
  "fcIsResolver fieldContext_Transaction_gas_fee = False"
  "fcIsResolver fieldContext_Transaction_content_raw = False"
  "fcIsResolver fieldContext_Transaction_messages = False"
  "fcIsResolver fieldContext_Transaction_memo = False"
  "fcIsResolver fieldContext_Transaction_response = False"
  by (simp_all add: fieldContext_Transaction_index_def fieldContext_Transaction_hash_def
    fieldContext_Transaction_success_def fieldContext_Transaction_block_height_def
    fieldContext_Transaction_gas_wanted_def fieldContext_Transaction_gas_used_def
    fieldContext_Transaction_gas_fee_def fieldContext_Transaction_content_raw_def
    fieldContext_Transaction_messages_def fieldContext_Transaction_memo_def fieldContext_Transaction_response_def)

lemma contexts_Transaction [object_ok]:
  "contexts_ok (''Transaction'', [(''index'', fieldContext_Transaction_index),
     (''hash'', fieldContext_Transaction_hash), (''success'', fieldContext_Transaction_success),
     (''block_height'', fieldContext_Transaction_block_height),
     (''gas_wanted'', fieldContext_Transaction_gas_wanted), (''gas_used'', fieldContext_Transaction_gas_used),
     (''gas_fee'', fieldContext_Transaction_gas_fee), (''content_raw'', fieldContext_Transaction_content_raw),
     (''messages'', fieldContext_Transaction_messages), (''memo'', fieldContext_Transaction_memo),
     (''response'', fieldContext_Transaction_response)])"
  by (rule contexts_okI [OF object_lookup(19)]) (simp_all add: Transaction_schema_def follow resolver)

lemma resolver_TransactionMessage [resolver]:
  "fcIsResolver fieldContext_TransactionMessage_typeUrl = False"
  "fcIsResolver fieldContext_TransactionMessage_route = False"
  "fcIsResolver fieldContext_TransactionMessage_value = False"
  by (simp_all add: fieldContext_TransactionMessage_typeUrl_def fieldContext_TransactionMessage_route_def
    fieldContext_TransactionMessage_value_def)

lemma contexts_TransactionMessage [object_ok]:
  "contexts_ok (''TransactionMessage'', [(''typeUrl'', fieldContext_TransactionMessage_typeUrl),
     (''route'', fieldContext_TransactionMessage_route), (''value'', fieldContext_TransactionMessage_value)])"
  by (rule contexts_okI [OF object_lookup(12)]) (simp_all add: TransactionMessage_schema_def follow resolver)

lemma resolver_TransactionResponse [resolver]:
  "fcIsResolver fieldContext_TransactionResponse_log = False"
  "fcIsResolver fieldContext_TransactionResponse_info = False"
  "fcIsResolver fieldContext_TransactionResponse_error = False"
  "fcIsResolver fieldContext_TransactionResponse_data = False"
  "fcIsResolver fieldContext_TransactionResponse_events = False"
  by (simp_all add: fieldContext_TransactionResponse_log_def fieldContext_TransactionResponse_info_def
    fieldContext_TransactionResponse_error_def fieldContext_TransactionResponse_data_def
    fieldContext_TransactionResponse_events_def)

lemma contexts_TransactionResponse [object_ok]:
  "contexts_ok (''TransactionResponse'', [(''log'', fieldContext_TransactionResponse_log),
     (''info'', fieldContext_TransactionResponse_info), (''error'', fieldContext_TransactionResponse_error),
     (''data'', fieldContext_TransactionResponse_data), (''events'', fieldContext_TransactionResponse_events)])"
  by (rule contexts_okI [OF object_lookup(18)]) (simp_all add: TransactionResponse_schema_def follow resolver)

lemma resolver_TxFee [resolver]:
  "fcIsResolver fieldContext_TxFee_gas_wanted = False"
  "fcIsResolver fieldContext_TxFee_gas_fee = False"
  by (simp_all add: fieldContext_TxFee_gas_wanted_def fieldContext_TxFee_gas_fee_def)

lemma contexts_TxFee [object_ok]:
  "contexts_ok (''TxFee'', [(''gas_wanted'', fieldContext_TxFee_gas_wanted), (''gas_fee'', fieldContext_TxFee_gas_fee)])"
  by (rule contexts_okI [OF object_lookup(2)]) (simp_all add: TxFee_schema_def follow resolver)

lemma resolver_UnexpectedMessage [resolver]:
  "fcIsResolver fieldContext_UnexpectedMessage_raw = False"
  by (simp_all add: fieldContext_UnexpectedMessage_raw_def)

lemma contexts_UnexpectedMessage [object_ok]:
  "contexts_ok (''UnexpectedMessage'', [(''raw'', fieldContext_UnexpectedMessage_raw)])"
  by (rule contexts_okI [OF object_lookup(11)]) (simp_all add: UnexpectedMessage_schema_def follow resolver)

lemma resolver_UnknownEvent [resolver]:
  "fcIsResolver fieldContext_UnknownEvent_value = False"
  by (simp_all add: fieldContext_UnknownEvent_value_def)

lemma contexts_UnknownEvent [object_ok]:
  "contexts_ok (''UnknownEvent'', [(''value'', fieldContext_UnknownEvent_value)])"
  by (rule contexts_okI [OF object_lookup(17)]) (simp_all add: UnknownEvent_schema_def follow resolver)

lemma contexts_MetaSchema [object_ok]:
  "contexts_ok (''__Schema'',
    [(''description'', metaContext Ctx_Schema_description),
     (''types'', metaContext Ctx_Schema_types),
     (''queryType'', metaContext Ctx_Schema_queryType),
     (''mutationType'', metaContext Ctx_Schema_mutationType),
     (''subscriptionType'', metaContext Ctx_Schema_subscriptionType),
     (''directives'', metaContext Ctx_Schema_directives)])"
  by (rule contexts_okI [OF object_lookup(21)]) (simp_all add: meta_Schema_schema_def meta_follows)

lemma contexts_MetaType [object_ok]:
  "contexts_ok (''__Type'',
    [(''kind'', metaContext Ctx_Type_kind),
     (''name'', metaContext Ctx_Type_name),
     (''description'', metaContext Ctx_Type_description),
     (''fields'', metaContext Ctx_Type_fields),
     (''interfaces'', metaContext Ctx_Type_interfaces),
     (''possibleTypes'', metaContext Ctx_Type_possibleTypes),
     (''enumValues'', metaContext Ctx_Type_enumValues),
     (''inputFields'', metaContext Ctx_Type_inputFields),
     (''ofType'', metaContext Ctx_Type_ofType),
     (''specifiedByURL'', metaContext Ctx_Type_specifiedByURL)])"
  by (rule contexts_okI [OF object_lookup(22)]) (simp_all add: meta_Type_schema_def meta_follows)

lemma contexts_MetaField [object_ok]:
  "contexts_ok (''__Field'',
    [(''name'', metaContext Ctx_Field_name),
     (''description'', metaContext Ctx_Field_description),
     (''args'', metaContext Ctx_Field_args),
     (''type'', metaContext Ctx_Field_type),
     (''isDeprecated'', metaContext Ctx_Field_isDeprecated),
     (''deprecationReason'', metaContext Ctx_Field_deprecationReason)])"
  by (rule contexts_okI [OF object_lookup(23)]) (simp_all add: meta_Field_schema_def meta_follows)

lemma contexts_MetaInputValue [object_ok]:
  "contexts_ok (''__InputValue'',
    [(''name'', metaContext Ctx_InputValue_name),
     (''description'', metaContext Ctx_InputValue_description),
     (''type'', metaContext Ctx_InputValue_type),
     (''defaultValue'', metaContext Ctx_InputValue_defaultValue)])"
  by (rule contexts_okI [OF object_lookup(24)]) (simp_all add: meta_InputValue_schema_def meta_follows)

lemma contexts_MetaEnumValue [object_ok]:
  "contexts_ok (''__EnumValue'',
    [(''name'', metaContext Ctx_EnumValue_name),
     (''description'', metaContext Ctx_EnumValue_description),
     (''isDeprecated'', metaContext Ctx_EnumValue_isDeprecated),
     (''deprecationReason'', metaContext Ctx_EnumValue_deprecationReason)])"
  by (rule contexts_okI [OF object_lookup(25)]) (simp_all add: meta_EnumValue_schema_def meta_follows)

lemma contexts_MetaDirective [object_ok]:
  "contexts_ok (''__Directive'',
    [(''name'', metaContext Ctx_Directive_name),
     (''description'', metaContext Ctx_Directive_description),
     (''locations'', metaContext Ctx_Directive_locations),
     (''args'', metaContext Ctx_Directive_args),
     (''isRepeatable'', metaContext Ctx_Directive_isRepeatable)])"
  by (rule contexts_okI [OF object_lookup(26)]) (simp_all add: meta_Directive_schema_def meta_follows)

text \<open>
  C18. The contexts of the fields agree with the schema, introspection included: there are contexts for exactly the
  objects of the schema and for exactly their fields; the one of a field knows the fields inside its value, at every depth,
  and those alone; and a resolver stands behind the fields of queries and subscriptions, but not behind the two of
  introspection, and behind no other.
\<close>

theorem field_contexts_follow_schema:
  "map fst object_contexts = [ty. (ty, d) \<leftarrow> schema_types, case d of DObject _ \<Rightarrow> True | _ \<Rightarrow> False] \<and>
   (\<forall>tc \<in> set object_contexts. contexts_ok tc)"
proof
  show "map fst object_contexts = [ty. (ty, d) \<leftarrow> schema_types, case d of DObject _ \<Rightarrow> True | _ \<Rightarrow> False]"
    by (simp add: object_contexts_def schema_types_def)
  show "\<forall>tc \<in> set object_contexts. contexts_ok tc"
    by (simp only: object_contexts_def list.set ball_simps object_ok simp_thms)
qed

text \<open>Inside the transactions of a block.\<close>

theorem field_contexts_follow_schema_witness:
  "contexts_ok (''BlockTransaction'', [(''hash'', fieldContext_BlockTransaction_hash),
     (''fee'', fieldContext_BlockTransaction_fee), (''memo'', fieldContext_BlockTransaction_memo),
     (''content_raw'', fieldContext_BlockTransaction_content_raw)]) \<and>
   fcChild fieldContext_Block_txs ''fee'' = Inr fieldContext_BlockTransaction_fee"
proof
  show "contexts_ok (''BlockTransaction'', [(''hash'', fieldContext_BlockTransaction_hash),
    (''fee'', fieldContext_BlockTransaction_fee),
      (''memo'', fieldContext_BlockTransaction_memo), (''content_raw'', fieldContext_BlockTransaction_content_raw)])"
    by (rule field_contexts_follow_schema [THEN conjunct2, THEN bspec]) (simp only: object_contexts_def list.set
    insert_iff simp_thms)
  show "fcChild fieldContext_Block_txs ''fee'' = Inr fieldContext_BlockTransaction_fee"
    by (simp add: fieldContext_Block_txs_def children_def)
qed

end
