(* ===== verification/Graph_Complexity.thy ===== *)
theory Graph_Complexity
  imports Graph_Responses Graph_Requests
begin

text \<open>
  The complexity of a query: \<open>executableSchema.Complexity\<close> of \<open>serve/graph/generated.go\<close> asks the function that the
  configuration has for a field, if there is one, and else leaves the complexity to the library. The fields it knows
  are those of the schema. The configuration of \<open>Setup\<close> has no such function.
\<close>

section \<open>The configuration\<close>

text \<open>The complexity of a field is a function of the complexity of what is selected inside it.\<close>

type_synonym cost = "(i64 \<Rightarrow> i64) option"


record BankMsgSend_complexity =
  cxBankMsgSend_Amount :: cost
  cxBankMsgSend_FromAddress :: cost
  cxBankMsgSend_ToAddress :: cost

record Block_complexity =
  cxBlock_AppHash :: cost
  cxBlock_AppVersion :: cost
  cxBlock_ChainID :: cost
  cxBlock_ConsensusHash :: cost
  cxBlock_Hash :: cost
  cxBlock_Height :: cost
  cxBlock_LastBlockHash :: cost
  cxBlock_LastCommitHash :: cost
  cxBlock_LastResultsHash :: cost
  cxBlock_NextValidatorsHash :: cost
  cxBlock_NumTxs :: cost
  cxBlock_ProposerAddressRaw :: cost
  cxBlock_Time :: cost
  cxBlock_TotalTxs :: cost
  cxBlock_Txs :: cost
  cxBlock_ValidatorsHash :: cost
  cxBlock_Version :: cost

record BlockTransaction_complexity =
  cxBlockTransaction_ContentRaw :: cost
  cxBlockTransaction_Fee :: cost
  cxBlockTransaction_Hash :: cost
  cxBlockTransaction_Memo :: cost

record Coin_complexity =
  cxCoin_Amount :: cost
  cxCoin_Denom :: cost

record GnoEvent_complexity =
  cxGnoEvent_Attrs :: cost
  cxGnoEvent_PkgPath :: cost
  cxGnoEvent_Type :: cost

record GnoEventAttribute_complexity =
  cxGnoEventAttribute_Key :: cost
  cxGnoEventAttribute_Value :: cost

record MemFile_complexity =
  cxMemFile_Body :: cost
  cxMemFile_Name :: cost

record MemPackage_complexity =
  cxMemPackage_Files :: cost
  cxMemPackage_Name :: cost
  cxMemPackage_Path :: cost

record MsgAddPackage_complexity =
  cxMsgAddPackage_Creator :: cost
  cxMsgAddPackage_Deposit :: cost
  cxMsgAddPackage_MaxDeposit :: cost
  cxMsgAddPackage_Package :: cost
  cxMsgAddPackage_Send :: cost

record MsgCall_complexity =
  cxMsgCall_Args :: cost
  cxMsgCall_Caller :: cost
  cxMsgCall_Func :: cost
  cxMsgCall_MaxDeposit :: cost
  cxMsgCall_PkgPath :: cost
  cxMsgCall_Send :: cost

record MsgRun_complexity =
  cxMsgRun_Caller :: cost
  cxMsgRun_MaxDeposit :: cost
  cxMsgRun_Package :: cost
  cxMsgRun_Send :: cost

record Query_complexity =
  cxQuery_Blocks :: "(i64 \<Rightarrow> BlockFilter \<Rightarrow> i64) option"
  cxQuery_GetBlocks :: "(i64 \<Rightarrow> FilterBlock \<Rightarrow> BlockOrder option \<Rightarrow> i64) option"
  cxQuery_GetTransactions :: "(i64 \<Rightarrow> FilterTransaction \<Rightarrow> TransactionOrder option \<Rightarrow> i64) option"
  cxQuery_LatestBlockHeight :: cost
  cxQuery_Transactions :: "(i64 \<Rightarrow> TransactionFilter \<Rightarrow> i64) option"

record StorageDepositEvent_complexity =
  cxStorageDepositEvent_BytesDelta :: cost
  cxStorageDepositEvent_FeeDelta :: cost
  cxStorageDepositEvent_PkgPath :: cost
  cxStorageDepositEvent_Type :: cost

record StorageUnlockEvent_complexity =
  cxStorageUnlockEvent_BytesDelta :: cost
  cxStorageUnlockEvent_FeeRefund :: cost
  cxStorageUnlockEvent_PkgPath :: cost
  cxStorageUnlockEvent_Type :: cost

record Subscription_complexity =
  cxSubscription_Blocks :: "(i64 \<Rightarrow> BlockFilter \<Rightarrow> i64) option"
  cxSubscription_GetBlocks :: "(i64 \<Rightarrow> FilterBlock \<Rightarrow> i64) option"
  cxSubscription_GetTransactions :: "(i64 \<Rightarrow> FilterTransaction \<Rightarrow> i64) option"
  cxSubscription_Transactions :: "(i64 \<Rightarrow> TransactionFilter \<Rightarrow> i64) option"

record Transaction_complexity =
  cxTransaction_BlockHeight :: cost
  cxTransaction_ContentRaw :: cost
  cxTransaction_GasFee :: cost
  cxTransaction_GasUsed :: cost
  cxTransaction_GasWanted :: cost
  cxTransaction_Hash :: cost
  cxTransaction_Index :: cost
  cxTransaction_Memo :: cost
  cxTransaction_Messages :: cost
  cxTransaction_Response :: cost
  cxTransaction_Success :: cost

record TransactionMessage_complexity =
  cxTransactionMessage_Route :: cost
  cxTransactionMessage_TypeURL :: cost
  cxTransactionMessage_Value :: cost

record TransactionResponse_complexity =
  cxTransactionResponse_Data :: cost
  cxTransactionResponse_Error :: cost
  cxTransactionResponse_Events :: cost
  cxTransactionResponse_Info :: cost
  cxTransactionResponse_Log :: cost

record TxFee_complexity =
  cxTxFee_GasFee :: cost
  cxTxFee_GasWanted :: cost

record UnexpectedMessage_complexity =
  cxUnexpectedMessage_Raw :: cost

record UnknownEvent_complexity =
  cxUnknownEvent_Value :: cost

record ComplexityRoot =
  cxBankMsgSend :: BankMsgSend_complexity
  cxBlock :: Block_complexity
  cxBlockTransaction :: BlockTransaction_complexity
  cxCoin :: Coin_complexity
  cxGnoEvent :: GnoEvent_complexity
  cxGnoEventAttribute :: GnoEventAttribute_complexity
  cxMemFile :: MemFile_complexity
  cxMemPackage :: MemPackage_complexity
  cxMsgAddPackage :: MsgAddPackage_complexity
  cxMsgCall :: MsgCall_complexity
  cxMsgRun :: MsgRun_complexity
  cxQuery :: Query_complexity
  cxStorageDepositEvent :: StorageDepositEvent_complexity
  cxStorageUnlockEvent :: StorageUnlockEvent_complexity
  cxSubscription :: Subscription_complexity
  cxTransaction :: Transaction_complexity
  cxTransactionMessage :: TransactionMessage_complexity
  cxTransactionResponse :: TransactionResponse_complexity
  cxTxFee :: TxFee_complexity
  cxUnexpectedMessage :: UnexpectedMessage_complexity
  cxUnknownEvent :: UnknownEvent_complexity

section \<open>The fields\<close>

text \<open>
  What a case of the switch returns for the complexity below the field and the raw arguments: no complexity where no function
  is configured or the arguments do not decode. The arguments are decoded outside of a request, on the empty path.
\<close>

type_synonym field_cost = "i64 \<Rightarrow> (string \<rightharpoonup> gql_input) \<Rightarrow> (i64 \<times> bool) outcome"

definition plainCost :: "cost \<Rightarrow> field_cost" where
  "plainCost f childComplexity rawArgs =
     (case f of None \<Rightarrow> Ret (0, False) | Some f \<Rightarrow> Ret (f childComplexity, True))"

definition argsCost :: "(i64 \<Rightarrow> 'a \<Rightarrow> i64) option \<Rightarrow> ((string \<rightharpoonup> gql_input) \<Rightarrow> 'a decoded) \<Rightarrow> field_cost" where
  "argsCost f decode childComplexity rawArgs =
     (case f of
        None \<Rightarrow> Ret (0, False)
      | Some f \<Rightarrow> bindO (decode rawArgs) (\<lambda>args. Ret
          (case args of Inl err \<Rightarrow> (0, False) | Inr x \<Rightarrow> (f childComplexity x, True))))"


definition complexity_BankMsgSend :: "input_env \<Rightarrow> ComplexityRoot \<Rightarrow> (string \<times> field_cost) list" where
  "complexity_BankMsgSend E e =
    [(''BankMsgSend.amount'', plainCost (cxBankMsgSend_Amount (cxBankMsgSend e))),
     (''BankMsgSend.from_address'', plainCost (cxBankMsgSend_FromAddress (cxBankMsgSend e))),
     (''BankMsgSend.to_address'', plainCost (cxBankMsgSend_ToAddress (cxBankMsgSend e)))]"

definition complexity_Block :: "input_env \<Rightarrow> ComplexityRoot \<Rightarrow> (string \<times> field_cost) list" where
  "complexity_Block E e =
    [(''Block.app_hash'', plainCost (cxBlock_AppHash (cxBlock e))),
     (''Block.app_version'', plainCost (cxBlock_AppVersion (cxBlock e))),
     (''Block.chain_id'', plainCost (cxBlock_ChainID (cxBlock e))),
     (''Block.consensus_hash'', plainCost (cxBlock_ConsensusHash (cxBlock e))),
     (''Block.hash'', plainCost (cxBlock_Hash (cxBlock e))),
     (''Block.height'', plainCost (cxBlock_Height (cxBlock e))),
     (''Block.last_block_hash'', plainCost (cxBlock_LastBlockHash (cxBlock e))),
     (''Block.last_commit_hash'', plainCost (cxBlock_LastCommitHash (cxBlock e))),
     (''Block.last_results_hash'', plainCost (cxBlock_LastResultsHash (cxBlock e))),
     (''Block.next_validators_hash'', plainCost (cxBlock_NextValidatorsHash (cxBlock e))),
     (''Block.num_txs'', plainCost (cxBlock_NumTxs (cxBlock e))),
     (''Block.proposer_address_raw'', plainCost (cxBlock_ProposerAddressRaw (cxBlock e))),
     (''Block.time'', plainCost (cxBlock_Time (cxBlock e))),
     (''Block.total_txs'', plainCost (cxBlock_TotalTxs (cxBlock e))),
     (''Block.txs'', plainCost (cxBlock_Txs (cxBlock e))),
     (''Block.validators_hash'', plainCost (cxBlock_ValidatorsHash (cxBlock e))),
     (''Block.version'', plainCost (cxBlock_Version (cxBlock e)))]"

definition complexity_BlockTransaction :: "input_env \<Rightarrow> ComplexityRoot \<Rightarrow> (string \<times> field_cost) list" where
  "complexity_BlockTransaction E e =
    [(''BlockTransaction.content_raw'', plainCost (cxBlockTransaction_ContentRaw (cxBlockTransaction e))),
     (''BlockTransaction.fee'', plainCost (cxBlockTransaction_Fee (cxBlockTransaction e))),
     (''BlockTransaction.hash'', plainCost (cxBlockTransaction_Hash (cxBlockTransaction e))),
     (''BlockTransaction.memo'', plainCost (cxBlockTransaction_Memo (cxBlockTransaction e)))]"

definition complexity_Coin :: "input_env \<Rightarrow> ComplexityRoot \<Rightarrow> (string \<times> field_cost) list" where
  "complexity_Coin E e =
    [(''Coin.amount'', plainCost (cxCoin_Amount (cxCoin e))),
     (''Coin.denom'', plainCost (cxCoin_Denom (cxCoin e)))]"

definition complexity_GnoEvent :: "input_env \<Rightarrow> ComplexityRoot \<Rightarrow> (string \<times> field_cost) list" where
  "complexity_GnoEvent E e =
    [(''GnoEvent.attrs'', plainCost (cxGnoEvent_Attrs (cxGnoEvent e))),
     (''GnoEvent.pkg_path'', plainCost (cxGnoEvent_PkgPath (cxGnoEvent e))),
     (''GnoEvent.type'', plainCost (cxGnoEvent_Type (cxGnoEvent e)))]"

definition complexity_GnoEventAttribute :: "input_env \<Rightarrow> ComplexityRoot \<Rightarrow> (string \<times> field_cost) list" where
  "complexity_GnoEventAttribute E e =
    [(''GnoEventAttribute.key'', plainCost (cxGnoEventAttribute_Key (cxGnoEventAttribute e))),
     (''GnoEventAttribute.value'', plainCost (cxGnoEventAttribute_Value (cxGnoEventAttribute e)))]"

definition complexity_MemFile :: "input_env \<Rightarrow> ComplexityRoot \<Rightarrow> (string \<times> field_cost) list" where
  "complexity_MemFile E e =
    [(''MemFile.body'', plainCost (cxMemFile_Body (cxMemFile e))),
     (''MemFile.name'', plainCost (cxMemFile_Name (cxMemFile e)))]"

definition complexity_MemPackage :: "input_env \<Rightarrow> ComplexityRoot \<Rightarrow> (string \<times> field_cost) list" where
  "complexity_MemPackage E e =
    [(''MemPackage.files'', plainCost (cxMemPackage_Files (cxMemPackage e))),
     (''MemPackage.name'', plainCost (cxMemPackage_Name (cxMemPackage e))),
     (''MemPackage.path'', plainCost (cxMemPackage_Path (cxMemPackage e)))]"

definition complexity_MsgAddPackage :: "input_env \<Rightarrow> ComplexityRoot \<Rightarrow> (string \<times> field_cost) list" where
  "complexity_MsgAddPackage E e =
    [(''MsgAddPackage.creator'', plainCost (cxMsgAddPackage_Creator (cxMsgAddPackage e))),
     (''MsgAddPackage.deposit'', plainCost (cxMsgAddPackage_Deposit (cxMsgAddPackage e))),
     (''MsgAddPackage.max_deposit'', plainCost (cxMsgAddPackage_MaxDeposit (cxMsgAddPackage e))),
     (''MsgAddPackage.package'', plainCost (cxMsgAddPackage_Package (cxMsgAddPackage e))),
     (''MsgAddPackage.send'', plainCost (cxMsgAddPackage_Send (cxMsgAddPackage e)))]"

definition complexity_MsgCall :: "input_env \<Rightarrow> ComplexityRoot \<Rightarrow> (string \<times> field_cost) list" where
  "complexity_MsgCall E e =
    [(''MsgCall.args'', plainCost (cxMsgCall_Args (cxMsgCall e))),
     (''MsgCall.caller'', plainCost (cxMsgCall_Caller (cxMsgCall e))),
     (''MsgCall.func'', plainCost (cxMsgCall_Func (cxMsgCall e))),
     (''MsgCall.max_deposit'', plainCost (cxMsgCall_MaxDeposit (cxMsgCall e))),
     (''MsgCall.pkg_path'', plainCost (cxMsgCall_PkgPath (cxMsgCall e))),
     (''MsgCall.send'', plainCost (cxMsgCall_Send (cxMsgCall e)))]"

definition complexity_MsgRun :: "input_env \<Rightarrow> ComplexityRoot \<Rightarrow> (string \<times> field_cost) list" where
  "complexity_MsgRun E e =
    [(''MsgRun.caller'', plainCost (cxMsgRun_Caller (cxMsgRun e))),
     (''MsgRun.max_deposit'', plainCost (cxMsgRun_MaxDeposit (cxMsgRun e))),
     (''MsgRun.package'', plainCost (cxMsgRun_Package (cxMsgRun e))),
     (''MsgRun.send'', plainCost (cxMsgRun_Send (cxMsgRun e)))]"

definition complexity_Query :: "input_env \<Rightarrow> ComplexityRoot \<Rightarrow> (string \<times> field_cost) list" where
  "complexity_Query E e =
    [(''Query.blocks'', argsCost (cxQuery_Blocks (cxQuery e)) (field_Query_blocks_args E [])),
     (''Query.getBlocks'', argsCost (map_option (\<lambda>f child. case_prod (f child)) (cxQuery_GetBlocks (cxQuery e))) (field_Query_getBlocks_args E [])),
     (''Query.getTransactions'', argsCost (map_option (\<lambda>f child. case_prod (f child)) (cxQuery_GetTransactions (cxQuery e))) (field_Query_getTransactions_args E [])),
     (''Query.latestBlockHeight'', plainCost (cxQuery_LatestBlockHeight (cxQuery e))),
     (''Query.transactions'', argsCost (cxQuery_Transactions (cxQuery e)) (field_Query_transactions_args E []))]"

definition complexity_StorageDepositEvent :: "input_env \<Rightarrow> ComplexityRoot \<Rightarrow> (string \<times> field_cost) list" where
  "complexity_StorageDepositEvent E e =
    [(''StorageDepositEvent.bytes_delta'', plainCost (cxStorageDepositEvent_BytesDelta (cxStorageDepositEvent e))),
     (''StorageDepositEvent.fee_delta'', plainCost (cxStorageDepositEvent_FeeDelta (cxStorageDepositEvent e))),
     (''StorageDepositEvent.pkg_path'', plainCost (cxStorageDepositEvent_PkgPath (cxStorageDepositEvent e))),
     (''StorageDepositEvent.type'', plainCost (cxStorageDepositEvent_Type (cxStorageDepositEvent e)))]"

definition complexity_StorageUnlockEvent :: "input_env \<Rightarrow> ComplexityRoot \<Rightarrow> (string \<times> field_cost) list" where
  "complexity_StorageUnlockEvent E e =
    [(''StorageUnlockEvent.bytes_delta'', plainCost (cxStorageUnlockEvent_BytesDelta (cxStorageUnlockEvent e))),
     (''StorageUnlockEvent.fee_refund'', plainCost (cxStorageUnlockEvent_FeeRefund (cxStorageUnlockEvent e))),
     (''StorageUnlockEvent.pkg_path'', plainCost (cxStorageUnlockEvent_PkgPath (cxStorageUnlockEvent e))),
     (''StorageUnlockEvent.type'', plainCost (cxStorageUnlockEvent_Type (cxStorageUnlockEvent e)))]"

definition complexity_Subscription :: "input_env \<Rightarrow> ComplexityRoot \<Rightarrow> (string \<times> field_cost) list" where
  "complexity_Subscription E e =
    [(''Subscription.blocks'', argsCost (cxSubscription_Blocks (cxSubscription e)) (field_Subscription_blocks_args E [])),
     (''Subscription.getBlocks'', argsCost (cxSubscription_GetBlocks (cxSubscription e)) (field_Subscription_getBlocks_args E [])),
     (''Subscription.getTransactions'', argsCost (cxSubscription_GetTransactions (cxSubscription e)) (field_Subscription_getTransactions_args E [])),
     (''Subscription.transactions'', argsCost (cxSubscription_Transactions (cxSubscription e)) (field_Subscription_transactions_args E []))]"

definition complexity_Transaction :: "input_env \<Rightarrow> ComplexityRoot \<Rightarrow> (string \<times> field_cost) list" where
  "complexity_Transaction E e =
    [(''Transaction.block_height'', plainCost (cxTransaction_BlockHeight (cxTransaction e))),
     (''Transaction.content_raw'', plainCost (cxTransaction_ContentRaw (cxTransaction e))),
     (''Transaction.gas_fee'', plainCost (cxTransaction_GasFee (cxTransaction e))),
     (''Transaction.gas_used'', plainCost (cxTransaction_GasUsed (cxTransaction e))),
     (''Transaction.gas_wanted'', plainCost (cxTransaction_GasWanted (cxTransaction e))),
     (''Transaction.hash'', plainCost (cxTransaction_Hash (cxTransaction e))),
     (''Transaction.index'', plainCost (cxTransaction_Index (cxTransaction e))),
     (''Transaction.memo'', plainCost (cxTransaction_Memo (cxTransaction e))),
     (''Transaction.messages'', plainCost (cxTransaction_Messages (cxTransaction e))),
     (''Transaction.response'', plainCost (cxTransaction_Response (cxTransaction e))),
     (''Transaction.success'', plainCost (cxTransaction_Success (cxTransaction e)))]"

definition complexity_TransactionMessage :: "input_env \<Rightarrow> ComplexityRoot \<Rightarrow> (string \<times> field_cost) list" where
  "complexity_TransactionMessage E e =
    [(''TransactionMessage.route'', plainCost (cxTransactionMessage_Route (cxTransactionMessage e))),
     (''TransactionMessage.typeUrl'', plainCost (cxTransactionMessage_TypeURL (cxTransactionMessage e))),
     (''TransactionMessage.value'', plainCost (cxTransactionMessage_Value (cxTransactionMessage e)))]"

definition complexity_TransactionResponse :: "input_env \<Rightarrow> ComplexityRoot \<Rightarrow> (string \<times> field_cost) list" where
  "complexity_TransactionResponse E e =
    [(''TransactionResponse.data'', plainCost (cxTransactionResponse_Data (cxTransactionResponse e))),
     (''TransactionResponse.error'', plainCost (cxTransactionResponse_Error (cxTransactionResponse e))),
     (''TransactionResponse.events'', plainCost (cxTransactionResponse_Events (cxTransactionResponse e))),
     (''TransactionResponse.info'', plainCost (cxTransactionResponse_Info (cxTransactionResponse e))),
     (''TransactionResponse.log'', plainCost (cxTransactionResponse_Log (cxTransactionResponse e)))]"

definition complexity_TxFee :: "input_env \<Rightarrow> ComplexityRoot \<Rightarrow> (string \<times> field_cost) list" where
  "complexity_TxFee E e =
    [(''TxFee.gas_fee'', plainCost (cxTxFee_GasFee (cxTxFee e))),
     (''TxFee.gas_wanted'', plainCost (cxTxFee_GasWanted (cxTxFee e)))]"

definition complexity_UnexpectedMessage :: "input_env \<Rightarrow> ComplexityRoot \<Rightarrow> (string \<times> field_cost) list" where
  "complexity_UnexpectedMessage E e =
    [(''UnexpectedMessage.raw'', plainCost (cxUnexpectedMessage_Raw (cxUnexpectedMessage e)))]"

definition complexity_UnknownEvent :: "input_env \<Rightarrow> ComplexityRoot \<Rightarrow> (string \<times> field_cost) list" where
  "complexity_UnknownEvent E e =
    [(''UnknownEvent.value'', plainCost (cxUnknownEvent_Value (cxUnknownEvent e)))]"

text \<open>The cases of the switch, in their order.\<close>

definition complexity_cases :: "input_env \<Rightarrow> ComplexityRoot \<Rightarrow> (string \<times> field_cost) list" where
  "complexity_cases E e =
    concat [complexity_BankMsgSend E e, complexity_Block E e, complexity_BlockTransaction E e,
      complexity_Coin E e, complexity_GnoEvent E e, complexity_GnoEventAttribute E e,
      complexity_MemFile E e, complexity_MemPackage E e, complexity_MsgAddPackage E e,
      complexity_MsgCall E e, complexity_MsgRun E e, complexity_Query E e,
      complexity_StorageDepositEvent E e, complexity_StorageUnlockEvent E e, complexity_Subscription E e,
      complexity_Transaction E e, complexity_TransactionMessage E e, complexity_TransactionResponse E e,
      complexity_TxFee E e, complexity_UnexpectedMessage E e, complexity_UnknownEvent E e]"

definition Complexity ::
    "input_env \<Rightarrow> ComplexityRoot \<Rightarrow> string \<Rightarrow> string \<Rightarrow> i64 \<Rightarrow> (string \<rightharpoonup> gql_input) \<Rightarrow> (i64 \<times> bool) outcome" where
  "Complexity E e typeName field childComplexity rawArgs =
     (case map_of (complexity_cases E e) (typeName @ ''.'' @ field) of
        None \<Rightarrow> Ret (0, False)
      | Some cost \<Rightarrow> cost childComplexity rawArgs)"

section \<open>The fields with a complexity are those of the schema\<close>

text \<open>The objects of the API: those of the schema without introspection.\<close>

definition api_objects :: "(string \<times> object_fields) list" where
  "api_objects =
    [(''BankMsgSend'', BankMsgSend_schema),
     (''Block'', Block_schema),
     (''BlockTransaction'', BlockTransaction_schema),
     (''Coin'', Coin_schema),
     (''GnoEvent'', GnoEvent_schema),
     (''GnoEventAttribute'', GnoEventAttribute_schema),
     (''MemFile'', MemFile_schema),
     (''MemPackage'', MemPackage_schema),
     (''MsgAddPackage'', MsgAddPackage_schema),
     (''MsgCall'', MsgCall_schema),
     (''MsgRun'', MsgRun_schema),
     (''Query'', Query_schema),
     (''StorageDepositEvent'', StorageDepositEvent_schema),
     (''StorageUnlockEvent'', StorageUnlockEvent_schema),
     (''Subscription'', Subscription_schema),
     (''Transaction'', Transaction_schema),
     (''TransactionMessage'', TransactionMessage_schema),
     (''TransactionResponse'', TransactionResponse_schema),
     (''TxFee'', TxFee_schema),
     (''UnexpectedMessage'', UnexpectedMessage_schema),
     (''UnknownEvent'', UnknownEvent_schema)]"

lemma api_names:
  "\<forall>(ty, fs) \<in> set api_objects. CHR ''.'' \<notin> set ty \<and> take 2 ty \<noteq> ''__'' \<and>
     (\<forall>f \<in> fst ` set fs. CHR ''.'' \<notin> set f \<and> take 2 f \<noteq> ''__'')"
  by code_simp

lemma schema_objects:
  assumes "schema ty = Some (DObject fs)"
  shows "take 2 ty = ''__'' \<or> (ty, fs) \<in> set api_objects \<or> ty = ''Query'' \<and> fs = Query_schema @ meta_Query_schema"
proof -
  have "(ty, DObject fs) \<in> set schema_types" using assms unfolding schema_def by (rule map_of_SomeD)
  then have "ty \<in> set [ty. (ty, d) \<leftarrow> schema_types, case d of DObject _ \<Rightarrow> True | _ \<Rightarrow> False]" by force
  then have "ty \<in> set [''BankMsgSend'', ''Block'', ''BlockTransaction'', ''Coin'', ''GnoEvent'', ''GnoEventAttribute'',
      ''MemFile'', ''MemPackage'', ''MsgAddPackage'', ''MsgCall'', ''MsgRun'', ''Query'',
      ''StorageDepositEvent'', ''StorageUnlockEvent'', ''Subscription'', ''Transaction'',
      ''TransactionMessage'', ''TransactionResponse'', ''TxFee'', ''UnexpectedMessage'', ''UnknownEvent'',
      ''__Schema'', ''__Type'', ''__Field'', ''__InputValue'', ''__EnumValue'', ''__Directive'']"
    by (simp add: schema_types_def)
  with assms show ?thesis
    by (simp only: list.set insert_iff empty_iff) (elim disjE; simp add: object_lookup schema_roots api_objects_def)
qed

lemma api_object:
  "(\<exists>fs. (ty, fs) \<in> set api_objects \<and> f \<in> fst ` set fs) \<longleftrightarrow>
   (\<exists>fs. schema ty = Some (DObject fs) \<and> f \<in> fst ` set fs) \<and> take 2 ty \<noteq> ''__'' \<and> take 2 f \<noteq> ''__''"
proof
  assume "\<exists>fs. (ty, fs) \<in> set api_objects \<and> f \<in> fst ` set fs"
  then obtain fs where f: "(ty, fs) \<in> set api_objects" "f \<in> fst ` set fs" by blast
  then have "schema ty = Some (DObject fs) \<or> ty = ''Query'' \<and> fs = Query_schema"
    by (auto simp: api_objects_def object_lookup schema_roots)
  with f api_names schema_roots(1) show "(\<exists>fs. schema ty = Some (DObject fs) \<and> f \<in> fst ` set fs) \<and> take 2 ty \<noteq> ''__'' \<and> take 2 f \<noteq> ''__''"
    by (fastforce simp: image_Un)
next
  assume a: "(\<exists>fs. schema ty = Some (DObject fs) \<and> f \<in> fst ` set fs) \<and> take 2 ty \<noteq> ''__'' \<and> take 2 f \<noteq> ''__''"
  then obtain fs where f: "schema ty = Some (DObject fs)" "f \<in> fst ` set fs" by blast
  from schema_objects [OF f(1)] a have "(ty, fs) \<in> set api_objects \<or> ty = ''Query'' \<and> fs = Query_schema @ meta_Query_schema"
    by blast
  then show "\<exists>fs. (ty, fs) \<in> set api_objects \<and> f \<in> fst ` set fs"
  proof
    assume q: "ty = ''Query'' \<and> fs = Query_schema @ meta_Query_schema"
    with f(2) a have "f \<in> fst ` set Query_schema" by (auto simp: meta_Query_schema_def)
    with q show ?thesis by (auto simp: api_objects_def)
  qed (use f(2) in blast)
qed

named_theorems case_keys

lemma keys_BankMsgSend [case_keys]: "fst ` set (complexity_BankMsgSend E e) = (\<lambda>f. ''BankMsgSend'' @ ''.'' @ f) ` fst ` set BankMsgSend_schema"
  by (auto simp: complexity_BankMsgSend_def BankMsgSend_schema_def)

lemma keys_Block [case_keys]: "fst ` set (complexity_Block E e) = (\<lambda>f. ''Block'' @ ''.'' @ f) ` fst ` set Block_schema"
  by (auto simp: complexity_Block_def Block_schema_def)

lemma keys_BlockTransaction [case_keys]: "fst ` set (complexity_BlockTransaction E e) = (\<lambda>f. ''BlockTransaction'' @ ''.'' @ f) ` fst ` set BlockTransaction_schema"
  by (auto simp: complexity_BlockTransaction_def BlockTransaction_schema_def)

lemma keys_Coin [case_keys]: "fst ` set (complexity_Coin E e) = (\<lambda>f. ''Coin'' @ ''.'' @ f) ` fst ` set Coin_schema"
  by (auto simp: complexity_Coin_def Coin_schema_def)

lemma keys_GnoEvent [case_keys]: "fst ` set (complexity_GnoEvent E e) = (\<lambda>f. ''GnoEvent'' @ ''.'' @ f) ` fst ` set GnoEvent_schema"
  by (auto simp: complexity_GnoEvent_def GnoEvent_schema_def)

lemma keys_GnoEventAttribute [case_keys]: "fst ` set (complexity_GnoEventAttribute E e) = (\<lambda>f. ''GnoEventAttribute'' @ ''.'' @ f) ` fst ` set GnoEventAttribute_schema"
  by (auto simp: complexity_GnoEventAttribute_def GnoEventAttribute_schema_def)

lemma keys_MemFile [case_keys]: "fst ` set (complexity_MemFile E e) = (\<lambda>f. ''MemFile'' @ ''.'' @ f) ` fst ` set MemFile_schema"
  by (auto simp: complexity_MemFile_def MemFile_schema_def)

lemma keys_MemPackage [case_keys]: "fst ` set (complexity_MemPackage E e) = (\<lambda>f. ''MemPackage'' @ ''.'' @ f) ` fst ` set MemPackage_schema"
  by (auto simp: complexity_MemPackage_def MemPackage_schema_def)

lemma keys_MsgAddPackage [case_keys]: "fst ` set (complexity_MsgAddPackage E e) = (\<lambda>f. ''MsgAddPackage'' @ ''.'' @ f) ` fst ` set MsgAddPackage_schema"
  by (auto simp: complexity_MsgAddPackage_def MsgAddPackage_schema_def)

lemma keys_MsgCall [case_keys]: "fst ` set (complexity_MsgCall E e) = (\<lambda>f. ''MsgCall'' @ ''.'' @ f) ` fst ` set MsgCall_schema"
  by (auto simp: complexity_MsgCall_def MsgCall_schema_def)

lemma keys_MsgRun [case_keys]: "fst ` set (complexity_MsgRun E e) = (\<lambda>f. ''MsgRun'' @ ''.'' @ f) ` fst ` set MsgRun_schema"
  by (auto simp: complexity_MsgRun_def MsgRun_schema_def)

lemma keys_Query [case_keys]: "fst ` set (complexity_Query E e) = (\<lambda>f. ''Query'' @ ''.'' @ f) ` fst ` set Query_schema"
  by (auto simp: complexity_Query_def Query_schema_def)

lemma keys_StorageDepositEvent [case_keys]: "fst ` set (complexity_StorageDepositEvent E e) = (\<lambda>f. ''StorageDepositEvent'' @ ''.'' @ f) ` fst ` set StorageDepositEvent_schema"
  by (auto simp: complexity_StorageDepositEvent_def StorageDepositEvent_schema_def)

lemma keys_StorageUnlockEvent [case_keys]: "fst ` set (complexity_StorageUnlockEvent E e) = (\<lambda>f. ''StorageUnlockEvent'' @ ''.'' @ f) ` fst ` set StorageUnlockEvent_schema"
  by (auto simp: complexity_StorageUnlockEvent_def StorageUnlockEvent_schema_def)

lemma keys_Subscription [case_keys]: "fst ` set (complexity_Subscription E e) = (\<lambda>f. ''Subscription'' @ ''.'' @ f) ` fst ` set Subscription_schema"
  by (auto simp: complexity_Subscription_def Subscription_schema_def)

lemma keys_Transaction [case_keys]: "fst ` set (complexity_Transaction E e) = (\<lambda>f. ''Transaction'' @ ''.'' @ f) ` fst ` set Transaction_schema"
  by (auto simp: complexity_Transaction_def Transaction_schema_def)

lemma keys_TransactionMessage [case_keys]: "fst ` set (complexity_TransactionMessage E e) = (\<lambda>f. ''TransactionMessage'' @ ''.'' @ f) ` fst ` set TransactionMessage_schema"
  by (auto simp: complexity_TransactionMessage_def TransactionMessage_schema_def)

lemma keys_TransactionResponse [case_keys]: "fst ` set (complexity_TransactionResponse E e) = (\<lambda>f. ''TransactionResponse'' @ ''.'' @ f) ` fst ` set TransactionResponse_schema"
  by (auto simp: complexity_TransactionResponse_def TransactionResponse_schema_def)

lemma keys_TxFee [case_keys]: "fst ` set (complexity_TxFee E e) = (\<lambda>f. ''TxFee'' @ ''.'' @ f) ` fst ` set TxFee_schema"
  by (auto simp: complexity_TxFee_def TxFee_schema_def)

lemma keys_UnexpectedMessage [case_keys]: "fst ` set (complexity_UnexpectedMessage E e) = (\<lambda>f. ''UnexpectedMessage'' @ ''.'' @ f) ` fst ` set UnexpectedMessage_schema"
  by (auto simp: complexity_UnexpectedMessage_def UnexpectedMessage_schema_def)

lemma keys_UnknownEvent [case_keys]: "fst ` set (complexity_UnknownEvent E e) = (\<lambda>f. ''UnknownEvent'' @ ''.'' @ f) ` fst ` set UnknownEvent_schema"
  by (auto simp: complexity_UnknownEvent_def UnknownEvent_schema_def)

lemma cases_keys:
  "fst ` set (complexity_cases E e) = {ty @ ''.'' @ f | ty fs f. (ty, fs) \<in> set api_objects \<and> f \<in> fst ` set fs}"
proof -
  have "fst ` set (complexity_cases E e) = (\<Union>(ty, fs) \<in> set api_objects. (\<lambda>f. ty @ ''.'' @ f) ` fst ` set fs)"
    by (simp only: complexity_cases_def api_objects_def set_concat image_UN list.set UN_insert UN_empty prod.case case_keys image_Un
        image_empty Union_insert Union_empty)
  then show ?thesis by auto
qed

lemma Complexity_known:
  "map_of (complexity_cases E e) (ty @ ''.'' @ f) \<noteq> None \<longleftrightarrow> (\<exists>fs. (ty, fs) \<in> set api_objects \<and> f \<in> fst ` set fs)"
proof -
  have e: "ty @ ''.'' @ f = ty' @ ''.'' @ f' \<longleftrightarrow> ty = ty' \<and> f = f'"
    if "(ty', fs) \<in> set api_objects" "f' \<in> fst ` set fs" for ty' f' fs
  proof -
    have "CHR ''.'' \<notin> set ty'" "CHR ''.'' \<notin> set f'" using api_names that by auto
    then show ?thesis using append_Cons_eq_iff [of "CHR ''.''" ty' f' ty f] by (auto simp: eq_commute)
  qed
  have "map_of (complexity_cases E e) (ty @ ''.'' @ f) \<noteq> None \<longleftrightarrow> ty @ ''.'' @ f \<in> fst ` set (complexity_cases E e)"
    by (simp add: map_of_eq_None_iff)
  also have "\<dots> \<longleftrightarrow> (\<exists>ty' fs f'. ty @ ''.'' @ f = ty' @ ''.'' @ f' \<and> (ty', fs) \<in> set api_objects \<and> f' \<in> fst ` set fs)"
    unfolding cases_keys by blast
  also have "\<dots> \<longleftrightarrow> (\<exists>fs. (ty, fs) \<in> set api_objects \<and> f \<in> fst ` set fs)"
    using e by blast
  finally show ?thesis .
qed

text \<open>The configuration of \<open>Setup\<close>.\<close>

definition noCosts :: ComplexityRoot where
  "noCosts = \<lparr>cxBankMsgSend = \<lparr>cxBankMsgSend_Amount = None, cxBankMsgSend_FromAddress = None, cxBankMsgSend_ToAddress = None\<rparr>,
     cxBlock = \<lparr>cxBlock_AppHash = None, cxBlock_AppVersion = None, cxBlock_ChainID = None, cxBlock_ConsensusHash = None, cxBlock_Hash = None, cxBlock_Height = None, cxBlock_LastBlockHash = None, cxBlock_LastCommitHash = None, cxBlock_LastResultsHash = None, cxBlock_NextValidatorsHash = None, cxBlock_NumTxs = None, cxBlock_ProposerAddressRaw = None, cxBlock_Time = None, cxBlock_TotalTxs = None, cxBlock_Txs = None, cxBlock_ValidatorsHash = None, cxBlock_Version = None\<rparr>,
     cxBlockTransaction = \<lparr>cxBlockTransaction_ContentRaw = None, cxBlockTransaction_Fee = None, cxBlockTransaction_Hash = None, cxBlockTransaction_Memo = None\<rparr>,
     cxCoin = \<lparr>cxCoin_Amount = None, cxCoin_Denom = None\<rparr>,
     cxGnoEvent = \<lparr>cxGnoEvent_Attrs = None, cxGnoEvent_PkgPath = None, cxGnoEvent_Type = None\<rparr>,
     cxGnoEventAttribute = \<lparr>cxGnoEventAttribute_Key = None, cxGnoEventAttribute_Value = None\<rparr>,
     cxMemFile = \<lparr>cxMemFile_Body = None, cxMemFile_Name = None\<rparr>,
     cxMemPackage = \<lparr>cxMemPackage_Files = None, cxMemPackage_Name = None, cxMemPackage_Path = None\<rparr>,
     cxMsgAddPackage = \<lparr>cxMsgAddPackage_Creator = None, cxMsgAddPackage_Deposit = None, cxMsgAddPackage_MaxDeposit = None, cxMsgAddPackage_Package = None, cxMsgAddPackage_Send = None\<rparr>,
     cxMsgCall = \<lparr>cxMsgCall_Args = None, cxMsgCall_Caller = None, cxMsgCall_Func = None, cxMsgCall_MaxDeposit = None, cxMsgCall_PkgPath = None, cxMsgCall_Send = None\<rparr>,
     cxMsgRun = \<lparr>cxMsgRun_Caller = None, cxMsgRun_MaxDeposit = None, cxMsgRun_Package = None, cxMsgRun_Send = None\<rparr>,
     cxQuery = \<lparr>cxQuery_Blocks = None, cxQuery_GetBlocks = None, cxQuery_GetTransactions = None, cxQuery_LatestBlockHeight = None, cxQuery_Transactions = None\<rparr>,
     cxStorageDepositEvent = \<lparr>cxStorageDepositEvent_BytesDelta = None, cxStorageDepositEvent_FeeDelta = None, cxStorageDepositEvent_PkgPath = None, cxStorageDepositEvent_Type = None\<rparr>,
     cxStorageUnlockEvent = \<lparr>cxStorageUnlockEvent_BytesDelta = None, cxStorageUnlockEvent_FeeRefund = None, cxStorageUnlockEvent_PkgPath = None, cxStorageUnlockEvent_Type = None\<rparr>,
     cxSubscription = \<lparr>cxSubscription_Blocks = None, cxSubscription_GetBlocks = None, cxSubscription_GetTransactions = None, cxSubscription_Transactions = None\<rparr>,
     cxTransaction = \<lparr>cxTransaction_BlockHeight = None, cxTransaction_ContentRaw = None, cxTransaction_GasFee = None, cxTransaction_GasUsed = None, cxTransaction_GasWanted = None, cxTransaction_Hash = None, cxTransaction_Index = None, cxTransaction_Memo = None, cxTransaction_Messages = None, cxTransaction_Response = None, cxTransaction_Success = None\<rparr>,
     cxTransactionMessage = \<lparr>cxTransactionMessage_Route = None, cxTransactionMessage_TypeURL = None, cxTransactionMessage_Value = None\<rparr>,
     cxTransactionResponse = \<lparr>cxTransactionResponse_Data = None, cxTransactionResponse_Error = None, cxTransactionResponse_Events = None, cxTransactionResponse_Info = None, cxTransactionResponse_Log = None\<rparr>,
     cxTxFee = \<lparr>cxTxFee_GasFee = None, cxTxFee_GasWanted = None\<rparr>,
     cxUnexpectedMessage = \<lparr>cxUnexpectedMessage_Raw = None\<rparr>,
     cxUnknownEvent = \<lparr>cxUnknownEvent_Value = None\<rparr>\<rparr>"

lemmas complexity_defs =
  complexity_BankMsgSend_def complexity_Block_def complexity_BlockTransaction_def complexity_Coin_def
  complexity_GnoEvent_def complexity_GnoEventAttribute_def complexity_MemFile_def complexity_MemPackage_def
  complexity_MsgAddPackage_def complexity_MsgCall_def complexity_MsgRun_def complexity_Query_def
  complexity_StorageDepositEvent_def complexity_StorageUnlockEvent_def complexity_Subscription_def complexity_Transaction_def
  complexity_TransactionMessage_def complexity_TransactionResponse_def complexity_TxFee_def complexity_UnexpectedMessage_def
  complexity_UnknownEvent_def

lemma none_configured: "(k, cost) \<in> set (complexity_cases E noCosts) \<Longrightarrow> cost c rawArgs = Ret (0, False)"
  by (auto simp: complexity_cases_def noCosts_def plainCost_def argsCost_def complexity_defs)

text \<open>
  The switch has a case for a name exactly if the name is an object of the API and a field of it, joined by a dot; and
  the configuration of \<open>Setup\<close> leaves every complexity to the library.
\<close>

lemma complexity_follows_schema:
  "(map_of (complexity_cases E e) (ty @ ''.'' @ f) \<noteq> None \<longleftrightarrow>
    (\<exists>fs. schema ty = Some (DObject fs) \<and> f \<in> fst ` set fs) \<and> take 2 ty \<noteq> ''__'' \<and> take 2 f \<noteq> ''__'') \<and>
   Complexity E noCosts ty f c rawArgs = Ret (0, False)"
proof
  show "Complexity E noCosts ty f c rawArgs = Ret (0, False)"
    unfolding Complexity_def using none_configured [OF map_of_SomeD] by (auto split: option.split)
qed (simp only: Complexity_known api_object)

end
