(* ===== verification/Serve_Health.thy ===== *)
theory Serve_Health
  imports Serve_Rpc Storage_Api Fetch_Fetcher
begin

text \<open>
  The health endpoints of \<open>serve/health/health.go\<close>. A handler is the list of its calls of the package \<open>render\<close>,
  in their order; the text of the current time is an argument.
\<close>

datatype info_value = InfoText string | InfoNumber u64

record health_response =
  hrInfo :: "(string \<times> info_value) list"
  hrMessage :: string

datatype render_call = RenderJSON health_response | RenderStatus int

definition health_handler :: "('st, 'wb, 'bi, 'ti) storage \<Rightarrow> string \<Rightarrow> 'st \<Rightarrow> render_call list" where
  "health_handler S now store =
     (case s_GetLatestHeight S store of
        Inl err \<Rightarrow>
          [RenderJSON \<lparr>hrInfo = [(''time'', InfoText now)],
                       hrMessage = ''storage is not reachable: '' @ errText err\<rparr>,
           RenderStatus 500]
      | Inr h \<Rightarrow>
          [RenderJSON \<lparr>hrInfo = [(''time'', InfoText now), (''height'', InfoNumber h)],
                       hrMessage = ''Server is responding''\<rparr>])"

definition ready_handler :: "string \<Rightarrow> bool \<times> go_error option \<Rightarrow> render_call list outcome" where
  "ready_handler now r =
     (case r of
        (True, _) \<Rightarrow>
          Ret [RenderJSON \<lparr>hrInfo = [(''time'', InfoText now)], hrMessage = ''node is ready''\<rparr>]
      | (False, None) \<Rightarrow> Panic ''invalid memory address or nil pointer dereference''
      | (False, Some err) \<Rightarrow>
          Ret [RenderJSON \<lparr>hrInfo = [(''time'', InfoText now)], hrMessage = ''node not ready: '' @ errText err\<rparr>,
               RenderStatus 500])"

text \<open>The fetcher names an error whenever it is not ready, so the second handler does not panic on it.\<close>

lemma ready_handler_fetcher: "\<exists>calls. ready_handler now (fst (Fetcher_IsReady Cl ctx f)) = Ret calls"
  by (auto simp: ready_handler_def Fetcher_IsReady_def split: sum.splits prod.splits)

text \<open>The status is set after the body was written: no call follows it.\<close>

lemma health_status_too_late:
  "s_GetLatestHeight S store = Inl err \<Longrightarrow>
   \<exists>body. health_handler S now store = [RenderJSON body, RenderStatus 500]"
  by (simp add: health_handler_def)

end
