(* ===== verification/Spec2Isabelle.thy ===== *)
theory Spec2Isabelle
  imports Services Live_Chain Graph_Contexts Graph_Complexity Serve_Health
begin

text \<open>
  Verification of the transaction indexer of gno.land (\<open>tx-indexer\<close>).

  The program. A fetcher follows a node of the chain: it asks for blocks and transaction results, chunk by
  chunk and with several workers, puts the answers into the slots of a queue and writes them, in the order of the chain, to an
  embedded key-value store (Pebble). Every stored block is signalled to an event manager. Two interfaces serve the
  store: a JSON-RPC server over HTTP and WebSocket with method handlers, filters and subscriptions, and a GraphQL server whose
  executor is generated by gqlgen, with query and subscription resolvers over the storage interface and the event manager.

  The theories, from the bottom up, with the sources under \<open>src/\<close> they model.
  \<^item> \<open>Indexer_Prelude\<close>: machine integers at their width (\<open>u64\<close>, \<open>u32\<close>, \<open>i64\<close>), errors as
    values (\<open>go_error\<close>), panics (\<open>outcome\<close>) and shared lemmas. \<open>Chain_Types\<close>: the data of the chain,
    and the operations of third-party packages on it as the record \<open>codec\<close>.
  \<^item> \<open>Storage_Encode\<close> (\<open>storage/encode.go\<close>): the key encoding; every decoder is the exact inverse of its encoder, keys are
    ordered and prefix-free. \<open>Storage_Api\<close> (\<open>storage/types.go\<close>): the interface as a record of functions, the
    abstract store of the writes, and the contract \<open>storage_api\<close> on which every client relies. \<open>Storage_Pebble\<close>
    (\<open>storage/pebble.go\<close>) and \<open>Storage_Contract\<close>: the Pebble store over the documented behaviour of
    Pebble (locale \<open>pebble_db\<close>), a refinement of the abstract store for every history of batches.
  \<^item> \<open>Node_Client\<close> (\<open>client\<close>, \<open>fetch/types.go\<close>), \<open>Fetch_Slots\<close> (\<open>fetch/slots.go\<close>), \<open>Fetch_Worker\<close>
    (\<open>fetch/worker.go\<close>), \<open>Fetch_Fetcher\<close> (\<open>fetch/fetch.go\<close>): the fetcher's operations, and
    \<open>FetchChainData\<close> with its workers as a step relation. \<open>Fetch_Correct\<close>: its invariant over all
    interleavings, progress and shutdown; \<open>Fetch_Complete\<close>: against an honest node the store holds the chain and its
    results, and how a stop can leave a hole; \<open>Fetch_Events\<close>: what it signals is the chain.
  \<^item> \<open>Events\<close> (\<open>events\<close>): queue, subscription loop and manager; order, delivery and closing.
  \<^item> \<open>Graph_Model\<close>, \<open>Graph_Filter\<close>, \<open>Graph_Filters\<close>, \<open>Graph_Legacy\<close> (\<open>serve/graph/model\<close>, \<open>block_filter.go\<close>,
    \<open>transaction_filter.go\<close>): the objects and the filter language with its logic and its bounds.
    \<open>Graph_Resolvers\<close> (\<open>all.resolvers.go\<close>, \<open>resolver.go\<close>) with \<open>Graph_Queries\<close> (queries are exact) and
    \<open>Graph_Subscriptions\<close> (what subscribers receive).
  \<^item> \<open>serve/graph/generated.go\<close>: its functions are instances of a few templates. On the way in, \<open>Graph_Decode\<close>
    (templates), \<open>Graph_Inputs\<close> (every input and argument), \<open>Graph_Schema\<close> (the schema),
    \<open>Graph_Input_Facts\<close> (what conforms is accepted), \<open>Graph_Input_Render\<close> (every filter can be asked for),
    \<open>Graph_Requests\<close> (both for the fields of the API). On the way out, \<open>Graph_Execute\<close> (templates), \<open>Graph_Introspect\<close>
    (the objects that describe the schema), \<open>Graph_Executors\<close> (every object, field and operation of the API),
    \<open>Graph_Responses\<close> (answers have the types of the schema, down to scalars and enumerations), \<open>Graph_Introspected\<close> (so have those of introspection, whose
    recursion is the one of the code), \<open>Graph_Reference\<close> (the functions compute a reference execution),
    \<open>Graph_Meta_Contexts\<close> and \<open>Graph_Contexts\<close> (the contexts of the fields), \<open>Graph_Complexity\<close> (the complexity of a
    field), \<open>Graph_Answers\<close> (what a client receives).
  \<^item> \<open>Serve_Gas\<close> (\<open>serve/methods\<close>), \<open>Serve_Rpc\<close> (\<open>serve/spec\<close>, \<open>metadata\<close>, \<open>encode\<close>), \<open>Serve_Conns\<close>
    (\<open>serve/conns\<close>, \<open>writer\<close>), \<open>Serve_Filters\<close> (\<open>serve/filters\<close>), \<open>Serve_Handlers\<close> (\<open>serve/handlers\<close>),
    \<open>Serve_JsonRpc\<close> (\<open>serve/jsonrpc.go\<close>), \<open>Serve_Health\<close> (\<open>serve/health\<close>).
  \<^item> \<open>Startup\<close> (\<open>cmd/start.go\<close>): the configuration, the services and the command; what is started serves the chain.
    \<open>Services\<close> (\<open>cmd/waiter.go\<close>, \<open>serve/server.go\<close>): the running program, from its start to its end.
  \<^item> \<open>Live_Chain\<close>: the fetcher, the event manager and a GraphQL subscriber together; what the subscriber receives is the chain.
  \<^item> This theory: the properties that span the fetcher, the store and the two interfaces.

  How the code is read. A struct is a record, a Go pointer that may be nil an \<open>option\<close>, a method a function that returns
  the new state, an \<open>error\<close> result the left of a sum or an option next to the value, and a panic the
  constructor \<open>Panic\<close> of \<open>outcome\<close>; goroutines, channels and locks are step relations
  with one step per action that other goroutines can see. A context is what a call sees of it: whether it is done when
  the call is made in a state of the node's client (\<open>ctx\<close>), \<open>context.Background()\<close> being never done; in a run of the fetcher it may be done from any
  step on (\<open>fs_cancel\<close>), after which calls may fail, workers may give up (\<open>fs_drop\<close>) and the loop may still work or return. What
  the fetcher promises of the chain holds while the context is not done, or for a client whose single requests for blocks do not heed it
  (\<open>heedless\<close>); what is indexed by then stays. The iteration of the store, the
  gap search and the loops of the resolvers may not end: they are \<open>partial_function (option)\<close>, and the properties
  state the value \<open>Some\<close>, so that they include termination. Functions with a measure are the
  filter evaluation, the decoding of nested inputs (the size of the value) and the reference execution (the size of the tree).
  The one bound on a recursion is the depth of the selections in introspection, whose types contain one another;
  \<open>introspection_recursion\<close> shows that it is enough where the selections of a field are inside those it was collected from (\<open>shallower\<close>), since the function satisfies the equation of the code. The
  contexts of introspection, which call one another without end, are values of a codatatype.
  Bounds are those of the code: 10000 elements per query, the sizes of chunks and slots, the 64 and 32 bits of heights and
  indices; where an addition can wrap around, the hypotheses say what keeps it from it.

  Parameters. Code that is not in the repository is an argument of the definitions that use it: Amino and the hashes
  (\<open>codec\<close>, law \<open>amino_codec\<close>), the packages that print and parse messages, events and coins (\<open>graph_env\<close>),
  Pebble (\<open>pebble\<close>, laws \<open>pebble_db\<close>), the ordered queue (\<open>slot_queue\<close>, laws \<open>insertion_queue\<close>), groups of goroutines
  (\<open>errgroup\<close>, laws \<open>error_group\<close>), the RPC client, JSON values,
  the scalars, errors and field collection of gqlgen (\<open>input_env\<close>, \<open>exec_env\<close>; laws \<open>library_ok\<close>,
  \<open>renders_ok\<close>, \<open>readable\<close> for times, \<open>writes_scalars\<close>) and its package that wraps the schema (\<open>introspection\<close>, laws
  \<open>shallower\<close>, \<open>names_enums\<close>). The node of the chain is a client of which \<open>honest\<close> and \<open>serves_results\<close> say what it answers. Every law has an instance in the theories on which the witnesses compute.

  Not modelled. The parsing of the command line (\<open>cmd/main.go\<close>), which is a call of a third-party package. Of
  \<open>generated.go\<close>: decoders and marshalers that nothing calls; the deferred delivery of fields, since no field can be
  deferred. The HTML page
  of the playground and the wiring of the routers. \<open>TxFilter.GetHashes\<close>, which nothing calls and which tells a nil
  transaction from an empty one. The code generator, whose output is modelled, the mocks and the tests.
\<close>

section \<open>From the chain to the client\<close>

context pebble_fetch
begin

lemma run_served:
  assumes run: "fetch_run_of P dbv C Q Cl f0 r" "frPhase r = Running" "frDone r \<longrightarrow> heedless Cl"
    and node: "honest Cl chain reqs" "chain_ok C chain"
    and start: "complete chain (db_store C (dbv (fStorage f0)))"
    and h: "Pebble_GetLatestHeight P (fStorage (frFetcher r)) = Inr h" "0 < n" "n \<le> h"
    and w: "FilterBlock_no_null w" "FilterBlock_MinMaxHeight w = Ret mm" "sound_bounds fBkHeight w mm"
    and small: "\<forall>m. stBlock (db_store C (dbv (fStorage (frFetcher r)))) m \<noteq> None \<longrightarrow> m < maxInt64"
    and accepted: "FilterBlock_Eval C G w (NewBlock (chain n)) = Ret True"
  shows "\<exists>e q bs. marshalBlock C (chain n) = Inr e \<and>
    GetBlockHandler (pebble_storage P C) C (fStorage (frFetcher r)) [AString (show_nat (unat n))] = (VString (base64 e), None) \<and>
    queryResolver_GetBlocks (pebble_storage P C) C G (\<lambda>_. False) (fStorage (frFetcher r)) w order = Some (Ret q) \<and>
    q = answer_of (map NewBlock bs) \<and> chain n \<in> set bs \<and>
    (NewBlock (chain n) \<in> set (qOut q) \<or> length (qOut q) = maxElementsPerQuery \<and> qAdded q = [maxReached])"
proof -
  let ?d = "fStorage (frFetcher r)"
  let ?st = "db_store C (dbv ?d)"
  have ok: "db_ok C (dbv ?d)" using run_ok [OF run(1,2)] .
  from run_complete [OF run node start h] P_reads(2) [OF ok, of n] have
    n: "stBlock ?st n = Some (chain n)" by (simp split: option.splits)
  obtain e where e: "marshalBlock C (chain n) = Inr e"
    using node(2) by (auto simp: chain_ok_def dest!: spec [of _ n] not_islD)
  have "GetBlockHandler (pebble_storage P C) C ?d [AString (show_nat (unat n))] = (VString (base64 e), None)"
    using handler_reads(1) [OF ok, of n] n e by (simp add: GetBlockHandler_def parseUint_show_nat PrepareValue_def)
  moreover define bs where "bs = in_order order (filter (\<lambda>b. FilterBlock_Eval C G w (NewBlock b) = Ret True) (stored_blocks ?st))"
  moreover have "queryResolver_GetBlocks (pebble_storage P C) C G (\<lambda>_. False) ?d w order = Some (Ret (answer_of (map NewBlock bs)))"
    using getBlocks_answer [OF ok w, of "\<lambda>_. False"] small by (simp add: bs_def)
  moreover have mem: "chain n \<in> set bs"
    using n accepted by (force simp: bs_def in_order_def stored_blocks_def dom_def)
  moreover have "NewBlock (chain n) \<in> set (qOut (answer_of (map NewBlock bs))) \<or>
      length (qOut (answer_of (map NewBlock bs))) = maxElementsPerQuery \<and> qAdded (answer_of (map NewBlock bs)) = [maxReached]"
    using mem by (cases "length bs < maxElementsPerQuery") (auto simp: answer_of_def)
  ultimately show ?thesis using e by blast
qed

end

text \<open>
  C1. What the chain holds is what both interfaces serve: on a node that serves one chain, from a store that held the chain up to its latest
  height, in every state in which the loop of the fetcher runs and its context is not done (or the client answers also then), and for every block
  from 1 to the latest height: the JSON-RPC method \<open>getBlock\<close> returns its Amino encoding in base64; and for every filter that accepts it,
  has no null elements, and whose height bounds are not negative and come from the filter as a whole, the GraphQL query \<open>getBlocks\<close> returns it
  or was cut at 10000 blocks, and says so (the heights stored being below the largest signed 64-bit number).
\<close>

theorem indexed_chain_is_served:
  assumes "pebble_fetch P dbv btv ient ipos C Q"
    and "fetch_run_of P dbv C Q Cl f0 r" and "frPhase r = Running" and "frDone r \<longrightarrow> heedless Cl"
    and "honest Cl chain reqs" and "chain_ok C chain"
    and "complete chain (db_store C (dbv (fStorage f0)))"
    and "Pebble_GetLatestHeight P (fStorage (frFetcher r)) = Inr h" and "0 < n" and "n \<le> h"
    and "FilterBlock_no_null w" and "FilterBlock_MinMaxHeight w = Ret mm" and "sound_bounds fBkHeight w mm"
    and "\<forall>m. stBlock (db_store C (dbv (fStorage (frFetcher r)))) m \<noteq> None \<longrightarrow> m < maxInt64"
    and "FilterBlock_Eval C G w (NewBlock (chain n)) = Ret True"
  shows "\<exists>e q bs. marshalBlock C (chain n) = Inr e \<and>
    GetBlockHandler (pebble_storage P C) C (fStorage (frFetcher r)) [AString (show_nat (unat n))] = (VString (base64 e), None) \<and>
    queryResolver_GetBlocks (pebble_storage P C) C G (\<lambda>_. False) (fStorage (frFetcher r)) w order = Some (Ret q) \<and>
    q = answer_of (map NewBlock bs) \<and> chain n \<in> set bs \<and>
    (NewBlock (chain n) \<in> set (qOut q) \<or> length (qOut q) = maxElementsPerQuery \<and> qAdded q = [maxReached])"
  using assms by (rule pebble_fetch.run_served)

theorem indexed_chain_is_served_witness:
  "\<exists>r e. fetch_run_of ref_pebble map_of ref_codec ref_queue ex_client ex_fetcher r \<and>
     GetBlockHandler (pebble_storage ref_pebble ref_codec) ref_codec (fStorage (frFetcher r)) [AString (show_nat (unat (1 :: u64)))] =
       (VString (base64 e), None) \<and>
     (\<exists>q. queryResolver_GetBlocks (pebble_storage ref_pebble ref_codec) ref_codec ex_env (\<lambda>_. False) (fStorage (frFetcher r))
       (height_filter 0) None = Some (Ret q) \<and> (NewBlock (mk_block 1 0 [[7]]) \<in> set (qOut q) \<or> length (qOut q) = 10000))"
proof -
  from ex_complete_run obtain r where r: "fetch_run_of ref_pebble map_of ref_codec ref_queue ex_client ex_fetcher r"
    "frPhase r = Running" "Pebble_GetLatestHeight ref_pebble (fStorage (frFetcher r)) = Inr 1"
    "db_store ref_codec (map_of (fStorage (frFetcher r))) = apply_writes ref_codec empty_store (slotWrites ref_codec ex_slot)"
    "frDone r \<longrightarrow> heedless ex_client" by blast
  have only: "stBlock (apply_writes ref_codec empty_store (slotWrites ref_codec ex_slot)) m \<noteq> None \<longrightarrow> m = 1" for m
    using chunkWrites_block [OF ex_chain_ok, of empty_store 0 "[1]" "[[Some (mk_result 1 0 [7])]]" m]
    by (simp add: slotWrites_def ex_resp_def ex_chain_def empty_store_def)
  then have s: "\<forall>m. stBlock (db_store ref_codec (map_of (fStorage (frFetcher r)))) m \<noteq> None \<longrightarrow> m < maxInt64"
    unfolding r(4)
  proof (intro allI impI)
    fix m assume "stBlock (apply_writes ref_codec empty_store (slotWrites ref_codec ex_slot)) m \<noteq> None"
    with only [of m] have "m = 1" by blast
    then show "m < maxInt64" by simp
  qed
  have b: "sound_bounds fBkHeight (height_filter 0) (Some (([], AtGt), 0), None)"
    by (simp add: sound_bounds_def nonneg_bounds_def height_filter_def gt_filter_def has_lower_def)
  have n: "FilterBlock_no_null (height_filter 0)" by (simp add: FilterBlock_no_null_def ex_filter_defs)
  have a: "FilterBlock_Eval ref_codec ex_env (height_filter 0) (NewBlock (ex_chain 1)) = Ret True"
    by (simp add: height_filter_eval NewBlock_def Block_Height_def ex_chain_def mk_block_def signed_order)
  from indexed_chain_is_served [OF ref_fetch.pebble_fetch_axioms r(1,2,5) ex_honest ex_chain_ok ex_complete_start r(3) _ _
      n height_filter_bounds b s a, of None] r(1)
  show ?thesis by (auto simp: ex_chain_def maxElementsPerQuery_def)
qed

end
